(* ===== verification/Kcp_Prelude.thy ===== *)
theory Kcp_Prelude
  imports Main "HOL-Library.Finite_Map" "HOL-Library.Word" "HOL-Library.List_Lexorder"
    "HOL-Library.Char_ord" "HOL-Library.Sublist"
begin

text \<open>
  Shared ground of the development: the result type of fallible Go code, Go's
  \<open>map[string]string\<close>, the collections of simplification rules the component theories
  extend, and the generic lemmas on lists and maps they use.

  Go strings are byte strings and are modelled by HOL's \<open>string\<close>. A Go map is a finite map;
  \<open>nil\<close> and the empty map are one value, because every read of the modelled code treats
  them alike and every write is preceded by a \<open>make\<close> or a \<open>maps.Clone\<close> of a non-empty map
  (the one place where it matters, the resource lists of a container, has its own store in
  the theory on resources).
\<close>

named_theorems names_defs \<open>definitions of the naming functions of internal/resources\<close>
named_theorems contrib_defs \<open>what each deployment modifier contributes\<close>
named_theorems deploy_defs \<open>definitions that build a deployment\<close>

section \<open>Errors and results\<close>

text \<open>
  \<open>Panic\<close> is a run-time panic. \<open>NotFound\<close> is an API error for which
  \<open>apierrors.IsNotFound\<close> holds, \<open>ApiError\<close> any other error of the API server, \<open>Wrapped m e\<close> is
  \<open>fmt.Errorf("m: %w", e)\<close>, \<open>MountNotFound e\<close> is \<open>fmt.Errorf("%w: %v", ErrMountNotFound, e)\<close>
  and \<open>Aggregate\<close> is \<open>kerrors.NewAggregate\<close> of a non-empty list.
\<close>

datatype go_error =
    Plain string
  | NotFound string
  | ApiError string
  | Wrapped string go_error
  | MountNotFound go_error
  | Aggregate "go_error list"
  | Panic string

type_synonym 'a res = "go_error + 'a"

definition bindE :: "'a res \<Rightarrow> ('a \<Rightarrow> 'b res) \<Rightarrow> 'b res" where
  "bindE r f = (case r of Inl e \<Rightarrow> Inl e | Inr x \<Rightarrow> f x)"

lemma bindE_simps [simp]:
  "bindE (Inl e) f = Inl e"
  "bindE (Inr x) f = f x"
  by (simp_all add: bindE_def)

lemma bindE_eq_Inr: "bindE r f = Inr y \<longleftrightarrow> (\<exists>x. r = Inr x \<and> f x = Inr y)"
  by (cases r) auto

lemma bindE_assoc: "bindE (bindE r f) g = bindE r (\<lambda>x. bindE (f x) g)"
  by (cases r) auto

lemma bindE_Inr_right [simp]: "bindE r Inr = r"
  by (cases r) auto

text \<open>\<open>if err != nil { return fmt.Errorf("msg: %w", err) }\<close>; a panic passes through.\<close>

definition wrap_error :: "string \<Rightarrow> go_error \<Rightarrow> go_error" where
  "wrap_error msg e = (case e of Panic s \<Rightarrow> Panic s | _ \<Rightarrow> Wrapped msg e)"

definition wrapE :: "string \<Rightarrow> 'a res \<Rightarrow> 'a res" where
  "wrapE msg r = (case r of Inl e \<Rightarrow> Inl (wrap_error msg e) | Inr x \<Rightarrow> Inr x)"

lemma wrapE_simps [simp]:
  "wrapE m (Inl e) = Inl (wrap_error m e)" "wrapE m (Inr x) = Inr x"
  by (simp_all add: wrapE_def)

lemma wrapE_eq_Inr [simp]: "wrapE m r = Inr x \<longleftrightarrow> r = Inr x"
  by (cases r) simp_all

fun apierrors_IsNotFound :: "go_error \<Rightarrow> bool" where
  "apierrors_IsNotFound (NotFound _) = True"
| "apierrors_IsNotFound (Wrapped _ e) = apierrors_IsNotFound e"
| "apierrors_IsNotFound _ = False"

fun errors_Is_mount :: "go_error \<Rightarrow> bool" where
  "errors_Is_mount (MountNotFound _) = True"
| "errors_Is_mount (Wrapped _ e) = errors_Is_mount e"
| "errors_Is_mount (Aggregate es) = list_ex errors_Is_mount es"
| "errors_Is_mount _ = False"

text \<open>\<open>kerrors.NewAggregate\<close>: no error for an empty list.\<close>

definition NewAggregate :: "go_error list \<Rightarrow> go_error option" where
  "NewAggregate es = (if es = [] then None else Some (Aggregate es))"

lemma NewAggregate_None [simp]: "NewAggregate es = None \<longleftrightarrow> es = []"
  by (simp add: NewAggregate_def)

section \<open>Go maps with string keys and values\<close>

type_synonym gomap = "(string, string) fmap"

abbreviation mget :: "gomap \<Rightarrow> string \<Rightarrow> string option" where
  "mget m k \<equiv> fmlookup m k"

text \<open>\<open>maps.Copy(dst, src)\<close>: the entries of \<open>src\<close> win.\<close>

definition maps_Copy :: "gomap \<Rightarrow> gomap \<Rightarrow> gomap" where
  "maps_Copy dst src = fmadd dst src"

lemma mget_maps_Copy [simp]:
  "mget (maps_Copy dst src) k = (case mget src k of None \<Rightarrow> mget dst k | Some v \<Rightarrow> Some v)"
  by (auto simp: maps_Copy_def map_add_def fmlookup_dom_iff split: option.splits)

lemma maps_Copy_empty [simp]: "maps_Copy m fmempty = m" "maps_Copy fmempty m = m"
  by (simp_all add: maps_Copy_def)

lemma fmempty_iff_lookup: "m = fmempty \<longleftrightarrow> (\<forall>k. fmlookup m k = None)"
  by (auto intro: fmap_ext)

section \<open>Lists\<close>

lemma list_all_append_map:
  "list_all P (map f xs @ map f ys) \<longleftrightarrow> list_all (\<lambda>x. P (f x)) xs \<and> list_all (\<lambda>x. P (f x)) ys"
  by (auto simp: list_all_iff)

lemma subset_appendI: "set xs \<subseteq> A \<Longrightarrow> set ys \<subseteq> A \<Longrightarrow> set (xs @ ys) \<subseteq> A"
  by simp

text \<open>The middle part of a string with a known head and tail, if it has them.\<close>

definition infix_of :: "string \<Rightarrow> string \<Rightarrow> string \<Rightarrow> string option" where
  "infix_of p s x =
     (if length p + length s \<le> length x \<and> take (length p) x = p \<and> drop (length x - length s) x = s
      then Some (take (length x - length p - length s) (drop (length p) x)) else None)"

lemma infix_of_append [simp]: "infix_of p s (p @ n @ s) = Some n"
  by (simp add: infix_of_def)

lemma distinct_map_append_suffix: "distinct (map (\<lambda>n. n @ s) xs) \<longleftrightarrow> distinct xs"
  by (simp add: distinct_map inj_on_def)

lemma distinct_map_infix: "distinct (map (\<lambda>n. p @ n @ s) xs) \<longleftrightarrow> distinct xs"
  by (simp add: distinct_map inj_on_def)

text \<open>Distinctness of a list assembled from optional parts follows from that of the full list.\<close>

lemma distinct_subseq: "subseq xs ys \<Longrightarrow> distinct ys \<Longrightarrow> distinct xs"
  by (auto simp: subseq_conv_nths)

end
