(* ===== verification/Go_Lib.thy ===== *)
theory Go_Lib
  imports Kcp_Prelude
begin

text \<open>
  The functions of Go's standard library the modelled code calls: decimal formatting
  (\<open>%d\<close>, \<open>strconv.Itoa\<close>), \<open>strconv.Atoi\<close>, \<open>strings.Join\<close>, \<open>net.SplitHostPort\<close>, \<open>%q\<close> on printable
  strings, \<open>time.Duration.String\<close> and \<open>sets.List\<close>, with the facts the components need of them.
\<close>

section \<open>Decimal numbers\<close>

definition digit :: "nat \<Rightarrow> char" where
  "digit n = char_of (48 + n mod 10)"

fun nat_str :: "nat \<Rightarrow> string" where
  "nat_str n = (if n < 10 then [digit n] else nat_str (n div 10) @ [digit n])"

declare nat_str.simps [simp del]

definition Itoa :: "int \<Rightarrow> string" where
  "Itoa i = (if i < 0 then ''-'' @ nat_str (nat (- i)) else nat_str (nat i))"

definition is_digit :: "char \<Rightarrow> bool" where
  "is_digit c \<longleftrightarrow> 48 \<le> (of_char c :: nat) \<and> (of_char c :: nat) \<le> 57"

definition digit_val :: "char \<Rightarrow> nat" where
  "digit_val c = of_char c - 48"

definition nat_of_str :: "string \<Rightarrow> nat" where
  "nat_of_str s = foldl (\<lambda>n c. 10 * n + digit_val c) 0 s"

text \<open>\<open>strconv.Atoi\<close>: an optional sign, at least one digit, digits only, a value in the range
  of the 64-bit \<open>int\<close>; anything else is an error.\<close>

definition Atoi :: "string \<Rightarrow> int option" where
  "Atoi s = (let neg = (s \<noteq> [] \<and> hd s = CHR ''-'');
                 body = (if s \<noteq> [] \<and> (hd s = CHR ''-'' \<or> hd s = CHR ''+'') then tl s else s) in
     if body = [] \<or> \<not> list_all is_digit body then None
     else let v = (if neg then - int (nat_of_str body) else int (nat_of_str body)) in
       if - (2 ^ 63) \<le> v \<and> v < 2 ^ 63 then Some v else None)"

lemma of_char_digit: "(of_char (digit n) :: nat) = 48 + n mod 10"
  by (simp add: digit_def)

lemma is_digit_digit [simp]: "is_digit (digit n)"
  by (simp add: is_digit_def of_char_digit)

lemma digit_val_digit [simp]: "digit_val (digit n) = n mod 10"
  by (simp add: digit_val_def of_char_digit)

lemma nat_str_nonempty [simp]: "nat_str n \<noteq> []"
  by (subst nat_str.simps) simp

lemma nat_str_digits: "list_all is_digit (nat_str n)"
proof (induction n rule: nat_str.induct)
  case (1 n)
  show ?case by (subst nat_str.simps) (use 1 in simp)
qed

lemma nat_of_str_snoc: "nat_of_str (s @ [c]) = 10 * nat_of_str s + digit_val c"
  by (simp add: nat_of_str_def)

lemma nat_of_str_nat_str [simp]: "nat_of_str (nat_str n) = n"
proof (induction n rule: nat_str.induct)
  case (1 n)
  show ?case
  proof (cases "n < 10")
    case True
    then show ?thesis by (subst nat_str.simps) (simp add: nat_of_str_def)
  next
    case False
    then show ?thesis using 1 by (subst nat_str.simps) (simp add: nat_of_str_snoc)
  qed
qed

lemma nat_str_inject [simp]: "nat_str m = nat_str n \<longleftrightarrow> m = n"
  by (metis nat_of_str_nat_str)

lemma hd_nat_str_digit: "is_digit (hd (nat_str n))"
  using nat_str_digits [of n] by (cases "nat_str n") auto

lemma not_digit_signs: "\<not> is_digit (CHR ''-'')" "\<not> is_digit (CHR ''+'')" "\<not> is_digit (CHR '':'')"
  by (simp_all add: is_digit_def)

lemma Atoi_Itoa:
  assumes "- (2 ^ 63) \<le> i" "i < 2 ^ 63"
  shows "Atoi (Itoa i) = Some i"
proof (cases "i < 0")
  case True
  then show ?thesis using assms
    by (simp add: Itoa_def Atoi_def Let_def nat_str_digits)
next
  case False
  have "hd (nat_str (nat i)) \<noteq> CHR ''-''" "hd (nat_str (nat i)) \<noteq> CHR ''+''"
    using hd_nat_str_digit [of "nat i"] not_digit_signs by metis+
  then show ?thesis using False assms
    by (simp add: Itoa_def Atoi_def Let_def nat_str_digits)
qed

section \<open>Strings\<close>

fun strings_Join :: "string list \<Rightarrow> string \<Rightarrow> string" where
  "strings_Join [] sep = []"
| "strings_Join [x] sep = x"
| "strings_Join (x # y # xs) sep = x @ sep @ strings_Join (y # xs) sep"

definition strings_HasPrefix :: "string \<Rightarrow> string \<Rightarrow> bool" where
  "strings_HasPrefix s p \<longleftrightarrow> take (length p) s = p"

text \<open>\<open>%q\<close>: the double-quoted form. Quotes and backslashes are escaped; the other printable
  ASCII characters stand for themselves (control and non-ASCII characters, which Go writes as
  escapes, do not occur in the group names it is used for and are kept as they are).\<close>

definition quote_char :: "char \<Rightarrow> string" where
  "quote_char c = (if c = CHR 0x22 \<or> c = CHR 0x5C then [CHR 0x5C, c] else [c])"

definition fmt_q :: "string \<Rightarrow> string" where
  "fmt_q s = [CHR 0x22] @ concat (map quote_char s) @ [CHR 0x22]"

text \<open>The index of the last colon, as the text after it and the text before it.\<close>

definition split_last_colon :: "string \<Rightarrow> (string \<times> string) option" where
  "split_last_colon s =
     (if CHR '':'' \<notin> set s then None
      else Some (rev (tl (dropWhile (\<lambda>c. c \<noteq> CHR '':'') (rev s))),
                 rev (takeWhile (\<lambda>c. c \<noteq> CHR '':'') (rev s))))"

text \<open>\<open>net.SplitHostPort\<close>: \<open>host:port\<close> or \<open>[host]:port\<close>; \<open>None\<close> is any of its errors (missing
  port, too many colons, a stray or unmatched bracket).\<close>

definition SplitHostPort :: "string \<Rightarrow> (string \<times> string) option" where
  "SplitHostPort hp = (case split_last_colon hp of
       None \<Rightarrow> None
     | Some (before, port) \<Rightarrow>
         if hp \<noteq> [] \<and> hd hp = CHR ''['' then
           (if before \<noteq> [] \<and> CHR '']'' \<in> set hp
               \<and> takeWhile (\<lambda>c. c \<noteq> CHR '']'') hp @ '']'' = before
               \<and> CHR ''['' \<notin> set (tl before) \<and> CHR ''['' \<notin> set port \<and> CHR '']'' \<notin> set port
            then Some (butlast (tl before), port) else None)
         else if CHR '':'' \<in> set before \<or> CHR ''['' \<in> set hp \<or> CHR '']'' \<in> set hp then None
         else Some (before, port))"

lemma split_last_colon_append:
  assumes "CHR '':'' \<notin> set p"
  shows "split_last_colon (h @ '':'' @ p) = Some (h, p)"
proof -
  have all: "x \<noteq> CHR '':''" if "x \<in> set (rev p)" for x
    using assms that by auto
  have r: "rev (h @ '':'' @ p) = rev p @ (CHR '':'' # rev h)" by simp
  have "dropWhile (\<lambda>c. c \<noteq> CHR '':'') (rev p @ (CHR '':'' # rev h)) = CHR '':'' # rev h"
    by (subst dropWhile_append2) (use all in simp_all)
  moreover have "takeWhile (\<lambda>c. c \<noteq> CHR '':'') (rev p @ (CHR '':'' # rev h)) = rev p"
    by (subst takeWhile_append2) (use all in simp_all)
  ultimately show ?thesis unfolding split_last_colon_def r by simp
qed

lemma SplitHostPort_plain:
  assumes "CHR '':'' \<notin> set h" "CHR '':'' \<notin> set p"
    and "CHR ''['' \<notin> set (h @ p)" "CHR '']'' \<notin> set (h @ p)"
  shows "SplitHostPort (h @ '':'' @ p) = Some (h, p)"
proof -
  have "hd (h @ '':'' @ p) \<noteq> CHR ''[''" using assms by (cases h) auto
  then show ?thesis using assms split_last_colon_append [OF assms(2), of h]
    by (simp add: SplitHostPort_def)
qed

lemma colon_not_in_Itoa: "0 \<le> i \<Longrightarrow> CHR '':'' \<notin> set (Itoa i)"
  using nat_str_digits [of "nat i"] not_digit_signs(3)
  by (auto simp: Itoa_def list_all_iff)

section \<open>Durations\<close>

text \<open>\<open>time.Duration\<close> is a 64-bit count of nanoseconds. \<open>String\<close> writes a value below one second
  in ns, \<open>\<mu>\<close>s or ms with trailing zeros of the fraction dropped, and a larger one as
  \<open>1h2m3.5s\<close>. \<open>frac\<close> writes the fraction \<open>v / 10 ^ p\<close> without trailing zeros.\<close>

fun frac_digits :: "nat \<Rightarrow> nat \<Rightarrow> string" where
  "frac_digits 0 v = []"
| "frac_digits (Suc p) v = (let rest = frac_digits p (v mod 10 ^ p); d = v div 10 ^ p in
     if rest = [] \<and> d = 0 then [] else digit d # rest)"

definition frac :: "nat \<Rightarrow> nat \<Rightarrow> string" where
  "frac p v = (let ds = frac_digits p v in if ds = [] then [] else ''.'' @ ds)"

definition udur_str :: "nat \<Rightarrow> string" where
  "udur_str u = (if u = 0 then ''0s''
     else if u < 1000 then nat_str u @ ''ns''
     else if u < 1000000 then nat_str (u div 1000) @ frac 3 (u mod 1000) @ [CHR 0xC2, CHR 0xB5] @ ''s''
     else if u < 1000000000 then nat_str (u div 1000000) @ frac 6 (u mod 1000000) @ ''ms''
     else let s = u div 1000000000; m = s div 60; h = m div 60;
              sec = nat_str (s mod 60) @ frac 9 (u mod 1000000000) @ ''s'' in
       if m = 0 then sec
       else if h = 0 then nat_str (m mod 60) @ ''m'' @ sec
       else nat_str h @ ''h'' @ nat_str (m mod 60) @ ''m'' @ sec)"

definition Duration_String :: "int \<Rightarrow> string" where
  "Duration_String d = (if d < 0 then ''-'' @ udur_str (nat (- d)) else udur_str (nat d))"

section \<open>String sets\<close>

text \<open>\<open>sets.List(sets.New(a...).Insert(b...))\<close>: the elements of both lists, sorted, once each.\<close>

definition sets_List :: "string list \<Rightarrow> string list \<Rightarrow> string list" where
  "sets_List a b = sort (remdups (a @ b))"

lemma set_sets_List [simp]: "set (sets_List a b) = set a \<union> set b"
  by (simp add: sets_List_def)

lemma distinct_sets_List [simp]: "distinct (sets_List a b)"
  by (simp add: sets_List_def)

lemma sorted_sets_List [simp]: "sorted (sets_List a b)"
  by (simp add: sets_List_def)

text \<open>The result depends on the two lists as sets only.\<close>

lemma sets_List_eqI: "set a \<union> set b = set c \<union> set d \<Longrightarrow> sets_List a b = sets_List c d"
  by (rule sorted_distinct_set_unique) simp_all

lemma sets_List_absorb [simp]: "sets_List (sets_List a b) b = sets_List a b"
  by (rule sets_List_eqI) auto

end
