(* ===== verification/K8s_Types.thy ===== *)
theory K8s_Types
  imports Go_Lib
begin

text \<open>
  The API structs of Kubernetes and cert-manager the operator reads and writes, as records with
  the fields the modelled code touches; a field the code only copies from one place to another
  without looking inside (affinity, tolerations, ...) holds its JSON value. A pointer is an
  option, an \<open>int32\<close> a \<open>32 word\<close>, a \<open>[]byte\<close> a string. The \<open>_zero\<close> definitions are Go's zero
  values.

  A Go map is a reference, and the resource lists of a container are shared between objects, so
  \<open>ct_Resources\<close> holds addresses into a store (the theory on resources), never values.
\<close>

datatype json = JNull | JBool bool | JNum int | JStr string | JArr "json list"
  | JObj "(string \<times> json) list"

section \<open>Metadata\<close>

record LocalObjectReference =
  lor_Name :: string

record OwnerReference =
  or_Kind :: string
  or_Name :: string
  or_UID :: string
  or_Controller :: bool

record ObjectMeta =
  om_Name :: string
  om_Namespace :: string
  om_UID :: string
  om_ResourceVersion :: string
  om_Generation :: int
  om_DeletionTimestamp :: "int option"
  om_Labels :: gomap
  om_Annotations :: gomap
  om_OwnerReferences :: "OwnerReference list"
  om_Finalizers :: "string list"

definition ObjectMeta_zero :: ObjectMeta where
  "ObjectMeta_zero = \<lparr>om_Name = [], om_Namespace = [], om_UID = [], om_ResourceVersion = [],
     om_Generation = 0, om_DeletionTimestamp = None, om_Labels = fmempty, om_Annotations = fmempty,
     om_OwnerReferences = [], om_Finalizers = []\<rparr>"

datatype ConditionStatus = ConditionTrue | ConditionFalse | ConditionUnknown

record Condition =
  cond_Type :: string
  cond_Status :: ConditionStatus
  cond_ObservedGeneration :: int
  cond_LastTransitionTime :: int
  cond_Reason :: string
  cond_Message :: string

section \<open>Pods\<close>

type_synonym ResourceList = gomap

record ResourceRequirements =
  rr_Limits :: ResourceList
  rr_Requests :: ResourceList

record ContainerResources =
  cr_Limits :: "nat option"
  cr_Requests :: "nat option"

record VolumeMount =
  vm_Name :: string
  vm_ReadOnly :: bool
  vm_MountPath :: string

record Volume =
  vol_Name :: string
  vol_Secret :: "string option"
  vol_ConfigMap :: "string option"
  vol_EmptyDir :: bool
  vol_Other :: json

record ObjectKeyRef =
  kr_Name :: string
  kr_Optional :: "bool option"

text \<open>An \<open>EnvVar\<close> (or \<open>EnvFromSource\<close>), as the references it holds.\<close>

record EnvSource =
  env_ConfigMap :: "ObjectKeyRef option"
  env_Secret :: "ObjectKeyRef option"

record ContainerPort =
  cp_Name :: string
  cp_ContainerPort :: "32 word"
  cp_Protocol :: string

record Probe =
  pr_FailureThreshold :: "32 word"
  pr_InitialDelaySeconds :: "32 word"
  pr_PeriodSeconds :: "32 word"
  pr_SuccessThreshold :: "32 word"
  pr_TimeoutSeconds :: "32 word"
  pr_Path :: string
  pr_Port :: string
  pr_Scheme :: string

record SecurityContext =
  sc_SeccompType :: string
  sc_ReadOnlyRootFilesystem :: bool
  sc_AllowPrivilegeEscalation :: bool
  sc_DropCapabilities :: "string list"

record Container =
  ct_Name :: string
  ct_Image :: string
  ct_Command :: "string list"
  ct_Args :: "string list"
  ct_Ports :: "ContainerPort list"
  ct_Env :: "EnvSource list"
  ct_EnvFrom :: "EnvSource list"
  ct_Resources :: ContainerResources
  ct_VolumeMounts :: "VolumeMount list"
  ct_LivenessProbe :: "Probe option"
  ct_ReadinessProbe :: "Probe option"
  ct_StartupProbe :: "Probe option"
  ct_SecurityContext :: "SecurityContext option"

definition Container_zero :: Container where
  "Container_zero = \<lparr>ct_Name = [], ct_Image = [], ct_Command = [], ct_Args = [], ct_Ports = [],
     ct_Env = [], ct_EnvFrom = [], ct_Resources = \<lparr>cr_Limits = None, cr_Requests = None\<rparr>,
     ct_VolumeMounts = [], ct_LivenessProbe = None, ct_ReadinessProbe = None,
     ct_StartupProbe = None, ct_SecurityContext = None\<rparr>"

record PodSpec =
  ps_InitContainers :: "Container list"
  ps_Containers :: "Container list"
  ps_Volumes :: "Volume list"
  ps_ImagePullSecrets :: "LocalObjectReference list"
  ps_NodeSelector :: gomap
  ps_Affinity :: json
  ps_Tolerations :: "json list"
  ps_HostAliases :: "json list"
  ps_TopologySpreadConstraints :: "json list"

record PodTemplate =
  pt_Labels :: gomap
  pt_Annotations :: gomap
  pt_Spec :: PodSpec

record DeploymentSpec =
  ds_Replicas :: "32 word option"
  ds_Selector :: "gomap option"
  ds_Template :: PodTemplate

record DeploymentStatus =
  dst_UpdatedReplicas :: "32 word"
  dst_ReadyReplicas :: "32 word"

record Deployment =
  dep_Meta :: ObjectMeta
  dep_Spec :: DeploymentSpec
  dep_Status :: DeploymentStatus

definition PodSpec_zero :: PodSpec where
  "PodSpec_zero = \<lparr>ps_InitContainers = [], ps_Containers = [], ps_Volumes = [],
     ps_ImagePullSecrets = [], ps_NodeSelector = fmempty, ps_Affinity = JNull, ps_Tolerations = [],
     ps_HostAliases = [], ps_TopologySpreadConstraints = []\<rparr>"

definition Deployment_zero :: Deployment where
  "Deployment_zero = \<lparr>dep_Meta = ObjectMeta_zero,
     dep_Spec = \<lparr>ds_Replicas = None, ds_Selector = None,
       ds_Template = \<lparr>pt_Labels = fmempty, pt_Annotations = fmempty, pt_Spec = PodSpec_zero\<rparr>\<rparr>,
     dep_Status = \<lparr>dst_UpdatedReplicas = 0, dst_ReadyReplicas = 0\<rparr>\<rparr>"

section \<open>Services, secrets and config maps\<close>

datatype IntOrString = FromInt32 "32 word" | FromString string

record ServicePort =
  sp_Name :: string
  sp_Protocol :: string
  sp_AppProtocol :: "string option"
  sp_Port :: "32 word"
  sp_TargetPort :: IntOrString
  sp_NodePort :: "32 word"

definition ServicePort_zero :: ServicePort where
  "ServicePort_zero = \<lparr>sp_Name = [], sp_Protocol = [], sp_AppProtocol = None, sp_Port = 0,
     sp_TargetPort = FromInt32 0, sp_NodePort = 0\<rparr>"

record Service =
  svc_Meta :: ObjectMeta
  svc_Type :: string
  svc_ClusterIP :: string
  svc_Ports :: "ServicePort list"
  svc_Selector :: gomap

record Secret =
  sec_Meta :: ObjectMeta
  sec_Data :: gomap

record ConfigMap =
  cm_Meta :: ObjectMeta
  cm_Data :: gomap

section \<open>cert-manager\<close>

record IssuerReference =
  ir_Name :: string
  ir_Kind :: string
  ir_Group :: string

record CertificateSecretTemplateC =
  cst_Annotations :: gomap
  cst_Labels :: gomap

record CertificatePrivateKey =
  pk_RotationPolicy :: string
  pk_Encoding :: string
  pk_Algorithm :: string
  pk_Size :: int

definition CertificatePrivateKey_zero :: CertificatePrivateKey where
  "CertificatePrivateKey_zero =
     \<lparr>pk_RotationPolicy = [], pk_Encoding = [], pk_Algorithm = [], pk_Size = 0\<rparr>"

record X509Subject =
  x_Organizations :: "string list"
  x_Countries :: "string list"
  x_OrganizationalUnits :: "string list"
  x_Localities :: "string list"
  x_Provinces :: "string list"
  x_StreetAddresses :: "string list"
  x_PostalCodes :: "string list"
  x_SerialNumber :: string

definition X509Subject_zero :: X509Subject where
  "X509Subject_zero = \<lparr>x_Organizations = [], x_Countries = [], x_OrganizationalUnits = [],
     x_Localities = [], x_Provinces = [], x_StreetAddresses = [], x_PostalCodes = [],
     x_SerialNumber = []\<rparr>"

datatype KeyUsage = UsageServerAuth | UsageClientAuth | UsageDigitalSignature
  | UsageKeyEncipherment | UsageCertSign

record CertificateSpec =
  ce_IsCA :: bool
  ce_CommonName :: string
  ce_SecretName :: string
  ce_SecretTemplate :: "CertificateSecretTemplateC option"
  ce_Duration :: "int option"
  ce_RenewBefore :: "int option"
  ce_Usages :: "KeyUsage list"
  ce_DNSNames :: "string list"
  ce_IPAddresses :: "string list"
  ce_PrivateKey :: "CertificatePrivateKey option"
  ce_Subject :: "X509Subject option"
  ce_IssuerRef :: IssuerReference

record CertManagerCertificate =
  cc_Meta :: ObjectMeta
  cc_Spec :: CertificateSpec
  cc_Conditions :: "(string \<times> ConditionStatus) list"
  cc_Revision :: "int option"

definition CertificateSpec_zero :: CertificateSpec where
  "CertificateSpec_zero = \<lparr>ce_IsCA = False, ce_CommonName = [], ce_SecretName = [],
     ce_SecretTemplate = None, ce_Duration = None, ce_RenewBefore = None, ce_Usages = [],
     ce_DNSNames = [], ce_IPAddresses = [], ce_PrivateKey = None, ce_Subject = None,
     ce_IssuerRef = \<lparr>ir_Name = [], ir_Kind = [], ir_Group = []\<rparr>\<rparr>"

record Issuer =
  is_Meta :: ObjectMeta
  is_CASecretName :: "string option"

section \<open>Cluster role bindings\<close>

record RBACSubject =
  su_APIGroup :: string
  su_Kind :: string
  su_Name :: string

record ClusterRoleBinding =
  crb_Meta :: ObjectMeta
  crb_Subjects :: "RBACSubject list"
  crb_RoleRefAPIGroup :: string
  crb_RoleRefKind :: string
  crb_RoleRefName :: string

end
