(* ===== verification/Operator_Types.thy ===== *)
theory Operator_Types
  imports K8s_Types
begin

text \<open>
  The API types of \<open>sdk/apis/operator/v1alpha1\<close> and \<open>sdk/apis/deploy/v1alpha1\<close>: the custom
  resources users write (\<open>RootShard\<close>, \<open>Shard\<close>, \<open>FrontProxy\<close>, \<open>CacheServer\<close>, \<open>VirtualWorkspace\<close>,
  \<open>Kubeconfig\<close>) and the compiled objects the controllers derive from them. Each Go struct is a
  record with the source's field names behind a prefix of the struct; the embedded
  \<open>CommonShardSpec\<close> is record extension, so that a function on it applies to both kinds of
  shard spec. A \<open>metav1.Duration\<close> is its count of nanoseconds.
\<close>

section \<open>Certificates and certificate authorities\<close>

datatype Certificate = ServerCertificate | ClientCertificate | ServiceAccountCertificate
  | VirtualWorkspacesCertificate | RequestHeaderClientCertificate | MountsProxyClientCertificate
  | KubeconfigCertificate | AdminKubeconfigClientCertificate | LogicalClusterAdminCertificate
  | ExternalLogicalClusterAdminCertificate | OperatorCertificate

fun cert_str :: "Certificate \<Rightarrow> string" where
  "cert_str ServerCertificate = ''server''"
| "cert_str ClientCertificate = ''client''"
| "cert_str ServiceAccountCertificate = ''service-account''"
| "cert_str VirtualWorkspacesCertificate = ''virtual-workspaces''"
| "cert_str RequestHeaderClientCertificate = ''requestheader''"
| "cert_str MountsProxyClientCertificate = ''mounts-proxy''"
| "cert_str KubeconfigCertificate = ''kubeconfig''"
| "cert_str AdminKubeconfigClientCertificate = ''admin-kubeconfig''"
| "cert_str LogicalClusterAdminCertificate = ''logical-cluster-admin''"
| "cert_str ExternalLogicalClusterAdminCertificate = ''external-logical-cluster-admin''"
| "cert_str OperatorCertificate = ''kcp-operator''"

datatype CA = RootCA | ServerCA | ServiceAccountCA | ClientCA | RequestHeaderClientCA
  | FrontProxyClientCA | CABundleCA

fun ca_str :: "CA \<Rightarrow> string" where
  "ca_str RootCA = ''root''"
| "ca_str ServerCA = ''server''"
| "ca_str ServiceAccountCA = ''service-account''"
| "ca_str ClientCA = ''client''"
| "ca_str RequestHeaderClientCA = ''requestheader-client''"
| "ca_str FrontProxyClientCA = ''front-proxy-client''"
| "ca_str CABundleCA = ''ca-bundle''"

lemma cert_str_inject [simp]: "cert_str a = cert_str b \<longleftrightarrow> a = b"
  by (cases a; cases b) simp_all

lemma ca_str_inject [simp]: "ca_str a = ca_str b \<longleftrightarrow> a = b"
  by (cases a; cases b) simp_all

text \<open>Durations in nanoseconds.\<close>

definition hour_ns :: int where "hour_ns = 3600000000000"

definition DefaultCADuration :: int where "DefaultCADuration = hour_ns * 24 * 365 * 10"
definition DefaultCARenewal :: int where "DefaultCARenewal = hour_ns * 24 * 30"
definition DefaultCertificateDuration :: int where
  "DefaultCertificateDuration = hour_ns * 24 * 365"
definition DefaultCertificateRenewal :: int where
  "DefaultCertificateRenewal = hour_ns * 24 * 7"

record ImageSpec =
  img_Repository :: string
  img_Tag :: string
  img_ImagePullSecrets :: "LocalObjectReference list"

record RootShardConfig =
  rsc_Reference :: "LocalObjectReference option"

record EtcdTLSConfig =
  tls_SecretRef :: LocalObjectReference

record EtcdConfig =
  etcd_Endpoints :: "string list"
  etcd_TLSConfig :: "EtcdTLSConfig option"
  etcd_Prefix :: string

record ObjectReference =
  oref_Name :: string
  oref_Kind :: string
  oref_Group :: string

record LocalDataKeyReference =
  ldk_Name :: string
  ldk_Key :: string

section \<open>Templates\<close>

record CertificateMetadataTemplate =
  cmt_Annotations :: gomap
  cmt_Labels :: gomap

record CertificatePrivateKeyTemplate =
  pkt_RotationPolicy :: string
  pkt_Encoding :: string
  pkt_Algorithm :: string
  pkt_Size :: int

record CertificateSecretTemplate =
  ctsec_Annotations :: gomap
  ctsec_Labels :: gomap

record X509SubjectTemplate =
  xt_Organizations :: "string list"
  xt_Countries :: "string list"
  xt_OrganizationalUnits :: "string list"
  xt_Localities :: "string list"
  xt_Provinces :: "string list"
  xt_StreetAddresses :: "string list"
  xt_PostalCodes :: "string list"
  xt_SerialNumber :: string

record CertificateSpecTemplate =
  cts_Subject :: "X509SubjectTemplate option"
  cts_IssuerRef :: "ObjectReference option"
  cts_DNSNames :: "string list"
  cts_IPAddresses :: "string list"
  cts_SecretTemplate :: "CertificateSecretTemplate option"
  cts_Duration :: "int option"
  cts_RenewBefore :: "int option"
  cts_PrivateKey :: "CertificatePrivateKeyTemplate option"

record CertificateTemplate =
  ctpl_Metadata :: "CertificateMetadataTemplate option"
  ctpl_Spec :: "CertificateSpecTemplate option"

type_synonym CertificateTemplateMap = "(string, CertificateTemplate) fmap"

text \<open>A missing key reads as the zero template, which has neither metadata nor a spec.\<close>

definition CertificateTemplate_of :: "CertificateTemplateMap \<Rightarrow> Certificate \<Rightarrow> CertificateTemplate"
  where
  "CertificateTemplate_of m cert = (case fmlookup m (cert_str cert) of
     None \<Rightarrow> \<lparr>ctpl_Metadata = None, ctpl_Spec = None\<rparr> | Some t \<Rightarrow> t)"

definition CATemplate_of :: "CertificateTemplateMap \<Rightarrow> CA \<Rightarrow> CertificateTemplate" where
  "CATemplate_of m ca = (case fmlookup m (ca_str ca @ ''-ca'') of
     None \<Rightarrow> \<lparr>ctpl_Metadata = None, ctpl_Spec = None\<rparr> | Some t \<Rightarrow> t)"

record ServiceMetadataTemplate =
  smt_Annotations :: gomap
  smt_Labels :: gomap

record ServiceSpecTemplate =
  sst_Type :: string
  sst_ClusterIP :: string

record ServiceTemplate =
  stpl_Metadata :: "ServiceMetadataTemplate option"
  stpl_Spec :: "ServiceSpecTemplate option"

record PodMetadataTemplate =
  pmt_Annotations :: gomap
  pmt_Labels :: gomap

record PodSpecTemplate =
  pst_NodeSelector :: gomap
  pst_Affinity :: json
  pst_Tolerations :: "json list"
  pst_HostAliases :: "json list"
  pst_ImagePullSecrets :: "LocalObjectReference list"
  pst_TopologySpreadConstraints :: "json list"

record PodTemplateSpec =
  ptt_Metadata :: "PodMetadataTemplate option"
  ptt_Spec :: "PodSpecTemplate option"

record DeploymentMetadataTemplate =
  dmt_Annotations :: gomap
  dmt_Labels :: gomap

record DeploymentSpecTemplate =
  dtst_Template :: "PodTemplateSpec option"

record DeploymentTemplate =
  dtpl_Metadata :: "DeploymentMetadataTemplate option"
  dtpl_Spec :: "DeploymentSpecTemplate option"

record LoggingSpec =
  log_Level :: int

section \<open>Authentication, authorization and audit\<close>

record OIDCCAFileRef =
  ocf_Name :: string
  ocf_Key :: string

record OIDCConfiguration =
  oidc_IssuerURL :: string
  oidc_ClientID :: string
  oidc_ClientSecret :: string
  oidc_GroupsClaim :: string
  oidc_UsernameClaim :: string
  oidc_GroupsPrefix :: string
  oidc_UsernamePrefix :: string
  oidc_CAFileRef :: "OIDCCAFileRef option"

record TokenAuthFileSpec =
  taf_SecretName :: string
  taf_Key :: string

record AuthenticationWebhookSpec =
  anw_CacheAuthenticationTTL :: "int option"
  anw_ConfigSecretName :: string
  anw_Version :: string

record ServiceAccountAuthentication =
  saa_Enabled :: bool

record AuthSpec =
  auth_OIDC :: "OIDCConfiguration option"
  auth_Webhook :: "AuthenticationWebhookSpec option"
  auth_TokenAuthFile :: "TokenAuthFileSpec option"
  auth_ServiceAccount :: "ServiceAccountAuthentication option"
  auth_DropGroups :: "string list option"
  auth_PassOnGroups :: "string list option"

record AuditPolicySpec =
  ap_ConfigMap :: "LocalDataKeyReference option"

record AuditWebhookSpec =
  aw_BatchBufferSize :: int
  aw_BatchMaxSize :: int
  aw_BatchMaxWait :: "int option"
  aw_BatchThrottleBurst :: int
  aw_BatchThrottleEnable :: bool
  aw_BatchThrottleQPS :: string
  aw_ConfigSecretName :: string
  aw_InitialBackoff :: "int option"
  aw_Mode :: string
  aw_TruncateEnabled :: bool
  aw_TruncateMaxBatchSize :: int
  aw_TruncateMaxEventSize :: int
  aw_Version :: string

record AuditSpec =
  audit_Webhook :: "AuditWebhookSpec option"
  audit_Policy :: "AuditPolicySpec option"

record AuthorizationWebhookSpec =
  azw_AllowPaths :: "string list option"
  azw_CacheAuthorizedTTL :: "int option"
  azw_CacheUnauthorizedTTL :: "int option"
  azw_ConfigSecretName :: string
  azw_Version :: string

record AuthorizationSpec =
  az_AllowPaths :: "string list option"
  az_Order :: "string list option"
  az_Webhook :: "AuthorizationWebhookSpec option"

section \<open>Shards\<close>

record CommonShardSpec =
  cs_ClusterDomain :: string
  cs_ShardBaseURL :: string
  cs_Etcd :: EtcdConfig
  cs_Image :: "ImageSpec option"
  cs_Replicas :: "32 word option"
  cs_Resources :: "ResourceRequirements option"
  cs_Audit :: "AuditSpec option"
  cs_Authorization :: "AuthorizationSpec option"
  cs_Auth :: "AuthSpec option"
  cs_KCPVirtualWorkspace :: "LocalObjectReference option"
  cs_CertificateTemplates :: CertificateTemplateMap
  cs_ServiceTemplate :: "ServiceTemplate option"
  cs_DeploymentTemplate :: "DeploymentTemplate option"
  cs_CABundleSecretRef :: "LocalObjectReference option"
  cs_ClientCABundleRef :: "LocalObjectReference option"
  cs_ExtraArgs :: "string list"
  cs_ExtraVolumes :: "Volume list"
  cs_ExtraVolumeMounts :: "VolumeMount list"
  cs_Logging :: "LoggingSpec option"

record ExternalConfig =
  ext_Hostname :: string
  ext_Port :: "32 word"
  ext_PrivateHostname :: string
  ext_PrivatePort :: "32 word option"

record Certificates =
  crt_IssuerRef :: "ObjectReference option"
  crt_CASecretRef :: "LocalObjectReference option"

record EmbeddedCacheConfiguration =
  emb_Enabled :: bool

record RootShardCacheConfig =
  rcc_Embedded :: "EmbeddedCacheConfiguration option"
  rcc_Reference :: "LocalObjectReference option"

record RootShardProxySpec =
  rp_Image :: "ImageSpec option"
  rp_Replicas :: "32 word option"
  rp_Resources :: "ResourceRequirements option"
  rp_ServiceTemplate :: "ServiceTemplate option"
  rp_DeploymentTemplate :: "DeploymentTemplate option"
  rp_CertificateTemplates :: CertificateTemplateMap
  rp_ExtraArgs :: "string list"
  rp_ExtraVolumes :: "Volume list"
  rp_ExtraVolumeMounts :: "VolumeMount list"
  rp_Logging :: "LoggingSpec option"

record RootShardSpec = CommonShardSpec +
  rs_External :: ExternalConfig
  rs_Cache :: RootShardCacheConfig
  rs_Proxy :: "RootShardProxySpec option"
  rs_Certificates :: Certificates

record ShardCacheConfig =
  scc_Reference :: "LocalObjectReference option"

record ShardSpec = CommonShardSpec +
  ss_RootShard :: RootShardConfig
  ss_Cache :: "ShardCacheConfig option"

datatype Phase = PhaseUnset | Provisioning | Running | Deleting

record RootShardStatus =
  rst_Phase :: Phase
  rst_Conditions :: "Condition list"
  rst_Shards :: "string list"

record RootShard =
  rsh_Meta :: ObjectMeta
  rsh_Spec :: RootShardSpec
  rsh_Status :: RootShardStatus

record ShardStatus =
  shst_Phase :: Phase
  shst_Conditions :: "Condition list"

record Shard =
  sh_Meta :: ObjectMeta
  sh_Spec :: ShardSpec
  sh_Status :: ShardStatus

section \<open>Front proxies\<close>

record PathMappingEntry =
  pm_Path :: string
  pm_Backend :: string
  pm_BackendServerCA :: string
  pm_ProxyClientCert :: string
  pm_ProxyClientKey :: string

record FrontProxySpec =
  fp_RootShard :: RootShardConfig
  fp_Replicas :: "32 word option"
  fp_Resources :: "ResourceRequirements option"
  fp_Auth :: "AuthSpec option"
  fp_AdditionalPathMappings :: "PathMappingEntry list"
  fp_Image :: "ImageSpec option"
  fp_ExternalHostname :: string
  fp_External :: ExternalConfig
  fp_ServiceTemplate :: "ServiceTemplate option"
  fp_DeploymentTemplate :: "DeploymentTemplate option"
  fp_CertificateTemplates :: CertificateTemplateMap
  fp_CABundleSecretRef :: "LocalObjectReference option"
  fp_ClientCABundleRef :: "LocalObjectReference option"
  fp_ExtraArgs :: "string list"
  fp_ExtraVolumes :: "Volume list"
  fp_ExtraVolumeMounts :: "VolumeMount list"
  fp_Logging :: "LoggingSpec option"

record FrontProxyStatus =
  fst_Phase :: Phase
  fst_Conditions :: "Condition list"

record FrontProxy =
  fpx_Meta :: ObjectMeta
  fpx_Spec :: FrontProxySpec
  fpx_Status :: FrontProxyStatus

section \<open>Cache servers\<close>

record CacheServerSpec =
  ca_ClusterDomain :: string
  ca_Image :: "ImageSpec option"
  ca_Replicas :: "32 word option"
  ca_Logging :: "LoggingSpec option"
  ca_Certificates :: Certificates
  ca_CertificateTemplates :: CertificateTemplateMap
  ca_ServiceTemplate :: "ServiceTemplate option"
  ca_DeploymentTemplate :: "DeploymentTemplate option"
  ca_Etcd :: "EtcdConfig option"
  ca_ExtraArgs :: "string list"
  ca_ExtraVolumes :: "Volume list"
  ca_ExtraVolumeMounts :: "VolumeMount list"

record CacheServer =
  cas_Meta :: ObjectMeta
  cas_Spec :: CacheServerSpec

section \<open>Virtual workspaces\<close>

record VirtualWorkspaceInitContainer =
  vi_Name :: string
  vi_Image :: "ImageSpec option"
  vi_Command :: "string list"
  vi_Args :: "string list"
  vi_KubeconfigSecretRef :: "LocalObjectReference option"
  vi_Resources :: "ResourceRequirements option"
  vi_Volumes :: "Volume list"
  vi_VolumeMounts :: "VolumeMount list"

record VirtualWorkspaceTarget =
  vt_RootShardRef :: "LocalObjectReference option"
  vt_ShardRef :: "LocalObjectReference option"

record VirtualWorkspaceSpec =
  vw_Target :: VirtualWorkspaceTarget
  vw_External :: ExternalConfig
  vw_Image :: "ImageSpec option"
  vw_Command :: "string list"
  vw_InitContainers :: "VirtualWorkspaceInitContainer list"
  vw_Replicas :: "32 word option"
  vw_Resources :: "ResourceRequirements option"
  vw_CertificateTemplates :: CertificateTemplateMap
  vw_ServiceTemplate :: "ServiceTemplate option"
  vw_DeploymentTemplate :: "DeploymentTemplate option"
  vw_CABundleSecretRef :: "LocalObjectReference option"
  vw_ClientCABundleRef :: "LocalObjectReference option"
  vw_KubeconfigSecretRef :: "LocalObjectReference option"
  vw_ExtraArgs :: "string list"
  vw_ExtraVolumes :: "Volume list"
  vw_ExtraVolumeMounts :: "VolumeMount list"
  vw_Logging :: "LoggingSpec option"
  vw_ClusterDomain :: string

record VirtualWorkspace =
  vwo_Meta :: ObjectMeta
  vwo_Spec :: VirtualWorkspaceSpec
  vwo_Conditions :: "Condition list"

section \<open>Kubeconfigs\<close>

record KubeconfigTarget =
  kt_RootShardRef :: "LocalObjectReference option"
  kt_ShardRef :: "LocalObjectReference option"
  kt_FrontProxyRef :: "LocalObjectReference option"

record KubeconfigClusterRoleBindings =
  kcrb_Cluster :: string
  kcrb_ClusterRoles :: "string list"

record KubeconfigAuthorization =
  ka_ClusterRoleBindings :: KubeconfigClusterRoleBindings

record KubeconfigSpec =
  ks_Target :: KubeconfigTarget
  ks_TargetWorkspace :: string
  ks_Username :: string
  ks_Groups :: "string list"
  ks_Validity :: int
  ks_SecretRef :: LocalObjectReference
  ks_CertificateTemplate :: "CertificateTemplate option"
  ks_Authorization :: "KubeconfigAuthorization option"

datatype KubeconfigPhase = KubeconfigPhaseUnset | KubeconfigPhaseProvisioning
  | KubeconfigPhaseReady | KubeconfigPhaseFailed

record KubeconfigAuthorizationStatus =
  kas_ProvisionedCluster :: string

record KubeconfigStatus =
  kst_Phase :: KubeconfigPhase
  kst_TargetName :: string
  kst_Authorization :: "KubeconfigAuthorizationStatus option"
  kst_Conditions :: "Condition list"

record Kubeconfig =
  kc_Meta :: ObjectMeta
  kc_Spec :: KubeconfigSpec
  kc_Status :: KubeconfigStatus

definition Kubeconfig_GetCertificateName :: "Kubeconfig \<Rightarrow> string" where
  "Kubeconfig_GetCertificateName k = ''kubeconfig-cert-'' @ om_Name (kc_Meta k)"

definition GetTargetWorkspace :: "Kubeconfig \<Rightarrow> string" where
  "GetTargetWorkspace k =
     (if ks_TargetWorkspace (kc_Spec k) \<noteq> [] then ks_TargetWorkspace (kc_Spec k) else ''root'')"

definition GetRBACTargetWorkspace :: "Kubeconfig \<Rightarrow> string" where
  "GetRBACTargetWorkspace k =
     (if ks_TargetWorkspace (kc_Spec k) \<noteq> [] then ks_TargetWorkspace (kc_Spec k)
      else case ks_Authorization (kc_Spec k) of
          Some auth \<Rightarrow> if kcrb_Cluster (ka_ClusterRoleBindings auth) \<noteq> []
            then kcrb_Cluster (ka_ClusterRoleBindings auth) else ''root''
        | None \<Rightarrow> ''root'')"

section \<open>Compiled objects\<close>

record NamedRootShardSpec =
  nrs_Name :: string
  nrs_Spec :: RootShardSpec

record NamedShardSpec =
  ns_Name :: string
  ns_Spec :: ShardSpec

record NamedVirtualWorkspaceSpec =
  nvw_Name :: string
  nvw_Spec :: VirtualWorkspaceSpec

record CompiledRootShardSpec =
  crs_RootShard :: RootShardSpec
  crs_VirtualWorkspace :: "NamedVirtualWorkspaceSpec option"
  crs_Shards :: "string list"

record CompiledRootShard =
  crsh_Meta :: ObjectMeta
  crsh_Spec :: CompiledRootShardSpec
  crsh_Status :: RootShardStatus

record CompiledShardSpec =
  csh_Shard :: ShardSpec
  csh_RootShard :: NamedRootShardSpec
  csh_VirtualWorkspace :: "NamedVirtualWorkspaceSpec option"
  csh_Shards :: "string list"

record CompiledShard =
  cso_Meta :: ObjectMeta
  cso_Spec :: CompiledShardSpec
  cso_Status :: ShardStatus

record CompiledFrontProxySpec =
  cfp_FrontProxy :: FrontProxySpec
  cfp_RootShard :: NamedRootShardSpec
  cfp_Shards :: "string list"

record CompiledFrontProxy =
  cfpo_Meta :: ObjectMeta
  cfpo_Spec :: CompiledFrontProxySpec
  cfpo_Status :: FrontProxyStatus

record CompiledCacheServer =
  ccs_Meta :: ObjectMeta
  ccs_Spec :: CacheServerSpec

record CompiledVirtualWorkspaceSpec =
  cvw_VirtualWorkspace :: VirtualWorkspaceSpec
  cvw_RootShard :: NamedRootShardSpec
  cvw_Shard :: "NamedShardSpec option"

record CompiledVirtualWorkspace =
  cvwo_Meta :: ObjectMeta
  cvwo_Spec :: CompiledVirtualWorkspaceSpec
  cvwo_Conditions :: "Condition list"

end
