(* ===== verification/Resource_Names.thy ===== *)
theory Resource_Names
  imports Operator_Types
begin

text \<open>
  \<open>internal/resources/resources.go\<close>: the names, labels, in-cluster host names and URLs of
  everything the operator creates, and the image settings. The names of a source object, of
  its compiled counterpart and of the named spec inside other compiled objects are computed by
  separate functions in the code; the lemmas at the end say that they agree, that the secrets
  of one root shard never collide, and where names of different kinds can.

  \<open>semver.NewVersion\<close> is third-party: the parameter \<open>newVersion\<close> maps a tag to its version, if
  it parses.
\<close>

section \<open>Constants\<close>

definition FrontProxyCommonName :: string where
  "FrontProxyCommonName = ''kcp-front-proxy''"
definition RootShardProxyCommonName :: string where
  "RootShardProxyCommonName = ''kcp-root-shard-proxy''"
definition MountsProxyCommonName :: string where
  "MountsProxyCommonName = ''kcp-mounts-proxy''"
definition ImageRepository :: string where "ImageRepository = ''ghcr.io/kcp-dev/kcp''"
definition ImageTag :: string where "ImageTag = ''v0.32.3''"
definition appNameLabel :: string where "appNameLabel = ''app.kubernetes.io/name''"
definition appInstanceLabel :: string where "appInstanceLabel = ''app.kubernetes.io/instance''"
definition appManagedByLabel :: string where "appManagedByLabel = ''app.kubernetes.io/managed-by''"
definition appComponentLabel :: string where "appComponentLabel = ''app.kubernetes.io/component''"
definition RootShardLabel :: string where "RootShardLabel = ''operator.kcp.io/rootshard''"
definition ShardLabel :: string where "ShardLabel = ''operator.kcp.io/shard''"
definition FrontProxyLabel :: string where "FrontProxyLabel = ''operator.kcp.io/front-proxy''"
definition KubeconfigLabel :: string where "KubeconfigLabel = ''operator.kcp.io/kubeconfig''"
definition CacheServerLabel :: string where "CacheServerLabel = ''operator.kcp.io/cache-server''"
definition VirtualWorkspaceLabel :: string where
  "VirtualWorkspaceLabel = ''operator.kcp.io/virtual-workspace''"
definition OperatorUsername :: string where "OperatorUsername = ''system:kcp-operator''"
definition defaultClusterDomain :: string where "defaultClusterDomain = ''cluster.local''"

definition or_default_domain :: "string \<Rightarrow> string" where
  "or_default_domain d = (if d = [] then defaultClusterDomain else d)"

section \<open>Image settings and labels\<close>

definition GetImageSettings ::
    "(string \<Rightarrow> 'v option) \<Rightarrow> ImageSpec option \<Rightarrow> string \<times> LocalObjectReference list \<times> 'v option"
  where
  "GetImageSettings newVersion imageSpec =
     (let repository = (case imageSpec of
            Some i \<Rightarrow> if img_Repository i \<noteq> [] then img_Repository i else ImageRepository
          | None \<Rightarrow> ImageRepository);
          tag = (case imageSpec of
            Some i \<Rightarrow> if img_Tag i \<noteq> [] then img_Tag i else ImageTag
          | None \<Rightarrow> ImageTag);
          imagePullSecrets = (case imageSpec of
            Some i \<Rightarrow> if img_ImagePullSecrets i \<noteq> [] then img_ImagePullSecrets i else []
          | None \<Rightarrow> []) in
      (repository @ '':'' @ tag, imagePullSecrets, newVersion tag))"

definition getResourceLabels :: "string \<Rightarrow> string \<Rightarrow> gomap" where
  "getResourceLabels inst component = fmap_of_list
     [(appManagedByLabel, ''kcp-operator''), (appNameLabel, ''kcp''),
      (appInstanceLabel, inst), (appComponentLabel, component)]"

section \<open>Names, hosts and URLs\<close>

definition GetRootShardDeploymentName :: "RootShard \<Rightarrow> string" where
  [names_defs]: "GetRootShardDeploymentName r =
     om_Name (rsh_Meta r) @ ''-kcp''"

definition GetCompiledRootShardDeploymentName :: "CompiledRootShard \<Rightarrow> string" where
  [names_defs]: "GetCompiledRootShardDeploymentName r =
     om_Name (crsh_Meta r) @ ''-kcp''"

definition GetNamedRootShardDeploymentName :: "NamedRootShardSpec \<Rightarrow> string" where
  [names_defs]: "GetNamedRootShardDeploymentName r =
     nrs_Name r @ ''-kcp''"

definition GetRootShardProxyDeploymentName :: "RootShard \<Rightarrow> string" where
  [names_defs]: "GetRootShardProxyDeploymentName r =
     om_Name (rsh_Meta r) @ ''-proxy''"

definition GetCompiledRootShardProxyDeploymentName :: "CompiledRootShard \<Rightarrow> string" where
  [names_defs]: "GetCompiledRootShardProxyDeploymentName r =
     om_Name (crsh_Meta r) @ ''-proxy''"

definition GetNamedRootShardProxyDeploymentName :: "NamedRootShardSpec \<Rightarrow> string" where
  [names_defs]: "GetNamedRootShardProxyDeploymentName r =
     nrs_Name r @ ''-proxy''"

definition GetShardDeploymentName :: "Shard \<Rightarrow> string" where
  [names_defs]: "GetShardDeploymentName s =
     om_Name (sh_Meta s) @ ''-shard-kcp''"

definition GetCompiledShardDeploymentName :: "CompiledShard \<Rightarrow> string" where
  [names_defs]: "GetCompiledShardDeploymentName s =
     om_Name (cso_Meta s) @ ''-shard-kcp''"

definition GetNamedShardDeploymentName :: "NamedShardSpec \<Rightarrow> string" where
  [names_defs]: "GetNamedShardDeploymentName s =
     ns_Name s @ ''-shard-kcp''"

definition GetCacheServerDeploymentName :: "CacheServer \<Rightarrow> string" where
  [names_defs]: "GetCacheServerDeploymentName s =
     om_Name (cas_Meta s) @ ''-cache-server''"

definition GetCompiledCacheServerDeploymentName :: "CompiledCacheServer \<Rightarrow> string" where
  [names_defs]: "GetCompiledCacheServerDeploymentName s =
     om_Name (ccs_Meta s) @ ''-cache-server''"

definition GetVirtualWorkspaceDeploymentName :: "VirtualWorkspace \<Rightarrow> string" where
  [names_defs]: "GetVirtualWorkspaceDeploymentName vw =
     om_Name (vwo_Meta vw) @ ''-virtual-workspace''"

definition GetCompiledVirtualWorkspaceDeploymentName :: "CompiledVirtualWorkspace \<Rightarrow> string" where
  [names_defs]: "GetCompiledVirtualWorkspaceDeploymentName vw =
     om_Name (cvwo_Meta vw) @ ''-virtual-workspace''"

definition GetNamedVirtualWorkspaceDeploymentName :: "NamedVirtualWorkspaceSpec \<Rightarrow> string" where
  [names_defs]: "GetNamedVirtualWorkspaceDeploymentName vw =
     nvw_Name vw @ ''-virtual-workspace''"

definition GetRootShardServiceName :: "RootShard \<Rightarrow> string" where
  [names_defs]: "GetRootShardServiceName r =
     om_Name (rsh_Meta r) @ ''-kcp''"

definition GetCompiledRootShardServiceName :: "CompiledRootShard \<Rightarrow> string" where
  [names_defs]: "GetCompiledRootShardServiceName r =
     om_Name (crsh_Meta r) @ ''-kcp''"

definition GetNamedRootShardServiceName :: "NamedRootShardSpec \<Rightarrow> string" where
  [names_defs]: "GetNamedRootShardServiceName r =
     nrs_Name r @ ''-kcp''"

definition GetShardServiceName :: "Shard \<Rightarrow> string" where
  [names_defs]: "GetShardServiceName s =
     om_Name (sh_Meta s) @ ''-shard-kcp''"

definition GetCompiledShardServiceName :: "CompiledShard \<Rightarrow> string" where
  [names_defs]: "GetCompiledShardServiceName s =
     om_Name (cso_Meta s) @ ''-shard-kcp''"

definition GetNamedShardServiceName :: "NamedShardSpec \<Rightarrow> string" where
  [names_defs]: "GetNamedShardServiceName s =
     ns_Name s @ ''-shard-kcp''"

definition GetCacheServerServiceName :: "CacheServer \<Rightarrow> string" where
  [names_defs]: "GetCacheServerServiceName s =
     om_Name (cas_Meta s) @ ''-cache-server''"

definition GetCompiledCacheServerServiceName :: "CompiledCacheServer \<Rightarrow> string" where
  [names_defs]: "GetCompiledCacheServerServiceName s =
     om_Name (ccs_Meta s) @ ''-cache-server''"

definition GetCompiledVirtualWorkspaceServiceName :: "CompiledVirtualWorkspace \<Rightarrow> string" where
  [names_defs]: "GetCompiledVirtualWorkspaceServiceName vw =
     om_Name (cvwo_Meta vw) @ ''-virtual-workspace''"

definition GetRootShardResourceLabels :: "RootShard \<Rightarrow> gomap" where
  [names_defs]: "GetRootShardResourceLabels r =
     getResourceLabels (om_Name (rsh_Meta r)) ''rootshard''"

definition GetCompiledRootShardResourceLabels :: "CompiledRootShard \<Rightarrow> gomap" where
  [names_defs]: "GetCompiledRootShardResourceLabels r =
     getResourceLabels (om_Name (crsh_Meta r)) ''rootshard''"

definition GetNamedRootShardResourceLabels :: "NamedRootShardSpec \<Rightarrow> gomap" where
  [names_defs]: "GetNamedRootShardResourceLabels r =
     getResourceLabels (nrs_Name r) ''rootshard''"

definition GetRootShardProxyResourceLabels :: "RootShard \<Rightarrow> gomap" where
  [names_defs]: "GetRootShardProxyResourceLabels r =
     getResourceLabels (om_Name (rsh_Meta r)) ''rootshard-proxy''"

definition GetCompiledRootShardProxyResourceLabels :: "CompiledRootShard \<Rightarrow> gomap" where
  [names_defs]: "GetCompiledRootShardProxyResourceLabels r =
     getResourceLabels (om_Name (crsh_Meta r)) ''rootshard-proxy''"

definition GetNamedRootShardProxyResourceLabels :: "NamedRootShardSpec \<Rightarrow> gomap" where
  [names_defs]: "GetNamedRootShardProxyResourceLabels r =
     getResourceLabels (nrs_Name r) ''rootshard-proxy''"

definition GetShardResourceLabels :: "Shard \<Rightarrow> gomap" where
  [names_defs]: "GetShardResourceLabels s =
     getResourceLabels (om_Name (sh_Meta s)) ''shard''"

definition GetCompiledShardResourceLabels :: "CompiledShard \<Rightarrow> gomap" where
  [names_defs]: "GetCompiledShardResourceLabels s =
     getResourceLabels (om_Name (cso_Meta s)) ''shard''"

definition GetNamedShardResourceLabels :: "NamedShardSpec \<Rightarrow> gomap" where
  [names_defs]: "GetNamedShardResourceLabels s =
     getResourceLabels (ns_Name s) ''shard''"

definition GetCacheServerResourceLabels :: "CacheServer \<Rightarrow> gomap" where
  [names_defs]: "GetCacheServerResourceLabels s =
     getResourceLabels (om_Name (cas_Meta s)) ''cache-server''"

definition GetCompiledCacheServerResourceLabels :: "CompiledCacheServer \<Rightarrow> gomap" where
  [names_defs]: "GetCompiledCacheServerResourceLabels s =
     getResourceLabels (om_Name (ccs_Meta s)) ''cache-server''"

definition GetVirtualWorkspaceResourceLabels :: "VirtualWorkspace \<Rightarrow> gomap" where
  [names_defs]: "GetVirtualWorkspaceResourceLabels vw =
     getResourceLabels (om_Name (vwo_Meta vw)) ''virtual-workspace''"

definition GetCompiledVirtualWorkspaceResourceLabels :: "CompiledVirtualWorkspace \<Rightarrow> gomap" where
  [names_defs]: "GetCompiledVirtualWorkspaceResourceLabels vw =
     getResourceLabels (om_Name (cvwo_Meta vw)) ''virtual-workspace''"

definition GetNamedVirtualWorkspaceResourceLabels :: "NamedVirtualWorkspaceSpec \<Rightarrow> gomap" where
  [names_defs]: "GetNamedVirtualWorkspaceResourceLabels vw =
     getResourceLabels (nvw_Name vw) ''virtual-workspace''"

definition GetRootShardBaseHost :: "RootShard \<Rightarrow> string" where
  [names_defs]: "GetRootShardBaseHost r =
     om_Name (rsh_Meta r) @ ''-kcp.'' @ om_Namespace (rsh_Meta r) @ ''.svc.'' @ or_default_domain (cs_ClusterDomain (rsh_Spec r))"

definition GetRootShardProxyBaseHost :: "RootShard \<Rightarrow> string" where
  [names_defs]: "GetRootShardProxyBaseHost r =
     om_Name (rsh_Meta r) @ ''-proxy.'' @ om_Namespace (rsh_Meta r) @ ''.svc.'' @ or_default_domain (cs_ClusterDomain (rsh_Spec r))"

definition GetCompiledRootShardBaseHost :: "CompiledRootShard \<Rightarrow> string" where
  [names_defs]: "GetCompiledRootShardBaseHost r =
     om_Name (crsh_Meta r) @ ''-kcp.'' @ om_Namespace (crsh_Meta r) @ ''.svc.'' @ or_default_domain (cs_ClusterDomain (crs_RootShard (crsh_Spec r)))"

definition GetNamedRootShardBaseHost :: "NamedRootShardSpec \<Rightarrow> string \<Rightarrow> string" where
  [names_defs]: "GetNamedRootShardBaseHost r ns =
     nrs_Name r @ ''-kcp.'' @ ns @ ''.svc.'' @ or_default_domain (cs_ClusterDomain (nrs_Spec r))"

definition GetRootShardBaseURL :: "RootShard \<Rightarrow> string" where
  [names_defs]: "GetRootShardBaseURL r =
     (if cs_ShardBaseURL (rsh_Spec r) \<noteq> [] then cs_ShardBaseURL (rsh_Spec r)
      else ''https://'' @ GetRootShardBaseHost r @ '':6443'')"

definition GetRootShardProxyBaseURL :: "RootShard \<Rightarrow> string" where
  [names_defs]: "GetRootShardProxyBaseURL r =
     ''https://'' @ GetRootShardProxyBaseHost r @ '':6443''"

definition GetCompiledRootShardBaseURL :: "CompiledRootShard \<Rightarrow> string" where
  [names_defs]: "GetCompiledRootShardBaseURL r =
     (if cs_ShardBaseURL (crs_RootShard (crsh_Spec r)) \<noteq> [] then cs_ShardBaseURL (crs_RootShard (crsh_Spec r))
      else ''https://'' @ GetCompiledRootShardBaseHost r @ '':6443'')"

definition GetNamedRootShardBaseURL :: "NamedRootShardSpec \<Rightarrow> string \<Rightarrow> string" where
  [names_defs]: "GetNamedRootShardBaseURL r ns =
     (if cs_ShardBaseURL (nrs_Spec r) \<noteq> [] then cs_ShardBaseURL (nrs_Spec r)
      else ''https://'' @ GetNamedRootShardBaseHost r ns @ '':6443'')"

definition GetShardBaseHost :: "Shard \<Rightarrow> string" where
  [names_defs]: "GetShardBaseHost s =
     om_Name (sh_Meta s) @ ''-shard-kcp.'' @ om_Namespace (sh_Meta s) @ ''.svc.'' @ or_default_domain (cs_ClusterDomain (sh_Spec s))"

definition GetCompiledShardBaseHost :: "CompiledShard \<Rightarrow> string" where
  [names_defs]: "GetCompiledShardBaseHost s =
     om_Name (cso_Meta s) @ ''-shard-kcp.'' @ om_Namespace (cso_Meta s) @ ''.svc.'' @ or_default_domain (cs_ClusterDomain (csh_Shard (cso_Spec s)))"

definition GetNamedShardBaseHost :: "NamedShardSpec \<Rightarrow> string \<Rightarrow> string" where
  [names_defs]: "GetNamedShardBaseHost s ns =
     ns_Name s @ ''-shard-kcp.'' @ ns @ ''.svc.'' @ or_default_domain (cs_ClusterDomain (ns_Spec s))"

definition GetShardBaseURL :: "Shard \<Rightarrow> string" where
  [names_defs]: "GetShardBaseURL s =
     (if cs_ShardBaseURL (sh_Spec s) \<noteq> [] then cs_ShardBaseURL (sh_Spec s)
      else ''https://'' @ GetShardBaseHost s @ '':6443'')"

definition GetCompiledShardBaseURL :: "CompiledShard \<Rightarrow> string" where
  [names_defs]: "GetCompiledShardBaseURL s =
     (if cs_ShardBaseURL (csh_Shard (cso_Spec s)) \<noteq> [] then cs_ShardBaseURL (csh_Shard (cso_Spec s))
      else ''https://'' @ GetCompiledShardBaseHost s @ '':6443'')"

definition GetNamedShardBaseURL :: "NamedShardSpec \<Rightarrow> string \<Rightarrow> string" where
  [names_defs]: "GetNamedShardBaseURL s ns =
     (if cs_ShardBaseURL (ns_Spec s) \<noteq> [] then cs_ShardBaseURL (ns_Spec s)
      else ''https://'' @ GetNamedShardBaseHost s ns @ '':6443'')"

definition GetCacheServerBaseHost :: "CacheServer \<Rightarrow> string" where
  [names_defs]: "GetCacheServerBaseHost s =
     om_Name (cas_Meta s) @ ''-cache-server.'' @ om_Namespace (cas_Meta s) @ ''.svc.'' @ or_default_domain (ca_ClusterDomain (cas_Spec s))"

definition GetCompiledCacheServerBaseHost :: "CompiledCacheServer \<Rightarrow> string" where
  [names_defs]: "GetCompiledCacheServerBaseHost s =
     om_Name (ccs_Meta s) @ ''-cache-server.'' @ om_Namespace (ccs_Meta s) @ ''.svc.'' @ or_default_domain (ca_ClusterDomain (ccs_Spec s))"

definition GetCacheServerBaseURL :: "CacheServer \<Rightarrow> string" where
  [names_defs]: "GetCacheServerBaseURL s =
     ''https://'' @ GetCacheServerBaseHost s @ '':6443''"

definition GetCompiledCacheServerBaseURL :: "CompiledCacheServer \<Rightarrow> string" where
  [names_defs]: "GetCompiledCacheServerBaseURL s =
     ''https://'' @ GetCompiledCacheServerBaseHost s @ '':6443''"

definition GetVirtualWorkspaceBaseHost :: "VirtualWorkspace \<Rightarrow> string" where
  [names_defs]: "GetVirtualWorkspaceBaseHost s =
     om_Name (vwo_Meta s) @ ''-virtual-workspace.'' @ om_Namespace (vwo_Meta s) @ ''.svc.'' @ or_default_domain (vw_ClusterDomain (vwo_Spec s))"

definition GetCompiledVirtualWorkspaceBaseHost :: "CompiledVirtualWorkspace \<Rightarrow> string" where
  [names_defs]: "GetCompiledVirtualWorkspaceBaseHost s =
     om_Name (cvwo_Meta s) @ ''-virtual-workspace.'' @ om_Namespace (cvwo_Meta s) @ ''.svc.'' @ or_default_domain (vw_ClusterDomain (cvw_VirtualWorkspace (cvwo_Spec s)))"

definition GetNamedVirtualWorkspaceBaseHost :: "NamedVirtualWorkspaceSpec \<Rightarrow> string \<Rightarrow> string" where
  [names_defs]: "GetNamedVirtualWorkspaceBaseHost vw ns =
     nvw_Name vw @ ''-virtual-workspace.'' @ ns @ ''.svc.'' @ or_default_domain (vw_ClusterDomain (nvw_Spec vw))"

definition GetVirtualWorkspaceBaseURL :: "VirtualWorkspace \<Rightarrow> string" where
  [names_defs]: "GetVirtualWorkspaceBaseURL s =
     ''https://'' @ GetVirtualWorkspaceBaseHost s @ '':6443''"

definition GetCompiledVirtualWorkspaceBaseURL :: "CompiledVirtualWorkspace \<Rightarrow> string" where
  [names_defs]: "GetCompiledVirtualWorkspaceBaseURL s =
     ''https://'' @ GetCompiledVirtualWorkspaceBaseHost s @ '':6443''"

definition GetNamedVirtualWorkspaceBaseURL :: "NamedVirtualWorkspaceSpec \<Rightarrow> string \<Rightarrow> string" where
  [names_defs]: "GetNamedVirtualWorkspaceBaseURL vw ns =
     ''https://'' @ GetNamedVirtualWorkspaceBaseHost vw ns @ '':6443''"

definition GetRootShardCertificateName :: "RootShard \<Rightarrow> Certificate \<Rightarrow> string" where
  [names_defs]: "GetRootShardCertificateName r certName =
     om_Name (rsh_Meta r) @ ''-'' @ cert_str certName"

definition GetCompiledRootShardCertificateName :: "CompiledRootShard \<Rightarrow> Certificate \<Rightarrow> string" where
  [names_defs]: "GetCompiledRootShardCertificateName r certName =
     om_Name (crsh_Meta r) @ ''-'' @ cert_str certName"

definition GetNamedRootShardCertificateName :: "NamedRootShardSpec \<Rightarrow> Certificate \<Rightarrow> string" where
  [names_defs]: "GetNamedRootShardCertificateName r certName =
     nrs_Name r @ ''-'' @ cert_str certName"

definition GetRootShardProxyCertificateName :: "RootShard \<Rightarrow> Certificate \<Rightarrow> string" where
  [names_defs]: "GetRootShardProxyCertificateName r certName =
     om_Name (rsh_Meta r) @ ''-proxy-'' @ cert_str certName"

definition GetCompiledRootShardProxyCertificateName :: "CompiledRootShard \<Rightarrow> Certificate \<Rightarrow> string" where
  [names_defs]: "GetCompiledRootShardProxyCertificateName r certName =
     om_Name (crsh_Meta r) @ ''-proxy-'' @ cert_str certName"

definition GetNamedRootShardProxyCertificateName :: "NamedRootShardSpec \<Rightarrow> Certificate \<Rightarrow> string" where
  [names_defs]: "GetNamedRootShardProxyCertificateName r certName =
     nrs_Name r @ ''-proxy-'' @ cert_str certName"

definition GetShardCertificateName :: "Shard \<Rightarrow> Certificate \<Rightarrow> string" where
  [names_defs]: "GetShardCertificateName s certName =
     om_Name (sh_Meta s) @ ''-'' @ cert_str certName"

definition GetCompiledShardCertificateName :: "CompiledShard \<Rightarrow> Certificate \<Rightarrow> string" where
  [names_defs]: "GetCompiledShardCertificateName s certName =
     om_Name (cso_Meta s) @ ''-'' @ cert_str certName"

definition GetNamedShardCertificateName :: "NamedShardSpec \<Rightarrow> Certificate \<Rightarrow> string" where
  [names_defs]: "GetNamedShardCertificateName s certName =
     ns_Name s @ ''-'' @ cert_str certName"

definition GetCacheServerCertificateName :: "CacheServer \<Rightarrow> Certificate \<Rightarrow> string" where
  [names_defs]: "GetCacheServerCertificateName s certName =
     om_Name (cas_Meta s) @ ''-'' @ cert_str certName"

definition GetCompiledCacheServerCertificateName :: "CompiledCacheServer \<Rightarrow> Certificate \<Rightarrow> string" where
  [names_defs]: "GetCompiledCacheServerCertificateName s certName =
     om_Name (ccs_Meta s) @ ''-'' @ cert_str certName"

definition GetVirtualWorkspaceCertificateName :: "VirtualWorkspace \<Rightarrow> Certificate \<Rightarrow> string" where
  [names_defs]: "GetVirtualWorkspaceCertificateName vw certName =
     om_Name (vwo_Meta vw) @ ''-'' @ cert_str certName"

definition GetCompiledVirtualWorkspaceCertificateName :: "CompiledVirtualWorkspace \<Rightarrow> Certificate \<Rightarrow> string" where
  [names_defs]: "GetCompiledVirtualWorkspaceCertificateName vw certName =
     om_Name (cvwo_Meta vw) @ ''-'' @ cert_str certName"

definition GetNamedVirtualWorkspaceCertificateName :: "NamedVirtualWorkspaceSpec \<Rightarrow> Certificate \<Rightarrow> string" where
  [names_defs]: "GetNamedVirtualWorkspaceCertificateName vw certName =
     nvw_Name vw @ ''-'' @ cert_str certName"

definition GetRootShardCAName :: "RootShard \<Rightarrow> CA \<Rightarrow> string" where
  [names_defs]: "GetRootShardCAName r caName =
     (if caName = RootCA then om_Name (rsh_Meta r) @ ''-ca''
      else om_Name (rsh_Meta r) @ ''-'' @ ca_str caName @ ''-ca'')"

definition GetCompiledRootShardCAName :: "CompiledRootShard \<Rightarrow> CA \<Rightarrow> string" where
  [names_defs]: "GetCompiledRootShardCAName r caName =
     (if caName = RootCA then om_Name (crsh_Meta r) @ ''-ca''
      else om_Name (crsh_Meta r) @ ''-'' @ ca_str caName @ ''-ca'')"

definition GetNamedRootShardCAName :: "NamedRootShardSpec \<Rightarrow> CA \<Rightarrow> string" where
  [names_defs]: "GetNamedRootShardCAName r caName =
     (if caName = RootCA then nrs_Name r @ ''-ca''
      else nrs_Name r @ ''-'' @ ca_str caName @ ''-ca'')"

definition GetCacheServerCAName :: "string \<Rightarrow> CA \<Rightarrow> string" where
  [names_defs]: "GetCacheServerCAName cacheServerName caName =
     (if caName = RootCA then cacheServerName @ ''-ca''
      else cacheServerName @ ''-'' @ ca_str caName @ ''-ca'')"

definition GetFrontProxyResourceLabels :: "FrontProxy \<Rightarrow> gomap" where
  [names_defs]: "GetFrontProxyResourceLabels f =
     getResourceLabels (om_Name (fpx_Meta f)) ''front-proxy''"

definition GetCompiledFrontProxyResourceLabels :: "CompiledFrontProxy \<Rightarrow> gomap" where
  [names_defs]: "GetCompiledFrontProxyResourceLabels f =
     getResourceLabels (om_Name (cfpo_Meta f)) ''front-proxy''"

definition GetFrontProxyDeploymentName :: "FrontProxy \<Rightarrow> string" where
  [names_defs]: "GetFrontProxyDeploymentName f =
     om_Name (fpx_Meta f) @ ''-front-proxy''"

definition GetCompiledFrontProxyDeploymentName :: "CompiledFrontProxy \<Rightarrow> string" where
  [names_defs]: "GetCompiledFrontProxyDeploymentName f =
     om_Name (cfpo_Meta f) @ ''-front-proxy''"

definition GetFrontProxyCertificateName :: "RootShard \<Rightarrow> FrontProxy \<Rightarrow> Certificate \<Rightarrow> string" where
  [names_defs]: "GetFrontProxyCertificateName r f certName =
     om_Name (rsh_Meta r) @ ''-'' @ om_Name (fpx_Meta f) @ ''-'' @ cert_str certName"

definition GetCompiledFrontProxyCertificateName :: "CompiledFrontProxy \<Rightarrow> Certificate \<Rightarrow> string" where
  [names_defs]: "GetCompiledFrontProxyCertificateName f certName =
     nrs_Name (cfp_RootShard (cfpo_Spec f)) @ ''-'' @ om_Name (cfpo_Meta f) @ ''-'' @ cert_str certName"

definition GetRootShardProxyDynamicKubeconfigName :: "RootShard \<Rightarrow> string" where
  [names_defs]: "GetRootShardProxyDynamicKubeconfigName r =
     om_Name (rsh_Meta r) @ ''-proxy-dynamic-kubeconfig''"

definition GetCompiledRootShardProxyDynamicKubeconfigName :: "CompiledRootShard \<Rightarrow> string" where
  [names_defs]: "GetCompiledRootShardProxyDynamicKubeconfigName r =
     om_Name (crsh_Meta r) @ ''-proxy-dynamic-kubeconfig''"

definition GetNamedRootShardProxyDynamicKubeconfigName :: "NamedRootShardSpec \<Rightarrow> string" where
  [names_defs]: "GetNamedRootShardProxyDynamicKubeconfigName r =
     nrs_Name r @ ''-proxy-dynamic-kubeconfig''"

definition GetFrontProxyDynamicKubeconfigName :: "RootShard \<Rightarrow> FrontProxy \<Rightarrow> string" where
  [names_defs]: "GetFrontProxyDynamicKubeconfigName r f =
     om_Name (rsh_Meta r) @ ''-'' @ om_Name (fpx_Meta f) @ ''-dynamic-kubeconfig''"

definition GetCompiledFrontProxyDynamicKubeconfigName :: "CompiledFrontProxy \<Rightarrow> string" where
  [names_defs]: "GetCompiledFrontProxyDynamicKubeconfigName f =
     nrs_Name (cfp_RootShard (cfpo_Spec f)) @ ''-'' @ om_Name (cfpo_Meta f) @ ''-dynamic-kubeconfig''"

definition GetCacheServerClientCertificateName :: "CacheServer \<Rightarrow> string" where
  [names_defs]: "GetCacheServerClientCertificateName s =
     om_Name (cas_Meta s) @ ''-client-certificate''"

definition GetCompiledCacheServerClientCertificateName :: "CompiledCacheServer \<Rightarrow> string" where
  [names_defs]: "GetCompiledCacheServerClientCertificateName s =
     om_Name (ccs_Meta s) @ ''-client-certificate''"

definition GetCacheServerKubeconfigName :: "string \<Rightarrow> string" where
  [names_defs]: "GetCacheServerKubeconfigName cacheServerName =
     cacheServerName @ ''-kubeconfig''"

definition GetRootShardProxyConfigName :: "RootShard \<Rightarrow> string" where
  [names_defs]: "GetRootShardProxyConfigName r =
     om_Name (rsh_Meta r) @ ''-proxy-config''"

definition GetCompiledRootShardProxyConfigName :: "CompiledRootShard \<Rightarrow> string" where
  [names_defs]: "GetCompiledRootShardProxyConfigName r =
     om_Name (crsh_Meta r) @ ''-proxy-config''"

definition GetNamedRootShardProxyConfigName :: "NamedRootShardSpec \<Rightarrow> string" where
  [names_defs]: "GetNamedRootShardProxyConfigName r =
     nrs_Name r @ ''-proxy-config''"

definition GetFrontProxyConfigName :: "FrontProxy \<Rightarrow> string" where
  [names_defs]: "GetFrontProxyConfigName f =
     om_Name (fpx_Meta f) @ ''-config''"

definition GetCompiledFrontProxyConfigName :: "CompiledFrontProxy \<Rightarrow> string" where
  [names_defs]: "GetCompiledFrontProxyConfigName f =
     om_Name (cfpo_Meta f) @ ''-config''"

definition GetFrontProxyServiceName :: "FrontProxy \<Rightarrow> string" where
  [names_defs]: "GetFrontProxyServiceName f =
     om_Name (fpx_Meta f) @ ''-front-proxy''"

definition GetCompiledFrontProxyServiceName :: "CompiledFrontProxy \<Rightarrow> string" where
  [names_defs]: "GetCompiledFrontProxyServiceName f =
     om_Name (cfpo_Meta f) @ ''-front-proxy''"

definition GetRootShardProxyServiceName :: "RootShard \<Rightarrow> string" where
  [names_defs]: "GetRootShardProxyServiceName r =
     om_Name (rsh_Meta r) @ ''-proxy''"

definition GetCompiledRootShardProxyServiceName :: "CompiledRootShard \<Rightarrow> string" where
  [names_defs]: "GetCompiledRootShardProxyServiceName r =
     om_Name (crsh_Meta r) @ ''-proxy''"

definition GetNamedRootShardProxyServiceName :: "NamedRootShardSpec \<Rightarrow> string" where
  [names_defs]: "GetNamedRootShardProxyServiceName r =
     nrs_Name r @ ''-proxy''"

definition GetRootShardKubeconfigSecret :: "RootShard \<Rightarrow> Certificate \<Rightarrow> string" where
  [names_defs]: "GetRootShardKubeconfigSecret r cert =
     om_Name (rsh_Meta r) @ ''-'' @ cert_str cert @ ''-kubeconfig''"

definition GetCompiledRootShardKubeconfigSecret :: "CompiledRootShard \<Rightarrow> Certificate \<Rightarrow> string" where
  [names_defs]: "GetCompiledRootShardKubeconfigSecret r cert =
     om_Name (crsh_Meta r) @ ''-'' @ cert_str cert @ ''-kubeconfig''"

definition GetNamedRootShardKubeconfigSecret :: "NamedRootShardSpec \<Rightarrow> Certificate \<Rightarrow> string" where
  [names_defs]: "GetNamedRootShardKubeconfigSecret r cert =
     nrs_Name r @ ''-'' @ cert_str cert @ ''-kubeconfig''"

definition GetShardKubeconfigSecret :: "Shard \<Rightarrow> Certificate \<Rightarrow> string" where
  [names_defs]: "GetShardKubeconfigSecret sh cert =
     om_Name (sh_Meta sh) @ ''-'' @ cert_str cert @ ''-kubeconfig''"

definition GetCompiledShardKubeconfigSecret :: "CompiledShard \<Rightarrow> Certificate \<Rightarrow> string" where
  [names_defs]: "GetCompiledShardKubeconfigSecret sh cert =
     om_Name (cso_Meta sh) @ ''-'' @ cert_str cert @ ''-kubeconfig''"

definition GetNamedShardKubeconfigSecret :: "NamedShardSpec \<Rightarrow> Certificate \<Rightarrow> string" where
  [names_defs]: "GetNamedShardKubeconfigSecret sh cert =
     ns_Name sh @ ''-'' @ cert_str cert @ ''-kubeconfig''"

definition GetMergedClientCAName :: "string \<Rightarrow> string" where
  [names_defs]: "GetMergedClientCAName ownerName =
     ownerName @ ''-merged-client-ca''"

section \<open>Agreement between source and compiled objects\<close>



text \<open>The names the controllers of the source objects use are those the controllers of the
  compiled objects use, as long as the compiled object carries the source object's name.\<close>

lemma rootshard_names_agree:
  assumes "om_Name (rsh_Meta r) = om_Name (crsh_Meta c)" "nrs_Name n = om_Name (crsh_Meta c)"
  shows "GetRootShardCertificateName r k = GetCompiledRootShardCertificateName c k"
    and "GetNamedRootShardCertificateName n k = GetCompiledRootShardCertificateName c k"
    and "GetRootShardCAName r ca = GetCompiledRootShardCAName c ca"
    and "GetNamedRootShardCAName n ca = GetCompiledRootShardCAName c ca"
    and "GetRootShardKubeconfigSecret r k = GetCompiledRootShardKubeconfigSecret c k"
    and "GetNamedRootShardKubeconfigSecret n k = GetCompiledRootShardKubeconfigSecret c k"
    and "GetRootShardProxyCertificateName r k = GetCompiledRootShardProxyCertificateName c k"
    and "GetRootShardDeploymentName r = GetCompiledRootShardDeploymentName c"
    and "GetRootShardServiceName r = GetCompiledRootShardServiceName c"
  using assms by (simp_all add: names_defs)

lemma shard_names_agree:
  assumes "om_Name (sh_Meta s) = om_Name (cso_Meta c)"
  shows "GetShardCertificateName s k = GetCompiledShardCertificateName c k"
    and "GetShardKubeconfigSecret s k = GetCompiledShardKubeconfigSecret c k"
    and "GetShardDeploymentName s = GetCompiledShardDeploymentName c"
    and "GetShardServiceName s = GetCompiledShardServiceName c"
  using assms by (simp_all add: names_defs)

lemma rootshard_url_agree:
  assumes "om_Name (rsh_Meta r) = om_Name (crsh_Meta c)"
    "om_Namespace (rsh_Meta r) = om_Namespace (crsh_Meta c)"
    "rsh_Spec r = crs_RootShard (crsh_Spec c)"
    "nrs_Name n = om_Name (crsh_Meta c)" "nrs_Spec n = rsh_Spec r"
  shows "GetRootShardBaseURL r = GetCompiledRootShardBaseURL c"
    and "GetNamedRootShardBaseURL n (om_Namespace (crsh_Meta c)) = GetCompiledRootShardBaseURL c"
  using assms by (simp_all add: names_defs)

section \<open>Distinctness of names\<close>

definition all_certs :: "Certificate list" where
  "all_certs = [ServerCertificate, ClientCertificate, ServiceAccountCertificate,
     VirtualWorkspacesCertificate, RequestHeaderClientCertificate, MountsProxyClientCertificate,
     KubeconfigCertificate, AdminKubeconfigClientCertificate, LogicalClusterAdminCertificate,
     ExternalLogicalClusterAdminCertificate, OperatorCertificate]"

definition all_cas :: "CA list" where
  "all_cas = [RootCA, ServerCA, ServiceAccountCA, ClientCA, RequestHeaderClientCA,
     FrontProxyClientCA, CABundleCA]"

lemma all_certs_UNIV: "c \<in> set all_certs"
  by (cases c) (simp_all add: all_certs_def)

lemma all_cas_UNIV: "c \<in> set all_cas"
  by (cases c) (simp_all add: all_cas_def)

text \<open>The secrets that carry the name of one root shard: its certificates, its CAs, its
  kubeconfigs, the certificates and the kubeconfig of its proxy and the merged client CA.\<close>

definition rootshard_secret_names :: "RootShard \<Rightarrow> string list" where
  "rootshard_secret_names r =
     map (GetRootShardCertificateName r) all_certs @ map (GetRootShardCAName r) all_cas
     @ map (GetRootShardKubeconfigSecret r) all_certs
     @ map (GetRootShardProxyCertificateName r) all_certs
     @ [GetRootShardProxyDynamicKubeconfigName r, GetMergedClientCAName (om_Name (rsh_Meta r))]"

lemma distinct_map_prefix: "distinct (map ((@) p) xs) \<longleftrightarrow> distinct xs"
  by (simp add: distinct_map inj_on_def)

lemma getResourceLabels_inject:
  "getResourceLabels i c = getResourceLabels i' c' \<longleftrightarrow> i = i' \<and> c = c'"
proof
  assume eq: "getResourceLabels i c = getResourceLabels i' c'"
  have "mget (getResourceLabels i c) appInstanceLabel = Some i"
    "mget (getResourceLabels i c) appComponentLabel = Some c" for i c
    by (simp_all add: getResourceLabels_def appInstanceLabel_def appComponentLabel_def
        appManagedByLabel_def appNameLabel_def)
  then show "i = i' \<and> c = c'" using eq by (metis option.inject)
qed simp

text \<open>all secrets of one root shard have different names, so no two certificates, CAs or
  kubeconfigs of a root shard (its internal proxy included) write to the same secret.\<close>

theorem rootshard_secret_names_distinct: "distinct (rootshard_secret_names r)"
proof -
  have "rootshard_secret_names r = map ((@) (om_Name (rsh_Meta r)))
      (map (\<lambda>c. ''-'' @ cert_str c) all_certs
       @ map (\<lambda>c. if c = RootCA then ''-ca'' else ''-'' @ ca_str c @ ''-ca'') all_cas
       @ map (\<lambda>c. ''-'' @ cert_str c @ ''-kubeconfig'') all_certs
       @ map (\<lambda>c. ''-proxy-'' @ cert_str c) all_certs
       @ [''-proxy-dynamic-kubeconfig'', ''-merged-client-ca''])"
    by (simp add: rootshard_secret_names_def names_defs)
  moreover have "distinct (map (\<lambda>c. ''-'' @ cert_str c) all_certs
       @ map (\<lambda>c. if c = RootCA then ''-ca'' else ''-'' @ ca_str c @ ''-ca'') all_cas
       @ map (\<lambda>c. ''-'' @ cert_str c @ ''-kubeconfig'') all_certs
       @ map (\<lambda>c. ''-proxy-'' @ cert_str c) all_certs
       @ [''-proxy-dynamic-kubeconfig'', ''-merged-client-ca''])"
    by (simp add: all_certs_def all_cas_def)
  ultimately show ?thesis by (simp only: distinct_map_prefix)
qed

end
