(* ===== verification/Deploy_Store.thy ===== *)
theory Deploy_Store
  imports Resource_Names
begin

text \<open>
  Resource lists as the references they are in Go, and \<open>ApplyResources\<close> of
  \<open>internal/resources/utils/deployments.go\<close>.

  \<open>corev1.ResourceList\<close> is a map type. The packages \<open>compiledrootshard\<close>, \<open>compiledshard\<close>,
  \<open>compiledvirtualworkspace\<close> and \<open>compiledcacheserver\<close> keep their default requirements in a package
  variable whose two maps every container they build refers to, and \<open>ApplyResources\<close> writes into
  the maps of the container. The store holds the contents of the maps by address; the addresses
  0 to 7 are the maps of the four package variables and \<open>rst_next\<close> is the next free address. What
  is sent to the API server is what \<open>container_resources\<close> reads at that moment.
\<close>

record rstore =
  rst_heap :: "(nat, ResourceList) fmap"
  rst_next :: nat

definition rl_get :: "rstore \<Rightarrow> nat \<Rightarrow> ResourceList" where
  "rl_get st a = (case fmlookup (rst_heap st) a of None \<Rightarrow> fmempty | Some m \<Rightarrow> m)"

definition rl_put :: "rstore \<Rightarrow> nat \<Rightarrow> ResourceList \<Rightarrow> rstore" where
  "rl_put st a m = st\<lparr>rst_heap := fmupd a m (rst_heap st)\<rparr>"

definition rl_make :: "rstore \<Rightarrow> rstore \<times> nat" where
  "rl_make st = (rl_put st (rst_next st) fmempty\<lparr>rst_next := Suc (rst_next st)\<rparr>, rst_next st)"

definition container_resources :: "rstore \<Rightarrow> Container \<Rightarrow> ResourceRequirements" where
  "container_resources st c =
     \<lparr>rr_Limits = (case cr_Limits (ct_Resources c) of None \<Rightarrow> fmempty | Some a \<Rightarrow> rl_get st a),
      rr_Requests = (case cr_Requests (ct_Resources c) of None \<Rightarrow> fmempty | Some a \<Rightarrow> rl_get st a)\<rparr>"

section \<open>Package variables\<close>

definition shard_default_Requests :: ResourceList where
  "shard_default_Requests = fmap_of_list [(''memory'', ''1Gi''), (''cpu'', ''1'')]"
definition shard_default_Limits :: ResourceList where
  "shard_default_Limits = fmap_of_list [(''memory'', ''2Gi''), (''cpu'', ''2'')]"
definition cache_default_Requests :: ResourceList where
  "cache_default_Requests = fmap_of_list [(''memory'', ''1Gi''), (''cpu'', ''500m'')]"
definition cache_default_Limits :: ResourceList where
  "cache_default_Limits = fmap_of_list [(''memory'', ''2Gi''), (''cpu'', ''1'')]"

definition rootshard_defaultResourceRequirements :: ContainerResources where
  "rootshard_defaultResourceRequirements = \<lparr>cr_Limits = Some 0, cr_Requests = Some 1\<rparr>"
definition shard_defaultResourceRequirements :: ContainerResources where
  "shard_defaultResourceRequirements = \<lparr>cr_Limits = Some 2, cr_Requests = Some 3\<rparr>"
definition vw_defaultResourceRequirements :: ContainerResources where
  "vw_defaultResourceRequirements = \<lparr>cr_Limits = Some 4, cr_Requests = Some 5\<rparr>"
definition cache_defaultResourceRequirements :: ContainerResources where
  "cache_defaultResourceRequirements = \<lparr>cr_Limits = Some 6, cr_Requests = Some 7\<rparr>"

text \<open>The store when the process starts.\<close>

definition init_rstore :: rstore where
  "init_rstore = \<lparr>rst_heap = fmap_of_list
     [(0, shard_default_Limits), (1, shard_default_Requests),
      (2, shard_default_Limits), (3, shard_default_Requests),
      (4, shard_default_Limits), (5, shard_default_Requests),
      (6, cache_default_Limits), (7, cache_default_Requests)], rst_next = 8\<rparr>"

section \<open>ApplyResources\<close>

definition ApplyResources ::
    "rstore \<Rightarrow> Container \<Rightarrow> ResourceRequirements option \<Rightarrow> rstore \<times> Container" where
  "ApplyResources st c resources = (case resources of
     None \<Rightarrow> (st, c)
   | Some r \<Rightarrow>
       (let (st1, l) = (case cr_Limits (ct_Resources c) of
              None \<Rightarrow> rl_make st | Some a \<Rightarrow> (st, a));
            (st2, q) = (case cr_Requests (ct_Resources c) of
              None \<Rightarrow> rl_make st1 | Some a \<Rightarrow> (st1, a));
            st3 = rl_put st2 l (maps_Copy (rl_get st2 l) (rr_Limits r));
            st4 = rl_put st3 q (maps_Copy (rl_get st3 q) (rr_Requests r)) in
        (st4, c\<lparr>ct_Resources := \<lparr>cr_Limits = Some l, cr_Requests = Some q\<rparr>\<rparr>)))"

lemma rl_get_put [simp]: "rl_get (rl_put st a m) b = (if a = b then m else rl_get st b)"
  by (simp add: rl_get_def rl_put_def)

lemma rl_next_put [simp]: "rst_next (rl_put st a m) = rst_next st"
  by (simp add: rl_put_def)

lemma rl_get_next_update [simp]: "rl_get (st\<lparr>rst_next := n\<rparr>) a = rl_get st a"
  by (simp add: rl_get_def)

lemma ApplyResources_None [simp]: "ApplyResources st c None = (st, c)"
  by (simp add: ApplyResources_def)

text \<open>Only the resources of the container change.\<close>

lemma ApplyResources_container:
  "ApplyResources st c r = (st', c') \<Longrightarrow> \<exists>res. c' = c\<lparr>ct_Resources := res\<rparr>"
  by (cases c) (auto simp: ApplyResources_def Let_def split: option.splits prod.splits)

text \<open>An address outside the two maps of the container keeps its contents, unless it was free.\<close>

lemma ApplyResources_frame:
  assumes "ApplyResources st c r = (st', c')" "a < rst_next st"
    "cr_Limits (ct_Resources c) \<noteq> Some a" "cr_Requests (ct_Resources c) \<noteq> Some a"
  shows "rl_get st' a = rl_get st a"
  using assms
  by (auto simp: ApplyResources_def rl_make_def Let_def split: option.splits prod.splits)

text \<open>What \<open>ApplyResources\<close> is for: the container ends up with its own resource lists overlaid by
  the configured ones.\<close>

lemma ApplyResources_overlay:
  assumes "ApplyResources st c (Some r) = (st', c')"
    "\<And>a. cr_Limits (ct_Resources c) = Some a \<or> cr_Requests (ct_Resources c) = Some a
       \<Longrightarrow> a < rst_next st"
    "cr_Limits (ct_Resources c) \<noteq> cr_Requests (ct_Resources c) \<or> cr_Limits (ct_Resources c) = None"
  shows "rr_Limits (container_resources st' c')
       = maps_Copy (rr_Limits (container_resources st c)) (rr_Limits r)"
    and "rr_Requests (container_resources st' c')
       = maps_Copy (rr_Requests (container_resources st c)) (rr_Requests r)"
proof -
  note defs = ApplyResources_def rl_make_def container_resources_def Let_def
  have lt: "\<And>a. cr_Limits (ct_Resources c) = Some a \<Longrightarrow> a < rst_next st"
    "\<And>a. cr_Requests (ct_Resources c) = Some a \<Longrightarrow> a < rst_next st"
    using assms(2) by auto
  show "rr_Limits (container_resources st' c')
       = maps_Copy (rr_Limits (container_resources st c)) (rr_Limits r)"
    using assms(1,3) lt
    by (cases "cr_Limits (ct_Resources c)"; cases "cr_Requests (ct_Resources c)")
      (auto simp: defs)
  show "rr_Requests (container_resources st' c')
       = maps_Copy (rr_Requests (container_resources st c)) (rr_Requests r)"
    using assms(1,3) lt
    by (cases "cr_Limits (ct_Resources c)"; cases "cr_Requests (ct_Resources c)")
      (auto simp: defs)
qed

end
