(* ===== verification/Deploy_Utils.thy ===== *)
theory Deploy_Utils
  imports Deploy_Store
begin

text \<open>
  \<open>internal/resources/utils\<close>: the helpers that modify a Deployment or Service under
  construction (OIDC, webhook, token-file and service-account authentication, authorization,
  audit, etcd, extra volumes, templates), the port of a front proxy and the logging flags.

  Every helper indexes \<open>Containers[0]\<close>; on a pod without containers Go panics, which is the
  \<open>Inl (Panic _)\<close> branch of \<open>upd_c0\<close>.
\<close>

section \<open>Access paths\<close>

definition pod_of :: "Deployment \<Rightarrow> PodSpec" where
  "pod_of d = pt_Spec (ds_Template (dep_Spec d))"

definition set_pod :: "PodSpec \<Rightarrow> Deployment \<Rightarrow> Deployment" where
  "set_pod ps d = d\<lparr>dep_Spec := (dep_Spec d)\<lparr>ds_Template :=
     (ds_Template (dep_Spec d))\<lparr>pt_Spec := ps\<rparr>\<rparr>\<rparr>"

lemma pod_of_set_pod [simp]: "pod_of (set_pod ps d) = ps"
  by (simp add: pod_of_def set_pod_def)

lemma set_pod_pod_of [simp]: "set_pod (pod_of d) d = d"
  by (simp add: pod_of_def set_pod_def)

lemma set_pod_set_pod [simp]: "set_pod p (set_pod q d) = set_pod p d"
  by (simp add: set_pod_def)

definition upd_c0 :: "(Container \<Rightarrow> Container) \<Rightarrow> PodSpec \<Rightarrow> PodSpec res" where
  "upd_c0 f ps = (case ps_Containers ps of
     [] \<Rightarrow> Inl (Panic ''index out of range [0] with length 0'')
   | c # cs \<Rightarrow> Inr (ps\<lparr>ps_Containers := f c # cs\<rparr>))"

definition add_args :: "string list \<Rightarrow> PodSpec \<Rightarrow> PodSpec res" where
  "add_args as = upd_c0 (\<lambda>c. c\<lparr>ct_Args := ct_Args c @ as\<rparr>)"

definition add_mounts :: "VolumeMount list \<Rightarrow> PodSpec \<Rightarrow> PodSpec res" where
  "add_mounts ms = upd_c0 (\<lambda>c. c\<lparr>ct_VolumeMounts := ct_VolumeMounts c @ ms\<rparr>)"

definition add_volumes :: "Volume list \<Rightarrow> PodSpec \<Rightarrow> PodSpec" where
  "add_volumes vs ps = ps\<lparr>ps_Volumes := ps_Volumes ps @ vs\<rparr>"

definition secret_volume :: "string \<Rightarrow> string \<Rightarrow> Volume" where
  "secret_volume name sname = \<lparr>vol_Name = name, vol_Secret = Some sname, vol_ConfigMap = None,
     vol_EmptyDir = False, vol_Other = JNull\<rparr>"

definition configmap_volume :: "string \<Rightarrow> string \<Rightarrow> Volume" where
  "configmap_volume name cname = \<lparr>vol_Name = name, vol_Secret = None, vol_ConfigMap = Some cname,
     vol_EmptyDir = False, vol_Other = JNull\<rparr>"

definition ro_mount :: "string \<Rightarrow> string \<Rightarrow> VolumeMount" where
  "ro_mount name path = \<lparr>vm_Name = name, vm_ReadOnly = True, vm_MountPath = path\<rparr>"

lemma volume_names [simp]:
  "vol_Name (secret_volume n s) = n" "vol_Name (configmap_volume n s) = n"
  "vm_Name (ro_mount n p) = n" "vm_MountPath (ro_mount n p) = p"
  "vol_Secret (secret_volume n s) = Some s" "vol_ConfigMap (secret_volume n s) = None"
  "vol_Secret (configmap_volume n s) = None" "vol_ConfigMap (configmap_volume n s) = Some s"
  by (simp_all add: secret_volume_def configmap_volume_def ro_mount_def)

text \<open>\<open>if cond { extraArgs = append(extraArgs, arg) }\<close>\<close>

definition when_arg :: "bool \<Rightarrow> string \<Rightarrow> string list" where
  "when_arg b a = (if b then [a] else [])"

definition dur_arg :: "int option \<Rightarrow> string \<Rightarrow> string list" where
  "dur_arg d flag = (case d of None \<Rightarrow> [] | Some v \<Rightarrow> [flag @ Duration_String v])"

section \<open>Authentication\<close>

definition oidc_args :: "OIDCConfiguration \<Rightarrow> string list" where
  "oidc_args c =
     when_arg (oidc_IssuerURL c \<noteq> []) (''--oidc-issuer-url='' @ oidc_IssuerURL c)
     @ when_arg (oidc_ClientID c \<noteq> []) (''--oidc-client-id='' @ oidc_ClientID c)
     @ when_arg (oidc_GroupsClaim c \<noteq> []) (''--oidc-groups-claim='' @ oidc_GroupsClaim c)
     @ when_arg (oidc_UsernameClaim c \<noteq> []) (''--oidc-username-claim='' @ oidc_UsernameClaim c)
     @ when_arg (oidc_UsernamePrefix c \<noteq> []) (''--oidc-username-prefix='' @ oidc_UsernamePrefix c)
     @ when_arg (oidc_GroupsPrefix c \<noteq> []) (''--oidc-groups-prefix='' @ oidc_GroupsPrefix c)"

definition applyOIDCConfiguration :: "Deployment \<Rightarrow> OIDCConfiguration \<Rightarrow> Deployment res" where
  "applyOIDCConfiguration d c = (case oidc_CAFileRef c of
     None \<Rightarrow> bindE (add_args (oidc_args c) (pod_of d)) (\<lambda>ps. Inr (set_pod ps d))
   | Some v \<Rightarrow>
       bindE (add_mounts [ro_mount ''oidc-ca-file'' ''/etc/kcp/tls/oidc'']
                (add_volumes [secret_volume ''oidc-ca-file'' (ocf_Name v)] (pod_of d))) (\<lambda>ps.
       bindE (add_args (oidc_args c @ [''--oidc-ca-file=/etc/kcp/tls/oidc/'' @ ocf_Key v]) ps) (\<lambda>ps.
       Inr (set_pod ps d))))"

definition sa_cert_name :: "string \<Rightarrow> string" where
  "sa_cert_name n = n @ ''-'' @ cert_str ServiceAccountCertificate"

definition applyServiceAccountAuthentication ::
    "Deployment \<Rightarrow> string \<Rightarrow> string list \<Rightarrow> Deployment res" where
  "applyServiceAccountAuthentication d rootShardName shardNames =
     (let volumes = secret_volume (sa_cert_name rootShardName) (sa_cert_name rootShardName)
            # map (\<lambda>n. secret_volume (sa_cert_name n) (sa_cert_name n)) shardNames;
          volumeMounts = map (\<lambda>n. ro_mount (sa_cert_name n)
              (''/etc/kcp/tls/'' @ n @ ''/'' @ cert_str ServiceAccountCertificate))
            (rootShardName # shardNames);
          extraArgs = ''--service-account-lookup=false''
            # map (\<lambda>n. ''--service-account-key-file=/etc/kcp/tls/'' @ n @ ''/service-account/tls.crt'')
                (rootShardName # shardNames) in
      bindE (add_mounts volumeMounts (add_volumes volumes (pod_of d))) (\<lambda>ps.
      bindE (add_args extraArgs ps) (\<lambda>ps. Inr (set_pod ps d))))"

definition applyTokenAuthFile :: "Deployment \<Rightarrow> TokenAuthFileSpec \<Rightarrow> Deployment res" where
  "applyTokenAuthFile d config =
     (let volumeName = ''token-auth-file'';
          mountPath = ''/etc/kcp/authentication/token'';
          key = (if taf_Key config = [] then ''token.csv'' else taf_Key config) in
      bindE (add_args [''--token-auth-file='' @ mountPath @ ''/'' @ key] (pod_of d)) (\<lambda>ps.
      bindE (add_mounts [ro_mount volumeName mountPath] ps) (\<lambda>ps.
      Inr (set_pod (add_volumes [secret_volume volumeName (taf_SecretName config)] ps) d))))"

definition applyAuthenticationWebhookConfiguration ::
    "Deployment \<Rightarrow> AuthenticationWebhookSpec \<Rightarrow> Deployment res" where
  "applyAuthenticationWebhookConfiguration d config =
     (let extraArgs =
            dur_arg (anw_CacheAuthenticationTTL config) ''--authentication-token-webhook-cache-ttl=''
            @ when_arg (anw_Version config \<noteq> [])
                (''--authentication-token-webhook-version='' @ anw_Version config);
          volumeName = ''authentication-webhook-config'';
          mountPath = ''/etc/kcp/authentication/webhook'' in
      if anw_ConfigSecretName config = [] then
        bindE (add_args extraArgs (pod_of d)) (\<lambda>ps. Inr (set_pod ps d))
      else
        bindE (add_mounts [ro_mount volumeName mountPath] (pod_of d)) (\<lambda>ps.
        bindE (add_args (extraArgs
            @ [''--authentication-token-webhook-config-file='' @ mountPath @ ''/kubeconfig''])
          (add_volumes [secret_volume volumeName (anw_ConfigSecretName config)] ps)) (\<lambda>ps.
        Inr (set_pod ps d))))"

definition ApplyAuthConfiguration ::
    "Deployment \<Rightarrow> AuthSpec option \<Rightarrow> string \<Rightarrow> string list \<Rightarrow> Deployment res" where
  "ApplyAuthConfiguration d config rootShardName shardNames = (case config of
     None \<Rightarrow> Inr d
   | Some a \<Rightarrow>
       bindE (case auth_OIDC a of None \<Rightarrow> Inr d | Some o' \<Rightarrow> applyOIDCConfiguration d o') (\<lambda>d.
       bindE (case auth_Webhook a of None \<Rightarrow> Inr d
              | Some w \<Rightarrow> applyAuthenticationWebhookConfiguration d w) (\<lambda>d.
       bindE (case auth_TokenAuthFile a of None \<Rightarrow> Inr d | Some t \<Rightarrow> applyTokenAuthFile d t) (\<lambda>d.
       case auth_ServiceAccount a of
         None \<Rightarrow> Inr d
       | Some s \<Rightarrow> if saa_Enabled s
           then applyServiceAccountAuthentication d rootShardName shardNames else Inr d))))"

section \<open>Authorization\<close>

definition applyAuthorizationBaseConfiguration ::
    "Deployment \<Rightarrow> AuthorizationSpec \<Rightarrow> Deployment res" where
  "applyAuthorizationBaseConfiguration d config =
     (let extraArgs =
            (case az_AllowPaths config of None \<Rightarrow> []
             | Some ps \<Rightarrow> [''--authorization-always-allow-paths='' @ strings_Join ps '',''])
            @ (case az_Order config of None \<Rightarrow> []
               | Some os \<Rightarrow> [''--authorization-order='' @ strings_Join os '','']) in
      bindE (add_args extraArgs (pod_of d)) (\<lambda>ps. Inr (set_pod ps d)))"

definition applyAuthorizationWebhookConfiguration ::
    "Deployment \<Rightarrow> AuthorizationWebhookSpec \<Rightarrow> Deployment res" where
  "applyAuthorizationWebhookConfiguration d config =
     (let extraArgs =
            (case azw_AllowPaths config of None \<Rightarrow> []
             | Some ps \<Rightarrow> [''--authorization-always-allow-paths='' @ strings_Join ps '',''])
            @ dur_arg (azw_CacheAuthorizedTTL config) ''--authorization-webhook-cache-authorized-ttl=''
            @ dur_arg (azw_CacheUnauthorizedTTL config) ''--authorization-webhook-cache-unauthorized-ttl=''
            @ when_arg (azw_Version config \<noteq> []) (''--authorization-webhook-version='' @ azw_Version config);
          volumeName = ''authorization-webhook-config'';
          mountPath = ''/etc/kcp/authorization/webhook'' in
      if azw_ConfigSecretName config = [] then
        bindE (add_args extraArgs (pod_of d)) (\<lambda>ps. Inr (set_pod ps d))
      else
        bindE (add_mounts [ro_mount volumeName mountPath] (pod_of d)) (\<lambda>ps.
        bindE (add_args (extraArgs
            @ [''--authorization-webhook-config-file='' @ mountPath @ ''/kubeconfig''])
          (add_volumes [secret_volume volumeName (azw_ConfigSecretName config)] ps)) (\<lambda>ps.
        Inr (set_pod ps d))))"

definition applyAuthorizationConfiguration ::
    "Deployment \<Rightarrow> AuthorizationSpec option \<Rightarrow> Deployment res" where
  "applyAuthorizationConfiguration d config = (case config of
     None \<Rightarrow> Inr d
   | Some a \<Rightarrow>
       bindE (case az_Webhook a of None \<Rightarrow> Inr d
              | Some w \<Rightarrow> applyAuthorizationWebhookConfiguration d w) (\<lambda>d.
       applyAuthorizationBaseConfiguration d a))"

section \<open>Audit\<close>

definition applyAuditPolicyConfiguration ::
    "Deployment \<Rightarrow> AuditPolicySpec option \<Rightarrow> Deployment res" where
  "applyAuditPolicyConfiguration d config = (case config of
     None \<Rightarrow> Inr d
   | Some p \<Rightarrow> (case ap_ConfigMap p of
       None \<Rightarrow> bindE (add_args [] (pod_of d)) (\<lambda>ps. Inr (set_pod ps d))
     | Some cm \<Rightarrow>
         (let volumeName = ''audit-policy''; mountPath = ''/etc/kcp/audit/policy'' in
          bindE (add_mounts [ro_mount volumeName mountPath]
                   (add_volumes [configmap_volume volumeName (ldk_Name cm)] (pod_of d))) (\<lambda>ps.
          bindE (add_args [''--audit-policy-file='' @ mountPath @ ''/'' @ ldk_Key cm] ps) (\<lambda>ps.
          Inr (set_pod ps d))))))"

definition audit_webhook_args :: "AuditWebhookSpec \<Rightarrow> string list" where
  "audit_webhook_args c =
     when_arg (aw_BatchBufferSize c \<noteq> 0) (''--audit-webhook-batch-buffer-size='' @ Itoa (aw_BatchBufferSize c))
     @ when_arg (aw_BatchMaxSize c \<noteq> 0) (''--audit-webhook-batch-max-size='' @ Itoa (aw_BatchMaxSize c))
     @ dur_arg (aw_BatchMaxWait c) ''--audit-webhook-batch-max-wait=''
     @ when_arg (aw_BatchThrottleBurst c \<noteq> 0)
         (''--audit-webhook-batch-throttle-burst='' @ Itoa (aw_BatchThrottleBurst c))
     @ when_arg (aw_BatchThrottleEnable c) ''--audit-webhook-batch-throttle-enable''
     @ when_arg (aw_BatchThrottleQPS c \<noteq> []) (''--audit-webhook-batch-throttle-qps='' @ aw_BatchThrottleQPS c)
     @ dur_arg (aw_InitialBackoff c) ''--audit-webhook-initial-backoff=''
     @ when_arg (aw_Mode c \<noteq> []) (''--audit-webhook-mode='' @ aw_Mode c)
     @ when_arg (aw_TruncateEnabled c) ''--audit-webhook-truncate-enabled''
     @ when_arg (aw_TruncateMaxBatchSize c \<noteq> 0)
         (''--audit-webhook-truncate-max-batch-size='' @ Itoa (aw_TruncateMaxBatchSize c))
     @ when_arg (aw_TruncateMaxEventSize c \<noteq> 0)
         (''--audit-webhook-truncate-max-event-sizes='' @ Itoa (aw_TruncateMaxEventSize c))
     @ when_arg (aw_Version c \<noteq> []) (''--audit-webhook-version='' @ aw_Version c)"

definition applyAuditWebhookConfiguration ::
    "Deployment \<Rightarrow> AuditWebhookSpec option \<Rightarrow> Deployment res" where
  "applyAuditWebhookConfiguration d config = (case config of
     None \<Rightarrow> Inr d
   | Some w \<Rightarrow>
       (let volumeName = ''audit-webhook-config''; mountPath = ''/etc/kcp/audit/webhook'' in
        if aw_ConfigSecretName w = [] then
          bindE (add_args (audit_webhook_args w) (pod_of d)) (\<lambda>ps. Inr (set_pod ps d))
        else
          bindE (add_mounts [ro_mount volumeName mountPath] (pod_of d)) (\<lambda>ps.
          bindE (add_args (audit_webhook_args w
              @ [''--audit-webhook-config-file='' @ mountPath @ ''/kubeconfig''])
            (add_volumes [secret_volume volumeName (aw_ConfigSecretName w)] ps)) (\<lambda>ps.
          Inr (set_pod ps d)))))"

definition applyAuditConfiguration :: "Deployment \<Rightarrow> AuditSpec option \<Rightarrow> Deployment res" where
  "applyAuditConfiguration d config = (case config of
     None \<Rightarrow> Inr d
   | Some a \<Rightarrow> bindE (applyAuditPolicyConfiguration d (audit_Policy a)) (\<lambda>d.
       applyAuditWebhookConfiguration d (audit_Webhook a)))"

section \<open>Etcd and extra volumes\<close>

definition applyEtcdConfiguration :: "Deployment \<Rightarrow> EtcdConfig \<Rightarrow> Deployment res" where
  "applyEtcdConfiguration d config =
     (let servers = [''--etcd-servers='' @ strings_Join (etcd_Endpoints config) '',''];
          prefix = when_arg (etcd_Prefix config \<noteq> []) (''--etcd-prefix='' @ etcd_Prefix config);
          volumeName = ''etcd-client-cert''; mountPath = ''/etc/etcd/tls'' in
      bindE (add_args servers (pod_of d)) (\<lambda>ps.
      bindE (add_args prefix ps) (\<lambda>ps.
      case etcd_TLSConfig config of
        None \<Rightarrow> Inr (set_pod ps d)
      | Some tls \<Rightarrow>
          bindE (add_mounts [ro_mount volumeName mountPath] ps) (\<lambda>ps.
          bindE (add_args [''--etcd-certfile='' @ mountPath @ ''/tls.crt'',
                           ''--etcd-keyfile='' @ mountPath @ ''/tls.key'',
                           ''--etcd-cafile='' @ mountPath @ ''/ca.crt'']
                 (add_volumes [secret_volume volumeName (lor_Name (tls_SecretRef tls))] ps)) (\<lambda>ps.
          Inr (set_pod ps d))))))"

definition applyExtraVolumes ::
    "Deployment \<Rightarrow> Volume list \<Rightarrow> VolumeMount list \<Rightarrow> Deployment res" where
  "applyExtraVolumes d volumes volumeMounts =
     (if volumes = [] \<and> volumeMounts = [] then Inr d
      else bindE (add_mounts volumeMounts (add_volumes volumes (pod_of d))) (\<lambda>ps.
        Inr (set_pod ps d)))"

section \<open>Properties common to all shard deployments\<close>

definition getCommonShardBatteries :: "string list" where
  "getCommonShardBatteries = [''workspace-types'']"

definition GetCompiledShardBatteries :: "CompiledShard \<Rightarrow> string list" where
  "GetCompiledShardBatteries s = getCommonShardBatteries"

definition GetCompiledRootShardBatteries :: "CompiledRootShard \<Rightarrow> string list" where
  "GetCompiledRootShardBatteries s = getCommonShardBatteries"

definition https_probe :: "32 word \<Rightarrow> 32 word \<Rightarrow> 32 word \<Rightarrow> string \<Rightarrow> Probe" where
  "https_probe failures delay period path = \<lparr>pr_FailureThreshold = failures,
     pr_InitialDelaySeconds = delay, pr_PeriodSeconds = period, pr_SuccessThreshold = 1,
     pr_TimeoutSeconds = 10, pr_Path = path, pr_Port = ''https'', pr_Scheme = ''HTTPS''\<rparr>"

definition https_port :: ContainerPort where
  "https_port = \<lparr>cp_Name = ''https'', cp_ContainerPort = 6443, cp_Protocol = ''TCP''\<rparr>"

definition restricted_context :: SecurityContext where
  "restricted_context = \<lparr>sc_SeccompType = ''RuntimeDefault'', sc_ReadOnlyRootFilesystem = True,
     sc_AllowPrivilegeEscalation = False, sc_DropCapabilities = [''ALL'']\<rparr>"

definition ApplyCommonShardDeploymentProperties :: "Deployment \<Rightarrow> Deployment res" where
  "ApplyCommonShardDeploymentProperties d = (case ps_Containers (pod_of d) of
     [] \<Rightarrow> Inl (Panic ''Deployment does not contain any containers.'')
   | c # cs \<Rightarrow>
       Inr (set_pod ((pod_of d)\<lparr>ps_Containers := c\<lparr>
           ct_Ports := [https_port],
           ct_SecurityContext := Some restricted_context,
           ct_StartupProbe := Some (https_probe 60 10 5 ''/readyz''),
           ct_ReadinessProbe := Some (https_probe 6 10 10 ''/readyz''),
           ct_LivenessProbe := Some (https_probe 6 10 10 ''/livez'')\<rparr> # cs\<rparr>) d))"

text \<open>The replica count: the configured one; otherwise the existing one, so that an autoscaler
  may own it; otherwise 2.\<close>

definition default_replicas :: "32 word option \<Rightarrow> 32 word option \<Rightarrow> 32 word option" where
  "default_replicas configured existing = (case configured of
     Some r \<Rightarrow> Some r
   | None \<Rightarrow> (case existing of None \<Rightarrow> Some 2 | Some r \<Rightarrow> Some r))"

definition set_replicas :: "32 word option \<Rightarrow> Deployment \<Rightarrow> Deployment" where
  "set_replicas r d = d\<lparr>dep_Spec := (dep_Spec d)\<lparr>ds_Replicas := r\<rparr>\<rparr>"

definition ApplyCommonShardConfig ::
    "rstore \<Rightarrow> Deployment \<Rightarrow> 'a CommonShardSpec_scheme \<Rightarrow> (rstore \<times> Deployment) res" where
  "ApplyCommonShardConfig st d spec = (case ps_Containers (pod_of d) of
     [] \<Rightarrow> Inl (Panic ''Deployment does not contain any containers.'')
   | c # cs \<Rightarrow>
       (let (st', c1) = ApplyResources st c (cs_Resources spec);
            d1 = set_replicas (default_replicas (cs_Replicas spec) (ds_Replicas (dep_Spec d))) d;
            (image, imagePullSecrets, _) = GetImageSettings (\<lambda>_. None :: unit option) (cs_Image spec);
            d2 = set_pod ((pod_of d1)\<lparr>ps_ImagePullSecrets := imagePullSecrets,
                   ps_Containers := c1\<lparr>ct_Image := image\<rparr> # cs\<rparr>) d1 in
        bindE (applyEtcdConfiguration d2 (cs_Etcd spec)) (\<lambda>d.
        bindE (applyAuditConfiguration d (cs_Audit spec)) (\<lambda>d.
        bindE (applyAuthorizationConfiguration d (cs_Authorization spec)) (\<lambda>d.
        bindE (applyExtraVolumes d (cs_ExtraVolumes spec) (cs_ExtraVolumeMounts spec)) (\<lambda>d.
        Inr (st', d)))))))"

section \<open>Templates\<close>

text \<open>The existing entries win over the added ones.\<close>

definition mergeMaps :: "gomap \<Rightarrow> gomap \<Rightarrow> gomap" where
  "mergeMaps existing toAdd =
     (if toAdd = fmempty then existing else maps_Copy toAdd existing)"

lemma mget_mergeMaps [simp]:
  "mget (mergeMaps e a) k = (case mget e k of None \<Rightarrow> mget a k | Some v \<Rightarrow> Some v)"
  by (auto simp: mergeMaps_def split: option.splits)

lemma mergeMaps_idem [simp]: "mergeMaps (mergeMaps e a) a = mergeMaps e a"
  by (rule fmap_ext) (simp split: option.splits)

definition applyPodSpecTemplate :: "PodSpec \<Rightarrow> PodSpecTemplate option \<Rightarrow> PodSpec" where
  "applyPodSpecTemplate spec tpl = (case tpl of
     None \<Rightarrow> spec
   | Some t \<Rightarrow> spec\<lparr>ps_Affinity := pst_Affinity t, ps_NodeSelector := pst_NodeSelector t,
       ps_Tolerations := pst_Tolerations t, ps_HostAliases := pst_HostAliases t,
       ps_ImagePullSecrets := pst_ImagePullSecrets t,
       ps_TopologySpreadConstraints := pst_TopologySpreadConstraints t\<rparr>)"

definition applyPodTemplateSpec :: "PodTemplate \<Rightarrow> PodTemplateSpec option \<Rightarrow> PodTemplate" where
  "applyPodTemplateSpec p tpl = (case tpl of
     None \<Rightarrow> p
   | Some t \<Rightarrow>
       (let p1 = (case ptt_Metadata t of None \<Rightarrow> p
            | Some m \<Rightarrow> p\<lparr>pt_Annotations := mergeMaps (pt_Annotations p) (pmt_Annotations m),
                pt_Labels := mergeMaps (pt_Labels p) (pmt_Labels m)\<rparr>) in
        p1\<lparr>pt_Spec := applyPodSpecTemplate (pt_Spec p1) (ptt_Spec t)\<rparr>))"

definition applyDeploymentSpecTemplate ::
    "DeploymentSpec \<Rightarrow> DeploymentSpecTemplate option \<Rightarrow> DeploymentSpec" where
  "applyDeploymentSpecTemplate s tpl = (case tpl of
     None \<Rightarrow> s | Some t \<Rightarrow> s\<lparr>ds_Template := applyPodTemplateSpec (ds_Template s) (dtst_Template t)\<rparr>)"

definition ApplyDeploymentTemplate :: "Deployment \<Rightarrow> DeploymentTemplate option \<Rightarrow> Deployment" where
  "ApplyDeploymentTemplate d tpl = (case tpl of
     None \<Rightarrow> d
   | Some t \<Rightarrow>
       (let d1 = (case dtpl_Metadata t of None \<Rightarrow> d
            | Some m \<Rightarrow> d\<lparr>dep_Meta := (dep_Meta d)\<lparr>
                om_Annotations := mergeMaps (om_Annotations (dep_Meta d)) (dmt_Annotations m),
                om_Labels := mergeMaps (om_Labels (dep_Meta d)) (dmt_Labels m)\<rparr>\<rparr>) in
        d1\<lparr>dep_Spec := applyDeploymentSpecTemplate (dep_Spec d1) (dtpl_Spec t)\<rparr>))"

definition ApplyServiceTemplate :: "Service \<Rightarrow> ServiceTemplate option \<Rightarrow> Service" where
  "ApplyServiceTemplate svc tpl = (case tpl of
     None \<Rightarrow> svc
   | Some t \<Rightarrow>
       (let s1 = (case stpl_Metadata t of None \<Rightarrow> svc
            | Some m \<Rightarrow> svc\<lparr>svc_Meta := (svc_Meta svc)\<lparr>
                om_Annotations := mergeMaps (om_Annotations (svc_Meta svc)) (smt_Annotations m),
                om_Labels := mergeMaps (om_Labels (svc_Meta svc)) (smt_Labels m)\<rparr>\<rparr>) in
        case stpl_Spec t of
          None \<Rightarrow> s1
        | Some sp \<Rightarrow>
            (let s2 = (if sst_Type sp \<noteq> [] then s1\<lparr>svc_Type := sst_Type sp\<rparr> else s1) in
             if sst_ClusterIP sp \<noteq> [] then s2\<lparr>svc_ClusterIP := sst_ClusterIP sp\<rparr> else s2)))"

section \<open>Small helpers\<close>

record SecretMount =
  sm_VolumeName :: string
  sm_SecretName :: string
  sm_MountPath :: string

definition SecretMount_Build :: "SecretMount \<Rightarrow> Volume \<times> VolumeMount" where
  "SecretMount_Build sm = (secret_volume (sm_VolumeName sm) (sm_SecretName sm),
     ro_mount (sm_VolumeName sm) (sm_MountPath sm))"

definition secret_mount :: "string \<Rightarrow> string \<Rightarrow> string \<Rightarrow> SecretMount" where
  "secret_mount v s m = \<lparr>sm_VolumeName = v, sm_SecretName = s, sm_MountPath = m\<rparr>"

lemma secret_mount_simps [simp]:
  "sm_VolumeName (secret_mount v s m) = v" "sm_SecretName (secret_mount v s m) = s"
  "sm_MountPath (secret_mount v s m) = m"
  by (simp_all add: secret_mount_def)

lemma map_build:
  "map vol_Name (map (fst \<circ> SecretMount_Build) sms) = map sm_VolumeName sms"
  "map vm_MountPath (map (snd \<circ> SecretMount_Build) sms) = map sm_MountPath sms"
  by (simp_all add: SecretMount_Build_def)

lemma build_names:
  "vm_Name ` set (map (snd \<circ> SecretMount_Build) sms) = sm_VolumeName ` set sms"
  "vol_Name ` set (map (fst \<circ> SecretMount_Build) sms) = sm_VolumeName ` set sms"
  by (simp_all add: image_image SecretMount_Build_def)

definition ShardNames :: "Shard list \<Rightarrow> string list" where
  "ShardNames shards = map (\<lambda>s. om_Name (sh_Meta s)) shards"

definition GetLoggingArgs :: "LoggingSpec option \<Rightarrow> string list" where
  "GetLoggingArgs spec = (case spec of None \<Rightarrow> []
     | Some s \<Rightarrow> when_arg (log_Level s \<noteq> 0) (''-v='' @ Itoa (log_Level s)))"

definition GetFrontProxyExternalPort :: "FrontProxySpec \<Rightarrow> RootShardSpec \<Rightarrow> int" where
  "GetFrontProxyExternalPort fp rootShard =
     (if ext_Port (fp_External fp) > 0 then uint (ext_Port (fp_External fp))
      else if fp_ExternalHostname fp \<noteq> [] then
        (case SplitHostPort (fp_ExternalHostname fp) of
           None \<Rightarrow> 6443
         | Some (_, port) \<Rightarrow> (case Atoi port of None \<Rightarrow> 6443 | Some p \<Rightarrow> p))
      else if ext_Port (rs_External rootShard) > 0 then uint (ext_Port (rs_External rootShard))
      else 6443)"

end
