(* ===== verification/Deploy_Contract.thy ===== *)
theory Deploy_Contract
  imports Deploy_Utils
begin

text \<open>
  The contract of the helpers that modify a deployment, as a locale: on a pod with at least one
  container a helper succeeds and does nothing but append arguments and mounts to the first
  container and volumes to the pod, and what it appends depends on its configuration only (its
  contribution). \<open>closed_modifier\<close> adds that every mount it appends names a volume it appends.
  Each helper of \<open>Deploy_Utils\<close> is an instance; the composite helpers are instances whose
  contribution is the concatenation of their parts.
\<close>

record contrib =
  k_Args :: "string list"
  k_Mounts :: "VolumeMount list"
  k_Volumes :: "Volume list"

definition k_empty :: contrib where
  "k_empty = \<lparr>k_Args = [], k_Mounts = [], k_Volumes = []\<rparr>"

definition k_append :: "contrib \<Rightarrow> contrib \<Rightarrow> contrib" where
  "k_append a b = \<lparr>k_Args = k_Args a @ k_Args b, k_Mounts = k_Mounts a @ k_Mounts b,
     k_Volumes = k_Volumes a @ k_Volumes b\<rparr>"

lemma k_append_simps [simp]:
  "k_Args (k_append a b) = k_Args a @ k_Args b"
  "k_Mounts (k_append a b) = k_Mounts a @ k_Mounts b"
  "k_Volumes (k_append a b) = k_Volumes a @ k_Volumes b"
  "k_Args k_empty = []" "k_Mounts k_empty = []" "k_Volumes k_empty = []"
  by (simp_all add: k_append_def k_empty_def)

lemma k_append_assoc [simp]: "k_append (k_append a b) c = k_append a (k_append b c)"
  by (simp add: k_append_def)

lemma k_append_empty [simp]: "k_append k k_empty = k" "k_append k_empty k = k"
  by (cases k; simp add: k_append_def k_empty_def)+

definition k_closed :: "contrib \<Rightarrow> bool" where
  "k_closed k \<longleftrightarrow> set (map vm_Name (k_Mounts k)) \<subseteq> set (map vol_Name (k_Volumes k))"

lemma k_closed_empty [simp]: "k_closed k_empty"
  by (simp add: k_closed_def)

lemma k_closed_append: "k_closed a \<Longrightarrow> k_closed b \<Longrightarrow> k_closed (k_append a b)"
  by (auto simp: k_closed_def)

definition extend_pod :: "contrib \<Rightarrow> PodSpec \<Rightarrow> PodSpec" where
  "extend_pod k ps = (case ps_Containers ps of [] \<Rightarrow> ps
     | c # cs \<Rightarrow> ps\<lparr>ps_Containers := c\<lparr>ct_Args := ct_Args c @ k_Args k,
           ct_VolumeMounts := ct_VolumeMounts c @ k_Mounts k\<rparr> # cs,
         ps_Volumes := ps_Volumes ps @ k_Volumes k\<rparr>)"

definition extend :: "contrib \<Rightarrow> Deployment \<Rightarrow> Deployment" where
  "extend k d = set_pod (extend_pod k (pod_of d)) d"

definition has_container :: "Deployment \<Rightarrow> bool" where
  "has_container d \<longleftrightarrow> ps_Containers (pod_of d) \<noteq> []"

lemma extend_pod_none [simp]: "extend_pod \<lparr>k_Args = [], k_Mounts = [], k_Volumes = []\<rparr> ps = ps"
  by (cases ps; cases "ps_Containers ps") (auto simp: extend_pod_def)

lemma extend_empty [simp]: "extend k_empty d = d"
  by (simp add: extend_def k_empty_def)

lemma extend_extend: "extend b (extend a d) = extend (k_append a b) d"
proof -
  have "extend_pod b (extend_pod a ps) = extend_pod (k_append a b) ps" for ps
    by (cases ps; cases "ps_Containers ps") (auto simp: extend_pod_def)
  then show ?thesis by (simp add: extend_def)
qed

lemma has_container_extend [simp]: "has_container (extend k d) = has_container d"
  by (auto simp: has_container_def extend_def extend_pod_def split: list.splits)

lemma containers_extend:
  "ps_Containers (pod_of d) = c # cs \<Longrightarrow> ps_Containers (pod_of (extend k d))
     = c\<lparr>ct_Args := ct_Args c @ k_Args k, ct_VolumeMounts := ct_VolumeMounts c @ k_Mounts k\<rparr> # cs"
  "ps_Containers (pod_of d) = c # cs \<Longrightarrow> ps_Volumes (pod_of (extend k d))
     = ps_Volumes (pod_of d) @ k_Volumes k"
  by (simp_all add: extend_def extend_pod_def)

text \<open>Everything outside the first container and the volumes stays.\<close>

lemma extend_keeps [simp]:
  "dep_Meta (extend k d) = dep_Meta d"
  "ds_Replicas (dep_Spec (extend k d)) = ds_Replicas (dep_Spec d)"
  "ds_Selector (dep_Spec (extend k d)) = ds_Selector (dep_Spec d)"
  "pt_Labels (ds_Template (dep_Spec (extend k d))) = pt_Labels (ds_Template (dep_Spec d))"
  "ps_InitContainers (pod_of (extend k d)) = ps_InitContainers (pod_of d)"
  "ps_ImagePullSecrets (pod_of (extend k d)) = ps_ImagePullSecrets (pod_of d)"
  by (auto simp: extend_def set_pod_def extend_pod_def pod_of_def split: list.splits)

section \<open>Mounts name declared volumes\<close>

definition mounts_declared :: "Deployment \<Rightarrow> bool" where
  "mounts_declared d \<longleftrightarrow>
     (\<forall>c \<in> set (ps_InitContainers (pod_of d)) \<union> set (ps_Containers (pod_of d)).
        \<forall>m \<in> set (ct_VolumeMounts c). vm_Name m \<in> vol_Name ` set (ps_Volumes (pod_of d)))"

lemma mounts_declared_extend:
  assumes "mounts_declared d"
    "set (map vm_Name (k_Mounts k)) \<subseteq> set (map vol_Name (ps_Volumes (pod_of d) @ k_Volumes k))"
  shows "mounts_declared (extend k d)"
proof (cases "ps_Containers (pod_of d)")
  case Nil
  then have "extend k d = d" by (simp add: extend_def extend_pod_def)
  then show ?thesis using assms by simp
next
  case (Cons c cs)
  have old: "vm_Name m \<in> vol_Name ` set (ps_Volumes (pod_of d) @ k_Volumes k)"
    if "x \<in> set (ps_InitContainers (pod_of d)) \<union> set (c # cs)" "m \<in> set (ct_VolumeMounts x)" for x m
  proof -
    have "vm_Name m \<in> vol_Name ` set (ps_Volumes (pod_of d))"
      using assms(1) that unfolding mounts_declared_def Cons by blast
    then show ?thesis by auto
  qed
  have new: "vm_Name m \<in> vol_Name ` set (ps_Volumes (pod_of d) @ k_Volumes k)"
    if "m \<in> set (k_Mounts k)" for m
    using assms(2) that by auto
  show ?thesis using old new
    unfolding mounts_declared_def containers_extend [OF Cons] extend_keeps by fastforce
qed

lemma mounts_declared_extend_closed:
  "mounts_declared d \<Longrightarrow> k_closed k \<Longrightarrow> mounts_declared (extend k d)"
  by (rule mounts_declared_extend) (auto simp: k_closed_def)

section \<open>The contract\<close>

definition opt_contrib :: "('a \<Rightarrow> contrib) \<Rightarrow> 'a option \<Rightarrow> contrib" where
  "opt_contrib k oc = (case oc of None \<Rightarrow> k_empty | Some c \<Rightarrow> k c)"

lemma opt_contrib_simps [simp]: "opt_contrib k None = k_empty" "opt_contrib k (Some c) = k c"
  by (simp_all add: opt_contrib_def)

lemma opt_contrib_closed: "(\<And>c. k_closed (k c)) \<Longrightarrow> k_closed (opt_contrib k oc)"
  by (cases oc) simp_all

locale deployment_modifier =
  fixes modify :: "'cfg \<Rightarrow> Deployment \<Rightarrow> Deployment res"
    and contribution :: "'cfg \<Rightarrow> contrib"
  assumes modify_extends: "has_container d \<Longrightarrow> modify cfg d = Inr (extend (contribution cfg) d)"
begin

lemma modify_total: "has_container d \<Longrightarrow> \<exists>d'. modify cfg d = Inr d'"
  by (simp add: modify_extends)

lemma modify_has_container: "has_container d \<Longrightarrow> modify cfg d = Inr d' \<Longrightarrow> has_container d'"
  by (auto simp: modify_extends)

lemma modify_args:
  "ps_Containers (pod_of d) = c # cs \<Longrightarrow> modify cfg d = Inr d' \<Longrightarrow>
     \<exists>c'. ps_Containers (pod_of d') = c' # cs \<and> ct_Args c' = ct_Args c @ k_Args (contribution cfg)
       \<and> ct_Image c' = ct_Image c \<and> ct_Resources c' = ct_Resources c"
  using modify_extends [of d cfg] by (auto simp: has_container_def containers_extend)

text \<open>Running two modifiers in sequence appends the concatenation of what they append.\<close>

lemma modify_then:
  assumes "deployment_modifier f kf" "has_container d"
  shows "bindE (modify cfg d) (f cfg') = Inr (extend (k_append (contribution cfg) (kf cfg')) d)"
  using assms by (simp add: modify_extends deployment_modifier.modify_extends extend_extend)

text \<open>An absent configuration contributes nothing.\<close>

lemma modify_option:
  "has_container d \<Longrightarrow> (case oc of None \<Rightarrow> Inr d | Some cfg \<Rightarrow> modify cfg d)
     = Inr (extend (opt_contrib contribution oc) d)"
  by (cases oc) (simp_all add: modify_extends)

end

locale closed_modifier = deployment_modifier +
  assumes contribution_closed: "k_closed (contribution cfg)"
begin

lemma modify_mounts_declared:
  "has_container d \<Longrightarrow> mounts_declared d \<Longrightarrow> modify cfg d = Inr d' \<Longrightarrow> mounts_declared d'"
  using contribution_closed by (auto simp: modify_extends intro: mounts_declared_extend_closed)

end

section \<open>Instances\<close>

lemma add_args_extend:
  "has_container d \<Longrightarrow> bindE (add_args as (pod_of d)) (\<lambda>ps. Inr (set_pod ps d))
     = Inr (extend (k_empty\<lparr>k_Args := as\<rparr>) d)"
  by (cases "pod_of d")
    (auto simp: has_container_def extend_def extend_pod_def add_args_def upd_c0_def k_empty_def
      split: list.splits)

text \<open>The pattern most helpers share: mounts, volumes and arguments, in some order.\<close>

lemma extend_pod_parts:
  assumes "ps_Containers ps \<noteq> []"
  shows "add_args as ps = Inr (extend_pod (k_empty\<lparr>k_Args := as\<rparr>) ps)"
    and "add_mounts ms ps = Inr (extend_pod (k_empty\<lparr>k_Mounts := ms\<rparr>) ps)"
    and "add_volumes vs ps = extend_pod (k_empty\<lparr>k_Volumes := vs\<rparr>) ps"
  using assms
  by (cases ps; auto simp: add_args_def add_mounts_def add_volumes_def upd_c0_def extend_pod_def
      k_empty_def split: list.splits)+

lemma extend_pod_nonempty [simp]: "ps_Containers (extend_pod k ps) = [] \<longleftrightarrow> ps_Containers ps = []"
  by (auto simp: extend_pod_def split: list.splits)

lemma extend_pod_extend_pod [simp]:
  "extend_pod b (extend_pod a ps) = extend_pod (k_append a b) ps"
  by (cases ps; cases "ps_Containers ps") (auto simp: extend_pod_def)

lemmas modifier_simps = extend_pod_parts extend_def has_container_def k_append_def k_empty_def

definition k_secret :: "string list \<Rightarrow> string \<Rightarrow> string \<Rightarrow> string \<Rightarrow> contrib" where
  "k_secret as vname sname path = \<lparr>k_Args = as, k_Mounts = [ro_mount vname path],
     k_Volumes = [secret_volume vname sname]\<rparr>"

definition k_args :: "string list \<Rightarrow> contrib" where
  "k_args as = k_empty\<lparr>k_Args := as\<rparr>"

lemma k_secret_closed [simp]: "k_closed (k_secret as v s p)" "k_closed (k_args as)"
  by (simp_all add: k_closed_def k_secret_def k_args_def k_empty_def)

definition oidc_contrib :: "OIDCConfiguration \<Rightarrow> contrib" where
  "oidc_contrib c = (case oidc_CAFileRef c of None \<Rightarrow> k_args (oidc_args c)
     | Some v \<Rightarrow> k_secret (oidc_args c @ [''--oidc-ca-file=/etc/kcp/tls/oidc/'' @ ocf_Key v])
         ''oidc-ca-file'' (ocf_Name v) ''/etc/kcp/tls/oidc'')"

interpretation oidc: closed_modifier "\<lambda>c d. applyOIDCConfiguration d c" oidc_contrib
  by unfold_locales (auto simp: applyOIDCConfiguration_def oidc_contrib_def k_secret_def
      k_args_def modifier_simps k_closed_def split: option.splits)

definition token_contrib :: "TokenAuthFileSpec \<Rightarrow> contrib" where
  "token_contrib t = k_secret [''--token-auth-file=/etc/kcp/authentication/token/''
       @ (if taf_Key t = [] then ''token.csv'' else taf_Key t)]
     ''token-auth-file'' (taf_SecretName t) ''/etc/kcp/authentication/token''"

interpretation token: closed_modifier "\<lambda>c d. applyTokenAuthFile d c" token_contrib
  by unfold_locales (auto simp: applyTokenAuthFile_def token_contrib_def k_secret_def Let_def
      modifier_simps k_closed_def)

definition authn_webhook_contrib :: "AuthenticationWebhookSpec \<Rightarrow> contrib" where
  "authn_webhook_contrib w =
     (let as = dur_arg (anw_CacheAuthenticationTTL w) ''--authentication-token-webhook-cache-ttl=''
          @ when_arg (anw_Version w \<noteq> []) (''--authentication-token-webhook-version='' @ anw_Version w) in
      if anw_ConfigSecretName w = [] then k_args as
      else k_secret (as @ [''--authentication-token-webhook-config-file=/etc/kcp/authentication/webhook/kubeconfig''])
        ''authentication-webhook-config'' (anw_ConfigSecretName w) ''/etc/kcp/authentication/webhook'')"

interpretation authn_webhook: closed_modifier
  "\<lambda>c d. applyAuthenticationWebhookConfiguration d c" authn_webhook_contrib
  by unfold_locales (auto simp: applyAuthenticationWebhookConfiguration_def
      authn_webhook_contrib_def k_secret_def k_args_def Let_def modifier_simps k_closed_def)

definition sa_contrib :: "string \<times> string list \<Rightarrow> contrib" where
  "sa_contrib x = (case x of (r, ss) \<Rightarrow>
     \<lparr>k_Args = ''--service-account-lookup=false''
        # map (\<lambda>n. ''--service-account-key-file=/etc/kcp/tls/'' @ n @ ''/service-account/tls.crt'') (r # ss),
      k_Mounts = map (\<lambda>n. ro_mount (sa_cert_name n) (''/etc/kcp/tls/'' @ n @ ''/service-account'')) (r # ss),
      k_Volumes = map (\<lambda>n. secret_volume (sa_cert_name n) (sa_cert_name n)) (r # ss)\<rparr>)"

interpretation service_account: closed_modifier
  "\<lambda>x d. applyServiceAccountAuthentication d (fst x) (snd x)" sa_contrib
  by unfold_locales (auto simp: applyServiceAccountAuthentication_def sa_contrib_def Let_def
      modifier_simps k_closed_def image_image split: prod.splits)

definition auth_contrib :: "string \<Rightarrow> string list \<Rightarrow> AuthSpec \<Rightarrow> contrib" where
  "auth_contrib r ss a =
     k_append (opt_contrib oidc_contrib (auth_OIDC a))
     (k_append (opt_contrib authn_webhook_contrib (auth_Webhook a))
     (k_append (opt_contrib token_contrib (auth_TokenAuthFile a))
       (case auth_ServiceAccount a of None \<Rightarrow> k_empty
        | Some s \<Rightarrow> if saa_Enabled s then sa_contrib (r, ss) else k_empty)))"

lemmas option_steps = oidc.modify_option token.modify_option authn_webhook.modify_option

lemma sa_extends:
  "has_container d \<Longrightarrow> applyServiceAccountAuthentication d r ss = Inr (extend (sa_contrib (r, ss)) d)"
  using service_account.modify_extends [of d "(r, ss)"] by simp

interpretation auth: closed_modifier
  "\<lambda>x d. ApplyAuthConfiguration d (fst x) (fst (snd x)) (snd (snd x))"
  "\<lambda>x. opt_contrib (auth_contrib (fst (snd x)) (snd (snd x))) (fst x)"
proof unfold_locales
  fix d and cfg :: "AuthSpec option \<times> string \<times> string list"
  assume h: "has_container d"
  obtain a r ss where cfg: "cfg = (a, r, ss)" by (cases cfg) auto
  show "ApplyAuthConfiguration d (fst cfg) (fst (snd cfg)) (snd (snd cfg))
      = Inr (extend (opt_contrib (auth_contrib (fst (snd cfg)) (snd (snd cfg))) (fst cfg)) d)"
    using h by (cases a) (simp_all add: cfg ApplyAuthConfiguration_def auth_contrib_def
        option_steps sa_extends extend_extend split: option.splits)
next
  fix cfg :: "AuthSpec option \<times> string \<times> string list"
  show "k_closed (opt_contrib (auth_contrib (fst (snd cfg)) (snd (snd cfg))) (fst cfg))"
    by (rule opt_contrib_closed)
      (auto simp: auth_contrib_def intro!: k_closed_append opt_contrib_closed
        oidc.contribution_closed authn_webhook.contribution_closed token.contribution_closed
        service_account.contribution_closed split: option.splits)
qed

section \<open>Authorization, audit, etcd and extra volumes\<close>

definition authz_base_contrib :: "AuthorizationSpec \<Rightarrow> contrib" where
  "authz_base_contrib a = k_args
     ((case az_AllowPaths a of None \<Rightarrow> []
       | Some ps \<Rightarrow> [''--authorization-always-allow-paths='' @ strings_Join ps '',''])
      @ (case az_Order a of None \<Rightarrow> []
         | Some os \<Rightarrow> [''--authorization-order='' @ strings_Join os '','']))"

interpretation authz_base: closed_modifier
  "\<lambda>c d. applyAuthorizationBaseConfiguration d c" authz_base_contrib
  by unfold_locales (auto simp: applyAuthorizationBaseConfiguration_def authz_base_contrib_def
      add_args_extend k_args_def Let_def k_closed_def k_empty_def)

definition authz_webhook_contrib :: "AuthorizationWebhookSpec \<Rightarrow> contrib" where
  "authz_webhook_contrib w =
     (let as = (case azw_AllowPaths w of None \<Rightarrow> []
            | Some ps \<Rightarrow> [''--authorization-always-allow-paths='' @ strings_Join ps '',''])
          @ dur_arg (azw_CacheAuthorizedTTL w) ''--authorization-webhook-cache-authorized-ttl=''
          @ dur_arg (azw_CacheUnauthorizedTTL w) ''--authorization-webhook-cache-unauthorized-ttl=''
          @ when_arg (azw_Version w \<noteq> []) (''--authorization-webhook-version='' @ azw_Version w) in
      if azw_ConfigSecretName w = [] then k_args as
      else k_secret (as @ [''--authorization-webhook-config-file=/etc/kcp/authorization/webhook/kubeconfig''])
        ''authorization-webhook-config'' (azw_ConfigSecretName w) ''/etc/kcp/authorization/webhook'')"

interpretation authz_webhook: closed_modifier
  "\<lambda>c d. applyAuthorizationWebhookConfiguration d c" authz_webhook_contrib
  by unfold_locales (auto simp: applyAuthorizationWebhookConfiguration_def
      authz_webhook_contrib_def k_secret_def k_args_def Let_def modifier_simps k_closed_def)

definition authz_contrib :: "AuthorizationSpec \<Rightarrow> contrib" where
  "authz_contrib a = k_append (opt_contrib authz_webhook_contrib (az_Webhook a)) (authz_base_contrib a)"

interpretation authz: closed_modifier
  "\<lambda>c d. applyAuthorizationConfiguration d c" "opt_contrib authz_contrib"
proof unfold_locales
  fix d and cfg :: "AuthorizationSpec option"
  assume h: "has_container d"
  show "applyAuthorizationConfiguration d cfg = Inr (extend (opt_contrib authz_contrib cfg) d)"
    using h by (cases cfg) (simp_all add: applyAuthorizationConfiguration_def authz_contrib_def
        authz_webhook.modify_option authz_base.modify_extends extend_extend)
next
  fix cfg :: "AuthorizationSpec option"
  show "k_closed (opt_contrib authz_contrib cfg)"
    by (rule opt_contrib_closed) (auto simp: authz_contrib_def intro!: k_closed_append
        opt_contrib_closed authz_webhook.contribution_closed authz_base.contribution_closed)
qed

definition audit_policy_contrib :: "AuditPolicySpec \<Rightarrow> contrib" where
  "audit_policy_contrib p = (case ap_ConfigMap p of None \<Rightarrow> k_empty
     | Some cm \<Rightarrow> \<lparr>k_Args = [''--audit-policy-file=/etc/kcp/audit/policy/'' @ ldk_Key cm],
         k_Mounts = [ro_mount ''audit-policy'' ''/etc/kcp/audit/policy''],
         k_Volumes = [configmap_volume ''audit-policy'' (ldk_Name cm)]\<rparr>)"

interpretation audit_policy: closed_modifier
  "\<lambda>c d. applyAuditPolicyConfiguration d c" "opt_contrib audit_policy_contrib"
  by unfold_locales (auto simp: applyAuditPolicyConfiguration_def audit_policy_contrib_def
      opt_contrib_def Let_def modifier_simps k_closed_def split: option.splits)

definition audit_webhook_contrib :: "AuditWebhookSpec \<Rightarrow> contrib" where
  "audit_webhook_contrib w = (if aw_ConfigSecretName w = [] then k_args (audit_webhook_args w)
     else k_secret (audit_webhook_args w @ [''--audit-webhook-config-file=/etc/kcp/audit/webhook/kubeconfig''])
       ''audit-webhook-config'' (aw_ConfigSecretName w) ''/etc/kcp/audit/webhook'')"

interpretation audit_webhook: closed_modifier
  "\<lambda>c d. applyAuditWebhookConfiguration d c" "opt_contrib audit_webhook_contrib"
  by unfold_locales (auto simp: applyAuditWebhookConfiguration_def audit_webhook_contrib_def
      opt_contrib_def Let_def modifier_simps k_closed_def k_secret_def k_args_def
      split: option.splits)

definition audit_contrib :: "AuditSpec \<Rightarrow> contrib" where
  "audit_contrib a = k_append (opt_contrib audit_policy_contrib (audit_Policy a))
     (opt_contrib audit_webhook_contrib (audit_Webhook a))"

interpretation audit: closed_modifier
  "\<lambda>c d. applyAuditConfiguration d c" "opt_contrib audit_contrib"
proof unfold_locales
  fix d and cfg :: "AuditSpec option"
  assume h: "has_container d"
  show "applyAuditConfiguration d cfg = Inr (extend (opt_contrib audit_contrib cfg) d)"
    using h by (cases cfg) (simp_all add: applyAuditConfiguration_def audit_contrib_def
        audit_policy.modify_extends audit_webhook.modify_extends extend_extend)
next
  fix cfg :: "AuditSpec option"
  show "k_closed (opt_contrib audit_contrib cfg)"
    by (rule opt_contrib_closed) (auto simp: audit_contrib_def intro!: k_closed_append
        audit_policy.contribution_closed audit_webhook.contribution_closed)
qed

definition etcd_contrib :: "EtcdConfig \<Rightarrow> contrib" where
  "etcd_contrib e =
     (let as = (''--etcd-servers='' @ strings_Join (etcd_Endpoints e) '','')
          # when_arg (etcd_Prefix e \<noteq> []) (''--etcd-prefix='' @ etcd_Prefix e) in
      case etcd_TLSConfig e of None \<Rightarrow> k_args as
      | Some tls \<Rightarrow> k_secret (as @ [''--etcd-certfile=/etc/etcd/tls/tls.crt'',
            ''--etcd-keyfile=/etc/etcd/tls/tls.key'', ''--etcd-cafile=/etc/etcd/tls/ca.crt''])
          ''etcd-client-cert'' (lor_Name (tls_SecretRef tls)) ''/etc/etcd/tls'')"

interpretation etcd: closed_modifier "\<lambda>c d. applyEtcdConfiguration d c" etcd_contrib
  by unfold_locales (auto simp: applyEtcdConfiguration_def etcd_contrib_def Let_def
      modifier_simps k_closed_def k_secret_def k_args_def split: option.splits)

text \<open>Extra volumes and mounts come from the user, so nothing ties the mounts to the volumes:
  an instance of the weaker contract.\<close>

definition extra_contrib :: "Volume list \<times> VolumeMount list \<Rightarrow> contrib" where
  "extra_contrib x = \<lparr>k_Args = [], k_Mounts = snd x, k_Volumes = fst x\<rparr>"

interpretation extra: deployment_modifier
  "\<lambda>x d. applyExtraVolumes d (fst x) (snd x)" extra_contrib
proof unfold_locales
  fix d and cfg :: "Volume list \<times> VolumeMount list"
  assume h: "has_container d"
  show "applyExtraVolumes d (fst cfg) (snd cfg) = Inr (extend (extra_contrib cfg) d)"
  proof (cases "fst cfg = [] \<and> snd cfg = []")
    case True
    then have "extra_contrib cfg = k_empty" by (simp add: extra_contrib_def k_empty_def)
    then show ?thesis using True by (simp add: applyExtraVolumes_def)
  next
    case False
    then show ?thesis using h
      by (auto simp: applyExtraVolumes_def extra_contrib_def modifier_simps)
  qed
qed

section \<open>ApplyCommonShardConfig\<close>

definition common_contrib :: "'a CommonShardSpec_scheme \<Rightarrow> contrib" where
  "common_contrib spec =
     k_append (etcd_contrib (cs_Etcd spec))
     (k_append (opt_contrib audit_contrib (cs_Audit spec))
     (k_append (opt_contrib authz_contrib (cs_Authorization spec))
       (extra_contrib (cs_ExtraVolumes spec, cs_ExtraVolumeMounts spec))))"

definition common_base :: "rstore \<Rightarrow> Deployment \<Rightarrow> 'a CommonShardSpec_scheme \<Rightarrow> Deployment" where
  "common_base st d spec =
     (let d1 = set_replicas (default_replicas (cs_Replicas spec) (ds_Replicas (dep_Spec d))) d;
          ps = pod_of d in
      set_pod (ps\<lparr>ps_ImagePullSecrets := fst (snd (GetImageSettings (\<lambda>_. None :: unit option) (cs_Image spec))),
         ps_Containers := (snd (ApplyResources st (hd (ps_Containers ps)) (cs_Resources spec)))
             \<lparr>ct_Image := fst (GetImageSettings (\<lambda>_. None :: unit option) (cs_Image spec))\<rparr>
           # tl (ps_Containers ps)\<rparr>) d1)"

lemma pod_of_set_replicas [simp]: "pod_of (set_replicas r d) = pod_of d"
  by (simp add: pod_of_def set_replicas_def)

lemma extra_extends:
  "has_container d \<Longrightarrow> applyExtraVolumes d v m = Inr (extend (extra_contrib (v, m)) d)"
  using extra.modify_extends [of d "(v, m)"] by simp

lemma ApplyCommonShardConfig_extends:
  assumes "has_container d"
  shows "ApplyCommonShardConfig st d spec =
     Inr (fst (ApplyResources st (hd (ps_Containers (pod_of d))) (cs_Resources spec)),
          extend (common_contrib spec) (common_base st d spec))"
proof -
  obtain c cs where cs: "ps_Containers (pod_of d) = c # cs"
    using assms by (cases "ps_Containers (pod_of d)") (auto simp: has_container_def)
  have "has_container (common_base st d spec)"
    by (simp add: has_container_def common_base_def Let_def)
  then show ?thesis
    by (simp add: ApplyCommonShardConfig_def cs common_base_def Let_def split_beta
        etcd.modify_extends audit.modify_extends authz.modify_extends extra_extends
        extend_extend common_contrib_def)
qed

lemma common_contrib_closed:
  assumes "set (map vm_Name (cs_ExtraVolumeMounts spec)) \<subseteq> set (map vol_Name (cs_ExtraVolumes spec))"
  shows "k_closed (common_contrib spec)"
  unfolding common_contrib_def using assms
  by (intro k_closed_append etcd.contribution_closed audit.contribution_closed
      authz.contribution_closed) (simp add: k_closed_def extra_contrib_def)

end
