(* ===== verification/Shard_Deployments.thy ===== *)
theory Shard_Deployments
  imports Deploy_Contract
begin

text \<open>
  The Deployments and Services of root shards and shards
  (\<open>internal/resources/compiledrootshard\<close>, \<open>internal/resources/compiledshard\<close>).

  Both deployment reconcilers end in the same steps, \<open>shard_pipeline\<close>: label the object, put in
  one container built from the arguments and the secret mounts, and run the helpers of
  \<open>Deploy_Utils\<close> over it. The resource store is threaded through, because the container refers
  to the package's default resource maps.

  \<open>semver\<close> is third-party: \<open>newVersion\<close> parses a tag and \<open>check\<close> tests a version against a
  constraint.
\<close>

section \<open>Mount paths\<close>

definition shard_getCertificateMountPath :: "Certificate \<Rightarrow> string" where
  "shard_getCertificateMountPath c = ''/etc/kcp/tls/'' @ cert_str c"

definition shard_getCAMountPath :: "CA \<Rightarrow> string" where
  "shard_getCAMountPath c = ''/etc/kcp/tls/ca/'' @ ca_str c"

definition shard_getKubeconfigMountPath :: "Certificate \<Rightarrow> string" where
  "shard_getKubeconfigMountPath c = ''/etc/kcp/'' @ cert_str c @ ''-kubeconfig''"

definition getCacheServerKubeconfigMountPath :: string where
  "getCacheServerKubeconfigMountPath = ''/etc/cache-server/kubeconfig''"

definition getCacheServerCAMountPath :: "CA \<Rightarrow> string" where
  "getCacheServerCAMountPath c = ''/etc/cache-server/tls/ca/'' @ ca_str c"

definition getCacheServerClientCertMountPath :: string where
  "getCacheServerClientCertMountPath = ''/etc/cache-server/tls/client-certificate''"

lemmas path_defs = shard_getCertificateMountPath_def shard_getCAMountPath_def
  shard_getKubeconfigMountPath_def getCacheServerKubeconfigMountPath_def
  getCacheServerCAMountPath_def getCacheServerClientCertMountPath_def

definition cache_mounts :: "string \<Rightarrow> SecretMount list" where
  "cache_mounts ref =
     [secret_mount ''cache-server-kubeconfig'' (GetCacheServerKubeconfigName ref)
        getCacheServerKubeconfigMountPath,
      secret_mount ''cache-server-ca'' (GetCacheServerCAName ref RootCA)
        (getCacheServerCAMountPath RootCA),
      secret_mount ''cache-server-client-cert'' (ref @ ''-client-certificate'')
        getCacheServerClientCertMountPath]"

section \<open>The common steps\<close>

definition label_deployment :: "gomap \<Rightarrow> Deployment \<Rightarrow> Deployment" where
  "label_deployment labels dep = dep\<lparr>
     dep_Meta := (dep_Meta dep)\<lparr>om_Labels := labels\<rparr>,
     dep_Spec := (dep_Spec dep)\<lparr>ds_Selector := Some labels,
       ds_Template := (ds_Template (dep_Spec dep))\<lparr>pt_Labels := labels\<rparr>\<rparr>\<rparr>"

definition kcp_container :: "string list \<Rightarrow> SecretMount list \<Rightarrow> ContainerResources \<Rightarrow> Container" where
  "kcp_container args sms res = Container_zero\<lparr>ct_Name := ''kcp'', ct_Command := [''/kcp'', ''start''],
     ct_Args := args, ct_VolumeMounts := map (snd \<circ> SecretMount_Build) sms, ct_Resources := res\<rparr>"

definition shard_pipeline ::
    "rstore \<Rightarrow> gomap \<Rightarrow> string list \<Rightarrow> SecretMount list \<Rightarrow> ContainerResources
     \<Rightarrow> 'a CommonShardSpec_scheme \<Rightarrow> string \<Rightarrow> string list \<Rightarrow> Deployment \<Rightarrow> (rstore \<times> Deployment) res" where
  "shard_pipeline st labels args secretMounts res spec rootShardName shards dep =
     (let dep1 = label_deployment labels dep;
          dep2 = set_pod ((pod_of dep1)\<lparr>ps_Containers := [kcp_container args secretMounts res],
                   ps_Volumes := map (fst \<circ> SecretMount_Build) secretMounts\<rparr>) dep1 in
      bindE (ApplyCommonShardDeploymentProperties dep2) (\<lambda>d.
      bindE (ApplyCommonShardConfig st d spec) (\<lambda>(st', d).
      bindE (ApplyAuthConfiguration (ApplyDeploymentTemplate d (cs_DeploymentTemplate spec))
               (cs_Auth spec) rootShardName shards) (\<lambda>d.
      Inr (st', d)))))"

section \<open>Root shards\<close>

definition rootshard_secretMounts :: "CompiledRootShard \<Rightarrow> SecretMount list" where
  "rootshard_secretMounts r =
     (let spec = crs_RootShard (crsh_Spec r); name = om_Name (crsh_Meta r) in
      [secret_mount ''kcp-ca'' (GetCompiledRootShardCAName r RootCA) (shard_getCAMountPath RootCA)]
      @ map (\<lambda>cert. secret_mount (cert_str cert @ ''-kubeconfig'')
            (GetCompiledRootShardKubeconfigSecret r cert) (shard_getKubeconfigMountPath cert))
          [LogicalClusterAdminCertificate, ExternalLogicalClusterAdminCertificate]
      @ map (\<lambda>ca. secret_mount (ca_str ca @ ''-ca'') (GetCompiledRootShardCAName r ca)
            (shard_getCAMountPath ca)) [ServerCA, ServiceAccountCA, RequestHeaderClientCA]
      @ [secret_mount (ca_str ClientCA @ ''-ca'')
           (if cs_ClientCABundleRef spec \<noteq> None then name @ ''-merged-client-ca''
            else GetCompiledRootShardCAName r ClientCA)
           (shard_getCAMountPath ClientCA)]
      @ map (\<lambda>cert. secret_mount (cert_str cert @ ''-cert'')
            (GetCompiledRootShardCertificateName r cert) (shard_getCertificateMountPath cert))
          [ServerCertificate, ServiceAccountCertificate, ClientCertificate,
           LogicalClusterAdminCertificate, ExternalLogicalClusterAdminCertificate]
      @ (if cs_CABundleSecretRef spec \<noteq> None
         then [secret_mount ''ca-bundle'' (name @ ''-merged-ca-bundle'') (shard_getCAMountPath CABundleCA)]
         else [])
      @ (case rcc_Reference (rs_Cache spec) of None \<Rightarrow> [] | Some ref \<Rightarrow> cache_mounts (lor_Name ref)))"

definition external_url :: "ExternalConfig \<Rightarrow> string" where
  "external_url e = ''https://'' @ ext_Hostname e @ '':'' @ Itoa (uint (ext_Port e))"

definition common_shard_args :: "string list" where
  "common_shard_args =
     [''--root-ca-file='' @ shard_getCAMountPath RootCA @ ''/tls.crt'',
      ''--client-ca-file='' @ shard_getCAMountPath ClientCA @ ''/tls.crt'',
      ''--requestheader-client-ca-file='' @ shard_getCAMountPath RequestHeaderClientCA @ ''/tls.crt'',
      ''--requestheader-allowed-names='' @ FrontProxyCommonName @ '','' @ RootShardProxyCommonName,
      ''--requestheader-username-headers=X-Remote-User'',
      ''--requestheader-group-headers=X-Remote-Group'',
      ''--requestheader-extra-headers-prefix=X-Remote-Extra-'',
      ''--tls-private-key-file='' @ shard_getCertificateMountPath ServerCertificate @ ''/tls.key'',
      ''--tls-cert-file='' @ shard_getCertificateMountPath ServerCertificate @ ''/tls.crt'',
      ''--service-account-key-file='' @ shard_getCertificateMountPath ServiceAccountCertificate @ ''/tls.crt'',
      ''--service-account-private-key-file='' @ shard_getCertificateMountPath ServiceAccountCertificate @ ''/tls.key'',
      ''--service-account-lookup=false'',
      ''--shard-client-key-file='' @ shard_getCertificateMountPath ClientCertificate @ ''/tls.key'',
      ''--shard-client-cert-file='' @ shard_getCertificateMountPath ClientCertificate @ ''/tls.crt'']"

definition virtual_workspace_args :: "NamedVirtualWorkspaceSpec option \<Rightarrow> string list" where
  "virtual_workspace_args vw = (case vw of None \<Rightarrow> []
     | Some v \<Rightarrow> [''--run-virtual-workspaces=false'',
         ''--shard-virtual-workspace-url='' @ external_url (vw_External (nvw_Spec v)),
         ''--shard-virtual-workspace-ca-file='' @ shard_getCAMountPath ServerCA @ ''/tls.crt''])"

definition rootshard_getArgs :: "CompiledRootShard \<Rightarrow> string list" where
  "rootshard_getArgs r =
     (let spec = crs_RootShard (crsh_Spec r) in
      common_shard_args
      @ [''--shard-base-url='' @ GetCompiledRootShardBaseURL r,
         ''--shard-external-url='' @ external_url (rs_External spec),
         ''--logical-cluster-admin-kubeconfig=''
           @ shard_getKubeconfigMountPath LogicalClusterAdminCertificate @ ''/kubeconfig'',
         ''--external-logical-cluster-admin-kubeconfig=''
           @ shard_getKubeconfigMountPath ExternalLogicalClusterAdminCertificate @ ''/kubeconfig'',
         ''--batteries-included='' @ strings_Join (GetCompiledRootShardBatteries r) '','',
         ''--root-directory='', ''--enable-leader-election=true'', ''--logging-format=json'']
      @ GetLoggingArgs (cs_Logging spec)
      @ cs_ExtraArgs spec
      @ (case rcc_Reference (rs_Cache spec) of None \<Rightarrow> []
         | Some _ \<Rightarrow> [''--cache-kubeconfig='' @ getCacheServerKubeconfigMountPath @ ''/kubeconfig''])
      @ virtual_workspace_args (crs_VirtualWorkspace (crsh_Spec r)))"

definition rootshard_DeploymentReconciler ::
    "rstore \<Rightarrow> CompiledRootShard \<Rightarrow> Deployment \<Rightarrow> (rstore \<times> Deployment) res" where
  "rootshard_DeploymentReconciler st r dep =
     shard_pipeline st (GetCompiledRootShardResourceLabels r) (rootshard_getArgs r)
       (rootshard_secretMounts r) rootshard_defaultResourceRequirements
       (crs_RootShard (crsh_Spec r)) (om_Name (crsh_Meta r)) (crs_Shards (crsh_Spec r)) dep"

section \<open>Shards\<close>

definition shard_getEffectiveCacheRef :: "CompiledShard \<Rightarrow> string" where
  "shard_getEffectiveCacheRef s =
     (let own = (case ss_Cache (csh_Shard (cso_Spec s)) of None \<Rightarrow> None | Some c \<Rightarrow> scc_Reference c) in
      case own of Some ref \<Rightarrow> lor_Name ref
      | None \<Rightarrow> (case rcc_Reference (rs_Cache (nrs_Spec (csh_RootShard (cso_Spec s)))) of
          Some ref \<Rightarrow> lor_Name ref | None \<Rightarrow> []))"

definition supportsMountProxy :: "(string \<Rightarrow> 'v \<Rightarrow> bool) \<Rightarrow> 'v option \<Rightarrow> bool" where
  "supportsMountProxy check version = (case version of None \<Rightarrow> True
     | Some v \<Rightarrow> check ''~0.31.6 || >=0.32.3'' v)"

definition shard_secretMounts ::
    "(string \<Rightarrow> 'v option) \<Rightarrow> (string \<Rightarrow> 'v \<Rightarrow> bool) \<Rightarrow> CompiledShard \<Rightarrow> SecretMount list" where
  "shard_secretMounts newVersion check s =
     (let spec = csh_Shard (cso_Spec s); root = csh_RootShard (cso_Spec s);
          name = om_Name (cso_Meta s);
          (_, _, version) = GetImageSettings newVersion (cs_Image spec);
          certs = [ServerCertificate, ServiceAccountCertificate, ClientCertificate,
             LogicalClusterAdminCertificate, ExternalLogicalClusterAdminCertificate]
             @ (if supportsMountProxy check version then [MountsProxyClientCertificate] else []) in
      [secret_mount ''kcp-ca'' (GetNamedRootShardCAName root RootCA) (shard_getCAMountPath RootCA)]
      @ map (\<lambda>cert. secret_mount (cert_str cert @ ''-kubeconfig'')
            (GetCompiledShardKubeconfigSecret s cert) (shard_getKubeconfigMountPath cert))
          [ClientCertificate, LogicalClusterAdminCertificate, ExternalLogicalClusterAdminCertificate]
      @ map (\<lambda>ca. secret_mount (ca_str ca @ ''-ca'') (GetNamedRootShardCAName root ca)
            (shard_getCAMountPath ca)) [ServerCA, ServiceAccountCA, RequestHeaderClientCA]
      @ [secret_mount (ca_str ClientCA @ ''-ca'')
           (if cs_ClientCABundleRef (nrs_Spec root) \<noteq> None \<or> cs_ClientCABundleRef spec \<noteq> None
            then name @ ''-merged-client-ca'' else GetNamedRootShardCAName root ClientCA)
           (shard_getCAMountPath ClientCA)]
      @ map (\<lambda>cert. secret_mount (cert_str cert @ ''-cert'')
            (GetCompiledShardCertificateName s cert) (shard_getCertificateMountPath cert)) certs
      @ (if cs_CABundleSecretRef spec \<noteq> None
         then [secret_mount ''ca-bundle'' (name @ ''-merged-ca-bundle'') (shard_getCAMountPath CABundleCA)]
         else [])
      @ (if shard_getEffectiveCacheRef s \<noteq> [] then cache_mounts (shard_getEffectiveCacheRef s) else []))"

definition shard_getArgs :: "(string \<Rightarrow> 'v \<Rightarrow> bool) \<Rightarrow> CompiledShard \<Rightarrow> 'v option \<Rightarrow> string list" where
  "shard_getArgs check s version =
     (let spec = csh_Shard (cso_Spec s); rootSpec = nrs_Spec (csh_RootShard (cso_Spec s));
          cacheKubeconfigMount = (if shard_getEffectiveCacheRef s \<noteq> []
            then getCacheServerKubeconfigMountPath
            else shard_getKubeconfigMountPath ClientCertificate) in
      common_shard_args
      @ [''--shard-name='' @ om_Name (cso_Meta s),
         ''--shard-base-url='' @ GetCompiledShardBaseURL s,
         ''--shard-external-url='' @ external_url (rs_External rootSpec),
         ''--external-hostname='' @ ext_Hostname (rs_External rootSpec),
         ''--cache-kubeconfig='' @ cacheKubeconfigMount @ ''/kubeconfig'',
         ''--root-shard-kubeconfig-file='' @ shard_getKubeconfigMountPath ClientCertificate @ ''/kubeconfig'',
         ''--logical-cluster-admin-kubeconfig=''
           @ shard_getKubeconfigMountPath LogicalClusterAdminCertificate @ ''/kubeconfig'',
         ''--external-logical-cluster-admin-kubeconfig=''
           @ shard_getKubeconfigMountPath ExternalLogicalClusterAdminCertificate @ ''/kubeconfig'',
         ''--batteries-included='' @ strings_Join (GetCompiledShardBatteries s) '','',
         ''--root-directory='', ''--enable-leader-election=true'', ''--logging-format=json'']
      @ (if supportsMountProxy check version then
           [''--mount-proxy-client-cert-file='' @ shard_getCertificateMountPath MountsProxyClientCertificate @ ''/tls.crt'',
            ''--mount-proxy-client-key-file='' @ shard_getCertificateMountPath MountsProxyClientCertificate @ ''/tls.key'']
         else [])
      @ GetLoggingArgs (cs_Logging spec)
      @ cs_ExtraArgs spec
      @ virtual_workspace_args (csh_VirtualWorkspace (cso_Spec s)))"

definition shard_DeploymentReconciler ::
    "(string \<Rightarrow> 'v option) \<Rightarrow> (string \<Rightarrow> 'v \<Rightarrow> bool) \<Rightarrow> rstore \<Rightarrow> CompiledShard \<Rightarrow> Deployment
     \<Rightarrow> (rstore \<times> Deployment) res" where
  "shard_DeploymentReconciler newVersion check st s dep =
     (let (_, _, version) = GetImageSettings newVersion (cs_Image (csh_Shard (cso_Spec s))) in
      shard_pipeline st (GetCompiledShardResourceLabels s) (shard_getArgs check s version)
        (shard_secretMounts newVersion check s) shard_defaultResourceRequirements
        (csh_Shard (cso_Spec s)) (nrs_Name (csh_RootShard (cso_Spec s))) (csh_Shards (cso_Spec s)) dep)"

section \<open>Services\<close>

definition https_service_port :: "string \<Rightarrow> 32 word \<Rightarrow> ServicePort" where
  "https_service_port name p = \<lparr>sp_Name = name, sp_Protocol = ''TCP'', sp_AppProtocol = Some ''https'',
     sp_Port = p, sp_TargetPort = FromInt32 p, sp_NodePort = 0\<rparr>"

definition shard_service ::
    "gomap \<Rightarrow> LocalObjectReference option \<Rightarrow> ServiceTemplate option \<Rightarrow> Service \<Rightarrow> Service" where
  "shard_service labels kcpVirtualWorkspace tpl svc =
     (let ports = https_service_port ''https'' 6443
            # (if kcpVirtualWorkspace = None then [https_service_port ''https-virtual-workspaces'' 6444] else []) in
      ApplyServiceTemplate (svc\<lparr>svc_Meta := (svc_Meta svc)\<lparr>om_Labels := labels\<rparr>,
        svc_Type := ''ClusterIP'', svc_Ports := ports, svc_Selector := labels\<rparr>) tpl)"

definition rootshard_ServiceReconciler :: "CompiledRootShard \<Rightarrow> Service \<Rightarrow> Service" where
  "rootshard_ServiceReconciler r svc = shard_service (GetCompiledRootShardResourceLabels r)
     (cs_KCPVirtualWorkspace (crs_RootShard (crsh_Spec r)))
     (cs_ServiceTemplate (crs_RootShard (crsh_Spec r))) svc"

definition shard_ServiceReconciler :: "CompiledShard \<Rightarrow> Service \<Rightarrow> Service" where
  "shard_ServiceReconciler s svc = shard_service (GetCompiledShardResourceLabels s)
     (cs_KCPVirtualWorkspace (csh_Shard (cso_Spec s)))
     (cs_ServiceTemplate (csh_Shard (cso_Spec s))) svc"

end
