(* ===== verification/Shard_Deployment_Facts.thy ===== *)
theory Shard_Deployment_Facts
  imports Shard_Deployments
begin

text \<open>
  What the deployments of root shards and shards look like: a closed form of the pipeline, its
  arguments, the declaration and the uniqueness of its volumes, idempotence, and the sharing of
  the default resource maps.
\<close>

section \<open>Templates leave containers and volumes alone\<close>

lemma template_keeps [simp]:
  "ps_Containers (pod_of (ApplyDeploymentTemplate d t)) = ps_Containers (pod_of d)"
  "ps_InitContainers (pod_of (ApplyDeploymentTemplate d t)) = ps_InitContainers (pod_of d)"
  "ps_Volumes (pod_of (ApplyDeploymentTemplate d t)) = ps_Volumes (pod_of d)"
  "ds_Replicas (dep_Spec (ApplyDeploymentTemplate d t)) = ds_Replicas (dep_Spec d)"
  "ds_Selector (dep_Spec (ApplyDeploymentTemplate d t)) = ds_Selector (dep_Spec d)"
  by (simp_all add: ApplyDeploymentTemplate_def applyDeploymentSpecTemplate_def
      applyPodTemplateSpec_def applyPodSpecTemplate_def pod_of_def Let_def split: option.splits)

lemma has_container_template [simp]: "has_container (ApplyDeploymentTemplate d t) = has_container d"
  by (simp add: has_container_def)

lemma mounts_declared_template [simp]:
  "mounts_declared (ApplyDeploymentTemplate d t) = mounts_declared d"
  by (simp add: mounts_declared_def)

section \<open>Closed form\<close>

definition shard_container :: "string list \<Rightarrow> SecretMount list \<Rightarrow> ContainerResources \<Rightarrow> Container" where
  "shard_container args sms res = (kcp_container args sms res)\<lparr>
     ct_Ports := [https_port], ct_SecurityContext := Some restricted_context,
     ct_StartupProbe := Some (https_probe 60 10 5 ''/readyz''),
     ct_ReadinessProbe := Some (https_probe 6 10 10 ''/readyz''),
     ct_LivenessProbe := Some (https_probe 6 10 10 ''/livez'')\<rparr>"

definition shard_base ::
    "gomap \<Rightarrow> string list \<Rightarrow> SecretMount list \<Rightarrow> ContainerResources \<Rightarrow> Deployment \<Rightarrow> Deployment" where
  "shard_base labels args sms res dep =
     set_pod ((pod_of dep)\<lparr>ps_Containers := [shard_container args sms res],
       ps_Volumes := map (fst \<circ> SecretMount_Build) sms\<rparr>) (label_deployment labels dep)"

definition shard_deployment ::
    "rstore \<Rightarrow> gomap \<Rightarrow> string list \<Rightarrow> SecretMount list \<Rightarrow> ContainerResources
     \<Rightarrow> 'a CommonShardSpec_scheme \<Rightarrow> string \<Rightarrow> string list \<Rightarrow> Deployment \<Rightarrow> Deployment" where
  "shard_deployment st labels args sms res spec root shards dep =
     extend (opt_contrib (auth_contrib root shards) (cs_Auth spec))
       (ApplyDeploymentTemplate
         (extend (common_contrib spec) (common_base st (shard_base labels args sms res dep) spec))
         (cs_DeploymentTemplate spec))"

lemma pod_of_label [simp]: "pod_of (label_deployment l d) = pod_of d"
  by (simp add: label_deployment_def pod_of_def)

lemma shard_container_fields [simp]:
  "ct_Args (shard_container args sms res) = args"
  "ct_VolumeMounts (shard_container args sms res) = map (snd \<circ> SecretMount_Build) sms"
  "ct_Resources (shard_container args sms res) = res"
  by (simp_all add: shard_container_def kcp_container_def)

lemma auth_extends:
  "has_container d \<Longrightarrow> ApplyAuthConfiguration d a r ss = Inr (extend (opt_contrib (auth_contrib r ss) a) d)"
  using auth.modify_extends [of d "(a, r, ss)"] by simp

lemma pod_of_shard_base:
  "ps_Containers (pod_of (shard_base l args sms res dep)) = [shard_container args sms res]"
  "ps_Volumes (pod_of (shard_base l args sms res dep)) = map (fst \<circ> SecretMount_Build) sms"
  "ps_InitContainers (pod_of (shard_base l args sms res dep)) = ps_InitContainers (pod_of dep)"
  by (simp_all add: shard_base_def)

lemma pod_of_common_base:
  "ps_Volumes (pod_of (common_base st d spec)) = ps_Volumes (pod_of d)"
  "ps_InitContainers (pod_of (common_base st d spec)) = ps_InitContainers (pod_of d)"
  "ps_Containers (pod_of (common_base st d spec)) =
     (snd (ApplyResources st (hd (ps_Containers (pod_of d))) (cs_Resources spec)))
             \<lparr>ct_Image := fst (GetImageSettings (\<lambda>_. None :: unit option) (cs_Image spec))\<rparr>
           # tl (ps_Containers (pod_of d))"
  by (simp_all add: common_base_def Let_def)

lemma has_container_common_base [simp]: "has_container (common_base st d spec)"
  by (simp add: has_container_def pod_of_common_base)

text \<open>The pipeline never panics, and its result has the closed form.\<close>

lemma shard_pipeline_closed:
  "shard_pipeline st labels args sms res spec root shards dep =
     Inr (fst (ApplyResources st (shard_container args sms res) (cs_Resources spec)),
          shard_deployment st labels args sms res spec root shards dep)"
proof -
  have base: "ApplyCommonShardDeploymentProperties
      (set_pod ((pod_of dep)\<lparr>ps_Containers := [kcp_container args sms res],
         ps_Volumes := map (fst \<circ> SecretMount_Build) sms\<rparr>) (label_deployment labels dep))
      = Inr (shard_base labels args sms res dep)"
    by (cases "pod_of dep")
      (simp add: ApplyCommonShardDeploymentProperties_def shard_base_def shard_container_def)
  have "has_container (shard_base labels args sms res dep)"
    by (simp add: has_container_def pod_of_shard_base)
  then show ?thesis
    by (simp add: shard_pipeline_def Let_def base ApplyCommonShardConfig_extends auth_extends
        shard_deployment_def pod_of_shard_base)
qed

lemma ApplyResources_fields [simp]:
  "ct_Args (snd (ApplyResources st c r)) = ct_Args c"
  "ct_VolumeMounts (snd (ApplyResources st c r)) = ct_VolumeMounts c"
  "ct_Env (snd (ApplyResources st c r)) = ct_Env c"
  "ct_Name (snd (ApplyResources st c r)) = ct_Name c"
  using ApplyResources_container [of st c r "fst (ApplyResources st c r)" "snd (ApplyResources st c r)"]
  by auto

abbreviation final_contrib :: "'a CommonShardSpec_scheme \<Rightarrow> string \<Rightarrow> string list \<Rightarrow> contrib" where
  "final_contrib spec root shards \<equiv>
     k_append (common_contrib spec) (opt_contrib (auth_contrib root shards) (cs_Auth spec))"

lemma shard_deployment_container:
  "\<exists>c. ps_Containers (pod_of (shard_deployment st l args sms res spec root shards dep)) = [c]
     \<and> ct_Args c = args @ k_Args (final_contrib spec root shards)
     \<and> ct_VolumeMounts c = map (snd \<circ> SecretMount_Build) sms @ k_Mounts (final_contrib spec root shards)
     \<and> ct_Image c = fst (GetImageSettings (\<lambda>_. None :: unit option) (cs_Image spec))
     \<and> ct_Resources c = ct_Resources (snd (ApplyResources st (shard_container args sms res) (cs_Resources spec)))"
  by (simp add: shard_deployment_def containers_extend pod_of_common_base pod_of_shard_base
      shard_container_def kcp_container_def)

lemma shard_deployment_volumes:
  "ps_Volumes (pod_of (shard_deployment st l args sms res spec root shards dep))
     = map (fst \<circ> SecretMount_Build) sms @ k_Volumes (final_contrib spec root shards)"
  by (simp add: shard_deployment_def containers_extend pod_of_common_base pod_of_shard_base)

lemma shard_deployment_init:
  "ps_InitContainers (pod_of (shard_deployment st l args sms res spec root shards dep))
     = ps_InitContainers (pod_of dep)"
  by (simp add: shard_deployment_def pod_of_common_base pod_of_shard_base)

section \<open>Idempotence\<close>

lemma default_replicas_idem [simp]: "default_replicas c (default_replicas c e) = default_replicas c e"
  by (simp add: default_replicas_def split: option.splits)

lemma maps_Copy_idem [simp]: "maps_Copy (maps_Copy m r) r = maps_Copy m r"
  by (rule fmap_ext) (simp split: option.splits)

lemma rl_put_get: "fmlookup (rst_heap st) a \<noteq> None \<Longrightarrow> rl_put st a (rl_get st a) = st"
proof -
  assume "fmlookup (rst_heap st) a \<noteq> None"
  then obtain m where m: "fmlookup (rst_heap st) a = Some m" by auto
  have "fmupd a m (rst_heap st) = rst_heap st" by (rule fmap_ext) (auto simp: m)
  then show ?thesis by (simp add: rl_put_def rl_get_def m)
qed

lemma rl_put_twice: "rl_put (rl_put st a m) a m' = rl_put st a m'"
proof -
  have "fmupd a m' (fmupd a m h) = fmupd a m' h" for h :: "(nat, ResourceList) fmap"
    by (rule fmap_ext) simp
  then show ?thesis by (simp add: rl_put_def)
qed

lemma rl_put_commute: "a \<noteq> b \<Longrightarrow> rl_put (rl_put st a m) b m' = rl_put (rl_put st b m') a m"
proof -
  assume "a \<noteq> b"
  then have "fmupd b m' (fmupd a m h) = fmupd a m (fmupd b m' h)" for h :: "(nat, ResourceList) fmap"
    by (intro fmap_ext) simp
  then show ?thesis by (simp add: rl_put_def)
qed

text \<open>Copying the same resources a second time into the same maps changes nothing.\<close>

lemma ApplyResources_again:
  assumes "cr_Limits (ct_Resources c) = Some l" "cr_Requests (ct_Resources c) = Some q" "l \<noteq> q"
  shows "ApplyResources (fst (ApplyResources st c r)) c r = ApplyResources st c r"
  using assms(3)
  by (cases r) (simp_all add: ApplyResources_def Let_def assms rl_put_commute [of q l] rl_put_twice
      rl_put_commute [of l q])

lemma ApplyResources_snd:
  assumes "cr_Limits (ct_Resources c) = Some l" "cr_Requests (ct_Resources c) = Some q"
  shows "snd (ApplyResources st c r) = c"
  using assms by (cases c; cases r) (auto simp: ApplyResources_def Let_def)

text \<open>A template acts on each part of a deployment separately.\<close>

definition tmpl_meta :: "DeploymentTemplate option \<Rightarrow> ObjectMeta \<Rightarrow> ObjectMeta" where
  "tmpl_meta tpl m = (case tpl of None \<Rightarrow> m | Some t \<Rightarrow> (case dtpl_Metadata t of None \<Rightarrow> m
     | Some md \<Rightarrow> m\<lparr>om_Annotations := mergeMaps (om_Annotations m) (dmt_Annotations md),
         om_Labels := mergeMaps (om_Labels m) (dmt_Labels md)\<rparr>))"

definition tmpl_pod :: "DeploymentTemplate option \<Rightarrow> PodTemplate \<Rightarrow> PodTemplate" where
  "tmpl_pod tpl p = (case tpl of None \<Rightarrow> p | Some t \<Rightarrow> (case dtpl_Spec t of None \<Rightarrow> p
     | Some s \<Rightarrow> applyPodTemplateSpec p (dtst_Template s)))"

lemma ApplyDeploymentTemplate_parts:
  "ApplyDeploymentTemplate \<lparr>dep_Meta = m, dep_Spec = \<lparr>ds_Replicas = r, ds_Selector = s,
     ds_Template = p\<rparr>, dep_Status = stt\<rparr> tpl
   = \<lparr>dep_Meta = tmpl_meta tpl m, dep_Spec = \<lparr>ds_Replicas = r, ds_Selector = s,
     ds_Template = tmpl_pod tpl p\<rparr>, dep_Status = stt\<rparr>"
  by (simp add: ApplyDeploymentTemplate_def tmpl_meta_def tmpl_pod_def
      applyDeploymentSpecTemplate_def Let_def split: option.splits)

lemma tmpl_meta_idem:
  "tmpl_meta tpl ((tmpl_meta tpl (m\<lparr>om_Labels := l\<rparr>))\<lparr>om_Labels := l\<rparr>) = tmpl_meta tpl (m\<lparr>om_Labels := l\<rparr>)"
  by (cases m) (simp add: tmpl_meta_def split: option.splits)

text \<open>The pod template the pipeline builds from an existing one.\<close>

definition built_pod :: "gomap \<Rightarrow> Container \<Rightarrow> Volume list \<Rightarrow> LocalObjectReference list
    \<Rightarrow> PodTemplate \<Rightarrow> PodTemplate" where
  "built_pod labels c vs ips p = p\<lparr>pt_Labels := labels, pt_Spec := (pt_Spec p)\<lparr>
     ps_Containers := [c], ps_Volumes := vs, ps_ImagePullSecrets := ips\<rparr>\<rparr>"

definition with_c0 :: "Container \<Rightarrow> Volume list \<Rightarrow> PodTemplate \<Rightarrow> PodTemplate" where
  "with_c0 c vs p = p\<lparr>pt_Spec := (pt_Spec p)\<lparr>ps_Containers := [c], ps_Volumes := vs\<rparr>\<rparr>"

lemma tmpl_pod_idem:
  "with_c0 c' vs' (tmpl_pod tpl (built_pod labels c vs ips
      (with_c0 c' vs' (tmpl_pod tpl (built_pod labels c vs ips p)))))
   = with_c0 c' vs' (tmpl_pod tpl (built_pod labels c vs ips p))"
proof -
  obtain la an ic co vo ip ns af tol ha ts where
    p: "p = \<lparr>pt_Labels = la, pt_Annotations = an, pt_Spec = \<lparr>ps_InitContainers = ic,
      ps_Containers = co, ps_Volumes = vo, ps_ImagePullSecrets = ip, ps_NodeSelector = ns,
      ps_Affinity = af, ps_Tolerations = tol, ps_HostAliases = ha, ps_TopologySpreadConstraints = ts\<rparr>\<rparr>"
    by (metis PodTemplate.surjective PodSpec.surjective unit.exhaust)
  show ?thesis
    by (simp add: p tmpl_pod_def built_pod_def with_c0_def applyPodTemplateSpec_def
        applyPodSpecTemplate_def Let_def split: option.splits)
qed

lemma tmpl_pod_containers:
  "ps_Containers (pt_Spec (tmpl_pod tpl p)) = ps_Containers (pt_Spec p)"
  "ps_Volumes (pt_Spec (tmpl_pod tpl p)) = ps_Volumes (pt_Spec p)"
  by (simp_all add: tmpl_pod_def applyPodTemplateSpec_def applyPodSpecTemplate_def Let_def
      split: option.splits)

text \<open>Every deployment the pipeline produces has these parts.\<close>

lemma shard_deployment_parts:
  fixes spec :: "'a CommonShardSpec_scheme" and args shards :: "string list"
    and sms :: "SecretMount list" and root :: string and res :: ContainerResources
  assumes "res = \<lparr>cr_Limits = Some l, cr_Requests = Some q\<rparr>"
  defines "c \<equiv> (shard_container args sms res)\<lparr>
      ct_Image := fst (GetImageSettings (\<lambda>_. None :: unit option) (cs_Image spec)),
      ct_Args := args @ k_Args (common_contrib spec),
      ct_VolumeMounts := map (snd \<circ> SecretMount_Build) sms @ k_Mounts (common_contrib spec)\<rparr>"
    and "vs \<equiv> map (fst \<circ> SecretMount_Build) sms @ k_Volumes (common_contrib spec)"
    and "k \<equiv> opt_contrib (auth_contrib root shards) (cs_Auth spec)"
  shows "shard_deployment st labels args sms res spec root shards
     \<lparr>dep_Meta = m, dep_Spec = \<lparr>ds_Replicas = r, ds_Selector = s, ds_Template = p\<rparr>, dep_Status = stt\<rparr>
   = \<lparr>dep_Meta = tmpl_meta (cs_DeploymentTemplate spec) (m\<lparr>om_Labels := labels\<rparr>),
      dep_Spec = \<lparr>ds_Replicas = default_replicas (cs_Replicas spec) r, ds_Selector = Some labels,
        ds_Template = with_c0 (c\<lparr>ct_Args := ct_Args c @ k_Args k,
             ct_VolumeMounts := ct_VolumeMounts c @ k_Mounts k\<rparr>) (vs @ k_Volumes k)
           (tmpl_pod (cs_DeploymentTemplate spec) (built_pod labels c vs
             (fst (snd (GetImageSettings (\<lambda>_. None :: unit option) (cs_Image spec)))) p))\<rparr>,
      dep_Status = stt\<rparr>"
proof -
  have snd: "snd (ApplyResources s (shard_container args sms res) r) = shard_container args sms res" for s r
    by (rule ApplyResources_snd [where l = l and q = q])
      (simp_all add: assms(1) shard_container_def kcp_container_def)
  let ?d0 = "\<lparr>dep_Meta = m, dep_Spec = \<lparr>ds_Replicas = r, ds_Selector = s, ds_Template = p\<rparr>,
     dep_Status = stt\<rparr>"
  have "extend (common_contrib spec) (common_base st (shard_base labels args sms res ?d0) spec)
      = \<lparr>dep_Meta = m\<lparr>om_Labels := labels\<rparr>,
         dep_Spec = \<lparr>ds_Replicas = default_replicas (cs_Replicas spec) r, ds_Selector = Some labels,
           ds_Template = built_pod labels c vs
             (fst (snd (GetImageSettings (\<lambda>_. None :: unit option) (cs_Image spec)))) p\<rparr>,
         dep_Status = stt\<rparr>"
    by (cases p; cases "pt_Spec p")
      (simp add: shard_base_def common_base_def snd label_deployment_def set_pod_def pod_of_def
        set_replicas_def extend_def extend_pod_def Let_def built_pod_def c_def vs_def)
  then show ?thesis
    unfolding shard_deployment_def ApplyDeploymentTemplate_parts k_def [symmetric]
    by (simp add: ApplyDeploymentTemplate_parts extend_def set_pod_def pod_of_def
        extend_pod_def tmpl_pod_containers built_pod_def with_c0_def)
qed

text \<open>A second pass over its own result changes nothing.\<close>

lemma shard_deployment_idem:
  assumes "res = \<lparr>cr_Limits = Some l, cr_Requests = Some q\<rparr>"
  shows "shard_deployment st' labels args sms res spec root shards
      (shard_deployment st labels args sms res spec root shards dep)
    = shard_deployment st labels args sms res spec root shards dep"
proof -
  obtain meta rep sel p stt where
    d: "dep = \<lparr>dep_Meta = meta, dep_Spec = \<lparr>ds_Replicas = rep, ds_Selector = sel,
       ds_Template = p\<rparr>, dep_Status = stt\<rparr>"
    by (metis Deployment.surjective DeploymentSpec.surjective unit.exhaust)
  show ?thesis
    by (simp add: d shard_deployment_parts [OF assms] tmpl_pod_idem tmpl_meta_idem)
qed

lemma shard_pipeline_idem:
  assumes "shard_pipeline st labels args sms res spec root shards dep = Inr (st', d')"
    "res = \<lparr>cr_Limits = Some l, cr_Requests = Some q\<rparr>" "l \<noteq> q"
  shows "shard_pipeline st' labels args sms res spec root shards d' = Inr (st', d')"
proof -
  have again: "ApplyResources (fst (ApplyResources st (shard_container args sms res) r))
      (shard_container args sms res) r = ApplyResources st (shard_container args sms res) r" for r
    by (rule ApplyResources_again [where l = l and q = q])
      (use assms in \<open>simp_all add: shard_container_def kcp_container_def\<close>)
  show ?thesis
    using assms(1) by (auto simp: shard_pipeline_closed again shard_deployment_idem [OF assms(2)])
qed

end
