(* ===== verification/Sample_Objects.thy ===== *)
theory Sample_Objects
  imports Operator_Types
begin

text \<open>
  Concrete objects at which the witnesses apply the theorems: a minimal root shard, shard, front
  proxy, cache server, virtual workspace and kubeconfig with the fields a user has to set.
\<close>

definition sample_meta :: "string \<Rightarrow> ObjectMeta" where
  "sample_meta name = ObjectMeta_zero\<lparr>om_Name := name, om_Namespace := ''kcp'',
     om_UID := ''uid-'' @ name, om_Generation := 1\<rparr>"

definition sample_external :: ExternalConfig where
  "sample_external = \<lparr>ext_Hostname = ''kcp.example.com'', ext_Port = 6443,
     ext_PrivateHostname = [], ext_PrivatePort = None\<rparr>"

definition sample_etcd :: EtcdConfig where
  "sample_etcd = \<lparr>etcd_Endpoints = [''https://etcd:2379''], etcd_TLSConfig = None, etcd_Prefix = []\<rparr>"

definition sample_certificates :: Certificates where
  "sample_certificates = \<lparr>crt_IssuerRef = Some \<lparr>oref_Name = ''selfsigned'', oref_Kind = ''ClusterIssuer'',
     oref_Group = ''cert-manager.io''\<rparr>, crt_CASecretRef = None\<rparr>"

definition sample_rootshard_spec :: RootShardSpec where
  "sample_rootshard_spec = \<lparr>cs_ClusterDomain = [], cs_ShardBaseURL = [], cs_Etcd = sample_etcd,
     cs_Image = None, cs_Replicas = None, cs_Resources = None, cs_Audit = None,
     cs_Authorization = None, cs_Auth = None, cs_KCPVirtualWorkspace = None,
     cs_CertificateTemplates = fmempty, cs_ServiceTemplate = None, cs_DeploymentTemplate = None,
     cs_CABundleSecretRef = None, cs_ClientCABundleRef = None, cs_ExtraArgs = [],
     cs_ExtraVolumes = [], cs_ExtraVolumeMounts = [], cs_Logging = None,
     rs_External = sample_external, rs_Cache = \<lparr>rcc_Embedded = None, rcc_Reference = None\<rparr>,
     rs_Proxy = None, rs_Certificates = sample_certificates\<rparr>"

definition sample_shard_spec :: ShardSpec where
  "sample_shard_spec = \<lparr>cs_ClusterDomain = [], cs_ShardBaseURL = [], cs_Etcd = sample_etcd,
     cs_Image = None, cs_Replicas = None, cs_Resources = None, cs_Audit = None,
     cs_Authorization = None, cs_Auth = None, cs_KCPVirtualWorkspace = None,
     cs_CertificateTemplates = fmempty, cs_ServiceTemplate = None, cs_DeploymentTemplate = None,
     cs_CABundleSecretRef = None, cs_ClientCABundleRef = None, cs_ExtraArgs = [],
     cs_ExtraVolumes = [], cs_ExtraVolumeMounts = [], cs_Logging = None,
     ss_RootShard = \<lparr>rsc_Reference = Some \<lparr>lor_Name = ''root''\<rparr>\<rparr>, ss_Cache = None\<rparr>"

definition sample_rootshard :: RootShard where
  "sample_rootshard = \<lparr>rsh_Meta = sample_meta ''root'', rsh_Spec = sample_rootshard_spec,
     rsh_Status = \<lparr>rst_Phase = PhaseUnset, rst_Conditions = [], rst_Shards = []\<rparr>\<rparr>"

definition sample_shard :: Shard where
  "sample_shard = \<lparr>sh_Meta = sample_meta ''shard1'', sh_Spec = sample_shard_spec,
     sh_Status = \<lparr>shst_Phase = PhaseUnset, shst_Conditions = []\<rparr>\<rparr>"

definition sample_compiled_rootshard :: CompiledRootShard where
  "sample_compiled_rootshard = \<lparr>crsh_Meta = sample_meta ''root'',
     crsh_Spec = \<lparr>crs_RootShard = sample_rootshard_spec, crs_VirtualWorkspace = None,
       crs_Shards = [''shard1'', ''shard2'']\<rparr>,
     crsh_Status = \<lparr>rst_Phase = PhaseUnset, rst_Conditions = [], rst_Shards = []\<rparr>\<rparr>"

definition sample_compiled_shard :: CompiledShard where
  "sample_compiled_shard = \<lparr>cso_Meta = sample_meta ''shard1'',
     cso_Spec = \<lparr>csh_Shard = sample_shard_spec,
       csh_RootShard = \<lparr>nrs_Name = ''root'', nrs_Spec = sample_rootshard_spec\<rparr>,
       csh_VirtualWorkspace = None, csh_Shards = [''shard1'', ''shard2'']\<rparr>,
     cso_Status = \<lparr>shst_Phase = PhaseUnset, shst_Conditions = []\<rparr>\<rparr>"

definition sample_frontproxy_spec :: FrontProxySpec where
  "sample_frontproxy_spec = \<lparr>fp_RootShard = \<lparr>rsc_Reference = Some \<lparr>lor_Name = ''root''\<rparr>\<rparr>,
     fp_Replicas = None, fp_Resources = None, fp_Auth = None, fp_AdditionalPathMappings = [],
     fp_Image = None, fp_ExternalHostname = [],
     fp_External = \<lparr>ext_Hostname = [], ext_Port = 0, ext_PrivateHostname = [], ext_PrivatePort = None\<rparr>,
     fp_ServiceTemplate = None, fp_DeploymentTemplate = None, fp_CertificateTemplates = fmempty,
     fp_CABundleSecretRef = None, fp_ClientCABundleRef = None, fp_ExtraArgs = [],
     fp_ExtraVolumes = [], fp_ExtraVolumeMounts = [], fp_Logging = None\<rparr>"

definition sample_compiled_frontproxy :: CompiledFrontProxy where
  "sample_compiled_frontproxy = \<lparr>cfpo_Meta = sample_meta ''fp'',
     cfpo_Spec = \<lparr>cfp_FrontProxy = sample_frontproxy_spec,
       cfp_RootShard = \<lparr>nrs_Name = ''root'', nrs_Spec = sample_rootshard_spec\<rparr>,
       cfp_Shards = [''shard1'']\<rparr>,
     cfpo_Status = \<lparr>fst_Phase = PhaseUnset, fst_Conditions = []\<rparr>\<rparr>"

definition sample_frontproxy :: FrontProxy where
  "sample_frontproxy = \<lparr>fpx_Meta = sample_meta ''fp'', fpx_Spec = sample_frontproxy_spec,
     fpx_Status = \<lparr>fst_Phase = PhaseUnset, fst_Conditions = []\<rparr>\<rparr>"

definition sample_cacheserver_spec :: CacheServerSpec where
  "sample_cacheserver_spec = \<lparr>ca_ClusterDomain = [], ca_Image = None, ca_Replicas = None,
     ca_Logging = None, ca_Certificates = sample_certificates, ca_CertificateTemplates = fmempty,
     ca_ServiceTemplate = None, ca_DeploymentTemplate = None, ca_Etcd = None, ca_ExtraArgs = [],
     ca_ExtraVolumes = [], ca_ExtraVolumeMounts = []\<rparr>"

definition sample_vw_spec :: VirtualWorkspaceSpec where
  "sample_vw_spec = \<lparr>vw_Target = \<lparr>vt_RootShardRef = Some \<lparr>lor_Name = ''root''\<rparr>, vt_ShardRef = None\<rparr>,
     vw_External = sample_external, vw_Image = None, vw_Command = [], vw_InitContainers = [],
     vw_Replicas = None, vw_Resources = None, vw_CertificateTemplates = fmempty,
     vw_ServiceTemplate = None, vw_DeploymentTemplate = None, vw_CABundleSecretRef = None,
     vw_ClientCABundleRef = None, vw_KubeconfigSecretRef = None, vw_ExtraArgs = [],
     vw_ExtraVolumes = [], vw_ExtraVolumeMounts = [], vw_Logging = None, vw_ClusterDomain = []\<rparr>"

definition sample_kubeconfig :: Kubeconfig where
  "sample_kubeconfig = \<lparr>kc_Meta = sample_meta ''kc'',
     kc_Spec = \<lparr>ks_Target = \<lparr>kt_RootShardRef = None, kt_ShardRef = None,
         kt_FrontProxyRef = Some \<lparr>lor_Name = ''fp''\<rparr>\<rparr>,
       ks_TargetWorkspace = [], ks_Username = ''alice'', ks_Groups = [''dev''],
       ks_Validity = hour_ns, ks_SecretRef = \<lparr>lor_Name = ''alice-kubeconfig''\<rparr>,
       ks_CertificateTemplate = None,
       ks_Authorization = Some \<lparr>ka_ClusterRoleBindings = \<lparr>kcrb_Cluster = [],
         kcrb_ClusterRoles = [''cluster-admin'']\<rparr>\<rparr>\<rparr>,
     kc_Status = \<lparr>kst_Phase = KubeconfigPhaseUnset, kst_TargetName = [],
       kst_Authorization = None, kst_Conditions = []\<rparr>\<rparr>"

definition sample_cacheserver :: CacheServer where
  "sample_cacheserver = \<lparr>cas_Meta = sample_meta ''cache'', cas_Spec = sample_cacheserver_spec\<rparr>"

definition sample_vw :: VirtualWorkspace where
  "sample_vw = \<lparr>vwo_Meta = sample_meta ''vw'', vwo_Spec = sample_vw_spec, vwo_Conditions = []\<rparr>"

text \<open>A root shard whose root CA is a secret of the user.\<close>

definition sample_byo_rootshard :: RootShard where
  "sample_byo_rootshard = sample_rootshard\<lparr>rsh_Spec := sample_rootshard_spec\<lparr>rs_Certificates :=
     \<lparr>crt_IssuerRef = None, crt_CASecretRef = Some \<lparr>lor_Name = ''my-ca''\<rparr>\<rparr>\<rparr>\<rparr>"

end
