(* ===== verification/Shard_Deployment_Props.thy ===== *)
theory Shard_Deployment_Props
  imports Shard_Deployment_Facts Sample_Objects
begin

text \<open>
  The properties of the deployments of root shards and shards, each stated on the deployment
  reconcilers themselves: exact command line, declared and unique volumes, unique mount paths,
  idempotence, and the sharing of the default resource maps between objects.
\<close>

lemma rootshard_total: "\<exists>st' d'. rootshard_DeploymentReconciler st r dep = Inr (st', d')"
  by (simp add: rootshard_DeploymentReconciler_def shard_pipeline_closed)

lemma shard_total: "\<exists>st' d'. shard_DeploymentReconciler newVersion check st s dep = Inr (st', d')"
  by (simp add: shard_DeploymentReconciler_def shard_pipeline_closed split_beta)

lemmas sample_simps = sample_compiled_rootshard_def sample_rootshard_spec_def sample_meta_def
  sample_compiled_shard_def sample_shard_spec_def

section \<open>Rendering is total and the command line is exact\<close>

text \<open>rendering a root shard's Deployment never panics, whatever the existing Deployment
  looks like, and the pod has exactly one container, whose command line is the base arguments
  followed by what etcd, audit, authorization and authentication contribute, in this order.\<close>

theorem rootshard_deployment_args:
  "\<exists>st' d' c. rootshard_DeploymentReconciler st r dep = Inr (st', d')
     \<and> ps_Containers (pod_of d') = [c]
     \<and> ct_Args c = rootshard_getArgs r
         @ k_Args (etcd_contrib (cs_Etcd (crs_RootShard (crsh_Spec r))))
         @ k_Args (opt_contrib audit_contrib (cs_Audit (crs_RootShard (crsh_Spec r))))
         @ k_Args (opt_contrib authz_contrib (cs_Authorization (crs_RootShard (crsh_Spec r))))
         @ k_Args (opt_contrib (auth_contrib (om_Name (crsh_Meta r)) (crs_Shards (crsh_Spec r)))
             (cs_Auth (crs_RootShard (crsh_Spec r))))"
  using shard_deployment_container [of st "GetCompiledRootShardResourceLabels r"
      "rootshard_getArgs r" "rootshard_secretMounts r" rootshard_defaultResourceRequirements
      "crs_RootShard (crsh_Spec r)" "om_Name (crsh_Meta r)" "crs_Shards (crsh_Spec r)" dep]
  by (auto simp: rootshard_DeploymentReconciler_def shard_pipeline_closed common_contrib_def
      extra_contrib_def)

text \<open>the same for the Deployment of a shard.\<close>

theorem shard_deployment_args:
  "\<exists>st' d' c. shard_DeploymentReconciler newVersion check st s dep = Inr (st', d')
     \<and> ps_Containers (pod_of d') = [c]
     \<and> ct_Args c = shard_getArgs check s
           (snd (snd (GetImageSettings newVersion (cs_Image (csh_Shard (cso_Spec s))))))
         @ k_Args (etcd_contrib (cs_Etcd (csh_Shard (cso_Spec s))))
         @ k_Args (opt_contrib audit_contrib (cs_Audit (csh_Shard (cso_Spec s))))
         @ k_Args (opt_contrib authz_contrib (cs_Authorization (csh_Shard (cso_Spec s))))
         @ k_Args (opt_contrib (auth_contrib (nrs_Name (csh_RootShard (cso_Spec s)))
             (csh_Shards (cso_Spec s))) (cs_Auth (csh_Shard (cso_Spec s))))"
  using shard_deployment_container [of st "GetCompiledShardResourceLabels s"
      "shard_getArgs check s
           (snd (snd (GetImageSettings newVersion (cs_Image (csh_Shard (cso_Spec s))))))"
      "shard_secretMounts newVersion check s" shard_defaultResourceRequirements
      "csh_Shard (cso_Spec s)" "nrs_Name (csh_RootShard (cso_Spec s))" "csh_Shards (cso_Spec s)" dep]
  by (auto simp: shard_DeploymentReconciler_def shard_pipeline_closed common_contrib_def
      extra_contrib_def split_beta)

section \<open>Every mount names a volume of the pod\<close>

lemma shard_deployment_mounts_declared:
  assumes "ps_InitContainers (pod_of dep) = []"
    and extra: "vm_Name ` set (cs_ExtraVolumeMounts spec)
      \<subseteq> vol_Name ` set (cs_ExtraVolumes spec) \<union> sm_VolumeName ` set sms"
  shows "mounts_declared (shard_deployment st l args sms res spec root shards dep)"
proof -
  let ?d = "common_base st (shard_base l args sms res dep) spec"
  have vols: "vol_Name ` set (ps_Volumes (pod_of ?d)) = sm_VolumeName ` set sms"
    by (simp only: pod_of_common_base pod_of_shard_base build_names)
  have base: "mounts_declared ?d"
    unfolding mounts_declared_def vols
    using build_names(1) [of sms]
    by (auto simp: pod_of_common_base pod_of_shard_base assms(1))
  have closed: "k_closed (etcd_contrib (cs_Etcd spec))"
    "k_closed (opt_contrib audit_contrib (cs_Audit spec))"
    "k_closed (opt_contrib authz_contrib (cs_Authorization spec))"
    "k_closed (opt_contrib (auth_contrib root shards) (cs_Auth spec))"
    using etcd.contribution_closed audit.contribution_closed authz.contribution_closed
      auth.contribution_closed [of "(cs_Auth spec, root, shards)"] by simp_all
  have "set (map vm_Name (k_Mounts (common_contrib spec)))
      \<subseteq> set (map vol_Name (ps_Volumes (pod_of ?d) @ k_Volumes (common_contrib spec)))"
    using closed(1-3) extra
    unfolding set_map set_append image_Un vols common_contrib_def k_append_simps k_closed_def
      extra_contrib_def by auto
  then have "mounts_declared (extend (common_contrib spec) ?d)"
    by (rule mounts_declared_extend [OF base])
  then show ?thesis
    unfolding shard_deployment_def
    by (intro mounts_declared_extend_closed closed(4)) simp
qed

text \<open>in the Deployment of a root shard every volume mount of the container names a volume
  of the pod, as long as the user's extra mounts name extra volumes or volumes of the operator
  (as the API documentation demands).\<close>

theorem rootshard_mounts_declared:
  assumes "rootshard_DeploymentReconciler st r dep = Inr (st', d')"
    and "ps_InitContainers (pod_of dep) = []"
    and "vm_Name ` set (cs_ExtraVolumeMounts (crs_RootShard (crsh_Spec r)))
      \<subseteq> vol_Name ` set (cs_ExtraVolumes (crs_RootShard (crsh_Spec r)))
        \<union> sm_VolumeName ` set (rootshard_secretMounts r)"
  shows "mounts_declared d'"
  using assms(1) shard_deployment_mounts_declared [OF assms(2,3)]
  by (auto simp: rootshard_DeploymentReconciler_def shard_pipeline_closed)

theorem rootshard_mounts_declared_witness:
  "\<exists>st' d'. rootshard_DeploymentReconciler init_rstore sample_compiled_rootshard Deployment_zero
      = Inr (st', d') \<and> mounts_declared d'"
proof -
  obtain st' d' where run: "rootshard_DeploymentReconciler init_rstore sample_compiled_rootshard
      Deployment_zero = Inr (st', d')" using rootshard_total by blast
  have "mounts_declared d'"
    by (rule rootshard_mounts_declared [OF run])
      (simp_all add: Deployment_zero_def PodSpec_zero_def pod_of_def sample_simps)
  then show ?thesis using run by blast
qed

section \<open>Idempotence\<close>

text \<open>C38: reconciling a root shard's Deployment a second time with an unchanged spec changes
  neither the Deployment nor the resource maps, so the controller does not update in a loop.\<close>

theorem rootshard_deployment_idempotent:
  assumes "rootshard_DeploymentReconciler st r dep = Inr (st', d')"
  shows "rootshard_DeploymentReconciler st' r d' = Inr (st', d')"
  using assms unfolding rootshard_DeploymentReconciler_def
  by (rule shard_pipeline_idem [where l = 0 and q = 1]) (simp_all add: rootshard_defaultResourceRequirements_def)

theorem rootshard_deployment_idempotent_witness:
  "\<exists>st' d'. rootshard_DeploymentReconciler init_rstore sample_compiled_rootshard Deployment_zero
      = Inr (st', d')
    \<and> rootshard_DeploymentReconciler st' sample_compiled_rootshard d' = Inr (st', d')"
  using rootshard_total [of init_rstore sample_compiled_rootshard Deployment_zero]
    rootshard_deployment_idempotent by blast

text \<open>The same for the Deployment of a shard.\<close>

theorem shard_deployment_idempotent:
  assumes "shard_DeploymentReconciler newVersion check st s dep = Inr (st', d')"
  shows "shard_DeploymentReconciler newVersion check st' s d' = Inr (st', d')"
proof -
  obtain x y z where i: "GetImageSettings newVersion (cs_Image (csh_Shard (cso_Spec s))) = (x, y, z)"
    by (metis prod_cases3)
  show ?thesis
    using assms unfolding shard_DeploymentReconciler_def i Let_def prod.case
    by (rule shard_pipeline_idem [where l = 2 and q = 3]) (simp_all add: shard_defaultResourceRequirements_def)
qed

theorem shard_deployment_idempotent_witness:
  "\<exists>st' d'. shard_DeploymentReconciler (\<lambda>t. Some t) (\<lambda>c v. v = ''v0.32.3'') init_rstore
      sample_compiled_shard Deployment_zero = Inr (st', d')
    \<and> shard_DeploymentReconciler (\<lambda>t. Some t) (\<lambda>c v. v = ''v0.32.3'') st'
      sample_compiled_shard d' = Inr (st', d')"
  using shard_total [of "\<lambda>t. Some t" "\<lambda>c v. v = ''v0.32.3''" init_rstore sample_compiled_shard
      Deployment_zero] shard_deployment_idempotent by blast

section \<open>The default resource maps are shared\<close>

text \<open>the resources a root shard configures for itself end up in every root shard rendered
  after it. When B is rendered after A and B configures no resources, B's container gets the
  lists A's container has, the values A configured included, instead of the operator's
  defaults.\<close>

theorem rootshard_resources_leak:
  assumes "rootshard_DeploymentReconciler st a depA = Inr (st1, dA)"
    and "rootshard_DeploymentReconciler st1 b depB = Inr (st2, dB)"
    and "cs_Resources (crs_RootShard (crsh_Spec b)) = None"
  shows "container_resources st2 (hd (ps_Containers (pod_of dB)))
       = container_resources st1 (hd (ps_Containers (pod_of dA)))"
proof -
  have res: "ct_Resources (hd (ps_Containers (pod_of (shard_deployment st l args sms
      rootshard_defaultResourceRequirements spec root shards dep))))
      = rootshard_defaultResourceRequirements" for st l args sms and spec :: RootShardSpec
      and root shards dep
    using shard_deployment_container [of st l args sms rootshard_defaultResourceRequirements spec
        root shards dep] ApplyResources_snd [of "shard_container args sms
        rootshard_defaultResourceRequirements" 0 1 st "cs_Resources spec"]
    by (auto simp: rootshard_defaultResourceRequirements_def)
  have "st2 = st1" using assms(2,3)
    by (simp add: rootshard_DeploymentReconciler_def shard_pipeline_closed)
  then show ?thesis using assms(1,2)
    by (auto simp: rootshard_DeploymentReconciler_def shard_pipeline_closed container_resources_def res)
qed

definition sample_custom_rootshard :: CompiledRootShard where
  "sample_custom_rootshard = sample_compiled_rootshard\<lparr>crsh_Spec := (crsh_Spec sample_compiled_rootshard)
     \<lparr>crs_RootShard := sample_rootshard_spec\<lparr>cs_Resources := Some
       \<lparr>rr_Limits = fmap_of_list [(''memory'', ''64Gi'')], rr_Requests = fmempty\<rparr>\<rparr>\<rparr>\<rparr>"

text \<open>The memory limit of a root shard that sets none is 64Gi after another one asked for it.\<close>

lemma custom_memory:
  "rootshard_DeploymentReconciler init_rstore sample_custom_rootshard Deployment_zero = Inr (st1, dA)
     \<Longrightarrow> mget (rr_Limits (container_resources st1 (hd (ps_Containers (pod_of dA))))) ''memory''
       = Some ''64Gi''"
  using shard_deployment_container [of init_rstore "GetCompiledRootShardResourceLabels sample_custom_rootshard"
      "rootshard_getArgs sample_custom_rootshard" "rootshard_secretMounts sample_custom_rootshard"
      rootshard_defaultResourceRequirements "crs_RootShard (crsh_Spec sample_custom_rootshard)"
      "om_Name (crsh_Meta sample_custom_rootshard)" "crs_Shards (crsh_Spec sample_custom_rootshard)"
      Deployment_zero]
  by (auto simp: rootshard_DeploymentReconciler_def shard_pipeline_closed container_resources_def
      sample_custom_rootshard_def ApplyResources_def Let_def rootshard_defaultResourceRequirements_def)

theorem rootshard_resources_leak_witness:
  "\<exists>st1 dA st2 dB.
     rootshard_DeploymentReconciler init_rstore sample_custom_rootshard Deployment_zero = Inr (st1, dA)
   \<and> rootshard_DeploymentReconciler st1 sample_compiled_rootshard Deployment_zero = Inr (st2, dB)
   \<and> mget (rr_Limits (container_resources st2 (hd (ps_Containers (pod_of dB))))) ''memory'' = Some ''64Gi''
   \<and> mget shard_default_Limits ''memory'' = Some ''2Gi''"
proof -
  obtain st1 dA where a: "rootshard_DeploymentReconciler init_rstore sample_custom_rootshard
      Deployment_zero = Inr (st1, dA)" using rootshard_total by blast
  obtain st2 dB where b: "rootshard_DeploymentReconciler st1 sample_compiled_rootshard
      Deployment_zero = Inr (st2, dB)" using rootshard_total by blast
  have "container_resources st2 (hd (ps_Containers (pod_of dB)))
      = container_resources st1 (hd (ps_Containers (pod_of dA)))"
    by (rule rootshard_resources_leak [OF a b]) (simp add: sample_simps)
  then show ?thesis using a b custom_memory [OF a] by (auto simp: shard_default_Limits_def)
qed

section \<open>Volume names and mount paths are unique\<close>

text \<open>The API server rejects a pod with two volumes of one name, or a container with two mounts
  at one path. The names and paths an operator-built pod can contain, in order.\<close>

definition helper_volume_names :: "string list" where
  "helper_volume_names = [''etcd-client-cert'', ''audit-policy'', ''audit-webhook-config'',
     ''authorization-webhook-config'']"

definition auth_volume_names :: "string list" where
  "auth_volume_names = [''oidc-ca-file'', ''authentication-webhook-config'', ''token-auth-file'']"

definition helper_mount_paths :: "string list" where
  "helper_mount_paths = [''/etc/etcd/tls'', ''/etc/kcp/audit/policy'', ''/etc/kcp/audit/webhook'',
     ''/etc/kcp/authorization/webhook'']"

definition auth_mount_paths :: "string list" where
  "auth_mount_paths = [''/etc/kcp/tls/oidc'', ''/etc/kcp/authentication/webhook'',
     ''/etc/kcp/authentication/token'']"

definition sa_path :: "string \<Rightarrow> string" where
  "sa_path n = ''/etc/kcp/tls/'' @ n @ ''/service-account''"

lemma subseq_append_mono:
  "subseq a b \<Longrightarrow> subseq c d \<Longrightarrow> subseq (a @ c) (b @ d)"
  by (rule list_emb_append_mono)

lemma common_volume_names_subseq:
  assumes "cs_ExtraVolumes spec = []"
  shows "subseq (map vol_Name (k_Volumes (common_contrib spec))) helper_volume_names"
proof -
  have 1: "subseq (map vol_Name (k_Volumes (etcd_contrib e))) [''etcd-client-cert'']" for e
    by (simp add: etcd_contrib_def Let_def k_secret_def k_args_def split: option.splits)
  have 2: "subseq (map vol_Name (k_Volumes (opt_contrib audit_contrib a)))
      [''audit-policy'', ''audit-webhook-config'']" for a
    by (cases a) (auto simp: audit_contrib_def audit_policy_contrib_def audit_webhook_contrib_def
        opt_contrib_def k_secret_def k_args_def split: option.splits)
  have 3: "subseq (map vol_Name (k_Volumes (opt_contrib authz_contrib z)))
      [''authorization-webhook-config'']" for z
    by (cases z) (auto simp: authz_contrib_def authz_base_contrib_def authz_webhook_contrib_def
        opt_contrib_def k_secret_def k_args_def Let_def split: option.splits)
  have "subseq (map vol_Name (k_Volumes (common_contrib spec)))
      ([''etcd-client-cert''] @ [''audit-policy'', ''audit-webhook-config''] @ [''authorization-webhook-config''])"
    unfolding common_contrib_def k_append_simps map_append
    using assms by (intro subseq_append_mono 1 2) (simp add: extra_contrib_def 3)
  then show ?thesis by (simp add: helper_volume_names_def)
qed

lemma common_mount_paths_subseq:
  assumes "cs_ExtraVolumeMounts spec = []"
  shows "subseq (map vm_MountPath (k_Mounts (common_contrib spec))) helper_mount_paths"
proof -
  have 1: "subseq (map vm_MountPath (k_Mounts (etcd_contrib e))) [''/etc/etcd/tls'']" for e
    by (simp add: etcd_contrib_def Let_def k_secret_def k_args_def split: option.splits)
  have 2: "subseq (map vm_MountPath (k_Mounts (opt_contrib audit_contrib a)))
      [''/etc/kcp/audit/policy'', ''/etc/kcp/audit/webhook'']" for a
    by (cases a) (auto simp: audit_contrib_def audit_policy_contrib_def audit_webhook_contrib_def
        opt_contrib_def k_secret_def k_args_def split: option.splits)
  have 3: "subseq (map vm_MountPath (k_Mounts (opt_contrib authz_contrib z)))
      [''/etc/kcp/authorization/webhook'']" for z
    by (cases z) (auto simp: authz_contrib_def authz_base_contrib_def authz_webhook_contrib_def
        opt_contrib_def k_secret_def k_args_def Let_def split: option.splits)
  have "subseq (map vm_MountPath (k_Mounts (common_contrib spec)))
      ([''/etc/etcd/tls''] @ [''/etc/kcp/audit/policy'', ''/etc/kcp/audit/webhook'']
       @ [''/etc/kcp/authorization/webhook''])"
    unfolding common_contrib_def k_append_simps map_append
    using assms by (intro subseq_append_mono 1 2) (simp add: extra_contrib_def 3)
  then show ?thesis by (simp add: helper_mount_paths_def)
qed

lemma auth_volume_names_subseq:
  "subseq (map vol_Name (k_Volumes (opt_contrib (auth_contrib r ss) a)))
     (auth_volume_names @ map sa_cert_name (r # ss))"
proof -
  have 1: "subseq (map vol_Name (k_Volumes (opt_contrib oidc_contrib x))) [''oidc-ca-file'']" for x
    by (auto simp: opt_contrib_def oidc_contrib_def k_secret_def k_args_def split: option.splits)
  have 2: "subseq (map vol_Name (k_Volumes (opt_contrib authn_webhook_contrib x)))
      [''authentication-webhook-config'']" for x
    by (auto simp: opt_contrib_def authn_webhook_contrib_def k_secret_def k_args_def Let_def
        split: option.splits)
  have 3: "subseq (map vol_Name (k_Volumes (opt_contrib token_contrib x))) [''token-auth-file'']" for x
    by (auto simp: opt_contrib_def token_contrib_def k_secret_def split: option.splits)
  have 4: "subseq (map vol_Name (k_Volumes (case x of None \<Rightarrow> k_empty
      | Some s \<Rightarrow> if saa_Enabled s then sa_contrib (r, ss) else k_empty))) (map sa_cert_name (r # ss))" for x
    by (auto simp: sa_contrib_def comp_def split: option.splits)
  show ?thesis
  proof (cases a)
    case None
    then show ?thesis by simp
  next
    case (Some x)
    have "subseq (map vol_Name (k_Volumes (auth_contrib r ss x)))
      ([''oidc-ca-file''] @ [''authentication-webhook-config''] @ [''token-auth-file'']
       @ map sa_cert_name (r # ss))"
      unfolding auth_contrib_def k_append_simps map_append
      by (intro subseq_append_mono 1 2 3 4)
    then show ?thesis by (simp add: Some auth_volume_names_def)
  qed
qed

lemma auth_mount_paths_subseq:
  "subseq (map vm_MountPath (k_Mounts (opt_contrib (auth_contrib r ss) a)))
     (auth_mount_paths @ map sa_path (r # ss))"
proof -
  have 1: "subseq (map vm_MountPath (k_Mounts (opt_contrib oidc_contrib x))) [''/etc/kcp/tls/oidc'']" for x
    by (auto simp: opt_contrib_def oidc_contrib_def k_secret_def k_args_def split: option.splits)
  have 2: "subseq (map vm_MountPath (k_Mounts (opt_contrib authn_webhook_contrib x)))
      [''/etc/kcp/authentication/webhook'']" for x
    by (auto simp: opt_contrib_def authn_webhook_contrib_def k_secret_def k_args_def Let_def
        split: option.splits)
  have 3: "subseq (map vm_MountPath (k_Mounts (opt_contrib token_contrib x)))
      [''/etc/kcp/authentication/token'']" for x
    by (auto simp: opt_contrib_def token_contrib_def k_secret_def split: option.splits)
  have 4: "subseq (map vm_MountPath (k_Mounts (case x of None \<Rightarrow> k_empty
      | Some s \<Rightarrow> if saa_Enabled s then sa_contrib (r, ss) else k_empty))) (map sa_path (r # ss))" for x
    by (auto simp: sa_contrib_def comp_def sa_path_def [abs_def] split: option.splits)
  show ?thesis
  proof (cases a)
    case None
    then show ?thesis by simp
  next
    case (Some x)
    have "subseq (map vm_MountPath (k_Mounts (auth_contrib r ss x)))
      ([''/etc/kcp/tls/oidc''] @ [''/etc/kcp/authentication/webhook''] @ [''/etc/kcp/authentication/token'']
       @ map sa_path (r # ss))"
      unfolding auth_contrib_def k_append_simps map_append
      by (intro subseq_append_mono 1 2 3 4)
    then show ?thesis by (simp add: Some auth_mount_paths_def)
  qed
qed

definition rootshard_volume_names :: "string list" where
  "rootshard_volume_names = [''kcp-ca'', ''logical-cluster-admin-kubeconfig'',
     ''external-logical-cluster-admin-kubeconfig'', ''server-ca'', ''service-account-ca'',
     ''requestheader-client-ca'', ''client-ca'', ''server-cert'', ''service-account-cert'',
     ''client-cert'', ''logical-cluster-admin-cert'', ''external-logical-cluster-admin-cert'',
     ''ca-bundle'', ''cache-server-kubeconfig'', ''cache-server-ca'', ''cache-server-client-cert'']"

definition rootshard_mount_paths :: "string list" where
  "rootshard_mount_paths = [''/etc/kcp/tls/ca/root'', ''/etc/kcp/logical-cluster-admin-kubeconfig'',
     ''/etc/kcp/external-logical-cluster-admin-kubeconfig'', ''/etc/kcp/tls/ca/server'',
     ''/etc/kcp/tls/ca/service-account'', ''/etc/kcp/tls/ca/requestheader-client'',
     ''/etc/kcp/tls/ca/client'', ''/etc/kcp/tls/server'', ''/etc/kcp/tls/service-account'',
     ''/etc/kcp/tls/client'', ''/etc/kcp/tls/logical-cluster-admin'',
     ''/etc/kcp/tls/external-logical-cluster-admin'', ''/etc/kcp/tls/ca/ca-bundle'',
     ''/etc/cache-server/kubeconfig'', ''/etc/cache-server/tls/ca/root'',
     ''/etc/cache-server/tls/client-certificate'']"

lemma rootshard_volume_names_subseq:
  "subseq (map sm_VolumeName (rootshard_secretMounts r)) rootshard_volume_names"
  by (simp add: rootshard_secretMounts_def rootshard_volume_names_def cache_mounts_def Let_def
      split: option.splits)

lemma rootshard_mount_paths_subseq:
  "subseq (map sm_MountPath (rootshard_secretMounts r)) rootshard_mount_paths"
  by (simp add: rootshard_secretMounts_def rootshard_mount_paths_def cache_mounts_def Let_def
      path_defs split: option.splits)

lemma fixed_names_distinct:
  "distinct (rootshard_volume_names @ helper_volume_names @ auth_volume_names)"
  by (simp add: rootshard_volume_names_def helper_volume_names_def auth_volume_names_def)

lemma fixed_names_not_sa:
  assumes "x \<in> set (rootshard_volume_names @ helper_volume_names @ auth_volume_names)"
  shows "x \<noteq> sa_cert_name n"
proof
  assume "x = sa_cert_name n"
  then have "infix_of [] ''-service-account'' x = Some n"
    using infix_of_append [of "[]" "''-service-account''" n] by (simp add: sa_cert_name_def)
  moreover have "list_all (\<lambda>x. infix_of [] ''-service-account'' x = None)
      (rootshard_volume_names @ helper_volume_names @ auth_volume_names)"
    by (simp add: rootshard_volume_names_def helper_volume_names_def auth_volume_names_def infix_of_def)
  ultimately show False using assms unfolding list_all_iff by force
qed

lemma fixed_paths_distinct:
  "distinct (rootshard_mount_paths @ helper_mount_paths @ auth_mount_paths)"
  by (simp add: rootshard_mount_paths_def helper_mount_paths_def auth_mount_paths_def)

lemma fixed_paths_not_sa:
  assumes "x \<in> set (rootshard_mount_paths @ helper_mount_paths @ auth_mount_paths)" "n \<noteq> ''ca''"
  shows "x \<noteq> sa_path n"
proof
  assume "x = sa_path n"
  then have "infix_of ''/etc/kcp/tls/'' ''/service-account'' x = Some n"
    unfolding sa_path_def by (simp only: infix_of_append)
  moreover have "list_all (\<lambda>x. infix_of ''/etc/kcp/tls/'' ''/service-account'' x \<in> {None, Some ''ca''})
      (rootshard_mount_paths @ helper_mount_paths @ auth_mount_paths)"
    by (simp add: rootshard_mount_paths_def helper_mount_paths_def auth_mount_paths_def infix_of_def)
  ultimately show False using assms unfolding list_all_iff by force
qed

lemma distinct_with_tail:
  assumes "distinct xs" "inj f" "distinct ns" "\<And>x n. x \<in> set xs \<Longrightarrow> n \<in> set ns \<Longrightarrow> x \<noteq> f n"
  shows "distinct (xs @ map f ns)"
proof -
  have "inj_on f (set ns)" using assms(2) by (rule inj_on_subset) simp
  then show ?thesis using assms(1,3,4) by (auto simp: distinct_map)
qed

lemma sa_inj: "inj sa_cert_name" "inj sa_path"
  by (auto simp: inj_def sa_cert_name_def sa_path_def)

text \<open>Without extra volumes, and with the root shard and its shards named differently, the
  pod of a root shard has no two volumes of the same name, whatever features are configured.\<close>

theorem rootshard_volumes_distinct:
  assumes "rootshard_DeploymentReconciler st r dep = Inr (st', d')"
    and "cs_ExtraVolumes (crs_RootShard (crsh_Spec r)) = []"
    and "distinct (om_Name (crsh_Meta r) # crs_Shards (crsh_Spec r))"
  shows "distinct (map vol_Name (ps_Volumes (pod_of d')))"
proof -
  have d': "map vol_Name (ps_Volumes (pod_of d')) = map sm_VolumeName (rootshard_secretMounts r)
      @ map vol_Name (k_Volumes (common_contrib (crs_RootShard (crsh_Spec r))))
      @ map vol_Name (k_Volumes (opt_contrib (auth_contrib (om_Name (crsh_Meta r))
          (crs_Shards (crsh_Spec r))) (cs_Auth (crs_RootShard (crsh_Spec r)))))"
    using assms(1) by (auto simp: rootshard_DeploymentReconciler_def shard_pipeline_closed
        shard_deployment_volumes map_build simp del: map_map)
  have sub: "subseq (map vol_Name (ps_Volumes (pod_of d')))
      (rootshard_volume_names @ helper_volume_names @ auth_volume_names
       @ map sa_cert_name (om_Name (crsh_Meta r) # crs_Shards (crsh_Spec r)))"
    unfolding d' by (intro subseq_append_mono rootshard_volume_names_subseq
        common_volume_names_subseq assms(2) auth_volume_names_subseq)
  have "distinct ((rootshard_volume_names @ helper_volume_names @ auth_volume_names)
       @ map sa_cert_name (om_Name (crsh_Meta r) # crs_Shards (crsh_Spec r)))"
    by (rule distinct_with_tail [OF fixed_names_distinct sa_inj(1) assms(3)])
      (rule fixed_names_not_sa)
  then show ?thesis using distinct_subseq [OF sub] by simp
qed

theorem rootshard_volumes_distinct_witness:
  "\<exists>st' d'. rootshard_DeploymentReconciler init_rstore sample_compiled_rootshard Deployment_zero
      = Inr (st', d') \<and> distinct (map vol_Name (ps_Volumes (pod_of d')))"
proof -
  obtain st' d' where run: "rootshard_DeploymentReconciler init_rstore sample_compiled_rootshard
      Deployment_zero = Inr (st', d')" using rootshard_total by blast
  have "distinct (map vol_Name (ps_Volumes (pod_of d')))"
    by (rule rootshard_volumes_distinct [OF run]) (simp_all add: sample_simps)
  then show ?thesis using run by blast
qed

text \<open>Without extra mounts, the mount paths of a root shard's container are pairwise
  different too, provided no shard is called \<open>ca\<close>.\<close>

theorem rootshard_mount_paths_distinct:
  assumes "rootshard_DeploymentReconciler st r dep = Inr (st', d')"
    and "cs_ExtraVolumeMounts (crs_RootShard (crsh_Spec r)) = []"
    and "distinct (om_Name (crsh_Meta r) # crs_Shards (crsh_Spec r))"
    and "''ca'' \<notin> set (om_Name (crsh_Meta r) # crs_Shards (crsh_Spec r))"
  shows "distinct (map vm_MountPath (ct_VolumeMounts (hd (ps_Containers (pod_of d')))))"
proof -
  have d': "map vm_MountPath (ct_VolumeMounts (hd (ps_Containers (pod_of d'))))
      = map sm_MountPath (rootshard_secretMounts r)
      @ map vm_MountPath (k_Mounts (common_contrib (crs_RootShard (crsh_Spec r))))
      @ map vm_MountPath (k_Mounts (opt_contrib (auth_contrib (om_Name (crsh_Meta r))
          (crs_Shards (crsh_Spec r))) (cs_Auth (crs_RootShard (crsh_Spec r)))))"
    using assms(1) shard_deployment_container [of st "GetCompiledRootShardResourceLabels r"
      "rootshard_getArgs r" "rootshard_secretMounts r" rootshard_defaultResourceRequirements
      "crs_RootShard (crsh_Spec r)" "om_Name (crsh_Meta r)" "crs_Shards (crsh_Spec r)" dep]
    by (auto simp: rootshard_DeploymentReconciler_def shard_pipeline_closed map_build simp del: map_map)
  have sub: "subseq (map vm_MountPath (ct_VolumeMounts (hd (ps_Containers (pod_of d')))))
      (rootshard_mount_paths @ helper_mount_paths @ auth_mount_paths
       @ map sa_path (om_Name (crsh_Meta r) # crs_Shards (crsh_Spec r)))"
    unfolding d' by (intro subseq_append_mono rootshard_mount_paths_subseq
        common_mount_paths_subseq assms(2) auth_mount_paths_subseq)
  have "distinct ((rootshard_mount_paths @ helper_mount_paths @ auth_mount_paths)
       @ map sa_path (om_Name (crsh_Meta r) # crs_Shards (crsh_Spec r)))"
    by (rule distinct_with_tail [OF fixed_paths_distinct sa_inj(2) assms(3)])
      (rule fixed_paths_not_sa, use assms(4) in auto)
  then show ?thesis using distinct_subseq [OF sub] by simp
qed

theorem rootshard_mount_paths_distinct_witness:
  "\<exists>st' d'. rootshard_DeploymentReconciler init_rstore sample_compiled_rootshard Deployment_zero
      = Inr (st', d') \<and> distinct (map vm_MountPath (ct_VolumeMounts (hd (ps_Containers (pod_of d')))))"
proof -
  obtain st' d' where run: "rootshard_DeploymentReconciler init_rstore sample_compiled_rootshard
      Deployment_zero = Inr (st', d')" using rootshard_total by blast
  have "distinct (map vm_MountPath (ct_VolumeMounts (hd (ps_Containers (pod_of d')))))"
    by (rule rootshard_mount_paths_distinct [OF run]) (simp_all add: sample_simps)
  then show ?thesis using run by blast
qed

end
