(* ===== verification/Cert_Templates.thy ===== *)
theory Cert_Templates
  imports Deploy_Utils
begin

text \<open>
  \<open>internal/resources/utils/certificates.go\<close>: user templates merged into cert-manager
  Certificates, and the merging and validation of PEM bundles.

  \<open>encoding/pem\<close> and \<open>crypto/x509\<close> are parameters: \<open>decode\<close> is \<open>pem.Decode\<close> (the next block with
  its type and bytes, if any, and the rest of the input) and \<open>parse\<close> is \<open>x509.ParseCertificate\<close>
  (the error, if any). The validation loop runs as long as \<open>decode\<close> finds blocks, so it is a
  partial function; it ends because a decoded block is removed from the input.
\<close>

section \<open>Templates\<close>

text \<open>The zero value of a Certificate.\<close>

definition zero_certificate :: CertManagerCertificate where
  "zero_certificate = \<lparr>cc_Meta = ObjectMeta_zero, cc_Spec = CertificateSpec_zero,
     cc_Conditions = [], cc_Revision = None\<rparr>"

definition mergeSlices :: "string list \<Rightarrow> string list \<Rightarrow> string list" where
  "mergeSlices a b = sets_List a b"

lemma mergeSlices_facts [simp]:
  "set (mergeSlices a b) = set a \<union> set b" "distinct (mergeSlices a b)" "sorted (mergeSlices a b)"
  "mergeSlices (mergeSlices a b) b = mergeSlices a b"
  by (simp_all add: mergeSlices_def)

definition applyCertificatePrivateKeyTemplate ::
    "CertificatePrivateKey option \<Rightarrow> CertificatePrivateKeyTemplate option \<Rightarrow> CertificatePrivateKey option"
  where
  "applyCertificatePrivateKeyTemplate pk tpl = (case tpl of
     None \<Rightarrow> pk
   | Some t \<Rightarrow>
       (let p = (case pk of None \<Rightarrow> CertificatePrivateKey_zero | Some p \<Rightarrow> p) in
        Some \<lparr>pk_RotationPolicy = (if pkt_RotationPolicy t \<noteq> [] then pkt_RotationPolicy t else pk_RotationPolicy p),
          pk_Encoding = (if pkt_Encoding t \<noteq> [] then pkt_Encoding t else pk_Encoding p),
          pk_Algorithm = (if pkt_Algorithm t \<noteq> [] then pkt_Algorithm t else pk_Algorithm p),
          pk_Size = (if pkt_Size t > 0 then pkt_Size t else pk_Size p)\<rparr>))"

definition applyCertificateSubjectTemplate ::
    "X509Subject option \<Rightarrow> X509SubjectTemplate option \<Rightarrow> X509Subject option" where
  "applyCertificateSubjectTemplate subj tpl = (case tpl of
     None \<Rightarrow> subj
   | Some t \<Rightarrow>
       (let s = (case subj of None \<Rightarrow> X509Subject_zero | Some s \<Rightarrow> s) in
        Some \<lparr>x_Organizations = mergeSlices (x_Organizations s) (xt_Organizations t),
          x_Countries = mergeSlices (x_Countries s) (xt_Countries t),
          x_OrganizationalUnits = mergeSlices (x_OrganizationalUnits s) (xt_OrganizationalUnits t),
          x_Localities = mergeSlices (x_Localities s) (xt_Localities t),
          x_Provinces = mergeSlices (x_Provinces s) (xt_Provinces t),
          x_StreetAddresses = mergeSlices (x_StreetAddresses s) (xt_StreetAddresses t),
          x_PostalCodes = mergeSlices (x_PostalCodes s) (xt_PostalCodes t),
          x_SerialNumber = (if xt_SerialNumber t \<noteq> [] then xt_SerialNumber t else x_SerialNumber s)\<rparr>))"

definition template_DNSNames :: "CertificateSpecTemplate \<Rightarrow> string list \<Rightarrow> string list" where
  "template_DNSNames t names =
     (if cts_DNSNames t \<noteq> [] \<and> cts_IssuerRef t \<noteq> None then cts_DNSNames t
      else if cts_DNSNames t \<noteq> [] then mergeSlices names (cts_DNSNames t)
      else names)"

definition template_SecretTemplate ::
    "CertificateSpecTemplate \<Rightarrow> CertificateSecretTemplateC option \<Rightarrow> CertificateSecretTemplateC option"
  where
  "template_SecretTemplate t st = (case cts_SecretTemplate t of
     None \<Rightarrow> st
   | Some secretTpl \<Rightarrow>
       (let s = (case st of None \<Rightarrow> \<lparr>cst_Annotations = fmempty, cst_Labels = fmempty\<rparr> | Some s \<Rightarrow> s) in
        Some \<lparr>cst_Annotations = mergeMaps (cst_Annotations s) (ctsec_Annotations secretTpl),
          cst_Labels = mergeMaps (cst_Labels s) (ctsec_Labels secretTpl)\<rparr>))"

definition applyCertificateSpecTemplate ::
    "CertificateSpec \<Rightarrow> CertificateSpecTemplate option \<Rightarrow> CertificateSpec" where
  "applyCertificateSpecTemplate spec tpl = (case tpl of
     None \<Rightarrow> spec
   | Some t \<Rightarrow> spec\<lparr>
       ce_DNSNames := template_DNSNames t (ce_DNSNames spec),
       ce_IPAddresses := mergeSlices (ce_IPAddresses spec) (cts_IPAddresses t),
       ce_Duration := (case cts_Duration t of None \<Rightarrow> ce_Duration spec | Some d \<Rightarrow> Some d),
       ce_RenewBefore := (case cts_RenewBefore t of None \<Rightarrow> ce_RenewBefore spec | Some d \<Rightarrow> Some d),
       ce_SecretTemplate := template_SecretTemplate t (ce_SecretTemplate spec),
       ce_IssuerRef := (case cts_IssuerRef t of None \<Rightarrow> ce_IssuerRef spec
          | Some i \<Rightarrow> \<lparr>ir_Name = oref_Name i, ir_Kind = oref_Kind i, ir_Group = oref_Group i\<rparr>),
       ce_PrivateKey := applyCertificatePrivateKeyTemplate (ce_PrivateKey spec) (cts_PrivateKey t),
       ce_Subject := applyCertificateSubjectTemplate (ce_Subject spec) (cts_Subject t)\<rparr>)"

definition ApplyCertificateTemplate ::
    "CertManagerCertificate \<Rightarrow> CertificateTemplate option \<Rightarrow> CertManagerCertificate" where
  "ApplyCertificateTemplate cert tpl = (case tpl of
     None \<Rightarrow> cert
   | Some t \<Rightarrow>
       (let c1 = (case ctpl_Metadata t of None \<Rightarrow> cert
            | Some m \<Rightarrow> cert\<lparr>cc_Meta := (cc_Meta cert)\<lparr>
                om_Annotations := mergeMaps (om_Annotations (cc_Meta cert)) (cmt_Annotations m),
                om_Labels := mergeMaps (om_Labels (cc_Meta cert)) (cmt_Labels m)\<rparr>\<rparr>) in
        c1\<lparr>cc_Spec := applyCertificateSpecTemplate (cc_Spec c1) (ctpl_Spec t)\<rparr>))"

section \<open>What templates do\<close>

lemma spec_template_idem:
  "applyCertificateSpecTemplate (applyCertificateSpecTemplate s t) t = applyCertificateSpecTemplate s t"
proof (cases t)
  case None
  then show ?thesis by (simp add: applyCertificateSpecTemplate_def)
next
  case (Some x)
  have dns: "template_DNSNames x (template_DNSNames x n) = template_DNSNames x n" for n
    by (simp add: template_DNSNames_def)
  have st: "template_SecretTemplate x (template_SecretTemplate x n) = template_SecretTemplate x n" for n
    by (simp add: template_SecretTemplate_def Let_def split: option.splits)
  have pk: "applyCertificatePrivateKeyTemplate (applyCertificatePrivateKeyTemplate p q) q
      = applyCertificatePrivateKeyTemplate p q" for p q
    by (simp add: applyCertificatePrivateKeyTemplate_def Let_def split: option.splits)
  have sj: "applyCertificateSubjectTemplate (applyCertificateSubjectTemplate p q) q
      = applyCertificateSubjectTemplate p q" for p q
    by (simp add: applyCertificateSubjectTemplate_def Let_def split: option.splits)
  show ?thesis
    by (cases "cts_Duration x"; cases "cts_RenewBefore x"; cases "cts_IssuerRef x")
      (simp_all add: applyCertificateSpecTemplate_def Some dns st pk sj)
qed

lemma ApplyCertificateTemplate_idem:
  "ApplyCertificateTemplate (ApplyCertificateTemplate c t) t = ApplyCertificateTemplate c t"
proof (cases t)
  case None
  then show ?thesis by (simp add: ApplyCertificateTemplate_def)
next
  case (Some x)
  then show ?thesis
    by (cases "ctpl_Metadata x")
      (simp_all add: ApplyCertificateTemplate_def Let_def spec_template_idem)
qed

lemma ApplyCertificateTemplate_spec:
  "cc_Spec (ApplyCertificateTemplate c t) = (case t of None \<Rightarrow> cc_Spec c
     | Some x \<Rightarrow> applyCertificateSpecTemplate (cc_Spec c) (ctpl_Spec x))"
  by (simp add: ApplyCertificateTemplate_def Let_def split: option.splits)

text \<open>A template never touches what identifies the certificate and its purpose.\<close>

lemma template_keeps_identity [simp]:
  "ce_SecretName (cc_Spec (ApplyCertificateTemplate c t)) = ce_SecretName (cc_Spec c)"
  "ce_CommonName (cc_Spec (ApplyCertificateTemplate c t)) = ce_CommonName (cc_Spec c)"
  "ce_IsCA (cc_Spec (ApplyCertificateTemplate c t)) = ce_IsCA (cc_Spec c)"
  "ce_Usages (cc_Spec (ApplyCertificateTemplate c t)) = ce_Usages (cc_Spec c)"
  "om_Name (cc_Meta (ApplyCertificateTemplate c t)) = om_Name (cc_Meta c)"
  by (simp_all add: ApplyCertificateTemplate_def applyCertificateSpecTemplate_def Let_def
      split: option.splits)

text \<open>the DNS names of a certificate after a template. With both names and an issuer in the
  template the names are taken as they are; with names only, the result is the sorted union with
  the operator's own; without names the operator's stay. So without an issuer override no name
  the operator needs is lost.\<close>

theorem certificate_template_dns_names:
  "(case t of None \<Rightarrow> ce_DNSNames (applyCertificateSpecTemplate s t) = ce_DNSNames s
    | Some x \<Rightarrow>
       (if cts_DNSNames x = [] then ce_DNSNames (applyCertificateSpecTemplate s t) = ce_DNSNames s
        else if cts_IssuerRef x \<noteq> None
          then ce_DNSNames (applyCertificateSpecTemplate s t) = cts_DNSNames x
        else set (ce_DNSNames (applyCertificateSpecTemplate s t))
               = set (ce_DNSNames s) \<union> set (cts_DNSNames x)
             \<and> sorted (ce_DNSNames (applyCertificateSpecTemplate s t))
             \<and> distinct (ce_DNSNames (applyCertificateSpecTemplate s t))))"
  by (simp add: applyCertificateSpecTemplate_def template_DNSNames_def split: option.splits)

text \<open>An annotation that is already on the object wins over the template, so changing the
  value in a template that has been applied once has no effect on the Certificate, against the
  API documentation (annotations are copied to the target).\<close>

theorem certificate_template_annotation_sticks:
  assumes "mget (om_Annotations (cc_Meta cert)) k = Some old"
  shows "mget (om_Annotations (cc_Meta (ApplyCertificateTemplate cert tpl))) k = Some old"
  using assms by (simp add: ApplyCertificateTemplate_def Let_def split: option.splits)

definition annotation_template :: "string \<Rightarrow> CertificateTemplate" where
  "annotation_template v = \<lparr>ctpl_Metadata = Some \<lparr>cmt_Annotations = fmap_of_list [(''team'', v)],
     cmt_Labels = fmempty\<rparr>, ctpl_Spec = None\<rparr>"

theorem certificate_template_annotation_sticks_witness:
  "mget (om_Annotations (cc_Meta (ApplyCertificateTemplate
      (ApplyCertificateTemplate zero_certificate (Some (annotation_template ''a'')))
      (Some (annotation_template ''b''))))) ''team'' = Some ''a''"
  by (rule certificate_template_annotation_sticks)
    (simp add: ApplyCertificateTemplate_def annotation_template_def zero_certificate_def
      ObjectMeta_zero_def)

section \<open>PEM bundles\<close>

record pem_block =
  pem_Type :: string
  pem_Bytes :: string

type_synonym pem_decoder = "string \<Rightarrow> pem_block option \<times> string"

partial_function (option) validate_blocks ::
    "pem_decoder \<Rightarrow> (string \<Rightarrow> go_error option) \<Rightarrow> pem_block option \<Rightarrow> string \<Rightarrow> unit res option"
  where
  "validate_blocks decode parse block rest = (case block of
     Some b \<Rightarrow>
       if pem_Type b \<noteq> ''CERTIFICATE'' then
         Some (Inl (Plain (''invalid PEM block type: '' @ pem_Type b @ '', expected CERTIFICATE'')))
       else (case parse (pem_Bytes b) of
           Some err \<Rightarrow> Some (Inl (Wrapped ''failed to parse certificate'' err))
         | None \<Rightarrow> validate_blocks decode parse (fst (decode rest)) (snd (decode rest)))
   | None \<Rightarrow>
       if rest \<noteq> [] then Some (Inl (Plain ''invalid PEM data: remaining non-PEM data found''))
       else Some (Inr ()))"

definition validatePEMCertificate ::
    "pem_decoder \<Rightarrow> (string \<Rightarrow> go_error option) \<Rightarrow> string \<Rightarrow> unit res option" where
  "validatePEMCertificate decode parse data =
     (if data = [] then Some (Inr ())
      else validate_blocks decode parse (fst (decode data)) (snd (decode data)))"

definition MergeCertificates :: "string list \<Rightarrow> string" where
  "MergeCertificates certs = strings_Join (filter (\<lambda>c. c \<noteq> []) certs) [CHR 0x0A]"

text \<open>\<open>Some (Inr None)\<close> is a \<open>nil\<close> certificate without an error.\<close>

definition getCertFromSecret ::
    "pem_decoder \<Rightarrow> (string \<Rightarrow> go_error option) \<Rightarrow> Secret option \<Rightarrow> string option res option" where
  "getCertFromSecret decode parse secret = (case secret of
     None \<Rightarrow> Some (Inr None)
   | Some s \<Rightarrow> (case mget (sec_Data s) ''tls.crt'' of
       None \<Rightarrow> Some (Inr None)
     | Some cert \<Rightarrow> map_option (\<lambda>r. bindE r (\<lambda>_. Inr (Some cert)))
         (validatePEMCertificate decode parse cert)))"

fun secret_certs ::
    "pem_decoder \<Rightarrow> (string \<Rightarrow> go_error option) \<Rightarrow> Secret option list \<Rightarrow> string list res option" where
  "secret_certs decode parse [] = Some (Inr [])"
| "secret_certs decode parse (s # ss) = (case getCertFromSecret decode parse s of
     None \<Rightarrow> None
   | Some (Inl err) \<Rightarrow> Some (Inl (Wrapped (''error getting certificate from Secret ''
        @ (case s of None \<Rightarrow> [] | Some x \<Rightarrow> om_Name (sec_Meta x))) err))
   | Some (Inr c) \<Rightarrow> map_option (\<lambda>r. bindE r (\<lambda>cs.
        Inr (case c of None \<Rightarrow> cs | Some x \<Rightarrow> x # cs))) (secret_certs decode parse ss))"

definition MergeCertificateSecrets ::
    "pem_decoder \<Rightarrow> (string \<Rightarrow> go_error option) \<Rightarrow> Secret option list \<Rightarrow> string res option" where
  "MergeCertificateSecrets decode parse secrets =
     map_option (\<lambda>r. bindE r (\<lambda>cs. Inr (MergeCertificates cs))) (secret_certs decode parse secrets)"

text \<open>The documented behaviour of \<open>pem.Decode\<close> the loop relies on: a found block is consumed,
  and without a block the whole input is returned.\<close>

definition decoder_ok :: "pem_decoder \<Rightarrow> bool" where
  "decoder_ok decode \<longleftrightarrow>
     (\<forall>d b rest. decode d = (Some b, rest) \<longrightarrow> length rest < length d)
     \<and> (\<forall>d rest. decode d = (None, rest) \<longrightarrow> rest = d)"

text \<open>An inductive account of valid bundles: nothing, or a parsable certificate block and a
  valid bundle after it.\<close>

inductive valid_bundle :: "pem_decoder \<Rightarrow> (string \<Rightarrow> go_error option) \<Rightarrow> string \<Rightarrow> bool"
  for decode parse where
  valid_empty: "valid_bundle decode parse []"
| valid_block: "decode d = (Some b, rest) \<Longrightarrow> pem_Type b = ''CERTIFICATE''
    \<Longrightarrow> parse (pem_Bytes b) = None \<Longrightarrow> valid_bundle decode parse rest \<Longrightarrow> valid_bundle decode parse d"

inductive_cases valid_bundleE: "valid_bundle decode parse d"

lemma validate_blocks_spec:
  assumes "decoder_ok decode"
  shows "\<exists>r. validate_blocks decode parse (fst (decode d)) (snd (decode d)) = Some r
     \<and> (r = Inr () \<longleftrightarrow> valid_bundle decode parse d)"
proof (induction "length d" arbitrary: d rule: less_induct)
  case less
  obtain blk rest where dec: "decode d = (blk, rest)" by (cases "decode d")
  show ?case
  proof (cases blk)
    case None
    then have "rest = d" using assms dec by (auto simp: decoder_ok_def)
    then show ?thesis using None dec assms
      by (subst validate_blocks.simps)
        (auto intro: valid_empty elim: valid_bundleE)
  next
    case (Some b)
    then have lt: "length rest < length d" using assms dec by (auto simp: decoder_ok_def)
    then have ne: "d \<noteq> []" by auto
    have iff: "valid_bundle decode parse d \<longleftrightarrow> pem_Type b = ''CERTIFICATE''
        \<and> parse (pem_Bytes b) = None \<and> valid_bundle decode parse rest"
      using Some dec ne by (auto intro: valid_block elim: valid_bundleE)
    show ?thesis
      using less [OF lt] Some dec iff
      by (subst validate_blocks.simps) (auto split: option.splits)
  qed
qed

text \<open>C37: validating a bundle always returns, and it returns no error exactly for the bundles
  that are empty or consist of parsable certificate blocks with nothing after the last one.\<close>

theorem validatePEM_correct:
  assumes "decoder_ok decode"
  shows "\<exists>r. validatePEMCertificate decode parse data = Some r
     \<and> (r = Inr () \<longleftrightarrow> valid_bundle decode parse data)"
  using validate_blocks_spec [OF assms, of parse data]
  by (auto simp: validatePEMCertificate_def intro: valid_empty)

text \<open>A toy encoding for the witness: a block is one character and its type is CERTIFICATE.\<close>

definition toy_decode :: pem_decoder where
  "toy_decode d = (case d of [] \<Rightarrow> (None, [])
     | c # cs \<Rightarrow> if c = CHR ''C'' then (Some \<lparr>pem_Type = ''CERTIFICATE'', pem_Bytes = [c]\<rparr>, cs)
                 else (None, d))"

lemma toy_decode_ok: "decoder_ok toy_decode"
  by (auto simp: decoder_ok_def toy_decode_def split: list.splits if_splits)

theorem validatePEM_correct_witness:
  "(\<exists>r. validatePEMCertificate toy_decode (\<lambda>_. None) ''CC'' = Some r
     \<and> (r = Inr () \<longleftrightarrow> valid_bundle toy_decode (\<lambda>_. None) ''CC''))
   \<and> validatePEMCertificate toy_decode (\<lambda>_. None) ''CC'' = Some (Inr ())
   \<and> validatePEMCertificate toy_decode (\<lambda>_. None) ''CX''
     = Some (Inl (Plain ''invalid PEM data: remaining non-PEM data found''))"
  using validatePEM_correct [OF toy_decode_ok, of "\<lambda>_. None" "''CC''"]
  by (simp add: validatePEMCertificate_def toy_decode_def validate_blocks.simps)

section \<open>Merging\<close>

lemma strings_Join_append:
  "xs \<noteq> [] \<Longrightarrow> ys \<noteq> [] \<Longrightarrow> strings_Join (xs @ ys) sep = strings_Join xs sep @ sep @ strings_Join ys sep"
proof (induction xs sep rule: strings_Join.induct)
  case (2 x sep)
  then show ?case by (cases ys) auto
qed auto

lemma strings_Join_infix:
  "x \<in> set xs \<Longrightarrow> \<exists>a b. strings_Join xs sep = a @ x @ b"
proof (induction xs sep rule: strings_Join.induct)
  case (2 x' sep)
  then have "strings_Join [x'] sep = [] @ x @ []" by simp
  then show ?case by blast
next
  case (3 x' y xs sep)
  show ?case
  proof (cases "x = x'")
    case True
    then show ?thesis by (metis append_Nil strings_Join.simps(3))
  next
    case False
    then obtain a b where "strings_Join (y # xs) sep = a @ x @ b" using 3 by auto
    then have "strings_Join (x' # y # xs) sep = (x' @ sep @ a) @ x @ b" by simp
    then show ?thesis by blast
  qed
qed auto

lemma MergeCertificates_infix:
  assumes "c \<in> set certs"
  shows "\<exists>a b. MergeCertificates certs = a @ c @ b"
proof (cases "c = []")
  case True
  then have "MergeCertificates certs = [] @ c @ MergeCertificates certs" by simp
  then show ?thesis by blast
next
  case False
  then show ?thesis using assms by (auto simp: MergeCertificates_def intro!: strings_Join_infix)
qed

text \<open>Collecting the certificates of secrets always returns, and returns those that are there.\<close>

lemma getCertFromSecret_total:
  assumes "decoder_ok decode"
  shows "\<exists>r. getCertFromSecret decode parse secret = Some r
     \<and> (\<forall>c. r = Inr c \<longrightarrow> c = (case secret of None \<Rightarrow> None | Some s \<Rightarrow> mget (sec_Data s) ''tls.crt''))"
proof -
  have total: "\<exists>r. validatePEMCertificate decode parse d = Some r" for d
    using validate_blocks_spec [OF assms, of parse d] by (auto simp: validatePEMCertificate_def)
  show ?thesis
  proof (cases "case secret of None \<Rightarrow> None | Some s \<Rightarrow> mget (sec_Data s) ''tls.crt''")
    case None
    then show ?thesis by (auto simp: getCertFromSecret_def split: option.splits)
  next
    case (Some d)
    then obtain s where s: "secret = Some s" "mget (sec_Data s) ''tls.crt'' = Some d"
      by (auto split: option.splits)
    from total [of d] obtain r where "validatePEMCertificate decode parse d = Some r" by auto
    then show ?thesis using s by (cases r) (auto simp: getCertFromSecret_def)
  qed
qed

lemma secret_certs_total:
  assumes "decoder_ok decode"
  shows "\<exists>r. secret_certs decode parse ss = Some r
     \<and> (\<forall>cs. r = Inr cs \<longrightarrow> cs = List.map_filter (\<lambda>s. case s of None \<Rightarrow> None
          | Some x \<Rightarrow> mget (sec_Data x) ''tls.crt'') ss)"
proof (induction ss)
  case (Cons s ss)
  obtain r where r: "getCertFromSecret decode parse s = Some r"
    "\<forall>c. r = Inr c \<longrightarrow> c = (case s of None \<Rightarrow> None | Some x \<Rightarrow> mget (sec_Data x) ''tls.crt'')"
    using getCertFromSecret_total [OF assms] by blast
  obtain q where q: "secret_certs decode parse ss = Some q"
    "\<forall>cs. q = Inr cs \<longrightarrow> cs = List.map_filter (\<lambda>s. case s of None \<Rightarrow> None
        | Some x \<Rightarrow> mget (sec_Data x) ''tls.crt'') ss"
    using Cons by blast
  show ?case
  proof (cases r)
    case (Inl e)
    then show ?thesis using r by simp
  next
    case (Inr c)
    then show ?thesis using r q
      by (cases q) (auto simp: List.map_filter_simps split: option.splits)
  qed
qed (simp add: List.map_filter_simps)

lemma MergeCertificateSecrets_total:
  assumes "decoder_ok decode"
  shows "\<exists>r. MergeCertificateSecrets decode parse ss = Some r
     \<and> (\<forall>merged. r = Inr merged \<longrightarrow> merged = MergeCertificates (List.map_filter (\<lambda>s. case s of None \<Rightarrow> None
          | Some x \<Rightarrow> mget (sec_Data x) ''tls.crt'') ss))"
proof -
  obtain r where "secret_certs decode parse ss = Some r"
    "\<forall>cs. r = Inr cs \<longrightarrow> cs = List.map_filter (\<lambda>s. case s of None \<Rightarrow> None
          | Some x \<Rightarrow> mget (sec_Data x) ''tls.crt'') ss"
    using secret_certs_total [OF assms] by blast
  then show ?thesis by (cases r) (auto simp: MergeCertificateSecrets_def)
qed

text \<open>Every certificate given to \<open>MergeCertificates\<close> is in the result unchanged, and the
  result of merging two groups is their results joined by a newline (or the other result, when
  one group is empty).\<close>

theorem MergeCertificates_correct:
  "(\<forall>c. c \<in> set certs \<longrightarrow> (\<exists>a b. MergeCertificates certs = a @ c @ b))
   \<and> MergeCertificates (xs @ ys) =
       (if MergeCertificates xs = [] then MergeCertificates ys
        else if MergeCertificates ys = [] then MergeCertificates xs
        else MergeCertificates xs @ [CHR 0x0A] @ MergeCertificates ys)"
proof -
  have empty: "MergeCertificates zs = [] \<longleftrightarrow> filter (\<lambda>c. c \<noteq> []) zs = []" for zs
  proof -
    have "strings_Join (filter (\<lambda>c. c \<noteq> []) zs) [CHR 0x0A] = []
        \<Longrightarrow> filter (\<lambda>c. c \<noteq> []) zs = []"
    proof (rule ccontr)
      assume j: "strings_Join (filter (\<lambda>c. c \<noteq> []) zs) [CHR 0x0A] = []"
        and "filter (\<lambda>c. c \<noteq> []) zs \<noteq> []"
      then obtain x where "x \<in> set (filter (\<lambda>c. c \<noteq> []) zs)" by (meson last_in_set)
      then show False using strings_Join_infix [of x _ "[CHR 0x0A]"] j by fastforce
    qed
    then show ?thesis by (auto simp: MergeCertificates_def)
  qed
  have part2: "MergeCertificates (xs @ ys) =
       (if MergeCertificates xs = [] then MergeCertificates ys
        else if MergeCertificates ys = [] then MergeCertificates xs
        else MergeCertificates xs @ [CHR 0x0A] @ MergeCertificates ys)"
    unfolding empty by (auto simp: MergeCertificates_def strings_Join_append)
  show ?thesis using MergeCertificates_infix part2 by blast
qed

theorem MergeCertificates_correct_witness:
  "(\<exists>a b. MergeCertificates [''A'', [], ''B''] = a @ ''A'' @ b)
   \<and> MergeCertificates [''A'', [], ''B''] = ''A'' @ [CHR 0x0A] @ ''B''"
  using MergeCertificates_correct [of "[''A'', [], ''B'']" "[''A'']" "[[], ''B'']"]
  by (simp add: MergeCertificates_def)

end
