(* ===== verification/Go_Url.thy ===== *)
theory Go_Url
  imports Go_Lib
begin

text \<open>
  The part of \<open>net/url\<close> of Go 1.26 the operator uses: \<open>url.Parse\<close> up to the host it finds, and
  \<open>URL.Hostname\<close>. \<open>parse_host\<close> follows the library's stages (fragment, scheme, query, authority,
  userinfo, host, path), each of which can fail; \<open>None\<close> is an error, \<open>Some h\<close> the \<open>Host\<close> field of
  the parsed URL. At the end, \<open>ExtractHostnameFromURL\<close> of \<open>internal/resources/utils/url.go\<close>.
\<close>

section \<open>Cutting strings\<close>

text \<open>\<open>strings.Cut\<close> at the first occurrence of a character: the text before it and the text
  after it, if it occurs.\<close>

fun cut :: "char \<Rightarrow> string \<Rightarrow> string \<times> string option" where
  "cut c [] = ([], None)"
| "cut c (x # xs) = (if x = c then ([], Some xs)
     else (case cut c xs of (a, b) \<Rightarrow> (x # a, b)))"

text \<open>The text before the last occurrence of a character and the text after it.\<close>

definition cut_last :: "char \<Rightarrow> string \<Rightarrow> (string \<times> string) option" where
  "cut_last c s = (case cut c (rev s) of
     (a, None) \<Rightarrow> None | (a, Some b) \<Rightarrow> Some (rev b, rev a))"

lemma cut_notin: "c \<notin> set s \<Longrightarrow> cut c s = (s, None)"
  by (induction s) auto

lemma cut_append: "c \<notin> set a \<Longrightarrow> cut c (a @ c # b) = (a, Some b)"
  by (induction a) auto

lemma cut_last_notin: "c \<notin> set s \<Longrightarrow> cut_last c s = None"
  by (simp add: cut_last_def cut_notin)

lemma cut_last_append: "c \<notin> set b \<Longrightarrow> cut_last c (a @ c # b) = Some (a, b)"
  by (simp add: cut_last_def cut_append)

section \<open>Characters\<close>

abbreviation code :: "char \<Rightarrow> nat" where "code c \<equiv> of_char c"

definition is_alpha :: "char \<Rightarrow> bool" where
  "is_alpha c \<longleftrightarrow> (65 \<le> code c \<and> code c \<le> 90) \<or> (97 \<le> code c \<and> code c \<le> 122)"

definition is_ctl :: "char \<Rightarrow> bool" where
  "is_ctl c \<longleftrightarrow> code c < 32 \<or> code c = 127"

definition is_hex :: "char \<Rightarrow> bool" where
  "is_hex c \<longleftrightarrow> is_digit c \<or> (65 \<le> code c \<and> code c \<le> 70) \<or> (97 \<le> code c \<and> code c \<le> 102)"

definition unhex :: "char \<Rightarrow> nat" where
  "unhex c = (if is_digit c then code c - 48 else if code c \<le> 70 then code c - 55 else code c - 87)"

text \<open>The characters \<open>shouldEscape\<close> accepts in a host (a byte from 128 on is never escaped
  there).\<close>

definition host_char :: "char \<Rightarrow> bool" where
  "host_char c \<longleftrightarrow> is_alpha c \<or> is_digit c \<or> 128 \<le> code c
     \<or> c \<in> set ([CHR 0x22, CHR 0x27] @ ''!$&()*+,;=:[]<>-_.~'')"

text \<open>\<open>unescape\<close>: in a host, only \<open>%25\<close> and the escapes of non-ASCII bytes are accepted; in
  the zone of an IPv6 address \<open>%25\<close> and the escapes of a space or of host characters.\<close>

datatype escape_mode = EncodePath | EncodeHost | EncodeZone

definition escape_ok :: "escape_mode \<Rightarrow> char \<Rightarrow> char \<Rightarrow> bool" where
  "escape_ok mode a b \<longleftrightarrow> is_hex a \<and> is_hex b
     \<and> (mode = EncodeHost \<longrightarrow> 8 \<le> unhex a \<or> (a = CHR ''2'' \<and> b = CHR ''5''))
     \<and> (mode = EncodeZone \<longrightarrow> (a = CHR ''2'' \<and> b = CHR ''5'')
         \<or> (let v = 16 * unhex a + unhex b in v = 32 \<or> (v < 128 \<and> host_char (char_of v))))"

fun unescape :: "escape_mode \<Rightarrow> string \<Rightarrow> string option" where
  "unescape mode [] = Some []"
| "unescape mode (c # s) =
     (if c = CHR ''%'' then
        (case s of
           a # b # rest \<Rightarrow>
             if escape_ok mode a b
             then map_option (\<lambda>r. char_of (16 * unhex a + unhex b) # r) (unescape mode rest)
             else None
         | _ \<Rightarrow> None)
      else if mode \<noteq> EncodePath \<and> \<not> host_char c then None
      else map_option (\<lambda>r. c # r) (unescape mode s))"

lemma unescape_host_plain:
  "list_all (\<lambda>c. host_char c \<and> c \<noteq> CHR ''%'') s \<Longrightarrow> unescape EncodeHost s = Some s"
  by (induction s) auto

section \<open>Parsing\<close>

definition validOptionalPort :: "string \<Rightarrow> bool" where
  "validOptionalPort p \<longleftrightarrow> p = [] \<or> (hd p = CHR '':'' \<and> list_all is_digit (tl p))"

text \<open>\<open>getScheme\<close>: the scheme and the rest; a leading colon is an error.\<close>

fun scheme_prefix :: "string \<Rightarrow> string \<Rightarrow> (string \<times> string) option" where
  "scheme_prefix acc [] = None"
| "scheme_prefix acc (c # s) =
     (if is_alpha c then scheme_prefix (acc @ [c]) s
      else if is_digit c \<or> c \<in> set ''+-.'' then
        (if acc = [] then None else scheme_prefix (acc @ [c]) s)
      else if c = CHR '':'' then Some (acc, s)
      else None)"

definition getScheme :: "string \<Rightarrow> (string \<times> string) option" where
  "getScheme raw = (case scheme_prefix [] raw of
     None \<Rightarrow> Some ([], raw)
   | Some (sch, rest) \<Rightarrow> if sch = [] then None else Some (sch, rest))"

text \<open>The text before the first \<open>%25\<close> and the text from there on.\<close>

fun split_zone :: "string \<Rightarrow> (string \<times> string) option" where
  "split_zone [] = None"
| "split_zone (c # s) =
     (if strings_HasPrefix (c # s) ''%25'' then Some ([], c # s)
      else map_option (\<lambda>(a, b). (c # a, b)) (split_zone s))"

text \<open>\<open>netip.ParseAddr\<close> on an IPv6 address: eight groups of one to four hex digits, or fewer with
  one \<open>::\<close>; an IPv4 address may stand for the last two, and a zone may follow a percent sign.\<close>

fun split_all :: "char \<Rightarrow> string \<Rightarrow> string list" where
  "split_all c [] = [[]]"
| "split_all c (x # xs) = (if x = c then [] # split_all c xs
     else (case split_all c xs of [] \<Rightarrow> [[x]] | g # gs \<Rightarrow> (x # g) # gs))"

fun split_ellipsis :: "string \<Rightarrow> (string \<times> string) option" where
  "split_ellipsis [] = None"
| "split_ellipsis (c # s) =
     (if strings_HasPrefix (c # s) ''::'' then Some ([], tl s)
      else map_option (\<lambda>(a, b). (c # a, b)) (split_ellipsis s))"

definition octet :: "string \<Rightarrow> bool" where
  "octet g \<longleftrightarrow> g \<noteq> [] \<and> list_all is_digit g \<and> nat_of_str g < 256 \<and> (hd g = CHR ''0'' \<longrightarrow> length g = 1)"

definition ipv4 :: "string \<Rightarrow> bool" where
  "ipv4 s \<longleftrightarrow> length (split_all (CHR ''.'') s) = 4 \<and> list_all octet (split_all (CHR ''.'') s)"

definition hex_group :: "string \<Rightarrow> bool" where
  "hex_group g \<longleftrightarrow> 1 \<le> length g \<and> length g \<le> 4 \<and> list_all is_hex g"

text \<open>The number of groups a part of the address stands for, if it is well-formed.\<close>

definition ip6_groups :: "bool \<Rightarrow> string \<Rightarrow> nat option" where
  "ip6_groups final s = (let gs = split_all (CHR '':'') s in
     if s = [] then Some 0
     else if list_all hex_group gs then Some (length gs)
     else if final \<and> list_all hex_group (butlast gs) \<and> ipv4 (last gs) then Some (length gs + 1)
     else None)"

definition valid_ip6 :: "string \<Rightarrow> bool" where
  "valid_ip6 s = (case cut (CHR ''%'') s of (addr, zone) \<Rightarrow> zone \<noteq> Some []
     \<and> (case split_ellipsis addr of
          None \<Rightarrow> ip6_groups True addr = Some 8
        | Some (a, b) \<Rightarrow> (case (ip6_groups False a, ip6_groups True b) of
            (Some m, Some n) \<Rightarrow> m + n \<le> 7 | _ \<Rightarrow> False)))"

text \<open>A bracketed host must be an IPv6 address; outside brackets there is at most one colon.\<close>

definition parseHost :: "string \<Rightarrow> string option" where
  "parseHost host =
     (case cut_last (CHR ''['') host of
        Some (a, _) \<Rightarrow>
          if a \<noteq> [] then None
          else (case cut_last (CHR '']'') host of
             None \<Rightarrow> None
           | Some (pre, colonPort) \<Rightarrow>
               if \<not> validOptionalPort colonPort then None
               else (case (case split_zone (tl pre) of
                     None \<Rightarrow> unescape EncodeHost (tl pre)
                   | Some (addr, zone) \<Rightarrow>
                       (case (unescape EncodeHost addr, unescape EncodeZone zone) of
                          (Some h1, Some h2) \<Rightarrow> Some (h1 @ h2) | _ \<Rightarrow> None)) of
                   None \<Rightarrow> None
                 | Some h \<Rightarrow> if valid_ip6 h then Some (''['' @ h @ '']'' @ colonPort) else None))
      | None \<Rightarrow>
          (case cut (CHR '':'') host of
             (pre, Some port) \<Rightarrow>
               if \<not> list_all is_digit port then None else unescape EncodeHost host
           | (pre, None) \<Rightarrow> unescape EncodeHost host))"

definition userinfo_char :: "char \<Rightarrow> bool" where
  "userinfo_char c \<longleftrightarrow> is_alpha c \<or> is_digit c \<or> c \<in> set ([CHR 0x27] @ ''-._:~!$&()*+,;=%@'')"

definition parseAuthority :: "string \<Rightarrow> string option" where
  "parseAuthority authority = (case cut_last (CHR ''@'') authority of
     None \<Rightarrow> parseHost authority
   | Some (userinfo, host) \<Rightarrow> (case parseHost host of
         None \<Rightarrow> None
       | Some h \<Rightarrow> if list_all userinfo_char userinfo \<and> unescape EncodePath userinfo \<noteq> None
           then Some h else None))"

definition slash2 :: string where "slash2 = ''//''"

text \<open>The stages after the scheme and the query: an opaque URL has no host, a relative one must
  not have a colon in its first segment, an authority stands between \<open>//\<close> and the next slash.\<close>

definition parse_rest :: "string \<Rightarrow> string \<Rightarrow> string option" where
  "parse_rest scheme rest =
     (if \<not> strings_HasPrefix rest ''/'' \<and> scheme \<noteq> [] then Some []
      else if \<not> strings_HasPrefix rest ''/'' \<and> CHR '':'' \<in> set (fst (cut (CHR ''/'') rest)) then None
      else if strings_HasPrefix rest slash2 \<and> (scheme \<noteq> [] \<or> \<not> strings_HasPrefix rest ''///'') then
        (case parseAuthority (fst (cut (CHR ''/'') (drop 2 rest))) of
           None \<Rightarrow> None
         | Some h \<Rightarrow>
             if unescape EncodePath (case snd (cut (CHR ''/'') (drop 2 rest)) of
                  None \<Rightarrow> [] | Some p \<Rightarrow> p) = None then None else Some h)
      else if unescape EncodePath rest = None then None else Some [])"

definition parse_host :: "string \<Rightarrow> string option" where
  "parse_host rawURL =
     (case cut (CHR ''#'') rawURL of (u, frag) \<Rightarrow>
        if list_ex is_ctl u then None
        else (case (if u = ''*'' then Some [] else
            (case getScheme u of
               None \<Rightarrow> None
             | Some (scheme, rest) \<Rightarrow> parse_rest scheme (fst (cut (CHR ''?'') rest)))) of
          None \<Rightarrow> None
        | Some h \<Rightarrow> (case frag of
              None \<Rightarrow> Some h
            | Some f \<Rightarrow> if unescape EncodePath f = None then None else Some h)))"

text \<open>\<open>URL.Hostname\<close>: a valid port and the brackets of an IPv6 address are removed.\<close>

definition strip_port :: "string \<Rightarrow> string" where
  "strip_port h = (case cut_last (CHR '':'') h of
     None \<Rightarrow> h | Some (pre, port) \<Rightarrow> if list_all is_digit port then pre else h)"

definition Hostname :: "string \<Rightarrow> string" where
  "Hostname hostPort = (let h = strip_port hostPort in
     if h \<noteq> [] \<and> hd h = CHR ''['' \<and> last h = CHR '']'' then butlast (tl h) else h)"

definition ExtractHostnameFromURL :: "string \<Rightarrow> string" where
  "ExtractHostnameFromURL rawURL =
     (if rawURL = [] then []
      else (case parse_host rawURL of None \<Rightarrow> [] | Some h \<Rightarrow> Hostname h))"

section \<open>The host of the operator's own URLs\<close>

text \<open>Host names are letters, digits, dots and dashes.\<close>

definition dns_char :: "char \<Rightarrow> bool" where
  "dns_char c \<longleftrightarrow> is_alpha c \<or> is_digit c \<or> c = CHR ''.'' \<or> c = CHR ''-''"

definition dns_host :: "string \<Rightarrow> bool" where
  "dns_host h \<longleftrightarrow> h \<noteq> [] \<and> list_all dns_char h"

lemma dns_host_append: "dns_host a \<Longrightarrow> list_all dns_char b \<Longrightarrow> dns_host (a @ b)"
  by (simp add: dns_host_def)

lemma dns_char_not:
  assumes "dns_char c"
  shows "c \<noteq> CHR '':''" "c \<noteq> CHR ''/''" "c \<noteq> CHR ''#''" "c \<noteq> CHR ''?''" "c \<noteq> CHR ''@''"
    "c \<noteq> CHR ''[''" "c \<noteq> CHR ''%''"
  using assms by (auto simp: dns_char_def is_alpha_def is_digit_def)

lemma dns_char_host:
  assumes "dns_char c"
  shows "\<not> is_ctl c" "host_char c"
  using assms by (auto simp: is_ctl_def host_char_def dns_char_def is_alpha_def is_digit_def)

lemma dns_notin:
  assumes "list_all dns_char h"
  shows "CHR '':'' \<notin> set h" "CHR ''/'' \<notin> set h" "CHR ''#'' \<notin> set h" "CHR ''?'' \<notin> set h"
    "CHR ''@'' \<notin> set h" "CHR ''['' \<notin> set h" "\<not> list_ex is_ctl h"
    "list_all (\<lambda>c. host_char c \<and> c \<noteq> CHR ''%'') h"
  using assms dns_char_not dns_char_host by (force simp: list_all_iff list_ex_iff)+

lemma digits_dns: "list_all is_digit p \<Longrightarrow> list_all dns_char p"
  by (auto simp: list_all_iff dns_char_def)

lemma scheme_https: "getScheme (''https:'' @ s) = Some (''https'', s)"
  by (simp add: getScheme_def is_alpha_def is_digit_def)

lemma parseAuthority_host_port:
  assumes h: "dns_host h" and p: "list_all is_digit p"
  shows "parseAuthority (h @ '':'' @ p) = Some (h @ '':'' @ p)"
proof -
  have hp: "list_all dns_char h" "list_all dns_char p" "h \<noteq> []"
    using h digits_dns [OF p] by (auto simp: dns_host_def)
  have at: "cut_last (CHR ''@'') (h @ '':'' @ p) = None"
    by (rule cut_last_notin) (use dns_notin(5) [OF hp(1)] dns_notin(5) [OF hp(2)] in auto)
  have colon: "cut (CHR '':'') (h @ '':'' @ p) = (h, Some p)"
    using cut_append [OF dns_notin(1) [OF hp(1)], of p] by simp
  have hc: "host_char (CHR '':'')" by (simp add: host_char_def)
  have un: "unescape EncodeHost (h @ '':'' @ p) = Some (h @ '':'' @ p)"
    by (rule unescape_host_plain)
      (use dns_notin(8) [OF hp(1)] dns_notin(8) [OF hp(2)] hc in auto)
  have "cut_last (CHR ''['') (h @ '':'' @ p) = None"
    by (rule cut_last_notin) (use dns_notin(6) [OF hp(1)] dns_notin(6) [OF hp(2)] in auto)
  then show ?thesis using at colon un p by (simp add: parseAuthority_def parseHost_def)
qed

lemma ExtractHostname_https:
  assumes h: "dns_host h" and p: "list_all is_digit p"
  shows "ExtractHostnameFromURL (''https://'' @ h @ '':'' @ p) = h"
proof -
  let ?a = "h @ '':'' @ p"
  have hp: "list_all dns_char h" "list_all dns_char p" "h \<noteq> []"
    using h digits_dns [OF p] by (auto simp: dns_host_def)
  have notin: "c \<notin> set ?a" if "c = CHR ''#'' \<or> c = CHR ''?'' \<or> c = CHR ''/''" for c
    using that dns_notin [OF hp(1)] dns_notin [OF hp(2)] by auto
  have frag: "cut (CHR ''#'') (''https://'' @ ?a) = (''https://'' @ ?a, None)"
    by (rule cut_notin) (use notin in auto)
  have ctl: "\<not> list_ex is_ctl (''https://'' @ ?a)"
    using dns_notin(7) [OF hp(1)] dns_notin(7) [OF hp(2)] by (simp add: is_ctl_def)
  have sch: "getScheme (''https://'' @ ?a) = Some (''https'', ''//'' @ ?a)"
    using scheme_https [of "''//'' @ ?a"] by simp
  have query: "cut (CHR ''?'') (''//'' @ ?a) = (''//'' @ ?a, None)"
    by (rule cut_notin) (use notin in auto)
  have slash: "cut (CHR ''/'') ?a = (?a, None)"
    by (rule cut_notin) (use notin in auto)
  have rest: "parse_rest ''https'' (''//'' @ ?a) = Some ?a"
    using slash parseAuthority_host_port [OF h p]
    by (simp add: parse_rest_def strings_HasPrefix_def slash2_def)
  have host: "parse_host (''https://'' @ ?a) = Some ?a"
    unfolding parse_host_def frag using ctl sch query rest by simp
  have port: "strip_port ?a = h"
    using cut_last_append [OF dns_notin(1) [OF hp(2)], of h] p by (simp add: strip_port_def)
  have "Hostname ?a = h"
    using port hp dns_notin(6) [OF hp(1)] by (cases h) (auto simp: Hostname_def)
  then show ?thesis using host by (simp add: ExtractHostnameFromURL_def)
qed

end
