(* ===== verification/Pki_Base.thy ===== *)
theory Pki_Base
  imports Cert_Templates Resource_Names Go_Url
begin

text \<open>
  What the packages that render cert-manager objects have in common: a named reconciler is the
  name of the object and the function that turns the object found in the cluster (or the zero
  object) into the desired one. Every certificate reconciler of the code has the same shape
  (labels, spec, user template), which is \<open>render_certificate\<close> here, and the specs share the
  fields of \<open>leaf_spec\<close> and \<open>ca_spec\<close>. Reconcilers of secrets and issuers come in the same form.
\<close>

type_synonym certificate_reconciler = "string \<times> (CertManagerCertificate \<Rightarrow> CertManagerCertificate)"
type_synonym issuer_reconciler = "string \<times> (Issuer \<Rightarrow> Issuer)"
type_synonym secret_reconciler = "string \<times> (Secret \<Rightarrow> Secret res)"

section \<open>Certificates\<close>

definition render_certificate ::
    "gomap \<Rightarrow> CertificateSpec \<Rightarrow> CertificateTemplate option \<Rightarrow> CertManagerCertificate
       \<Rightarrow> CertManagerCertificate" where
  "render_certificate labels spec tpl cert =
     ApplyCertificateTemplate
       (cert\<lparr>cc_Meta := (cc_Meta cert)\<lparr>om_Labels := labels\<rparr>, cc_Spec := spec\<rparr>) tpl"

definition OwnIssuer :: "string \<Rightarrow> IssuerReference" where
  "OwnIssuer name = \<lparr>ir_Name = name, ir_Kind = ''Issuer'', ir_Group = ''cert-manager.io''\<rparr>"

definition RSA4096 :: CertificatePrivateKey where
  "RSA4096 = CertificatePrivateKey_zero\<lparr>pk_Algorithm := ''RSA'', pk_Size := 4096\<rparr>"

definition Organizations :: "string list \<Rightarrow> X509Subject option" where
  "Organizations os = Some (X509Subject_zero\<lparr>x_Organizations := os\<rparr>)"

definition secret_template :: "(string \<times> string) list \<Rightarrow> CertificateSecretTemplateC option" where
  "secret_template labels = Some \<lparr>cst_Annotations = fmempty, cst_Labels = fmap_of_list labels\<rparr>"

definition leaf_spec :: "string \<Rightarrow> (string \<times> string) list \<Rightarrow> string \<Rightarrow> CertificateSpec" where
  "leaf_spec name labels issuer = CertificateSpec_zero\<lparr>
     ce_SecretName := name,
     ce_SecretTemplate := secret_template labels,
     ce_Duration := Some DefaultCertificateDuration,
     ce_RenewBefore := Some DefaultCertificateRenewal,
     ce_PrivateKey := Some RSA4096,
     ce_IssuerRef := OwnIssuer issuer\<rparr>"

definition ca_spec :: "string \<Rightarrow> (string \<times> string) list \<Rightarrow> IssuerReference \<Rightarrow> CertificateSpec" where
  "ca_spec name labels issuerRef = CertificateSpec_zero\<lparr>
     ce_IsCA := True,
     ce_CommonName := name,
     ce_SecretName := name,
     ce_SecretTemplate := secret_template labels,
     ce_Duration := Some DefaultCADuration,
     ce_RenewBefore := Some DefaultCARenewal,
     ce_PrivateKey := Some RSA4096,
     ce_IssuerRef := issuerRef\<rparr>"

definition server_usages :: "KeyUsage list" where
  "server_usages = [UsageServerAuth, UsageKeyEncipherment, UsageDigitalSignature]"

lemma leaf_spec_sel [simp]:
  "ce_SecretName (leaf_spec n l i) = n" "ce_IsCA (leaf_spec n l i) = False"
  "ce_IssuerRef (leaf_spec n l i) = OwnIssuer i" "ce_DNSNames (leaf_spec n l i) = []"
  "ce_CommonName (leaf_spec n l i) = []" "ce_Usages (leaf_spec n l i) = []"
  "ce_Subject (leaf_spec n l i) = None"
  by (simp_all add: leaf_spec_def CertificateSpec_zero_def)

lemma ca_spec_sel [simp]:
  "ce_SecretName (ca_spec n l i) = n" "ce_IsCA (ca_spec n l i) = True"
  "ce_CommonName (ca_spec n l i) = n" "ce_IssuerRef (ca_spec n l i) = i"
  by (simp_all add: ca_spec_def CertificateSpec_zero_def)

lemma OwnIssuer_sel [simp]: "ir_Name (OwnIssuer n) = n" "ir_Kind (OwnIssuer n) = ''Issuer''"
  by (simp_all add: OwnIssuer_def)

section \<open>Facts about rendered certificates\<close>

text \<open>Rendering depends on the old object's metadata only, through the annotations a template
  does not overwrite, so rendering twice is rendering once.\<close>

lemma cc_Meta_ApplyTemplate:
  "cc_Meta (ApplyCertificateTemplate c t) = (case t of None \<Rightarrow> cc_Meta c
     | Some x \<Rightarrow> (case ctpl_Metadata x of None \<Rightarrow> cc_Meta c
       | Some m \<Rightarrow> (cc_Meta c)\<lparr>om_Annotations := mergeMaps (om_Annotations (cc_Meta c)) (cmt_Annotations m),
            om_Labels := mergeMaps (om_Labels (cc_Meta c)) (cmt_Labels m)\<rparr>))"
  by (simp add: ApplyCertificateTemplate_def Let_def split: option.splits)

lemma render_certificate_spec:
  "cc_Spec (render_certificate labels spec tpl cert) = (case tpl of None \<Rightarrow> spec
     | Some t \<Rightarrow> applyCertificateSpecTemplate spec (ctpl_Spec t))"
  by (simp add: render_certificate_def ApplyCertificateTemplate_spec split: option.splits)

lemma render_certificate_rest [simp]:
  "cc_Conditions (render_certificate labels spec tpl cert) = cc_Conditions cert"
  "cc_Revision (render_certificate labels spec tpl cert) = cc_Revision cert"
  "om_Name (cc_Meta (render_certificate labels spec tpl cert)) = om_Name (cc_Meta cert)"
  "ce_SecretName (cc_Spec (render_certificate labels spec tpl cert)) = ce_SecretName spec"
  "ce_IsCA (cc_Spec (render_certificate labels spec tpl cert)) = ce_IsCA spec"
  "ce_Usages (cc_Spec (render_certificate labels spec tpl cert)) = ce_Usages spec"
  "ce_CommonName (cc_Spec (render_certificate labels spec tpl cert)) = ce_CommonName spec"
  by (simp_all add: render_certificate_def)
    (simp_all add: ApplyCertificateTemplate_def Let_def split: option.splits)

lemma certificate_eqI:
  fixes c d :: CertManagerCertificate
  assumes "cc_Meta c = cc_Meta d" "cc_Spec c = cc_Spec d" "cc_Conditions c = cc_Conditions d"
    "cc_Revision c = cc_Revision d"
  shows "c = d"
  using assms by simp

lemma render_certificate_idem:
  "render_certificate labels spec tpl (render_certificate labels spec tpl cert)
     = render_certificate labels spec tpl cert"
proof (rule certificate_eqI)
  have m: "cc_Meta (render_certificate labels spec tpl c) =
      (let m = (cc_Meta c)\<lparr>om_Labels := labels\<rparr> in
       case tpl of None \<Rightarrow> m
       | Some x \<Rightarrow> (case ctpl_Metadata x of None \<Rightarrow> m
         | Some t \<Rightarrow> m\<lparr>om_Annotations := mergeMaps (om_Annotations m) (cmt_Annotations t),
              om_Labels := mergeMaps (om_Labels m) (cmt_Labels t)\<rparr>))" for c
    by (simp add: render_certificate_def cc_Meta_ApplyTemplate Let_def split: option.splits)
  show "cc_Meta (render_certificate labels spec tpl (render_certificate labels spec tpl cert))
      = cc_Meta (render_certificate labels spec tpl cert)"
    unfolding m [of "render_certificate labels spec tpl cert"] unfolding m
    by (cases tpl; cases "ctpl_Metadata (the tpl)") (simp_all add: Let_def)
qed (simp_all only: render_certificate_spec render_certificate_rest)

text \<open>What a template without an issuer override leaves alone.\<close>

definition overrides_issuer :: "CertificateTemplate \<Rightarrow> bool" where
  "overrides_issuer t \<longleftrightarrow> (case ctpl_Spec t of None \<Rightarrow> False | Some s \<Rightarrow> cts_IssuerRef s \<noteq> None)"

lemma render_keeps_issuer:
  "\<not> overrides_issuer t \<Longrightarrow>
     ce_IssuerRef (cc_Spec (render_certificate labels spec (Some t) cert)) = ce_IssuerRef spec"
  by (auto simp: render_certificate_spec applyCertificateSpecTemplate_def overrides_issuer_def
      split: option.splits)

lemma render_keeps_dns:
  "\<not> overrides_issuer t \<Longrightarrow> set (ce_DNSNames spec)
     \<subseteq> set (ce_DNSNames (cc_Spec (render_certificate labels spec (Some t) cert)))"
  by (auto simp: render_certificate_spec applyCertificateSpecTemplate_def overrides_issuer_def
      template_DNSNames_def split: option.splits)

text \<open>The secret cert-manager writes for a rendered certificate, and the issuer that signs it.
  Neither depends on the object found in the cluster.\<close>

definition desired_spec :: "certificate_reconciler \<Rightarrow> CertificateSpec" where
  "desired_spec rec = cc_Spec (snd rec zero_certificate)"

definition certificate_secret :: "certificate_reconciler \<Rightarrow> string" where
  "certificate_secret rec = ce_SecretName (desired_spec rec)"

lemma desired_spec_render [simp]:
  "desired_spec (n, render_certificate labels spec tpl) = (case tpl of None \<Rightarrow> spec
     | Some t \<Rightarrow> applyCertificateSpecTemplate spec (ctpl_Spec t))"
  by (simp add: desired_spec_def render_certificate_spec)

lemma certificate_secret_render [simp]:
  "certificate_secret (n, render_certificate labels spec tpl) = ce_SecretName spec"
  by (simp add: certificate_secret_def desired_spec_def)

definition no_issuer_overrides :: "CertificateTemplateMap \<Rightarrow> bool" where
  "no_issuer_overrides m \<longleftrightarrow> (\<forall>k t. fmlookup m k = Some t \<longrightarrow> \<not> overrides_issuer t)"

lemma no_override_template:
  assumes "no_issuer_overrides m"
  shows "\<not> overrides_issuer (CertificateTemplate_of m kind)" "\<not> overrides_issuer (CATemplate_of m ca)"
  using assms by (auto simp: no_issuer_overrides_def CertificateTemplate_of_def CATemplate_of_def
      overrides_issuer_def split: option.splits)

lemma desired_issuer:
  "\<not> overrides_issuer t \<Longrightarrow>
     ce_IssuerRef (desired_spec (n, render_certificate labels spec (Some t))) = ce_IssuerRef spec"
  using render_keeps_issuer [of t labels spec zero_certificate] by (simp add: desired_spec_def)

lemma desired_dns:
  "\<not> overrides_issuer t \<Longrightarrow>
     set (ce_DNSNames spec) \<subseteq> set (ce_DNSNames (desired_spec (n, render_certificate labels spec (Some t))))"
  using render_keeps_dns [of t spec labels zero_certificate] by (simp add: desired_spec_def)

section \<open>Components with signed certificates\<close>

text \<open>The packages build their leaf certificates through one function each (\<open>leaf\<close>), which names
  the secret after the kind of certificate, takes the user template of that kind, and has the
  certificate signed by the issuer of a given CA. What follows from that form is proved once.\<close>

locale signed_component =
  fixes leaf :: "Certificate \<Rightarrow> CA \<Rightarrow> (CertificateSpec \<Rightarrow> CertificateSpec) \<Rightarrow> certificate_reconciler"
    and secretName :: "Certificate \<Rightarrow> string"
    and issuerName :: "CA \<Rightarrow> string"
    and templates :: CertificateTemplateMap
  assumes leaf_form: "\<exists>labels secretLabels. leaf kind ca extra =
     (secretName kind, render_certificate labels
        (extra (leaf_spec (secretName kind) secretLabels (issuerName ca)))
        (Some (CertificateTemplate_of templates kind)))"
begin

lemma leaf_name: "fst (leaf kind ca extra) = secretName kind"
  using leaf_form [of kind ca extra] by auto

lemma leaf_secret:
  assumes "\<And>s. ce_SecretName (extra s) = ce_SecretName s"
  shows "certificate_secret (leaf kind ca extra) = secretName kind"
  using leaf_form [of kind ca extra] assms by auto

lemma leaf_issuer:
  assumes "no_issuer_overrides templates" "\<And>s. ce_IssuerRef (extra s) = ce_IssuerRef s"
  shows "ce_IssuerRef (desired_spec (leaf kind ca extra)) = OwnIssuer (issuerName ca)"
  using leaf_form [of kind ca extra] desired_issuer [OF no_override_template(1) [OF assms(1)]] assms(2)
  by (auto simp del: desired_spec_render)

lemma leaf_dns:
  assumes "no_issuer_overrides templates" "\<And>s. ce_DNSNames (extra s) = names"
  shows "set names \<subseteq> set (ce_DNSNames (desired_spec (leaf kind ca extra)))"
  using leaf_form [of kind ca extra] desired_dns [OF no_override_template(1) [OF assms(1)]] assms(2)
  by (metis (no_types, lifting))

lemma leaf_idem: "snd (leaf kind ca extra) (snd (leaf kind ca extra) c) = snd (leaf kind ca extra) c"
  using leaf_form [of kind ca extra] by (auto simp: render_certificate_idem)

end

section \<open>Issuers\<close>

definition render_issuer :: "gomap \<Rightarrow> string \<Rightarrow> Issuer \<Rightarrow> Issuer" where
  "render_issuer labels secretName issuer =
     issuer\<lparr>is_Meta := (is_Meta issuer)\<lparr>om_Labels := labels\<rparr>, is_CASecretName := Some secretName\<rparr>"

lemma render_issuer_sel [simp]:
  "is_CASecretName (render_issuer labels s i) = Some s"
  "render_issuer labels s (render_issuer labels s i) = render_issuer labels s i"
  by (simp_all add: render_issuer_def)

section \<open>Kubeconfigs\<close>

text \<open>\<open>clientcmdapi.Config\<close> with the fields the code sets. \<open>clientcmd.Write\<close> is a parameter of the
  secret reconcilers.\<close>

record kube_cluster =
  kcl_Server :: string
  kcl_CertificateAuthority :: string
  kcl_CertificateAuthorityData :: string

record kube_context =
  kcx_Cluster :: string
  kcx_AuthInfo :: string

record kube_auth =
  kau_ClientCertificate :: string
  kau_ClientKey :: string
  kau_ClientCertificateData :: string
  kau_ClientKeyData :: string

record kube_config =
  kcf_Clusters :: "(string, kube_cluster) fmap"
  kcf_Contexts :: "(string, kube_context) fmap"
  kcf_AuthInfos :: "(string, kube_auth) fmap"
  kcf_CurrentContext :: string

text \<open>The kubeconfigs with file references have one cluster, context and user.\<close>

definition file_kubeconfig :: "string \<Rightarrow> string \<Rightarrow> string \<Rightarrow> string \<Rightarrow> string \<Rightarrow> string \<Rightarrow> kube_config" where
  "file_kubeconfig serverName contextName authInfoName server caPath certPath =
     \<lparr>kcf_Clusters = fmap_of_list [(serverName,
        \<lparr>kcl_Server = server, kcl_CertificateAuthority = caPath @ ''/tls.crt'',
         kcl_CertificateAuthorityData = []\<rparr>)],
      kcf_Contexts = fmap_of_list [(contextName, \<lparr>kcx_Cluster = serverName, kcx_AuthInfo = authInfoName\<rparr>)],
      kcf_AuthInfos = fmap_of_list [(authInfoName,
        \<lparr>kau_ClientCertificate = certPath @ ''/tls.crt'', kau_ClientKey = certPath @ ''/tls.key'',
         kau_ClientCertificateData = [], kau_ClientKeyData = []\<rparr>)],
      kcf_CurrentContext = contextName\<rparr>"

definition render_kubeconfig_secret ::
    "(kube_config \<Rightarrow> string res) \<Rightarrow> (string \<times> string) list \<Rightarrow> kube_config \<Rightarrow> Secret \<Rightarrow> Secret res" where
  "render_kubeconfig_secret write labels config secret =
     bindE (write config) (\<lambda>data. Inr (secret\<lparr>
       sec_Meta := (sec_Meta secret)\<lparr>om_Labels :=
          foldl (\<lambda>m (k, v). fmupd k v m) (om_Labels (sec_Meta secret)) labels\<rparr>,
       sec_Data := fmupd ''kubeconfig'' data (sec_Data secret)\<rparr>))"

text \<open>A kubeconfig works if its current context names a cluster and a user it has.\<close>

definition kubeconfig_ok :: "kube_config \<Rightarrow> bool" where
  "kubeconfig_ok c \<longleftrightarrow> (case fmlookup (kcf_Contexts c) (kcf_CurrentContext c) of
     None \<Rightarrow> False
   | Some x \<Rightarrow> fmlookup (kcf_Clusters c) (kcx_Cluster x) \<noteq> None
       \<and> fmlookup (kcf_AuthInfos c) (kcx_AuthInfo x) \<noteq> None)"

text \<open>The files a kubeconfig with file references needs.\<close>

definition kubeconfig_files :: "kube_config \<Rightarrow> string set" where
  "kubeconfig_files c =
     kcl_CertificateAuthority ` fset (fmran (kcf_Clusters c))
     \<union> kau_ClientCertificate ` fset (fmran (kcf_AuthInfos c))
     \<union> kau_ClientKey ` fset (fmran (kcf_AuthInfos c))"

lemma fmran_single: "fset (fmran (fmupd k v fmempty)) = {v}"
  by (auto simp: fmlookup_ran_iff fmran_empty split: if_splits)

lemma file_kubeconfig_ok [simp]: "kubeconfig_ok (file_kubeconfig s x a srv ca crt)"
  by (simp add: kubeconfig_ok_def file_kubeconfig_def)

lemma file_kubeconfig_files [simp]:
  "kubeconfig_files (file_kubeconfig s x a srv ca crt) =
     {ca @ ''/tls.crt'', crt @ ''/tls.crt'', crt @ ''/tls.key''}"
  by (auto simp: kubeconfig_files_def file_kubeconfig_def fmran_single)

end
