(* ===== verification/Controller_Util.thy ===== *)
theory Controller_Util
  imports Deploy_Utils Sample_Objects "HOL-Library.Multiset"
begin

text \<open>
  \<open>pkg/controller/util/util.go\<close>: what the controllers share. Conditions, the readiness of
  certificates and deployments, certificate revisions, the root shard a reference names and the
  shards of a root shard.

  \<open>apimeta.FindStatusCondition\<close> and \<open>apimeta.SetStatusCondition\<close> are third-party and come in
  a record together with the current time; \<open>conditions_ok\<close> states their documented behaviour. A
  read from the API server is a parameter that returns the object or the error.
\<close>

section \<open>Conditions\<close>

record condition_lib =
  FindStatusCondition :: "Condition list \<Rightarrow> string \<Rightarrow> Condition option"
  SetStatusCondition :: "Condition list \<Rightarrow> Condition \<Rightarrow> Condition list"
  metav1_Now :: int

text \<open>What a set of conditions says, per type; the library's \<open>Set\<close> overwrites one entry. With an
  unchanged status it keeps the entry's old transition time, with a new one it takes the given
  time (which is never unset here).\<close>

definition conditions_ok :: "condition_lib \<Rightarrow> bool" where
  "conditions_ok lib \<longleftrightarrow>
     (\<forall>cs t c. FindStatusCondition lib cs t = Some c \<longrightarrow> cond_Type c = t)
     \<and> (\<forall>t. FindStatusCondition lib [] t = None)
     \<and> (\<forall>cs c t. t \<noteq> cond_Type c \<longrightarrow>
          FindStatusCondition lib (SetStatusCondition lib cs c) t = FindStatusCondition lib cs t)
     \<and> (\<forall>cs c. FindStatusCondition lib (SetStatusCondition lib cs c) (cond_Type c) =
          Some (case FindStatusCondition lib cs (cond_Type c) of
              None \<Rightarrow> c
            | Some old \<Rightarrow> if cond_Status old = cond_Status c
                then c\<lparr>cond_LastTransitionTime := cond_LastTransitionTime old\<rparr> else c))"

definition UpdateCondition ::
    "condition_lib \<Rightarrow> Condition list \<Rightarrow> Condition \<Rightarrow> Condition list" where
  "UpdateCondition lib conditions newCondition =
     (let update = (\<lambda>t. SetStatusCondition lib conditions (newCondition\<lparr>cond_LastTransitionTime := t\<rparr>)) in
      case FindStatusCondition lib conditions (cond_Type newCondition) of
        None \<Rightarrow> update (metav1_Now lib)
      | Some cond \<Rightarrow>
          if cond_ObservedGeneration cond \<noteq> cond_ObservedGeneration newCondition
              \<or> cond_Status cond \<noteq> cond_Status newCondition
          then update (if cond_Status cond = cond_Status newCondition
                       then cond_LastTransitionTime cond else metav1_Now lib)
          else conditions)"

text \<open>The loop of every \<open>reconcileStatus\<close>: each condition is stamped with the generation of the
  object and put in.\<close>

definition UpdateConditions ::
    "condition_lib \<Rightarrow> int \<Rightarrow> Condition list \<Rightarrow> Condition list \<Rightarrow> Condition list" where
  "UpdateConditions lib generation new conditions =
     foldl (\<lambda>cs c. UpdateCondition lib cs (c\<lparr>cond_ObservedGeneration := generation\<rparr>)) conditions new"

definition new_condition :: "string \<Rightarrow> ConditionStatus \<Rightarrow> string \<Rightarrow> string \<Rightarrow> Condition" where
  "new_condition typ status reason message = \<lparr>cond_Type = typ, cond_Status = status,
     cond_ObservedGeneration = 0, cond_LastTransitionTime = 0, cond_Reason = reason,
     cond_Message = message\<rparr>"

definition GetCompiledAvailableCondition ::
    "condition_lib \<Rightarrow> Condition list \<Rightarrow> string \<Rightarrow> Condition" where
  "GetCompiledAvailableCondition lib conditions compiledName =
     (case FindStatusCondition lib conditions ''Available'' of
        Some cond \<Rightarrow> new_condition (cond_Type cond) (cond_Status cond) (cond_Reason cond) (cond_Message cond)
      | None \<Rightarrow> new_condition ''Available'' ConditionFalse ''DeploymentUnavailable''
          (compiledName @ '' has not been rendered yet.''))"

section \<open>Deployments\<close>

definition deploymentReady :: "Deployment \<Rightarrow> bool" where
  "deploymentReady dep \<longleftrightarrow>
     dst_UpdatedReplicas (dep_Status dep) = dst_ReadyReplicas (dep_Status dep)
     \<and> dst_ReadyReplicas (dep_Status dep)
         = (case ds_Replicas (dep_Spec dep) of None \<Rightarrow> 0 | Some n \<Rightarrow> n)"

text \<open>\<open>getDeployment\<close> is the read of the deployment; not found leaves the zero object, whose name
  is empty.\<close>

definition GetDeploymentAvailableCondition ::
    "Deployment res \<Rightarrow> string \<Rightarrow> string \<Rightarrow> Condition res" where
  "GetDeploymentAvailableCondition getDeployment ns name =
     (let msg = ''Deployment '' @ ns @ ''/'' @ name in
      case getDeployment of
        Inl err \<Rightarrow> if apierrors_IsNotFound err
          then Inr (new_condition ''Available'' ConditionFalse ''DeploymentUnavailable''
                 (msg @ '' does not exist.''))
          else Inl err
      | Inr dep \<Rightarrow> Inr (
          if om_Name (dep_Meta dep) = [] then
            new_condition ''Available'' ConditionFalse ''DeploymentUnavailable'' (msg @ '' does not exist.'')
          else if deploymentReady dep then
            new_condition ''Available'' ConditionTrue ''ReplicasUp'' (msg @ '' is fully up and running.'')
          else new_condition ''Available'' ConditionFalse ''ReplicasUnavailable''
            (msg @ '' is not in desired replica state.'')))"

section \<open>Certificates\<close>

fun ready_condition :: "(string \<times> ConditionStatus) list \<Rightarrow> bool" where
  "ready_condition [] = False"
| "ready_condition ((t, s) # cs) = (if t = ''Ready'' then s = ConditionTrue else ready_condition cs)"

definition certificateReady :: "CertManagerCertificate \<Rightarrow> bool" where
  "certificateReady cert = ready_condition (cc_Conditions cert)"

fun certificate_revisions :: "gomap \<Rightarrow> CertManagerCertificate list \<Rightarrow> gomap \<times> bool" where
  "certificate_revisions revisions [] = (revisions, True)"
| "certificate_revisions revisions (cert # certs) =
     (if certificateReady cert
      then certificate_revisions (fmupd (om_Name (cc_Meta cert))
             (Itoa (case cc_Revision cert of None \<Rightarrow> 0 | Some r \<Rightarrow> r)) revisions) certs
      else (fmempty, False))"

definition CertificateRevisions :: "CertManagerCertificate list \<Rightarrow> gomap \<times> bool" where
  "CertificateRevisions certs = certificate_revisions fmempty certs"

definition MutateKeys :: "gomap \<Rightarrow> string \<Rightarrow> string \<Rightarrow> gomap" where
  "MutateKeys m pre post =
     fmap_of_list (map (\<lambda>(k, v). (pre @ k @ post, v)) (sorted_list_of_fmap m))"

section \<open>Root shards and their shards\<close>

fun err_str :: "go_error \<Rightarrow> string" where
  "err_str (Plain s) = s"
| "err_str (NotFound s) = s"
| "err_str (ApiError s) = s"
| "err_str (Wrapped s e) = s @ '': '' @ err_str e"
| "err_str (MountNotFound e) = ''mounted Secret or ConfigMap not found: '' @ err_str e"
| "err_str (Aggregate es) = (case remdups (map err_str es) of [] \<Rightarrow> [] | [x] \<Rightarrow> x
     | xs \<Rightarrow> ''['' @ strings_Join xs '', '' @ '']'')"
| "err_str (Panic s) = s"

definition FetchRootShard ::
    "(string \<Rightarrow> RootShard res) \<Rightarrow> LocalObjectReference option \<Rightarrow> Condition \<times> RootShard option" where
  "FetchRootShard getRootShard ref = (case ref of
     None \<Rightarrow> (new_condition ''RootShard'' ConditionFalse ''InvalidReference''
        ''No valid RootShard defined in spec.'', None)
   | Some r \<Rightarrow> (case getRootShard (lor_Name r) of
       Inl err \<Rightarrow> (new_condition ''RootShard'' ConditionFalse ''InvalidReference''
          (''Failed to retrieve RootShard: '' @ err_str err @ ''.''), None)
     | Inr rootShard \<Rightarrow> (new_condition ''RootShard'' ConditionTrue ''Valid''
          ''RootShard reference is valid.'', Some rootShard)))"

text \<open>A shard without a reference to a root shard makes the loop dereference \<open>nil\<close>.\<close>

fun children_of :: "string \<Rightarrow> Shard list \<Rightarrow> Shard list res" where
  "children_of name [] = Inr []"
| "children_of name (s # ss) = (case rsc_Reference (ss_RootShard (sh_Spec s)) of
     None \<Rightarrow> Inl (Panic ''nil pointer dereference'')
   | Some ref \<Rightarrow> bindE (children_of name ss)
       (\<lambda>rest. Inr (if lor_Name ref = name then s # rest else rest)))"

definition shard_name :: "Shard \<Rightarrow> string" where
  "shard_name s = om_Name (sh_Meta s)"

definition GetRootShardChildren :: "Shard list res \<Rightarrow> RootShard \<Rightarrow> Shard list res" where
  "GetRootShardChildren listShards rootShard = (case listShards of
     Inl err \<Rightarrow> Inl (Aggregate [err])
   | Inr shards \<Rightarrow> bindE (children_of (om_Name (rsh_Meta rootShard)) shards)
       (\<lambda>result. Inr (sort_key shard_name result)))"

section \<open>Facts\<close>

lemma map_of_wrapped_keys:
  "inj f \<Longrightarrow> map_of (map (\<lambda>(k, v). (f k, v)) xs) (f k) = map_of xs k"
  by (induction xs) (auto dest: injD)

lemma inj_wrap: "inj (\<lambda>k. (p::string) @ k @ s)"
  by (simp add: inj_on_def)

lemma map_of_sorted_fmap: "map_of (sorted_list_of_fmap m) k = fmlookup m k"
  by simp

lemma MutateKeys_lookup:
  "mget (MutateKeys m p s) (p @ k @ s) = mget m k"
  using map_of_wrapped_keys [OF inj_wrap, of p s "sorted_list_of_fmap m" k]
  by (simp add: MutateKeys_def fmlookup_of_list map_of_sorted_fmap)

lemma MutateKeys_other:
  assumes "\<forall>k. key \<noteq> p @ k @ s"
  shows "mget (MutateKeys m p s) key = None"
proof -
  have "key \<notin> fst ` set (map (\<lambda>(k, v). (p @ k @ s, v)) xs)" for xs :: "(string \<times> string) list"
    using assms by fastforce
  then show ?thesis by (simp add: MutateKeys_def fmlookup_of_list map_of_eq_None_iff)
qed

lemma certificate_revisions_ready:
  "snd (certificate_revisions m certs) \<longleftrightarrow> list_all certificateReady certs"
  by (induction certs arbitrary: m) auto

lemma certificate_revisions_lookup:
  assumes "list_all certificateReady certs" "distinct (map (\<lambda>c. om_Name (cc_Meta c)) certs)"
    "c \<in> set certs"
  shows "mget (fst (certificate_revisions m certs)) (om_Name (cc_Meta c))
     = Some (Itoa (case cc_Revision c of None \<Rightarrow> 0 | Some r \<Rightarrow> r))"
proof -
  have keep: "k \<notin> (\<lambda>c. om_Name (cc_Meta c)) ` set certs \<Longrightarrow> list_all certificateReady certs
      \<Longrightarrow> mget (fst (certificate_revisions m certs)) k = mget m k" for k m certs
    by (induction certs arbitrary: m) auto
  show ?thesis using assms
    by (induction certs arbitrary: m) (auto simp: keep)
qed

lemma CertificateRevisions_ready [simp]:
  "snd (CertificateRevisions certs) \<longleftrightarrow> list_all certificateReady certs"
  by (simp add: CertificateRevisions_def certificate_revisions_ready)

lemma CertificateRevisions_empty [simp]: "CertificateRevisions [] = (fmempty, True)"
  by (simp add: CertificateRevisions_def)

lemma children_of_spec:
  "children_of name ss =
     (if \<forall>s \<in> set ss. rsc_Reference (ss_RootShard (sh_Spec s)) \<noteq> None
      then Inr (filter (\<lambda>s. map_option lor_Name (rsc_Reference (ss_RootShard (sh_Spec s))) = Some name) ss)
      else Inl (Panic ''nil pointer dereference''))"
  by (induction ss) (auto split: option.splits)

text \<open>What \<open>UpdateCondition\<close> does to the entry of the condition's type: a new generation or a new
  status replaces the entry, anything else leaves it as it is. The transition time moves exactly
  when the status does.\<close>

lemma UpdateCondition_other:
  assumes "conditions_ok lib" "t \<noteq> cond_Type c"
  shows "FindStatusCondition lib (UpdateCondition lib cs c) t = FindStatusCondition lib cs t"
proof -
  have "FindStatusCondition lib (SetStatusCondition lib cs (c\<lparr>cond_LastTransitionTime := x\<rparr>)) t
      = FindStatusCondition lib cs t" for x
    using assms unfolding conditions_ok_def by (metis Condition.select_convs(1) Condition.surjective Condition.update_convs(4))
  then show ?thesis by (auto simp: UpdateCondition_def Let_def split: option.splits)
qed

lemma Set_Find:
  assumes "conditions_ok lib"
  shows "FindStatusCondition lib (SetStatusCondition lib cs (c\<lparr>cond_LastTransitionTime := t\<rparr>)) (cond_Type c)
     = Some (case FindStatusCondition lib cs (cond_Type c) of
         None \<Rightarrow> c\<lparr>cond_LastTransitionTime := t\<rparr>
       | Some old \<Rightarrow> if cond_Status old = cond_Status c
           then c\<lparr>cond_LastTransitionTime := cond_LastTransitionTime old\<rparr>
           else c\<lparr>cond_LastTransitionTime := t\<rparr>)"
proof -
  have "\<forall>cs c. FindStatusCondition lib (SetStatusCondition lib cs c) (cond_Type c) =
      Some (case FindStatusCondition lib cs (cond_Type c) of None \<Rightarrow> c
        | Some old \<Rightarrow> if cond_Status old = cond_Status c
            then c\<lparr>cond_LastTransitionTime := cond_LastTransitionTime old\<rparr> else c)"
    using assms by (simp add: conditions_ok_def)
  from this [rule_format, of cs "c\<lparr>cond_LastTransitionTime := t\<rparr>"] show ?thesis
    by (auto split: option.splits)
qed

lemma UpdateCondition_same:
  assumes "conditions_ok lib"
  shows "FindStatusCondition lib (UpdateCondition lib cs c) (cond_Type c) =
     Some (case FindStatusCondition lib cs (cond_Type c) of
       None \<Rightarrow> c\<lparr>cond_LastTransitionTime := metav1_Now lib\<rparr>
     | Some old \<Rightarrow>
         if cond_Status old \<noteq> cond_Status c then c\<lparr>cond_LastTransitionTime := metav1_Now lib\<rparr>
         else if cond_ObservedGeneration old \<noteq> cond_ObservedGeneration c
           then c\<lparr>cond_LastTransitionTime := cond_LastTransitionTime old\<rparr>
         else old)"
  by (auto simp: UpdateCondition_def Let_def Set_Find [OF assms] split: option.splits)

section \<open>Properties\<close>

text \<open>A straightforward implementation of the condition library, for concrete inputs.\<close>

definition list_find_condition :: "Condition list \<Rightarrow> string \<Rightarrow> Condition option" where
  "list_find_condition cs t = List.find (\<lambda>c. cond_Type c = t) cs"

fun list_set_condition :: "Condition list \<Rightarrow> Condition \<Rightarrow> Condition list" where
  "list_set_condition [] c = [c]"
| "list_set_condition (x # xs) c =
     (if cond_Type x = cond_Type c
      then (if cond_Status x = cond_Status c
            then c\<lparr>cond_LastTransitionTime := cond_LastTransitionTime x\<rparr> else c) # xs
      else x # list_set_condition xs c)"

definition list_conditions :: "int \<Rightarrow> condition_lib" where
  "list_conditions now = \<lparr>FindStatusCondition = list_find_condition,
     SetStatusCondition = list_set_condition, metav1_Now = now\<rparr>"

lemma list_conditions_ok: "conditions_ok (list_conditions now)"
proof -
  have other: "list_find_condition (list_set_condition cs c) t = list_find_condition cs t"
    if "t \<noteq> cond_Type c" for cs c t
    using that by (induction cs) (auto simp: list_find_condition_def)
  have same: "list_find_condition (list_set_condition cs c) (cond_Type c) =
      Some (case list_find_condition cs (cond_Type c) of None \<Rightarrow> c
        | Some old \<Rightarrow> if cond_Status old = cond_Status c
            then c\<lparr>cond_LastTransitionTime := cond_LastTransitionTime old\<rparr> else c)" for cs c
    by (induction cs) (auto simp: list_find_condition_def)
  have found: "cond_Type c = t" if "list_find_condition cs t = Some c" for cs t c
    using that by (auto simp: list_find_condition_def find_Some_iff)
  have none: "list_find_condition [] t = None" for t
    by (simp add: list_find_condition_def)
  show ?thesis
    unfolding conditions_ok_def list_conditions_def condition_lib.simps
    by (intro conjI allI impI; (rule other | rule same | rule found | rule none); assumption?)
qed

text \<open>\<open>UpdateCondition\<close> leaves the other types alone, makes the entry of the given type carry
  the given status and generation, and moves the transition time exactly when the status changes.
  Reason and message are taken over only together with a new generation or status: a controller
  that fails for a new reason at the same generation keeps reporting the old one.\<close>

theorem UpdateCondition_correct:
  assumes "conditions_ok lib"
  shows "(\<forall>t. t \<noteq> cond_Type c \<longrightarrow>
       FindStatusCondition lib (UpdateCondition lib cs c) t = FindStatusCondition lib cs t)
   \<and> (\<exists>new. FindStatusCondition lib (UpdateCondition lib cs c) (cond_Type c) = Some new
       \<and> cond_Status new = cond_Status c
       \<and> cond_ObservedGeneration new = cond_ObservedGeneration c
       \<and> (case FindStatusCondition lib cs (cond_Type c) of
            None \<Rightarrow> cond_LastTransitionTime new = metav1_Now lib \<and> cond_Reason new = cond_Reason c
          | Some old \<Rightarrow>
              cond_LastTransitionTime new =
                (if cond_Status old = cond_Status c then cond_LastTransitionTime old else metav1_Now lib)
            \<and> cond_Reason new =
                (if cond_Status old = cond_Status c
                    \<and> cond_ObservedGeneration old = cond_ObservedGeneration c
                 then cond_Reason old else cond_Reason c)))"
  using UpdateCondition_other [OF assms] UpdateCondition_same [OF assms, of cs c]
  by (auto split: option.splits)

theorem UpdateCondition_correct_witness:
  "UpdateCondition (list_conditions 9)
      [new_condition ''Available'' ConditionFalse ''ReplicasUnavailable'' ''old'']
      (new_condition ''Available'' ConditionFalse ''DeploymentUnavailable'' ''new'')
    = [new_condition ''Available'' ConditionFalse ''ReplicasUnavailable'' ''old'']
   \<and> (\<exists>new. FindStatusCondition (list_conditions 9) (UpdateCondition (list_conditions 9)
        [new_condition ''Available'' ConditionFalse ''ReplicasUnavailable'' ''old'']
        (new_condition ''Available'' ConditionTrue ''ReplicasUp'' ''new'')) ''Available'' = Some new
      \<and> cond_LastTransitionTime new = 9 \<and> cond_Reason new = ''ReplicasUp'')"
  using UpdateCondition_correct [OF list_conditions_ok,
      of "new_condition ''Available'' ConditionTrue ''ReplicasUp'' ''new''" 9
         "[new_condition ''Available'' ConditionFalse ''ReplicasUnavailable'' ''old'']"]
  by (auto simp: UpdateCondition_def list_conditions_def list_find_condition_def new_condition_def)

text \<open>the shards of a root shard are exactly the listed shards that reference it, sorted by
  name, and do not depend on the order of the listing. One shard without a reference, whatever
  root shard is asked about, makes the call panic.\<close>

theorem GetRootShardChildren_correct:
  assumes "distinct (map shard_name shards)"
  shows "if \<forall>s \<in> set shards. rsc_Reference (ss_RootShard (sh_Spec s)) \<noteq> None
     then (\<exists>result. GetRootShardChildren (Inr shards) rootShard = Inr result
       \<and> set result = {s \<in> set shards. map_option lor_Name (rsc_Reference (ss_RootShard (sh_Spec s)))
            = Some (om_Name (rsh_Meta rootShard))}
       \<and> sorted (map shard_name result) \<and> distinct result
       \<and> (\<forall>listing. mset listing = mset shards \<longrightarrow>
            GetRootShardChildren (Inr listing) rootShard = Inr result))
     else GetRootShardChildren (Inr shards) rootShard = Inl (Panic ''nil pointer dereference'')"
proof (cases "\<forall>s \<in> set shards. rsc_Reference (ss_RootShard (sh_Spec s)) \<noteq> None")
  case refs: True
  let ?P = "\<lambda>s. map_option lor_Name (rsc_Reference (ss_RootShard (sh_Spec s)))
     = Some (om_Name (rsh_Meta rootShard))"
  let ?r = "sort_key shard_name (filter ?P shards)"
  have inj: "inj_on shard_name (set shards)" and dist: "distinct shards"
    using assms by (simp_all add: distinct_map)
  have eq: "GetRootShardChildren (Inr listing) rootShard = Inr ?r"
    if "mset listing = mset shards" for listing
  proof -
    have same: "set listing = set shards" using that by (rule mset_eq_setD)
    have "inj_on shard_name (set (filter ?P listing))"
      by (rule inj_on_subset [OF inj]) (use same in auto)
    moreover have "mset (filter ?P listing) = mset (filter ?P shards)" using that by simp
    ultimately have "sort_key shard_name (filter ?P listing) = ?r"
      by (intro sort_key_inj_key_eq) (simp_all del: mset_filter)
    then show ?thesis using refs same
      by (simp add: GetRootShardChildren_def children_of_spec)
  qed
  show ?thesis using refs eq dist by (auto intro!: exI [of _ ?r])
next
  case False
  then show ?thesis by (auto simp: GetRootShardChildren_def children_of_spec)
qed

theorem GetRootShardChildren_correct_witness:
  "\<exists>result. GetRootShardChildren (Inr [sample_shard]) sample_rootshard = Inr result
     \<and> set result = {sample_shard}"
  using GetRootShardChildren_correct [of "[sample_shard]" sample_rootshard]
  by (auto simp: sample_shard_def sample_rootshard_def sample_shard_spec_def sample_meta_def)

end
