(* ===== verification/Pki_RootShard.thy ===== *)
theory Pki_RootShard
  imports Pki_Base Controller_Util
begin

text \<open>
  \<open>internal/resources/rootshard\<close>: the certificates, certificate authorities, issuers, kubeconfigs
  and CA bundles of a root shard, and the compiled object. The root shard's CA hierarchy is the
  trust anchor of the whole installation: shards, proxies, virtual workspaces and kubeconfigs
  have their certificates signed by its issuers.
\<close>

section \<open>Leaf certificates\<close>

definition rootshard_secret_labels :: "RootShard \<Rightarrow> (string \<times> string) list" where
  "rootshard_secret_labels r = [(RootShardLabel, om_Name (rsh_Meta r))]"

definition rootshard_template :: "RootShard \<Rightarrow> Certificate \<Rightarrow> CertificateTemplate" where
  "rootshard_template r kind = CertificateTemplate_of (cs_CertificateTemplates (rsh_Spec r)) kind"

definition rootshard_leaf ::
    "RootShard \<Rightarrow> Certificate \<Rightarrow> CA \<Rightarrow> (CertificateSpec \<Rightarrow> CertificateSpec) \<Rightarrow> certificate_reconciler"
  where
  "rootshard_leaf r kind ca extra =
     (let name = GetRootShardCertificateName r kind in
      (name, render_certificate (GetRootShardResourceLabels r)
         (extra (leaf_spec name (rootshard_secret_labels r) (GetRootShardCAName r ca)))
         (Some (rootshard_template r kind))))"

interpretation rootshard_pki: signed_component "rootshard_leaf r" "GetRootShardCertificateName r"
    "GetRootShardCAName r" "cs_CertificateTemplates (rsh_Spec r)" for r
  by unfold_locales (auto simp: rootshard_leaf_def rootshard_template_def Let_def)

definition buildRootShardDNSNames :: "RootShard \<Rightarrow> string list" where
  "buildRootShardDNSNames r =
     (let hostname = ExtractHostnameFromURL (cs_ShardBaseURL (rsh_Spec r)) in
      sets_List [GetRootShardBaseHost r, ext_Hostname (rs_External (rsh_Spec r))]
        (if cs_ShardBaseURL (rsh_Spec r) \<noteq> [] \<and> hostname \<noteq> [] then [hostname] else []))"

definition rootshard_ServerCertificateReconciler :: "RootShard \<Rightarrow> certificate_reconciler" where
  "rootshard_ServerCertificateReconciler r =
     rootshard_leaf r ServerCertificate ServerCA (\<lambda>s. s\<lparr>ce_Usages := server_usages,
       ce_DNSNames := buildRootShardDNSNames r\<rparr>)"

definition rootshard_VirtualWorkspacesCertificateReconciler :: "RootShard \<Rightarrow> certificate_reconciler"
  where
  "rootshard_VirtualWorkspacesCertificateReconciler r =
     rootshard_leaf r VirtualWorkspacesCertificate ServerCA (\<lambda>s. s\<lparr>ce_Usages := [UsageServerAuth],
       ce_DNSNames := [ext_Hostname (rs_External (rsh_Spec r))]\<rparr>)"

definition rootshard_ServiceAccountCertificateReconciler :: "RootShard \<Rightarrow> certificate_reconciler"
  where
  "rootshard_ServiceAccountCertificateReconciler r =
     rootshard_leaf r ServiceAccountCertificate ServiceAccountCA (\<lambda>s. s\<lparr>
       ce_CommonName := GetRootShardCertificateName r ServiceAccountCertificate,
       ce_Usages := [UsageDigitalSignature, UsageKeyEncipherment]\<rparr>)"

definition rootshard_LogicalClusterAdminCertificateReconciler :: "RootShard \<Rightarrow> certificate_reconciler"
  where
  "rootshard_LogicalClusterAdminCertificateReconciler r =
     rootshard_leaf r LogicalClusterAdminCertificate ClientCA (\<lambda>s. s\<lparr>
       ce_CommonName := ''logical-cluster-admin'',
       ce_Subject := Organizations [''system:kcp:logical-cluster-admin''],
       ce_Usages := [UsageClientAuth]\<rparr>)"

definition rootshard_ExternalLogicalClusterAdminCertificateReconciler ::
    "RootShard \<Rightarrow> certificate_reconciler" where
  "rootshard_ExternalLogicalClusterAdminCertificateReconciler r =
     rootshard_leaf r ExternalLogicalClusterAdminCertificate ClientCA (\<lambda>s. s\<lparr>
       ce_CommonName := ''external-logical-cluster-admin'',
       ce_Subject := Organizations [''system:kcp:external-logical-cluster-admin''],
       ce_Usages := [UsageClientAuth]\<rparr>)"

definition rootshard_OperatorClientCertificateReconciler :: "RootShard \<Rightarrow> certificate_reconciler"
  where
  "rootshard_OperatorClientCertificateReconciler r =
     rootshard_leaf r OperatorCertificate ClientCA (\<lambda>s. s\<lparr>
       ce_CommonName := OperatorUsername,
       ce_Subject := Organizations [''system:kcp:admin''],
       ce_Usages := [UsageClientAuth]\<rparr>)"

definition rootshard_ClientCertificateReconciler :: "RootShard \<Rightarrow> certificate_reconciler" where
  "rootshard_ClientCertificateReconciler r =
     rootshard_leaf r ClientCertificate ClientCA (\<lambda>s. s\<lparr>
       ce_CommonName := om_Name (rsh_Meta r),
       ce_Subject := Organizations [''system:masters''],
       ce_Usages := [UsageClientAuth]\<rparr>)"

section \<open>Certificate authorities and issuers\<close>

definition rootshard_ca_template :: "RootShard \<Rightarrow> CA \<Rightarrow> CertificateTemplate" where
  "rootshard_ca_template r ca = CATemplate_of (cs_CertificateTemplates (rsh_Spec r)) ca"

text \<open>Called without an \<open>issuerRef\<close> the constructor panics.\<close>

definition rootshard_RootCACertificateReconciler :: "RootShard \<Rightarrow> certificate_reconciler res" where
  "rootshard_RootCACertificateReconciler r =
     (let name = GetRootShardCAName r RootCA in
      case crt_IssuerRef (rs_Certificates (rsh_Spec r)) of
        None \<Rightarrow> Inl (Panic ''RootCACertificateReconciler must not be called if no issuerRef is specified.'')
      | Some ref \<Rightarrow> Inr (name, render_certificate (GetRootShardResourceLabels r)
          (ca_spec name (rootshard_secret_labels r)
             \<lparr>ir_Name = oref_Name ref, ir_Kind = oref_Kind ref, ir_Group = oref_Group ref\<rparr>)
          (Some (rootshard_ca_template r RootCA))))"

definition rootshard_CACertificateReconciler :: "RootShard \<Rightarrow> CA \<Rightarrow> certificate_reconciler" where
  "rootshard_CACertificateReconciler r ca =
     (let name = GetRootShardCAName r ca in
      (name, render_certificate (GetRootShardResourceLabels r)
         (ca_spec name (rootshard_secret_labels r) (OwnIssuer (GetRootShardCAName r RootCA)))
         (Some (rootshard_ca_template r ca))))"

definition rootshard_RootCAIssuerReconciler :: "RootShard \<Rightarrow> issuer_reconciler" where
  "rootshard_RootCAIssuerReconciler r =
     (let name = GetRootShardCAName r RootCA in
      (name, render_issuer (GetRootShardResourceLabels r)
         (case crt_CASecretRef (rs_Certificates (rsh_Spec r)) of
            None \<Rightarrow> name | Some ref \<Rightarrow> lor_Name ref)))"

definition rootshard_CAIssuerReconciler :: "RootShard \<Rightarrow> CA \<Rightarrow> issuer_reconciler" where
  "rootshard_CAIssuerReconciler r ca =
     (let name = GetRootShardCAName r ca in (name, render_issuer (GetRootShardResourceLabels r) name))"

definition rootshard_ClientCAIssuerReconciler :: "RootShard \<Rightarrow> issuer_reconciler" where
  "rootshard_ClientCAIssuerReconciler r =
     (let name = GetRootShardCAName r ClientCA in
      (name, render_issuer (GetRootShardResourceLabels r) name))"

section \<open>Kubeconfigs\<close>

definition rootshard_getCertificateMountPath :: "Certificate \<Rightarrow> string" where
  "rootshard_getCertificateMountPath c = ''/etc/kcp/tls/'' @ cert_str c"

definition rootshard_getCAMountPath :: "CA \<Rightarrow> string" where
  "rootshard_getCAMountPath c = ''/etc/kcp/tls/ca/'' @ ca_str c"

definition rootshard_kubeconfigSecret :: "RootShard \<Rightarrow> Certificate \<Rightarrow> string" where
  "rootshard_kubeconfigSecret r cert = om_Name (rsh_Meta r) @ ''-'' @ cert_str cert @ ''-kubeconfig''"

definition rootshard_admin_kubeconfig :: "RootShard \<Rightarrow> kube_config" where
  "rootshard_admin_kubeconfig r = file_kubeconfig ''root-shard'' ''shard-base'' ''shard''
     (GetRootShardBaseURL r) (rootshard_getCAMountPath ServerCA)
     (rootshard_getCertificateMountPath LogicalClusterAdminCertificate)"

definition rootshard_LogicalClusterAdminKubeconfigReconciler ::
    "(kube_config \<Rightarrow> string res) \<Rightarrow> RootShard \<Rightarrow> secret_reconciler" where
  "rootshard_LogicalClusterAdminKubeconfigReconciler write r =
     (rootshard_kubeconfigSecret r LogicalClusterAdminCertificate,
      render_kubeconfig_secret write (rootshard_secret_labels r) (rootshard_admin_kubeconfig r))"

text \<open>The URL of the front proxy: the private host name is preferred, with the private port if
  there is one.\<close>

definition external_admin_url :: "ExternalConfig \<Rightarrow> string" where
  "external_admin_url e =
     (if ext_PrivateHostname e \<noteq> [] then
        ''https://'' @ ext_PrivateHostname e @ '':'' @ Itoa (uint (case ext_PrivatePort e of
           None \<Rightarrow> ext_Port e | Some p \<Rightarrow> p))
      else ''https://'' @ ext_Hostname e @ '':'' @ Itoa (uint (ext_Port e)))"

definition rootshard_external_admin_kubeconfig :: "RootShard \<Rightarrow> kube_config" where
  "rootshard_external_admin_kubeconfig r = file_kubeconfig ''root-shard'' ''shard-base'' ''shard''
     (external_admin_url (rs_External (rsh_Spec r)))
     (rootshard_getCAMountPath (if cs_CABundleSecretRef (rsh_Spec r) = None then ServerCA else CABundleCA))
     (rootshard_getCertificateMountPath ExternalLogicalClusterAdminCertificate)"

definition rootshard_ExternalLogicalClusterAdminKubeconfigReconciler ::
    "(kube_config \<Rightarrow> string res) \<Rightarrow> RootShard \<Rightarrow> secret_reconciler" where
  "rootshard_ExternalLogicalClusterAdminKubeconfigReconciler write r =
     (rootshard_kubeconfigSecret r ExternalLogicalClusterAdminCertificate,
      render_kubeconfig_secret write (rootshard_secret_labels r) (rootshard_external_admin_kubeconfig r))"

section \<open>CA bundles\<close>

text \<open>\<open>get ns name\<close> is the API client's read of a secret.\<close>

type_synonym secret_getter = "string \<Rightarrow> string \<Rightarrow> Secret res"

definition fetchTLSCert :: "secret_getter \<Rightarrow> string \<Rightarrow> string \<Rightarrow> string res" where
  "fetchTLSCert get ns secretName = (case get ns secretName of
     Inl err \<Rightarrow> Inl (Wrapped (''failed to get secret '' @ secretName) err)
   | Inr secret \<Rightarrow> (case mget (sec_Data secret) ''tls.crt'' of
       None \<Rightarrow> Inl (Plain (''secret '' @ secretName @ '' missing tls.crt''))
     | Some data \<Rightarrow> Inr data))"

text \<open>The certificate a secret reference names, or an empty one without a reference.\<close>

definition fetch_optional ::
    "secret_getter \<Rightarrow> string \<Rightarrow> string \<Rightarrow> LocalObjectReference option \<Rightarrow> string list res" where
  "fetch_optional get msg ns ref = (case ref of None \<Rightarrow> Inr []
     | Some s \<Rightarrow> bindE (wrapE msg (fetchTLSCert get ns (lor_Name s))) (\<lambda>c. Inr [c]))"

definition set_tls_secret :: "string \<Rightarrow> (string \<times> string) list \<Rightarrow> Secret \<Rightarrow> Secret" where
  "set_tls_secret data labels secret = secret\<lparr>
     sec_Data := fmupd ''tls.crt'' data (sec_Data secret),
     sec_Meta := (sec_Meta secret)\<lparr>om_Labels :=
       foldl (\<lambda>m (k, v). fmupd k v m) (om_Labels (sec_Meta secret)) labels\<rparr>\<rparr>"

definition rootshard_MergedCABundleSecretReconciler ::
    "secret_getter \<Rightarrow> RootShard \<Rightarrow> secret_reconciler" where
  "rootshard_MergedCABundleSecretReconciler get r =
     (om_Name (rsh_Meta r) @ ''-merged-ca-bundle'', \<lambda>secret.
       let ns = om_Namespace (rsh_Meta r) in
       bindE (wrapE ''failed to get ServerCA'' (fetchTLSCert get ns (GetRootShardCAName r ServerCA))) (\<lambda>serverCACert.
       bindE (fetch_optional get ''failed to get user CA bundle'' ns (cs_CABundleSecretRef (rsh_Spec r))) (\<lambda>user.
       Inr (set_tls_secret (MergeCertificates (serverCACert # user)) (rootshard_secret_labels r) secret))))"

definition rootshard_MergedClientCABundleSecretReconciler ::
    "secret_getter \<Rightarrow> RootShard \<Rightarrow> secret_reconciler" where
  "rootshard_MergedClientCABundleSecretReconciler get r =
     (om_Name (rsh_Meta r) @ ''-merged-client-ca'', \<lambda>secret.
       let ns = om_Namespace (rsh_Meta r) in
       bindE (wrapE ''failed to get ClientCA'' (fetchTLSCert get ns (GetRootShardCAName r ClientCA))) (\<lambda>clientCACert.
       bindE (fetch_optional get ''failed to get user client CA bundle'' ns (cs_ClientCABundleRef (rsh_Spec r))) (\<lambda>user.
       Inr (set_tls_secret (MergeCertificates (clientCACert # user)) (rootshard_secret_labels r) secret))))"

section \<open>The compiled object\<close>

text \<open>The metadata of every compiled object: the source's labels with the selecting labels on
  top, the source's annotations with the certificate revisions on top.\<close>

definition compiled_meta ::
    "ObjectMeta \<Rightarrow> gomap \<Rightarrow> (string \<times> string) list \<Rightarrow> ObjectMeta \<Rightarrow> ObjectMeta" where
  "compiled_meta source revisions labels m = m\<lparr>
     om_Labels := foldl (\<lambda>m (k, v). fmupd k v m) (om_Labels source) labels,
     om_Annotations := maps_Copy (om_Annotations source) (MutateKeys revisions ''operator.kcp.io/'' [])\<rparr>"

definition named_vw :: "VirtualWorkspace \<Rightarrow> NamedVirtualWorkspaceSpec" where
  "named_vw v = \<lparr>nvw_Name = om_Name (vwo_Meta v), nvw_Spec = vwo_Spec v\<rparr>"

definition named_rootshard :: "RootShard \<Rightarrow> NamedRootShardSpec" where
  "named_rootshard r = \<lparr>nrs_Name = om_Name (rsh_Meta r), nrs_Spec = rsh_Spec r\<rparr>"

definition CompiledRootShardReconciler ::
    "RootShard \<Rightarrow> VirtualWorkspace option \<Rightarrow> Shard list \<Rightarrow> gomap
       \<Rightarrow> string \<times> (CompiledRootShard \<Rightarrow> CompiledRootShard)" where
  "CompiledRootShardReconciler r kcpVW shards revisions =
     (om_Name (rsh_Meta r), \<lambda>obj. obj\<lparr>
       crsh_Meta := compiled_meta (rsh_Meta r) revisions [(RootShardLabel, om_Name (rsh_Meta r))] (crsh_Meta obj),
       crsh_Spec := (crsh_Spec obj)\<lparr>crs_RootShard := rsh_Spec r,
         crs_VirtualWorkspace := map_option named_vw kcpVW,
         crs_Shards := ShardNames shards\<rparr>\<rparr>)"

section \<open>What the controller creates\<close>

text \<open>The lists of \<open>RootShardReconciler.reconcile\<close> (\<open>pkg/controller/rootshard/controller.go\<close>).\<close>

definition intermediateCAs :: "CA list" where
  "intermediateCAs = [ServerCA, RequestHeaderClientCA, ClientCA, ServiceAccountCA]"

definition rootshard_certReconcilers :: "RootShard \<Rightarrow> certificate_reconciler list res" where
  "rootshard_certReconcilers r =
     (let certs = [rootshard_ServerCertificateReconciler r,
            rootshard_ServiceAccountCertificateReconciler r,
            rootshard_VirtualWorkspacesCertificateReconciler r,
            rootshard_LogicalClusterAdminCertificateReconciler r,
            rootshard_ExternalLogicalClusterAdminCertificateReconciler r,
            rootshard_ClientCertificateReconciler r,
            rootshard_OperatorClientCertificateReconciler r]
          @ map (rootshard_CACertificateReconciler r) intermediateCAs in
      if crt_IssuerRef (rs_Certificates (rsh_Spec r)) \<noteq> None
      then bindE (rootshard_RootCACertificateReconciler r) (\<lambda>c. Inr (certs @ [c]))
      else Inr certs)"

definition rootshard_issuerReconcilers :: "RootShard \<Rightarrow> issuer_reconciler list" where
  "rootshard_issuerReconcilers r =
     rootshard_RootCAIssuerReconciler r # map (rootshard_CAIssuerReconciler r) intermediateCAs"

lemmas rootshard_cert_defs = rootshard_ServerCertificateReconciler_def
  rootshard_VirtualWorkspacesCertificateReconciler_def
  rootshard_ServiceAccountCertificateReconciler_def
  rootshard_LogicalClusterAdminCertificateReconciler_def
  rootshard_ExternalLogicalClusterAdminCertificateReconciler_def
  rootshard_OperatorClientCertificateReconciler_def rootshard_ClientCertificateReconciler_def

lemma rootshard_certReconcilers_total:
  "\<exists>certs. rootshard_certReconcilers r = Inr certs"
  by (auto simp: rootshard_certReconcilers_def rootshard_RootCACertificateReconciler_def Let_def)

end
