(* ===== verification/Pki_Shard.thy ===== *)
theory Pki_Shard
  imports Pki_RootShard
begin

text \<open>
  \<open>internal/resources/shard\<close>: the certificates, kubeconfigs and CA bundles of a shard, signed by
  the issuers of its root shard, and the compiled object.
\<close>

section \<open>Certificates\<close>

definition shard_secret_labels :: "Shard \<Rightarrow> RootShard \<Rightarrow> (string \<times> string) list" where
  "shard_secret_labels s r = [(RootShardLabel, om_Name (rsh_Meta r)), (ShardLabel, om_Name (sh_Meta s))]"

definition shard_template :: "Shard \<Rightarrow> Certificate \<Rightarrow> CertificateTemplate" where
  "shard_template s kind = CertificateTemplate_of (cs_CertificateTemplates (sh_Spec s)) kind"

definition shard_leaf ::
    "Shard \<Rightarrow> RootShard \<Rightarrow> Certificate \<Rightarrow> CA \<Rightarrow> (CertificateSpec \<Rightarrow> CertificateSpec)
       \<Rightarrow> certificate_reconciler" where
  "shard_leaf s r kind ca extra =
     (let name = GetShardCertificateName s kind in
      (name, render_certificate (GetShardResourceLabels s)
         (extra (leaf_spec name (shard_secret_labels s r) (GetRootShardCAName r ca)))
         (Some (shard_template s kind))))"

interpretation shard_pki: signed_component "shard_leaf s r" "GetShardCertificateName s"
    "GetRootShardCAName r" "cs_CertificateTemplates (sh_Spec s)" for s r
  by unfold_locales (auto simp: shard_leaf_def shard_template_def Let_def)

definition buildShardDNSNames :: "Shard \<Rightarrow> string list" where
  "buildShardDNSNames s =
     (let hostname = ExtractHostnameFromURL (cs_ShardBaseURL (sh_Spec s)) in
      sets_List [''localhost'', GetShardBaseHost s]
        (if cs_ShardBaseURL (sh_Spec s) \<noteq> [] \<and> hostname \<noteq> [] then [hostname] else []))"

definition shard_ServerCertificateReconciler :: "Shard \<Rightarrow> RootShard \<Rightarrow> certificate_reconciler" where
  "shard_ServerCertificateReconciler s r =
     shard_leaf s r ServerCertificate ServerCA (\<lambda>c. c\<lparr>ce_Usages := server_usages,
       ce_DNSNames := buildShardDNSNames s\<rparr>)"

definition shard_VirtualWorkspacesCertificateReconciler ::
    "Shard \<Rightarrow> RootShard \<Rightarrow> certificate_reconciler" where
  "shard_VirtualWorkspacesCertificateReconciler s r =
     shard_leaf s r VirtualWorkspacesCertificate ServerCA (\<lambda>c. c\<lparr>ce_Usages := [UsageServerAuth],
       ce_DNSNames := [GetShardBaseHost s]\<rparr>)"

definition shard_ServiceAccountCertificateReconciler ::
    "Shard \<Rightarrow> RootShard \<Rightarrow> certificate_reconciler" where
  "shard_ServiceAccountCertificateReconciler s r =
     shard_leaf s r ServiceAccountCertificate ServiceAccountCA (\<lambda>c. c\<lparr>
       ce_CommonName := GetShardCertificateName s ServiceAccountCertificate,
       ce_Usages := [UsageDigitalSignature, UsageKeyEncipherment]\<rparr>)"

definition shard_RootShardClientCertificateReconciler ::
    "Shard \<Rightarrow> RootShard \<Rightarrow> certificate_reconciler" where
  "shard_RootShardClientCertificateReconciler s r =
     shard_leaf s r ClientCertificate ClientCA (\<lambda>c. c\<lparr>
       ce_CommonName := ''shard-'' @ om_Name (sh_Meta s),
       ce_Subject := Organizations [''system:masters''],
       ce_Usages := [UsageClientAuth]\<rparr>)"

definition shard_MountsProxyClientCertificateReconciler ::
    "Shard \<Rightarrow> RootShard \<Rightarrow> certificate_reconciler" where
  "shard_MountsProxyClientCertificateReconciler s r =
     shard_leaf s r MountsProxyClientCertificate RequestHeaderClientCA (\<lambda>c. c\<lparr>
       ce_CommonName := MountsProxyCommonName,
       ce_Usages := [UsageClientAuth]\<rparr>)"

definition shard_LogicalClusterAdminCertificateReconciler ::
    "Shard \<Rightarrow> RootShard \<Rightarrow> certificate_reconciler" where
  "shard_LogicalClusterAdminCertificateReconciler s r =
     shard_leaf s r LogicalClusterAdminCertificate ClientCA (\<lambda>c. c\<lparr>
       ce_CommonName := ''logical-cluster-admin-shard-'' @ om_Name (sh_Meta s),
       ce_Subject := Organizations [''system:kcp:logical-cluster-admin''],
       ce_Usages := [UsageClientAuth]\<rparr>)"

definition shard_ExternalLogicalClusterAdminCertificateReconciler ::
    "Shard \<Rightarrow> RootShard \<Rightarrow> certificate_reconciler" where
  "shard_ExternalLogicalClusterAdminCertificateReconciler s r =
     shard_leaf s r ExternalLogicalClusterAdminCertificate ClientCA (\<lambda>c. c\<lparr>
       ce_CommonName := ''external-logical-cluster-admin-shard-'' @ om_Name (sh_Meta s),
       ce_Subject := Organizations [''system:kcp:external-logical-cluster-admin''],
       ce_Usages := [UsageClientAuth]\<rparr>)"

lemmas shard_cert_defs = shard_ServerCertificateReconciler_def
  shard_VirtualWorkspacesCertificateReconciler_def shard_ServiceAccountCertificateReconciler_def
  shard_RootShardClientCertificateReconciler_def shard_MountsProxyClientCertificateReconciler_def
  shard_LogicalClusterAdminCertificateReconciler_def
  shard_ExternalLogicalClusterAdminCertificateReconciler_def

section \<open>Kubeconfigs\<close>

definition shardpki_getCertificateMountPath :: "Certificate \<Rightarrow> string" where
  "shardpki_getCertificateMountPath c = ''/etc/kcp/tls/'' @ cert_str c"

definition shardpki_getCAMountPath :: "CA \<Rightarrow> string" where
  "shardpki_getCAMountPath c = ''/etc/kcp/tls/ca/'' @ ca_str c"

definition shard_kubeconfigSecret :: "Shard \<Rightarrow> Certificate \<Rightarrow> string" where
  "shard_kubeconfigSecret s cert = om_Name (sh_Meta s) @ ''-'' @ cert_str cert @ ''-kubeconfig''"

definition shard_client_kubeconfig :: "RootShard \<Rightarrow> kube_config" where
  "shard_client_kubeconfig r = file_kubeconfig ''root-shard'' ''shard-base'' ''shard''
     (GetRootShardBaseURL r) (shardpki_getCAMountPath ServerCA)
     (shardpki_getCertificateMountPath ClientCertificate)"

definition shard_RootShardClientKubeconfigReconciler ::
    "(kube_config \<Rightarrow> string res) \<Rightarrow> Shard \<Rightarrow> RootShard \<Rightarrow> secret_reconciler" where
  "shard_RootShardClientKubeconfigReconciler write s r =
     (shard_kubeconfigSecret s ClientCertificate,
      render_kubeconfig_secret write (shard_secret_labels s r) (shard_client_kubeconfig r))"

definition shard_admin_kubeconfig :: "Shard \<Rightarrow> kube_config" where
  "shard_admin_kubeconfig s = file_kubeconfig ''logical-cluster:admin'' ''logical-cluster''
     ''logical-cluster-admin'' (GetShardBaseURL s) (shardpki_getCAMountPath ServerCA)
     (shardpki_getCertificateMountPath LogicalClusterAdminCertificate)"

definition shard_LogicalClusterAdminKubeconfigReconciler ::
    "(kube_config \<Rightarrow> string res) \<Rightarrow> Shard \<Rightarrow> RootShard \<Rightarrow> secret_reconciler" where
  "shard_LogicalClusterAdminKubeconfigReconciler write s r =
     (shard_kubeconfigSecret s LogicalClusterAdminCertificate,
      render_kubeconfig_secret write (shard_secret_labels s r) (shard_admin_kubeconfig s))"

definition shard_external_admin_kubeconfig :: "Shard \<Rightarrow> RootShard \<Rightarrow> kube_config" where
  "shard_external_admin_kubeconfig s r = file_kubeconfig ''external-logical-cluster:admin''
     ''external-logical-cluster'' ''external-logical-cluster-admin''
     (external_admin_url (rs_External (rsh_Spec r)))
     (shardpki_getCAMountPath (if cs_CABundleSecretRef (sh_Spec s) = None then ServerCA else CABundleCA))
     (shardpki_getCertificateMountPath ExternalLogicalClusterAdminCertificate)"

definition shard_ExternalLogicalClusterAdminKubeconfigReconciler ::
    "(kube_config \<Rightarrow> string res) \<Rightarrow> Shard \<Rightarrow> RootShard \<Rightarrow> secret_reconciler" where
  "shard_ExternalLogicalClusterAdminKubeconfigReconciler write s r =
     (shard_kubeconfigSecret s ExternalLogicalClusterAdminCertificate,
      render_kubeconfig_secret write (shard_secret_labels s r) (shard_external_admin_kubeconfig s r))"

section \<open>CA bundles\<close>

text \<open>The certificate merged with the user's bundle is the shard's own server certificate.\<close>

definition shard_MergedCABundleSecretReconciler :: "secret_getter \<Rightarrow> Shard \<Rightarrow> secret_reconciler" where
  "shard_MergedCABundleSecretReconciler get s =
     (om_Name (sh_Meta s) @ ''-merged-ca-bundle'', \<lambda>secret.
       let ns = om_Namespace (sh_Meta s) in
       bindE (wrapE ''failed to get ServerCA'' (fetchTLSCert get ns (GetShardCertificateName s ServerCertificate))) (\<lambda>serverCACert.
       bindE (fetch_optional get ''failed to get user CA bundle'' ns (cs_CABundleSecretRef (sh_Spec s))) (\<lambda>user.
       Inr (set_tls_secret (MergeCertificates (serverCACert # user))
         [(ShardLabel, om_Name (sh_Meta s))] secret))))"

definition shard_MergedClientCABundleSecretReconciler ::
    "secret_getter \<Rightarrow> Shard \<Rightarrow> RootShard \<Rightarrow> secret_reconciler" where
  "shard_MergedClientCABundleSecretReconciler get s r =
     (om_Name (sh_Meta s) @ ''-merged-client-ca'', \<lambda>secret.
       let rns = om_Namespace (rsh_Meta r); ns = om_Namespace (sh_Meta s) in
       bindE (wrapE ''failed to get ClientCA'' (fetchTLSCert get rns (GetRootShardCAName r ClientCA))) (\<lambda>clientCACert.
       bindE (fetch_optional get ''failed to get RootShard client CA bundle'' rns (cs_ClientCABundleRef (rsh_Spec r))) (\<lambda>root.
       bindE (fetch_optional get ''failed to get Shard client CA bundle'' ns (cs_ClientCABundleRef (sh_Spec s))) (\<lambda>own.
       Inr (set_tls_secret (MergeCertificates (clientCACert # root @ own))
         [(ShardLabel, om_Name (sh_Meta s))] secret)))))"

section \<open>The compiled object\<close>

definition CompiledShardReconciler ::
    "Shard \<Rightarrow> RootShard \<Rightarrow> VirtualWorkspace option \<Rightarrow> Shard list \<Rightarrow> gomap
       \<Rightarrow> string \<times> (CompiledShard \<Rightarrow> CompiledShard)" where
  "CompiledShardReconciler s r kcpVW shards revisions =
     (om_Name (sh_Meta s), \<lambda>obj. obj\<lparr>
       cso_Meta := compiled_meta (sh_Meta s) revisions
         [(ShardLabel, om_Name (sh_Meta s)), (RootShardLabel, om_Name (rsh_Meta r))] (cso_Meta obj),
       cso_Spec := (cso_Spec obj)\<lparr>csh_Shard := sh_Spec s, csh_RootShard := named_rootshard r,
         csh_VirtualWorkspace := map_option named_vw kcpVW, csh_Shards := ShardNames shards\<rparr>\<rparr>)"

section \<open>What the controller creates\<close>

definition shard_certReconcilers :: "Shard \<Rightarrow> RootShard \<Rightarrow> certificate_reconciler list" where
  "shard_certReconcilers s r =
     [shard_ServerCertificateReconciler s r, shard_ServiceAccountCertificateReconciler s r,
      shard_VirtualWorkspacesCertificateReconciler s r, shard_RootShardClientCertificateReconciler s r,
      shard_MountsProxyClientCertificateReconciler s r, shard_LogicalClusterAdminCertificateReconciler s r,
      shard_ExternalLogicalClusterAdminCertificateReconciler s r]"

end
