(* ===== verification/Pki_Proxy.thy ===== *)
theory Pki_Proxy
  imports Pki_RootShard
begin

text \<open>
  \<open>internal/resources/frontproxy\<close>: the certificates and CA bundles of front proxies and of the
  root shard's internal proxy, which share one reconciler; a missing front proxy means the
  internal one.
\<close>

record proxy_reconciler =
  fr_frontProxy :: "FrontProxy option"
  fr_rootShard :: RootShard
  fr_shards :: "Shard list"
  fr_resourceLabels :: gomap

text \<open>\<open>NewFrontProxy\<close> panics for a missing front proxy.\<close>

definition NewFrontProxy :: "FrontProxy option \<Rightarrow> RootShard \<Rightarrow> Shard list \<Rightarrow> proxy_reconciler res" where
  "NewFrontProxy frontProxy r shards = (case frontProxy of
     None \<Rightarrow> Inl (Panic ''Use NewRootShardProxy instead.'')
   | Some f \<Rightarrow> Inr \<lparr>fr_frontProxy = Some f, fr_rootShard = r, fr_shards = shards,
       fr_resourceLabels = GetFrontProxyResourceLabels f\<rparr>)"

definition NewRootShardProxy :: "RootShard \<Rightarrow> proxy_reconciler" where
  "NewRootShardProxy r = \<lparr>fr_frontProxy = None, fr_rootShard = r, fr_shards = [],
     fr_resourceLabels = GetRootShardProxyResourceLabels r\<rparr>"

definition fr_serviceName :: "proxy_reconciler \<Rightarrow> string" where
  "fr_serviceName p = (case fr_frontProxy p of
     Some f \<Rightarrow> GetFrontProxyServiceName f | None \<Rightarrow> GetRootShardProxyServiceName (fr_rootShard p))"

definition fr_getCABundleSecretRef :: "proxy_reconciler \<Rightarrow> LocalObjectReference option" where
  "fr_getCABundleSecretRef p = (case fr_frontProxy p of
     Some f \<Rightarrow> fp_CABundleSecretRef (fpx_Spec f)
   | None \<Rightarrow> cs_CABundleSecretRef (rsh_Spec (fr_rootShard p)))"

definition fr_getClientCABundleSecretRef :: "proxy_reconciler \<Rightarrow> LocalObjectReference option" where
  "fr_getClientCABundleSecretRef p = (case fr_frontProxy p of
     Some f \<Rightarrow> fp_ClientCABundleRef (fpx_Spec f) | None \<Rightarrow> None)"

section \<open>Certificates\<close>

definition certSecretLabels :: "proxy_reconciler \<Rightarrow> (string \<times> string) list" where
  "certSecretLabels p = [(RootShardLabel, om_Name (rsh_Meta (fr_rootShard p)))]
     @ (case fr_frontProxy p of None \<Rightarrow> [] | Some f \<Rightarrow> [(FrontProxyLabel, om_Name (fpx_Meta f))])"

definition proxy_certName :: "proxy_reconciler \<Rightarrow> Certificate \<Rightarrow> string" where
  "proxy_certName p kind = (case fr_frontProxy p of
     Some f \<Rightarrow> GetFrontProxyCertificateName (fr_rootShard p) f kind
   | None \<Rightarrow> GetRootShardProxyCertificateName (fr_rootShard p) kind)"

definition certCommonName :: "proxy_reconciler \<Rightarrow> string" where
  "certCommonName p = (if fr_frontProxy p \<noteq> None then FrontProxyCommonName else RootShardProxyCommonName)"

definition certTemplateMap :: "proxy_reconciler \<Rightarrow> CertificateTemplateMap" where
  "certTemplateMap p = (case fr_frontProxy p of
     Some f \<Rightarrow> fp_CertificateTemplates (fpx_Spec f)
   | None \<Rightarrow> (case rs_Proxy (rsh_Spec (fr_rootShard p)) of
       Some x \<Rightarrow> rp_CertificateTemplates x | None \<Rightarrow> fmempty))"

definition proxy_leaf ::
    "proxy_reconciler \<Rightarrow> Certificate \<Rightarrow> CA \<Rightarrow> (CertificateSpec \<Rightarrow> CertificateSpec) \<Rightarrow> certificate_reconciler"
  where
  "proxy_leaf p kind ca extra =
     (let name = proxy_certName p kind in
      (name, render_certificate (fr_resourceLabels p)
         (extra (leaf_spec name (certSecretLabels p) (GetRootShardCAName (fr_rootShard p) ca)))
         (Some (CertificateTemplate_of (certTemplateMap p) kind))))"

interpretation proxy_pki: signed_component "proxy_leaf p" "proxy_certName p"
    "GetRootShardCAName (fr_rootShard p)" "certTemplateMap p" for p
  by unfold_locales (auto simp: proxy_leaf_def Let_def)

definition proxy_dnsNames :: "proxy_reconciler \<Rightarrow> string list" where
  "proxy_dnsNames p =
     (let svc = fr_serviceName p; ns = om_Namespace (rsh_Meta (fr_rootShard p));
          ext = rs_External (rsh_Spec (fr_rootShard p)) in
      [svc, svc @ ''.'' @ ns, svc @ ''.'' @ ns @ ''.svc.cluster.local'']
      @ (case fr_frontProxy p of None \<Rightarrow> []
         | Some f \<Rightarrow>
             [ext_Hostname ext]
             @ (if ext_PrivateHostname ext \<noteq> [] then [ext_PrivateHostname ext] else [])
             @ (if fp_ExternalHostname (fpx_Spec f) \<noteq> [] then [fp_ExternalHostname (fpx_Spec f)]
                else if ext_Hostname (fp_External (fpx_Spec f)) \<noteq> []
                  then [ext_Hostname (fp_External (fpx_Spec f))] else [])))"

definition proxy_serverCertificateReconciler :: "proxy_reconciler \<Rightarrow> certificate_reconciler" where
  "proxy_serverCertificateReconciler p =
     proxy_leaf p ServerCertificate ServerCA (\<lambda>c. c\<lparr>ce_Usages := server_usages,
       ce_DNSNames := proxy_dnsNames p\<rparr>)"

definition proxy_kubeconfigCertificateReconciler :: "proxy_reconciler \<Rightarrow> certificate_reconciler" where
  "proxy_kubeconfigCertificateReconciler p =
     proxy_leaf p KubeconfigCertificate ClientCA (\<lambda>c. c\<lparr>
       ce_CommonName := certCommonName p,
       ce_Subject := Organizations [''system:masters''],
       ce_Usages := [UsageClientAuth]\<rparr>)"

definition proxy_requestHeaderCertificateReconciler :: "proxy_reconciler \<Rightarrow> certificate_reconciler" where
  "proxy_requestHeaderCertificateReconciler p =
     proxy_leaf p RequestHeaderClientCertificate RequestHeaderClientCA (\<lambda>c. c\<lparr>
       ce_CommonName := certCommonName p,
       ce_Usages := [UsageClientAuth]\<rparr>)"

definition proxy_certReconcilers :: "proxy_reconciler \<Rightarrow> certificate_reconciler list" where
  "proxy_certReconcilers p = [proxy_serverCertificateReconciler p,
     proxy_kubeconfigCertificateReconciler p, proxy_requestHeaderCertificateReconciler p]"

lemmas proxy_cert_defs = proxy_serverCertificateReconciler_def
  proxy_kubeconfigCertificateReconciler_def proxy_requestHeaderCertificateReconciler_def

section \<open>CA bundles\<close>

definition clientCABundleSecretName :: "proxy_reconciler \<Rightarrow> string" where
  "clientCABundleSecretName p = (case fr_frontProxy p of
     Some f \<Rightarrow> om_Name (fpx_Meta f) @ ''-merged-client-ca''
   | None \<Rightarrow> om_Name (rsh_Meta (fr_rootShard p)) @ ''-proxy-merged-client-ca'')"

definition backendCABundleSecretName :: "proxy_reconciler \<Rightarrow> string" where
  "backendCABundleSecretName p = (case fr_frontProxy p of
     Some f \<Rightarrow> om_Name (fpx_Meta f) @ ''-merged-ca-bundle''
   | None \<Rightarrow> om_Name (rsh_Meta (fr_rootShard p)) @ ''-proxy-merged-ca-bundle'')"

definition bundle_labels :: "proxy_reconciler \<Rightarrow> (string \<times> string) list" where
  "bundle_labels p = (case fr_frontProxy p of
     Some f \<Rightarrow> [(FrontProxyLabel, om_Name (fpx_Meta f))]
   | None \<Rightarrow> [(RootShardLabel, om_Name (rsh_Meta (fr_rootShard p)))])"

definition clientCABundleSecretReconciler :: "proxy_reconciler \<Rightarrow> string list \<Rightarrow> secret_reconciler" where
  "clientCABundleSecretReconciler p clientCAs = (clientCABundleSecretName p,
     \<lambda>secret. Inr (set_tls_secret (MergeCertificates clientCAs) (bundle_labels p) secret))"

definition backendCABundleSecretReconciler ::
    "proxy_reconciler \<Rightarrow> string list \<Rightarrow> secret_reconciler" where
  "backendCABundleSecretReconciler p cas = (backendCABundleSecretName p,
     \<lambda>secret. Inr (set_tls_secret (MergeCertificates cas) (bundle_labels p) secret))"

text \<open>This package's \<open>fetchTLSCert\<close> does not wrap the error of the read.\<close>

definition proxy_fetchTLSCert :: "secret_getter \<Rightarrow> proxy_reconciler \<Rightarrow> string \<Rightarrow> string res" where
  "proxy_fetchTLSCert get p secretName =
     bindE (get (om_Namespace (rsh_Meta (fr_rootShard p))) secretName) (\<lambda>secret.
       case mget (sec_Data secret) ''tls.crt'' of
         None \<Rightarrow> Inl (Plain (''the Secret '' @ secretName @ '' contains no tls.crt''))
       | Some data \<Rightarrow> Inr data)"

definition proxy_fetch_optional ::
    "secret_getter \<Rightarrow> proxy_reconciler \<Rightarrow> string \<Rightarrow> LocalObjectReference option \<Rightarrow> string list res" where
  "proxy_fetch_optional get p msg ref = (case ref of None \<Rightarrow> Inr []
     | Some s \<Rightarrow> bindE (wrapE msg (proxy_fetchTLSCert get p (lor_Name s))) (\<lambda>c. Inr [c]))"

definition fetchClientCACerts :: "secret_getter \<Rightarrow> proxy_reconciler \<Rightarrow> string list res" where
  "fetchClientCACerts get p =
     bindE (wrapE ''failed to fetch ClientCA certificate''
       (proxy_fetchTLSCert get p (GetRootShardCAName (fr_rootShard p) ClientCA))) (\<lambda>clientCA.
     bindE (proxy_fetch_optional get p ''failed to fetch RootShard client CA bundle''
       (cs_ClientCABundleRef (rsh_Spec (fr_rootShard p)))) (\<lambda>rootShardCABundle.
     bindE (proxy_fetch_optional get p ''failed to fetch additional client CA bundle''
       (fr_getClientCABundleSecretRef p)) (\<lambda>additional.
     Inr (clientCA # rootShardCABundle @ additional))))"

definition fetchBackendCAs :: "secret_getter \<Rightarrow> proxy_reconciler \<Rightarrow> string list res" where
  "fetchBackendCAs get p =
     bindE (wrapE ''failed to fetch ServerCA certificate''
       (proxy_fetchTLSCert get p (GetRootShardCAName (fr_rootShard p) ServerCA))) (\<lambda>serverCA.
     bindE (proxy_fetch_optional get p ''failed to fetch user CA bundle''
       (fr_getCABundleSecretRef p)) (\<lambda>user.
     Inr (serverCA # user)))"

section \<open>Reconcile\<close>

text \<open>What \<open>Reconcile\<close> asks the API to ensure: the secrets, then the certificates, each owned by
  the front proxy or the root shard. The calls themselves are in the theory of the controllers.\<close>

definition proxy_secretReconcilers :: "secret_getter \<Rightarrow> proxy_reconciler \<Rightarrow> secret_reconciler list res" where
  "proxy_secretReconcilers get p =
     bindE (fetchClientCACerts get p) (\<lambda>clientCACerts.
     if fr_getCABundleSecretRef p \<noteq> None then
       bindE (fetchBackendCAs get p) (\<lambda>cas.
         Inr [clientCABundleSecretReconciler p clientCACerts, backendCABundleSecretReconciler p cas])
     else Inr [clientCABundleSecretReconciler p clientCACerts])"

section \<open>The compiled object\<close>

definition CompiledFrontProxyReconciler ::
    "FrontProxy \<Rightarrow> RootShard \<Rightarrow> Shard list \<Rightarrow> gomap \<Rightarrow> string \<times> (CompiledFrontProxy \<Rightarrow> CompiledFrontProxy)"
  where
  "CompiledFrontProxyReconciler f r shards revisions =
     (om_Name (fpx_Meta f), \<lambda>obj. obj\<lparr>
       cfpo_Meta := compiled_meta (fpx_Meta f) revisions
         [(FrontProxyLabel, om_Name (fpx_Meta f)), (RootShardLabel, om_Name (rsh_Meta r))] (cfpo_Meta obj),
       cfpo_Spec := (cfpo_Spec obj)\<lparr>cfp_FrontProxy := fpx_Spec f, cfp_RootShard := named_rootshard r,
         cfp_Shards := ShardNames shards\<rparr>\<rparr>)"

end
