(* ===== verification/Pki_CacheServer.thy ===== *)
theory Pki_CacheServer
  imports Pki_RootShard
begin

text \<open>
  \<open>internal/resources/cacheserver\<close>: the standalone CA of a cache server, its issuer, its two
  certificates, the kubeconfig shards use to reach it, and the compiled object. At the end, what
  the controller (\<open>pkg/controller/cacheserver/controller.go\<close>) creates.
\<close>

definition cacheserver_secret_labels :: "CacheServer \<Rightarrow> (string \<times> string) list" where
  "cacheserver_secret_labels s = [(CacheServerLabel, om_Name (cas_Meta s))]"

definition cacheserver_RootCACertificateReconciler :: "CacheServer \<Rightarrow> certificate_reconciler res" where
  "cacheserver_RootCACertificateReconciler s =
     (let name = GetCacheServerCAName (om_Name (cas_Meta s)) RootCA in
      case crt_IssuerRef (ca_Certificates (cas_Spec s)) of
        None \<Rightarrow> Inl (Panic ''RootCACertificateReconciler must not be called if no issuerRef is specified.'')
      | Some ref \<Rightarrow> Inr (name, render_certificate (GetCacheServerResourceLabels s)
          (ca_spec name (cacheserver_secret_labels s)
             \<lparr>ir_Name = oref_Name ref, ir_Kind = oref_Kind ref, ir_Group = oref_Group ref\<rparr>)
          (Some (CATemplate_of (ca_CertificateTemplates (cas_Spec s)) RootCA))))"

text \<open>The client certificate has its own naming function.\<close>

definition cacheserver_certName :: "CacheServer \<Rightarrow> Certificate \<Rightarrow> string" where
  "cacheserver_certName s kind = (if kind = ClientCertificate
     then GetCacheServerClientCertificateName s else GetCacheServerCertificateName s kind)"

definition cacheserver_leaf ::
    "CacheServer \<Rightarrow> Certificate \<Rightarrow> CA \<Rightarrow> (CertificateSpec \<Rightarrow> CertificateSpec) \<Rightarrow> certificate_reconciler"
  where
  "cacheserver_leaf s kind ca extra =
     (let name = cacheserver_certName s kind in
      (name, render_certificate (GetCacheServerResourceLabels s)
         (extra (leaf_spec name (cacheserver_secret_labels s)
            (GetCacheServerCAName (om_Name (cas_Meta s)) ca)))
         (Some (CertificateTemplate_of (ca_CertificateTemplates (cas_Spec s)) kind))))"

interpretation cacheserver_pki: signed_component "cacheserver_leaf s" "cacheserver_certName s"
    "GetCacheServerCAName (om_Name (cas_Meta s))" "ca_CertificateTemplates (cas_Spec s)" for s
  by unfold_locales (auto simp: cacheserver_leaf_def Let_def)

definition cacheserver_ClientCertificateReconciler :: "CacheServer \<Rightarrow> certificate_reconciler" where
  "cacheserver_ClientCertificateReconciler s =
     cacheserver_leaf s ClientCertificate RootCA (\<lambda>c. c\<lparr>
       ce_CommonName := ''cache-client'',
       ce_Subject := Organizations [''system:masters''],
       ce_Usages := [UsageClientAuth, UsageKeyEncipherment, UsageDigitalSignature]\<rparr>)"

definition cacheserver_ServerCertificateReconciler :: "CacheServer \<Rightarrow> certificate_reconciler" where
  "cacheserver_ServerCertificateReconciler s =
     cacheserver_leaf s ServerCertificate RootCA (\<lambda>c. c\<lparr>
       ce_Usages := server_usages,
       ce_DNSNames := [''localhost'', GetCacheServerBaseHost s]\<rparr>)"

definition cacheserver_RootCAIssuerReconciler :: "CacheServer \<Rightarrow> issuer_reconciler" where
  "cacheserver_RootCAIssuerReconciler s =
     (let name = GetCacheServerCAName (om_Name (cas_Meta s)) RootCA in
      (name, render_issuer (GetCacheServerResourceLabels s)
         (case crt_CASecretRef (ca_Certificates (cas_Spec s)) of
            None \<Rightarrow> name | Some ref \<Rightarrow> lor_Name ref)))"

definition cacheserver_getCAMountPath :: "CA \<Rightarrow> string" where
  "cacheserver_getCAMountPath c = ''/etc/cache-server/tls/ca/'' @ ca_str c"

definition getClientCertificateMountPath :: string where
  "getClientCertificateMountPath = ''/etc/cache-server/tls/client-certificate''"

definition cacheserver_kubeconfig :: "CacheServer \<Rightarrow> kube_config" where
  "cacheserver_kubeconfig s = file_kubeconfig ''cache'' ''cache'' ''cache'' (GetCacheServerBaseURL s)
     (cacheserver_getCAMountPath RootCA) getClientCertificateMountPath"

definition cacheserver_KubeconfigReconciler ::
    "(kube_config \<Rightarrow> string res) \<Rightarrow> CacheServer \<Rightarrow> secret_reconciler" where
  "cacheserver_KubeconfigReconciler write s =
     (GetCacheServerKubeconfigName (om_Name (cas_Meta s)),
      render_kubeconfig_secret write (cacheserver_secret_labels s) (cacheserver_kubeconfig s))"

definition CompiledCacheServerReconciler ::
    "CacheServer \<Rightarrow> gomap \<Rightarrow> string \<times> (CompiledCacheServer \<Rightarrow> CompiledCacheServer)" where
  "CompiledCacheServerReconciler s revisions =
     (om_Name (cas_Meta s), \<lambda>obj. obj\<lparr>
       ccs_Meta := compiled_meta (cas_Meta s) revisions (cacheserver_secret_labels s) (ccs_Meta obj),
       ccs_Spec := cas_Spec s\<rparr>)"

text \<open>The controller builds the root CA's reconciler whatever the spec says.\<close>

definition cacheserver_certReconcilers :: "CacheServer \<Rightarrow> certificate_reconciler list res" where
  "cacheserver_certReconcilers s =
     bindE (cacheserver_RootCACertificateReconciler s) (\<lambda>root.
       Inr [root, cacheserver_ServerCertificateReconciler s, cacheserver_ClientCertificateReconciler s])"

end
