(* ===== verification/Pki_VirtualWorkspace.thy ===== *)
theory Pki_VirtualWorkspace
  imports Pki_RootShard
begin

text \<open>
  \<open>internal/resources/virtualworkspace\<close>: the two certificates of a virtual workspace server, its
  merged client CA bundle and the compiled object. The client certificate carries the labels of
  the source object, the server certificate the operator's resource labels, as in the code.
\<close>

definition virtualworkspace_commonName :: "VirtualWorkspace \<Rightarrow> string" where
  "virtualworkspace_commonName vw = om_Name (vwo_Meta vw) @ ''-virtual-workspace''"

definition vw_secret_labels :: "VirtualWorkspace \<Rightarrow> RootShard \<Rightarrow> (string \<times> string) list" where
  "vw_secret_labels vw r =
     [(RootShardLabel, om_Name (rsh_Meta r)), (VirtualWorkspaceLabel, om_Name (vwo_Meta vw))]"

definition vw_leaf ::
    "VirtualWorkspace \<Rightarrow> RootShard \<Rightarrow> gomap \<Rightarrow> Certificate \<Rightarrow> CA \<Rightarrow> (CertificateSpec \<Rightarrow> CertificateSpec)
       \<Rightarrow> certificate_reconciler" where
  "vw_leaf vw r labels kind ca extra =
     (let name = GetVirtualWorkspaceCertificateName vw kind in
      (name, render_certificate labels
         (extra (leaf_spec name (vw_secret_labels vw r) (GetRootShardCAName r ca)))
         (Some (CertificateTemplate_of (vw_CertificateTemplates (vwo_Spec vw)) kind))))"

interpretation vw_pki: signed_component "vw_leaf vw r labels" "GetVirtualWorkspaceCertificateName vw"
    "GetRootShardCAName r" "vw_CertificateTemplates (vwo_Spec vw)" for vw r labels
  by unfold_locales (auto simp: vw_leaf_def Let_def)

definition virtualworkspace_ClientCertificateReconciler ::
    "VirtualWorkspace \<Rightarrow> RootShard \<Rightarrow> certificate_reconciler" where
  "virtualworkspace_ClientCertificateReconciler vw r =
     vw_leaf vw r (om_Labels (vwo_Meta vw)) ClientCertificate ClientCA (\<lambda>c. c\<lparr>
       ce_Usages := [UsageClientAuth],
       ce_CommonName := virtualworkspace_commonName vw,
       ce_Subject := Organizations [''system:masters'']\<rparr>)"

definition virtualworkspace_ServerCertificateReconciler ::
    "VirtualWorkspace \<Rightarrow> RootShard \<Rightarrow> certificate_reconciler" where
  "virtualworkspace_ServerCertificateReconciler vw r =
     vw_leaf vw r (GetVirtualWorkspaceResourceLabels vw) ServerCertificate ServerCA (\<lambda>c. c\<lparr>
       ce_Usages := server_usages,
       ce_DNSNames := [''localhost'', GetVirtualWorkspaceBaseHost vw]\<rparr>)"

definition virtualworkspace_MergedClientCABundleSecretReconciler ::
    "secret_getter \<Rightarrow> VirtualWorkspace \<Rightarrow> RootShard \<Rightarrow> secret_reconciler" where
  "virtualworkspace_MergedClientCABundleSecretReconciler get vw r =
     (om_Name (vwo_Meta vw) @ ''-merged-client-ca'', \<lambda>secret.
       let rns = om_Namespace (rsh_Meta r); ns = om_Namespace (vwo_Meta vw) in
       bindE (wrapE ''failed to get ClientCA'' (fetchTLSCert get rns (GetRootShardCAName r ClientCA))) (\<lambda>clientCACert.
       bindE (fetch_optional get ''failed to get RootShard client CA bundle'' rns (cs_ClientCABundleRef (rsh_Spec r))) (\<lambda>root.
       bindE (fetch_optional get ''failed to get VirtualWorkspace client CA bundle'' ns (vw_ClientCABundleRef (vwo_Spec vw))) (\<lambda>own.
       Inr (set_tls_secret (MergeCertificates (clientCACert # root @ own))
         (vw_secret_labels vw r) secret)))))"

definition CompiledVirtualWorkspaceReconciler ::
    "VirtualWorkspace \<Rightarrow> RootShard \<Rightarrow> Shard option \<Rightarrow> gomap
       \<Rightarrow> string \<times> (CompiledVirtualWorkspace \<Rightarrow> CompiledVirtualWorkspace)" where
  "CompiledVirtualWorkspaceReconciler vw r shard revisions =
     (om_Name (vwo_Meta vw), \<lambda>obj. obj\<lparr>
       cvwo_Meta := compiled_meta (vwo_Meta vw) revisions
         [(VirtualWorkspaceLabel, om_Name (vwo_Meta vw)), (RootShardLabel, om_Name (rsh_Meta r))] (cvwo_Meta obj),
       cvwo_Spec := (cvwo_Spec obj)\<lparr>cvw_VirtualWorkspace := vwo_Spec vw,
         cvw_RootShard := named_rootshard r,
         cvw_Shard := map_option (\<lambda>s. \<lparr>ns_Name = om_Name (sh_Meta s), ns_Spec = sh_Spec s\<rparr>) shard\<rparr>\<rparr>)"

definition virtualworkspace_certReconcilers ::
    "VirtualWorkspace \<Rightarrow> RootShard \<Rightarrow> certificate_reconciler list" where
  "virtualworkspace_certReconcilers vw r =
     [virtualworkspace_ClientCertificateReconciler vw r, virtualworkspace_ServerCertificateReconciler vw r]"

end
