(* ===== verification/Pki_Kubeconfig.thy ===== *)
theory Pki_Kubeconfig
  imports Pki_RootShard
begin

text \<open>
  \<open>internal/resources/kubeconfig\<close>: the client certificate of a Kubeconfig object, the cluster
  role bindings it asks for, and the kubeconfig secret handed to the user.

  Parameters: \<open>write\<close> is \<open>clientcmd.Write\<close>, \<open>requestPath\<close> the \<open>RequestPath\<close> of a logical cluster
  path, \<open>joinPath\<close> is \<open>url.JoinPath\<close>; \<open>decode\<close> and \<open>parse\<close> are those of the PEM bundles.
\<close>

section \<open>Certificate and role bindings\<close>

definition OwnerLabels :: "Kubeconfig \<Rightarrow> (string \<times> string) list" where
  "OwnerLabels k = [(''operator.kcp.io/kubeconfig'', om_UID (kc_Meta k))]"

definition KubeconfigGroup :: "Kubeconfig \<Rightarrow> string" where
  "KubeconfigGroup k = ''kubeconfig:'' @ om_Name (kc_Meta k)"

definition kubeconfig_ClientCertificateReconciler :: "Kubeconfig \<Rightarrow> string \<Rightarrow> certificate_reconciler"
  where
  "kubeconfig_ClientCertificateReconciler k issuerName =
     (Kubeconfig_GetCertificateName k, render_certificate (om_Labels (kc_Meta k))
        (CertificateSpec_zero\<lparr>
           ce_SecretName := Kubeconfig_GetCertificateName k,
           ce_SecretTemplate := secret_template [(KubeconfigLabel, om_Name (kc_Meta k))],
           ce_Duration := Some (ks_Validity (kc_Spec k)),
           ce_PrivateKey := Some RSA4096,
           ce_Usages := [UsageClientAuth],
           ce_CommonName := ks_Username (kc_Spec k),
           ce_Subject := Organizations (sets_List (ks_Groups (kc_Spec k)) [KubeconfigGroup k]),
           ce_IssuerRef := OwnIssuer issuerName\<rparr>)
        (ks_CertificateTemplate (kc_Spec k)))"

text \<open>\<open>internal/kubernetes/metadata.go\<close>: the labels or annotations of an object with some added; the map
  it had is cloned, not written.\<close>

definition EnsureLabels :: "(string \<times> string) list \<Rightarrow> ObjectMeta \<Rightarrow> ObjectMeta" where
  [simp]: "EnsureLabels toEnsure m = m\<lparr>om_Labels := foldl (\<lambda>m (k, v). fmupd k v m) (om_Labels m) toEnsure\<rparr>"

definition EnsureAnnotations :: "(string \<times> string) list \<Rightarrow> ObjectMeta \<Rightarrow> ObjectMeta" where
  "EnsureAnnotations toEnsure m = m\<lparr>om_Annotations := foldl (\<lambda>m (k, v). fmupd k v m) (om_Annotations m) toEnsure\<rparr>"

definition ClusterRoleBindingReconciler ::
    "Kubeconfig \<Rightarrow> string \<Rightarrow> RBACSubject \<Rightarrow> string \<times> (ClusterRoleBinding \<Rightarrow> ClusterRoleBinding)" where
  "ClusterRoleBindingReconciler owner clusterRole subject =
     (om_UID (kc_Meta owner) @ '':'' @ clusterRole, \<lambda>crb. crb\<lparr>
       crb_Meta := EnsureLabels (OwnerLabels owner) (crb_Meta crb),
       crb_RoleRefAPIGroup := ''rbac.authorization.k8s.io'',
       crb_RoleRefKind := ''ClusterRole'',
       crb_RoleRefName := clusterRole,
       crb_Subjects := [subject]\<rparr>)"

section \<open>The kubeconfig secret\<close>

definition addCluster :: "string \<Rightarrow> string \<Rightarrow> string \<Rightarrow> kube_config \<Rightarrow> kube_config" where
  "addCluster caData clusterName url c = c\<lparr>kcf_Clusters := fmupd clusterName
     \<lparr>kcl_Server = url, kcl_CertificateAuthority = [], kcl_CertificateAuthorityData = caData\<rparr>
     (kcf_Clusters c)\<rparr>"

definition addContext :: "string \<Rightarrow> string \<Rightarrow> string \<Rightarrow> kube_config \<Rightarrow> kube_config" where
  "addContext username contextName clusterName c = c\<lparr>kcf_Contexts := fmupd contextName
     \<lparr>kcx_Cluster = clusterName, kcx_AuthInfo = username\<rparr> (kcf_Contexts c)\<rparr>"

definition secret_data :: "Secret \<Rightarrow> string \<Rightarrow> string" where
  "secret_data s k = (case mget (sec_Data s) k of None \<Rightarrow> [] | Some v \<Rightarrow> v)"

definition base_config :: "Kubeconfig \<Rightarrow> Secret \<Rightarrow> kube_config" where
  "base_config k certSecret = \<lparr>kcf_Clusters = fmempty, kcf_Contexts = fmempty,
     kcf_AuthInfos = fmap_of_list [(ks_Username (kc_Spec k),
       \<lparr>kau_ClientCertificate = [], kau_ClientKey = [],
        kau_ClientCertificateData = secret_data certSecret ''tls.crt'',
        kau_ClientKeyData = secret_data certSecret ''tls.key''\<rparr>)],
     kcf_CurrentContext = []\<rparr>"

text \<open>A shard or root shard as target has a third context, \<open>shard-base\<close>.\<close>

definition shard_config :: "Kubeconfig \<Rightarrow> string \<Rightarrow> string \<Rightarrow> string \<Rightarrow> kube_config \<Rightarrow> kube_config" where
  "shard_config k caData serverURL defaultURL c =
     (let user = ks_Username (kc_Spec k) in
      (addContext user ''shard-base'' ''base''
        (addContext user ''base'' ''base'' (addCluster caData ''base'' serverURL
          (addContext user ''default'' ''default'' (addCluster caData ''default'' defaultURL c)))))
      \<lparr>kcf_CurrentContext := ''default''\<rparr>)"

definition frontproxy_config :: "Kubeconfig \<Rightarrow> string \<Rightarrow> string \<Rightarrow> string \<Rightarrow> kube_config \<Rightarrow> kube_config"
  where
  "frontproxy_config k caData serverURL defaultURL c =
     (let user = ks_Username (kc_Spec k) in
      (addContext user ''base'' ''base'' (addContext user ''default'' ''default''
        (addCluster caData ''default'' defaultURL (addCluster caData ''base'' serverURL c))))
      \<lparr>kcf_CurrentContext := ''default''\<rparr>)"

text \<open>The URL of the front proxy a kubeconfig points to.\<close>

definition frontproxy_serverURL :: "FrontProxy \<Rightarrow> RootShard \<Rightarrow> string" where
  "frontproxy_serverURL fp r =
     (let s = fpx_Spec fp; e = fp_External s in
      if ext_Hostname e \<noteq> [] then ''https://'' @ ext_Hostname e @ '':'' @ Itoa (uint (ext_Port e))
      else if fp_ExternalHostname s \<noteq> [] then
        (if SplitHostPort (fp_ExternalHostname s) \<noteq> None then ''https://'' @ fp_ExternalHostname s
         else ''https://'' @ fp_ExternalHostname s @ '':6443'')
      else ''https://'' @ ext_Hostname (rs_External (rsh_Spec r)) @ '':''
        @ Itoa (uint (ext_Port (rs_External (rsh_Spec r)))))"

definition kubeconfig_config ::
    "(string \<Rightarrow> string) \<Rightarrow> (string \<Rightarrow> string \<Rightarrow> string res) \<Rightarrow> Kubeconfig \<Rightarrow> RootShard option \<Rightarrow> Shard option
       \<Rightarrow> FrontProxy \<Rightarrow> string \<Rightarrow> Secret \<Rightarrow> kube_config res" where
  "kubeconfig_config requestPath joinPath k rootShard shard frontProxy caData certSecret =
     (let target = ks_Target (kc_Spec k); config = base_config k certSecret;
          defaultURL = (\<lambda>serverURL. joinPath serverURL (requestPath (GetTargetWorkspace k))) in
      if kt_RootShardRef target \<noteq> None then
        (case rootShard of
           None \<Rightarrow> Inl (Panic ''RootShard must be provided when kubeconfig targets one.'')
         | Some r \<Rightarrow> bindE (defaultURL (GetRootShardBaseURL r)) (\<lambda>url.
             Inr (shard_config k caData (GetRootShardBaseURL r) url config)))
      else if kt_ShardRef target \<noteq> None then
        (case shard of
           None \<Rightarrow> Inl (Panic ''Shard must be provided when kubeconfig targets one.'')
         | Some s \<Rightarrow> bindE (defaultURL (GetShardBaseURL s)) (\<lambda>url.
             Inr (shard_config k caData (GetShardBaseURL s) url config)))
      else if kt_FrontProxyRef target \<noteq> None then
        (case rootShard of
           None \<Rightarrow> Inl (Panic ''RootShard must be provided when kubeconfig targets a FrontProxy.'')
         | Some r \<Rightarrow> bindE (defaultURL (frontproxy_serverURL frontProxy r)) (\<lambda>url.
             Inr (frontproxy_config k caData (frontproxy_serverURL frontProxy r) url config)))
      else Inl (Panic ''Called reconciler for an invalid kubeconfig, this should not have happened.''))"

definition bundle_error :: "Secret option \<Rightarrow> go_error option" where
  "bundle_error caBundle = (case caBundle of
     None \<Rightarrow> None
   | Some b \<Rightarrow> if mget (sec_Data b) ''tls.crt'' = None
       then Some (Plain (''the CA bundle secret '' @ om_Namespace (sec_Meta b) @ ''/''
              @ om_Name (sec_Meta b) @ '' does not contain a `tls.crt` key''))
       else None)"

text \<open>\<open>None\<close> would be a PEM validation that does not end; the theorem on \<open>validatePEMCertificate\<close>
  rules it out.\<close>

definition KubeconfigSecretReconciler ::
    "pem_decoder \<Rightarrow> (string \<Rightarrow> go_error option) \<Rightarrow> (string \<Rightarrow> string) \<Rightarrow> (string \<Rightarrow> string \<Rightarrow> string res)
       \<Rightarrow> (kube_config \<Rightarrow> string res) \<Rightarrow> Kubeconfig \<Rightarrow> RootShard option \<Rightarrow> Shard option \<Rightarrow> FrontProxy
       \<Rightarrow> Secret option \<Rightarrow> Secret \<Rightarrow> Secret option \<Rightarrow> secret_reconciler res option" where
  "KubeconfigSecretReconciler decode parse requestPath joinPath write k rootShard shard frontProxy
       caSecret certSecret caBundle =
     (case bundle_error caBundle of
        Some err \<Rightarrow> Some (Inl err)
      | None \<Rightarrow> map_option (\<lambda>merged. bindE (wrapE ''failed to merge CA bundles'' merged) (\<lambda>caData.
            bindE (kubeconfig_config requestPath joinPath k rootShard shard frontProxy caData certSecret)
              (\<lambda>config. Inr (lor_Name (ks_SecretRef (kc_Spec k)), render_kubeconfig_secret write [] config))))
            (MergeCertificateSecrets decode parse [caSecret, caBundle]))"

section \<open>Facts\<close>

lemma shard_config_ok:
  "kubeconfig_ok (shard_config k ca srv url (base_config k cert))"
  by (simp add: kubeconfig_ok_def shard_config_def base_config_def addCluster_def addContext_def Let_def)

lemma frontproxy_config_ok:
  "kubeconfig_ok (frontproxy_config k ca srv url (base_config k cert))"
  by (simp add: kubeconfig_ok_def frontproxy_config_def base_config_def addCluster_def addContext_def Let_def)

end
