(* ===== verification/Pki_Props.thy ===== *)
theory Pki_Props
  imports Pki_Shard Pki_Proxy Pki_CacheServer Pki_VirtualWorkspace Pki_Kubeconfig
    Shard_Deployments Sample_Objects
begin

text \<open>
  What holds of the whole public-key infrastructure: where no template overrides the issuer, every
  certificate is signed by an issuer the operator creates or is a root CA with a configured issuer,
  every issuer has its CA secret, server certificates cover the host names of the components' base
  URLs, kubeconfigs are usable where they are mounted, and rendering is
  idempotent, so that reconciling an up-to-date installation writes nothing.
\<close>

section \<open>Issuers\<close>

lemma CAName_inj [simp]: "GetRootShardCAName r a = GetRootShardCAName r b \<longleftrightarrow> a = b"
  by (cases a; cases b) (simp_all add: GetRootShardCAName_def)

lemma issuer_names:
  "fst ` set (rootshard_issuerReconcilers r) =
     GetRootShardCAName r ` {RootCA, ServerCA, RequestHeaderClientCA, ClientCA, ServiceAccountCA}"
  by (simp add: rootshard_issuerReconcilers_def rootshard_RootCAIssuerReconciler_def
      rootshard_CAIssuerReconciler_def intermediateCAs_def Let_def)

definition signed_by_rootshard :: "RootShard \<Rightarrow> certificate_reconciler \<Rightarrow> bool" where
  "signed_by_rootshard r rec \<longleftrightarrow>
     (\<exists>issuer \<in> set (rootshard_issuerReconcilers r).
        ce_IssuerRef (desired_spec rec) = OwnIssuer (fst issuer))"

lemma signed_byI:
  assumes "ce_IssuerRef (desired_spec rec) = OwnIssuer (GetRootShardCAName r ca)"
    "ca \<in> {RootCA, ServerCA, RequestHeaderClientCA, ClientCA, ServiceAccountCA}"
  shows "signed_by_rootshard r rec"
proof -
  have "GetRootShardCAName r ca \<in> fst ` set (rootshard_issuerReconcilers r)"
    using assms(2) by (auto simp: issuer_names)
  then show ?thesis using assms(1) unfolding signed_by_rootshard_def by force
qed

definition signing_cas :: "CA set" where
  "signing_cas = {RootCA, ServerCA, RequestHeaderClientCA, ClientCA, ServiceAccountCA}"

lemma signing_cas_simps [simp]:
  "RootCA \<in> signing_cas" "ServerCA \<in> signing_cas" "RequestHeaderClientCA \<in> signing_cas"
  "ClientCA \<in> signing_cas" "ServiceAccountCA \<in> signing_cas"
  by (simp_all add: signing_cas_def)

lemma leaf_signed:
  assumes "\<And>s. ce_IssuerRef (extra s) = ce_IssuerRef s" "ca \<in> signing_cas"
  shows "no_issuer_overrides (cs_CertificateTemplates (rsh_Spec r)) \<Longrightarrow>
      signed_by_rootshard r (rootshard_leaf r kind ca extra)"
    "no_issuer_overrides (cs_CertificateTemplates (sh_Spec s)) \<Longrightarrow>
      signed_by_rootshard r (shard_leaf s r kind ca extra)"
    "no_issuer_overrides (vw_CertificateTemplates (vwo_Spec vw)) \<Longrightarrow>
      signed_by_rootshard r (vw_leaf vw r labels kind ca extra)"
    "no_issuer_overrides (certTemplateMap p) \<Longrightarrow>
      signed_by_rootshard (fr_rootShard p) (proxy_leaf p kind ca extra)"
  by (rule signed_byI, erule rootshard_pki.leaf_issuer shard_pki.leaf_issuer vw_pki.leaf_issuer
      proxy_pki.leaf_issuer, use assms in \<open>auto simp: signing_cas_def\<close>)+

lemma rootshard_ca_signed:
  assumes "no_issuer_overrides (cs_CertificateTemplates (rsh_Spec r))"
  shows "signed_by_rootshard r (rootshard_CACertificateReconciler r ca)"
  unfolding rootshard_CACertificateReconciler_def Let_def
  by (rule signed_byI [where ca = RootCA])
    (use assms no_override_template in
      \<open>simp_all add: rootshard_ca_template_def desired_issuer del: desired_spec_render\<close>)

text \<open>The root CA of a root shard or cache server, signed by the issuer the user configured.\<close>

definition configured_root ::
  "certificate_reconciler res \<Rightarrow> Certificates \<Rightarrow> certificate_reconciler \<Rightarrow> bool" where
  "configured_root root certs rec \<longleftrightarrow> (\<exists>ref. crt_IssuerRef certs = Some ref \<and> root = Inr rec
     \<and> ce_IssuerRef (desired_spec rec) = \<lparr>ir_Name = oref_Name ref, ir_Kind = oref_Kind ref, ir_Group = oref_Group ref\<rparr>)"

lemma rootshard_certs_signed:
  assumes "no_issuer_overrides (cs_CertificateTemplates (rsh_Spec r))"
    "rootshard_certReconcilers r = Inr recs" "rec \<in> set recs"
  shows "signed_by_rootshard r rec
     \<or> configured_root (rootshard_RootCACertificateReconciler r) (rs_Certificates (rsh_Spec r)) rec"
proof (cases "rootshard_RootCACertificateReconciler r = Inr rec
    \<and> crt_IssuerRef (rs_Certificates (rsh_Spec r)) \<noteq> None")
  case True
  then obtain ref where ref: "crt_IssuerRef (rs_Certificates (rsh_Spec r)) = Some ref" by auto
  have t: "\<not> overrides_issuer (rootshard_ca_template r RootCA)"
    using assms(1) no_override_template by (simp add: rootshard_ca_template_def)
  show ?thesis using True ref desired_issuer [OF t]
    by (auto simp: configured_root_def rootshard_RootCACertificateReconciler_def Let_def simp del: desired_spec_render)
next
  case False
  then have "rec \<in> set ([rootshard_ServerCertificateReconciler r,
            rootshard_ServiceAccountCertificateReconciler r,
            rootshard_VirtualWorkspacesCertificateReconciler r,
            rootshard_LogicalClusterAdminCertificateReconciler r,
            rootshard_ExternalLogicalClusterAdminCertificateReconciler r,
            rootshard_ClientCertificateReconciler r,
            rootshard_OperatorClientCertificateReconciler r]
          @ map (rootshard_CACertificateReconciler r) intermediateCAs)"
    using assms(2,3)
    by (auto simp: rootshard_certReconcilers_def Let_def bindE_eq_Inr split: if_splits)
  then show ?thesis
    using leaf_signed(1) [OF _ _ assms(1)] rootshard_ca_signed [OF assms(1)]
    by (auto simp: rootshard_cert_defs)
qed

text \<open>The certificates of a cache server, and that of a Kubeconfig.\<close>

lemma cacheserver_certs_signed:
  assumes "no_issuer_overrides (ca_CertificateTemplates (cas_Spec c))"
    "cacheserver_certReconcilers c = Inr recs" "rec \<in> set recs"
  shows "ce_IssuerRef (desired_spec rec) = OwnIssuer (fst (cacheserver_RootCAIssuerReconciler c))
     \<or> configured_root (cacheserver_RootCACertificateReconciler c) (ca_Certificates (cas_Spec c)) rec"
proof -
  have ca: "\<not> overrides_issuer (CATemplate_of (ca_CertificateTemplates (cas_Spec c)) RootCA)"
    by (rule no_override_template [OF assms(1)])
  have issuer: "fst (cacheserver_RootCAIssuerReconciler c) = GetCacheServerCAName (om_Name (cas_Meta c)) RootCA"
    by (simp add: cacheserver_RootCAIssuerReconciler_def Let_def)
  have leaf: "ce_IssuerRef (desired_spec (cacheserver_leaf c kind RootCA extra)) = OwnIssuer
      (fst (cacheserver_RootCAIssuerReconciler c))" if "\<And>s. ce_IssuerRef (extra s) = ce_IssuerRef s" for kind extra
    unfolding issuer by (rule cacheserver_pki.leaf_issuer [OF assms(1)]) (rule that)
  consider "cacheserver_RootCACertificateReconciler c = Inr rec"
    | "rec = cacheserver_ServerCertificateReconciler c" | "rec = cacheserver_ClientCertificateReconciler c"
    using assms(2,3) by (auto simp: cacheserver_certReconcilers_def bindE_eq_Inr)
  then show ?thesis
  proof cases
    case 1
    then show ?thesis
      using desired_issuer [OF ca]
      by (auto simp: configured_root_def cacheserver_RootCACertificateReconciler_def Let_def
          simp del: desired_spec_render split: option.splits)
  qed (simp_all add: leaf cacheserver_ServerCertificateReconciler_def cacheserver_ClientCertificateReconciler_def)
qed

lemma kubeconfig_cert_signed:
  assumes "\<forall>t. ks_CertificateTemplate (kc_Spec k) = Some t \<longrightarrow> \<not> overrides_issuer t"
  shows "signed_by_rootshard r (kubeconfig_ClientCertificateReconciler k (GetRootShardCAName r ClientCA))"
proof (rule signed_byI [where ca = ClientCA])
  show "ce_IssuerRef (desired_spec (kubeconfig_ClientCertificateReconciler k (GetRootShardCAName r ClientCA)))
      = OwnIssuer (GetRootShardCAName r ClientCA)"
    unfolding kubeconfig_ClientCertificateReconciler_def using assms
    by (cases "ks_CertificateTemplate (kc_Spec k)") (simp_all add: desired_issuer del: desired_spec_render, simp)
qed simp

text \<open>C32: without templates that override the issuer, the certificates of an installation are all
  signed by issuers the operator creates, except for root CAs with a configured issuer. Every certificate
  rendered for the root shard, one of its shards, its internal proxy, a front proxy, a virtual
  workspace or a Kubeconfig that targets one of them names an issuer the root shard controller
  creates, or is the root CA of the root shard, signed by the issuer the root shard's spec
  configures. Every certificate of a cache server names the issuer its own controller creates, or is
  the root CA of the cache server, signed by the issuer its spec configures. (A template with an
  issuer of its own replaces the issuer of its certificate: the hypotheses exclude those.)\<close>

theorem pki_closed:
  assumes "no_issuer_overrides (cs_CertificateTemplates (rsh_Spec r))"
    "no_issuer_overrides (cs_CertificateTemplates (sh_Spec s))"
    "no_issuer_overrides (vw_CertificateTemplates (vwo_Spec vw))"
    "no_issuer_overrides (certTemplateMap (NewRootShardProxy r))"
    "NewFrontProxy frontProxy r shards = Inr p" "no_issuer_overrides (certTemplateMap p)"
    "\<forall>t. ks_CertificateTemplate (kc_Spec k) = Some t \<longrightarrow> \<not> overrides_issuer t"
    "no_issuer_overrides (ca_CertificateTemplates (cas_Spec c))"
    and recs: "rootshard_certReconcilers r = Inr recs" and crecs: "cacheserver_certReconcilers c = Inr crecs"
    and rec: "rec \<in> set (recs @ proxy_certReconcilers (NewRootShardProxy r) @ shard_certReconcilers s r
      @ proxy_certReconcilers p @ virtualworkspace_certReconcilers vw r
      @ [kubeconfig_ClientCertificateReconciler k (GetRootShardCAName r ClientCA)])"
    and crec: "crec \<in> set crecs"
  shows "(signed_by_rootshard r rec
       \<or> configured_root (rootshard_RootCACertificateReconciler r) (rs_Certificates (rsh_Spec r)) rec)
     \<and> (ce_IssuerRef (desired_spec crec) = OwnIssuer (fst (cacheserver_RootCAIssuerReconciler c))
       \<or> configured_root (cacheserver_RootCACertificateReconciler c) (ca_Certificates (cas_Spec c)) crec)"
proof (rule conjI [OF _ cacheserver_certs_signed [OF assms(8) crecs crec]], cases "rec \<in> set recs")
  case True
  then show "signed_by_rootshard r rec
     \<or> configured_root (rootshard_RootCACertificateReconciler r) (rs_Certificates (rsh_Spec r)) rec"
    by (rule rootshard_certs_signed [OF assms(1) recs])
next
  case False
  have roots: "fr_rootShard p = r" "fr_rootShard (NewRootShardProxy r) = r"
    using assms(5) by (auto simp: NewFrontProxy_def NewRootShardProxy_def split: option.splits)
  have "signed_by_rootshard r rec" if "rec \<in> set (proxy_certReconcilers q)"
    "fr_rootShard q = r" "no_issuer_overrides (certTemplateMap q)" for q
    using that leaf_signed(4) [of _ _ q]
    by (auto simp: proxy_certReconcilers_def proxy_cert_defs)
  moreover have "signed_by_rootshard r rec" if "rec \<in> set (shard_certReconcilers s r)"
    using that leaf_signed(2) [OF _ _ assms(2)]
    by (auto simp: shard_certReconcilers_def shard_cert_defs)
  moreover have "signed_by_rootshard r rec" if "rec \<in> set (virtualworkspace_certReconcilers vw r)"
    using that leaf_signed(3) [OF _ _ assms(3)]
    by (auto simp: virtualworkspace_certReconcilers_def virtualworkspace_ClientCertificateReconciler_def
        virtualworkspace_ServerCertificateReconciler_def)
  ultimately have "signed_by_rootshard r rec"
    using rec False roots assms(4,6) kubeconfig_cert_signed [OF assms(7)] by auto
  then show "signed_by_rootshard r rec
     \<or> configured_root (rootshard_RootCACertificateReconciler r) (rs_Certificates (rsh_Spec r)) rec" ..
qed

text \<open>C33: every issuer the root shard controller creates has its CA: the secret it signs with is
  written by a CA certificate of the same controller, or it is the secret the user configured as
  root CA.\<close>

theorem issuers_backed:
  assumes "rootshard_certReconcilers r = Inr recs"
    and "issuer \<in> set (rootshard_issuerReconcilers r)"
    and "crt_IssuerRef (rs_Certificates (rsh_Spec r)) \<noteq> None
         \<or> crt_CASecretRef (rs_Certificates (rsh_Spec r)) \<noteq> None"
  shows "\<exists>secret. (\<forall>old. is_CASecretName (snd issuer old) = Some secret)
     \<and> ((\<exists>rec \<in> set recs. certificate_secret rec = secret \<and> ce_IsCA (desired_spec rec))
        \<or> (\<exists>ref. crt_CASecretRef (rs_Certificates (rsh_Spec r)) = Some ref \<and> lor_Name ref = secret
             \<and> fst issuer = GetRootShardCAName r RootCA))"
proof -
  have ca: "ce_IsCA (desired_spec (n, render_certificate l sp t)) = ce_IsCA sp" for n l sp t
    by (simp add: desired_spec_def)
  from assms(2) consider (root) "issuer = rootshard_RootCAIssuerReconciler r"
    | (inter) c where "c \<in> set intermediateCAs" "issuer = rootshard_CAIssuerReconciler r c"
    by (auto simp: rootshard_issuerReconcilers_def)
  then show ?thesis
  proof cases
    case root
    show ?thesis
    proof (cases "crt_CASecretRef (rs_Certificates (rsh_Spec r))")
      case None
      then obtain ref where "crt_IssuerRef (rs_Certificates (rsh_Spec r)) = Some ref"
        using assms(3) by auto
      then have "\<exists>rec \<in> set recs. certificate_secret rec = GetRootShardCAName r RootCA
          \<and> ce_IsCA (desired_spec rec)"
        using assms(1) ca
        by (auto simp: rootshard_certReconcilers_def rootshard_RootCACertificateReconciler_def Let_def
            simp del: desired_spec_render)
      then show ?thesis using root None
        by (auto simp: rootshard_RootCAIssuerReconciler_def Let_def)
    next
      case (Some ref)
      then show ?thesis using root by (auto simp: rootshard_RootCAIssuerReconciler_def Let_def)
    qed
  next
    case inter
    have "rootshard_CACertificateReconciler r c \<in> set recs"
      using assms(1) inter(1)
      by (auto simp: rootshard_certReconcilers_def Let_def bindE_eq_Inr split: if_splits)
    moreover have "certificate_secret (rootshard_CACertificateReconciler r c) = GetRootShardCAName r c"
      "ce_IsCA (desired_spec (rootshard_CACertificateReconciler r c))"
      using ca by (simp_all add: rootshard_CACertificateReconciler_def Let_def del: desired_spec_render)
    ultimately show ?thesis using inter(2)
      by (auto simp: rootshard_CAIssuerReconciler_def Let_def)
  qed
qed

section \<open>Server certificates\<close>

lemma base_url_host:
  "dns_host h \<Longrightarrow> ExtractHostnameFromURL (''https://'' @ h @ '':6443'') = h"
  using ExtractHostname_https [of h "''6443''"] by (simp add: is_digit_def)

text \<open>The internal proxy of a root shard is reached at a URL in the root shard's cluster
  domain, but its certificate names \<open>svc.cluster.local\<close>: the certificate covers the URL exactly
  when the cluster domain is the default one.\<close>

theorem rootshard_proxy_certificate_domain:
  assumes "dns_host (GetRootShardProxyBaseHost r)"
  shows "ExtractHostnameFromURL (GetRootShardProxyBaseURL r) \<in> set (proxy_dnsNames (NewRootShardProxy r))
     \<longleftrightarrow> or_default_domain (cs_ClusterDomain (rsh_Spec r)) = ''cluster.local''"
proof -
  have url: "ExtractHostnameFromURL (GetRootShardProxyBaseURL r) = GetRootShardProxyBaseHost r"
    using base_url_host [OF assms] by (simp add: GetRootShardProxyBaseURL_def)
  show ?thesis
    unfolding url
    by (auto simp: proxy_dnsNames_def NewRootShardProxy_def fr_serviceName_def names_defs Let_def)
qed

text \<open>C36: the server certificates of root shards, shards, cache servers and virtual workspaces cover
  the host of the base URL of the component, as long as their certificate templates override no
  issuer, their in-cluster service hosts are DNS names and a base URL the user set has a host. For root
  shards and shards that is the URL the user may have set; for cache servers and virtual workspaces
  the in-cluster service host. The internal proxy of a root shard is different: its certificate names
  cover its base URL exactly when the cluster domain is the default one. (Front proxies are not part
  of this: with a port in the external host name their certificate names the host with the port.)\<close>

theorem server_certificates_cover_urls:
  assumes "no_issuer_overrides (cs_CertificateTemplates (rsh_Spec r))" "dns_host (GetRootShardBaseHost r)"
    "no_issuer_overrides (cs_CertificateTemplates (sh_Spec s))" "dns_host (GetShardBaseHost s)"
    "no_issuer_overrides (ca_CertificateTemplates (cas_Spec c))" "dns_host (GetCacheServerBaseHost c)"
    "no_issuer_overrides (vw_CertificateTemplates (vwo_Spec vw))" "dns_host (GetVirtualWorkspaceBaseHost vw)"
    "dns_host (GetRootShardProxyBaseHost r)"
    and urls: "ExtractHostnameFromURL (GetRootShardBaseURL r) \<noteq> []"
      "ExtractHostnameFromURL (GetShardBaseURL s) \<noteq> []"
  shows "ExtractHostnameFromURL (GetRootShardBaseURL r)
           \<in> set (ce_DNSNames (desired_spec (rootshard_ServerCertificateReconciler r)))
     \<and> ExtractHostnameFromURL (GetShardBaseURL s)
           \<in> set (ce_DNSNames (desired_spec (shard_ServerCertificateReconciler s r)))
     \<and> ExtractHostnameFromURL (GetCacheServerBaseURL c)
           \<in> set (ce_DNSNames (desired_spec (cacheserver_ServerCertificateReconciler c)))
     \<and> ExtractHostnameFromURL (GetVirtualWorkspaceBaseURL vw)
           \<in> set (ce_DNSNames (desired_spec (virtualworkspace_ServerCertificateReconciler vw r)))
     \<and> (ExtractHostnameFromURL (GetRootShardProxyBaseURL r) \<in> set (proxy_dnsNames (NewRootShardProxy r))
         \<longleftrightarrow> or_default_domain (cs_ClusterDomain (rsh_Spec r)) = ''cluster.local'')"
proof (intro conjI)
  show "ExtractHostnameFromURL (GetRootShardProxyBaseURL r) \<in> set (proxy_dnsNames (NewRootShardProxy r))
      \<longleftrightarrow> or_default_domain (cs_ClusterDomain (rsh_Spec r)) = ''cluster.local''"
    by (rule rootshard_proxy_certificate_domain [OF assms(9)])
  have "ExtractHostnameFromURL (GetRootShardBaseURL r) \<in> set (buildRootShardDNSNames r)"
    using urls(1) base_url_host [OF assms(2)]
    by (auto simp: GetRootShardBaseURL_def buildRootShardDNSNames_def Let_def)
  then show "ExtractHostnameFromURL (GetRootShardBaseURL r)
      \<in> set (ce_DNSNames (desired_spec (rootshard_ServerCertificateReconciler r)))"
    unfolding rootshard_ServerCertificateReconciler_def
    by (rule rev_subsetD) (rule rootshard_pki.leaf_dns [OF assms(1)], simp)
  have "ExtractHostnameFromURL (GetShardBaseURL s) \<in> set (buildShardDNSNames s)"
    using urls(2) base_url_host [OF assms(4)]
    by (auto simp: GetShardBaseURL_def buildShardDNSNames_def Let_def)
  then show "ExtractHostnameFromURL (GetShardBaseURL s)
      \<in> set (ce_DNSNames (desired_spec (shard_ServerCertificateReconciler s r)))"
    unfolding shard_ServerCertificateReconciler_def
    by (rule rev_subsetD) (rule shard_pki.leaf_dns [OF assms(3)], simp)
  have "ExtractHostnameFromURL (GetCacheServerBaseURL c) \<in> set [''localhost'', GetCacheServerBaseHost c]"
    using base_url_host [OF assms(6)] by (simp add: GetCacheServerBaseURL_def)
  then show "ExtractHostnameFromURL (GetCacheServerBaseURL c)
      \<in> set (ce_DNSNames (desired_spec (cacheserver_ServerCertificateReconciler c)))"
    unfolding cacheserver_ServerCertificateReconciler_def
    by (rule rev_subsetD) (rule cacheserver_pki.leaf_dns [OF assms(5)], simp)
  have "ExtractHostnameFromURL (GetVirtualWorkspaceBaseURL vw) \<in> set [''localhost'', GetVirtualWorkspaceBaseHost vw]"
    using base_url_host [OF assms(8)] by (simp add: GetVirtualWorkspaceBaseURL_def)
  then show "ExtractHostnameFromURL (GetVirtualWorkspaceBaseURL vw)
      \<in> set (ce_DNSNames (desired_spec (virtualworkspace_ServerCertificateReconciler vw r)))"
    unfolding virtualworkspace_ServerCertificateReconciler_def
    by (rule rev_subsetD) (rule vw_pki.leaf_dns [OF assms(7)], simp)
qed

section \<open>Idempotence\<close>

text \<open>reconciling a certificate twice is reconciling it once, for every certificate of the
  operator and whatever the templates: an up-to-date object is not written again.\<close>

theorem certificates_idempotent:
  assumes "rootshard_certReconcilers r = Inr recs" "cacheserver_certReconcilers c = Inr crecs"
    and "rec \<in> set (recs @ crecs @ shard_certReconcilers s r @ proxy_certReconcilers p
      @ virtualworkspace_certReconcilers vw r @ [kubeconfig_ClientCertificateReconciler k issuer])"
  shows "snd rec (snd rec old) = snd rec old"
proof -
  have root: "snd rec (snd rec old) = snd rec old" if "rec \<in> set recs"
    using that assms(1)
    by (auto simp: rootshard_certReconcilers_def rootshard_RootCACertificateReconciler_def
        rootshard_CACertificateReconciler_def rootshard_cert_defs rootshard_pki.leaf_idem
        render_certificate_idem Let_def split: if_splits)
  have cache: "snd rec (snd rec old) = snd rec old" if "rec \<in> set crecs"
    using that assms(2)
    by (auto simp: cacheserver_certReconcilers_def cacheserver_RootCACertificateReconciler_def
        cacheserver_ServerCertificateReconciler_def cacheserver_ClientCertificateReconciler_def
        cacheserver_pki.leaf_idem render_certificate_idem Let_def split: option.splits)
  show ?thesis
    using assms(3) root cache
    by (auto simp: shard_certReconcilers_def shard_cert_defs shard_pki.leaf_idem
        proxy_certReconcilers_def proxy_cert_defs proxy_pki.leaf_idem
        virtualworkspace_certReconcilers_def virtualworkspace_ClientCertificateReconciler_def
        virtualworkspace_ServerCertificateReconciler_def vw_pki.leaf_idem
        kubeconfig_ClientCertificateReconciler_def render_certificate_idem)
qed

section \<open>Witnesses\<close>

lemma sample_templates [simp]:
  "no_issuer_overrides (cs_CertificateTemplates (rsh_Spec sample_rootshard))"
  "no_issuer_overrides (cs_CertificateTemplates (sh_Spec sample_shard))"
  "no_issuer_overrides (vw_CertificateTemplates (vwo_Spec sample_vw))"
  "no_issuer_overrides (ca_CertificateTemplates (cas_Spec sample_cacheserver))"
  "no_issuer_overrides (certTemplateMap (NewRootShardProxy sample_rootshard))"
  by (simp_all add: no_issuer_overrides_def sample_rootshard_def sample_rootshard_spec_def
      sample_shard_def sample_shard_spec_def sample_vw_def sample_vw_spec_def sample_cacheserver_def
      sample_cacheserver_spec_def certTemplateMap_def NewRootShardProxy_def)

lemma sample_hosts [simp]:
  "dns_host (GetRootShardBaseHost sample_rootshard)" "dns_host (GetShardBaseHost sample_shard)"
  "dns_host (GetCacheServerBaseHost sample_cacheserver)"
  "dns_host (GetVirtualWorkspaceBaseHost sample_vw)"
  "dns_host (GetRootShardProxyBaseHost sample_rootshard)"
  by (simp_all add: names_defs sample_rootshard_def sample_rootshard_spec_def sample_shard_def
      sample_shard_spec_def sample_vw_def sample_vw_spec_def sample_cacheserver_def
      sample_cacheserver_spec_def sample_meta_def or_default_domain_def defaultClusterDomain_def
      dns_host_def dns_char_def is_alpha_def is_digit_def)

theorem pki_closed_witness:
  "\<exists>recs crecs p. rootshard_certReconcilers sample_rootshard = Inr recs
     \<and> cacheserver_certReconcilers sample_cacheserver = Inr crecs
     \<and> NewFrontProxy (Some sample_frontproxy) sample_rootshard [] = Inr p
     \<and> (signed_by_rootshard sample_rootshard (proxy_serverCertificateReconciler p)
        \<or> configured_root (rootshard_RootCACertificateReconciler sample_rootshard)
            (rs_Certificates (rsh_Spec sample_rootshard)) (proxy_serverCertificateReconciler p))
     \<and> (ce_IssuerRef (desired_spec (hd crecs)) = OwnIssuer (fst (cacheserver_RootCAIssuerReconciler sample_cacheserver))
        \<or> configured_root (cacheserver_RootCACertificateReconciler sample_cacheserver)
            (ca_Certificates (cas_Spec sample_cacheserver)) (hd crecs))"
proof -
  obtain recs where recs: "rootshard_certReconcilers sample_rootshard = Inr recs"
    using rootshard_certReconcilers_total by blast
  obtain crecs where crecs: "cacheserver_certReconcilers sample_cacheserver = Inr crecs" and "crecs \<noteq> []"
    by (auto simp: cacheserver_certReconcilers_def cacheserver_RootCACertificateReconciler_def
        sample_cacheserver_def sample_cacheserver_spec_def sample_certificates_def Let_def)
  then have crec: "hd crecs \<in> set crecs" by simp
  obtain p where p: "NewFrontProxy (Some sample_frontproxy) sample_rootshard [] = Inr p"
    and f: "fr_frontProxy p = Some sample_frontproxy"
    by (auto simp: NewFrontProxy_def)
  have t: "no_issuer_overrides (certTemplateMap p)"
    using f by (simp add: certTemplateMap_def no_issuer_overrides_def sample_frontproxy_def
        sample_frontproxy_spec_def)
  have k: "\<forall>t. ks_CertificateTemplate (kc_Spec sample_kubeconfig) = Some t \<longrightarrow> \<not> overrides_issuer t"
    by (simp add: sample_kubeconfig_def)
  have mem: "proxy_serverCertificateReconciler p \<in> set (recs
      @ proxy_certReconcilers (NewRootShardProxy sample_rootshard)
      @ shard_certReconcilers sample_shard sample_rootshard @ proxy_certReconcilers p
      @ virtualworkspace_certReconcilers sample_vw sample_rootshard
      @ [kubeconfig_ClientCertificateReconciler sample_kubeconfig (GetRootShardCAName sample_rootshard ClientCA)])"
    by (simp add: proxy_certReconcilers_def)
  show ?thesis
    using recs crecs p pki_closed [OF sample_templates(1,2,3,5) p t k sample_templates(4) recs crecs mem crec] by blast
qed

theorem issuers_backed_witness:
  "\<exists>recs secret. rootshard_certReconcilers sample_byo_rootshard = Inr recs \<and> secret = ''my-ca''
     \<and> ((\<exists>rec \<in> set recs. certificate_secret rec = secret \<and> ce_IsCA (desired_spec rec))
        \<or> (\<exists>ref. crt_CASecretRef (rs_Certificates (rsh_Spec sample_byo_rootshard)) = Some ref
             \<and> lor_Name ref = secret))"
proof -
  obtain recs where recs: "rootshard_certReconcilers sample_byo_rootshard = Inr recs"
    using rootshard_certReconcilers_total by blast
  have ca: "crt_CASecretRef (rs_Certificates (rsh_Spec sample_byo_rootshard)) = Some \<lparr>lor_Name = ''my-ca''\<rparr>"
    by (simp add: sample_byo_rootshard_def)
  have mem: "rootshard_RootCAIssuerReconciler sample_byo_rootshard
      \<in> set (rootshard_issuerReconcilers sample_byo_rootshard)"
    by (simp add: rootshard_issuerReconcilers_def)
  have secret: "is_CASecretName (snd (rootshard_RootCAIssuerReconciler sample_byo_rootshard) old) = Some ''my-ca''" for old
    using ca by (simp add: rootshard_RootCAIssuerReconciler_def Let_def)
  show ?thesis
    using issuers_backed [OF recs mem] recs ca secret by auto
qed

theorem server_certificates_cover_urls_witness:
  "ExtractHostnameFromURL (GetRootShardBaseURL sample_rootshard)
     \<in> set (ce_DNSNames (desired_spec (rootshard_ServerCertificateReconciler sample_rootshard)))
   \<and> ExtractHostnameFromURL (GetShardBaseURL sample_shard)
     \<in> set (ce_DNSNames (desired_spec (shard_ServerCertificateReconciler sample_shard sample_rootshard)))"
proof -
  have r: "GetRootShardBaseURL sample_rootshard = ''https://'' @ GetRootShardBaseHost sample_rootshard @ '':6443''"
    by (simp add: GetRootShardBaseURL_def sample_rootshard_def sample_rootshard_spec_def)
  have s: "GetShardBaseURL sample_shard = ''https://'' @ GetShardBaseHost sample_shard @ '':6443''"
    by (simp add: GetShardBaseURL_def sample_shard_def sample_shard_spec_def)
  have ne: "ExtractHostnameFromURL (GetRootShardBaseURL sample_rootshard) \<noteq> []"
    "ExtractHostnameFromURL (GetShardBaseURL sample_shard) \<noteq> []"
    unfolding r s using base_url_host sample_hosts(1,2) by (auto simp: dns_host_def)
  show ?thesis
    using server_certificates_cover_urls [OF sample_templates(1) sample_hosts(1) sample_templates(2)
        sample_hosts(2) sample_templates(4) sample_hosts(3) sample_templates(3) sample_hosts(4) sample_hosts(5) ne]
    by blast
qed

theorem rootshard_proxy_certificate_domain_witness:
  "ExtractHostnameFromURL (GetRootShardProxyBaseURL sample_rootshard)
     \<in> set (proxy_dnsNames (NewRootShardProxy sample_rootshard))
   \<and> ExtractHostnameFromURL (GetRootShardProxyBaseURL (sample_rootshard\<lparr>rsh_Spec :=
         sample_rootshard_spec\<lparr>cs_ClusterDomain := ''corp.example''\<rparr>\<rparr>))
     \<notin> set (proxy_dnsNames (NewRootShardProxy (sample_rootshard\<lparr>rsh_Spec :=
         sample_rootshard_spec\<lparr>cs_ClusterDomain := ''corp.example''\<rparr>\<rparr>)))"
  (is "_ \<and> ExtractHostnameFromURL (GetRootShardProxyBaseURL ?r) \<notin> _")
proof -
  have "dns_host (GetRootShardProxyBaseHost ?r)"
    by (simp add: names_defs sample_rootshard_def sample_rootshard_spec_def sample_meta_def
        or_default_domain_def dns_host_def dns_char_def is_alpha_def is_digit_def)
  then show ?thesis
    using rootshard_proxy_certificate_domain [of ?r]
      rootshard_proxy_certificate_domain [OF sample_hosts(5)]
    by (simp add: or_default_domain_def sample_rootshard_def sample_rootshard_spec_def
        defaultClusterDomain_def)
qed

theorem certificates_idempotent_witness:
  "\<exists>recs crecs. rootshard_certReconcilers sample_rootshard = Inr recs
     \<and> cacheserver_certReconcilers sample_cacheserver = Inr crecs
     \<and> snd (shard_ServerCertificateReconciler sample_shard sample_rootshard)
         (snd (shard_ServerCertificateReconciler sample_shard sample_rootshard) zero_certificate)
       = snd (shard_ServerCertificateReconciler sample_shard sample_rootshard) zero_certificate"
proof -
  obtain recs where recs: "rootshard_certReconcilers sample_rootshard = Inr recs"
    using rootshard_certReconcilers_total by blast
  obtain crecs where crecs: "cacheserver_certReconcilers sample_cacheserver = Inr crecs"
    by (auto simp: cacheserver_certReconcilers_def cacheserver_RootCACertificateReconciler_def
        sample_cacheserver_def sample_cacheserver_spec_def sample_certificates_def Let_def)
  have "shard_ServerCertificateReconciler sample_shard sample_rootshard \<in> set (recs @ crecs
      @ shard_certReconcilers sample_shard sample_rootshard @ proxy_certReconcilers (NewRootShardProxy sample_rootshard)
      @ virtualworkspace_certReconcilers sample_vw sample_rootshard
      @ [kubeconfig_ClientCertificateReconciler sample_kubeconfig ''i''])"
    by (simp add: shard_certReconcilers_def)
  from certificates_idempotent [OF recs crecs this] show ?thesis using recs crecs by blast
qed

end
