(* ===== verification/Mounted_Secrets.thy ===== *)
theory Mounted_Secrets
  imports Pki_Props Shard_Deployment_Facts
begin

text \<open>
  Where the two halves of the operator meet: the controllers of the source objects create the
  secrets, the deployments of the compiled objects mount them, and each half computes the names
  with its own functions. The theorems say that every secret in the rendered pod of a root shard or
  a shard is created by a controller, named by the user in the spec, or (when the root CA is not
  issued by an issuer) the root CA's generated name; and that the kubeconfigs among them refer to
  files the deployment mounts.
\<close>

section \<open>What the controllers create\<close>

definition cacheserver_secrets :: "CacheServer \<Rightarrow> certificate_reconciler list \<Rightarrow> string set" where
  "cacheserver_secrets c recs = certificate_secret ` set recs
     \<union> {fst (cacheserver_KubeconfigReconciler (\<lambda>_. Inr []) c)}"

definition rootshard_secrets :: "RootShard \<Rightarrow> certificate_reconciler list \<Rightarrow> string set" where
  "rootshard_secrets r recs = certificate_secret ` set recs
     \<union> {fst (rootshard_LogicalClusterAdminKubeconfigReconciler (\<lambda>_. Inr []) r),
        fst (rootshard_ExternalLogicalClusterAdminKubeconfigReconciler (\<lambda>_. Inr []) r)}
     \<union> (if cs_CABundleSecretRef (rsh_Spec r) \<noteq> None
        then {fst (rootshard_MergedCABundleSecretReconciler (\<lambda>_ _. Inl (NotFound [])) r)} else {})
     \<union> (if cs_ClientCABundleRef (rsh_Spec r) \<noteq> None
        then {fst (rootshard_MergedClientCABundleSecretReconciler (\<lambda>_ _. Inl (NotFound [])) r)} else {})"

definition shard_secrets :: "Shard \<Rightarrow> RootShard \<Rightarrow> string set" where
  "shard_secrets s r = certificate_secret ` set (shard_certReconcilers s r)
     \<union> {fst (shard_RootShardClientKubeconfigReconciler (\<lambda>_. Inr []) s r),
        fst (shard_LogicalClusterAdminKubeconfigReconciler (\<lambda>_. Inr []) s r),
        fst (shard_ExternalLogicalClusterAdminKubeconfigReconciler (\<lambda>_. Inr []) s r)}
     \<union> (if cs_CABundleSecretRef (sh_Spec s) \<noteq> None
        then {fst (shard_MergedCABundleSecretReconciler (\<lambda>_ _. Inl (NotFound [])) s)} else {})
     \<union> (if cs_ClientCABundleRef (rsh_Spec r) \<noteq> None \<or> cs_ClientCABundleRef (sh_Spec s) \<noteq> None
        then {fst (shard_MergedClientCABundleSecretReconciler (\<lambda>_ _. Inl (NotFound [])) s r)} else {})"

lemma cacheserver_secrets_eq:
  assumes "cacheserver_certReconcilers c = Inr recs"
  shows "cacheserver_secrets c recs = {GetCacheServerCAName (om_Name (cas_Meta c)) RootCA,
     GetCacheServerCertificateName c ServerCertificate, GetCacheServerClientCertificateName c,
     GetCacheServerKubeconfigName (om_Name (cas_Meta c))}"
  using assms
  by (auto simp: cacheserver_secrets_def cacheserver_certReconcilers_def bindE_eq_Inr
      cacheserver_RootCACertificateReconciler_def cacheserver_ServerCertificateReconciler_def
      cacheserver_ClientCertificateReconciler_def cacheserver_pki.leaf_secret
      cacheserver_certName_def cacheserver_KubeconfigReconciler_def Let_def split: option.splits)

definition rootshard_leaf_kinds :: "Certificate list" where
  "rootshard_leaf_kinds = [ServerCertificate, ServiceAccountCertificate, VirtualWorkspacesCertificate,
     LogicalClusterAdminCertificate, ExternalLogicalClusterAdminCertificate, ClientCertificate,
     OperatorCertificate]"

lemma rootshard_certificate_secrets:
  assumes "rootshard_certReconcilers r = Inr recs"
  shows "certificate_secret ` set recs =
     GetRootShardCertificateName r ` set rootshard_leaf_kinds
     \<union> GetRootShardCAName r ` set intermediateCAs
     \<union> (if crt_IssuerRef (rs_Certificates (rsh_Spec r)) \<noteq> None then {GetRootShardCAName r RootCA} else {})"
  using assms
  by (auto simp: rootshard_certReconcilers_def rootshard_cert_defs rootshard_pki.leaf_secret
      rootshard_CACertificateReconciler_def rootshard_RootCACertificateReconciler_def
      rootshard_leaf_kinds_def intermediateCAs_def Let_def split: if_splits)

lemma shard_certificate_secrets:
  "certificate_secret ` set (shard_certReconcilers s r) = GetShardCertificateName s `
     {ServerCertificate, ServiceAccountCertificate, VirtualWorkspacesCertificate, ClientCertificate,
      MountsProxyClientCertificate, LogicalClusterAdminCertificate, ExternalLogicalClusterAdminCertificate}"
  by (auto simp: shard_certReconcilers_def shard_cert_defs shard_pki.leaf_secret)

section \<open>Mounted and created\<close>

lemma compiled_rootshard_sel:
  assumes "om_Name (crsh_Meta obj) = om_Name (rsh_Meta r)"
    "cr = snd (CompiledRootShardReconciler r vw shards revisions) obj"
  shows "om_Name (crsh_Meta cr) = om_Name (rsh_Meta r)" "crs_RootShard (crsh_Spec cr) = rsh_Spec r"
  using assms by (simp_all add: CompiledRootShardReconciler_def compiled_meta_def)

lemma compiled_shard_sel:
  assumes "om_Name (cso_Meta obj) = om_Name (sh_Meta s)"
    "cs = snd (CompiledShardReconciler s r vw shards revisions) obj"
  shows "om_Name (cso_Meta cs) = om_Name (sh_Meta s)" "csh_Shard (cso_Spec cs) = sh_Spec s"
    "csh_RootShard (cso_Spec cs) = \<lparr>nrs_Name = om_Name (rsh_Meta r), nrs_Spec = rsh_Spec r\<rparr>"
  using assms by (simp_all add: CompiledShardReconciler_def compiled_meta_def named_rootshard_def)

text \<open>The names a deployment computes from the compiled object are those the controllers computed
  from the sources.\<close>

lemma compiled_rootshard_names:
  assumes "om_Name (crsh_Meta cr) = om_Name (rsh_Meta r)"
  shows "GetCompiledRootShardCAName cr = GetRootShardCAName r"
    "GetCompiledRootShardCertificateName cr = GetRootShardCertificateName r"
    "GetCompiledRootShardKubeconfigSecret cr = rootshard_kubeconfigSecret r"
  using assms by (auto simp: names_defs rootshard_kubeconfigSecret_def)

lemma compiled_shard_names:
  assumes "om_Name (cso_Meta cs) = om_Name (sh_Meta s)"
    "csh_RootShard (cso_Spec cs) = \<lparr>nrs_Name = om_Name (rsh_Meta r), nrs_Spec = spec\<rparr>"
  shows "GetNamedRootShardCAName (csh_RootShard (cso_Spec cs)) = GetRootShardCAName r"
    "GetCompiledShardCertificateName cs = GetShardCertificateName s"
    "GetCompiledShardKubeconfigSecret cs = shard_kubeconfigSecret s"
  using assms by (auto simp: names_defs shard_kubeconfigSecret_def)

lemma cache_mounts_secrets:
  assumes "cacheserver_certReconcilers c = Inr crecs" "sm \<in> set (cache_mounts (om_Name (cas_Meta c)))"
  shows "sm_SecretName sm \<in> cacheserver_secrets c crecs"
  using assms by (auto simp: cacheserver_secrets_eq cache_mounts_def secret_mount_def
      GetCacheServerClientCertificateName_def)

lemma rootshard_secrets_members:
  assumes "rootshard_certReconcilers r = Inr recs"
  shows "crt_IssuerRef (rs_Certificates (rsh_Spec r)) \<noteq> None \<Longrightarrow> GetRootShardCAName r RootCA \<in> rootshard_secrets r recs"
    "ca \<in> set intermediateCAs \<Longrightarrow> GetRootShardCAName r ca \<in> rootshard_secrets r recs"
    "kind \<in> set rootshard_leaf_kinds \<Longrightarrow> GetRootShardCertificateName r kind \<in> rootshard_secrets r recs"
    "kind \<in> {LogicalClusterAdminCertificate, ExternalLogicalClusterAdminCertificate}
       \<Longrightarrow> rootshard_kubeconfigSecret r kind \<in> rootshard_secrets r recs"
    "cs_CABundleSecretRef (rsh_Spec r) \<noteq> None \<Longrightarrow> om_Name (rsh_Meta r) @ ''-merged-ca-bundle'' \<in> rootshard_secrets r recs"
    "cs_ClientCABundleRef (rsh_Spec r) \<noteq> None \<Longrightarrow> om_Name (rsh_Meta r) @ ''-merged-client-ca'' \<in> rootshard_secrets r recs"
  unfolding rootshard_secrets_def rootshard_certificate_secrets [OF assms]
  by (auto simp: rootshard_LogicalClusterAdminKubeconfigReconciler_def
      rootshard_ExternalLogicalClusterAdminKubeconfigReconciler_def
      rootshard_MergedCABundleSecretReconciler_def rootshard_MergedClientCABundleSecretReconciler_def)

lemma shard_secrets_members:
  shows "kind \<in> {ServerCertificate, ServiceAccountCertificate, VirtualWorkspacesCertificate, ClientCertificate,
      MountsProxyClientCertificate, LogicalClusterAdminCertificate, ExternalLogicalClusterAdminCertificate}
       \<Longrightarrow> GetShardCertificateName s kind \<in> shard_secrets s r"
    "kind \<in> {ClientCertificate, LogicalClusterAdminCertificate, ExternalLogicalClusterAdminCertificate}
       \<Longrightarrow> shard_kubeconfigSecret s kind \<in> shard_secrets s r"
    "cs_CABundleSecretRef (sh_Spec s) \<noteq> None \<Longrightarrow> om_Name (sh_Meta s) @ ''-merged-ca-bundle'' \<in> shard_secrets s r"
    "cs_ClientCABundleRef (rsh_Spec r) \<noteq> None \<or> cs_ClientCABundleRef (sh_Spec s) \<noteq> None
       \<Longrightarrow> om_Name (sh_Meta s) @ ''-merged-client-ca'' \<in> shard_secrets s r"
  unfolding shard_secrets_def shard_certificate_secrets
  by (auto simp: shard_RootShardClientKubeconfigReconciler_def
      shard_LogicalClusterAdminKubeconfigReconciler_def shard_ExternalLogicalClusterAdminKubeconfigReconciler_def
      shard_MergedCABundleSecretReconciler_def shard_MergedClientCABundleSecretReconciler_def)

lemma set_map_iff: "x \<in> set (map f xs) \<longleftrightarrow> (\<exists>y \<in> set xs. x = f y)"
  by auto

section \<open>What the user names\<close>

definition volume_secrets :: "Volume list \<Rightarrow> string set" where
  "volume_secrets vs = {n. \<exists>v \<in> set vs. vol_Secret v = Some n}"

definition auth_secrets :: "AuthSpec option \<Rightarrow> string set" where
  "auth_secrets auth = (case auth of None \<Rightarrow> {} | Some a \<Rightarrow>
     (case auth_OIDC a of None \<Rightarrow> {} | Some oidc \<Rightarrow> (case oidc_CAFileRef oidc of None \<Rightarrow> {} | Some v \<Rightarrow> {ocf_Name v}))
     \<union> (case auth_Webhook a of None \<Rightarrow> {} | Some w \<Rightarrow> {anw_ConfigSecretName w})
     \<union> (case auth_TokenAuthFile a of None \<Rightarrow> {} | Some t \<Rightarrow> {taf_SecretName t}))"

text \<open>The secrets the spec of a root shard or shard names: the etcd client certificate, the webhook
  configurations, the authentication files and the extra volumes.\<close>

definition user_secrets :: "'a CommonShardSpec_scheme \<Rightarrow> string set" where
  "user_secrets spec =
     (case etcd_TLSConfig (cs_Etcd spec) of None \<Rightarrow> {} | Some tls \<Rightarrow> {lor_Name (tls_SecretRef tls)})
     \<union> (case cs_Audit spec of None \<Rightarrow> {} | Some a \<Rightarrow>
          (case audit_Webhook a of None \<Rightarrow> {} | Some w \<Rightarrow> {aw_ConfigSecretName w}))
     \<union> (case cs_Authorization spec of None \<Rightarrow> {} | Some a \<Rightarrow>
          (case az_Webhook a of None \<Rightarrow> {} | Some w \<Rightarrow> {azw_ConfigSecretName w}))
     \<union> auth_secrets (cs_Auth spec) \<union> volume_secrets (cs_ExtraVolumes spec)"

text \<open>Without an issuer the root CA is the user's (\<open>caSecretRef\<close>) and no controller creates a secret
  under the generated name, which the deployments mount all the same.\<close>

definition ungenerated_root_ca :: "RootShard \<Rightarrow> string set" where
  "ungenerated_root_ca r =
     (if crt_IssuerRef (rs_Certificates (rsh_Spec r)) = None then {GetRootShardCAName r RootCA} else {})"

lemma volume_secrets_append [simp]:
  "volume_secrets (a @ b) = volume_secrets a \<union> volume_secrets b" "volume_secrets [] = {}"
  "volume_secrets (v # vs) = (case vol_Secret v of None \<Rightarrow> {} | Some n \<Rightarrow> {n}) \<union> volume_secrets vs"
  by (auto simp: volume_secrets_def split: option.splits)

lemma volume_secrets_build [simp]:
  "volume_secrets (map (fst \<circ> SecretMount_Build) sms) = sm_SecretName ` set sms"
  by (auto simp: volume_secrets_def SecretMount_Build_def)

lemma volume_secrets_named [simp]: "volume_secrets (map (\<lambda>n. secret_volume (f n) (g n)) ns) = g ` set ns"
  by (auto simp: volume_secrets_def)

lemma auth_contrib_secrets:
  "volume_secrets (k_Volumes (opt_contrib (auth_contrib root shards) auth))
     \<subseteq> auth_secrets auth \<union> sa_cert_name ` set (root # shards)"
  by (cases auth)
    (auto simp: auth_contrib_def oidc_contrib_def authn_webhook_contrib_def token_contrib_def sa_contrib_def
      auth_secrets_def k_secret_def k_args_def k_empty_def opt_contrib_def Let_def
      split: option.splits if_splits)

lemma common_contrib_secrets: "volume_secrets (k_Volumes (common_contrib spec)) \<subseteq> user_secrets spec"
  by (auto simp: common_contrib_def etcd_contrib_def audit_contrib_def audit_policy_contrib_def
      audit_webhook_contrib_def authz_contrib_def authz_base_contrib_def authz_webhook_contrib_def
      extra_contrib_def user_secrets_def k_secret_def k_args_def k_empty_def opt_contrib_def Let_def
      split: option.splits if_splits)

text \<open>The secrets of a rendered pod.\<close>

lemma shard_deployment_secrets:
  "volume_secrets (ps_Volumes (pod_of (shard_deployment st l args sms res spec root shards dep)))
     \<subseteq> sm_SecretName ` set sms \<union> user_secrets spec \<union> sa_cert_name ` set (root # shards)"
  using common_contrib_secrets [of spec] auth_contrib_secrets [of root shards "cs_Auth spec"]
  unfolding shard_deployment_volumes by (auto simp: user_secrets_def)

lemma service_account_secrets:
  assumes "rootshard_certReconcilers r = Inr recs"
  shows "sa_cert_name ` set (om_Name (rsh_Meta r) # ShardNames shards)
     \<subseteq> rootshard_secrets r recs \<union> (\<Union>s \<in> set shards. shard_secrets s r)"
proof -
  have "sa_cert_name (om_Name (rsh_Meta r)) = GetRootShardCertificateName r ServiceAccountCertificate"
    by (simp add: sa_cert_name_def names_defs)
  moreover have "sa_cert_name (om_Name (sh_Meta s)) = GetShardCertificateName s ServiceAccountCertificate" for s
    by (simp add: sa_cert_name_def names_defs)
  ultimately show ?thesis
    using rootshard_secrets_members(3) [OF assms, of ServiceAccountCertificate]
      shard_secrets_members(1) [of ServiceAccountCertificate]
    by (auto simp: ShardNames_def rootshard_leaf_kinds_def)
qed

section \<open>The secrets of the pods\<close>

lemma rootshard_mount_secrets:
  assumes recs: "rootshard_certReconcilers r = Inr recs"
    and crecs: "cacheserver_certReconcilers c = Inr crecs"
    and obj: "om_Name (crsh_Meta obj) = om_Name (rsh_Meta r)"
      "cr = snd (CompiledRootShardReconciler r vw shards revisions) obj"
    and cache: "\<forall>ref. rcc_Reference (rs_Cache (rsh_Spec r)) = Some ref \<longrightarrow> lor_Name ref = om_Name (cas_Meta c)"
    and sm: "sm \<in> set (rootshard_secretMounts cr)"
  shows "sm_SecretName sm \<in> rootshard_secrets r recs \<union> cacheserver_secrets c crecs \<union> ungenerated_root_ca r"
proof -
  note sel = compiled_rootshard_sel [OF obj]
  note names = compiled_rootshard_names [OF sel(1)]
  have ca: "GetRootShardCAName r RootCA \<in> rootshard_secrets r recs \<or> GetRootShardCAName r RootCA \<in> ungenerated_root_ca r"
    using rootshard_secrets_members(1) [OF recs] by (auto simp: ungenerated_root_ca_def)
  show ?thesis
    using sm unfolding rootshard_secretMounts_def Let_def sel names set_append Un_iff
  proof (elim disjE)
    assume "sm \<in> set (case rcc_Reference (rs_Cache (rsh_Spec r)) of None \<Rightarrow> []
        | Some ref \<Rightarrow> cache_mounts (lor_Name ref))"
    then show "(sm_SecretName sm \<in> rootshard_secrets r recs \<or> sm_SecretName sm \<in> cacheserver_secrets c crecs)
        \<or> sm_SecretName sm \<in> ungenerated_root_ca r"
      using cache cache_mounts_secrets [OF crecs] by (auto split: option.splits)
  qed (use rootshard_secrets_members(2-) [OF recs] ca in
      \<open>force simp: secret_mount_def intermediateCAs_def rootshard_leaf_kinds_def split: if_splits\<close>)+
qed

text \<open>C21: every secret volume in the pod of a rendered root shard deployment, those of the
  authentication, audit, authorization and etcd configuration and the extra volumes included, is
  created by the root shard controller, by the controller of the referenced cache server or by
  those of the shards, or is named by the user in the spec. Only when the root CA is not issued by an
  issuer (\<open>issuerRef\<close>) one name is neither: the generated name of the root CA's secret, which the
  deployment mounts although the user's secret (\<open>caSecretRef\<close>) has a name of its own.\<close>

theorem rootshard_mounts_created:
  assumes recs: "rootshard_certReconcilers r = Inr recs"
    and crecs: "cacheserver_certReconcilers c = Inr crecs"
    and obj: "om_Name (crsh_Meta obj) = om_Name (rsh_Meta r)"
      "cr = snd (CompiledRootShardReconciler r vw shards revisions) obj"
    and cache: "\<forall>ref. rcc_Reference (rs_Cache (rsh_Spec r)) = Some ref \<longrightarrow> lor_Name ref = om_Name (cas_Meta c)"
    and dep: "rootshard_DeploymentReconciler st cr dep = Inr (st', d')"
    and vol: "vol \<in> set (ps_Volumes (pod_of d'))" "vol_Secret vol = Some n"
  shows "n \<in> rootshard_secrets r recs \<union> cacheserver_secrets c crecs \<union> (\<Union>s \<in> set shards. shard_secrets s r)
     \<union> user_secrets (rsh_Spec r) \<union> ungenerated_root_ca r"
proof -
  note sel = compiled_rootshard_sel [OF obj]
  have shards: "crs_Shards (crsh_Spec cr) = ShardNames shards"
    using obj(2) by (simp add: CompiledRootShardReconciler_def)
  have "n \<in> volume_secrets (ps_Volumes (pod_of d'))" using vol by (auto simp: volume_secrets_def)
  then have "n \<in> sm_SecretName ` set (rootshard_secretMounts cr) \<union> user_secrets (rsh_Spec r)
      \<union> sa_cert_name ` set (om_Name (rsh_Meta r) # ShardNames shards)"
    using shard_deployment_secrets dep
    by (fastforce simp: rootshard_DeploymentReconciler_def shard_pipeline_closed sel shards)
  then show ?thesis
    using rootshard_mount_secrets [OF recs crecs obj cache] service_account_secrets [OF recs, of shards] by blast
qed

text \<open>with a root CA of the user's own (\<open>caSecretRef\<close> instead of \<open>issuerRef\<close>) the deployment
  still mounts the secret the operator would have generated, which no controller creates, while
  the root issuer signs with the user's secret: unless the user's secret happens to have the
  generated name, the deployment can never start.\<close>

theorem rootshard_byo_ca_not_mounted:
  assumes recs: "rootshard_certReconcilers r = Inr recs"
    and obj: "om_Name (crsh_Meta obj) = om_Name (rsh_Meta r)"
      "cr = snd (CompiledRootShardReconciler r vw shards revisions) obj"
    and byo: "crt_IssuerRef (rs_Certificates (rsh_Spec r)) = None"
      "crt_CASecretRef (rs_Certificates (rsh_Spec r)) = Some ref"
      "lor_Name ref \<noteq> om_Name (rsh_Meta r) @ ''-ca''"
  shows "\<exists>sm \<in> set (rootshard_secretMounts cr).
     sm_SecretName sm \<notin> rootshard_secrets r recs \<and> sm_SecretName sm \<noteq> lor_Name ref
     \<and> is_CASecretName (snd (rootshard_RootCAIssuerReconciler r) old) = Some (lor_Name ref)"
proof -
  note sel = compiled_rootshard_sel [OF obj]
  let ?sm = "secret_mount ''kcp-ca'' (GetCompiledRootShardCAName cr RootCA) (shard_getCAMountPath RootCA)"
  have name: "sm_SecretName ?sm = om_Name (rsh_Meta r) @ ''-ca''"
    by (simp add: secret_mount_def GetCompiledRootShardCAName_def sel)
  have "?sm \<in> set (rootshard_secretMounts cr)"
    by (simp add: rootshard_secretMounts_def Let_def)
  moreover have "om_Name (rsh_Meta r) @ ''-ca'' \<notin> rootshard_secrets r recs"
    unfolding rootshard_secrets_def rootshard_certificate_secrets [OF recs]
    by (simp add: byo(1) rootshard_leaf_kinds_def intermediateCAs_def GetRootShardCAName_def
        GetRootShardCertificateName_def rootshard_LogicalClusterAdminKubeconfigReconciler_def
        rootshard_ExternalLogicalClusterAdminKubeconfigReconciler_def rootshard_kubeconfigSecret_def
        rootshard_MergedCABundleSecretReconciler_def rootshard_MergedClientCABundleSecretReconciler_def)
  ultimately show ?thesis
    using byo name by (intro bexI [of _ ?sm]) (auto simp: rootshard_RootCAIssuerReconciler_def Let_def)
qed

lemma shard_mount_secrets:
  assumes recs: "rootshard_certReconcilers r = Inr recs"
    and crecs: "cacheserver_certReconcilers c = Inr crecs"
    and obj: "om_Name (cso_Meta obj) = om_Name (sh_Meta s)"
      "cs = snd (CompiledShardReconciler s r vw shards revisions) obj"
    and cache: "shard_getEffectiveCacheRef cs \<noteq> [] \<longrightarrow> shard_getEffectiveCacheRef cs = om_Name (cas_Meta c)"
    and sm: "sm \<in> set (shard_secretMounts newVersion check cs)"
  shows "sm_SecretName sm \<in> shard_secrets s r \<union> rootshard_secrets r recs \<union> cacheserver_secrets c crecs
     \<union> ungenerated_root_ca r"
proof -
  note sel = compiled_shard_sel [OF obj]
  note names = compiled_shard_names [OF sel(1,3)]
  have ca: "GetRootShardCAName r RootCA \<in> rootshard_secrets r recs \<or> GetRootShardCAName r RootCA \<in> ungenerated_root_ca r"
    using rootshard_secrets_members(1) [OF recs] by (auto simp: ungenerated_root_ca_def)
  show ?thesis
    using sm unfolding shard_secretMounts_def Let_def case_prod_unfold sel(1,2) names set_append Un_iff
  proof (elim disjE)
    assume "sm \<in> set (if shard_getEffectiveCacheRef cs \<noteq> []
        then cache_mounts (shard_getEffectiveCacheRef cs) else [])"
    then show "((sm_SecretName sm \<in> shard_secrets s r \<or> sm_SecretName sm \<in> rootshard_secrets r recs)
        \<or> sm_SecretName sm \<in> cacheserver_secrets c crecs) \<or> sm_SecretName sm \<in> ungenerated_root_ca r"
      using cache cache_mounts_secrets [OF crecs] by (auto split: if_splits)
  qed (use rootshard_secrets_members(2-) [OF recs] shard_secrets_members ca in
      \<open>force simp: secret_mount_def intermediateCAs_def sel(3) split: if_splits\<close>)+
qed

text \<open>C22: the same for a rendered shard deployment: every secret volume of its pod is created by the
  controller of the shard, of its root shard, of the cache server it uses or of a sibling shard, or is
  named by the user in the shard's spec, or (without an issuer for the root CA) is the generated name
  of the root CA's secret.\<close>

theorem shard_mounts_created:
  assumes recs: "rootshard_certReconcilers r = Inr recs"
    and crecs: "cacheserver_certReconcilers c = Inr crecs"
    and obj: "om_Name (cso_Meta obj) = om_Name (sh_Meta s)"
      "cs = snd (CompiledShardReconciler s r vw shards revisions) obj"
    and cache: "shard_getEffectiveCacheRef cs \<noteq> [] \<longrightarrow> shard_getEffectiveCacheRef cs = om_Name (cas_Meta c)"
    and dep: "shard_DeploymentReconciler newVersion check st cs dep = Inr (st', d')"
    and vol: "vol \<in> set (ps_Volumes (pod_of d'))" "vol_Secret vol = Some n"
  shows "n \<in> shard_secrets s r \<union> rootshard_secrets r recs \<union> cacheserver_secrets c crecs
     \<union> (\<Union>s' \<in> set shards. shard_secrets s' r) \<union> user_secrets (sh_Spec s) \<union> ungenerated_root_ca r"
proof -
  note sel = compiled_shard_sel [OF obj]
  have shards: "csh_Shards (cso_Spec cs) = ShardNames shards"
    using obj(2) by (simp add: CompiledShardReconciler_def)
  have "n \<in> volume_secrets (ps_Volumes (pod_of d'))" using vol by (auto simp: volume_secrets_def)
  then have "n \<in> sm_SecretName ` set (shard_secretMounts newVersion check cs) \<union> user_secrets (sh_Spec s)
      \<union> sa_cert_name ` set (om_Name (rsh_Meta r) # ShardNames shards)"
    using shard_deployment_secrets dep
    by (fastforce simp: shard_DeploymentReconciler_def shard_pipeline_closed split_beta sel shards)
  then show ?thesis
    using shard_mount_secrets [OF recs crecs obj cache] service_account_secrets [OF recs, of shards] by blast
qed

section \<open>Kubeconfigs\<close>

text \<open>A kubeconfig works in a pod if its current context is complete and every file it refers to
  is a certificate or key of a mounted secret.\<close>

definition usable_with :: "SecretMount list \<Rightarrow> kube_config \<Rightarrow> bool" where
  "usable_with mounts c \<longleftrightarrow> kubeconfig_ok c
     \<and> (\<forall>f \<in> kubeconfig_files c. \<exists>sm \<in> set mounts. f = sm_MountPath sm @ ''/tls.crt''
          \<or> f = sm_MountPath sm @ ''/tls.key'')"

lemma usable_file_kubeconfig:
  assumes "ca \<in> sm_MountPath ` set mounts" "crt \<in> sm_MountPath ` set mounts"
  shows "usable_with mounts (file_kubeconfig srv x a url ca crt)"
  using assms by (auto simp: usable_with_def)

lemma rootshard_mount_paths:
  "sm_MountPath ` set (rootshard_secretMounts cr) \<supseteq>
     {rootshard_getCAMountPath ServerCA,
      rootshard_getCertificateMountPath LogicalClusterAdminCertificate,
      rootshard_getCertificateMountPath ExternalLogicalClusterAdminCertificate}
     \<union> (if cs_CABundleSecretRef (crs_RootShard (crsh_Spec cr)) \<noteq> None
        then {rootshard_getCAMountPath CABundleCA} else {})
     \<union> (if rcc_Reference (rs_Cache (crs_RootShard (crsh_Spec cr))) \<noteq> None
        then {cacheserver_getCAMountPath RootCA, getClientCertificateMountPath} else {})"
  by (cases "rcc_Reference (rs_Cache (crs_RootShard (crsh_Spec cr)))")
    (simp_all add: rootshard_secretMounts_def Let_def secret_mount_def cache_mounts_def
      rootshard_getCAMountPath_def rootshard_getCertificateMountPath_def
      cacheserver_getCAMountPath_def getClientCertificateMountPath_def path_defs)

lemma shard_mount_paths:
  "sm_MountPath ` set (shard_secretMounts newVersion check cs) \<supseteq>
     {shardpki_getCAMountPath ServerCA, shardpki_getCertificateMountPath ClientCertificate,
      shardpki_getCertificateMountPath LogicalClusterAdminCertificate,
      shardpki_getCertificateMountPath ExternalLogicalClusterAdminCertificate}
     \<union> (if cs_CABundleSecretRef (csh_Shard (cso_Spec cs)) \<noteq> None
        then {shardpki_getCAMountPath CABundleCA} else {})
     \<union> (if shard_getEffectiveCacheRef cs \<noteq> []
        then {cacheserver_getCAMountPath RootCA, getClientCertificateMountPath} else {})"
  by (cases "shard_getEffectiveCacheRef cs = []"; cases "supportsMountProxy check
        (snd (snd (GetImageSettings newVersion (cs_Image (csh_Shard (cso_Spec cs))))))")
    (simp_all add: shard_secretMounts_def Let_def case_prod_unfold secret_mount_def cache_mounts_def
      shardpki_getCAMountPath_def shardpki_getCertificateMountPath_def
      cacheserver_getCAMountPath_def getClientCertificateMountPath_def path_defs)

text \<open>the kubeconfigs the controllers write for the root shard and the shards name a cluster
  and a user in their current context, and every file in them is one the deployment that mounts
  the kubeconfig also mounts; the same for the cache server's kubeconfig, in the deployments that
  refer to a cache server.\<close>

theorem kubeconfigs_usable:
  assumes "om_Name (crsh_Meta obj) = om_Name (rsh_Meta r)"
    "cr = snd (CompiledRootShardReconciler r vw shards revisions) obj"
    and "om_Name (cso_Meta sobj) = om_Name (sh_Meta s)"
    "cs = snd (CompiledShardReconciler s r svw shards srevisions) sobj"
  shows "list_all (usable_with (rootshard_secretMounts cr))
        ([rootshard_admin_kubeconfig r, rootshard_external_admin_kubeconfig r]
         @ (if rcc_Reference (rs_Cache (rsh_Spec r)) \<noteq> None then [cacheserver_kubeconfig c] else []))
     \<and> list_all (usable_with (shard_secretMounts newVersion check cs))
        ([shard_client_kubeconfig r, shard_admin_kubeconfig s, shard_external_admin_kubeconfig s r]
         @ (if shard_getEffectiveCacheRef cs \<noteq> [] then [cacheserver_kubeconfig c] else []))"
proof -
  note rsel = compiled_rootshard_sel [OF assms(1,2)]
  note ssel = compiled_shard_sel [OF assms(3,4)]
  have r: "usable_with (rootshard_secretMounts cr) x"
    if "x \<in> {rootshard_admin_kubeconfig r, rootshard_external_admin_kubeconfig r}
      \<or> rcc_Reference (rs_Cache (rsh_Spec r)) \<noteq> None \<and> x = cacheserver_kubeconfig c" for x
    using that rootshard_mount_paths [of cr, unfolded rsel]
    by (auto simp: rootshard_admin_kubeconfig_def rootshard_external_admin_kubeconfig_def
        cacheserver_kubeconfig_def intro!: usable_file_kubeconfig split: if_splits)
  have s: "usable_with (shard_secretMounts newVersion check cs) x"
    if "x \<in> {shard_client_kubeconfig r, shard_admin_kubeconfig s, shard_external_admin_kubeconfig s r}
      \<or> shard_getEffectiveCacheRef cs \<noteq> [] \<and> x = cacheserver_kubeconfig c" for x
    using that shard_mount_paths [of cs newVersion check, unfolded ssel(2)]
    by (auto simp: shard_client_kubeconfig_def shard_admin_kubeconfig_def
        shard_external_admin_kubeconfig_def cacheserver_kubeconfig_def
        intro!: usable_file_kubeconfig split: if_splits)
  show ?thesis using r s by simp
qed

section \<open>Witnesses\<close>

definition compiled_sample_rootshard :: "RootShard \<Rightarrow> CompiledRootShard" where
  "compiled_sample_rootshard r =
     snd (CompiledRootShardReconciler r None [sample_shard] fmempty) sample_compiled_rootshard"

definition compiled_sample_shard :: CompiledShard where
  "compiled_sample_shard =
     snd (CompiledShardReconciler sample_shard sample_rootshard None [sample_shard] fmempty) sample_compiled_shard"

lemma sample_names:
  "om_Name (crsh_Meta sample_compiled_rootshard) = om_Name (rsh_Meta sample_rootshard)"
  "om_Name (crsh_Meta sample_compiled_rootshard) = om_Name (rsh_Meta sample_byo_rootshard)"
  "om_Name (cso_Meta sample_compiled_shard) = om_Name (sh_Meta sample_shard)"
  "rcc_Reference (rs_Cache (rsh_Spec sample_rootshard)) = None"
  "crt_IssuerRef (rs_Certificates (rsh_Spec sample_rootshard)) \<noteq> None"
  by (simp_all add: sample_compiled_rootshard_def sample_rootshard_def sample_byo_rootshard_def
      sample_compiled_shard_def sample_shard_def sample_rootshard_spec_def sample_certificates_def)

lemma sample_cache_certs: "\<exists>crecs. cacheserver_certReconcilers sample_cacheserver = Inr crecs"
  by (auto simp: cacheserver_certReconcilers_def cacheserver_RootCACertificateReconciler_def
      sample_cacheserver_def sample_cacheserver_spec_def sample_certificates_def Let_def)

text \<open>The first mount of a rendered pod is one of its volumes.\<close>

lemma first_volume:
  assumes "sms \<noteq> []"
  shows "\<exists>vol \<in> set (ps_Volumes (pod_of (shard_deployment st l args sms res spec root shards dep))).
     vol_Secret vol = Some (sm_SecretName (hd sms))"
  using assms unfolding shard_deployment_volumes by (cases sms) (auto simp: SecretMount_Build_def)

theorem rootshard_mounts_created_witness:
  "\<exists>recs crecs. rootshard_certReconcilers sample_rootshard = Inr recs
     \<and> cacheserver_certReconcilers sample_cacheserver = Inr crecs
     \<and> sm_SecretName (hd (rootshard_secretMounts (compiled_sample_rootshard sample_rootshard)))
         \<in> rootshard_secrets sample_rootshard recs \<union> cacheserver_secrets sample_cacheserver crecs
           \<union> (\<Union>s \<in> set [sample_shard]. shard_secrets s sample_rootshard) \<union> user_secrets (rsh_Spec sample_rootshard)
           \<union> ungenerated_root_ca sample_rootshard"
proof -
  let ?sms = "rootshard_secretMounts (compiled_sample_rootshard sample_rootshard)"
  obtain recs where recs: "rootshard_certReconcilers sample_rootshard = Inr recs"
    using rootshard_certReconcilers_total by blast
  obtain crecs where crecs: "cacheserver_certReconcilers sample_cacheserver = Inr crecs"
    using sample_cache_certs by blast
  have ne: "?sms \<noteq> []" by (simp add: rootshard_secretMounts_def Let_def)
  obtain st' d' where dep: "rootshard_DeploymentReconciler init_rstore
      (compiled_sample_rootshard sample_rootshard) Deployment_zero = Inr (st', d')"
    by (simp add: rootshard_DeploymentReconciler_def shard_pipeline_closed)
  then obtain vol where vol: "vol \<in> set (ps_Volumes (pod_of d'))" "vol_Secret vol = Some (sm_SecretName (hd ?sms))"
    using first_volume [OF ne] unfolding rootshard_DeploymentReconciler_def shard_pipeline_closed by blast
  from rootshard_mounts_created [OF recs crecs sample_names(1) compiled_sample_rootshard_def _ dep vol]
  show ?thesis
    using recs crecs by (simp add: sample_names(4))
qed

theorem rootshard_byo_ca_not_mounted_witness:
  "\<exists>recs sm. rootshard_certReconcilers sample_byo_rootshard = Inr recs
     \<and> sm \<in> set (rootshard_secretMounts (compiled_sample_rootshard sample_byo_rootshard))
     \<and> sm_SecretName sm \<notin> rootshard_secrets sample_byo_rootshard recs \<and> sm_SecretName sm \<noteq> ''my-ca''"
proof -
  obtain recs where recs: "rootshard_certReconcilers sample_byo_rootshard = Inr recs"
    using rootshard_certReconcilers_total by blast
  have byo: "crt_IssuerRef (rs_Certificates (rsh_Spec sample_byo_rootshard)) = None"
    "crt_CASecretRef (rs_Certificates (rsh_Spec sample_byo_rootshard)) = Some \<lparr>lor_Name = ''my-ca''\<rparr>"
    by (simp_all add: sample_byo_rootshard_def)
  have ne: "lor_Name \<lparr>lor_Name = ''my-ca''\<rparr> \<noteq> om_Name (rsh_Meta sample_byo_rootshard) @ ''-ca''"
    by (simp add: sample_byo_rootshard_def sample_rootshard_def sample_meta_def)
  show ?thesis
    using rootshard_byo_ca_not_mounted [OF recs sample_names(2) compiled_sample_rootshard_def byo ne] recs
    by auto
qed

theorem shard_mounts_created_witness:
  "\<exists>recs crecs. rootshard_certReconcilers sample_rootshard = Inr recs
     \<and> cacheserver_certReconcilers sample_cacheserver = Inr crecs
     \<and> sm_SecretName (hd (shard_secretMounts (\<lambda>_. None :: unit option) (\<lambda>_ _. True) compiled_sample_shard))
         \<in> shard_secrets sample_shard sample_rootshard \<union> rootshard_secrets sample_rootshard recs
           \<union> cacheserver_secrets sample_cacheserver crecs
           \<union> (\<Union>s \<in> set [sample_shard]. shard_secrets s sample_rootshard) \<union> user_secrets (sh_Spec sample_shard)
           \<union> ungenerated_root_ca sample_rootshard"
proof -
  let ?sms = "shard_secretMounts (\<lambda>_. None :: unit option) (\<lambda>_ _. True) compiled_sample_shard"
  obtain recs where recs: "rootshard_certReconcilers sample_rootshard = Inr recs"
    using rootshard_certReconcilers_total by blast
  obtain crecs where crecs: "cacheserver_certReconcilers sample_cacheserver = Inr crecs"
    using sample_cache_certs by blast
  note sel = compiled_shard_sel [OF sample_names(3) compiled_sample_shard_def]
  have cache: "shard_getEffectiveCacheRef compiled_sample_shard = []"
    using sample_names(4) by (simp add: shard_getEffectiveCacheRef_def sel sample_shard_def sample_shard_spec_def)
  have ne: "?sms \<noteq> []" by (simp add: shard_secretMounts_def Let_def case_prod_unfold)
  obtain st' d' where dep: "shard_DeploymentReconciler (\<lambda>_. None :: unit option) (\<lambda>_ _. True) init_rstore
      compiled_sample_shard Deployment_zero = Inr (st', d')"
    by (simp add: shard_DeploymentReconciler_def shard_pipeline_closed split_beta)
  obtain vol where vol: "vol \<in> set (ps_Volumes (pod_of d'))" "vol_Secret vol = Some (sm_SecretName (hd ?sms))"
  proof -
    have "\<exists>l args res (spec :: ShardSpec) root shards. d' = shard_deployment init_rstore l args ?sms res spec root shards Deployment_zero"
      using dep by (simp add: shard_DeploymentReconciler_def shard_pipeline_closed split_beta) metis
    then show thesis using first_volume [OF ne] that by blast
  qed
  from shard_mounts_created [OF recs crecs sample_names(3) compiled_sample_shard_def _ dep vol]
  show ?thesis using recs crecs cache by simp
qed

theorem kubeconfigs_usable_witness:
  "usable_with (rootshard_secretMounts (compiled_sample_rootshard sample_rootshard))
     (rootshard_external_admin_kubeconfig sample_rootshard)
   \<and> usable_with (shard_secretMounts (\<lambda>_. None) (\<lambda>_ _. True) compiled_sample_shard)
     (shard_admin_kubeconfig sample_shard)"
  using kubeconfigs_usable [OF sample_names(1) compiled_sample_rootshard_def sample_names(3)
      compiled_sample_shard_def, of sample_cacheserver "\<lambda>_. None" "\<lambda>_ _. True"]
  by auto

end
