(* ===== verification/Kubeconfig_Props.thy ===== *)
theory Kubeconfig_Props
  imports Pki_Kubeconfig Pki_Proxy Sample_Objects
begin

text \<open>
  What a user gets out of a Kubeconfig object: a certificate in the groups it asks for, and a
  kubeconfig that is complete, trusts the CAs of the target and, for a front proxy, points to a
  host name the proxy's certificate covers.
\<close>

text \<open>The client certificate of a kubeconfig carries the user name and, whatever the user's
  template adds, all groups of the spec and the group the role bindings are made for.\<close>

theorem kubeconfig_certificate_identity:
  "let spec = cc_Spec (snd (kubeconfig_ClientCertificateReconciler k issuer) old) in
     ce_CommonName spec = ks_Username (kc_Spec k) \<and> ce_Usages spec = [UsageClientAuth]
     \<and> ce_SecretName spec = Kubeconfig_GetCertificateName k
     \<and> (\<exists>subject. ce_Subject spec = Some subject
          \<and> set (ks_Groups (kc_Spec k)) \<union> {KubeconfigGroup k} \<subseteq> set (x_Organizations subject))"
proof -
  have "set (sets_List (ks_Groups (kc_Spec k)) [KubeconfigGroup k])
      = set (ks_Groups (kc_Spec k)) \<union> {KubeconfigGroup k}" by simp
  then show ?thesis
    by (auto simp: kubeconfig_ClientCertificateReconciler_def Let_def render_certificate_spec
        Organizations_def applyCertificateSpecTemplate_def applyCertificateSubjectTemplate_def
        CertificateSpec_zero_def split: option.splits)
qed

text \<open>A complete kubeconfig for the user: the default context is current, the user has the data of
  the certificate secret, and every cluster trusts each CA of the given secrets.\<close>

definition complete_kubeconfig :: "Kubeconfig \<Rightarrow> Secret \<Rightarrow> Secret option list \<Rightarrow> kube_config \<Rightarrow> bool" where
  "complete_kubeconfig k certSecret cas config \<longleftrightarrow>
     kubeconfig_ok config \<and> kcf_CurrentContext config = ''default''
     \<and> map_option kau_ClientCertificateData (fmlookup (kcf_AuthInfos config) (ks_Username (kc_Spec k)))
         = Some (secret_data certSecret ''tls.crt'')
     \<and> (\<forall>name cluster ca secret. fmlookup (kcf_Clusters config) name = Some cluster
           \<and> Some secret \<in> set cas \<and> mget (sec_Data secret) ''tls.crt'' = Some ca
         \<longrightarrow> (\<exists>a b. kcl_CertificateAuthorityData cluster = a @ ca @ b))"

lemma kubeconfig_config_complete:
  assumes "kubeconfig_config requestPath joinPath k rootShard shard frontProxy x certSecret = Inr c"
    and "\<And>secret ca. Some secret \<in> set cas \<Longrightarrow> mget (sec_Data secret) ''tls.crt'' = Some ca
      \<Longrightarrow> \<exists>a b. x = a @ ca @ b"
  shows "complete_kubeconfig k certSecret cas c"
proof -
  have "kubeconfig_ok c \<and> kcf_CurrentContext c = ''default''
     \<and> map_option kau_ClientCertificateData (fmlookup (kcf_AuthInfos c) (ks_Username (kc_Spec k)))
         = Some (secret_data certSecret ''tls.crt'')
     \<and> (\<forall>name cluster. fmlookup (kcf_Clusters c) name = Some cluster \<longrightarrow> kcl_CertificateAuthorityData cluster = x)"
    using assms(1)
    by (auto simp: kubeconfig_config_def Let_def bindE_eq_Inr shard_config_ok frontproxy_config_ok
        split: if_splits option.splits)
      (auto simp: shard_config_def frontproxy_config_def addCluster_def addContext_def base_config_def Let_def
        split: if_splits)
  then show ?thesis using assms(2) unfolding complete_kubeconfig_def by metis
qed

text \<open>C35: rendering the kubeconfig secret always returns. If it returns no error, the secret is
  the one the spec names and holds a complete kubeconfig that trusts the CAs of both CA secrets.\<close>

theorem kubeconfig_secret_correct:
  assumes "decoder_ok decode"
  shows "\<exists>res. KubeconfigSecretReconciler decode parse requestPath joinPath write k rootShard shard
        frontProxy caSecret certSecret caBundle = Some res
     \<and> (\<forall>rec. res = Inr rec \<longrightarrow> fst rec = lor_Name (ks_SecretRef (kc_Spec k))
          \<and> (\<exists>config. snd rec = render_kubeconfig_secret write [] config
               \<and> complete_kubeconfig k certSecret [caSecret, caBundle] config))"
proof -
  let ?certs = "List.map_filter (\<lambda>s. case s of None \<Rightarrow> None
          | Some x \<Rightarrow> mget (sec_Data x) ''tls.crt'') [caSecret, caBundle]"
  obtain merged where m: "MergeCertificateSecrets decode parse [caSecret, caBundle] = Some merged"
    "\<forall>x. merged = Inr x \<longrightarrow> x = MergeCertificates ?certs"
    using MergeCertificateSecrets_total [OF assms] by blast
  have trust: "\<exists>a b. x = a @ ca @ b"
    if "merged = Inr x" "Some secret \<in> set [caSecret, caBundle]" "mget (sec_Data secret) ''tls.crt'' = Some ca"
    for x secret ca
  proof -
    have "ca \<in> set ?certs"
      using that(2,3) by (auto simp: List.map_filter_simps split: option.splits)
    then show ?thesis using MergeCertificates_infix m that(1) by blast
  qed
  consider (missing) e where "bundle_error caBundle = Some e"
    | (merge) e where "bundle_error caBundle = None" "merged = Inl e"
    | (config) x where "bundle_error caBundle = None" "merged = Inr x"
    by (cases "bundle_error caBundle"; cases merged) auto
  then show ?thesis
  proof cases
    case (config x)
    show ?thesis
    proof (cases "kubeconfig_config requestPath joinPath k rootShard shard frontProxy x certSecret")
      case (Inl e)
      then show ?thesis using config m(1) by (simp add: KubeconfigSecretReconciler_def)
    next
      case (Inr c)
      have "complete_kubeconfig k certSecret [caSecret, caBundle] c"
        by (rule kubeconfig_config_complete [OF Inr]) (rule trust [OF config(2)])
      then show ?thesis using config m(1) Inr by (auto simp: KubeconfigSecretReconciler_def)
    qed
  qed (use m(1) in \<open>simp_all add: KubeconfigSecretReconciler_def\<close>)
qed

section \<open>Front proxies\<close>

lemma Itoa_digits: "list_all is_digit (Itoa (uint (n :: 'a::len word)))"
  using nat_str_digits [of "nat (uint n)"] by (simp add: Itoa_def)

lemma bracket_notin_dns: "list_all dns_char h \<Longrightarrow> CHR '']'' \<notin> set h"
  by (auto simp: list_all_iff dns_char_def is_alpha_def is_digit_def)

lemma SplitHostPort_dns:
  assumes "dns_host h" "list_all is_digit port"
  shows "SplitHostPort (h @ '':'' @ port) = Some (h, port)"
proof -
  have h: "list_all dns_char h" and p: "list_all dns_char port"
    using assms digits_dns by (auto simp: dns_host_def)
  show ?thesis
    by (rule SplitHostPort_plain)
      (use dns_notin(1,6) [OF h] dns_notin(1,6) [OF p] bracket_notin_dns [OF h] bracket_notin_dns [OF p] in auto)
qed

text \<open>a kubeconfig for a front proxy points to a host name the proxy's certificate covers,
  except when the deprecated \<open>externalHostname\<close> holds \<open>host:port\<close>. Then the certificate gets the
  whole string as a DNS name, and the host is covered only if another of the names is the host.\<close>

theorem frontproxy_url_covered:
  assumes "NewFrontProxy (Some f) r shards = Inr p"
    and "dns_host (ext_Hostname (rs_External (rsh_Spec r)))"
    and "ext_Hostname (fp_External (fpx_Spec f)) = [] \<or> dns_host (ext_Hostname (fp_External (fpx_Spec f)))"
    and validation: "fp_ExternalHostname (fpx_Spec f) = [] \<or> ext_Hostname (fp_External (fpx_Spec f)) = []"
  shows "(fp_ExternalHostname (fpx_Spec f) = [] \<longrightarrow>
        ExtractHostnameFromURL (frontproxy_serverURL f r) \<in> set (proxy_dnsNames p))
     \<and> (\<forall>host port. fp_ExternalHostname (fpx_Spec f) = host @ '':'' @ port
          \<and> dns_host host \<and> list_all is_digit port \<longrightarrow>
        ExtractHostnameFromURL (frontproxy_serverURL f r) = host
        \<and> (host \<in> set (proxy_dnsNames p) \<longleftrightarrow>
            host \<in> {fr_serviceName p, fr_serviceName p @ ''.'' @ om_Namespace (rsh_Meta r),
              fr_serviceName p @ ''.'' @ om_Namespace (rsh_Meta r) @ ''.svc.cluster.local'',
              ext_Hostname (rs_External (rsh_Spec r)), ext_PrivateHostname (rs_External (rsh_Spec r))}))"
proof (intro conjI impI allI)
  have p: "fr_frontProxy p = Some f" "fr_rootShard p = r"
    using assms(1) by (auto simp: NewFrontProxy_def)
  note names = proxy_dnsNames_def p Let_def
  show "ExtractHostnameFromURL (frontproxy_serverURL f r) \<in> set (proxy_dnsNames p)"
    if "fp_ExternalHostname (fpx_Spec f) = []"
    using that assms(2,3) ExtractHostname_https [OF _ Itoa_digits]
    by (auto simp: names frontproxy_serverURL_def dns_host_def)
  fix host port
  assume "fp_ExternalHostname (fpx_Spec f) = host @ '':'' @ port
    \<and> dns_host host \<and> list_all is_digit port"
  then have h: "fp_ExternalHostname (fpx_Spec f) = host @ '':'' @ port" "dns_host host" "list_all is_digit port"
    by auto
  have none: "ext_Hostname (fp_External (fpx_Spec f)) = []"
    using validation h(1) by simp
  show "ExtractHostnameFromURL (frontproxy_serverURL f r) = host"
    using none h SplitHostPort_dns [OF h(2,3)] ExtractHostname_https [OF h(2,3)]
    by (simp add: frontproxy_serverURL_def Let_def)
  have colon: "host \<noteq> host @ '':'' @ port" by simp
  have ne: "host \<noteq> []" using h(2) by (simp add: dns_host_def)
  show "host \<in> set (proxy_dnsNames p) \<longleftrightarrow>
      host \<in> {fr_serviceName p, fr_serviceName p @ ''.'' @ om_Namespace (rsh_Meta r),
        fr_serviceName p @ ''.'' @ om_Namespace (rsh_Meta r) @ ''.svc.cluster.local'',
        ext_Hostname (rs_External (rsh_Spec r)), ext_PrivateHostname (rs_External (rsh_Spec r))}"
    using colon h(1) ne by (auto simp: names)
qed

section \<open>Witnesses\<close>

definition sample_deprecated_frontproxy :: FrontProxy where
  "sample_deprecated_frontproxy = sample_frontproxy\<lparr>fpx_Spec :=
     sample_frontproxy_spec\<lparr>fp_ExternalHostname := ''fp.example.com:8443''\<rparr>\<rparr>"

definition sample_proxy :: "FrontProxy \<Rightarrow> proxy_reconciler" where
  "sample_proxy f = \<lparr>fr_frontProxy = Some f, fr_rootShard = sample_rootshard, fr_shards = [],
     fr_resourceLabels = GetFrontProxyResourceLabels f\<rparr>"

lemmas sample_proxy_simps = sample_deprecated_frontproxy_def sample_frontproxy_def
  sample_frontproxy_spec_def sample_rootshard_def sample_rootshard_spec_def sample_external_def

theorem frontproxy_url_covered_witness:
  "ExtractHostnameFromURL (frontproxy_serverURL sample_frontproxy sample_rootshard)
      \<in> set (proxy_dnsNames (sample_proxy sample_frontproxy))
   \<and> ExtractHostnameFromURL (frontproxy_serverURL sample_deprecated_frontproxy sample_rootshard) = ''fp.example.com''
   \<and> ''fp.example.com'' \<notin> set (proxy_dnsNames (sample_proxy sample_deprecated_frontproxy))"
proof -
  have dns: "dns_host ''kcp.example.com''" "dns_host ''fp.example.com''"
    by (simp_all add: dns_host_def dns_char_def is_alpha_def is_digit_def)
  have port: "list_all is_digit ''8443''" by (simp add: is_digit_def)
  have p: "NewFrontProxy (Some f) sample_rootshard [] = Inr (sample_proxy f)" for f
    by (simp add: NewFrontProxy_def sample_proxy_def)
  have a: "ExtractHostnameFromURL (frontproxy_serverURL sample_frontproxy sample_rootshard)
      \<in> set (proxy_dnsNames (sample_proxy sample_frontproxy))"
    using frontproxy_url_covered [OF p, of sample_frontproxy] dns(1) by (simp add: sample_proxy_simps)
  have b: "ExtractHostnameFromURL (frontproxy_serverURL sample_deprecated_frontproxy sample_rootshard) = ''fp.example.com''
      \<and> (''fp.example.com'' \<in> set (proxy_dnsNames (sample_proxy sample_deprecated_frontproxy)) \<longleftrightarrow>
        ''fp.example.com'' \<in> {fr_serviceName (sample_proxy sample_deprecated_frontproxy),
          fr_serviceName (sample_proxy sample_deprecated_frontproxy) @ ''.'' @ om_Namespace (rsh_Meta sample_rootshard),
          fr_serviceName (sample_proxy sample_deprecated_frontproxy) @ ''.'' @ om_Namespace (rsh_Meta sample_rootshard) @ ''.svc.cluster.local'',
          ext_Hostname (rs_External (rsh_Spec sample_rootshard)), ext_PrivateHostname (rs_External (rsh_Spec sample_rootshard))})"
    using frontproxy_url_covered [OF p, of sample_deprecated_frontproxy, THEN conjunct2, rule_format,
        of "''fp.example.com''" "''8443''"] dns port
    by (simp add: sample_proxy_simps)
  have c: "''fp.example.com'' \<notin> {fr_serviceName (sample_proxy sample_deprecated_frontproxy),
          fr_serviceName (sample_proxy sample_deprecated_frontproxy) @ ''.'' @ om_Namespace (rsh_Meta sample_rootshard),
          fr_serviceName (sample_proxy sample_deprecated_frontproxy) @ ''.'' @ om_Namespace (rsh_Meta sample_rootshard) @ ''.svc.cluster.local'',
          ext_Hostname (rs_External (rsh_Spec sample_rootshard)), ext_PrivateHostname (rs_External (rsh_Spec sample_rootshard))}"
    by (simp add: sample_proxy_def fr_serviceName_def GetFrontProxyServiceName_def sample_proxy_simps
        sample_meta_def ObjectMeta_zero_def)
  show ?thesis using a b c by blast
qed

definition sample_secret :: "string \<Rightarrow> (string \<times> string) list \<Rightarrow> Secret" where
  "sample_secret name data = \<lparr>sec_Meta = sample_meta name, sec_Data = fmap_of_list data\<rparr>"

text \<open>The toy encoding of \<open>Cert_Templates\<close>, and a library that joins URLs by appending.\<close>

theorem kubeconfig_secret_correct_witness:
  "\<exists>config. complete_kubeconfig sample_kubeconfig
       (sample_secret ''cert'' [(''tls.crt'', ''C''), (''tls.key'', ''K'')])
       [Some (sample_secret ''ca'' [(''tls.crt'', ''CC'')]), None] config
     \<and> KubeconfigSecretReconciler toy_decode (\<lambda>_. None) (\<lambda>p. ''/clusters/'' @ p) (\<lambda>u p. Inr (u @ p))
         (\<lambda>_. Inr ''kubeconfig'') sample_kubeconfig (Some sample_rootshard) None sample_frontproxy
         (Some (sample_secret ''ca'' [(''tls.crt'', ''CC'')]))
         (sample_secret ''cert'' [(''tls.crt'', ''C''), (''tls.key'', ''K'')]) None
       = Some (Inr (''alice-kubeconfig'', render_kubeconfig_secret (\<lambda>_. Inr ''kubeconfig'') [] config))"
proof -
  let ?run = "KubeconfigSecretReconciler toy_decode (\<lambda>_. None) (\<lambda>p. ''/clusters/'' @ p) (\<lambda>u p. Inr (u @ p))
         (\<lambda>_. Inr ''kubeconfig'') sample_kubeconfig (Some sample_rootshard) None sample_frontproxy
         (Some (sample_secret ''ca'' [(''tls.crt'', ''CC'')]))
         (sample_secret ''cert'' [(''tls.crt'', ''C''), (''tls.key'', ''K'')]) None"
  have "\<exists>rec. ?run = Some (Inr rec)"
    by (simp add: KubeconfigSecretReconciler_def bundle_error_def MergeCertificateSecrets_def
        getCertFromSecret_def sample_secret_def validatePEMCertificate_def toy_decode_def
        validate_blocks.simps kubeconfig_config_def sample_kubeconfig_def Let_def)
  then obtain rec where run: "?run = Some (Inr rec)" by blast
  have name: "lor_Name (ks_SecretRef (kc_Spec sample_kubeconfig)) = ''alice-kubeconfig''"
    by (simp add: sample_kubeconfig_def)
  note correct = kubeconfig_secret_correct [OF toy_decode_ok, of "\<lambda>_. None" "\<lambda>p. ''/clusters/'' @ p"
        "\<lambda>u p. Inr (u @ p)" "\<lambda>_. Inr ''kubeconfig''" sample_kubeconfig "Some sample_rootshard" None
        sample_frontproxy "Some (sample_secret ''ca'' [(''tls.crt'', ''CC'')])"
        "sample_secret ''cert'' [(''tls.crt'', ''C''), (''tls.key'', ''K'')]" None, unfolded run name]
  then obtain config where "fst rec = ''alice-kubeconfig''"
    "snd rec = render_kubeconfig_secret (\<lambda>_. Inr ''kubeconfig'') [] config"
    "complete_kubeconfig sample_kubeconfig (sample_secret ''cert'' [(''tls.crt'', ''C''), (''tls.key'', ''K'')])
       [Some (sample_secret ''ca'' [(''tls.crt'', ''CC'')]), None] config"
    by blast
  then show ?thesis using run by (metis prod.collapse)
qed

end
