(* ===== verification/Api_Actions.thy ===== *)
theory Api_Actions
  imports Operator_Types
begin

text \<open>
  Reconcilers as programs over an API server. An action takes the state of the world and a list
  of outcomes, one for each API call it will make, and returns its result, the new state and the
  outcomes that are left. A call can succeed, be rejected, or be carried out with its response
  lost, so a theorem about all outcome lists covers every way the calls of a reconciliation can
  fail, including a crash of the operator after any of them (all later calls rejected).
  An exhausted list means that the remaining calls succeed.
\<close>

datatype outcome = Applied | Rejected | Lost

type_synonym ('w, 'a) act = "'w \<Rightarrow> outcome list \<Rightarrow> 'a res \<times> 'w \<times> outcome list"

definition returnA :: "'a \<Rightarrow> ('w, 'a) act" where
  "returnA x w os = (Inr x, w, os)"

definition failA :: "go_error \<Rightarrow> ('w, 'a) act" where
  "failA e w os = (Inl e, w, os)"

definition bindA :: "('w, 'a) act \<Rightarrow> ('a \<Rightarrow> ('w, 'b) act) \<Rightarrow> ('w, 'b) act" where
  "bindA m f w os = (case m w os of
     (Inl e, w', os') \<Rightarrow> (Inl e, w', os') | (Inr x, w', os') \<Rightarrow> f x w' os')"

definition wrapA :: "string \<Rightarrow> ('w, 'a) act \<Rightarrow> ('w, 'a) act" where
  "wrapA msg m w os = (case m w os of (r, w', os') \<Rightarrow> (wrapE msg r, w', os'))"

definition liftA :: "'a res \<Rightarrow> ('w, 'a) act" where
  "liftA r w os = (r, w, os)"

text \<open>A call that changes the state, and one that reads it.\<close>

definition api_write :: "('w \<Rightarrow> 'w) \<Rightarrow> ('w, unit) act" where
  "api_write f w os = (case os of
     [] \<Rightarrow> (Inr (), f w, [])
   | Applied # os' \<Rightarrow> (Inr (), f w, os')
   | Rejected # os' \<Rightarrow> (Inl (ApiError ''rejected''), w, os')
   | Lost # os' \<Rightarrow> (Inl (ApiError ''connection lost''), f w, os'))"

definition api_read :: "('w \<Rightarrow> 'a res) \<Rightarrow> ('w, 'a) act" where
  "api_read g w os = (case os of
     [] \<Rightarrow> (g w, w, [])
   | Applied # os' \<Rightarrow> (g w, w, os')
   | _ # os' \<Rightarrow> (Inl (ApiError ''connection lost''), w, os'))"

definition run_result :: "('w, 'a) act \<Rightarrow> 'w \<Rightarrow> outcome list \<Rightarrow> 'a res" where
  "run_result m w os = fst (m w os)"

definition run_world :: "('w, 'a) act \<Rightarrow> 'w \<Rightarrow> outcome list \<Rightarrow> 'w" where
  "run_world m w os = fst (snd (m w os))"

section \<open>Hoare triples\<close>

text \<open>\<open>holds P m Q\<close>: from a state with \<open>P\<close>, whatever the outcomes, the action ends in a state and
  with a result that satisfy \<open>Q\<close>. The rules drive the proofs about reconcilers.\<close>

definition holds :: "('w \<Rightarrow> bool) \<Rightarrow> ('w, 'a) act \<Rightarrow> ('a res \<Rightarrow> 'w \<Rightarrow> bool) \<Rightarrow> bool" where
  "holds P m Q \<longleftrightarrow> (\<forall>w os. P w \<longrightarrow> (case m w os of (r, w', os') \<Rightarrow> Q r w'))"

lemma holdsD: "holds P m Q \<Longrightarrow> P w \<Longrightarrow> Q (run_result m w os) (run_world m w os)"
  by (auto simp: holds_def run_result_def run_world_def case_prod_unfold)

lemma holds_pre: "holds P m Q \<Longrightarrow> (\<And>w. P' w \<Longrightarrow> P w) \<Longrightarrow> holds P' m Q"
  by (auto simp: holds_def)

lemma holds_post: "holds P m Q \<Longrightarrow> (\<And>r w. Q r w \<Longrightarrow> Q' r w) \<Longrightarrow> holds P m Q'"
  by (fastforce simp: holds_def case_prod_unfold)

lemma holds_return: "(\<And>w. P w \<Longrightarrow> Q (Inr x) w) \<Longrightarrow> holds P (returnA x) Q"
  by (simp add: holds_def returnA_def)

lemma holds_fail: "(\<And>w. P w \<Longrightarrow> Q (Inl e) w) \<Longrightarrow> holds P (failA e) Q"
  by (simp add: holds_def failA_def)

lemma holds_lift: "(\<And>w. P w \<Longrightarrow> Q r w) \<Longrightarrow> holds P (liftA r) Q"
  by (simp add: holds_def liftA_def)

lemma holds_bind:
  assumes "holds P m R" "\<And>e w. R (Inl e) w \<Longrightarrow> Q (Inl e) w" "\<And>x. holds (R (Inr x)) (f x) Q"
  shows "holds P (bindA m f) Q"
  unfolding holds_def
proof (intro allI impI)
  fix w os
  assume "P w"
  obtain r w' os' where m: "m w os = (r, w', os')" by (cases "m w os") auto
  have R: "R r w'"
    using assms(1) [unfolded holds_def, rule_format, OF \<open>P w\<close>, of os] m by simp
  show "case bindA m f w os of (r, w', os') \<Rightarrow> Q r w'"
  proof (cases r)
    case (Inl e)
    then show ?thesis using R assms(2) m by (simp add: bindA_def)
  next
    case (Inr x)
    then show ?thesis using R assms(3) [of x] m by (simp add: bindA_def holds_def)
  qed
qed

lemma holds_wrap:
  assumes "holds P m (\<lambda>r. Q (wrapE msg r))"
  shows "holds P (wrapA msg m) Q"
  using assms by (fastforce simp: holds_def wrapA_def case_prod_unfold)

lemma holds_write:
  assumes "\<And>w. P w \<Longrightarrow> Q (Inr ()) (f w)" "\<And>w. P w \<Longrightarrow> Q (Inl (ApiError ''connection lost'')) (f w)"
    "\<And>w. P w \<Longrightarrow> Q (Inl (ApiError ''rejected'')) w"
  shows "holds P (api_write f) Q"
  using assms by (auto simp: holds_def api_write_def split: list.splits outcome.splits)

lemma holds_read:
  assumes "\<And>w. P w \<Longrightarrow> Q (g w) w" "\<And>w. P w \<Longrightarrow> Q (Inl (ApiError ''connection lost'')) w"
  shows "holds P (api_read g) Q"
  using assms by (auto simp: holds_def api_read_def split: list.splits outcome.splits)

section \<open>Runs without failures\<close>

lemma run_ok_simps [simp]:
  "returnA x w [] = (Inr x, w, [])" "failA e w [] = (Inl e, w, [])" "liftA r w [] = (r, w, [])"
  "api_write f w [] = (Inr (), f w, [])" "api_read g w [] = (g w, w, [])"
  by (simp_all add: returnA_def failA_def liftA_def api_write_def api_read_def)

end
