(* ===== verification/Kcp_Client.thy ===== *)
theory Kcp_Client
  imports Resource_Names
begin

text \<open>
  \<open>pkg/client\<close>: how the operator reaches the kcp instances it manages. The result of a client
  constructor is the configuration handed to the REST library: the host (base URL and request
  path of the logical cluster), the TLS server name and the client credentials.

  \<open>get_*\<close> read an object of a namespace from the API server; \<open>requestPath\<close> is the \<open>RequestPath\<close> of
  a logical cluster path. A missing root shard reference is dereferenced and panics.
\<close>

record Endpoint =
  ep_URL :: string
  ep_ServerName :: string

record Addresser =
  ad_RootShard :: "RootShard \<Rightarrow> Endpoint"
  ad_RootShardProxy :: "RootShard \<Rightarrow> Endpoint"
  ad_Shard :: "Shard \<Rightarrow> Endpoint"

definition InCluster_RootShard :: "RootShard \<Rightarrow> Endpoint" where
  "InCluster_RootShard r = \<lparr>ep_URL = GetRootShardBaseURL r, ep_ServerName = []\<rparr>"

definition InCluster_RootShardProxy :: "RootShard \<Rightarrow> Endpoint" where
  "InCluster_RootShardProxy r = \<lparr>ep_URL = GetRootShardProxyBaseURL r, ep_ServerName = []\<rparr>"

definition InCluster_Shard :: "Shard \<Rightarrow> Endpoint" where
  "InCluster_Shard s = \<lparr>ep_URL = GetShardBaseURL s, ep_ServerName = []\<rparr>"

definition InCluster :: Addresser where
  "InCluster = \<lparr>ad_RootShard = InCluster_RootShard, ad_RootShardProxy = InCluster_RootShardProxy,
     ad_Shard = InCluster_Shard\<rparr>"

record rest_config =
  rc_Host :: string
  rc_ServerName :: string
  rc_CAData :: string
  rc_CertData :: string
  rc_KeyData :: string

record cluster_reader =
  get_RootShard :: "string \<Rightarrow> string \<Rightarrow> RootShard res"
  get_Shard :: "string \<Rightarrow> string \<Rightarrow> Shard res"
  get_FrontProxy :: "string \<Rightarrow> string \<Rightarrow> FrontProxy res"
  get_Secret :: "string \<Rightarrow> string \<Rightarrow> Secret res"

definition data_of :: "Secret \<Rightarrow> string \<Rightarrow> string" where
  "data_of s k = (case mget (sec_Data s) k of None \<Rightarrow> [] | Some v \<Rightarrow> v)"

definition getTLSConfig :: "cluster_reader \<Rightarrow> RootShard \<Rightarrow> (string \<times> string \<times> string) res" where
  "getTLSConfig c r =
     bindE (wrapE ''failed to get root shard proxy Secret''
        (get_Secret c (om_Namespace (rsh_Meta r)) (GetRootShardCertificateName r OperatorCertificate))) (\<lambda>s.
     Inr (data_of s ''ca.crt'', data_of s ''tls.crt'', data_of s ''tls.key''))"

definition newClient ::
    "(string \<Rightarrow> string) \<Rightarrow> cluster_reader \<Rightarrow> Endpoint \<Rightarrow> string \<Rightarrow> RootShard \<Rightarrow> rest_config res" where
  "newClient requestPath c endpoint cluster r =
     bindE (wrapE ''failed to determine TLS settings'' (getTLSConfig c r)) (\<lambda>(ca, crt, key).
     Inr \<lparr>rc_Host = ep_URL endpoint @ (if cluster = [] then [] else requestPath cluster),
       rc_ServerName = ep_ServerName endpoint, rc_CAData = ca, rc_CertData = crt, rc_KeyData = key\<rparr>)"

definition NewRootShardClient ::
    "(string \<Rightarrow> string) \<Rightarrow> cluster_reader \<Rightarrow> Addresser \<Rightarrow> RootShard \<Rightarrow> string \<Rightarrow> rest_config res" where
  "NewRootShardClient requestPath c addr r cluster = newClient requestPath c (ad_RootShard addr r) cluster r"

definition NewRootShardProxyClient ::
    "(string \<Rightarrow> string) \<Rightarrow> cluster_reader \<Rightarrow> Addresser \<Rightarrow> RootShard \<Rightarrow> string \<Rightarrow> rest_config res" where
  "NewRootShardProxyClient requestPath c addr r cluster =
     newClient requestPath c (ad_RootShardProxy addr r) cluster r"

definition nil_deref :: go_error where
  "nil_deref = Panic ''invalid memory address or nil pointer dereference''"

definition getRootShardForShard :: "cluster_reader \<Rightarrow> Shard \<Rightarrow> RootShard res" where
  "getRootShardForShard c s = (case rsc_Reference (ss_RootShard (sh_Spec s)) of
     None \<Rightarrow> Inl nil_deref
   | Some ref \<Rightarrow> wrapE ''failed to get RootShard'' (get_RootShard c (om_Namespace (sh_Meta s)) (lor_Name ref)))"

definition NewShardClient ::
    "(string \<Rightarrow> string) \<Rightarrow> cluster_reader \<Rightarrow> Addresser \<Rightarrow> Shard \<Rightarrow> string \<Rightarrow> rest_config res" where
  "NewShardClient requestPath c addr s cluster =
     bindE (wrapE ''failed to determine effective RootShard'' (getRootShardForShard c s)) (\<lambda>r.
     newClient requestPath c (ad_Shard addr s) cluster r)"

definition NewInternalKubeconfigClient ::
    "(string \<Rightarrow> string) \<Rightarrow> cluster_reader \<Rightarrow> Addresser \<Rightarrow> Kubeconfig \<Rightarrow> string \<Rightarrow> rest_config res" where
  "NewInternalKubeconfigClient requestPath c addr k cluster =
     (let target = ks_Target (kc_Spec k); ns = om_Namespace (kc_Meta k) in
      case kt_RootShardRef target of
        Some ref \<Rightarrow>
          bindE (wrapE ''failed to get RootShard'' (get_RootShard c ns (lor_Name ref))) (\<lambda>r.
          NewRootShardClient requestPath c addr r cluster)
      | None \<Rightarrow> (case kt_ShardRef target of
          Some ref \<Rightarrow>
            bindE (wrapE ''failed to get Shard'' (get_Shard c ns (lor_Name ref))) (\<lambda>s.
            NewShardClient requestPath c addr s cluster)
        | None \<Rightarrow> (case kt_FrontProxyRef target of
            Some ref \<Rightarrow>
              bindE (wrapE ''failed to get FrontProxy'' (get_FrontProxy c ns (lor_Name ref))) (\<lambda>f.
              case rsc_Reference (fp_RootShard (fpx_Spec f)) of
                None \<Rightarrow> Inl nil_deref
              | Some rref \<Rightarrow>
                  bindE (wrapE ''failed to get RootShard'' (get_RootShard c ns (lor_Name rref))) (\<lambda>r.
                  NewRootShardProxyClient requestPath c addr r cluster))
          | None \<Rightarrow> Inl (Plain ''no valid target configured in Kubeconfig: neither rootShard, shard nor frontProxy ref set''))))"

text \<open>A client depends on the kubeconfig through its target and namespace only.\<close>

lemma NewInternalKubeconfigClient_cong:
  assumes "ks_Target (kc_Spec k) = ks_Target (kc_Spec k')" "om_Namespace (kc_Meta k) = om_Namespace (kc_Meta k')"
  shows "NewInternalKubeconfigClient requestPath c addr k cluster
       = NewInternalKubeconfigClient requestPath c addr k' cluster"
  using assms by (simp add: NewInternalKubeconfigClient_def)

end
