(* ===== verification/Kubeconfig_Rbac.thy ===== *)
theory Kubeconfig_Rbac
  imports Api_Actions Kcp_Client Pki_Kubeconfig
begin

text \<open>
  \<open>pkg/controller/kubeconfig-rbac\<close>: the controller that provisions cluster role bindings inside
  kcp for a Kubeconfig object and removes them again, guarded by a finalizer and the status
  field \<open>provisionedCluster\<close>.

  The world is the Kubeconfig on the API server (\<open>None\<close> once it is gone) and the bindings in
  every logical cluster; \<open>store\<close> says which logical cluster a client's host serves. The API server
  removes an object marked for deletion when its last finalizer goes. The reconciling library's
  \<open>ReconcileClusterRoleBindings\<close> ensures one binding per call: the stored object becomes the
  reconciler's result on it (or on a fresh one with the name).
\<close>

section \<open>The world\<close>

type_synonym bindings = "(string, ClusterRoleBinding) fmap"

record 's rbac_world =
  w_kc :: "Kubeconfig option"
  w_remote :: "'s \<Rightarrow> bindings"

definition cleanupFinalizer :: string where
  "cleanupFinalizer = ''operator.kcp.io/cleanup-rbac''"

text \<open>The parameters of the controller: the reads of other objects, the address of the components,
  the request path of a logical cluster, and the store behind a host.\<close>

record 's rbac_env =
  ev_reader :: cluster_reader
  ev_address :: Addresser
  ev_requestPath :: "string \<Rightarrow> string"
  ev_store :: "string \<Rightarrow> 's"

definition gc :: "'s rbac_world \<Rightarrow> 's rbac_world" where
  "gc w = (case w_kc w of None \<Rightarrow> w
     | Some k \<Rightarrow> if om_DeletionTimestamp (kc_Meta k) \<noteq> None \<and> om_Finalizers (kc_Meta k) = []
         then w\<lparr>w_kc := None\<rparr> else w)"

definition patch_finalizers :: "string list \<Rightarrow> 's rbac_world \<Rightarrow> 's rbac_world" where
  "patch_finalizers fs w = gc (w\<lparr>w_kc :=
     map_option (\<lambda>k. k\<lparr>kc_Meta := (kc_Meta k)\<lparr>om_Finalizers := fs\<rparr>\<rparr>) (w_kc w)\<rparr>)"

definition patch_authorization :: "string \<Rightarrow> 's rbac_world \<Rightarrow> 's rbac_world" where
  "patch_authorization c w = w\<lparr>w_kc := map_option (\<lambda>k. k\<lparr>kc_Status := (kc_Status k)\<lparr>kst_Authorization :=
     Some \<lparr>kas_ProvisionedCluster = c\<rparr>\<rparr>\<rparr>) (w_kc w)\<rparr>"

definition delete_binding :: "'s \<Rightarrow> string \<Rightarrow> 's rbac_world \<Rightarrow> 's rbac_world" where
  "delete_binding s name w = w\<lparr>w_remote := (w_remote w)(s := fmdrop name (w_remote w s))\<rparr>"

definition ClusterRoleBinding_zero :: "string \<Rightarrow> ClusterRoleBinding" where
  "ClusterRoleBinding_zero name = \<lparr>crb_Meta = ObjectMeta_zero\<lparr>om_Name := name\<rparr>, crb_Subjects = [],
     crb_RoleRefAPIGroup = [], crb_RoleRefKind = [], crb_RoleRefName = []\<rparr>"

definition ensure_binding ::
    "'s \<Rightarrow> string \<times> (ClusterRoleBinding \<Rightarrow> ClusterRoleBinding) \<Rightarrow> 's rbac_world \<Rightarrow> 's rbac_world" where
  "ensure_binding s rec w = w\<lparr>w_remote := (w_remote w)(s := fmupd (fst rec)
     (snd rec (case fmlookup (w_remote w s) (fst rec) of
        None \<Rightarrow> ClusterRoleBinding_zero (fst rec) | Some old \<Rightarrow> old)) (w_remote w s))\<rparr>"

definition owned_by :: "Kubeconfig \<Rightarrow> ClusterRoleBinding \<Rightarrow> bool" where
  "owned_by k crb \<longleftrightarrow> list_all (\<lambda>(l, v). mget (om_Labels (crb_Meta crb)) l = Some v) (OwnerLabels k)"

text \<open>\<open>List\<close> with the owner labels.\<close>

definition list_owned :: "'s \<Rightarrow> Kubeconfig \<Rightarrow> 's rbac_world \<Rightarrow> (string \<times> ClusterRoleBinding) list" where
  "list_owned s k w = filter (\<lambda>(n, crb). owned_by k crb) (sorted_list_of_fmap (w_remote w s))"

section \<open>The controller\<close>

definition has_cleanup :: "Kubeconfig \<Rightarrow> bool" where
  "has_cleanup k \<longleftrightarrow> cleanupFinalizer \<in> set (om_Finalizers (kc_Meta k))"

definition rbac_ensureFinalizer :: "Kubeconfig \<Rightarrow> ('s rbac_world, bool) act" where
  "rbac_ensureFinalizer k =
     (if has_cleanup k then returnA False
      else bindA (api_write (patch_finalizers (sets_List (om_Finalizers (kc_Meta k)) [cleanupFinalizer])))
             (\<lambda>_. returnA True))"

definition rbac_removeFinalizer :: "Kubeconfig \<Rightarrow> ('s rbac_world, unit) act" where
  "rbac_removeFinalizer k =
     (if \<not> has_cleanup k then returnA ()
      else api_write (patch_finalizers
             (sets_List (filter (\<lambda>f. f \<noteq> cleanupFinalizer) (om_Finalizers (kc_Meta k))) [])))"

definition patchProvisionedCluster :: "Kubeconfig \<Rightarrow> string \<Rightarrow> ('s rbac_world, bool) act" where
  "patchProvisionedCluster k newValue =
     (if kst_Authorization (kc_Status k) = Some \<lparr>kas_ProvisionedCluster = newValue\<rparr> then returnA False
      else bindA (api_write (patch_authorization newValue)) (\<lambda>_. returnA True))"

text \<open>Creating a client reads the target's objects and yields the store of its host.\<close>

definition target_store :: "'s rbac_env \<Rightarrow> Kubeconfig \<Rightarrow> string \<Rightarrow> 's res" where
  "target_store env k cluster =
     bindE (NewInternalKubeconfigClient (ev_requestPath env) (ev_reader env) (ev_address env) k cluster)
       (\<lambda>cfg. Inr (ev_store env (rc_Host cfg)))"

definition target_client :: "'s rbac_env \<Rightarrow> Kubeconfig \<Rightarrow> string \<Rightarrow> ('s rbac_world, 's) act" where
  "target_client env k cluster =
     wrapA ''failed to create client to kubeconfig target'' (api_read (\<lambda>_. target_store env k cluster))"

fun delete_all :: "string \<Rightarrow> 's \<Rightarrow> string list \<Rightarrow> ('s rbac_world, unit) act" where
  "delete_all msg s [] = returnA ()"
| "delete_all msg s (n # ns) =
     bindA (wrapA (msg @ n) (api_write (delete_binding s n))) (\<lambda>_. delete_all msg s ns)"

fun ensure_all :: "'s \<Rightarrow> (string \<times> (ClusterRoleBinding \<Rightarrow> ClusterRoleBinding)) list \<Rightarrow> ('s rbac_world, unit) act"
  where
  "ensure_all s [] = returnA ()"
| "ensure_all s (r # rs) =
     bindA (wrapA ''failed to ensure ClusterRoleBinding'' (api_write (ensure_binding s r))) (\<lambda>_. ensure_all s rs)"

definition unprovisionCluster :: "'s rbac_env \<Rightarrow> Kubeconfig \<Rightarrow> ('s rbac_world, unit) act" where
  "unprovisionCluster env k = (case kst_Authorization (kc_Status k) of
     None \<Rightarrow> failA nil_deref
   | Some auth \<Rightarrow>
       if kas_ProvisionedCluster auth = [] then returnA ()
       else bindA (target_client env k (kas_ProvisionedCluster auth)) (\<lambda>s.
            bindA (wrapA ''failed to list existing ClusterRoleBindings''
              (api_read (\<lambda>w. Inr (map fst (list_owned s k w))))) (\<lambda>names.
            bindA (delete_all ''failed to delete ClusterRoleBinding '' s names) (\<lambda>_.
            bindA (wrapA ''failed to finish unprovisioning'' (patchProvisionedCluster k [])) (\<lambda>_.
            returnA ())))))"

definition desiredBindings :: "Kubeconfig \<Rightarrow> string list" where
  "desiredBindings k = (case ks_Authorization (kc_Spec k) of None \<Rightarrow> []
     | Some a \<Rightarrow> sets_List (kcrb_ClusterRoles (ka_ClusterRoleBindings a)) [])"

definition binding_subject :: "Kubeconfig \<Rightarrow> RBACSubject" where
  "binding_subject k = \<lparr>su_APIGroup = ''rbac.authorization.k8s.io'', su_Kind = ''Group'',
     su_Name = KubeconfigGroup k\<rparr>"

definition reconcileBindings :: "'s rbac_env \<Rightarrow> Kubeconfig \<Rightarrow> ('s rbac_world, unit) act" where
  "reconcileBindings env k =
     bindA (target_client env k (GetRBACTargetWorkspace k)) (\<lambda>s.
     bindA (wrapA ''failed to list existing ClusterRoleBindings''
       (api_read (\<lambda>w. Inr (list_owned s k w)))) (\<lambda>crbs.
     bindA (delete_all ''failed to delete overhanging ClusterRoleBinding '' s
       (map fst (filter (\<lambda>(n, crb). crb_RoleRefName crb \<notin> set (desiredBindings k)) crbs))) (\<lambda>_.
     wrapA ''failed to ensure ClusterRoleBindings''
       (ensure_all s (map (\<lambda>role. ClusterRoleBindingReconciler k role (binding_subject k))
          (desiredBindings k))))))"

definition rbac_handleDeletion :: "'s rbac_env \<Rightarrow> Kubeconfig \<Rightarrow> ('s rbac_world, unit) act" where
  "rbac_handleDeletion env k =
     (if \<not> has_cleanup k then returnA ()
      else bindA (unprovisionCluster env k) (\<lambda>_.
           wrapA ''failed to remove cleanup finalizer'' (rbac_removeFinalizer k)))"

definition rbac_reconcile :: "'s rbac_env \<Rightarrow> Kubeconfig \<Rightarrow> ('s rbac_world, unit) act" where
  "rbac_reconcile env k =
     (if om_DeletionTimestamp (kc_Meta k) \<noteq> None then rbac_handleDeletion env k
      else
       let oldCluster = (case kst_Authorization (kc_Status k) of None \<Rightarrow> []
             | Some auth \<Rightarrow> kas_ProvisionedCluster auth);
           newCluster = (if ks_Authorization (kc_Spec k) \<noteq> None then GetRBACTargetWorkspace k else []) in
       if oldCluster \<noteq> [] \<and> newCluster \<noteq> oldCluster then unprovisionCluster env k
       else if newCluster = [] then wrapA ''failed to remove cleanup finalizer'' (rbac_removeFinalizer k)
       else bindA (wrapA ''failed to ensure cleanup finalizer'' (rbac_ensureFinalizer k)) (\<lambda>updated.
         if updated then returnA ()
         else bindA (wrapA ''failed to update status'' (patchProvisionedCluster k newCluster)) (\<lambda>updated.
           if updated then returnA ()
           else wrapA ''failed to ensure ClusterRoleBindings'' (reconcileBindings env k))))"

text \<open>\<open>Reconcile\<close> reads the object first; a missing one is no error.\<close>

definition rbac_Reconcile :: "'s rbac_env \<Rightarrow> ('s rbac_world, unit) act" where
  "rbac_Reconcile env = bindA (api_read (\<lambda>w. Inr (w_kc w))) (\<lambda>config.
     case config of None \<Rightarrow> returnA () | Some k \<Rightarrow> rbac_reconcile env k)"

end
