(* ===== verification/Kubeconfig_Rbac_Props.thy ===== *)
theory Kubeconfig_Rbac_Props
  imports Kubeconfig_Rbac Sample_Objects
begin

text \<open>
  The life of a Kubeconfig with role bindings: a step relation of the controller (with any API
  failures), the user, the API server and other controllers, and the invariant that keeps
  bindings from leaking: wherever a binding of the object exists, the object exists too, carries
  the cleanup finalizer and remembers the logical cluster the binding is in. Then what the
  invariant does not cover, and the runs without failures.
\<close>

section \<open>The invariant\<close>

definition owned_uid :: "string \<Rightarrow> ClusterRoleBinding \<Rightarrow> bool" where
  "owned_uid uid crb \<longleftrightarrow> mget (om_Labels (crb_Meta crb)) ''operator.kcp.io/kubeconfig'' = Some uid"

lemma owned_by_uid [simp]: "owned_by k crb \<longleftrightarrow> owned_uid (om_UID (kc_Meta k)) crb"
  by (simp add: owned_by_def OwnerLabels_def owned_uid_def)

definition owned_at :: "string \<Rightarrow> 's rbac_world \<Rightarrow> 's \<Rightarrow> string set" where
  "owned_at uid w s = {n. \<exists>crb. fmlookup (w_remote w s) n = Some crb \<and> owned_uid uid crb}"

definition remembers :: "'s rbac_env \<Rightarrow> Kubeconfig \<Rightarrow> 's \<Rightarrow> bool" where
  "remembers env k s \<longleftrightarrow> has_cleanup k
     \<and> (\<exists>c. kst_Authorization (kc_Status k) = Some \<lparr>kas_ProvisionedCluster = c\<rparr>
          \<and> c \<noteq> [] \<and> target_store env k c = Inr s)"

definition same_identity :: "Kubeconfig \<Rightarrow> Kubeconfig \<Rightarrow> bool" where
  "same_identity k0 k \<longleftrightarrow> om_UID (kc_Meta k) = om_UID (kc_Meta k0)
     \<and> om_Namespace (kc_Meta k) = om_Namespace (kc_Meta k0)"

definition rbac_inv :: "'s rbac_env \<Rightarrow> Kubeconfig \<Rightarrow> 's rbac_world \<Rightarrow> bool" where
  "rbac_inv env k0 w \<longleftrightarrow>
     (\<forall>k. w_kc w = Some k \<longrightarrow> same_identity k0 k)
     \<and> (\<forall>s. owned_at (om_UID (kc_Meta k0)) w s \<noteq> {} \<longrightarrow>
          (\<exists>k. w_kc w = Some k \<and> remembers env k s))"

lemma target_store_cong:
  "ks_Target (kc_Spec k) = ks_Target (kc_Spec k') \<Longrightarrow> om_Namespace (kc_Meta k) = om_Namespace (kc_Meta k')
     \<Longrightarrow> target_store env k c = target_store env k' c"
  unfolding target_store_def by (metis NewInternalKubeconfigClient_cong)

lemma remembers_unique: "remembers env k s \<Longrightarrow> remembers env k s' \<Longrightarrow> s = s'"
  by (auto simp: remembers_def)

text \<open>The invariant only gets easier when bindings go, and holds trivially without any.\<close>

lemma rbac_inv_fewer:
  assumes "rbac_inv env k0 w" "w_kc w' = w_kc w"
    "\<And>s. owned_at (om_UID (kc_Meta k0)) w' s \<subseteq> owned_at (om_UID (kc_Meta k0)) w s"
  shows "rbac_inv env k0 w'"
  using assms unfolding rbac_inv_def by (metis subset_empty)

lemma rbac_inv_none:
  assumes "\<And>k. w_kc w = Some k \<Longrightarrow> same_identity k0 k"
    "\<And>s. owned_at (om_UID (kc_Meta k0)) w s = {}"
  shows "rbac_inv env k0 w"
  using assms by (auto simp: rbac_inv_def)

lemma owned_at_kc [simp]: "owned_at uid (w\<lparr>w_kc := x\<rparr>) s = owned_at uid w s"
  by (simp add: owned_at_def)

lemma gc_simps [simp]: "w_remote (gc w) = w_remote w" "owned_at uid (gc w) s = owned_at uid w s"
  by (auto simp: gc_def owned_at_def split: option.splits)

lemma gc_kc: "w_kc (gc w) = Some k \<Longrightarrow> w_kc w = Some k"
  by (auto simp: gc_def split: option.splits if_splits)

lemma patch_simps [simp]:
  "owned_at uid (patch_finalizers fs w) s = owned_at uid w s"
  "owned_at uid (patch_authorization c w) s = owned_at uid w s"
  by (simp_all add: patch_finalizers_def patch_authorization_def owned_at_def)

lemma patch_finalizers_kc:
  "w_kc (patch_finalizers fs w) = Some k \<Longrightarrow>
     \<exists>k'. w_kc w = Some k' \<and> k = k'\<lparr>kc_Meta := (kc_Meta k')\<lparr>om_Finalizers := fs\<rparr>\<rparr>"
  by (auto simp: patch_finalizers_def dest!: gc_kc)

lemma patch_identity:
  assumes "\<And>k. w_kc w = Some k \<Longrightarrow> same_identity k0 k"
  shows "w_kc (patch_finalizers fs w) = Some k \<Longrightarrow> same_identity k0 k"
    "w_kc (patch_authorization c w) = Some k' \<Longrightarrow> same_identity k0 k'"
  using assms by (auto simp: same_identity_def patch_authorization_def dest!: patch_finalizers_kc)

lemma owned_delete [simp]:
  "owned_at uid (delete_binding s n w) s' = (if s' = s then owned_at uid w s - {n} else owned_at uid w s')"
  by (auto simp: owned_at_def delete_binding_def)

lemma delete_kc [simp]: "w_kc (delete_binding s n w) = w_kc w"
  by (simp add: delete_binding_def)

lemma list_owned_names:
  "set (map fst (list_owned s k w)) = owned_at (om_UID (kc_Meta k)) w s"
proof -
  have "(n, crb) \<in> set (sorted_list_of_fmap m) \<longleftrightarrow> fmlookup m n = Some crb" for n crb and m :: bindings
    by (auto simp: sorted_list_of_fmap_def fmlookup_dom_iff)
  then show ?thesis by (force simp: list_owned_def owned_at_def)
qed

section \<open>The controller preserves it\<close>

lemma delete_all_holds:
  "holds (\<lambda>w. w_kc w = Some k \<and> rbac_inv env k0 w \<and> owned_at (om_UID (kc_Meta k0)) w s \<subseteq> X \<union> set ns)
     (delete_all msg s ns)
     (\<lambda>r w. w_kc w = Some k \<and> rbac_inv env k0 w
        \<and> (r = Inr () \<longrightarrow> owned_at (om_UID (kc_Meta k0)) w s \<subseteq> X))"
proof (induction ns)
  case Nil
  then show ?case by (auto intro!: holds_return)
next
  case (Cons n ns)
  have del: "rbac_inv env k0 (delete_binding s n w)" if "rbac_inv env k0 w" for w
    using that by (rule rbac_inv_fewer) auto
  show ?case
    unfolding delete_all.simps
  proof (rule holds_bind [where R = "\<lambda>r w. w_kc w = Some k \<and> rbac_inv env k0 w
      \<and> (r = Inr () \<longrightarrow> owned_at (om_UID (kc_Meta k0)) w s \<subseteq> X \<union> set ns)"])
    show "holds (\<lambda>w. w_kc w = Some k \<and> rbac_inv env k0 w
          \<and> owned_at (om_UID (kc_Meta k0)) w s \<subseteq> X \<union> set (n # ns))
        (wrapA (msg @ n) (api_write (delete_binding s n)))
        (\<lambda>r w. w_kc w = Some k \<and> rbac_inv env k0 w
          \<and> (r = Inr () \<longrightarrow> owned_at (om_UID (kc_Meta k0)) w s \<subseteq> X \<union> set ns))"
      by (rule holds_wrap, rule holds_write) (auto intro: del)
    show "holds (\<lambda>w. w_kc w = Some k \<and> rbac_inv env k0 w
        \<and> (Inr x = Inr () \<longrightarrow> owned_at (om_UID (kc_Meta k0)) w s \<subseteq> X \<union> set ns)) (delete_all msg s ns)
        (\<lambda>r w. w_kc w = Some k \<and> rbac_inv env k0 w
          \<and> (r = Inr () \<longrightarrow> owned_at (om_UID (kc_Meta k0)) w s \<subseteq> X))" for x :: unit
      by (rule holds_pre [OF Cons]) simp
  qed simp
qed

text \<open>With no binding left anywhere, the status and the finalizers can change freely.\<close>

definition no_bindings :: "Kubeconfig \<Rightarrow> 's rbac_world \<Rightarrow> bool" where
  "no_bindings k0 w \<longleftrightarrow> (\<forall>s. owned_at (om_UID (kc_Meta k0)) w s = {})"

lemma clean_patch:
  assumes "rbac_inv env k0 w" "no_bindings k0 w"
  shows "rbac_inv env k0 (patch_finalizers fs w)" "rbac_inv env k0 (patch_authorization c w)"
    "no_bindings k0 (patch_finalizers fs w)" "no_bindings k0 (patch_authorization c w)"
proof -
  have id: "\<And>k. w_kc w = Some k \<Longrightarrow> same_identity k0 k" using assms(1) by (simp add: rbac_inv_def)
  show "rbac_inv env k0 (patch_finalizers fs w)"
    using assms(2) by (intro rbac_inv_none patch_identity(1) [OF id]) (auto simp: no_bindings_def)
  show "rbac_inv env k0 (patch_authorization c w)"
    using assms(2) by (intro rbac_inv_none patch_identity(2) [OF id]) (auto simp: no_bindings_def)
  show "no_bindings k0 (patch_finalizers fs w)" "no_bindings k0 (patch_authorization c w)"
    using assms(2) by (simp_all add: no_bindings_def)
qed

lemma clean_patchProvisionedCluster:
  "holds (\<lambda>w. rbac_inv env k0 w \<and> no_bindings k0 w) (patchProvisionedCluster k c)
     (\<lambda>r w. rbac_inv env k0 w \<and> no_bindings k0 w)"
  unfolding patchProvisionedCluster_def
  by (auto intro!: holds_return holds_bind [where R = "\<lambda>r w. rbac_inv env k0 w \<and> no_bindings k0 w"]
      holds_write simp: clean_patch)

lemma clean_removeFinalizer:
  "holds (\<lambda>w. rbac_inv env k0 w \<and> no_bindings k0 w) (rbac_removeFinalizer k)
     (\<lambda>r w. rbac_inv env k0 w \<and> no_bindings k0 w)"
  unfolding rbac_removeFinalizer_def by (auto intro!: holds_return holds_write simp: clean_patch)

text \<open>After unprovisioning without an error nothing is left anywhere. First the part after the
  client exists, which lists the bindings, deletes them and clears the status.\<close>

lemma target_client_holds:
  "holds P (target_client env k c) (\<lambda>r w. P w \<and> (\<forall>s. r = Inr s \<longrightarrow> target_store env k c = Inr s))"
  unfolding target_client_def by (rule holds_wrap, rule holds_read) simp_all

lemma list_names_holds:
  "holds P (wrapA msg (api_read (\<lambda>w. Inr (map fst (list_owned s k w)))))
     (\<lambda>r w. P w \<and> (\<forall>ns. r = Inr ns \<longrightarrow> set ns = owned_at (om_UID (kc_Meta k)) w s))"
  by (rule holds_wrap, rule holds_read) (simp_all add: list_owned_names del: set_map)

lemma other_stores_empty:
  assumes "rbac_inv env k0 w" "w_kc w = Some k" "owned_at (om_UID (kc_Meta k0)) w s = {}"
    "kst_Authorization (kc_Status k) = Some auth" "target_store env k (kas_ProvisionedCluster auth) = Inr s"
  shows "no_bindings k0 w"
  unfolding no_bindings_def
proof
  fix s'
  show "owned_at (om_UID (kc_Meta k0)) w s' = {}"
  proof (rule ccontr)
    assume "owned_at (om_UID (kc_Meta k0)) w s' \<noteq> {}"
    then have "remembers env k s'" using assms(1,2) by (auto simp: rbac_inv_def)
    then have "s' = s" using assms(4,5) by (cases auth) (auto simp: remembers_def)
    then show False using assms(3) \<open>owned_at _ w s' \<noteq> {}\<close> by simp
  qed
qed

lemma unprovision_tail:
  fixes env :: "'s rbac_env"
  assumes "kst_Authorization (kc_Status k) = Some auth"
    "target_store env k (kas_ProvisionedCluster auth) = Inr s" "om_UID (kc_Meta k) = om_UID (kc_Meta k0)"
  shows "holds (\<lambda>w. w_kc w = Some k \<and> rbac_inv env k0 w)
     (bindA (wrapA m1 (api_read (\<lambda>w. Inr (map fst (list_owned s k w))))) (\<lambda>names.
      bindA (delete_all m2 s names) (\<lambda>_.
      bindA (wrapA m3 (patchProvisionedCluster k [])) (\<lambda>_. returnA ()))))
     (\<lambda>r w. rbac_inv env k0 w \<and> (r = Inr () \<longrightarrow> no_bindings k0 w))"
proof (rule holds_bind, rule list_names_holds)
  let ?I = "\<lambda>w. w_kc w = Some k \<and> rbac_inv env k0 w"
  let ?Q = "\<lambda>r w. rbac_inv env k0 w \<and> (r = Inr () \<longrightarrow> no_bindings k0 w)"
  have patch: "holds (\<lambda>w. ?I w \<and> owned_at (om_UID (kc_Meta k0)) w s \<subseteq> {})
      (bindA (wrapA m3 (patchProvisionedCluster k [])) (\<lambda>_. returnA ())) ?Q"
    by (rule holds_pre [where P = "\<lambda>w. rbac_inv env k0 w \<and> no_bindings k0 w"],
        rule holds_bind [where R = "\<lambda>r w. rbac_inv env k0 w \<and> no_bindings k0 w"])
      (auto intro!: holds_wrap clean_patchProvisionedCluster holds_return
        intro: other_stores_empty [OF _ _ _ assms(1,2)])
  show "holds (\<lambda>w. ?I w \<and> (\<forall>ns. Inr x = Inr ns \<longrightarrow> set ns = owned_at (om_UID (kc_Meta k)) w s))
      (bindA (delete_all m2 s x) (\<lambda>_. bindA (wrapA m3 (patchProvisionedCluster k [])) (\<lambda>_. returnA ()))) ?Q"
    for x :: "string list"
  proof (rule holds_pre, rule holds_bind)
    show "holds (\<lambda>w. w_kc w = Some k \<and> rbac_inv env k0 w
           \<and> owned_at (om_UID (kc_Meta k0)) w s \<subseteq> {} \<union> set x) (delete_all m2 s x)
        (\<lambda>r w. w_kc w = Some k \<and> rbac_inv env k0 w
           \<and> (r = Inr () \<longrightarrow> owned_at (om_UID (kc_Meta k0)) w s \<subseteq> {}))"
      by (rule delete_all_holds)
    show "holds (\<lambda>w. w_kc w = Some k \<and> rbac_inv env k0 w
           \<and> (Inr y = Inr () \<longrightarrow> owned_at (om_UID (kc_Meta k0)) w s \<subseteq> {}))
        (bindA (wrapA m3 (patchProvisionedCluster k [])) (\<lambda>_. returnA ())) ?Q" for y :: unit
      by (rule holds_pre [OF patch]) simp
  qed (use assms(3) in auto)
qed simp

lemma unprovision_holds:
  "holds (\<lambda>w. w_kc w = Some k \<and> rbac_inv env k0 w) (unprovisionCluster env k)
     (\<lambda>r w. rbac_inv env k0 w \<and> (r = Inr () \<longrightarrow> no_bindings k0 w))"
proof (cases "kst_Authorization (kc_Status k)")
  case None
  then show ?thesis by (auto simp: unprovisionCluster_def intro!: holds_fail)
next
  case (Some auth)
  let ?I = "\<lambda>w. w_kc w = Some k \<and> rbac_inv env k0 w"
  have empty: "no_bindings k0 w" if "?I w" "kas_ProvisionedCluster auth = []" for w
    using that Some unfolding no_bindings_def rbac_inv_def remembers_def by force
  have tail: "holds (\<lambda>w. ?I w \<and> (\<forall>s'. Inr s = Inr s' \<longrightarrow>
        target_store env k (kas_ProvisionedCluster auth) = Inr s'))
      (bindA (wrapA m1 (api_read (\<lambda>w. Inr (map fst (list_owned s k w))))) (\<lambda>names.
       bindA (delete_all m2 s names) (\<lambda>_.
       bindA (wrapA m3 (patchProvisionedCluster k [])) (\<lambda>_. returnA ()))))
     (\<lambda>r w. rbac_inv env k0 w \<and> (r = Inr () \<longrightarrow> no_bindings k0 w))" for s m1 m2 m3
  proof (cases "target_store env k (kas_ProvisionedCluster auth) = Inr s
      \<and> om_UID (kc_Meta k) = om_UID (kc_Meta k0)")
    case True
    then show ?thesis by (intro holds_pre [OF unprovision_tail [OF Some]]) auto
  next
    case False
    then show ?thesis by (auto simp: holds_def rbac_inv_def same_identity_def)
  qed
  show ?thesis
  proof (cases "kas_ProvisionedCluster auth = []")
    case True
    then show ?thesis using Some empty by (auto simp: unprovisionCluster_def intro!: holds_return)
  next
    case False
    then show ?thesis
      unfolding unprovisionCluster_def Some option.case if_not_P [OF False]
      by (rule_tac holds_bind [OF target_client_holds [where P = ?I] _ tail]) simp
  qed
qed

text \<open>The other operations, from a state that holds the Kubeconfig \<open>k\<close> they work on.\<close>

lemma no_bindings_if:
  assumes "w_kc w = Some k" "rbac_inv env k0 w" "\<And>s. \<not> remembers env k s"
  shows "no_bindings k0 w"
  using assms by (auto simp: no_bindings_def rbac_inv_def)

lemma handleDeletion_holds:
  "holds (\<lambda>w. w_kc w = Some k \<and> rbac_inv env k0 w) (rbac_handleDeletion env k)
     (\<lambda>r w. rbac_inv env k0 w)"
proof (cases "has_cleanup k")
  case False
  then show ?thesis by (auto simp: rbac_handleDeletion_def intro!: holds_return)
next
  case True
  have rm: "holds (\<lambda>w. rbac_inv env k0 w \<and> (Inr x = Inr () \<longrightarrow> no_bindings k0 w))
      (wrapA m (rbac_removeFinalizer k)) (\<lambda>r w. rbac_inv env k0 w)" for x :: unit and m
    by (rule holds_wrap, rule holds_post, rule holds_pre, rule clean_removeFinalizer) auto
  show ?thesis
    unfolding rbac_handleDeletion_def not_not if_not_P [OF not_not [THEN iffD2, OF True]]
    using True by (auto intro!: holds_bind [OF unprovision_holds _ rm])
qed

lemma ensureFinalizer_holds:
  "holds (\<lambda>w. w_kc w = Some k \<and> rbac_inv env k0 w) (rbac_ensureFinalizer k)
     (\<lambda>r w. rbac_inv env k0 w \<and> (r = Inr False \<longrightarrow> w_kc w = Some k \<and> has_cleanup k))"
proof (cases "has_cleanup k")
  case True
  then show ?thesis by (auto simp: rbac_ensureFinalizer_def intro!: holds_return)
next
  case False
  then have "no_bindings k0 w" if "w_kc w = Some k" "rbac_inv env k0 w" for w
    using that by (auto intro: no_bindings_if simp: remembers_def)
  then show ?thesis
    using False unfolding rbac_ensureFinalizer_def
    by (auto intro!: holds_bind [where R = "\<lambda>r w. rbac_inv env k0 w"] holds_write holds_return
        simp: clean_patch)
qed

lemma patchProvisionedCluster_holds:
  assumes "\<And>c. kst_Authorization (kc_Status k) = Some \<lparr>kas_ProvisionedCluster = c\<rparr> \<Longrightarrow> c = [] \<or> c = new"
  shows "holds (\<lambda>w. w_kc w = Some k \<and> rbac_inv env k0 w) (patchProvisionedCluster k new)
     (\<lambda>r w. rbac_inv env k0 w \<and> (r = Inr False \<longrightarrow> w_kc w = Some k
        \<and> kst_Authorization (kc_Status k) = Some \<lparr>kas_ProvisionedCluster = new\<rparr>))"
proof (cases "kst_Authorization (kc_Status k) = Some \<lparr>kas_ProvisionedCluster = new\<rparr>")
  case True
  then show ?thesis by (auto simp: patchProvisionedCluster_def intro!: holds_return)
next
  case False
  then have "no_bindings k0 w" if "w_kc w = Some k" "rbac_inv env k0 w" for w
    using that assms by (auto intro!: no_bindings_if simp: remembers_def)
  then show ?thesis
    using False unfolding patchProvisionedCluster_def
    by (auto intro!: holds_bind [where R = "\<lambda>r w. rbac_inv env k0 w"] holds_write holds_return
        simp: clean_patch)
qed

lemma owned_ensure: "s' \<noteq> s \<Longrightarrow> owned_at uid (ensure_binding s r w) s' = owned_at uid w s'"
  by (simp add: owned_at_def ensure_binding_def)

lemma ensure_all_holds:
  assumes "remembers env k s"
  shows "holds (\<lambda>w. w_kc w = Some k \<and> rbac_inv env k0 w) (ensure_all s rs)
     (\<lambda>r w. w_kc w = Some k \<and> rbac_inv env k0 w)"
proof (induction rs)
  case Nil
  then show ?case by (auto intro!: holds_return)
next
  case (Cons r rs)
  have kc: "w_kc (ensure_binding s r w) = w_kc w" for w
    by (simp add: ensure_binding_def)
  have inv: "rbac_inv env k0 (ensure_binding s r w)" if "w_kc w = Some k" "rbac_inv env k0 w" for w
    unfolding rbac_inv_def
  proof (intro conjI allI impI)
    show "same_identity k0 k'" if "w_kc (ensure_binding s r w) = Some k'" for k'
      using that \<open>rbac_inv env k0 w\<close> by (simp add: rbac_inv_def ensure_binding_def)
    show "\<exists>k'. w_kc (ensure_binding s r w) = Some k' \<and> remembers env k' s'"
      if "owned_at (om_UID (kc_Meta k0)) (ensure_binding s r w) s' \<noteq> {}" for s'
      using that \<open>w_kc w = Some k\<close> \<open>rbac_inv env k0 w\<close> assms
      by (cases "s' = s") (auto simp: rbac_inv_def kc owned_ensure)
  qed
  show ?case
    by (auto intro!: holds_bind [OF _ _ Cons] holds_wrap holds_write simp: inv kc)
qed

lemma delete_some_holds:
  "holds (\<lambda>w. w_kc w = Some k \<and> rbac_inv env k0 w) (delete_all msg s ns)
     (\<lambda>r w. w_kc w = Some k \<and> rbac_inv env k0 w)"
  by (rule holds_post [OF holds_pre [OF delete_all_holds [where X = UNIV]]]) auto

lemma reconcileBindings_holds:
  assumes "has_cleanup k" "kst_Authorization (kc_Status k) = Some \<lparr>kas_ProvisionedCluster = new\<rparr>"
    "new \<noteq> []" "GetRBACTargetWorkspace k = new"
  shows "holds (\<lambda>w. w_kc w = Some k \<and> rbac_inv env k0 w) (reconcileBindings env k)
     (\<lambda>r w. rbac_inv env k0 w)"
proof -
  let ?I = "\<lambda>w. w_kc w = Some k \<and> rbac_inv env k0 w"
  have ensure: "holds ?I (wrapA m (ensure_all s rs)) (\<lambda>r w. rbac_inv env k0 w)"
    if "target_store env k new = Inr s" for s m rs
    by (rule holds_wrap, rule holds_post, rule ensure_all_holds)
      (use assms that in \<open>auto simp: remembers_def\<close>)
  have tail: "holds (\<lambda>w. ?I w \<and> (\<forall>s'. Inr s = Inr s' \<longrightarrow> target_store env k new = Inr s'))
      (bindA (wrapA m1 (api_read (\<lambda>w. Inr (list_owned s k w)))) (\<lambda>crbs.
       bindA (delete_all m2 s (f crbs)) (\<lambda>_. wrapA m3 (ensure_all s rs)))) (\<lambda>r w. rbac_inv env k0 w)"
    for s m1 m2 m3 f rs
  proof (cases "target_store env k new = Inr s")
    case True
    then show ?thesis
      by (auto intro!: holds_bind [where R = "\<lambda>r. ?I"] holds_wrap [OF holds_read] delete_some_holds
          ensure [OF True])
  next
    case False
    then show ?thesis by (simp add: holds_def)
  qed
  show ?thesis
    unfolding reconcileBindings_def assms(4)
    by (rule holds_bind [OF target_client_holds [where P = ?I] _ tail]) simp
qed

lemma reconcile_holds:
  "holds (\<lambda>w. w_kc w = Some k \<and> rbac_inv env k0 w) (rbac_reconcile env k) (\<lambda>r w. rbac_inv env k0 w)"
proof (cases "om_DeletionTimestamp (kc_Meta k)")
  case (Some t)
  then show ?thesis by (simp add: rbac_reconcile_def handleDeletion_holds)
next
  case None
  define old where "old = (case kst_Authorization (kc_Status k) of None \<Rightarrow> []
      | Some auth \<Rightarrow> kas_ProvisionedCluster auth)"
  define new where "new = (if ks_Authorization (kc_Spec k) \<noteq> None then GetRBACTargetWorkspace k else [])"
  have eq: "rbac_reconcile env k =
    (if old \<noteq> [] \<and> new \<noteq> old then unprovisionCluster env k
     else if new = [] then wrapA ''failed to remove cleanup finalizer'' (rbac_removeFinalizer k)
     else bindA (wrapA ''failed to ensure cleanup finalizer'' (rbac_ensureFinalizer k)) (\<lambda>updated.
       if updated then returnA ()
       else bindA (wrapA ''failed to update status'' (patchProvisionedCluster k new)) (\<lambda>updated.
         if updated then returnA ()
         else wrapA ''failed to ensure ClusterRoleBindings'' (reconcileBindings env k))))"
    unfolding rbac_reconcile_def Let_def old_def new_def using None by simp
  have old: "c = old" if "kst_Authorization (kc_Status k) = Some \<lparr>kas_ProvisionedCluster = c\<rparr>" for c
    using that by (simp add: old_def)
  consider (switch) "old \<noteq> [] \<and> new \<noteq> old" | (off) "new = []" "old = []"
    | (on) "new \<noteq> []" "old = [] \<or> new = old" by blast
  then show ?thesis
  proof cases
    case switch
    then show ?thesis
      unfolding eq if_P [OF switch] by (auto intro: holds_post [OF unprovision_holds])
  next
    case off
    then have "no_bindings k0 w" if "w_kc w = Some k" "rbac_inv env k0 w" for w
      using that old by (auto intro!: no_bindings_if simp: remembers_def)
    then show ?thesis
      unfolding eq using off
      by (auto intro!: holds_wrap holds_post [OF holds_pre [OF clean_removeFinalizer]])
  next
    case on
    let ?E = "\<lambda>r w. rbac_inv env k0 w \<and> (r = Inr False \<longrightarrow> w_kc w = Some k \<and> has_cleanup k)"
    have bind: "holds (\<lambda>w. ?E (Inr False) w \<and> kst_Authorization (kc_Status k) = Some \<lparr>kas_ProvisionedCluster = new\<rparr>)
        (wrapA m (reconcileBindings env k)) (\<lambda>r w. rbac_inv env k0 w)" for m
    proof (cases "has_cleanup k \<and> kst_Authorization (kc_Status k) = Some \<lparr>kas_ProvisionedCluster = new\<rparr>")
      case True
      then show ?thesis using on(1)
        by (auto intro!: holds_wrap holds_pre [OF reconcileBindings_holds [where new = new]]
            simp: new_def split: if_splits)
    next
      case False
      then show ?thesis by (auto simp: holds_def)
    qed
    have patch: "holds (?E (Inr u)) (if u then returnA () else
         bindA (wrapA m (patchProvisionedCluster k new)) (\<lambda>u'. if u' then returnA ()
           else wrapA m' (reconcileBindings env k))) (\<lambda>r w. rbac_inv env k0 w)" for u m m'
    proof (cases "u \<or> \<not> has_cleanup k")
      case True
      then show ?thesis
        by (cases u) (auto simp: holds_def returnA_def)
    next
      case False
      have auth: "c = [] \<or> c = new" if "kst_Authorization (kc_Status k) = Some \<lparr>kas_ProvisionedCluster = c\<rparr>" for c
        using old [OF that] on(2) by auto
      let ?S = "\<lambda>r w. rbac_inv env k0 w \<and> (r = Inr False \<longrightarrow> w_kc w = Some k
          \<and> kst_Authorization (kc_Status k) = Some \<lparr>kas_ProvisionedCluster = new\<rparr>)"
      have "holds (\<lambda>w. w_kc w = Some k \<and> rbac_inv env k0 w)
         (bindA (wrapA m (patchProvisionedCluster k new)) (\<lambda>u'. if u' then returnA ()
           else wrapA m' (reconcileBindings env k))) (\<lambda>r w. rbac_inv env k0 w)"
      proof (rule holds_bind [where R = ?S])
        show "holds (\<lambda>w. w_kc w = Some k \<and> rbac_inv env k0 w) (wrapA m (patchProvisionedCluster k new)) ?S"
          by (auto intro!: holds_wrap holds_post [OF patchProvisionedCluster_holds] auth simp: wrapE_eq_Inr)
        show "holds (?S (Inr u')) (if u' then returnA () else wrapA m' (reconcileBindings env k))
            (\<lambda>r w. rbac_inv env k0 w)" for u'
          using False by (cases u') (auto intro!: holds_return holds_pre [OF bind])
      qed simp
      then show ?thesis using False by (auto intro: holds_pre)
    qed
    have skip: "\<not> (old \<noteq> [] \<and> new \<noteq> old)" using on by auto
    show ?thesis
      unfolding eq if_not_P [OF skip] if_not_P [OF on(1)]
      by (rule holds_bind [where R = ?E, OF _ _ patch])
        (auto intro!: holds_wrap holds_post [OF ensureFinalizer_holds] simp: wrapE_eq_Inr)
  qed
qed

lemma Reconcile_holds:
  "holds (rbac_inv env k0) (rbac_Reconcile env) (\<lambda>r w. rbac_inv env k0 w)"
proof -
  have read: "holds (rbac_inv env k0) (api_read (\<lambda>w. Inr (w_kc w)))
      (\<lambda>r w. rbac_inv env k0 w \<and> (\<forall>x. r = Inr x \<longrightarrow> w_kc w = x))"
    by (rule holds_read) auto
  have rest: "holds (\<lambda>w. rbac_inv env k0 w \<and> (\<forall>y. Inr x = Inr y \<longrightarrow> w_kc w = y))
     (case x of None \<Rightarrow> returnA () | Some k \<Rightarrow> rbac_reconcile env k) (\<lambda>r w. rbac_inv env k0 w)" for x
    by (cases x) (auto intro!: holds_return holds_pre [OF reconcile_holds])
  show ?thesis
    unfolding rbac_Reconcile_def by (rule holds_bind [OF read _ rest]) simp
qed

end
