(* ===== verification/Kubeconfig_Rbac_Life.thy ===== *)
theory Kubeconfig_Rbac_Life
  imports Kubeconfig_Rbac_Props
begin

text \<open>
  The life of a Kubeconfig as a step relation: the reconciler with any API failures, the user who
  edits or deletes the object, other controllers and other clients of the logical clusters. Every
  reachable state satisfies the invariant of \<open>Kubeconfig_Rbac_Props\<close>. Then the ways out of that
  invariant, and what the runs without failures achieve.
\<close>

section \<open>The step relation\<close>

text \<open>While a binding of the object is in a logical cluster, the recorded path keeps reaching that
  cluster: what a change of the spec (the target included) or of the environment (the root shards,
  shards, front proxies and secrets the reader returns, the way paths resolve) must respect.
  Without any binding every change does.\<close>

definition still_reaches ::
  "'s rbac_world \<Rightarrow> 's rbac_env \<Rightarrow> Kubeconfig \<Rightarrow> 's rbac_env \<Rightarrow> Kubeconfig \<Rightarrow> bool" where
  "still_reaches w env k env' k' \<longleftrightarrow>
     (\<forall>s c. owned_at (om_UID (kc_Meta k)) w s \<noteq> {}
        \<longrightarrow> kst_Authorization (kc_Status k) = Some \<lparr>kas_ProvisionedCluster = c\<rparr>
        \<longrightarrow> target_store env k c = Inr s \<longrightarrow> target_store env' k' c = Inr s)"

text \<open>An edit keeps the identity of the object; it may change the spec, the finalizers of others
  and other status fields, and may set the deletion timestamp. The environment may change too. The
  last rule is any change to the bindings of the logical clusters that labels none for this
  object.\<close>

inductive rbac_reach :: "Kubeconfig \<Rightarrow> 's rbac_env \<Rightarrow> 's rbac_world \<Rightarrow> bool" for k0 :: Kubeconfig where
  created: "w_kc w = Some k0 \<Longrightarrow> kst_Authorization (kc_Status k0) = None \<Longrightarrow>
      \<forall>s. owned_at (om_UID (kc_Meta k0)) w s = {} \<Longrightarrow> rbac_reach k0 env w"
| reconciled: "rbac_reach k0 env w \<Longrightarrow> rbac_reach k0 env (run_world (rbac_Reconcile env) w os)"
| edited: "rbac_reach k0 env w \<Longrightarrow> w_kc w = Some k \<Longrightarrow> same_identity k k' \<Longrightarrow>
      has_cleanup k' = has_cleanup k \<Longrightarrow> kst_Authorization (kc_Status k') = kst_Authorization (kc_Status k) \<Longrightarrow>
      still_reaches w env k env k' \<Longrightarrow> rbac_reach k0 env (gc (w\<lparr>w_kc := Some k'\<rparr>))"
| environment: "rbac_reach k0 env w \<Longrightarrow> \<forall>k. w_kc w = Some k \<longrightarrow> still_reaches w env k env' k \<Longrightarrow>
      rbac_reach k0 env' w"
| foreign: "rbac_reach k0 env w \<Longrightarrow> w_kc w' = w_kc w \<Longrightarrow>
      \<forall>s. owned_at (om_UID (kc_Meta k0)) w' s \<subseteq> owned_at (om_UID (kc_Meta k0)) w s \<Longrightarrow>
      rbac_reach k0 env w'"

inductive_cases rbac_reachE: "rbac_reach k0 env w"

lemma gc_removed:
  assumes "w_kc w = Some k" "w_kc (gc w) \<noteq> Some k"
  shows "\<not> has_cleanup k"
  using assms by (auto simp: gc_def has_cleanup_def split: if_splits)

text \<open>Edits that keep the record of the object, and changes of the environment, keep what the object
  remembers of the clusters that hold its bindings.\<close>

lemma still_remembers:
  assumes "still_reaches w env k env' k'" "has_cleanup k' \<longleftrightarrow> has_cleanup k"
    "kst_Authorization (kc_Status k') = kst_Authorization (kc_Status k)"
    "owned_at (om_UID (kc_Meta k)) w s \<noteq> {}" "remembers env k s"
  shows "remembers env' k' s"
  using assms unfolding still_reaches_def remembers_def by metis

lemma rbac_reach_inv: "rbac_reach k0 env w \<Longrightarrow> rbac_inv env k0 w"
proof (induction rule: rbac_reach.induct)
  case (created w env)
  then show ?case by (intro rbac_inv_none) (auto simp: same_identity_def)
next
  case (reconciled env w os)
  then show ?case using holdsD [OF Reconcile_holds] by blast
next
  case (edited env w k k')
  let ?w = "gc (w\<lparr>w_kc := Some k'\<rparr>)"
  have uid: "same_identity k0 k" "om_UID (kc_Meta k) = om_UID (kc_Meta k0)"
    using edited.IH edited.hyps(2) by (auto simp: rbac_inv_def same_identity_def)
  have id: "same_identity k0 k'" using uid(1) edited.hyps(3) by (simp add: same_identity_def)
  have rem: "remembers env k' s" if "owned_at (om_UID (kc_Meta k0)) w s \<noteq> {}" for s
    using still_remembers [OF edited.hyps(6,4,5)] that edited.IH edited.hyps(2)
    unfolding uid(2) rbac_inv_def by auto
  have kept: "w_kc ?w = Some k'" if "remembers env k' s" for s
    using gc_removed [of "w\<lparr>w_kc := Some k'\<rparr>" k'] that by (auto simp: remembers_def)
  show ?case
    unfolding rbac_inv_def using id rem kept by (auto dest: gc_kc)
next
  case (environment env w env')
  have "remembers env' k s"
    if "w_kc w = Some k" "owned_at (om_UID (kc_Meta k0)) w s \<noteq> {}" "remembers env k s" for k s
    using that environment still_remembers [of w env k env' k s] by (auto simp: rbac_inv_def same_identity_def)
  then show ?case using environment.IH unfolding rbac_inv_def by blast
next
  case (foreign env w w')
  then show ?case by (blast intro: rbac_inv_fewer)
qed

section \<open>Runs without failures\<close>

definition set_remote :: "'s \<Rightarrow> bindings \<Rightarrow> 's rbac_world \<Rightarrow> 's rbac_world" where
  "set_remote s m w = w\<lparr>w_remote := (w_remote w)(s := m)\<rparr>"

lemma set_remote_simps [simp]:
  "w_kc (set_remote s m w) = w_kc w" "w_remote (set_remote s m w) = (w_remote w)(s := m)"
  "set_remote s (w_remote w s) w = w"
  by (simp_all add: set_remote_def)

lemma set_remote_again [simp]: "set_remote s m' (set_remote s m w) = set_remote s m' w"
  unfolding set_remote_def by (rule rbac_world.equality) (simp_all add: fun_eq_iff)

lemma binding_writes:
  "delete_binding s n w = set_remote s (fmdrop n (w_remote w s)) w"
  "ensure_binding s r w = set_remote s (fmupd (fst r) (snd r (case fmlookup (w_remote w s) (fst r) of
     None \<Rightarrow> ClusterRoleBinding_zero (fst r) | Some old \<Rightarrow> old)) (w_remote w s)) w"
  by (simp_all add: delete_binding_def ensure_binding_def set_remote_def)

lemma delete_all_run:
  "delete_all msg s ns w [] = (Inr (), set_remote s (fmdrop_set (set ns) (w_remote w s)) w, [])"
proof (induction ns arbitrary: w)
  case Nil
  have "fmdrop_set {} (w_remote w s) = w_remote w s" by (rule fmap_ext) simp
  then show ?case by simp
next
  case (Cons n ns)
  have "fmdrop_set (set ns) (fmdrop n (w_remote w s)) = fmdrop_set (set (n # ns)) (w_remote w s)"
    by (rule fmap_ext) auto
  then show ?case by (simp add: bindA_def wrapA_def Cons binding_writes)
qed

text \<open>What ensuring a list of bindings makes of a logical cluster.\<close>

definition ensured :: "(string \<times> (ClusterRoleBinding \<Rightarrow> ClusterRoleBinding)) list \<Rightarrow> bindings \<Rightarrow> bindings" where
  "ensured rs m = foldl (\<lambda>m r. fmupd (fst r) (snd r (case fmlookup m (fst r) of
     None \<Rightarrow> ClusterRoleBinding_zero (fst r) | Some old \<Rightarrow> old)) m) m rs"

lemma ensure_all_run:
  "ensure_all s rs w [] = (Inr (), set_remote s (ensured rs (w_remote w s)) w, [])"
proof (induction rs arbitrary: w)
  case Nil
  then show ?case by (simp add: ensured_def)
next
  case (Cons r rs)
  then show ?case by (simp add: bindA_def wrapA_def binding_writes ensured_def)
qed

lemma ensured_lookup:
  "distinct (map fst rs) \<Longrightarrow> fmlookup (ensured rs m) n = (case map_of rs n of
     None \<Rightarrow> fmlookup m n
   | Some f \<Rightarrow> Some (f (case fmlookup m n of None \<Rightarrow> ClusterRoleBinding_zero n | Some old \<Rightarrow> old)))"
proof (induction rs arbitrary: m)
  case Nil
  then show ?case by (simp add: ensured_def)
next
  case (Cons r rs)
  have "ensured (r # rs) m = ensured rs (fmupd (fst r) (snd r (case fmlookup m (fst r) of
      None \<Rightarrow> ClusterRoleBinding_zero (fst r) | Some old \<Rightarrow> old)) m)"
    by (simp add: ensured_def)
  moreover have "map_of rs (fst r) = None" using Cons.prems by (simp add: map_of_eq_None_iff)
  ultimately show ?case using Cons by (auto split: option.splits)
qed

definition binding_reconcilers :: "Kubeconfig \<Rightarrow> (string \<times> (ClusterRoleBinding \<Rightarrow> ClusterRoleBinding)) list" where
  "binding_reconcilers k = map (\<lambda>role. ClusterRoleBindingReconciler k role (binding_subject k)) (desiredBindings k)"

definition overhanging :: "Kubeconfig \<Rightarrow> 's \<Rightarrow> 's rbac_world \<Rightarrow> string set" where
  "overhanging k s w = {n. \<exists>crb. fmlookup (w_remote w s) n = Some crb
     \<and> owned_uid (om_UID (kc_Meta k)) crb \<and> crb_RoleRefName crb \<notin> set (desiredBindings k)}"

definition bound :: "'s \<Rightarrow> Kubeconfig \<Rightarrow> 's rbac_world \<Rightarrow> 's rbac_world" where
  "bound s k w = set_remote s
     (ensured (binding_reconcilers k) (fmdrop_set (overhanging k s w) (w_remote w s))) w"

lemma target_client_run:
  "target_store env k c = Inr s \<Longrightarrow> target_client env k c w [] = (Inr s, w, [])"
  by (simp add: target_client_def wrapA_def)

lemma sorted_list_of_fmap_iff: "(n, x) \<in> set (sorted_list_of_fmap m) \<longleftrightarrow> fmlookup m n = Some x"
  by (auto simp: sorted_list_of_fmap_def fmlookup_dom_iff)

lemma reconcileBindings_run:
  assumes "target_store env k (GetRBACTargetWorkspace k) = Inr s"
  shows "reconcileBindings env k w [] = (Inr (), bound s k w, [])"
proof -
  have "set (map fst (filter (\<lambda>(n, crb). crb_RoleRefName crb \<notin> set (desiredBindings k)) (list_owned s k w)))
      = overhanging k s w"
    by (force simp: list_owned_def overhanging_def sorted_list_of_fmap_iff)
  then show ?thesis
    by (simp add: reconcileBindings_def bindA_def target_client_run [OF assms] wrapA_def delete_all_run
        ensure_all_run bound_def binding_reconcilers_def del: set_map)
qed

lemma unprovision_run:
  assumes "kst_Authorization (kc_Status k) = Some \<lparr>kas_ProvisionedCluster = c\<rparr>" "c \<noteq> []"
    "target_store env k c = Inr s"
  shows "unprovisionCluster env k w [] = (Inr (), patch_authorization []
     (set_remote s (fmdrop_set (owned_at (om_UID (kc_Meta k)) w s) (w_remote w s)) w), [])"
  using assms
  by (simp add: unprovisionCluster_def bindA_def target_client_run wrapA_def delete_all_run
      patchProvisionedCluster_def list_owned_names del: set_map)

text \<open>The bindings of a cluster are as the spec asks for.\<close>

definition granted :: "Kubeconfig \<Rightarrow> string \<Rightarrow> ClusterRoleBinding \<Rightarrow> bool" where
  "granted k role crb \<longleftrightarrow> crb_RoleRefAPIGroup crb = ''rbac.authorization.k8s.io''
     \<and> crb_RoleRefKind crb = ''ClusterRole'' \<and> crb_RoleRefName crb = role
     \<and> crb_Subjects crb = [binding_subject k] \<and> owned_by k crb"

definition bindings_settled :: "Kubeconfig \<Rightarrow> bindings \<Rightarrow> bool" where
  "bindings_settled k m \<longleftrightarrow>
     (\<forall>role \<in> set (desiredBindings k). \<exists>crb. granted k role crb
        \<and> fmlookup m (om_UID (kc_Meta k) @ '':'' @ role) = Some crb)
     \<and> (\<forall>n crb. fmlookup m n = Some crb \<longrightarrow> owned_by k crb \<longrightarrow> crb_RoleRefName crb \<in> set (desiredBindings k))"

abbreviation binding_for :: "Kubeconfig \<Rightarrow> string \<Rightarrow> ClusterRoleBinding \<Rightarrow> ClusterRoleBinding" where
  "binding_for k role \<equiv> snd (ClusterRoleBindingReconciler k role (binding_subject k))"

lemma binding_for_facts:
  "granted k role (binding_for k role crb)" "binding_for k role (binding_for k role crb) = binding_for k role crb"
  by (simp_all add: granted_def ClusterRoleBindingReconciler_def owned_uid_def OwnerLabels_def)

lemma binding_reconcilers_distinct: "distinct (map fst (binding_reconcilers k))"
  by (auto simp: binding_reconcilers_def ClusterRoleBindingReconciler_def desiredBindings_def
      distinct_map inj_on_def comp_def split: option.splits)

lemma binding_reconcilers_lookup:
  "map_of (binding_reconcilers k) n = Some f \<longleftrightarrow>
     (\<exists>role \<in> set (desiredBindings k). n = om_UID (kc_Meta k) @ '':'' @ role \<and> f = binding_for k role)"
  unfolding map_of_eq_Some_iff [OF binding_reconcilers_distinct]
  by (auto simp: binding_reconcilers_def ClusterRoleBindingReconciler_def image_iff)

lemma bound_lookup:
  "fmlookup (w_remote (bound s k w) s) n = (case map_of (binding_reconcilers k) n of
     None \<Rightarrow> if n \<in> overhanging k s w then None else fmlookup (w_remote w s) n
   | Some f \<Rightarrow> Some (f (if n \<in> overhanging k s w then ClusterRoleBinding_zero n
       else case fmlookup (w_remote w s) n of None \<Rightarrow> ClusterRoleBinding_zero n | Some old \<Rightarrow> old)))"
  by (simp add: bound_def ensured_lookup [OF binding_reconcilers_distinct] split: option.splits)

lemma bound_settled: "bindings_settled k (w_remote (bound s k w) s)"
  unfolding bindings_settled_def
proof (intro conjI ballI allI impI)
  fix role assume "role \<in> set (desiredBindings k)"
  then have "map_of (binding_reconcilers k) (om_UID (kc_Meta k) @ '':'' @ role) = Some (binding_for k role)"
    by (auto simp: binding_reconcilers_lookup)
  then show "\<exists>crb. granted k role crb \<and> fmlookup (w_remote (bound s k w) s) (om_UID (kc_Meta k) @ '':'' @ role) = Some crb"
    using binding_for_facts(1) by (auto simp: bound_lookup)
next
  fix n crb
  assume "fmlookup (w_remote (bound s k w) s) n = Some crb" "owned_by k crb"
  then show "crb_RoleRefName crb \<in> set (desiredBindings k)"
    using binding_for_facts(1) [of k]
    by (auto simp: bound_lookup binding_reconcilers_lookup overhanging_def granted_def
        split: option.splits if_splits)
qed

lemma bound_idem: "bound s k (bound s k w) = bound s k w"
proof -
  have none: "overhanging k s (bound s k w) = {}"
    using bound_settled [of k s w] by (auto simp: overhanging_def bindings_settled_def)
  have "w_remote (bound s k (bound s k w)) s = w_remote (bound s k w) s"
  proof (rule fmap_ext)
    fix n
    show "fmlookup (w_remote (bound s k (bound s k w)) s) n = fmlookup (w_remote (bound s k w) s) n"
    proof (cases "map_of (binding_reconcilers k) n")
      case None
      then show ?thesis by (simp add: bound_lookup [of s k "bound s k w"] none)
    next
      case (Some f)
      then have "f (f crb) = f crb" for crb
        using binding_for_facts(2) by (auto simp: binding_reconcilers_lookup)
      then show ?thesis
        using Some by (simp add: bound_lookup [of s k "bound s k w"] none) (simp add: bound_lookup Some)
    qed
  qed
  then show ?thesis
    unfolding bound_def by (metis set_remote_again set_remote_simps(2) fun_upd_same)
qed

text \<open>The three stages of a Kubeconfig that wants bindings: finalizer, status, bindings.\<close>

definition aims :: "'s rbac_env \<Rightarrow> Kubeconfig \<Rightarrow> 's \<Rightarrow> bool" where
  "aims env k s \<longleftrightarrow> om_DeletionTimestamp (kc_Meta k) = None \<and> ks_Authorization (kc_Spec k) \<noteq> None
     \<and> target_store env k (GetRBACTargetWorkspace k) = Inr s
     \<and> (case kst_Authorization (kc_Status k) of None \<Rightarrow> True
        | Some a \<Rightarrow> kas_ProvisionedCluster a \<in> {[], GetRBACTargetWorkspace k})"

definition recorded :: "Kubeconfig \<Rightarrow> bool" where
  "recorded k \<longleftrightarrow> kst_Authorization (kc_Status k) = Some \<lparr>kas_ProvisionedCluster = GetRBACTargetWorkspace k\<rparr>"

definition same_goal :: "Kubeconfig \<Rightarrow> Kubeconfig \<Rightarrow> bool" where
  "same_goal k k' \<longleftrightarrow> kc_Spec k' = kc_Spec k \<and> om_UID (kc_Meta k') = om_UID (kc_Meta k)
     \<and> om_Name (kc_Meta k') = om_Name (kc_Meta k) \<and> om_Namespace (kc_Meta k') = om_Namespace (kc_Meta k)
     \<and> om_DeletionTimestamp (kc_Meta k') = om_DeletionTimestamp (kc_Meta k)"

definition step_ok :: "'s rbac_env \<Rightarrow> 's rbac_world \<Rightarrow> 's rbac_world" where
  "step_ok env w = run_world (rbac_Reconcile env) w []"

lemma same_goal_facts:
  assumes "same_goal k k'"
  shows "GetRBACTargetWorkspace k' = GetRBACTargetWorkspace k" "target_store env k' c = target_store env k c"
    "bindings_settled k' m = bindings_settled k m"
  using assms target_store_cong [of k' k env]
  by (simp_all add: same_goal_def GetRBACTargetWorkspace_def bindings_settled_def granted_def desiredBindings_def
      binding_subject_def KubeconfigGroup_def)

lemma GetRBACTargetWorkspace_set: "GetRBACTargetWorkspace k \<noteq> []"
  by (simp add: GetRBACTargetWorkspace_def split: option.splits)

lemma step_ok_kc: "w_kc w = Some k \<Longrightarrow> step_ok env w = fst (snd (rbac_reconcile env k w []))"
  by (simp add: step_ok_def run_world_def rbac_Reconcile_def bindA_def)

lemma aims_reconcile:
  assumes "aims env k s"
  shows "rbac_reconcile env k =
    bindA (wrapA ''failed to ensure cleanup finalizer'' (rbac_ensureFinalizer k)) (\<lambda>updated.
      if updated then returnA ()
      else bindA (wrapA ''failed to update status'' (patchProvisionedCluster k (GetRBACTargetWorkspace k))) (\<lambda>updated.
        if updated then returnA ()
        else wrapA ''failed to ensure ClusterRoleBindings'' (reconcileBindings env k)))"
  using assms GetRBACTargetWorkspace_set [of k]
  by (auto simp: aims_def rbac_reconcile_def Let_def split: option.splits)

lemma step_finalizer:
  assumes "w_kc w = Some k" "aims env k s" "\<not> has_cleanup k"
  shows "\<exists>k'. step_ok env w = w\<lparr>w_kc := Some k'\<rparr> \<and> same_goal k k' \<and> aims env k' s \<and> has_cleanup k'"
proof -
  let ?k = "k\<lparr>kc_Meta := (kc_Meta k)\<lparr>om_Finalizers := sets_List (om_Finalizers (kc_Meta k)) [cleanupFinalizer]\<rparr>\<rparr>"
  have goal: "same_goal k ?k" by (simp add: same_goal_def)
  have "step_ok env w = w\<lparr>w_kc := Some ?k\<rparr>"
    using assms by (simp add: step_ok_kc aims_reconcile bindA_def wrapA_def rbac_ensureFinalizer_def
        patch_finalizers_def gc_def aims_def)
  moreover have "aims env ?k s" using assms(2) same_goal_facts(1) [OF goal] same_goal_facts(2) [OF goal, of env]
    by (auto simp: aims_def split: option.splits)
  ultimately show ?thesis using goal by (auto simp: has_cleanup_def)
qed

lemma step_status:
  assumes "w_kc w = Some k" "aims env k s" "has_cleanup k" "\<not> recorded k"
  shows "\<exists>k'. step_ok env w = w\<lparr>w_kc := Some k'\<rparr> \<and> same_goal k k' \<and> aims env k' s \<and> has_cleanup k' \<and> recorded k'"
proof -
  let ?k = "k\<lparr>kc_Status := (kc_Status k)\<lparr>kst_Authorization :=
    Some \<lparr>kas_ProvisionedCluster = GetRBACTargetWorkspace k\<rparr>\<rparr>\<rparr>"
  have goal: "same_goal k ?k" by (simp add: same_goal_def)
  have "step_ok env w = w\<lparr>w_kc := Some ?k\<rparr>"
    using assms by (simp add: step_ok_kc aims_reconcile bindA_def wrapA_def rbac_ensureFinalizer_def
        patchProvisionedCluster_def patch_authorization_def recorded_def)
  moreover have "aims env ?k s" using assms(2) same_goal_facts(1) [OF goal] same_goal_facts(2) [OF goal, of env]
    by (auto simp: aims_def split: option.splits)
  ultimately show ?thesis
    using goal assms(3) same_goal_facts(1) [OF goal] by (auto simp: has_cleanup_def recorded_def)
qed

lemma step_bind:
  assumes "w_kc w = Some k" "aims env k s" "has_cleanup k" "recorded k"
  shows "step_ok env w = bound s k w"
  using assms by (simp add: step_ok_kc aims_reconcile bindA_def wrapA_def rbac_ensureFinalizer_def
      patchProvisionedCluster_def recorded_def reconcileBindings_run aims_def)

lemma three_steps:
  assumes "w_kc w = Some k" "aims env k s"
  shows "\<exists>k'. same_goal k k' \<and> has_cleanup k' \<and> recorded k'
     \<and> step_ok env (step_ok env (step_ok env w)) = bound s k' (w\<lparr>w_kc := Some k'\<rparr>)
     \<and> step_ok env (bound s k' (w\<lparr>w_kc := Some k'\<rparr>)) = bound s k' (w\<lparr>w_kc := Some k'\<rparr>)"
proof -
  have settle: "step_ok env (bound s k' v) = bound s k' v"
    if "w_kc v = Some k'" "aims env k' s" "has_cleanup k'" "recorded k'" for k' v
    using step_bind [of "bound s k' v" k' env s] that by (simp add: bound_idem) (simp add: bound_def)
  have bind: "step_ok env (w\<lparr>w_kc := Some k'\<rparr>) = bound s k' (w\<lparr>w_kc := Some k'\<rparr>)"
    if "aims env k' s" "has_cleanup k'" "recorded k'" for k'
    using step_bind [of "w\<lparr>w_kc := Some k'\<rparr>" k' env s] that by simp
  have late: "\<exists>k'. same_goal k k' \<and> aims env k' s \<and> has_cleanup k' \<and> recorded k'
      \<and> step_ok env v \<in> {w\<lparr>w_kc := Some k'\<rparr>, bound s k' (w\<lparr>w_kc := Some k'\<rparr>)}"
    if v: "v = w\<lparr>w_kc := Some k1\<rparr>" and k1: "same_goal k k1" "aims env k1 s" "has_cleanup k1" for v k1
  proof (cases "recorded k1")
    case True
    then show ?thesis using bind k1 v by auto
  next
    case False
    then show ?thesis using step_status [of v k1 env s] k1 v by (auto simp: same_goal_def)
  qed
  have two: "\<exists>k'. same_goal k k' \<and> aims env k' s \<and> has_cleanup k' \<and> recorded k'
      \<and> step_ok env (step_ok env w) \<in> {w\<lparr>w_kc := Some k'\<rparr>, bound s k' (w\<lparr>w_kc := Some k'\<rparr>)}"
  proof (cases "has_cleanup k")
    case False
    then show ?thesis using step_finalizer [OF assms] late by blast
  next
    case True
    have w: "w = w\<lparr>w_kc := Some k\<rparr>" using assms(1) by simp
    show ?thesis
      using late [OF w _ assms(2) True] bind settle [of "w\<lparr>w_kc := Some _\<rparr>"]
      by (force simp: same_goal_def)
  qed
  then show ?thesis using bind settle by force
qed

text \<open>C6: Bindings do not leak while the recorded path keeps reaching them. Take the life of a
  Kubeconfig under reconciliations in which any API calls fail or lose their response, edits and
  deletions by users, changes of the environment and writes of other clients to the logical
  clusters, where changes of the target and of the environment respect one condition: while a
  binding of the object is in a cluster, the recorded path still resolves to that cluster. In every
  such state a role binding of the object in any logical cluster means that the object still
  exists, carries the cleanup finalizer and records in its status a path whose client reaches that
  binding; so once the object is gone no binding of it is left. The condition is needed: when it
  fails the binding is lost (\<open>kubeconfig_retarget_leaks\<close>).\<close>

theorem kubeconfig_bindings_never_leak:
  assumes "rbac_reach k0 env w"
  shows "(\<forall>s. owned_at (om_UID (kc_Meta k0)) w s \<noteq> {} \<longrightarrow>
      (\<exists>k. w_kc w = Some k \<and> has_cleanup k
         \<and> (\<exists>c. kst_Authorization (kc_Status k) = Some \<lparr>kas_ProvisionedCluster = c\<rparr> \<and> c \<noteq> []
              \<and> target_store env k c = Inr s)))
    \<and> (w_kc w = None \<longrightarrow> (\<forall>s. owned_at (om_UID (kc_Meta k0)) w s = {}))"
  using rbac_reach_inv [OF assms] by (auto simp: rbac_inv_def remembers_def)

text \<open>C7: Bindings converge. Take a Kubeconfig that asks for role bindings, is not being deleted,
  whose status records no cluster or the one it asks for, and whose client for that cluster works.
  After at most three reconciliations without failures the object carries the cleanup finalizer
  and records the cluster; every role asked for is bound to exactly the group that the client
  certificate of the kubeconfig carries, no other role is bound for this object, every other
  logical cluster is untouched, and a further reconciliation changes nothing.\<close>

theorem kubeconfig_bindings_converge:
  assumes "w_kc w = Some k" "aims env k s"
  shows "let w' = step_ok env (step_ok env (step_ok env w)) in
    (\<exists>k'. w_kc w' = Some k' \<and> same_goal k k' \<and> has_cleanup k' \<and> recorded k')
    \<and> bindings_settled k (w_remote w' s)
    \<and> (\<forall>s'. s' \<noteq> s \<longrightarrow> w_remote w' s' = w_remote w s')
    \<and> step_ok env w' = w'
    \<and> binding_subject k = \<lparr>su_APIGroup = ''rbac.authorization.k8s.io'', su_Kind = ''Group'',
         su_Name = KubeconfigGroup k\<rparr>"
proof -
  obtain k' where k': "same_goal k k'" "has_cleanup k'" "recorded k'"
    "step_ok env (step_ok env (step_ok env w)) = bound s k' (w\<lparr>w_kc := Some k'\<rparr>)"
    "step_ok env (bound s k' (w\<lparr>w_kc := Some k'\<rparr>)) = bound s k' (w\<lparr>w_kc := Some k'\<rparr>)"
    using three_steps [OF assms] by blast
  have rest: "w_kc (bound s k' (w\<lparr>w_kc := Some k'\<rparr>)) = Some k'"
    "s' \<noteq> s \<Longrightarrow> w_remote (bound s k' (w\<lparr>w_kc := Some k'\<rparr>)) s' = w_remote w s'" for s'
    by (simp_all add: bound_def)
  show ?thesis
    unfolding k'(4) Let_def
    using k' rest bound_settled [of k' s "w\<lparr>w_kc := Some k'\<rparr>"] same_goal_facts(3) [OF k'(1)]
    by (auto simp: binding_subject_def)
qed

text \<open>Deletion. The reconciliation of an object that is marked for deletion, carries the cleanup
  finalizer and records a cluster.\<close>

lemma deletion_step:
  assumes "w_kc w = Some k" "om_DeletionTimestamp (kc_Meta k) \<noteq> None" "has_cleanup k"
    "kst_Authorization (kc_Status k) = Some \<lparr>kas_ProvisionedCluster = c\<rparr>" "c \<noteq> []"
    "target_store env k c = Inr s"
  shows "step_ok env w = patch_finalizers
      (sets_List (filter (\<lambda>f. f \<noteq> cleanupFinalizer) (om_Finalizers (kc_Meta k))) [])
      (patch_authorization [] (set_remote s (fmdrop_set (owned_at (om_UID (kc_Meta k)) w s) (w_remote w s)) w))"
  using assms by (simp add: step_ok_kc rbac_reconcile_def rbac_handleDeletion_def bindA_def unprovision_run wrapA_def
      rbac_removeFinalizer_def)

lemma patch_remote [simp]:
  "w_remote (patch_finalizers fs w) = w_remote w" "w_remote (patch_authorization c w) = w_remote w"
  by (simp_all add: patch_finalizers_def patch_authorization_def)

lemma deletion_gone:
  assumes "w_kc w = Some k" "om_DeletionTimestamp (kc_Meta k) \<noteq> None" "set (om_Finalizers (kc_Meta k)) = {cleanupFinalizer}"
  shows "w_kc (patch_finalizers (sets_List (filter (\<lambda>f. f \<noteq> cleanupFinalizer) (om_Finalizers (kc_Meta k))) [])
      (patch_authorization c (set_remote s m w))) = None"
proof -
  have "filter (\<lambda>f. f \<noteq> cleanupFinalizer) (om_Finalizers (kc_Meta k)) = []"
    using assms(3) by (auto simp: filter_empty_conv)
  then show ?thesis
    using assms(1,2) by (auto simp: patch_finalizers_def patch_authorization_def gc_def sets_List_def)
qed

text \<open>Deletion cleans up. When an object marked for deletion holds only the cleanup finalizer and
  the client for the recorded cluster works, one reconciliation without failures deletes exactly
  the object's own bindings in that cluster, leaves every other binding and every other cluster as
  it was, and releases the object.\<close>

theorem kubeconfig_deletion_cleans_up:
  assumes "w_kc w = Some k" "om_DeletionTimestamp (kc_Meta k) \<noteq> None"
    "set (om_Finalizers (kc_Meta k)) = {cleanupFinalizer}"
    "kst_Authorization (kc_Status k) = Some \<lparr>kas_ProvisionedCluster = c\<rparr>" "c \<noteq> []"
    "target_store env k c = Inr s"
  shows "let w' = step_ok env w in
    w_kc w' = None
    \<and> (\<forall>n. fmlookup (w_remote w' s) n = (case fmlookup (w_remote w s) n of None \<Rightarrow> None
         | Some crb \<Rightarrow> if owned_by k crb then None else Some crb))
    \<and> (\<forall>s'. s' \<noteq> s \<longrightarrow> w_remote w' s' = w_remote w s')"
proof -
  have has: "has_cleanup k" using assms(3) by (simp add: has_cleanup_def)
  have look: "fmlookup (fmdrop_set (owned_at (om_UID (kc_Meta k)) w s) (w_remote w s)) n
     = (case fmlookup (w_remote w s) n of None \<Rightarrow> None
         | Some crb \<Rightarrow> if owned_by k crb then None else Some crb)" for n
    by (auto simp: owned_at_def split: option.splits)
  show ?thesis
    unfolding Let_def deletion_step [OF assms(1,2) has assms(4-6)]
    using deletion_gone [OF assms(1-3)] look by simp
qed

text \<open>Changing the target of a Kubeconfig leaks its bindings. Let a binding of the object exist in
  a cluster and let the user point the kubeconfig at another root shard, shard or front proxy,
  where the recorded path reaches another cluster, and delete it. Then one reconciliation without
  failures removes the finalizer and the object, and the binding is still there.\<close>

theorem kubeconfig_retarget_leaks:
  assumes "w_kc w = Some k" "has_cleanup k"
    "kst_Authorization (kc_Status k) = Some \<lparr>kas_ProvisionedCluster = c\<rparr>" "c \<noteq> []"
    "set (om_Finalizers (kc_Meta k)) = {cleanupFinalizer}"
    "n \<in> owned_at (om_UID (kc_Meta k)) w s"
    "k' = k\<lparr>kc_Spec := (kc_Spec k)\<lparr>ks_Target := t\<rparr>, kc_Meta := (kc_Meta k)\<lparr>om_DeletionTimestamp := Some d\<rparr>\<rparr>"
    "target_store env k' c = Inr s'" "s' \<noteq> s"
  shows "let w' = step_ok env (gc (w\<lparr>w_kc := Some k'\<rparr>)) in
    w_kc w' = None \<and> n \<in> owned_at (om_UID (kc_Meta k)) w' s"
proof -
  have fin: "om_Finalizers (kc_Meta k') = om_Finalizers (kc_Meta k)" using assms(7) by simp
  have "om_Finalizers (kc_Meta k) \<noteq> []" using assms(5) by (metis empty_set insert_not_empty)
  then have meta: "om_DeletionTimestamp (kc_Meta k') \<noteq> None" "has_cleanup k'" "om_Finalizers (kc_Meta k') \<noteq> []"
    "kst_Authorization (kc_Status k') = Some \<lparr>kas_ProvisionedCluster = c\<rparr>"
    "set (om_Finalizers (kc_Meta k')) = {cleanupFinalizer}"
    using assms(3,5,7) by (simp_all add: has_cleanup_def fin)
  have gc: "gc (w\<lparr>w_kc := Some k'\<rparr>) = w\<lparr>w_kc := Some k'\<rparr>" using meta(3) by (simp add: gc_def)
  have run: "step_ok env (w\<lparr>w_kc := Some k'\<rparr>) = patch_finalizers
      (sets_List (filter (\<lambda>f. f \<noteq> cleanupFinalizer) (om_Finalizers (kc_Meta k'))) [])
      (patch_authorization [] (set_remote s' (fmdrop_set (owned_at (om_UID (kc_Meta k')) w s') (w_remote w s'))
        (w\<lparr>w_kc := Some k'\<rparr>)))"
    using deletion_step [of "w\<lparr>w_kc := Some k'\<rparr>" k' c env s'] meta assms(4,8) by simp
  have "w_kc (step_ok env (w\<lparr>w_kc := Some k'\<rparr>)) = None"
    unfolding run by (rule deletion_gone) (use meta in simp_all)
  moreover have "n \<in> owned_at (om_UID (kc_Meta k)) (step_ok env (w\<lparr>w_kc := Some k'\<rparr>)) s"
    using assms(6,9) unfolding run by (simp add: owned_at_def)
  ultimately show ?thesis unfolding gc by simp
qed

lemma deletion_panics:
  assumes "w_kc w = Some k" "om_DeletionTimestamp (kc_Meta k) \<noteq> None" "has_cleanup k"
    "kst_Authorization (kc_Status k) = None"
  shows "run_world (rbac_Reconcile env) w os = w" "run_result (rbac_Reconcile env) w os \<noteq> Inr ()"
    "run_result (rbac_Reconcile env) w [] = Inl nil_deref"
proof -
  have rec: "rbac_reconcile env k = failA nil_deref"
    using assms(2-4)
    by (simp add: rbac_reconcile_def rbac_handleDeletion_def unprovisionCluster_def bindA_def failA_def fun_eq_iff)
  show "run_world (rbac_Reconcile env) w os = w" "run_result (rbac_Reconcile env) w os \<noteq> Inr ()"
    using assms(1) by (auto simp: run_world_def run_result_def rbac_Reconcile_def bindA_def api_read_def rec failA_def
        split: outcome.splits list.splits)
  show "run_result (rbac_Reconcile env) w [] = Inl nil_deref"
    using assms(1) by (simp add: run_result_def rbac_Reconcile_def bindA_def rec)
qed

text \<open>An object deleted early is stuck. When a Kubeconfig that asks for bindings has just got the
  cleanup finalizer and is deleted before its status records a cluster, the next reconciliation
  dereferences the missing status: every reconciliation after that panics, whatever the API does,
  nothing changes and the object is never released. That state is reached by one reconciliation
  and the deletion.\<close>

theorem kubeconfig_early_deletion_stuck:
  assumes "w_kc w = Some k" "om_DeletionTimestamp (kc_Meta k) = None" "ks_Authorization (kc_Spec k) \<noteq> None"
    "kst_Authorization (kc_Status k) = None" "\<not> has_cleanup k"
  shows "\<exists>k'. w_kc (step_ok env w) = Some k' \<and>
    (let v = gc ((step_ok env w)\<lparr>w_kc := Some (k'\<lparr>kc_Meta := (kc_Meta k')\<lparr>om_DeletionTimestamp := Some d\<rparr>\<rparr>)\<rparr>) in
       run_result (rbac_Reconcile env) v [] = Inl nil_deref
       \<and> (\<forall>os. run_world (rbac_Reconcile env) v os = v \<and> run_result (rbac_Reconcile env) v os \<noteq> Inr ()))"
proof -
  let ?k = "k\<lparr>kc_Meta := (kc_Meta k)\<lparr>om_Finalizers := sets_List (om_Finalizers (kc_Meta k)) [cleanupFinalizer]\<rparr>\<rparr>"
  let ?d = "?k\<lparr>kc_Meta := (kc_Meta ?k)\<lparr>om_DeletionTimestamp := Some d\<rparr>\<rparr>"
  have first: "step_ok env w = w\<lparr>w_kc := Some ?k\<rparr>"
    using assms GetRBACTargetWorkspace_set [of k]
    by (simp add: step_ok_kc rbac_reconcile_def Let_def bindA_def wrapA_def rbac_ensureFinalizer_def
        patch_finalizers_def gc_def)
  have has: "has_cleanup ?d" by (simp add: has_cleanup_def)
  then have "om_Finalizers (kc_Meta ?d) \<noteq> []" by (auto simp: has_cleanup_def simp del: set_sets_List)
  then have gc: "gc (w\<lparr>w_kc := Some ?d\<rparr>) = w\<lparr>w_kc := Some ?d\<rparr>" by (simp add: gc_def)
  have "w_kc (w\<lparr>w_kc := Some ?d\<rparr>) = Some ?d" "om_DeletionTimestamp (kc_Meta ?d) \<noteq> None"
    "kst_Authorization (kc_Status ?d) = None"
    using assms(4) by simp_all
  note stuck = deletion_panics [OF this(1,2) has this(3), of env]
  show ?thesis
    unfolding first by (rule exI [of _ ?k]) (use gc stuck in \<open>simp add: Let_def\<close>)
qed

section \<open>Concrete lives\<close>

definition sample_reader :: cluster_reader where
  "sample_reader = \<lparr>get_RootShard = (\<lambda>ns n. Inr sample_rootshard), get_Shard = (\<lambda>ns n. Inr sample_shard),
     get_FrontProxy = (\<lambda>ns n. Inr sample_frontproxy),
     get_Secret = (\<lambda>ns n. Inr \<lparr>sec_Meta = sample_meta n, sec_Data = fmempty\<rparr>)\<rparr>"

definition sample_rbac_env :: "string rbac_env" where
  "sample_rbac_env = \<lparr>ev_reader = sample_reader, ev_address = InCluster,
     ev_requestPath = (\<lambda>c. ''/clusters/'' @ c), ev_store = (\<lambda>host. host)\<rparr>"

definition sample_store :: string where
  "sample_store = GetRootShardProxyBaseURL sample_rootshard @ ''/clusters/root''"

definition fresh_world :: "string rbac_world" where
  "fresh_world = \<lparr>w_kc = Some sample_kubeconfig, w_remote = (\<lambda>_. fmempty)\<rparr>"

lemma sample_target: "target_store sample_rbac_env sample_kubeconfig ''root'' = Inr sample_store"
  by (simp add: target_store_def sample_rbac_env_def NewInternalKubeconfigClient_def sample_kubeconfig_def
      sample_reader_def sample_frontproxy_def sample_frontproxy_spec_def NewRootShardProxyClient_def
      newClient_def getTLSConfig_def InCluster_def InCluster_RootShardProxy_def sample_store_def)

lemma sample_root: "GetRBACTargetWorkspace sample_kubeconfig = ''root''"
  by (simp add: GetRBACTargetWorkspace_def sample_kubeconfig_def)

lemma sample_aims: "aims sample_rbac_env sample_kubeconfig sample_store"
  unfolding aims_def sample_root
  by (simp add: sample_target) (simp add: sample_kubeconfig_def sample_meta_def ObjectMeta_zero_def)

lemma fresh_kc: "w_kc fresh_world = Some sample_kubeconfig"
  by (simp add: fresh_world_def)

definition bound_world :: "string rbac_world" where
  "bound_world = step_ok sample_rbac_env (step_ok sample_rbac_env (step_ok sample_rbac_env fresh_world))"

lemma bound_world_facts:
  "rbac_reach sample_kubeconfig sample_rbac_env bound_world"
  "owned_at ''uid-kc'' bound_world sample_store \<noteq> {}"
proof -
  have "rbac_reach sample_kubeconfig sample_rbac_env fresh_world"
    by (rule rbac_reach.created)
      (simp_all add: fresh_kc, simp_all add: sample_kubeconfig_def fresh_world_def owned_at_def)
  then show "rbac_reach sample_kubeconfig sample_rbac_env bound_world"
    unfolding bound_world_def step_ok_def by (intro rbac_reach.reconciled)
  obtain k' where k': "same_goal sample_kubeconfig k'"
    "bound_world = bound sample_store k' (fresh_world\<lparr>w_kc := Some k'\<rparr>)"
    using three_steps [OF fresh_kc sample_aims] unfolding bound_world_def by blast
  have "bindings_settled sample_kubeconfig (w_remote bound_world sample_store)"
    using bound_settled [of k' sample_store "fresh_world\<lparr>w_kc := Some k'\<rparr>"] same_goal_facts(3) [OF k'(1)] k'(2) by simp
  moreover have "desiredBindings sample_kubeconfig = [''cluster-admin'']" "om_UID (kc_Meta sample_kubeconfig) = ''uid-kc''"
    by (simp_all add: desiredBindings_def sample_kubeconfig_def sets_List_def sample_meta_def)
  ultimately show "owned_at ''uid-kc'' bound_world sample_store \<noteq> {}"
    by (auto simp: bindings_settled_def granted_def owned_at_def)
qed

theorem kubeconfig_bindings_never_leak_witness:
  "owned_at ''uid-kc'' bound_world sample_store \<noteq> {}
   \<and> (\<exists>k. w_kc bound_world = Some k \<and> has_cleanup k)"
  using kubeconfig_bindings_never_leak [OF bound_world_facts(1)] bound_world_facts(2)
  by (auto simp: sample_kubeconfig_def sample_meta_def)

theorem kubeconfig_bindings_converge_witness:
  "bindings_settled sample_kubeconfig (w_remote bound_world sample_store) \<and> step_ok sample_rbac_env bound_world = bound_world"
  using kubeconfig_bindings_converge [OF fresh_kc sample_aims] by (simp add: bound_world_def Let_def)

text \<open>A kubeconfig in the middle of its life, with one binding.\<close>

definition live_kubeconfig :: Kubeconfig where
  "live_kubeconfig = sample_kubeconfig\<lparr>
     kc_Meta := (sample_meta ''kc'')\<lparr>om_Finalizers := [cleanupFinalizer]\<rparr>,
     kc_Status := (kc_Status sample_kubeconfig)\<lparr>kst_Authorization := Some \<lparr>kas_ProvisionedCluster = ''root''\<rparr>\<rparr>\<rparr>"

definition live_binding :: ClusterRoleBinding where
  "live_binding = (ClusterRoleBinding_zero ''b'')\<lparr>crb_Meta := ObjectMeta_zero\<lparr>om_Labels :=
     fmupd ''operator.kcp.io/kubeconfig'' ''uid-kc'' fmempty\<rparr>\<rparr>"

definition live_world :: "Kubeconfig \<Rightarrow> string rbac_world" where
  "live_world k = \<lparr>w_kc = Some k, w_remote = (\<lambda>s. if s = sample_store then fmupd ''b'' live_binding fmempty else fmempty)\<rparr>"

lemma live_owned: "''b'' \<in> owned_at ''uid-kc'' (live_world k) sample_store"
  by (simp add: owned_at_def live_world_def live_binding_def owned_uid_def ClusterRoleBinding_zero_def)

definition deleted_kubeconfig :: Kubeconfig where
  "deleted_kubeconfig = live_kubeconfig\<lparr>kc_Meta := (kc_Meta live_kubeconfig)\<lparr>om_DeletionTimestamp := Some 7\<rparr>\<rparr>"

lemma live_fields:
  "om_UID (kc_Meta live_kubeconfig) = ''uid-kc''" "om_Finalizers (kc_Meta live_kubeconfig) = [cleanupFinalizer]"
  "kst_Authorization (kc_Status live_kubeconfig) = Some \<lparr>kas_ProvisionedCluster = ''root''\<rparr>"
  "om_Namespace (kc_Meta live_kubeconfig) = ''kcp''" "ks_Target (kc_Spec live_kubeconfig) = ks_Target (kc_Spec sample_kubeconfig)"
  by (simp_all add: live_kubeconfig_def sample_meta_def)

lemma deleted_target: "target_store sample_rbac_env deleted_kubeconfig ''root'' = Inr sample_store"
  using sample_target target_store_cong [of deleted_kubeconfig sample_kubeconfig sample_rbac_env "''root''"]
  by (simp add: deleted_kubeconfig_def live_fields) (simp add: sample_kubeconfig_def sample_meta_def)

theorem kubeconfig_deletion_cleans_up_witness:
  "w_kc (step_ok sample_rbac_env (live_world deleted_kubeconfig)) = None
   \<and> fmlookup (w_remote (step_ok sample_rbac_env (live_world deleted_kubeconfig)) sample_store) ''b'' = None"
proof -
  have "owned_by deleted_kubeconfig live_binding"
    by (simp add: owned_uid_def live_binding_def deleted_kubeconfig_def live_fields)
  then show ?thesis
    using kubeconfig_deletion_cleans_up [of "live_world deleted_kubeconfig" deleted_kubeconfig "''root''"
        sample_rbac_env sample_store] deleted_target
    by (simp add: live_world_def deleted_kubeconfig_def live_fields Let_def)
qed

definition other_target :: KubeconfigTarget where
  "other_target = \<lparr>kt_RootShardRef = Some \<lparr>lor_Name = ''root''\<rparr>, kt_ShardRef = None, kt_FrontProxyRef = None\<rparr>"

definition retargeted_kubeconfig :: Kubeconfig where
  "retargeted_kubeconfig = live_kubeconfig\<lparr>kc_Spec := (kc_Spec live_kubeconfig)\<lparr>ks_Target := other_target\<rparr>,
     kc_Meta := (kc_Meta live_kubeconfig)\<lparr>om_DeletionTimestamp := Some 7\<rparr>\<rparr>"

lemma retargeted_store:
  "target_store sample_rbac_env retargeted_kubeconfig ''root'' = Inr (GetRootShardBaseURL sample_rootshard @ ''/clusters/root'')"
  by (simp add: target_store_def sample_rbac_env_def NewInternalKubeconfigClient_def retargeted_kubeconfig_def
      other_target_def sample_reader_def NewRootShardClient_def newClient_def getTLSConfig_def InCluster_def
      InCluster_RootShard_def)

lemma stores_differ: "GetRootShardBaseURL sample_rootshard @ ''/clusters/root'' \<noteq> sample_store"
  unfolding sample_store_def by code_simp

theorem kubeconfig_retarget_leaks_witness:
  "w_kc (step_ok sample_rbac_env (gc ((live_world live_kubeconfig)\<lparr>w_kc := Some retargeted_kubeconfig\<rparr>))) = None
   \<and> ''b'' \<in> owned_at ''uid-kc''
       (step_ok sample_rbac_env (gc ((live_world live_kubeconfig)\<lparr>w_kc := Some retargeted_kubeconfig\<rparr>))) sample_store"
  using kubeconfig_retarget_leaks [of "live_world live_kubeconfig" live_kubeconfig "''root''" "''b''" sample_store
      retargeted_kubeconfig 7 other_target sample_rbac_env "GetRootShardBaseURL sample_rootshard @ ''/clusters/root''"]
    live_owned [of live_kubeconfig] retargeted_store stores_differ
  by (simp add: live_fields has_cleanup_def retargeted_kubeconfig_def Let_def) (simp add: live_world_def)

theorem kubeconfig_early_deletion_stuck_witness:
  "\<exists>v. run_result (rbac_Reconcile sample_rbac_env) v [] = Inl nil_deref \<and> run_world (rbac_Reconcile sample_rbac_env) v [Applied] = v"
  using kubeconfig_early_deletion_stuck [OF fresh_kc, of sample_rbac_env 7]
  by (simp add: sample_kubeconfig_def sample_meta_def has_cleanup_def ObjectMeta_zero_def Let_def) blast

end
