(* ===== verification/Cluster_World.thy ===== *)
theory Cluster_World
  imports Api_Actions Kcp_Client Pki_RootShard Controller_Util Sample_Objects
begin

text \<open>
  One namespace of the API server as a state, and the calls the controllers make on it. Reading an
  object that does not exist is an error for which \<open>IsNotFound\<close> holds, and so is patching one.

  \<open>ensure_objects\<close> is what the generated \<open>Reconcile<Kind>s\<close> loops of \<open>pkg/reconciling\<close> do with the
  reconciling library: per reconciler it reads the object, applies the reconciler to it or to the
  zero object with the name and namespace set, and creates or updates it when something changed;
  the first error ends the loop. That is the documented contract of the library, which is not part of
  the repository; the text put before its errors names neither the kind nor the object here. The
  list it returns is what the \<open>Capture\<close> modifier of
  \<open>pkg/reconciling/modifier\<close> collects: every object a reconciler produced. Owner references,
  which the code adds with another modifier, and resource versions are left out.
\<close>

section \<open>The state\<close>

record ns_world =
  nw_rootshards :: "(string, RootShard) fmap"
  nw_shards :: "(string, Shard) fmap"
  nw_frontproxies :: "(string, FrontProxy) fmap"
  nw_cacheservers :: "(string, CacheServer) fmap"
  nw_vws :: "(string, VirtualWorkspace) fmap"
  nw_kubeconfigs :: "(string, Kubeconfig) fmap"
  nw_certs :: "(string, CertManagerCertificate) fmap"
  nw_issuers :: "(string, Issuer) fmap"
  nw_secrets :: "(string, Secret) fmap"
  nw_crootshards :: "(string, CompiledRootShard) fmap"
  nw_cshards :: "(string, CompiledShard) fmap"
  nw_cfrontproxies :: "(string, CompiledFrontProxy) fmap"
  nw_ccacheservers :: "(string, CompiledCacheServer) fmap"
  nw_cvws :: "(string, CompiledVirtualWorkspace) fmap"
  nw_kcp :: "string \<Rightarrow> string list"

text \<open>\<open>nw_kcp host\<close> are the names of the kcp Shard objects in the logical cluster behind a host.\<close>

definition lookup_object :: "(string, 'o) fmap \<Rightarrow> string \<Rightarrow> 'o res" where
  "lookup_object m n = (case fmlookup m n of None \<Rightarrow> Inl (NotFound (n @ '' not found'')) | Some x \<Rightarrow> Inr x)"

lemma lookup_object_Inr [simp]: "lookup_object m n = Inr x \<longleftrightarrow> fmlookup m n = Some x"
  by (simp add: lookup_object_def split: option.splits)

definition reader_of :: "ns_world \<Rightarrow> cluster_reader" where
  "reader_of w = \<lparr>get_RootShard = (\<lambda>_. lookup_object (nw_rootshards w)),
     get_Shard = (\<lambda>_. lookup_object (nw_shards w)),
     get_FrontProxy = (\<lambda>_. lookup_object (nw_frontproxies w)),
     get_Secret = (\<lambda>_. lookup_object (nw_secrets w))\<rparr>"

text \<open>A read of an object of a kind.\<close>

definition api_get :: "('w \<Rightarrow> (string, 'o) fmap) \<Rightarrow> string \<Rightarrow> ('w, 'o) act" where
  "api_get get n = api_read (\<lambda>w. lookup_object (get w) n)"

text \<open>A call that changes the state or fails by itself, such as a patch of a missing object.\<close>

definition api_call :: "('w \<Rightarrow> 'w res) \<Rightarrow> ('w, unit) act" where
  "api_call f w os =
     (let ok = (\<lambda>os'. case f w of Inl e \<Rightarrow> (Inl e, w, os') | Inr w' \<Rightarrow> (Inr (), w', os')) in
      case os of
        [] \<Rightarrow> ok []
      | Applied # os' \<Rightarrow> ok os'
      | Rejected # os' \<Rightarrow> (Inl (ApiError ''rejected''), w, os')
      | Lost # os' \<Rightarrow> (Inl (ApiError ''connection lost''), case f w of Inl _ \<Rightarrow> w | Inr w' \<Rightarrow> w', os'))"

text \<open>Go code that goes on after an error keeps it as a value; a panic cannot be kept.\<close>

definition tryA :: "('w, 'a) act \<Rightarrow> ('w, 'a res) act" where
  "tryA m w os = (case m w os of
     (Inl (Panic s), w', os') \<Rightarrow> (Inl (Panic s), w', os')
   | (r, w', os') \<Rightarrow> (Inr r, w', os'))"

definition aggregate :: "go_error list \<Rightarrow> unit res" where
  "aggregate errs = (case NewAggregate errs of None \<Rightarrow> Inr () | Some e \<Rightarrow> Inl e)"

definition errors_of :: "'a res \<Rightarrow> go_error list" where
  "errors_of r = (case r of Inl e \<Rightarrow> [e] | Inr _ \<Rightarrow> [])"

lemma errors_of_simps [simp]: "errors_of (Inl e) = [e]" "errors_of (Inr x) = []"
    "errors_of r = [] \<longleftrightarrow> (\<exists>x. r = Inr x)"
  by (simp_all add: errors_of_def split: sum.splits)

lemma aggregate_simps [simp]: "aggregate [] = Inr ()" "aggregate (e # es) = Inl (Aggregate (e # es))"
  "aggregate es = Inr () \<longleftrightarrow> es = []"
  by (simp_all add: aggregate_def NewAggregate_def)

section \<open>Ensuring objects\<close>

record ('w, 'o) object_kind =
  k_get :: "'w \<Rightarrow> (string, 'o) fmap"
  k_put :: "(string, 'o) fmap \<Rightarrow> 'w \<Rightarrow> 'w"
  k_zero :: 'o
  k_name :: "string \<Rightarrow> 'o \<Rightarrow> 'o"

text \<open>\<open>k_name\<close> is \<open>CreateWithName\<close> of the library, which sets the name of what a reconciler returns.\<close>

definition ensure_object ::
    "('w, 'o) object_kind \<Rightarrow> string \<times> ('o \<Rightarrow> 'o res) \<Rightarrow> ('w, 'o option \<times> unit res) act" where
  "ensure_object K rec =
     bindA (tryA (api_read (\<lambda>w. Inr (fmlookup (k_get K w) (fst rec))))) (\<lambda>r. case r of
       Inl e \<Rightarrow> returnA (None, Inl e)
     | Inr old \<Rightarrow>
         bindA (tryA (liftA (snd rec (case old of None \<Rightarrow> k_zero K | Some o1 \<Rightarrow> o1)))) (\<lambda>r. case r of
           Inl e \<Rightarrow> returnA (None, Inl e)
         | Inr obj \<Rightarrow>
             let new = k_name K (fst rec) obj in
             if old = Some new then returnA (Some new, Inr ())
             else bindA (tryA (api_write (\<lambda>w. k_put K (fmupd (fst rec) new (k_get K w)) w)))
                    (\<lambda>r. returnA (Some new, r))))"

fun ensure_objects ::
    "('w, 'o) object_kind \<Rightarrow> 'o list \<Rightarrow> (string \<times> ('o \<Rightarrow> 'o res)) list \<Rightarrow> ('w, 'o list \<times> unit res) act" where
  "ensure_objects K captured [] = returnA (captured, Inr ())"
| "ensure_objects K captured (rec # recs) =
     bindA (ensure_object K rec) (\<lambda>(c, r).
       let captured' = captured @ (case c of None \<Rightarrow> [] | Some x \<Rightarrow> [x]) in
       case r of
         Inl e \<Rightarrow> returnA (captured', Inl (wrap_error ''failed to ensure object'' e))
       | Inr _ \<Rightarrow> ensure_objects K captured' recs)"

abbreviation pure_reconcilers :: "(string \<times> ('o \<Rightarrow> 'o)) list \<Rightarrow> (string \<times> ('o \<Rightarrow> 'o res)) list" where
  "pure_reconcilers recs \<equiv> map (\<lambda>(n, f). (n, \<lambda>x. Inr (f x))) recs"

section \<open>The kinds\<close>

text \<open>Zero values of Go, which a reconciler of a new object starts from.\<close>

definition ExternalConfig_zero :: ExternalConfig where
  "ExternalConfig_zero = \<lparr>ext_Hostname = [], ext_Port = 0, ext_PrivateHostname = [], ext_PrivatePort = None\<rparr>"

definition EtcdConfig_zero :: EtcdConfig where
  "EtcdConfig_zero = \<lparr>etcd_Endpoints = [], etcd_TLSConfig = None, etcd_Prefix = []\<rparr>"

definition RootShardSpec_zero :: RootShardSpec where
  "RootShardSpec_zero = \<lparr>cs_ClusterDomain = [], cs_ShardBaseURL = [], cs_Etcd = EtcdConfig_zero,
     cs_Image = None, cs_Replicas = None, cs_Resources = None, cs_Audit = None,
     cs_Authorization = None, cs_Auth = None, cs_KCPVirtualWorkspace = None,
     cs_CertificateTemplates = fmempty, cs_ServiceTemplate = None, cs_DeploymentTemplate = None,
     cs_CABundleSecretRef = None, cs_ClientCABundleRef = None, cs_ExtraArgs = [],
     cs_ExtraVolumes = [], cs_ExtraVolumeMounts = [], cs_Logging = None,
     rs_External = ExternalConfig_zero, rs_Cache = \<lparr>rcc_Embedded = None, rcc_Reference = None\<rparr>,
     rs_Proxy = None, rs_Certificates = \<lparr>crt_IssuerRef = None, crt_CASecretRef = None\<rparr>\<rparr>"

definition ShardSpec_zero :: ShardSpec where
  "ShardSpec_zero = \<lparr>cs_ClusterDomain = [], cs_ShardBaseURL = [], cs_Etcd = EtcdConfig_zero,
     cs_Image = None, cs_Replicas = None, cs_Resources = None, cs_Audit = None,
     cs_Authorization = None, cs_Auth = None, cs_KCPVirtualWorkspace = None,
     cs_CertificateTemplates = fmempty, cs_ServiceTemplate = None, cs_DeploymentTemplate = None,
     cs_CABundleSecretRef = None, cs_ClientCABundleRef = None, cs_ExtraArgs = [],
     cs_ExtraVolumes = [], cs_ExtraVolumeMounts = [], cs_Logging = None,
     ss_RootShard = \<lparr>rsc_Reference = None\<rparr>, ss_Cache = None\<rparr>"

definition FrontProxySpec_zero :: FrontProxySpec where
  "FrontProxySpec_zero = sample_frontproxy_spec\<lparr>fp_RootShard := \<lparr>rsc_Reference = None\<rparr>\<rparr>"

definition CacheServerSpec_zero :: CacheServerSpec where
  "CacheServerSpec_zero = sample_cacheserver_spec\<lparr>ca_Certificates := \<lparr>crt_IssuerRef = None, crt_CASecretRef = None\<rparr>\<rparr>"

definition VirtualWorkspaceSpec_zero :: VirtualWorkspaceSpec where
  "VirtualWorkspaceSpec_zero = sample_vw_spec\<lparr>vw_Target := \<lparr>vt_RootShardRef = None, vt_ShardRef = None\<rparr>,
     vw_External := ExternalConfig_zero\<rparr>"

abbreviation named_rootshard_zero :: NamedRootShardSpec where
  "named_rootshard_zero \<equiv> \<lparr>nrs_Name = [], nrs_Spec = RootShardSpec_zero\<rparr>"

definition cert_kind :: "(ns_world, CertManagerCertificate) object_kind" where
  "cert_kind = \<lparr>k_get = nw_certs, k_put = \<lambda>m w. w\<lparr>nw_certs := m\<rparr>, k_zero = zero_certificate,
     k_name = \<lambda>n c. c\<lparr>cc_Meta := (cc_Meta c)\<lparr>om_Name := n\<rparr>\<rparr>\<rparr>"

definition issuer_kind :: "(ns_world, Issuer) object_kind" where
  "issuer_kind = \<lparr>k_get = nw_issuers, k_put = \<lambda>m w. w\<lparr>nw_issuers := m\<rparr>,
     k_zero = \<lparr>is_Meta = ObjectMeta_zero, is_CASecretName = None\<rparr>,
     k_name = \<lambda>n c. c\<lparr>is_Meta := (is_Meta c)\<lparr>om_Name := n\<rparr>\<rparr>\<rparr>"

definition secret_kind :: "(ns_world, Secret) object_kind" where
  "secret_kind = \<lparr>k_get = nw_secrets, k_put = \<lambda>m w. w\<lparr>nw_secrets := m\<rparr>,
     k_zero = \<lparr>sec_Meta = ObjectMeta_zero, sec_Data = fmempty\<rparr>,
     k_name = \<lambda>n c. c\<lparr>sec_Meta := (sec_Meta c)\<lparr>om_Name := n\<rparr>\<rparr>\<rparr>"

definition crootshard_kind :: "(ns_world, CompiledRootShard) object_kind" where
  "crootshard_kind = \<lparr>k_get = nw_crootshards, k_put = \<lambda>m w. w\<lparr>nw_crootshards := m\<rparr>,
     k_zero = \<lparr>crsh_Meta = ObjectMeta_zero, crsh_Spec = \<lparr>crs_RootShard = RootShardSpec_zero,
       crs_VirtualWorkspace = None, crs_Shards = []\<rparr>,
       crsh_Status = \<lparr>rst_Phase = PhaseUnset, rst_Conditions = [], rst_Shards = []\<rparr>\<rparr>,
     k_name = \<lambda>n c. c\<lparr>crsh_Meta := (crsh_Meta c)\<lparr>om_Name := n\<rparr>\<rparr>\<rparr>"

definition cshard_kind :: "(ns_world, CompiledShard) object_kind" where
  "cshard_kind = \<lparr>k_get = nw_cshards, k_put = \<lambda>m w. w\<lparr>nw_cshards := m\<rparr>,
     k_zero = \<lparr>cso_Meta = ObjectMeta_zero, cso_Spec = \<lparr>csh_Shard = ShardSpec_zero,
       csh_RootShard = named_rootshard_zero, csh_VirtualWorkspace = None, csh_Shards = []\<rparr>,
       cso_Status = \<lparr>shst_Phase = PhaseUnset, shst_Conditions = []\<rparr>\<rparr>,
     k_name = \<lambda>n c. c\<lparr>cso_Meta := (cso_Meta c)\<lparr>om_Name := n\<rparr>\<rparr>\<rparr>"

definition cfrontproxy_kind :: "(ns_world, CompiledFrontProxy) object_kind" where
  "cfrontproxy_kind = \<lparr>k_get = nw_cfrontproxies, k_put = \<lambda>m w. w\<lparr>nw_cfrontproxies := m\<rparr>,
     k_zero = \<lparr>cfpo_Meta = ObjectMeta_zero, cfpo_Spec = \<lparr>cfp_FrontProxy = FrontProxySpec_zero,
       cfp_RootShard = named_rootshard_zero, cfp_Shards = []\<rparr>,
       cfpo_Status = \<lparr>fst_Phase = PhaseUnset, fst_Conditions = []\<rparr>\<rparr>,
     k_name = \<lambda>n c. c\<lparr>cfpo_Meta := (cfpo_Meta c)\<lparr>om_Name := n\<rparr>\<rparr>\<rparr>"

definition ccacheserver_kind :: "(ns_world, CompiledCacheServer) object_kind" where
  "ccacheserver_kind = \<lparr>k_get = nw_ccacheservers, k_put = \<lambda>m w. w\<lparr>nw_ccacheservers := m\<rparr>,
     k_zero = \<lparr>ccs_Meta = ObjectMeta_zero, ccs_Spec = CacheServerSpec_zero\<rparr>,
     k_name = \<lambda>n c. c\<lparr>ccs_Meta := (ccs_Meta c)\<lparr>om_Name := n\<rparr>\<rparr>\<rparr>"

definition cvw_kind :: "(ns_world, CompiledVirtualWorkspace) object_kind" where
  "cvw_kind = \<lparr>k_get = nw_cvws, k_put = \<lambda>m w. w\<lparr>nw_cvws := m\<rparr>,
     k_zero = \<lparr>cvwo_Meta = ObjectMeta_zero, cvwo_Spec = \<lparr>cvw_VirtualWorkspace = VirtualWorkspaceSpec_zero,
       cvw_RootShard = named_rootshard_zero, cvw_Shard = None\<rparr>, cvwo_Conditions = []\<rparr>,
     k_name = \<lambda>n c. c\<lparr>cvwo_Meta := (cvwo_Meta c)\<lparr>om_Name := n\<rparr>\<rparr>\<rparr>"

lemmas kind_defs = cert_kind_def issuer_kind_def secret_kind_def crootshard_kind_def cshard_kind_def
  cfrontproxy_kind_def ccacheserver_kind_def cvw_kind_def

section \<open>Reads the controllers share\<close>

text \<open>The secrets as a reader sees them; when the call fails every lookup does.\<close>

definition secrets_now :: "(ns_world, secret_getter) act" where
  "secrets_now = bindA (tryA (api_read (\<lambda>w. Inr (get_Secret (reader_of w))))) (\<lambda>r. returnA (case r of
     Inl e \<Rightarrow> (\<lambda>_ _. Inl e) | Inr get \<Rightarrow> get))"

definition fetch_rootshard :: "LocalObjectReference option \<Rightarrow> (ns_world, Condition \<times> RootShard option) act" where
  "fetch_rootshard ref = (case ref of
     None \<Rightarrow> returnA (FetchRootShard (\<lambda>n. Inl (NotFound n)) None)
   | Some l \<Rightarrow> bindA (tryA (api_get nw_rootshards (lor_Name l))) (\<lambda>r. returnA (FetchRootShard (\<lambda>_. r) ref)))"

definition rootshard_children :: "RootShard \<Rightarrow> (ns_world, Shard list res) act" where
  "rootshard_children r =
     bindA (tryA (api_read (\<lambda>w. Inr (map snd (sorted_list_of_fmap (nw_shards w)))))) (\<lambda>shards.
     tryA (liftA (GetRootShardChildren shards r)))"

text \<open>The virtual workspace a shard refers to, if any.\<close>

definition find_vw :: "LocalObjectReference option \<Rightarrow> (ns_world, VirtualWorkspace option res) act" where
  "find_vw ref = (case ref of
     None \<Rightarrow> returnA (Inr None)
   | Some l \<Rightarrow> tryA (bindA (wrapA (''failed to find associated VirtualWorkspace '' @ lor_Name l)
        (api_get nw_vws (lor_Name l))) (\<lambda>v. returnA (Some v))))"

section \<open>Rules\<close>

lemma holds_try:
  assumes "holds P m R" "\<And>s w. R (Inl (Panic s)) w \<Longrightarrow> Q (Inl (Panic s)) w" "\<And>r w. R r w \<Longrightarrow> Q (Inr r) w"
  shows "holds P (tryA m) Q"
  unfolding holds_def
proof (intro allI impI)
  fix w os
  assume "P w"
  obtain r w' os' where m: "m w os = (r, w', os')" by (cases "m w os") auto
  then have "R r w'"
    using assms(1) [unfolded holds_def, rule_format, OF \<open>P w\<close>, of os] by simp
  then show "case tryA m w os of (r, w', os') \<Rightarrow> Q r w'"
    using assms(2,3) m by (auto simp: tryA_def split: sum.splits go_error.splits)
qed

lemma holds_call:
  assumes "\<And>w w' r. P w \<Longrightarrow> f w = Inr w' \<Longrightarrow> Q r w'" "\<And>w r. P w \<Longrightarrow> Q r w"
  shows "holds P (api_call f) Q"
  using assms by (auto simp: holds_def api_call_def Let_def split: list.splits outcome.splits sum.splits)

lemma holds_call_result:
  assumes "\<And>w w'. P w \<Longrightarrow> f w = Inr w' \<Longrightarrow> Q (Inr ()) w' \<and> Q (Inl (ApiError ''connection lost'')) w'"
    "\<And>w. P w \<Longrightarrow> Q (Inl (ApiError ''rejected'')) w \<and> Q (Inl (ApiError ''connection lost'')) w"
    "\<And>w e. P w \<Longrightarrow> f w = Inl e \<Longrightarrow> Q (Inl e) w"
  shows "holds P (api_call f) Q"
  using assms by (fastforce simp: holds_def api_call_def Let_def split: list.splits outcome.splits sum.splits)

lemma holds_read_any: "(\<And>w r. P w \<Longrightarrow> Q r w) \<Longrightarrow> holds P (api_read g) Q"
  by (rule holds_read) auto

text \<open>A predicate that an action keeps, whatever it returns.\<close>

definition keeps :: "('w \<Rightarrow> bool) \<Rightarrow> ('w, 'a) act \<Rightarrow> bool" where
  "keeps P m \<longleftrightarrow> holds P m (\<lambda>_. P)"

lemma keeps_return: "keeps P (returnA x)" and keeps_fail: "keeps P (failA e)" and keeps_lift: "keeps P (liftA r)"
  by (simp_all add: keeps_def holds_return holds_fail holds_lift)

lemma keeps_read: "keeps P (api_read g)"
  unfolding keeps_def by (rule holds_read)

lemma keeps_get: "keeps P (api_get g n)"
  unfolding api_get_def by (rule keeps_read)

lemma keeps_write: "(\<And>w. P w \<Longrightarrow> P (f w)) \<Longrightarrow> keeps P (api_write f)"
  unfolding keeps_def by (rule holds_write) auto

lemma keeps_call: "(\<And>w w'. P w \<Longrightarrow> f w = Inr w' \<Longrightarrow> P w') \<Longrightarrow> keeps P (api_call f)"
  unfolding keeps_def by (rule holds_call) auto

lemma keeps_bind: "keeps P m \<Longrightarrow> (\<And>x. keeps P (f x)) \<Longrightarrow> keeps P (bindA m f)"
  unfolding keeps_def by (rule holds_bind) auto

lemma keeps_wrap: "keeps P m \<Longrightarrow> keeps P (wrapA msg m)"
  unfolding keeps_def by (rule holds_wrap) auto

lemma keeps_try: "keeps P m \<Longrightarrow> keeps P (tryA m)"
  unfolding keeps_def by (rule holds_try) auto

lemmas keeps_basic = keeps_return keeps_fail keeps_lift keeps_read keeps_get

lemma keeps_ensure_object:
  assumes "\<And>w x. P w \<Longrightarrow> P (k_put K (fmupd (fst rec) (k_name K (fst rec) x) (k_get K w)) w)"
  shows "keeps P (ensure_object K rec)"
  unfolding ensure_object_def
  by (intro keeps_bind keeps_try keeps_basic) (auto split: sum.split simp: Let_def
      intro!: keeps_bind keeps_try keeps_basic keeps_write assms)

lemma keeps_ensure:
  assumes "\<And>w n x. P w \<Longrightarrow> P (k_put K (fmupd n (k_name K n x) (k_get K w)) w)"
  shows "keeps P (ensure_objects K caps recs)"
proof (induction recs arbitrary: caps)
  case Nil
  then show ?case by (simp add: keeps_return)
next
  case (Cons rec recs)
  then show ?case
    by (auto split: prod.split sum.split simp: Let_def
        intro!: keeps_bind keeps_ensure_object keeps_return assms)
qed

lemma keeps_shared:
  "keeps P secrets_now" "keeps P (fetch_rootshard ref)" "keeps P (rootshard_children r)" "keeps P (find_vw v)"
  unfolding secrets_now_def fetch_rootshard_def rootshard_children_def find_vw_def
  by (auto split: option.split intro!: keeps_bind keeps_try keeps_wrap keeps_basic)

section \<open>What ensuring objects achieves\<close>

definition kind_ok :: "('w, 'o) object_kind \<Rightarrow> ('o \<Rightarrow> string) \<Rightarrow> bool" where
  "kind_ok K name \<longleftrightarrow> (\<forall>m w. k_get K (k_put K m w) = m) \<and> (\<forall>n x. name (k_name K n x) = n)"

text \<open>The object \<open>c\<close> is in the cluster under the name of its reconciler, which produced it.\<close>

definition ensured_as :: "('w, 'o) object_kind \<Rightarrow> 'w \<Rightarrow> string \<times> ('o \<Rightarrow> 'o res) \<Rightarrow> 'o \<Rightarrow> bool" where
  "ensured_as K w rec c \<longleftrightarrow> fmlookup (k_get K w) (fst rec) = Some c
     \<and> (\<exists>old obj. snd rec old = Inr obj \<and> c = k_name K (fst rec) obj)"

lemma ensure_object_holds:
  assumes K: "kind_ok K name" and P: "\<And>w m. P w \<Longrightarrow> P (k_put K m w)"
  shows "holds (\<lambda>w. P w \<and> list_all2 (ensured_as K w) recs0 caps \<and> fst rec \<notin> fst ` set recs0)
     (ensure_object K rec)
     (\<lambda>r w. P w \<and> list_all2 (ensured_as K w) recs0 caps
        \<and> (\<forall>c. r = Inr (c, Inr ()) \<longrightarrow> (\<exists>x. c = Some x \<and> ensured_as K w rec x)))"
proof -
  let ?I = "\<lambda>w. P w \<and> list_all2 (ensured_as K w) recs0 caps \<and> fst rec \<notin> fst ` set recs0"
  have put: "list_all2 (ensured_as K (k_put K (fmupd (fst rec) new (k_get K w)) w)) recs0 caps"
    if "?I w" for w new
    using that K
    by (auto simp: kind_ok_def ensured_as_def list_all2_conv_all_nth)
  let ?Q = "\<lambda>r w. P w \<and> list_all2 (ensured_as K w) recs0 caps
        \<and> (\<forall>c. r = Inr (c, Inr ()) \<longrightarrow> (\<exists>x. c = Some x \<and> ensured_as K w rec x))"
  have same: "holds (\<lambda>w. ?I w \<and> fmlookup (k_get K w) (fst rec) = Some (k_name K (fst rec) obj))
      (returnA (Some (k_name K (fst rec) obj), Inr ())) ?Q" if "snd rec o1 = Inr obj" for obj o1
    using that by (auto intro!: holds_return simp: ensured_as_def)
  have change: "holds ?I (bindA (tryA (api_write (\<lambda>w. k_put K (fmupd (fst rec) (k_name K (fst rec) obj) (k_get K w)) w)))
      (\<lambda>r. returnA (Some (k_name K (fst rec) obj), r))) ?Q" if "snd rec o1 = Inr obj" for obj o1
  proof (rule holds_bind [where R = "\<lambda>r w. P w \<and> list_all2 (ensured_as K w) recs0 caps
      \<and> (r = Inr (Inr ()) \<longrightarrow> ensured_as K w rec (k_name K (fst rec) obj))"])
    show "holds ?I (tryA (api_write (\<lambda>w. k_put K (fmupd (fst rec) (k_name K (fst rec) obj) (k_get K w)) w)))
       (\<lambda>r w. P w \<and> list_all2 (ensured_as K w) recs0 caps
          \<and> (r = Inr (Inr ()) \<longrightarrow> ensured_as K w rec (k_name K (fst rec) obj)))"
      by (rule holds_try [where R = "\<lambda>r w. P w \<and> list_all2 (ensured_as K w) recs0 caps
            \<and> (r = Inr () \<longrightarrow> ensured_as K w rec (k_name K (fst rec) obj))"], rule holds_write)
        (use put P K that in \<open>auto simp: ensured_as_def kind_ok_def\<close>)
  qed (auto intro!: holds_return)
  show ?thesis
    unfolding ensure_object_def
  proof (rule holds_bind [where R = "\<lambda>r w. ?I w \<and> (\<forall>old. r = Inr (Inr old) \<longrightarrow> fmlookup (k_get K w) (fst rec) = old)"])
    show "holds ?I (tryA (api_read (\<lambda>w. Inr (fmlookup (k_get K w) (fst rec)))))
       (\<lambda>r w. ?I w \<and> (\<forall>old. r = Inr (Inr old) \<longrightarrow> fmlookup (k_get K w) (fst rec) = old))"
      by (rule holds_try [where R = "\<lambda>r w. ?I w \<and> (\<forall>old. r = Inr old \<longrightarrow> fmlookup (k_get K w) (fst rec) = old)"],
          rule holds_read) auto
    show "holds (\<lambda>w. ?I w \<and> (\<forall>old. Inr r = Inr (Inr old) \<longrightarrow> fmlookup (k_get K w) (fst rec) = old))
       (case r of Inl e \<Rightarrow> returnA (None, Inl e) | Inr old \<Rightarrow>
          bindA (tryA (liftA (snd rec (case old of None \<Rightarrow> k_zero K | Some o1 \<Rightarrow> o1)))) (\<lambda>r. case r of
             Inl e \<Rightarrow> returnA (None, Inl e)
           | Inr obj \<Rightarrow> let new = k_name K (fst rec) obj in
               if old = Some new then returnA (Some new, Inr ())
               else bindA (tryA (api_write (\<lambda>w. k_put K (fmupd (fst rec) new (k_get K w)) w)))
                      (\<lambda>r. returnA (Some new, r)))) ?Q" for r :: "'b option res"
    proof (cases r)
      case (Inl e)
      then show ?thesis by (auto intro!: holds_return)
    next
      case (Inr old)
      let ?o = "case old of None \<Rightarrow> k_zero K | Some o1 \<Rightarrow> o1"
      have rest: "holds (\<lambda>w. ?I w \<and> fmlookup (k_get K w) (fst rec) = old
            \<and> (\<forall>y. Inr x = Inr y \<longrightarrow> (\<forall>obj. y = Inr obj \<longrightarrow> snd rec ?o = Inr obj)))
         (case x of Inl e \<Rightarrow> returnA (None, Inl e)
           | Inr obj \<Rightarrow> let new = k_name K (fst rec) obj in
               if old = Some new then returnA (Some new, Inr ())
               else bindA (tryA (api_write (\<lambda>w. k_put K (fmupd (fst rec) new (k_get K w)) w)))
                      (\<lambda>r. returnA (Some new, r))) ?Q" for x
      proof (cases x)
        case (Inl e)
        then show ?thesis by (auto intro!: holds_return)
      next
        case (Inr obj)
        show ?thesis
        proof (cases "snd rec ?o = Inr obj")
          case True
          show ?thesis
            using same [OF True] change [OF True] Inr
            by (cases "old = Some (k_name K (fst rec) obj)") (auto simp: Let_def elim!: holds_pre)
        next
          case False
          then show ?thesis using Inr by (simp add: holds_def)
        qed
      qed
      show ?thesis
        unfolding Inr sum.case
      proof (rule holds_bind [where R = "\<lambda>r w. ?I w \<and> fmlookup (k_get K w) (fst rec) = old
            \<and> (\<forall>y. r = Inr y \<longrightarrow> (\<forall>obj. y = Inr obj \<longrightarrow> snd rec ?o = Inr obj))", OF _ _ rest])
        show "holds (\<lambda>w. ?I w \<and> (\<forall>old'. Inr (Inr old) = Inr (Inr old') \<longrightarrow> fmlookup (k_get K w) (fst rec) = old'))
            (tryA (liftA (snd rec ?o)))
            (\<lambda>r w. ?I w \<and> fmlookup (k_get K w) (fst rec) = old \<and> (\<forall>y. r = Inr y \<longrightarrow> (\<forall>obj. y = Inr obj \<longrightarrow> snd rec ?o = Inr obj)))"
          by (rule holds_try [where R = "\<lambda>r w. ?I w \<and> fmlookup (k_get K w) (fst rec) = old \<and> r = snd rec ?o"],
              rule holds_lift) auto
      qed auto
    qed
  qed auto
qed

lemma ensure_objects_holds:
  assumes K: "kind_ok K name" and P: "\<And>w m. P w \<Longrightarrow> P (k_put K m w)"
  shows "distinct (map fst (recs0 @ recs)) \<Longrightarrow>
     holds (\<lambda>w. P w \<and> list_all2 (ensured_as K w) recs0 caps) (ensure_objects K caps recs)
       (\<lambda>r w. P w \<and> (\<forall>cs. r = Inr (cs, Inr ()) \<longrightarrow> list_all2 (ensured_as K w) (recs0 @ recs) cs))"
proof (induction recs arbitrary: recs0 caps)
  case Nil
  then show ?case by (auto intro!: holds_return)
next
  case (Cons rec recs)
  let ?Q = "\<lambda>r w. P w \<and> (\<forall>cs. r = Inr (cs, Inr ()) \<longrightarrow> list_all2 (ensured_as K w) (recs0 @ rec # recs) cs)"
  let ?R = "\<lambda>r w. P w \<and> list_all2 (ensured_as K w) recs0 caps
      \<and> (\<forall>c. r = Inr (c, Inr ()) \<longrightarrow> (\<exists>x. c = Some x \<and> ensured_as K w rec x))"
  have rest: "holds (?R (Inr x)) (case x of (c, r) \<Rightarrow>
       let captured' = caps @ (case c of None \<Rightarrow> [] | Some x \<Rightarrow> [x]) in
       case r of Inl e \<Rightarrow> returnA (captured', Inl (wrap_error ''failed to ensure object'' e))
       | Inr _ \<Rightarrow> ensure_objects K captured' recs) ?Q" for x
  proof (cases "\<exists>y. x = (Some y, Inr ())")
    case True
    then obtain y where y: "x = (Some y, Inr ())" by blast
    show ?thesis
      using Cons.IH [of "recs0 @ [rec]" "caps @ [y]"] Cons.prems
      by (auto simp: y list_all2_appendI elim!: holds_pre)
  next
    case False
    then show ?thesis
      by (cases x; cases "snd x"; cases "fst x") (auto simp: holds_def returnA_def)
  qed
  have "holds (\<lambda>w. P w \<and> list_all2 (ensured_as K w) recs0 caps) (ensure_object K rec) ?R"
    by (rule holds_pre [OF ensure_object_holds [where P = P, OF K P]]) (use Cons.prems in auto)
  then show ?case
    unfolding ensure_objects.simps by (rule holds_bind [where R = ?R, OF _ _ rest]) auto
qed

lemma kinds_ok:
  "kind_ok cert_kind (\<lambda>c. om_Name (cc_Meta c))" "kind_ok issuer_kind (\<lambda>c. om_Name (is_Meta c))"
  "kind_ok secret_kind (\<lambda>c. om_Name (sec_Meta c))" "kind_ok cshard_kind (\<lambda>c. om_Name (cso_Meta c))"
  "kind_ok crootshard_kind (\<lambda>c. om_Name (crsh_Meta c))" "kind_ok cfrontproxy_kind (\<lambda>c. om_Name (cfpo_Meta c))"
  "kind_ok ccacheserver_kind (\<lambda>c. om_Name (ccs_Meta c))" "kind_ok cvw_kind (\<lambda>c. om_Name (cvwo_Meta c))"
  by (simp_all add: kind_ok_def kind_defs)

text \<open>Ensuring objects of a kind keeps what storing an object of that kind under its name keeps.\<close>

lemma keeps_kinds:
  "(\<And>w n x. P w \<Longrightarrow> om_Name (cc_Meta x) = n \<Longrightarrow> P (w\<lparr>nw_certs := fmupd n x (nw_certs w)\<rparr>))
     \<Longrightarrow> keeps P (ensure_objects cert_kind caps1 recs1)"
  "(\<And>w n x. P w \<Longrightarrow> om_Name (is_Meta x) = n \<Longrightarrow> P (w\<lparr>nw_issuers := fmupd n x (nw_issuers w)\<rparr>))
     \<Longrightarrow> keeps P (ensure_objects issuer_kind caps2 recs2)"
  "(\<And>w n x. P w \<Longrightarrow> om_Name (sec_Meta x) = n \<Longrightarrow> P (w\<lparr>nw_secrets := fmupd n x (nw_secrets w)\<rparr>))
     \<Longrightarrow> keeps P (ensure_objects secret_kind caps3 recs3)"
  "(\<And>w n x. P w \<Longrightarrow> om_Name (crsh_Meta x) = n \<Longrightarrow> P (w\<lparr>nw_crootshards := fmupd n x (nw_crootshards w)\<rparr>))
     \<Longrightarrow> keeps P (ensure_objects crootshard_kind caps4 recs4)"
  "(\<And>w n x. P w \<Longrightarrow> om_Name (cso_Meta x) = n \<Longrightarrow> P (w\<lparr>nw_cshards := fmupd n x (nw_cshards w)\<rparr>))
     \<Longrightarrow> keeps P (ensure_objects cshard_kind caps5 recs5)"
  "(\<And>w n x. P w \<Longrightarrow> om_Name (cfpo_Meta x) = n \<Longrightarrow> P (w\<lparr>nw_cfrontproxies := fmupd n x (nw_cfrontproxies w)\<rparr>))
     \<Longrightarrow> keeps P (ensure_objects cfrontproxy_kind caps6 recs6)"
  "(\<And>w n x. P w \<Longrightarrow> om_Name (ccs_Meta x) = n \<Longrightarrow> P (w\<lparr>nw_ccacheservers := fmupd n x (nw_ccacheservers w)\<rparr>))
     \<Longrightarrow> keeps P (ensure_objects ccacheserver_kind caps7 recs7)"
  "(\<And>w n x. P w \<Longrightarrow> om_Name (cvwo_Meta x) = n \<Longrightarrow> P (w\<lparr>nw_cvws := fmupd n x (nw_cvws w)\<rparr>))
     \<Longrightarrow> keeps P (ensure_objects cvw_kind caps8 recs8)"
  by (rule keeps_ensure; simp add: kind_defs)+

section \<open>Objects are stored under their names\<close>

definition well_named :: "ns_world \<Rightarrow> bool" where
  "well_named w \<longleftrightarrow> fmpred (\<lambda>n x. om_Name (rsh_Meta x) = n) (nw_rootshards w)
     \<and> fmpred (\<lambda>n x. om_Name (sh_Meta x) = n) (nw_shards w)
     \<and> fmpred (\<lambda>n x. om_Name (fpx_Meta x) = n) (nw_frontproxies w)
     \<and> fmpred (\<lambda>n x. om_Name (cas_Meta x) = n) (nw_cacheservers w)
     \<and> fmpred (\<lambda>n x. om_Name (vwo_Meta x) = n) (nw_vws w)
     \<and> fmpred (\<lambda>n x. om_Name (kc_Meta x) = n) (nw_kubeconfigs w)
     \<and> fmpred (\<lambda>n x. om_Name (cc_Meta x) = n) (nw_certs w)
     \<and> fmpred (\<lambda>n x. om_Name (is_Meta x) = n) (nw_issuers w)
     \<and> fmpred (\<lambda>n x. om_Name (sec_Meta x) = n) (nw_secrets w)
     \<and> fmpred (\<lambda>n x. om_Name (crsh_Meta x) = n) (nw_crootshards w)
     \<and> fmpred (\<lambda>n x. om_Name (cso_Meta x) = n) (nw_cshards w)
     \<and> fmpred (\<lambda>n x. om_Name (cfpo_Meta x) = n) (nw_cfrontproxies w)
     \<and> fmpred (\<lambda>n x. om_Name (ccs_Meta x) = n) (nw_ccacheservers w)
     \<and> fmpred (\<lambda>n x. om_Name (cvwo_Meta x) = n) (nw_cvws w)"

lemma well_named_objects:
  assumes "well_named w"
  shows "fmlookup (nw_rootshards w) n = Some r \<Longrightarrow> om_Name (rsh_Meta r) = n"
    "fmlookup (nw_shards w) n = Some s \<Longrightarrow> om_Name (sh_Meta s) = n"
    "fmlookup (nw_frontproxies w) n = Some f \<Longrightarrow> om_Name (fpx_Meta f) = n"
    "fmlookup (nw_cacheservers w) n = Some c \<Longrightarrow> om_Name (cas_Meta c) = n"
    "fmlookup (nw_vws w) n = Some v \<Longrightarrow> om_Name (vwo_Meta v) = n"
    "fmlookup (nw_kubeconfigs w) n = Some k \<Longrightarrow> om_Name (kc_Meta k) = n"
  using assms by (auto simp: well_named_def dest: fmpredD)

lemma well_named_put [intro]:
  assumes "well_named w"
  shows "om_Name (cc_Meta x1) = n \<Longrightarrow> well_named (w\<lparr>nw_certs := fmupd n x1 (nw_certs w)\<rparr>)"
    "om_Name (is_Meta x2) = n \<Longrightarrow> well_named (w\<lparr>nw_issuers := fmupd n x2 (nw_issuers w)\<rparr>)"
    "om_Name (sec_Meta x3) = n \<Longrightarrow> well_named (w\<lparr>nw_secrets := fmupd n x3 (nw_secrets w)\<rparr>)"
    "om_Name (crsh_Meta x4) = n \<Longrightarrow> well_named (w\<lparr>nw_crootshards := fmupd n x4 (nw_crootshards w)\<rparr>)"
    "om_Name (cso_Meta x5) = n \<Longrightarrow> well_named (w\<lparr>nw_cshards := fmupd n x5 (nw_cshards w)\<rparr>)"
    "om_Name (cfpo_Meta x6) = n \<Longrightarrow> well_named (w\<lparr>nw_cfrontproxies := fmupd n x6 (nw_cfrontproxies w)\<rparr>)"
    "om_Name (ccs_Meta x7) = n \<Longrightarrow> well_named (w\<lparr>nw_ccacheservers := fmupd n x7 (nw_ccacheservers w)\<rparr>)"
    "om_Name (cvwo_Meta x8) = n \<Longrightarrow> well_named (w\<lparr>nw_cvws := fmupd n x8 (nw_cvws w)\<rparr>)"
  using assms by (auto simp: well_named_def)

declare ensure_objects.simps [simp del]

end
