(* ===== verification/Controller_Base.thy ===== *)
theory Controller_Base
  imports Cluster_World
begin

text \<open>
  What the controllers of the operator's own objects share: their parameters, the merged CA bundle
  secrets, the publishing of the compiled object once the certificates are ready, the Available
  condition of the compiled object, and the end of \<open>Reconcile\<close>.
\<close>

text \<open>The condition library, the kubeconfig serialiser, the addresses of the components and the
  request path of a logical cluster.\<close>

record ctl_env =
  ce_conditions :: condition_lib
  ce_write :: "kube_config \<Rightarrow> string res"
  ce_address :: Addresser
  ce_requestPath :: "string \<Rightarrow> string"

text \<open>The secrets that depend on what others wrote: the merged CA bundles.\<close>

definition ensure_secrets_if :: "bool \<Rightarrow> (secret_getter \<Rightarrow> secret_reconciler) \<Rightarrow> (ns_world, unit res) act" where
  "ensure_secrets_if configured rec =
     (if configured then bindA secrets_now (\<lambda>get. bindA (ensure_objects secret_kind [] [rec get]) (\<lambda>(_, e). returnA e))
      else returnA (Inr ()))"

text \<open>Publishing the compiled object: its inputs have to be there and every captured certificate
  has to be ready; the revisions go into its annotations.\<close>

definition publish ::
    "(ns_world, 'o) object_kind \<Rightarrow> CertManagerCertificate list \<Rightarrow> (gomap \<Rightarrow> string \<times> ('o \<Rightarrow> 'o))
       \<Rightarrow> (ns_world, unit res) act" where
  "publish K certs rec =
     (let (revisions, certsReady) = CertificateRevisions certs in
      if certsReady
      then bindA (ensure_objects K [] (pure_reconcilers [rec (MutateKeys revisions ''cert-'' ''-revision'')]))
             (\<lambda>(_, e). returnA e)
      else returnA (Inr ()))"

definition available :: "condition_lib \<Rightarrow> Condition list \<Rightarrow> bool" where
  "available lib conditions \<longleftrightarrow> (case FindStatusCondition lib conditions ''Available'' of
     None \<Rightarrow> False | Some c \<Rightarrow> cond_Status c = ConditionTrue)"

text \<open>The compiled object may be missing, which reads as no conditions.\<close>

definition compiled_condition ::
    "condition_lib \<Rightarrow> (ns_world \<Rightarrow> Condition list) \<Rightarrow> string \<Rightarrow> (ns_world, Condition res) act" where
  "compiled_condition lib get name = tryA (api_read (\<lambda>w. Inr (GetCompiledAvailableCondition lib (get w) name)))"

definition conditions_in :: "(string, 'o) fmap \<Rightarrow> ('o \<Rightarrow> Condition list) \<Rightarrow> string \<Rightarrow> Condition list" where
  "conditions_in m conds n = (case fmlookup m n of None \<Rightarrow> [] | Some c \<Rightarrow> conds c)"

definition finish :: "unit res \<Rightarrow> unit res \<Rightarrow> ('w, unit) act" where
  "finish recErr status = liftA (case status of Inr _ \<Rightarrow> recErr
     | Inl e \<Rightarrow> aggregate (errors_of recErr @ [e]))"

text \<open>\<open>Reconcile\<close>: read the object, reconcile it, then the status; some controllers ignore an object
  that is being deleted (\<open>skip\<close>).\<close>

definition controller_Reconcile ::
    "('w, 'o) act \<Rightarrow> (go_error \<Rightarrow> go_error) \<Rightarrow> ('o \<Rightarrow> bool)
       \<Rightarrow> ('o \<Rightarrow> ('w, Condition list \<times> unit res) act)
       \<Rightarrow> ('o \<Rightarrow> Condition list \<Rightarrow> ('w, unit res) act) \<Rightarrow> ('w, unit) act" where
  "controller_Reconcile get wrap skip reconcile reconcileStatus =
     bindA (tryA get) (\<lambda>r. case r of
       Inl e \<Rightarrow> if apierrors_IsNotFound e then returnA () else failA (wrap e)
     | Inr x \<Rightarrow>
         if skip x then returnA ()
         else bindA (reconcile x) (\<lambda>(conditions, recErr).
           bindA (reconcileStatus x conditions) (\<lambda>status. finish recErr status)))"

text \<open>Ending a function at the first error.\<close>

definition must :: "('w, 'a \<times> unit res) act \<Rightarrow> ('w, 'a) act" where
  "must m = bindA m (\<lambda>(x, e). bindA (liftA e) (\<lambda>_. returnA x))"

text \<open>A patch of an object that has no finalizers to release.\<close>

definition patch_object ::
    "('w \<Rightarrow> (string, 'o) fmap) \<Rightarrow> ((string, 'o) fmap \<Rightarrow> 'w \<Rightarrow> 'w) \<Rightarrow> string \<Rightarrow> ('o \<Rightarrow> 'o) \<Rightarrow> 'w \<Rightarrow> 'w res" where
  "patch_object get put n f w = bindE (lookup_object (get w) n) (\<lambda>x. Inr (put (fmupd n (f x) (get w)) w))"

section \<open>What they leave alone\<close>

lemma bindA_assoc: "bindA (bindA m g) f = bindA m (\<lambda>x. bindA (g x) f)"
  by (rule ext)+ (auto simp: bindA_def split: prod.splits sum.splits)

lemma bindA_simps [simp]: "bindA (returnA x) f = f x" "bindA (liftA (Inr x)) f = f x" "bindA (liftA (Inl e)) f = failA e"
  by (rule ext, rule ext, simp add: bindA_def returnA_def liftA_def failA_def)+

lemma keeps_ensure_secrets_if:
  assumes "\<And>w n x. P w \<Longrightarrow> om_Name (sec_Meta x) = n \<Longrightarrow> P (w\<lparr>nw_secrets := fmupd n x (nw_secrets w)\<rparr>)"
  shows "keeps P (ensure_secrets_if c rec)"
  unfolding ensure_secrets_if_def
  by (auto split: prod.split intro!: keeps_bind keeps_basic keeps_shared keeps_kinds assms)

lemma keeps_publish:
  assumes "\<And>w n x. P w \<Longrightarrow> P (k_put K (fmupd n (k_name K n x) (k_get K w)) w)"
  shows "keeps P (publish K certs rec)"
  unfolding publish_def
  by (auto split: prod.split intro!: keeps_bind keeps_basic keeps_ensure assms)

lemma keeps_must: "keeps P m \<Longrightarrow> keeps P (must m)"
  unfolding must_def by (auto split: prod.split intro!: keeps_bind keeps_basic)

lemma keeps_finish: "keeps P (finish a b)"
  by (simp add: finish_def keeps_lift)

lemma keeps_run: "keeps P m \<Longrightarrow> P w \<Longrightarrow> P (fst (snd (m w os)))"
  by (auto simp: keeps_def holds_def case_prod_unfold)

lemma keeps_holds: "keeps P m \<Longrightarrow> (\<And>v. R v \<Longrightarrow> P v) \<Longrightarrow> (\<And>r v. P v \<Longrightarrow> Q r v) \<Longrightarrow> holds R m Q"
  unfolding keeps_def by (rule holds_pre [OF holds_post])

lemma holds_pointwise: "(\<And>v. P v \<Longrightarrow> holds (\<lambda>u. u = v) m Q) \<Longrightarrow> holds P m Q"
  by (auto simp: holds_def)

lemma bindA_run: "m w os = (Inr x, w', os') \<Longrightarrow> bindA m f w os = f x w' os'"
  by (simp add: bindA_def)

lemma api_call_run: "api_call f w [] = (case f w of Inl e \<Rightarrow> (Inl e, w, []) | Inr w' \<Rightarrow> (Inr (), w', []))"
  by (simp add: api_call_def Let_def)

lemma keeps_controller_Reconcile:
  assumes "keeps P get" "\<And>x. keeps P (reconcile x)" "\<And>x c. keeps P (reconcileStatus x c)"
  shows "keeps P (controller_Reconcile get wrap skip reconcile reconcileStatus)"
  unfolding controller_Reconcile_def
  using assms by (auto split: sum.split prod.split intro!: keeps_bind keeps_try keeps_basic keeps_finish)

text \<open>A run of such a reconciler starts with the object it reads, or does nothing.\<close>

lemma controller_Reconcile_cases:
  obtains (idle) r os' where "controller_Reconcile (api_get get name) wrap skip reconcile reconcileStatus w os = (r, w, os')"
  | (go) x os' where "fmlookup (get w) name = Some x" "\<not> skip x" "os' = drop 1 os" "os = [] \<or> hd os = Applied"
      "controller_Reconcile (api_get get name) wrap skip reconcile reconcileStatus w os =
         bindA (reconcile x) (\<lambda>(conditions, recErr).
           bindA (reconcileStatus x conditions) (\<lambda>status. finish recErr status)) w os'"
proof (cases "os = [] \<or> hd os = Applied")
  case True
  then have read: "tryA (api_get get name) w os = (Inr (lookup_object (get w) name), w, drop 1 os)"
    by (cases os) (auto simp: tryA_def api_get_def api_read_def lookup_object_def split: option.splits)
  show ?thesis
  proof (cases "fmlookup (get w) name")
    case None
    then have "controller_Reconcile (api_get get name) wrap skip reconcile reconcileStatus w os = (Inr (), w, drop 1 os)"
      by (simp add: controller_Reconcile_def bindA_def read lookup_object_def returnA_def)
    then show ?thesis by (rule idle)
  next
    case (Some x)
    show ?thesis
    proof (cases "skip x")
      case True
      then have "controller_Reconcile (api_get get name) wrap skip reconcile reconcileStatus w os = (Inr (), w, drop 1 os)"
        using Some by (simp add: controller_Reconcile_def bindA_def read lookup_object_def returnA_def)
      then show ?thesis by (rule idle)
    next
      case False
      then show ?thesis
        using \<open>os = [] \<or> hd os = Applied\<close> Some
        by (intro go [of x "drop 1 os"]) (auto simp: controller_Reconcile_def bindA_def read lookup_object_def)
    qed
  qed
next
  case False
  then have "tryA (api_get get name) w os = (Inr (Inl (ApiError ''connection lost'')), w, drop 1 os)"
    by (cases os; cases "hd os") (auto simp: tryA_def api_get_def api_read_def)
  then have "controller_Reconcile (api_get get name) wrap skip reconcile reconcileStatus w os =
      (Inl (wrap (ApiError ''connection lost'')), w, drop 1 os)"
    by (simp add: controller_Reconcile_def bindA_def failA_def)
  then show ?thesis by (rule idle)
qed

lemma finish_ok: "finish recErr status w os = (Inr (), w', os') \<Longrightarrow> recErr = Inr ()"
  by (cases status) (auto simp: finish_def liftA_def)

section \<open>Conditions after a status update\<close>

lemma UpdateCondition_status:
  assumes "conditions_ok lib"
  shows "\<exists>c'. FindStatusCondition lib (UpdateCondition lib cs c) (cond_Type c) = Some c'
     \<and> cond_Status c' = cond_Status c \<and> cond_ObservedGeneration c' = cond_ObservedGeneration c"
  using UpdateCondition_same [OF assms, of cs c] by (auto split: option.splits)

text \<open>Every reported condition is there afterwards with its status, for the generation of the object.\<close>

lemma UpdateConditions_status:
  assumes lib: "conditions_ok lib"
  shows "distinct (map cond_Type new) \<Longrightarrow> c \<in> set new \<Longrightarrow>
     \<exists>c'. FindStatusCondition lib (UpdateConditions lib g new cs) (cond_Type c) = Some c'
       \<and> cond_Status c' = cond_Status c \<and> cond_ObservedGeneration c' = g"
proof (induction new rule: rev_induct)
  case (snoc x new)
  let ?x = "x\<lparr>cond_ObservedGeneration := g\<rparr>"
  have step: "UpdateConditions lib g (new @ [x]) cs = UpdateCondition lib (UpdateConditions lib g new cs) ?x"
    by (simp add: UpdateConditions_def)
  show ?case
  proof (cases "c = x")
    case True
    then show ?thesis
      using UpdateCondition_status [OF lib, of "UpdateConditions lib g new cs" ?x] by (simp add: step)
  next
    case False
    then have "cond_Type c \<noteq> cond_Type ?x" using snoc.prems by (auto simp: image_iff)
    then show ?thesis
      using snoc False UpdateCondition_other [OF lib, of "cond_Type c" ?x] by (simp add: step)
  qed
qed simp

section \<open>The publishing gate\<close>

text \<open>Every certificate is in the cluster and ready, and the compiled object carries its revision.\<close>

definition certs_published ::
    "(ns_world, 'o) object_kind \<Rightarrow> ('o \<Rightarrow> ObjectMeta) \<Rightarrow> certificate_reconciler list \<Rightarrow> string \<Rightarrow> ns_world \<Rightarrow> bool" where
  "certs_published K meta recs name w \<longleftrightarrow> (\<exists>obj. fmlookup (k_get K w) name = Some obj
     \<and> (\<forall>rec \<in> set recs. \<exists>c. fmlookup (nw_certs w) (fst rec) = Some c \<and> certificateReady c
          \<and> mget (om_Annotations (meta obj)) (''operator.kcp.io/cert-'' @ fst rec @ ''-revision'')
              = Some (Itoa (case cc_Revision c of None \<Rightarrow> 0 | Some r \<Rightarrow> r))))"

lemma certs_published_cong:
  "nw_certs v = nw_certs w \<Longrightarrow> k_get K v = k_get K w \<Longrightarrow> certs_published K meta recs name v = certs_published K meta recs name w"
  by (simp add: certs_published_def)

text \<open>A reconciler of a compiled object, whose annotations are those of \<open>compiled_meta\<close>.\<close>

definition compiles ::
    "(ns_world, 'o) object_kind \<Rightarrow> ('o \<Rightarrow> ObjectMeta) \<Rightarrow> string \<Rightarrow> (gomap \<Rightarrow> string \<times> ('o \<Rightarrow> 'o)) \<Rightarrow> bool" where
  "compiles K meta name rec \<longleftrightarrow> (\<forall>revs. fst (rec revs) = name
     \<and> (\<forall>old. \<exists>src. om_Annotations (meta (k_name K name (snd (rec revs) old)))
          = maps_Copy src (MutateKeys revs ''operator.kcp.io/'' [])))"

definition cert_blind :: "(ns_world, 'o) object_kind \<Rightarrow> bool" where
  "cert_blind K \<longleftrightarrow> (\<forall>m w. nw_certs (k_put K m w) = nw_certs w)"

definition certs_ensured :: "certificate_reconciler list \<Rightarrow> CertManagerCertificate list \<Rightarrow> ns_world \<Rightarrow> bool" where
  "certs_ensured recs certs w \<longleftrightarrow> list_all2 (ensured_as cert_kind w) (pure_reconcilers recs) certs"

lemma certs_ensured_cong: "nw_certs w' = nw_certs w \<Longrightarrow> certs_ensured recs certs w' = certs_ensured recs certs w"
proof -
  assume "nw_certs w' = nw_certs w"
  then have "ensured_as cert_kind w' = ensured_as cert_kind w"
    by (intro ext) (simp add: ensured_as_def cert_kind_def)
  then show ?thesis by (simp add: certs_ensured_def)
qed

lemma annotation_revision:
  assumes "mget revs n = Some v"
  shows "mget (maps_Copy src (MutateKeys (MutateKeys revs ''cert-'' ''-revision'') ''operator.kcp.io/'' []))
     (''operator.kcp.io/cert-'' @ n @ ''-revision'') = Some v"
proof -
  let ?k = "''cert-'' @ n @ ''-revision''"
  have key: "''operator.kcp.io/cert-'' @ n @ ''-revision'' = ''operator.kcp.io/'' @ ?k @ []" by simp
  have "mget (MutateKeys (MutateKeys revs ''cert-'' ''-revision'') ''operator.kcp.io/'' []) (''operator.kcp.io/'' @ ?k @ [])
      = Some v"
    by (simp only: MutateKeys_lookup assms)
  then show ?thesis unfolding key mget_maps_Copy by (simp only: option.case)
qed

lemma certs_ensured_names:
  assumes "certs_ensured recs certs w"
  shows "map (\<lambda>c. om_Name (cc_Meta c)) certs = map fst recs"
  using assms unfolding certs_ensured_def
  by (induction recs certs rule: list_induct2') (auto simp: ensured_as_def cert_kind_def split: prod.splits)

text \<open>What storing the result of the reconciler keeps, ensuring its object keeps.\<close>

lemma keeps_ensure_rec:
  assumes "\<And>w old obj. P w \<Longrightarrow> snd rec old = Inr obj \<Longrightarrow>
     P (k_put K (fmupd (fst rec) (k_name K (fst rec) obj) (k_get K w)) w)"
  shows "keeps P (ensure_object K rec)"
proof -
  let ?o = "\<lambda>old. case old of None \<Rightarrow> k_zero K | Some o1 \<Rightarrow> o1"
  have body: "keeps P (case snd rec (?o old) of Inl e \<Rightarrow> returnA (None, Inl e)
     | Inr obj \<Rightarrow> let new = k_name K (fst rec) obj in
         if old = Some new then returnA (Some new, Inr ())
         else bindA (tryA (api_write (\<lambda>w. k_put K (fmupd (fst rec) new (k_get K w)) w))) (\<lambda>r. returnA (Some new, r)))" for old
    by (cases "snd rec (?o old)") (auto simp: Let_def intro!: keeps_bind keeps_try keeps_basic keeps_write assms)
  have eq: "bindA (tryA (liftA (snd rec (?o old)))) f = (case snd rec (?o old) of
      Inl (Panic s) \<Rightarrow> failA (Panic s) | r \<Rightarrow> f r)" for old and f :: "'b res \<Rightarrow> ('a, 'b option \<times> unit res) act"
    by (rule ext, rule ext)
      (simp add: bindA_def tryA_def liftA_def failA_def split: sum.split go_error.split)
  have "keeps P (case snd rec (?o old) of Inl (Panic s) \<Rightarrow> failA (Panic s) | r \<Rightarrow> (case r of Inl e \<Rightarrow> returnA (None, Inl e)
     | Inr obj \<Rightarrow> let new = k_name K (fst rec) obj in
         if old = Some new then returnA (Some new, Inr ())
         else bindA (tryA (api_write (\<lambda>w. k_put K (fmupd (fst rec) new (k_get K w)) w))) (\<lambda>r. returnA (Some new, r))))" for old
    using body [of old] by (auto split: sum.splits go_error.splits intro!: keeps_basic)
  then show ?thesis
    unfolding ensure_object_def eq by (auto intro!: keeps_bind keeps_try keeps_basic split: sum.split)
qed

lemma publish_strict:
  assumes K: "kind_ok K nm" "cert_blind K" "compiles K meta name rec" and dist: "distinct (map fst recs)"
  shows "holds (\<lambda>v. certs_ensured recs certs v \<and> fmlookup (k_get K v) name = C0) (publish K certs rec)
     (\<lambda>r v. fmlookup (k_get K v) name \<noteq> C0 \<longrightarrow> certs_published K meta recs name v)"
proof (cases "list_all certificateReady certs")
  case False
  then have "snd (CertificateRevisions certs) = False" by simp
  then show ?thesis
    by (auto simp: publish_def case_prod_unfold intro!: holds_return)
next
  case True
  let ?revs = "fst (CertificateRevisions certs)"
  let ?rec = "rec (MutateKeys ?revs ''cert-'' ''-revision'')"
  have ready: "snd (CertificateRevisions certs)" using True by simp
  have pub: "certs_published K meta recs name v"
    if certs: "certs_ensured recs certs v" and obj: "ensured_as K v (fst ?rec, \<lambda>x. Inr (snd ?rec x)) c" for v c
    unfolding certs_published_def
  proof (intro exI [of _ c] conjI ballI)
    show "fmlookup (k_get K v) name = Some c" using obj K(3) by (simp add: ensured_as_def compiles_def)
    fix cr assume "cr \<in> set recs"
    then obtain i where i: "i < length recs" "cr = recs ! i" by (auto simp: in_set_conv_nth)
    have len: "length certs = length recs"
      using certs by (simp add: certs_ensured_def list_all2_conv_all_nth)
    have at: "fmlookup (nw_certs v) (fst cr) = Some (certs ! i)"
      using certs i by (auto simp: certs_ensured_def list_all2_conv_all_nth ensured_as_def cert_kind_def split_beta)
    have nm: "om_Name (cc_Meta (certs ! i)) = fst cr"
      using certs_ensured_names [OF certs] i len by (metis nth_map)
    have rdy: "certificateReady (certs ! i)" using True i len by (simp add: list_all_length)
    have "distinct (map (\<lambda>c. om_Name (cc_Meta c)) certs)" using dist certs_ensured_names [OF certs] by simp
    then have rev: "mget ?revs (fst cr) = Some (Itoa (case cc_Revision (certs ! i) of None \<Rightarrow> 0 | Some r \<Rightarrow> r))"
      using certificate_revisions_lookup [OF True _ nth_mem, of i fmempty] nm i len
      by (simp add: CertificateRevisions_def)
    obtain src where src: "om_Annotations (meta c) = maps_Copy src
        (MutateKeys (MutateKeys ?revs ''cert-'' ''-revision'') ''operator.kcp.io/'' [])"
      using obj K(3) by (auto simp: ensured_as_def compiles_def)
    show "\<exists>c'. fmlookup (nw_certs v) (fst cr) = Some c' \<and> certificateReady c'
        \<and> mget (om_Annotations (meta c)) (''operator.kcp.io/cert-'' @ fst cr @ ''-revision'')
          = Some (Itoa (case cc_Revision c' of None \<Rightarrow> 0 | Some r \<Rightarrow> r))"
      using at rdy annotation_revision [OF rev, of src] src by auto
  qed
  have blind: "certs_ensured recs certs (k_put K m v)" if "certs_ensured recs certs v" for m v
    using that K(2) certs_ensured_cong [of "k_put K m v" v] by (simp add: cert_blind_def)
  let ?P = "\<lambda>v. certs_ensured recs certs v
     \<and> (fmlookup (k_get K v) name = C0 \<or> (\<exists>c. ensured_as K v (fst ?rec, \<lambda>x. Inr (snd ?rec x)) c))"
  have "keeps ?P (ensure_objects K [] (pure_reconcilers [?rec]))"
    using K(1) blind
    by (auto simp: ensure_objects.simps Let_def case_prod_unfold kind_ok_def ensured_as_def split: sum.split
        intro!: keeps_bind keeps_basic keeps_ensure_rec)
  then have "keeps ?P (publish K certs rec)"
    unfolding publish_def case_prod_unfold Let_def if_P [OF ready] by (auto intro!: keeps_bind keeps_basic)
  then show ?thesis
    unfolding keeps_def by (rule holds_pre [OF holds_post]) (use pub in auto)
qed

text \<open>The gate as a postcondition: a run that ends well either left the compiled object as it was or
  published it with all the certificates.\<close>

definition gate ::
    "(ns_world, 'o) object_kind \<Rightarrow> ('o \<Rightarrow> ObjectMeta) \<Rightarrow> certificate_reconciler list \<Rightarrow> string \<Rightarrow> 'o option
       \<Rightarrow> unit res res \<Rightarrow> ns_world \<Rightarrow> bool" where
  "gate K meta recs name C0 r v \<longleftrightarrow>
     (r = Inr (Inr ()) \<longrightarrow> fmlookup (k_get K v) name \<noteq> C0 \<longrightarrow> certs_published K meta recs name v)"

lemma publish_gate:
  assumes "kind_ok K nm" "cert_blind K" "compiles K meta name rec" "distinct (map fst recs)"
  shows "holds (\<lambda>v. certs_ensured recs certs v \<and> fmlookup (k_get K v) name = C0) (publish K certs rec)
     (gate K meta recs name C0)"
  by (rule holds_post [OF publish_strict [OF assms]]) (simp add: gate_def)

definition never_ok :: "('w, unit res) act \<Rightarrow> bool" where
  "never_ok m \<longleftrightarrow> holds (\<lambda>_. True) m (\<lambda>r v. r \<noteq> Inr (Inr ()))"

lemma never_ok_bind: "(\<And>x. never_ok (f x)) \<Longrightarrow> never_ok (bindA m f)"
  unfolding never_ok_def by (rule holds_bind [where R = "\<lambda>_ _. True"]) (auto simp: holds_def case_prod_unfold)

lemma never_ok_return: "r \<noteq> Inr () \<Longrightarrow> never_ok (returnA r)"
  unfolding never_ok_def by (auto intro: holds_return)

lemma never_ok_gate: "never_ok m \<Longrightarrow> holds P m (gate K meta recs name C0)"
  unfolding never_ok_def by (rule holds_post, erule holds_pre) (auto simp: gate_def)

lemma gate_same: "(\<And>v. P v \<Longrightarrow> fmlookup (k_get K v) name = C0) \<Longrightarrow> holds P (returnA r) (gate K meta recs name C0)"
  by (rule holds_return) (simp add: gate_def)

text \<open>Three steps a controller makes before the end: ensuring the certificates (more of them, after
  those of \<open>recs0\<close>), anything that leaves the certificates and the compiled object alone, and the
  publishing itself.\<close>

lemma gate_certs:
  assumes "distinct (map fst (recs0 @ recs))" "\<And>m v. fmlookup (k_get K (v\<lparr>nw_certs := m\<rparr>)) name = fmlookup (k_get K v) name"
    and "\<And>certs. holds (\<lambda>v. certs_ensured (recs0 @ recs) certs v \<and> fmlookup (k_get K v) name = C0) (f (certs, Inr ()))
       (gate K meta all name C0)"
    and "\<And>certs e. never_ok (f (certs, Inl e))"
  shows "holds (\<lambda>v. certs_ensured recs0 caps v \<and> fmlookup (k_get K v) name = C0)
     (bindA (ensure_objects cert_kind caps (pure_reconcilers recs)) f) (gate K meta all name C0)"
proof (rule holds_bind)
  let ?look = "\<lambda>v. fmlookup (k_get K v) name = C0"
  have dist: "distinct (map fst (pure_reconcilers recs0 @ pure_reconcilers recs))"
    using assms(1) by (simp add: case_prod_unfold comp_def)
  have keep: "?look (k_put cert_kind m v)" if "?look v" for v m
    using that assms(2) by (simp add: cert_kind_def)
  show "holds (\<lambda>v. certs_ensured recs0 caps v \<and> ?look v) (ensure_objects cert_kind caps (pure_reconcilers recs))
     (\<lambda>r v. ?look v \<and> (\<forall>cs. r = Inr (cs, Inr ()) \<longrightarrow> certs_ensured (recs0 @ recs) cs v))"
    using ensure_objects_holds [where P = ?look, OF kinds_ok(1) keep dist, of caps]
    by (auto simp: certs_ensured_def elim!: holds_pre holds_post)
next
  fix x :: "CertManagerCertificate list \<times> unit res"
  show "holds (\<lambda>v. fmlookup (k_get K v) name = C0 \<and> (\<forall>cs. Inr x = Inr (cs, Inr ()) \<longrightarrow> certs_ensured (recs0 @ recs) cs v))
     (f x) (gate K meta all name C0)"
  proof (cases "snd x")
    case (Inl e)
    then show ?thesis using never_ok_gate [OF assms(4) [of "fst x" e]] by (cases x) (auto elim!: holds_pre)
  next
    case (Inr u)
    then show ?thesis using assms(3) [of "fst x"] by (cases x) (auto elim!: holds_pre)
  qed
qed (simp add: gate_def)

lemma gate_step:
  assumes "keeps P m" "\<And>x. holds P (f x) (gate K meta recs name C0)"
  shows "holds P (bindA m f) (gate K meta recs name C0)"
  by (rule holds_bind [OF assms(1) [unfolded keeps_def] _ assms(2)]) (simp add: gate_def)

lemma gate_end:
  assumes "holds P m (gate K meta recs name C0)" "\<And>e. f e = returnA (r e)" "\<And>e. r e = Inr () \<Longrightarrow> e = Inr ()"
  shows "holds P (bindA m f) (gate K meta recs name C0)"
  by (rule holds_bind [OF assms(1)]) (auto simp: gate_def assms(2) dest: assms(3) intro!: holds_return)

lemma gate_with_conditions:
  assumes "holds P m (gate K meta recs name C0)"
  shows "holds P (bindA m (\<lambda>e. returnA (c, e))) (\<lambda>r v. (\<exists>cs. r = Inr (cs, Inr ())) \<longrightarrow>
     fmlookup (k_get K v) name \<noteq> C0 \<longrightarrow> certs_published K meta recs name v)"
  by (rule holds_bind [OF assms]) (auto simp: gate_def intro!: holds_return)

text \<open>From the reconciler's body to \<open>Reconcile\<close>, whose status update touches neither.\<close>

lemma controller_gate:
  assumes "controller_Reconcile (api_get get name) wrap skip reconcile reconcileStatus w os = (Inr (), w', os')"
    and "\<And>x. fmlookup (get w) name = Some x \<Longrightarrow>
       holds (\<lambda>v. v = w) (reconcile x) (\<lambda>r v. (\<exists>cs. r = Inr (cs, Inr ())) \<longrightarrow> G x v)"
    and "\<And>x c. keeps (G x) (reconcileStatus x c)"
  shows "w' = w \<or> (\<exists>x. fmlookup (get w) name = Some x \<and> G x w')"
proof (cases rule: controller_Reconcile_cases [of get name wrap skip reconcile reconcileStatus w os])
  case (idle r os')
  then show ?thesis using assms(1) by simp
next
  case (go x os1)
  obtain r v os2 where rec: "reconcile x w os1 = (r, v, os2)" by (cases "reconcile x w os1") auto
  have run: "bindA (reconcile x) (\<lambda>(conditions, recErr).
      bindA (reconcileStatus x conditions) (\<lambda>status. finish recErr status)) w os1 = (Inr (), w', os')"
    using go(5) assms(1) by simp
  then obtain cs e where r: "r = Inr (cs, e)" by (cases r) (auto simp: bindA_def rec)
  have st: "bindA (reconcileStatus x cs) (\<lambda>status. finish e status) v os2 = (Inr (), w', os')"
    using run by (simp add: bindA_run [where m = "reconcile x", OF rec [unfolded r]])
  then have "e = Inr ()"
    by (auto simp: bindA_def split: prod.splits sum.splits dest: finish_ok)
  then have "G x v" using assms(2) [OF go(1), unfolded holds_def, rule_format, OF refl, of os1] rec r by simp
  moreover have "keeps (G x) (bindA (reconcileStatus x cs) (\<lambda>status. finish e status))"
    by (rule keeps_bind [OF assms(3) keeps_finish])
  ultimately have "G x w'" using keeps_run [of "G x" _ v os2] st by fastforce
  then show ?thesis using go(1) by blast
qed

end
