(* ===== verification/Shard_Controller.thy ===== *)
theory Shard_Controller
  imports Controller_Base Pki_Shard
begin

text \<open>
  \<open>pkg/controller/shard/controller.go\<close>: the controller of Shard objects as a program over the API
  server. It guards the object with a finalizer, renders the PKI, publishes the compiled object
  once every certificate is ready, and on deletion removes the kcp Shard object from the root
  workspace. \<open>Reconcile\<close> ends with \<open>reconcileStatus\<close>, whatever happened before.
\<close>

definition shard_cleanupFinalizer :: string where
  "shard_cleanupFinalizer = ''operator.kcp.io/cleanup-shard''"

section \<open>Finalizers\<close>

text \<open>A patch of a shard; the API server removes a deleted object without finalizers.\<close>

definition patch_shard :: "string \<Rightarrow> (Shard \<Rightarrow> Shard) \<Rightarrow> ns_world \<Rightarrow> ns_world res" where
  "patch_shard n f w = bindE (lookup_object (nw_shards w) n) (\<lambda>s.
     let s' = f s in
     Inr (w\<lparr>nw_shards := if om_DeletionTimestamp (sh_Meta s') \<noteq> None \<and> om_Finalizers (sh_Meta s') = []
       then fmdrop n (nw_shards w) else fmupd n s' (nw_shards w)\<rparr>))"

definition shard_has_finalizer :: "Shard \<Rightarrow> bool" where
  "shard_has_finalizer s \<longleftrightarrow> shard_cleanupFinalizer \<in> set (om_Finalizers (sh_Meta s))"

definition set_shard_finalizers :: "string list \<Rightarrow> Shard \<Rightarrow> Shard" where
  "set_shard_finalizers fs s = s\<lparr>sh_Meta := (sh_Meta s)\<lparr>om_Finalizers := fs\<rparr>\<rparr>"

definition shard_ensureFinalizer :: "Shard \<Rightarrow> (ns_world, bool) act" where
  "shard_ensureFinalizer s =
     (if shard_has_finalizer s then returnA False
      else bindA (api_call (patch_shard (om_Name (sh_Meta s)) (set_shard_finalizers
             (sets_List (om_Finalizers (sh_Meta s)) [shard_cleanupFinalizer])))) (\<lambda>_. returnA True))"

definition shard_removeFinalizer :: "Shard \<Rightarrow> (ns_world, unit) act" where
  "shard_removeFinalizer s =
     (if \<not> shard_has_finalizer s then returnA ()
      else api_call (patch_shard (om_Name (sh_Meta s)) (set_shard_finalizers
             (sets_List (filter (\<lambda>f. f \<noteq> shard_cleanupFinalizer) (om_Finalizers (sh_Meta s))) []))))"

section \<open>Deletion\<close>

text \<open>Deleting the kcp Shard object, which may be gone already, through the root shard.\<close>

definition delete_kcp_shard :: "string \<Rightarrow> string \<Rightarrow> ns_world \<Rightarrow> ns_world res" where
  "delete_kcp_shard host n w =
     (if n \<in> set (nw_kcp w host) then Inr (w\<lparr>nw_kcp := (nw_kcp w)(host := removeAll n (nw_kcp w host))\<rparr>)
      else Inl (NotFound n))"

definition shard_handleDeletion :: "ctl_env \<Rightarrow> Shard \<Rightarrow> (ns_world, Condition list \<times> unit res) act" where
  "shard_handleDeletion env s =
     (if \<not> shard_has_finalizer s then returnA ([], Inr ())
      else bindA (fetch_rootshard (rsc_Reference (ss_RootShard (sh_Spec s)))) (\<lambda>(cond, rootShard). case rootShard of
        None \<Rightarrow>
          bindA (tryA (wrapA ''failed to remove finalizer'' (shard_removeFinalizer s))) (\<lambda>r. returnA ([cond], r))
      | Some r \<Rightarrow>
          bindA (tryA (wrapA ''failed to create root shard client'' (api_read (\<lambda>w.
            NewRootShardClient (ce_requestPath env) (reader_of w) (ce_address env) r ''root'')))) (\<lambda>client. case client of
              Inl e \<Rightarrow> returnA ([], Inl e)
            | Inr cfg \<Rightarrow>
                bindA (tryA (api_call (delete_kcp_shard (rc_Host cfg) (om_Name (sh_Meta s))))) (\<lambda>d.
                case d of
                  Inl e \<Rightarrow>
                    if \<not> apierrors_IsNotFound e then returnA ([], Inl (wrap_error ''failed to delete kcp Shard'' e))
                    else bindA (tryA (wrapA ''failed to remove finalizer'' (shard_removeFinalizer s))) (\<lambda>r. returnA ([], r))
                | Inr _ \<Rightarrow>
                    bindA (tryA (wrapA ''failed to remove finalizer'' (shard_removeFinalizer s))) (\<lambda>r. returnA ([], r))))))"

section \<open>Rendering\<close>

definition shard_kubeconfigReconcilers :: "ctl_env \<Rightarrow> Shard \<Rightarrow> RootShard \<Rightarrow> secret_reconciler list" where
  "shard_kubeconfigReconcilers env s r =
     [shard_RootShardClientKubeconfigReconciler (ce_write env) s r,
      shard_LogicalClusterAdminKubeconfigReconciler (ce_write env) s r,
      shard_ExternalLogicalClusterAdminKubeconfigReconciler (ce_write env) s r]"

definition publish_shard ::
    "Shard \<Rightarrow> RootShard \<Rightarrow> VirtualWorkspace option res \<Rightarrow> Shard list res \<Rightarrow> CertManagerCertificate list
       \<Rightarrow> (ns_world, unit res) act" where
  "publish_shard s r vw shards certs = (case (vw, shards) of
     (Inr kcpVW, Inr children) \<Rightarrow> publish cshard_kind certs (CompiledShardReconciler s r kcpVW children)
   | _ \<Rightarrow> returnA (Inr ()))"

definition shard_render :: "ctl_env \<Rightarrow> Shard \<Rightarrow> RootShard \<Rightarrow> (ns_world, unit res) act" where
  "shard_render env s r =
     bindA (ensure_objects cert_kind [] (pure_reconcilers (shard_certReconcilers s r))) (\<lambda>(certs, e1).
     bindA (ensure_objects secret_kind [] (shard_kubeconfigReconcilers env s r)) (\<lambda>(_, e2).
     bindA (ensure_secrets_if (cs_CABundleSecretRef (sh_Spec s) \<noteq> None)
       (\<lambda>get. shard_MergedCABundleSecretReconciler get s)) (\<lambda>e3.
     bindA (ensure_secrets_if (cs_ClientCABundleRef (rsh_Spec r) \<noteq> None \<or> cs_ClientCABundleRef (sh_Spec s) \<noteq> None)
       (\<lambda>get. shard_MergedClientCABundleSecretReconciler get s r)) (\<lambda>e4.
     bindA (find_vw (cs_KCPVirtualWorkspace (sh_Spec s))) (\<lambda>vw.
     bindA (rootshard_children r) (\<lambda>shards.
     bindA (publish_shard s r vw shards certs) (\<lambda>e5.
     returnA (aggregate (errors_of e1 @ errors_of e2 @ errors_of e3 @ errors_of e4 @ errors_of vw
       @ map (wrap_error ''failed to list shards'') (errors_of shards) @ errors_of e5)))))))))"

definition shard_reconcile :: "ctl_env \<Rightarrow> Shard \<Rightarrow> (ns_world, Condition list \<times> unit res) act" where
  "shard_reconcile env s =
     (if om_DeletionTimestamp (sh_Meta s) \<noteq> None then shard_handleDeletion env s
      else bindA (tryA (wrapA ''failed to ensure cleanup finalizer'' (shard_ensureFinalizer s))) (\<lambda>updated. case updated of
        Inl e \<Rightarrow> returnA ([], Inl e)
      | Inr True \<Rightarrow> returnA ([], Inr ())
      | Inr False \<Rightarrow>
          bindA (fetch_rootshard (rsc_Reference (ss_RootShard (sh_Spec s)))) (\<lambda>(cond, rootShard). case rootShard of
            None \<Rightarrow> returnA ([cond], Inr ())
          | Some r \<Rightarrow> bindA (shard_render env s r) (\<lambda>e. returnA ([cond], e)))))"

section \<open>Status\<close>

definition shard_phase :: "bool \<Rightarrow> bool \<Rightarrow> Phase \<Rightarrow> Phase" where
  "shard_phase isAvailable deleting old =
     (if isAvailable then Running else if deleting then Deleting
      else if old = PhaseUnset then Provisioning else old)"

definition shard_new_status :: "condition_lib \<Rightarrow> Shard \<Rightarrow> Condition list \<Rightarrow> ShardStatus" where
  "shard_new_status lib s conditions =
     (let conds = UpdateConditions lib (om_Generation (sh_Meta s)) conditions (shst_Conditions (sh_Status s)) in
      \<lparr>shst_Phase = shard_phase (available lib conds) (om_DeletionTimestamp (sh_Meta s) \<noteq> None) (shst_Phase (sh_Status s)),
       shst_Conditions = conds\<rparr>)"

definition shard_reconcileStatus ::
    "ctl_env \<Rightarrow> Shard \<Rightarrow> Condition list \<Rightarrow> (ns_world, unit res) act" where
  "shard_reconcileStatus env s conditions =
     bindA (compiled_condition (ce_conditions env) (\<lambda>w. conditions_in (nw_cshards w)
         (\<lambda>c. shst_Conditions (cso_Status c)) (om_Name (sh_Meta s))) (''CompiledShard '' @ om_Name (sh_Meta s))) (\<lambda>c.
     let new = shard_new_status (ce_conditions env) s (conditions @ (case c of Inl _ \<Rightarrow> [] | Inr x \<Rightarrow> [x])) in
     if new = sh_Status s then returnA (aggregate (errors_of c))
     else bindA (tryA (api_call (patch_shard (om_Name (sh_Meta s)) (\<lambda>s. s\<lparr>sh_Status := new\<rparr>)))) (\<lambda>p.
       returnA (aggregate (errors_of c @ errors_of p))))"

section \<open>The reconciler\<close>

definition shard_Reconcile :: "ctl_env \<Rightarrow> string \<Rightarrow> (ns_world, unit) act" where
  "shard_Reconcile env name = controller_Reconcile (api_get nw_shards name) (wrap_error ''failed to get shard'')
     (\<lambda>_. False) (shard_reconcile env) (shard_reconcileStatus env)"

end
