(* ===== verification/Shard_Controller_Props.thy ===== *)
theory Shard_Controller_Props
  imports Shard_Controller
begin

text \<open>
  What the shard controller guarantees, for every outcome of its API calls: the finalizer is on the
  object before anything is published, it is released only after the kcp Shard object is gone or
  when the root shard could not be read, and how that second case leaks the kcp Shard object.
\<close>

section \<open>Parts of the state an action leaves alone\<close>

text \<open>Whatever a predicate says, it survives a run if it survives the writes of the run.\<close>

lemma keeps_removeFinalizer:
  assumes "\<And>w w' fs. P w \<Longrightarrow> patch_shard (om_Name (sh_Meta s)) (set_shard_finalizers fs) w = Inr w' \<Longrightarrow> P w'"
  shows "keeps P (shard_removeFinalizer s)" "keeps P (shard_ensureFinalizer s)"
  unfolding shard_removeFinalizer_def shard_ensureFinalizer_def
  using assms by (auto intro!: keeps_return keeps_call keeps_bind)

lemma keeps_handleDeletion:
  assumes fin: "\<And>w w' fs. P w \<Longrightarrow> patch_shard (om_Name (sh_Meta s)) (set_shard_finalizers fs) w = Inr w' \<Longrightarrow> P w'"
    and kcp: "\<And>w w' h. P w \<Longrightarrow> delete_kcp_shard h (om_Name (sh_Meta s)) w = Inr w' \<Longrightarrow> P w'"
  shows "keeps P (shard_handleDeletion env s)"
  unfolding shard_handleDeletion_def
  by (auto split: prod.split option.split sum.split
      intro!: keeps_bind keeps_try keeps_wrap keeps_basic keeps_shared keeps_call
        keeps_removeFinalizer [of P s]) (blast intro: fin kcp)+

lemma keeps_publish_shard:
  assumes "\<And>w n x. P w \<Longrightarrow> om_Name (cso_Meta x) = n \<Longrightarrow> P (w\<lparr>nw_cshards := fmupd n x (nw_cshards w)\<rparr>)"
  shows "keeps P (publish_shard s r vw shards certs)"
  unfolding publish_shard_def
  by (auto split: sum.split intro!: keeps_basic keeps_publish simp: cshard_kind_def assms)

lemma keeps_shard_render:
  assumes certs: "\<And>w n x. P w \<Longrightarrow> om_Name (cc_Meta x) = n \<Longrightarrow> P (w\<lparr>nw_certs := fmupd n x (nw_certs w)\<rparr>)"
    and secrets: "\<And>w n x. P w \<Longrightarrow> om_Name (sec_Meta x) = n \<Longrightarrow> P (w\<lparr>nw_secrets := fmupd n x (nw_secrets w)\<rparr>)"
    and compiled: "\<And>w n x. P w \<Longrightarrow> om_Name (cso_Meta x) = n \<Longrightarrow> P (w\<lparr>nw_cshards := fmupd n x (nw_cshards w)\<rparr>)"
  shows "keeps P (shard_render env s r)"
  unfolding shard_render_def
  by (auto split: prod.split intro!: keeps_bind keeps_basic keeps_shared keeps_kinds
      keeps_ensure_secrets_if keeps_publish_shard certs secrets compiled)

lemma keeps_reconcileStatus:
  assumes "\<And>w w' st. P w \<Longrightarrow> patch_shard (om_Name (sh_Meta s)) (\<lambda>s. s\<lparr>sh_Status := st\<rparr>) w = Inr w' \<Longrightarrow> P w'"
  shows "keeps P (shard_reconcileStatus env s conditions)"
  unfolding shard_reconcileStatus_def compiled_condition_def Let_def
  by (auto intro!: keeps_bind keeps_try keeps_basic keeps_call dest: assms)

lemma patch_shard_others:
  assumes "patch_shard n f w = Inr w'"
  shows "nw_cshards w' = nw_cshards w" "nw_kcp w' = nw_kcp w" "nw_rootshards w' = nw_rootshards w"
    "nw_secrets w' = nw_secrets w"
  using assms by (auto simp: patch_shard_def bindE_eq_Inr Let_def)

lemma delete_kcp_others:
  assumes "delete_kcp_shard h n w = Inr w'"
  shows "nw_cshards w' = nw_cshards w" "nw_shards w' = nw_shards w"
  using assms by (auto simp: delete_kcp_shard_def split: if_splits)

section \<open>Publishing happens under the finalizer\<close>

lemmas shard_Reconcile_cases = controller_Reconcile_cases [where get = nw_shards and name = name
    and wrap = "wrap_error ''failed to get shard''" and skip = "\<lambda>_. False" and reconcile = "shard_reconcile env"
    and reconcileStatus = "shard_reconcileStatus env" for name env, folded shard_Reconcile_def, case_names idle go]

lemma keeps_shard_run:
  assumes "keeps P (shard_reconcile env s)"
    "\<And>w w' st. P w \<Longrightarrow> patch_shard (om_Name (sh_Meta s)) (\<lambda>s. s\<lparr>sh_Status := st\<rparr>) w = Inr w' \<Longrightarrow> P w'"
  shows "keeps P (bindA (shard_reconcile env s) (\<lambda>(conditions, recErr).
     bindA (shard_reconcileStatus env s conditions) (\<lambda>status. finish recErr status)))"
  using assms by (auto intro!: keeps_bind keeps_reconcileStatus [of P s] keeps_finish split: prod.split)

text \<open>C3: The finalizer comes first. Whatever the API does, a reconciliation touches the compiled
  object of a shard only if the shard it read is not being deleted and carries the cleanup
  finalizer already, so nothing that could register the shard with kcp exists without it.\<close>

theorem shard_published_under_finalizer:
  assumes "nw_cshards (run_world (shard_Reconcile env name) w os) \<noteq> nw_cshards w"
  shows "\<exists>s. fmlookup (nw_shards w) name = Some s \<and> shard_has_finalizer s \<and> om_DeletionTimestamp (sh_Meta s) = None"
proof (rule ccontr)
  assume none: "\<not> ?thesis"
  let ?P = "\<lambda>v. nw_cshards v = nw_cshards w"
  have keep: "keeps ?P (shard_reconcile env s)" if "\<not> shard_has_finalizer s \<or> om_DeletionTimestamp (sh_Meta s) \<noteq> None" for s
  proof (cases "om_DeletionTimestamp (sh_Meta s)")
    case None
    then have "\<not> shard_has_finalizer s" using that by simp
    have no: "holds ?P (tryA (wrapA m (shard_ensureFinalizer s))) (\<lambda>r v. ?P v \<and> r \<noteq> Inr (Inr False))" for m
    proof (rule holds_try [where R = "\<lambda>r v. ?P v \<and> r \<noteq> Inr False"], rule holds_wrap)
      show "holds ?P (shard_ensureFinalizer s) (\<lambda>r v. ?P v \<and> wrapE m r \<noteq> Inr False)"
        using \<open>\<not> shard_has_finalizer s\<close> unfolding shard_ensureFinalizer_def
        by (auto intro!: holds_bind [where R = "\<lambda>r. ?P"] holds_call holds_return simp: patch_shard_others)
    qed auto
    have rest: "holds (\<lambda>v. ?P v \<and> Inr x \<noteq> Inr (Inr False)) (case x of Inl e \<Rightarrow> returnA ([], Inl e)
        | Inr True \<Rightarrow> returnA ([], Inr ()) | Inr False \<Rightarrow> m) (\<lambda>_. ?P)" for x and m :: "(ns_world, Condition list \<times> unit res) act"
      by (cases x) (auto simp: holds_def returnA_def split: bool.split)
    show ?thesis
      unfolding shard_reconcile_def keeps_def None
      by (simp only: if_False simp_thms not_True_eq_False) (rule holds_bind [OF no _ rest], simp)
  next
    case (Some t)
    then show ?thesis
      unfolding shard_reconcile_def
      by (auto intro!: keeps_handleDeletion simp: patch_shard_others delete_kcp_others)
  qed
  show False
  proof (cases rule: shard_Reconcile_cases [of env name w os])
    case (idle r os')
    then show False using assms by (simp add: run_world_def)
  next
    case (go s os')
    then have "\<not> shard_has_finalizer s \<or> om_DeletionTimestamp (sh_Meta s) \<noteq> None" using none by auto
    then have "keeps ?P (bindA (shard_reconcile env s) (\<lambda>(conditions, recErr).
         bindA (shard_reconcileStatus env s conditions) (\<lambda>status. finish recErr status)))"
      by (rule keeps_shard_run [OF keep]) (simp add: patch_shard_others)
    from keeps_run [OF this refl] have "?P (run_world (shard_Reconcile env name) w os)"
      unfolding run_world_def go(5) .
    then show False using assms by simp
  qed
qed

section \<open>Releasing the finalizer\<close>

definition guarded :: "string \<Rightarrow> ns_world \<Rightarrow> bool" where
  "guarded name w \<longleftrightarrow> (\<exists>s. fmlookup (nw_shards w) name = Some s \<and> shard_has_finalizer s)"

lemma guarded_put [simp]:
  "guarded name (w\<lparr>nw_certs := m1\<rparr>) = guarded name w" "guarded name (w\<lparr>nw_secrets := m2\<rparr>) = guarded name w"
  "guarded name (w\<lparr>nw_cshards := m3\<rparr>) = guarded name w" "guarded name (w\<lparr>nw_kcp := m4\<rparr>) = guarded name w"
  by (simp_all add: guarded_def)

lemma guarded_status:
  "guarded name w \<Longrightarrow> patch_shard n (\<lambda>s. s\<lparr>sh_Status := st\<rparr>) w = Inr w' \<Longrightarrow> guarded name w'"
  by (auto simp: guarded_def patch_shard_def bindE_eq_Inr Let_def shard_has_finalizer_def)

text \<open>The kcp Shard object of \<open>name\<close> is gone from the cluster its root shard's client reaches.\<close>

definition kcp_shard_gone :: "rest_config res \<Rightarrow> string \<Rightarrow> ns_world \<Rightarrow> bool" where
  "kcp_shard_gone client name w \<longleftrightarrow> (\<exists>cfg. client = Inr cfg \<and> name \<notin> set (nw_kcp w (rc_Host cfg)))"

lemma kcp_gone_patch: "kcp_shard_gone c name w \<Longrightarrow> patch_shard n f w = Inr w' \<Longrightarrow> kcp_shard_gone c name w'"
  by (auto simp: kcp_shard_gone_def patch_shard_others)

lemma delete_kcp_holds:
  "holds (\<lambda>w. guarded name w) (tryA (api_call (delete_kcp_shard (rc_Host cfg) name)))
     (\<lambda>r w. guarded name w \<and> (\<forall>d. r = Inr d \<longrightarrow> (d = Inr () \<or> (\<exists>e. d = Inl e \<and> apierrors_IsNotFound e)) \<longrightarrow>
        kcp_shard_gone (Inr cfg) name w))"
proof (rule holds_try [where R = "\<lambda>d w. guarded name w \<and> (d = Inr () \<or> (\<exists>e. d = Inl e \<and> apierrors_IsNotFound e) \<longrightarrow>
        kcp_shard_gone (Inr cfg) name w)"])
  show "holds (\<lambda>w. guarded name w) (api_call (delete_kcp_shard (rc_Host cfg) name))
     (\<lambda>d w. guarded name w \<and> (d = Inr () \<or> (\<exists>e. d = Inl e \<and> apierrors_IsNotFound e) \<longrightarrow>
        kcp_shard_gone (Inr cfg) name w))"
    by (rule holds_call_result) (auto simp: delete_kcp_shard_def kcp_shard_gone_def split: if_splits)
qed auto

lemma release_holds:
  assumes "om_Name (sh_Meta s) = name"
  shows "holds (\<lambda>w. kcp_shard_gone c name w)
     (bindA (tryA (wrapA m (shard_removeFinalizer s))) (\<lambda>r. returnA (X, r)))
     (\<lambda>r w. kcp_shard_gone c name w)"
  using keeps_removeFinalizer(1) [of "kcp_shard_gone c name" s] kcp_gone_patch
  by (auto simp: keeps_def [symmetric] intro!: keeps_bind keeps_try keeps_wrap keeps_return)

text \<open>The part of the deletion after the root shard was found, started in the state \<open>w\<close>.\<close>

lemma deletion_tail:
  fixes w :: ns_world and r :: RootShard and env :: ctl_env
  assumes "om_Name (sh_Meta s) = name" "guarded name w"
  defines "client \<equiv> NewRootShardClient (ce_requestPath env) (reader_of w) (ce_address env) r ''root''"
  shows "holds (\<lambda>v. v = w)
    (bindA (tryA (wrapA m1 (api_read (\<lambda>w. NewRootShardClient (ce_requestPath env) (reader_of w) (ce_address env) r ''root''))))
      (\<lambda>client. case client of Inl e \<Rightarrow> returnA ([] :: Condition list, Inl e)
       | Inr cfg \<Rightarrow> bindA (tryA (api_call (delete_kcp_shard (rc_Host cfg) (om_Name (sh_Meta s))))) (\<lambda>d. case d of
            Inl e \<Rightarrow> if \<not> apierrors_IsNotFound e then returnA ([], Inl (wrap_error m2 e))
              else bindA (tryA (wrapA m3 (shard_removeFinalizer s))) (\<lambda>r. returnA ([], r))
          | Inr _ \<Rightarrow> bindA (tryA (wrapA m3 (shard_removeFinalizer s))) (\<lambda>r. returnA ([], r)))))
    (\<lambda>r v. guarded name v \<or> kcp_shard_gone client name v)"
proof (rule holds_bind [where R = "\<lambda>x v. v = w \<and> (\<forall>cfg. x = Inr (Inr cfg) \<longrightarrow> client = Inr cfg)"])
  show "holds (\<lambda>v. v = w) (tryA (wrapA m1 (api_read (\<lambda>w. NewRootShardClient (ce_requestPath env) (reader_of w)
      (ce_address env) r ''root'')))) (\<lambda>x v. v = w \<and> (\<forall>cfg. x = Inr (Inr cfg) \<longrightarrow> client = Inr cfg))"
    by (rule holds_try [where R = "\<lambda>x v. v = w \<and> (\<forall>cfg. x = Inr cfg \<longrightarrow> client = Inr cfg)"], rule holds_wrap, rule holds_read)
      (auto simp: client_def)
next
  fix x :: "go_error + rest_config"
  let ?Q = "\<lambda>r v. guarded name v \<or> kcp_shard_gone client name v"
  let ?rm = "bindA (tryA (wrapA m3 (shard_removeFinalizer s))) (\<lambda>r. returnA ([], r)) :: (ns_world, Condition list \<times> unit res) act"
  show "holds (\<lambda>v. v = w \<and> (\<forall>cfg. Inr x = Inr (Inr cfg) \<longrightarrow> client = Inr cfg))
     (case x of Inl e \<Rightarrow> returnA ([], Inl e)
       | Inr cfg \<Rightarrow> bindA (tryA (api_call (delete_kcp_shard (rc_Host cfg) (om_Name (sh_Meta s))))) (\<lambda>d. case d of
            Inl e \<Rightarrow> if \<not> apierrors_IsNotFound e then returnA ([], Inl (wrap_error m2 e)) else ?rm
          | Inr _ \<Rightarrow> ?rm)) ?Q"
  proof (cases x)
    case (Inl e)
    then show ?thesis using assms(2) by (auto intro!: holds_return)
  next
    case (Inr cfg)
    show ?thesis
    proof (cases "client = Inr cfg")
      case True
      have gone: "holds (\<lambda>v. kcp_shard_gone client name v) ?rm ?Q"
        by (rule holds_post, rule release_holds [OF assms(1)]) simp
      have rest: "holds (\<lambda>v. guarded name v \<and> (\<forall>y. Inr d = Inr y \<longrightarrow> (y = Inr () \<or> (\<exists>e. y = Inl e \<and> apierrors_IsNotFound e)) \<longrightarrow>
            kcp_shard_gone (Inr cfg) name v))
          (case d of Inl e \<Rightarrow> if \<not> apierrors_IsNotFound e then returnA ([], Inl (wrap_error m2 e)) else ?rm
            | Inr _ \<Rightarrow> ?rm) ?Q" for d
        using gone True by (cases d) (auto intro!: holds_return elim!: holds_pre)
      have run: "holds (\<lambda>v. guarded name v) (bindA (tryA (api_call (delete_kcp_shard (rc_Host cfg) name))) (\<lambda>d. case d of
            Inl e \<Rightarrow> if \<not> apierrors_IsNotFound e then returnA ([], Inl (wrap_error m2 e)) else ?rm
          | Inr _ \<Rightarrow> ?rm)) ?Q"
        by (rule holds_bind [OF delete_kcp_holds _ rest]) simp
      show ?thesis unfolding Inr sum.case assms(1) by (rule holds_pre [OF run]) (use assms(2) in auto)
    next
      case False
      then show ?thesis using Inr by (simp add: holds_def)
    qed
  qed
qed (use assms(2) in auto)

lemma fetch_rootshard_run:
  assumes "ref = Some l" "fmlookup (nw_rootshards w) (lor_Name l) = Some r" "os = [] \<or> hd os = Applied"
  shows "\<exists>cond. fetch_rootshard ref w os = (Inr (cond, Some r), w, drop 1 os)"
  using assms by (cases os) (auto simp: fetch_rootshard_def bindA_def tryA_def api_get_def api_read_def returnA_def
      FetchRootShard_def lookup_object_def)

lemma fetch_rootshard_lost:
  assumes "ref = Some l" "os \<noteq> []" "hd os \<noteq> Applied"
  shows "\<exists>cond. fetch_rootshard ref w os = (Inr (cond, None), w, drop 1 os)"
  using assms by (cases os; cases "hd os") (auto simp: fetch_rootshard_def bindA_def tryA_def api_get_def api_read_def
      returnA_def FetchRootShard_def)

text \<open>As long as the shard is not being deleted, a run leaves it guarded.\<close>

lemma shard_live_guarded:
  assumes "shard_has_finalizer s" "om_DeletionTimestamp (sh_Meta s) = None"
  shows "keeps (guarded name) (bindA (shard_reconcile env s) (\<lambda>(conditions, recErr).
    bindA (shard_reconcileStatus env s conditions) (\<lambda>status. finish recErr status)))"
proof -
  have "keeps (guarded name) (shard_reconcile env s)"
    unfolding shard_reconcile_def shard_ensureFinalizer_def using assms
    by (auto split: sum.split bool.split prod.split option.split
        intro!: keeps_bind keeps_try keeps_wrap keeps_basic keeps_shared keeps_shard_render)
  then show ?thesis by (rule keeps_shard_run) (rule guarded_status)
qed

text \<open>A deletion that reads the root shard leaves the shard guarded unless the kcp Shard is gone.\<close>

lemma shard_deletion_read:
  fixes env :: ctl_env
  assumes "om_Name (sh_Meta s) = name" "guarded name w" "shard_has_finalizer s"
    "om_DeletionTimestamp (sh_Meta s) \<noteq> None" "rsc_Reference (ss_RootShard (sh_Spec s)) = Some l"
    "fmlookup (nw_rootshards w) (lor_Name l) = Some r" "os = [] \<or> hd os = Applied"
  defines "client \<equiv> NewRootShardClient (ce_requestPath env) (reader_of w) (ce_address env) r ''root''"
    and "run \<equiv> bindA (shard_reconcile env s) (\<lambda>(conditions, recErr).
      bindA (shard_reconcileStatus env s conditions) (\<lambda>status. finish recErr status))"
  shows "guarded name (fst (snd (run w os))) \<or> kcp_shard_gone client name (fst (snd (run w os)))"
proof -
  let ?G = "\<lambda>v. guarded name v \<or> kcp_shard_gone client name v"
  obtain cond where fetch: "fetch_rootshard (Some l) w os = (Inr (cond, Some r), w, drop 1 os)"
    using fetch_rootshard_run [OF refl assms(6,7)] by blast
  obtain rr v os2 where hd: "shard_reconcile env s w os = (rr, v, os2)"
    by (cases "shard_reconcile env s w os") auto
  note tail = deletion_tail [OF assms(1,2), of "''failed to create root shard client''" env r
        "''failed to delete kcp Shard''" "''failed to remove finalizer''", unfolded holds_def, rule_format, OF refl,
        of "drop 1 os"]
  have "shard_handleDeletion env s w os = (rr, v, os2)"
    using hd assms(4) by (simp add: shard_reconcile_def)
  then have "?G v"
    using tail assms(3)
    by (simp add: client_def shard_handleDeletion_def assms(5) bindA_run [where m = "fetch_rootshard (Some l)", OF fetch])
  moreover have "keeps ?G (case x of (conditions, recErr) \<Rightarrow>
       bindA (shard_reconcileStatus env s conditions) (\<lambda>status. finish recErr status))" for x
    by (auto split: prod.split intro!: keeps_bind keeps_reconcileStatus [of ?G s] keeps_finish
        dest: guarded_status kcp_gone_patch)
  ultimately show ?thesis
    unfolding run_def
    using keeps_run [of ?G _ v os2] hd by (cases rr) (auto simp: bindA_def [of "shard_reconcile env s"])
qed

text \<open>C4: The finalizer is released for a reason. When a reconciliation of a shard with the cleanup
  finalizer ends, whatever the API did, and the object is gone or has lost the finalizer, then it
  was being deleted, and either the kcp Shard object of that name is gone from the root workspace
  behind the root shard's client, or the root shard could not be read: the shard names none, the
  named one does not exist, or the second call of the run, which reads it, failed.\<close>

theorem shard_finalizer_released:
  assumes "fmlookup (nw_shards w) name = Some s" "om_Name (sh_Meta s) = name" "shard_has_finalizer s"
    "\<not> guarded name (run_world (shard_Reconcile env name) w os)"
  shows "om_DeletionTimestamp (sh_Meta s) \<noteq> None
    \<and> (rsc_Reference (ss_RootShard (sh_Spec s)) = None
      \<or> (\<exists>l. rsc_Reference (ss_RootShard (sh_Spec s)) = Some l \<and>
          (fmlookup (nw_rootshards w) (lor_Name l) = None
           \<or> (\<exists>r. fmlookup (nw_rootshards w) (lor_Name l) = Some r
                \<and> kcp_shard_gone (NewRootShardClient (ce_requestPath env) (reader_of w) (ce_address env) r ''root'')
                    name (run_world (shard_Reconcile env name) w os))))
      \<or> (2 \<le> length os \<and> os ! 1 \<noteq> Applied))"
proof (cases rule: shard_Reconcile_cases [of env name w os])
  case (idle r os')
  then show ?thesis using assms by (simp add: run_world_def guarded_def)
next
  case (go s' os')
  have s': "s' = s" using go(1) assms(1) by simp
  let ?m = "bindA (shard_reconcile env s) (\<lambda>(conditions, recErr).
         bindA (shard_reconcileStatus env s conditions) (\<lambda>status. finish recErr status))"
  have run: "run_world (shard_Reconcile env name) w os = fst (snd (?m w os'))"
    by (simp add: run_world_def go(5) s')
  have guarded: "guarded name w" using assms by (simp add: guarded_def)
  have deleted: "om_DeletionTimestamp (sh_Meta s) \<noteq> None"
    using keeps_run [OF shard_live_guarded [OF assms(3)] guarded, of env os'] assms(4) run by auto
  show ?thesis
  proof (rule ccontr)
    assume contr: "\<not> ?thesis"
    then obtain l r where r: "rsc_Reference (ss_RootShard (sh_Spec s)) = Some l"
      "fmlookup (nw_rootshards w) (lor_Name l) = Some r" "\<not> (2 \<le> length os \<and> os ! 1 \<noteq> Applied)"
      "\<not> kcp_shard_gone (NewRootShardClient (ce_requestPath env) (reader_of w) (ce_address env) r ''root'')
          name (run_world (shard_Reconcile env name) w os)"
      using deleted by fastforce
    have "os' = [] \<or> hd os' = Applied"
      using r(3) go(3) by (cases os; cases os') auto
    from shard_deletion_read [OF assms(2) guarded assms(3) deleted r(1,2) this, of env]
    show False using assms(4) r(4) run by simp
  qed
qed

text \<open>A deletion that does not see the root shard lets the shard go.\<close>

lemma shard_released_unread:
  assumes "fmlookup (nw_shards w) name = Some s" "om_Name (sh_Meta s) = name"
    "om_DeletionTimestamp (sh_Meta s) \<noteq> None" "set (om_Finalizers (sh_Meta s)) = {shard_cleanupFinalizer}"
    "fetch_rootshard (rsc_Reference (ss_RootShard (sh_Spec s))) w os = (Inr (cond, None), w, [])"
  shows "fmlookup (nw_shards (run_world (shard_Reconcile env name) w (Applied # os))) name = None
    \<and> nw_kcp (run_world (shard_Reconcile env name) w (Applied # os)) = nw_kcp w"
proof -
  have fin: "filter (\<lambda>f. f \<noteq> shard_cleanupFinalizer) (om_Finalizers (sh_Meta s)) = []"
    using assms(4) by (auto simp: filter_empty_conv)
  have has: "shard_has_finalizer s" using assms(4) by (simp add: shard_has_finalizer_def)
  let ?w = "w\<lparr>nw_shards := fmdrop name (nw_shards w)\<rparr>"
  have rm: "shard_removeFinalizer s w [] = (Inr (), ?w, [])"
    using assms(1-3) has fin by (simp add: shard_removeFinalizer_def api_call_def patch_shard_def Let_def
        set_shard_finalizers_def sets_List_def lookup_object_def)
  have rec: "shard_reconcile env s w os = (Inr ([cond], Inr ()), ?w, [])"
    using assms(3) has by (simp add: shard_reconcile_def shard_handleDeletion_def assms(5) bindA_def tryA_def
        wrapA_def rm)
  let ?P = "\<lambda>v. fmlookup (nw_shards v) name = None \<and> nw_kcp v = nw_kcp w"
  have "keeps ?P (shard_reconcileStatus env s [cond])"
    by (rule keeps_reconcileStatus) (simp add: patch_shard_def lookup_object_def assms(2))
  then have "keeps ?P (bindA (shard_reconcileStatus env s [cond]) (\<lambda>status. finish (Inr ()) status))"
    by (rule keeps_bind) (rule keeps_finish)
  from keeps_run [OF this, of ?w "[]"]
  have "?P (fst (snd (bindA (shard_reconcileStatus env s [cond]) (\<lambda>status. finish (Inr ()) status) ?w [])))"
    by simp
  moreover have "shard_Reconcile env name w (Applied # os) =
      bindA (shard_reconcileStatus env s [cond]) (\<lambda>status. finish (Inr ()) status) ?w []"
    using assms(1) by (simp add: shard_Reconcile_def controller_Reconcile_def bindA_def [of "tryA _"] bindA_def [of "shard_reconcile env s"]
        tryA_def api_get_def api_read_def lookup_object_def rec)
  ultimately show ?thesis by (simp add: run_world_def)
qed

text \<open>One failed read leaks the kcp Shard object. When a shard is deleted and the read of its root
  shard fails once, for whatever reason, the controller takes the root shard for missing, removes
  the finalizer and lets the object go: the kcp Shard object stays in the root workspace although
  the root shard exists, and no reconciliation will come back to it.\<close>

theorem shard_deletion_leaks_kcp_shard:
  assumes "fmlookup (nw_shards w) name = Some s" "om_Name (sh_Meta s) = name"
    "om_DeletionTimestamp (sh_Meta s) \<noteq> None" "set (om_Finalizers (sh_Meta s)) = {shard_cleanupFinalizer}"
    "rsc_Reference (ss_RootShard (sh_Spec s)) = Some l" "failure \<noteq> Applied"
  shows "fmlookup (nw_shards (run_world (shard_Reconcile env name) w [Applied, failure])) name = None
    \<and> nw_kcp (run_world (shard_Reconcile env name) w [Applied, failure]) = nw_kcp w"
proof -
  obtain cond where "fetch_rootshard (Some l) w [failure] = (Inr (cond, None), w, [])"
    using fetch_rootshard_lost [OF refl, of "[failure]"] assms(6) by auto
  then show ?thesis
    using shard_released_unread [OF assms(1-4), of "[failure]" cond] by (simp add: assms(5))
qed

end
