(* ===== verification/RootShard_Controller.thy ===== *)
theory RootShard_Controller
  imports Controller_Base Pki_Proxy
begin

text \<open>
  \<open>pkg/controller/rootshard/controller.go\<close>: the controller of RootShard objects. It renders the CA
  hierarchy, the issuers, the leaf certificates and the PKI of the internal proxy, publishes the
  compiled object once every certificate is ready, and lists the shards in the status.
\<close>

section \<open>The PKI of a proxy\<close>

text \<open>
  \<open>Reconcile\<close> of \<open>internal/resources/frontproxy/reconciler.go\<close>, which the front proxy and the root
  shard controller call for the PKI of their proxy. The certificates are appended to those the
  caller has captured. When a CA bundle cannot be read, nothing is ensured and nothing captured.
\<close>

definition proxy_Reconcile ::
    "proxy_reconciler \<Rightarrow> CertManagerCertificate list \<Rightarrow> (ns_world, CertManagerCertificate list \<times> unit res) act" where
  "proxy_Reconcile p captured =
     bindA secrets_now (\<lambda>get. case proxy_secretReconcilers get p of
       Inl e \<Rightarrow> returnA (captured, Inl e)
     | Inr secretReconcilers \<Rightarrow>
         bindA (ensure_objects secret_kind [] secretReconcilers) (\<lambda>(_, e1).
         bindA (ensure_objects cert_kind captured (pure_reconcilers (proxy_certReconcilers p))) (\<lambda>(certs, e2).
         returnA (certs, aggregate (errors_of e1 @ errors_of e2)))))"

lemma keeps_proxy_Reconcile:
  assumes "\<And>w n x. P w \<Longrightarrow> om_Name (cc_Meta x) = n \<Longrightarrow> P (w\<lparr>nw_certs := fmupd n x (nw_certs w)\<rparr>)"
    "\<And>w n x. P w \<Longrightarrow> om_Name (sec_Meta x) = n \<Longrightarrow> P (w\<lparr>nw_secrets := fmupd n x (nw_secrets w)\<rparr>)"
  shows "keeps P (proxy_Reconcile p captured)"
  unfolding proxy_Reconcile_def
  by (auto split: prod.split sum.split intro!: keeps_bind keeps_basic keeps_shared keeps_kinds assms)

section \<open>The controller\<close>

definition rootshard_kubeconfigReconcilers :: "ctl_env \<Rightarrow> RootShard \<Rightarrow> secret_reconciler list" where
  "rootshard_kubeconfigReconcilers env r =
     [rootshard_LogicalClusterAdminKubeconfigReconciler (ce_write env) r,
      rootshard_ExternalLogicalClusterAdminKubeconfigReconciler (ce_write env) r]"

definition publish_rootshard ::
    "RootShard \<Rightarrow> VirtualWorkspace option res \<Rightarrow> Shard list res \<Rightarrow> CertManagerCertificate list
       \<Rightarrow> (ns_world, unit res) act" where
  "publish_rootshard r vw shards certs = (case (vw, shards) of
     (Inr kcpVW, Inr children) \<Rightarrow> publish crootshard_kind certs (CompiledRootShardReconciler r kcpVW children)
   | _ \<Rightarrow> returnA (Inr ()))"

definition rootshard_render :: "ctl_env \<Rightarrow> RootShard \<Rightarrow> (ns_world, unit res) act" where
  "rootshard_render env r =
     bindA (liftA (rootshard_certReconcilers r)) (\<lambda>certReconcilers.
     bindA (ensure_objects cert_kind [] (pure_reconcilers certReconcilers)) (\<lambda>(certs, e1).
     bindA (ensure_objects issuer_kind [] (pure_reconcilers (rootshard_issuerReconcilers r))) (\<lambda>(_, e2).
     bindA (ensure_secrets_if (cs_CABundleSecretRef (rsh_Spec r) \<noteq> None)
       (\<lambda>get. rootshard_MergedCABundleSecretReconciler get r)) (\<lambda>e3.
     bindA (ensure_secrets_if (cs_ClientCABundleRef (rsh_Spec r) \<noteq> None)
       (\<lambda>get. rootshard_MergedClientCABundleSecretReconciler get r)) (\<lambda>e4.
     bindA (ensure_objects secret_kind [] (rootshard_kubeconfigReconcilers env r)) (\<lambda>(_, e5).
     bindA (find_vw (cs_KCPVirtualWorkspace (rsh_Spec r))) (\<lambda>vw.
     bindA (rootshard_children r) (\<lambda>shards.
     bindA (proxy_Reconcile (NewRootShardProxy r) certs) (\<lambda>(certs, e6).
     bindA (publish_rootshard r vw shards certs) (\<lambda>e7.
     returnA (aggregate (errors_of e1 @ errors_of e2 @ errors_of e3 @ errors_of e4 @ errors_of e5 @ errors_of vw
       @ map (wrap_error ''failed to list shards'') (errors_of shards)
       @ map (wrap_error ''failed to reconcile proxy'') (errors_of e6) @ errors_of e7))))))))))))"

definition rootshard_reconcile :: "ctl_env \<Rightarrow> RootShard \<Rightarrow> (ns_world, Condition list \<times> unit res) act" where
  "rootshard_reconcile env r =
     (if om_DeletionTimestamp (rsh_Meta r) \<noteq> None then returnA ([], Inr ())
      else bindA (rootshard_render env r) (\<lambda>e. returnA ([], e)))"

section \<open>Status\<close>

text \<open>The phase of root shards and front proxies: deletion comes first.\<close>

definition object_phase :: "bool \<Rightarrow> bool \<Rightarrow> Phase" where
  "object_phase isAvailable deleting = (if deleting then Deleting else if isAvailable then Running else Provisioning)"

definition rootshard_new_status ::
    "condition_lib \<Rightarrow> RootShard \<Rightarrow> Condition list \<Rightarrow> Shard list res \<Rightarrow> RootShardStatus" where
  "rootshard_new_status lib r conditions shards =
     (let conds = UpdateConditions lib (om_Generation (rsh_Meta r)) conditions (rst_Conditions (rsh_Status r)) in
      \<lparr>rst_Phase = object_phase (available lib conds) (om_DeletionTimestamp (rsh_Meta r) \<noteq> None),
       rst_Conditions = conds,
       rst_Shards = (case shards of Inl _ \<Rightarrow> rst_Shards (rsh_Status r) | Inr ss \<Rightarrow> map shard_name ss)\<rparr>)"

definition rootshard_reconcileStatus ::
    "ctl_env \<Rightarrow> RootShard \<Rightarrow> Condition list \<Rightarrow> (ns_world, unit res) act" where
  "rootshard_reconcileStatus env r conditions =
     bindA (compiled_condition (ce_conditions env) (\<lambda>w. conditions_in (nw_crootshards w)
         (\<lambda>c. rst_Conditions (crsh_Status c)) (om_Name (rsh_Meta r))) (''CompiledRootShard '' @ om_Name (rsh_Meta r))) (\<lambda>c.
     bindA (rootshard_children r) (\<lambda>shards.
     let new = rootshard_new_status (ce_conditions env) r (conditions @ (case c of Inl _ \<Rightarrow> [] | Inr x \<Rightarrow> [x])) shards in
     if new = rsh_Status r then returnA (aggregate (errors_of c @ errors_of shards))
     else bindA (tryA (api_call (patch_object nw_rootshards (\<lambda>m w. w\<lparr>nw_rootshards := m\<rparr>) (om_Name (rsh_Meta r))
         (\<lambda>r. r\<lparr>rsh_Status := new\<rparr>)))) (\<lambda>p.
       returnA (aggregate (errors_of c @ errors_of shards @ errors_of p)))))"

definition rootshard_Reconcile :: "ctl_env \<Rightarrow> string \<Rightarrow> (ns_world, unit) act" where
  "rootshard_Reconcile env name = controller_Reconcile (api_get nw_rootshards name) (wrap_error ''failed to find root shard'')
     (\<lambda>_. False) (rootshard_reconcile env) (rootshard_reconcileStatus env)"

end
