(* ===== verification/FrontProxy_Controller.thy ===== *)
theory FrontProxy_Controller
  imports RootShard_Controller
begin

text \<open>
  \<open>pkg/controller/frontproxy/controller.go\<close>: the controller of FrontProxy objects. An error of the
  PKI does not stop it: it goes on to publish whatever certificates it has captured.
\<close>

definition frontproxy_render :: "FrontProxy \<Rightarrow> RootShard \<Rightarrow> Shard list \<Rightarrow> (ns_world, unit res) act" where
  "frontproxy_render f r children =
     bindA (liftA (NewFrontProxy (Some f) r children)) (\<lambda>p.
     bindA (proxy_Reconcile p []) (\<lambda>(certs, e1).
     bindA (publish cfrontproxy_kind certs (CompiledFrontProxyReconciler f r children)) (\<lambda>e2.
     returnA (aggregate (map (wrap_error ''failed to reconcile'') (errors_of e1) @ errors_of e2)))))"

definition frontproxy_reconcile :: "FrontProxy \<Rightarrow> (ns_world, Condition list \<times> unit res) act" where
  "frontproxy_reconcile f =
     (if om_DeletionTimestamp (fpx_Meta f) \<noteq> None then returnA ([], Inr ())
      else bindA (fetch_rootshard (rsc_Reference (fp_RootShard (fpx_Spec f)))) (\<lambda>(cond, rootShard). case rootShard of
        None \<Rightarrow> returnA ([cond], Inr ())
      | Some r \<Rightarrow>
          bindA (rootshard_children r) (\<lambda>shards. case shards of
            Inl e \<Rightarrow> returnA ([cond], Inl (wrap_error ''failed to list shards'' e))
          | Inr children \<Rightarrow> bindA (frontproxy_render f r children) (\<lambda>e. returnA ([cond], e)))))"

definition frontproxy_new_status :: "condition_lib \<Rightarrow> FrontProxy \<Rightarrow> Condition list \<Rightarrow> FrontProxyStatus" where
  "frontproxy_new_status lib f conditions =
     (let conds = UpdateConditions lib (om_Generation (fpx_Meta f)) conditions (fst_Conditions (fpx_Status f)) in
      \<lparr>fst_Phase = object_phase (available lib conds) (om_DeletionTimestamp (fpx_Meta f) \<noteq> None),
       fst_Conditions = conds\<rparr>)"

definition frontproxy_reconcileStatus ::
    "ctl_env \<Rightarrow> FrontProxy \<Rightarrow> Condition list \<Rightarrow> (ns_world, unit res) act" where
  "frontproxy_reconcileStatus env f conditions =
     bindA (compiled_condition (ce_conditions env) (\<lambda>w. conditions_in (nw_cfrontproxies w)
         (\<lambda>c. fst_Conditions (cfpo_Status c)) (om_Name (fpx_Meta f))) (''CompiledFrontProxy '' @ om_Name (fpx_Meta f))) (\<lambda>c.
     let new = frontproxy_new_status (ce_conditions env) f (conditions @ (case c of Inl _ \<Rightarrow> [] | Inr x \<Rightarrow> [x])) in
     if new = fpx_Status f then returnA (aggregate (errors_of c))
     else bindA (tryA (api_call (patch_object nw_frontproxies (\<lambda>m w. w\<lparr>nw_frontproxies := m\<rparr>) (om_Name (fpx_Meta f))
         (\<lambda>f. f\<lparr>fpx_Status := new\<rparr>)))) (\<lambda>p.
       returnA (aggregate (errors_of c @ errors_of p))))"

definition frontproxy_Reconcile :: "ctl_env \<Rightarrow> string \<Rightarrow> (ns_world, unit) act" where
  "frontproxy_Reconcile env name = controller_Reconcile (api_get nw_frontproxies name)
     (wrap_error ''failed to get FrontProxy object'') (\<lambda>_. False) frontproxy_reconcile (frontproxy_reconcileStatus env)"

end
