(* ===== verification/CacheServer_Controller.thy ===== *)
theory CacheServer_Controller
  imports Controller_Base Pki_CacheServer
begin

text \<open>
  \<open>pkg/controller/cacheserver/controller.go\<close>: the controller of CacheServer objects, which ends at
  the first error and keeps no status.
\<close>

definition cacheserver_reconcile :: "ctl_env \<Rightarrow> CacheServer \<Rightarrow> (ns_world, unit) act" where
  "cacheserver_reconcile env s =
     bindA (liftA (cacheserver_certReconcilers s)) (\<lambda>certReconcilers.
     bindA (must (ensure_objects cert_kind [] (pure_reconcilers certReconcilers))) (\<lambda>certs.
     bindA (must (ensure_objects issuer_kind [] (pure_reconcilers [cacheserver_RootCAIssuerReconciler s]))) (\<lambda>_.
     bindA (must (ensure_objects secret_kind [] [cacheserver_KubeconfigReconciler (ce_write env) s])) (\<lambda>_.
     bindA (publish ccacheserver_kind certs (CompiledCacheServerReconciler s)) liftA))))"

definition cacheserver_Reconcile :: "ctl_env \<Rightarrow> string \<Rightarrow> (ns_world, unit) act" where
  "cacheserver_Reconcile env name =
     bindA (tryA (api_get nw_cacheservers name)) (\<lambda>r. case r of
       Inl e \<Rightarrow> if apierrors_IsNotFound e then returnA () else failA e
     | Inr s \<Rightarrow>
         if om_DeletionTimestamp (cas_Meta s) \<noteq> None then returnA ()
         else cacheserver_reconcile env s)"

end
