(* ===== verification/VirtualWorkspace_Controller.thy ===== *)
theory VirtualWorkspace_Controller
  imports Controller_Base Pki_VirtualWorkspace
begin

text \<open>
  \<open>pkg/controller/virtualworkspace/controller.go\<close>: the controller of VirtualWorkspace objects. It
  resolves the target to a root shard, directly or through a shard, and ends at the first error.
\<close>

definition reference_valid :: Condition where
  "reference_valid = new_condition ''ReferenceValid'' ConditionTrue ''ReferenceValid'' ''Target reference is valid''"

definition reference_not_found :: "go_error \<Rightarrow> Condition" where
  "reference_not_found e = new_condition ''ReferenceValid'' ConditionFalse ''ReferenceNotFound'' (err_str e)"

definition vw_target :: "VirtualWorkspace \<Rightarrow> (ns_world, RootShard \<times> Shard option) act" where
  "vw_target vw = (case vt_RootShardRef (vw_Target (vwo_Spec vw)) of
     Some l \<Rightarrow> bindA (wrapA ''failed to get RootShard'' (api_get nw_rootshards (lor_Name l))) (\<lambda>r. returnA (r, None))
   | None \<Rightarrow> (case vt_ShardRef (vw_Target (vwo_Spec vw)) of
       Some l \<Rightarrow>
         bindA (wrapA ''failed to get Shard'' (api_get nw_shards (lor_Name l))) (\<lambda>s.
         let ref = rsc_Reference (ss_RootShard (sh_Spec s)) in
         if ref = None \<or> lor_Name (the ref) = []
         then failA (Plain ''the Shard does not reference a (valid) RootShard'')
         else bindA (wrapA ''failed to get RootShard'' (api_get nw_rootshards (lor_Name (the ref)))) (\<lambda>r.
           returnA (r, Some s)))
     | None \<Rightarrow> failA (Plain ''no valid target for VirtualWorkspace found'')))"

definition vw_render :: "VirtualWorkspace \<Rightarrow> RootShard \<Rightarrow> Shard option \<Rightarrow> (ns_world, unit) act" where
  "vw_render vw r s =
     bindA (must (ensure_objects cert_kind [] (pure_reconcilers (virtualworkspace_certReconcilers vw r)))) (\<lambda>certs.
     bindA (ensure_secrets_if (cs_ClientCABundleRef (rsh_Spec r) \<noteq> None \<or> vw_ClientCABundleRef (vwo_Spec vw) \<noteq> None)
       (\<lambda>get. virtualworkspace_MergedClientCABundleSecretReconciler get vw r)) (\<lambda>e.
     bindA (liftA e) (\<lambda>_.
     bindA (publish cvw_kind certs (CompiledVirtualWorkspaceReconciler vw r s)) liftA)))"

definition vw_reconcile :: "VirtualWorkspace \<Rightarrow> (ns_world, Condition list \<times> unit res) act" where
  "vw_reconcile vw =
     bindA (tryA (vw_target vw)) (\<lambda>t. case t of
       Inl e \<Rightarrow> returnA ([reference_not_found e], Inl e)
     | Inr (r, s) \<Rightarrow> bindA (tryA (vw_render vw r s)) (\<lambda>e. returnA ([reference_valid], e)))"

definition vw_reconcileStatus :: "ctl_env \<Rightarrow> VirtualWorkspace \<Rightarrow> Condition list \<Rightarrow> (ns_world, unit res) act" where
  "vw_reconcileStatus env vw conditions =
     bindA (compiled_condition (ce_conditions env) (\<lambda>w. conditions_in (nw_cvws w) cvwo_Conditions
         (om_Name (vwo_Meta vw))) (''CompiledVirtualWorkspace '' @ om_Name (vwo_Meta vw))) (\<lambda>c. case c of
       Inl e \<Rightarrow> returnA (Inl e)
     | Inr cond \<Rightarrow>
         let new = UpdateConditions (ce_conditions env) (om_Generation (vwo_Meta vw)) (conditions @ [cond])
           (vwo_Conditions vw) in
         if new = vwo_Conditions vw then returnA (Inr ())
         else tryA (api_call (patch_object nw_vws (\<lambda>m w. w\<lparr>nw_vws := m\<rparr>) (om_Name (vwo_Meta vw))
           (\<lambda>v. v\<lparr>vwo_Conditions := new\<rparr>))))"

definition vw_Reconcile :: "ctl_env \<Rightarrow> string \<Rightarrow> (ns_world, unit) act" where
  "vw_Reconcile env name = controller_Reconcile (api_get nw_vws name) (\<lambda>e. e)
     (\<lambda>vw. om_DeletionTimestamp (vwo_Meta vw) \<noteq> None) vw_reconcile (vw_reconcileStatus env)"

end
