(* ===== verification/Publish_Gate.thy ===== *)
theory Publish_Gate
  imports Shard_Controller_Props FrontProxy_Controller CacheServer_Controller VirtualWorkspace_Controller
begin

text \<open>
  When the controllers publish a compiled object. Its consumers mount the secrets of the
  certificates, so the controllers are to publish it only when every certificate is ready, with
  the revisions in its annotations. A run that ends without an error keeps that promise; the
  cache server and virtual workspace controllers keep it whatever happens, the front proxy
  controller breaks it when the client CA is not there yet.
\<close>

section \<open>The compiled objects\<close>

lemma compiled_kinds:
  "cert_blind cshard_kind" "cert_blind crootshard_kind" "cert_blind cfrontproxy_kind"
  "cert_blind ccacheserver_kind" "cert_blind cvw_kind"
  by (simp_all add: cert_blind_def kind_defs)

lemma k_get_other [simp]:
  "k_get cshard_kind (v\<lparr>nw_certs := m1\<rparr>) = k_get cshard_kind v" "k_get cshard_kind (v\<lparr>nw_secrets := m2\<rparr>) = k_get cshard_kind v"
  "k_get crootshard_kind (v\<lparr>nw_certs := m1\<rparr>) = k_get crootshard_kind v"
  "k_get crootshard_kind (v\<lparr>nw_secrets := m2\<rparr>) = k_get crootshard_kind v"
  "k_get crootshard_kind (v\<lparr>nw_issuers := m3\<rparr>) = k_get crootshard_kind v"
  "k_get cfrontproxy_kind (v\<lparr>nw_certs := m1\<rparr>) = k_get cfrontproxy_kind v"
  "k_get cfrontproxy_kind (v\<lparr>nw_secrets := m2\<rparr>) = k_get cfrontproxy_kind v"
  "k_get ccacheserver_kind (v\<lparr>nw_certs := m1\<rparr>) = k_get ccacheserver_kind v"
  "k_get ccacheserver_kind (v\<lparr>nw_secrets := m2\<rparr>) = k_get ccacheserver_kind v"
  "k_get ccacheserver_kind (v\<lparr>nw_issuers := m3\<rparr>) = k_get ccacheserver_kind v"
  "k_get cvw_kind (v\<lparr>nw_certs := m1\<rparr>) = k_get cvw_kind v" "k_get cvw_kind (v\<lparr>nw_secrets := m2\<rparr>) = k_get cvw_kind v"
  by (simp_all add: kind_defs)

lemma k_get_kinds:
  "k_get cshard_kind = nw_cshards" "k_get crootshard_kind = nw_crootshards" "k_get cfrontproxy_kind = nw_cfrontproxies"
  "k_get ccacheserver_kind = nw_ccacheservers" "k_get cvw_kind = nw_cvws"
  by (simp_all add: kind_defs)

lemma published_kinds:
  assumes "nw_certs v = nw_certs w"
  shows "nw_cshards v = nw_cshards w \<Longrightarrow> certs_published cshard_kind meta1 recs name v = certs_published cshard_kind meta1 recs name w"
    "nw_crootshards v = nw_crootshards w \<Longrightarrow> certs_published crootshard_kind meta2 recs name v = certs_published crootshard_kind meta2 recs name w"
    "nw_cfrontproxies v = nw_cfrontproxies w \<Longrightarrow> certs_published cfrontproxy_kind meta3 recs name v = certs_published cfrontproxy_kind meta3 recs name w"
    "nw_cvws v = nw_cvws w \<Longrightarrow> certs_published cvw_kind meta4 recs name v = certs_published cvw_kind meta4 recs name w"
  by (rule certs_published_cong [OF assms], simp add: k_get_kinds)+

lemma certs_ensured_other [simp]:
  "certs_ensured recs certs (v\<lparr>nw_secrets := m2\<rparr>) = certs_ensured recs certs v"
  "certs_ensured recs certs (v\<lparr>nw_issuers := m3\<rparr>) = certs_ensured recs certs v"
  by (rule certs_ensured_cong, simp)+

lemma certs_ensured_Nil [simp]: "certs_ensured [] certs v \<longleftrightarrow> certs = []"
  by (cases certs) (auto simp: certs_ensured_def)

lemma compiles_compiled:
  "compiles cshard_kind cso_Meta (om_Name (sh_Meta s)) (CompiledShardReconciler s r kcpVW shards)"
  "compiles crootshard_kind crsh_Meta (om_Name (rsh_Meta r)) (CompiledRootShardReconciler r kcpVW shards)"
  "compiles cfrontproxy_kind cfpo_Meta (om_Name (fpx_Meta f)) (CompiledFrontProxyReconciler f r shards)"
  "compiles ccacheserver_kind ccs_Meta (om_Name (cas_Meta c)) (CompiledCacheServerReconciler c)"
  "compiles cvw_kind cvwo_Meta (om_Name (vwo_Meta vw)) (CompiledVirtualWorkspaceReconciler vw r shard)"
  by (auto simp: compiles_def kind_defs compiled_meta_def CompiledShardReconciler_def CompiledRootShardReconciler_def
      CompiledFrontProxyReconciler_def CompiledCacheServerReconciler_def CompiledVirtualWorkspaceReconciler_def)

lemma shard_cert_names: "distinct (map fst (shard_certReconcilers s r))"
  by (simp add: shard_certReconcilers_def shard_cert_defs shard_pki.leaf_name names_defs)

lemma proxy_cert_names: "distinct (map fst (proxy_certReconcilers p))"
  by (simp add: proxy_certReconcilers_def proxy_cert_defs proxy_pki.leaf_name proxy_certName_def names_defs
      split: option.split)

lemma rootshard_cert_list:
  assumes "rootshard_certReconcilers r = Inr recs"
  shows "map fst recs = map (GetRootShardCertificateName r) [ServerCertificate, ServiceAccountCertificate,
        VirtualWorkspacesCertificate, LogicalClusterAdminCertificate, ExternalLogicalClusterAdminCertificate,
        ClientCertificate, OperatorCertificate]
      @ map (GetRootShardCAName r) (intermediateCAs
          @ (if crt_IssuerRef (rs_Certificates (rsh_Spec r)) \<noteq> None then [RootCA] else []))"
  using assms by (auto simp: rootshard_certReconcilers_def rootshard_RootCACertificateReconciler_def
      rootshard_CACertificateReconciler_def rootshard_cert_defs rootshard_pki.leaf_name intermediateCAs_def Let_def)

lemma rootshard_cert_names:
  assumes "rootshard_certReconcilers r = Inr recs"
  shows "distinct (map fst (recs @ proxy_certReconcilers (NewRootShardProxy r)))"
  by (simp only: map_append rootshard_cert_list [OF assms])
    (simp add: intermediateCAs_def proxy_certReconcilers_def proxy_cert_defs proxy_pki.leaf_name
      proxy_certName_def NewRootShardProxy_def names_defs)

lemma cacheserver_cert_names:
  "cacheserver_certReconcilers s = Inr recs \<Longrightarrow> distinct (map fst recs)"
  by (auto simp: cacheserver_certReconcilers_def cacheserver_RootCACertificateReconciler_def
      cacheserver_ServerCertificateReconciler_def cacheserver_ClientCertificateReconciler_def
      cacheserver_pki.leaf_name cacheserver_certName_def names_defs Let_def split: option.splits)

lemma vw_cert_names: "distinct (map fst (virtualworkspace_certReconcilers vw r))"
  by (simp add: virtualworkspace_certReconcilers_def virtualworkspace_ClientCertificateReconciler_def
      virtualworkspace_ServerCertificateReconciler_def vw_pki.leaf_name names_defs)

section \<open>The controllers that collect their errors\<close>

lemmas gate_steps = keeps_basic keeps_shared keeps_kinds keeps_ensure_secrets_if

lemma shard_render_gate:
  "holds (\<lambda>v. fmlookup (nw_cshards v) (om_Name (sh_Meta s)) = C0) (shard_render env s r)
     (gate cshard_kind cso_Meta (shard_certReconcilers s r) (om_Name (sh_Meta s)) C0)"
proof -
  let ?n = "om_Name (sh_Meta s)" and ?recs = "shard_certReconcilers s r"
  let ?I = "\<lambda>certs v. certs_ensured ?recs certs v \<and> fmlookup (k_get cshard_kind v) ?n = C0"
  have pub: "holds (?I certs) (publish_shard s r vw shards certs) (gate cshard_kind cso_Meta ?recs ?n C0)" for certs vw shards
    unfolding publish_shard_def
    by (auto split: sum.split intro!: publish_gate [OF kinds_ok(4) compiled_kinds(1) compiles_compiled(1) shard_cert_names]
        gate_same)
  have "holds (\<lambda>v. certs_ensured [] [] v \<and> fmlookup (k_get cshard_kind v) ?n = C0) (shard_render env s r)
     (gate cshard_kind cso_Meta ?recs ?n C0)"
    unfolding shard_render_def
    by (rule gate_certs) (auto simp: shard_cert_names split: prod.split
        intro!: gate_step gate_steps gate_end [OF pub] never_ok_bind never_ok_return)
  then show ?thesis by (rule holds_pre) (simp add: kind_defs)
qed

text \<open>The proxy's part, after the certificates of \<open>recs0\<close>.\<close>

lemma gate_proxy:
  assumes "distinct (map fst (recs0 @ proxy_certReconcilers p))"
    and "\<And>m v. fmlookup (k_get K (v\<lparr>nw_certs := m\<rparr>)) name = fmlookup (k_get K v) name"
    and "\<And>m v. fmlookup (k_get K (v\<lparr>nw_secrets := m\<rparr>)) name = fmlookup (k_get K v) name"
    and "\<And>certs. holds (\<lambda>v. certs_ensured (recs0 @ proxy_certReconcilers p) certs v \<and> fmlookup (k_get K v) name = C0)
       (f (certs, Inr ())) (gate K meta all name C0)"
    and never: "\<And>certs e. never_ok (f (certs, Inl e))"
  shows "holds (\<lambda>v. certs_ensured recs0 caps v \<and> fmlookup (k_get K v) name = C0)
     (bindA (proxy_Reconcile p caps) f) (gate K meta all name C0)"
  unfolding proxy_Reconcile_def bindA_assoc
proof (rule gate_step [OF keeps_shared(1)])
  fix get
  show "holds (\<lambda>v. certs_ensured recs0 caps v \<and> fmlookup (k_get K v) name = C0)
     (bindA (case proxy_secretReconcilers get p of Inl e \<Rightarrow> returnA (caps, Inl e)
       | Inr secretReconcilers \<Rightarrow> bindA (ensure_objects secret_kind [] secretReconcilers) (\<lambda>(_, e1).
           bindA (ensure_objects cert_kind caps (pure_reconcilers (proxy_certReconcilers p))) (\<lambda>(certs, e2).
           returnA (certs, aggregate (errors_of e1 @ errors_of e2))))) f) (gate K meta all name C0)"
  proof (cases "proxy_secretReconcilers get p")
    case (Inl e)
    then show ?thesis using never_ok_gate [OF never] by simp
  next
    case (Inr recs)
    have certs: "holds (\<lambda>v. certs_ensured recs0 caps v \<and> fmlookup (k_get K v) name = C0)
       (bindA (ensure_objects cert_kind caps (pure_reconcilers (proxy_certReconcilers p))) (\<lambda>(certs, e2).
           f (certs, aggregate (errors_of e1 @ errors_of e2)))) (gate K meta all name C0)" for e1 :: "unit res"
    proof (cases e1)
      case (Inl e)
      then show ?thesis by (intro never_ok_gate never_ok_bind) (auto intro: never)
    next
      case (Inr u)
      then show ?thesis using assms by (intro gate_certs) auto
    qed
    show ?thesis
      unfolding Inr sum.case bindA_assoc
      by (rule gate_step) (use certs in \<open>auto simp: assms(3) bindA_assoc case_prod_unfold intro!: keeps_kinds\<close>)
  qed
qed

lemma rootshard_render_gate:
  assumes "rootshard_certReconcilers r = Inr recs"
  shows "holds (\<lambda>v. fmlookup (nw_crootshards v) (om_Name (rsh_Meta r)) = C0) (rootshard_render env r)
     (gate crootshard_kind crsh_Meta (recs @ proxy_certReconcilers (NewRootShardProxy r)) (om_Name (rsh_Meta r)) C0)"
proof -
  let ?n = "om_Name (rsh_Meta r)" and ?recs = "recs @ proxy_certReconcilers (NewRootShardProxy r)"
  note names = rootshard_cert_names [OF assms]
  have pub: "holds (\<lambda>v. certs_ensured ?recs certs v \<and> fmlookup (k_get crootshard_kind v) ?n = C0)
      (publish_rootshard r vw shards certs) (gate crootshard_kind crsh_Meta ?recs ?n C0)" for certs vw shards
    unfolding publish_rootshard_def
    by (auto split: sum.split intro!: publish_gate [OF kinds_ok(5) compiled_kinds(2) compiles_compiled(2) names] gate_same)
  have tail: "holds (\<lambda>v. certs_ensured recs certs v \<and> fmlookup (k_get crootshard_kind v) ?n = C0)
     (bindA (proxy_Reconcile (NewRootShardProxy r) certs) (\<lambda>(certs, e6).
        bindA (publish_rootshard r vw shards certs) (\<lambda>e7. returnA (aggregate (g e6 e7)))))
     (gate crootshard_kind crsh_Meta ?recs ?n C0)"
    if g: "\<forall>e6 e7. g e6 e7 = [] \<longrightarrow> e6 = Inr () \<and> e7 = Inr ()" for certs vw shards g
  proof (rule gate_proxy [OF names])
    show "holds (\<lambda>v. certs_ensured ?recs cs v \<and> fmlookup (k_get crootshard_kind v) ?n = C0)
       (case (cs, Inr ()) of (certs, e6) \<Rightarrow>
         bindA (publish_rootshard r vw shards certs) (\<lambda>e7. returnA (aggregate (g e6 e7))))
       (gate crootshard_kind crsh_Meta ?recs ?n C0)" for cs
      unfolding prod.case by (rule gate_end [OF pub refl]) (simp add: g)
    show "never_ok (case (cs, Inl e) of (certs, e6) \<Rightarrow>
         bindA (publish_rootshard r vw shards certs) (\<lambda>e7. returnA (aggregate (g e6 e7))))" for cs e
      unfolding prod.case by (intro never_ok_bind never_ok_return) (use g in force)
  qed simp_all
  have "holds (\<lambda>v. certs_ensured [] [] v \<and> fmlookup (k_get crootshard_kind v) ?n = C0) (rootshard_render env r)
     (gate crootshard_kind crsh_Meta ?recs ?n C0)"
    unfolding rootshard_render_def assms bindA_simps
    by (rule gate_certs) (use names in \<open>auto split: prod.split
        intro!: gate_step gate_steps tail never_ok_bind never_ok_return\<close>)
  then show ?thesis by (rule holds_pre) (simp add: kind_defs)
qed

lemma frontproxy_render_gate:
  assumes "NewFrontProxy (Some f) r children = Inr p"
  shows "holds (\<lambda>v. fmlookup (nw_cfrontproxies v) (om_Name (fpx_Meta f)) = C0) (frontproxy_render f r children)
     (gate cfrontproxy_kind cfpo_Meta (proxy_certReconcilers p) (om_Name (fpx_Meta f)) C0)"
proof -
  let ?n = "om_Name (fpx_Meta f)" and ?recs = "proxy_certReconcilers p"
  have "holds (\<lambda>v. certs_ensured [] [] v \<and> fmlookup (k_get cfrontproxy_kind v) ?n = C0) (frontproxy_render f r children)
     (gate cfrontproxy_kind cfpo_Meta ?recs ?n C0)"
    unfolding frontproxy_render_def assms bindA_simps
    by (rule gate_proxy) (auto simp: proxy_cert_names split: prod.split
        intro!: gate_end [OF publish_gate [OF kinds_ok(6) compiled_kinds(3) compiles_compiled(3) proxy_cert_names]]
          never_ok_bind never_ok_return)
  then show ?thesis by (rule holds_pre) (simp add: kind_defs)
qed

section \<open>Their runs\<close>

lemma fetch_rootshard_holds:
  "holds P (fetch_rootshard ref) (\<lambda>x v. P v \<and> (\<forall>cond r. x = Inr (cond, Some r) \<longrightarrow>
     (\<exists>l. ref = Some l \<and> fmlookup (nw_rootshards v) (lor_Name l) = Some r)))"
proof (cases ref)
  case None
  then show ?thesis by (auto simp: fetch_rootshard_def FetchRootShard_def intro!: holds_return)
next
  case (Some l)
  show ?thesis
    unfolding fetch_rootshard_def Some option.case api_get_def
    by (rule holds_bind [where R = "\<lambda>x v. P v \<and> (\<forall>r. x = Inr (Inr r) \<longrightarrow> fmlookup (nw_rootshards v) (lor_Name l) = Some r)"],
        rule holds_try [where R = "\<lambda>x v. P v \<and> (\<forall>r. x = Inr r \<longrightarrow> fmlookup (nw_rootshards v) (lor_Name l) = Some r)"],
        rule holds_read)
      (auto intro!: holds_return simp: FetchRootShard_def split: sum.splits)
qed

lemma fetch_then:
  assumes "\<And>e v. P v \<Longrightarrow> Q (Inl e) v" "\<And>cond. holds P (f (cond, None)) Q"
    and some: "\<And>cond l r v. ref = Some l \<Longrightarrow> P v \<Longrightarrow> fmlookup (nw_rootshards v) (lor_Name l) = Some r \<Longrightarrow>
       holds (\<lambda>u. u = v) (f (cond, Some r)) Q"
  shows "holds P (bindA (fetch_rootshard ref) f) Q"
proof (rule holds_bind [OF fetch_rootshard_holds [of P]])
  fix x :: "Condition \<times> RootShard option"
  obtain c r where x: "x = (c, r)" by (cases x) auto
  show "holds (\<lambda>v. P v \<and> (\<forall>cond r. Inr x = Inr (cond, Some r) \<longrightarrow>
      (\<exists>l. ref = Some l \<and> fmlookup (nw_rootshards v) (lor_Name l) = Some r))) (f x) Q"
  proof (cases r)
    case None
    then show ?thesis unfolding x by (auto intro: holds_pre [OF assms(2)])
  next
    case (Some y)
    show ?thesis unfolding x Some by (rule holds_pointwise) (auto intro: some)
  qed
qed (use assms(1) in simp)

lemma patch_keeps_others:
  assumes "patch_object get put n f w = Inr w'"
  shows "\<exists>m. w' = put m w"
  using assms by (auto simp: patch_object_def bindE_eq_Inr)

lemma patch_shard_certs: "patch_shard n f w = Inr w' \<Longrightarrow> nw_certs w' = nw_certs w"
  by (auto simp: patch_shard_def bindE_eq_Inr Let_def)

text \<open>A status update keeps what depends on the certificates and one compiled map only.\<close>

lemma keeps_statuses:
  assumes "\<And>w w'. P w \<Longrightarrow> nw_certs w' = nw_certs w \<Longrightarrow> nw_cshards w' = nw_cshards w
     \<Longrightarrow> nw_crootshards w' = nw_crootshards w \<Longrightarrow> nw_cfrontproxies w' = nw_cfrontproxies w
     \<Longrightarrow> nw_cvws w' = nw_cvws w \<Longrightarrow> nw_secrets w' = nw_secrets w \<Longrightarrow> P w'"
  shows "keeps P (shard_reconcileStatus env s conditions)" "keeps P (rootshard_reconcileStatus env r conditions)"
    "keeps P (frontproxy_reconcileStatus env f conditions)" "keeps P (vw_reconcileStatus env vw conditions)"
proof -
  have "patch_shard n g w = Inr w' \<Longrightarrow> P w \<Longrightarrow> P w'" for n g w w'
    by (erule assms) (auto simp: patch_shard_def bindE_eq_Inr Let_def)
  then show "keeps P (shard_reconcileStatus env s conditions)" by (auto intro: keeps_reconcileStatus)
  show "keeps P (rootshard_reconcileStatus env r conditions)" "keeps P (frontproxy_reconcileStatus env f conditions)"
    "keeps P (vw_reconcileStatus env vw conditions)"
    unfolding rootshard_reconcileStatus_def frontproxy_reconcileStatus_def vw_reconcileStatus_def
      compiled_condition_def Let_def
    by (auto split: sum.split intro!: keeps_bind keeps_try keeps_basic keeps_shared keeps_call
        dest!: patch_keeps_others elim!: assms)
qed

section \<open>The controllers that end at the first error\<close>

lemma must_then:
  assumes "holds P m (\<lambda>r v. (\<forall>x. r = Inr (x, Inr ()) \<longrightarrow> holds (\<lambda>u. u = v) (f x) Q) \<and> (\<forall>e. Q (Inl e) v))"
  shows "holds P (bindA (must m) f) Q"
proof -
  have "holds P (must m) (\<lambda>r v. (\<forall>x. r = Inr x \<longrightarrow> holds (\<lambda>u. u = v) (f x) Q) \<and> (\<forall>e. Q (Inl e) v))"
    unfolding must_def
  proof (rule holds_bind [OF assms])
    fix x :: "'b \<times> unit res"
    show "holds (\<lambda>w. (\<forall>y. Inr x = Inr (y, Inr ()) \<longrightarrow> holds (\<lambda>u. u = w) (f y) Q) \<and> (\<forall>e. Q (Inl e) w))
       (case x of (x, e) \<Rightarrow> bindA (liftA e) (\<lambda>_. returnA x))
       (\<lambda>r v. (\<forall>x. r = Inr x \<longrightarrow> holds (\<lambda>u. u = v) (f x) Q) \<and> (\<forall>e. Q (Inl e) v))"
      by (cases x; cases "snd x") (auto intro!: holds_return holds_fail)
  qed simp
  then show ?thesis
    by (rule holds_bind) (auto intro: holds_pointwise)
qed

text \<open>Ensuring the certificates and ending at the first error: what follows finds them in the cluster.\<close>

lemma must_certs:
  assumes "distinct (map fst recs)" "\<And>m v. fmlookup (k_get K (v\<lparr>nw_certs := m\<rparr>)) name = fmlookup (k_get K v) name"
    and "\<And>certs. holds (\<lambda>v. certs_ensured recs certs v \<and> fmlookup (k_get K v) name = C0) (f certs) Q"
    and "\<And>v e. fmlookup (k_get K v) name = C0 \<Longrightarrow> Q (Inl e) v"
  shows "holds (\<lambda>v. fmlookup (k_get K v) name = C0) (bindA (must (ensure_objects cert_kind [] (pure_reconcilers recs))) f) Q"
proof (rule must_then)
  let ?look = "\<lambda>v. fmlookup (k_get K v) name = C0"
  have dist: "distinct (map fst ([] @ pure_reconcilers recs))"
    using assms(1) by (simp add: case_prod_unfold comp_def)
  have keep: "?look (k_put cert_kind m v)" if "?look v" for v m
    using that assms(2) by (simp add: cert_kind_def)
  have run: "holds ?look (ensure_objects cert_kind [] (pure_reconcilers recs))
     (\<lambda>r v. ?look v \<and> (\<forall>cs. r = Inr (cs, Inr ()) \<longrightarrow> certs_ensured recs cs v))"
    using ensure_objects_holds [where P = ?look, OF kinds_ok(1) keep dist, of "[]"]
    by (auto simp: certs_ensured_def elim!: holds_pre holds_post)
  show "holds ?look (ensure_objects cert_kind [] (pure_reconcilers recs))
     (\<lambda>r v. (\<forall>x. r = Inr (x, Inr ()) \<longrightarrow> holds (\<lambda>u. u = v) (f x) Q) \<and> (\<forall>e. Q (Inl e) v))"
    by (rule holds_post [OF run]) (auto intro: assms(4) holds_pre [OF assms(3)])
qed

definition strict_gate ::
    "(ns_world, 'o) object_kind \<Rightarrow> ('o \<Rightarrow> ObjectMeta) \<Rightarrow> certificate_reconciler list \<Rightarrow> string \<Rightarrow> 'o option
       \<Rightarrow> ns_world \<Rightarrow> bool" where
  "strict_gate K meta recs name C0 v \<longleftrightarrow>
     (fmlookup (k_get K v) name \<noteq> C0 \<longrightarrow> certs_published K meta recs name v)"

lemma strict_step:
  assumes "keeps P m" "\<And>x. holds P (f x) (\<lambda>_. strict_gate K meta recs name C0)"
    "\<And>v. P v \<Longrightarrow> fmlookup (k_get K v) name = C0"
  shows "holds P (bindA m f) (\<lambda>_. strict_gate K meta recs name C0)"
  by (rule holds_bind [OF assms(1) [unfolded keeps_def] _ assms(2)]) (simp add: strict_gate_def assms(3))

lemma strict_publish:
  assumes "kind_ok K nm" "cert_blind K" "compiles K meta name rec" "distinct (map fst recs)"
  shows "holds (\<lambda>v. certs_ensured recs certs v \<and> fmlookup (k_get K v) name = C0)
     (bindA (publish K certs rec) liftA) (\<lambda>_. strict_gate K meta recs name C0)"
  by (rule holds_bind [OF publish_strict [OF assms]]) (auto simp: strict_gate_def intro!: holds_lift)

lemma cacheserver_strict:
  assumes "cacheserver_certReconcilers s = Inr recs"
  shows "holds (\<lambda>v. fmlookup (k_get ccacheserver_kind v) (om_Name (cas_Meta s)) = C0) (cacheserver_reconcile env s)
     (\<lambda>_. strict_gate ccacheserver_kind ccs_Meta recs (om_Name (cas_Meta s)) C0)"
  unfolding cacheserver_reconcile_def assms bindA_simps
  by (rule must_certs) (auto simp: cacheserver_cert_names [OF assms] strict_gate_def [of _ _ _ _ _ v for v]
      intro!: strict_step keeps_must keeps_kinds
        strict_publish [OF kinds_ok(7) compiled_kinds(4) compiles_compiled(4) cacheserver_cert_names [OF assms]])

lemma vw_strict:
  "holds (\<lambda>v. fmlookup (k_get cvw_kind v) (om_Name (vwo_Meta vw)) = C0) (vw_render vw r s)
     (\<lambda>_. strict_gate cvw_kind cvwo_Meta (virtualworkspace_certReconcilers vw r) (om_Name (vwo_Meta vw)) C0)"
  unfolding vw_render_def
  by (rule must_certs) (auto simp: vw_cert_names strict_gate_def [of _ _ _ _ _ v for v]
      intro!: strict_step keeps_ensure_secrets_if keeps_basic
        strict_publish [OF kinds_ok(8) compiled_kinds(5) compiles_compiled(5) vw_cert_names])

end
