(* ===== verification/Publish_Gate_Props.thy ===== *)
theory Publish_Gate_Props
  imports Publish_Gate
begin

text \<open>
  The publishing gate of the five controllers, for every run: what is in the cluster when the
  compiled object has changed.
\<close>

text \<open>What a run for the shard \<open>s\<close> that ends without an error leaves, seen from the state \<open>w\<close> it starts in.\<close>

definition shard_gate :: "ns_world \<Rightarrow> Shard \<Rightarrow> string \<Rightarrow> ns_world \<Rightarrow> bool" where
  "shard_gate w s name v \<longleftrightarrow> (fmlookup (nw_cshards v) name \<noteq> fmlookup (nw_cshards w) name \<longrightarrow>
     (\<exists>l r. rsc_Reference (ss_RootShard (sh_Spec s)) = Some l \<and> fmlookup (nw_rootshards w) (lor_Name l) = Some r
        \<and> certs_published cshard_kind cso_Meta (shard_certReconcilers s r) name v))"

lemma shard_reconcile_gate:
  assumes name: "om_Name (sh_Meta s) = name"
  shows "holds (\<lambda>v. v = w) (shard_reconcile env s) (\<lambda>x v. (\<exists>cs. x = Inr (cs, Inr ())) \<longrightarrow> shard_gate w s name v)"
proof (cases "om_DeletionTimestamp (sh_Meta s)")
  case (Some t)
  have "keeps (\<lambda>v. nw_cshards v = nw_cshards w) (shard_handleDeletion env s)"
    by (rule keeps_handleDeletion) (simp_all add: patch_shard_others delete_kcp_others)
  then show ?thesis using Some by (auto simp: shard_reconcile_def shard_gate_def elim!: keeps_holds)
next
  case None
  let ?ref = "rsc_Reference (ss_RootShard (sh_Spec s))"
  let ?Q = "\<lambda>x v. (\<exists>cs. x = Inr (cs :: Condition list, Inr ())) \<longrightarrow> shard_gate w s name v"
  let ?P = "\<lambda>v. nw_cshards v = nw_cshards w \<and> nw_rootshards v = nw_rootshards w"
  have render: "holds ?P (bindA (shard_render env s r) (\<lambda>e. returnA ([c], e))) ?Q"
    if "?ref = Some l" "fmlookup (nw_rootshards w) (lor_Name l) = Some r" for r c l
    by (rule holds_post [OF holds_pre [OF gate_with_conditions [OF shard_render_gate]]])
      (use that name in \<open>auto simp: shard_gate_def k_get_kinds\<close>)
  have fetch: "holds ?P (bindA (fetch_rootshard ?ref) (\<lambda>(cond, rootShard). case rootShard of
      None \<Rightarrow> returnA ([cond], Inr ()) | Some r \<Rightarrow> bindA (shard_render env s r) (\<lambda>e. returnA ([cond], e)))) ?Q"
  proof (rule fetch_then, goal_cases)
    case (3 cond l r v)
    then show ?case unfolding prod.case option.case by (intro holds_pre [OF render]) simp_all
  qed (auto simp: shard_gate_def intro!: holds_return)
  have fin: "holds (\<lambda>v. v = w) (tryA (wrapA m (shard_ensureFinalizer s))) (\<lambda>_. ?P)" for m
    by (rule holds_pre [where P = ?P], fold keeps_def)
      (auto intro!: keeps_try keeps_wrap keeps_removeFinalizer simp: patch_shard_others)
  show ?thesis
    unfolding shard_reconcile_def None
    by (simp, rule holds_bind [OF fin])
      (use fetch in \<open>auto simp: shard_gate_def split: sum.split bool.split intro!: holds_return\<close>)
qed

text \<open>C1: The gate of the shard controller. If a reconciliation of a shard ends without an error and has
  changed the compiled shard, then the shard and its root shard existed, every certificate of the
  shard is in the cluster and ready, and the compiled shard carries the revision of each.\<close>

theorem shard_publish_gate:
  assumes "well_named w" "shard_Reconcile env name w os = (Inr (), w', os')"
    "fmlookup (nw_cshards w') name \<noteq> fmlookup (nw_cshards w) name"
  shows "\<exists>s l r. fmlookup (nw_shards w) name = Some s \<and> rsc_Reference (ss_RootShard (sh_Spec s)) = Some l
     \<and> fmlookup (nw_rootshards w) (lor_Name l) = Some r
     \<and> certs_published cshard_kind cso_Meta (shard_certReconcilers s r) name w'"
proof -
  have "w' = w \<or> (\<exists>s. fmlookup (nw_shards w) name = Some s \<and> shard_gate w s name w')"
  proof (rule controller_gate [OF assms(2) [unfolded shard_Reconcile_def]])
    show "holds (\<lambda>v. v = w) (shard_reconcile env s) (\<lambda>x v. (\<exists>cs. x = Inr (cs, Inr ())) \<longrightarrow> shard_gate w s name v)"
      if "fmlookup (nw_shards w) name = Some s" for s
      by (rule shard_reconcile_gate) (rule well_named_objects(2) [OF assms(1) that])
    show "keeps (shard_gate w s name) (shard_reconcileStatus env s c)" for s c
      unfolding shard_gate_def by (rule keeps_statuses) (metis published_kinds(1))
  qed
  then show ?thesis using assms(3) unfolding shard_gate_def by blast
qed

text \<open>C2: The gate of the root shard controller: a run that ends without an error and has changed the
  compiled root shard leaves every certificate of the root shard and of its internal proxy, the
  CAs included, in the cluster and ready, and their revisions on the compiled root shard.\<close>

theorem rootshard_publish_gate:
  assumes "well_named w" "rootshard_Reconcile env name w os = (Inr (), w', os')"
    "fmlookup (nw_crootshards w') name \<noteq> fmlookup (nw_crootshards w) name"
  shows "\<exists>r recs. fmlookup (nw_rootshards w) name = Some r \<and> rootshard_certReconcilers r = Inr recs
     \<and> certs_published crootshard_kind crsh_Meta (recs @ proxy_certReconcilers (NewRootShardProxy r)) name w'"
proof -
  let ?G = "\<lambda>r v. fmlookup (nw_crootshards v) name \<noteq> fmlookup (nw_crootshards w) name \<longrightarrow>
     (\<exists>recs. rootshard_certReconcilers r = Inr recs
        \<and> certs_published crootshard_kind crsh_Meta (recs @ proxy_certReconcilers (NewRootShardProxy r)) name v)"
  have body: "holds (\<lambda>v. v = w) (rootshard_reconcile env r) (\<lambda>x v. (\<exists>cs. x = Inr (cs, Inr ())) \<longrightarrow> ?G r v)"
    if "om_Name (rsh_Meta r) = name" for r
  proof -
    obtain recs where recs: "rootshard_certReconcilers r = Inr recs" using rootshard_certReconcilers_total by blast
    have "holds (\<lambda>v. v = w) (bindA (rootshard_render env r) (\<lambda>e. returnA ([], e)))
       (\<lambda>x v. (\<exists>cs. x = Inr (cs, Inr ())) \<longrightarrow> ?G r v)"
      by (rule holds_post [OF holds_pre [OF gate_with_conditions [OF rootshard_render_gate [OF recs]]]])
        (use that recs in \<open>auto simp: k_get_kinds\<close>)
    then show ?thesis by (auto simp: rootshard_reconcile_def intro!: holds_return)
  qed
  have "w' = w \<or> (\<exists>r. fmlookup (nw_rootshards w) name = Some r \<and> ?G r w')"
  proof (rule controller_gate [OF assms(2) [unfolded rootshard_Reconcile_def]])
    show "holds (\<lambda>v. v = w) (rootshard_reconcile env r) (\<lambda>x v. (\<exists>cs. x = Inr (cs, Inr ())) \<longrightarrow> ?G r v)"
      if "fmlookup (nw_rootshards w) name = Some r" for r
      by (rule body) (rule well_named_objects(1) [OF assms(1) that])
    show "keeps (?G r) (rootshard_reconcileStatus env r c)" for r c
      by (rule keeps_statuses) (metis published_kinds(2))
  qed
  then show ?thesis using assms(3) by blast
qed

text \<open>The same for a front proxy \<open>f\<close>.\<close>

definition frontproxy_gate :: "ns_world \<Rightarrow> FrontProxy \<Rightarrow> string \<Rightarrow> ns_world \<Rightarrow> bool" where
  "frontproxy_gate w f name v \<longleftrightarrow> (fmlookup (nw_cfrontproxies v) name \<noteq> fmlookup (nw_cfrontproxies w) name \<longrightarrow>
     (\<exists>l r children p. rsc_Reference (fp_RootShard (fpx_Spec f)) = Some l
        \<and> fmlookup (nw_rootshards w) (lor_Name l) = Some r \<and> NewFrontProxy (Some f) r children = Inr p
        \<and> certs_published cfrontproxy_kind cfpo_Meta (proxy_certReconcilers p) name v))"

lemma frontproxy_reconcile_gate:
  assumes name: "om_Name (fpx_Meta f) = name"
  shows "holds (\<lambda>v. v = w) (frontproxy_reconcile f)
    (\<lambda>x v. (\<exists>cs. x = Inr (cs, Inr ())) \<longrightarrow> frontproxy_gate w f name v)"
proof (cases "om_DeletionTimestamp (fpx_Meta f)")
  case None
  let ?ref = "rsc_Reference (fp_RootShard (fpx_Spec f))"
  let ?Q = "\<lambda>x v. (\<exists>cs. x = Inr (cs :: Condition list, Inr ())) \<longrightarrow> frontproxy_gate w f name v"
  have render: "holds (\<lambda>v. v = w) (bindA (frontproxy_render f r children) (\<lambda>e. returnA ([c], e))) ?Q"
    if "?ref = Some l" "fmlookup (nw_rootshards w) (lor_Name l) = Some r" for r c l children
  proof -
    obtain p where p: "NewFrontProxy (Some f) r children = Inr p" by (auto simp: NewFrontProxy_def)
    show ?thesis
      by (rule holds_post [OF holds_pre [OF gate_with_conditions [OF frontproxy_render_gate [OF p]]]])
        (use that name p in \<open>auto simp: frontproxy_gate_def k_get_kinds\<close>)
  qed
  have "holds (\<lambda>v. v = w) (bindA (fetch_rootshard ?ref) (\<lambda>(cond, rootShard). case rootShard of
      None \<Rightarrow> returnA ([cond], Inr ())
    | Some r \<Rightarrow> bindA (rootshard_children r) (\<lambda>shards. case shards of
          Inl e \<Rightarrow> returnA ([cond], Inl (wrap_error m e))
        | Inr children \<Rightarrow> bindA (frontproxy_render f r children) (\<lambda>e. returnA ([cond], e))))) ?Q" for m
  proof (rule fetch_then, goal_cases)
    case (3 cond l r v)
    show ?case
      unfolding prod.case option.case
    proof (rule holds_bind [OF keeps_shared(3) [unfolded keeps_def]])
      show "holds (\<lambda>u. u = v) (case shards of Inl e \<Rightarrow> returnA ([cond], Inl (wrap_error m e))
          | Inr children \<Rightarrow> bindA (frontproxy_render f r children) (\<lambda>e. returnA ([cond], e))) ?Q" for shards
        using 3 render [of l r] by (cases shards) (simp_all add: holds_return)
    qed simp
  qed (auto simp: frontproxy_gate_def intro!: holds_return)
  then show ?thesis using None by (simp add: frontproxy_reconcile_def)
qed (auto simp: frontproxy_reconcile_def frontproxy_gate_def intro!: holds_return)

text \<open>The gate of the front proxy controller, for the runs that end without an error.\<close>

theorem frontproxy_publish_gate:
  assumes "well_named w" "frontproxy_Reconcile env name w os = (Inr (), w', os')"
    "fmlookup (nw_cfrontproxies w') name \<noteq> fmlookup (nw_cfrontproxies w) name"
  shows "\<exists>f l r children p. fmlookup (nw_frontproxies w) name = Some f
     \<and> rsc_Reference (fp_RootShard (fpx_Spec f)) = Some l \<and> fmlookup (nw_rootshards w) (lor_Name l) = Some r
     \<and> NewFrontProxy (Some f) r children = Inr p
     \<and> certs_published cfrontproxy_kind cfpo_Meta (proxy_certReconcilers p) name w'"
proof -
  have "w' = w \<or> (\<exists>f. fmlookup (nw_frontproxies w) name = Some f \<and> frontproxy_gate w f name w')"
  proof (rule controller_gate [OF assms(2) [unfolded frontproxy_Reconcile_def]])
    show "holds (\<lambda>v. v = w) (frontproxy_reconcile f)
        (\<lambda>x v. (\<exists>cs. x = Inr (cs, Inr ())) \<longrightarrow> frontproxy_gate w f name v)"
      if "fmlookup (nw_frontproxies w) name = Some f" for f
      by (rule frontproxy_reconcile_gate) (rule well_named_objects(3) [OF assms(1) that])
    show "keeps (frontproxy_gate w f name) (frontproxy_reconcileStatus env f c)" for f c
      unfolding frontproxy_gate_def by (rule keeps_statuses) (metis published_kinds(3))
  qed
  then show ?thesis using assms(3) unfolding frontproxy_gate_def by blast
qed

text \<open>The gate of the cache server controller holds whatever the API does: if the compiled cache
  server has changed, all certificates are ready and their revisions on it, even after an error.\<close>

theorem cacheserver_publish_gate:
  assumes "well_named w" "w' = run_world (cacheserver_Reconcile env name) w os"
    "fmlookup (nw_ccacheservers w') name \<noteq> fmlookup (nw_ccacheservers w) name"
  shows "\<exists>s recs. fmlookup (nw_cacheservers w) name = Some s \<and> cacheserver_certReconcilers s = Inr recs
     \<and> certs_published ccacheserver_kind ccs_Meta recs name w'"
proof -
  let ?Q = "\<lambda>v. fmlookup (nw_ccacheservers v) name \<noteq> fmlookup (nw_ccacheservers w) name \<longrightarrow>
     (\<exists>s recs. fmlookup (nw_cacheservers w) name = Some s \<and> cacheserver_certReconcilers s = Inr recs
        \<and> certs_published ccacheserver_kind ccs_Meta recs name v)"
  have body: "holds (\<lambda>v. v = w) (cacheserver_reconcile env s) (\<lambda>_. ?Q)" if s: "fmlookup (nw_cacheservers w) name = Some s" for s
  proof (cases "cacheserver_certReconcilers s")
    case (Inl e)
    then show ?thesis by (auto simp: cacheserver_reconcile_def intro!: holds_fail)
  next
    case (Inr recs)
    show ?thesis
      by (rule holds_post [OF holds_pre [OF cacheserver_strict [OF Inr]]])
        (use s Inr well_named_objects(4) [OF assms(1) s] in \<open>auto simp: strict_gate_def k_get_kinds\<close>)
  qed
  have read: "holds (\<lambda>v. v = w) (tryA (api_get nw_cacheservers name))
     (\<lambda>r v. v = w \<and> (\<forall>s. r = Inr (Inr s) \<longrightarrow> fmlookup (nw_cacheservers w) name = Some s))"
    unfolding api_get_def
    by (rule holds_try [where R = "\<lambda>r v. v = w \<and> (\<forall>s. r = Inr s \<longrightarrow> fmlookup (nw_cacheservers w) name = Some s)"],
        rule holds_read) auto
  have rest: "holds (\<lambda>v. v = w \<and> (\<forall>s. Inr x = Inr (Inr s) \<longrightarrow> fmlookup (nw_cacheservers w) name = Some s))
     (case x of Inl e \<Rightarrow> if apierrors_IsNotFound e then returnA () else failA e
       | Inr s \<Rightarrow> if om_DeletionTimestamp (cas_Meta s) \<noteq> None then returnA () else cacheserver_reconcile env s) (\<lambda>_. ?Q)" for x
  proof (cases x)
    case (Inr s)
    show ?thesis
    proof (cases "fmlookup (nw_cacheservers w) name = Some s")
      case True
      then show ?thesis using body [OF True] Inr by (auto intro!: holds_return elim!: holds_pre)
    next
      case False
      then show ?thesis using Inr by (simp add: holds_def)
    qed
  qed (auto intro!: holds_return holds_fail)
  have "holds (\<lambda>v. v = w) (cacheserver_Reconcile env name) (\<lambda>_. ?Q)"
    unfolding cacheserver_Reconcile_def by (rule holds_bind [OF read _ rest]) simp
  from holdsD [OF this refl] show ?thesis using assms(2,3) by blast
qed

text \<open>The root shard a virtual workspace belongs to, through its shard if it targets one.\<close>

definition vw_resolves :: "ns_world \<Rightarrow> VirtualWorkspace \<Rightarrow> RootShard \<Rightarrow> bool" where
  "vw_resolves w vw r \<longleftrightarrow> (\<exists>l. (vt_RootShardRef (vw_Target (vwo_Spec vw)) = Some l
       \<or> vt_RootShardRef (vw_Target (vwo_Spec vw)) = None
         \<and> (\<exists>t s. vt_ShardRef (vw_Target (vwo_Spec vw)) = Some t \<and> fmlookup (nw_shards w) (lor_Name t) = Some s
            \<and> rsc_Reference (ss_RootShard (sh_Spec s)) = Some l))
     \<and> fmlookup (nw_rootshards w) (lor_Name l) = Some r)"

lemma holds_get:
  "holds (\<lambda>v. v = w) (wrapA m (api_get get n)) (\<lambda>r v. v = w \<and> (\<forall>x. r = Inr x \<longrightarrow> fmlookup (get w) n = Some x))"
  unfolding api_get_def by (rule holds_wrap, rule holds_read) auto

lemma vw_target_holds:
  "holds (\<lambda>v. v = w) (vw_target vw) (\<lambda>x v. v = w \<and> (\<forall>r s. x = Inr (r, s) \<longrightarrow> vw_resolves w vw r))"
proof -
  let ?t = "vw_Target (vwo_Spec vw)"
  let ?Q = "\<lambda>x v. v = w \<and> (\<forall>r s. x = Inr (r, s) \<longrightarrow> vw_resolves w vw r)"
  show ?thesis
  proof (cases "vt_RootShardRef ?t")
    case (Some l)
    show ?thesis
      unfolding vw_target_def Some option.case
      by (rule holds_bind [OF holds_get]) (auto simp: vw_resolves_def Some intro!: holds_return)
  next
    case None
    show ?thesis
    proof (cases "vt_ShardRef ?t")
      case (Some l)
      have through: "holds (\<lambda>v. v = w) (bindA (wrapA m (api_get nw_rootshards (lor_Name k))) (\<lambda>r. returnA (r, Some s))) ?Q"
        if "fmlookup (nw_shards w) (lor_Name l) = Some s" "rsc_Reference (ss_RootShard (sh_Spec s)) = Some k" for s k m
        by (rule holds_bind [OF holds_get]) (use that None Some in \<open>auto simp: vw_resolves_def intro!: holds_return\<close>)
      show ?thesis
        unfolding vw_target_def None Some option.case Let_def
      proof (rule holds_bind [OF holds_get])
        fix s
        show "holds (\<lambda>v. v = w \<and> (\<forall>x. Inr s = Inr x \<longrightarrow> fmlookup (nw_shards w) (lor_Name l) = Some x))
          (if rsc_Reference (ss_RootShard (sh_Spec s)) = None \<or> lor_Name (the (rsc_Reference (ss_RootShard (sh_Spec s)))) = []
           then failA (Plain ''the Shard does not reference a (valid) RootShard'')
           else bindA (wrapA ''failed to get RootShard'' (api_get nw_rootshards
             (lor_Name (the (rsc_Reference (ss_RootShard (sh_Spec s))))))) (\<lambda>r. returnA (r, Some s))) ?Q"
        proof (cases "fmlookup (nw_shards w) (lor_Name l) = Some s")
          case True
          then show ?thesis
            using through [OF True] by (auto intro!: holds_fail elim!: holds_pre)
        qed (simp add: holds_def)
      qed simp
    qed (simp add: vw_target_def None holds_fail)
  qed
qed

text \<open>The same for a virtual workspace \<open>vw\<close>.\<close>

definition vw_gate :: "ns_world \<Rightarrow> VirtualWorkspace \<Rightarrow> string \<Rightarrow> ns_world \<Rightarrow> bool" where
  "vw_gate w vw name v \<longleftrightarrow> (fmlookup (nw_cvws v) name \<noteq> fmlookup (nw_cvws w) name \<longrightarrow>
     (\<exists>r. vw_resolves w vw r \<and> certs_published cvw_kind cvwo_Meta (virtualworkspace_certReconcilers vw r) name v))"

lemma vw_reconcile_gate:
  assumes name: "om_Name (vwo_Meta vw) = name"
  shows "holds (\<lambda>v. v = w) (vw_reconcile vw) (\<lambda>_. vw_gate w vw name)"
proof -
  let ?G = "vw_gate w vw name"
  have render: "holds (\<lambda>v. v = w) (bindA (tryA (vw_render vw r s)) (\<lambda>e. returnA ([c], e))) (\<lambda>_. ?G)"
    if "vw_resolves w vw r" for r s c
  proof -
    have "holds (\<lambda>v. v = w) (vw_render vw r s) (\<lambda>_. ?G)"
      by (rule holds_post [OF holds_pre [OF vw_strict]])
        (use that name in \<open>auto simp: vw_gate_def strict_gate_def k_get_kinds\<close>)
    then have "holds (\<lambda>v. v = w) (tryA (vw_render vw r s)) (\<lambda>_. ?G)" by (rule holds_try) auto
    then show ?thesis by (rule holds_bind) (auto intro!: holds_return)
  qed
  show ?thesis
    unfolding vw_reconcile_def
  proof (rule holds_bind [where R = "\<lambda>x v. v = w \<and> (\<forall>r s. x = Inr (Inr (r, s)) \<longrightarrow> vw_resolves w vw r)"])
    show "holds (\<lambda>v. v = w) (tryA (vw_target vw))
       (\<lambda>x v. v = w \<and> (\<forall>r s. x = Inr (Inr (r, s)) \<longrightarrow> vw_resolves w vw r))"
      by (rule holds_try [OF vw_target_holds]) auto
    show "holds (\<lambda>v. v = w \<and> (\<forall>r s. Inr t = Inr (Inr (r, s)) \<longrightarrow> vw_resolves w vw r))
       (case t of Inl e \<Rightarrow> returnA ([reference_not_found e], Inl e)
         | Inr (r, s) \<Rightarrow> bindA (tryA (vw_render vw r s)) (\<lambda>e. returnA ([reference_valid], e))) (\<lambda>_. ?G)" for t
    proof (cases t)
      case (Inr rs)
      obtain r s where rs: "rs = (r, s)" by (cases rs) auto
      show ?thesis
      proof (cases "vw_resolves w vw r")
        case True
        show ?thesis unfolding Inr rs sum.case prod.case by (rule holds_pre [OF render [OF True]]) simp
      qed (simp add: Inr rs holds_def)
    qed (auto simp: vw_gate_def intro!: holds_return)
  qed (simp add: vw_gate_def)
qed

text \<open>C5: The gate of the virtual workspace controller, again for every run.\<close>

theorem virtualworkspace_publish_gate:
  assumes "well_named w" "w' = run_world (vw_Reconcile env name) w os"
    "fmlookup (nw_cvws w') name \<noteq> fmlookup (nw_cvws w) name"
  shows "\<exists>vw r. fmlookup (nw_vws w) name = Some vw \<and> vw_resolves w vw r
     \<and> certs_published cvw_kind cvwo_Meta (virtualworkspace_certReconcilers vw r) name w'"
proof (cases rule: controller_Reconcile_cases [where get = nw_vws and name = name and wrap = "\<lambda>e. e"
      and skip = "\<lambda>vw. om_DeletionTimestamp (vwo_Meta vw) \<noteq> None" and reconcile = vw_reconcile
      and reconcileStatus = "vw_reconcileStatus env" and w = w and os = os, folded vw_Reconcile_def, case_names idle go])
  case (idle r os')
  then show ?thesis using assms by (simp add: run_world_def)
next
  case (go vw os')
  have "holds (\<lambda>v. v = w) (bindA (vw_reconcile vw) (\<lambda>(conditions, recErr).
      bindA (vw_reconcileStatus env vw conditions) (\<lambda>status. finish recErr status))) (\<lambda>_. vw_gate w vw name)"
  proof (rule holds_bind [OF vw_reconcile_gate [OF well_named_objects(5) [OF assms(1) go(1)]]])
    have "keeps (vw_gate w vw name) (bindA (vw_reconcileStatus env vw cs) (\<lambda>status. finish e status))" for cs e
      unfolding vw_gate_def by (rule keeps_bind [OF keeps_statuses(4) keeps_finish]) (metis published_kinds(4))
    then show "holds (vw_gate w vw name) (case x of (conditions, recErr) \<Rightarrow>
        bindA (vw_reconcileStatus env vw conditions) (\<lambda>status. finish recErr status)) (\<lambda>_. vw_gate w vw name)" for x
      by (cases x) (simp add: keeps_def)
  qed simp
  from holdsD [OF this refl, of os'] have "vw_gate w vw name w'"
    by (simp add: assms(2) run_world_def go(5))
  then show ?thesis using assms(3) go(1) unfolding vw_gate_def by blast
qed

section \<open>The gate the front proxy does not have\<close>

lemma publish_nothing:
  "publish K [] rec w [] =
     (let (n, f) = rec (MutateKeys fmempty ''cert-'' ''-revision'');
          new = k_name K n (f (case fmlookup (k_get K w) n of None \<Rightarrow> k_zero K | Some x \<Rightarrow> x)) in
      (Inr (Inr ()), if fmlookup (k_get K w) n = Some new then w else k_put K (fmupd n new (k_get K w)) w, []))"
  by (cases "rec (MutateKeys fmempty ''cert-'' ''-revision'')")
    (auto simp: publish_def bindA_def ensure_objects.simps ensure_object_def tryA_def Let_def)

lemma children_run:
  assumes "\<forall>s \<in> fmran' (nw_shards w). rsc_Reference (ss_RootShard (sh_Spec s)) \<noteq> None"
  shows "\<exists>children. rootshard_children r w [] = (Inr (Inr children), w, [])"
proof -
  have "set (map snd (sorted_list_of_fmap (nw_shards w))) \<subseteq> fmran' (nw_shards w)"
    by (auto simp: sorted_list_of_fmap_def fmlookup_dom_iff intro: fmran'I)
  then have "\<forall>s \<in> set (map snd (sorted_list_of_fmap (nw_shards w))). rsc_Reference (ss_RootShard (sh_Spec s)) \<noteq> None"
    using assms by blast
  then show ?thesis
    by (simp only: rootshard_children_def bindA_def tryA_def run_ok_simps GetRootShardChildren_def children_of_spec
        if_True sum.case prod.case bindE_simps) simp
qed

text \<open>Nothing that says whether the certificates exist: publishing a front proxy with none captured.\<close>

lemma frontproxy_publish_nothing:
  assumes name: "om_Name (fpx_Meta f) = name"
  obtains N where "cfp_FrontProxy (cfpo_Spec N) = fpx_Spec f" "cfp_RootShard (cfpo_Spec N) = named_rootshard r"
    "publish cfrontproxy_kind [] (CompiledFrontProxyReconciler f r children) w [] =
      (Inr (Inr ()), if fmlookup (nw_cfrontproxies w) name = Some N then w
         else w\<lparr>nw_cfrontproxies := fmupd name N (nw_cfrontproxies w)\<rparr>, [])"
proof -
  define N where "N = k_name cfrontproxy_kind name (snd (CompiledFrontProxyReconciler f r children
      (MutateKeys fmempty ''cert-'' ''-revision''))
      (case fmlookup (nw_cfrontproxies w) name of None \<Rightarrow> k_zero cfrontproxy_kind | Some x \<Rightarrow> x))"
  have "fst (CompiledFrontProxyReconciler f r children revs) = name" for revs
    by (simp add: CompiledFrontProxyReconciler_def name)
  then have "publish cfrontproxy_kind [] (CompiledFrontProxyReconciler f r children) w [] =
      (Inr (Inr ()), if fmlookup (nw_cfrontproxies w) name = Some N then w
         else w\<lparr>nw_cfrontproxies := fmupd name N (nw_cfrontproxies w)\<rparr>, [])"
    by (simp add: publish_nothing case_prod_unfold Let_def N_def [symmetric] k_get_kinds)
      (simp add: cfrontproxy_kind_def)
  moreover have "cfp_FrontProxy (cfpo_Spec N) = fpx_Spec f \<and> cfp_RootShard (cfpo_Spec N) = named_rootshard r"
    by (simp add: N_def CompiledFrontProxyReconciler_def cfrontproxy_kind_def)
  ultimately show thesis using that by blast
qed

text \<open>C39: A front proxy is published without certificates. As long as the secret of the client CA is
  missing, as on every first installation, a reconciliation of a front proxy whose API calls all
  succeed ends with an error, creates no certificate and no secret, and still publishes the
  compiled front proxy: an empty list of certificates counts as ready.\<close>

theorem frontproxy_published_without_certificates:
  assumes "well_named w" "fmlookup (nw_frontproxies w) name = Some f" "om_DeletionTimestamp (fpx_Meta f) = None"
    "rsc_Reference (fp_RootShard (fpx_Spec f)) = Some l" "fmlookup (nw_rootshards w) (lor_Name l) = Some r"
    "\<forall>s \<in> fmran' (nw_shards w). rsc_Reference (ss_RootShard (sh_Spec s)) \<noteq> None"
    "fmlookup (nw_secrets w) (GetRootShardCAName r ClientCA) = None"
    "w' = run_world (frontproxy_Reconcile env name) w []"
  shows "(\<exists>obj. fmlookup (nw_cfrontproxies w') name = Some obj \<and> cfp_FrontProxy (cfpo_Spec obj) = fpx_Spec f
       \<and> cfp_RootShard (cfpo_Spec obj) = named_rootshard r)
     \<and> nw_certs w' = nw_certs w \<and> nw_secrets w' = nw_secrets w
     \<and> (\<exists>e. run_result (frontproxy_Reconcile env name) w [] = Inl e)"
proof -
  let ?P = "\<lambda>v. (\<exists>obj. fmlookup (nw_cfrontproxies v) name = Some obj \<and> cfp_FrontProxy (cfpo_Spec obj) = fpx_Spec f
       \<and> cfp_RootShard (cfpo_Spec obj) = named_rootshard r)
     \<and> nw_certs v = nw_certs w \<and> nw_secrets v = nw_secrets w"
  have name: "om_Name (fpx_Meta f) = name" by (rule well_named_objects(3) [OF assms(1,2)])
  obtain children where ch: "rootshard_children r w [] = (Inr (Inr children), w, [])"
    using children_run [OF assms(6)] by blast
  obtain p where p: "NewFrontProxy (Some f) r children = Inr p" "fr_rootShard p = r" by (auto simp: NewFrontProxy_def)
  obtain e where e: "proxy_secretReconcilers (get_Secret (reader_of w)) p = Inl e"
    using assms(7) p(2) by (simp add: proxy_secretReconcilers_def fetchClientCACerts_def proxy_fetchTLSCert_def reader_of_def
        lookup_object_def)
  have proxy: "proxy_Reconcile p [] w [] = (Inr ([], Inl e), w, [])"
    by (simp add: proxy_Reconcile_def secrets_now_def bindA_def tryA_def e)
  obtain cond where fetch: "fetch_rootshard (Some l) w [] = (Inr (cond, Some r), w, [])"
    using fetch_rootshard_run [OF refl assms(5), of "[]"] by auto
  obtain N where N: "cfp_FrontProxy (cfpo_Spec N) = fpx_Spec f" "cfp_RootShard (cfpo_Spec N) = named_rootshard r"
      and pub: "publish cfrontproxy_kind [] (CompiledFrontProxyReconciler f r children) w [] =
        (Inr (Inr ()), if fmlookup (nw_cfrontproxies w) name = Some N then w
           else w\<lparr>nw_cfrontproxies := fmupd name N (nw_cfrontproxies w)\<rparr>, [])"
    using frontproxy_publish_nothing [OF name] by blast
  let ?w1 = "if fmlookup (nw_cfrontproxies w) name = Some N then w
     else w\<lparr>nw_cfrontproxies := fmupd name N (nw_cfrontproxies w)\<rparr>"
  from N have w1: "?P ?w1" by simp
  have rec: "frontproxy_reconcile f w [] = (Inr ([cond], Inl (Aggregate [wrap_error ''failed to reconcile'' e])), ?w1, [])"
    by (simp add: frontproxy_reconcile_def assms(3,4) bindA_def fetch ch frontproxy_render_def p(1) proxy pub)
  have status: "keeps ?P (bindA (frontproxy_reconcileStatus env f cs) (\<lambda>status. finish x status))" for cs x
    by (rule keeps_bind [OF keeps_statuses(3) keeps_finish]) simp
  have run: "frontproxy_Reconcile env name w [] =
      bindA (frontproxy_reconcileStatus env f [cond]) (\<lambda>status. finish (Inl (Aggregate [wrap_error ''failed to reconcile'' e])) status) ?w1 []"
    using assms(2) by (simp add: frontproxy_Reconcile_def controller_Reconcile_def bindA_def [of "tryA _"]
        bindA_def [of "frontproxy_reconcile f"] tryA_def api_get_def lookup_object_def rec)
  have "?P w'" using keeps_run [OF status w1] by (simp add: assms(8) run_world_def run)
  moreover have "\<exists>e'. run_result (frontproxy_Reconcile env name) w [] = Inl e'"
    by (auto simp: run_result_def run bindA_def finish_def liftA_def split: prod.split sum.split)
  ultimately show ?thesis by simp
qed

end
