(* ===== verification/Publish_Runs.thy ===== *)
theory Publish_Runs
  imports Publish_Gate_Props
begin

text \<open>
  The other direction of the gate: when the certificates are there, up to date and ready, and the
  API calls succeed, the controllers publish. Concrete clusters of that kind are the inputs at which
  the theorems on the gate are applied.
\<close>

section \<open>Runs that find everything in place\<close>

definition ready_certs :: "certificate_reconciler list \<Rightarrow> ns_world \<Rightarrow> bool" where
  "ready_certs recs w \<longleftrightarrow> (\<forall>rec \<in> set recs. \<exists>c. fmlookup (nw_certs w) (fst rec) = Some c \<and> certificateReady c
     \<and> k_name cert_kind (fst rec) (snd rec c) = c)"

lemma ensure_certs_run:
  "ready_certs recs w \<Longrightarrow> ensure_objects cert_kind caps (pure_reconcilers recs) w [] =
     (Inr (caps @ map (\<lambda>rec. the (fmlookup (nw_certs w) (fst rec))) recs, Inr ()), w, [])"
proof (induction recs arbitrary: caps)
  case (Cons rec recs)
  then obtain c where c: "fmlookup (nw_certs w) (fst rec) = Some c" "k_name cert_kind (fst rec) (snd rec c) = c"
    by (auto simp: ready_certs_def)
  have "ensure_object cert_kind (fst rec, \<lambda>x. Inr (snd rec x)) w [] = (Inr (Some c, Inr ()), w, [])"
    using c by (simp add: ensure_object_def bindA_def tryA_def k_get_kinds cert_kind_def)
  then show ?case
    using Cons c by (simp add: ensure_objects.simps bindA_def Let_def case_prod_unfold ready_certs_def)
qed (simp add: ensure_objects.simps)

lemma ready_captured:
  "ready_certs recs w \<Longrightarrow> list_all certificateReady (map (\<lambda>rec. the (fmlookup (nw_certs w) (fst rec))) recs)"
  by (fastforce simp: ready_certs_def list_all_iff)

definition kind_store :: "('w, 'o) object_kind \<Rightarrow> bool" where
  "kind_store K \<longleftrightarrow> (\<forall>m w. k_get K (k_put K m w) = m) \<and> (\<forall>m m' w. k_put K m (k_put K m' w) = k_put K m w)
     \<and> (\<forall>w. k_put K (k_get K w) w = w)"

lemma kind_stores: "kind_store secret_kind" "kind_store issuer_kind" "kind_store cshard_kind"
  "kind_store crootshard_kind" "kind_store cfrontproxy_kind" "kind_store ccacheserver_kind" "kind_store cvw_kind"
  by (simp_all add: kind_store_def kind_defs)

lemma ensure_run:
  assumes K: "kind_store K"
  shows "\<forall>rec \<in> set recs. \<forall>x. \<exists>y. snd rec x = Inr y \<Longrightarrow>
    \<exists>cs m. ensure_objects K caps recs w [] = (Inr (cs, Inr ()), k_put K m w, [])
      \<and> (\<forall>n. n \<notin> fst ` set recs \<longrightarrow> fmlookup m n = fmlookup (k_get K w) n)"
proof (induction recs arbitrary: caps w)
  case Nil
  have "w = k_put K (k_get K w) w" using K by (simp add: kind_store_def)
  then show ?case by (auto simp: ensure_objects.simps intro!: exI [of _ "k_get K w"])
next
  case (Cons rec recs)
  obtain y where y: "snd rec (case fmlookup (k_get K w) (fst rec) of None \<Rightarrow> k_zero K | Some o1 \<Rightarrow> o1) = Inr y"
    using Cons.prems by (metis list.set_intros(1))
  have "\<exists>m. ensure_object K rec w [] = (Inr (Some (k_name K (fst rec) y), Inr ()), k_put K m w, [])
      \<and> (\<forall>n. n \<noteq> fst rec \<longrightarrow> fmlookup m n = fmlookup (k_get K w) n)"
  proof (cases "fmlookup (k_get K w) (fst rec) = Some (k_name K (fst rec) y)")
    case True
    then have "ensure_object K rec w [] = (Inr (Some (k_name K (fst rec) y), Inr ()), w, [])"
      using y by (simp add: ensure_object_def bindA_def tryA_def Let_def)
    then show ?thesis using K by (auto simp: kind_store_def intro!: exI [of _ "k_get K w"])
  next
    case False
    then show ?thesis using y by (intro exI [of _ "fmupd (fst rec) (k_name K (fst rec) y) (k_get K w)"])
        (simp add: ensure_object_def bindA_def tryA_def Let_def)
  qed
  then obtain m where m: "ensure_object K rec w [] = (Inr (Some (k_name K (fst rec) y), Inr ()), k_put K m w, [])"
    and m1: "\<forall>n. n \<noteq> fst rec \<longrightarrow> fmlookup m n = fmlookup (k_get K w) n" by blast
  obtain cs m' where rest: "ensure_objects K (caps @ [k_name K (fst rec) y]) recs (k_put K m w) []
      = (Inr (cs, Inr ()), k_put K m' (k_put K m w), [])"
    and m2: "\<forall>n. n \<notin> fst ` set recs \<longrightarrow> fmlookup m' n = fmlookup (k_get K (k_put K m w)) n"
    using Cons.IH [of "caps @ [k_name K (fst rec) y]" "k_put K m w"] Cons.prems by auto
  have "ensure_objects K caps (rec # recs) w [] = (Inr (cs, Inr ()), k_put K m' w, [])"
    using K rest by (simp add: ensure_objects.simps bindA_def m Let_def kind_store_def)
  moreover have "\<forall>n. n \<notin> fst ` set (rec # recs) \<longrightarrow> fmlookup m' n = fmlookup (k_get K w) n"
    using m1 m2 K by (simp add: kind_store_def)
  ultimately show ?case by blast
qed

lemma publish_run:
  assumes K: "kind_store K" and ready: "list_all certificateReady certs" and name: "\<And>revs. fst (rec revs) = n"
  obtains N revs old where "publish K certs rec w [] = (Inr (Inr ()), k_put K (fmupd n N (k_get K w)) w, [])"
    "N = k_name K n (snd (rec revs) old)"
proof -
  let ?revs = "MutateKeys (fst (CertificateRevisions certs)) ''cert-'' ''-revision''"
  let ?old = "case fmlookup (k_get K w) n of None \<Rightarrow> k_zero K | Some x \<Rightarrow> x"
  define N where "N = k_name K n (snd (rec ?revs) ?old)"
  have ready: "snd (CertificateRevisions certs)" using ready by simp
  have run: "publish K certs rec w [] = (Inr (Inr ()), if fmlookup (k_get K w) n = Some N then w
      else k_put K (fmupd n N (k_get K w)) w, [])"
    unfolding publish_def case_prod_unfold Let_def if_P [OF ready]
    by (cases "fmlookup (k_get K w) n") (auto simp: bindA_def ensure_objects.simps ensure_object_def tryA_def Let_def
        case_prod_unfold name N_def)
  have "k_put K (fmupd n N (k_get K w)) w = w" if "fmlookup (k_get K w) n = Some N"
  proof -
    have "fmupd n N (k_get K w) = k_get K w" using that by (intro fmap_ext) auto
    then show ?thesis using K by (simp add: kind_store_def)
  qed
  then have "publish K certs rec w [] = (Inr (Inr ()), k_put K (fmupd n N (k_get K w)) w, [])" using run by simp
  then show thesis using N_def by (rule that)
qed

lemma k_puts [simp]:
  "k_put secret_kind m1 w = w\<lparr>nw_secrets := m1\<rparr>" "k_put issuer_kind m2 w = w\<lparr>nw_issuers := m2\<rparr>"
  "k_put cshard_kind m3 w = w\<lparr>nw_cshards := m3\<rparr>" "k_put crootshard_kind m4 w = w\<lparr>nw_crootshards := m4\<rparr>"
  "k_put cfrontproxy_kind m5 w = w\<lparr>nw_cfrontproxies := m5\<rparr>" "k_put ccacheserver_kind m6 w = w\<lparr>nw_ccacheservers := m6\<rparr>"
  "k_put cvw_kind m7 w = w\<lparr>nw_cvws := m7\<rparr>"
  by (simp_all add: kind_defs)

lemma kubeconfig_secret_total:
  assumes "\<forall>c. \<exists>d. write1 c = Inr d"
  shows "\<exists>y. render_kubeconfig_secret write1 labels config x = Inr y"
proof -
  obtain d where "write1 config = Inr d" using assms by blast
  then show ?thesis by (simp add: render_kubeconfig_secret_def)
qed

text \<open>Without CA bundles and an external virtual workspace, the body of the shard reconciler.\<close>

lemma shard_render_run:
  assumes "ready_certs (shard_certReconcilers s r) w" "\<forall>c. \<exists>d. ce_write env c = Inr d"
    "\<forall>s \<in> fmran' (nw_shards w). rsc_Reference (ss_RootShard (sh_Spec s)) \<noteq> None"
    "cs_CABundleSecretRef (sh_Spec s) = None" "cs_ClientCABundleRef (sh_Spec s) = None"
    "cs_ClientCABundleRef (rsh_Spec r) = None" "cs_KCPVirtualWorkspace (sh_Spec s) = None"
  shows "\<exists>m N. shard_render env s r w [] = (Inr (Inr ()),
      w\<lparr>nw_secrets := m, nw_cshards := fmupd (om_Name (sh_Meta s)) N (nw_cshards w)\<rparr>, []) \<and> csh_Shard (cso_Spec N) = sh_Spec s"
proof -
  let ?n = "om_Name (sh_Meta s)" and ?certs = "map (\<lambda>rec. the (fmlookup (nw_certs w) (fst rec))) (shard_certReconcilers s r)"
  have total: "\<forall>rec \<in> set (shard_kubeconfigReconcilers env s r). \<forall>x. \<exists>y. snd rec x = Inr y"
    by (auto simp: shard_kubeconfigReconcilers_def shard_RootShardClientKubeconfigReconciler_def
        shard_LogicalClusterAdminKubeconfigReconciler_def shard_ExternalLogicalClusterAdminKubeconfigReconciler_def
        intro: kubeconfig_secret_total [OF assms(2)])
  obtain cs m where secrets: "ensure_objects secret_kind [] (shard_kubeconfigReconcilers env s r) w []
      = (Inr (cs, Inr ()), w\<lparr>nw_secrets := m\<rparr>, [])"
    using ensure_run [OF kind_stores(1) total, of "[]" w] by auto
  obtain children where ch: "rootshard_children r (w\<lparr>nw_secrets := m\<rparr>) [] = (Inr (Inr children), w\<lparr>nw_secrets := m\<rparr>, [])"
    using children_run [of "w\<lparr>nw_secrets := m\<rparr>" r] assms(3) by auto
  have name: "fst (CompiledShardReconciler s r None children revs) = ?n" for revs
    by (simp add: CompiledShardReconciler_def)
  obtain N revs old where pub: "publish cshard_kind ?certs (CompiledShardReconciler s r None children) (w\<lparr>nw_secrets := m\<rparr>) []
      = (Inr (Inr ()), w\<lparr>nw_secrets := m, nw_cshards := fmupd ?n N (nw_cshards w)\<rparr>, [])"
    and N: "N = k_name cshard_kind ?n (snd (CompiledShardReconciler s r None children revs) old)"
    by (rule publish_run [where w = "w\<lparr>nw_secrets := m\<rparr>" and rec = "CompiledShardReconciler s r None children", OF kind_stores(3) ready_captured [OF assms(1)] name])
      (simp add: k_get_kinds)
  have "csh_Shard (cso_Spec N) = sh_Spec s" by (simp add: N cshard_kind_def CompiledShardReconciler_def)
  then show ?thesis
    using assms(4-7) by (simp add: shard_render_def bindA_def [of "ensure_objects _ _ _"] ensure_certs_run [OF assms(1)] secrets
        ensure_secrets_if_def find_vw_def bindA_def [of "rootshard_children _"] ch publish_shard_def
        bindA_def [of "publish _ _ _"] pub) blast
qed

lemma finish_run: "m w [] = (Inr (Inr ()), w', []) \<Longrightarrow> bindA m (finish (Inr ())) w [] = (Inr (), w', [])"
  by (simp add: bindA_def finish_def)

lemma shard_run:
  assumes "well_named w" "fmlookup (nw_shards w) name = Some s" "shard_has_finalizer s"
    "om_DeletionTimestamp (sh_Meta s) = None"
    "rsc_Reference (ss_RootShard (sh_Spec s)) = Some l" "fmlookup (nw_rootshards w) (lor_Name l) = Some r"
    "ready_certs (shard_certReconcilers s r) w" "\<forall>c. \<exists>d. ce_write env c = Inr d"
    "\<forall>s \<in> fmran' (nw_shards w). rsc_Reference (ss_RootShard (sh_Spec s)) \<noteq> None"
    "cs_CABundleSecretRef (sh_Spec s) = None" "cs_ClientCABundleRef (sh_Spec s) = None"
    "cs_ClientCABundleRef (rsh_Spec r) = None" "cs_KCPVirtualWorkspace (sh_Spec s) = None"
  shows "\<exists>w' obj. shard_Reconcile env name w [] = (Inr (), w', [])
     \<and> fmlookup (nw_cshards w') name = Some obj \<and> csh_Shard (cso_Spec obj) = sh_Spec s"
proof -
  have name: "om_Name (sh_Meta s) = name" by (rule well_named_objects(2) [OF assms(1,2)])
  obtain m N where render: "shard_render env s r w [] = (Inr (Inr ()),
      w\<lparr>nw_secrets := m, nw_cshards := fmupd name N (nw_cshards w)\<rparr>, [])" and N: "csh_Shard (cso_Spec N) = sh_Spec s"
    using shard_render_run [OF assms(7-13)] by (auto simp: name)
  let ?w1 = "w\<lparr>nw_secrets := m, nw_cshards := fmupd name N (nw_cshards w)\<rparr>"
  obtain cond where fetch: "fetch_rootshard (Some l) w [] = (Inr (cond, Some r), w, [])"
    using fetch_rootshard_run [OF refl assms(6), of "[]"] by auto
  have rec: "shard_reconcile env s w [] = (Inr ([cond], Inr ()), ?w1, [])"
    by (simp add: shard_reconcile_def assms(4,5) shard_ensureFinalizer_def assms(3) tryA_def wrapA_def
        bindA_def [of "fetch_rootshard _"] fetch bindA_def [of "\<lambda>w. _ w"] bindA_def [of "shard_render _ _ _"] render)
  have "\<exists>w2. shard_reconcileStatus env s [cond] ?w1 [] = (Inr (Inr ()), w2, []) \<and> nw_cshards w2 = nw_cshards ?w1"
    using assms(2,4) by (simp add: shard_reconcileStatus_def name compiled_condition_def bindA_def tryA_def Let_def
        api_call_run patch_shard_def lookup_object_def)
  then obtain w2 where status: "shard_reconcileStatus env s [cond] ?w1 [] = (Inr (Inr ()), w2, [])"
    and w2: "nw_cshards w2 = nw_cshards ?w1" by blast
  have "shard_Reconcile env name w [] = (Inr (), w2, [])"
    using assms(2) finish_run [where m = "shard_reconcileStatus env s [cond]", OF status]
    by (simp add: shard_Reconcile_def controller_Reconcile_def bindA_def [of "tryA _"] tryA_def api_get_def lookup_object_def
        bindA_def [of "shard_reconcile _ _"] rec)
  then show ?thesis using w2 N by auto
qed


section \<open>Proxies and root shards\<close>

definition client_ca_known :: "RootShard \<Rightarrow> ns_world \<Rightarrow> bool" where
  "client_ca_known r w \<longleftrightarrow> (\<exists>secret data. fmlookup (nw_secrets w) (GetRootShardCAName r ClientCA) = Some secret
     \<and> mget (sec_Data secret) ''tls.crt'' = Some data)"

lemma ready_certs_secrets [simp]:
  "ready_certs recs (w\<lparr>nw_secrets := m\<rparr>) = ready_certs recs w" "ready_certs recs (w\<lparr>nw_issuers := m1\<rparr>) = ready_certs recs w"
  by (simp_all add: ready_certs_def)

lemma proxy_run:
  assumes "ready_certs (proxy_certReconcilers p) w" "client_ca_known (fr_rootShard p) w"
    "fr_getCABundleSecretRef p = None" "fr_getClientCABundleSecretRef p = None"
    "cs_ClientCABundleRef (rsh_Spec (fr_rootShard p)) = None"
  shows "\<exists>m. proxy_Reconcile p caps w [] = (Inr (caps @ map (\<lambda>rec. the (fmlookup (nw_certs w) (fst rec)))
      (proxy_certReconcilers p), Inr ()), w\<lparr>nw_secrets := m\<rparr>, [])
    \<and> (\<forall>n. n \<noteq> clientCABundleSecretName p \<longrightarrow> fmlookup m n = fmlookup (nw_secrets w) n)"
proof -
  obtain secret data where ca: "fmlookup (nw_secrets w) (GetRootShardCAName (fr_rootShard p) ClientCA) = Some secret"
    "mget (sec_Data secret) ''tls.crt'' = Some data" using assms(2) by (auto simp: client_ca_known_def)
  have recs: "proxy_secretReconcilers (get_Secret (reader_of w)) p = Inr [clientCABundleSecretReconciler p [data]]"
    using ca assms(3-5) by (simp add: proxy_secretReconcilers_def fetchClientCACerts_def proxy_fetchTLSCert_def reader_of_def
        lookup_object_def proxy_fetch_optional_def)
  have total: "\<forall>rec \<in> set [clientCABundleSecretReconciler p [data]]. \<forall>x. \<exists>y. snd rec x = Inr y"
    by (simp add: clientCABundleSecretReconciler_def)
  obtain cs m where "ensure_objects secret_kind [] [clientCABundleSecretReconciler p [data]] w []
      = (Inr (cs, Inr ()), w\<lparr>nw_secrets := m\<rparr>, [])"
    and "\<forall>n. n \<noteq> clientCABundleSecretName p \<longrightarrow> fmlookup m n = fmlookup (nw_secrets w) n"
    using ensure_run [OF kind_stores(1) total, of "[]" w]
    by (auto simp: clientCABundleSecretReconciler_def secret_kind_def)
  then show ?thesis
    using ensure_certs_run [of "proxy_certReconcilers p" "w\<lparr>nw_secrets := m\<rparr>" caps] assms(1)
    by (intro exI [of _ m]) (auto simp: proxy_Reconcile_def secrets_now_def tryA_def recs bindA_def)
qed

lemma rootshard_render_run:
  assumes recs: "rootshard_certReconcilers r = Inr recs"
    and ready: "ready_certs (recs @ proxy_certReconcilers (NewRootShardProxy r)) w" and ca: "client_ca_known r w"
    and total: "\<forall>c. \<exists>d. ce_write env c = Inr d"
    and refs: "\<forall>s \<in> fmran' (nw_shards w). rsc_Reference (ss_RootShard (sh_Spec s)) \<noteq> None"
    and none: "cs_CABundleSecretRef (rsh_Spec r) = None" "cs_ClientCABundleRef (rsh_Spec r) = None"
      "cs_KCPVirtualWorkspace (rsh_Spec r) = None"
  shows "\<exists>m i N. rootshard_render env r w [] = (Inr (Inr ()), w\<lparr>nw_issuers := i, nw_secrets := m,
      nw_crootshards := fmupd (om_Name (rsh_Meta r)) N (nw_crootshards w)\<rparr>, []) \<and> crs_RootShard (crsh_Spec N) = rsh_Spec r
    \<and> client_ca_known r (w\<lparr>nw_secrets := m\<rparr>)"
proof -
  let ?n = "om_Name (rsh_Meta r)" and ?p = "NewRootShardProxy r"
  let ?look = "map (\<lambda>rec. the (fmlookup (nw_certs w) (fst rec)))"
  have r1: "ready_certs recs w" and r2: "ready_certs (proxy_certReconcilers ?p) w" using ready by (auto simp: ready_certs_def)
  have "\<forall>rec \<in> set (pure_reconcilers (rootshard_issuerReconcilers r)). \<forall>x. \<exists>y. snd rec x = Inr y" by auto
  from ensure_run [OF kind_stores(2) this, of "[]" w]
  obtain cs1 i where issuers: "ensure_objects issuer_kind [] (pure_reconcilers (rootshard_issuerReconcilers r)) w []
      = (Inr (cs1, Inr ()), w\<lparr>nw_issuers := i\<rparr>, [])" by auto
  let ?w1 = "w\<lparr>nw_issuers := i\<rparr>"
  have "\<forall>rec \<in> set (rootshard_kubeconfigReconcilers env r). \<forall>x. \<exists>y. snd rec x = Inr y"
    by (auto simp: rootshard_kubeconfigReconcilers_def rootshard_LogicalClusterAdminKubeconfigReconciler_def
        rootshard_ExternalLogicalClusterAdminKubeconfigReconciler_def intro: kubeconfig_secret_total [OF total])
  from ensure_run [OF kind_stores(1) this, of "[]" ?w1]
  obtain cs2 m where secrets: "ensure_objects secret_kind [] (rootshard_kubeconfigReconcilers env r) ?w1 []
      = (Inr (cs2, Inr ()), ?w1\<lparr>nw_secrets := m\<rparr>, [])"
    and m: "\<forall>n. n \<notin> fst ` set (rootshard_kubeconfigReconcilers env r) \<longrightarrow> fmlookup m n = fmlookup (k_get secret_kind ?w1) n" by auto
  let ?w2 = "?w1\<lparr>nw_secrets := m\<rparr>"
  have "GetRootShardCAName r ClientCA \<notin> fst ` set (rootshard_kubeconfigReconcilers env r)"
    by (simp add: rootshard_kubeconfigReconcilers_def rootshard_LogicalClusterAdminKubeconfigReconciler_def
        rootshard_ExternalLogicalClusterAdminKubeconfigReconciler_def rootshard_kubeconfigSecret_def names_defs)
  then have ca2: "client_ca_known (fr_rootShard ?p) ?w2"
    using ca m by (simp add: client_ca_known_def NewRootShardProxy_def secret_kind_def)
  then obtain m' where proxy: "proxy_Reconcile ?p (?look recs) ?w2 [] =
      (Inr (?look recs @ ?look (proxy_certReconcilers ?p), Inr ()), ?w1\<lparr>nw_secrets := m'\<rparr>, [])"
    and m': "\<forall>n. n \<noteq> clientCABundleSecretName ?p \<longrightarrow> fmlookup m' n = fmlookup m n"
    using proxy_run [of ?p ?w2 "?look recs"] r2 none
    by (auto simp: NewRootShardProxy_def fr_getCABundleSecretRef_def fr_getClientCABundleSecretRef_def)
  obtain children where ch: "rootshard_children r ?w2 [] = (Inr (Inr children), ?w2, [])"
    using children_run [of ?w2 r] refs by auto
  have name: "fst (CompiledRootShardReconciler r None children revs) = ?n" for revs
    by (simp add: CompiledRootShardReconciler_def)
  have cready: "list_all certificateReady (?look recs @ ?look (proxy_certReconcilers ?p))"
    using ready_captured [OF r1] ready_captured [OF r2] by simp
  let ?w3 = "?w1\<lparr>nw_secrets := m'\<rparr>"
  obtain N revs old where pub: "publish crootshard_kind (?look recs @ ?look (proxy_certReconcilers ?p))
      (CompiledRootShardReconciler r None children) ?w3 [] = (Inr (Inr ()), ?w3\<lparr>nw_crootshards := fmupd ?n N (nw_crootshards w)\<rparr>, [])"
    and N: "N = k_name crootshard_kind ?n (snd (CompiledRootShardReconciler r None children revs) old)"
    by (rule publish_run [where w = ?w3 and rec = "CompiledRootShardReconciler r None children", OF kind_stores(4) cready name])
      (simp add: k_get_kinds)
  have "clientCABundleSecretName ?p \<noteq> GetRootShardCAName r ClientCA"
    by (simp add: clientCABundleSecretName_def NewRootShardProxy_def names_defs)
  then have "client_ca_known r (w\<lparr>nw_secrets := m'\<rparr>)"
    using ca2 m' by (auto simp: client_ca_known_def NewRootShardProxy_def)
  moreover have "crs_RootShard (crsh_Spec N) = rsh_Spec r" by (simp add: N crootshard_kind_def CompiledRootShardReconciler_def)
  ultimately show ?thesis
    using none by (simp add: rootshard_render_def recs bindA_def [of "ensure_objects _ _ _"] ensure_certs_run [OF r1] issuers secrets
        ensure_secrets_if_def find_vw_def bindA_def [of "rootshard_children _"] ch bindA_def [of "proxy_Reconcile _ _"] proxy
        publish_rootshard_def bindA_def [of "publish _ _ _"] pub) blast
qed

lemma rootshard_run:
  assumes "well_named w" "fmlookup (nw_rootshards w) name = Some r" "om_DeletionTimestamp (rsh_Meta r) = None"
    "rootshard_certReconcilers r = Inr recs"
    "ready_certs (recs @ proxy_certReconcilers (NewRootShardProxy r)) w" "client_ca_known r w"
    "\<forall>c. \<exists>d. ce_write env c = Inr d"
    "\<forall>s \<in> fmran' (nw_shards w). rsc_Reference (ss_RootShard (sh_Spec s)) \<noteq> None"
    "cs_CABundleSecretRef (rsh_Spec r) = None" "cs_ClientCABundleRef (rsh_Spec r) = None"
    "cs_KCPVirtualWorkspace (rsh_Spec r) = None"
  shows "\<exists>w' obj. rootshard_Reconcile env name w [] = (Inr (), w', [])
     \<and> fmlookup (nw_crootshards w') name = Some obj \<and> crs_RootShard (crsh_Spec obj) = rsh_Spec r"
proof -
  have name: "om_Name (rsh_Meta r) = name" by (rule well_named_objects(1) [OF assms(1,2)])
  obtain m i N where render: "rootshard_render env r w [] = (Inr (Inr ()), w\<lparr>nw_issuers := i, nw_secrets := m,
      nw_crootshards := fmupd name N (nw_crootshards w)\<rparr>, [])" and N: "crs_RootShard (crsh_Spec N) = rsh_Spec r"
    using rootshard_render_run [OF assms(4-11)] name by auto
  let ?w1 = "w\<lparr>nw_issuers := i, nw_secrets := m, nw_crootshards := fmupd name N (nw_crootshards w)\<rparr>"
  have rec: "rootshard_reconcile env r w [] = (Inr ([], Inr ()), ?w1, [])"
    by (simp add: rootshard_reconcile_def assms(3) bindA_def [of "rootshard_render _ _"] render)
  obtain children where ch: "rootshard_children r ?w1 [] = (Inr (Inr children), ?w1, [])"
    using children_run [of ?w1 r] assms(8) by auto
  have "\<exists>w2. rootshard_reconcileStatus env r [] ?w1 [] = (Inr (Inr ()), w2, []) \<and> nw_crootshards w2 = nw_crootshards ?w1"
    using assms(2) by (simp add: rootshard_reconcileStatus_def name compiled_condition_def bindA_def tryA_def Let_def
        api_call_run patch_object_def lookup_object_def ch)
  then obtain w2 where status: "rootshard_reconcileStatus env r [] ?w1 [] = (Inr (Inr ()), w2, [])"
    and w2: "nw_crootshards w2 = nw_crootshards ?w1" by blast
  have "rootshard_Reconcile env name w [] = (Inr (), w2, [])"
    using assms(2) finish_run [where m = "rootshard_reconcileStatus env r []", OF status]
    by (simp add: rootshard_Reconcile_def controller_Reconcile_def bindA_def [of "tryA _"] tryA_def api_get_def lookup_object_def
        bindA_def [of "rootshard_reconcile _ _"] rec)
  then show ?thesis using w2 N by auto
qed

text \<open>A root shard is published as soon as its certificates are ready, those of its internal proxy and
  the CAs included, and the client CA has its secret: one reconciliation whose API calls succeed ends
  without an error and leaves the compiled root shard with the spec of the root shard.\<close>

theorem rootshard_published_when_ready:
  assumes "well_named w" "fmlookup (nw_rootshards w) name = Some r" "om_DeletionTimestamp (rsh_Meta r) = None"
    "rootshard_certReconcilers r = Inr recs"
    "ready_certs (recs @ proxy_certReconcilers (NewRootShardProxy r)) w" "client_ca_known r w"
    "\<forall>c. \<exists>d. ce_write env c = Inr d"
    "\<forall>s \<in> fmran' (nw_shards w). rsc_Reference (ss_RootShard (sh_Spec s)) \<noteq> None"
    "cs_CABundleSecretRef (rsh_Spec r) = None" "cs_ClientCABundleRef (rsh_Spec r) = None"
    "cs_KCPVirtualWorkspace (rsh_Spec r) = None"
  shows "\<exists>w' obj. rootshard_Reconcile env name w [] = (Inr (), w', [])
     \<and> fmlookup (nw_crootshards w') name = Some obj \<and> crs_RootShard (crsh_Spec obj) = rsh_Spec r"
  by (rule rootshard_run [OF assms])

section \<open>The other controllers\<close>

lemma frontproxy_run_shards:
  assumes "well_named w" "fmlookup (nw_frontproxies w) name = Some f" "om_DeletionTimestamp (fpx_Meta f) = None"
    "rsc_Reference (fp_RootShard (fpx_Spec f)) = Some l" "fmlookup (nw_rootshards w) (lor_Name l) = Some r"
    "\<And>children p. NewFrontProxy (Some f) r children = Inr p \<Longrightarrow> ready_certs (proxy_certReconcilers p) w"
    "client_ca_known r w"
    "\<forall>s \<in> fmran' (nw_shards w). rsc_Reference (ss_RootShard (sh_Spec s)) \<noteq> None"
    "fp_CABundleSecretRef (fpx_Spec f) = None" "fp_ClientCABundleRef (fpx_Spec f) = None"
    "cs_ClientCABundleRef (rsh_Spec r) = None"
  shows "\<exists>w' obj. frontproxy_Reconcile env name w [] = (Inr (), w', [])
     \<and> fmlookup (nw_cfrontproxies w') name = Some obj \<and> cfp_FrontProxy (cfpo_Spec obj) = fpx_Spec f
     \<and> (\<forall>children. rootshard_children r w [] = (Inr (Inr children), w, []) \<longrightarrow> cfp_Shards (cfpo_Spec obj) = ShardNames children)"
proof -
  have name: "om_Name (fpx_Meta f) = name" by (rule well_named_objects(3) [OF assms(1,2)])
  obtain cond where fetch: "fetch_rootshard (Some l) w [] = (Inr (cond, Some r), w, [])"
    using fetch_rootshard_run [OF refl assms(5), of "[]"] by auto
  obtain children where ch: "rootshard_children r w [] = (Inr (Inr children), w, [])"
    using children_run [OF assms(8)] by blast
  obtain p where p: "NewFrontProxy (Some f) r children = Inr p" and pf: "fr_frontProxy p = Some f" "fr_rootShard p = r"
    by (auto simp: NewFrontProxy_def)
  note ready = assms(6) [OF p]
  let ?certs = "map (\<lambda>rec. the (fmlookup (nw_certs w) (fst rec))) (proxy_certReconcilers p)"
  obtain m where proxy: "proxy_Reconcile p [] w [] = (Inr (?certs, Inr ()), w\<lparr>nw_secrets := m\<rparr>, [])"
    using proxy_run [OF ready, of "[]"] assms(7,9-11) pf
    by (auto simp: fr_getCABundleSecretRef_def fr_getClientCABundleSecretRef_def)
  have nm: "fst (CompiledFrontProxyReconciler f r children revs) = name" for revs
    by (simp add: CompiledFrontProxyReconciler_def name)
  let ?w2 = "w\<lparr>nw_secrets := m\<rparr>"
  obtain N revs old where pub: "publish cfrontproxy_kind ?certs (CompiledFrontProxyReconciler f r children) ?w2 []
      = (Inr (Inr ()), ?w2\<lparr>nw_cfrontproxies := fmupd name N (nw_cfrontproxies w)\<rparr>, [])"
    and N: "N = k_name cfrontproxy_kind name (snd (CompiledFrontProxyReconciler f r children revs) old)"
    by (rule publish_run [where w = ?w2 and rec = "CompiledFrontProxyReconciler f r children",
          OF kind_stores(5) ready_captured [OF ready] nm])
      (simp add: k_get_kinds)
  let ?w1 = "?w2\<lparr>nw_cfrontproxies := fmupd name N (nw_cfrontproxies w)\<rparr>"
  have rec: "frontproxy_reconcile f w [] = (Inr ([cond], Inr ()), ?w1, [])"
    by (simp add: frontproxy_reconcile_def assms(3,4) bindA_def [of "fetch_rootshard _"] fetch bindA_def [of "rootshard_children _"]
        ch frontproxy_render_def p bindA_assoc bindA_def [of "proxy_Reconcile _ _"] proxy bindA_def [of "publish _ _ _"] pub)
  have "\<exists>w2. frontproxy_reconcileStatus env f [cond] ?w1 [] = (Inr (Inr ()), w2, []) \<and> nw_cfrontproxies w2 = nw_cfrontproxies ?w1"
    using assms(2) by (simp add: frontproxy_reconcileStatus_def name compiled_condition_def bindA_def tryA_def Let_def
        api_call_run patch_object_def lookup_object_def)
  then obtain w2 where status: "frontproxy_reconcileStatus env f [cond] ?w1 [] = (Inr (Inr ()), w2, [])"
    and w2: "nw_cfrontproxies w2 = nw_cfrontproxies ?w1" by blast
  have "frontproxy_Reconcile env name w [] = (Inr (), w2, [])"
    using assms(2) finish_run [where m = "frontproxy_reconcileStatus env f [cond]", OF status]
    by (simp add: frontproxy_Reconcile_def controller_Reconcile_def bindA_def [of "tryA _"] tryA_def api_get_def lookup_object_def
        bindA_def [of "frontproxy_reconcile _"] rec)
  moreover have "cfp_FrontProxy (cfpo_Spec N) = fpx_Spec f" "cfp_Shards (cfpo_Spec N) = ShardNames children"
    by (simp_all add: N cfrontproxy_kind_def CompiledFrontProxyReconciler_def)
  ultimately show ?thesis using w2 ch by auto
qed

lemma frontproxy_run:
  assumes "well_named w" "fmlookup (nw_frontproxies w) name = Some f" "om_DeletionTimestamp (fpx_Meta f) = None"
    "rsc_Reference (fp_RootShard (fpx_Spec f)) = Some l" "fmlookup (nw_rootshards w) (lor_Name l) = Some r"
    "\<And>children p. NewFrontProxy (Some f) r children = Inr p \<Longrightarrow> ready_certs (proxy_certReconcilers p) w"
    "client_ca_known r w"
    "\<forall>s \<in> fmran' (nw_shards w). rsc_Reference (ss_RootShard (sh_Spec s)) \<noteq> None"
    "fp_CABundleSecretRef (fpx_Spec f) = None" "fp_ClientCABundleRef (fpx_Spec f) = None"
    "cs_ClientCABundleRef (rsh_Spec r) = None"
  shows "\<exists>w' obj. frontproxy_Reconcile env name w [] = (Inr (), w', [])
     \<and> fmlookup (nw_cfrontproxies w') name = Some obj \<and> cfp_FrontProxy (cfpo_Spec obj) = fpx_Spec f"
  using frontproxy_run_shards [OF assms(1-5) _ assms(7-11), of env] assms(6) by blast

lemma cacheserver_run:
  assumes "fmlookup (nw_cacheservers w) name = Some s" "om_Name (cas_Meta s) = name" "om_DeletionTimestamp (cas_Meta s) = None"
    "cacheserver_certReconcilers s = Inr recs" "ready_certs recs w" "\<forall>c. \<exists>d. ce_write env c = Inr d"
  shows "\<exists>obj. fmlookup (nw_ccacheservers (run_world (cacheserver_Reconcile env name) w [])) name = Some obj
     \<and> ccs_Spec obj = cas_Spec s"
proof -
  have "\<forall>rec \<in> set (pure_reconcilers [cacheserver_RootCAIssuerReconciler s]). \<forall>x. \<exists>y. snd rec x = Inr y"
    by (simp add: case_prod_unfold)
  from ensure_run [OF kind_stores(2) this, of "[]" w]
  obtain cs1 i where issuers: "ensure_objects issuer_kind [] (pure_reconcilers [cacheserver_RootCAIssuerReconciler s]) w []
      = (Inr (cs1, Inr ()), w\<lparr>nw_issuers := i\<rparr>, [])" by auto
  let ?w1 = "w\<lparr>nw_issuers := i\<rparr>" and ?certs = "map (\<lambda>rec. the (fmlookup (nw_certs w) (fst rec))) recs"
  have "\<forall>rec \<in> set [cacheserver_KubeconfigReconciler (ce_write env) s]. \<forall>x. \<exists>y. snd rec x = Inr y"
    by (auto simp: cacheserver_KubeconfigReconciler_def intro: kubeconfig_secret_total [OF assms(6)])
  from ensure_run [OF kind_stores(1) this, of "[]" ?w1]
  obtain cs2 m where secrets: "ensure_objects secret_kind [] [cacheserver_KubeconfigReconciler (ce_write env) s] ?w1 []
      = (Inr (cs2, Inr ()), ?w1\<lparr>nw_secrets := m\<rparr>, [])" by auto
  have nm: "fst (CompiledCacheServerReconciler s revs) = name" for revs
    by (simp add: CompiledCacheServerReconciler_def assms(2))
  let ?w2 = "?w1\<lparr>nw_secrets := m\<rparr>"
  obtain N revs old where pub: "publish ccacheserver_kind ?certs (CompiledCacheServerReconciler s) ?w2 []
      = (Inr (Inr ()), ?w2\<lparr>nw_ccacheservers := fmupd name N (nw_ccacheservers w)\<rparr>, [])"
    and N: "N = k_name ccacheserver_kind name (snd (CompiledCacheServerReconciler s revs) old)"
    by (rule publish_run [where w = ?w2 and rec = "CompiledCacheServerReconciler s",
          OF kind_stores(6) ready_captured [OF assms(5)] nm])
      (simp add: k_get_kinds)
  have "ccs_Spec N = cas_Spec s" by (simp add: N ccacheserver_kind_def CompiledCacheServerReconciler_def)
  then show ?thesis
    using assms(1,3) issuers
    by (simp add: run_world_def cacheserver_Reconcile_def cacheserver_reconcile_def assms(4) must_def bindA_assoc
        bindA_def [of "tryA _"] tryA_def api_get_def lookup_object_def bindA_def [of "ensure_objects _ _ _"]
        ensure_certs_run [OF assms(5)] secrets bindA_def [of "publish _ _ _"] pub)
qed

lemma vw_run:
  assumes "well_named w" "fmlookup (nw_vws w) name = Some vw" "om_DeletionTimestamp (vwo_Meta vw) = None"
    "vt_RootShardRef (vw_Target (vwo_Spec vw)) = Some l" "fmlookup (nw_rootshards w) (lor_Name l) = Some r"
    "ready_certs (virtualworkspace_certReconcilers vw r) w"
    "cs_ClientCABundleRef (rsh_Spec r) = None" "vw_ClientCABundleRef (vwo_Spec vw) = None"
  shows "\<exists>obj. fmlookup (nw_cvws (run_world (vw_Reconcile env name) w [])) name = Some obj
     \<and> cvw_VirtualWorkspace (cvwo_Spec obj) = vwo_Spec vw"
proof -
  have name: "om_Name (vwo_Meta vw) = name" by (rule well_named_objects(5) [OF assms(1,2)])
  let ?certs = "map (\<lambda>rec. the (fmlookup (nw_certs w) (fst rec))) (virtualworkspace_certReconcilers vw r)"
  have nm: "fst (CompiledVirtualWorkspaceReconciler vw r None revs) = name" for revs
    by (simp add: CompiledVirtualWorkspaceReconciler_def name)
  obtain N revs old where pub: "publish cvw_kind ?certs (CompiledVirtualWorkspaceReconciler vw r None) w []
      = (Inr (Inr ()), w\<lparr>nw_cvws := fmupd name N (nw_cvws w)\<rparr>, [])"
    and N: "N = k_name cvw_kind name (snd (CompiledVirtualWorkspaceReconciler vw r None revs) old)"
    by (rule publish_run [where w = w and rec = "CompiledVirtualWorkspaceReconciler vw r None",
          OF kind_stores(7) ready_captured [OF assms(6)] nm])
      (simp add: k_get_kinds)
  let ?w1 = "w\<lparr>nw_cvws := fmupd name N (nw_cvws w)\<rparr>"
  have N1: "cvw_VirtualWorkspace (cvwo_Spec N) = vwo_Spec vw" by (simp add: N cvw_kind_def CompiledVirtualWorkspaceReconciler_def)
  have render: "vw_render vw r None w [] = (Inr (), ?w1, [])"
    by (simp add: vw_render_def must_def bindA_assoc bindA_def [of "ensure_objects _ _ _"] ensure_certs_run [OF assms(6)]
        ensure_secrets_if_def assms(7,8) bindA_def [of "publish _ _ _"] pub)
  have rec: "vw_reconcile vw w [] = (Inr ([reference_valid], Inr ()), ?w1, [])"
    using assms(5) by (simp add: vw_reconcile_def bindA_def [of "tryA _"] tryA_def vw_target_def assms(4)
        bindA_def [of "wrapA _ _"] wrapA_def api_get_def lookup_object_def render)
  let ?P = "\<lambda>v. fmlookup (nw_cvws v) name = Some N"
  have "keeps ?P (bindA (vw_reconcileStatus env vw cs) (finish e))" for cs e
    by (rule keeps_bind [OF keeps_statuses(4) keeps_finish]) simp
  from keeps_run [where P = ?P, OF this, of ?w1 "[reference_valid]" "Inr ()" "[]"]
  have "?P (run_world (vw_Reconcile env name) w [])"
    using assms(2,3) by (simp add: run_world_def vw_Reconcile_def controller_Reconcile_def bindA_def [of "tryA _"] tryA_def
        api_get_def lookup_object_def bindA_def [of "vw_reconcile _"] rec)
  then show ?thesis using N1 by simp
qed

end
