(* ===== verification/Kubeconfig_Controller.thy ===== *)
theory Kubeconfig_Controller
  imports VirtualWorkspace_Controller Pki_Kubeconfig
begin

text \<open>
  \<open>pkg/controller/kubeconfig/controller.go\<close>: the controller of Kubeconfig objects. It resolves the
  target to a root shard, has the client certificate signed by that root shard's client CA, and
  writes the kubeconfig secret once the client certificate and the server CA are ready; until then
  it asks to be run again. The result of \<open>Reconcile\<close> is whether it asks for another run.

  The environment adds the PEM functions and \<open>url.JoinPath\<close>. Objects the code declares and does not
  fill are the zero objects.
\<close>

record kc_env = ctl_env +
  ke_decode :: pem_decoder
  ke_parse :: "string \<Rightarrow> go_error option"
  ke_joinPath :: "string \<Rightarrow> string \<Rightarrow> string res"

definition Shard_zero :: Shard where
  "Shard_zero = \<lparr>sh_Meta = ObjectMeta_zero, sh_Spec = ShardSpec_zero,
     sh_Status = \<lparr>shst_Phase = PhaseUnset, shst_Conditions = []\<rparr>\<rparr>"

definition FrontProxy_zero :: FrontProxy where
  "FrontProxy_zero = \<lparr>fpx_Meta = ObjectMeta_zero, fpx_Spec = FrontProxySpec_zero,
     fpx_Status = \<lparr>fst_Phase = PhaseUnset, fst_Conditions = []\<rparr>\<rparr>"

section \<open>The target\<close>

text \<open>\<open>fmt.Errorf("...: %v", err)\<close>, which keeps only the text of the error.\<close>

definition rewordA :: "string \<Rightarrow> ('w, 'a) act \<Rightarrow> ('w, 'a) act" where
  "rewordA msg m = bindA (tryA m) (\<lambda>r. case r of Inl e \<Rightarrow> failA (Plain (msg @ '': '' @ err_str e)) | Inr x \<Rightarrow> returnA x)"

record kubeconfig_target =
  tg_rootShard :: RootShard
  tg_shard :: Shard
  tg_frontProxy :: FrontProxy
  tg_caBundle :: "Secret option"

text \<open>The root shard behind a reference of a shard or front proxy.\<close>

definition target_rootshard :: "string \<Rightarrow> LocalObjectReference option \<Rightarrow> (ns_world, RootShard) act" where
  "target_rootshard kind ref =
     (if ref = None \<or> lor_Name (the ref) = []
      then failA (Plain (''the '' @ kind @ '' does not reference a (valid) RootShard''))
      else wrapA ''failed to get RootShard'' (api_get nw_rootshards (lor_Name (the ref))))"

definition kubeconfig_target :: "Kubeconfig \<Rightarrow> (ns_world, kubeconfig_target) act" where
  "kubeconfig_target k = (let t = ks_Target (kc_Spec k) in
     case kt_RootShardRef t of
       Some l \<Rightarrow> bindA (wrapA ''failed to get RootShard'' (api_get nw_rootshards (lor_Name l))) (\<lambda>r.
         returnA \<lparr>tg_rootShard = r, tg_shard = Shard_zero, tg_frontProxy = FrontProxy_zero, tg_caBundle = None\<rparr>)
     | None \<Rightarrow> (case kt_ShardRef t of
         Some l \<Rightarrow> bindA (wrapA ''failed to get Shard'' (api_get nw_shards (lor_Name l))) (\<lambda>s.
           bindA (target_rootshard ''Shard'' (rsc_Reference (ss_RootShard (sh_Spec s)))) (\<lambda>r.
           returnA \<lparr>tg_rootShard = r, tg_shard = s, tg_frontProxy = FrontProxy_zero, tg_caBundle = None\<rparr>))
       | None \<Rightarrow> (case kt_FrontProxyRef t of
           Some l \<Rightarrow> bindA (rewordA (''referenced FrontProxy '' @ [CHR 0x27] @ lor_Name l @ [CHR 0x27] @ '' does not exist'')
               (api_get nw_frontproxies (lor_Name l))) (\<lambda>f.
             bindA (target_rootshard ''FrontProxy'' (rsc_Reference (fp_RootShard (fpx_Spec f)))) (\<lambda>r.
             case fp_CABundleSecretRef (fpx_Spec f) of
               None \<Rightarrow> returnA \<lparr>tg_rootShard = r, tg_shard = Shard_zero, tg_frontProxy = f, tg_caBundle = None\<rparr>
             | Some b \<Rightarrow> bindA (wrapA (''failed to get CA bundle secret '' @ om_Namespace (kc_Meta k) @ ''/'' @ lor_Name b)
                   (api_get nw_secrets (lor_Name b))) (\<lambda>secret.
                 returnA \<lparr>tg_rootShard = r, tg_shard = Shard_zero, tg_frontProxy = f, tg_caBundle = Some secret\<rparr>)))
         | None \<Rightarrow> failA (Plain ''no valid target for kubeconfig found''))))"

definition getTargetName :: "Kubeconfig \<Rightarrow> string" where
  "getTargetName k = (let t = ks_Target (kc_Spec k) in
     case kt_RootShardRef t of Some l \<Rightarrow> ''RootShard/'' @ lor_Name l
     | None \<Rightarrow> (case kt_ShardRef t of Some l \<Rightarrow> ''Shard/'' @ lor_Name l
       | None \<Rightarrow> (case kt_FrontProxyRef t of Some l \<Rightarrow> ''FrontProxy/'' @ lor_Name l | None \<Rightarrow> [])))"

section \<open>Certificates and secrets\<close>

text \<open>The secret of a certificate, \<open>None\<close> while the certificate is missing or not ready. Every error of
  reading the certificate counts as missing.\<close>

definition getCertificateSecret :: "string \<Rightarrow> (ns_world, Secret option res) act" where
  "getCertificateSecret name =
     bindA (tryA (api_get nw_certs name)) (\<lambda>c. case c of
       Inl _ \<Rightarrow> returnA (Inr None)
     | Inr certificate \<Rightarrow>
         if \<not> certificateReady certificate then returnA (Inr None)
         else bindA (tryA (api_get nw_secrets (ce_SecretName (cc_Spec certificate)))) (\<lambda>s.
           returnA (case s of Inl e \<Rightarrow> Inl e | Inr secret \<Rightarrow> Inr (Some secret))))"

definition unavailable :: "string \<Rightarrow> string \<Rightarrow> Condition" where
  "unavailable reason msg = new_condition ''Available'' ConditionFalse reason msg"

definition secrets_ready :: Condition where
  "secrets_ready = new_condition ''Available'' ConditionTrue ''SecretsReady''
     ''Client certificate and server CA secrets are ready''"

definition kubeconfig_write ::
    "kc_env \<Rightarrow> Kubeconfig \<Rightarrow> kubeconfig_target \<Rightarrow> Secret \<Rightarrow> Secret \<Rightarrow> (ns_world, unit) act" where
  "kubeconfig_write env k t serverCA clientCert =
     (case KubeconfigSecretReconciler (ke_decode env) (ke_parse env) (ce_requestPath env) (ke_joinPath env) (ce_write env)
         k (Some (tg_rootShard t)) (Some (tg_shard t)) (tg_frontProxy t) (Some serverCA) clientCert (tg_caBundle t) of
        None \<Rightarrow> failA (Panic ''does not return'')
      | Some rec \<Rightarrow> bindA (liftA rec) (\<lambda>reconciler.
          bindA (must (ensure_objects secret_kind [] [reconciler])) (\<lambda>_. returnA ())))"

section \<open>The reconciler\<close>

text \<open>The two certificates the kubeconfig needs, one after the other. The messages name the server CA
  in both cases, as in the code.\<close>

definition with_certificate ::
    "string \<Rightarrow> string \<Rightarrow> Condition list \<Rightarrow> (Secret \<Rightarrow> (ns_world, Condition list \<times> unit res) act)
       \<Rightarrow> (ns_world, Condition list \<times> unit res) act" where
  "with_certificate reason name conditions f =
     bindA (getCertificateSecret name) (\<lambda>s. case s of
       Inl e \<Rightarrow> returnA (conditions @ [unavailable (reason @ ''Error'') (''Failed to get server CA secret: '' @ err_str e)], Inl e)
     | Inr None \<Rightarrow> returnA (conditions @ [unavailable (reason @ ''NotReady'') ''Server CA certificate is not ready yet''], Inr ())
     | Inr (Some secret) \<Rightarrow> f secret)"

definition kubeconfig_reconcile :: "kc_env \<Rightarrow> Kubeconfig \<Rightarrow> (ns_world, Condition list \<times> unit res) act" where
  "kubeconfig_reconcile env k =
     bindA (tryA (kubeconfig_target k)) (\<lambda>t. case t of
       Inl e \<Rightarrow> returnA ([reference_not_found e], Inl e)
     | Inr target \<Rightarrow>
         let r = tg_rootShard target in
         bindA (ensure_objects cert_kind [] (pure_reconcilers
           [kubeconfig_ClientCertificateReconciler k (GetRootShardCAName r ClientCA)])) (\<lambda>(_, e1). case e1 of
             Inl e \<Rightarrow> returnA ([reference_valid], Inl e)
           | Inr _ \<Rightarrow>
               with_certificate ''ClientCertificateSecret'' (Kubeconfig_GetCertificateName k) [reference_valid] (\<lambda>clientCert.
               with_certificate ''ServerCASecret'' (GetRootShardCAName r ServerCA) [reference_valid] (\<lambda>serverCA.
               bindA (tryA (kubeconfig_write env k target serverCA clientCert)) (\<lambda>w. case w of
                 Inl e \<Rightarrow> returnA ([reference_valid], Inl e)
               | Inr _ \<Rightarrow> returnA ([reference_valid, secrets_ready], Inr ()))))))"

section \<open>Status\<close>

definition kubeconfig_phase :: "condition_lib \<Rightarrow> Condition list \<Rightarrow> KubeconfigPhase" where
  "kubeconfig_phase lib conditions = (case FindStatusCondition lib conditions ''ReferenceValid'' of
     Some c \<Rightarrow> if cond_Status c = ConditionTrue then KubeconfigPhaseReady
       else if cond_Status c = ConditionFalse then KubeconfigPhaseFailed else KubeconfigPhaseProvisioning
   | None \<Rightarrow> KubeconfigPhaseProvisioning)"

definition kubeconfig_new_status :: "condition_lib \<Rightarrow> Kubeconfig \<Rightarrow> Condition list \<Rightarrow> KubeconfigStatus" where
  "kubeconfig_new_status lib k conditions =
     (let conds = UpdateConditions lib (om_Generation (kc_Meta k)) conditions (kst_Conditions (kc_Status k)) in
      (kc_Status k)\<lparr>kst_TargetName := getTargetName k, kst_Conditions := conds, kst_Phase := kubeconfig_phase lib conds\<rparr>)"

definition kubeconfig_reconcileStatus :: "kc_env \<Rightarrow> Kubeconfig \<Rightarrow> Condition list \<Rightarrow> (ns_world, unit res) act" where
  "kubeconfig_reconcileStatus env k conditions =
     (let new = kubeconfig_new_status (ce_conditions env) k conditions in
      if new = kc_Status k then returnA (Inr ())
      else bindA (tryA (api_call (patch_object nw_kubeconfigs (\<lambda>m w. w\<lparr>nw_kubeconfigs := m\<rparr>) (om_Name (kc_Meta k))
          (\<lambda>k. k\<lparr>kc_Status := new\<rparr>)))) (\<lambda>p. returnA (aggregate (errors_of p))))"

text \<open>A condition that says a certificate is not ready leads to another run after five seconds; an
  error of the status update is then dropped.\<close>

definition waiting :: "Condition list \<Rightarrow> bool" where
  "waiting conditions \<longleftrightarrow> (\<exists>c \<in> set conditions.
     cond_Reason c \<in> {''ClientCertificateSecretNotReady'', ''ServerCASecretNotReady''})"

definition kubeconfig_Reconcile :: "kc_env \<Rightarrow> string \<Rightarrow> (ns_world, bool) act" where
  "kubeconfig_Reconcile env name =
     bindA (tryA (api_get nw_kubeconfigs name)) (\<lambda>x. case x of
       Inl e \<Rightarrow> if apierrors_IsNotFound e then returnA False else failA e
     | Inr k \<Rightarrow>
         if om_DeletionTimestamp (kc_Meta k) \<noteq> None then returnA False
         else bindA (kubeconfig_reconcile env k) (\<lambda>(conditions, recErr).
           bindA (kubeconfig_reconcileStatus env k conditions) (\<lambda>status.
           if recErr = Inr () \<and> waiting conditions then returnA True
           else bindA (finish recErr status) (\<lambda>_. returnA False))))"

end
