(* ===== verification/Kubeconfig_Controller_Props.thy ===== *)
theory Kubeconfig_Controller_Props
  imports Kubeconfig_Controller
begin

text \<open>
  What the Kubeconfig controller achieves: a run that settles has written a kubeconfig made from a
  ready client certificate and the server CA; a run that waits asks for another one, but reports
  the phase Ready already.
\<close>

section \<open>A settled run\<close>

text \<open>A certificate is ready, and its secret has the given contents unless it is the secret \<open>except\<close>.\<close>

definition ready_with :: "string \<Rightarrow> string \<Rightarrow> Secret \<Rightarrow> ns_world \<Rightarrow> bool" where
  "ready_with except name secret v \<longleftrightarrow> (\<exists>c. fmlookup (nw_certs v) name = Some c \<and> certificateReady c
     \<and> (ce_SecretName (cc_Spec c) = except \<or> fmlookup (nw_secrets v) (ce_SecretName (cc_Spec c)) = Some secret))"

text \<open>The objects the target of the spec names: the root shard, or the shard or front proxy with the
  root shard it refers to; for a front proxy also its CA bundle, the contents of its secret unless
  that is the secret \<open>except\<close>.\<close>

definition resolved_target :: "string \<Rightarrow> Kubeconfig \<Rightarrow> kubeconfig_target \<Rightarrow> ns_world \<Rightarrow> bool" where
  "resolved_target except k t v \<longleftrightarrow> (let target = ks_Target (kc_Spec k);
       root = (\<lambda>ref. \<exists>r. ref = Some r \<and> fmlookup (nw_rootshards v) (lor_Name r) = Some (tg_rootShard t)) in
     case kt_RootShardRef target of
       Some l \<Rightarrow> root (Some l) \<and> tg_caBundle t = None
     | None \<Rightarrow> (case kt_ShardRef target of
         Some l \<Rightarrow> fmlookup (nw_shards v) (lor_Name l) = Some (tg_shard t)
           \<and> root (rsc_Reference (ss_RootShard (sh_Spec (tg_shard t)))) \<and> tg_caBundle t = None
       | None \<Rightarrow> (case kt_FrontProxyRef target of
           Some l \<Rightarrow> fmlookup (nw_frontproxies v) (lor_Name l) = Some (tg_frontProxy t)
             \<and> root (rsc_Reference (fp_RootShard (fpx_Spec (tg_frontProxy t))))
             \<and> (case fp_CABundleSecretRef (fpx_Spec (tg_frontProxy t)) of
                  None \<Rightarrow> tg_caBundle t = None
                | Some b \<Rightarrow> \<exists>bundle. tg_caBundle t = Some bundle
                    \<and> (lor_Name b = except \<or> fmlookup (nw_secrets v) (lor_Name b) = Some bundle))
         | None \<Rightarrow> False)))"

text \<open>The certificates in a list of secrets.\<close>

definition certs_of :: "Secret option list \<Rightarrow> string list" where
  "certs_of secrets = List.map_filter (\<lambda>s. case s of None \<Rightarrow> None | Some x \<Rightarrow> mget (sec_Data x) ''tls.crt'') secrets"

text \<open>What the user gets: the secret the spec names holds the encoding of the kubeconfig for the target
  of the spec, with the data of the ready client certificate, trusting the server CA of the target's
  root shard and the CA bundle of the target front proxy.\<close>

definition kubeconfig_delivered :: "kc_env \<Rightarrow> Kubeconfig \<Rightarrow> ns_world \<Rightarrow> bool" where
  "kubeconfig_delivered env k v \<longleftrightarrow> (\<exists>t clientCert serverCA config data secret.
     resolved_target (lor_Name (ks_SecretRef (kc_Spec k))) k t v
     \<and> ready_with (lor_Name (ks_SecretRef (kc_Spec k))) (Kubeconfig_GetCertificateName k) clientCert v
     \<and> ready_with (lor_Name (ks_SecretRef (kc_Spec k))) (GetRootShardCAName (tg_rootShard t) ServerCA) serverCA v
     \<and> kubeconfig_config (ce_requestPath env) (ke_joinPath env) k (Some (tg_rootShard t)) (Some (tg_shard t))
         (tg_frontProxy t) (MergeCertificates (certs_of [Some serverCA, tg_caBundle t])) clientCert = Inr config
     \<and> ce_write env config = Inr data
     \<and> fmlookup (nw_secrets v) (lor_Name (ks_SecretRef (kc_Spec k))) = Some secret
     \<and> mget (sec_Data secret) ''kubeconfig'' = Some data)"

text \<open>The run keeps what the target resolves to: it writes certificates and the secret of the spec.\<close>

lemma resolved_target_put [simp]:
  "resolved_target e k t (v\<lparr>nw_certs := m\<rparr>) = resolved_target e k t v"
  "resolved_target e k t (v\<lparr>nw_kubeconfigs := m'\<rparr>) = resolved_target e k t v"
  by (simp_all add: resolved_target_def Let_def cong: option.case_cong)

lemma resolved_target_put_secret:
  "resolved_target e k t v \<Longrightarrow> resolved_target e k t (v\<lparr>nw_secrets := fmupd e x (nw_secrets v)\<rparr>)"
  by (auto simp: resolved_target_def Let_def split: option.splits)

lemma target_names: "keeps P (kubeconfig_target k)"
  unfolding kubeconfig_target_def target_rootshard_def rewordA_def Let_def
  by (auto split: option.split sum.split intro!: keeps_bind keeps_wrap keeps_try keeps_basic)

text \<open>Reading an object and going on: the rest may use that the object is there.\<close>

lemma get_then:
  assumes "\<And>y. holds (\<lambda>v. P v \<and> fmlookup (get v) n = Some y) (f y) Q" "\<And>e w. Q (Inl e) w"
  shows "holds P (bindA (wrapA msg (api_get get n)) f) Q" "holds P (bindA (rewordA msg (api_get get n)) f) Q"
proof -
  let ?R = "\<lambda>r v. \<forall>y. r = Inr y \<longrightarrow> P v \<and> fmlookup (get v) n = Some y"
  have get: "holds P (api_get get n) ?R"
    unfolding api_get_def by (rule holds_read) auto
  have "holds P (wrapA msg (api_get get n)) ?R"
    by (rule holds_wrap, rule holds_post [OF get]) (auto simp: wrapE_def split: sum.splits)
  then show "holds P (bindA (wrapA msg (api_get get n)) f) Q"
    by (rule holds_bind) (use assms in simp_all)
  have "holds P (rewordA msg (api_get get n)) ?R"
    unfolding rewordA_def
    by (rule holds_bind [where R = "\<lambda>r v. \<forall>y. r = Inr (Inr y) \<longrightarrow> P v \<and> fmlookup (get v) n = Some y"], rule holds_try [OF get])
      (auto intro!: holds_return holds_fail split: sum.split)
  then show "holds P (bindA (rewordA msg (api_get get n)) f) Q"
    by (rule holds_bind) (use assms in simp_all)
qed

lemma rootshard_then:
  assumes "\<And>l y. ref = Some l \<Longrightarrow> holds (\<lambda>v. P v \<and> fmlookup (nw_rootshards v) (lor_Name l) = Some y) (f y) Q"
    "\<And>e w. Q (Inl e) w"
  shows "holds P (bindA (target_rootshard kind ref) f) Q"
proof (cases "ref = None \<or> lor_Name (the ref) = []")
  case True
  have "target_rootshard kind ref = failA (Plain (''the '' @ kind @ '' does not reference a (valid) RootShard''))"
    using True by (simp add: target_rootshard_def)
  then show ?thesis using assms(2) by (auto simp: bindA_def failA_def holds_def)
next
  case False
  then obtain l where "ref = Some l" by auto
  then show ?thesis
    using False assms(1) by (auto simp: target_rootshard_def intro!: get_then(1) assms(2))
qed

lemma kubeconfig_target_holds:
  "holds (\<lambda>_. True) (kubeconfig_target k) (\<lambda>r v. \<forall>t. r = Inr t \<longrightarrow> resolved_target e k t v)"
proof (cases "kt_RootShardRef (ks_Target (kc_Spec k))")
  case (Some l)
  then show ?thesis
    unfolding kubeconfig_target_def Let_def
    by (auto intro!: get_then(1) holds_return simp: resolved_target_def)
next
  case None
  show ?thesis
  proof (cases "kt_ShardRef (ks_Target (kc_Spec k))")
    case (Some l)
    then show ?thesis
      using None unfolding kubeconfig_target_def Let_def
      by (auto intro!: get_then(1) rootshard_then holds_return simp: resolved_target_def)
  next
    case no_shard: None
    then show ?thesis
      using None unfolding kubeconfig_target_def Let_def
      by (auto intro!: get_then rootshard_then holds_return holds_fail simp: resolved_target_def
          split: option.split)
  qed
qed

lemma getCertificateSecret_holds:
  "holds P (getCertificateSecret name) (\<lambda>x v. P v \<and> (\<forall>secret. x = Inr (Inr (Some secret)) \<longrightarrow> ready_with except name secret v))"
proof -
  let ?Q = "\<lambda>x v. P v \<and> (\<forall>secret. x = Inr (Inr (Some secret)) \<longrightarrow> ready_with except name secret v)"
  have get: "holds P' (tryA (api_get get n)) (\<lambda>x v. P' v \<and> (\<forall>y. x = Inr (Inr y) \<longrightarrow> fmlookup (get v) n = Some y))"
    for P' and get :: "ns_world \<Rightarrow> (string, 'o) fmap" and n
    unfolding api_get_def
    by (rule holds_try [where R = "\<lambda>x v. P' v \<and> (\<forall>y. x = Inr y \<longrightarrow> fmlookup (get v) n = Some y)"], rule holds_read) auto
  have secret: "holds (\<lambda>v. P v \<and> fmlookup (nw_certs v) name = Some c)
     (bindA (tryA (api_get nw_secrets (ce_SecretName (cc_Spec c)))) (\<lambda>s.
        returnA (case s of Inl e \<Rightarrow> Inl e | Inr secret \<Rightarrow> Inr (Some secret)))) ?Q" if "certificateReady c" for c
    by (rule holds_bind [OF get]) (use that in \<open>auto intro!: holds_return simp: ready_with_def split: sum.splits\<close>)
  show ?thesis
    unfolding getCertificateSecret_def
  proof (rule holds_bind [OF get])
    fix c
    show "holds (\<lambda>v. P v \<and> (\<forall>y. Inr c = Inr (Inr y) \<longrightarrow> fmlookup (nw_certs v) name = Some y))
      (case c of Inl _ \<Rightarrow> returnA (Inr None) | Inr certificate \<Rightarrow>
         if \<not> certificateReady certificate then returnA (Inr None)
         else bindA (tryA (api_get nw_secrets (ce_SecretName (cc_Spec certificate)))) (\<lambda>s.
           returnA (case s of Inl e \<Rightarrow> Inl e | Inr secret \<Rightarrow> Inr (Some secret)))) ?Q"
      using secret by (cases c) (auto intro!: holds_return)
  qed simp
qed

text \<open>Where the code waits or fails, the postcondition has nothing to say.\<close>

definition settled :: "(ns_world \<Rightarrow> bool) \<Rightarrow> (Condition list \<times> unit res) res \<Rightarrow> ns_world \<Rightarrow> bool" where
  "settled D r v \<longleftrightarrow> (\<forall>cs. r = Inr (cs, Inr ()) \<longrightarrow> waiting cs \<or> D v)"

lemma with_certificate_holds:
  assumes "reason \<in> {''ClientCertificateSecret'', ''ServerCASecret''}"
    and "\<And>secret. holds (\<lambda>v. P v \<and> ready_with except name secret v) (f secret) (settled D)"
  shows "holds P (with_certificate reason name conditions f) (settled D)"
  unfolding with_certificate_def
proof (rule holds_bind [OF getCertificateSecret_holds [of P name except]])
  fix s
  show "holds (\<lambda>v. P v \<and> (\<forall>secret. Inr s = Inr (Inr (Some secret)) \<longrightarrow> ready_with except name secret v))
     (case s of Inl e \<Rightarrow> returnA (conditions @ [unavailable (reason @ ''Error'') (''Failed to get server CA secret: '' @ err_str e)], Inl e)
      | Inr None \<Rightarrow> returnA (conditions @ [unavailable (reason @ ''NotReady'') ''Server CA certificate is not ready yet''], Inr ())
      | Inr (Some secret) \<Rightarrow> f secret) (settled D)"
    using assms by (auto split: sum.split option.split intro!: holds_return elim!: holds_pre
        simp: settled_def waiting_def unavailable_def new_condition_def)
qed (simp add: settled_def)

lemma holds_conj: "holds P m Q1 \<Longrightarrow> holds P m Q2 \<Longrightarrow> holds P m (\<lambda>r v. Q1 r v \<and> Q2 r v)"
  by (simp add: holds_def case_prod_unfold)

lemma KubeconfigSecretReconciler_shape:
  assumes "decoder_ok decode" "KubeconfigSecretReconciler decode parse requestPath joinPath write k rootShard shard
      frontProxy caSecret certSecret caBundle = Some (Inr reconciler)"
  obtains config where "kubeconfig_config requestPath joinPath k rootShard shard frontProxy
      (MergeCertificates (certs_of [caSecret, caBundle])) certSecret = Inr config"
    "reconciler = (lor_Name (ks_SecretRef (kc_Spec k)), render_kubeconfig_secret write [] config)"
proof -
  obtain r where "MergeCertificateSecrets decode parse [caSecret, caBundle] = Some r"
    "\<forall>merged. r = Inr merged \<longrightarrow> merged = MergeCertificates (certs_of [caSecret, caBundle])"
    using MergeCertificateSecrets_total [OF assms(1)] unfolding certs_of_def by blast
  then show ?thesis
    using assms(2) that by (auto simp: KubeconfigSecretReconciler_def bindE_eq_Inr wrapE_def split: option.splits sum.splits)
qed

lemma ready_with_put:
  "ready_with e n s v \<Longrightarrow> ready_with e n s (v\<lparr>nw_secrets := fmupd e x (nw_secrets v)\<rparr>)"
  by (auto simp: ready_with_def)

lemma kubeconfig_write_holds:
  assumes e: "e = lor_Name (ks_SecretRef (kc_Spec k))" and dec: "decoder_ok (ke_decode env)"
  shows "holds (\<lambda>v. resolved_target e k t v \<and> ready_with e (Kubeconfig_GetCertificateName k) clientCert v
       \<and> ready_with e (GetRootShardCAName (tg_rootShard t) ServerCA) serverCA v)
     (kubeconfig_write env k t serverCA clientCert) (\<lambda>r v. r = Inr () \<longrightarrow> kubeconfig_delivered env k v)"
proof -
  let ?P = "\<lambda>v. resolved_target e k t v \<and> ready_with e (Kubeconfig_GetCertificateName k) clientCert v
       \<and> ready_with e (GetRootShardCAName (tg_rootShard t) ServerCA) serverCA v"
  let ?D = "\<lambda>r v. r = Inr () \<longrightarrow> kubeconfig_delivered env k v"
  let ?K = "KubeconfigSecretReconciler (ke_decode env) (ke_parse env) (ce_requestPath env) (ke_joinPath env) (ce_write env)
         k (Some (tg_rootShard t)) (Some (tg_shard t)) (tg_frontProxy t) (Some serverCA) clientCert (tg_caBundle t)"
  show ?thesis
  proof (cases "\<exists>reconciler. ?K = Some (Inr reconciler)")
    case False
    then show ?thesis
      by (cases ?K; cases "the ?K") (auto simp: kubeconfig_write_def holds_def bindA_def liftA_def failA_def)
  next
    case True
    then obtain reconciler where K: "?K = Some (Inr reconciler)" by blast
    obtain config where config: "kubeconfig_config (ce_requestPath env) (ke_joinPath env) k (Some (tg_rootShard t))
        (Some (tg_shard t)) (tg_frontProxy t) (MergeCertificates (certs_of [Some serverCA, tg_caBundle t])) clientCert
        = Inr config"
      and rec: "reconciler = (e, render_kubeconfig_secret (ce_write env) [] config)"
      using KubeconfigSecretReconciler_shape [OF dec K] e by blast
    have keep: "keeps ?P (ensure_objects secret_kind [] [reconciler])"
      by (auto simp: ensure_objects.simps Let_def case_prod_unfold rec secret_kind_def split: sum.split
          intro!: keeps_bind keeps_basic keeps_ensure_rec ready_with_put resolved_target_put_secret)
    have there: "holds (\<lambda>_. True) (ensure_objects secret_kind [] [reconciler])
        (\<lambda>r v. \<forall>cs. r = Inr (cs, Inr ()) \<longrightarrow> list_all2 (ensured_as secret_kind v) [reconciler] cs)"
      using ensure_objects_holds [where P = "\<lambda>_. True", OF kinds_ok(3), of "[]" "[reconciler]" "[]"] by simp
    have done1: "kubeconfig_delivered env k v" if ready: "?P v" and ens: "ensured_as secret_kind v reconciler c" for v c
    proof -
      obtain data where "ce_write env config = Inr data" "mget (sec_Data c) ''kubeconfig'' = Some data"
        using ens by (auto simp: ensured_as_def rec render_kubeconfig_secret_def bindE_eq_Inr secret_kind_def)
      then show ?thesis
        using ready ens config unfolding kubeconfig_delivered_def e [symmetric]
        by (auto simp: ensured_as_def rec secret_kind_def)
    qed
    have must: "holds ?P (must (ensure_objects secret_kind [] [reconciler]))
        (\<lambda>r v. \<forall>cs. r = Inr cs \<longrightarrow> kubeconfig_delivered env k v)"
      unfolding must_def
    proof (rule holds_bind [OF holds_conj [OF keep [unfolded keeps_def] holds_pre [OF there]]])
      fix x :: "Secret list \<times> unit res"
      show "holds (\<lambda>v. ?P v \<and> (\<forall>cs. Inr x = Inr (cs, Inr ()) \<longrightarrow> list_all2 (ensured_as secret_kind v) [reconciler] cs))
         (case x of (y, e) \<Rightarrow> bindA (liftA e) (\<lambda>_. returnA y)) (\<lambda>r v. \<forall>cs. r = Inr cs \<longrightarrow> kubeconfig_delivered env k v)"
        using done1 by (cases x; cases "snd x") (auto simp: holds_def returnA_def failA_def list_all2_Cons1)
    qed simp_all
    show ?thesis
      unfolding kubeconfig_write_def K option.case
      by simp (rule holds_bind [OF must], auto intro!: holds_return)
  qed
qed

lemma cert_kind_sel:
  "k_get cert_kind = nw_certs" "k_put cert_kind m w = w\<lparr>nw_certs := m\<rparr>" "k_zero cert_kind = zero_certificate"
  by (simp_all add: cert_kind_def)

lemma kubeconfig_reconcile_holds:
  assumes dec: "decoder_ok (ke_decode env)"
  shows "holds (\<lambda>_. True) (kubeconfig_reconcile env k) (settled (kubeconfig_delivered env k))"
proof -
  let ?S = "settled (kubeconfig_delivered env k)" and ?e = "lor_Name (ks_SecretRef (kc_Spec k))"
  have written: "holds (\<lambda>v. (resolved_target ?e k t v \<and> ready_with ?e (Kubeconfig_GetCertificateName k) clientCert v)
        \<and> ready_with ?e (GetRootShardCAName (tg_rootShard t) ServerCA) serverCA v)
     (bindA (tryA (kubeconfig_write env k t serverCA clientCert)) (\<lambda>w. case w of
         Inl e \<Rightarrow> returnA ([reference_valid], Inl e) | Inr _ \<Rightarrow> returnA ([reference_valid, secrets_ready], Inr ()))) ?S"
    for t clientCert serverCA
  proof (rule holds_bind [where R = "\<lambda>r v. r = Inr (Inr ()) \<longrightarrow> kubeconfig_delivered env k v"])
    show "holds (\<lambda>v. (resolved_target ?e k t v \<and> ready_with ?e (Kubeconfig_GetCertificateName k) clientCert v)
        \<and> ready_with ?e (GetRootShardCAName (tg_rootShard t) ServerCA) serverCA v)
      (tryA (kubeconfig_write env k t serverCA clientCert)) (\<lambda>r v. r = Inr (Inr ()) \<longrightarrow> kubeconfig_delivered env k v)"
      by (rule holds_try [OF holds_pre [OF kubeconfig_write_holds [OF refl dec]]]) auto
  qed (auto simp: settled_def split: sum.split intro!: holds_return)
  have body: "holds (resolved_target ?e k t) (case x of (c, e1) \<Rightarrow> (case e1 of
         Inl e \<Rightarrow> returnA ([reference_valid], Inl e)
       | Inr _ \<Rightarrow>
           with_certificate ''ClientCertificateSecret'' (Kubeconfig_GetCertificateName k) [reference_valid] (\<lambda>clientCert.
           with_certificate ''ServerCASecret'' (GetRootShardCAName (tg_rootShard t) ServerCA) [reference_valid] (\<lambda>serverCA.
           bindA (tryA (kubeconfig_write env k t serverCA clientCert)) (\<lambda>w. case w of
             Inl e \<Rightarrow> returnA ([reference_valid], Inl e) | Inr _ \<Rightarrow> returnA ([reference_valid, secrets_ready], Inr ())))))) ?S"
    for t and x :: "CertManagerCertificate list \<times> unit res"
  proof (cases x)
    case (Pair c e1)
    show ?thesis
    proof (cases e1)
      case (Inl e)
      then show ?thesis unfolding Pair by (auto simp: settled_def intro!: holds_return)
    next
      case (Inr u)
      show ?thesis
        unfolding Pair Inr prod.case sum.case
        by (rule with_certificate_holds [where except = ?e], simp, rule with_certificate_holds [where except = ?e], simp, rule written)
    qed
  qed
  have certs: "holds (resolved_target ?e k t) (bindA (ensure_objects cert_kind [] recs) f) ?S"
    if "\<And>x. holds (resolved_target ?e k t) (f x) ?S" for f recs t
  proof (rule holds_bind [where R = "\<lambda>_. resolved_target ?e k t", OF _ _ that])
    show "holds (resolved_target ?e k t) (ensure_objects cert_kind [] recs) (\<lambda>_. resolved_target ?e k t)"
      unfolding keeps_def [symmetric]
      by (rule keeps_ensure) (simp add: cert_kind_sel)
  qed (simp add: settled_def)
  show ?thesis
    unfolding kubeconfig_reconcile_def Let_def
  proof (rule holds_bind [where R = "\<lambda>x v. \<forall>t. x = Inr (Inr t) \<longrightarrow> resolved_target ?e k t v"], goal_cases)
    case 1
    show ?case by (rule holds_try [OF kubeconfig_target_holds [where e = ?e]]) auto
  next
    case (3 x)
    show ?case
    proof (cases x)
      case (Inr t)
      show ?thesis unfolding Inr sum.case by (rule holds_pre [OF certs [OF body]]) simp
    qed (auto simp: settled_def intro!: holds_return)
  qed (auto simp: settled_def)
qed

lemma keeps_kubeconfig_status:
  assumes "\<And>v m. P v \<Longrightarrow> P (v\<lparr>nw_kubeconfigs := m\<rparr>)"
  shows "keeps P (kubeconfig_reconcileStatus env k cs)"
  unfolding kubeconfig_reconcileStatus_def Let_def
  by (auto simp: patch_object_def bindE_eq_Inr intro!: keeps_bind keeps_try keeps_basic keeps_call assms)

lemma delivered_status [simp]:
  "kubeconfig_delivered env k (v\<lparr>nw_kubeconfigs := m\<rparr>) = kubeconfig_delivered env k v"
  by (simp add: kubeconfig_delivered_def ready_with_def)

lemma lift_then:
  "bindA (liftA e) (\<lambda>_. returnA b) v os = (Inr c, w', os') \<longleftrightarrow> (\<exists>x. e = Inr x) \<and> c = b \<and> v = w' \<and> os = os'"
  by (cases e) (auto simp: returnA_def failA_def)

text \<open>C20: A settled run has delivered. If a reconciliation of a Kubeconfig that is not being deleted
  ends without an error and does not ask for another run, whatever API calls failed on the way, then
  the secret the user named holds the kubeconfig for the target of the spec: the root shard, shard or
  front proxy the spec refers to exists, with its root shard; the client certificate of the object
  and the server CA of that root shard are ready; and the kubeconfig carries the data of that client
  certificate and trusts exactly the certificates of that server CA and, for a front proxy with a CA
  bundle, of that bundle. A secret that the user's secret name happens to coincide with is
  overwritten, so the contents of the others are those in the cluster at the end.\<close>

theorem kubeconfig_settled_delivers:
  assumes "fmlookup (nw_kubeconfigs w) name = Some k" "om_DeletionTimestamp (kc_Meta k) = None"
    "kubeconfig_Reconcile env name w os = (Inr False, w', os')"
    "decoder_ok (ke_decode env)"
  shows "kubeconfig_delivered env k w'"
proof -
  obtain os1 where read: "tryA (api_get nw_kubeconfigs name) w os = (Inr (Inr k), w, os1)"
    using assms by (cases os; cases "hd os")
      (auto simp: kubeconfig_Reconcile_def bindA_def tryA_def api_get_def api_read_def lookup_object_def failA_def)
  obtain r v os2 where rec: "kubeconfig_reconcile env k w (os1) = (r, v, os2)"
    by (cases "kubeconfig_reconcile env k w (os1)") auto
  then obtain cs e where r: "r = Inr (cs, e)"
    using assms by (cases r) (auto simp: kubeconfig_Reconcile_def bindA_def read)
  obtain st v2 os3 where status: "kubeconfig_reconcileStatus env k cs v os2 = (st, v2, os3)"
    by (cases "kubeconfig_reconcileStatus env k cs v os2") auto
  have end1: "e = Inr () \<and> \<not> waiting cs \<and> v2 = w'"
    using assms by (cases st) (auto simp: kubeconfig_Reconcile_def bindA_def [of "tryA _"] read
        bindA_def [of "kubeconfig_reconcile env k"] rec r bindA_def [of "kubeconfig_reconcileStatus env k cs"] status
        finish_def lift_then returnA_def [of True] split: if_splits sum.splits)
  have "settled (kubeconfig_delivered env k) r v"
    using kubeconfig_reconcile_holds [OF assms(4), unfolded holds_def, rule_format, of k w os1] rec by simp
  then have "kubeconfig_delivered env k v" using end1 r by (simp add: settled_def)
  moreover have "keeps (kubeconfig_delivered env k) (kubeconfig_reconcileStatus env k cs)"
    by (rule keeps_kubeconfig_status) simp
  ultimately show ?thesis using keeps_run [of "kubeconfig_delivered env k" _ v os2] status end1 by fastforce
qed

section \<open>A waiting run\<close>

lemma ensure_one_run:
  assumes "N = k_name K n (f (case fmlookup (k_get K w) n of None \<Rightarrow> k_zero K | Some x \<Rightarrow> x))"
  shows "ensure_objects K [] [(n, \<lambda>x. Inr (f x))] w [] = (Inr ([N], Inr ()),
     if fmlookup (k_get K w) n = Some N then w else k_put K (fmupd n N (k_get K w)) w, [])"
  using assms
  by (cases "fmlookup (k_get K w) n") (auto simp: bindA_def ensure_objects.simps ensure_object_def tryA_def Let_def)

text \<open>The phase says Ready before there is a kubeconfig. While the client certificate is missing or not
  ready, a reconciliation whose API calls succeed asks for another run and reports Available as
  false, and at the same time sets the phase to Ready: the phase follows the reference alone.\<close>

theorem kubeconfig_ready_while_waiting:
  assumes lib: "conditions_ok (ce_conditions env)" and "well_named w"
    "fmlookup (nw_kubeconfigs w) name = Some k" "om_DeletionTimestamp (kc_Meta k) = None"
    "kt_RootShardRef (ks_Target (kc_Spec k)) = Some l" "fmlookup (nw_rootshards w) (lor_Name l) = Some r"
    "\<forall>c. fmlookup (nw_certs w) (Kubeconfig_GetCertificateName k) = Some c \<longrightarrow> \<not> certificateReady c"
    "w' = run_world (kubeconfig_Reconcile env name) w []"
  shows "run_result (kubeconfig_Reconcile env name) w [] = Inr True
     \<and> (\<exists>k' c. fmlookup (nw_kubeconfigs w') name = Some k' \<and> kst_Phase (kc_Status k') = KubeconfigPhaseReady
        \<and> FindStatusCondition (ce_conditions env) (kst_Conditions (kc_Status k')) ''Available'' = Some c
        \<and> cond_Status c = ConditionFalse)"
proof -
  have name: "om_Name (kc_Meta k) = name" by (rule well_named_objects(6) [OF assms(2,3)])
  let ?rec = "kubeconfig_ClientCertificateReconciler k (GetRootShardCAName r ClientCA)"
  let ?n = "Kubeconfig_GetCertificateName k"
  let ?cs = "[reference_valid, unavailable ''ClientCertificateSecretNotReady'' ''Server CA certificate is not ready yet'']"
  have fst: "fst ?rec = ?n" by (simp add: kubeconfig_ClientCertificateReconciler_def)
  have target: "kubeconfig_target k w [] = (Inr \<lparr>tg_rootShard = r, tg_shard = Shard_zero,
      tg_frontProxy = FrontProxy_zero, tg_caBundle = None\<rparr>, w, [])"
    using assms(5,6) by (simp add: kubeconfig_target_def bindA_def wrapA_def api_get_def lookup_object_def)
  define N where "N = k_name cert_kind ?n (snd ?rec (case fmlookup (nw_certs w) ?n of None \<Rightarrow> zero_certificate | Some x \<Rightarrow> x))"
  let ?w1 = "if fmlookup (nw_certs w) ?n = Some N then w else w\<lparr>nw_certs := fmupd ?n N (nw_certs w)\<rparr>"
  have ens: "ensure_objects cert_kind [] (pure_reconcilers [?rec]) w [] = (Inr ([N], Inr ()), ?w1, [])"
    using ensure_one_run [where K = cert_kind and n = ?n and f = "snd ?rec" and w = w, OF N_def [folded cert_kind_sel]]
    unfolding list.map case_prod_unfold fst cert_kind_sel .
  have "cc_Conditions N = (case fmlookup (nw_certs w) ?n of None \<Rightarrow> [] | Some x \<Rightarrow> cc_Conditions x)"
    by (simp add: N_def cert_kind_def kubeconfig_ClientCertificateReconciler_def zero_certificate_def split: option.split)
  then have unready: "\<not> certificateReady N"
    using assms(7) by (auto simp: certificateReady_def split: option.splits)
  obtain w1 where w1: "nw_kubeconfigs w1 = nw_kubeconfigs w" "fmlookup (nw_certs w1) ?n = Some N" "w1 = ?w1" by simp
  have get: "getCertificateSecret ?n w1 [] = (Inr (Inr None), w1, [])"
    using w1(2) unready by (simp add: getCertificateSecret_def bindA_def tryA_def api_get_def lookup_object_def)
  have "tryA (kubeconfig_target k) w [] = (Inr (Inr \<lparr>tg_rootShard = r, tg_shard = Shard_zero,
      tg_frontProxy = FrontProxy_zero, tg_caBundle = None\<rparr>), w, [])"
    by (simp add: tryA_def target)
  then have rec: "kubeconfig_reconcile env k w [] = (Inr (?cs, Inr ()), w1, [])"
    by (simp add: kubeconfig_reconcile_def bindA_run [where m = "tryA (kubeconfig_target k)"] Let_def
        bindA_run [where m = "ensure_objects _ _ _", OF ens [folded w1(3), unfolded list.map]] with_certificate_def
        bindA_run [where m = "getCertificateSecret _", OF get])
  let ?new = "kubeconfig_new_status (ce_conditions env) k ?cs"
  have find: "\<exists>c'. FindStatusCondition (ce_conditions env) (kst_Conditions ?new) (cond_Type c) = Some c'
      \<and> cond_Status c' = cond_Status c" if "c \<in> set ?cs" for c
    using UpdateConditions_status [OF lib, of ?cs c "om_Generation (kc_Meta k)" "kst_Conditions (kc_Status k)"] that
    by (auto simp: kubeconfig_new_status_def Let_def reference_valid_def unavailable_def new_condition_def)
  have phase: "kst_Phase ?new = KubeconfigPhaseReady"
    using find [of reference_valid]
    by (auto simp: kubeconfig_new_status_def Let_def kubeconfig_phase_def reference_valid_def new_condition_def)
  have avail: "\<exists>c. FindStatusCondition (ce_conditions env) (kst_Conditions ?new) ''Available'' = Some c
      \<and> cond_Status c = ConditionFalse"
    using find [of "unavailable ''ClientCertificateSecretNotReady'' ''Server CA certificate is not ready yet''"]
    by (auto simp: unavailable_def new_condition_def)
  obtain st w2 where status: "kubeconfig_reconcileStatus env k ?cs w1 [] = (Inr st, w2, [])"
    and w2: "\<exists>k'. fmlookup (nw_kubeconfigs w2) name = Some k' \<and> kc_Status k' = ?new"
  proof (cases "?new = kc_Status k")
    case True
    show thesis
      by (rule that [of "Inr ()" w1]) (use True assms(3) w1(1) in \<open>simp_all add: kubeconfig_reconcileStatus_def Let_def\<close>)
  next
    case False
    let ?w2 = "w1\<lparr>nw_kubeconfigs := fmupd name (k\<lparr>kc_Status := ?new\<rparr>) (nw_kubeconfigs w)\<rparr>"
    show thesis
      by (rule that [of "Inr ()" ?w2]) (use False assms(3) w1(1) in \<open>simp_all add: kubeconfig_reconcileStatus_def Let_def
          bindA_def tryA_def api_call_run patch_object_def lookup_object_def name del: if_split\<close>)
  qed
  have "waiting ?cs" by (simp add: waiting_def unavailable_def new_condition_def)
  then have "kubeconfig_Reconcile env name w [] = (Inr True, w2, [])"
    using assms(3,4) by (simp add: kubeconfig_Reconcile_def bindA_def [of "tryA _"] bindA_def [of "kubeconfig_reconcile env k"]
        bindA_def [of "kubeconfig_reconcileStatus _ _ _"] tryA_def api_get_def lookup_object_def rec status)
  then show ?thesis using w2 phase avail assms(8) by (auto simp: run_result_def run_world_def)
qed

end
