(* ===== verification/Controllers_Props.thy ===== *)
theory Controllers_Props
  imports Publish_Gate Kubeconfig_Controller_Props
begin

text \<open>
  What all controllers of the operator's own objects have in common: whatever the API does, they
  keep every object under its own name, and their statuses follow the conditions they report.
\<close>

section \<open>Names\<close>

lemma well_named_store:
  assumes "well_named w"
  shows "om_Name (sh_Meta x1) = n \<Longrightarrow> well_named (w\<lparr>nw_shards := fmupd n x1 (nw_shards w)\<rparr>)"
    "well_named (w\<lparr>nw_shards := fmdrop n (nw_shards w)\<rparr>)"
    "om_Name (rsh_Meta x2) = n \<Longrightarrow> well_named (w\<lparr>nw_rootshards := fmupd n x2 (nw_rootshards w)\<rparr>)"
    "om_Name (fpx_Meta x3) = n \<Longrightarrow> well_named (w\<lparr>nw_frontproxies := fmupd n x3 (nw_frontproxies w)\<rparr>)"
    "om_Name (vwo_Meta x4) = n \<Longrightarrow> well_named (w\<lparr>nw_vws := fmupd n x4 (nw_vws w)\<rparr>)"
    "om_Name (kc_Meta x5) = n \<Longrightarrow> well_named (w\<lparr>nw_kubeconfigs := fmupd n x5 (nw_kubeconfigs w)\<rparr>)"
  using assms by (auto simp: well_named_def intro: fmpred_drop)

lemma well_named_patches:
  assumes w: "well_named w"
  shows "patch_shard n f1 w = Inr w' \<Longrightarrow> (\<And>x. om_Name (sh_Meta (f1 x)) = om_Name (sh_Meta x)) \<Longrightarrow> well_named w'"
    "patch_object nw_rootshards (\<lambda>m w. w\<lparr>nw_rootshards := m\<rparr>) n f2 w = Inr w' \<Longrightarrow>
       (\<And>x. om_Name (rsh_Meta (f2 x)) = om_Name (rsh_Meta x)) \<Longrightarrow> well_named w'"
    "patch_object nw_frontproxies (\<lambda>m w. w\<lparr>nw_frontproxies := m\<rparr>) n f3 w = Inr w' \<Longrightarrow>
       (\<And>x. om_Name (fpx_Meta (f3 x)) = om_Name (fpx_Meta x)) \<Longrightarrow> well_named w'"
    "patch_object nw_vws (\<lambda>m w. w\<lparr>nw_vws := m\<rparr>) n f4 w = Inr w' \<Longrightarrow>
       (\<And>x. om_Name (vwo_Meta (f4 x)) = om_Name (vwo_Meta x)) \<Longrightarrow> well_named w'"
    "patch_object nw_kubeconfigs (\<lambda>m w. w\<lparr>nw_kubeconfigs := m\<rparr>) n f5 w = Inr w' \<Longrightarrow>
       (\<And>x. om_Name (kc_Meta (f5 x)) = om_Name (kc_Meta x)) \<Longrightarrow> well_named w'"
  by (auto simp: patch_shard_def patch_object_def bindE_eq_Inr Let_def well_named_objects [OF w]
      intro!: well_named_store [OF w] split: if_splits)

lemma well_named_status:
  assumes "well_named w"
  shows "patch_object nw_rootshards (\<lambda>m w. w\<lparr>nw_rootshards := m\<rparr>) n (rsh_Status_update g2) w = Inr w' \<Longrightarrow> well_named w'"
    "patch_object nw_frontproxies (\<lambda>m w. w\<lparr>nw_frontproxies := m\<rparr>) n (fpx_Status_update g3) w = Inr w' \<Longrightarrow> well_named w'"
    "patch_object nw_vws (\<lambda>m w. w\<lparr>nw_vws := m\<rparr>) n (vwo_Conditions_update g4) w = Inr w' \<Longrightarrow> well_named w'"
    "patch_object nw_kubeconfigs (\<lambda>m w. w\<lparr>nw_kubeconfigs := m\<rparr>) n (kc_Status_update g5) w = Inr w' \<Longrightarrow> well_named w'"
  by (erule well_named_patches [OF assms]; simp)+

lemma well_named_kcp: "delete_kcp_shard h n w = Inr w' \<Longrightarrow> well_named w \<Longrightarrow> well_named w'"
  by (auto simp: delete_kcp_shard_def well_named_def split: if_splits)

lemma keeps_named_publish:
  "keeps well_named (publish cshard_kind certs rec1)" "keeps well_named (publish crootshard_kind certs rec2)"
  "keeps well_named (publish cfrontproxy_kind certs rec3)" "keeps well_named (publish ccacheserver_kind certs rec4)"
  "keeps well_named (publish cvw_kind certs rec5)"
  by (rule keeps_publish; auto simp: kind_defs)+

lemmas named_steps = keeps_basic keeps_shared keeps_kinds keeps_ensure_secrets_if keeps_proxy_Reconcile
  keeps_named_publish keeps_must well_named_put

lemma keeps_named_shard: "keeps well_named (shard_Reconcile env name)"
  unfolding shard_Reconcile_def
  by (intro keeps_controller_Reconcile keeps_basic)
    (auto simp: shard_reconcile_def set_shard_finalizers_def split: sum.split bool.split prod.split option.split
      intro!: keeps_bind keeps_try keeps_wrap named_steps keeps_handleDeletion keeps_removeFinalizer keeps_shard_render
        keeps_reconcileStatus elim: well_named_patches well_named_kcp)

lemma keeps_named_others:
  "keeps well_named (rootshard_Reconcile env name)" "keeps well_named (frontproxy_Reconcile env name)"
  "keeps well_named (cacheserver_Reconcile env name)" "keeps well_named (vw_Reconcile env name)"
  "keeps well_named (kubeconfig_Reconcile kenv name)"
proof -
  have status: "keeps well_named (rootshard_reconcileStatus env r conditions)"
    "keeps well_named (frontproxy_reconcileStatus env f conditions)"
    "keeps well_named (vw_reconcileStatus env vw conditions)" "keeps well_named (kubeconfig_reconcileStatus kenv k conditions)"
    for r f vw k conditions
    unfolding rootshard_reconcileStatus_def frontproxy_reconcileStatus_def vw_reconcileStatus_def
      kubeconfig_reconcileStatus_def compiled_condition_def Let_def
    by (auto split: sum.split intro!: keeps_bind keeps_try keeps_basic keeps_shared keeps_call elim: well_named_status)
  show "keeps well_named (rootshard_Reconcile env name)"
    unfolding rootshard_Reconcile_def
    by (intro keeps_controller_Reconcile keeps_basic status)
      (auto simp: rootshard_reconcile_def rootshard_render_def publish_rootshard_def split: sum.split prod.split
        intro!: keeps_bind named_steps)
  show "keeps well_named (frontproxy_Reconcile env name)"
    unfolding frontproxy_Reconcile_def
    by (intro keeps_controller_Reconcile keeps_basic status)
      (auto simp: frontproxy_reconcile_def frontproxy_render_def split: sum.split prod.split option.split
        intro!: keeps_bind named_steps)
  show "keeps well_named (cacheserver_Reconcile env name)"
    unfolding cacheserver_Reconcile_def cacheserver_reconcile_def
    by (auto split: sum.split intro!: keeps_bind keeps_try named_steps)
  show "keeps well_named (vw_Reconcile env name)"
    unfolding vw_Reconcile_def
    by (intro keeps_controller_Reconcile keeps_basic status)
      (auto simp: vw_reconcile_def vw_target_def vw_render_def Let_def split: sum.split prod.split option.split
        intro!: keeps_bind keeps_try keeps_wrap named_steps)
  show "keeps well_named (kubeconfig_Reconcile kenv name)"
    unfolding kubeconfig_Reconcile_def kubeconfig_reconcile_def with_certificate_def getCertificateSecret_def
      kubeconfig_write_def Let_def
    by (auto split: sum.split prod.split option.split
        intro!: keeps_bind keeps_try keeps_finish target_names status named_steps)
qed

text \<open>Objects stay under their names. In a cluster in which every object is stored under the name in
  its metadata, no reconciliation of any of the six controllers changes that, whatever objects the
  cluster holds and whatever happens to the API calls.\<close>

theorem controllers_keep_names:
  assumes "well_named w"
  shows "well_named (run_world (shard_Reconcile env name) w os)
    \<and> well_named (run_world (rootshard_Reconcile env name) w os)
    \<and> well_named (run_world (frontproxy_Reconcile env name) w os)
    \<and> well_named (run_world (cacheserver_Reconcile env name) w os)
    \<and> well_named (run_world (vw_Reconcile env name) w os)
    \<and> well_named (run_world (kubeconfig_Reconcile kenv name) w os)"
  unfolding run_world_def
  by (intro conjI; rule keeps_run [where P = well_named, OF _ assms], rule keeps_named_shard keeps_named_others)

end
