(* ===== verification/Sample_Cluster.thy ===== *)
theory Sample_Cluster
  imports Publish_Runs Controllers_Props
begin

text \<open>
  Concrete clusters: the sample objects, and the certificates of one component as cert-manager leaves
  them, rendered and ready. The theorems on the controllers are applied at these.
\<close>

section \<open>Certificates that are ready\<close>

definition fresh_certificate :: "string \<Rightarrow> CertManagerCertificate" where
  "fresh_certificate n = zero_certificate\<lparr>cc_Meta := (cc_Meta zero_certificate)\<lparr>om_Name := n\<rparr>,
     cc_Conditions := [(''Ready'', ConditionTrue)], cc_Revision := Some 1\<rparr>"

definition ready_store :: "certificate_reconciler list \<Rightarrow> (string, CertManagerCertificate) fmap" where
  "ready_store recs = fmap_of_list (map (\<lambda>rec. (fst rec, snd rec (fresh_certificate (fst rec)))) recs)"

text \<open>Every certificate reconciler renders labels, a spec and a template onto the old object.\<close>

definition renders :: "certificate_reconciler \<Rightarrow> bool" where
  "renders rec \<longleftrightarrow> (\<exists>labels spec tpl. snd rec = render_certificate labels spec tpl)"

lemma fresh_certificate_sel [simp]:
  "om_Name (cc_Meta (fresh_certificate n)) = n" "cc_Conditions (fresh_certificate n) = [(''Ready'', ConditionTrue)]"
  by (simp_all add: fresh_certificate_def)

lemma rename_same: "om_Name (cc_Meta c) = n \<Longrightarrow> k_name cert_kind n c = c"
  by (auto simp: cert_kind_def intro!: certificate_eqI)

lemma ready_store_lookup:
  "distinct (map fst recs) \<Longrightarrow> rec \<in> set recs \<Longrightarrow>
     fmlookup (ready_store recs) (fst rec) = Some (snd rec (fresh_certificate (fst rec)))"
  by (auto simp: ready_store_def fmlookup_of_list comp_def intro!: map_of_is_SomeI)

lemma ready_store_certs:
  assumes "distinct (map fst recs)" "\<forall>rec \<in> set recs. renders rec" "set recs1 \<subseteq> set recs"
    "nw_certs w = ready_store recs"
  shows "ready_certs recs1 w"
  unfolding ready_certs_def
proof
  fix rec assume "rec \<in> set recs1"
  then have rec: "rec \<in> set recs" using assms(3) by blast
  obtain labels spec tpl where s: "snd rec = render_certificate labels spec tpl"
    using rec assms(2) by (auto simp: renders_def)
  show "\<exists>c. fmlookup (nw_certs w) (fst rec) = Some c \<and> certificateReady c \<and> k_name cert_kind (fst rec) (snd rec c) = c"
    unfolding assms(4)
    by (rule exI [of _ "snd rec (fresh_certificate (fst rec))"])
      (auto simp: ready_store_lookup [OF assms(1) rec] certificateReady_def s render_certificate_idem rename_same)
qed

lemma ready_store_named:
  "\<forall>rec \<in> set recs. renders rec \<Longrightarrow> fmpred (\<lambda>n x. om_Name (cc_Meta x) = n) (ready_store recs)"
  by (fastforce simp: fmpred_iff ready_store_def fmlookup_of_list renders_def dest!: map_of_SomeD)

section \<open>The sample cluster\<close>

definition sample_env :: kc_env where
  "sample_env = \<lparr>ce_conditions = list_conditions 9, ce_write = (\<lambda>_. Inr ''kubeconfig''), ce_address = InCluster,
     ce_requestPath = (\<lambda>c. ''/clusters/'' @ c), ke_decode = toy_decode, ke_parse = (\<lambda>_. None),
     ke_joinPath = (\<lambda>a b. Inr (a @ b))\<rparr>"

definition sample_ctl :: ctl_env where
  "sample_ctl = ctl_env.truncate sample_env"

definition sample_guarded_shard :: Shard where
  "sample_guarded_shard = sample_shard\<lparr>sh_Meta := (sample_meta ''shard1'')\<lparr>om_Finalizers := [shard_cleanupFinalizer]\<rparr>\<rparr>"

definition sample_deleted_shard :: Shard where
  "sample_deleted_shard = sample_guarded_shard\<lparr>sh_Meta := (sh_Meta sample_guarded_shard)\<lparr>om_DeletionTimestamp := Some 5\<rparr>\<rparr>"

definition sample_ca :: Secret where
  "sample_ca = \<lparr>sec_Meta = sample_meta ''root-client-ca'',
     sec_Data = fmap_of_list [(''tls.crt'', ''CC''), (''tls.key'', ''key'')]\<rparr>"

definition sample_world :: "certificate_reconciler list \<Rightarrow> ns_world" where
  "sample_world recs = \<lparr>nw_rootshards = fmap_of_list [(''root'', sample_rootshard)],
     nw_shards = fmap_of_list [(''shard1'', sample_guarded_shard)],
     nw_frontproxies = fmap_of_list [(''fp'', sample_frontproxy)],
     nw_cacheservers = fmap_of_list [(''cache'', sample_cacheserver)],
     nw_vws = fmap_of_list [(''vw'', sample_vw)],
     nw_kubeconfigs = fmempty,
     nw_certs = ready_store recs, nw_issuers = fmempty,
     nw_secrets = fmap_of_list [(''root-client-ca'', sample_ca)],
     nw_crootshards = fmempty, nw_cshards = fmempty, nw_cfrontproxies = fmempty, nw_ccacheservers = fmempty,
     nw_cvws = fmempty, nw_kcp = (\<lambda>_. [''shard1''])\<rparr>"

lemma sample_metas [simp]:
  "om_Name (sample_meta n) = n" "om_DeletionTimestamp (sample_meta n) = None" "om_Finalizers (sample_meta n) = []"
  by (simp_all add: sample_meta_def ObjectMeta_zero_def)

lemmas sample_defs = sample_rootshard_def sample_rootshard_spec_def sample_guarded_shard_def sample_shard_def
  sample_shard_spec_def sample_frontproxy_def sample_frontproxy_spec_def sample_cacheserver_def
  sample_cacheserver_spec_def sample_vw_def sample_vw_spec_def sample_ca_def

lemma sample_world_named: "\<forall>rec \<in> set recs. renders rec \<Longrightarrow> well_named (sample_world recs)"
  using ready_store_named [of recs]
  by (simp add: well_named_def sample_world_def sample_defs) (simp add: fmpred_iff)

lemma sample_world_ok:
  "\<forall>s \<in> fmran' (nw_shards (sample_world recs)). rsc_Reference (ss_RootShard (sh_Spec s)) \<noteq> None"
  "client_ca_known sample_rootshard (sample_world recs)"
  by (auto simp: sample_world_def fmlookup_of_list client_ca_known_def sample_defs names_defs
      elim!: fmran'E split: if_splits)

lemma sample_write: "\<forall>c. \<exists>d. ce_write sample_ctl c = Inr d"
  by (simp add: sample_ctl_def sample_env_def ctl_env.truncate_def)

end
