(* ===== verification/Watch_Maps.thy ===== *)
theory Watch_Maps
  imports Publish_Gate_Props Controllers_Props
begin

text \<open>
  The watch handlers of the controllers: which objects a controller is asked to reconcile when an
  object of another kind changes. A listing is taken to succeed; when it fails the handlers ask for
  nothing. The order of the requests is that of the names.
\<close>

definition objects :: "(string, 'o) fmap \<Rightarrow> 'o list" where
  "objects m = map snd (sorted_list_of_fmap m)"

definition refers_to :: "LocalObjectReference option \<Rightarrow> string \<Rightarrow> bool" where
  "refers_to ref n \<longleftrightarrow> (case ref of None \<Rightarrow> False | Some l \<Rightarrow> lor_Name l = n)"

section \<open>Root shards and shards\<close>

text \<open>The handler for shards dereferences the reference without looking.\<close>

definition rootshard_shardHandler :: "ns_world \<Rightarrow> Shard \<Rightarrow> string list res" where
  "rootshard_shardHandler w s = (case rsc_Reference (ss_RootShard (sh_Spec s)) of
     None \<Rightarrow> Inl (Panic ''nil pointer dereference'')
   | Some l \<Rightarrow> (case fmlookup (nw_rootshards w) (lor_Name l) of
       None \<Rightarrow> Inr [] | Some r \<Rightarrow> Inr [om_Name (rsh_Meta r)]))"

definition rootshard_vwHandler :: "ns_world \<Rightarrow> VirtualWorkspace \<Rightarrow> string list" where
  "rootshard_vwHandler w vw = map (\<lambda>r. om_Name (rsh_Meta r))
     (filter (\<lambda>r. refers_to (cs_KCPVirtualWorkspace (rsh_Spec r)) (om_Name (vwo_Meta vw))) (objects (nw_rootshards w)))"

definition shard_rootShardHandler :: "ns_world \<Rightarrow> RootShard \<Rightarrow> string list" where
  "shard_rootShardHandler w r = map (\<lambda>s. om_Name (sh_Meta s))
     (filter (\<lambda>s. refers_to (rsc_Reference (ss_RootShard (sh_Spec s))) (om_Name (rsh_Meta r))) (objects (nw_shards w)))"

definition shard_vwHandler :: "ns_world \<Rightarrow> VirtualWorkspace \<Rightarrow> string list" where
  "shard_vwHandler w vw = map (\<lambda>s. om_Name (sh_Meta s))
     (filter (\<lambda>s. refers_to (cs_KCPVirtualWorkspace (sh_Spec s)) (om_Name (vwo_Meta vw))) (objects (nw_shards w)))"

definition frontproxy_rootShardHandler :: "ns_world \<Rightarrow> RootShard \<Rightarrow> string list" where
  "frontproxy_rootShardHandler w r = map (\<lambda>f. om_Name (fpx_Meta f))
     (filter (\<lambda>f. refers_to (rsc_Reference (fp_RootShard (fpx_Spec f))) (om_Name (rsh_Meta r))) (objects (nw_frontproxies w)))"

section \<open>Virtual workspaces\<close>

definition mapVirtualWorkspaces :: "ns_world \<Rightarrow> (VirtualWorkspaceTarget \<Rightarrow> bool) \<Rightarrow> string list" where
  "mapVirtualWorkspaces w matches =
     map (\<lambda>v. om_Name (vwo_Meta v)) (filter (\<lambda>v. matches (vw_Target (vwo_Spec v))) (objects (nw_vws w)))"

definition mapRootShardToVirtualWorkspaces :: "ns_world \<Rightarrow> RootShard \<Rightarrow> string list" where
  "mapRootShardToVirtualWorkspaces w r =
     mapVirtualWorkspaces w (\<lambda>t. refers_to (vt_RootShardRef t) (om_Name (rsh_Meta r)))"

definition mapShardToVirtualWorkspaces :: "ns_world \<Rightarrow> Shard \<Rightarrow> string list" where
  "mapShardToVirtualWorkspaces w s =
     mapVirtualWorkspaces w (\<lambda>t. refers_to (vt_ShardRef t) (om_Name (sh_Meta s)))"

text \<open>The issuer of the client certificate of a virtual workspace, empty when its root shard is not found.\<close>

definition expectedIssuer :: "ns_world \<Rightarrow> VirtualWorkspace \<Rightarrow> string" where
  "expectedIssuer w vw =
     (let client_ca = (\<lambda>n. case fmlookup (nw_rootshards w) n of None \<Rightarrow> [] | Some r \<Rightarrow> GetRootShardCAName r ClientCA) in
      case vt_RootShardRef (vw_Target (vwo_Spec vw)) of
        Some l \<Rightarrow> client_ca (lor_Name l)
      | None \<Rightarrow> (case vt_ShardRef (vw_Target (vwo_Spec vw)) of
          None \<Rightarrow> []
        | Some l \<Rightarrow> (case fmlookup (nw_shards w) (lor_Name l) of
            None \<Rightarrow> []
          | Some s \<Rightarrow> (case rsc_Reference (ss_RootShard (sh_Spec s)) of None \<Rightarrow> [] | Some ref \<Rightarrow> client_ca (lor_Name ref)))))"

definition mapIssuerToVirtualWorkspaces :: "ns_world \<Rightarrow> Issuer \<Rightarrow> string list" where
  "mapIssuerToVirtualWorkspaces w i =
     map (\<lambda>v. om_Name (vwo_Meta v)) (filter (\<lambda>v. expectedIssuer w v = om_Name (is_Meta i)) (objects (nw_vws w)))"

section \<open>Kubeconfigs\<close>

definition mapKubeconfigs :: "ns_world \<Rightarrow> (KubeconfigTarget \<Rightarrow> bool) \<Rightarrow> string list" where
  "mapKubeconfigs w matches =
     map (\<lambda>k. om_Name (kc_Meta k)) (filter (\<lambda>k. matches (ks_Target (kc_Spec k))) (objects (nw_kubeconfigs w)))"

definition mapRootShardToKubeconfigs :: "ns_world \<Rightarrow> RootShard \<Rightarrow> string list" where
  "mapRootShardToKubeconfigs w r = mapKubeconfigs w (\<lambda>t. refers_to (kt_RootShardRef t) (om_Name (rsh_Meta r)))"

definition mapShardToKubeconfigs :: "ns_world \<Rightarrow> Shard \<Rightarrow> string list" where
  "mapShardToKubeconfigs w s = mapKubeconfigs w (\<lambda>t. refers_to (kt_ShardRef t) (om_Name (sh_Meta s)))"

definition mapFrontProxyToKubeconfigs :: "ns_world \<Rightarrow> FrontProxy \<Rightarrow> string list" where
  "mapFrontProxyToKubeconfigs w f = mapKubeconfigs w (\<lambda>t. refers_to (kt_FrontProxyRef t) (om_Name (fpx_Meta f)))"

section \<open>What is woken\<close>

lemma objects_set: "set (objects m) = {x. \<exists>n. fmlookup m n = Some x}"
  by (force simp: objects_def sorted_list_of_fmap_def fmlookup_dom_iff)

lemma refers_to_Some [simp]: "refers_to (Some l) n \<longleftrightarrow> lor_Name l = n" "\<not> refers_to None n"
  by (simp_all add: refers_to_def)

text \<open>The shards and front proxies that read a root shard are woken by it. In a cluster with objects
  stored under their names, a change of a root shard asks for exactly the shards and the front
  proxies whose reconciliation fetches it.\<close>

theorem rootshard_change_wakes_readers:
  assumes "well_named w" "fmlookup (nw_rootshards w) n = Some r"
  shows "set (shard_rootShardHandler w r) = {m. \<exists>s. fmlookup (nw_shards w) m = Some s
       \<and> (\<exists>cond. run_result (fetch_rootshard (rsc_Reference (ss_RootShard (sh_Spec s)))) w [] = Inr (cond, Some r))}
     \<and> set (frontproxy_rootShardHandler w r) = {m. \<exists>f. fmlookup (nw_frontproxies w) m = Some f
       \<and> (\<exists>cond. run_result (fetch_rootshard (rsc_Reference (fp_RootShard (fpx_Spec f)))) w [] = Inr (cond, Some r))}"
proof -
  have name: "om_Name (rsh_Meta r) = n" by (rule well_named_objects(1) [OF assms])
  have fetch: "(\<exists>cond. run_result (fetch_rootshard ref) w [] = Inr (cond, Some r)) \<longleftrightarrow> refers_to ref n" for ref
  proof (cases ref)
    case (Some l)
    have "fmlookup (nw_rootshards w) (lor_Name l) = Some r \<longleftrightarrow> lor_Name l = n"
      using assms(2) name well_named_objects(1) [OF assms(1)] by metis
    then show ?thesis
      by (auto simp: Some fetch_rootshard_def FetchRootShard_def run_result_def bindA_def tryA_def api_get_def
          lookup_object_def split: option.splits)
  qed (simp add: fetch_rootshard_def FetchRootShard_def run_result_def)
  have named: "set (map nm (filter P (objects m))) = {n. \<exists>x. fmlookup m n = Some x \<and> P x}"
    if "\<And>n x. fmlookup m n = Some x \<Longrightarrow> nm x = n" for nm P and m :: "(string, 'o) fmap"
    using that by (auto simp: objects_set)
  show ?thesis
    unfolding fetch shard_rootShardHandler_def frontproxy_rootShardHandler_def name
    by (intro conjI; subst named) (auto simp: well_named_objects(2,3) [OF assms(1)])
qed

text \<open>A virtual workspace behind a shard is not woken by its root shard. The compiled object of a
  virtual workspace holds the spec of its root shard, but when the virtual workspace targets a shard,
  a change of that root shard asks for no reconciliation of it; a kubeconfig that targets a shard is
  left alone likewise.\<close>

theorem rootshard_change_misses_indirect_targets:
  assumes "well_named w" "fmlookup (nw_vws w) n = Some vw" "vt_RootShardRef (vw_Target (vwo_Spec vw)) = None"
    "vw_resolves w vw r"
    and "fmlookup (nw_kubeconfigs w) k = Some kc" "kt_RootShardRef (ks_Target (kc_Spec kc)) = None"
  shows "n \<notin> set (mapRootShardToVirtualWorkspaces w r) \<and> k \<notin> set (mapRootShardToKubeconfigs w r)
     \<and> (\<forall>shard revs old. cvw_RootShard (cvwo_Spec (snd (CompiledVirtualWorkspaceReconciler vw r shard revs) old))
          = named_rootshard r)"
proof -
  have "n \<notin> set (mapRootShardToVirtualWorkspaces w r)"
    using well_named_objects(5) [OF assms(1)] assms(2,3)
    by (auto simp: mapRootShardToVirtualWorkspaces_def mapVirtualWorkspaces_def objects_set)
  moreover have "k \<notin> set (mapRootShardToKubeconfigs w r)"
    using well_named_objects(6) [OF assms(1)] assms(5,6)
    by (auto simp: mapRootShardToKubeconfigs_def mapKubeconfigs_def objects_set)
  ultimately show ?thesis by (simp add: CompiledVirtualWorkspaceReconciler_def)
qed

end
