(* ===== verification/Controllers_Witnesses.thy ===== *)
theory Controllers_Witnesses
  imports Sample_Cluster Watch_Maps Kubeconfig_Props
begin

text \<open>
  The theorems on the controllers at concrete clusters.
\<close>

section \<open>The certificates of the sample objects\<close>

lemma renders_pair: "renders (n, render_certificate labels spec tpl)"
  by (auto simp: renders_def)

lemma leafs_render:
  "renders (shard_leaf s r k ca e1)" "renders (proxy_leaf p k ca e2)" "renders (rootshard_leaf r k ca e3)"
  "renders (cacheserver_leaf c k ca e4)" "renders (vw_leaf vw r labels k ca e5)"
  by (simp_all add: shard_leaf_def proxy_leaf_def rootshard_leaf_def cacheserver_leaf_def vw_leaf_def Let_def renders_pair)

lemma certs_render:
  "\<forall>rec \<in> set (shard_certReconcilers s r). renders rec" "\<forall>rec \<in> set (proxy_certReconcilers p). renders rec"
  "\<forall>rec \<in> set (virtualworkspace_certReconcilers vw r). renders rec"
  by (simp_all add: shard_certReconcilers_def shard_cert_defs proxy_certReconcilers_def proxy_cert_defs
      virtualworkspace_certReconcilers_def virtualworkspace_ClientCertificateReconciler_def
      virtualworkspace_ServerCertificateReconciler_def leafs_render)

lemma root_certs_render:
  "rootshard_certReconcilers r = Inr recs \<Longrightarrow> rec \<in> set recs \<Longrightarrow> renders rec"
  by (auto simp: rootshard_certReconcilers_def rootshard_RootCACertificateReconciler_def
      rootshard_CACertificateReconciler_def rootshard_cert_defs leafs_render renders_pair Let_def split: if_splits)

lemma cache_certs_render:
  "cacheserver_certReconcilers c = Inr recs \<Longrightarrow> rec \<in> set recs \<Longrightarrow> renders rec"
  by (auto simp: cacheserver_certReconcilers_def cacheserver_RootCACertificateReconciler_def
      cacheserver_ServerCertificateReconciler_def cacheserver_ClientCertificateReconciler_def leafs_render renders_pair
      Let_def split: option.splits)

lemma sample_world_ready:
  assumes "distinct (map fst recs)" "\<forall>rec \<in> set recs. renders rec" "set recs1 \<subseteq> set recs"
  shows "ready_certs recs1 (sample_world recs)"
  by (rule ready_store_certs [OF assms]) (simp add: sample_world_def)

lemma sample_world_lookups [simp]:
  "fmlookup (nw_shards (sample_world recs)) ''shard1'' = Some sample_guarded_shard"
  "fmlookup (nw_rootshards (sample_world recs)) ''root'' = Some sample_rootshard"
  "fmlookup (nw_frontproxies (sample_world recs)) ''fp'' = Some sample_frontproxy"
  "fmlookup (nw_cacheservers (sample_world recs)) ''cache'' = Some sample_cacheserver"
  "fmlookup (nw_vws (sample_world recs)) ''vw'' = Some sample_vw"
  "nw_cshards (sample_world recs) = fmempty" "nw_crootshards (sample_world recs) = fmempty"
  "nw_cfrontproxies (sample_world recs) = fmempty" "nw_ccacheservers (sample_world recs) = fmempty"
  "nw_cvws (sample_world recs) = fmempty"
  by (simp_all add: sample_world_def fmlookup_of_list)

section \<open>Shards\<close>

abbreviation shard_world :: ns_world where
  "shard_world \<equiv> sample_world (shard_certReconcilers sample_guarded_shard sample_rootshard)"

lemma shard_world_ready:
  "ready_certs (shard_certReconcilers sample_guarded_shard sample_rootshard) shard_world"
  by (rule sample_world_ready) (simp_all add: shard_cert_names certs_render)

lemmas shard_world_facts = sample_world_named [OF certs_render(1)] sample_world_lookups(1)
  shard_world_ready sample_write sample_world_ok(1)

lemma shard_world_run:
  obtains w' obj where "shard_Reconcile sample_ctl ''shard1'' shard_world [] = (Inr (), w', [])"
    "fmlookup (nw_cshards w') ''shard1'' = Some obj"
proof -
  have "\<exists>w' obj. shard_Reconcile sample_ctl ''shard1'' shard_world [] = (Inr (), w', [])
     \<and> fmlookup (nw_cshards w') ''shard1'' = Some obj \<and> csh_Shard (cso_Spec obj) = sh_Spec sample_guarded_shard"
    by (rule shard_run [where l = "\<lparr>lor_Name = ''root''\<rparr>" and r = sample_rootshard, OF shard_world_facts(1,2) _ _ _ _
        shard_world_facts(3-5)]) (simp_all add: sample_defs shard_has_finalizer_def)
  then show thesis using that by blast
qed


theorem shard_publish_gate_witness:
  "\<exists>w'. certs_published cshard_kind cso_Meta (shard_certReconcilers sample_guarded_shard sample_rootshard) ''shard1'' w'"
proof -
  obtain w' obj where run: "shard_Reconcile sample_ctl ''shard1'' shard_world [] = (Inr (), w', [])"
    "fmlookup (nw_cshards w') ''shard1'' = Some obj" by (rule shard_world_run)
  show ?thesis
    using shard_publish_gate [OF shard_world_facts(1) run(1)] run(2) by (auto simp: sample_defs)
qed

theorem shard_published_under_finalizer_witness:
  "nw_cshards (run_world (shard_Reconcile sample_ctl ''shard1'') shard_world []) \<noteq> fmempty
     \<and> shard_has_finalizer sample_guarded_shard"
proof -
  obtain w' obj where run: "shard_Reconcile sample_ctl ''shard1'' shard_world [] = (Inr (), w', [])"
    "fmlookup (nw_cshards w') ''shard1'' = Some obj" by (rule shard_world_run)
  have "nw_cshards (run_world (shard_Reconcile sample_ctl ''shard1'') shard_world []) \<noteq> nw_cshards shard_world"
    using run by (auto simp: run_world_def)
  from shard_published_under_finalizer [OF this] this show ?thesis by simp
qed

section \<open>Root shards\<close>

definition sample_rootshard_recs :: "certificate_reconciler list" where
  "sample_rootshard_recs = projr (rootshard_certReconcilers sample_rootshard)"

abbreviation rootshard_world :: ns_world where
  "rootshard_world \<equiv> sample_world (sample_rootshard_recs @ proxy_certReconcilers (NewRootShardProxy sample_rootshard))"

lemma sample_rootshard_recs: "rootshard_certReconcilers sample_rootshard = Inr sample_rootshard_recs"
  using rootshard_certReconcilers_total [of sample_rootshard] by (auto simp: sample_rootshard_recs_def)

lemma rootshard_world_render:
  "\<forall>rec \<in> set (sample_rootshard_recs @ proxy_certReconcilers (NewRootShardProxy sample_rootshard)). renders rec"
  using certs_render(2) root_certs_render [OF sample_rootshard_recs] by auto

lemma rootshard_world_ready:
  "ready_certs (sample_rootshard_recs @ proxy_certReconcilers (NewRootShardProxy sample_rootshard)) rootshard_world"
  by (rule sample_world_ready [OF rootshard_cert_names [OF sample_rootshard_recs] rootshard_world_render]) simp

lemmas rootshard_world_facts = sample_world_named [OF rootshard_world_render] sample_world_lookups(2)
  sample_rootshard_recs rootshard_world_ready sample_world_ok(2) sample_write sample_world_ok(1)

theorem rootshard_published_when_ready_witness:
  "\<exists>w' obj. rootshard_Reconcile sample_ctl ''root'' rootshard_world [] = (Inr (), w', [])
     \<and> fmlookup (nw_crootshards w') ''root'' = Some obj \<and> crs_RootShard (crsh_Spec obj) = sample_rootshard_spec"
  using rootshard_published_when_ready [OF rootshard_world_facts(1,2) _ rootshard_world_facts(3-7)]
  by (simp add: sample_defs)

theorem rootshard_publish_gate_witness:
  "\<exists>w'. certs_published crootshard_kind crsh_Meta
     (sample_rootshard_recs @ proxy_certReconcilers (NewRootShardProxy sample_rootshard)) ''root'' w'"
proof -
  obtain w' obj where run: "rootshard_Reconcile sample_ctl ''root'' rootshard_world [] = (Inr (), w', [])"
    "fmlookup (nw_crootshards w') ''root'' = Some obj"
    using rootshard_run [OF rootshard_world_facts(1,2) _ rootshard_world_facts(3-7)] by (auto simp: sample_defs)
  show ?thesis
    using rootshard_publish_gate [OF rootshard_world_facts(1) run(1)] run(2) by (auto simp: sample_rootshard_recs)
qed

section \<open>Front proxies, cache servers and virtual workspaces\<close>

lemma proxy_parts_shards [simp]:
  "proxy_certName (p\<lparr>fr_shards := cs\<rparr>) = proxy_certName p" "fr_serviceName (p\<lparr>fr_shards := cs\<rparr>) = fr_serviceName p"
  "certSecretLabels (p\<lparr>fr_shards := cs\<rparr>) = certSecretLabels p" "certTemplateMap (p\<lparr>fr_shards := cs\<rparr>) = certTemplateMap p"
  "certCommonName (p\<lparr>fr_shards := cs\<rparr>) = certCommonName p"
  by (rule ext, simp add: proxy_certName_def split: option.split)
    (simp_all add: fr_serviceName_def certSecretLabels_def certTemplateMap_def certCommonName_def split: option.split)

lemma proxy_dns_shards [simp]: "proxy_dnsNames (p\<lparr>fr_shards := cs\<rparr>) = proxy_dnsNames p"
  by (simp add: proxy_dnsNames_def Let_def split: option.split)

lemma proxy_leaf_shards [simp]: "proxy_leaf (p\<lparr>fr_shards := cs\<rparr>) = proxy_leaf p"
  by (rule ext)+ (simp add: proxy_leaf_def Let_def)

lemma proxy_certs_shards:
  assumes "NewFrontProxy (Some f) sample_rootshard children = Inr p"
  shows "proxy_certReconcilers p = proxy_certReconcilers (sample_proxy f)"
proof -
  have "p = (sample_proxy f)\<lparr>fr_shards := children\<rparr>" using assms by (simp add: NewFrontProxy_def sample_proxy_def)
  then show ?thesis by (simp add: proxy_certReconcilers_def proxy_cert_defs)
qed

abbreviation frontproxy_world :: ns_world where
  "frontproxy_world \<equiv> sample_world (proxy_certReconcilers (sample_proxy sample_frontproxy))"

theorem frontproxy_publish_gate_witness:
  "\<exists>w'. certs_published cfrontproxy_kind cfpo_Meta (proxy_certReconcilers (sample_proxy sample_frontproxy)) ''fp'' w'"
proof -
  have named: "well_named frontproxy_world" by (rule sample_world_named [OF certs_render(2)])
  have "ready_certs (proxy_certReconcilers (sample_proxy sample_frontproxy)) frontproxy_world"
    by (rule sample_world_ready) (simp_all add: proxy_cert_names certs_render)
  then have ready: "ready_certs (proxy_certReconcilers p) frontproxy_world"
    if "NewFrontProxy (Some sample_frontproxy) sample_rootshard children = Inr p" for children p
    by (simp add: proxy_certs_shards [OF that])
  have "\<exists>w' obj. frontproxy_Reconcile sample_ctl ''fp'' frontproxy_world [] = (Inr (), w', [])
     \<and> fmlookup (nw_cfrontproxies w') ''fp'' = Some obj \<and> cfp_FrontProxy (cfpo_Spec obj) = fpx_Spec sample_frontproxy"
    by (rule frontproxy_run [where l = "\<lparr>lor_Name = ''root''\<rparr>" and r = sample_rootshard, OF named sample_world_lookups(3)
        _ _ _ ready sample_world_ok(2,1)]) (simp_all add: sample_defs)
  then obtain w' obj where run: "frontproxy_Reconcile sample_ctl ''fp'' frontproxy_world [] = (Inr (), w', [])"
    "fmlookup (nw_cfrontproxies w') ''fp'' = Some obj" by blast
  obtain children p where "NewFrontProxy (Some sample_frontproxy) sample_rootshard children = Inr p"
    "certs_published cfrontproxy_kind cfpo_Meta (proxy_certReconcilers p) ''fp'' w'"
    using frontproxy_publish_gate [OF named run(1)] run(2)
    by (auto simp: sample_frontproxy_def sample_frontproxy_spec_def)
  then show ?thesis using proxy_certs_shards by metis
qed

theorem frontproxy_published_without_certificates_witness:
  "\<exists>obj. fmlookup (nw_cfrontproxies (run_world (frontproxy_Reconcile sample_ctl ''fp'')
       (sample_world [] \<lparr>nw_secrets := fmempty\<rparr>) [])) ''fp'' = Some obj"
proof -
  let ?w = "sample_world [] \<lparr>nw_secrets := fmempty\<rparr>"
  have "well_named ?w" using sample_world_named [of "[]"] by (simp add: well_named_def)
  from frontproxy_published_without_certificates [where w = ?w and l = "\<lparr>lor_Name = ''root''\<rparr>" and r = sample_rootshard
      and env = sample_ctl and name = "''fp''", OF this _ _ _ _ _ _ refl]
  show ?thesis using sample_world_ok(1) [of "[]"] by (auto simp: sample_defs)
qed

definition sample_cacheserver_recs :: "certificate_reconciler list" where
  "sample_cacheserver_recs = projr (cacheserver_certReconcilers sample_cacheserver)"

lemma sample_cacheserver_recs: "cacheserver_certReconcilers sample_cacheserver = Inr sample_cacheserver_recs"
  by (simp add: sample_cacheserver_recs_def cacheserver_certReconcilers_def cacheserver_RootCACertificateReconciler_def
      sample_cacheserver_def sample_cacheserver_spec_def sample_certificates_def Let_def)

theorem cacheserver_publish_gate_witness:
  "certs_published ccacheserver_kind ccs_Meta sample_cacheserver_recs ''cache''
     (run_world (cacheserver_Reconcile sample_ctl ''cache'') (sample_world sample_cacheserver_recs) [])"
proof -
  have render: "\<forall>rec \<in> set sample_cacheserver_recs. renders rec"
    using cache_certs_render [OF sample_cacheserver_recs] by blast
  have ready: "ready_certs sample_cacheserver_recs (sample_world sample_cacheserver_recs)"
    by (rule sample_world_ready [OF cacheserver_cert_names [OF sample_cacheserver_recs] render]) simp
  show ?thesis
    using cacheserver_run [OF sample_world_lookups(4) _ _ sample_cacheserver_recs ready sample_write]
      cacheserver_publish_gate [OF sample_world_named [OF render] refl, where name = "''cache''" and env = sample_ctl and os = "[]"]
    by (auto simp: sample_cacheserver_recs) (auto simp: sample_defs)
qed

theorem virtualworkspace_publish_gate_witness:
  "\<exists>r. certs_published cvw_kind cvwo_Meta (virtualworkspace_certReconcilers sample_vw r) ''vw''
     (run_world (vw_Reconcile sample_ctl ''vw'') (sample_world (virtualworkspace_certReconcilers sample_vw sample_rootshard)) [])"
proof -
  let ?recs = "virtualworkspace_certReconcilers sample_vw sample_rootshard"
  have named: "well_named (sample_world ?recs)" by (rule sample_world_named [OF certs_render(3)])
  have ready: "ready_certs ?recs (sample_world ?recs)"
    by (rule sample_world_ready) (simp_all add: vw_cert_names certs_render)
  show ?thesis
    using vw_run [where l = "\<lparr>lor_Name = ''root''\<rparr>" and r = sample_rootshard and env = sample_ctl,
        OF named sample_world_lookups(5) _ _ _ ready]
      virtualworkspace_publish_gate [OF named refl, where name = "''vw''" and env = sample_ctl and os = "[]"]
    by (auto simp: sample_defs)
qed

section \<open>Deleted shards\<close>

abbreviation deletion_world :: ns_world where
  "deletion_world \<equiv> sample_world [] \<lparr>nw_shards := fmap_of_list [(''shard1'', sample_deleted_shard)]\<rparr>"

lemma sample_deleted_shard:
  "om_Name (sh_Meta sample_deleted_shard) = ''shard1''" "om_DeletionTimestamp (sh_Meta sample_deleted_shard) \<noteq> None"
  "set (om_Finalizers (sh_Meta sample_deleted_shard)) = {shard_cleanupFinalizer}"
  "rsc_Reference (ss_RootShard (sh_Spec sample_deleted_shard)) = Some \<lparr>lor_Name = ''root''\<rparr>"
  "shard_has_finalizer sample_deleted_shard"
  by (simp_all add: sample_deleted_shard_def sample_guarded_shard_def sample_shard_def sample_shard_spec_def shard_has_finalizer_def)

lemma deletion_world_shard:
  "fmlookup (nw_shards deletion_world) ''shard1'' = Some sample_deleted_shard"
  by (simp add: fmlookup_of_list)

theorem shard_deletion_leaks_kcp_shard_witness:
  "nw_kcp (run_world (shard_Reconcile sample_ctl ''shard1'') deletion_world [Applied, Rejected]) = (\<lambda>_. [''shard1''])
   \<and> fmlookup (nw_shards (run_world (shard_Reconcile sample_ctl ''shard1'') deletion_world [Applied, Rejected])) ''shard1'' = None"
  using shard_deletion_leaks_kcp_shard [OF deletion_world_shard sample_deleted_shard(1-4), of Rejected]
  by (simp add: sample_world_def)

text \<open>With the root shard gone there is nothing to clean up.\<close>

theorem shard_finalizer_released_witness:
  "\<not> guarded ''shard1'' (run_world (shard_Reconcile sample_ctl ''shard1'')
       (deletion_world\<lparr>nw_rootshards := fmempty\<rparr>) [Applied])
   \<and> om_DeletionTimestamp (sh_Meta sample_deleted_shard) \<noteq> None"
proof -
  let ?w = "deletion_world\<lparr>nw_rootshards := fmempty\<rparr>"
  have shard: "fmlookup (nw_shards ?w) ''shard1'' = Some sample_deleted_shard" by (simp add: fmlookup_of_list)
  obtain cond where fetch: "fetch_rootshard (rsc_Reference (ss_RootShard (sh_Spec sample_deleted_shard))) ?w []
      = (Inr (cond, None), ?w, [])"
    by (simp add: sample_deleted_shard fetch_rootshard_def FetchRootShard_def bindA_def tryA_def api_get_def lookup_object_def)
  have gone: "\<not> guarded ''shard1'' (run_world (shard_Reconcile sample_ctl ''shard1'') ?w [Applied])"
    using shard_released_unread [OF shard sample_deleted_shard(1-3) fetch] by (simp add: guarded_def)
  show ?thesis
    using shard_finalizer_released [OF shard sample_deleted_shard(1,5) gone] gone by blast
qed

section \<open>Names and watches\<close>

theorem controllers_keep_names_witness:
  "well_named (run_world (shard_Reconcile sample_ctl ''shard1'') shard_world [Applied, Lost, Rejected])"
  using controllers_keep_names [OF shard_world_facts(1)] by blast

theorem rootshard_change_wakes_readers_witness:
  "set (shard_rootShardHandler (sample_world []) sample_rootshard) = {''shard1''}"
proof -
  have named: "well_named (sample_world [])" by (rule sample_world_named) simp
  have "fmlookup (nw_shards (sample_world [])) m = (if m = ''shard1'' then Some sample_guarded_shard else None)" for m
    by (auto simp: sample_world_def fmlookup_of_list)
  moreover have "\<exists>cond. run_result (fetch_rootshard (rsc_Reference (ss_RootShard (sh_Spec sample_guarded_shard))))
      (sample_world []) [] = Inr (cond, Some sample_rootshard)"
    by (auto simp: sample_defs run_result_def fetch_rootshard_def FetchRootShard_def bindA_def tryA_def api_get_def lookup_object_def)
  ultimately show ?thesis
    using rootshard_change_wakes_readers [OF named sample_world_lookups(2)] by (auto split: if_splits)
qed

text \<open>A virtual workspace and a kubeconfig that target a shard of the root shard.\<close>

definition sample_shard_vw :: VirtualWorkspace where
  "sample_shard_vw = sample_vw\<lparr>vwo_Spec := sample_vw_spec\<lparr>vw_Target :=
     \<lparr>vt_RootShardRef = None, vt_ShardRef = Some \<lparr>lor_Name = ''shard1''\<rparr>\<rparr>\<rparr>\<rparr>"

theorem rootshard_change_misses_indirect_targets_witness:
  "''vw'' \<notin> set (mapRootShardToVirtualWorkspaces (sample_world [] \<lparr>nw_vws := fmap_of_list [(''vw'', sample_shard_vw)],
       nw_kubeconfigs := fmap_of_list [(''kc'', sample_kubeconfig)]\<rparr>) sample_rootshard)"
proof -
  let ?w = "sample_world [] \<lparr>nw_vws := fmap_of_list [(''vw'', sample_shard_vw)],
       nw_kubeconfigs := fmap_of_list [(''kc'', sample_kubeconfig)]\<rparr>"
  have named: "well_named ?w" using sample_world_named [of "[]"]
    by (simp add: well_named_def sample_shard_vw_def sample_vw_def sample_kubeconfig_def fmpred_upd)
  have resolves: "vw_resolves ?w sample_shard_vw sample_rootshard"
    by (auto simp: vw_resolves_def sample_shard_vw_def sample_vw_def sample_vw_spec_def)
      (auto simp: sample_world_def sample_guarded_shard_def sample_shard_def sample_shard_spec_def)
  have vw: "fmlookup (nw_vws ?w) ''vw'' = Some sample_shard_vw" "fmlookup (nw_kubeconfigs ?w) ''kc'' = Some sample_kubeconfig"
    by simp_all
  show ?thesis
    using rootshard_change_misses_indirect_targets [OF named vw(1) _ resolves vw(2)]
    by (simp add: sample_shard_vw_def sample_vw_def sample_vw_spec_def sample_kubeconfig_def)
qed

section \<open>Kubeconfigs\<close>

definition sample_root_kubeconfig :: Kubeconfig where
  "sample_root_kubeconfig = sample_kubeconfig\<lparr>kc_Spec := (kc_Spec sample_kubeconfig)\<lparr>ks_Target :=
     \<lparr>kt_RootShardRef = Some \<lparr>lor_Name = ''root''\<rparr>, kt_ShardRef = None, kt_FrontProxyRef = None\<rparr>\<rparr>\<rparr>"

lemma sample_root_kubeconfig_sel:
  "om_Name (kc_Meta sample_root_kubeconfig) = ''kc''" "om_DeletionTimestamp (kc_Meta sample_root_kubeconfig) = None"
  "ks_Target (kc_Spec sample_root_kubeconfig) = \<lparr>kt_RootShardRef = Some \<lparr>lor_Name = ''root''\<rparr>, kt_ShardRef = None, kt_FrontProxyRef = None\<rparr>"
  "lor_Name (ks_SecretRef (kc_Spec sample_root_kubeconfig)) = ''alice-kubeconfig''"
  by (simp_all add: sample_root_kubeconfig_def sample_kubeconfig_def)

abbreviation kubeconfig_world :: "certificate_reconciler list \<Rightarrow> ns_world" where
  "kubeconfig_world recs \<equiv> sample_world recs
     \<lparr>nw_kubeconfigs := fmap_of_list [(''kc'', sample_root_kubeconfig)],
      nw_secrets := fmap_of_list
        [(Kubeconfig_GetCertificateName sample_root_kubeconfig, sample_secret (Kubeconfig_GetCertificateName sample_root_kubeconfig)
            [(''tls.crt'', ''C''), (''tls.key'', ''K'')]),
         (GetRootShardCAName sample_rootshard ServerCA, sample_secret (GetRootShardCAName sample_rootshard ServerCA)
            [(''tls.crt'', ''CC''), (''tls.key'', ''K'')])]\<rparr>"

theorem kubeconfig_ready_while_waiting_witness:
  "run_result (kubeconfig_Reconcile sample_env ''kc'') (kubeconfig_world []) [] = Inr True"
proof -
  have named: "well_named (kubeconfig_world [])" using sample_world_named [of "[]"]
    by (simp add: well_named_def sample_root_kubeconfig_sel sample_secret_def fmpred_upd)
  show ?thesis
    by (rule kubeconfig_ready_while_waiting [where k = sample_root_kubeconfig and r = sample_rootshard and l = "\<lparr>lor_Name = ''root''\<rparr>", OF _ named _ _ _ _ _ refl,
        THEN conjunct1])
      (simp_all add: sample_root_kubeconfig_sel, simp_all add: sample_env_def list_conditions_ok sample_world_def ready_store_def)
qed

definition kubeconfig_recs :: "certificate_reconciler list" where
  "kubeconfig_recs = [kubeconfig_ClientCertificateReconciler sample_root_kubeconfig (GetRootShardCAName sample_rootshard ClientCA),
     rootshard_CACertificateReconciler sample_rootshard ServerCA]"

lemma kubeconfig_names:
  "Kubeconfig_GetCertificateName sample_root_kubeconfig = ''kubeconfig-cert-kc''"
  "GetRootShardCAName sample_rootshard ServerCA = ''root-server-ca''"
  by (simp_all add: Kubeconfig_GetCertificateName_def sample_root_kubeconfig_sel names_defs sample_defs)

lemma kubeconfig_recs:
  "distinct (map fst kubeconfig_recs)" "\<forall>rec \<in> set kubeconfig_recs. renders rec"
  by (simp_all add: kubeconfig_recs_def kubeconfig_ClientCertificateReconciler_def rootshard_CACertificateReconciler_def
      renders_pair Let_def kubeconfig_names)

definition kubeconfig_ready_world :: ns_world where
  "kubeconfig_ready_world = kubeconfig_world kubeconfig_recs"

lemma kubeconfig_ready_world [simp]:
  "fmlookup (nw_kubeconfigs kubeconfig_ready_world) ''kc'' = Some sample_root_kubeconfig"
  "fmlookup (nw_rootshards kubeconfig_ready_world) ''root'' = Some sample_rootshard"
  "nw_certs kubeconfig_ready_world = ready_store kubeconfig_recs"
  "fmlookup (nw_secrets kubeconfig_ready_world) ''kubeconfig-cert-kc''
     = Some (sample_secret ''kubeconfig-cert-kc'' [(''tls.crt'', ''C''), (''tls.key'', ''K'')])"
  "fmlookup (nw_secrets kubeconfig_ready_world) ''root-server-ca''
     = Some (sample_secret ''root-server-ca'' [(''tls.crt'', ''CC''), (''tls.key'', ''K'')])"
  by (simp_all add: kubeconfig_ready_world_def sample_world_def kubeconfig_names)

lemma getCertificateSecret_run:
  assumes "fmlookup (nw_certs w) n = Some c" "certificateReady c" "ce_SecretName (cc_Spec c) = m" "fmlookup (nw_secrets w) m = Some s"
  shows "getCertificateSecret n w [] = (Inr (Inr (Some s)), w, [])"
  using assms by (simp add: getCertificateSecret_def bindA_def tryA_def api_get_def lookup_object_def)

lemma kubeconfig_ready_certs:
  assumes "rec \<in> set kubeconfig_recs"
  shows "\<exists>c. fmlookup (nw_certs kubeconfig_ready_world) (fst rec) = Some c \<and> certificateReady c
     \<and> ce_SecretName (cc_Spec c) = fst rec"
proof -
  have "fmlookup (nw_certs kubeconfig_ready_world) (fst rec) = Some (snd rec (fresh_certificate (fst rec)))"
    using ready_store_lookup [OF kubeconfig_recs(1) assms] by simp
  then show ?thesis
    using assms by (auto simp: kubeconfig_recs_def kubeconfig_ClientCertificateReconciler_def
        rootshard_CACertificateReconciler_def Let_def certificateReady_def)
qed

lemma kubeconfig_secrets_run:
  "getCertificateSecret ''kubeconfig-cert-kc'' kubeconfig_ready_world [] = (Inr (Inr (Some
     (sample_secret ''kubeconfig-cert-kc'' [(''tls.crt'', ''C''), (''tls.key'', ''K'')]))), kubeconfig_ready_world, [])"
  "getCertificateSecret ''root-server-ca'' kubeconfig_ready_world [] = (Inr (Inr (Some
     (sample_secret ''root-server-ca'' [(''tls.crt'', ''CC''), (''tls.key'', ''K'')]))), kubeconfig_ready_world, [])"
proof -
  have names: "fst (kubeconfig_ClientCertificateReconciler sample_root_kubeconfig i) = ''kubeconfig-cert-kc''"
    "fst (rootshard_CACertificateReconciler sample_rootshard ServerCA) = ''root-server-ca''" for i
    by (simp_all add: kubeconfig_ClientCertificateReconciler_def rootshard_CACertificateReconciler_def Let_def kubeconfig_names)
  obtain c1 where "fmlookup (nw_certs kubeconfig_ready_world) ''kubeconfig-cert-kc'' = Some c1" "certificateReady c1"
    "ce_SecretName (cc_Spec c1) = ''kubeconfig-cert-kc''"
    using kubeconfig_ready_certs [of "kubeconfig_recs ! 0"] by (auto simp: kubeconfig_recs_def names)
  then show "getCertificateSecret ''kubeconfig-cert-kc'' kubeconfig_ready_world [] = (Inr (Inr (Some
     (sample_secret ''kubeconfig-cert-kc'' [(''tls.crt'', ''C''), (''tls.key'', ''K'')]))), kubeconfig_ready_world, [])"
    by (rule getCertificateSecret_run) simp
  obtain c2 where "fmlookup (nw_certs kubeconfig_ready_world) ''root-server-ca'' = Some c2" "certificateReady c2"
    "ce_SecretName (cc_Spec c2) = ''root-server-ca''"
    using kubeconfig_ready_certs [of "kubeconfig_recs ! 1"] by (auto simp: kubeconfig_recs_def names)
  then show "getCertificateSecret ''root-server-ca'' kubeconfig_ready_world [] = (Inr (Inr (Some
     (sample_secret ''root-server-ca'' [(''tls.crt'', ''CC''), (''tls.key'', ''K'')]))), kubeconfig_ready_world, [])"
    by (rule getCertificateSecret_run) simp
qed

lemma kubeconfig_write_run:
  "\<exists>m. kubeconfig_write sample_env sample_root_kubeconfig \<lparr>tg_rootShard = sample_rootshard, tg_shard = Shard_zero,
        tg_frontProxy = FrontProxy_zero, tg_caBundle = None\<rparr>
      (sample_secret ''root-server-ca'' [(''tls.crt'', ''CC''), (''tls.key'', ''K'')])
      (sample_secret ''kubeconfig-cert-kc'' [(''tls.crt'', ''C''), (''tls.key'', ''K'')]) w []
     = (Inr (), w\<lparr>nw_secrets := m\<rparr>, [])"
proof -
  obtain config where rec: "KubeconfigSecretReconciler toy_decode (\<lambda>_. None) (\<lambda>c. ''/clusters/'' @ c) (\<lambda>a b. Inr (a @ b))
      (\<lambda>_. Inr ''kubeconfig'') sample_root_kubeconfig (Some sample_rootshard) (Some Shard_zero) FrontProxy_zero
      (Some (sample_secret ''root-server-ca'' [(''tls.crt'', ''CC''), (''tls.key'', ''K'')]))
      (sample_secret ''kubeconfig-cert-kc'' [(''tls.crt'', ''C''), (''tls.key'', ''K'')]) None
    = Some (Inr (''alice-kubeconfig'', render_kubeconfig_secret (\<lambda>_. Inr ''kubeconfig'') [] config))"
    by (simp add: KubeconfigSecretReconciler_def bundle_error_def MergeCertificateSecrets_def
        getCertFromSecret_def sample_secret_def validatePEMCertificate_def toy_decode_def
        validate_blocks.simps kubeconfig_config_def sample_root_kubeconfig_sel Let_def)
  have "\<forall>rec \<in> set [(''alice-kubeconfig'', render_kubeconfig_secret (\<lambda>_. Inr ''kubeconfig'') [] config)]. \<forall>x. \<exists>y. snd rec x = Inr y"
    by (simp add: render_kubeconfig_secret_def)
  from ensure_run [OF kind_stores(1) this, of "[]" w]
  show ?thesis
    by (auto simp: kubeconfig_write_def sample_env_def rec [simplified] must_def bindA_assoc bindA_def [of "ensure_objects _ _ _"])
qed

lemma kubeconfig_world_run:
  "\<exists>w'. kubeconfig_Reconcile sample_env ''kc'' kubeconfig_ready_world [] = (Inr False, w', [])"
proof -
  let ?w = kubeconfig_ready_world and ?k = sample_root_kubeconfig
  let ?t = "\<lparr>tg_rootShard = sample_rootshard, tg_shard = Shard_zero, tg_frontProxy = FrontProxy_zero, tg_caBundle = None\<rparr>"
  have target: "tryA (kubeconfig_target ?k) ?w [] = (Inr (Inr ?t), ?w, [])"
    by (simp add: tryA_def kubeconfig_target_def sample_root_kubeconfig_sel bindA_def wrapA_def api_get_def lookup_object_def)
  have "ready_certs [kubeconfig_ClientCertificateReconciler ?k (GetRootShardCAName sample_rootshard ClientCA)] ?w"
    by (rule ready_store_certs [OF kubeconfig_recs]) (simp_all add: kubeconfig_recs_def)
  note certs = ensure_certs_run [OF this]
  obtain m where wr: "kubeconfig_write sample_env ?k ?t
      (sample_secret ''root-server-ca'' [(''tls.crt'', ''CC''), (''tls.key'', ''K'')])
      (sample_secret ''kubeconfig-cert-kc'' [(''tls.crt'', ''C''), (''tls.key'', ''K'')]) ?w []
     = (Inr (), ?w\<lparr>nw_secrets := m\<rparr>, [])" using kubeconfig_write_run by blast
  then have wr: "tryA (kubeconfig_write sample_env ?k ?t
      (sample_secret ''root-server-ca'' [(''tls.crt'', ''CC''), (''tls.key'', ''K'')])
      (sample_secret ''kubeconfig-cert-kc'' [(''tls.crt'', ''C''), (''tls.key'', ''K'')])) ?w []
     = (Inr (Inr ()), ?w\<lparr>nw_secrets := m\<rparr>, [])" by (simp add: tryA_def)
  have rec: "kubeconfig_reconcile sample_env ?k ?w [] = (Inr ([reference_valid, secrets_ready], Inr ()), ?w\<lparr>nw_secrets := m\<rparr>, [])"
    by (simp add: kubeconfig_reconcile_def bindA_run [where m = "tryA (kubeconfig_target ?k)", OF target] Let_def
        bindA_run [where m = "ensure_objects _ _ _", OF certs [unfolded list.map]] with_certificate_def kubeconfig_names
        bindA_run [where m = "getCertificateSecret _", OF kubeconfig_secrets_run(1)]
        bindA_run [where m = "getCertificateSecret _", OF kubeconfig_secrets_run(2)]
        bindA_run [where m = "tryA (kubeconfig_write _ _ _ _ _)", OF wr])
  have "\<exists>w2. kubeconfig_reconcileStatus sample_env ?k [reference_valid, secrets_ready] (?w\<lparr>nw_secrets := m\<rparr>) []
      = (Inr (Inr ()), w2, [])"
    by (simp add: kubeconfig_reconcileStatus_def Let_def bindA_def tryA_def api_call_run patch_object_def lookup_object_def
        sample_root_kubeconfig_sel)
  then obtain w2 where status: "kubeconfig_reconcileStatus sample_env ?k [reference_valid, secrets_ready] (?w\<lparr>nw_secrets := m\<rparr>) []
      = (Inr (Inr ()), w2, [])" ..
  have "\<not> waiting [reference_valid, secrets_ready]"
    by (simp add: waiting_def reference_valid_def secrets_ready_def new_condition_def)
  then have "kubeconfig_Reconcile sample_env ''kc'' ?w [] = (Inr False, w2, [])"
    by (simp add: kubeconfig_Reconcile_def bindA_def [of "tryA _"] tryA_def api_get_def lookup_object_def sample_root_kubeconfig_sel
        bindA_run [where m = "kubeconfig_reconcile _ _", OF rec]
        bindA_run [where m = "kubeconfig_reconcileStatus _ _ _", OF status] finish_def)
  then show ?thesis ..
qed

lemma sample_decoder: "decoder_ok (ke_decode sample_env)"
  by (simp add: sample_env_def toy_decode_ok)

theorem kubeconfig_settled_delivers_witness:
  "\<exists>w'. kubeconfig_delivered sample_env sample_root_kubeconfig w'"
proof -
  obtain w' where run: "kubeconfig_Reconcile sample_env ''kc'' kubeconfig_ready_world [] = (Inr False, w', [])"
    using kubeconfig_world_run ..
  from kubeconfig_settled_delivers [OF kubeconfig_ready_world(1) sample_root_kubeconfig_sel(2) run sample_decoder] show ?thesis ..
qed

end
