(* ===== verification/CacheServer_Workload.thy ===== *)
theory CacheServer_Workload
  imports Shard_Deployment_Facts
begin

text \<open>
  \<open>internal/resources/compiledcacheserver\<close>: the Deployment and the Service of a cache server.
  Its etcd is embedded, on an \<open>emptyDir\<close>, or external; with an embedded one the pod must not be
  scaled. \<open>newVersion\<close> and \<open>check\<close> are those of the third-party \<open>semver\<close>.
\<close>

section \<open>Mounts and arguments\<close>

definition cacheserver_getCertificateMountPath :: "Certificate \<Rightarrow> string" where
  "cacheserver_getCertificateMountPath c = ''/etc/cache-server/tls/'' @ cert_str c"

definition cacheserver_getEtcdCertificateMountPath :: string where
  "cacheserver_getEtcdCertificateMountPath = ''/etc/cache-server/etcd''"

definition cacheserver_getCAMountPath :: "CA \<Rightarrow> string" where
  "cacheserver_getCAMountPath c = ''/etc/cache-server/tls/ca/'' @ ca_str c"

definition embeddedEtcdStoragePath :: string where
  "embeddedEtcdStoragePath = ''/var/etcd''"

lemmas cacheserver_paths = cacheserver_getCertificateMountPath_def
  cacheserver_getEtcdCertificateMountPath_def cacheserver_getCAMountPath_def embeddedEtcdStoragePath_def

definition hasAuthenticatedCache :: "(string \<Rightarrow> 'v \<Rightarrow> bool) \<Rightarrow> 'v option \<Rightarrow> bool" where
  "hasAuthenticatedCache check version = (case version of None \<Rightarrow> True
     | Some v \<Rightarrow> check ''~0.29.2 || ~0.30.2 || >=0.31.0'' v)"

definition empty_dir_volume :: "string \<Rightarrow> Volume" where
  "empty_dir_volume name = \<lparr>vol_Name = name, vol_Secret = None, vol_ConfigMap = None,
     vol_EmptyDir = True, vol_Other = JNull\<rparr>"

definition cacheserver_getVolumeMounts :: "CompiledCacheServer \<Rightarrow> Volume list \<times> VolumeMount list" where
  "cacheserver_getVolumeMounts s =
     (let spec = ccs_Spec s;
          (volumes, volumeMounts) = (if ca_Etcd spec = None
            then ([empty_dir_volume ''etcd-scratch''],
              [\<lparr>vm_Name = ''etcd-scratch'', vm_ReadOnly = False, vm_MountPath = embeddedEtcdStoragePath\<rparr>])
            else ([], [])) in
      (volumes @ ca_ExtraVolumes spec, volumeMounts @ ca_ExtraVolumeMounts spec))"

definition cacheserver_etcd_args :: "EtcdConfig option \<Rightarrow> string list" where
  "cacheserver_etcd_args etcd = (case etcd of
     None \<Rightarrow> [''--embedded-etcd-directory='' @ embeddedEtcdStoragePath]
   | Some e \<Rightarrow> [''--etcd-servers='' @ strings_Join (etcd_Endpoints e) '','']
       @ when_arg (etcd_Prefix e \<noteq> []) (''--etcd-prefix='' @ etcd_Prefix e)
       @ (if etcd_TLSConfig e = None then []
          else [''--etcd-cafile='' @ cacheserver_getEtcdCertificateMountPath @ ''/ca.crt'',
                ''--etcd-certfile='' @ cacheserver_getEtcdCertificateMountPath @ ''/tls.crt'',
                ''--etcd-keyfile='' @ cacheserver_getEtcdCertificateMountPath @ ''/tls.key'']))"

definition cacheserver_getArgs ::
    "(string \<Rightarrow> 'v \<Rightarrow> bool) \<Rightarrow> CompiledCacheServer \<Rightarrow> 'v option \<Rightarrow> string list" where
  "cacheserver_getArgs check s version =
     [''--tls-cert-file='' @ cacheserver_getCertificateMountPath ServerCertificate @ ''/tls.crt'',
      ''--tls-private-key-file='' @ cacheserver_getCertificateMountPath ServerCertificate @ ''/tls.key'',
      ''--root-directory='']
     @ when_arg (hasAuthenticatedCache check version)
         (''--client-ca-file='' @ cacheserver_getCAMountPath RootCA @ ''/tls.crt'')
     @ cacheserver_etcd_args (ca_Etcd (ccs_Spec s))
     @ GetLoggingArgs (ca_Logging (ccs_Spec s))
     @ ca_ExtraArgs (ccs_Spec s)"

definition cacheserver_getSecretMounts ::
    "(string \<Rightarrow> 'v \<Rightarrow> bool) \<Rightarrow> CompiledCacheServer \<Rightarrow> 'v option \<Rightarrow> SecretMount list" where
  "cacheserver_getSecretMounts check s version =
     [secret_mount ''serving-cert'' (GetCompiledCacheServerCertificateName s ServerCertificate)
        (cacheserver_getCertificateMountPath ServerCertificate)]
     @ (if hasAuthenticatedCache check version
        then [secret_mount ''client-ca'' (GetCacheServerCAName (om_Name (ccs_Meta s)) RootCA)
                (cacheserver_getCAMountPath RootCA)]
        else [])
     @ (case ca_Etcd (ccs_Spec s) of None \<Rightarrow> [] | Some e \<Rightarrow>
         (case etcd_TLSConfig e of None \<Rightarrow> []
          | Some tls \<Rightarrow> [secret_mount ''etcd-cert'' (lor_Name (tls_SecretRef tls))
              cacheserver_getEtcdCertificateMountPath]))"

section \<open>The deployment\<close>

text \<open>Replicas are signed 32-bit integers.\<close>

definition cacheserver_replicas :: "CacheServerSpec \<Rightarrow> 32 word option \<Rightarrow> 32 word option" where
  "cacheserver_replicas spec existing =
     (if ca_Etcd spec = None
      then (case existing of Some r \<Rightarrow> if sint r > 1 then Some 1 else Some r | None \<Rightarrow> None)
      else Some (case ca_Replicas spec of Some r \<Rightarrow> r | None \<Rightarrow> 2))"

definition cacheserver_container ::
    "string \<Rightarrow> string list \<Rightarrow> VolumeMount list \<Rightarrow> Container" where
  "cacheserver_container img args mounts = Container_zero\<lparr>ct_Name := ''cache-server'', ct_Image := img,
     ct_Command := [''/cache-server''], ct_Args := args, ct_VolumeMounts := mounts,
     ct_Resources := cache_defaultResourceRequirements,
     ct_SecurityContext := Some restricted_context, ct_Ports := [https_port],
     ct_ReadinessProbe := Some (https_probe 3 15 10 ''/readyz''),
     ct_LivenessProbe := Some (https_probe 3 15 10 ''/livez'')\<rparr>"

definition cacheserver_DeploymentReconciler ::
    "(string \<Rightarrow> 'v option) \<Rightarrow> (string \<Rightarrow> 'v \<Rightarrow> bool) \<Rightarrow> CompiledCacheServer \<Rightarrow> Deployment \<Rightarrow> Deployment" where
  "cacheserver_DeploymentReconciler newVersion check s dep =
     (let spec = ccs_Spec s;
          dep1 = label_deployment (GetCompiledCacheServerResourceLabels s) dep;
          dep2 = set_replicas (cacheserver_replicas spec (ds_Replicas (dep_Spec dep1))) dep1;
          (img, imagePullSecrets, version) = GetImageSettings newVersion (ca_Image spec);
          (volumes, volumeMounts) = cacheserver_getVolumeMounts s;
          secretMounts = cacheserver_getSecretMounts check s version;
          container = cacheserver_container img (cacheserver_getArgs check s version)
            (volumeMounts @ map (snd \<circ> SecretMount_Build) secretMounts);
          dep3 = set_pod ((pod_of dep2)\<lparr>ps_Containers := [container],
            ps_Volumes := volumes @ map (fst \<circ> SecretMount_Build) secretMounts,
            ps_ImagePullSecrets := imagePullSecrets\<rparr>) dep2 in
      ApplyDeploymentTemplate dep3 (ca_DeploymentTemplate spec))"

section \<open>The service\<close>

definition https_service :: "gomap \<Rightarrow> ServiceTemplate option \<Rightarrow> Service \<Rightarrow> Service" where
  "https_service labels tpl svc = ApplyServiceTemplate (svc\<lparr>svc_Meta := (svc_Meta svc)\<lparr>om_Labels := labels\<rparr>,
     svc_Type := ''ClusterIP'', svc_Ports := [https_service_port ''https'' 6443], svc_Selector := labels\<rparr>) tpl"

definition cacheserver_ServiceReconciler :: "CompiledCacheServer \<Rightarrow> Service \<Rightarrow> Service" where
  "cacheserver_ServiceReconciler s =
     https_service (GetCompiledCacheServerResourceLabels s) (ca_ServiceTemplate (ccs_Spec s))"

section \<open>Facts\<close>

lemma set_replicas_simps [simp]:
  "pod_of (set_replicas r d) = pod_of d" "ds_Replicas (dep_Spec (set_replicas r d)) = r"
  "dep_Meta (set_replicas r d) = dep_Meta d"
  by (simp_all add: set_replicas_def pod_of_def)

lemma set_pod_parts [simp]:
  "ds_Replicas (dep_Spec (set_pod p d)) = ds_Replicas (dep_Spec d)"
  "ds_Selector (dep_Spec (set_pod p d)) = ds_Selector (dep_Spec d)"
  "dep_Meta (set_pod p d) = dep_Meta d"
  by (simp_all add: set_pod_def)

lemma label_deployment_parts [simp]:
  "ds_Replicas (dep_Spec (label_deployment l d)) = ds_Replicas (dep_Spec d)"
  "ds_Selector (dep_Spec (label_deployment l d)) = Some l"
  by (simp_all add: label_deployment_def)

lemma cacheserver_deployment_parts:
  assumes "GetImageSettings newVersion (ca_Image (ccs_Spec s)) = (img, pulls, version)"
  shows "ps_Containers (pod_of (cacheserver_DeploymentReconciler newVersion check s dep)) =
      [cacheserver_container img (cacheserver_getArgs check s version)
        (snd (cacheserver_getVolumeMounts s) @ map (snd \<circ> SecretMount_Build) (cacheserver_getSecretMounts check s version))]"
    "ps_Volumes (pod_of (cacheserver_DeploymentReconciler newVersion check s dep)) =
      fst (cacheserver_getVolumeMounts s) @ map (fst \<circ> SecretMount_Build) (cacheserver_getSecretMounts check s version)"
    "ds_Replicas (dep_Spec (cacheserver_DeploymentReconciler newVersion check s dep)) =
      cacheserver_replicas (ccs_Spec s) (ds_Replicas (dep_Spec dep))"
  using assms by (simp_all add: cacheserver_DeploymentReconciler_def Let_def case_prod_unfold)

text \<open>A cache server with an embedded etcd never runs with more than one replica: a larger count
  that something else wrote is taken back. Kubernetes reads an unset count as 1.\<close>

lemma cacheserver_embedded_single:
  assumes "ca_Etcd (ccs_Spec s) = None"
  shows "sint (case ds_Replicas (dep_Spec (cacheserver_DeploymentReconciler newVersion check s dep)) of
     None \<Rightarrow> (1 :: 32 word) | Some r \<Rightarrow> r) \<le> 1"
proof -
  obtain i p v where im: "GetImageSettings newVersion (ca_Image (ccs_Spec s)) = (i, p, v)"
    by (cases "GetImageSettings newVersion (ca_Image (ccs_Spec s))") auto
  show ?thesis using assms
    by (auto simp: cacheserver_deployment_parts(3) [OF im] cacheserver_replicas_def split: option.splits)
qed

end
