(* ===== verification/VirtualWorkspace_Workload.thy ===== *)
theory VirtualWorkspace_Workload
  imports CacheServer_Workload
begin

text \<open>
  \<open>internal/resources/compiledvirtualworkspace\<close>: the Deployment and the Service of a virtual
  workspace. Its pod has a server container and any number of init containers; each of them gets
  the shared certificates and either the kubeconfig its user provided or the admin credential of
  the target. Volumes are gathered in one list while the containers are built, and deduplicated by
  name at the end. The mount paths shared with the shards are the functions \<open>shard_get...\<close>.
\<close>

section \<open>Where things are mounted\<close>

definition getServerKubeconfigMountPath :: string where
  "getServerKubeconfigMountPath = ''/etc/kcp/server-kubeconfig''"

definition getInitKubeconfigMountPath :: string where
  "getInitKubeconfigMountPath = ''/etc/kcp/init-kubeconfig''"

definition vw_getEffectiveCacheRef :: "CompiledVirtualWorkspace \<Rightarrow> string" where
  "vw_getEffectiveCacheRef vw =
     (let own = (case cvw_Shard (cvwo_Spec vw) of None \<Rightarrow> None
            | Some shard \<Rightarrow> (case ss_Cache (ns_Spec shard) of None \<Rightarrow> None | Some c \<Rightarrow> scc_Reference c)) in
      case own of
        Some ref \<Rightarrow> lor_Name ref
      | None \<Rightarrow> (case rcc_Reference (rs_Cache (nrs_Spec (cvw_RootShard (cvwo_Spec vw)))) of
          Some ref \<Rightarrow> lor_Name ref | None \<Rightarrow> []))"

definition vw_kubeconfigSecret :: "CompiledVirtualWorkspace \<Rightarrow> Certificate \<Rightarrow> string" where
  "vw_kubeconfigSecret vw cert = (case cvw_Shard (cvwo_Spec vw) of
     Some shard \<Rightarrow> GetNamedShardKubeconfigSecret shard cert
   | None \<Rightarrow> GetNamedRootShardKubeconfigSecret (cvw_RootShard (cvwo_Spec vw)) cert)"

definition vw_serverKubeconfigMountPath :: "CompiledVirtualWorkspace \<Rightarrow> string" where
  "vw_serverKubeconfigMountPath vw =
     (if vw_KubeconfigSecretRef (cvw_VirtualWorkspace (cvwo_Spec vw)) \<noteq> None
      then getServerKubeconfigMountPath
      else shard_getKubeconfigMountPath LogicalClusterAdminCertificate)"

definition vw_getArgs :: "CompiledVirtualWorkspace \<Rightarrow> string list" where
  "vw_getArgs vw =
     (let spec = cvw_VirtualWorkspace (cvwo_Spec vw) in
      [''--client-ca-file='' @ shard_getCAMountPath ClientCA @ ''/tls.crt'',
       ''--tls-private-key-file='' @ shard_getCertificateMountPath ServerCertificate @ ''/tls.key'',
       ''--tls-cert-file='' @ shard_getCertificateMountPath ServerCertificate @ ''/tls.crt'',
       ''--bind-address=0.0.0.0'',
       ''--secure-port=6443'',
       ''--requestheader-client-ca-file='' @ shard_getCAMountPath RequestHeaderClientCA @ ''/tls.crt'',
       ''--requestheader-allowed-names='' @ FrontProxyCommonName @ '','' @ RootShardProxyCommonName,
       ''--requestheader-username-headers=X-Remote-User'',
       ''--requestheader-group-headers=X-Remote-Group'',
       ''--requestheader-extra-headers-prefix=X-Remote-Extra-'',
       ''--kubeconfig='' @ vw_serverKubeconfigMountPath vw @ ''/kubeconfig'',
       ''--shard-external-url=https://127.0.0.1:6443'']
      @ when_arg (vw_getEffectiveCacheRef vw \<noteq> [])
          (''--cache-kubeconfig='' @ getCacheServerKubeconfigMountPath @ ''/kubeconfig'')
      @ GetLoggingArgs (vw_Logging spec)
      @ vw_ExtraArgs spec)"

definition vw_sharedSecrets :: "CompiledVirtualWorkspace \<Rightarrow> SecretMount list" where
  "vw_sharedSecrets vw =
     (let root = cvw_RootShard (cvwo_Spec vw); spec = cvw_VirtualWorkspace (cvwo_Spec vw) in
      [secret_mount ''kcp-ca'' (GetNamedRootShardCAName root RootCA) (shard_getCAMountPath RootCA)]
      @ map (\<lambda>ca. secret_mount (ca_str ca @ ''-ca'') (GetNamedRootShardCAName root ca)
            (shard_getCAMountPath ca)) [ServerCA, RequestHeaderClientCA]
      @ [secret_mount (ca_str ClientCA @ ''-ca'')
           (if cs_ClientCABundleRef (nrs_Spec root) \<noteq> None \<or> vw_ClientCABundleRef spec \<noteq> None
            then om_Name (cvwo_Meta vw) @ ''-merged-client-ca'' else GetNamedRootShardCAName root ClientCA)
           (shard_getCAMountPath ClientCA),
         secret_mount (cert_str ServerCertificate @ ''-cert'')
           (GetCompiledVirtualWorkspaceCertificateName vw ServerCertificate)
           (shard_getCertificateMountPath ServerCertificate)]
      @ (if vw_getEffectiveCacheRef vw \<noteq> [] then cache_mounts (vw_getEffectiveCacheRef vw) else []))"

text \<open>The privileged credential of the target: its kubeconfig, with the client certificate of the
  virtual workspace at the path the kubeconfig refers to.\<close>

definition vw_adminSecrets :: "CompiledVirtualWorkspace \<Rightarrow> SecretMount list" where
  "vw_adminSecrets vw =
     [secret_mount (cert_str LogicalClusterAdminCertificate @ ''-kubeconfig'')
        (vw_kubeconfigSecret vw LogicalClusterAdminCertificate)
        (shard_getKubeconfigMountPath LogicalClusterAdminCertificate),
      secret_mount (cert_str ClientCertificate @ ''-cert'')
        (GetCompiledVirtualWorkspaceCertificateName vw ClientCertificate)
        (shard_getCertificateMountPath LogicalClusterAdminCertificate)]"

section \<open>Containers\<close>

text \<open>\<open>containerMounts\<close> returns the mounts of one container and appends the volume of its own
  kubeconfig to the volumes gathered so far.\<close>

definition containerMounts ::
    "VolumeMount list \<Rightarrow> VolumeMount list \<Rightarrow> Volume list \<Rightarrow> LocalObjectReference option
       \<Rightarrow> string \<Rightarrow> string \<Rightarrow> VolumeMount list \<Rightarrow> Volume list \<times> VolumeMount list" where
  "containerMounts sharedMounts adminVolumeMounts volumes ref volumeName mountPath extra = (case ref of
     None \<Rightarrow> (volumes, sharedMounts @ adminVolumeMounts @ extra)
   | Some r \<Rightarrow> (let (v, m) = SecretMount_Build (secret_mount volumeName (lor_Name r) mountPath) in
       (volumes @ [v], sharedMounts @ [m] @ extra)))"

text \<open>The state of the loop over the init containers: the resource maps, the volumes gathered by
  \<open>containerMounts\<close>, and the containers, volumes and pull secrets the loop returns.\<close>

record init_state =
  in_store :: rstore
  in_gathered :: "Volume list"
  in_containers :: "Container list"
  in_volumes :: "Volume list"
  in_pullSecrets :: "LocalObjectReference list"

definition init_kubeconfig_volume :: "string \<Rightarrow> string" where
  "init_kubeconfig_volume n = ''init-'' @ n @ ''-kubeconfig''"

definition initContainer_step ::
    "VolumeMount list \<Rightarrow> VolumeMount list \<Rightarrow> string \<Rightarrow> VirtualWorkspaceInitContainer \<Rightarrow> init_state \<Rightarrow> init_state" where
  "initContainer_step sharedMounts adminVolumeMounts serverImage spec st =
     (let (img, secrets) = (case vi_Image spec of None \<Rightarrow> (serverImage, [])
            | Some i \<Rightarrow> (case GetImageSettings (\<lambda>_. None :: unit option) (Some i) of (img, secrets, _) \<Rightarrow> (img, secrets)));
          (gathered, mounts) = containerMounts sharedMounts adminVolumeMounts (in_gathered st)
            (vi_KubeconfigSecretRef spec) (init_kubeconfig_volume (vi_Name spec))
            getInitKubeconfigMountPath (vi_VolumeMounts spec);
          container = Container_zero\<lparr>ct_Name := vi_Name spec, ct_Image := img, ct_Command := vi_Command spec,
            ct_Args := vi_Args spec, ct_VolumeMounts := mounts, ct_Resources := vw_defaultResourceRequirements\<rparr>;
          (store, container') = ApplyResources (in_store st) container (vi_Resources spec) in
      \<lparr>in_store = store, in_gathered = gathered, in_containers = in_containers st @ [container'],
       in_volumes = in_volumes st @ vi_Volumes spec, in_pullSecrets = in_pullSecrets st @ secrets\<rparr>)"

definition getInitContainers ::
    "VolumeMount list \<Rightarrow> VolumeMount list \<Rightarrow> string \<Rightarrow> VirtualWorkspaceInitContainer list
       \<Rightarrow> rstore \<Rightarrow> Volume list \<Rightarrow> init_state" where
  "getInitContainers sharedMounts adminVolumeMounts serverImage specs store volumes =
     fold (initContainer_step sharedMounts adminVolumeMounts serverImage) specs
       \<lparr>in_store = store, in_gathered = volumes, in_containers = [], in_volumes = [], in_pullSecrets = []\<rparr>"

fun dedupe_loop :: "string set \<Rightarrow> Volume list \<Rightarrow> Volume list" where
  "dedupe_loop seen [] = []"
| "dedupe_loop seen (v # vs) =
     (if vol_Name v \<in> seen then dedupe_loop seen vs
      else v # dedupe_loop (insert (vol_Name v) seen) vs)"

definition dedupeVolumes :: "Volume list \<Rightarrow> Volume list" where
  "dedupeVolumes volumes = dedupe_loop {} volumes"

definition DefaultServerCommand :: string where
  "DefaultServerCommand = ''/virtual-workspaces''"

section \<open>The deployment\<close>

definition no_probes :: "Container \<Rightarrow> Container" where
  "no_probes c = c\<lparr>ct_ReadinessProbe := None, ct_LivenessProbe := None, ct_StartupProbe := None\<rparr>"

definition vw_server_container ::
    "CompiledVirtualWorkspace \<Rightarrow> string \<Rightarrow> VolumeMount list \<Rightarrow> Container" where
  "vw_server_container vw img mounts =
     (let command = vw_Command (cvw_VirtualWorkspace (cvwo_Spec vw)) in
      Container_zero\<lparr>ct_Name := ''kcp'', ct_Image := img,
        ct_Command := (if command \<noteq> [] then command else [DefaultServerCommand]),
        ct_Args := vw_getArgs vw, ct_VolumeMounts := mounts, ct_Resources := vw_defaultResourceRequirements\<rparr>)"

definition vw_DeploymentReconciler ::
    "rstore \<Rightarrow> CompiledVirtualWorkspace \<Rightarrow> Deployment \<Rightarrow> (rstore \<times> Deployment) res" where
  "vw_DeploymentReconciler store vw dep =
     (let spec = cvw_VirtualWorkspace (cvwo_Spec vw);
          dep1 = label_deployment (GetCompiledVirtualWorkspaceResourceLabels vw) dep;
          shared = vw_sharedSecrets vw; admin = vw_adminSecrets vw;
          volumes = vw_ExtraVolumes spec @ map (fst \<circ> SecretMount_Build) (shared @ admin);
          sharedMounts = map (snd \<circ> SecretMount_Build) shared;
          adminMounts = map (snd \<circ> SecretMount_Build) admin;
          (img, imagePullSecrets, _) = GetImageSettings (\<lambda>_. None :: unit option) (vw_Image spec);
          (gathered, mounts) = containerMounts sharedMounts adminMounts volumes (vw_KubeconfigSecretRef spec)
            ''server-kubeconfig'' getServerKubeconfigMountPath (vw_ExtraVolumeMounts spec);
          (store1, container) = ApplyResources store (vw_server_container vw img mounts) (vw_Resources spec);
          inits = getInitContainers sharedMounts adminMounts img (vw_InitContainers spec) store1 gathered;
          dep2 = set_pod ((pod_of dep1)\<lparr>ps_Containers := [container],
            ps_InitContainers := in_containers inits,
            ps_Volumes := dedupeVolumes (in_gathered inits @ in_volumes inits),
            ps_ImagePullSecrets := imagePullSecrets @ in_pullSecrets inits\<rparr>) dep1;
          dep3 = set_replicas (default_replicas (vw_Replicas spec) (ds_Replicas (dep_Spec dep2))) dep2 in
      bindE (ApplyCommonShardDeploymentProperties dep3) (\<lambda>d.
      let d' = ApplyDeploymentTemplate d (vw_DeploymentTemplate spec) in
      bindE (upd_c0 no_probes (pod_of d')) (\<lambda>ps. Inr (in_store inits, set_pod ps d'))))"

section \<open>The service\<close>

definition vw_ServiceReconciler :: "CompiledVirtualWorkspace \<Rightarrow> Service \<Rightarrow> Service" where
  "vw_ServiceReconciler vw = https_service (GetCompiledVirtualWorkspaceResourceLabels vw)
     (vw_ServiceTemplate (cvw_VirtualWorkspace (cvwo_Spec vw)))"

end
