(* ===== verification/VirtualWorkspace_Props.thy ===== *)
theory VirtualWorkspace_Props
  imports VirtualWorkspace_Workload Sample_Objects
begin

text \<open>
  The pod of a virtual workspace: deduplication keeps the first declaration of every name, every
  mount names a volume of the pod, the admin credential of the target reaches exactly the
  containers that did not bring a kubeconfig, and all containers share one set of resources.
\<close>

section \<open>Deduplication\<close>

text \<open>The declarations that are the first of their name.\<close>

definition first_declarations :: "Volume list \<Rightarrow> Volume list" where
  "first_declarations vs = map ((!) vs)
     (filter (\<lambda>i. vol_Name (vs ! i) \<notin> vol_Name ` set (take i vs)) [0..<length vs])"

lemma dedupe_loop_firsts:
  "dedupe_loop seen vs = map ((!) vs)
     (filter (\<lambda>i. vol_Name (vs ! i) \<notin> seen \<union> vol_Name ` set (take i vs)) [0..<length vs])"
proof (induction vs arbitrary: seen)
  case (Cons v vs)
  have "[0..<length (v # vs)] = 0 # map Suc [0..<length vs]"
    by (simp add: map_Suc_upt upt_conv_Cons del: upt_Suc)
  then show ?case
    by (simp add: Cons.IH [of "insert (vol_Name v) seen"] Cons.IH [of seen] filter_map comp_def
        insert_absorb del: upt_Suc) (auto intro!: arg_cong [where f = "map _"] filter_cong)
qed simp

lemma dedupe_firsts: "dedupeVolumes vs = first_declarations vs"
  by (simp add: dedupeVolumes_def first_declarations_def dedupe_loop_firsts [of "{}", simplified])

lemma dedupe_loop_names:
  "distinct (map vol_Name (dedupe_loop seen vs))
   \<and> vol_Name ` set (dedupe_loop seen vs) = vol_Name ` set vs - seen
   \<and> set (dedupe_loop seen vs) \<subseteq> set vs"
  by (induction seen vs rule: dedupe_loop.induct) auto

lemma dedupe_names:
  "distinct (map vol_Name (dedupeVolumes vs))" "vol_Name ` set (dedupeVolumes vs) = vol_Name ` set vs"
  "set (dedupeVolumes vs) \<subseteq> set vs"
  using dedupe_loop_names [of "{}" vs] by (auto simp: dedupeVolumes_def)

lemma dedupe_loop_find:
  "n \<notin> seen \<Longrightarrow> find (\<lambda>v. vol_Name v = n) (dedupe_loop seen vs) = find (\<lambda>v. vol_Name v = n) vs"
  by (induction seen vs rule: dedupe_loop.induct) auto

lemma dedupe_find: "find (\<lambda>v. vol_Name v = n) (dedupeVolumes vs) = find (\<lambda>v. vol_Name v = n) vs"
  by (simp add: dedupeVolumes_def dedupe_loop_find)

section \<open>Closed form of the pod\<close>

text \<open>What a container brings along: its kubeconfig, the volume of it, its path and extra mounts.\<close>

record mount_request =
  mq_ref :: "LocalObjectReference option"
  mq_volume :: string
  mq_path :: string
  mq_extra :: "VolumeMount list"

definition server_request :: "VirtualWorkspaceSpec \<Rightarrow> mount_request" where
  "server_request spec = \<lparr>mq_ref = vw_KubeconfigSecretRef spec, mq_volume = ''server-kubeconfig'',
     mq_path = getServerKubeconfigMountPath, mq_extra = vw_ExtraVolumeMounts spec\<rparr>"

definition init_request :: "VirtualWorkspaceInitContainer \<Rightarrow> mount_request" where
  "init_request i = \<lparr>mq_ref = vi_KubeconfigSecretRef i, mq_volume = init_kubeconfig_volume (vi_Name i),
     mq_path = getInitKubeconfigMountPath, mq_extra = vi_VolumeMounts i\<rparr>"

definition own_volumes :: "mount_request \<Rightarrow> Volume list" where
  "own_volumes q = (case mq_ref q of None \<Rightarrow> [] | Some r \<Rightarrow> [secret_volume (mq_volume q) (lor_Name r)])"

definition requested_mounts :: "CompiledVirtualWorkspace \<Rightarrow> mount_request \<Rightarrow> VolumeMount list" where
  "requested_mounts vw q = map (snd \<circ> SecretMount_Build) (vw_sharedSecrets vw)
     @ (case mq_ref q of None \<Rightarrow> map (snd \<circ> SecretMount_Build) (vw_adminSecrets vw)
        | Some r \<Rightarrow> [ro_mount (mq_volume q) (mq_path q)])
     @ mq_extra q"

lemma containerMounts_request:
  "containerMounts (map (snd \<circ> SecretMount_Build) (vw_sharedSecrets vw))
     (map (snd \<circ> SecretMount_Build) (vw_adminSecrets vw)) vs (mq_ref q) (mq_volume q) (mq_path q) (mq_extra q)
   = (vs @ own_volumes q, requested_mounts vw q)"
  by (simp add: containerMounts_def own_volumes_def requested_mounts_def SecretMount_Build_def
      secret_mount_def split: option.split)

definition vw_requests :: "CompiledVirtualWorkspace \<Rightarrow> mount_request list" where
  "vw_requests vw = (let spec = cvw_VirtualWorkspace (cvwo_Spec vw) in
     server_request spec # map init_request (vw_InitContainers spec))"

definition vw_all_volumes :: "CompiledVirtualWorkspace \<Rightarrow> Volume list" where
  "vw_all_volumes vw = (let spec = cvw_VirtualWorkspace (cvwo_Spec vw) in
     vw_ExtraVolumes spec @ map (fst \<circ> SecretMount_Build) (vw_sharedSecrets vw @ vw_adminSecrets vw)
     @ concat (map own_volumes (vw_requests vw)) @ concat (map vi_Volumes (vw_InitContainers spec)))"

lemma vw_resources_kept:
  "ct_Resources c = vw_defaultResourceRequirements \<Longrightarrow> snd (ApplyResources st c r) = c"
  by (rule ApplyResources_snd [where l = 4 and q = 5]) (simp_all add: vw_defaultResourceRequirements_def)

lemma initContainers_closed:
  fixes vw sms adm
  defines "sms \<equiv> map (snd \<circ> SecretMount_Build) (vw_sharedSecrets vw)"
    and "adm \<equiv> map (snd \<circ> SecretMount_Build) (vw_adminSecrets vw)"
  shows "in_gathered (fold (initContainer_step sms adm img) specs st)
      = in_gathered st @ concat (map (own_volumes \<circ> init_request) specs)"
    and "in_volumes (fold (initContainer_step sms adm img) specs st) = in_volumes st @ concat (map vi_Volumes specs)"
    and "map ct_VolumeMounts (in_containers (fold (initContainer_step sms adm img) specs st))
      = map ct_VolumeMounts (in_containers st) @ map (requested_mounts vw \<circ> init_request) specs"
    and "map ct_Resources (in_containers (fold (initContainer_step sms adm img) specs st))
      = map ct_Resources (in_containers st) @ map (\<lambda>_. vw_defaultResourceRequirements) specs"
proof -
  have step: "in_gathered (initContainer_step sms adm img i s) = in_gathered s @ own_volumes (init_request i)"
    "in_volumes (initContainer_step sms adm img i s) = in_volumes s @ vi_Volumes i"
    "map ct_VolumeMounts (in_containers (initContainer_step sms adm img i s))
      = map ct_VolumeMounts (in_containers s) @ [requested_mounts vw (init_request i)]"
    "map ct_Resources (in_containers (initContainer_step sms adm img i s))
      = map ct_Resources (in_containers s) @ [vw_defaultResourceRequirements]" for i s
    using containerMounts_request [of vw "in_gathered s" "init_request i"]
    by (simp_all add: initContainer_step_def case_prod_unfold Let_def vw_resources_kept init_request_def
        flip: sms_def adm_def)
  show "in_gathered (fold (initContainer_step sms adm img) specs st)
      = in_gathered st @ concat (map (own_volumes \<circ> init_request) specs)"
    by (induction specs arbitrary: st) (simp_all add: step)
  show "in_volumes (fold (initContainer_step sms adm img) specs st) = in_volumes st @ concat (map vi_Volumes specs)"
    by (induction specs arbitrary: st) (simp_all add: step)
  show "map ct_VolumeMounts (in_containers (fold (initContainer_step sms adm img) specs st))
      = map ct_VolumeMounts (in_containers st) @ map (requested_mounts vw \<circ> init_request) specs"
    by (induction specs arbitrary: st) (simp_all add: step)
  show "map ct_Resources (in_containers (fold (initContainer_step sms adm img) specs st))
      = map ct_Resources (in_containers st) @ map (\<lambda>_. vw_defaultResourceRequirements) specs"
    by (induction specs arbitrary: st) (simp_all add: step)
qed

definition all_containers :: "Deployment \<Rightarrow> Container list" where
  "all_containers d = ps_Containers (pod_of d) @ ps_InitContainers (pod_of d)"

lemma vw_deployment_closed:
  "\<exists>st' d'. vw_DeploymentReconciler st vw dep = Inr (st', d')
     \<and> ps_Volumes (pod_of d') = dedupeVolumes (vw_all_volumes vw)
     \<and> map ct_VolumeMounts (all_containers d') = map (requested_mounts vw) (vw_requests vw)
     \<and> length (ps_Containers (pod_of d')) = 1
     \<and> map ct_Resources (all_containers d') = map (\<lambda>_. vw_defaultResourceRequirements) (vw_requests vw)"
proof -
  let ?spec = "cvw_VirtualWorkspace (cvwo_Spec vw)"
  obtain img pulls u where im: "GetImageSettings (\<lambda>_. None :: unit option) (vw_Image ?spec) = (img, pulls, u)"
    by (cases "GetImageSettings (\<lambda>_. None :: unit option) (vw_Image ?spec)") auto
  have [simp]: "snd (ApplyResources st (vw_server_container vw img m) r) = vw_server_container vw img m" for st m r
    by (rule vw_resources_kept) (simp add: vw_server_container_def Let_def)
  note cm = containerMounts_request [of vw "vw_ExtraVolumes ?spec
      @ map (fst \<circ> SecretMount_Build) (vw_sharedSecrets vw @ vw_adminSecrets vw)" "server_request ?spec",
      unfolded server_request_def, simplified, folded server_request_def]
  show ?thesis
    by (simp add: vw_DeploymentReconciler_def Let_def im cm case_prod_unfold getInitContainers_def
        ApplyCommonShardDeploymentProperties_def upd_c0_def vw_all_volumes_def vw_requests_def
        all_containers_def initContainers_closed no_probes_def)
      (simp add: vw_server_container_def Let_def requested_mounts_def)
qed

section \<open>The routine and the pod\<close>

text \<open>Deduplication agrees with its reference: it keeps exactly the declarations that are the first
  of their name, in order, so names are unique and what a name stands for does not change.\<close>

theorem dedupeVolumes_correct:
  "dedupeVolumes vs = first_declarations vs \<and> distinct (map vol_Name (dedupeVolumes vs))
   \<and> (\<forall>n. find (\<lambda>v. vol_Name v = n) (dedupeVolumes vs) = find (\<lambda>v. vol_Name v = n) vs)"
  by (simp add: dedupe_firsts [symmetric] dedupe_names dedupe_find)

lemma all_volume_names:
  "vol_Name ` set (vw_all_volumes vw) = vol_Name ` set (vw_ExtraVolumes (cvw_VirtualWorkspace (cvwo_Spec vw)))
     \<union> sm_VolumeName ` set (vw_sharedSecrets vw @ vw_adminSecrets vw)
     \<union> (\<Union>q \<in> set (vw_requests vw). vol_Name ` set (own_volumes q))
     \<union> (\<Union>i \<in> set (vw_InitContainers (cvw_VirtualWorkspace (cvwo_Spec vw))). vol_Name ` set (vi_Volumes i))"
  by (simp only: vw_all_volumes_def Let_def set_append set_concat set_map image_Un image_UN
      build_names [unfolded set_map] Un_assoc) simp

lemma requested_names:
  "vm_Name ` set (requested_mounts vw q) \<subseteq>
     sm_VolumeName ` set (vw_sharedSecrets vw @ vw_adminSecrets vw)
     \<union> vol_Name ` set (own_volumes q) \<union> vm_Name ` set (mq_extra q)"
  using build_names(1) [of "vw_sharedSecrets vw"] build_names(1) [of "vw_adminSecrets vw"]
  by (auto simp: requested_mounts_def own_volumes_def SecretMount_Build_def split: option.splits)

lemma within_parts:
  "V = E \<union> S \<union> (\<Union>q \<in> Q. P q) \<union> I \<Longrightarrow> q \<in> Q \<Longrightarrow> R \<subseteq> S \<union> P q \<union> X \<Longrightarrow> X \<subseteq> V \<Longrightarrow> R \<subseteq> V"
  by blast

text \<open>C25: The pod of a virtual workspace is well formed: no volume name occurs twice, whatever the user
  and the init containers declare, and every mount of every container names a volume, as long as
  the user's mounts name volumes the user declared somewhere in the pod.\<close>

theorem vw_pod_wellformed:
  assumes "vw_DeploymentReconciler st vw dep = Inr (st', d')"
    and "spec = cvw_VirtualWorkspace (cvwo_Spec vw)"
    and "vm_Name ` (set (vw_ExtraVolumeMounts spec) \<union> (\<Union>i \<in> set (vw_InitContainers spec). set (vi_VolumeMounts i)))
      \<subseteq> vol_Name ` (set (vw_ExtraVolumes spec) \<union> (\<Union>i \<in> set (vw_InitContainers spec). set (vi_Volumes i)))"
  shows "distinct (map vol_Name (ps_Volumes (pod_of d'))) \<and> mounts_declared d'"
proof -
  have vols: "ps_Volumes (pod_of d') = dedupeVolumes (vw_all_volumes vw)"
    and ms: "map ct_VolumeMounts (all_containers d') = map (requested_mounts vw) (vw_requests vw)"
    using vw_deployment_closed [of st vw dep] assms(1) by auto
  have extra: "vm_Name ` set (mq_extra q) \<subseteq> vol_Name ` set (vw_all_volumes vw)" if "q \<in> set (vw_requests vw)" for q
  proof -
    have "set (mq_extra q) \<subseteq> set (vw_ExtraVolumeMounts spec) \<union> (\<Union>i \<in> set (vw_InitContainers spec). set (vi_VolumeMounts i))"
      using that by (auto simp: vw_requests_def Let_def server_request_def init_request_def assms(2))
    then have "vm_Name ` set (mq_extra q)
      \<subseteq> vol_Name ` (set (vw_ExtraVolumes spec) \<union> (\<Union>i \<in> set (vw_InitContainers spec). set (vi_Volumes i)))"
      using assms(3) by blast
    then show ?thesis unfolding all_volume_names assms(2) image_Un image_UN by blast
  qed
  have "vm_Name m \<in> vol_Name ` set (ps_Volumes (pod_of d'))"
    if c: "c \<in> set (all_containers d')" and m: "m \<in> set (ct_VolumeMounts c)" for c m
  proof -
    have "ct_VolumeMounts c \<in> set (map (requested_mounts vw) (vw_requests vw))"
      using c by (simp flip: ms)
    then obtain q where q: "q \<in> set (vw_requests vw)" "ct_VolumeMounts c = requested_mounts vw q" by auto
    have "vm_Name ` set (requested_mounts vw q) \<subseteq> vol_Name ` set (vw_all_volumes vw)"
      by (rule within_parts [OF all_volume_names q(1) requested_names extra [OF q(1)]])
    then have "vm_Name m \<in> vol_Name ` set (vw_all_volumes vw)"
      using m q(2) by (metis image_eqI subsetD)
    then show ?thesis by (simp add: vols dedupe_names)
  qed
  then show ?thesis by (auto simp: mounts_declared_def all_containers_def vols dedupe_names)
qed

section \<open>Credentials\<close>

definition admin_volumes :: "string list" where
  "admin_volumes = [''logical-cluster-admin-kubeconfig'', ''client-cert'']"

definition mounts_admin :: "Container \<Rightarrow> bool" where
  "mounts_admin c \<longleftrightarrow> (\<exists>m \<in> set (ct_VolumeMounts c). vm_Name m \<in> set admin_volumes)"

lemma shared_not_admin: "sm_VolumeName ` set (vw_sharedSecrets vw) \<inter> set admin_volumes = {}"
  by (auto simp: vw_sharedSecrets_def cache_mounts_def admin_volumes_def Let_def)

lemma admin_is_admin: "map sm_VolumeName (vw_adminSecrets vw) = admin_volumes"
  by (simp add: vw_adminSecrets_def admin_volumes_def)

lemma own_not_admin: "q \<in> set (vw_requests vw) \<Longrightarrow> mq_volume q \<notin> set admin_volumes"
  by (auto simp: vw_requests_def Let_def server_request_def init_request_def admin_volumes_def init_kubeconfig_volume_def)

lemma requested_admin:
  assumes "q \<in> set (vw_requests vw)" "vm_Name ` set (mq_extra q) \<inter> set admin_volumes = {}"
  shows "(\<exists>m \<in> set (requested_mounts vw q). vm_Name m \<in> set admin_volumes) \<longleftrightarrow> mq_ref q = None"
proof (cases "mq_ref q")
  case None
  have "vm_Name ` set (map (snd \<circ> SecretMount_Build) (vw_adminSecrets vw)) = set admin_volumes"
    unfolding build_names by (simp flip: admin_is_admin [of vw])
  moreover have "set admin_volumes \<noteq> {}" by (simp add: admin_volumes_def)
  ultimately obtain m where m: "m \<in> set (map (snd \<circ> SecretMount_Build) (vw_adminSecrets vw))"
    "vm_Name m \<in> set admin_volumes" by (metis ex_in_conv imageE)
  then have "m \<in> set (requested_mounts vw q)" by (simp add: requested_mounts_def None del: set_map)
  then show ?thesis using None m(2) by blast
next
  case (Some r)
  have "m \<in> set (map (snd \<circ> SecretMount_Build) (vw_sharedSecrets vw)) \<Longrightarrow> vm_Name m \<notin> set admin_volumes" for m
    using shared_not_admin [of vw] build_names(1) [of "vw_sharedSecrets vw"] by blast
  then show ?thesis using Some assms own_not_admin [OF assms(1)]
    by (auto simp: requested_mounts_def)
qed

lemma vw_containers:
  assumes "vw_DeploymentReconciler st vw dep = Inr (st', d')" "spec = cvw_VirtualWorkspace (cvwo_Spec vw)"
  shows "\<exists>c. ps_Containers (pod_of d') = [c] \<and> ct_VolumeMounts c = requested_mounts vw (server_request spec)"
    and "map ct_VolumeMounts (ps_InitContainers (pod_of d')) = map (requested_mounts vw \<circ> init_request) (vw_InitContainers spec)"
proof -
  have "length (ps_Containers (pod_of d')) = 1"
    "map ct_VolumeMounts (all_containers d') = map (requested_mounts vw) (vw_requests vw)"
    using vw_deployment_closed [of st vw dep] assms(1) by auto
  then obtain c where "ps_Containers (pod_of d') = [c]"
    "map ct_VolumeMounts (c # ps_InitContainers (pod_of d')) = map (requested_mounts vw) (vw_requests vw)"
    by (auto simp: all_containers_def length_Suc_conv)
  then show "\<exists>c. ps_Containers (pod_of d') = [c] \<and> ct_VolumeMounts c = requested_mounts vw (server_request spec)"
    "map ct_VolumeMounts (ps_InitContainers (pod_of d')) = map (requested_mounts vw \<circ> init_request) (vw_InitContainers spec)"
    by (simp_all add: vw_requests_def assms(2) Let_def)
qed

text \<open>C18: Least privilege: the admin credential of the target is mounted into exactly those containers
  that did not bring a kubeconfig of their own, unless the user mounts it explicitly.\<close>

theorem vw_admin_credential_confined:
  assumes "vw_DeploymentReconciler st vw dep = Inr (st', d')"
    and "spec = cvw_VirtualWorkspace (cvwo_Spec vw)"
    and "vm_Name ` (set (vw_ExtraVolumeMounts spec) \<union> (\<Union>i \<in> set (vw_InitContainers spec). set (vi_VolumeMounts i)))
      \<inter> set admin_volumes = {}"
  shows "map mounts_admin (ps_Containers (pod_of d')) = [vw_KubeconfigSecretRef spec = None]
     \<and> map mounts_admin (ps_InitContainers (pod_of d'))
        = map (\<lambda>i. vi_KubeconfigSecretRef i = None) (vw_InitContainers spec)"
proof -
  have m: "mounts_admin c \<longleftrightarrow> mq_ref q = None"
    if "ct_VolumeMounts c = requested_mounts vw q" "q \<in> set (vw_requests vw)" for c q
  proof -
    have "set (mq_extra q) \<subseteq> set (vw_ExtraVolumeMounts spec) \<union> (\<Union>i \<in> set (vw_InitContainers spec). set (vi_VolumeMounts i))"
      using that(2) by (auto simp: vw_requests_def Let_def server_request_def init_request_def assms(2))
    then have "vm_Name ` set (mq_extra q) \<inter> set admin_volumes = {}" using assms(3) by blast
    from requested_admin [OF that(2) this] show ?thesis by (simp add: mounts_admin_def that(1))
  qed
  have qs: "server_request spec \<in> set (vw_requests vw)" "i \<in> set (vw_InitContainers spec) \<Longrightarrow> init_request i \<in> set (vw_requests vw)" for i
    by (auto simp: vw_requests_def Let_def assms(2))
  obtain c where c: "ps_Containers (pod_of d') = [c]" "ct_VolumeMounts c = requested_mounts vw (server_request spec)"
    using vw_containers(1) [OF assms(1,2)] by blast
  have "length (ps_InitContainers (pod_of d')) = length (vw_InitContainers spec)"
    and "\<And>k. k < length (vw_InitContainers spec) \<Longrightarrow> ct_VolumeMounts (ps_InitContainers (pod_of d') ! k)
        = requested_mounts vw (init_request (vw_InitContainers spec ! k))"
    using vw_containers(2) [OF assms(1,2)] by (metis length_map, metis length_map nth_map comp_apply)
  then have "map mounts_admin (ps_InitContainers (pod_of d')) = map (\<lambda>i. mq_ref (init_request i) = None) (vw_InitContainers spec)"
    by (intro nth_equalityI) (auto intro!: m qs(2))
  then show ?thesis using c m [OF c(2) qs(1)] by (simp add: server_request_def init_request_def)
qed

section \<open>Resources\<close>

definition overlay_resources :: "ResourceRequirements \<Rightarrow> ResourceRequirements option list \<Rightarrow> ResourceRequirements" where
  "overlay_resources r rs = foldl (\<lambda>a o1. case o1 of None \<Rightarrow> a | Some b \<Rightarrow>
     \<lparr>rr_Limits = maps_Copy (rr_Limits a) (rr_Limits b), rr_Requests = maps_Copy (rr_Requests a) (rr_Requests b)\<rparr>) r rs"

definition vw_default_maps :: "rstore \<Rightarrow> ResourceRequirements" where
  "vw_default_maps st = \<lparr>rr_Limits = rl_get st 4, rr_Requests = rl_get st 5\<rparr>"

lemma vw_default_maps_Apply:
  assumes "ct_Resources c = vw_defaultResourceRequirements"
  shows "vw_default_maps (fst (ApplyResources st c r)) = overlay_resources (vw_default_maps st) [r]"
  by (cases r) (simp_all add: vw_default_maps_def overlay_resources_def ApplyResources_def assms
      vw_defaultResourceRequirements_def Let_def)

lemma vw_default_maps_inits:
  "vw_default_maps (in_store (fold (initContainer_step sms adm img) specs s))
    = overlay_resources (vw_default_maps (in_store s)) (map vi_Resources specs)"
proof (induction specs arbitrary: s)
  case Nil
  then show ?case by (simp add: overlay_resources_def)
next
  case (Cons i specs)
  have "vw_default_maps (in_store (initContainer_step sms adm img i s))
      = overlay_resources (vw_default_maps (in_store s)) [vi_Resources i]"
    unfolding initContainer_step_def case_prod_unfold Let_def init_state.simps
    by (rule vw_default_maps_Apply) simp
  then show ?case by (simp add: Cons.IH) (simp add: overlay_resources_def)
qed

lemma vw_deployment_store:
  assumes "vw_DeploymentReconciler st vw dep = Inr (st', d')" "spec = cvw_VirtualWorkspace (cvwo_Spec vw)"
  shows "vw_default_maps st' = overlay_resources (vw_default_maps st) (vw_Resources spec # map vi_Resources (vw_InitContainers spec))"
proof -
  obtain c m img sms adm g where st': "st' = in_store (fold (initContainer_step sms adm img) (vw_InitContainers spec)
      \<lparr>in_store = fst (ApplyResources st (vw_server_container vw img m) (vw_Resources spec)), in_gathered = g,
       in_containers = [], in_volumes = [], in_pullSecrets = []\<rparr>)"
    using assms unfolding vw_DeploymentReconciler_def Let_def case_prod_unfold getInitContainers_def bindE_eq_Inr
    by auto
  have "vw_default_maps (fst (ApplyResources st (vw_server_container vw img m) (vw_Resources spec)))
      = overlay_resources (vw_default_maps st) [vw_Resources spec]"
    by (rule vw_default_maps_Apply) (simp add: vw_server_container_def Let_def)
  then show ?thesis by (simp add: st' vw_default_maps_inits) (simp add: overlay_resources_def)
qed

text \<open>All containers of the pod refer to the same two maps of the package, so each of them is sent
  with the configured resources of the server and of every init container overlaid in turn: what
  one container asks for, all get, and the last one wins.\<close>

theorem vw_containers_share_resources:
  assumes "vw_DeploymentReconciler st vw dep = Inr (st', d')"
    and "spec = cvw_VirtualWorkspace (cvwo_Spec vw)"
    and "c \<in> set (ps_Containers (pod_of d') @ ps_InitContainers (pod_of d'))"
  shows "container_resources st' c = overlay_resources \<lparr>rr_Limits = rl_get st 4, rr_Requests = rl_get st 5\<rparr>
     (vw_Resources spec # map vi_Resources (vw_InitContainers spec))"
proof -
  have "map ct_Resources (all_containers d') = map (\<lambda>_. vw_defaultResourceRequirements) (vw_requests vw)"
    using vw_deployment_closed [of st vw dep] assms(1) by auto
  then have "ct_Resources c \<in> (\<lambda>_. vw_defaultResourceRequirements) ` set (vw_requests vw)"
    using assms(3) by (metis all_containers_def image_eqI list.set_map)
  then have "container_resources st' c = vw_default_maps st'"
    by (auto simp: container_resources_def vw_defaultResourceRequirements_def vw_default_maps_def)
  then show ?thesis using vw_deployment_store [OF assms(1,2)] by (simp add: vw_default_maps_def)
qed

section \<open>A concrete pod\<close>

text \<open>A server that uses the admin credential, and an init container with its own kubeconfig, its own
  scratch volume, which the server declares too, and more memory.\<close>

definition sample_scratch :: Volume where
  "sample_scratch = empty_dir_volume ''scratch''"

definition sample_init_container :: VirtualWorkspaceInitContainer where
  "sample_init_container = \<lparr>vi_Name = ''bootstrap'', vi_Image = None, vi_Command = [''/bootstrap''], vi_Args = [],
     vi_KubeconfigSecretRef = Some \<lparr>lor_Name = ''bootstrap-kubeconfig''\<rparr>,
     vi_Resources = Some \<lparr>rr_Limits = fmap_of_list [(''memory'', ''8Gi'')], rr_Requests = fmempty\<rparr>,
     vi_Volumes = [sample_scratch],
     vi_VolumeMounts = [\<lparr>vm_Name = ''scratch'', vm_ReadOnly = False, vm_MountPath = ''/tmp''\<rparr>]\<rparr>"

definition sample_compiled_vw :: CompiledVirtualWorkspace where
  "sample_compiled_vw = \<lparr>cvwo_Meta = sample_meta ''vw'',
     cvwo_Spec = \<lparr>cvw_VirtualWorkspace = sample_vw_spec\<lparr>vw_InitContainers := [sample_init_container],
         vw_ExtraVolumes := [sample_scratch]\<rparr>,
       cvw_RootShard = \<lparr>nrs_Name = ''root'', nrs_Spec = sample_rootshard_spec\<rparr>, cvw_Shard = None\<rparr>,
     cvwo_Conditions = []\<rparr>"

lemmas sample_cvw_simps = sample_compiled_vw_def sample_vw_spec_def sample_init_container_def
  sample_scratch_def empty_dir_volume_def admin_volumes_def

lemma sample_vw_run: "\<exists>st' d'. vw_DeploymentReconciler init_rstore sample_compiled_vw Deployment_zero = Inr (st', d')"
  using vw_deployment_closed by blast

theorem vw_pod_wellformed_witness:
  "\<exists>st' d'. vw_DeploymentReconciler init_rstore sample_compiled_vw Deployment_zero = Inr (st', d')
     \<and> distinct (map vol_Name (ps_Volumes (pod_of d'))) \<and> mounts_declared d'"
proof -
  obtain st' d' where run: "vw_DeploymentReconciler init_rstore sample_compiled_vw Deployment_zero = Inr (st', d')"
    using sample_vw_run by blast
  have "distinct (map vol_Name (ps_Volumes (pod_of d'))) \<and> mounts_declared d'"
    by (rule vw_pod_wellformed [OF run refl]) (simp add: sample_cvw_simps)
  then show ?thesis using run by blast
qed

theorem vw_admin_credential_confined_witness:
  "\<exists>st' d'. vw_DeploymentReconciler init_rstore sample_compiled_vw Deployment_zero = Inr (st', d')
     \<and> map mounts_admin (ps_Containers (pod_of d')) = [True] \<and> map mounts_admin (ps_InitContainers (pod_of d')) = [False]"
proof -
  obtain st' d' where run: "vw_DeploymentReconciler init_rstore sample_compiled_vw Deployment_zero = Inr (st', d')"
    using sample_vw_run by blast
  have "map mounts_admin (ps_Containers (pod_of d'))
        = [vw_KubeconfigSecretRef (cvw_VirtualWorkspace (cvwo_Spec sample_compiled_vw)) = None]
      \<and> map mounts_admin (ps_InitContainers (pod_of d'))
        = map (\<lambda>i. vi_KubeconfigSecretRef i = None) (vw_InitContainers (cvw_VirtualWorkspace (cvwo_Spec sample_compiled_vw)))"
    by (rule vw_admin_credential_confined [OF run refl]) (simp add: sample_cvw_simps)
  then show ?thesis using run by (simp add: sample_cvw_simps)
qed

text \<open>The server asked for nothing, and is sent with the memory limit of the init container.\<close>

theorem vw_containers_share_resources_witness:
  "\<exists>st' d' c. vw_DeploymentReconciler init_rstore sample_compiled_vw Deployment_zero = Inr (st', d')
     \<and> ps_Containers (pod_of d') = [c] \<and> mget (rr_Limits (container_resources st' c)) ''memory'' = Some ''8Gi''"
proof -
  obtain st' d' where run: "vw_DeploymentReconciler init_rstore sample_compiled_vw Deployment_zero = Inr (st', d')"
    using sample_vw_run by blast
  obtain c where c: "ps_Containers (pod_of d') = [c]" using vw_containers(1) [OF run refl] by blast
  have "container_resources st' c = overlay_resources \<lparr>rr_Limits = rl_get init_rstore 4, rr_Requests = rl_get init_rstore 5\<rparr>
     (vw_Resources (cvw_VirtualWorkspace (cvwo_Spec sample_compiled_vw))
      # map vi_Resources (vw_InitContainers (cvw_VirtualWorkspace (cvwo_Spec sample_compiled_vw))))"
    by (rule vw_containers_share_resources [OF run refl]) (simp add: c)
  then have "mget (rr_Limits (container_resources st' c)) ''memory'' = Some ''8Gi''"
    by (simp add: sample_cvw_simps overlay_resources_def fmlookup_of_list)
  then show ?thesis using run c by blast
qed

end
