(* ===== verification/FrontProxy_Workload.thy ===== *)
theory FrontProxy_Workload
  imports CacheServer_Workload Pki_Base
begin

text \<open>
  \<open>internal/resources/compiledfrontproxy\<close>: the Deployment, Service, path mapping and kubeconfig of
  a front proxy, and of the internal proxy of a root shard, which share one reconciler. The Go
  struct has a pointer to either object; here the two modes are two constructors. Volumes are
  named after the secrets they hold. \<open>yaml.Marshal\<close> is a parameter (\<open>marshal\<close>), and so are
  \<open>newVersion\<close> and \<open>check\<close> of \<open>semver\<close>.
\<close>

datatype compiled_proxy = FrontProxyMode CompiledFrontProxy | RootShardMode CompiledRootShard

definition cpx_resourceLabels :: "compiled_proxy \<Rightarrow> gomap" where
  "cpx_resourceLabels p = (case p of
     FrontProxyMode f \<Rightarrow> GetCompiledFrontProxyResourceLabels f
   | RootShardMode r \<Rightarrow> GetCompiledRootShardProxyResourceLabels r)"

section \<open>Names\<close>

definition cpx_rootShardName :: "compiled_proxy \<Rightarrow> string" where
  "cpx_rootShardName p = (case p of
     FrontProxyMode f \<Rightarrow> nrs_Name (cfp_RootShard (cfpo_Spec f)) | RootShardMode r \<Rightarrow> om_Name (crsh_Meta r))"

definition cpx_rootShardSpec :: "compiled_proxy \<Rightarrow> RootShardSpec" where
  "cpx_rootShardSpec p = (case p of
     FrontProxyMode f \<Rightarrow> nrs_Spec (cfp_RootShard (cfpo_Spec f)) | RootShardMode r \<Rightarrow> crs_RootShard (crsh_Spec r))"

definition cpx_rootShardBaseURL :: "compiled_proxy \<Rightarrow> string" where
  "cpx_rootShardBaseURL p = (case p of
     FrontProxyMode f \<Rightarrow> GetNamedRootShardBaseURL (cfp_RootShard (cfpo_Spec f)) (om_Namespace (cfpo_Meta f))
   | RootShardMode r \<Rightarrow> GetCompiledRootShardBaseURL r)"

definition cpx_rootShardCAName :: "compiled_proxy \<Rightarrow> CA \<Rightarrow> string" where
  "cpx_rootShardCAName p ca = (case p of
     FrontProxyMode f \<Rightarrow> GetNamedRootShardCAName (cfp_RootShard (cfpo_Spec f)) ca
   | RootShardMode r \<Rightarrow> GetCompiledRootShardCAName r ca)"

definition cpx_certName :: "compiled_proxy \<Rightarrow> Certificate \<Rightarrow> string" where
  "cpx_certName p kind = (case p of
     FrontProxyMode f \<Rightarrow> GetCompiledFrontProxyCertificateName f kind
   | RootShardMode r \<Rightarrow> GetCompiledRootShardProxyCertificateName r kind)"

definition cpx_certCommonName :: "compiled_proxy \<Rightarrow> string" where
  "cpx_certCommonName p = (case p of
     FrontProxyMode _ \<Rightarrow> FrontProxyCommonName | RootShardMode _ \<Rightarrow> RootShardProxyCommonName)"

definition cpx_clientCABundleSecretName :: "compiled_proxy \<Rightarrow> string" where
  "cpx_clientCABundleSecretName p = (case p of
     FrontProxyMode f \<Rightarrow> om_Name (cfpo_Meta f) @ ''-merged-client-ca''
   | RootShardMode r \<Rightarrow> om_Name (crsh_Meta r) @ ''-proxy-merged-client-ca'')"

definition cpx_backendCABundleSecretName :: "compiled_proxy \<Rightarrow> string" where
  "cpx_backendCABundleSecretName p = (case p of
     FrontProxyMode f \<Rightarrow> om_Name (cfpo_Meta f) @ ''-merged-ca-bundle''
   | RootShardMode r \<Rightarrow> om_Name (crsh_Meta r) @ ''-proxy-merged-ca-bundle'')"

definition cpx_getCABundleSecretRef :: "compiled_proxy \<Rightarrow> LocalObjectReference option" where
  "cpx_getCABundleSecretRef p = (case p of
     FrontProxyMode f \<Rightarrow> fp_CABundleSecretRef (cfp_FrontProxy (cfpo_Spec f))
   | RootShardMode r \<Rightarrow> cs_CABundleSecretRef (crs_RootShard (crsh_Spec r)))"

definition pathMappingConfigMapName :: "compiled_proxy \<Rightarrow> string" where
  "pathMappingConfigMapName p = (case p of
     FrontProxyMode f \<Rightarrow> GetCompiledFrontProxyConfigName f
   | RootShardMode r \<Rightarrow> GetCompiledRootShardProxyConfigName r)"

definition cpx_dynamicKubeconfigName :: "compiled_proxy \<Rightarrow> string" where
  "cpx_dynamicKubeconfigName p = (case p of
     FrontProxyMode f \<Rightarrow> GetCompiledFrontProxyDynamicKubeconfigName f
   | RootShardMode r \<Rightarrow> GetCompiledRootShardProxyDynamicKubeconfigName r)"

definition cpx_deploymentName :: "compiled_proxy \<Rightarrow> string" where
  "cpx_deploymentName p = (case p of
     FrontProxyMode f \<Rightarrow> GetCompiledFrontProxyDeploymentName f
   | RootShardMode r \<Rightarrow> GetCompiledRootShardProxyDeploymentName r)"

definition cpx_serviceName :: "compiled_proxy \<Rightarrow> string" where
  "cpx_serviceName p = (case p of
     FrontProxyMode f \<Rightarrow> GetCompiledFrontProxyServiceName f
   | RootShardMode r \<Rightarrow> GetCompiledRootShardProxyServiceName r)"

section \<open>Paths\<close>

definition frontProxyBasepath :: string where "frontProxyBasepath = ''/etc/kcp-front-proxy''"
definition kcpBasepath :: string where "kcpBasepath = ''/etc/kcp''"

definition cpx_getCAMountPath :: "CA \<Rightarrow> string" where
  "cpx_getCAMountPath ca = kcpBasepath @ ''/tls/ca/'' @ ca_str ca"

lemmas cpx_paths = frontProxyBasepath_def kcpBasepath_def cpx_getCAMountPath_def

section \<open>Path mapping\<close>

definition default_mapping :: "compiled_proxy \<Rightarrow> string \<Rightarrow> PathMappingEntry" where
  "default_mapping p path = \<lparr>pm_Path = path, pm_Backend = cpx_rootShardBaseURL p,
     pm_BackendServerCA = (if cpx_getCABundleSecretRef p \<noteq> None
       then cpx_getCAMountPath CABundleCA @ ''/tls.crt'' else kcpBasepath @ ''/tls/ca/tls.crt''),
     pm_ProxyClientCert = ''/etc/kcp-front-proxy/requestheader-client/tls.crt'',
     pm_ProxyClientKey = ''/etc/kcp-front-proxy/requestheader-client/tls.key''\<rparr>"

definition defaultPathMappings :: "compiled_proxy \<Rightarrow> PathMappingEntry list" where
  "defaultPathMappings p = map (default_mapping p) [''/clusters/'', ''/services/'']"

definition path_mappings :: "compiled_proxy \<Rightarrow> PathMappingEntry list" where
  "path_mappings p = defaultPathMappings p @ (case p of
     FrontProxyMode f \<Rightarrow> fp_AdditionalPathMappings (cfp_FrontProxy (cfpo_Spec f)) | RootShardMode _ \<Rightarrow> [])"

definition pathMappingConfigMapReconciler ::
    "(PathMappingEntry list \<Rightarrow> string res) \<Rightarrow> compiled_proxy \<Rightarrow> string \<times> (ConfigMap \<Rightarrow> ConfigMap res)" where
  "pathMappingConfigMapReconciler marshal p = (pathMappingConfigMapName p, \<lambda>cm.
     bindE (marshal (path_mappings p)) (\<lambda>d.
     Inr (cm\<lparr>cm_Meta := (cm_Meta cm)\<lparr>om_Labels := cpx_resourceLabels p\<rparr>,
       cm_Data := fmap_of_list [(''path-mapping.yaml'', d)]\<rparr>)))"

section \<open>Dynamic kubeconfig\<close>

definition clientCertPath :: string where
  "clientCertPath = frontProxyBasepath @ ''/kubeconfig-client-cert''"

definition cpx_dynamicKubeconfig :: "compiled_proxy \<Rightarrow> kube_config" where
  "cpx_dynamicKubeconfig p = file_kubeconfig ''system:admin'' ''system:admin'' ''admin''
     (cpx_rootShardBaseURL p) (kcpBasepath @ ''/tls/ca'') clientCertPath"

definition dynamicKubeconfigSecretReconciler ::
    "(kube_config \<Rightarrow> string res) \<Rightarrow> compiled_proxy \<Rightarrow> string \<times> (Secret \<Rightarrow> Secret res)" where
  "dynamicKubeconfigSecretReconciler marshal p = (cpx_dynamicKubeconfigName p, \<lambda>obj.
     bindE (marshal (cpx_dynamicKubeconfig p)) (\<lambda>kubeconfig.
     Inr (obj\<lparr>sec_Meta := (sec_Meta obj)\<lparr>om_Labels := cpx_resourceLabels p\<rparr>,
       sec_Data := fmap_of_list [(''kubeconfig'', kubeconfig)]\<rparr>)))"

section \<open>Arguments\<close>

definition cpx_defaultArgs :: "string list" where
  "cpx_defaultArgs = [''--secure-port=6443'',
     ''--root-kubeconfig=/etc/kcp-front-proxy/kubeconfig/kubeconfig'',
     ''--shards-kubeconfig=/etc/kcp-front-proxy/kubeconfig/kubeconfig'',
     ''--tls-private-key-file=/etc/kcp-front-proxy/tls/tls.key'',
     ''--tls-cert-file=/etc/kcp-front-proxy/tls/tls.crt'',
     ''--mapping-file=/etc/kcp-front-proxy/config/path-mapping.yaml'']"

definition group_args :: "AuthSpec option \<Rightarrow> string list" where
  "group_args auth = (case auth of None \<Rightarrow> [] | Some a \<Rightarrow>
     (case auth_DropGroups a of None \<Rightarrow> []
      | Some gs \<Rightarrow> [''--authentication-drop-groups='' @ fmt_q (strings_Join gs '','')])
     @ (case auth_PassOnGroups a of None \<Rightarrow> []
        | Some gs \<Rightarrow> [''--authentication-pass-on-groups='' @ fmt_q (strings_Join gs '','')]))"

definition cpx_getArgs :: "(string \<Rightarrow> 'v \<Rightarrow> bool) \<Rightarrow> compiled_proxy \<Rightarrow> 'v option \<Rightarrow> string list" where
  "cpx_getArgs check p version =
     cpx_defaultArgs
     @ [''--client-ca-file='' @ frontProxyBasepath @ ''/client-ca/tls.crt'']
     @ (if supportsMountProxy check version then
          [''--requestheader-client-ca-file='' @ cpx_getCAMountPath RequestHeaderClientCA @ ''/tls.crt'',
           ''--requestheader-allowed-names='' @ cpx_certCommonName p @ '','' @ MountsProxyCommonName,
           ''--requestheader-username-headers=X-Remote-User'',
           ''--requestheader-group-headers=X-Remote-Group'',
           ''--requestheader-extra-headers-prefix=X-Remote-Extra-'']
        else [])
     @ (case p of
          RootShardMode r \<Rightarrow> (case rs_Proxy (crs_RootShard (crsh_Spec r)) of
            None \<Rightarrow> [] | Some proxy \<Rightarrow> GetLoggingArgs (rp_Logging proxy) @ rp_ExtraArgs proxy)
        | FrontProxyMode f \<Rightarrow> (let spec = cfp_FrontProxy (cfpo_Spec f) in
            group_args (fp_Auth spec) @ GetLoggingArgs (fp_Logging spec) @ fp_ExtraArgs spec))"

section \<open>The deployment\<close>

text \<open>What the two modes take from their specs.\<close>

record proxy_settings =
  px_Image :: "ImageSpec option"
  px_Resources :: "ResourceRequirements option"
  px_Template :: "DeploymentTemplate option"
  px_Replicas :: "32 word option"
  px_ExtraVolumes :: "Volume list"
  px_ExtraVolumeMounts :: "VolumeMount list"

definition cpx_settings :: "compiled_proxy \<Rightarrow> proxy_settings" where
  "cpx_settings p = (case p of
     FrontProxyMode f \<Rightarrow> (let spec = cfp_FrontProxy (cfpo_Spec f) in
       \<lparr>px_Image = fp_Image spec, px_Resources = fp_Resources spec, px_Template = fp_DeploymentTemplate spec,
        px_Replicas = fp_Replicas spec, px_ExtraVolumes = fp_ExtraVolumes spec,
        px_ExtraVolumeMounts = fp_ExtraVolumeMounts spec\<rparr>)
   | RootShardMode r \<Rightarrow> (case rs_Proxy (crs_RootShard (crsh_Spec r)) of
       Some proxy \<Rightarrow> \<lparr>px_Image = rp_Image proxy, px_Resources = rp_Resources proxy,
         px_Template = rp_DeploymentTemplate proxy, px_Replicas = rp_Replicas proxy,
         px_ExtraVolumes = rp_ExtraVolumes proxy, px_ExtraVolumeMounts = rp_ExtraVolumeMounts proxy\<rparr>
     | None \<Rightarrow> \<lparr>px_Image = None, px_Resources = None, px_Template = None, px_Replicas = None,
         px_ExtraVolumes = [], px_ExtraVolumeMounts = []\<rparr>))"

text \<open>The secrets to mount, as name, path and whether the mount is read-only: the proxy updates its
  kubeconfig file.\<close>

definition cpx_mountSecrets ::
    "(string \<Rightarrow> 'v \<Rightarrow> bool) \<Rightarrow> compiled_proxy \<Rightarrow> 'v option \<Rightarrow> (string \<times> string \<times> bool) list" where
  "cpx_mountSecrets check p version =
     [(cpx_dynamicKubeconfigName p, frontProxyBasepath @ ''/kubeconfig'', False),
      (cpx_certName p KubeconfigCertificate, frontProxyBasepath @ ''/kubeconfig-client-cert'', True),
      (cpx_certName p ServerCertificate, frontProxyBasepath @ ''/tls'', True),
      (cpx_certName p RequestHeaderClientCertificate, frontProxyBasepath @ ''/requestheader-client'', True),
      (cpx_rootShardCAName p RootCA, kcpBasepath @ ''/tls/ca'', True)]
     @ (if supportsMountProxy check version
        then [(cpx_rootShardCAName p RequestHeaderClientCA, cpx_getCAMountPath RequestHeaderClientCA, True)] else [])
     @ (if cpx_getCABundleSecretRef p \<noteq> None
        then [(cpx_backendCABundleSecretName p, cpx_getCAMountPath CABundleCA, True)] else [])
     @ [(cpx_clientCABundleSecretName p, frontProxyBasepath @ ''/client-ca'', True)]"

definition cpx_volumes :: "(string \<Rightarrow> 'v \<Rightarrow> bool) \<Rightarrow> compiled_proxy \<Rightarrow> 'v option \<Rightarrow> Volume list" where
  "cpx_volumes check p version = px_ExtraVolumes (cpx_settings p)
     @ map (\<lambda>(n, _, _). secret_volume n n) (cpx_mountSecrets check p version)
     @ [configmap_volume (pathMappingConfigMapName p) (pathMappingConfigMapName p)]"

definition cpx_volumeMounts :: "(string \<Rightarrow> 'v \<Rightarrow> bool) \<Rightarrow> compiled_proxy \<Rightarrow> 'v option \<Rightarrow> VolumeMount list" where
  "cpx_volumeMounts check p version = px_ExtraVolumeMounts (cpx_settings p)
     @ map (\<lambda>(n, path, ro). \<lparr>vm_Name = n, vm_ReadOnly = ro, vm_MountPath = path\<rparr>) (cpx_mountSecrets check p version)
     @ [ro_mount (pathMappingConfigMapName p) (frontProxyBasepath @ ''/config'')]"

definition cpx_container ::
    "(string \<Rightarrow> 'v \<Rightarrow> bool) \<Rightarrow> compiled_proxy \<Rightarrow> string \<Rightarrow> 'v option \<Rightarrow> Container" where
  "cpx_container check p img version = Container_zero\<lparr>ct_Name := ''kcp-front-proxy'', ct_Image := img,
     ct_Command := [''/kcp-front-proxy''], ct_Args := cpx_getArgs check p version,
     ct_SecurityContext := Some restricted_context, ct_Ports := [https_port],
     ct_ReadinessProbe := Some (https_probe 3 15 10 ''/readyz''),
     ct_LivenessProbe := Some (https_probe 3 15 10 ''/livez''),
     ct_VolumeMounts := cpx_volumeMounts check p version\<rparr>"

text \<open>The selector of a deployment is immutable and set on creation only.\<close>

definition cpx_label :: "gomap \<Rightarrow> Deployment \<Rightarrow> Deployment" where
  "cpx_label labels dep = dep\<lparr>dep_Spec := (dep_Spec dep)\<lparr>
     ds_Selector := (case ds_Selector (dep_Spec dep) of None \<Rightarrow> Some labels | Some s \<Rightarrow> Some s),
     ds_Template := (ds_Template (dep_Spec dep))\<lparr>pt_Labels := labels\<rparr>\<rparr>\<rparr>"

definition cpx_deploymentReconciler ::
    "(string \<Rightarrow> 'v option) \<Rightarrow> (string \<Rightarrow> 'v \<Rightarrow> bool) \<Rightarrow> rstore \<Rightarrow> compiled_proxy \<Rightarrow> Deployment
     \<Rightarrow> (rstore \<times> Deployment) res" where
  "cpx_deploymentReconciler newVersion check st p dep =
     (let settings = cpx_settings p;
          dep1 = cpx_label (cpx_resourceLabels p) dep;
          (img, imagePullSecrets, version) = GetImageSettings newVersion (px_Image settings);
          dep2 = set_replicas (default_replicas (px_Replicas settings) (ds_Replicas (dep_Spec dep1))) dep1;
          (st', container) = ApplyResources st (cpx_container check p img version) (px_Resources settings);
          dep3 = set_pod ((pod_of dep2)\<lparr>ps_Volumes := cpx_volumes check p version,
            ps_Containers := [container], ps_ImagePullSecrets := imagePullSecrets\<rparr>) dep2;
          dep4 = ApplyDeploymentTemplate dep3 (px_Template settings) in
      bindE (case p of RootShardMode _ \<Rightarrow> Inr dep4
        | FrontProxyMode f \<Rightarrow> ApplyAuthConfiguration dep4 (fp_Auth (cfp_FrontProxy (cfpo_Spec f)))
            (cpx_rootShardName p) (cfp_Shards (cfpo_Spec f))) (\<lambda>d.
      Inr (st', d)))"

section \<open>The service\<close>

definition cpx_getExternalPort :: "compiled_proxy \<Rightarrow> int" where
  "cpx_getExternalPort p = (case p of
     FrontProxyMode f \<Rightarrow> GetFrontProxyExternalPort (cfp_FrontProxy (cfpo_Spec f)) (nrs_Spec (cfp_RootShard (cfpo_Spec f)))
   | RootShardMode _ \<Rightarrow> 6443)"

definition cpx_serviceTemplate :: "compiled_proxy \<Rightarrow> ServiceTemplate option" where
  "cpx_serviceTemplate p = (case p of
     FrontProxyMode f \<Rightarrow> fp_ServiceTemplate (cfp_FrontProxy (cfpo_Spec f))
   | RootShardMode r \<Rightarrow> (case rs_Proxy (crs_RootShard (crsh_Spec r)) of
       None \<Rightarrow> None | Some proxy \<Rightarrow> rp_ServiceTemplate proxy))"

text \<open>An existing single port is kept, with its node port; \<open>int32\<close> keeps the low 32 bits of the
  port number.\<close>

definition cpx_servicePort :: "int \<Rightarrow> ServicePort list \<Rightarrow> ServicePort" where
  "cpx_servicePort portNumber ports =
     (case ports of [port] \<Rightarrow> port | _ \<Rightarrow> ServicePort_zero)\<lparr>sp_Name := ''https'', sp_Protocol := ''TCP'',
        sp_Port := word_of_int portNumber, sp_TargetPort := FromInt32 6443, sp_AppProtocol := Some ''https''\<rparr>"

definition cpx_serviceReconciler :: "compiled_proxy \<Rightarrow> Service \<Rightarrow> Service" where
  "cpx_serviceReconciler p svc = ApplyServiceTemplate (svc\<lparr>
     svc_Meta := (svc_Meta svc)\<lparr>om_Labels := cpx_resourceLabels p\<rparr>, svc_Type := ''ClusterIP'',
     svc_Ports := [cpx_servicePort (cpx_getExternalPort p) (svc_Ports svc)],
     svc_Selector := cpx_resourceLabels p\<rparr>) (cpx_serviceTemplate p)"

end
