(* ===== verification/FrontProxy_Props.thy ===== *)
theory FrontProxy_Props
  imports FrontProxy_Workload Shard_Deployment_Props Sample_Objects
begin

text \<open>
  The workload of a front proxy: a closed form of its deployment, the port of its service and when
  \<open>int32\<close> changes it, the uniqueness of its volumes, which are named after the secrets, and the
  files its kubeconfig and its path mapping refer to.
\<close>

section \<open>Closed form\<close>

definition cpx_auth_contrib :: "compiled_proxy \<Rightarrow> contrib" where
  "cpx_auth_contrib p = (case p of RootShardMode _ \<Rightarrow> k_empty
     | FrontProxyMode f \<Rightarrow> opt_contrib (auth_contrib (cpx_rootShardName p) (cfp_Shards (cfpo_Spec f)))
         (fp_Auth (cfp_FrontProxy (cfpo_Spec f))))"

lemma cpx_auth_extends:
  "has_container d \<Longrightarrow> (case p of
      FrontProxyMode f \<Rightarrow> ApplyAuthConfiguration d (fp_Auth (cfp_FrontProxy (cfpo_Spec f)))
        (cpx_rootShardName p) (cfp_Shards (cfpo_Spec f))
    | RootShardMode _ \<Rightarrow> Inr d) = Inr (Deploy_Contract.extend (cpx_auth_contrib p) d)"
  by (cases p) (simp_all add: cpx_auth_contrib_def auth_extends)

lemma cpx_label_pod [simp]:
  "pod_of (cpx_label l d) = pod_of d" "ds_Replicas (dep_Spec (cpx_label l d)) = ds_Replicas (dep_Spec d)"
  by (simp_all add: cpx_label_def pod_of_def)

lemma cpx_container_fields [simp]:
  "ct_Args (cpx_container check p img version) = cpx_getArgs check p version"
  "ct_VolumeMounts (cpx_container check p img version) = cpx_volumeMounts check p version"
  by (simp_all add: cpx_container_def)

lemma cpx_deployment_closed:
  assumes "GetImageSettings newVersion (px_Image (cpx_settings p)) = (img, pulls, version)"
  shows "\<exists>st' d' c. cpx_deploymentReconciler newVersion check st p dep = Inr (st', d')
     \<and> ps_Containers (pod_of d') = [c]
     \<and> ct_Args c = cpx_getArgs check p version @ k_Args (cpx_auth_contrib p)
     \<and> ct_VolumeMounts c = cpx_volumeMounts check p version @ k_Mounts (cpx_auth_contrib p)
     \<and> ps_Volumes (pod_of d') = cpx_volumes check p version @ k_Volumes (cpx_auth_contrib p)
     \<and> ps_InitContainers (pod_of d') = ps_InitContainers (pod_of dep)
     \<and> ds_Replicas (dep_Spec d') = default_replicas (px_Replicas (cpx_settings p)) (ds_Replicas (dep_Spec dep))"
proof -
  let ?c = "snd (ApplyResources st (cpx_container check p img version) (px_Resources (cpx_settings p)))"
  let ?d3 = "set_pod ((pod_of dep)\<lparr>ps_Volumes := cpx_volumes check p version, ps_Containers := [?c],
      ps_ImagePullSecrets := pulls\<rparr>) (set_replicas (default_replicas (px_Replicas (cpx_settings p))
        (ds_Replicas (dep_Spec dep))) (cpx_label (cpx_resourceLabels p) dep))"
  let ?d4 = "ApplyDeploymentTemplate ?d3 (px_Template (cpx_settings p))"
  have c: "has_container ?d4" by (simp add: has_container_def)
  have "cpx_deploymentReconciler newVersion check st p dep
      = Inr (fst (ApplyResources st (cpx_container check p img version) (px_Resources (cpx_settings p))),
          Deploy_Contract.extend (cpx_auth_contrib p) ?d4)"
    unfolding cpx_deploymentReconciler_def Let_def assms prod.case
    by (simp add: case_prod_unfold cpx_auth_extends has_container_def)
  then show ?thesis by (simp add: containers_extend)
qed

section \<open>The service\<close>

lemma service_template_ports [simp]: "svc_Ports (ApplyServiceTemplate svc t) = svc_Ports svc"
  by (simp add: ApplyServiceTemplate_def Let_def split: option.splits)

text \<open>The conversion \<open>int32(n)\<close> of a number that is not negative.\<close>

lemma int32_conversion:
  assumes "0 \<le> v"
  shows "uint (word_of_int v :: 32 word) = v mod 2 ^ 32"
    and "sint (word_of_int v :: 32 word) = v \<longleftrightarrow> v < 2 ^ 31"
proof -
  show u: "uint (word_of_int v :: 32 word) = v mod 2 ^ 32"
    by (simp add: uint_word_of_int take_bit_eq_mod)
  have s: "sint (word_of_int v :: 32 word) = (v + 2 ^ 31) mod 2 ^ 32 - 2 ^ 31"
    by (simp add: sint_uint signed_take_bit_eq_take_bit_shift uint_word_of_int take_bit_eq_mod mod_simps)
  have "v = (v + 2 ^ 31) mod 2 ^ 32 - 2 ^ 31 \<longleftrightarrow> v < 2 ^ 31"
    using zmod_trivial_iff [of "v + 2 ^ 31" "2 ^ 32"] assms by (auto simp: algebra_simps)
  then show "sint (word_of_int v :: 32 word) = v \<longleftrightarrow> v < 2 ^ 31"
    unfolding s by metis
qed

lemma external_port_of_hostname:
  assumes "ext_Port (fp_External fp) = 0" "CHR '':'' \<notin> set h" "CHR ''['' \<notin> set h" "CHR '']'' \<notin> set h"
  shows "fp_ExternalHostname fp = h @ '':'' @ Itoa v \<Longrightarrow> 0 \<le> v \<Longrightarrow> v < 2 ^ 63 \<Longrightarrow> GetFrontProxyExternalPort fp rs = v"
    "fp_ExternalHostname fp = h \<Longrightarrow> h \<noteq> [] \<Longrightarrow> GetFrontProxyExternalPort fp rs = 6443"
proof -
  assume h: "fp_ExternalHostname fp = h @ '':'' @ Itoa v" and v: "0 \<le> v" "v < 2 ^ 63"
  have "CHR ''['' \<notin> set (Itoa v)" "CHR '']'' \<notin> set (Itoa v)"
    using nat_str_digits [of "nat v"] v(1) by (auto simp: Itoa_def list_all_iff is_digit_def)
  then have "SplitHostPort (h @ '':'' @ Itoa v) = Some (h, Itoa v)"
    using SplitHostPort_plain [OF assms(2) colon_not_in_Itoa [OF v(1)]] assms(3,4) by simp
  moreover have "Atoi (Itoa v) = Some v" using v by (intro Atoi_Itoa) simp_all
  ultimately show "GetFrontProxyExternalPort fp rs = v"
    using assms(1) h by (simp add: GetFrontProxyExternalPort_def)
next
  assume "fp_ExternalHostname fp = h" "h \<noteq> []"
  then show "GetFrontProxyExternalPort fp rs = 6443"
    using assms(1,2) by (simp add: GetFrontProxyExternalPort_def SplitHostPort_def split_last_colon_def)
qed

lemma external_port_configured:
  "ext_Port (fp_External fp) \<noteq> 0 \<Longrightarrow> GetFrontProxyExternalPort fp rs = uint (ext_Port (fp_External fp))"
  "ext_Port (fp_External fp) = 0 \<Longrightarrow> fp_ExternalHostname fp = [] \<Longrightarrow> GetFrontProxyExternalPort fp rs
     = (if ext_Port (rs_External rs) = 0 then 6443 else uint (ext_Port (rs_External rs)))"
  by (simp_all add: GetFrontProxyExternalPort_def word_neq_0_conv)

text \<open>C40: The service of a proxy has one port, \<open>https\<close> to port 6443 of the pods, and keeps the node port the
  cluster assigned. For the internal proxy of a root shard the port is 6443. For a front proxy the
  port of \<open>external\<close> is taken as it is, whatever else is configured. Without one, a deprecated
  \<open>externalHostname\<close> of the form \<open>host:n\<close> gives \<open>n\<close> reduced modulo \<open>2 ^ 32\<close>, since the code converts
  without a check: the port is \<open>n\<close> itself exactly when \<open>n\<close> is below \<open>2 ^ 31\<close>; a host name without a port
  gives 6443, whatever the root shard says. Without either it is the external port of the root
  shard, and 6443 if that has none.\<close>

theorem frontproxy_service_port:
  assumes host: "CHR '':'' \<notin> set h" "CHR ''['' \<notin> set h" "CHR '']'' \<notin> set h" and n: "0 \<le> n" "n < 2 ^ 63"
  shows "\<exists>port. svc_Ports (cpx_serviceReconciler p svc) = [port]
     \<and> sp_Name port = ''https'' \<and> sp_TargetPort port = FromInt32 6443
     \<and> sp_NodePort port = (case svc_Ports svc of [q] \<Rightarrow> sp_NodePort q | _ \<Rightarrow> 0)
     \<and> (case p of RootShardMode _ \<Rightarrow> sp_Port port = 6443
        | FrontProxyMode f \<Rightarrow> (let fp = cfp_FrontProxy (cfpo_Spec f);
            external = ext_Port (fp_External fp); root = ext_Port (rs_External (nrs_Spec (cfp_RootShard (cfpo_Spec f)))) in
            (external \<noteq> 0 \<longrightarrow> sp_Port port = external)
          \<and> (external = 0 \<and> fp_ExternalHostname fp = h @ '':'' @ Itoa n \<longrightarrow>
               uint (sp_Port port) = n mod 2 ^ 32 \<and> (sint (sp_Port port) = n \<longleftrightarrow> n < 2 ^ 31))
          \<and> (external = 0 \<and> fp_ExternalHostname fp = h \<and> h \<noteq> [] \<longrightarrow> sp_Port port = 6443)
          \<and> (external = 0 \<and> fp_ExternalHostname fp = [] \<longrightarrow> sp_Port port = (if root = 0 then 6443 else root))))"
proof (intro exI conjI)
  let ?port = "cpx_servicePort (cpx_getExternalPort p) (svc_Ports svc)"
  have port: "sp_Port (cpx_servicePort i ports) = word_of_int i" for i ports by (simp add: cpx_servicePort_def)
  show "svc_Ports (cpx_serviceReconciler p svc) = [?port]" by (simp add: cpx_serviceReconciler_def)
  show "sp_Name ?port = ''https''" "sp_TargetPort ?port = FromInt32 6443"
    "sp_NodePort ?port = (case svc_Ports svc of [q] \<Rightarrow> sp_NodePort q | _ \<Rightarrow> 0)"
    by (auto simp: cpx_servicePort_def ServicePort_zero_def split: list.splits)
  show "case p of RootShardMode _ \<Rightarrow> sp_Port ?port = 6443
      | FrontProxyMode f \<Rightarrow> (let fp = cfp_FrontProxy (cfpo_Spec f);
            external = ext_Port (fp_External fp); root = ext_Port (rs_External (nrs_Spec (cfp_RootShard (cfpo_Spec f)))) in
            (external \<noteq> 0 \<longrightarrow> sp_Port ?port = external)
          \<and> (external = 0 \<and> fp_ExternalHostname fp = h @ '':'' @ Itoa n \<longrightarrow>
               uint (sp_Port ?port) = n mod 2 ^ 32 \<and> (sint (sp_Port ?port) = n \<longleftrightarrow> n < 2 ^ 31))
          \<and> (external = 0 \<and> fp_ExternalHostname fp = h \<and> h \<noteq> [] \<longrightarrow> sp_Port ?port = 6443)
          \<and> (external = 0 \<and> fp_ExternalHostname fp = [] \<longrightarrow> sp_Port ?port = (if root = 0 then 6443 else root)))"
  proof (cases p)
    case (FrontProxyMode f)
    let ?fp = "cfp_FrontProxy (cfpo_Spec f)" and ?rs = "nrs_Spec (cfp_RootShard (cfpo_Spec f))"
    have front: "sp_Port (cpx_servicePort (cpx_getExternalPort (FrontProxyMode f)) ports)
        = word_of_int (GetFrontProxyExternalPort ?fp ?rs)" for ports
      by (simp add: port cpx_getExternalPort_def)
    note by_host = external_port_of_hostname [OF _ host]
    show ?thesis
      unfolding FrontProxyMode compiled_proxy.case Let_def front
    proof (intro conjI impI; (elim conjE)?)
      assume "ext_Port (fp_External ?fp) = 0" "fp_ExternalHostname ?fp = h @ '':'' @ Itoa n"
      note v = by_host(1) [OF this n]
      show "uint (word_of_int (GetFrontProxyExternalPort ?fp ?rs) :: 32 word) = n mod 2 ^ 32"
        "sint (word_of_int (GetFrontProxyExternalPort ?fp ?rs) :: 32 word) = n \<longleftrightarrow> n < 2 ^ 31"
        unfolding v by (rule int32_conversion [OF n(1)])+
    qed (simp_all add: external_port_configured by_host(2))
  qed (simp add: port cpx_getExternalPort_def)
qed

section \<open>Volumes\<close>

lemma cpx_volume_names:
  "map vol_Name (cpx_volumes check p version) = map vol_Name (px_ExtraVolumes (cpx_settings p))
     @ map fst (cpx_mountSecrets check p version) @ [pathMappingConfigMapName p]"
  by (simp add: cpx_volumes_def comp_def case_prod_unfold)

text \<open>The names the operator gives the volumes, with the suffix that tells them apart.\<close>

definition cpx_all_names :: "compiled_proxy \<Rightarrow> string list" where
  "cpx_all_names p = [cpx_dynamicKubeconfigName p, cpx_certName p KubeconfigCertificate,
     cpx_certName p ServerCertificate, cpx_certName p RequestHeaderClientCertificate,
     cpx_rootShardCAName p RootCA, cpx_rootShardCAName p RequestHeaderClientCA,
     cpx_backendCABundleSecretName p, cpx_clientCABundleSecretName p, pathMappingConfigMapName p]"

lemma cpx_names_subseq:
  "subseq (map fst (cpx_mountSecrets check p version) @ [pathMappingConfigMapName p]) (cpx_all_names p)"
  by (simp add: cpx_mountSecrets_def cpx_all_names_def)

lemma rev_neq: "rev x \<noteq> rev y \<Longrightarrow> x \<noteq> y"
  by auto

definition proxy_names_ok :: "compiled_proxy \<Rightarrow> bool" where
  "proxy_names_ok p = (case p of RootShardMode _ \<Rightarrow> True
     | FrontProxyMode f \<Rightarrow> nrs_Name (cfp_RootShard (cfpo_Spec f)) \<noteq> om_Name (cfpo_Meta f) @ ''-merged-client''
         \<and> om_Name (cfpo_Meta f) \<noteq> ''authentication-webhook'')"

lemmas cpx_name_defs = cpx_all_names_def cpx_dynamicKubeconfigName_def cpx_certName_def cpx_rootShardCAName_def
  cpx_backendCABundleSecretName_def cpx_clientCABundleSecretName_def pathMappingConfigMapName_def
  GetCompiledFrontProxyDynamicKubeconfigName_def GetCompiledRootShardProxyDynamicKubeconfigName_def
  GetCompiledFrontProxyCertificateName_def GetCompiledRootShardProxyCertificateName_def
  GetNamedRootShardCAName_def GetCompiledRootShardCAName_def GetCompiledFrontProxyConfigName_def
  GetCompiledRootShardProxyConfigName_def

lemma cpx_all_names_distinct:
  assumes "proxy_names_ok p"
  shows "distinct (cpx_all_names p)"
  using assms by (cases p) (auto simp: cpx_name_defs proxy_names_ok_def dest!: arg_cong [where f = rev])

lemma cpx_names_not_auth:
  assumes "proxy_names_ok p"
  shows "set (cpx_all_names p) \<inter> set auth_volume_names = {}" "x \<in> set (cpx_all_names p) \<Longrightarrow> x \<noteq> sa_cert_name n"
proof -
  show "set (cpx_all_names p) \<inter> set auth_volume_names = {}"
    using assms by (cases p) (auto simp: cpx_name_defs proxy_names_ok_def auth_volume_names_def
        dest!: arg_cong [where f = rev])
  have "list_all (\<lambda>x. last x \<noteq> CHR ''t'') (cpx_all_names p)"
    by (cases p) (simp_all add: cpx_name_defs)
  moreover have "last (sa_cert_name n) = CHR ''t''" by (simp add: sa_cert_name_def)
  ultimately show "x \<in> set (cpx_all_names p) \<Longrightarrow> x \<noteq> sa_cert_name n"
    by (auto simp: list_all_iff)
qed

text \<open>A proxy's volumes are named after secrets of the root shard, of the proxy and of every shard.
  The names are pairwise different, so Kubernetes accepts the pod, unless the root shard or the
  front proxy has one of two unfortunate names.\<close>

theorem proxy_volumes_distinct:
  assumes run: "cpx_deploymentReconciler newVersion check st p dep = Inr (st', d')"
    and extra: "px_ExtraVolumes (cpx_settings p) = []"
    and names: "proxy_names_ok p"
    and shards: "\<forall>f. p = FrontProxyMode f \<longrightarrow> distinct (nrs_Name (cfp_RootShard (cfpo_Spec f)) # cfp_Shards (cfpo_Spec f))"
  shows "distinct (map vol_Name (ps_Volumes (pod_of d')))"
proof -
  obtain img pulls version where im: "GetImageSettings newVersion (px_Image (cpx_settings p)) = (img, pulls, version)"
    by (cases "GetImageSettings newVersion (px_Image (cpx_settings p))") auto
  have vols: "ps_Volumes (pod_of d') = cpx_volumes check p version @ k_Volumes (cpx_auth_contrib p)"
    using cpx_deployment_closed [OF im, of check st dep] run by auto
  have dist: "distinct (cpx_all_names p @ auth_volume_names)"
    using cpx_all_names_distinct [OF names] cpx_names_not_auth(1) [OF names] by (simp add: auth_volume_names_def)
  define tl where "tl = (case p of RootShardMode _ \<Rightarrow> []
     | FrontProxyMode f \<Rightarrow> auth_volume_names @ map sa_cert_name (nrs_Name (cfp_RootShard (cfpo_Spec f)) # cfp_Shards (cfpo_Spec f)))"
  have "subseq (map vol_Name (k_Volumes (cpx_auth_contrib p))) tl"
    by (cases p) (simp_all only: tl_def cpx_auth_contrib_def compiled_proxy.case k_append_simps
        cpx_rootShardName_def auth_volume_names_subseq, simp_all add: k_empty_def)
  then have sub: "subseq (map vol_Name (ps_Volumes (pod_of d'))) (cpx_all_names p @ tl)"
    unfolding vols map_append cpx_volume_names extra
    by (intro subseq_append_mono) (simp_all add: cpx_names_subseq)
  have "distinct (cpx_all_names p @ tl)"
  proof (cases p)
    case (RootShardMode r)
    then show ?thesis using dist by (simp add: tl_def)
  next
    case (FrontProxyMode f)
    have "distinct ((cpx_all_names p @ auth_volume_names)
        @ map sa_cert_name (nrs_Name (cfp_RootShard (cfpo_Spec f)) # cfp_Shards (cfpo_Spec f)))"
    proof (rule distinct_with_tail [OF dist sa_inj(1)])
      show "distinct (nrs_Name (cfp_RootShard (cfpo_Spec f)) # cfp_Shards (cfpo_Spec f))"
        using shards FrontProxyMode by blast
      show "x \<noteq> sa_cert_name n" if "x \<in> set (cpx_all_names p @ auth_volume_names)" for x n
        using that cpx_names_not_auth(2) [OF names] fixed_names_not_sa by auto
    qed
    then show ?thesis by (simp add: tl_def FrontProxyMode)
  qed
  then show ?thesis using sub by (rule distinct_subseq [rotated])
qed

theorem proxy_volumes_distinct_witness:
  "\<exists>st' d'. cpx_deploymentReconciler (\<lambda>_. None :: unit option) (\<lambda>_ _. True) init_rstore
      (FrontProxyMode sample_compiled_frontproxy) Deployment_zero = Inr (st', d')
     \<and> distinct (map vol_Name (ps_Volumes (pod_of d')))"
proof -
  obtain img pulls version where "GetImageSettings (\<lambda>_. None :: unit option)
      (px_Image (cpx_settings (FrontProxyMode sample_compiled_frontproxy))) = (img, pulls, version)"
    by (cases "GetImageSettings (\<lambda>_. None :: unit option)
      (px_Image (cpx_settings (FrontProxyMode sample_compiled_frontproxy)))") auto
  from cpx_deployment_closed [OF this] obtain st' d' where run: "cpx_deploymentReconciler (\<lambda>_. None :: unit option)
      (\<lambda>_ _. True) init_rstore (FrontProxyMode sample_compiled_frontproxy) Deployment_zero = Inr (st', d')" by blast
  have "distinct (map vol_Name (ps_Volumes (pod_of d')))"
    by (rule proxy_volumes_distinct [OF run])
      (auto simp: sample_compiled_frontproxy_def sample_frontproxy_spec_def cpx_settings_def proxy_names_ok_def sample_meta_def)
  then show ?thesis using run by blast
qed

section \<open>Files\<close>

definition mounted_file :: "VolumeMount list \<Rightarrow> string \<Rightarrow> bool" where
  "mounted_file mounts f \<longleftrightarrow> (\<exists>m \<in> set mounts. \<exists>leaf. f = vm_MountPath m @ ''/'' @ leaf \<and> CHR ''/'' \<notin> set leaf)"

definition mapping_files :: "PathMappingEntry \<Rightarrow> string set" where
  "mapping_files e = {pm_BackendServerCA e, pm_ProxyClientCert e, pm_ProxyClientKey e}"

lemma mounted_fileI:
  "m \<in> set mounts \<Longrightarrow> f = vm_MountPath m @ ''/'' @ leaf \<Longrightarrow> CHR ''/'' \<notin> set leaf \<Longrightarrow> mounted_file mounts f"
  by (auto simp: mounted_file_def)

lemma cpx_mount_paths:
  "set (map vm_MountPath (cpx_volumeMounts check p version)) \<supseteq>
     {frontProxyBasepath @ ''/kubeconfig-client-cert'', frontProxyBasepath @ ''/requestheader-client'', kcpBasepath @ ''/tls/ca''}
     \<union> (if cpx_getCABundleSecretRef p \<noteq> None then {cpx_getCAMountPath CABundleCA} else {})"
  by (auto simp: cpx_volumeMounts_def cpx_mountSecrets_def image_Un)

lemma mounted_in:
  assumes "path \<in> set (map vm_MountPath mounts)" "CHR ''/'' \<notin> set leaf"
  shows "mounted_file mounts (path @ ''/'' @ leaf)"
  using assms by (auto simp: mounted_file_def)

text \<open>Every file that the proxy's kubeconfig and its default path mappings refer to lies directly in a
  directory mounted into its container, in both modes, with or without a CA bundle, and the
  kubeconfig's current context is complete.\<close>

theorem proxy_files_mounted:
  assumes "cpx_deploymentReconciler newVersion check st p dep = Inr (st', d')"
    and "f \<in> kubeconfig_files (cpx_dynamicKubeconfig p) \<or> (\<exists>e \<in> set (defaultPathMappings p). f \<in> mapping_files e)"
  shows "kubeconfig_ok (cpx_dynamicKubeconfig p)
     \<and> mounted_file (ct_VolumeMounts (hd (ps_Containers (pod_of d')))) f"
proof -
  obtain img pulls version where im: "GetImageSettings newVersion (px_Image (cpx_settings p)) = (img, pulls, version)"
    by (cases "GetImageSettings newVersion (px_Image (cpx_settings p))") auto
  have mounts: "ct_VolumeMounts (hd (ps_Containers (pod_of d'))) = cpx_volumeMounts check p version @ k_Mounts (cpx_auth_contrib p)"
    using cpx_deployment_closed [OF im, of check st dep] assms(1) by auto
  have at: "mounted_file (ct_VolumeMounts (hd (ps_Containers (pod_of d')))) (path @ ''/'' @ leaf)"
    if "path \<in> {frontProxyBasepath @ ''/kubeconfig-client-cert'', frontProxyBasepath @ ''/requestheader-client'', kcpBasepath @ ''/tls/ca''}
       \<union> (if cpx_getCABundleSecretRef p \<noteq> None then {cpx_getCAMountPath CABundleCA} else {})" "CHR ''/'' \<notin> set leaf" for path leaf
    unfolding mounts using cpx_mount_paths [of p check version] that by (intro mounted_in) auto
  have files: "f \<in> {kcpBasepath @ ''/tls/ca'' @ ''/'' @ ''tls.crt'', clientCertPath @ ''/'' @ ''tls.crt'', clientCertPath @ ''/'' @ ''tls.key'',
      frontProxyBasepath @ ''/requestheader-client'' @ ''/'' @ ''tls.crt'', frontProxyBasepath @ ''/requestheader-client'' @ ''/'' @ ''tls.key''}
     \<or> (cpx_getCABundleSecretRef p \<noteq> None \<and> f = cpx_getCAMountPath CABundleCA @ ''/'' @ ''tls.crt'')"
    using assms(2) by (auto simp: cpx_dynamicKubeconfig_def defaultPathMappings_def default_mapping_def mapping_files_def
        frontProxyBasepath_def kcpBasepath_def clientCertPath_def split: if_splits)
  have "mounted_file (ct_VolumeMounts (hd (ps_Containers (pod_of d')))) f"
    using files at [of "kcpBasepath @ ''/tls/ca''" "''tls.crt''"] at [of clientCertPath "''tls.crt''"]
      at [of clientCertPath "''tls.key''"] at [of "frontProxyBasepath @ ''/requestheader-client''" "''tls.crt''"]
      at [of "frontProxyBasepath @ ''/requestheader-client''" "''tls.key''"] at [of "cpx_getCAMountPath CABundleCA" "''tls.crt''"]
    by (auto simp: clientCertPath_def)
  then show ?thesis by (simp add: cpx_dynamicKubeconfig_def)
qed

theorem proxy_files_mounted_witness:
  "\<exists>st' d'. cpx_deploymentReconciler (\<lambda>_. None :: unit option) (\<lambda>_ _. True) init_rstore
      (RootShardMode sample_compiled_rootshard) Deployment_zero = Inr (st', d')
     \<and> mounted_file (ct_VolumeMounts (hd (ps_Containers (pod_of d')))) ''/etc/kcp-front-proxy/kubeconfig-client-cert/tls.key''"
proof -
  obtain img pulls version where "GetImageSettings (\<lambda>_. None :: unit option)
      (px_Image (cpx_settings (RootShardMode sample_compiled_rootshard))) = (img, pulls, version)"
    by (cases "GetImageSettings (\<lambda>_. None :: unit option)
      (px_Image (cpx_settings (RootShardMode sample_compiled_rootshard)))") auto
  from cpx_deployment_closed [OF this] obtain st' d' where run: "cpx_deploymentReconciler (\<lambda>_. None :: unit option)
      (\<lambda>_ _. True) init_rstore (RootShardMode sample_compiled_rootshard) Deployment_zero = Inr (st', d')" by blast
  have "''/etc/kcp-front-proxy/kubeconfig-client-cert/tls.key''
      \<in> kubeconfig_files (cpx_dynamicKubeconfig (RootShardMode sample_compiled_rootshard))"
    by (simp add: cpx_dynamicKubeconfig_def clientCertPath_def frontProxyBasepath_def)
  with proxy_files_mounted [OF run] show ?thesis using run by blast
qed

text \<open>A front proxy whose deprecated host name asks for port \<open>2 ^ 32 + 443\<close>: the service listens on 443.\<close>

definition sample_wrapping_frontproxy :: CompiledFrontProxy where
  "sample_wrapping_frontproxy = sample_compiled_frontproxy\<lparr>cfpo_Spec := (cfpo_Spec sample_compiled_frontproxy)\<lparr>
     cfp_FrontProxy := sample_frontproxy_spec\<lparr>fp_ExternalHostname := ''fp.example.com'' @ '':'' @ Itoa (2 ^ 32 + 443)\<rparr>\<rparr>\<rparr>"

definition sample_service :: Service where
  "sample_service = \<lparr>svc_Meta = ObjectMeta_zero, svc_Type = [], svc_ClusterIP = [], svc_Ports = [], svc_Selector = fmempty\<rparr>"

theorem frontproxy_service_port_witness:
  "\<exists>port. svc_Ports (cpx_serviceReconciler (FrontProxyMode sample_wrapping_frontproxy) sample_service) = [port]
     \<and> uint (sp_Port port) = 443"
proof -
  have h: "CHR '':'' \<notin> set ''fp.example.com''" "CHR ''['' \<notin> set ''fp.example.com''" "CHR '']'' \<notin> set ''fp.example.com''"
    by simp_all
  have n: "0 \<le> (2 ^ 32 + 443 :: int)" "(2 ^ 32 + 443 :: int) < 2 ^ 63" by simp_all
  have spec: "ext_Port (fp_External (cfp_FrontProxy (cfpo_Spec sample_wrapping_frontproxy))) = 0"
    "fp_ExternalHostname (cfp_FrontProxy (cfpo_Spec sample_wrapping_frontproxy))
       = ''fp.example.com'' @ '':'' @ Itoa (2 ^ 32 + 443)"
    by (simp_all add: sample_wrapping_frontproxy_def sample_frontproxy_spec_def)
  obtain port where port: "svc_Ports (cpx_serviceReconciler (FrontProxyMode sample_wrapping_frontproxy) sample_service) = [port]"
    "uint (sp_Port port) = (2 ^ 32 + 443) mod 2 ^ 32"
    using frontproxy_service_port [OF h n, of "FrontProxyMode sample_wrapping_frontproxy" sample_service] spec
    unfolding compiled_proxy.case Let_def by blast
  then show ?thesis by (intro exI [of _ port]) simp
qed

end
