(* ===== verification/Mounted_Workloads.thy ===== *)
theory Mounted_Workloads
  imports Mounted_Secrets FrontProxy_Props VirtualWorkspace_Props
begin

text \<open>
  The other three workloads and the secrets they mount: every secret in the rendered pod of a front
  proxy, of a root shard's internal proxy or of a virtual workspace, and every secret mount of a
  cache server, is created by one of the controllers, under the same name, or named by the user, or
  (when the root CA is not issued by an issuer) is the root CA's generated name.
\<close>

section \<open>What the controllers create\<close>

definition proxy_secrets :: "proxy_reconciler \<Rightarrow> string set" where
  "proxy_secrets p = certificate_secret ` set (proxy_certReconcilers p)
     \<union> {fst (clientCABundleSecretReconciler p [])}
     \<union> (if fr_getCABundleSecretRef p \<noteq> None then {fst (backendCABundleSecretReconciler p [])} else {})"

definition vw_secrets :: "VirtualWorkspace \<Rightarrow> RootShard \<Rightarrow> string set" where
  "vw_secrets vw r = certificate_secret ` set (virtualworkspace_certReconcilers vw r)
     \<union> (if cs_ClientCABundleRef (rsh_Spec r) \<noteq> None \<or> vw_ClientCABundleRef (vwo_Spec vw) \<noteq> None
        then {fst (virtualworkspace_MergedClientCABundleSecretReconciler (\<lambda>_ _. Inl (NotFound [])) vw r)} else {})"

lemma proxy_secrets_eq:
  "proxy_secrets p = proxy_certName p ` {ServerCertificate, KubeconfigCertificate, RequestHeaderClientCertificate}
     \<union> {clientCABundleSecretName p} \<union> (if fr_getCABundleSecretRef p \<noteq> None then {backendCABundleSecretName p} else {})"
  by (auto simp: proxy_secrets_def proxy_certReconcilers_def proxy_cert_defs proxy_pki.leaf_secret
      clientCABundleSecretReconciler_def backendCABundleSecretReconciler_def)

lemma vw_secrets_eq:
  "vw_secrets vw r = GetVirtualWorkspaceCertificateName vw ` {ServerCertificate, ClientCertificate}
     \<union> (if cs_ClientCABundleRef (rsh_Spec r) \<noteq> None \<or> vw_ClientCABundleRef (vwo_Spec vw) \<noteq> None
        then {om_Name (vwo_Meta vw) @ ''-merged-client-ca''} else {})"
  by (auto simp: vw_secrets_def virtualworkspace_certReconcilers_def virtualworkspace_ClientCertificateReconciler_def
      virtualworkspace_ServerCertificateReconciler_def vw_pki.leaf_secret
      virtualworkspace_MergedClientCABundleSecretReconciler_def Let_def)

section \<open>Proxies\<close>

lemma compiled_frontproxy_sel:
  assumes "om_Name (cfpo_Meta obj) = om_Name (fpx_Meta f)"
    "cf = snd (CompiledFrontProxyReconciler f r shards revisions) obj"
  shows "om_Name (cfpo_Meta cf) = om_Name (fpx_Meta f)" "cfp_FrontProxy (cfpo_Spec cf) = fpx_Spec f"
    "cfp_RootShard (cfpo_Spec cf) = \<lparr>nrs_Name = om_Name (rsh_Meta r), nrs_Spec = rsh_Spec r\<rparr>"
  using assms by (simp_all add: CompiledFrontProxyReconciler_def compiled_meta_def named_rootshard_def)

text \<open>A compiled proxy and the reconciler of its PKI compute the same names.\<close>

definition same_proxy :: "compiled_proxy \<Rightarrow> proxy_reconciler \<Rightarrow> bool" where
  "same_proxy q p \<longleftrightarrow> cpx_certName q = proxy_certName p
     \<and> cpx_clientCABundleSecretName q = clientCABundleSecretName p
     \<and> cpx_backendCABundleSecretName q = backendCABundleSecretName p
     \<and> cpx_getCABundleSecretRef q = fr_getCABundleSecretRef p
     \<and> cpx_rootShardCAName q = GetRootShardCAName (fr_rootShard p)"

lemma same_frontproxy:
  assumes "om_Name (cfpo_Meta obj) = om_Name (fpx_Meta f)"
    "cf = snd (CompiledFrontProxyReconciler f r shards revisions) obj"
    "NewFrontProxy (Some f) r children = Inr p"
  shows "same_proxy (FrontProxyMode cf) p" "fr_rootShard p = r"
proof -
  note sel = compiled_frontproxy_sel [OF assms(1,2)]
  have p: "fr_frontProxy p = Some f" "fr_rootShard p = r" using assms(3) by (auto simp: NewFrontProxy_def)
  show "same_proxy (FrontProxyMode cf) p"
    by (auto simp: same_proxy_def p sel cpx_certName_def proxy_certName_def cpx_clientCABundleSecretName_def
        clientCABundleSecretName_def cpx_backendCABundleSecretName_def backendCABundleSecretName_def
        cpx_getCABundleSecretRef_def fr_getCABundleSecretRef_def cpx_rootShardCAName_def names_defs)
  show "fr_rootShard p = r" by (rule p)
qed

lemma same_rootshard_proxy:
  assumes "om_Name (crsh_Meta obj) = om_Name (rsh_Meta r)"
    "cr = snd (CompiledRootShardReconciler r vw shards revisions) obj"
  shows "same_proxy (RootShardMode cr) (NewRootShardProxy r)" "fr_rootShard (NewRootShardProxy r) = r"
proof -
  note sel = compiled_rootshard_sel [OF assms]
  show "same_proxy (RootShardMode cr) (NewRootShardProxy r)"
    by (auto simp: same_proxy_def NewRootShardProxy_def sel cpx_certName_def proxy_certName_def
        cpx_clientCABundleSecretName_def clientCABundleSecretName_def cpx_backendCABundleSecretName_def
        backendCABundleSecretName_def cpx_getCABundleSecretRef_def fr_getCABundleSecretRef_def cpx_rootShardCAName_def
        names_defs)
  show "fr_rootShard (NewRootShardProxy r) = r" by (simp add: NewRootShardProxy_def)
qed

lemma same_proxy_mounts:
  assumes "same_proxy q p" "fr_rootShard p = r" "rootshard_certReconcilers r = Inr recs"
    "m \<in> set (cpx_mountSecrets check q version)"
  shows "fst m \<in> proxy_secrets p \<union> rootshard_secrets r recs \<union> {fst (dynamicKubeconfigSecretReconciler marshal q)}
     \<union> ungenerated_root_ca r"
proof -
  have "GetRootShardCAName r RootCA \<in> rootshard_secrets r recs \<union> ungenerated_root_ca r"
    "GetRootShardCAName r RequestHeaderClientCA \<in> rootshard_secrets r recs"
    using rootshard_secrets_members(1,2) [OF assms(3)] by (auto simp: intermediateCAs_def ungenerated_root_ca_def)
  then show ?thesis
    using assms(1,2,4) unfolding proxy_secrets_eq same_proxy_def cpx_mountSecrets_def dynamicKubeconfigSecretReconciler_def
    by (auto split: if_splits)
qed

text \<open>The secrets the user names for a proxy: the extra volumes and, for a front proxy, those of its
  authentication.\<close>

definition proxy_user_secrets :: "compiled_proxy \<Rightarrow> string set" where
  "proxy_user_secrets q = volume_secrets (px_ExtraVolumes (cpx_settings q))
     \<union> (case q of RootShardMode _ \<Rightarrow> {} | FrontProxyMode f \<Rightarrow> auth_secrets (fp_Auth (cfp_FrontProxy (cfpo_Spec f))))"

definition proxy_auth_shards :: "compiled_proxy \<Rightarrow> string list" where
  "proxy_auth_shards q = (case q of RootShardMode _ \<Rightarrow> []
     | FrontProxyMode f \<Rightarrow> cpx_rootShardName q # cfp_Shards (cfpo_Spec f))"

lemma proxy_volume_secrets:
  assumes "cpx_deploymentReconciler newVersion check st q dep = Inr (st', d')"
  shows "\<exists>version. volume_secrets (ps_Volumes (pod_of d')) \<subseteq> fst ` set (cpx_mountSecrets check q version)
     \<union> proxy_user_secrets q \<union> sa_cert_name ` set (proxy_auth_shards q)"
proof -
  obtain img pulls version where im: "GetImageSettings newVersion (px_Image (cpx_settings q)) = (img, pulls, version)"
    by (cases "GetImageSettings newVersion (px_Image (cpx_settings q))") auto
  have vols: "ps_Volumes (pod_of d') = cpx_volumes check q version @ k_Volumes (cpx_auth_contrib q)"
    using cpx_deployment_closed [OF im, of check st dep] assms by auto
  have "volume_secrets (map (\<lambda>(n, _, _). secret_volume n n) ms) = fst ` set ms" for ms :: "(string \<times> string \<times> bool) list"
    by (force simp: volume_secrets_def)
  moreover have "volume_secrets (k_Volumes (cpx_auth_contrib q))
      \<subseteq> proxy_user_secrets q \<union> sa_cert_name ` set (proxy_auth_shards q)"
    using auth_contrib_secrets
    by (cases q) (fastforce simp: cpx_auth_contrib_def proxy_user_secrets_def proxy_auth_shards_def)+
  ultimately show ?thesis
    by (intro exI [of _ version]) (auto simp: vols cpx_volumes_def proxy_user_secrets_def)
qed

text \<open>C23: every secret volume in the rendered pod of a front proxy or of a root shard's internal
  proxy, the authentication secrets and extra volumes included, is created: by the controller of the
  front proxy or root shard that made its certificates and bundles, by the root shard's or a shard's
  controller or, for its kubeconfig, by the reconciler that renders the proxy itself; or the user
  named it; or (without an issuer for the root CA) it is the generated name of the root CA's secret.\<close>

theorem proxy_mounts_created:
  assumes recs: "rootshard_certReconcilers r = Inr recs"
    and fobj: "om_Name (cfpo_Meta fobj) = om_Name (fpx_Meta f)"
      "cf = snd (CompiledFrontProxyReconciler f r shards revisions) fobj"
      "NewFrontProxy (Some f) r children = Inr p"
    and robj: "om_Name (crsh_Meta robj) = om_Name (rsh_Meta r)"
      "cr = snd (CompiledRootShardReconciler r vw rshards rrevisions) robj"
    and q: "(q, src) \<in> {(FrontProxyMode cf, p), (RootShardMode cr, NewRootShardProxy r)}"
    and dep: "cpx_deploymentReconciler newVersion check st q dep = Inr (st', d')"
    and vol: "vol \<in> set (ps_Volumes (pod_of d'))" "vol_Secret vol = Some n"
  shows "n \<in> proxy_secrets src \<union> rootshard_secrets r recs \<union> (\<Union>s \<in> set shards. shard_secrets s r)
     \<union> {fst (dynamicKubeconfigSecretReconciler marshal q)} \<union> proxy_user_secrets q \<union> ungenerated_root_ca r"
proof -
  have src: "same_proxy q src" "fr_rootShard src = r"
    using q same_frontproxy [OF fobj] same_rootshard_proxy [OF robj] by blast+
  have "set (proxy_auth_shards q) \<subseteq> set (om_Name (rsh_Meta r) # ShardNames shards)"
    using q fobj(2) compiled_frontproxy_sel [OF fobj(1,2)]
    by (auto simp: proxy_auth_shards_def cpx_rootShardName_def CompiledFrontProxyReconciler_def)
  then have sa: "sa_cert_name ` set (proxy_auth_shards q)
      \<subseteq> rootshard_secrets r recs \<union> (\<Union>s \<in> set shards. shard_secrets s r)"
    using service_account_secrets [OF recs, of shards] by blast
  obtain version where "volume_secrets (ps_Volumes (pod_of d')) \<subseteq> fst ` set (cpx_mountSecrets check q version)
     \<union> proxy_user_secrets q \<union> sa_cert_name ` set (proxy_auth_shards q)"
    using proxy_volume_secrets [OF dep] by blast
  then have "n \<in> fst ` set (cpx_mountSecrets check q version) \<union> proxy_user_secrets q
      \<union> sa_cert_name ` set (proxy_auth_shards q)"
    using vol by (auto simp: volume_secrets_def)
  then show ?thesis
    using sa same_proxy_mounts [OF src recs, of _ check version marshal] by blast
qed

section \<open>Virtual workspaces\<close>

lemma compiled_vw_sel:
  assumes "om_Name (cvwo_Meta obj) = om_Name (vwo_Meta vw)"
    "cv = snd (CompiledVirtualWorkspaceReconciler vw r shard revisions) obj"
  shows "om_Name (cvwo_Meta cv) = om_Name (vwo_Meta vw)" "cvw_VirtualWorkspace (cvwo_Spec cv) = vwo_Spec vw"
    "cvw_RootShard (cvwo_Spec cv) = \<lparr>nrs_Name = om_Name (rsh_Meta r), nrs_Spec = rsh_Spec r\<rparr>"
    "cvw_Shard (cvwo_Spec cv) = map_option (\<lambda>s. \<lparr>ns_Name = om_Name (sh_Meta s), ns_Spec = sh_Spec s\<rparr>) shard"
  using assms by (simp_all add: CompiledVirtualWorkspaceReconciler_def compiled_meta_def named_rootshard_def)

text \<open>The kubeconfig of the target, whichever kind of shard it is.\<close>

definition target_secrets :: "RootShard \<Rightarrow> certificate_reconciler list \<Rightarrow> Shard option \<Rightarrow> string set" where
  "target_secrets r recs shard = rootshard_secrets r recs
     \<union> (case shard of None \<Rightarrow> {} | Some s \<Rightarrow> shard_secrets s r)"

lemma vw_mount_secrets:
  assumes recs: "rootshard_certReconcilers r = Inr recs"
    and crecs: "cacheserver_certReconcilers c = Inr crecs"
    and obj: "om_Name (cvwo_Meta obj) = om_Name (vwo_Meta vw)"
      "cv = snd (CompiledVirtualWorkspaceReconciler vw r shard revisions) obj"
    and cache: "vw_getEffectiveCacheRef cv \<noteq> [] \<longrightarrow> vw_getEffectiveCacheRef cv = om_Name (cas_Meta c)"
    and sm: "sm \<in> set (vw_sharedSecrets cv @ vw_adminSecrets cv)"
  shows "sm_SecretName sm \<in> vw_secrets vw r \<union> target_secrets r recs shard \<union> cacheserver_secrets c crecs
     \<union> ungenerated_root_ca r"
proof -
  note sel = compiled_vw_sel [OF obj]
  have names: "GetNamedRootShardCAName (cvw_RootShard (cvwo_Spec cv)) = GetRootShardCAName r"
    "GetCompiledVirtualWorkspaceCertificateName cv = GetVirtualWorkspaceCertificateName vw"
    by (auto simp: sel names_defs)
  have kc: "vw_kubeconfigSecret cv LogicalClusterAdminCertificate \<in> target_secrets r recs shard"
    using rootshard_secrets_members(4) [OF recs, of LogicalClusterAdminCertificate]
      shard_secrets_members(2) [of LogicalClusterAdminCertificate]
    by (cases shard) (auto simp: vw_kubeconfigSecret_def target_secrets_def sel names_defs
        rootshard_kubeconfigSecret_def shard_kubeconfigSecret_def)
  have cm: "sm_SecretName sm \<in> cacheserver_secrets c crecs"
    if "vw_getEffectiveCacheRef cv \<noteq> []" "sm \<in> set (cache_mounts (vw_getEffectiveCacheRef cv))"
    using cache cache_mounts_secrets [OF crecs] that by auto
  have root: "GetRootShardCAName r RootCA \<in> target_secrets r recs shard \<or> GetRootShardCAName r RootCA \<in> ungenerated_root_ca r"
    using rootshard_secrets_members(1) [OF recs] by (auto simp: target_secrets_def ungenerated_root_ca_def)
  have ca: "GetRootShardCAName r k \<in> target_secrets r recs shard" if "k \<in> {ServerCA, RequestHeaderClientCA, ClientCA}" for k
    using rootshard_secrets_members(2) [OF recs] that by (auto simp: target_secrets_def intermediateCAs_def)
  have own: "GetVirtualWorkspaceCertificateName vw k \<in> vw_secrets vw r" if "k \<in> {ServerCertificate, ClientCertificate}" for k
    using that unfolding vw_secrets_eq by blast
  show ?thesis
    using sm unfolding vw_sharedSecrets_def vw_adminSecrets_def Let_def names set_append Un_iff
  proof (elim disjE)
    assume "sm \<in> set [secret_mount ''kcp-ca'' (GetRootShardCAName r RootCA) (shard_getCAMountPath RootCA)]"
    then show "((sm_SecretName sm \<in> vw_secrets vw r \<or> sm_SecretName sm \<in> target_secrets r recs shard)
        \<or> sm_SecretName sm \<in> cacheserver_secrets c crecs) \<or> sm_SecretName sm \<in> ungenerated_root_ca r"
      using root by auto
  next
    assume "sm \<in> set (if vw_getEffectiveCacheRef cv \<noteq> [] then cache_mounts (vw_getEffectiveCacheRef cv) else [])"
    then show "((sm_SecretName sm \<in> vw_secrets vw r \<or> sm_SecretName sm \<in> target_secrets r recs shard)
        \<or> sm_SecretName sm \<in> cacheserver_secrets c crecs) \<or> sm_SecretName sm \<in> ungenerated_root_ca r"
      using cm by (auto split: if_splits)
  qed (use ca kc own in \<open>force simp: sel vw_secrets_eq split: if_splits\<close>)+
qed

text \<open>The secrets the user names for a virtual workspace: the volumes of the spec and of the init
  containers, and the kubeconfigs of the server and of the init containers.\<close>

definition ref_secrets :: "LocalObjectReference option \<Rightarrow> string set" where
  "ref_secrets ref = (case ref of None \<Rightarrow> {} | Some l \<Rightarrow> {lor_Name l})"

definition vw_user_secrets :: "VirtualWorkspaceSpec \<Rightarrow> string set" where
  "vw_user_secrets spec = volume_secrets (vw_ExtraVolumes spec) \<union> ref_secrets (vw_KubeconfigSecretRef spec)
     \<union> (\<Union>i \<in> set (vw_InitContainers spec). volume_secrets (vi_Volumes i) \<union> ref_secrets (vi_KubeconfigSecretRef i))"

lemma dedupe_loop_subset: "set (dedupe_loop seen vs) \<subseteq> set vs"
  by (induction seen vs rule: dedupe_loop.induct) auto

lemma volume_secrets_subset: "set vs \<subseteq> set ws \<Longrightarrow> volume_secrets vs \<subseteq> volume_secrets ws"
  by (auto simp: volume_secrets_def)

lemma volume_secrets_concat [simp]: "volume_secrets (concat vss) = (\<Union>vs \<in> set vss. volume_secrets vs)"
  by (induction vss) auto

lemma own_volume_secrets [simp]: "volume_secrets (own_volumes q) = ref_secrets (mq_ref q)"
  by (auto simp: own_volumes_def ref_secrets_def split: option.splits)

lemma vw_volume_secrets:
  assumes "vw_DeploymentReconciler st cv dep = Inr (st', d')"
  shows "volume_secrets (ps_Volumes (pod_of d')) \<subseteq> sm_SecretName ` set (vw_sharedSecrets cv @ vw_adminSecrets cv)
     \<union> vw_user_secrets (cvw_VirtualWorkspace (cvwo_Spec cv))"
proof -
  have "ps_Volumes (pod_of d') = dedupeVolumes (vw_all_volumes cv)"
    using vw_deployment_closed [of st cv dep] assms by auto
  then have "volume_secrets (ps_Volumes (pod_of d')) \<subseteq> volume_secrets (vw_all_volumes cv)"
    using volume_secrets_subset [OF dedupe_loop_subset] by (simp add: dedupeVolumes_def)
  also have "\<dots> \<subseteq> sm_SecretName ` set (vw_sharedSecrets cv @ vw_adminSecrets cv)
     \<union> vw_user_secrets (cvw_VirtualWorkspace (cvwo_Spec cv))"
    unfolding vw_all_volumes_def Let_def volume_secrets_append volume_secrets_concat volume_secrets_build
    by (auto simp: vw_user_secrets_def vw_requests_def server_request_def init_request_def Let_def)
  finally show ?thesis .
qed

text \<open>C24: the same for a virtual workspace: every secret volume in its rendered pod comes from its
  own controller (certificates and bundles), from the root shard (the CAs), from the shard or root
  shard it targets (the kubeconfig) or from the cache server it uses; or the user named it; or
  (without an issuer for the root CA) it is the generated name of the root CA's secret.\<close>

theorem virtualworkspace_mounts_created:
  assumes recs: "rootshard_certReconcilers r = Inr recs"
    and crecs: "cacheserver_certReconcilers c = Inr crecs"
    and obj: "om_Name (cvwo_Meta obj) = om_Name (vwo_Meta vw)"
      "cv = snd (CompiledVirtualWorkspaceReconciler vw r shard revisions) obj"
    and cache: "vw_getEffectiveCacheRef cv \<noteq> [] \<longrightarrow> vw_getEffectiveCacheRef cv = om_Name (cas_Meta c)"
    and dep: "vw_DeploymentReconciler st cv dep = Inr (st', d')"
    and vol: "vol \<in> set (ps_Volumes (pod_of d'))" "vol_Secret vol = Some n"
  shows "n \<in> vw_secrets vw r \<union> target_secrets r recs shard \<union> cacheserver_secrets c crecs
     \<union> vw_user_secrets (vwo_Spec vw) \<union> ungenerated_root_ca r"
proof -
  have "n \<in> volume_secrets (ps_Volumes (pod_of d'))" using vol by (auto simp: volume_secrets_def)
  then have "n \<in> sm_SecretName ` set (vw_sharedSecrets cv @ vw_adminSecrets cv) \<union> vw_user_secrets (vwo_Spec vw)"
    using vw_volume_secrets [OF dep] compiled_vw_sel(2) [OF obj] by auto
  then show ?thesis
    using vw_mount_secrets [OF recs crecs obj cache] by blast
qed

section \<open>Cache servers\<close>

text \<open>And for a cache server, whose etcd credentials are the user's.\<close>

theorem cacheserver_mounts_created:
  assumes crecs: "cacheserver_certReconcilers c = Inr crecs"
    and obj: "om_Name (ccs_Meta cc) = om_Name (cas_Meta c)" "ccs_Spec cc = cas_Spec c"
    and sm: "sm \<in> set (cacheserver_getSecretMounts check cc version)"
  shows "sm_SecretName sm \<in> cacheserver_secrets c crecs
     \<or> (\<exists>e tls. ca_Etcd (cas_Spec c) = Some e \<and> etcd_TLSConfig e = Some tls \<and> sm_SecretName sm = lor_Name (tls_SecretRef tls))"
proof (cases "sm_VolumeName sm = ''etcd-cert''")
  case True
  then show ?thesis using sm
    by (cases "ca_Etcd (cas_Spec c)"; cases "etcd_TLSConfig (the (ca_Etcd (cas_Spec c)))")
      (auto simp: cacheserver_getSecretMounts_def obj split: if_splits)
next
  case False
  then show ?thesis using sm unfolding cacheserver_secrets_eq [OF crecs]
    by (auto simp: cacheserver_getSecretMounts_def obj names_defs split: if_splits option.splits)
qed

section \<open>Witnesses\<close>

definition compiled_sample_frontproxy :: CompiledFrontProxy where
  "compiled_sample_frontproxy =
     snd (CompiledFrontProxyReconciler sample_frontproxy sample_rootshard [sample_shard] fmempty) sample_compiled_frontproxy"

theorem proxy_mounts_created_witness:
  "\<exists>recs p n. rootshard_certReconcilers sample_rootshard = Inr recs
     \<and> NewFrontProxy (Some sample_frontproxy) sample_rootshard [sample_shard] = Inr p
     \<and> n = cpx_clientCABundleSecretName (FrontProxyMode compiled_sample_frontproxy)
     \<and> n \<in> proxy_secrets p \<union> rootshard_secrets sample_rootshard recs
         \<union> (\<Union>s \<in> set [sample_shard]. shard_secrets s sample_rootshard) \<union> {''root-fp-dynamic-kubeconfig''}
         \<union> proxy_user_secrets (FrontProxyMode compiled_sample_frontproxy) \<union> ungenerated_root_ca sample_rootshard"
proof -
  let ?q = "FrontProxyMode compiled_sample_frontproxy"
  let ?n = "cpx_clientCABundleSecretName ?q"
  obtain recs where recs: "rootshard_certReconcilers sample_rootshard = Inr recs"
    using rootshard_certReconcilers_total by blast
  obtain p where p: "NewFrontProxy (Some sample_frontproxy) sample_rootshard [sample_shard] = Inr p"
    by (simp add: NewFrontProxy_def)
  have name: "om_Name (cfpo_Meta sample_compiled_frontproxy) = om_Name (fpx_Meta sample_frontproxy)"
    by (simp add: sample_compiled_frontproxy_def sample_frontproxy_def)
  have kc: "fst (dynamicKubeconfigSecretReconciler (\<lambda>_. Inr []) ?q) = ''root-fp-dynamic-kubeconfig''"
    by (simp add: dynamicKubeconfigSecretReconciler_def cpx_dynamicKubeconfigName_def compiled_sample_frontproxy_def
        CompiledFrontProxyReconciler_def compiled_meta_def named_rootshard_def names_defs sample_frontproxy_def
        sample_rootshard_def sample_meta_def sample_compiled_frontproxy_def)
  obtain img pulls version where im: "GetImageSettings (\<lambda>_. None :: unit option) (px_Image (cpx_settings ?q)) = (img, pulls, version)"
    by (cases "GetImageSettings (\<lambda>_. None :: unit option) (px_Image (cpx_settings ?q))") auto
  obtain st' d' where dep: "cpx_deploymentReconciler (\<lambda>_. None :: unit option) (\<lambda>_ _. True) init_rstore ?q Deployment_zero = Inr (st', d')"
    and vols: "ps_Volumes (pod_of d') = cpx_volumes (\<lambda>_ _. True) ?q version @ k_Volumes (cpx_auth_contrib ?q)"
    using cpx_deployment_closed [OF im, of "\<lambda>_ _. True" init_rstore Deployment_zero] by auto
  have mem: "secret_volume ?n ?n \<in> set (ps_Volumes (pod_of d'))"
    by (simp add: vols cpx_volumes_def cpx_mountSecrets_def)
  have "?n \<in> proxy_secrets p \<union> rootshard_secrets sample_rootshard recs
      \<union> (\<Union>s \<in> set [sample_shard]. shard_secrets s sample_rootshard)
      \<union> {fst (dynamicKubeconfigSecretReconciler (\<lambda>_. Inr []) ?q)}
      \<union> proxy_user_secrets ?q \<union> ungenerated_root_ca sample_rootshard"
    by (rule proxy_mounts_created [OF recs name compiled_sample_frontproxy_def p sample_names(1)
          compiled_sample_rootshard_def _ dep mem]) simp_all
  then show ?thesis using recs p unfolding kc by blast
qed

definition sample_vw_target :: CompiledVirtualWorkspace where
  "sample_vw_target = \<lparr>cvwo_Meta = sample_meta ''vw'', cvwo_Spec = \<lparr>cvw_VirtualWorkspace = sample_vw_spec,
     cvw_RootShard = \<lparr>nrs_Name = [], nrs_Spec = sample_rootshard_spec\<rparr>, cvw_Shard = None\<rparr>, cvwo_Conditions = []\<rparr>"

theorem virtualworkspace_mounts_created_witness:
  "\<exists>recs crecs cv. rootshard_certReconcilers sample_rootshard = Inr recs
     \<and> cacheserver_certReconcilers sample_cacheserver = Inr crecs
     \<and> cv = snd (CompiledVirtualWorkspaceReconciler sample_vw sample_rootshard (Some sample_shard) fmempty) sample_vw_target
     \<and> ''root-ca'' \<in> vw_secrets sample_vw sample_rootshard
         \<union> target_secrets sample_rootshard recs (Some sample_shard) \<union> cacheserver_secrets sample_cacheserver crecs
         \<union> vw_user_secrets (vwo_Spec sample_vw) \<union> ungenerated_root_ca sample_rootshard"
proof -
  obtain recs where recs: "rootshard_certReconcilers sample_rootshard = Inr recs"
    using rootshard_certReconcilers_total by blast
  obtain crecs where crecs: "cacheserver_certReconcilers sample_cacheserver = Inr crecs"
    using sample_cache_certs by blast
  define cv where cv: "cv = snd (CompiledVirtualWorkspaceReconciler sample_vw sample_rootshard (Some sample_shard) fmempty) sample_vw_target"
  have name: "om_Name (cvwo_Meta sample_vw_target) = om_Name (vwo_Meta sample_vw)"
    by (simp add: sample_vw_target_def sample_vw_def)
  note sel = compiled_vw_sel [OF name cv]
  have cache: "vw_getEffectiveCacheRef cv = []"
    using sample_names(4) by (simp add: vw_getEffectiveCacheRef_def sel sample_shard_def sample_shard_spec_def)
  obtain st' d' where dep: "vw_DeploymentReconciler init_rstore cv Deployment_zero = Inr (st', d')"
    and vols: "ps_Volumes (pod_of d') = dedupeVolumes (vw_all_volumes cv)"
    using vw_deployment_closed [of init_rstore cv Deployment_zero] by auto
  have "vw_ExtraVolumes (cvw_VirtualWorkspace (cvwo_Spec cv)) = []"
    by (simp add: sel sample_vw_def sample_vw_spec_def)
  moreover have "GetNamedRootShardCAName (cvw_RootShard (cvwo_Spec cv)) RootCA = ''root-ca''"
    by (simp add: sel names_defs sample_rootshard_def sample_meta_def)
  ultimately have mem: "secret_volume ''kcp-ca'' ''root-ca'' \<in> set (ps_Volumes (pod_of d'))"
    by (simp add: vols vw_all_volumes_def Let_def vw_sharedSecrets_def dedupeVolumes_def SecretMount_Build_def)
  from virtualworkspace_mounts_created [OF recs crecs name cv _ dep mem]
  show ?thesis using recs crecs cv cache by (simp add: Un_assoc)
qed

theorem cacheserver_mounts_created_witness:
  "\<exists>crecs. cacheserver_certReconcilers sample_cacheserver = Inr crecs
     \<and> ''cache-server'' \<in> cacheserver_secrets sample_cacheserver crecs"
proof -
  define cc where "cc = \<lparr>ccs_Meta = cas_Meta sample_cacheserver, ccs_Spec = cas_Spec sample_cacheserver\<rparr>"
  obtain crecs where crecs: "cacheserver_certReconcilers sample_cacheserver = Inr crecs"
    using sample_cache_certs by blast
  have mem: "hd (cacheserver_getSecretMounts (\<lambda>_ _. True) cc (None :: unit option))
      \<in> set (cacheserver_getSecretMounts (\<lambda>_ _. True) cc None)"
    by (simp add: cacheserver_getSecretMounts_def)
  from cacheserver_mounts_created [OF crecs _ _ mem] crecs show ?thesis
    by (auto simp: cc_def cacheserver_getSecretMounts_def names_defs sample_cacheserver_def sample_meta_def
        sample_cacheserver_spec_def)
qed

end
