(* ===== verification/Revision_Labels.thy ===== *)
theory Revision_Labels
  imports Controller_Base
begin

text \<open>
  The API server as the controllers of the compiled objects see it, and
  \<open>pkg/reconciling/modifier/revision_labels.go\<close>: a deployment is only written once every secret and
  config map its pods refer to exists, and then carries the resource version of each in a label
  of its pod template, so that a change restarts the pods.

  \<open>hash\<close> is the hexadecimal SHA3-256 of a name, of which the label uses 20 digits.
\<close>

section \<open>The state\<close>

text \<open>A deployment is stored with the resources of its containers, read from the resource maps when
  it was sent; the maps themselves (\<open>wl_memory\<close>) belong to the operator's process.\<close>

type_synonym live_deployment = "Deployment \<times> ResourceRequirements list"

record wl_world =
  wl_secrets :: "(string, Secret) fmap"
  wl_configmaps :: "(string, ConfigMap) fmap"
  wl_services :: "(string, Service) fmap"
  wl_deployments :: "(string, live_deployment) fmap"
  wl_crootshards :: "(string, CompiledRootShard) fmap"
  wl_cshards :: "(string, CompiledShard) fmap"
  wl_cfrontproxies :: "(string, CompiledFrontProxy) fmap"
  wl_ccacheservers :: "(string, CompiledCacheServer) fmap"
  wl_cvws :: "(string, CompiledVirtualWorkspace) fmap"
  wl_memory :: rstore

section \<open>References of a pod\<close>

datatype mount_ref = SecretRef string bool | ConfigMapRef string bool

text \<open>Volumes are never optional here; keys of environment variables may be.\<close>

definition volume_refs :: "Volume \<Rightarrow> mount_ref list" where
  "volume_refs v =
     (case vol_Secret v of None \<Rightarrow> [] | Some s \<Rightarrow> [SecretRef s False])
     @ (case vol_ConfigMap v of None \<Rightarrow> [] | Some c \<Rightarrow> [ConfigMapRef c False])"

definition is_optional :: "ObjectKeyRef \<Rightarrow> bool" where
  "is_optional k \<longleftrightarrow> kr_Optional k = Some True"

definition env_refs :: "EnvSource \<Rightarrow> mount_ref list" where
  "env_refs e =
     (case env_ConfigMap e of None \<Rightarrow> [] | Some k \<Rightarrow> [ConfigMapRef (kr_Name k) (is_optional k)])
     @ (case env_Secret e of None \<Rightarrow> [] | Some k \<Rightarrow> [SecretRef (kr_Name k) (is_optional k)])"

definition related_refs :: "Volume list \<Rightarrow> Container list \<Rightarrow> mount_ref list" where
  "related_refs volumes containers = concat (map volume_refs volumes)
     @ concat (map (\<lambda>c. concat (map env_refs (ct_Env c)) @ concat (map env_refs (ct_EnvFrom c))) containers)"

section \<open>The labels\<close>

definition getLabelName :: "(string \<Rightarrow> string) \<Rightarrow> string \<Rightarrow> string \<Rightarrow> string" where
  "getLabelName hash resource object = ''operator.kcp.io/'' @ resource @ ''-'' @ take 20 (hash object) @ ''-rev''"

definition secretRevision :: "string \<Rightarrow> (wl_world, string) act" where
  "secretRevision n = bindA (api_get wl_secrets n) (\<lambda>s. returnA (om_ResourceVersion (sec_Meta s)))"

definition configMapRevision :: "string \<Rightarrow> (wl_world, string) act" where
  "configMapRevision n = bindA (api_get wl_configmaps n) (\<lambda>c. returnA (om_ResourceVersion (cm_Meta c)))"

definition load_ref ::
    "string \<Rightarrow> (wl_world, string) act \<Rightarrow> bool \<Rightarrow> gomap \<Rightarrow> (wl_world, gomap) act" where
  "load_ref labelName revision optional labels =
     (if mget labels labelName \<noteq> None then returnA labels
      else bindA (tryA revision) (\<lambda>r. case r of
        Inl e \<Rightarrow> if optional \<and> apierrors_IsNotFound e then returnA labels else failA e
      | Inr v \<Rightarrow> returnA (fmupd labelName v labels)))"

fun load_mount :: "(string \<Rightarrow> string) \<Rightarrow> mount_ref \<Rightarrow> gomap \<Rightarrow> (wl_world, gomap) act" where
  "load_mount hash (SecretRef n opt) = load_ref (getLabelName hash ''secret'' n) (secretRevision n) opt"
| "load_mount hash (ConfigMapRef n opt) = load_ref (getLabelName hash ''configmap'' n) (configMapRevision n) opt"

fun load_mounts :: "(string \<Rightarrow> string) \<Rightarrow> mount_ref list \<Rightarrow> gomap \<Rightarrow> (wl_world, gomap) act" where
  "load_mounts hash [] labels = returnA labels"
| "load_mounts hash (m # ms) labels = bindA (load_mount hash m labels) (load_mounts hash ms)"

definition getRelatedRevisionLabels ::
    "(string \<Rightarrow> string) \<Rightarrow> Volume list \<Rightarrow> Container list \<Rightarrow> (wl_world, gomap) act" where
  "getRelatedRevisionLabels hash volumes containers = load_mounts hash (related_refs volumes containers) fmempty"

definition addRevisionLabelsToPodSpec :: "(string \<Rightarrow> string) \<Rightarrow> PodTemplate \<Rightarrow> (wl_world, PodTemplate) act" where
  "addRevisionLabelsToPodSpec hash ps =
     bindA (tryA (getRelatedRevisionLabels hash (ps_Volumes (pt_Spec ps))
       (ps_InitContainers (pt_Spec ps) @ ps_Containers (pt_Spec ps)))) (\<lambda>r. case r of
       Inl e \<Rightarrow> failA (if apierrors_IsNotFound e then MountNotFound e else e)
     | Inr revisionLabels \<Rightarrow> returnA (ps\<lparr>pt_Labels := maps_Copy (pt_Labels ps) revisionLabels\<rparr>))"

definition addRevisionLabelsToObject :: "(string \<Rightarrow> string) \<Rightarrow> Deployment \<Rightarrow> (wl_world, Deployment) act" where
  "addRevisionLabelsToObject hash d =
     bindA (wrapA ''failed to determine revision labels'' (addRevisionLabelsToPodSpec hash (ds_Template (dep_Spec d))))
       (\<lambda>t. returnA (d\<lparr>dep_Spec := (dep_Spec d)\<lparr>ds_Template := t\<rparr>\<rparr>))"

section \<open>Ensuring a deployment\<close>

text \<open>What \<open>ReconcileDeployments\<close> of the reconciling library does with one reconciler and the
  modifier \<open>RelatedRevisionsLabels\<close>. The reconciler runs on the resource maps of the process.\<close>

type_synonym deployment_reconciler = "rstore \<Rightarrow> Deployment \<Rightarrow> (rstore \<times> Deployment) res"

definition run_reconciler :: "deployment_reconciler \<Rightarrow> Deployment \<Rightarrow> (wl_world, Deployment) act" where
  "run_reconciler rec old w os = (case rec (wl_memory w) old of
     Inl e \<Rightarrow> (Inl e, w, os) | Inr (st, d) \<Rightarrow> (Inr d, w\<lparr>wl_memory := st\<rparr>, os))"

definition pod_resources :: "rstore \<Rightarrow> Deployment \<Rightarrow> ResourceRequirements list" where
  "pod_resources st d = map (container_resources st) (ps_InitContainers (pod_of d) @ ps_Containers (pod_of d))"

definition name_deployment :: "string \<Rightarrow> Deployment \<Rightarrow> Deployment" where
  "name_deployment n d = d\<lparr>dep_Meta := (dep_Meta d)\<lparr>om_Name := n\<rparr>\<rparr>"

definition store_deployment :: "string \<Rightarrow> Deployment \<Rightarrow> wl_world \<Rightarrow> wl_world" where
  "store_deployment n d w = w\<lparr>wl_deployments := fmupd n (d, pod_resources (wl_memory w) d) (wl_deployments w)\<rparr>"

text \<open>The comparison with the existing object is made on what the process has read before.\<close>

definition write_deployment :: "string \<Rightarrow> live_deployment option \<Rightarrow> Deployment \<Rightarrow> (wl_world, unit) act" where
  "write_deployment n old d w os =
     (if old = Some (d, pod_resources (wl_memory w) d) then (Inr (), w, os)
      else api_write (store_deployment n d) w os)"

definition build_deployment ::
    "(string \<Rightarrow> string) \<Rightarrow> deployment_reconciler \<Rightarrow> string \<Rightarrow> live_deployment option \<Rightarrow> (wl_world, unit) act" where
  "build_deployment hash rec n old =
     bindA (run_reconciler rec (case old of None \<Rightarrow> Deployment_zero | Some (d, _) \<Rightarrow> d)) (\<lambda>d.
     bindA (addRevisionLabelsToObject hash d) (\<lambda>d.
     write_deployment n old (name_deployment n d)))"

definition ensure_deployment ::
    "(string \<Rightarrow> string) \<Rightarrow> string \<times> deployment_reconciler \<Rightarrow> (wl_world, unit res) act" where
  "ensure_deployment hash rec =
     tryA (wrapA ''failed to ensure object''
       (bindA (api_read (\<lambda>w. Inr (fmlookup (wl_deployments w) (fst rec)))) (build_deployment hash (snd rec) (fst rec))))"

text \<open>A mount that does not exist yet is not an error: the watch on secrets starts over.\<close>

definition swallow_mount_errors :: "'a res \<Rightarrow> go_error list" where
  "swallow_mount_errors r = filter (\<lambda>e. \<not> errors_Is_mount e) (errors_of r)"

end
