(* ===== verification/Compiled_Controllers.thy ===== *)
theory Compiled_Controllers
  imports Revision_Labels VirtualWorkspace_Workload FrontProxy_Workload
begin

text \<open>
  The controllers of the compiled objects (\<open>pkg/controller/compiledrootshard\<close>, \<open>compiledshard\<close>,
  \<open>compiledfrontproxy\<close>, \<open>compiledcacheserver\<close>, \<open>compiledvirtualworkspace\<close>) and \<open>Reconcile\<close> of
  \<open>internal/resources/compiledfrontproxy\<close>. They render the workloads: Deployments, Services and,
  for a proxy, a config map and a kubeconfig secret. A missing mount is swallowed; the status
  then reports the deployment as unavailable.
\<close>

text \<open>The parameters: the condition library, the name hash, \<open>semver\<close> and \<open>yaml.Marshal\<close>.\<close>

record 'v render_env =
  re_conditions :: condition_lib
  re_hash :: "string \<Rightarrow> string"
  re_newVersion :: "string \<Rightarrow> 'v option"
  re_check :: "string \<Rightarrow> 'v \<Rightarrow> bool"
  re_marshalMappings :: "PathMappingEntry list \<Rightarrow> string res"
  re_marshalKubeconfig :: "kube_config \<Rightarrow> string res"

definition wl_secret_kind :: "(wl_world, Secret) object_kind" where
  "wl_secret_kind = \<lparr>k_get = wl_secrets, k_put = \<lambda>m w. w\<lparr>wl_secrets := m\<rparr>,
     k_zero = \<lparr>sec_Meta = ObjectMeta_zero, sec_Data = fmempty\<rparr>,
     k_name = \<lambda>n s. s\<lparr>sec_Meta := (sec_Meta s)\<lparr>om_Name := n\<rparr>\<rparr>\<rparr>"

definition wl_configmap_kind :: "(wl_world, ConfigMap) object_kind" where
  "wl_configmap_kind = \<lparr>k_get = wl_configmaps, k_put = \<lambda>m w. w\<lparr>wl_configmaps := m\<rparr>,
     k_zero = \<lparr>cm_Meta = ObjectMeta_zero, cm_Data = fmempty\<rparr>,
     k_name = \<lambda>n c. c\<lparr>cm_Meta := (cm_Meta c)\<lparr>om_Name := n\<rparr>\<rparr>\<rparr>"

definition Service_zero :: Service where
  "Service_zero = \<lparr>svc_Meta = ObjectMeta_zero, svc_Type = [], svc_ClusterIP = [], svc_Ports = [],
     svc_Selector = fmempty\<rparr>"

definition wl_service_kind :: "(wl_world, Service) object_kind" where
  "wl_service_kind = \<lparr>k_get = wl_services, k_put = \<lambda>m w. w\<lparr>wl_services := m\<rparr>, k_zero = Service_zero,
     k_name = \<lambda>n s. s\<lparr>svc_Meta := (svc_Meta s)\<lparr>om_Name := n\<rparr>\<rparr>\<rparr>"

lemmas wl_kind_defs = wl_secret_kind_def wl_configmap_kind_def wl_service_kind_def

definition ensure_service :: "string \<times> (Service \<Rightarrow> Service) \<Rightarrow> (wl_world, unit res) act" where
  "ensure_service rec = bindA (ensure_objects wl_service_kind [] (pure_reconcilers [rec])) (\<lambda>(_, e). returnA e)"

section \<open>Proxies\<close>

text \<open>All four steps are made whatever happens to the earlier ones.\<close>

definition cpx_Reconcile :: "'v render_env \<Rightarrow> compiled_proxy \<Rightarrow> (wl_world, unit res) act" where
  "cpx_Reconcile env p =
     bindA (ensure_objects wl_configmap_kind [] [pathMappingConfigMapReconciler (re_marshalMappings env) p]) (\<lambda>(_, e1).
     bindA (ensure_objects wl_secret_kind [] [dynamicKubeconfigSecretReconciler (re_marshalKubeconfig env) p]) (\<lambda>(_, e2).
     bindA (ensure_deployment (re_hash env) (cpx_deploymentName p,
       \<lambda>st. cpx_deploymentReconciler (re_newVersion env) (re_check env) st p)) (\<lambda>e3.
     bindA (ensure_service (cpx_serviceName p, cpx_serviceReconciler p)) (\<lambda>e4.
     returnA (aggregate (errors_of e1 @ errors_of e2 @ swallow_mount_errors e3 @ errors_of e4))))))"

section \<open>Status\<close>

text \<open>The Available condition of the deployment; a failing read adds none.\<close>

definition deployment_condition :: "string \<Rightarrow> string \<Rightarrow> (wl_world, Condition res) act" where
  "deployment_condition ns name =
     bindA (tryA (api_get wl_deployments name)) (\<lambda>r.
     returnA (GetDeploymentAvailableCondition (case r of Inl e \<Rightarrow> Inl e | Inr (d, _) \<Rightarrow> Inr d) ns name))"

definition patch_status ::
    "(wl_world \<Rightarrow> (string, 'o) fmap) \<Rightarrow> ((string, 'o) fmap \<Rightarrow> wl_world \<Rightarrow> wl_world) \<Rightarrow> string \<Rightarrow> 's \<Rightarrow> 's
       \<Rightarrow> ('s \<Rightarrow> 'o \<Rightarrow> 'o) \<Rightarrow> (wl_world, unit res) act" where
  "patch_status get put n old new set_status =
     (if new = old then returnA (Inr ()) else tryA (api_call (patch_object get put n (set_status new))))"

definition own_conditions :: "Condition list \<Rightarrow> Condition res \<Rightarrow> Condition list" where
  "own_conditions conditions r = conditions @ (case r of Inl _ \<Rightarrow> [] | Inr c \<Rightarrow> [c])"

text \<open>Root shards and front proxies are deleting, running or provisioning.\<close>

definition compiled_phase :: "bool \<Rightarrow> bool \<Rightarrow> Phase" where
  "compiled_phase isAvailable deleting = (if deleting then Deleting else if isAvailable then Running else Provisioning)"

section \<open>Root shards\<close>

definition crootshard_reconcile :: "'v render_env \<Rightarrow> CompiledRootShard \<Rightarrow> (wl_world, Condition list \<times> unit res) act" where
  "crootshard_reconcile env r =
     (if om_DeletionTimestamp (crsh_Meta r) \<noteq> None then returnA ([], Inr ())
      else
        bindA (ensure_deployment (re_hash env) (GetCompiledRootShardDeploymentName r,
          \<lambda>st. rootshard_DeploymentReconciler st r)) (\<lambda>e1.
        bindA (ensure_service (GetCompiledRootShardServiceName r, rootshard_ServiceReconciler r)) (\<lambda>e2.
        bindA (cpx_Reconcile env (RootShardMode r)) (\<lambda>e3.
        returnA ([], aggregate (swallow_mount_errors e1 @ errors_of e2
          @ map (wrap_error ''failed to reconcile proxy'') (errors_of e3)))))))"

definition crootshard_new_status :: "condition_lib \<Rightarrow> CompiledRootShard \<Rightarrow> Condition list \<Rightarrow> RootShardStatus" where
  "crootshard_new_status lib r conditions =
     (let conds = UpdateConditions lib (om_Generation (crsh_Meta r)) conditions (rst_Conditions (crsh_Status r)) in
      (crsh_Status r)\<lparr>rst_Phase := compiled_phase (available lib conds) (om_DeletionTimestamp (crsh_Meta r) \<noteq> None),
        rst_Conditions := conds\<rparr>)"

definition crootshard_reconcileStatus ::
    "'v render_env \<Rightarrow> CompiledRootShard \<Rightarrow> Condition list \<Rightarrow> (wl_world, unit res) act" where
  "crootshard_reconcileStatus env r conditions =
     bindA (deployment_condition (om_Namespace (crsh_Meta r)) (GetCompiledRootShardDeploymentName r)) (\<lambda>c.
     bindA (patch_status wl_crootshards (\<lambda>m w. w\<lparr>wl_crootshards := m\<rparr>) (om_Name (crsh_Meta r)) (crsh_Status r)
       (crootshard_new_status (re_conditions env) r (own_conditions conditions c))
       (\<lambda>s r. r\<lparr>crsh_Status := s\<rparr>)) (\<lambda>p.
     returnA (aggregate (errors_of c @ errors_of p))))"

definition crootshard_Reconcile :: "'v render_env \<Rightarrow> string \<Rightarrow> (wl_world, unit) act" where
  "crootshard_Reconcile env name = controller_Reconcile (api_get wl_crootshards name)
     (wrap_error ''failed to find'') (\<lambda>_. False) (crootshard_reconcile env) (crootshard_reconcileStatus env)"

section \<open>Shards\<close>

definition cshard_reconcile :: "'v render_env \<Rightarrow> CompiledShard \<Rightarrow> (wl_world, Condition list \<times> unit res) act" where
  "cshard_reconcile env s =
     (if om_DeletionTimestamp (cso_Meta s) \<noteq> None then returnA ([], Inr ())
      else
        bindA (ensure_deployment (re_hash env) (GetCompiledShardDeploymentName s,
          \<lambda>st. shard_DeploymentReconciler (re_newVersion env) (re_check env) st s)) (\<lambda>e1.
        bindA (ensure_service (GetCompiledShardServiceName s, shard_ServiceReconciler s)) (\<lambda>e2.
        returnA ([], aggregate (swallow_mount_errors e1 @ errors_of e2)))))"

text \<open>The phase of a shard is only set when it is available, deleted or new.\<close>

definition cshard_phase :: "bool \<Rightarrow> bool \<Rightarrow> Phase \<Rightarrow> Phase" where
  "cshard_phase isAvailable deleting old =
     (if isAvailable then Running else if deleting then Deleting
      else if old = PhaseUnset then Provisioning else old)"

definition cshard_new_status :: "condition_lib \<Rightarrow> CompiledShard \<Rightarrow> Condition list \<Rightarrow> ShardStatus" where
  "cshard_new_status lib s conditions =
     (let conds = UpdateConditions lib (om_Generation (cso_Meta s)) conditions (shst_Conditions (cso_Status s)) in
      \<lparr>shst_Phase = cshard_phase (available lib conds) (om_DeletionTimestamp (cso_Meta s) \<noteq> None) (shst_Phase (cso_Status s)),
       shst_Conditions = conds\<rparr>)"

definition cshard_reconcileStatus ::
    "'v render_env \<Rightarrow> CompiledShard \<Rightarrow> Condition list \<Rightarrow> (wl_world, unit res) act" where
  "cshard_reconcileStatus env s conditions =
     bindA (deployment_condition (om_Namespace (cso_Meta s)) (GetCompiledShardDeploymentName s)) (\<lambda>c.
     bindA (patch_status wl_cshards (\<lambda>m w. w\<lparr>wl_cshards := m\<rparr>) (om_Name (cso_Meta s)) (cso_Status s)
       (cshard_new_status (re_conditions env) s (own_conditions conditions c)) (\<lambda>st s. s\<lparr>cso_Status := st\<rparr>)) (\<lambda>p.
     returnA (aggregate (errors_of c @ errors_of p))))"

definition cshard_Reconcile :: "'v render_env \<Rightarrow> string \<Rightarrow> (wl_world, unit) act" where
  "cshard_Reconcile env name = controller_Reconcile (api_get wl_cshards name)
     (wrap_error ''failed to get shard'') (\<lambda>_. False) (cshard_reconcile env) (cshard_reconcileStatus env)"

section \<open>Front proxies\<close>

definition cfrontproxy_reconcile ::
    "'v render_env \<Rightarrow> CompiledFrontProxy \<Rightarrow> (wl_world, Condition list \<times> unit res) act" where
  "cfrontproxy_reconcile env f =
     (if om_DeletionTimestamp (cfpo_Meta f) \<noteq> None then returnA ([], Inr ())
      else bindA (cpx_Reconcile env (FrontProxyMode f)) (\<lambda>e.
        returnA ([], aggregate (map (wrap_error ''failed to reconcile'') (errors_of e)))))"

definition cfrontproxy_new_status :: "condition_lib \<Rightarrow> CompiledFrontProxy \<Rightarrow> Condition list \<Rightarrow> FrontProxyStatus" where
  "cfrontproxy_new_status lib f conditions =
     (let conds = UpdateConditions lib (om_Generation (cfpo_Meta f)) conditions (fst_Conditions (cfpo_Status f)) in
      \<lparr>fst_Phase = compiled_phase (available lib conds) (om_DeletionTimestamp (cfpo_Meta f) \<noteq> None),
       fst_Conditions = conds\<rparr>)"

definition cfrontproxy_reconcileStatus ::
    "'v render_env \<Rightarrow> CompiledFrontProxy \<Rightarrow> Condition list \<Rightarrow> (wl_world, unit res) act" where
  "cfrontproxy_reconcileStatus env f conditions =
     bindA (deployment_condition (om_Namespace (cfpo_Meta f)) (GetCompiledFrontProxyDeploymentName f)) (\<lambda>c.
     bindA (patch_status wl_cfrontproxies (\<lambda>m w. w\<lparr>wl_cfrontproxies := m\<rparr>) (om_Name (cfpo_Meta f)) (cfpo_Status f)
       (cfrontproxy_new_status (re_conditions env) f (own_conditions conditions c)) (\<lambda>st f. f\<lparr>cfpo_Status := st\<rparr>)) (\<lambda>p.
     returnA (aggregate (errors_of c @ errors_of p))))"

definition cfrontproxy_Reconcile :: "'v render_env \<Rightarrow> string \<Rightarrow> (wl_world, unit) act" where
  "cfrontproxy_Reconcile env name = controller_Reconcile (api_get wl_cfrontproxies name)
     (wrap_error ''failed to get CompiledFrontProxy object'') (\<lambda>_. False) (cfrontproxy_reconcile env)
     (cfrontproxy_reconcileStatus env)"

section \<open>Virtual workspaces\<close>

definition cvw_reconcile ::
    "'v render_env \<Rightarrow> CompiledVirtualWorkspace \<Rightarrow> (wl_world, Condition list \<times> unit res) act" where
  "cvw_reconcile env vw =
     bindA (ensure_deployment (re_hash env) (GetCompiledVirtualWorkspaceDeploymentName vw,
       \<lambda>st. vw_DeploymentReconciler st vw)) (\<lambda>e1.
     bindA (ensure_service (GetCompiledVirtualWorkspaceServiceName vw, vw_ServiceReconciler vw)) (\<lambda>e2.
     returnA ([], aggregate (swallow_mount_errors e1 @ errors_of e2))))"

definition cvw_reconcileStatus ::
    "'v render_env \<Rightarrow> CompiledVirtualWorkspace \<Rightarrow> Condition list \<Rightarrow> (wl_world, unit res) act" where
  "cvw_reconcileStatus env vw conditions =
     bindA (deployment_condition (om_Namespace (cvwo_Meta vw)) (GetCompiledVirtualWorkspaceDeploymentName vw)) (\<lambda>c. case c of
       Inl e \<Rightarrow> returnA (Inl e)
     | Inr cond \<Rightarrow>
         patch_status wl_cvws (\<lambda>m w. w\<lparr>wl_cvws := m\<rparr>) (om_Name (cvwo_Meta vw)) (cvwo_Conditions vw)
           (UpdateConditions (re_conditions env) (om_Generation (cvwo_Meta vw)) (conditions @ [cond]) (cvwo_Conditions vw))
           (\<lambda>cs v. v\<lparr>cvwo_Conditions := cs\<rparr>))"

definition cvw_Reconcile :: "'v render_env \<Rightarrow> string \<Rightarrow> (wl_world, unit) act" where
  "cvw_Reconcile env name = controller_Reconcile (api_get wl_cvws name) (\<lambda>e. e)
     (\<lambda>vw. om_DeletionTimestamp (cvwo_Meta vw) \<noteq> None) (cvw_reconcile env) (cvw_reconcileStatus env)"

section \<open>Cache servers\<close>

text \<open>A cache server has no status, and its service is only rendered after its deployment.\<close>

definition ccacheserver_reconcile :: "'v render_env \<Rightarrow> CompiledCacheServer \<Rightarrow> (wl_world, unit) act" where
  "ccacheserver_reconcile env s =
     bindA (ensure_deployment (re_hash env) (GetCompiledCacheServerDeploymentName s,
       \<lambda>st d. Inr (st, cacheserver_DeploymentReconciler (re_newVersion env) (re_check env) s d))) (\<lambda>r. case r of
       Inl e \<Rightarrow> if errors_Is_mount e then returnA () else failA e
     | Inr _ \<Rightarrow> bindA (ensure_service (GetCompiledCacheServerServiceName s, cacheserver_ServiceReconciler s)) liftA)"

definition ccacheserver_Reconcile :: "'v render_env \<Rightarrow> string \<Rightarrow> (wl_world, unit) act" where
  "ccacheserver_Reconcile env name =
     bindA (tryA (api_get wl_ccacheservers name)) (\<lambda>r. case r of
       Inl e \<Rightarrow> if apierrors_IsNotFound e then returnA () else failA e
     | Inr s \<Rightarrow> if om_DeletionTimestamp (ccs_Meta s) \<noteq> None then returnA () else ccacheserver_reconcile env s)"

end
