(* ===== verification/Revision_Props.thy ===== *)
theory Revision_Props
  imports Revision_Labels
begin

text \<open>
  What the revision labels guarantee. A reference is a target, a kind and a name; as long as no two
  targets of one pod share a label name, the labels are exactly the resource versions of the
  targets, so two pod templates agree if and only if every target has the same version.
\<close>

section \<open>Targets and versions\<close>

type_synonym target = "string \<times> string"

fun ref_target :: "mount_ref \<Rightarrow> target" where
  "ref_target (SecretRef n _) = (''secret'', n)"
| "ref_target (ConfigMapRef n _) = (''configmap'', n)"

fun ref_optional :: "mount_ref \<Rightarrow> bool" where
  "ref_optional (SecretRef _ opt) = opt"
| "ref_optional (ConfigMapRef _ opt) = opt"

definition target_version :: "wl_world \<Rightarrow> target \<Rightarrow> string option" where
  "target_version w t =
     (if fst t = ''secret'' then map_option (\<lambda>s. om_ResourceVersion (sec_Meta s)) (fmlookup (wl_secrets w) (snd t))
      else map_option (\<lambda>c. om_ResourceVersion (cm_Meta c)) (fmlookup (wl_configmaps w) (snd t)))"

definition target_label :: "(string \<Rightarrow> string) \<Rightarrow> target \<Rightarrow> string" where
  "target_label hash t = getLabelName hash (fst t) (snd t)"

definition pod_refs :: "PodSpec \<Rightarrow> mount_ref list" where
  "pod_refs ps = related_refs (ps_Volumes ps) (ps_InitContainers ps @ ps_Containers ps)"

definition no_collisions :: "(string \<Rightarrow> string) \<Rightarrow> PodSpec \<Rightarrow> bool" where
  "no_collisions hash ps \<longleftrightarrow> inj_on (target_label hash) (ref_target ` set (pod_refs ps))"

definition mounts_exist :: "wl_world \<Rightarrow> PodSpec \<Rightarrow> bool" where
  "mounts_exist w ps \<longleftrightarrow> (\<forall>m \<in> set (pod_refs ps). \<not> ref_optional m \<longrightarrow> target_version w (ref_target m) \<noteq> None)"

section \<open>Loading\<close>

lemma run_bind:
  "bindA m f w os = (Inr y, w', os') \<Longrightarrow> \<exists>x v os1. m w os = (Inr x, v, os1) \<and> f x v os1 = (Inr y, w', os')"
  by (auto simp: bindA_def split: prod.splits sum.splits)

lemma api_get_cases:
  "api_get get n w os = (r, w', os') \<Longrightarrow> w' = w \<and> (r = lookup_object (get w) n \<or> r = Inl (ApiError ''connection lost''))"
  by (auto simp: api_get_def api_read_def split: list.splits outcome.splits)

lemma revision_cases:
  assumes "tryA (bindA (api_get get n) (\<lambda>x. returnA (f x))) w os = (Inr r, w', os')"
  shows "w' = w \<and> (case r of Inr v \<Rightarrow> map_option f (fmlookup (get w) n) = Some v
     | Inl e \<Rightarrow> apierrors_IsNotFound e \<longrightarrow> fmlookup (get w) n = None)"
  using assms
  by (auto simp: tryA_def bindA_def api_get_def api_read_def returnA_def lookup_object_def
      split: list.splits outcome.splits sum.splits go_error.splits option.splits prod.splits)

lemma load_mount_step:
  assumes "load_mount hash m labels w os = (Inr labels', w', os')"
  shows "w' = w \<and> (let t = ref_target m; l = target_label hash t in
     if mget labels l \<noteq> None then labels' = labels
     else if target_version w t = None then ref_optional m \<and> labels' = labels
     else labels' = fmupd l (the (target_version w t)) labels)"
proof -
  have step: "w' = w \<and> (if mget labels l \<noteq> None then labels' = labels
     else if map_option f (fmlookup (get w) n) = None then opt \<and> labels' = labels
     else labels' = fmupd l (the (map_option f (fmlookup (get w) n))) labels)"
    if run: "load_ref l (bindA (api_get get n) (\<lambda>x. returnA (f x))) opt labels w os = (Inr labels', w', os')"
    for l opt n and get :: "wl_world \<Rightarrow> (string, 'x) fmap" and f
  proof (cases "mget labels l")
    case None
    obtain r v os1 where r: "tryA (bindA (api_get get n) (\<lambda>x. returnA (f x))) w os = (Inr r, v, os1)"
      "(case r of Inl e \<Rightarrow> if opt \<and> apierrors_IsNotFound e then returnA labels else failA e
        | Inr x \<Rightarrow> returnA (fmupd l x labels)) v os1 = (Inr labels', w', os')"
      using run None by (auto simp: load_ref_def dest: run_bind)
    from revision_cases [OF r(1)] r(2) show ?thesis
      using None by (cases r) (auto simp: returnA_def failA_def split: if_splits)
  next
    case (Some x)
    then show ?thesis using run by (simp add: load_ref_def returnA_def)
  qed
  show ?thesis
  proof (cases m)
    case (SecretRef n opt)
    have "load_ref (getLabelName hash ''secret'' n) (bindA (api_get wl_secrets n) (\<lambda>s. returnA (om_ResourceVersion (sec_Meta s)))) opt
        labels w os = (Inr labels', w', os')"
      using assms by (simp only: SecretRef load_mount.simps secretRevision_def)
    from step [OF this] show ?thesis
      by (simp add: SecretRef target_version_def target_label_def)
  next
    case (ConfigMapRef n opt)
    have "load_ref (getLabelName hash ''configmap'' n) (bindA (api_get wl_configmaps n) (\<lambda>c. returnA (om_ResourceVersion (cm_Meta c)))) opt
        labels w os = (Inr labels', w', os')"
      using assms by (simp only: ConfigMapRef load_mount.simps configMapRevision_def)
    from step [OF this] show ?thesis
      by (simp add: ConfigMapRef target_version_def target_label_def)
  qed
qed

text \<open>The labels say exactly what the versions of the targets seen so far are.\<close>

definition labels_of :: "(string \<Rightarrow> string) \<Rightarrow> wl_world \<Rightarrow> target set \<Rightarrow> gomap \<Rightarrow> bool" where
  "labels_of hash w ts labels \<longleftrightarrow>
     (\<forall>k v. mget labels k = Some v \<longleftrightarrow> (\<exists>t \<in> ts. target_label hash t = k \<and> target_version w t = Some v))"

lemma labels_of_target:
  assumes "labels_of hash w ts labels" "inj_on (target_label hash) (insert t ts)"
  shows "mget labels (target_label hash t) = (if t \<in> ts then target_version w t else None)"
proof -
  have "t' = t" if "t' \<in> ts" "target_label hash t' = target_label hash t" for t'
    by (rule inj_onD [OF assms(2) that(2)]) (use that in auto)
  then have "mget labels (target_label hash t) = Some v \<longleftrightarrow> t \<in> ts \<and> target_version w t = Some v" for v
    using assms(1) unfolding labels_of_def by blast
  then show ?thesis by (metis not_None_eq)
qed

lemma labels_of_step:
  assumes "labels_of hash w ts labels" "inj_on (target_label hash) (insert (ref_target m) ts)"
    "load_mount hash m labels w os = (Inr labels', w', os')"
  shows "w' = w" "labels_of hash w (insert (ref_target m) ts) labels'"
    "ref_optional m \<or> target_version w (ref_target m) \<noteq> None"
proof -
  let ?t = "ref_target m"
  note step = load_mount_step [OF assms(3), unfolded Let_def]
  note look = labels_of_target [OF assms(1,2)]
  show "w' = w" using step by blast
  show "ref_optional m \<or> target_version w ?t \<noteq> None"
    using step look by (auto split: if_splits option.splits)
  show "labels_of hash w (insert ?t ts) labels'"
  proof (cases "mget labels (target_label hash ?t)")
    case None
    have free: "target_version w t' \<noteq> Some v" if "t' \<in> ts" "target_label hash t' = target_label hash ?t" for t' v
      using assms(1) None that unfolding labels_of_def by (metis option.distinct(1))
    show ?thesis
    proof (cases "target_version w ?t")
      case None
      then show ?thesis using step \<open>mget labels _ = None\<close> assms(1) by (simp add: labels_of_def)
    next
      case (Some v)
      then have l': "labels' = fmupd (target_label hash ?t) v labels" using step \<open>mget labels _ = None\<close> by simp
      have "mget labels' k = Some u \<longleftrightarrow> (\<exists>t' \<in> insert ?t ts. target_label hash t' = k \<and> target_version w t' = Some u)" for k u
        using free Some assms(1) by (cases "k = target_label hash ?t") (auto simp: l' labels_of_def)
      then show ?thesis by (simp add: labels_of_def)
    qed
  next
    case (Some v)
    then have "?t \<in> ts" using look by (auto split: if_splits)
    then show ?thesis using step Some assms(1) by (simp add: insert_absorb)
  qed
qed

lemma load_mounts_labels:
  assumes "labels_of hash w ts labels" "inj_on (target_label hash) (ts \<union> ref_target ` set ms)"
    "load_mounts hash ms labels w os = (Inr labels', w', os')"
  shows "w' = w \<and> labels_of hash w (ts \<union> ref_target ` set ms) labels'
     \<and> (\<forall>m \<in> set ms. ref_optional m \<or> target_version w (ref_target m) \<noteq> None)"
  using assms
proof (induction ms arbitrary: labels ts os)
  case Nil
  then show ?case by (simp add: returnA_def)
next
  case (Cons m ms)
  obtain l1 v os1 where 1: "load_mount hash m labels w os = (Inr l1, v, os1)"
    "load_mounts hash ms l1 v os1 = (Inr labels', w', os')"
    using run_bind [OF Cons.prems(3) [unfolded load_mounts.simps]] by blast
  have inj: "inj_on (target_label hash) (insert (ref_target m) ts)"
    by (rule inj_on_subset [OF Cons.prems(2)]) auto
  note step = labels_of_step [OF Cons.prems(1) inj 1(1)]
  show ?case
    using Cons.IH [OF step(2), of os1] Cons.prems(2) 1(2) step(1,3) by simp
qed

lemma labels_of_empty [simp]: "labels_of hash w {} fmempty"
  by (simp add: labels_of_def)

section \<open>The modified deployment\<close>

definition with_labels :: "gomap \<Rightarrow> Deployment \<Rightarrow> Deployment" where
  "with_labels labels d = d\<lparr>dep_Spec := (dep_Spec d)\<lparr>ds_Template := (ds_Template (dep_Spec d))\<lparr>
     pt_Labels := maps_Copy (pt_Labels (ds_Template (dep_Spec d))) labels\<rparr>\<rparr>\<rparr>"

lemma addRevisionLabels_run:
  assumes "addRevisionLabelsToObject hash d w os = (Inr d', w', os')"
  shows "\<exists>labels. d' = with_labels labels d \<and> (no_collisions hash (pod_of d) \<longrightarrow>
     labels_of hash w (ref_target ` set (pod_refs (pod_of d))) labels \<and> w' = w \<and> mounts_exist w (pod_of d))"
proof -
  let ?ps = "ds_Template (dep_Spec d)"
  obtain t v os1 where t: "addRevisionLabelsToPodSpec hash ?ps w os = (Inr t, v, os1)"
    "d' = d\<lparr>dep_Spec := (dep_Spec d)\<lparr>ds_Template := t\<rparr>\<rparr>" "w' = v"
    using run_bind [OF assms [unfolded addRevisionLabelsToObject_def]]
    by (auto simp: wrapA_def returnA_def split: prod.splits)
  obtain r v1 os2 where r: "tryA (getRelatedRevisionLabels hash (ps_Volumes (pt_Spec ?ps))
       (ps_InitContainers (pt_Spec ?ps) @ ps_Containers (pt_Spec ?ps))) w os = (Inr r, v1, os2)"
    "(case r of Inl e \<Rightarrow> failA (if apierrors_IsNotFound e then MountNotFound e else e)
       | Inr revisionLabels \<Rightarrow> returnA (?ps\<lparr>pt_Labels := maps_Copy (pt_Labels ?ps) revisionLabels\<rparr>)) v1 os2 = (Inr t, v, os1)"
    using run_bind [OF t(1) [unfolded addRevisionLabelsToPodSpec_def]] by blast
  then obtain labels where l: "r = Inr labels" "t = ?ps\<lparr>pt_Labels := maps_Copy (pt_Labels ?ps) labels\<rparr>" "v = v1"
    by (cases r) (auto simp: failA_def returnA_def)
  have "load_mounts hash (pod_refs (pod_of d)) fmempty w os = (Inr labels, v1, os2)"
    using r(1) unfolding l(1)
    by (auto simp: getRelatedRevisionLabels_def tryA_def pod_refs_def pod_of_def split: prod.splits sum.splits go_error.splits)
  from load_mounts_labels [OF labels_of_empty _ this]
  show ?thesis using t(2,3) l(2,3) by (auto simp: no_collisions_def with_labels_def mounts_exist_def)
qed

text \<open>C17: Pods are restarted exactly when something they mount has changed: for one rendered deployment,
  labelled at two moments, the two results are equal if and only if every referenced secret and
  config map has the same resource version at both moments, or is missing at both.\<close>

theorem pods_restart_iff_mounts_change:
  assumes "addRevisionLabelsToObject hash d w1 os1 = (Inr d1, v1, rest1)"
    and "addRevisionLabelsToObject hash d w2 os2 = (Inr d2, v2, rest2)"
    and "no_collisions hash (pod_of d)"
    and "\<forall>m \<in> set (pod_refs (pod_of d)). mget (pt_Labels (ds_Template (dep_Spec d))) (target_label hash (ref_target m)) = None"
  shows "d1 = d2 \<longleftrightarrow> (\<forall>m \<in> set (pod_refs (pod_of d)). target_version w1 (ref_target m) = target_version w2 (ref_target m))"
proof -
  let ?ts = "ref_target ` set (pod_refs (pod_of d))"
  let ?base = "pt_Labels (ds_Template (dep_Spec d))"
  obtain l1 where l1: "d1 = with_labels l1 d" "labels_of hash w1 ?ts l1"
    using addRevisionLabels_run [OF assms(1)] assms(3) by blast
  obtain l2 where l2: "d2 = with_labels l2 d" "labels_of hash w2 ?ts l2"
    using addRevisionLabels_run [OF assms(2)] assms(3) by blast
  have at: "mget l1 (target_label hash t) = target_version w1 t" "mget l2 (target_label hash t) = target_version w2 t"
    if "t \<in> ?ts" for t
  proof -
    have inj: "inj_on (target_label hash) (insert t ?ts)"
      using assms(3) by (simp only: no_collisions_def insert_absorb [OF that])
    show "mget l1 (target_label hash t) = target_version w1 t" "mget l2 (target_label hash t) = target_version w2 t"
      using labels_of_target [OF l1(2) inj] labels_of_target [OF l2(2) inj] that by simp_all
  qed
  have "d1 = d2 \<longleftrightarrow> maps_Copy ?base l1 = maps_Copy ?base l2"
    by (auto simp: l1 l2 with_labels_def dest: arg_cong [where f = "\<lambda>d. pt_Labels (ds_Template (dep_Spec d))"])
  also have "\<dots> \<longleftrightarrow> (\<forall>t \<in> ?ts. target_version w1 t = target_version w2 t)"
  proof
    assume eq: "maps_Copy ?base l1 = maps_Copy ?base l2"
    show "\<forall>t \<in> ?ts. target_version w1 t = target_version w2 t"
    proof
      fix t assume t: "t \<in> ?ts"
      have "mget (maps_Copy ?base l1) (target_label hash t) = mget (maps_Copy ?base l2) (target_label hash t)" using eq by simp
      then show "target_version w1 t = target_version w2 t"
        using at [OF t] t assms(4) by (auto split: option.splits)
    qed
  next
    assume same: "\<forall>t \<in> ?ts. target_version w1 t = target_version w2 t"
    then have "mget l1 k = Some v \<longleftrightarrow> mget l2 k = Some v" for k v
      using l1(2) l2(2) unfolding labels_of_def by metis
    then have "l1 = l2" by (intro fmap_ext) (metis not_None_eq)
    then show "maps_Copy ?base l1 = maps_Copy ?base l2" by simp
  qed
  finally show ?thesis by simp
qed

section \<open>A concrete run\<close>

definition sample_mounting :: Deployment where
  "sample_mounting = set_pod (PodSpec_zero\<lparr>ps_Volumes := [secret_volume ''tls'' ''serving'']\<rparr>) Deployment_zero"

definition empty_wl_world :: wl_world where
  "empty_wl_world = \<lparr>wl_secrets = fmempty, wl_configmaps = fmempty, wl_services = fmempty, wl_deployments = fmempty,
     wl_crootshards = fmempty, wl_cshards = fmempty, wl_cfrontproxies = fmempty, wl_ccacheservers = fmempty,
     wl_cvws = fmempty, wl_memory = init_rstore\<rparr>"

definition secret_version :: "string \<Rightarrow> string \<Rightarrow> Secret" where
  "secret_version n v = \<lparr>sec_Meta = ObjectMeta_zero\<lparr>om_Name := n, om_ResourceVersion := v\<rparr>, sec_Data = fmempty\<rparr>"

definition serving_world :: "string \<Rightarrow> wl_world" where
  "serving_world v = empty_wl_world\<lparr>wl_secrets := fmap_of_list [(''serving'', secret_version ''serving'' v)]\<rparr>"

lemma sample_mounting_refs: "pod_refs (pod_of sample_mounting) = [SecretRef ''serving'' False]"
  by (simp add: pod_refs_def sample_mounting_def related_refs_def volume_refs_def PodSpec_zero_def)

lemma sample_mounting_run:
  "addRevisionLabelsToObject (\<lambda>n. n) sample_mounting (serving_world v) []
     = (Inr (with_labels (fmupd (getLabelName (\<lambda>n. n) ''secret'' ''serving'') v fmempty) sample_mounting), serving_world v, [])"
proof -
  have "load_mounts (\<lambda>n. n) [SecretRef ''serving'' False] fmempty (serving_world v) []
     = (Inr (fmupd (getLabelName (\<lambda>n. n) ''secret'' ''serving'') v fmempty), serving_world v, [])"
    by (simp add: load_ref_def secretRevision_def bindA_def tryA_def api_get_def lookup_object_def serving_world_def
        secret_version_def fmlookup_of_list)
  then show ?thesis
    using sample_mounting_refs
    by (simp add: addRevisionLabelsToObject_def addRevisionLabelsToPodSpec_def getRelatedRevisionLabels_def pod_refs_def
        wrapA_def bindA_def tryA_def with_labels_def pod_of_def)
qed

theorem pods_restart_iff_mounts_change_witness:
  "\<exists>d1 d2. addRevisionLabelsToObject (\<lambda>n. n) sample_mounting (serving_world ''1'') [] = (Inr d1, serving_world ''1'', [])
     \<and> addRevisionLabelsToObject (\<lambda>n. n) sample_mounting (serving_world ''2'') [] = (Inr d2, serving_world ''2'', []) \<and> d1 \<noteq> d2"
proof -
  have "no_collisions (\<lambda>n. n) (pod_of sample_mounting)"
    by (simp add: no_collisions_def sample_mounting_refs)
  moreover have "\<forall>m \<in> set (pod_refs (pod_of sample_mounting)).
      mget (pt_Labels (ds_Template (dep_Spec sample_mounting))) (target_label (\<lambda>n. n) (ref_target m)) = None"
    by (simp add: sample_mounting_def set_pod_def Deployment_zero_def)
  moreover have "target_version (serving_world ''1'') (''secret'', ''serving'') \<noteq> target_version (serving_world ''2'') (''secret'', ''serving'')"
    by (simp add: target_version_def serving_world_def secret_version_def fmlookup_of_list)
  ultimately show ?thesis
    using pods_restart_iff_mounts_change [OF sample_mounting_run [of "''1''"] sample_mounting_run [of "''2''"]]
      sample_mounting_run [of "''1''"] sample_mounting_run [of "''2''"]
    by (auto simp: sample_mounting_refs)
qed

end
