(* ===== verification/Compiled_Props.thy ===== *)
theory Compiled_Props
  imports Compiled_Controllers Revision_Props
begin

text \<open>
  The controllers of the compiled objects: no deployment is written before everything its pods
  mount exists, a missing mount is not an error, and the status says what the deployment does.
\<close>

section \<open>Mounts come first\<close>

definition backed :: "(string \<Rightarrow> string) \<Rightarrow> wl_world \<Rightarrow> wl_world \<Rightarrow> bool" where
  "backed hash w0 w \<longleftrightarrow> (\<forall>n d res. fmlookup (wl_deployments w) n = Some (d, res) \<longrightarrow>
     fmlookup (wl_deployments w0) n = Some (d, res) \<or> (no_collisions hash (pod_of d) \<longrightarrow> mounts_exist w (pod_of d)))"

lemma backed_refl: "backed hash w w"
  by (simp add: backed_def)

lemma backed_mono:
  assumes "backed hash w0 w" "wl_deployments w' = wl_deployments w"
    "\<And>t. target_version w t \<noteq> None \<Longrightarrow> target_version w' t \<noteq> None"
  shows "backed hash w0 w'"
  using assms unfolding backed_def mounts_exist_def by metis

lemma backed_kinds:
  "keeps (backed hash w0) (ensure_objects wl_service_kind caps1 recs1)"
  "keeps (backed hash w0) (ensure_objects wl_secret_kind caps2 recs2)"
  "keeps (backed hash w0) (ensure_objects wl_configmap_kind caps3 recs3)"
  by (rule keeps_ensure, erule backed_mono; auto simp: wl_kind_defs target_version_def)+

lemma backed_service: "keeps (backed hash w0) (ensure_service rec)"
  unfolding ensure_service_def by (auto intro!: keeps_bind keeps_basic backed_kinds split: prod.split)

lemma keeps_load_mounts: "keeps (\<lambda>v. v = w) (load_mounts hash ms labels)"
proof (induction ms arbitrary: labels)
  case Nil
  then show ?case by (simp add: keeps_return)
next
  case (Cons m ms)
  have "keeps (\<lambda>v. v = w) (load_mount hash m labels)"
    by (cases m) (auto simp: load_ref_def secretRevision_def configMapRevision_def split: sum.split
        intro!: keeps_bind keeps_try keeps_basic)
  then show ?case using Cons.IH by (auto intro!: keeps_bind)
qed

lemma keeps_add_labels: "keeps (\<lambda>v. v = w) (addRevisionLabelsToObject hash d)"
  unfolding addRevisionLabelsToObject_def addRevisionLabelsToPodSpec_def getRelatedRevisionLabels_def
  by (auto split: sum.split intro!: keeps_bind keeps_wrap keeps_try keeps_basic keeps_load_mounts)

lemma pod_of_with_labels [simp]: "pod_of (with_labels l d) = pod_of d" "pod_of (name_deployment n d) = pod_of d"
  by (simp_all add: with_labels_def name_deployment_def pod_of_def)

lemma backed_store:
  assumes "backed hash w0 w" "no_collisions hash (pod_of d) \<longrightarrow> mounts_exist w (pod_of d)"
  shows "backed hash w0 (store_deployment n d w)"
proof -
  have "target_version (store_deployment n d w) t = target_version w t" for t
    by (simp add: target_version_def store_deployment_def)
  then show ?thesis
    using assms by (auto simp: backed_def mounts_exist_def store_deployment_def)
qed

lemma backed_build: "keeps (backed hash w0) (build_deployment hash rec n old)"
proof -
  have run: "keeps (backed hash w0) (run_reconciler rec d)" for d
    by (auto simp: keeps_def holds_def run_reconciler_def target_version_def split: sum.splits prod.splits
        elim!: backed_mono)
  have rest: "keeps (backed hash w0) (bindA (addRevisionLabelsToObject hash d)
      (\<lambda>d. write_deployment n old (name_deployment n d)))" for d
    unfolding keeps_def
  proof (rule holds_bind [where R = "\<lambda>r w. backed hash w0 w \<and> (\<forall>d'. r = Inr d' \<longrightarrow>
      (no_collisions hash (pod_of d') \<longrightarrow> mounts_exist w (pod_of d')))"])
    show "holds (backed hash w0) (addRevisionLabelsToObject hash d) (\<lambda>r w. backed hash w0 w \<and> (\<forall>d'. r = Inr d' \<longrightarrow>
      (no_collisions hash (pod_of d') \<longrightarrow> mounts_exist w (pod_of d'))))"
      unfolding holds_def
    proof (intro allI impI)
      fix w os assume b: "backed hash w0 w"
      obtain r w' os' where m: "addRevisionLabelsToObject hash d w os = (r, w', os')"
        by (cases "addRevisionLabelsToObject hash d w os") auto
      have "w' = w" using keeps_run [OF keeps_add_labels, of w w hash d os] m by simp
      then show "case addRevisionLabelsToObject hash d w os of (r, w', os') \<Rightarrow> backed hash w0 w' \<and> (\<forall>d'. r = Inr d' \<longrightarrow>
          (no_collisions hash (pod_of d') \<longrightarrow> mounts_exist w' (pod_of d')))"
        using m b by (auto dest: addRevisionLabels_run)
    qed
    show "holds (\<lambda>w. backed hash w0 w \<and> (\<forall>d'. Inr x = Inr d' \<longrightarrow> (no_collisions hash (pod_of d') \<longrightarrow> mounts_exist w (pod_of d'))))
       (write_deployment n old (name_deployment n x)) (\<lambda>_. backed hash w0)" for x
      by (auto simp: holds_def write_deployment_def api_write_def split: list.splits outcome.splits intro!: backed_store)
  qed simp
  show ?thesis
    unfolding build_deployment_def by (auto intro!: keeps_bind run rest)
qed

lemma backed_deployment: "keeps (backed hash w0) (ensure_deployment hash rec)"
  unfolding ensure_deployment_def by (auto intro!: keeps_bind keeps_try keeps_wrap keeps_basic backed_build)

lemma backed_proxy: "keeps (backed (re_hash env) w0) (cpx_Reconcile env p)"
  unfolding cpx_Reconcile_def
  by (auto split: prod.split intro!: keeps_bind keeps_basic backed_kinds backed_deployment backed_service)

lemma backed_patch:
  assumes "\<And>m w. wl_deployments (put m w) = wl_deployments w" "\<And>m w t. target_version (put m w) t = target_version w t"
  shows "keeps (backed hash w0) (patch_status get put n old new f)"
  unfolding patch_status_def
  by (auto intro!: keeps_basic keeps_try keeps_call
      simp: patch_object_def bindE_eq_Inr assms elim!: backed_mono)

lemma backed_condition: "keeps P (deployment_condition ns n)"
  unfolding deployment_condition_def by (auto intro!: keeps_bind keeps_try keeps_basic)

lemmas backed_rules = keeps_bind keeps_basic keeps_try backed_deployment backed_service backed_proxy backed_condition
  backed_patch

lemma backed_controllers:
  "keeps (backed (re_hash env) w0) (crootshard_Reconcile env n)"
  "keeps (backed (re_hash env) w0) (cshard_Reconcile env n)"
  "keeps (backed (re_hash env) w0) (cfrontproxy_Reconcile env n)"
  "keeps (backed (re_hash env) w0) (cvw_Reconcile env n)"
  "keeps (backed (re_hash env) w0) (ccacheserver_Reconcile env n)"
proof -
  note defs = crootshard_Reconcile_def crootshard_reconcile_def crootshard_reconcileStatus_def
    cshard_Reconcile_def cshard_reconcile_def cshard_reconcileStatus_def
    cfrontproxy_Reconcile_def cfrontproxy_reconcile_def cfrontproxy_reconcileStatus_def
    cvw_Reconcile_def cvw_reconcile_def cvw_reconcileStatus_def
  show "keeps (backed (re_hash env) w0) (crootshard_Reconcile env n)"
    "keeps (backed (re_hash env) w0) (cshard_Reconcile env n)"
    "keeps (backed (re_hash env) w0) (cfrontproxy_Reconcile env n)"
    "keeps (backed (re_hash env) w0) (cvw_Reconcile env n)"
    unfolding defs
    by (auto intro!: keeps_controller_Reconcile backed_rules split: sum.split simp: target_version_def)
  show "keeps (backed (re_hash env) w0) (ccacheserver_Reconcile env n)"
    unfolding ccacheserver_Reconcile_def ccacheserver_reconcile_def
    by (auto intro!: backed_rules split: sum.split)
qed

definition compiled_reconcilers :: "'v render_env \<Rightarrow> string \<Rightarrow> (wl_world, unit) act set" where
  "compiled_reconcilers env n = {crootshard_Reconcile env n, cshard_Reconcile env n, cfrontproxy_Reconcile env n,
     cvw_Reconcile env n, ccacheserver_Reconcile env n}"

text \<open>C8: No deployment is created or changed while something its pods mount is missing: in every run of
  every controller, whichever API calls fail, a deployment that is new or different afterwards has
  all its mandatory secrets and config maps.\<close>

theorem deployments_wait_for_mounts:
  assumes "m \<in> compiled_reconcilers env name" "m w os = (r, w', os')"
    and "fmlookup (wl_deployments w') n = Some (d, res)" "fmlookup (wl_deployments w) n \<noteq> Some (d, res)"
    and "no_collisions (re_hash env) (pod_of d)"
  shows "mounts_exist w' (pod_of d)"
proof -
  have "keeps (backed (re_hash env) w) m"
    using assms(1) by (auto simp: compiled_reconcilers_def backed_controllers)
  from keeps_run [OF this backed_refl, of os] assms(2) have "backed (re_hash env) w w'" by simp
  then show ?thesis using assms(3-5) unfolding backed_def by blast
qed

section \<open>Runs without API failures\<close>

lemma load_mount_ok:
  assumes "load_mount hash m labels w [] = (r, w', os')"
  shows "w' = w \<and> os' = [] \<and> (\<forall>e. r = Inl e \<longrightarrow> apierrors_IsNotFound e
     \<and> \<not> ref_optional m \<and> target_version w (ref_target m) = None)"
  using assms
  by (cases m) (auto simp: load_ref_def secretRevision_def configMapRevision_def target_version_def lookup_object_def
      bindA_def tryA_def api_get_def returnA_def failA_def split: if_splits option.splits)

lemma load_mounts_ok:
  assumes "load_mounts hash ms labels w [] = (r, w', os')"
  shows "w' = w \<and> os' = [] \<and> (\<forall>e. r = Inl e \<longrightarrow> apierrors_IsNotFound e
     \<and> (\<exists>m \<in> set ms. \<not> ref_optional m \<and> target_version w (ref_target m) = None))"
  using assms
proof (induction ms arbitrary: labels)
  case Nil
  then show ?case by (auto simp: returnA_def)
next
  case (Cons m ms)
  obtain r1 v os1 where 1: "load_mount hash m labels w [] = (r1, v, os1)" by (cases "load_mount hash m labels w []") auto
  note ok = load_mount_ok [OF 1]
  show ?case
  proof (cases r1)
    case (Inl e)
    then show ?thesis using Cons.prems 1 ok by (auto simp: bindA_def)
  next
    case (Inr l1)
    then have "load_mounts hash ms l1 w [] = (r, w', os')" using Cons.prems 1 ok by (simp add: bindA_def)
    from Cons.IH [OF this] show ?thesis by auto
  qed
qed

lemma add_labels_ok:
  assumes "addRevisionLabelsToObject hash d w [] = (r, w', os')" "no_collisions hash (pod_of d)"
  shows "w' = w \<and> os' = [] \<and> (case r of
     Inl e \<Rightarrow> errors_Is_mount e \<and> \<not> mounts_exist w (pod_of d)
   | Inr d' \<Rightarrow> mounts_exist w (pod_of d) \<and> (\<exists>labels. d' = with_labels labels d
       \<and> labels_of hash w (ref_target ` set (pod_refs (pod_of d))) labels))"
proof (cases r)
  case (Inr d')
  have "w' = w" using keeps_run [OF keeps_add_labels, of w w hash d "[]"] assms(1) by simp
  moreover obtain l v os1 where "load_mounts hash (pod_refs (pod_of d)) fmempty w [] = (l, v, os1)"
    by (cases "load_mounts hash (pod_refs (pod_of d)) fmempty w []") auto
  ultimately show ?thesis
    using load_mounts_ok [of hash "pod_refs (pod_of d)" fmempty w l v os1] addRevisionLabels_run [of hash d w "[]" d' w' os'] assms Inr
    by (auto simp: addRevisionLabelsToObject_def addRevisionLabelsToPodSpec_def getRelatedRevisionLabels_def pod_refs_def
        pod_of_def bindA_def wrapA_def tryA_def returnA_def failA_def split: sum.splits go_error.splits prod.splits)
next
  case (Inl e)
  obtain l v os1 where l: "load_mounts hash (pod_refs (pod_of d)) fmempty w [] = (l, v, os1)"
    by (cases "load_mounts hash (pod_refs (pod_of d)) fmempty w []") auto
  note ok = load_mounts_ok [OF l]
  obtain e1 where e1: "l = Inl e1"
    using assms(1) Inl l ok
    by (cases l) (auto simp: addRevisionLabelsToObject_def addRevisionLabelsToPodSpec_def getRelatedRevisionLabels_def
        pod_refs_def pod_of_def bindA_def wrapA_def tryA_def returnA_def)
  have nf: "apierrors_IsNotFound e1" "\<forall>s. e1 \<noteq> Panic s" using ok e1 by (auto elim: apierrors_IsNotFound.elims)
  then have "tryA (load_mounts hash (pod_refs (pod_of d)) fmempty) w [] = (Inr (Inl e1), w, [])"
    using l ok e1 by (cases e1) (simp_all add: tryA_def)
  then have "addRevisionLabelsToObject hash d w [] = (Inl (Wrapped ''failed to determine revision labels'' (MountNotFound e1)), w, [])"
    using nf(1) by (simp add: addRevisionLabelsToObject_def addRevisionLabelsToPodSpec_def getRelatedRevisionLabels_def
        pod_refs_def pod_of_def bindA_def wrapA_def wrap_error_def failA_def)
  then show ?thesis using assms(1) Inl ok e1 by (auto simp: mounts_exist_def)
qed

definition existing :: "wl_world \<Rightarrow> string \<Rightarrow> Deployment" where
  "existing w n = (case fmlookup (wl_deployments w) n of None \<Rightarrow> Deployment_zero | Some (d, _) \<Rightarrow> d)"

definition deployed :: "string \<Rightarrow> Deployment \<Rightarrow> rstore \<Rightarrow> wl_world \<Rightarrow> wl_world" where
  "deployed n d st w = w\<lparr>wl_memory := st,
     wl_deployments := fmupd n (name_deployment n d, pod_resources st d) (wl_deployments w)\<rparr>"

lemma fmupd_same: "fmlookup m k = Some v \<Longrightarrow> fmupd k v m = m"
  by (rule fmap_ext) auto

lemma deployed_same:
  "fmlookup (wl_deployments w) n = Some (name_deployment n d, pod_resources st d) \<Longrightarrow> deployed n d st w = w\<lparr>wl_memory := st\<rparr>"
  by (cases w) (simp add: deployed_def fmupd_same)

lemma pod_resources_parts [simp]:
  "pod_resources st (name_deployment n d) = pod_resources st d" "pod_resources st (with_labels labels d) = pod_resources st d"
  by (simp_all add: pod_resources_def)

text \<open>Ensuring a deployment when no API call fails: if everything its pods mount exists, it is stored as
  rendered, with the versions of the mounts in its labels and the resources of that moment;
  otherwise the stored one is left alone, and the error is one the controllers ignore.\<close>

lemma ensure_deployment_run:
  assumes "rec (wl_memory w) (existing w n) = Inr (st, d)" "no_collisions hash (pod_of d)"
  shows "if mounts_exist w (pod_of d)
     then \<exists>labels. labels_of hash w (ref_target ` set (pod_refs (pod_of d))) labels
       \<and> ensure_deployment hash (n, rec) w [] = (Inr (Inr ()), deployed n (with_labels labels d) st w, [])
     else \<exists>e. ensure_deployment hash (n, rec) w [] = (Inr (Inl e), w\<lparr>wl_memory := st\<rparr>, []) \<and> errors_Is_mount e"
proof -
  let ?w = "w\<lparr>wl_memory := st\<rparr>"
  obtain r v os1 where r: "addRevisionLabelsToObject hash d ?w [] = (r, v, os1)"
    by (cases "addRevisionLabelsToObject hash d ?w []") auto
  note ok = add_labels_ok [OF r assms(2)]
  have same: "target_version ?w t = target_version w t" for t by (simp add: target_version_def)
  have ex: "mounts_exist ?w ps = mounts_exist w ps" "labels_of hash ?w ts l = labels_of hash w ts l" for ps ts l
    by (simp_all add: mounts_exist_def labels_of_def same)
  have run: "build_deployment hash rec n (fmlookup (wl_deployments w) n) w []
      = bindA (addRevisionLabelsToObject hash d) (\<lambda>d. write_deployment n (fmlookup (wl_deployments w) n) (name_deployment n d)) ?w []"
    using assms(1) by (simp add: build_deployment_def bindA_def run_reconciler_def existing_def split: option.splits prod.splits)
  have top: "ensure_deployment hash (n, rec) w [] = tryA (wrapA ''failed to ensure object'' (\<lambda>w os.
      bindA (addRevisionLabelsToObject hash d) (\<lambda>d. write_deployment n (fmlookup (wl_deployments w) n) (name_deployment n d)) ?w os)) w []"
    using run by (simp add: ensure_deployment_def tryA_def wrapA_def bindA_def)
  show ?thesis
  proof (cases r)
    case (Inl e)
    then have e: "errors_Is_mount e" "\<not> mounts_exist w (pod_of d)" using ok by (simp_all add: ex)
    then have w: "wrap_error ''failed to ensure object'' e = Wrapped ''failed to ensure object'' e"
      by (cases e) (simp_all add: wrap_error_def)
    show ?thesis using e ok r Inl by (simp add: top bindA_def wrapA_def tryA_def w)
  next
    case (Inr d')
    then obtain labels where l: "mounts_exist w (pod_of d)" "d' = with_labels labels d"
      "labels_of hash w (ref_target ` set (pod_refs (pod_of d))) labels" using ok by (auto simp: ex)
    have "write_deployment n (fmlookup (wl_deployments w) n) (name_deployment n d') ?w []
        = (Inr (), deployed n (with_labels labels d) st w, [])"
      using deployed_same [of w n "with_labels labels d" st]
      by (simp add: l(2) write_deployment_def store_deployment_def deployed_def)
    then have "ensure_deployment hash (n, rec) w [] = (Inr (Inr ()), deployed n (with_labels labels d) st w, [])"
      using ok r Inr by (simp add: top bindA_def wrapA_def tryA_def)
    then show ?thesis using l by auto
  qed
qed

section \<open>A missing mount is not an error\<close>

definition service_after :: "string \<times> (Service \<Rightarrow> Service) \<Rightarrow> wl_world \<Rightarrow> wl_world" where
  "service_after rec w = w\<lparr>wl_services := fmupd (fst rec) (k_name wl_service_kind (fst rec)
     (snd rec (case fmlookup (wl_services w) (fst rec) of None \<Rightarrow> Service_zero | Some s \<Rightarrow> s))) (wl_services w)\<rparr>"

lemma ensure_service_run: "ensure_service rec w [] = (Inr (Inr ()), service_after rec w, [])"
  by (cases rec) (auto simp: ensure_service_def ensure_objects.simps ensure_object_def bindA_def tryA_def Let_def
      wl_service_kind_def service_after_def fmupd_same split: option.split)

lemma service_after_simps [simp]:
  "wl_deployments (service_after rec w) = wl_deployments w" "wl_cshards (service_after rec w) = wl_cshards w"
  "fmlookup (wl_services (service_after rec w)) (fst rec) \<noteq> None"
  by (simp_all add: service_after_def)

lemma deployment_condition_run:
  "\<exists>c. deployment_condition ns n w [] = (Inr (Inr c), w, []) \<and> cond_Type c = ''Available''
     \<and> (cond_Status c = ConditionTrue \<longleftrightarrow> (\<exists>d res. fmlookup (wl_deployments w) n = Some (d, res)
         \<and> om_Name (dep_Meta d) \<noteq> [] \<and> deploymentReady d))"
  by (auto simp: deployment_condition_def bindA_def tryA_def api_get_def lookup_object_def
      GetDeploymentAvailableCondition_def new_condition_def Let_def split: option.split)

lemma patch_status_run:
  "fmlookup (get w) n = Some x \<Longrightarrow> patch_status get put n old new f w []
     = (Inr (Inr ()), if new = old then w else put (fmupd n (f new x) (get w)) w, [])"
  by (simp add: patch_status_def tryA_def api_call_run patch_object_def lookup_object_def)

text \<open>The rest of a run of the controller of shards, once the deployment is done.\<close>

lemma shard_run_after:
  assumes s: "fmlookup (wl_cshards w) n = Some s" "om_Name (cso_Meta s) = n" "om_DeletionTimestamp (cso_Meta s) = None"
    and e: "ensure_deployment (re_hash env) (GetCompiledShardDeploymentName s,
        \<lambda>st. shard_DeploymentReconciler (re_newVersion env) (re_check env) st s) w [] = (Inr e1, v, [])"
      "swallow_mount_errors e1 = []" "wl_cshards v = wl_cshards w"
  shows "\<exists>w'. cshard_Reconcile env n w [] = (Inr (), w', []) \<and> wl_deployments w' = wl_deployments v
     \<and> fmlookup (wl_services w') (GetCompiledShardServiceName s) \<noteq> None"
proof -
  let ?rec = "(GetCompiledShardDeploymentName s, \<lambda>st. shard_DeploymentReconciler (re_newVersion env) (re_check env) st s)"
  let ?svc = "(GetCompiledShardServiceName s, shard_ServiceReconciler s)"
  let ?v = "service_after ?svc v"
  have rec: "cshard_reconcile env s w [] = (Inr ([], Inr ()), ?v, [])"
    using s(3) e(2) by (simp add: cshard_reconcile_def bindA_run [where m = "ensure_deployment (re_hash env) ?rec", OF e(1)]
      bindA_run [where m = "ensure_service ?svc", OF ensure_service_run])
  have look: "fmlookup (wl_cshards ?v) (om_Name (cso_Meta s)) = Some s" using s e(3) by simp
  obtain c where c: "deployment_condition (om_Namespace (cso_Meta s)) (GetCompiledShardDeploymentName s) ?v [] = (Inr (Inr c), ?v, [])"
    using deployment_condition_run by blast
  let ?new = "cshard_new_status (re_conditions env) s (own_conditions [] (Inr c))"
  define w' where "w' = (if ?new = cso_Status s then ?v
    else ?v\<lparr>wl_cshards := fmupd (om_Name (cso_Meta s)) (s\<lparr>cso_Status := ?new\<rparr>) (wl_cshards ?v)\<rparr>)"
  have st: "cshard_reconcileStatus env s [] ?v [] = (Inr (Inr ()), w', [])"
    unfolding cshard_reconcileStatus_def bindA_run [where m = "deployment_condition (om_Namespace (cso_Meta s))
      (GetCompiledShardDeploymentName s)", OF c] bindA_run [where m = "patch_status wl_cshards (\<lambda>m w. w\<lparr>wl_cshards := m\<rparr>)
      (om_Name (cso_Meta s)) (cso_Status s) ?new (\<lambda>st s. s\<lparr>cso_Status := st\<rparr>)",
      OF patch_status_run [where get = wl_cshards, OF look]]
    by (simp add: w'_def returnA_def)
  have kept: "wl_deployments w' = wl_deployments ?v" "wl_services w' = wl_services ?v"
    by (simp_all add: w'_def)
  have get: "tryA (api_get wl_cshards n) w [] = (Inr (Inr s), w, [])"
    using s by (simp add: tryA_def api_get_def lookup_object_def)
  have "cshard_Reconcile env n w [] = (Inr (), w', [])"
    by (simp add: cshard_Reconcile_def controller_Reconcile_def finish_def
      bindA_run [where m = "tryA (api_get wl_cshards n)", OF get]
      bindA_run [where m = "cshard_reconcile env s", OF rec] bindA_run [where m = "cshard_reconcileStatus env s []", OF st])
  moreover have "fmlookup (wl_services w') (GetCompiledShardServiceName s) \<noteq> None"
    using service_after_simps(3) [of ?svc] by (simp add: kept(2))
  ultimately show ?thesis by (auto simp: kept(1))
qed

lemma shard_run_mounted:
  assumes s: "fmlookup (wl_cshards w) n = Some s" "om_Name (cso_Meta s) = n" "om_DeletionTimestamp (cso_Meta s) = None"
    and d: "shard_DeploymentReconciler (re_newVersion env) (re_check env) (wl_memory w) s
      (existing w (GetCompiledShardDeploymentName s)) = Inr (st, d)" "no_collisions (re_hash env) (pod_of d)"
    and "mounts_exist w (pod_of d)"
  shows "\<exists>w' labels. cshard_Reconcile env n w [] = (Inr (), w', []) \<and> fmlookup (wl_services w') (GetCompiledShardServiceName s) \<noteq> None
     \<and> labels_of (re_hash env) w (ref_target ` set (pod_refs (pod_of d))) labels
     \<and> wl_deployments w' = wl_deployments (deployed (GetCompiledShardDeploymentName s) (with_labels labels d) st w)"
proof -
  obtain labels where l: "labels_of (re_hash env) w (ref_target ` set (pod_refs (pod_of d))) labels"
    and e: "ensure_deployment (re_hash env) (GetCompiledShardDeploymentName s,
      \<lambda>st. shard_DeploymentReconciler (re_newVersion env) (re_check env) st s) w []
      = (Inr (Inr ()), deployed (GetCompiledShardDeploymentName s) (with_labels labels d) st w, [])"
    using ensure_deployment_run [where rec = "\<lambda>st. shard_DeploymentReconciler (re_newVersion env) (re_check env) st s", OF d]
      assms(6) by auto
  show ?thesis
    using shard_run_after [OF s e] l by (auto simp: swallow_mount_errors_def deployed_def)
qed

lemma shard_run_blocked:
  assumes s: "fmlookup (wl_cshards w) n = Some s" "om_Name (cso_Meta s) = n" "om_DeletionTimestamp (cso_Meta s) = None"
    and d: "shard_DeploymentReconciler (re_newVersion env) (re_check env) (wl_memory w) s
      (existing w (GetCompiledShardDeploymentName s)) = Inr (st, d)" "no_collisions (re_hash env) (pod_of d)"
    and "\<not> mounts_exist w (pod_of d)"
  shows "\<exists>w'. cshard_Reconcile env n w [] = (Inr (), w', []) \<and> fmlookup (wl_services w') (GetCompiledShardServiceName s) \<noteq> None
     \<and> wl_deployments w' = wl_deployments w"
proof -
  obtain e where e: "ensure_deployment (re_hash env) (GetCompiledShardDeploymentName s,
      \<lambda>st. shard_DeploymentReconciler (re_newVersion env) (re_check env) st s) w []
      = (Inr (Inl e), w\<lparr>wl_memory := st\<rparr>, [])" "errors_Is_mount e"
    using ensure_deployment_run [where rec = "\<lambda>st. shard_DeploymentReconciler (re_newVersion env) (re_check env) st s", OF d]
      assms(6) by auto
  show ?thesis
    using shard_run_after [OF s e(1)] e(2) by (auto simp: swallow_mount_errors_def)
qed

text \<open>C9: A run of the controller of compiled shards in which no API call fails succeeds, mounts or not, so
  nothing requeues it. If everything the rendered pods mount exists, the deployment is stored as
  rendered, labelled with the versions of its mounts; otherwise no deployment is touched, and only
  the watches lead to another attempt. The service is there in both cases.\<close>

theorem shard_follows_its_mounts:
  assumes s: "fmlookup (wl_cshards w) n = Some s" "om_Name (cso_Meta s) = n" "om_DeletionTimestamp (cso_Meta s) = None"
    and d: "shard_DeploymentReconciler (re_newVersion env) (re_check env) (wl_memory w) s
      (existing w (GetCompiledShardDeploymentName s)) = Inr (st, d)" "no_collisions (re_hash env) (pod_of d)"
  shows "\<exists>w'. cshard_Reconcile env n w [] = (Inr (), w', []) \<and> fmlookup (wl_services w') (GetCompiledShardServiceName s) \<noteq> None
     \<and> (if mounts_exist w (pod_of d)
        then \<exists>labels. labels_of (re_hash env) w (ref_target ` set (pod_refs (pod_of d))) labels
          \<and> wl_deployments w' = wl_deployments (deployed (GetCompiledShardDeploymentName s) (with_labels labels d) st w)
        else wl_deployments w' = wl_deployments w)"
proof (cases "mounts_exist w (pod_of d)")
  case True
  then show ?thesis using shard_run_mounted [OF assms True] by auto
next
  case False
  then show ?thesis using shard_run_blocked [OF assms False] by auto
qed

text \<open>For a cache server, whose controller also skips the service when a mount is missing: either both
  objects are there afterwards or nothing was changed.\<close>

theorem cacheserver_all_or_nothing:
  assumes s: "fmlookup (wl_ccacheservers w) n = Some s" "om_DeletionTimestamp (ccs_Meta s) = None"
    and d: "d = cacheserver_DeploymentReconciler (re_newVersion env) (re_check env) s (existing w (GetCompiledCacheServerDeploymentName s))"
      "no_collisions (re_hash env) (pod_of d)"
  shows "\<exists>w'. ccacheserver_Reconcile env n w [] = (Inr (), w', [])
     \<and> (if mounts_exist w (pod_of d)
        then fmlookup (wl_services w') (GetCompiledCacheServerServiceName s) \<noteq> None
          \<and> (\<exists>labels. labels_of (re_hash env) w (ref_target ` set (pod_refs (pod_of d))) labels
            \<and> wl_deployments w' = wl_deployments (deployed (GetCompiledCacheServerDeploymentName s) (with_labels labels d) (wl_memory w) w))
        else w' = w)"
proof -
  let ?rec = "(GetCompiledCacheServerDeploymentName s,
    \<lambda>st d. Inr (st, cacheserver_DeploymentReconciler (re_newVersion env) (re_check env) s d))"
  let ?svc = "(GetCompiledCacheServerServiceName s, cacheserver_ServiceReconciler s)"
  have get: "tryA (api_get wl_ccacheservers n) w [] = (Inr (Inr s), w, [])"
    using s by (simp add: tryA_def api_get_def lookup_object_def)
  have top: "ccacheserver_Reconcile env n w [] = ccacheserver_reconcile env s w []"
    using s(2) by (simp add: ccacheserver_Reconcile_def bindA_run [where m = "tryA (api_get wl_ccacheservers n)", OF get])
  have rec: "snd ?rec (wl_memory w) (existing w (fst ?rec)) = Inr (wl_memory w, d)" using d(1) by simp
  have same: "w\<lparr>wl_memory := wl_memory w\<rparr> = w" by (cases w) simp
  have run: "if mounts_exist w (pod_of d)
     then \<exists>labels. labels_of (re_hash env) w (ref_target ` set (pod_refs (pod_of d))) labels
       \<and> ensure_deployment (re_hash env) ?rec w [] = (Inr (Inr ()), deployed (fst ?rec) (with_labels labels d) (wl_memory w) w, [])
     else \<exists>e. ensure_deployment (re_hash env) ?rec w [] = (Inr (Inl e), w, []) \<and> errors_Is_mount e"
    using ensure_deployment_run [where rec = "snd ?rec" and n = "fst ?rec" and w = w, OF rec d(2)]
    unfolding same fst_conv snd_conv .
  show ?thesis
  proof (cases "mounts_exist w (pod_of d)")
    case True
    then obtain labels where l: "labels_of (re_hash env) w (ref_target ` set (pod_refs (pod_of d))) labels"
      and e: "ensure_deployment (re_hash env) ?rec w [] = (Inr (Inr ()), deployed (fst ?rec) (with_labels labels d) (wl_memory w) w, [])"
      using run by auto
    have "ccacheserver_reconcile env s w [] = (Inr (), service_after ?svc (deployed (fst ?rec) (with_labels labels d) (wl_memory w) w), [])"
      by (simp add: ccacheserver_reconcile_def bindA_run [where m = "ensure_deployment (re_hash env) ?rec", OF e]
          bindA_run [where m = "ensure_service ?svc", OF ensure_service_run])
    then show ?thesis using l True service_after_simps(3) [of ?svc] by (auto simp: top)
  next
    case False
    then obtain e where "ensure_deployment (re_hash env) ?rec w [] = (Inr (Inl e), w, [])" "errors_Is_mount e" using run by auto
    then show ?thesis
      using False by (simp add: top ccacheserver_reconcile_def bindA_run [where m = "ensure_deployment (re_hash env) ?rec"])
  qed
qed

end
