(* ===== verification/Compiled_Witnesses.thy ===== *)
theory Compiled_Witnesses
  imports Compiled_Props Shard_Deployment_Props
begin

text \<open>
  Concrete worlds for the controllers of the compiled objects: a shard and a cache server, with and
  without the secrets their pods mount.
\<close>

definition short_hash :: "string \<Rightarrow> string" where
  "short_hash n = take 10 n @ rev n"

definition sample_render_env :: "unit render_env" where
  "sample_render_env = \<lparr>re_conditions = list_conditions 0, re_hash = short_hash, re_newVersion = \<lambda>_. None,
     re_check = \<lambda>_ _. True, re_marshalMappings = \<lambda>_. Inr [], re_marshalKubeconfig = \<lambda>_. Inr []\<rparr>"

definition secrets_named :: "string list \<Rightarrow> (string, Secret) fmap" where
  "secrets_named ns = fmap_of_list (map (\<lambda>n. (n, secret_version n ''1'')) ns)"

lemma secrets_named_lookup: "n \<in> set ns \<Longrightarrow> fmlookup (secrets_named ns) n \<noteq> None"
  by (induction ns) (auto simp: secrets_named_def fmlookup_of_list)

section \<open>A cache server\<close>

definition sample_compiled_cacheserver :: CompiledCacheServer where
  "sample_compiled_cacheserver = \<lparr>ccs_Meta = sample_meta ''cache'', ccs_Spec = sample_cacheserver_spec\<rparr>"

definition cacheserver_world :: "string list \<Rightarrow> wl_world" where
  "cacheserver_world ns = empty_wl_world\<lparr>wl_secrets := secrets_named ns,
     wl_ccacheservers := fmap_of_list [(''cache'', sample_compiled_cacheserver)]\<rparr>"

abbreviation sample_cacheserver_deployment :: Deployment where
  "sample_cacheserver_deployment \<equiv>
     cacheserver_DeploymentReconciler (\<lambda>_. None :: unit option) (\<lambda>_ _. True) sample_compiled_cacheserver Deployment_zero"

lemma sample_cacheserver_refs: "pod_refs (pod_of sample_cacheserver_deployment) = [SecretRef ''cache-server'' False, SecretRef ''cache-ca'' False]"
proof -
  obtain i p v where im: "GetImageSettings (\<lambda>_. None :: unit option) (ca_Image (ccs_Spec sample_compiled_cacheserver)) = (i, p, v)"
    by (cases "GetImageSettings (\<lambda>_. None :: unit option) (ca_Image (ccs_Spec sample_compiled_cacheserver))") auto
  have none: "ApplyDeploymentTemplate d None = d" for d by (simp add: ApplyDeploymentTemplate_def)
  have tmpl: "ca_DeploymentTemplate (ccs_Spec sample_compiled_cacheserver) = None"
    by (simp add: sample_compiled_cacheserver_def sample_cacheserver_spec_def)
  have init: "ps_InitContainers (pod_of sample_cacheserver_deployment) = []"
    by (simp add: cacheserver_DeploymentReconciler_def Let_def case_prod_unfold tmpl none Deployment_zero_def PodSpec_zero_def
        pod_of_def label_deployment_def set_pod_def set_replicas_def)
  note parts = cacheserver_deployment_parts [OF im, where check = "\<lambda>_ _. True" and dep = Deployment_zero] init
  have "hasAuthenticatedCache (\<lambda>_ _. True) v" by (simp add: hasAuthenticatedCache_def split: option.split)
  then show ?thesis
    unfolding pod_refs_def related_refs_def parts
    by (simp add: cacheserver_getVolumeMounts_def cacheserver_getSecretMounts_def
        cacheserver_container_def Container_zero_def sample_compiled_cacheserver_def sample_cacheserver_spec_def
        empty_dir_volume_def volume_refs_def names_defs sample_meta_def secret_mount_def SecretMount_Build_def)
qed

lemma sample_cacheserver_no_collisions: "no_collisions short_hash (pod_of sample_cacheserver_deployment)"
  by (simp add: no_collisions_def sample_cacheserver_refs target_label_def getLabelName_def short_hash_def)

lemma sample_render_env_sel [simp]:
  "re_hash sample_render_env = short_hash" "re_newVersion sample_render_env = (\<lambda>_. None)"
  "re_check sample_render_env = (\<lambda>_ _. True)"
  by (simp_all add: sample_render_env_def)

lemma cacheserver_world_sel:
  "fmlookup (wl_ccacheservers (cacheserver_world ns)) ''cache'' = Some sample_compiled_cacheserver"
  "existing (cacheserver_world ns) n = Deployment_zero" "wl_secrets (cacheserver_world ns) = secrets_named ns"
  "om_DeletionTimestamp (ccs_Meta sample_compiled_cacheserver) = None"
  "GetCompiledCacheServerDeploymentName sample_compiled_cacheserver = ''cache-cache-server''"
  by (simp_all add: cacheserver_world_def empty_wl_world_def existing_def fmlookup_of_list names_defs
      sample_compiled_cacheserver_def sample_meta_def ObjectMeta_zero_def)

lemma cacheserver_world_run:
  "\<exists>w' x. ccacheserver_Reconcile sample_render_env ''cache'' (cacheserver_world [''cache-server'', ''cache-ca'']) [] = (Inr (), w', [])
     \<and> fmlookup (wl_deployments w') ''cache-cache-server'' = Some x \<and> pod_of (fst x) = pod_of sample_cacheserver_deployment"
proof -
  let ?w = "cacheserver_world [''cache-server'', ''cache-ca'']"
  have "mounts_exist ?w (pod_of sample_cacheserver_deployment)"
    by (simp add: mounts_exist_def sample_cacheserver_refs target_version_def cacheserver_world_sel secrets_named_def
        fmlookup_of_list)
  then show ?thesis
    using cacheserver_all_or_nothing [where env = sample_render_env and n = "''cache''" and s = sample_compiled_cacheserver
        and w = ?w and d = sample_cacheserver_deployment] sample_cacheserver_no_collisions
    by (auto simp: cacheserver_world_sel deployed_def)
qed

theorem deployments_wait_for_mounts_witness:
  "\<exists>w'. ccacheserver_Reconcile sample_render_env ''cache'' (cacheserver_world [''cache-server'', ''cache-ca'']) [] = (Inr (), w', [])
     \<and> mounts_exist w' (pod_of sample_cacheserver_deployment)"
proof -
  obtain w' d res where run: "ccacheserver_Reconcile sample_render_env ''cache'' (cacheserver_world [''cache-server'', ''cache-ca'']) [] = (Inr (), w', [])"
    "fmlookup (wl_deployments w') ''cache-cache-server'' = Some (d, res)" "pod_of d = pod_of sample_cacheserver_deployment"
    using cacheserver_world_run by force
  have m: "ccacheserver_Reconcile sample_render_env ''cache'' \<in> compiled_reconcilers sample_render_env ''cache''"
    by (simp add: compiled_reconcilers_def)
  have new: "fmlookup (wl_deployments (cacheserver_world [''cache-server'', ''cache-ca''])) ''cache-cache-server'' \<noteq> Some (d, res)"
    by (simp add: cacheserver_world_def empty_wl_world_def)
  show ?thesis
    using deployments_wait_for_mounts [OF m run(1,2) new] run(1,3) sample_cacheserver_no_collisions by auto
qed

section \<open>A shard\<close>

definition shard_world :: "string list \<Rightarrow> wl_world" where
  "shard_world ns = empty_wl_world\<lparr>wl_secrets := secrets_named ns,
     wl_cshards := fmap_of_list [(''shard1'', sample_compiled_shard)]\<rparr>"

lemma shard_world_sel:
  "fmlookup (wl_cshards (shard_world ns)) ''shard1'' = Some sample_compiled_shard" "om_Name (cso_Meta sample_compiled_shard) = ''shard1''"
  "existing (shard_world ns) n = Deployment_zero" "wl_secrets (shard_world ns) = secrets_named ns"
  "om_DeletionTimestamp (cso_Meta sample_compiled_shard) = None" "wl_memory (shard_world ns) = init_rstore"
  "wl_deployments (shard_world ns) = fmempty"
  by (simp_all add: shard_world_def empty_wl_world_def existing_def fmlookup_of_list sample_compiled_shard_def
      sample_meta_def ObjectMeta_zero_def)

abbreviation sample_shard_mounts :: "SecretMount list" where
  "sample_shard_mounts \<equiv> shard_secretMounts (\<lambda>_. None :: unit option) (\<lambda>_ _. True) sample_compiled_shard"

lemma sample_shard_refs:
  assumes "shard_DeploymentReconciler (\<lambda>_. None :: unit option) (\<lambda>_ _. True) st sample_compiled_shard Deployment_zero = Inr (st', d)"
  shows "pod_refs (pod_of d) = map (\<lambda>sm. SecretRef (sm_SecretName sm) False) sample_shard_mounts"
proof -
  obtain x y z where i: "GetImageSettings (\<lambda>_. None :: unit option) None = (x, y, z)" by (metis prod_cases3)
  obtain args where d: "d = shard_deployment st (GetCompiledShardResourceLabels sample_compiled_shard) args sample_shard_mounts
      shard_defaultResourceRequirements sample_shard_spec ''root'' [''shard1'', ''shard2''] Deployment_zero"
    using assms by (auto simp: shard_DeploymentReconciler_def shard_pipeline_closed split_beta sample_compiled_shard_def)
  have vols: "cs_DeploymentTemplate sample_shard_spec = None" "cs_Auth sample_shard_spec = None"
    "k_Volumes (common_contrib sample_shard_spec) = []"
    by (simp_all add: sample_shard_spec_def common_contrib_def etcd_contrib_def extra_contrib_def sample_etcd_def
        k_args_def k_empty_def)
  have build: "volume_refs (fst (SecretMount_Build sm)) = [SecretRef (sm_SecretName sm) False]" for sm
    by (simp add: volume_refs_def SecretMount_Build_def)
  show ?thesis
    unfolding d Deployment_zero_def
    unfolding shard_deployment_parts [OF shard_defaultResourceRequirements_def]
    by (simp add: pod_refs_def related_refs_def pod_of_def with_c0_def built_pod_def tmpl_pod_def vols
        PodSpec_zero_def shard_container_def kcp_container_def Container_zero_def o_def build)
qed

lemma sample_shard_no_collisions:
  "inj_on (target_label short_hash) ((\<lambda>sm. (''secret'', sm_SecretName sm)) ` set sample_shard_mounts)"
proof -
  have cache: "shard_getEffectiveCacheRef sample_compiled_shard = []"
    by (simp add: shard_getEffectiveCacheRef_def sample_simps)
  have "supportsMountProxy (\<lambda>_ _. True) v" for v :: "unit option"
    by (simp add: supportsMountProxy_def split: option.split)
  moreover have "om_Name (cso_Meta sample_compiled_shard) = ''shard1''" "nrs_Name (csh_RootShard (cso_Spec sample_compiled_shard)) = ''root''"
    "cs_CABundleSecretRef (csh_Shard (cso_Spec sample_compiled_shard)) = None"
    "cs_ClientCABundleRef (csh_Shard (cso_Spec sample_compiled_shard)) = None"
    "cs_ClientCABundleRef (nrs_Spec (csh_RootShard (cso_Spec sample_compiled_shard))) = None"
    by (simp_all add: sample_simps)
  ultimately show ?thesis
    using cache by (simp add: shard_secretMounts_def Let_def case_prod_unfold secret_mount_def names_defs
        target_label_def getLabelName_def short_hash_def)
qed

theorem shard_follows_its_mounts_witness:
  "(\<exists>w'. cshard_Reconcile sample_render_env ''shard1'' (shard_world []) [] = (Inr (), w', []) \<and> wl_deployments w' = fmempty)
   \<and> (\<exists>w'. cshard_Reconcile sample_render_env ''shard1'' (shard_world (map sm_SecretName sample_shard_mounts)) [] = (Inr (), w', [])
       \<and> fmlookup (wl_deployments w') (GetCompiledShardDeploymentName sample_compiled_shard) \<noteq> None)"
proof -
  obtain st d where run: "shard_DeploymentReconciler (\<lambda>_. None :: unit option) (\<lambda>_ _. True) init_rstore sample_compiled_shard
      Deployment_zero = Inr (st, d)" using shard_total by blast
  note refs = sample_shard_refs [OF run]
  have col: "no_collisions short_hash (pod_of d)"
    using sample_shard_no_collisions by (simp add: no_collisions_def refs image_image)
  note claim = shard_follows_its_mounts [OF shard_world_sel(1,2,5), where env = sample_render_env and st = st and d = d]
  have "\<not> mounts_exist (shard_world []) (pod_of d)"
    by (simp add: mounts_exist_def refs target_version_def shard_world_sel secrets_named_def shard_secretMounts_def Let_def
        case_prod_unfold)
  moreover have "mounts_exist (shard_world (map sm_SecretName sample_shard_mounts)) (pod_of d)"
    using secrets_named_lookup by (auto simp: mounts_exist_def refs target_version_def shard_world_sel simp del: not_None_eq)
  ultimately show ?thesis
    using claim [of "[]"] claim [of "map sm_SecretName sample_shard_mounts"] run col
    by (auto simp: shard_world_sel deployed_def)
qed

end
