(* ===== verification/Mount_Watch.thy ===== *)
theory Mount_Watch
  imports Compiled_Witnesses
begin

text \<open>
  \<open>EnqueueAllInNamespace\<close> of \<open>pkg/controller/util/util.go\<close>: the watch on secrets that wakes every
  compiled object of a kind in the namespace. Its controllers swallow a missing mount, so this
  watch alone brings a blocked deployment up. The locale states what the watch relies on; it is
  interpreted on the controllers of shards and of cache servers.
\<close>

section \<open>The watch\<close>

text \<open>A failed listing asks for nothing.\<close>

definition EnqueueAllInNamespace :: "('o \<Rightarrow> ObjectMeta) \<Rightarrow> 'o list res \<Rightarrow> string list" where
  "EnqueueAllInNamespace meta listed = (case listed of Inl _ \<Rightarrow> [] | Inr items \<Rightarrow> map (\<lambda>x. om_Name (meta x)) items)"

text \<open>The requests are worked off one after the other, here without failing API calls.\<close>

fun work_off :: "(string \<Rightarrow> (wl_world, unit) act) \<Rightarrow> string list \<Rightarrow> wl_world \<Rightarrow> wl_world" where
  "work_off reconcile [] w = w"
| "work_off reconcile (n # ns) w = work_off reconcile ns (fst (snd (reconcile n w [])))"

locale mount_watch =
  fixes meta :: "'o \<Rightarrow> ObjectMeta"
    and items :: "wl_world \<Rightarrow> (string, 'o) fmap"
    and reconcile :: "string \<Rightarrow> (wl_world, unit) act"
    and deployment :: "'o \<Rightarrow> string"
    and mountable :: "wl_world \<Rightarrow> 'o \<Rightarrow> bool"
    and named :: "wl_world \<Rightarrow> bool"
  assumes names: "named w \<Longrightarrow> fmlookup (items w) n = Some x \<Longrightarrow> om_Name (meta x) = n"
    and keeps_named: "named w \<Longrightarrow> named (fst (snd (reconcile n w [])))"
    and other: "named w \<Longrightarrow> k \<noteq> n \<Longrightarrow> fmlookup (items w) k = Some x \<Longrightarrow> mountable w x
      \<Longrightarrow> fmlookup (items (fst (snd (reconcile n w [])))) k = Some x \<and> mountable (fst (snd (reconcile n w []))) x"
    and serves: "named w \<Longrightarrow> fmlookup (items w) n = Some x \<Longrightarrow> om_DeletionTimestamp (meta x) = None \<Longrightarrow> mountable w x
      \<Longrightarrow> fmlookup (wl_deployments (fst (snd (reconcile n w [])))) (deployment x) \<noteq> None"
    and stays: "fmlookup (wl_deployments w) d \<noteq> None \<Longrightarrow> fmlookup (wl_deployments (fst (snd (reconcile n w [])))) d \<noteq> None"
begin

lemma work_off_stays:
  "fmlookup (wl_deployments w) d \<noteq> None \<Longrightarrow> fmlookup (wl_deployments (work_off reconcile ns w)) d \<noteq> None"
  by (induction ns arbitrary: w) (simp_all add: stays del: not_None_eq)

lemma work_off_serves:
  assumes "named w" "fmlookup (items w) n = Some x" "om_DeletionTimestamp (meta x) = None" "mountable w x" "n \<in> set ns"
  shows "fmlookup (wl_deployments (work_off reconcile ns w)) (deployment x) \<noteq> None"
  using assms
proof (induction ns arbitrary: w)
  case (Cons m ns)
  show ?case
  proof (cases "m = n")
    case True
    then show ?thesis using serves [OF Cons.prems(1-4)] work_off_stays by simp
  next
    case False
    then show ?thesis
      using Cons.IH [OF keeps_named [OF Cons.prems(1)]] other [OF Cons.prems(1) _ Cons.prems(2,4), of m] Cons.prems(3,5) by auto
  qed
qed simp

lemma event_serves:
  assumes "named w" "set xs = {x. \<exists>n. fmlookup (items w) n = Some x}" "x \<in> set xs"
    "om_DeletionTimestamp (meta x) = None" "mountable w x"
  shows "fmlookup (wl_deployments (work_off reconcile (EnqueueAllInNamespace meta (Inr xs)) w)) (deployment x) \<noteq> None"
proof -
  obtain n where "fmlookup (items w) n = Some x" using assms(2,3) by auto
  moreover have "n \<in> set (EnqueueAllInNamespace meta (Inr xs))"
    using names [OF assms(1) calculation] assms(3) by (auto simp: EnqueueAllInNamespace_def)
  ultimately show ?thesis using work_off_serves [OF assms(1) _ assms(4,5)] by blast
qed

end

section \<open>What a run leaves alone\<close>

lemma keeps_ensure_deployment:
  assumes "\<And>w st. P w \<Longrightarrow> P (w\<lparr>wl_memory := st\<rparr>)" "\<And>w d. P w \<Longrightarrow> P (store_deployment n d w)"
  shows "keeps P (ensure_deployment hash (n, rec))"
proof -
  have 1: "keeps P (run_reconciler rec d)" for d
    using assms(1) by (auto simp: keeps_def holds_def run_reconciler_def split: sum.splits)
  have 2: "keeps P (addRevisionLabelsToObject hash d)" for d
    unfolding keeps_def by (rule holds_pointwise, rule keeps_holds [OF keeps_add_labels]) auto
  have 3: "keeps P (write_deployment n old d)" for old d
    using assms(2) by (auto simp: keeps_def holds_def write_deployment_def api_write_def split: list.splits outcome.splits)
  show ?thesis
    unfolding ensure_deployment_def build_deployment_def
    by (auto intro!: keeps_bind keeps_try keeps_wrap keeps_basic 1 2 3)
qed

lemma keeps_ensure_service:
  assumes "\<And>w m. P w \<Longrightarrow> P (w\<lparr>wl_services := m\<rparr>)"
  shows "keeps P (ensure_service rec)"
  unfolding ensure_service_def
  by (auto intro!: keeps_bind keeps_basic keeps_ensure assms simp: wl_service_kind_def split: prod.split)

lemma keeps_patch_status:
  assumes "\<And>w x. P w \<Longrightarrow> fmlookup (get w) n = Some x \<Longrightarrow> P (put (fmupd n (f new x) (get w)) w)"
  shows "keeps P (patch_status get put n old new f)"
  unfolding patch_status_def
  by (auto intro!: keeps_basic keeps_try keeps_call assms simp: patch_object_def bindE_eq_Inr lookup_object_def split: option.splits)

text \<open>Whatever the outcomes, a run for one object leaves the mounts, the other objects of the kind and
  the other deployments alone, and removes no deployment.\<close>

definition untouched :: "(wl_world \<Rightarrow> (string, 'o) fmap) \<Rightarrow> wl_world \<Rightarrow> string \<Rightarrow> string \<Rightarrow> wl_world \<Rightarrow> bool" where
  "untouched items w0 n d w \<longleftrightarrow> wl_secrets w = wl_secrets w0 \<and> wl_configmaps w = wl_configmaps w0
     \<and> (\<forall>k. k \<noteq> n \<longrightarrow> fmlookup (items w) k = fmlookup (items w0) k)
     \<and> (\<forall>k. k \<noteq> d \<longrightarrow> fmlookup (wl_deployments w) k = fmlookup (wl_deployments w0) k)"

lemma untouched_refl: "untouched items w n d w"
  by (simp add: untouched_def)

lemma untouched_mounts:
  "untouched items w0 n d w \<Longrightarrow> mounts_exist w ps = mounts_exist w0 ps"
  "untouched items w0 n d w \<Longrightarrow> k \<noteq> d \<Longrightarrow> existing w k = existing w0 k"
  by (simp_all add: untouched_def mounts_exist_def target_version_def existing_def)

lemma keeps_deployed:
  "keeps (\<lambda>w. fmlookup (wl_deployments w) d \<noteq> None) (cshard_Reconcile env n)"
  "keeps (\<lambda>w. fmlookup (wl_deployments w) d \<noteq> None) (ccacheserver_Reconcile env n)"
  unfolding cshard_Reconcile_def cshard_reconcile_def cshard_reconcileStatus_def
    ccacheserver_Reconcile_def ccacheserver_reconcile_def
  by (auto intro!: keeps_controller_Reconcile keeps_bind keeps_basic keeps_try keeps_ensure_deployment
      keeps_ensure_service keeps_patch_status backed_condition simp: store_deployment_def split: sum.split)

section \<open>Shards\<close>

definition shards_named :: "wl_world \<Rightarrow> bool" where
  "shards_named w \<longleftrightarrow> (\<forall>n x. fmlookup (wl_cshards w) n = Some x \<longrightarrow> om_Name (cso_Meta x) = n)"

text \<open>Everything the pods of a shard mount exists.\<close>

definition shard_mountable :: "'v render_env \<Rightarrow> wl_world \<Rightarrow> CompiledShard \<Rightarrow> bool" where
  "shard_mountable env w s \<longleftrightarrow> (\<forall>st st' d. shard_DeploymentReconciler (re_newVersion env) (re_check env) st s
       (existing w (GetCompiledShardDeploymentName s)) = Inr (st', d)
     \<longrightarrow> no_collisions (re_hash env) (pod_of d) \<and> mounts_exist w (pod_of d))"

lemma keeps_shards_named: "keeps shards_named (cshard_Reconcile env n)"
  unfolding cshard_Reconcile_def cshard_reconcile_def cshard_reconcileStatus_def
  by (auto intro!: keeps_controller_Reconcile keeps_bind keeps_basic keeps_try keeps_ensure_deployment
      keeps_ensure_service keeps_patch_status backed_condition simp: store_deployment_def shards_named_def)

lemma shard_untouched:
  assumes "om_Name (cso_Meta s) = n"
  shows "keeps (untouched wl_cshards w0 n (GetCompiledShardDeploymentName s))
    (bindA (cshard_reconcile env s) (\<lambda>(conditions, recErr).
       bindA (cshard_reconcileStatus env s conditions) (\<lambda>status. finish recErr status)))"
  unfolding cshard_reconcile_def cshard_reconcileStatus_def
  by (auto intro!: keeps_bind keeps_basic keeps_try keeps_finish keeps_ensure_deployment
      keeps_ensure_service keeps_patch_status backed_condition simp: store_deployment_def untouched_def assms)

lemma shard_run_other:
  assumes "shards_named w" "k \<noteq> n" "fmlookup (wl_cshards w) k = Some x"
  shows "\<exists>d. GetCompiledShardDeploymentName x \<noteq> d \<and> untouched wl_cshards w n d (fst (snd (cshard_Reconcile env n w os)))"
proof (cases rule: controller_Reconcile_cases [of wl_cshards n "wrap_error ''failed to get shard''" "\<lambda>_. False"
      "cshard_reconcile env" "cshard_reconcileStatus env" w os])
  case (idle r os')
  have "fst (snd (cshard_Reconcile env n w os)) = w"
    unfolding cshard_Reconcile_def idle by simp
  then show ?thesis
    using untouched_refl [of wl_cshards w n "GetCompiledShardDeploymentName x @ ''x''"] by (metis append_self_conv list.distinct(1))
next
  case (go s os')
  have names: "om_Name (cso_Meta s) = n" "om_Name (cso_Meta x) = k" using assms go(1) by (auto simp: shards_named_def)
  then have "GetCompiledShardDeploymentName x \<noteq> GetCompiledShardDeploymentName s"
    using assms(2) by (simp add: names_defs)
  moreover have "untouched wl_cshards w n (GetCompiledShardDeploymentName s) (fst (snd (cshard_Reconcile env n w os)))"
    unfolding cshard_Reconcile_def go(5) by (rule keeps_run [OF shard_untouched [OF names(1)] untouched_refl])
  ultimately show ?thesis by blast
qed

interpretation shard_watch: mount_watch cso_Meta wl_cshards "cshard_Reconcile env" GetCompiledShardDeploymentName
  "shard_mountable env" shards_named for env :: "'v render_env"
proof
  fix w n x assume "shards_named w" "fmlookup (wl_cshards w) n = Some x"
  then show "om_Name (cso_Meta x) = n" by (simp add: shards_named_def)
next
  fix w n assume "shards_named w"
  then show "shards_named (fst (snd (cshard_Reconcile env n w [])))" by (rule keeps_run [OF keeps_shards_named])
next
  fix w k n x assume a: "shards_named w" "k \<noteq> n" "fmlookup (wl_cshards w) k = Some x" "shard_mountable env w x"
  obtain d where d: "GetCompiledShardDeploymentName x \<noteq> d" "untouched wl_cshards w n d (fst (snd (cshard_Reconcile env n w [])))"
    using shard_run_other [OF a(1-3)] by blast
  then show "fmlookup (wl_cshards (fst (snd (cshard_Reconcile env n w [])))) k = Some x
      \<and> shard_mountable env (fst (snd (cshard_Reconcile env n w []))) x"
    using a(2-4) by (simp add: shard_mountable_def untouched_mounts [OF d(2)]) (simp add: untouched_def)
next
  fix w n x assume a: "shards_named w" "fmlookup (wl_cshards w) n = Some x" "om_DeletionTimestamp (cso_Meta x) = None"
    "shard_mountable env w x"
  obtain st d where run: "shard_DeploymentReconciler (re_newVersion env) (re_check env) (wl_memory w) x
      (existing w (GetCompiledShardDeploymentName x)) = Inr (st, d)" using shard_total by blast
  then have "no_collisions (re_hash env) (pod_of d)" "mounts_exist w (pod_of d)" using a(4) by (auto simp: shard_mountable_def)
  then show "fmlookup (wl_deployments (fst (snd (cshard_Reconcile env n w [])))) (GetCompiledShardDeploymentName x) \<noteq> None"
    using shard_run_mounted [OF a(2) _ a(3) run] a(1,2) by (auto simp: shards_named_def deployed_def)
next
  fix w :: wl_world and d n assume "fmlookup (wl_deployments w) d \<noteq> None"
  then show "fmlookup (wl_deployments (fst (snd (cshard_Reconcile env n w [])))) d \<noteq> None"
    by (rule keeps_run [OF keeps_deployed(1)])
qed

section \<open>Cache servers\<close>

definition cacheservers_named :: "wl_world \<Rightarrow> bool" where
  "cacheservers_named w \<longleftrightarrow> (\<forall>n x. fmlookup (wl_ccacheservers w) n = Some x \<longrightarrow> om_Name (ccs_Meta x) = n)"

definition cacheserver_mountable :: "'v render_env \<Rightarrow> wl_world \<Rightarrow> CompiledCacheServer \<Rightarrow> bool" where
  "cacheserver_mountable env w s \<longleftrightarrow> (let d = cacheserver_DeploymentReconciler (re_newVersion env) (re_check env) s
       (existing w (GetCompiledCacheServerDeploymentName s)) in
     no_collisions (re_hash env) (pod_of d) \<and> mounts_exist w (pod_of d))"

lemma keeps_cacheservers: "keeps (\<lambda>w. wl_ccacheservers w = m) (ccacheserver_Reconcile env n)"
  unfolding ccacheserver_Reconcile_def ccacheserver_reconcile_def
  by (auto intro!: keeps_bind keeps_basic keeps_try keeps_ensure_deployment keeps_ensure_service
      simp: store_deployment_def split: sum.split)

lemma cacheserver_untouched:
  "keeps (untouched wl_ccacheservers w0 n (GetCompiledCacheServerDeploymentName s)) (ccacheserver_reconcile env s)"
  unfolding ccacheserver_reconcile_def
  by (auto intro!: keeps_bind keeps_basic keeps_ensure_deployment keeps_ensure_service
      simp: store_deployment_def untouched_def split: sum.split)

lemma cacheserver_run_other:
  assumes "cacheservers_named w" "k \<noteq> n" "fmlookup (wl_ccacheservers w) k = Some x"
  shows "\<exists>d. GetCompiledCacheServerDeploymentName x \<noteq> d
     \<and> untouched wl_ccacheservers w n d (fst (snd (ccacheserver_Reconcile env n w [])))"
proof (cases "fmlookup (wl_ccacheservers w) n")
  case None
  then have "fst (snd (ccacheserver_Reconcile env n w [])) = w"
    by (simp add: ccacheserver_Reconcile_def bindA_def tryA_def api_get_def lookup_object_def returnA_def)
  then show ?thesis
    using untouched_refl [of wl_ccacheservers w n "GetCompiledCacheServerDeploymentName x @ ''x''"]
    by (metis append_self_conv list.distinct(1))
next
  case (Some s)
  then have get: "tryA (api_get wl_ccacheservers n) w [] = (Inr (Inr s), w, [])"
    by (simp add: tryA_def api_get_def lookup_object_def)
  have "GetCompiledCacheServerDeploymentName x \<noteq> GetCompiledCacheServerDeploymentName s"
    using assms Some by (auto simp: cacheservers_named_def names_defs)
  moreover have "untouched wl_ccacheservers w n (GetCompiledCacheServerDeploymentName s) (fst (snd (ccacheserver_reconcile env s w [])))"
    by (rule keeps_run [OF cacheserver_untouched untouched_refl])
  then have "untouched wl_ccacheservers w n (GetCompiledCacheServerDeploymentName s) (fst (snd (ccacheserver_Reconcile env n w [])))"
    by (simp add: ccacheserver_Reconcile_def bindA_run [where m = "tryA (api_get wl_ccacheservers n)", OF get] untouched_refl returnA_def)
  ultimately show ?thesis by blast
qed

interpretation cacheserver_watch: mount_watch ccs_Meta wl_ccacheservers "ccacheserver_Reconcile env"
  GetCompiledCacheServerDeploymentName "cacheserver_mountable env" cacheservers_named for env :: "'v render_env"
proof
  fix w n x assume "cacheservers_named w" "fmlookup (wl_ccacheservers w) n = Some x"
  then show "om_Name (ccs_Meta x) = n" by (simp add: cacheservers_named_def)
next
  fix w n assume "cacheservers_named w"
  moreover have "wl_ccacheservers (fst (snd (ccacheserver_Reconcile env n w []))) = wl_ccacheservers w"
    by (rule keeps_run [OF keeps_cacheservers]) simp
  ultimately show "cacheservers_named (fst (snd (ccacheserver_Reconcile env n w [])))" by (simp add: cacheservers_named_def)
next
  fix w k n x assume a: "cacheservers_named w" "k \<noteq> n" "fmlookup (wl_ccacheservers w) k = Some x" "cacheserver_mountable env w x"
  obtain d where d: "GetCompiledCacheServerDeploymentName x \<noteq> d"
    "untouched wl_ccacheservers w n d (fst (snd (ccacheserver_Reconcile env n w [])))"
    using cacheserver_run_other [OF a(1-3)] by blast
  then show "fmlookup (wl_ccacheservers (fst (snd (ccacheserver_Reconcile env n w [])))) k = Some x
      \<and> cacheserver_mountable env (fst (snd (ccacheserver_Reconcile env n w []))) x"
    using a(2-4) by (simp add: cacheserver_mountable_def untouched_mounts [OF d(2)]) (simp add: untouched_def)
next
  fix w n x assume a: "cacheservers_named w" "fmlookup (wl_ccacheservers w) n = Some x" "om_DeletionTimestamp (ccs_Meta x) = None"
    "cacheserver_mountable env w x"
  then show "fmlookup (wl_deployments (fst (snd (ccacheserver_Reconcile env n w [])))) (GetCompiledCacheServerDeploymentName x) \<noteq> None"
    using cacheserver_all_or_nothing [OF a(2,3) refl, of env] by (auto simp: cacheserver_mountable_def Let_def deployed_def)
next
  fix w :: wl_world and d n assume "fmlookup (wl_deployments w) d \<noteq> None"
  then show "fmlookup (wl_deployments (fst (snd (ccacheserver_Reconcile env n w [])))) d \<noteq> None"
    by (rule keeps_run [OF keeps_deployed(2)])
qed

lemmas secret_event_deploys_cacheservers = cacheserver_watch.event_serves

section \<open>Secret events\<close>

text \<open>C10: A secret that appears brings up every shard that only waited for it: when everything a shard mounts
  exists, then after the requests of one secret event have been worked off, in whatever order the
  shards are listed and whatever state the others are in, the deployment of the shard exists.\<close>

theorem secret_event_deploys_shards:
  assumes "shards_named w" "set xs = {x. \<exists>n. fmlookup (wl_cshards w) n = Some x}" "s \<in> set xs"
    "om_DeletionTimestamp (cso_Meta s) = None" "shard_mountable env w s"
  shows "fmlookup (wl_deployments (work_off (cshard_Reconcile env) (EnqueueAllInNamespace cso_Meta (Inr xs)) w))
     (GetCompiledShardDeploymentName s) \<noteq> None"
  using assms by (rule shard_watch.event_serves)

theorem secret_event_deploys_shards_witness:
  "EnqueueAllInNamespace cso_Meta (Inr [sample_compiled_shard]) = [''shard1'']
   \<and> fmlookup (wl_deployments (work_off (cshard_Reconcile sample_render_env) [''shard1'']
       (shard_world (map sm_SecretName sample_shard_mounts)))) (GetCompiledShardDeploymentName sample_compiled_shard) \<noteq> None"
proof -
  let ?w = "shard_world (map sm_SecretName sample_shard_mounts)"
  have request: "EnqueueAllInNamespace cso_Meta (Inr [sample_compiled_shard]) = [''shard1'']"
    by (simp add: EnqueueAllInNamespace_def shard_world_sel)
  have items: "fmlookup (wl_cshards ?w) n = Some x \<longleftrightarrow> n = ''shard1'' \<and> x = sample_compiled_shard" for n x
    by (auto simp: shard_world_def fmlookup_of_list)
  have "shard_mountable sample_render_env ?w sample_compiled_shard"
  proof (unfold shard_mountable_def, intro allI impI)
    fix st st' d assume "shard_DeploymentReconciler (re_newVersion sample_render_env) (re_check sample_render_env) st
        sample_compiled_shard (existing ?w (GetCompiledShardDeploymentName sample_compiled_shard)) = Inr (st', d)"
    then have "shard_DeploymentReconciler (\<lambda>_. None :: unit option) (\<lambda>_ _. True) st sample_compiled_shard Deployment_zero = Inr (st', d)"
      by (simp add: shard_world_sel)
    note refs = sample_shard_refs [OF this]
    show "no_collisions (re_hash sample_render_env) (pod_of d) \<and> mounts_exist ?w (pod_of d)"
      using sample_shard_no_collisions secrets_named_lookup
      by (auto simp: no_collisions_def refs image_image mounts_exist_def target_version_def shard_world_sel simp del: not_None_eq)
  qed
  moreover have "shards_named ?w" by (simp add: shards_named_def items shard_world_sel)
  ultimately show ?thesis
    using secret_event_deploys_shards [of ?w "[sample_compiled_shard]" sample_compiled_shard sample_render_env] request
    by (simp add: items shard_world_sel)
qed

end
