(* ===== verification/Operator_Metrics.thy ===== *)
theory Operator_Metrics
  imports Sample_Objects "HOL-Library.Finite_Map" "HOL-Library.List_Lexorder" "HOL-Library.Char_ord"
begin

text \<open>
  \<open>pkg/metrics\<close>: the collector that counts the objects of the cluster, by phase and namespace or by
  namespace, and records the conditions of their status. A gauge is a finite map from label values
  to the number set. Counts are set as \<open>float64\<close>, which is exact below 2 to the 53. The listing
  of a kind may fail (\<open>Inl\<close>). Go ranges over its maps in an unspecified order, the parameter
  \<open>order\<close>.
\<close>

section \<open>Gauges\<close>

record gauges =
  g_rootShards :: "(string \<times> string, nat) fmap"
  g_shards :: "(string \<times> string, nat) fmap"
  g_frontProxies :: "(string \<times> string, nat) fmap"
  g_cacheServers :: "(string, nat) fmap"
  g_kubeconfigs :: "(string, nat) fmap"
  g_virtualWorkspaces :: "(string, nat) fmap"
  g_conditions :: "(string \<times> string \<times> string \<times> string, int) fmap"

type_synonym map_order = "string fset \<Rightarrow> string list"

fun statusToMetric :: "ConditionStatus \<Rightarrow> int" where
  "statusToMetric ConditionTrue = 1"
| "statusToMetric ConditionFalse = 0"
| "statusToMetric ConditionUnknown = -1"

fun metric_phase :: "Phase \<Rightarrow> string" where
  "metric_phase PhaseUnset = ''Unknown''"
| "metric_phase Provisioning = ''Provisioning''"
| "metric_phase Running = ''Running''"
| "metric_phase Deleting = ''Deleting''"

definition recordConditionStatuses :: "string \<Rightarrow> ObjectMeta \<Rightarrow> Condition list \<Rightarrow> gauges \<Rightarrow> gauges" where
  "recordConditionStatuses resourceType m conditions g = g\<lparr>g_conditions :=
     fold (\<lambda>c. fmupd (resourceType, om_Name m, om_Namespace m, cond_Type c) (statusToMetric (cond_Status c)))
       conditions (g_conditions g)\<rparr>"

section \<open>Counting\<close>

definition incr :: "'k \<Rightarrow> ('k, nat) fmap \<Rightarrow> ('k, nat) fmap" where
  "incr k m = fmupd k (case fmlookup m k of None \<Rightarrow> 1 | Some n \<Rightarrow> Suc n) m"

definition incr_phase ::
    "string \<Rightarrow> string \<Rightarrow> (string, (string, nat) fmap) fmap \<Rightarrow> (string, (string, nat) fmap) fmap" where
  "incr_phase phase namespace m =
     fmupd phase (incr namespace (case fmlookup m phase of None \<Rightarrow> fmempty | Some inner \<Rightarrow> inner)) m"

definition set_counts :: "map_order \<Rightarrow> (string, nat) fmap \<Rightarrow> (string, nat) fmap" where
  "set_counts order counts =
     fold (\<lambda>ns g. case fmlookup counts ns of None \<Rightarrow> g | Some n \<Rightarrow> fmupd ns n g) (order (fmdom counts)) fmempty"

definition set_namespace_counts ::
    "map_order \<Rightarrow> string \<Rightarrow> (string, nat) fmap \<Rightarrow> (string \<times> string, nat) fmap \<Rightarrow> (string \<times> string, nat) fmap" where
  "set_namespace_counts order phase counts =
     fold (\<lambda>ns g. case fmlookup counts ns of None \<Rightarrow> g | Some n \<Rightarrow> fmupd (phase, ns) n g) (order (fmdom counts))"

definition set_phase_counts ::
    "map_order \<Rightarrow> (string, (string, nat) fmap) fmap \<Rightarrow> (string \<times> string, nat) fmap" where
  "set_phase_counts order counts =
     fold (\<lambda>phase g. case fmlookup counts phase of None \<Rightarrow> g | Some inner \<Rightarrow> set_namespace_counts order phase inner g)
       (order (fmdom counts)) fmempty"

section \<open>The kinds\<close>

text \<open>A failed listing leaves the gauges of the kind as they are.\<close>

definition updateRootShardCounts :: "map_order \<Rightarrow> RootShard list res \<Rightarrow> gauges \<Rightarrow> gauges" where
  "updateRootShardCounts order listed g = (case listed of Inl _ \<Rightarrow> g | Inr items \<Rightarrow>
     (let phaseCounts = fold (\<lambda>rs. incr_phase (metric_phase (rst_Phase (rsh_Status rs))) (om_Namespace (rsh_Meta rs))) items fmempty;
          g = fold (\<lambda>rs. recordConditionStatuses ''rootshard'' (rsh_Meta rs) (rst_Conditions (rsh_Status rs))) items g in
      g\<lparr>g_rootShards := set_phase_counts order phaseCounts\<rparr>))"

definition updateShardCounts :: "map_order \<Rightarrow> Shard list res \<Rightarrow> gauges \<Rightarrow> gauges" where
  "updateShardCounts order listed g = (case listed of Inl _ \<Rightarrow> g | Inr items \<Rightarrow>
     (let phaseCounts = fold (\<lambda>s. incr_phase (metric_phase (shst_Phase (sh_Status s))) (om_Namespace (sh_Meta s))) items fmempty;
          g = fold (\<lambda>s. recordConditionStatuses ''shard'' (sh_Meta s) (shst_Conditions (sh_Status s))) items g in
      g\<lparr>g_shards := set_phase_counts order phaseCounts\<rparr>))"

definition updateFrontProxyCounts :: "map_order \<Rightarrow> FrontProxy list res \<Rightarrow> gauges \<Rightarrow> gauges" where
  "updateFrontProxyCounts order listed g = (case listed of Inl _ \<Rightarrow> g | Inr items \<Rightarrow>
     (let phaseCounts = fold (\<lambda>fp. incr_phase (metric_phase (fst_Phase (fpx_Status fp))) (om_Namespace (fpx_Meta fp))) items fmempty;
          g = fold (\<lambda>fp. recordConditionStatuses ''frontproxy'' (fpx_Meta fp) (fst_Conditions (fpx_Status fp))) items g in
      g\<lparr>g_frontProxies := set_phase_counts order phaseCounts\<rparr>))"

definition updateCacheServerCounts :: "map_order \<Rightarrow> CacheServer list res \<Rightarrow> gauges \<Rightarrow> gauges" where
  "updateCacheServerCounts order listed g = (case listed of Inl _ \<Rightarrow> g | Inr items \<Rightarrow>
     g\<lparr>g_cacheServers := set_counts order (fold (\<lambda>cs. incr (om_Namespace (cas_Meta cs))) items fmempty)\<rparr>)"

definition updateKubeconfigCounts :: "map_order \<Rightarrow> Kubeconfig list res \<Rightarrow> gauges \<Rightarrow> gauges" where
  "updateKubeconfigCounts order listed g = (case listed of Inl _ \<Rightarrow> g | Inr items \<Rightarrow>
     (let g = fold (\<lambda>kc. recordConditionStatuses ''kubeconfig'' (kc_Meta kc) (kst_Conditions (kc_Status kc))) items g in
      g\<lparr>g_kubeconfigs := set_counts order (fold (\<lambda>kc. incr (om_Namespace (kc_Meta kc))) items fmempty)\<rparr>))"

definition updateVirtualWorkspaceCounts :: "map_order \<Rightarrow> VirtualWorkspace list res \<Rightarrow> gauges \<Rightarrow> gauges" where
  "updateVirtualWorkspaceCounts order listed g = (case listed of Inl _ \<Rightarrow> g | Inr items \<Rightarrow>
     g\<lparr>g_virtualWorkspaces := set_counts order (fold (\<lambda>vw. incr (om_Namespace (vwo_Meta vw))) items fmempty)\<rparr>)"

record listings =
  li_rootShards :: "RootShard list res"
  li_shards :: "Shard list res"
  li_frontProxies :: "FrontProxy list res"
  li_cacheServers :: "CacheServer list res"
  li_kubeconfigs :: "Kubeconfig list res"
  li_virtualWorkspaces :: "VirtualWorkspace list res"

definition updateObjectCounts :: "map_order \<Rightarrow> listings \<Rightarrow> gauges \<Rightarrow> gauges" where
  "updateObjectCounts order l g =
     updateVirtualWorkspaceCounts order (li_virtualWorkspaces l)
       (updateKubeconfigCounts order (li_kubeconfigs l)
         (updateCacheServerCounts order (li_cacheServers l)
           (updateFrontProxyCounts order (li_frontProxies l)
             (updateShardCounts order (li_shards l)
               (updateRootShardCounts order (li_rootShards l)
                 (g\<lparr>g_conditions := fmempty\<rparr>))))))"

section \<open>Reconciliations\<close>

text \<open>A counter only grows; a histogram is kept as the values observed, the latest first.\<close>

record reconciliation_metrics =
  rm_Errors :: "(string \<times> string, nat) fmap"
  rm_Duration :: "(string \<times> string, rat list) fmap"

definition RecordReconciliationError :: "string \<Rightarrow> string \<Rightarrow> reconciliation_metrics \<Rightarrow> reconciliation_metrics" where
  "RecordReconciliationError controller errorType m = m\<lparr>rm_Errors := incr (controller, errorType) (rm_Errors m)\<rparr>"

definition RecordReconciliationMetrics ::
    "string \<Rightarrow> rat \<Rightarrow> go_error option \<Rightarrow> reconciliation_metrics \<Rightarrow> reconciliation_metrics" where
  "RecordReconciliationMetrics controller duration err m =
     (let label = (controller, if err = None then ''success'' else ''error'');
          m = (if err = None then m else m\<lparr>rm_Errors := incr (controller, ''reconcile_error'') (rm_Errors m)\<rparr>) in
      m\<lparr>rm_Duration := fmupd label
        (duration # (case fmlookup (rm_Duration m) label of None \<Rightarrow> [] | Some ds \<Rightarrow> ds)) (rm_Duration m)\<rparr>)"

section \<open>Counts are exact\<close>

definition counted :: "('o \<Rightarrow> 'k) \<Rightarrow> 'o list \<Rightarrow> 'k \<Rightarrow> nat option" where
  "counted key xs k = (let n = length (filter (\<lambda>x. key x = k) xs) in if n = 0 then None else Some n)"

lemma counted_snoc: "counted key (xs @ [x]) k =
    (if key x = k then Some (case counted key xs k of None \<Rightarrow> 1 | Some n \<Rightarrow> Suc n) else counted key xs k)"
  by (simp add: counted_def Let_def)

lemma counted_Some: "counted key xs k \<noteq> Some 0"
  by (simp add: counted_def Let_def)

lemma incr_counted: "fmlookup (fold (\<lambda>x. incr (key x)) xs fmempty) k = counted key xs k"
proof (induction xs arbitrary: k rule: rev_induct)
  case Nil
  then show ?case by (simp add: counted_def)
next
  case (snoc x xs)
  then show ?case by (simp add: incr_def counted_snoc)
qed

definition inner_count :: "(string, (string, nat) fmap) fmap \<Rightarrow> string \<Rightarrow> string \<Rightarrow> nat option" where
  "inner_count m phase ns = (case fmlookup m phase of None \<Rightarrow> None | Some inner \<Rightarrow> fmlookup inner ns)"

lemma incr_phase_counted:
  "inner_count (fold (\<lambda>x. incr_phase (phase x) (ns x)) xs fmempty) p n = counted (\<lambda>x. (phase x, ns x)) xs (p, n)"
proof (induction xs arbitrary: p n rule: rev_induct)
  case Nil
  then show ?case by (simp add: counted_def inner_count_def)
next
  case (snoc x xs)
  let ?m = "fold (\<lambda>x. incr_phase (phase x) (ns x)) xs fmempty"
  have "inner_count (incr_phase (phase x) (ns x) ?m) p n =
      (if (phase x, ns x) = (p, n) then Some (case inner_count ?m p n of None \<Rightarrow> 1 | Some k \<Rightarrow> Suc k) else inner_count ?m p n)"
    by (auto simp: inner_count_def incr_phase_def incr_def split: option.split)
  then show ?case using snoc by (simp add: counted_snoc)
qed


text \<open>Setting the entries of a map in any order yields the map.\<close>

lemma set_entries:
  assumes "inj f"
  shows "fmlookup (fold (\<lambda>k g. case fmlookup m k of None \<Rightarrow> g | Some n \<Rightarrow> fmupd (f k) n g) ks g) (f k) =
    (if k \<in> set ks \<and> fmlookup m k \<noteq> None then fmlookup m k else fmlookup g (f k))"
  by (induction ks arbitrary: g) (auto simp: inj_eq [OF assms] split: option.splits)

lemma set_entries_other:
  assumes "\<And>k. f k \<noteq> x"
  shows "fmlookup (fold (\<lambda>k g. case fmlookup m k of None \<Rightarrow> g | Some n \<Rightarrow> fmupd (f k) n g) ks g) x = fmlookup g x"
  using assms by (induction ks arbitrary: g) (auto split: option.splits)

lemma set_counts_id:
  assumes "\<And>S. set (order S) = fset S"
  shows "fmlookup (set_counts order m) k = fmlookup m k"
  using set_entries [of "\<lambda>k. k" m "order (fmdom m)" fmempty k]
  by (auto simp: set_counts_def assms fmdom_notD)

lemma set_namespace_counts_lookup:
  assumes "\<And>S. set (order S) = fset S"
  shows "fmlookup (set_namespace_counts order phase m g) (p, ns) =
    (if p = phase \<and> fmlookup m ns \<noteq> None then fmlookup m ns else fmlookup g (p, ns))"
proof (cases "p = phase")
  case True
  then show ?thesis
    using set_entries [of "Pair phase" m "order (fmdom m)" g ns]
    by (auto simp: set_namespace_counts_def assms fmdom_notD inj_def)
next
  case False
  then show ?thesis
    using set_entries_other [of "Pair phase" "(p, ns)" m "order (fmdom m)" g] by (simp add: set_namespace_counts_def)
qed

lemma set_phase_counts_id:
  assumes "\<And>S. set (order S) = fset S"
  shows "fmlookup (set_phase_counts order m) (p, ns) = inner_count m p ns"
proof -
  have "fmlookup (fold (\<lambda>phase g. case fmlookup m phase of None \<Rightarrow> g | Some inner \<Rightarrow> set_namespace_counts order phase inner g) ps g) (p, ns)
      = (if p \<in> set ps \<and> inner_count m p ns \<noteq> None then inner_count m p ns else fmlookup g (p, ns))" for ps g
    by (induction ps arbitrary: g) (auto simp: inner_count_def set_namespace_counts_lookup [OF assms] split: option.splits)
  then show ?thesis
    by (auto simp: set_phase_counts_def assms inner_count_def fmdom_notD split: option.split)
qed

section \<open>The gauges after an update\<close>

definition condition_entries ::
    "string \<Rightarrow> ObjectMeta \<Rightarrow> Condition list \<Rightarrow> ((string \<times> string \<times> string \<times> string) \<times> int) list" where
  "condition_entries resourceType m conditions =
     map (\<lambda>c. ((resourceType, om_Name m, om_Namespace m, cond_Type c), statusToMetric (cond_Status c))) conditions"

definition listed_entries :: "('o \<Rightarrow> ((string \<times> string \<times> string \<times> string) \<times> int) list) \<Rightarrow> 'o list res
    \<Rightarrow> ((string \<times> string \<times> string \<times> string) \<times> int) list" where
  "listed_entries f listed = (case listed of Inl _ \<Rightarrow> [] | Inr items \<Rightarrow> concat (map f items))"

text \<open>The conditions a collection sees, in its order.\<close>

definition all_entries :: "listings \<Rightarrow> ((string \<times> string \<times> string \<times> string) \<times> int) list" where
  "all_entries l =
     listed_entries (\<lambda>rs. condition_entries ''rootshard'' (rsh_Meta rs) (rst_Conditions (rsh_Status rs))) (li_rootShards l)
     @ listed_entries (\<lambda>s. condition_entries ''shard'' (sh_Meta s) (shst_Conditions (sh_Status s))) (li_shards l)
     @ listed_entries (\<lambda>fp. condition_entries ''frontproxy'' (fpx_Meta fp) (fst_Conditions (fpx_Status fp))) (li_frontProxies l)
     @ listed_entries (\<lambda>kc. condition_entries ''kubeconfig'' (kc_Meta kc) (kst_Conditions (kc_Status kc))) (li_kubeconfigs l)"

abbreviation put_all :: "('k \<times> 'v) list \<Rightarrow> ('k, 'v) fmap \<Rightarrow> ('k, 'v) fmap" where
  "put_all es m \<equiv> fold (\<lambda>(k, v). fmupd k v) es m"

lemma recordConditionStatuses_entries:
  "recordConditionStatuses t m cs g = g\<lparr>g_conditions := put_all (condition_entries t m cs) (g_conditions g)\<rparr>"
  by (simp add: recordConditionStatuses_def condition_entries_def fold_map o_def)

lemma record_all_entries:
  "fold (\<lambda>x. recordConditionStatuses t (m x) (cs x)) xs g
     = g\<lparr>g_conditions := put_all (concat (map (\<lambda>x. condition_entries t (m x) (cs x)) xs)) (g_conditions g)\<rparr>"
  by (induction xs arbitrary: g) (simp_all add: recordConditionStatuses_entries)

lemmas update_defs = updateObjectCounts_def updateRootShardCounts_def updateShardCounts_def updateFrontProxyCounts_def
  updateCacheServerCounts_def updateKubeconfigCounts_def updateVirtualWorkspaceCounts_def

lemma conditions_after: "g_conditions (updateObjectCounts order l g) = put_all (all_entries l) fmempty"
  by (auto simp: update_defs all_entries_def listed_entries_def record_all_entries Let_def split: sum.split)

lemma put_all_lookup: "fmlookup (put_all es m) k = (case map_of (rev es) k of None \<Rightarrow> fmlookup m k | Some v \<Rightarrow> Some v)"
  by (induction es arbitrary: m) (auto simp: map_add_def split: option.split)

text \<open>C26: After a collection in which every listing succeeds, whatever the gauges held before and in
  whatever order Go enumerates its maps, the counts of all six kinds are those of the listed objects,
  per phase and namespace (cache servers, kubeconfigs and virtual workspaces per namespace), with no
  combination left that has no object. The condition gauge holds exactly the conditions of the
  listed root shards, shards, front proxies and kubeconfigs, and nothing for any other kind: those
  of virtual workspaces and cache servers are never recorded.\<close>

theorem metrics_exact:
  assumes "\<And>S. set (order S) = fset S"
    and l: "l = \<lparr>li_rootShards = Inr rs, li_shards = Inr ss, li_frontProxies = Inr fs,
      li_cacheServers = Inr cs, li_kubeconfigs = Inr ks, li_virtualWorkspaces = Inr vs\<rparr>"
    and g: "g' = updateObjectCounts order l g"
  shows "fmlookup (g_rootShards g') (p, n) = counted (\<lambda>r. (metric_phase (rst_Phase (rsh_Status r)), om_Namespace (rsh_Meta r))) rs (p, n)
   \<and> fmlookup (g_shards g') (p, n) = counted (\<lambda>s. (metric_phase (shst_Phase (sh_Status s)), om_Namespace (sh_Meta s))) ss (p, n)
   \<and> fmlookup (g_frontProxies g') (p, n) = counted (\<lambda>f. (metric_phase (fst_Phase (fpx_Status f)), om_Namespace (fpx_Meta f))) fs (p, n)
   \<and> fmlookup (g_cacheServers g') n = counted (\<lambda>c. om_Namespace (cas_Meta c)) cs n
   \<and> fmlookup (g_kubeconfigs g') n = counted (\<lambda>k. om_Namespace (kc_Meta k)) ks n
   \<and> fmlookup (g_virtualWorkspaces g') n = counted (\<lambda>v. om_Namespace (vwo_Meta v)) vs n
   \<and> fmlookup (g_conditions g') = map_of (rev (all_entries l))
   \<and> (t \<in> {''rootshard'', ''shard'', ''frontproxy'', ''kubeconfig''} \<or> fmlookup (g_conditions g') (t, x) = None)"
proof -
  note counts = set_counts_id [OF assms(1)] set_phase_counts_id [OF assms(1)] incr_counted incr_phase_counted
  have conds: "fmlookup (g_conditions g') = map_of (rev (all_entries l))"
    by (rule ext) (auto simp: g conditions_after put_all_lookup split: option.split)
  moreover have "t \<in> {''rootshard'', ''shard'', ''frontproxy'', ''kubeconfig''} \<or> fmlookup (g_conditions g') (t, x) = None"
    unfolding conds map_of_eq_None_iff
    by (auto simp: all_entries_def listed_entries_def condition_entries_def split: sum.splits)
  moreover have "fmlookup (g_rootShards g') (p, n) = counted (\<lambda>r. (metric_phase (rst_Phase (rsh_Status r)), om_Namespace (rsh_Meta r))) rs (p, n)"
    "fmlookup (g_shards g') (p, n) = counted (\<lambda>s. (metric_phase (shst_Phase (sh_Status s)), om_Namespace (sh_Meta s))) ss (p, n)"
    "fmlookup (g_frontProxies g') (p, n) = counted (\<lambda>f. (metric_phase (fst_Phase (fpx_Status f)), om_Namespace (fpx_Meta f))) fs (p, n)"
    "fmlookup (g_cacheServers g') n = counted (\<lambda>c. om_Namespace (cas_Meta c)) cs n"
    "fmlookup (g_kubeconfigs g') n = counted (\<lambda>k. om_Namespace (kc_Meta k)) ks n"
    "fmlookup (g_virtualWorkspaces g') n = counted (\<lambda>v. om_Namespace (vwo_Meta v)) vs n"
    by (simp_all add: l g update_defs record_all_entries Let_def counts)
  ultimately show ?thesis by blast
qed

text \<open>A listing that fails leaves its counts at their old values, but its conditions are gone: the
  two gauges then disagree about which objects exist.\<close>

theorem metrics_failed_listing:
  "g_shards (updateObjectCounts order (l\<lparr>li_shards := Inl e\<rparr>) g) = g_shards g
   \<and> fmlookup (g_conditions (updateObjectCounts order (l\<lparr>li_shards := Inl e\<rparr>) g)) (''shard'', n, ns, t) = None"
proof
  show "g_shards (updateObjectCounts order (l\<lparr>li_shards := Inl e\<rparr>) g) = g_shards g"
    by (auto simp: update_defs record_all_entries Let_def split: sum.split)
  have "((''shard'', n, ns, t), x) \<notin> set (all_entries (l\<lparr>li_shards := Inl e\<rparr>))" for x
    by (auto simp: all_entries_def listed_entries_def condition_entries_def split: sum.split)
  then show "fmlookup (g_conditions (updateObjectCounts order (l\<lparr>li_shards := Inl e\<rparr>) g)) (''shard'', n, ns, t) = None"
    by (auto simp: conditions_after put_all_lookup map_of_eq_None_iff split: option.split)
qed

section \<open>A concrete collection\<close>

definition no_gauges :: gauges where
  "no_gauges = \<lparr>g_rootShards = fmempty, g_shards = fmempty, g_frontProxies = fmempty, g_cacheServers = fmempty,
     g_kubeconfigs = fmempty, g_virtualWorkspaces = fmempty, g_conditions = fmempty\<rparr>"

theorem metrics_exact_witness:
  "fmlookup (g_shards (updateObjectCounts sorted_list_of_fset
     \<lparr>li_rootShards = Inr [], li_shards = Inr [sample_shard, sample_shard\<lparr>sh_Meta := sample_meta ''shard2''\<rparr>],
       li_frontProxies = Inr [], li_cacheServers = Inr [], li_kubeconfigs = Inr [], li_virtualWorkspaces = Inr []\<rparr>
     no_gauges)) (''Unknown'', ''kcp'') = Some 2"
proof -
  have "set (sorted_list_of_fset S) = fset S" for S :: "string fset" by simp
  from metrics_exact [OF this refl refl, where p = "''Unknown''" and n = "''kcp''"]
  show ?thesis by (simp add: counted_def sample_shard_def sample_meta_def)
qed

end
