(* ===== verification/Operator_Setup.thy ===== *)
theory Operator_Setup
  imports Kcp_Prelude
begin

text \<open>
  \<open>pkg/config/controllergroups.go\<close>, \<open>pkg/controller/setup.go\<close> and the part of \<open>run\<close> in
  \<open>cmd/operator/main.go\<close> between the flags and the start of the manager: which controllers
  an operator process runs. A manager is the list of the controllers registered with it; whether
  \<open>SetupWithManager\<close> of a controller fails is the parameter \<open>setup\<close>.
\<close>

section \<open>White space\<close>

text \<open>The UTF-8 encodings of the characters \<open>unicode.IsSpace\<close> accepts, which \<open>strings.TrimSpace\<close>
  removes from both ends.\<close>

definition go_spaces :: "string list" where
  "go_spaces = map (\<lambda>c. [c]) [CHR 0x09, CHR 0x0A, CHR 0x0B, CHR 0x0C, CHR 0x0D, CHR '' '']
     @ map (map char_of) [[0xC2, 0x85], [0xC2, 0xA0 :: nat], [0xE1, 0x9A, 0x80],
         [0xE2, 0x80, 0x80], [0xE2, 0x80, 0x81], [0xE2, 0x80, 0x82], [0xE2, 0x80, 0x83], [0xE2, 0x80, 0x84],
         [0xE2, 0x80, 0x85], [0xE2, 0x80, 0x86], [0xE2, 0x80, 0x87], [0xE2, 0x80, 0x88], [0xE2, 0x80, 0x89],
         [0xE2, 0x80, 0x8A], [0xE2, 0x80, 0xA8], [0xE2, 0x80, 0xA9], [0xE2, 0x80, 0xAF], [0xE2, 0x81, 0x9F],
         [0xE3, 0x80, 0x80]]"

function trim_units :: "string list \<Rightarrow> string \<Rightarrow> string" where
  "trim_units us s = (case List.find (\<lambda>u. u \<noteq> [] \<and> take (length u) s = u) us of
     None \<Rightarrow> s | Some u \<Rightarrow> trim_units us (drop (length u) s))"
  by pat_completeness auto

termination
proof (relation "measure (\<lambda>(us, s). length s)")
  fix us s u
  assume "List.find (\<lambda>u. u \<noteq> [] \<and> take (length u) s = u) us = Some u"
  then have "u \<noteq> []" "take (length u) s = u" by (auto simp: find_Some_iff)
  then have "s \<noteq> []" "0 < length u" by auto
  then show "((us, drop (length u) s), us, s) \<in> measure (\<lambda>(us, s). length s)" by simp
qed simp

definition TrimSpace :: "string \<Rightarrow> string" where
  "TrimSpace s = rev (trim_units (map rev go_spaces) (rev (trim_units go_spaces s)))"

section \<open>Controller groups\<close>

type_synonym ControllerGroup = string

definition ControllerGroupConfig :: ControllerGroup where
  "ControllerGroupConfig = ''config''"

definition ControllerGroupWorkload :: ControllerGroup where
  "ControllerGroupWorkload = ''workload''"

lemmas group_defs = ControllerGroupConfig_def ControllerGroupWorkload_def

definition AllControllerGroups :: "ControllerGroup set" where
  "AllControllerGroups = {ControllerGroupConfig, ControllerGroupWorkload}"

fun parse_groups :: "string list \<Rightarrow> ControllerGroup set \<Rightarrow> ControllerGroup set res" where
  "parse_groups [] parsed = Inr parsed"
| "parse_groups (name # names) parsed =
     (let group = TrimSpace name in
      if group \<notin> AllControllerGroups then Inl (Plain (''unknown controller group '' @ name))
      else parse_groups names (insert group parsed))"

definition ParseControllerGroups :: "string list \<Rightarrow> ControllerGroup set res" where
  "ParseControllerGroups names = bindE (parse_groups names {}) (\<lambda>parsed.
     if parsed = {} then Inl (Plain ''at least one controller group must be enabled'') else Inr parsed)"

section \<open>Registration\<close>

definition config_controllers :: "string list" where
  "config_controllers = [''RootShard'', ''FrontProxy'', ''Shard'', ''CacheServer'', ''Kubeconfig'',
     ''VirtualWorkspace'', ''KubeconfigRBAC'']"

definition workload_controllers :: "string list" where
  "workload_controllers = [''CompiledRootShard'', ''CompiledFrontProxy'', ''CompiledShard'',
     ''CompiledCacheServer'', ''CompiledVirtualWorkspace'']"

fun setup_controllers :: "(string \<Rightarrow> unit res) \<Rightarrow> string list \<Rightarrow> string list \<Rightarrow> string list res" where
  "setup_controllers setup_one [] mgr = Inr mgr"
| "setup_controllers setup_one (c # cs) mgr = (case setup_one c of
     Inl e \<Rightarrow> Inl (Wrapped (''unable to create controller '' @ c) e)
   | Inr _ \<Rightarrow> setup_controllers setup_one cs (mgr @ [c]))"

definition AddConfigControllers :: "(string \<Rightarrow> unit res) \<Rightarrow> bool \<Rightarrow> string list \<Rightarrow> string list res" where
  "AddConfigControllers setup_one hasAddress mgr =
     (if \<not> hasAddress then Inl (Plain ''Options.Address is required'')
      else setup_controllers setup_one config_controllers mgr)"

definition AddWorkloadControllers :: "(string \<Rightarrow> unit res) \<Rightarrow> string list \<Rightarrow> string list res" where
  "AddWorkloadControllers setup_one mgr = setup_controllers setup_one workload_controllers mgr"

definition run_controllers :: "(string \<Rightarrow> unit res) \<Rightarrow> string list \<Rightarrow> string list res" where
  "run_controllers setup_one enabledControllerGroups =
     (case ParseControllerGroups enabledControllerGroups of
       Inl e \<Rightarrow> Inl (Wrapped ''invalid --enabled-controller-groups'' e)
     | Inr groups \<Rightarrow>
         bindE (if ControllerGroupConfig \<in> groups then AddConfigControllers setup_one True [] else Inr []) (\<lambda>mgr.
         if ControllerGroupWorkload \<in> groups then AddWorkloadControllers setup_one mgr else Inr mgr))"

section \<open>Trimming\<close>

declare trim_units.simps [simp del]

definition clean_start :: "string list \<Rightarrow> string \<Rightarrow> bool" where
  "clean_start us s \<longleftrightarrow> (\<forall>u \<in> set us. u \<noteq> [] \<longrightarrow> take (length u) s \<noteq> u)"

lemma trim_units_clean: "clean_start us s \<Longrightarrow> trim_units us s = s"
  by (subst trim_units.simps) (auto simp: clean_start_def find_Some_iff split: option.split)

text \<open>White space in front of a word is removed, unit by unit; no unit begins another one.\<close>

definition unit_free :: "string list \<Rightarrow> bool" where
  "unit_free us \<longleftrightarrow> list_all (\<lambda>u. u \<noteq> [] \<and> list_all (\<lambda>v. v = u \<or> take (length v) u \<noteq> v \<and> take (length u) v \<noteq> u) us) us"

lemma unit_freeD:
  assumes "unit_free us" "u \<in> set us" "v \<in> set us" "take (length v) (u @ s) = v"
  shows "v = u"
proof (rule ccontr)
  assume "v \<noteq> u"
  then have ne: "take (length v) u \<noteq> v" "take (length u) v \<noteq> u"
    using assms(1-3) by (auto simp: unit_free_def list_all_iff)
  show False
  proof (cases "length v \<le> length u")
    case True
    then show ?thesis using ne(1) assms(4) by simp
  next
    case False
    then have "take (length u) v = u" using assms(4) by (metis append_eq_conv_conj min.absorb1 nat_le_linear take_take)
    then show ?thesis using ne(2) by simp
  qed
qed

lemma trim_units_unit:
  assumes "unit_free us" "u \<in> set us"
  shows "trim_units us (u @ s) = trim_units us s"
proof -
  have "List.find (\<lambda>v. v \<noteq> [] \<and> take (length v) (u @ s) = v) us = Some u"
  proof (cases "List.find (\<lambda>v. v \<noteq> [] \<and> take (length v) (u @ s) = v) us")
    case None
    then show ?thesis using assms by (auto simp: find_None_iff unit_free_def list_all_iff)
  next
    case (Some v)
    then show ?thesis using unit_freeD [OF assms, of v s] by (auto simp: find_Some_iff)
  qed
  then show ?thesis by (subst trim_units.simps) simp
qed

lemma trim_units_concat:
  assumes "unit_free us" "set ws \<subseteq> set us"
  shows "trim_units us (concat ws @ s) = trim_units us s"
  using assms(2) by (induction ws) (simp_all add: trim_units_unit [OF assms(1)])

lemma go_spaces_free: "unit_free go_spaces" "unit_free (map rev go_spaces)"
  by code_simp+

text \<open>Around a word that neither starts nor ends with white space, any white space is removed.\<close>

lemma TrimSpace_padded:
  assumes "set l \<subseteq> set go_spaces" "set r \<subseteq> set go_spaces"
    "clean_start go_spaces (g @ concat r)" "clean_start (map rev go_spaces) (rev g)"
  shows "TrimSpace (concat l @ g @ concat r) = g"
proof -
  have rev: "rev (concat r) = concat (map rev (rev r))" by (induction r) simp_all
  have "trim_units (map rev go_spaces) (rev (g @ concat r)) = rev g"
    using trim_units_concat [OF go_spaces_free(2), of "map rev (rev r)" "rev g"] assms(2,4)
    by (auto simp: rev trim_units_clean)
  then show ?thesis
    using trim_units_concat [OF go_spaces_free(1) assms(1), of "g @ concat r"] assms(3)
    by (simp add: TrimSpace_def trim_units_clean)
qed

section \<open>Groups\<close>

lemma parse_groups_iff:
  "parse_groups names parsed = Inr S \<longleftrightarrow> TrimSpace ` set names \<subseteq> AllControllerGroups \<and> S = parsed \<union> TrimSpace ` set names"
  by (induction names arbitrary: parsed) (auto simp: Let_def)

lemma ParseControllerGroups_iff:
  "ParseControllerGroups names = Inr S \<longleftrightarrow>
     names \<noteq> [] \<and> TrimSpace ` set names \<subseteq> AllControllerGroups \<and> S = TrimSpace ` set names"
proof (cases "parse_groups names {}")
  case (Inl e)
  then show ?thesis using parse_groups_iff [of names "{}" "TrimSpace ` set names"] by (auto simp: ParseControllerGroups_def)
next
  case (Inr T)
  then show ?thesis using parse_groups_iff [of names "{}" T] by (auto simp: ParseControllerGroups_def)
qed

lemma group_clean:
  "g \<in> AllControllerGroups \<Longrightarrow> clean_start go_spaces (g @ x)" "g \<in> AllControllerGroups \<Longrightarrow> clean_start (map rev go_spaces) (rev g)"
  by (auto simp: AllControllerGroups_def group_defs clean_start_def go_spaces_def char_of_def)

text \<open>C27: However the groups are written, in any order, repeated and with white space around them, what is
  parsed is the set of groups that was written.\<close>

theorem controller_groups_roundtrip:
  assumes "gs \<noteq> []" "\<forall>(l, g, r) \<in> set gs. g \<in> AllControllerGroups \<and> set l \<subseteq> set go_spaces \<and> set r \<subseteq> set go_spaces"
  shows "ParseControllerGroups (map (\<lambda>(l, g, r). concat l @ g @ concat r) gs) = Inr ((\<lambda>(l, g, r). g) ` set gs)"
proof -
  have "TrimSpace ((\<lambda>(l, g, r). concat l @ g @ concat r) x) = (\<lambda>(l, g, r). g) x" if "x \<in> set gs" for x
    using bspec [OF assms(2) that] group_clean by (auto intro!: TrimSpace_padded split: prod.splits)
  then have "TrimSpace ` set (map (\<lambda>(l, g, r). concat l @ g @ concat r) gs) = (\<lambda>(l, g, r). g) ` set gs"
    unfolding set_map image_image by (rule image_cong [OF refl])
  then show ?thesis
    using assms unfolding ParseControllerGroups_iff by (force split: prod.splits)
qed

theorem controller_groups_roundtrip_witness:
  "ParseControllerGroups ['' config '', ''workload'', ''config''] = Inr {''config'', ''workload''}"
  using controller_groups_roundtrip [of "[(['' ''], ''config'', ['' '']), ([], ''workload'', []), ([], ''config'', [])]"]
  by (simp add: AllControllerGroups_def group_defs go_spaces_def insert_commute)

section \<open>The controllers of a process\<close>

lemma setup_controllers_iff:
  "setup_controllers setup_one cs mgr = Inr mgr' \<longleftrightarrow> (\<forall>c \<in> set cs. setup_one c = Inr ()) \<and> mgr' = mgr @ cs"
  by (induction cs arbitrary: mgr) (auto split: sum.split)

text \<open>A process that starts runs exactly the controllers of the groups it was asked for: those that
  configure a kcp instance, those that deploy the compiled objects, or both, each once.\<close>

theorem run_controllers_correct:
  "run_controllers setup_one names = Inr mgr \<longleftrightarrow>
     names \<noteq> [] \<and> TrimSpace ` set names \<subseteq> AllControllerGroups \<and> (\<forall>c \<in> set mgr. setup_one c = Inr ())
     \<and> mgr = (if ControllerGroupConfig \<in> TrimSpace ` set names then config_controllers else [])
         @ (if ControllerGroupWorkload \<in> TrimSpace ` set names then workload_controllers else [])"
proof (cases "ParseControllerGroups names")
  case (Inl e)
  then show ?thesis
    using ParseControllerGroups_iff [of names "TrimSpace ` set names"] by (auto simp: run_controllers_def)
next
  case (Inr S)
  then have S: "names \<noteq> []" "TrimSpace ` set names \<subseteq> AllControllerGroups" "S = TrimSpace ` set names"
    by (simp_all add: ParseControllerGroups_iff)
  show ?thesis
    unfolding run_controllers_def Inr sum.case S(3) [symmetric] AddConfigControllers_def AddWorkloadControllers_def
    using S by (auto simp: bindE_eq_Inr setup_controllers_iff)
qed

theorem run_controllers_correct_witness:
  "run_controllers (\<lambda>_. Inr ()) [''config''] = Inr config_controllers"
proof -
  have "TrimSpace ''config'' = ''config''"
    using TrimSpace_padded [of "[]" "[]" "''config''"] group_clean(1) [of "''config''" "[]"] group_clean(2) [of "''config''"]
    by (simp add: AllControllerGroups_def group_defs)
  then show ?thesis
    using run_controllers_correct [of "\<lambda>_. Inr ()" "[''config'']" config_controllers]
    by (simp add: AllControllerGroups_def group_defs)
qed

end
