(* ===== verification/Go_Memory.thy ===== *)
theory Go_Memory
  imports Kcp_Prelude
begin

text \<open>
  The memory of a Go program, as far as the generated deep copies need it: a value is a scalar, a
  struct, or a reference (nil, a pointer, a slice, a map) into a memory of cells. Everywhere else in
  the development values are immutable; here the aliasing is the point.

  A type is a reader: it takes the memory and a value, checks that the value is one of the type, and
  returns its contents with every reference followed, and the addresses it went through. A copier is
  what a DeepCopyInto method does: it takes the memory and the value \<open>in\<close> points to, and returns the
  value left in \<open>out\<close> and the memory with what was allocated. Dereferencing what is not there is None.
\<close>

subsection \<open>Values and cells\<close>

datatype scalar = Text string | Num int | Flag bool

datatype go_value =
    Scalar scalar
  | NilRef
  | Pointer nat
  | Slice nat nat nat
  | MapRef nat
  | Struct "(string \<times> go_value) list"

datatype cell =
    One go_value
  | Many "go_value list"
  | Entries "(string \<times> go_value) list"

type_synonym memory = "cell list"

datatype contents =
    CScalar scalar
  | CNil
  | CPointer contents
  | CSlice "contents list"
  | CMap "(string \<times> contents) list"
  | CStruct "(string \<times> contents) list"

type_synonym go_type = "memory \<Rightarrow> go_value \<Rightarrow> (contents \<times> nat list) option"
type_synonym copier = "memory \<Rightarrow> go_value \<Rightarrow> (go_value \<times> memory) option"

definition load :: "memory \<Rightarrow> nat \<Rightarrow> cell option" where
  "load m a = (if a < length m then Some (m ! a) else None)"

subsection \<open>Types\<close>

definition text_type :: go_type where
  "text_type m v = (case v of Scalar (Text s) \<Rightarrow> Some (CScalar (Text s), []) | _ \<Rightarrow> None)"

definition num_type :: go_type where
  "num_type m v = (case v of Scalar (Num i) \<Rightarrow> Some (CScalar (Num i), []) | _ \<Rightarrow> None)"

definition flag_type :: go_type where
  "flag_type m v = (case v of Scalar (Flag b) \<Rightarrow> Some (CScalar (Flag b), []) | _ \<Rightarrow> None)"

definition pointer_type :: "go_type \<Rightarrow> go_type" where
  "pointer_type P m v = (case v of
      NilRef \<Rightarrow> Some (CNil, [])
    | Pointer a \<Rightarrow> (case load m a of
        Some (One x) \<Rightarrow> map_option (\<lambda>(t, A). (CPointer t, a # A)) (P m x)
      | _ \<Rightarrow> None)
    | _ \<Rightarrow> None)"

fun read_all :: "go_type \<Rightarrow> memory \<Rightarrow> go_value list \<Rightarrow> (contents list \<times> nat list) option" where
  "read_all P m [] = Some ([], [])"
| "read_all P m (x # xs) = (case (P m x, read_all P m xs) of
      (Some (t, A), Some (ts, B)) \<Rightarrow> Some (t # ts, A @ B)
    | _ \<Rightarrow> None)"

text \<open>A slice is the cell of its array, the offset of its first element and its length.\<close>

definition slice_type :: "go_type \<Rightarrow> go_type" where
  "slice_type P m v = (case v of
      NilRef \<Rightarrow> Some (CNil, [])
    | Slice a i n \<Rightarrow> (case load m a of
        Some (Many xs) \<Rightarrow>
          if i + n \<le> length xs
          then map_option (\<lambda>(ts, A). (CSlice ts, a # A)) (read_all P m (take n (drop i xs)))
          else None
      | _ \<Rightarrow> None)
    | _ \<Rightarrow> None)"

text \<open>A map is the list of its entries, in the order in which it is iterated.\<close>

definition map_type :: "go_type \<Rightarrow> go_type" where
  "map_type P m v = (case v of
      NilRef \<Rightarrow> Some (CNil, [])
    | MapRef a \<Rightarrow> (case load m a of
        Some (Entries es) \<Rightarrow>
          if distinct (map fst es)
          then map_option (\<lambda>(ts, A). (CMap (zip (map fst es) ts), a # A)) (read_all P m (map snd es))
          else None
      | _ \<Rightarrow> None)
    | _ \<Rightarrow> None)"

fun read_fields :: "(string \<times> go_type) list \<Rightarrow> memory \<Rightarrow> (string \<times> go_value) list
    \<Rightarrow> ((string \<times> contents) list \<times> nat list) option" where
  "read_fields [] m [] = Some ([], [])"
| "read_fields ((n, P) # fs) m ((k, x) # vs) =
    (if k = n
     then (case (P m x, read_fields fs m vs) of
        (Some (t, A), Some (ts, B)) \<Rightarrow> Some ((n, t) # ts, A @ B)
      | _ \<Rightarrow> None)
     else None)"
| "read_fields _ m _ = None"

definition struct_type :: "(string \<times> go_type) list \<Rightarrow> go_type" where
  "struct_type fs m v = (case v of
      Struct vs \<Rightarrow> map_option (\<lambda>(ts, A). (CStruct ts, A)) (read_fields fs m vs)
    | _ \<Rightarrow> None)"

subsection \<open>Copiers\<close>

text \<open>\<open>out.F = in.F\<close>, and the elements \<open>**out = **in\<close>, \<open>copy(*out, *in)\<close> and \<open>out[key] = val\<close> write.\<close>

definition assign :: copier where
  "assign m v = Some (v, m)"

text \<open>\<open>if in.F != nil { *out = new(T); ... }\<close>, the pointed-to value copied by \<open>f\<close>.\<close>

definition copy_pointer :: "copier \<Rightarrow> copier" where
  "copy_pointer f m v = (case v of
      NilRef \<Rightarrow> Some (NilRef, m)
    | Pointer a \<Rightarrow> (case load m a of
        Some (One x) \<Rightarrow> map_option (\<lambda>(y, m'). (Pointer (length m'), m' @ [One y])) (f m x)
      | _ \<Rightarrow> None)
    | _ \<Rightarrow> None)"

fun copy_all :: "copier \<Rightarrow> memory \<Rightarrow> go_value list \<Rightarrow> (go_value list \<times> memory) option" where
  "copy_all f m [] = Some ([], m)"
| "copy_all f m (x # xs) = (case f m x of
      None \<Rightarrow> None
    | Some (y, m') \<Rightarrow> (case copy_all f m' xs of
        None \<Rightarrow> None
      | Some (ys, m'') \<Rightarrow> Some (y # ys, m'')))"

text \<open>\<open>if in.F != nil { *out = make([]T, len(*in)); for i := range *in { ... } }\<close>\<close>

definition copy_slice :: "copier \<Rightarrow> copier" where
  "copy_slice f m v = (case v of
      NilRef \<Rightarrow> Some (NilRef, m)
    | Slice a i n \<Rightarrow> (case load m a of
        Some (Many xs) \<Rightarrow>
          map_option (\<lambda>(ys, m'). (Slice (length m') 0 n, m' @ [Many ys]))
            (copy_all f m (take n (drop i xs)))
      | _ \<Rightarrow> None)
    | _ \<Rightarrow> None)"

text \<open>\<open>*out = make(map[string]T, len(*in)); for key, val := range *in { ... }\<close>; a nil map has no entries.\<close>

definition make_map :: "copier \<Rightarrow> copier" where
  "make_map f m v = (case v of
      NilRef \<Rightarrow> Some (MapRef (length m), m @ [Entries []])
    | MapRef a \<Rightarrow> (case load m a of
        Some (Entries es) \<Rightarrow>
          map_option (\<lambda>(ys, m'). (MapRef (length m'), m' @ [Entries (zip (map fst es) ys)]))
            (copy_all f m (map snd es))
      | _ \<Rightarrow> None)
    | _ \<Rightarrow> None)"

text \<open>The same under \<open>if in.F != nil\<close>.\<close>

definition copy_map :: "copier \<Rightarrow> copier" where
  "copy_map f m v = (if v = NilRef then Some (NilRef, m) else make_map f m v)"

definition set_field :: "string \<Rightarrow> go_value \<Rightarrow> (string \<times> go_value) list \<Rightarrow> (string \<times> go_value) list" where
  "set_field n y vs = map (\<lambda>(k, x). if k = n then (k, y) else (k, x)) vs"

fun copy_steps :: "(string \<times> copier) list \<Rightarrow> (string \<times> go_value) list \<Rightarrow> memory
    \<Rightarrow> (string \<times> go_value) list \<Rightarrow> ((string \<times> go_value) list \<times> memory) option" where
  "copy_steps [] src m dst = Some (dst, m)"
| "copy_steps ((n, f) # ss) src m dst = (case map_of src n of
      None \<Rightarrow> None
    | Some x \<Rightarrow> (case f m x of
        None \<Rightarrow> None
      | Some (y, m') \<Rightarrow> copy_steps ss src m' (set_field n y dst)))"

text \<open>The body of a DeepCopyInto: \<open>*out = *in\<close>, then one statement per field that holds references.\<close>

definition copy_fields :: "(string \<times> copier) list \<Rightarrow> copier" where
  "copy_fields ss m v = (case v of
      Struct vs \<Rightarrow> map_option (\<lambda>(dst, m'). (Struct dst, m')) (copy_steps ss vs m vs)
    | _ \<Rightarrow> None)"

text \<open>
  The DeepCopy of a type whose DeepCopyInto is \<open>f\<close>: nil for a nil receiver, otherwise a new object
  that \<open>f\<close> fills. DeepCopyObject wraps the result in an interface, which is nil (None) when the
  pointer is.
\<close>

definition deep_copy :: "copier \<Rightarrow> copier" where
  "deep_copy f m v = (if v = NilRef then Some (NilRef, m) else copy_pointer f m v)"

definition deep_copy_object :: "copier \<Rightarrow> memory \<Rightarrow> go_value \<Rightarrow> (go_value option \<times> memory) option" where
  "deep_copy_object f m v =
    map_option (\<lambda>(c, m'). (if c \<noteq> NilRef then Some c else None, m')) (f m v)"

end
