(* ===== verification/Go_Memory_Facts.thy ===== *)
theory Go_Memory_Facts
  imports Go_Memory
begin

text \<open>
  What makes a copier deep, and that the combinators of Go_Memory keep it. A type is regular when
  what it reads depends on the cells of its footprint only, flat when its values hold no reference.
  A copier is deep for a type when the copy has the contents of the original and a footprint of
  cells allocated by the copier.
\<close>

subsection \<open>Contracts\<close>

definition unchanged_at :: "memory \<Rightarrow> memory \<Rightarrow> nat list \<Rightarrow> bool" where
  "unchanged_at m m' A \<longleftrightarrow> (\<forall>a\<in>set A. a < length m' \<and> m' ! a = m ! a)"

definition regular :: "go_type \<Rightarrow> bool" where
  "regular P \<longleftrightarrow> (\<forall>m v t A. P m v = Some (t, A) \<longrightarrow>
    (\<forall>a\<in>set A. a < length m) \<and> (\<forall>m'. unchanged_at m m' A \<longrightarrow> P m' v = Some (t, A)))"

definition flat :: "go_type \<Rightarrow> bool" where
  "flat P \<longleftrightarrow> regular P \<and> (\<forall>m v t A. P m v = Some (t, A) \<longrightarrow> A = [])"

definition copies :: "go_type \<Rightarrow> copier \<Rightarrow> bool" where
  "copies P f \<longleftrightarrow> regular P \<and> (\<forall>m v t A. P m v = Some (t, A) \<longrightarrow>
    (\<exists>w new B. f m v = Some (w, m @ new) \<and> P (m @ new) w = Some (t, B)
      \<and> (\<forall>b\<in>set B. length m \<le> b)))"

lemma regularD:
  assumes "regular P" "P m v = Some (t, A)"
  shows "a \<in> set A \<Longrightarrow> a < length m" and "unchanged_at m m' A \<Longrightarrow> P m' v = Some (t, A)"
  using assms unfolding regular_def by blast+

lemma regularI:
  assumes "\<And>m v t A. P m v = Some (t, A) \<Longrightarrow> \<forall>a\<in>set A. a < length m"
    and "\<And>m m' v t A. P m v = Some (t, A) \<Longrightarrow> unchanged_at m m' A \<Longrightarrow> P m' v = Some (t, A)"
  shows "regular P"
  using assms unfolding regular_def by blast

lemma flat_regular: "flat P \<Longrightarrow> regular P"
  by (simp add: flat_def)

lemma copies_regular: "copies P f \<Longrightarrow> regular P"
  by (simp add: copies_def)

lemma copiesE:
  assumes "copies P f" "P m v = Some (t, A)"
  obtains w new B where "f m v = Some (w, m @ new)" "P (m @ new) w = Some (t, B)"
    "\<forall>b\<in>set B. length m \<le> b"
  using assms unfolding copies_def by blast

lemma unchanged_at_append [simp]: "\<forall>a\<in>set A. a < length m \<Longrightarrow> unchanged_at m (m @ new) A"
  by (auto simp: unchanged_at_def nth_append)

lemma unchanged_at_lists [simp]:
  "unchanged_at m m' []"
  "unchanged_at m m' (a # A) \<longleftrightarrow> a < length m' \<and> m' ! a = m ! a \<and> unchanged_at m m' A"
  "unchanged_at m m' (A @ B) \<longleftrightarrow> unchanged_at m m' A \<and> unchanged_at m m' B"
  by (auto simp: unchanged_at_def)

lemma regular_append:
  assumes "regular P" "P m v = Some (t, A)"
  shows "P (m @ new) v = Some (t, A)"
  using regularD(1) [OF assms] by (intro regularD(2) [OF assms]) (simp add: unchanged_at_append)

lemma load_Some: "load m a = Some c \<longleftrightarrow> a < length m \<and> m ! a = c"
  by (auto simp: load_def)

lemma load_unchanged: "a < length m' \<Longrightarrow> m' ! a = m ! a \<Longrightarrow> a < length m \<Longrightarrow> load m' a = load m a"
  by (simp add: load_def)

lemma load_fresh [simp]: "load (m @ [c]) (length m) = Some c"
  by (simp add: load_def)

subsection \<open>Types are regular\<close>

lemma flat_scalar [simp]: "flat text_type" "flat num_type" "flat flag_type"
  by (auto simp: flat_def regular_def text_type_def num_type_def flag_type_def
      split: go_value.splits scalar.splits)

lemma read_all_regular:
  assumes "regular P" "read_all P m xs = Some (ts, A)"
  shows "a \<in> set A \<Longrightarrow> a < length m" and "unchanged_at m m' A \<Longrightarrow> read_all P m' xs = Some (ts, A)"
proof -
  have "(\<forall>a\<in>set A. a < length m) \<and> (unchanged_at m m' A \<longrightarrow> read_all P m' xs = Some (ts, A))"
    using assms(2)
  proof (induction xs arbitrary: ts A)
    case (Cons x xs)
    obtain t B us C where "P m x = Some (t, B)" "read_all P m xs = Some (us, C)"
      and "ts = t # us" "A = B @ C"
      using Cons.prems by (auto split: option.splits)
    then show ?case
      using Cons.IH [of us C] regularD [OF assms(1), of m x t B]
      by (simp add: ball_Un)
  qed simp
  then show "a \<in> set A \<Longrightarrow> a < length m" and "unchanged_at m m' A \<Longrightarrow> read_all P m' xs = Some (ts, A)"
    by blast+
qed

lemma read_all_append:
  assumes "regular P" "read_all P m xs = Some (ts, A)"
  shows "read_all P (m @ new) xs = Some (ts, A)"
  using read_all_regular [OF assms] by simp

lemma read_fields_regular:
  assumes "\<forall>(n, P)\<in>set fs. regular P" "read_fields fs m vs = Some (ts, A)"
  shows "(\<forall>a\<in>set A. a < length m) \<and> (unchanged_at m m' A \<longrightarrow> read_fields fs m' vs = Some (ts, A))"
  using assms
proof (induction fs m vs arbitrary: ts A rule: read_fields.induct)
  case (2 n P fs m k x vs)
  obtain t B us C where "k = n" "P m x = Some (t, B)" "read_fields fs m vs = Some (us, C)"
    and "ts = (n, t) # us" "A = B @ C"
    using "2.prems" by (auto split: option.splits if_splits)
  then show ?case
    using "2.IH" "2.prems"(1) regularD [of P m x t B] by auto
qed auto

lemma regular_pointer [simp]:
  assumes "regular P" shows "regular (pointer_type P)"
proof (rule regularI)
  fix m v t A assume "pointer_type P m v = Some (t, A)"
  then show "\<forall>a\<in>set A. a < length m"
    by (auto simp: pointer_type_def load_Some split: go_value.splits option.splits cell.splits
        intro: regularD(1) [OF assms])
next
  fix m m' v t A assume "pointer_type P m v = Some (t, A)" "unchanged_at m m' A"
  then show "pointer_type P m' v = Some (t, A)"
    by (auto simp: pointer_type_def load_def split: go_value.splits option.splits cell.splits if_splits
        dest: regularD(2) [OF assms])
qed

lemma regular_slice [simp]:
  assumes "regular P" shows "regular (slice_type P)"
proof (rule regularI)
  fix m v t A assume "slice_type P m v = Some (t, A)"
  then show "\<forall>a\<in>set A. a < length m"
    by (auto simp: slice_type_def load_Some split: go_value.splits option.splits cell.splits if_splits
        intro: read_all_regular(1) [OF assms])
next
  fix m m' v t A assume "slice_type P m v = Some (t, A)" "unchanged_at m m' A"
  then show "slice_type P m' v = Some (t, A)"
    by (auto simp: slice_type_def load_def split: go_value.splits option.splits cell.splits if_splits
        dest: read_all_regular(2) [OF assms])
qed

lemma regular_map [simp]:
  assumes "regular P" shows "regular (map_type P)"
proof (rule regularI)
  fix m v t A assume "map_type P m v = Some (t, A)"
  then show "\<forall>a\<in>set A. a < length m"
    by (auto simp: map_type_def load_Some split: go_value.splits option.splits cell.splits if_splits
        intro: read_all_regular(1) [OF assms])
next
  fix m m' v t A assume "map_type P m v = Some (t, A)" "unchanged_at m m' A"
  then show "map_type P m' v = Some (t, A)"
    by (auto simp: map_type_def load_def split: go_value.splits option.splits cell.splits if_splits
        dest: read_all_regular(2) [OF assms])
qed

lemma regular_struct [simp]:
  assumes "list_all (\<lambda>(n, P). regular P) fs" shows "regular (struct_type fs)"
  using assms
  by (intro regularI)
    (auto simp: struct_type_def list_all_iff split: go_value.splits dest: read_fields_regular)

lemma flat_struct [simp]:
  assumes "list_all (\<lambda>(n, P). flat P) fs" shows "flat (struct_type fs)"
proof -
  have "read_fields fs m vs = Some (ts, A) \<Longrightarrow> A = []" for m vs ts A
    using assms
    by (induction fs m vs arbitrary: ts A rule: read_fields.induct)
      (auto simp: flat_def split: option.splits if_splits)
  moreover have "regular (struct_type fs)"
    using assms by (intro regular_struct) (auto simp: list_all_iff flat_def)
  ultimately show ?thesis
    by (auto simp: flat_def struct_type_def split: go_value.splits)
qed

subsection \<open>The combinators are deep\<close>

lemma copies_assign [simp]: "flat P \<Longrightarrow> copies P assign"
  by (fastforce simp: copies_def flat_def assign_def)

lemma copy_all_copies:
  assumes "copies P f" "read_all P m xs = Some (ts, A)"
  shows "\<exists>ys new B. copy_all f m xs = Some (ys, m @ new) \<and> length ys = length xs
    \<and> read_all P (m @ new) ys = Some (ts, B) \<and> (\<forall>b\<in>set B. length m \<le> b)"
  using assms(2)
proof (induction xs arbitrary: m ts A)
  case (Cons x xs)
  obtain t B us C where rd: "P m x = Some (t, B)" "read_all P m xs = Some (us, C)" "ts = t # us"
    using Cons.prems by (auto split: option.splits)
  obtain y new D where y: "f m x = Some (y, m @ new)" "P (m @ new) y = Some (t, D)"
      "\<forall>d\<in>set D. length m \<le> d"
    using copiesE [OF assms(1) rd(1)] by blast
  from Cons.IH [OF read_all_append [OF copies_regular [OF assms(1)] rd(2), where new = new]] obtain ys new2 E where ys: "copy_all f (m @ new) xs = Some (ys, m @ new @ new2)"
      "length ys = length xs" "read_all P (m @ new @ new2) ys = Some (us, E)"
      "\<forall>e\<in>set E. length m + length new \<le> e"
    by auto
  have "P (m @ new @ new2) y = Some (t, D)"
    using regular_append [OF copies_regular [OF assms(1)] y(2)] by simp
  then show ?case
    using y ys rd(3) by (intro exI [of _ "y # ys"] exI [of _ "new @ new2"]) auto
qed simp

lemma copies_pointer [simp]:
  assumes "copies P f" shows "copies (pointer_type P) (copy_pointer f)"
  unfolding copies_def
proof (intro conjI allI impI)
  fix m v t A assume rd: "pointer_type P m v = Some (t, A)"
  show "\<exists>w new B. copy_pointer f m v = Some (w, m @ new) \<and> pointer_type P (m @ new) w = Some (t, B)
      \<and> (\<forall>b\<in>set B. length m \<le> b)"
  proof (cases "v = NilRef")
    case False
    then obtain a x u B where a: "v = Pointer a" "load m a = Some (One x)" "P m x = Some (u, B)"
        "t = CPointer u"
      using rd by (auto simp: pointer_type_def split: go_value.splits option.splits cell.splits)
    obtain y new D where y: "f m x = Some (y, m @ new)" "P (m @ new) y = Some (u, D)"
        "\<forall>d\<in>set D. length m \<le> d"
      using copiesE [OF assms a(3)] by blast
    have "P (m @ new @ [One y]) y = Some (u, D)"
      using regular_append [OF copies_regular [OF assms] y(2)] by simp
    then show ?thesis
      using a y load_fresh [of "m @ new" "One y"]
      by (intro exI [of _ "Pointer (length (m @ new))"] exI [of _ "new @ [One y]"])
        (auto simp: copy_pointer_def pointer_type_def)
  qed (use rd in \<open>auto simp: pointer_type_def copy_pointer_def\<close>)
qed (simp add: copies_regular [OF assms])

lemma copies_slice [simp]:
  assumes "copies P f" shows "copies (slice_type P) (copy_slice f)"
  unfolding copies_def
proof (intro conjI allI impI)
  fix m v t A assume rd: "slice_type P m v = Some (t, A)"
  show "\<exists>w new B. copy_slice f m v = Some (w, m @ new) \<and> slice_type P (m @ new) w = Some (t, B)
      \<and> (\<forall>b\<in>set B. length m \<le> b)"
  proof (cases "v = NilRef")
    case False
    then obtain a i n xs us B where a: "v = Slice a i n" "load m a = Some (Many xs)"
        "i + n \<le> length xs" "read_all P m (take n (drop i xs)) = Some (us, B)" "t = CSlice us"
      using rd by (auto simp: slice_type_def split: go_value.splits option.splits cell.splits if_splits)
    obtain ys new D where ys: "copy_all f m (take n (drop i xs)) = Some (ys, m @ new)"
        "length ys = length (take n (drop i xs))" "read_all P (m @ new) ys = Some (us, D)"
        "\<forall>d\<in>set D. length m \<le> d"
      using copy_all_copies [OF assms a(4)] by blast
    have "read_all P (m @ new @ [Many ys]) ys = Some (us, D)"
      using read_all_append [OF copies_regular [OF assms] ys(3)] by simp
    moreover have "length ys = n"
      using ys(2) a(3) by simp
    ultimately show ?thesis
      using a ys load_fresh [of "m @ new" "Many ys"]
      by (intro exI [of _ "Slice (length (m @ new)) 0 n"] exI [of _ "new @ [Many ys]"])
        (auto simp: copy_slice_def slice_type_def)
  qed (use rd in \<open>auto simp: slice_type_def copy_slice_def\<close>)
qed (simp add: copies_regular [OF assms])

lemma copies_map [simp]:
  assumes "copies P f" shows "copies (map_type P) (copy_map f)"
  unfolding copies_def
proof (intro conjI allI impI)
  fix m v t A assume rd: "map_type P m v = Some (t, A)"
  show "\<exists>w new B. copy_map f m v = Some (w, m @ new) \<and> map_type P (m @ new) w = Some (t, B)
      \<and> (\<forall>b\<in>set B. length m \<le> b)"
  proof (cases "v = NilRef")
    case False
    then obtain a es us B where a: "v = MapRef a" "load m a = Some (Entries es)"
        "distinct (map fst es)" "read_all P m (map snd es) = Some (us, B)"
        "t = CMap (zip (map fst es) us)"
      using rd by (auto simp: map_type_def split: go_value.splits option.splits cell.splits if_splits)
    obtain ys new D where ys: "copy_all f m (map snd es) = Some (ys, m @ new)"
        "length ys = length (map snd es)" "read_all P (m @ new) ys = Some (us, D)"
        "\<forall>d\<in>set D. length m \<le> d"
      using copy_all_copies [OF assms a(4)] by blast
    define ds where "ds = zip (map fst es) ys"
    have ds: "map fst ds = map fst es" "map snd ds = ys"
      using ys(2) by (simp_all add: ds_def)
    have "read_all P (m @ new @ [Entries ds]) ys = Some (us, D)"
      using read_all_append [OF copies_regular [OF assms] ys(3)] by simp
    then show ?thesis
      using a ys ds load_fresh [of "m @ new" "Entries ds"]
      by (intro exI [of _ "MapRef (length (m @ new))"] exI [of _ "new @ [Entries ds]"])
        (auto simp: copy_map_def make_map_def map_type_def ds_def [symmetric])
  qed (use rd in \<open>auto simp: map_type_def copy_map_def\<close>)
qed (simp add: copies_regular [OF assms])

subsection \<open>Structs\<close>

text \<open>
  Half way through a DeepCopyInto, with the fields \<open>D\<close> already written: every field of \<open>out\<close> has the
  contents of the field of \<open>in\<close>, and those of \<open>D\<close> no cell that was there before.
\<close>

fun half_copied :: "string set \<Rightarrow> memory \<Rightarrow> memory \<Rightarrow> (string \<times> go_type) list
    \<Rightarrow> (string \<times> go_value) list \<Rightarrow> (string \<times> go_value) list \<Rightarrow> (string \<times> contents) list \<Rightarrow> bool" where
  "half_copied D m0 m [] [] [] [] = True"
| "half_copied D m0 m ((n, P) # fs) ((k, x) # src) ((l, y) # dst) ((c, t) # ts) =
    (k = n \<and> l = n \<and> c = n \<and> (\<exists>A. P m0 x = Some (t, A))
      \<and> (\<exists>B. P m y = Some (t, B) \<and> (n \<in> D \<longrightarrow> (\<forall>b\<in>set B. length m0 \<le> b)))
      \<and> half_copied D m0 m fs src dst ts)"
| "half_copied _ _ _ _ _ _ _ = False"

lemma half_copied_start:
  "read_fields fs m vs = Some (ts, A) \<Longrightarrow> half_copied {} m m fs vs vs ts"
  by (induction fs m vs arbitrary: ts A rule: read_fields.induct)
    (auto split: option.splits if_splits)

lemma half_copied_names: "half_copied D m0 m fs src dst ts \<Longrightarrow> map fst src = map fst fs"
  by (induction D m0 m fs src dst ts rule: half_copied.induct) auto

lemma half_copied_lookup:
  "half_copied D m0 m fs src dst ts \<Longrightarrow> map_of fs n = Some P
    \<Longrightarrow> \<exists>x t A. map_of src n = Some x \<and> map_of ts n = Some t \<and> P m0 x = Some (t, A)"
  by (induction D m0 m fs src dst ts rule: half_copied.induct) (auto split: if_splits)

lemma half_copied_append:
  "half_copied D m0 m fs src dst ts \<Longrightarrow> \<forall>(n, P)\<in>set fs. regular P
    \<Longrightarrow> half_copied D m0 (m @ new) fs src dst ts"
  by (induction D m0 m fs src dst ts rule: half_copied.induct) (auto dest: regular_append)

lemma half_copied_other:
  "half_copied D m0 m fs src dst ts \<Longrightarrow> n \<notin> fst ` set fs
    \<Longrightarrow> half_copied (insert n D) m0 m fs src (set_field n y dst) ts"
  by (induction D m0 m fs src dst ts rule: half_copied.induct) (auto simp: set_field_def)

lemma half_copied_set:
  "half_copied D m0 m fs src dst ts \<Longrightarrow> distinct (map fst fs) \<Longrightarrow> map_of fs n = Some P
    \<Longrightarrow> map_of ts n = Some t \<Longrightarrow> P m y = Some (t, B) \<Longrightarrow> \<forall>b\<in>set B. length m0 \<le> b
    \<Longrightarrow> half_copied (insert n D) m0 m fs src (set_field n y dst) ts"
proof (induction D m0 m fs src dst ts rule: half_copied.induct)
  case (2 D m0 m l Q fs k x src l' z dst c u ts)
  then show ?case
    using half_copied_other [of D m0 m fs src dst ts n y]
    by (auto simp: set_field_def split: if_splits)
qed auto

lemma half_copied_done:
  "half_copied D m0 m fs src dst ts \<Longrightarrow> \<forall>(n, P)\<in>set fs. n \<in> D \<or> flat P
    \<Longrightarrow> \<exists>B. read_fields fs m dst = Some (ts, B) \<and> (\<forall>b\<in>set B. length m0 \<le> b)"
proof (induction D m0 m fs src dst ts rule: half_copied.induct)
  case (2 D m0 m n P fs k x src l y dst c t ts)
  obtain B where y: "P m y = Some (t, B)" "n \<in> D \<longrightarrow> (\<forall>b\<in>set B. length m0 \<le> b)"
    using "2.prems"(1) by auto
  have "\<forall>b\<in>set B. length m0 \<le> b"
  proof (cases "n \<in> D")
    case False
    then have "B = []"
      using "2.prems"(2) y(1) unfolding flat_def by auto
    then show ?thesis by simp
  qed (use y in simp)
  moreover obtain C where "read_fields fs m dst = Some (ts, C)" "\<forall>b\<in>set C. length m0 \<le> b"
    using "2.IH" "2.prems" by auto
  ultimately show ?case
    using "2.prems"(1) y(1) by (auto intro: exI [of _ "B @ C"])
qed auto

lemma copy_steps_copies:
  assumes "half_copied D m0 (m0 @ ext) fs src dst ts" "\<forall>(n, P)\<in>set fs. regular P"
    and "distinct (map fst fs)" "\<forall>(n, f)\<in>set ss. \<exists>P. map_of fs n = Some P \<and> copies P f"
  shows "\<exists>dst' new. copy_steps ss src (m0 @ ext) dst = Some (dst', m0 @ ext @ new)
    \<and> half_copied (D \<union> fst ` set ss) m0 (m0 @ ext @ new) fs src dst' ts"
  using assms(1,4)
proof (induction ss arbitrary: D ext dst)
  case (Cons s ss)
  obtain n f P where s: "s = (n, f)" "map_of fs n = Some P" "copies P f"
    using Cons.prems(2) by (cases s) auto
  obtain x t A where x: "map_of src n = Some x" "map_of ts n = Some t" "P m0 x = Some (t, A)"
    using half_copied_lookup [OF Cons.prems(1) s(2)] by blast
  obtain y new B where y: "f (m0 @ ext) x = Some (y, m0 @ ext @ new)"
      "P (m0 @ ext @ new) y = Some (t, B)" "\<forall>b\<in>set B. length m0 + length ext \<le> b"
    using copiesE [OF s(3) regular_append [OF copies_regular [OF s(3)] x(3)], of ext] by auto
  have "half_copied (insert n D) m0 (m0 @ ext @ new) fs src (set_field n y dst) ts"
    using half_copied_append [OF Cons.prems(1) assms(2), of new] assms(3) s(2) x(2) y(2,3)
    by (intro half_copied_set [where P = P and t = t and B = B]) auto
  from Cons.IH [OF this] Cons.prems(2) show ?case
    using s(1) x(1) y(1) by (auto simp: Un_insert_left)
qed auto

text \<open>
  A DeepCopyInto is deep if every field that may hold a reference is written by a copier that is
  deep for the field's type.
\<close>

lemma copies_fields [simp]:
  assumes "distinct (map fst fs)" "list_all (\<lambda>(n, f). n \<in> fst ` set fs) ss"
    and "list_all (\<lambda>(n, P). case map_of ss n of Some f \<Rightarrow> copies P f | None \<Rightarrow> flat P) fs"
    and "distinct (map fst ss)"
  shows "copies (struct_type fs) (copy_fields ss)"
proof -
  have reg: "\<forall>(n, P)\<in>set fs. regular P"
    using assms(3) by (fastforce simp: list_all_iff flat_regular copies_regular split: option.splits)
  have steps: "\<forall>(n, f)\<in>set ss. \<exists>P. map_of fs n = Some P \<and> copies P f"
  proof clarify
    fix n f assume nf: "(n, f) \<in> set ss"
    then obtain P where "(n, P) \<in> set fs"
      using assms(2) by (auto simp: list_all_iff)
    then show "\<exists>P. map_of fs n = Some P \<and> copies P f"
      using assms(1,3,4) nf by (fastforce simp: list_all_iff)
  qed
  have rest: "\<forall>(n, P)\<in>set fs. n \<in> fst ` set ss \<or> flat P"
    using assms(3) by (fastforce simp: list_all_iff map_of_eq_None_iff split: option.splits)
  show ?thesis
    unfolding copies_def
  proof (intro conjI allI impI)
    show "regular (struct_type fs)"
      using reg by (intro regular_struct) (auto simp: list_all_iff)
  next
    fix m v t A assume "struct_type fs m v = Some (t, A)"
    then obtain vs ts where v: "v = Struct vs" "read_fields fs m vs = Some (ts, A)" "t = CStruct ts"
      by (auto simp: struct_type_def split: go_value.splits)
    obtain dst new where "copy_steps ss vs m vs = Some (dst, m @ new)"
        "half_copied (fst ` set ss) m (m @ new) fs vs dst ts"
      using copy_steps_copies [of "{}" m "[]" fs vs vs ts ss] half_copied_start [OF v(2)]
        reg steps assms(1) by auto
    then show "\<exists>w new B. copy_fields ss m v = Some (w, m @ new)
        \<and> struct_type fs (m @ new) w = Some (t, B) \<and> (\<forall>b\<in>set B. length m \<le> b)"
      using v half_copied_done [OF _ rest]
      by (fastforce simp: copy_fields_def struct_type_def)
  qed
qed

end
