(* ===== verification/Deep_Copy_Parts.thy ===== *)
theory Deep_Copy_Parts
  imports Go_Memory_Facts
begin

text \<open>
  The generated deep copies of the structs the operator types are made of
  (sdk/apis/operator/v1alpha1/zz_generated.deepcopy.go), up to those that are made of them. \<open>go_T\<close> is
  the declaration of the Go type T, field by field, \<open>T_DeepCopyInto\<close>, \<open>T_DeepCopy\<close> and
  \<open>T_DeepCopyObject\<close> are its methods. The temporary that \<open>*val.DeepCopy()\<close> allocates for an entry of a
  map is garbage at once and is not kept.
\<close>

subsection \<open>The library\<close>

text \<open>
  The Kubernetes types the API types contain, with the reader of the type and its own DeepCopyInto.
\<close>

datatype library_type =
    Affinity | LocalObjectReference | ResourceRequirements | HostAlias | Toleration
  | TopologySpreadConstraint | Volume | VolumeMount | Condition | Duration | ListMeta | ObjectMeta
  | TypeMeta

record go_library =
  lib_type :: "library_type \<Rightarrow> go_type"
  lib_DeepCopyInto :: "library_type \<Rightarrow> copier"

text \<open>
  What the generated code relies on: the DeepCopyInto of a library type is deep, and the three types
  it copies by assignment have no reference in them.
\<close>

definition library_ok :: "go_library \<Rightarrow> bool" where
  "library_ok L \<longleftrightarrow> (\<forall>n. copies (lib_type L n) (lib_DeepCopyInto L n))
    \<and> flat (lib_type L TypeMeta) \<and> flat (lib_type L Duration) \<and> flat (lib_type L LocalObjectReference)"

lemma library_copies [simp]:
  "library_ok L \<Longrightarrow> copies (lib_type L n) (lib_DeepCopyInto L n)"
  "library_ok L \<Longrightarrow> flat (lib_type L TypeMeta)"
  "library_ok L \<Longrightarrow> flat (lib_type L Duration)"
  "library_ok L \<Longrightarrow> flat (lib_type L LocalObjectReference)"
  by (simp_all add: library_ok_def)

subsection \<open>Types built from basic and library types\<close>

definition go_AuditWebhookSpec :: "go_library \<Rightarrow> go_type" where
  "go_AuditWebhookSpec L = struct_type
    [(''BatchBufferSize'', num_type), (''BatchMaxSize'', num_type),
     (''BatchMaxWait'', pointer_type (lib_type L Duration)), (''BatchThrottleBurst'', num_type),
     (''BatchThrottleEnable'', flag_type), (''BatchThrottleQPS'', text_type),
     (''ConfigSecretName'', text_type), (''InitialBackoff'', pointer_type (lib_type L Duration)),
     (''Mode'', text_type), (''TruncateEnabled'', flag_type), (''TruncateMaxBatchSize'', num_type),
     (''TruncateMaxEventSize'', num_type), (''Version'', text_type)]"

definition AuditWebhookSpec_DeepCopyInto :: "go_library \<Rightarrow> copier" where
  "AuditWebhookSpec_DeepCopyInto L = copy_fields
    [(''BatchMaxWait'', copy_pointer assign), (''InitialBackoff'', copy_pointer assign)]"

definition AuditWebhookSpec_DeepCopy :: "go_library \<Rightarrow> copier" where
  "AuditWebhookSpec_DeepCopy L = deep_copy (AuditWebhookSpec_DeepCopyInto L)"

definition go_AuthenticationWebhookSpec :: "go_library \<Rightarrow> go_type" where
  "go_AuthenticationWebhookSpec L = struct_type
    [(''CacheAuthenticationTTL'', pointer_type (lib_type L Duration)),
     (''ConfigSecretName'', text_type), (''Version'', text_type)]"

definition AuthenticationWebhookSpec_DeepCopyInto :: "go_library \<Rightarrow> copier" where
  "AuthenticationWebhookSpec_DeepCopyInto L = copy_fields
    [(''CacheAuthenticationTTL'', copy_pointer assign)]"

definition AuthenticationWebhookSpec_DeepCopy :: "go_library \<Rightarrow> copier" where
  "AuthenticationWebhookSpec_DeepCopy L = deep_copy (AuthenticationWebhookSpec_DeepCopyInto L)"

definition go_AuthorizationWebhookSpec :: "go_library \<Rightarrow> go_type" where
  "go_AuthorizationWebhookSpec L = struct_type
    [(''AllowPaths'', pointer_type (slice_type text_type)),
     (''CacheAuthorizedTTL'', pointer_type (lib_type L Duration)),
     (''CacheUnauthorizedTTL'', pointer_type (lib_type L Duration)),
     (''ConfigSecretName'', text_type), (''Version'', text_type)]"

definition AuthorizationWebhookSpec_DeepCopyInto :: "go_library \<Rightarrow> copier" where
  "AuthorizationWebhookSpec_DeepCopyInto L = copy_fields
    [(''AllowPaths'', copy_pointer (copy_slice assign)),
     (''CacheAuthorizedTTL'', copy_pointer assign), (''CacheUnauthorizedTTL'', copy_pointer assign)]"

definition AuthorizationWebhookSpec_DeepCopy :: "go_library \<Rightarrow> copier" where
  "AuthorizationWebhookSpec_DeepCopy L = deep_copy (AuthorizationWebhookSpec_DeepCopyInto L)"

definition go_CacheServerStatus :: "go_type" where
  "go_CacheServerStatus = struct_type
    []"

definition CacheServerStatus_DeepCopyInto :: "copier" where
  "CacheServerStatus_DeepCopyInto = copy_fields
    []"

definition CacheServerStatus_DeepCopy :: "copier" where
  "CacheServerStatus_DeepCopy = deep_copy CacheServerStatus_DeepCopyInto"

definition go_CertificateMetadataTemplate :: "go_type" where
  "go_CertificateMetadataTemplate = struct_type
    [(''Annotations'', map_type text_type), (''Labels'', map_type text_type)]"

definition CertificateMetadataTemplate_DeepCopyInto :: "copier" where
  "CertificateMetadataTemplate_DeepCopyInto = copy_fields
    [(''Annotations'', copy_map assign), (''Labels'', copy_map assign)]"

definition CertificateMetadataTemplate_DeepCopy :: "copier" where
  "CertificateMetadataTemplate_DeepCopy = deep_copy CertificateMetadataTemplate_DeepCopyInto"

definition go_CertificatePrivateKeyTemplate :: "go_type" where
  "go_CertificatePrivateKeyTemplate = struct_type
    [(''RotationPolicy'', text_type), (''Encoding'', text_type), (''Algorithm'', text_type),
     (''Size'', num_type)]"

definition CertificatePrivateKeyTemplate_DeepCopyInto :: "copier" where
  "CertificatePrivateKeyTemplate_DeepCopyInto = copy_fields
    []"

definition CertificatePrivateKeyTemplate_DeepCopy :: "copier" where
  "CertificatePrivateKeyTemplate_DeepCopy = deep_copy CertificatePrivateKeyTemplate_DeepCopyInto"

definition go_CertificateSecretTemplate :: "go_type" where
  "go_CertificateSecretTemplate = struct_type
    [(''Annotations'', map_type text_type), (''Labels'', map_type text_type)]"

definition CertificateSecretTemplate_DeepCopyInto :: "copier" where
  "CertificateSecretTemplate_DeepCopyInto = copy_fields
    [(''Annotations'', copy_map assign), (''Labels'', copy_map assign)]"

definition CertificateSecretTemplate_DeepCopy :: "copier" where
  "CertificateSecretTemplate_DeepCopy = deep_copy CertificateSecretTemplate_DeepCopyInto"

definition go_DeploymentMetadataTemplate :: "go_type" where
  "go_DeploymentMetadataTemplate = struct_type
    [(''Annotations'', map_type text_type), (''Labels'', map_type text_type)]"

definition DeploymentMetadataTemplate_DeepCopyInto :: "copier" where
  "DeploymentMetadataTemplate_DeepCopyInto = copy_fields
    [(''Annotations'', copy_map assign), (''Labels'', copy_map assign)]"

definition DeploymentMetadataTemplate_DeepCopy :: "copier" where
  "DeploymentMetadataTemplate_DeepCopy = deep_copy DeploymentMetadataTemplate_DeepCopyInto"

definition go_EmbeddedCacheConfiguration :: "go_type" where
  "go_EmbeddedCacheConfiguration = struct_type
    [(''Enabled'', flag_type)]"

definition EmbeddedCacheConfiguration_DeepCopyInto :: "copier" where
  "EmbeddedCacheConfiguration_DeepCopyInto = copy_fields
    []"

definition EmbeddedCacheConfiguration_DeepCopy :: "copier" where
  "EmbeddedCacheConfiguration_DeepCopy = deep_copy EmbeddedCacheConfiguration_DeepCopyInto"

definition go_EtcdTLSConfig :: "go_library \<Rightarrow> go_type" where
  "go_EtcdTLSConfig L = struct_type
    [(''SecretRef'', lib_type L LocalObjectReference)]"

definition EtcdTLSConfig_DeepCopyInto :: "go_library \<Rightarrow> copier" where
  "EtcdTLSConfig_DeepCopyInto L = copy_fields
    [(''SecretRef'', assign)]"

definition EtcdTLSConfig_DeepCopy :: "go_library \<Rightarrow> copier" where
  "EtcdTLSConfig_DeepCopy L = deep_copy (EtcdTLSConfig_DeepCopyInto L)"

definition go_ExternalConfig :: "go_type" where
  "go_ExternalConfig = struct_type
    [(''Hostname'', text_type), (''Port'', num_type), (''PrivateHostname'', text_type),
     (''PrivatePort'', pointer_type num_type)]"

definition ExternalConfig_DeepCopyInto :: "copier" where
  "ExternalConfig_DeepCopyInto = copy_fields
    [(''PrivatePort'', copy_pointer assign)]"

definition ExternalConfig_DeepCopy :: "copier" where
  "ExternalConfig_DeepCopy = deep_copy ExternalConfig_DeepCopyInto"

definition go_FrontProxyStatus :: "go_library \<Rightarrow> go_type" where
  "go_FrontProxyStatus L = struct_type
    [(''Phase'', text_type), (''Conditions'', slice_type (lib_type L Condition))]"

definition FrontProxyStatus_DeepCopyInto :: "go_library \<Rightarrow> copier" where
  "FrontProxyStatus_DeepCopyInto L = copy_fields
    [(''Conditions'', copy_slice (lib_DeepCopyInto L Condition))]"

definition FrontProxyStatus_DeepCopy :: "go_library \<Rightarrow> copier" where
  "FrontProxyStatus_DeepCopy L = deep_copy (FrontProxyStatus_DeepCopyInto L)"

definition go_ImageSpec :: "go_library \<Rightarrow> go_type" where
  "go_ImageSpec L = struct_type
    [(''Repository'', text_type), (''Tag'', text_type),
     (''ImagePullSecrets'', slice_type (lib_type L LocalObjectReference))]"

definition ImageSpec_DeepCopyInto :: "go_library \<Rightarrow> copier" where
  "ImageSpec_DeepCopyInto L = copy_fields
    [(''ImagePullSecrets'', copy_slice assign)]"

definition ImageSpec_DeepCopy :: "go_library \<Rightarrow> copier" where
  "ImageSpec_DeepCopy L = deep_copy (ImageSpec_DeepCopyInto L)"

definition go_KubeconfigAuthorizationStatus :: "go_type" where
  "go_KubeconfigAuthorizationStatus = struct_type
    [(''ProvisionedCluster'', text_type)]"

definition KubeconfigAuthorizationStatus_DeepCopyInto :: "copier" where
  "KubeconfigAuthorizationStatus_DeepCopyInto = copy_fields
    []"

definition KubeconfigAuthorizationStatus_DeepCopy :: "copier" where
  "KubeconfigAuthorizationStatus_DeepCopy = deep_copy KubeconfigAuthorizationStatus_DeepCopyInto"

definition go_KubeconfigClusterRoleBindings :: "go_type" where
  "go_KubeconfigClusterRoleBindings = struct_type
    [(''Cluster'', text_type), (''ClusterRoles'', slice_type text_type)]"

definition KubeconfigClusterRoleBindings_DeepCopyInto :: "copier" where
  "KubeconfigClusterRoleBindings_DeepCopyInto = copy_fields
    [(''ClusterRoles'', copy_slice assign)]"

definition KubeconfigClusterRoleBindings_DeepCopy :: "copier" where
  "KubeconfigClusterRoleBindings_DeepCopy = deep_copy KubeconfigClusterRoleBindings_DeepCopyInto"

definition go_KubeconfigTarget :: "go_library \<Rightarrow> go_type" where
  "go_KubeconfigTarget L = struct_type
    [(''RootShardRef'', pointer_type (lib_type L LocalObjectReference)),
     (''ShardRef'', pointer_type (lib_type L LocalObjectReference)),
     (''FrontProxyRef'', pointer_type (lib_type L LocalObjectReference))]"

definition KubeconfigTarget_DeepCopyInto :: "go_library \<Rightarrow> copier" where
  "KubeconfigTarget_DeepCopyInto L = copy_fields
    [(''RootShardRef'', copy_pointer assign), (''ShardRef'', copy_pointer assign),
     (''FrontProxyRef'', copy_pointer assign)]"

definition KubeconfigTarget_DeepCopy :: "go_library \<Rightarrow> copier" where
  "KubeconfigTarget_DeepCopy L = deep_copy (KubeconfigTarget_DeepCopyInto L)"

definition go_LocalDataKeyReference :: "go_type" where
  "go_LocalDataKeyReference = struct_type
    [(''Name'', text_type), (''Key'', text_type)]"

definition LocalDataKeyReference_DeepCopyInto :: "copier" where
  "LocalDataKeyReference_DeepCopyInto = copy_fields
    []"

definition LocalDataKeyReference_DeepCopy :: "copier" where
  "LocalDataKeyReference_DeepCopy = deep_copy LocalDataKeyReference_DeepCopyInto"

definition go_LoggingSpec :: "go_type" where
  "go_LoggingSpec = struct_type
    [(''Level'', num_type)]"

definition LoggingSpec_DeepCopyInto :: "copier" where
  "LoggingSpec_DeepCopyInto = copy_fields
    []"

definition LoggingSpec_DeepCopy :: "copier" where
  "LoggingSpec_DeepCopy = deep_copy LoggingSpec_DeepCopyInto"

definition go_OIDCCAFileRef :: "go_type" where
  "go_OIDCCAFileRef = struct_type
    [(''Name'', text_type), (''Key'', text_type)]"

definition OIDCCAFileRef_DeepCopyInto :: "copier" where
  "OIDCCAFileRef_DeepCopyInto = copy_fields
    []"

definition OIDCCAFileRef_DeepCopy :: "copier" where
  "OIDCCAFileRef_DeepCopy = deep_copy OIDCCAFileRef_DeepCopyInto"

definition go_ObjectReference :: "go_type" where
  "go_ObjectReference = struct_type
    [(''Name'', text_type), (''Kind'', text_type), (''Group'', text_type)]"

definition ObjectReference_DeepCopyInto :: "copier" where
  "ObjectReference_DeepCopyInto = copy_fields
    []"

definition ObjectReference_DeepCopy :: "copier" where
  "ObjectReference_DeepCopy = deep_copy ObjectReference_DeepCopyInto"

definition go_PathMappingEntry :: "go_type" where
  "go_PathMappingEntry = struct_type
    [(''Path'', text_type), (''Backend'', text_type), (''BackendServerCA'', text_type),
     (''ProxyClientCert'', text_type), (''ProxyClientKey'', text_type)]"

definition PathMappingEntry_DeepCopyInto :: "copier" where
  "PathMappingEntry_DeepCopyInto = copy_fields
    []"

definition PathMappingEntry_DeepCopy :: "copier" where
  "PathMappingEntry_DeepCopy = deep_copy PathMappingEntry_DeepCopyInto"

definition go_PodMetadataTemplate :: "go_type" where
  "go_PodMetadataTemplate = struct_type
    [(''Annotations'', map_type text_type), (''Labels'', map_type text_type)]"

definition PodMetadataTemplate_DeepCopyInto :: "copier" where
  "PodMetadataTemplate_DeepCopyInto = copy_fields
    [(''Annotations'', copy_map assign), (''Labels'', copy_map assign)]"

definition PodMetadataTemplate_DeepCopy :: "copier" where
  "PodMetadataTemplate_DeepCopy = deep_copy PodMetadataTemplate_DeepCopyInto"

definition go_PodSpecTemplate :: "go_library \<Rightarrow> go_type" where
  "go_PodSpecTemplate L = struct_type
    [(''NodeSelector'', map_type text_type), (''Affinity'', pointer_type (lib_type L Affinity)),
     (''Tolerations'', slice_type (lib_type L Toleration)),
     (''HostAliases'', slice_type (lib_type L HostAlias)),
     (''ImagePullSecrets'', slice_type (lib_type L LocalObjectReference)),
     (''TopologySpreadConstraints'', slice_type (lib_type L TopologySpreadConstraint))]"

definition PodSpecTemplate_DeepCopyInto :: "go_library \<Rightarrow> copier" where
  "PodSpecTemplate_DeepCopyInto L = copy_fields
    [(''NodeSelector'', copy_map assign),
     (''Affinity'', copy_pointer (lib_DeepCopyInto L Affinity)),
     (''Tolerations'', copy_slice (lib_DeepCopyInto L Toleration)),
     (''HostAliases'', copy_slice (lib_DeepCopyInto L HostAlias)),
     (''ImagePullSecrets'', copy_slice assign),
     (''TopologySpreadConstraints'', copy_slice (lib_DeepCopyInto L TopologySpreadConstraint))]"

definition PodSpecTemplate_DeepCopy :: "go_library \<Rightarrow> copier" where
  "PodSpecTemplate_DeepCopy L = deep_copy (PodSpecTemplate_DeepCopyInto L)"

definition go_RootShardConfig :: "go_library \<Rightarrow> go_type" where
  "go_RootShardConfig L = struct_type
    [(''Reference'', pointer_type (lib_type L LocalObjectReference))]"

definition RootShardConfig_DeepCopyInto :: "go_library \<Rightarrow> copier" where
  "RootShardConfig_DeepCopyInto L = copy_fields
    [(''Reference'', copy_pointer assign)]"

definition RootShardConfig_DeepCopy :: "go_library \<Rightarrow> copier" where
  "RootShardConfig_DeepCopy L = deep_copy (RootShardConfig_DeepCopyInto L)"

definition go_ServiceAccountAuthentication :: "go_type" where
  "go_ServiceAccountAuthentication = struct_type
    [(''Enabled'', flag_type)]"

definition ServiceAccountAuthentication_DeepCopyInto :: "copier" where
  "ServiceAccountAuthentication_DeepCopyInto = copy_fields
    []"

definition ServiceAccountAuthentication_DeepCopy :: "copier" where
  "ServiceAccountAuthentication_DeepCopy = deep_copy ServiceAccountAuthentication_DeepCopyInto"

definition go_ServiceMetadataTemplate :: "go_type" where
  "go_ServiceMetadataTemplate = struct_type
    [(''Annotations'', map_type text_type), (''Labels'', map_type text_type)]"

definition ServiceMetadataTemplate_DeepCopyInto :: "copier" where
  "ServiceMetadataTemplate_DeepCopyInto = copy_fields
    [(''Annotations'', copy_map assign), (''Labels'', copy_map assign)]"

definition ServiceMetadataTemplate_DeepCopy :: "copier" where
  "ServiceMetadataTemplate_DeepCopy = deep_copy ServiceMetadataTemplate_DeepCopyInto"

definition go_ServiceSpecTemplate :: "go_type" where
  "go_ServiceSpecTemplate = struct_type
    [(''Type'', text_type), (''ClusterIP'', text_type)]"

definition ServiceSpecTemplate_DeepCopyInto :: "copier" where
  "ServiceSpecTemplate_DeepCopyInto = copy_fields
    []"

definition ServiceSpecTemplate_DeepCopy :: "copier" where
  "ServiceSpecTemplate_DeepCopy = deep_copy ServiceSpecTemplate_DeepCopyInto"

definition go_ShardCacheConfig :: "go_library \<Rightarrow> go_type" where
  "go_ShardCacheConfig L = struct_type
    [(''Reference'', pointer_type (lib_type L LocalObjectReference))]"

definition ShardCacheConfig_DeepCopyInto :: "go_library \<Rightarrow> copier" where
  "ShardCacheConfig_DeepCopyInto L = copy_fields
    [(''Reference'', copy_pointer assign)]"

definition ShardCacheConfig_DeepCopy :: "go_library \<Rightarrow> copier" where
  "ShardCacheConfig_DeepCopy L = deep_copy (ShardCacheConfig_DeepCopyInto L)"

definition go_ShardReference :: "go_type" where
  "go_ShardReference = struct_type
    [(''Name'', text_type)]"

definition ShardReference_DeepCopyInto :: "copier" where
  "ShardReference_DeepCopyInto = copy_fields
    []"

definition ShardReference_DeepCopy :: "copier" where
  "ShardReference_DeepCopy = deep_copy ShardReference_DeepCopyInto"

definition go_ShardStatus :: "go_library \<Rightarrow> go_type" where
  "go_ShardStatus L = struct_type
    [(''Phase'', text_type), (''Conditions'', slice_type (lib_type L Condition))]"

definition ShardStatus_DeepCopyInto :: "go_library \<Rightarrow> copier" where
  "ShardStatus_DeepCopyInto L = copy_fields
    [(''Conditions'', copy_slice (lib_DeepCopyInto L Condition))]"

definition ShardStatus_DeepCopy :: "go_library \<Rightarrow> copier" where
  "ShardStatus_DeepCopy L = deep_copy (ShardStatus_DeepCopyInto L)"

definition go_TokenAuthFileSpec :: "go_type" where
  "go_TokenAuthFileSpec = struct_type
    [(''SecretName'', text_type), (''Key'', text_type)]"

definition TokenAuthFileSpec_DeepCopyInto :: "copier" where
  "TokenAuthFileSpec_DeepCopyInto = copy_fields
    []"

definition TokenAuthFileSpec_DeepCopy :: "copier" where
  "TokenAuthFileSpec_DeepCopy = deep_copy TokenAuthFileSpec_DeepCopyInto"

definition go_VirtualWorkspaceStatus :: "go_library \<Rightarrow> go_type" where
  "go_VirtualWorkspaceStatus L = struct_type
    [(''Conditions'', slice_type (lib_type L Condition))]"

definition VirtualWorkspaceStatus_DeepCopyInto :: "go_library \<Rightarrow> copier" where
  "VirtualWorkspaceStatus_DeepCopyInto L = copy_fields
    [(''Conditions'', copy_slice (lib_DeepCopyInto L Condition))]"

definition VirtualWorkspaceStatus_DeepCopy :: "go_library \<Rightarrow> copier" where
  "VirtualWorkspaceStatus_DeepCopy L = deep_copy (VirtualWorkspaceStatus_DeepCopyInto L)"

definition go_VirtualWorkspaceTarget :: "go_library \<Rightarrow> go_type" where
  "go_VirtualWorkspaceTarget L = struct_type
    [(''RootShardRef'', pointer_type (lib_type L LocalObjectReference)),
     (''ShardRef'', pointer_type (lib_type L LocalObjectReference))]"

definition VirtualWorkspaceTarget_DeepCopyInto :: "go_library \<Rightarrow> copier" where
  "VirtualWorkspaceTarget_DeepCopyInto L = copy_fields
    [(''RootShardRef'', copy_pointer assign), (''ShardRef'', copy_pointer assign)]"

definition VirtualWorkspaceTarget_DeepCopy :: "go_library \<Rightarrow> copier" where
  "VirtualWorkspaceTarget_DeepCopy L = deep_copy (VirtualWorkspaceTarget_DeepCopyInto L)"

definition go_X509Subject :: "go_type" where
  "go_X509Subject = struct_type
    [(''Organizations'', slice_type text_type), (''Countries'', slice_type text_type),
     (''OrganizationalUnits'', slice_type text_type), (''Localities'', slice_type text_type),
     (''Provinces'', slice_type text_type), (''StreetAddresses'', slice_type text_type),
     (''PostalCodes'', slice_type text_type), (''SerialNumber'', text_type)]"

definition X509Subject_DeepCopyInto :: "copier" where
  "X509Subject_DeepCopyInto = copy_fields
    [(''Organizations'', copy_slice assign), (''Countries'', copy_slice assign),
     (''OrganizationalUnits'', copy_slice assign), (''Localities'', copy_slice assign),
     (''Provinces'', copy_slice assign), (''StreetAddresses'', copy_slice assign),
     (''PostalCodes'', copy_slice assign)]"

definition X509Subject_DeepCopy :: "copier" where
  "X509Subject_DeepCopy = deep_copy X509Subject_DeepCopyInto"

subsection \<open>Types built from those above (depth 2)\<close>

definition go_AuditPolicySpec :: "go_type" where
  "go_AuditPolicySpec = struct_type
    [(''ConfigMap'', pointer_type go_LocalDataKeyReference)]"

definition AuditPolicySpec_DeepCopyInto :: "copier" where
  "AuditPolicySpec_DeepCopyInto = copy_fields
    [(''ConfigMap'', copy_pointer assign)]"

definition AuditPolicySpec_DeepCopy :: "copier" where
  "AuditPolicySpec_DeepCopy = deep_copy AuditPolicySpec_DeepCopyInto"

definition go_AuthorizationSpec :: "go_library \<Rightarrow> go_type" where
  "go_AuthorizationSpec L = struct_type
    [(''AllowPaths'', pointer_type (slice_type text_type)),
     (''Order'', pointer_type (slice_type text_type)),
     (''Webhook'', pointer_type (go_AuthorizationWebhookSpec L))]"

definition AuthorizationSpec_DeepCopyInto :: "go_library \<Rightarrow> copier" where
  "AuthorizationSpec_DeepCopyInto L = copy_fields
    [(''AllowPaths'', copy_pointer (copy_slice assign)),
     (''Order'', copy_pointer (copy_slice assign)),
     (''Webhook'', copy_pointer (AuthorizationWebhookSpec_DeepCopyInto L))]"

definition AuthorizationSpec_DeepCopy :: "go_library \<Rightarrow> copier" where
  "AuthorizationSpec_DeepCopy L = deep_copy (AuthorizationSpec_DeepCopyInto L)"

definition go_CertificateSpecTemplate :: "go_library \<Rightarrow> go_type" where
  "go_CertificateSpecTemplate L = struct_type
    [(''Subject'', pointer_type go_X509Subject), (''IssuerRef'', pointer_type go_ObjectReference),
     (''DNSNames'', slice_type text_type), (''IPAddresses'', slice_type text_type),
     (''SecretTemplate'', pointer_type go_CertificateSecretTemplate),
     (''Duration'', pointer_type (lib_type L Duration)),
     (''RenewBefore'', pointer_type (lib_type L Duration)),
     (''PrivateKey'', pointer_type go_CertificatePrivateKeyTemplate)]"

definition CertificateSpecTemplate_DeepCopyInto :: "go_library \<Rightarrow> copier" where
  "CertificateSpecTemplate_DeepCopyInto L = copy_fields
    [(''Subject'', copy_pointer X509Subject_DeepCopyInto), (''IssuerRef'', copy_pointer assign),
     (''DNSNames'', copy_slice assign), (''IPAddresses'', copy_slice assign),
     (''SecretTemplate'', copy_pointer CertificateSecretTemplate_DeepCopyInto),
     (''Duration'', copy_pointer assign), (''RenewBefore'', copy_pointer assign),
     (''PrivateKey'', copy_pointer assign)]"

definition CertificateSpecTemplate_DeepCopy :: "go_library \<Rightarrow> copier" where
  "CertificateSpecTemplate_DeepCopy L = deep_copy (CertificateSpecTemplate_DeepCopyInto L)"

definition go_Certificates :: "go_library \<Rightarrow> go_type" where
  "go_Certificates L = struct_type
    [(''IssuerRef'', pointer_type go_ObjectReference),
     (''CASecretRef'', pointer_type (lib_type L LocalObjectReference))]"

definition Certificates_DeepCopyInto :: "go_library \<Rightarrow> copier" where
  "Certificates_DeepCopyInto L = copy_fields
    [(''IssuerRef'', copy_pointer assign), (''CASecretRef'', copy_pointer assign)]"

definition Certificates_DeepCopy :: "go_library \<Rightarrow> copier" where
  "Certificates_DeepCopy L = deep_copy (Certificates_DeepCopyInto L)"

definition go_EtcdConfig :: "go_library \<Rightarrow> go_type" where
  "go_EtcdConfig L = struct_type
    [(''Endpoints'', slice_type text_type), (''TLSConfig'', pointer_type (go_EtcdTLSConfig L)),
     (''Prefix'', text_type)]"

definition EtcdConfig_DeepCopyInto :: "go_library \<Rightarrow> copier" where
  "EtcdConfig_DeepCopyInto L = copy_fields
    [(''Endpoints'', copy_slice assign), (''TLSConfig'', copy_pointer assign)]"

definition EtcdConfig_DeepCopy :: "go_library \<Rightarrow> copier" where
  "EtcdConfig_DeepCopy L = deep_copy (EtcdConfig_DeepCopyInto L)"

definition go_KubeconfigAuthorization :: "go_type" where
  "go_KubeconfigAuthorization = struct_type
    [(''ClusterRoleBindings'', go_KubeconfigClusterRoleBindings)]"

definition KubeconfigAuthorization_DeepCopyInto :: "copier" where
  "KubeconfigAuthorization_DeepCopyInto = copy_fields
    [(''ClusterRoleBindings'', KubeconfigClusterRoleBindings_DeepCopyInto)]"

definition KubeconfigAuthorization_DeepCopy :: "copier" where
  "KubeconfigAuthorization_DeepCopy = deep_copy KubeconfigAuthorization_DeepCopyInto"

definition go_KubeconfigStatus :: "go_library \<Rightarrow> go_type" where
  "go_KubeconfigStatus L = struct_type
    [(''Phase'', text_type), (''TargetName'', text_type),
     (''Authorization'', pointer_type go_KubeconfigAuthorizationStatus),
     (''Conditions'', slice_type (lib_type L Condition))]"

definition KubeconfigStatus_DeepCopyInto :: "go_library \<Rightarrow> copier" where
  "KubeconfigStatus_DeepCopyInto L = copy_fields
    [(''Authorization'', copy_pointer assign),
     (''Conditions'', copy_slice (lib_DeepCopyInto L Condition))]"

definition KubeconfigStatus_DeepCopy :: "go_library \<Rightarrow> copier" where
  "KubeconfigStatus_DeepCopy L = deep_copy (KubeconfigStatus_DeepCopyInto L)"

definition go_OIDCConfiguration :: "go_type" where
  "go_OIDCConfiguration = struct_type
    [(''IssuerURL'', text_type), (''ClientID'', text_type), (''ClientSecret'', text_type),
     (''GroupsClaim'', text_type), (''UsernameClaim'', text_type), (''GroupsPrefix'', text_type),
     (''UsernamePrefix'', text_type), (''CAFileRef'', pointer_type go_OIDCCAFileRef)]"

definition OIDCConfiguration_DeepCopyInto :: "copier" where
  "OIDCConfiguration_DeepCopyInto = copy_fields
    [(''CAFileRef'', copy_pointer assign)]"

definition OIDCConfiguration_DeepCopy :: "copier" where
  "OIDCConfiguration_DeepCopy = deep_copy OIDCConfiguration_DeepCopyInto"

definition go_PodTemplateSpec :: "go_library \<Rightarrow> go_type" where
  "go_PodTemplateSpec L = struct_type
    [(''Metadata'', pointer_type go_PodMetadataTemplate),
     (''Spec'', pointer_type (go_PodSpecTemplate L))]"

definition PodTemplateSpec_DeepCopyInto :: "go_library \<Rightarrow> copier" where
  "PodTemplateSpec_DeepCopyInto L = copy_fields
    [(''Metadata'', copy_pointer PodMetadataTemplate_DeepCopyInto),
     (''Spec'', copy_pointer (PodSpecTemplate_DeepCopyInto L))]"

definition PodTemplateSpec_DeepCopy :: "go_library \<Rightarrow> copier" where
  "PodTemplateSpec_DeepCopy L = deep_copy (PodTemplateSpec_DeepCopyInto L)"

definition go_RootShardCacheConfig :: "go_library \<Rightarrow> go_type" where
  "go_RootShardCacheConfig L = struct_type
    [(''Embedded'', pointer_type go_EmbeddedCacheConfiguration),
     (''Reference'', pointer_type (lib_type L LocalObjectReference))]"

definition RootShardCacheConfig_DeepCopyInto :: "go_library \<Rightarrow> copier" where
  "RootShardCacheConfig_DeepCopyInto L = copy_fields
    [(''Embedded'', copy_pointer assign), (''Reference'', copy_pointer assign)]"

definition RootShardCacheConfig_DeepCopy :: "go_library \<Rightarrow> copier" where
  "RootShardCacheConfig_DeepCopy L = deep_copy (RootShardCacheConfig_DeepCopyInto L)"

definition go_RootShardStatus :: "go_library \<Rightarrow> go_type" where
  "go_RootShardStatus L = struct_type
    [(''Phase'', text_type), (''Conditions'', slice_type (lib_type L Condition)),
     (''Shards'', slice_type go_ShardReference)]"

definition RootShardStatus_DeepCopyInto :: "go_library \<Rightarrow> copier" where
  "RootShardStatus_DeepCopyInto L = copy_fields
    [(''Conditions'', copy_slice (lib_DeepCopyInto L Condition)), (''Shards'', copy_slice assign)]"

definition RootShardStatus_DeepCopy :: "go_library \<Rightarrow> copier" where
  "RootShardStatus_DeepCopy L = deep_copy (RootShardStatus_DeepCopyInto L)"

definition go_ServiceTemplate :: "go_type" where
  "go_ServiceTemplate = struct_type
    [(''Metadata'', pointer_type go_ServiceMetadataTemplate),
     (''Spec'', pointer_type go_ServiceSpecTemplate)]"

definition ServiceTemplate_DeepCopyInto :: "copier" where
  "ServiceTemplate_DeepCopyInto = copy_fields
    [(''Metadata'', copy_pointer ServiceMetadataTemplate_DeepCopyInto),
     (''Spec'', copy_pointer assign)]"

definition ServiceTemplate_DeepCopy :: "copier" where
  "ServiceTemplate_DeepCopy = deep_copy ServiceTemplate_DeepCopyInto"

definition go_VirtualWorkspaceInitContainer :: "go_library \<Rightarrow> go_type" where
  "go_VirtualWorkspaceInitContainer L = struct_type
    [(''Name'', text_type), (''Image'', pointer_type (go_ImageSpec L)),
     (''Command'', slice_type text_type), (''Args'', slice_type text_type),
     (''KubeconfigSecretRef'', pointer_type (lib_type L LocalObjectReference)),
     (''Resources'', pointer_type (lib_type L ResourceRequirements)),
     (''Volumes'', slice_type (lib_type L Volume)),
     (''VolumeMounts'', slice_type (lib_type L VolumeMount))]"

definition VirtualWorkspaceInitContainer_DeepCopyInto :: "go_library \<Rightarrow> copier" where
  "VirtualWorkspaceInitContainer_DeepCopyInto L = copy_fields
    [(''Image'', copy_pointer (ImageSpec_DeepCopyInto L)), (''Command'', copy_slice assign),
     (''Args'', copy_slice assign), (''KubeconfigSecretRef'', copy_pointer assign),
     (''Resources'', copy_pointer (lib_DeepCopyInto L ResourceRequirements)),
     (''Volumes'', copy_slice (lib_DeepCopyInto L Volume)),
     (''VolumeMounts'', copy_slice (lib_DeepCopyInto L VolumeMount))]"

definition VirtualWorkspaceInitContainer_DeepCopy :: "go_library \<Rightarrow> copier" where
  "VirtualWorkspaceInitContainer_DeepCopy L = deep_copy (VirtualWorkspaceInitContainer_DeepCopyInto L)"

subsection \<open>The copies are deep\<close>

lemma parts_flat [simp]:
  "flat go_CacheServerStatus"
  "flat go_CertificatePrivateKeyTemplate"
  "flat go_EmbeddedCacheConfiguration"
  "library_ok L \<Longrightarrow> flat (go_EtcdTLSConfig L)"
  "flat go_KubeconfigAuthorizationStatus"
  "flat go_LocalDataKeyReference"
  "flat go_LoggingSpec"
  "flat go_OIDCCAFileRef"
  "flat go_ObjectReference"
  "flat go_PathMappingEntry"
  "flat go_ServiceAccountAuthentication"
  "flat go_ServiceSpecTemplate"
  "flat go_ShardReference"
  "flat go_TokenAuthFileSpec"
  by (simp_all add: go_CacheServerStatus_def go_CertificatePrivateKeyTemplate_def
    go_EmbeddedCacheConfiguration_def go_EtcdTLSConfig_def go_KubeconfigAuthorizationStatus_def
    go_LocalDataKeyReference_def go_LoggingSpec_def go_OIDCCAFileRef_def go_ObjectReference_def
    go_PathMappingEntry_def go_ServiceAccountAuthentication_def go_ServiceSpecTemplate_def
    go_ShardReference_def go_TokenAuthFileSpec_def)

lemma parts_copies_1 [simp]:
  "library_ok L \<Longrightarrow> copies (go_AuditWebhookSpec L) (AuditWebhookSpec_DeepCopyInto L)"
  "library_ok L \<Longrightarrow> copies (go_AuthenticationWebhookSpec L) (AuthenticationWebhookSpec_DeepCopyInto L)"
  "library_ok L \<Longrightarrow> copies (go_AuthorizationWebhookSpec L) (AuthorizationWebhookSpec_DeepCopyInto L)"
  "copies go_CacheServerStatus CacheServerStatus_DeepCopyInto"
  "copies go_CertificateMetadataTemplate CertificateMetadataTemplate_DeepCopyInto"
  "copies go_CertificatePrivateKeyTemplate CertificatePrivateKeyTemplate_DeepCopyInto"
  "copies go_CertificateSecretTemplate CertificateSecretTemplate_DeepCopyInto"
  "copies go_DeploymentMetadataTemplate DeploymentMetadataTemplate_DeepCopyInto"
  "copies go_EmbeddedCacheConfiguration EmbeddedCacheConfiguration_DeepCopyInto"
  "library_ok L \<Longrightarrow> copies (go_EtcdTLSConfig L) (EtcdTLSConfig_DeepCopyInto L)"
  "copies go_ExternalConfig ExternalConfig_DeepCopyInto"
  "library_ok L \<Longrightarrow> copies (go_FrontProxyStatus L) (FrontProxyStatus_DeepCopyInto L)"
  "library_ok L \<Longrightarrow> copies (go_ImageSpec L) (ImageSpec_DeepCopyInto L)"
  "copies go_KubeconfigAuthorizationStatus KubeconfigAuthorizationStatus_DeepCopyInto"
  "copies go_KubeconfigClusterRoleBindings KubeconfigClusterRoleBindings_DeepCopyInto"
  "library_ok L \<Longrightarrow> copies (go_KubeconfigTarget L) (KubeconfigTarget_DeepCopyInto L)"
  "copies go_LocalDataKeyReference LocalDataKeyReference_DeepCopyInto"
  "copies go_LoggingSpec LoggingSpec_DeepCopyInto"
  "copies go_OIDCCAFileRef OIDCCAFileRef_DeepCopyInto"
  "copies go_ObjectReference ObjectReference_DeepCopyInto"
  "copies go_PathMappingEntry PathMappingEntry_DeepCopyInto"
  "copies go_PodMetadataTemplate PodMetadataTemplate_DeepCopyInto"
  "library_ok L \<Longrightarrow> copies (go_PodSpecTemplate L) (PodSpecTemplate_DeepCopyInto L)"
  "library_ok L \<Longrightarrow> copies (go_RootShardConfig L) (RootShardConfig_DeepCopyInto L)"
  "copies go_ServiceAccountAuthentication ServiceAccountAuthentication_DeepCopyInto"
  "copies go_ServiceMetadataTemplate ServiceMetadataTemplate_DeepCopyInto"
  "copies go_ServiceSpecTemplate ServiceSpecTemplate_DeepCopyInto"
  "library_ok L \<Longrightarrow> copies (go_ShardCacheConfig L) (ShardCacheConfig_DeepCopyInto L)"
  "copies go_ShardReference ShardReference_DeepCopyInto"
  "library_ok L \<Longrightarrow> copies (go_ShardStatus L) (ShardStatus_DeepCopyInto L)"
  "copies go_TokenAuthFileSpec TokenAuthFileSpec_DeepCopyInto"
  "library_ok L \<Longrightarrow> copies (go_VirtualWorkspaceStatus L) (VirtualWorkspaceStatus_DeepCopyInto L)"
  "library_ok L \<Longrightarrow> copies (go_VirtualWorkspaceTarget L) (VirtualWorkspaceTarget_DeepCopyInto L)"
  "copies go_X509Subject X509Subject_DeepCopyInto"
  by (simp_all add: go_AuditWebhookSpec_def AuditWebhookSpec_DeepCopyInto_def
      go_AuthenticationWebhookSpec_def AuthenticationWebhookSpec_DeepCopyInto_def
      go_AuthorizationWebhookSpec_def AuthorizationWebhookSpec_DeepCopyInto_def
      go_CacheServerStatus_def CacheServerStatus_DeepCopyInto_def
      go_CertificateMetadataTemplate_def CertificateMetadataTemplate_DeepCopyInto_def
      go_CertificatePrivateKeyTemplate_def CertificatePrivateKeyTemplate_DeepCopyInto_def
      go_CertificateSecretTemplate_def CertificateSecretTemplate_DeepCopyInto_def
      go_DeploymentMetadataTemplate_def DeploymentMetadataTemplate_DeepCopyInto_def
      go_EmbeddedCacheConfiguration_def EmbeddedCacheConfiguration_DeepCopyInto_def
      go_EtcdTLSConfig_def EtcdTLSConfig_DeepCopyInto_def go_ExternalConfig_def
      ExternalConfig_DeepCopyInto_def go_FrontProxyStatus_def FrontProxyStatus_DeepCopyInto_def
      go_ImageSpec_def ImageSpec_DeepCopyInto_def go_KubeconfigAuthorizationStatus_def
      KubeconfigAuthorizationStatus_DeepCopyInto_def go_KubeconfigClusterRoleBindings_def
      KubeconfigClusterRoleBindings_DeepCopyInto_def go_KubeconfigTarget_def
      KubeconfigTarget_DeepCopyInto_def go_LocalDataKeyReference_def
      LocalDataKeyReference_DeepCopyInto_def go_LoggingSpec_def LoggingSpec_DeepCopyInto_def
      go_OIDCCAFileRef_def OIDCCAFileRef_DeepCopyInto_def go_ObjectReference_def
      ObjectReference_DeepCopyInto_def go_PathMappingEntry_def PathMappingEntry_DeepCopyInto_def
      go_PodMetadataTemplate_def PodMetadataTemplate_DeepCopyInto_def go_PodSpecTemplate_def
      PodSpecTemplate_DeepCopyInto_def go_RootShardConfig_def RootShardConfig_DeepCopyInto_def
      go_ServiceAccountAuthentication_def ServiceAccountAuthentication_DeepCopyInto_def
      go_ServiceMetadataTemplate_def ServiceMetadataTemplate_DeepCopyInto_def
      go_ServiceSpecTemplate_def ServiceSpecTemplate_DeepCopyInto_def go_ShardCacheConfig_def
      ShardCacheConfig_DeepCopyInto_def go_ShardReference_def ShardReference_DeepCopyInto_def
      go_ShardStatus_def ShardStatus_DeepCopyInto_def go_TokenAuthFileSpec_def
      TokenAuthFileSpec_DeepCopyInto_def go_VirtualWorkspaceStatus_def
      VirtualWorkspaceStatus_DeepCopyInto_def go_VirtualWorkspaceTarget_def
      VirtualWorkspaceTarget_DeepCopyInto_def go_X509Subject_def X509Subject_DeepCopyInto_def)

lemma parts_copies_2 [simp]:
  "copies go_AuditPolicySpec AuditPolicySpec_DeepCopyInto"
  "library_ok L \<Longrightarrow> copies (go_AuthorizationSpec L) (AuthorizationSpec_DeepCopyInto L)"
  "library_ok L \<Longrightarrow> copies (go_CertificateSpecTemplate L) (CertificateSpecTemplate_DeepCopyInto L)"
  "library_ok L \<Longrightarrow> copies (go_Certificates L) (Certificates_DeepCopyInto L)"
  "library_ok L \<Longrightarrow> copies (go_EtcdConfig L) (EtcdConfig_DeepCopyInto L)"
  "copies go_KubeconfigAuthorization KubeconfigAuthorization_DeepCopyInto"
  "library_ok L \<Longrightarrow> copies (go_KubeconfigStatus L) (KubeconfigStatus_DeepCopyInto L)"
  "copies go_OIDCConfiguration OIDCConfiguration_DeepCopyInto"
  "library_ok L \<Longrightarrow> copies (go_PodTemplateSpec L) (PodTemplateSpec_DeepCopyInto L)"
  "library_ok L \<Longrightarrow> copies (go_RootShardCacheConfig L) (RootShardCacheConfig_DeepCopyInto L)"
  "library_ok L \<Longrightarrow> copies (go_RootShardStatus L) (RootShardStatus_DeepCopyInto L)"
  "copies go_ServiceTemplate ServiceTemplate_DeepCopyInto"
  "library_ok L \<Longrightarrow> copies (go_VirtualWorkspaceInitContainer L) (VirtualWorkspaceInitContainer_DeepCopyInto L)"
  by (simp_all add: go_AuditPolicySpec_def AuditPolicySpec_DeepCopyInto_def
      go_AuthorizationSpec_def AuthorizationSpec_DeepCopyInto_def go_CertificateSpecTemplate_def
      CertificateSpecTemplate_DeepCopyInto_def go_Certificates_def Certificates_DeepCopyInto_def
      go_EtcdConfig_def EtcdConfig_DeepCopyInto_def go_KubeconfigAuthorization_def
      KubeconfigAuthorization_DeepCopyInto_def go_KubeconfigStatus_def
      KubeconfigStatus_DeepCopyInto_def go_OIDCConfiguration_def
      OIDCConfiguration_DeepCopyInto_def go_PodTemplateSpec_def PodTemplateSpec_DeepCopyInto_def
      go_RootShardCacheConfig_def RootShardCacheConfig_DeepCopyInto_def go_RootShardStatus_def
      RootShardStatus_DeepCopyInto_def go_ServiceTemplate_def ServiceTemplate_DeepCopyInto_def
      go_VirtualWorkspaceInitContainer_def VirtualWorkspaceInitContainer_DeepCopyInto_def)

end
