(* ===== verification/Deep_Copy_Operator.thy ===== *)
theory Deep_Copy_Operator
  imports Deep_Copy_Parts
begin

text \<open>
  The generated deep copies of the operator types themselves
  (sdk/apis/operator/v1alpha1/zz_generated.deepcopy.go), built from those of their parts.
\<close>

subsection \<open>Types built from those above (depth 3)\<close>

definition go_AuditSpec :: "go_library \<Rightarrow> go_type" where
  "go_AuditSpec L = struct_type
    [(''Webhook'', pointer_type (go_AuditWebhookSpec L)),
     (''Policy'', pointer_type go_AuditPolicySpec)]"

definition AuditSpec_DeepCopyInto :: "go_library \<Rightarrow> copier" where
  "AuditSpec_DeepCopyInto L = copy_fields
    [(''Webhook'', copy_pointer (AuditWebhookSpec_DeepCopyInto L)),
     (''Policy'', copy_pointer AuditPolicySpec_DeepCopyInto)]"

definition AuditSpec_DeepCopy :: "go_library \<Rightarrow> copier" where
  "AuditSpec_DeepCopy L = deep_copy (AuditSpec_DeepCopyInto L)"

definition go_AuthSpec :: "go_library \<Rightarrow> go_type" where
  "go_AuthSpec L = struct_type
    [(''OIDC'', pointer_type go_OIDCConfiguration),
     (''Webhook'', pointer_type (go_AuthenticationWebhookSpec L)),
     (''TokenAuthFile'', pointer_type go_TokenAuthFileSpec),
     (''ServiceAccount'', pointer_type go_ServiceAccountAuthentication),
     (''DropGroups'', slice_type text_type), (''PassOnGroups'', slice_type text_type)]"

definition AuthSpec_DeepCopyInto :: "go_library \<Rightarrow> copier" where
  "AuthSpec_DeepCopyInto L = copy_fields
    [(''OIDC'', copy_pointer OIDCConfiguration_DeepCopyInto),
     (''Webhook'', copy_pointer (AuthenticationWebhookSpec_DeepCopyInto L)),
     (''TokenAuthFile'', copy_pointer assign), (''ServiceAccount'', copy_pointer assign),
     (''DropGroups'', copy_slice assign), (''PassOnGroups'', copy_slice assign)]"

definition AuthSpec_DeepCopy :: "go_library \<Rightarrow> copier" where
  "AuthSpec_DeepCopy L = deep_copy (AuthSpec_DeepCopyInto L)"

definition go_CertificateTemplate :: "go_library \<Rightarrow> go_type" where
  "go_CertificateTemplate L = struct_type
    [(''Metadata'', pointer_type go_CertificateMetadataTemplate),
     (''Spec'', pointer_type (go_CertificateSpecTemplate L))]"

definition CertificateTemplate_DeepCopyInto :: "go_library \<Rightarrow> copier" where
  "CertificateTemplate_DeepCopyInto L = copy_fields
    [(''Metadata'', copy_pointer CertificateMetadataTemplate_DeepCopyInto),
     (''Spec'', copy_pointer (CertificateSpecTemplate_DeepCopyInto L))]"

definition CertificateTemplate_DeepCopy :: "go_library \<Rightarrow> copier" where
  "CertificateTemplate_DeepCopy L = deep_copy (CertificateTemplate_DeepCopyInto L)"

definition go_DeploymentSpecTemplate :: "go_library \<Rightarrow> go_type" where
  "go_DeploymentSpecTemplate L = struct_type
    [(''Template'', pointer_type (go_PodTemplateSpec L))]"

definition DeploymentSpecTemplate_DeepCopyInto :: "go_library \<Rightarrow> copier" where
  "DeploymentSpecTemplate_DeepCopyInto L = copy_fields
    [(''Template'', copy_pointer (PodTemplateSpec_DeepCopyInto L))]"

definition DeploymentSpecTemplate_DeepCopy :: "go_library \<Rightarrow> copier" where
  "DeploymentSpecTemplate_DeepCopy L = deep_copy (DeploymentSpecTemplate_DeepCopyInto L)"

subsection \<open>Types built from those above (depth 4)\<close>

definition go_CertificateTemplateMap :: "go_library \<Rightarrow> go_type" where
  "go_CertificateTemplateMap L = map_type (go_CertificateTemplate L)"

definition CertificateTemplateMap_DeepCopyInto :: "go_library \<Rightarrow> copier" where
  "CertificateTemplateMap_DeepCopyInto L = make_map (CertificateTemplate_DeepCopyInto L)"

definition CertificateTemplateMap_DeepCopy :: "go_library \<Rightarrow> copier" where
  "CertificateTemplateMap_DeepCopy L m v =
    (if v = NilRef then Some (NilRef, m) else CertificateTemplateMap_DeepCopyInto L m v)"

definition go_DeploymentTemplate :: "go_library \<Rightarrow> go_type" where
  "go_DeploymentTemplate L = struct_type
    [(''Metadata'', pointer_type go_DeploymentMetadataTemplate),
     (''Spec'', pointer_type (go_DeploymentSpecTemplate L))]"

definition DeploymentTemplate_DeepCopyInto :: "go_library \<Rightarrow> copier" where
  "DeploymentTemplate_DeepCopyInto L = copy_fields
    [(''Metadata'', copy_pointer DeploymentMetadataTemplate_DeepCopyInto),
     (''Spec'', copy_pointer (DeploymentSpecTemplate_DeepCopyInto L))]"

definition DeploymentTemplate_DeepCopy :: "go_library \<Rightarrow> copier" where
  "DeploymentTemplate_DeepCopy L = deep_copy (DeploymentTemplate_DeepCopyInto L)"

definition go_KubeconfigSpec :: "go_library \<Rightarrow> go_type" where
  "go_KubeconfigSpec L = struct_type
    [(''Target'', go_KubeconfigTarget L), (''TargetWorkspace'', text_type),
     (''Username'', text_type), (''Groups'', slice_type text_type),
     (''Validity'', lib_type L Duration), (''SecretRef'', lib_type L LocalObjectReference),
     (''CertificateTemplate'', pointer_type (go_CertificateTemplate L)),
     (''Authorization'', pointer_type go_KubeconfigAuthorization)]"

definition KubeconfigSpec_DeepCopyInto :: "go_library \<Rightarrow> copier" where
  "KubeconfigSpec_DeepCopyInto L = copy_fields
    [(''Target'', KubeconfigTarget_DeepCopyInto L), (''Groups'', copy_slice assign),
     (''Validity'', assign), (''SecretRef'', assign),
     (''CertificateTemplate'', copy_pointer (CertificateTemplate_DeepCopyInto L)),
     (''Authorization'', copy_pointer KubeconfigAuthorization_DeepCopyInto)]"

definition KubeconfigSpec_DeepCopy :: "go_library \<Rightarrow> copier" where
  "KubeconfigSpec_DeepCopy L = deep_copy (KubeconfigSpec_DeepCopyInto L)"

subsection \<open>Types built from those above (depth 5)\<close>

definition go_CacheServerSpec :: "go_library \<Rightarrow> go_type" where
  "go_CacheServerSpec L = struct_type
    [(''ClusterDomain'', text_type), (''Image'', pointer_type (go_ImageSpec L)),
     (''Replicas'', pointer_type num_type), (''Logging'', pointer_type go_LoggingSpec),
     (''Certificates'', go_Certificates L),
     (''CertificateTemplates'', go_CertificateTemplateMap L),
     (''ServiceTemplate'', pointer_type go_ServiceTemplate),
     (''DeploymentTemplate'', pointer_type (go_DeploymentTemplate L)),
     (''Etcd'', pointer_type (go_EtcdConfig L)), (''ExtraArgs'', slice_type text_type),
     (''ExtraVolumes'', slice_type (lib_type L Volume)),
     (''ExtraVolumeMounts'', slice_type (lib_type L VolumeMount))]"

definition CacheServerSpec_DeepCopyInto :: "go_library \<Rightarrow> copier" where
  "CacheServerSpec_DeepCopyInto L = copy_fields
    [(''Image'', copy_pointer (ImageSpec_DeepCopyInto L)), (''Replicas'', copy_pointer assign),
     (''Logging'', copy_pointer assign), (''Certificates'', Certificates_DeepCopyInto L),
     (''CertificateTemplates'', copy_map (CertificateTemplate_DeepCopyInto L)),
     (''ServiceTemplate'', copy_pointer ServiceTemplate_DeepCopyInto),
     (''DeploymentTemplate'', copy_pointer (DeploymentTemplate_DeepCopyInto L)),
     (''Etcd'', copy_pointer (EtcdConfig_DeepCopyInto L)), (''ExtraArgs'', copy_slice assign),
     (''ExtraVolumes'', copy_slice (lib_DeepCopyInto L Volume)),
     (''ExtraVolumeMounts'', copy_slice (lib_DeepCopyInto L VolumeMount))]"

definition CacheServerSpec_DeepCopy :: "go_library \<Rightarrow> copier" where
  "CacheServerSpec_DeepCopy L = deep_copy (CacheServerSpec_DeepCopyInto L)"

definition go_CommonShardSpec :: "go_library \<Rightarrow> go_type" where
  "go_CommonShardSpec L = struct_type
    [(''ClusterDomain'', text_type), (''ShardBaseURL'', text_type), (''Etcd'', go_EtcdConfig L),
     (''Image'', pointer_type (go_ImageSpec L)), (''Replicas'', pointer_type num_type),
     (''Resources'', pointer_type (lib_type L ResourceRequirements)),
     (''Audit'', pointer_type (go_AuditSpec L)),
     (''Authorization'', pointer_type (go_AuthorizationSpec L)),
     (''Auth'', pointer_type (go_AuthSpec L)),
     (''KCPVirtualWorkspace'', pointer_type (lib_type L LocalObjectReference)),
     (''CertificateTemplates'', go_CertificateTemplateMap L),
     (''ServiceTemplate'', pointer_type go_ServiceTemplate),
     (''DeploymentTemplate'', pointer_type (go_DeploymentTemplate L)),
     (''CABundleSecretRef'', pointer_type (lib_type L LocalObjectReference)),
     (''ClientCABundleRef'', pointer_type (lib_type L LocalObjectReference)),
     (''ExtraArgs'', slice_type text_type), (''ExtraVolumes'', slice_type (lib_type L Volume)),
     (''ExtraVolumeMounts'', slice_type (lib_type L VolumeMount)),
     (''Logging'', pointer_type go_LoggingSpec)]"

definition CommonShardSpec_DeepCopyInto :: "go_library \<Rightarrow> copier" where
  "CommonShardSpec_DeepCopyInto L = copy_fields
    [(''Etcd'', EtcdConfig_DeepCopyInto L), (''Image'', copy_pointer (ImageSpec_DeepCopyInto L)),
     (''Replicas'', copy_pointer assign),
     (''Resources'', copy_pointer (lib_DeepCopyInto L ResourceRequirements)),
     (''Audit'', copy_pointer (AuditSpec_DeepCopyInto L)),
     (''Authorization'', copy_pointer (AuthorizationSpec_DeepCopyInto L)),
     (''Auth'', copy_pointer (AuthSpec_DeepCopyInto L)),
     (''KCPVirtualWorkspace'', copy_pointer assign),
     (''CertificateTemplates'', copy_map (CertificateTemplate_DeepCopyInto L)),
     (''ServiceTemplate'', copy_pointer ServiceTemplate_DeepCopyInto),
     (''DeploymentTemplate'', copy_pointer (DeploymentTemplate_DeepCopyInto L)),
     (''CABundleSecretRef'', copy_pointer assign), (''ClientCABundleRef'', copy_pointer assign),
     (''ExtraArgs'', copy_slice assign),
     (''ExtraVolumes'', copy_slice (lib_DeepCopyInto L Volume)),
     (''ExtraVolumeMounts'', copy_slice (lib_DeepCopyInto L VolumeMount)),
     (''Logging'', copy_pointer assign)]"

definition CommonShardSpec_DeepCopy :: "go_library \<Rightarrow> copier" where
  "CommonShardSpec_DeepCopy L = deep_copy (CommonShardSpec_DeepCopyInto L)"

definition go_FrontProxySpec :: "go_library \<Rightarrow> go_type" where
  "go_FrontProxySpec L = struct_type
    [(''RootShard'', go_RootShardConfig L), (''Replicas'', pointer_type num_type),
     (''Resources'', pointer_type (lib_type L ResourceRequirements)),
     (''Auth'', pointer_type (go_AuthSpec L)),
     (''AdditionalPathMappings'', slice_type go_PathMappingEntry),
     (''Image'', pointer_type (go_ImageSpec L)), (''ExternalHostname'', text_type),
     (''External'', go_ExternalConfig), (''ServiceTemplate'', pointer_type go_ServiceTemplate),
     (''DeploymentTemplate'', pointer_type (go_DeploymentTemplate L)),
     (''CertificateTemplates'', go_CertificateTemplateMap L),
     (''CABundleSecretRef'', pointer_type (lib_type L LocalObjectReference)),
     (''ClientCABundleRef'', pointer_type (lib_type L LocalObjectReference)),
     (''ExtraArgs'', slice_type text_type), (''ExtraVolumes'', slice_type (lib_type L Volume)),
     (''ExtraVolumeMounts'', slice_type (lib_type L VolumeMount)),
     (''Logging'', pointer_type go_LoggingSpec)]"

definition FrontProxySpec_DeepCopyInto :: "go_library \<Rightarrow> copier" where
  "FrontProxySpec_DeepCopyInto L = copy_fields
    [(''RootShard'', RootShardConfig_DeepCopyInto L), (''Replicas'', copy_pointer assign),
     (''Resources'', copy_pointer (lib_DeepCopyInto L ResourceRequirements)),
     (''Auth'', copy_pointer (AuthSpec_DeepCopyInto L)),
     (''AdditionalPathMappings'', copy_slice assign),
     (''Image'', copy_pointer (ImageSpec_DeepCopyInto L)),
     (''External'', ExternalConfig_DeepCopyInto),
     (''ServiceTemplate'', copy_pointer ServiceTemplate_DeepCopyInto),
     (''DeploymentTemplate'', copy_pointer (DeploymentTemplate_DeepCopyInto L)),
     (''CertificateTemplates'', copy_map (CertificateTemplate_DeepCopyInto L)),
     (''CABundleSecretRef'', copy_pointer assign), (''ClientCABundleRef'', copy_pointer assign),
     (''ExtraArgs'', copy_slice assign),
     (''ExtraVolumes'', copy_slice (lib_DeepCopyInto L Volume)),
     (''ExtraVolumeMounts'', copy_slice (lib_DeepCopyInto L VolumeMount)),
     (''Logging'', copy_pointer assign)]"

definition FrontProxySpec_DeepCopy :: "go_library \<Rightarrow> copier" where
  "FrontProxySpec_DeepCopy L = deep_copy (FrontProxySpec_DeepCopyInto L)"

definition go_Kubeconfig :: "go_library \<Rightarrow> go_type" where
  "go_Kubeconfig L = struct_type
    [(''TypeMeta'', lib_type L TypeMeta), (''ObjectMeta'', lib_type L ObjectMeta),
     (''Spec'', go_KubeconfigSpec L), (''Status'', go_KubeconfigStatus L)]"

definition Kubeconfig_DeepCopyInto :: "go_library \<Rightarrow> copier" where
  "Kubeconfig_DeepCopyInto L = copy_fields
    [(''TypeMeta'', assign), (''ObjectMeta'', lib_DeepCopyInto L ObjectMeta),
     (''Spec'', KubeconfigSpec_DeepCopyInto L), (''Status'', KubeconfigStatus_DeepCopyInto L)]"

definition Kubeconfig_DeepCopy :: "go_library \<Rightarrow> copier" where
  "Kubeconfig_DeepCopy L = deep_copy (Kubeconfig_DeepCopyInto L)"

definition Kubeconfig_DeepCopyObject ::
    "go_library \<Rightarrow> memory \<Rightarrow> go_value \<Rightarrow> (go_value option \<times> memory) option" where
  "Kubeconfig_DeepCopyObject L = deep_copy_object (Kubeconfig_DeepCopy L)"

definition go_RootShardProxySpec :: "go_library \<Rightarrow> go_type" where
  "go_RootShardProxySpec L = struct_type
    [(''Image'', pointer_type (go_ImageSpec L)), (''Replicas'', pointer_type num_type),
     (''Resources'', pointer_type (lib_type L ResourceRequirements)),
     (''ServiceTemplate'', pointer_type go_ServiceTemplate),
     (''DeploymentTemplate'', pointer_type (go_DeploymentTemplate L)),
     (''CertificateTemplates'', go_CertificateTemplateMap L),
     (''ExtraArgs'', slice_type text_type), (''ExtraVolumes'', slice_type (lib_type L Volume)),
     (''ExtraVolumeMounts'', slice_type (lib_type L VolumeMount)),
     (''Logging'', pointer_type go_LoggingSpec)]"

definition RootShardProxySpec_DeepCopyInto :: "go_library \<Rightarrow> copier" where
  "RootShardProxySpec_DeepCopyInto L = copy_fields
    [(''Image'', copy_pointer (ImageSpec_DeepCopyInto L)), (''Replicas'', copy_pointer assign),
     (''Resources'', copy_pointer (lib_DeepCopyInto L ResourceRequirements)),
     (''ServiceTemplate'', copy_pointer ServiceTemplate_DeepCopyInto),
     (''DeploymentTemplate'', copy_pointer (DeploymentTemplate_DeepCopyInto L)),
     (''CertificateTemplates'', copy_map (CertificateTemplate_DeepCopyInto L)),
     (''ExtraArgs'', copy_slice assign),
     (''ExtraVolumes'', copy_slice (lib_DeepCopyInto L Volume)),
     (''ExtraVolumeMounts'', copy_slice (lib_DeepCopyInto L VolumeMount)),
     (''Logging'', copy_pointer assign)]"

definition RootShardProxySpec_DeepCopy :: "go_library \<Rightarrow> copier" where
  "RootShardProxySpec_DeepCopy L = deep_copy (RootShardProxySpec_DeepCopyInto L)"

definition go_VirtualWorkspaceSpec :: "go_library \<Rightarrow> go_type" where
  "go_VirtualWorkspaceSpec L = struct_type
    [(''Target'', go_VirtualWorkspaceTarget L), (''External'', go_ExternalConfig),
     (''Image'', pointer_type (go_ImageSpec L)), (''Command'', slice_type text_type),
     (''InitContainers'', slice_type (go_VirtualWorkspaceInitContainer L)),
     (''Replicas'', pointer_type num_type),
     (''Resources'', pointer_type (lib_type L ResourceRequirements)),
     (''CertificateTemplates'', go_CertificateTemplateMap L),
     (''ServiceTemplate'', pointer_type go_ServiceTemplate),
     (''DeploymentTemplate'', pointer_type (go_DeploymentTemplate L)),
     (''CABundleSecretRef'', pointer_type (lib_type L LocalObjectReference)),
     (''ClientCABundleRef'', pointer_type (lib_type L LocalObjectReference)),
     (''KubeconfigSecretRef'', pointer_type (lib_type L LocalObjectReference)),
     (''ExtraArgs'', slice_type text_type), (''ExtraVolumes'', slice_type (lib_type L Volume)),
     (''ExtraVolumeMounts'', slice_type (lib_type L VolumeMount)),
     (''Logging'', pointer_type go_LoggingSpec), (''ClusterDomain'', text_type)]"

definition VirtualWorkspaceSpec_DeepCopyInto :: "go_library \<Rightarrow> copier" where
  "VirtualWorkspaceSpec_DeepCopyInto L = copy_fields
    [(''Target'', VirtualWorkspaceTarget_DeepCopyInto L),
     (''External'', ExternalConfig_DeepCopyInto),
     (''Image'', copy_pointer (ImageSpec_DeepCopyInto L)), (''Command'', copy_slice assign),
     (''InitContainers'', copy_slice (VirtualWorkspaceInitContainer_DeepCopyInto L)),
     (''Replicas'', copy_pointer assign),
     (''Resources'', copy_pointer (lib_DeepCopyInto L ResourceRequirements)),
     (''CertificateTemplates'', copy_map (CertificateTemplate_DeepCopyInto L)),
     (''ServiceTemplate'', copy_pointer ServiceTemplate_DeepCopyInto),
     (''DeploymentTemplate'', copy_pointer (DeploymentTemplate_DeepCopyInto L)),
     (''CABundleSecretRef'', copy_pointer assign), (''ClientCABundleRef'', copy_pointer assign),
     (''KubeconfigSecretRef'', copy_pointer assign), (''ExtraArgs'', copy_slice assign),
     (''ExtraVolumes'', copy_slice (lib_DeepCopyInto L Volume)),
     (''ExtraVolumeMounts'', copy_slice (lib_DeepCopyInto L VolumeMount)),
     (''Logging'', copy_pointer assign)]"

definition VirtualWorkspaceSpec_DeepCopy :: "go_library \<Rightarrow> copier" where
  "VirtualWorkspaceSpec_DeepCopy L = deep_copy (VirtualWorkspaceSpec_DeepCopyInto L)"

subsection \<open>Types built from those above (depth 6)\<close>

definition go_CacheServer :: "go_library \<Rightarrow> go_type" where
  "go_CacheServer L = struct_type
    [(''TypeMeta'', lib_type L TypeMeta), (''ObjectMeta'', lib_type L ObjectMeta),
     (''Spec'', go_CacheServerSpec L), (''Status'', go_CacheServerStatus)]"

definition CacheServer_DeepCopyInto :: "go_library \<Rightarrow> copier" where
  "CacheServer_DeepCopyInto L = copy_fields
    [(''TypeMeta'', assign), (''ObjectMeta'', lib_DeepCopyInto L ObjectMeta),
     (''Spec'', CacheServerSpec_DeepCopyInto L), (''Status'', assign)]"

definition CacheServer_DeepCopy :: "go_library \<Rightarrow> copier" where
  "CacheServer_DeepCopy L = deep_copy (CacheServer_DeepCopyInto L)"

definition CacheServer_DeepCopyObject ::
    "go_library \<Rightarrow> memory \<Rightarrow> go_value \<Rightarrow> (go_value option \<times> memory) option" where
  "CacheServer_DeepCopyObject L = deep_copy_object (CacheServer_DeepCopy L)"

definition go_FrontProxy :: "go_library \<Rightarrow> go_type" where
  "go_FrontProxy L = struct_type
    [(''TypeMeta'', lib_type L TypeMeta), (''ObjectMeta'', lib_type L ObjectMeta),
     (''Spec'', go_FrontProxySpec L), (''Status'', go_FrontProxyStatus L)]"

definition FrontProxy_DeepCopyInto :: "go_library \<Rightarrow> copier" where
  "FrontProxy_DeepCopyInto L = copy_fields
    [(''TypeMeta'', assign), (''ObjectMeta'', lib_DeepCopyInto L ObjectMeta),
     (''Spec'', FrontProxySpec_DeepCopyInto L), (''Status'', FrontProxyStatus_DeepCopyInto L)]"

definition FrontProxy_DeepCopy :: "go_library \<Rightarrow> copier" where
  "FrontProxy_DeepCopy L = deep_copy (FrontProxy_DeepCopyInto L)"

definition FrontProxy_DeepCopyObject ::
    "go_library \<Rightarrow> memory \<Rightarrow> go_value \<Rightarrow> (go_value option \<times> memory) option" where
  "FrontProxy_DeepCopyObject L = deep_copy_object (FrontProxy_DeepCopy L)"

definition go_KubeconfigList :: "go_library \<Rightarrow> go_type" where
  "go_KubeconfigList L = struct_type
    [(''TypeMeta'', lib_type L TypeMeta), (''ListMeta'', lib_type L ListMeta),
     (''Items'', slice_type (go_Kubeconfig L))]"

definition KubeconfigList_DeepCopyInto :: "go_library \<Rightarrow> copier" where
  "KubeconfigList_DeepCopyInto L = copy_fields
    [(''TypeMeta'', assign), (''ListMeta'', lib_DeepCopyInto L ListMeta),
     (''Items'', copy_slice (Kubeconfig_DeepCopyInto L))]"

definition KubeconfigList_DeepCopy :: "go_library \<Rightarrow> copier" where
  "KubeconfigList_DeepCopy L = deep_copy (KubeconfigList_DeepCopyInto L)"

definition KubeconfigList_DeepCopyObject ::
    "go_library \<Rightarrow> memory \<Rightarrow> go_value \<Rightarrow> (go_value option \<times> memory) option" where
  "KubeconfigList_DeepCopyObject L = deep_copy_object (KubeconfigList_DeepCopy L)"

definition go_RootShardSpec :: "go_library \<Rightarrow> go_type" where
  "go_RootShardSpec L = struct_type
    [(''CommonShardSpec'', go_CommonShardSpec L), (''External'', go_ExternalConfig),
     (''Cache'', go_RootShardCacheConfig L), (''Proxy'', pointer_type (go_RootShardProxySpec L)),
     (''Certificates'', go_Certificates L)]"

definition RootShardSpec_DeepCopyInto :: "go_library \<Rightarrow> copier" where
  "RootShardSpec_DeepCopyInto L = copy_fields
    [(''CommonShardSpec'', CommonShardSpec_DeepCopyInto L),
     (''External'', ExternalConfig_DeepCopyInto), (''Cache'', RootShardCacheConfig_DeepCopyInto L),
     (''Proxy'', copy_pointer (RootShardProxySpec_DeepCopyInto L)),
     (''Certificates'', Certificates_DeepCopyInto L)]"

definition RootShardSpec_DeepCopy :: "go_library \<Rightarrow> copier" where
  "RootShardSpec_DeepCopy L = deep_copy (RootShardSpec_DeepCopyInto L)"

definition go_ShardSpec :: "go_library \<Rightarrow> go_type" where
  "go_ShardSpec L = struct_type
    [(''CommonShardSpec'', go_CommonShardSpec L), (''RootShard'', go_RootShardConfig L),
     (''Cache'', pointer_type (go_ShardCacheConfig L))]"

definition ShardSpec_DeepCopyInto :: "go_library \<Rightarrow> copier" where
  "ShardSpec_DeepCopyInto L = copy_fields
    [(''CommonShardSpec'', CommonShardSpec_DeepCopyInto L),
     (''RootShard'', RootShardConfig_DeepCopyInto L),
     (''Cache'', copy_pointer (ShardCacheConfig_DeepCopyInto L))]"

definition ShardSpec_DeepCopy :: "go_library \<Rightarrow> copier" where
  "ShardSpec_DeepCopy L = deep_copy (ShardSpec_DeepCopyInto L)"

definition go_VirtualWorkspace :: "go_library \<Rightarrow> go_type" where
  "go_VirtualWorkspace L = struct_type
    [(''TypeMeta'', lib_type L TypeMeta), (''ObjectMeta'', lib_type L ObjectMeta),
     (''Spec'', go_VirtualWorkspaceSpec L), (''Status'', go_VirtualWorkspaceStatus L)]"

definition VirtualWorkspace_DeepCopyInto :: "go_library \<Rightarrow> copier" where
  "VirtualWorkspace_DeepCopyInto L = copy_fields
    [(''TypeMeta'', assign), (''ObjectMeta'', lib_DeepCopyInto L ObjectMeta),
     (''Spec'', VirtualWorkspaceSpec_DeepCopyInto L),
     (''Status'', VirtualWorkspaceStatus_DeepCopyInto L)]"

definition VirtualWorkspace_DeepCopy :: "go_library \<Rightarrow> copier" where
  "VirtualWorkspace_DeepCopy L = deep_copy (VirtualWorkspace_DeepCopyInto L)"

definition VirtualWorkspace_DeepCopyObject ::
    "go_library \<Rightarrow> memory \<Rightarrow> go_value \<Rightarrow> (go_value option \<times> memory) option" where
  "VirtualWorkspace_DeepCopyObject L = deep_copy_object (VirtualWorkspace_DeepCopy L)"

subsection \<open>Types built from those above (depth 7)\<close>

definition go_CacheServerList :: "go_library \<Rightarrow> go_type" where
  "go_CacheServerList L = struct_type
    [(''TypeMeta'', lib_type L TypeMeta), (''ListMeta'', lib_type L ListMeta),
     (''Items'', slice_type (go_CacheServer L))]"

definition CacheServerList_DeepCopyInto :: "go_library \<Rightarrow> copier" where
  "CacheServerList_DeepCopyInto L = copy_fields
    [(''TypeMeta'', assign), (''ListMeta'', lib_DeepCopyInto L ListMeta),
     (''Items'', copy_slice (CacheServer_DeepCopyInto L))]"

definition CacheServerList_DeepCopy :: "go_library \<Rightarrow> copier" where
  "CacheServerList_DeepCopy L = deep_copy (CacheServerList_DeepCopyInto L)"

definition CacheServerList_DeepCopyObject ::
    "go_library \<Rightarrow> memory \<Rightarrow> go_value \<Rightarrow> (go_value option \<times> memory) option" where
  "CacheServerList_DeepCopyObject L = deep_copy_object (CacheServerList_DeepCopy L)"

definition go_FrontProxyList :: "go_library \<Rightarrow> go_type" where
  "go_FrontProxyList L = struct_type
    [(''TypeMeta'', lib_type L TypeMeta), (''ListMeta'', lib_type L ListMeta),
     (''Items'', slice_type (go_FrontProxy L))]"

definition FrontProxyList_DeepCopyInto :: "go_library \<Rightarrow> copier" where
  "FrontProxyList_DeepCopyInto L = copy_fields
    [(''TypeMeta'', assign), (''ListMeta'', lib_DeepCopyInto L ListMeta),
     (''Items'', copy_slice (FrontProxy_DeepCopyInto L))]"

definition FrontProxyList_DeepCopy :: "go_library \<Rightarrow> copier" where
  "FrontProxyList_DeepCopy L = deep_copy (FrontProxyList_DeepCopyInto L)"

definition FrontProxyList_DeepCopyObject ::
    "go_library \<Rightarrow> memory \<Rightarrow> go_value \<Rightarrow> (go_value option \<times> memory) option" where
  "FrontProxyList_DeepCopyObject L = deep_copy_object (FrontProxyList_DeepCopy L)"

definition go_RootShard :: "go_library \<Rightarrow> go_type" where
  "go_RootShard L = struct_type
    [(''TypeMeta'', lib_type L TypeMeta), (''ObjectMeta'', lib_type L ObjectMeta),
     (''Spec'', go_RootShardSpec L), (''Status'', go_RootShardStatus L)]"

definition RootShard_DeepCopyInto :: "go_library \<Rightarrow> copier" where
  "RootShard_DeepCopyInto L = copy_fields
    [(''TypeMeta'', assign), (''ObjectMeta'', lib_DeepCopyInto L ObjectMeta),
     (''Spec'', RootShardSpec_DeepCopyInto L), (''Status'', RootShardStatus_DeepCopyInto L)]"

definition RootShard_DeepCopy :: "go_library \<Rightarrow> copier" where
  "RootShard_DeepCopy L = deep_copy (RootShard_DeepCopyInto L)"

definition RootShard_DeepCopyObject ::
    "go_library \<Rightarrow> memory \<Rightarrow> go_value \<Rightarrow> (go_value option \<times> memory) option" where
  "RootShard_DeepCopyObject L = deep_copy_object (RootShard_DeepCopy L)"

definition go_Shard :: "go_library \<Rightarrow> go_type" where
  "go_Shard L = struct_type
    [(''TypeMeta'', lib_type L TypeMeta), (''ObjectMeta'', lib_type L ObjectMeta),
     (''Spec'', go_ShardSpec L), (''Status'', go_ShardStatus L)]"

definition Shard_DeepCopyInto :: "go_library \<Rightarrow> copier" where
  "Shard_DeepCopyInto L = copy_fields
    [(''TypeMeta'', assign), (''ObjectMeta'', lib_DeepCopyInto L ObjectMeta),
     (''Spec'', ShardSpec_DeepCopyInto L), (''Status'', ShardStatus_DeepCopyInto L)]"

definition Shard_DeepCopy :: "go_library \<Rightarrow> copier" where
  "Shard_DeepCopy L = deep_copy (Shard_DeepCopyInto L)"

definition Shard_DeepCopyObject ::
    "go_library \<Rightarrow> memory \<Rightarrow> go_value \<Rightarrow> (go_value option \<times> memory) option" where
  "Shard_DeepCopyObject L = deep_copy_object (Shard_DeepCopy L)"

definition go_VirtualWorkspaceList :: "go_library \<Rightarrow> go_type" where
  "go_VirtualWorkspaceList L = struct_type
    [(''TypeMeta'', lib_type L TypeMeta), (''ListMeta'', lib_type L ListMeta),
     (''Items'', slice_type (go_VirtualWorkspace L))]"

definition VirtualWorkspaceList_DeepCopyInto :: "go_library \<Rightarrow> copier" where
  "VirtualWorkspaceList_DeepCopyInto L = copy_fields
    [(''TypeMeta'', assign), (''ListMeta'', lib_DeepCopyInto L ListMeta),
     (''Items'', copy_slice (VirtualWorkspace_DeepCopyInto L))]"

definition VirtualWorkspaceList_DeepCopy :: "go_library \<Rightarrow> copier" where
  "VirtualWorkspaceList_DeepCopy L = deep_copy (VirtualWorkspaceList_DeepCopyInto L)"

definition VirtualWorkspaceList_DeepCopyObject ::
    "go_library \<Rightarrow> memory \<Rightarrow> go_value \<Rightarrow> (go_value option \<times> memory) option" where
  "VirtualWorkspaceList_DeepCopyObject L = deep_copy_object (VirtualWorkspaceList_DeepCopy L)"

subsection \<open>Types built from those above (depth 8)\<close>

definition go_RootShardList :: "go_library \<Rightarrow> go_type" where
  "go_RootShardList L = struct_type
    [(''TypeMeta'', lib_type L TypeMeta), (''ListMeta'', lib_type L ListMeta),
     (''Items'', slice_type (go_RootShard L))]"

definition RootShardList_DeepCopyInto :: "go_library \<Rightarrow> copier" where
  "RootShardList_DeepCopyInto L = copy_fields
    [(''TypeMeta'', assign), (''ListMeta'', lib_DeepCopyInto L ListMeta),
     (''Items'', copy_slice (RootShard_DeepCopyInto L))]"

definition RootShardList_DeepCopy :: "go_library \<Rightarrow> copier" where
  "RootShardList_DeepCopy L = deep_copy (RootShardList_DeepCopyInto L)"

definition RootShardList_DeepCopyObject ::
    "go_library \<Rightarrow> memory \<Rightarrow> go_value \<Rightarrow> (go_value option \<times> memory) option" where
  "RootShardList_DeepCopyObject L = deep_copy_object (RootShardList_DeepCopy L)"

definition go_ShardList :: "go_library \<Rightarrow> go_type" where
  "go_ShardList L = struct_type
    [(''TypeMeta'', lib_type L TypeMeta), (''ListMeta'', lib_type L ListMeta),
     (''Items'', slice_type (go_Shard L))]"

definition ShardList_DeepCopyInto :: "go_library \<Rightarrow> copier" where
  "ShardList_DeepCopyInto L = copy_fields
    [(''TypeMeta'', assign), (''ListMeta'', lib_DeepCopyInto L ListMeta),
     (''Items'', copy_slice (Shard_DeepCopyInto L))]"

definition ShardList_DeepCopy :: "go_library \<Rightarrow> copier" where
  "ShardList_DeepCopy L = deep_copy (ShardList_DeepCopyInto L)"

definition ShardList_DeepCopyObject ::
    "go_library \<Rightarrow> memory \<Rightarrow> go_value \<Rightarrow> (go_value option \<times> memory) option" where
  "ShardList_DeepCopyObject L = deep_copy_object (ShardList_DeepCopy L)"

subsection \<open>The copies are deep\<close>

lemma operator_copies_3 [simp]:
  "library_ok L \<Longrightarrow> copies (go_AuditSpec L) (AuditSpec_DeepCopyInto L)"
  "library_ok L \<Longrightarrow> copies (go_AuthSpec L) (AuthSpec_DeepCopyInto L)"
  "library_ok L \<Longrightarrow> copies (go_CertificateTemplate L) (CertificateTemplate_DeepCopyInto L)"
  "library_ok L \<Longrightarrow> copies (go_DeploymentSpecTemplate L) (DeploymentSpecTemplate_DeepCopyInto L)"
  by (simp_all add: go_AuditSpec_def AuditSpec_DeepCopyInto_def go_AuthSpec_def
      AuthSpec_DeepCopyInto_def go_CertificateTemplate_def CertificateTemplate_DeepCopyInto_def
      go_DeploymentSpecTemplate_def DeploymentSpecTemplate_DeepCopyInto_def)

text \<open>
  The DeepCopyInto of the named map type is not what the structs use: it makes an empty map of a nil
  one. Its DeepCopy tests for nil first.
\<close>

lemma CertificateTemplateMap_DeepCopyInto_nil:
  "CertificateTemplateMap_DeepCopyInto L m NilRef = Some (MapRef (length m), m @ [Entries []])"
  by (simp add: CertificateTemplateMap_DeepCopyInto_def make_map_def)

lemma CertificateTemplateMap_DeepCopy_eq:
  "CertificateTemplateMap_DeepCopy L = copy_map (CertificateTemplate_DeepCopyInto L)"
  by (simp add: fun_eq_iff CertificateTemplateMap_DeepCopy_def CertificateTemplateMap_DeepCopyInto_def
      copy_map_def)

lemma CertificateTemplateMap_copies [simp]:
  "library_ok L \<Longrightarrow> copies (go_CertificateTemplateMap L) (copy_map (CertificateTemplate_DeepCopyInto L))"
  by (simp add: go_CertificateTemplateMap_def)

lemma operator_copies_4 [simp]:
  "library_ok L \<Longrightarrow> copies (go_DeploymentTemplate L) (DeploymentTemplate_DeepCopyInto L)"
  "library_ok L \<Longrightarrow> copies (go_KubeconfigSpec L) (KubeconfigSpec_DeepCopyInto L)"
  by (simp_all add: go_DeploymentTemplate_def DeploymentTemplate_DeepCopyInto_def
      go_KubeconfigSpec_def KubeconfigSpec_DeepCopyInto_def)

lemma operator_copies_5 [simp]:
  "library_ok L \<Longrightarrow> copies (go_CacheServerSpec L) (CacheServerSpec_DeepCopyInto L)"
  "library_ok L \<Longrightarrow> copies (go_CommonShardSpec L) (CommonShardSpec_DeepCopyInto L)"
  "library_ok L \<Longrightarrow> copies (go_FrontProxySpec L) (FrontProxySpec_DeepCopyInto L)"
  "library_ok L \<Longrightarrow> copies (go_Kubeconfig L) (Kubeconfig_DeepCopyInto L)"
  "library_ok L \<Longrightarrow> copies (go_RootShardProxySpec L) (RootShardProxySpec_DeepCopyInto L)"
  "library_ok L \<Longrightarrow> copies (go_VirtualWorkspaceSpec L) (VirtualWorkspaceSpec_DeepCopyInto L)"
  by (simp_all add: go_CacheServerSpec_def CacheServerSpec_DeepCopyInto_def
      go_CommonShardSpec_def CommonShardSpec_DeepCopyInto_def go_FrontProxySpec_def
      FrontProxySpec_DeepCopyInto_def go_Kubeconfig_def Kubeconfig_DeepCopyInto_def
      go_RootShardProxySpec_def RootShardProxySpec_DeepCopyInto_def go_VirtualWorkspaceSpec_def
      VirtualWorkspaceSpec_DeepCopyInto_def)

lemma operator_copies_6 [simp]:
  "library_ok L \<Longrightarrow> copies (go_CacheServer L) (CacheServer_DeepCopyInto L)"
  "library_ok L \<Longrightarrow> copies (go_FrontProxy L) (FrontProxy_DeepCopyInto L)"
  "library_ok L \<Longrightarrow> copies (go_KubeconfigList L) (KubeconfigList_DeepCopyInto L)"
  "library_ok L \<Longrightarrow> copies (go_RootShardSpec L) (RootShardSpec_DeepCopyInto L)"
  "library_ok L \<Longrightarrow> copies (go_ShardSpec L) (ShardSpec_DeepCopyInto L)"
  "library_ok L \<Longrightarrow> copies (go_VirtualWorkspace L) (VirtualWorkspace_DeepCopyInto L)"
  by (simp_all add: go_CacheServer_def CacheServer_DeepCopyInto_def go_FrontProxy_def
      FrontProxy_DeepCopyInto_def go_KubeconfigList_def KubeconfigList_DeepCopyInto_def
      go_RootShardSpec_def RootShardSpec_DeepCopyInto_def go_ShardSpec_def
      ShardSpec_DeepCopyInto_def go_VirtualWorkspace_def VirtualWorkspace_DeepCopyInto_def)

lemma operator_copies_7 [simp]:
  "library_ok L \<Longrightarrow> copies (go_CacheServerList L) (CacheServerList_DeepCopyInto L)"
  "library_ok L \<Longrightarrow> copies (go_FrontProxyList L) (FrontProxyList_DeepCopyInto L)"
  "library_ok L \<Longrightarrow> copies (go_RootShard L) (RootShard_DeepCopyInto L)"
  "library_ok L \<Longrightarrow> copies (go_Shard L) (Shard_DeepCopyInto L)"
  "library_ok L \<Longrightarrow> copies (go_VirtualWorkspaceList L) (VirtualWorkspaceList_DeepCopyInto L)"
  by (simp_all add: go_CacheServerList_def CacheServerList_DeepCopyInto_def
      go_FrontProxyList_def FrontProxyList_DeepCopyInto_def go_RootShard_def
      RootShard_DeepCopyInto_def go_Shard_def Shard_DeepCopyInto_def go_VirtualWorkspaceList_def
      VirtualWorkspaceList_DeepCopyInto_def)

lemma operator_copies_8 [simp]:
  "library_ok L \<Longrightarrow> copies (go_RootShardList L) (RootShardList_DeepCopyInto L)"
  "library_ok L \<Longrightarrow> copies (go_ShardList L) (ShardList_DeepCopyInto L)"
  by (simp_all add: go_RootShardList_def RootShardList_DeepCopyInto_def go_ShardList_def
      ShardList_DeepCopyInto_def)

end
