(* ===== verification/Deep_Copy_Compiled.thy ===== *)
theory Deep_Copy_Compiled
  imports Deep_Copy_Operator
begin

text \<open>
  The generated deep copies of the compiled objects (sdk/apis/deploy/v1alpha1/zz_generated.deepcopy.go).
\<close>

subsection \<open>Types built from those above (depth 6)\<close>

definition go_CompiledCacheServerSpec :: "go_library \<Rightarrow> go_type" where
  "go_CompiledCacheServerSpec L = struct_type
    [(''CacheServer'', go_CacheServerSpec L)]"

definition CompiledCacheServerSpec_DeepCopyInto :: "go_library \<Rightarrow> copier" where
  "CompiledCacheServerSpec_DeepCopyInto L = copy_fields
    [(''CacheServer'', CacheServerSpec_DeepCopyInto L)]"

definition CompiledCacheServerSpec_DeepCopy :: "go_library \<Rightarrow> copier" where
  "CompiledCacheServerSpec_DeepCopy L = deep_copy (CompiledCacheServerSpec_DeepCopyInto L)"

definition go_NamedVirtualWorkspaceSpec :: "go_library \<Rightarrow> go_type" where
  "go_NamedVirtualWorkspaceSpec L = struct_type
    [(''Name'', text_type), (''Spec'', go_VirtualWorkspaceSpec L)]"

definition NamedVirtualWorkspaceSpec_DeepCopyInto :: "go_library \<Rightarrow> copier" where
  "NamedVirtualWorkspaceSpec_DeepCopyInto L = copy_fields
    [(''Spec'', VirtualWorkspaceSpec_DeepCopyInto L)]"

definition NamedVirtualWorkspaceSpec_DeepCopy :: "go_library \<Rightarrow> copier" where
  "NamedVirtualWorkspaceSpec_DeepCopy L = deep_copy (NamedVirtualWorkspaceSpec_DeepCopyInto L)"

subsection \<open>Types built from those above (depth 7)\<close>

definition go_CompiledCacheServer :: "go_library \<Rightarrow> go_type" where
  "go_CompiledCacheServer L = struct_type
    [(''TypeMeta'', lib_type L TypeMeta), (''ObjectMeta'', lib_type L ObjectMeta),
     (''Spec'', go_CompiledCacheServerSpec L), (''Status'', go_CacheServerStatus)]"

definition CompiledCacheServer_DeepCopyInto :: "go_library \<Rightarrow> copier" where
  "CompiledCacheServer_DeepCopyInto L = copy_fields
    [(''TypeMeta'', assign), (''ObjectMeta'', lib_DeepCopyInto L ObjectMeta),
     (''Spec'', CompiledCacheServerSpec_DeepCopyInto L), (''Status'', assign)]"

definition CompiledCacheServer_DeepCopy :: "go_library \<Rightarrow> copier" where
  "CompiledCacheServer_DeepCopy L = deep_copy (CompiledCacheServer_DeepCopyInto L)"

definition CompiledCacheServer_DeepCopyObject ::
    "go_library \<Rightarrow> memory \<Rightarrow> go_value \<Rightarrow> (go_value option \<times> memory) option" where
  "CompiledCacheServer_DeepCopyObject L = deep_copy_object (CompiledCacheServer_DeepCopy L)"

definition go_CompiledRootShardSpec :: "go_library \<Rightarrow> go_type" where
  "go_CompiledRootShardSpec L = struct_type
    [(''RootShard'', go_RootShardSpec L),
     (''VirtualWorkspace'', pointer_type (go_NamedVirtualWorkspaceSpec L)),
     (''Shards'', slice_type text_type)]"

definition CompiledRootShardSpec_DeepCopyInto :: "go_library \<Rightarrow> copier" where
  "CompiledRootShardSpec_DeepCopyInto L = copy_fields
    [(''RootShard'', RootShardSpec_DeepCopyInto L),
     (''VirtualWorkspace'', copy_pointer (NamedVirtualWorkspaceSpec_DeepCopyInto L)),
     (''Shards'', copy_slice assign)]"

definition CompiledRootShardSpec_DeepCopy :: "go_library \<Rightarrow> copier" where
  "CompiledRootShardSpec_DeepCopy L = deep_copy (CompiledRootShardSpec_DeepCopyInto L)"

definition go_NamedRootShardSpec :: "go_library \<Rightarrow> go_type" where
  "go_NamedRootShardSpec L = struct_type
    [(''Name'', text_type), (''Spec'', go_RootShardSpec L)]"

definition NamedRootShardSpec_DeepCopyInto :: "go_library \<Rightarrow> copier" where
  "NamedRootShardSpec_DeepCopyInto L = copy_fields
    [(''Spec'', RootShardSpec_DeepCopyInto L)]"

definition NamedRootShardSpec_DeepCopy :: "go_library \<Rightarrow> copier" where
  "NamedRootShardSpec_DeepCopy L = deep_copy (NamedRootShardSpec_DeepCopyInto L)"

definition go_NamedShardSpec :: "go_library \<Rightarrow> go_type" where
  "go_NamedShardSpec L = struct_type
    [(''Name'', text_type), (''Spec'', go_ShardSpec L)]"

definition NamedShardSpec_DeepCopyInto :: "go_library \<Rightarrow> copier" where
  "NamedShardSpec_DeepCopyInto L = copy_fields
    [(''Spec'', ShardSpec_DeepCopyInto L)]"

definition NamedShardSpec_DeepCopy :: "go_library \<Rightarrow> copier" where
  "NamedShardSpec_DeepCopy L = deep_copy (NamedShardSpec_DeepCopyInto L)"

subsection \<open>Types built from those above (depth 8)\<close>

definition go_CompiledCacheServerList :: "go_library \<Rightarrow> go_type" where
  "go_CompiledCacheServerList L = struct_type
    [(''TypeMeta'', lib_type L TypeMeta), (''ListMeta'', lib_type L ListMeta),
     (''Items'', slice_type (go_CompiledCacheServer L))]"

definition CompiledCacheServerList_DeepCopyInto :: "go_library \<Rightarrow> copier" where
  "CompiledCacheServerList_DeepCopyInto L = copy_fields
    [(''TypeMeta'', assign), (''ListMeta'', lib_DeepCopyInto L ListMeta),
     (''Items'', copy_slice (CompiledCacheServer_DeepCopyInto L))]"

definition CompiledCacheServerList_DeepCopy :: "go_library \<Rightarrow> copier" where
  "CompiledCacheServerList_DeepCopy L = deep_copy (CompiledCacheServerList_DeepCopyInto L)"

definition CompiledCacheServerList_DeepCopyObject ::
    "go_library \<Rightarrow> memory \<Rightarrow> go_value \<Rightarrow> (go_value option \<times> memory) option" where
  "CompiledCacheServerList_DeepCopyObject L = deep_copy_object (CompiledCacheServerList_DeepCopy L)"

definition go_CompiledFrontProxySpec :: "go_library \<Rightarrow> go_type" where
  "go_CompiledFrontProxySpec L = struct_type
    [(''FrontProxy'', go_FrontProxySpec L), (''RootShard'', go_NamedRootShardSpec L),
     (''Shards'', slice_type text_type)]"

definition CompiledFrontProxySpec_DeepCopyInto :: "go_library \<Rightarrow> copier" where
  "CompiledFrontProxySpec_DeepCopyInto L = copy_fields
    [(''FrontProxy'', FrontProxySpec_DeepCopyInto L),
     (''RootShard'', NamedRootShardSpec_DeepCopyInto L), (''Shards'', copy_slice assign)]"

definition CompiledFrontProxySpec_DeepCopy :: "go_library \<Rightarrow> copier" where
  "CompiledFrontProxySpec_DeepCopy L = deep_copy (CompiledFrontProxySpec_DeepCopyInto L)"

definition go_CompiledRootShard :: "go_library \<Rightarrow> go_type" where
  "go_CompiledRootShard L = struct_type
    [(''TypeMeta'', lib_type L TypeMeta), (''ObjectMeta'', lib_type L ObjectMeta),
     (''Spec'', go_CompiledRootShardSpec L), (''Status'', go_RootShardStatus L)]"

definition CompiledRootShard_DeepCopyInto :: "go_library \<Rightarrow> copier" where
  "CompiledRootShard_DeepCopyInto L = copy_fields
    [(''TypeMeta'', assign), (''ObjectMeta'', lib_DeepCopyInto L ObjectMeta),
     (''Spec'', CompiledRootShardSpec_DeepCopyInto L), (''Status'', RootShardStatus_DeepCopyInto L)]"

definition CompiledRootShard_DeepCopy :: "go_library \<Rightarrow> copier" where
  "CompiledRootShard_DeepCopy L = deep_copy (CompiledRootShard_DeepCopyInto L)"

definition CompiledRootShard_DeepCopyObject ::
    "go_library \<Rightarrow> memory \<Rightarrow> go_value \<Rightarrow> (go_value option \<times> memory) option" where
  "CompiledRootShard_DeepCopyObject L = deep_copy_object (CompiledRootShard_DeepCopy L)"

definition go_CompiledShardSpec :: "go_library \<Rightarrow> go_type" where
  "go_CompiledShardSpec L = struct_type
    [(''Shard'', go_ShardSpec L), (''RootShard'', go_NamedRootShardSpec L),
     (''VirtualWorkspace'', pointer_type (go_NamedVirtualWorkspaceSpec L)),
     (''Shards'', slice_type text_type)]"

definition CompiledShardSpec_DeepCopyInto :: "go_library \<Rightarrow> copier" where
  "CompiledShardSpec_DeepCopyInto L = copy_fields
    [(''Shard'', ShardSpec_DeepCopyInto L), (''RootShard'', NamedRootShardSpec_DeepCopyInto L),
     (''VirtualWorkspace'', copy_pointer (NamedVirtualWorkspaceSpec_DeepCopyInto L)),
     (''Shards'', copy_slice assign)]"

definition CompiledShardSpec_DeepCopy :: "go_library \<Rightarrow> copier" where
  "CompiledShardSpec_DeepCopy L = deep_copy (CompiledShardSpec_DeepCopyInto L)"

definition go_CompiledVirtualWorkspaceSpec :: "go_library \<Rightarrow> go_type" where
  "go_CompiledVirtualWorkspaceSpec L = struct_type
    [(''VirtualWorkspace'', go_VirtualWorkspaceSpec L), (''RootShard'', go_NamedRootShardSpec L),
     (''Shard'', pointer_type (go_NamedShardSpec L))]"

definition CompiledVirtualWorkspaceSpec_DeepCopyInto :: "go_library \<Rightarrow> copier" where
  "CompiledVirtualWorkspaceSpec_DeepCopyInto L = copy_fields
    [(''VirtualWorkspace'', VirtualWorkspaceSpec_DeepCopyInto L),
     (''RootShard'', NamedRootShardSpec_DeepCopyInto L),
     (''Shard'', copy_pointer (NamedShardSpec_DeepCopyInto L))]"

definition CompiledVirtualWorkspaceSpec_DeepCopy :: "go_library \<Rightarrow> copier" where
  "CompiledVirtualWorkspaceSpec_DeepCopy L = deep_copy (CompiledVirtualWorkspaceSpec_DeepCopyInto L)"

subsection \<open>Types built from those above (depth 9)\<close>

definition go_CompiledFrontProxy :: "go_library \<Rightarrow> go_type" where
  "go_CompiledFrontProxy L = struct_type
    [(''TypeMeta'', lib_type L TypeMeta), (''ObjectMeta'', lib_type L ObjectMeta),
     (''Spec'', go_CompiledFrontProxySpec L), (''Status'', go_FrontProxyStatus L)]"

definition CompiledFrontProxy_DeepCopyInto :: "go_library \<Rightarrow> copier" where
  "CompiledFrontProxy_DeepCopyInto L = copy_fields
    [(''TypeMeta'', assign), (''ObjectMeta'', lib_DeepCopyInto L ObjectMeta),
     (''Spec'', CompiledFrontProxySpec_DeepCopyInto L),
     (''Status'', FrontProxyStatus_DeepCopyInto L)]"

definition CompiledFrontProxy_DeepCopy :: "go_library \<Rightarrow> copier" where
  "CompiledFrontProxy_DeepCopy L = deep_copy (CompiledFrontProxy_DeepCopyInto L)"

definition CompiledFrontProxy_DeepCopyObject ::
    "go_library \<Rightarrow> memory \<Rightarrow> go_value \<Rightarrow> (go_value option \<times> memory) option" where
  "CompiledFrontProxy_DeepCopyObject L = deep_copy_object (CompiledFrontProxy_DeepCopy L)"

definition go_CompiledRootShardList :: "go_library \<Rightarrow> go_type" where
  "go_CompiledRootShardList L = struct_type
    [(''TypeMeta'', lib_type L TypeMeta), (''ListMeta'', lib_type L ListMeta),
     (''Items'', slice_type (go_CompiledRootShard L))]"

definition CompiledRootShardList_DeepCopyInto :: "go_library \<Rightarrow> copier" where
  "CompiledRootShardList_DeepCopyInto L = copy_fields
    [(''TypeMeta'', assign), (''ListMeta'', lib_DeepCopyInto L ListMeta),
     (''Items'', copy_slice (CompiledRootShard_DeepCopyInto L))]"

definition CompiledRootShardList_DeepCopy :: "go_library \<Rightarrow> copier" where
  "CompiledRootShardList_DeepCopy L = deep_copy (CompiledRootShardList_DeepCopyInto L)"

definition CompiledRootShardList_DeepCopyObject ::
    "go_library \<Rightarrow> memory \<Rightarrow> go_value \<Rightarrow> (go_value option \<times> memory) option" where
  "CompiledRootShardList_DeepCopyObject L = deep_copy_object (CompiledRootShardList_DeepCopy L)"

definition go_CompiledShard :: "go_library \<Rightarrow> go_type" where
  "go_CompiledShard L = struct_type
    [(''TypeMeta'', lib_type L TypeMeta), (''ObjectMeta'', lib_type L ObjectMeta),
     (''Spec'', go_CompiledShardSpec L), (''Status'', go_ShardStatus L)]"

definition CompiledShard_DeepCopyInto :: "go_library \<Rightarrow> copier" where
  "CompiledShard_DeepCopyInto L = copy_fields
    [(''TypeMeta'', assign), (''ObjectMeta'', lib_DeepCopyInto L ObjectMeta),
     (''Spec'', CompiledShardSpec_DeepCopyInto L), (''Status'', ShardStatus_DeepCopyInto L)]"

definition CompiledShard_DeepCopy :: "go_library \<Rightarrow> copier" where
  "CompiledShard_DeepCopy L = deep_copy (CompiledShard_DeepCopyInto L)"

definition CompiledShard_DeepCopyObject ::
    "go_library \<Rightarrow> memory \<Rightarrow> go_value \<Rightarrow> (go_value option \<times> memory) option" where
  "CompiledShard_DeepCopyObject L = deep_copy_object (CompiledShard_DeepCopy L)"

definition go_CompiledVirtualWorkspace :: "go_library \<Rightarrow> go_type" where
  "go_CompiledVirtualWorkspace L = struct_type
    [(''TypeMeta'', lib_type L TypeMeta), (''ObjectMeta'', lib_type L ObjectMeta),
     (''Spec'', go_CompiledVirtualWorkspaceSpec L), (''Status'', go_VirtualWorkspaceStatus L)]"

definition CompiledVirtualWorkspace_DeepCopyInto :: "go_library \<Rightarrow> copier" where
  "CompiledVirtualWorkspace_DeepCopyInto L = copy_fields
    [(''TypeMeta'', assign), (''ObjectMeta'', lib_DeepCopyInto L ObjectMeta),
     (''Spec'', CompiledVirtualWorkspaceSpec_DeepCopyInto L),
     (''Status'', VirtualWorkspaceStatus_DeepCopyInto L)]"

definition CompiledVirtualWorkspace_DeepCopy :: "go_library \<Rightarrow> copier" where
  "CompiledVirtualWorkspace_DeepCopy L = deep_copy (CompiledVirtualWorkspace_DeepCopyInto L)"

definition CompiledVirtualWorkspace_DeepCopyObject ::
    "go_library \<Rightarrow> memory \<Rightarrow> go_value \<Rightarrow> (go_value option \<times> memory) option" where
  "CompiledVirtualWorkspace_DeepCopyObject L = deep_copy_object (CompiledVirtualWorkspace_DeepCopy L)"

subsection \<open>Types built from those above (depth 10)\<close>

definition go_CompiledFrontProxyList :: "go_library \<Rightarrow> go_type" where
  "go_CompiledFrontProxyList L = struct_type
    [(''TypeMeta'', lib_type L TypeMeta), (''ListMeta'', lib_type L ListMeta),
     (''Items'', slice_type (go_CompiledFrontProxy L))]"

definition CompiledFrontProxyList_DeepCopyInto :: "go_library \<Rightarrow> copier" where
  "CompiledFrontProxyList_DeepCopyInto L = copy_fields
    [(''TypeMeta'', assign), (''ListMeta'', lib_DeepCopyInto L ListMeta),
     (''Items'', copy_slice (CompiledFrontProxy_DeepCopyInto L))]"

definition CompiledFrontProxyList_DeepCopy :: "go_library \<Rightarrow> copier" where
  "CompiledFrontProxyList_DeepCopy L = deep_copy (CompiledFrontProxyList_DeepCopyInto L)"

definition CompiledFrontProxyList_DeepCopyObject ::
    "go_library \<Rightarrow> memory \<Rightarrow> go_value \<Rightarrow> (go_value option \<times> memory) option" where
  "CompiledFrontProxyList_DeepCopyObject L = deep_copy_object (CompiledFrontProxyList_DeepCopy L)"

definition go_CompiledShardList :: "go_library \<Rightarrow> go_type" where
  "go_CompiledShardList L = struct_type
    [(''TypeMeta'', lib_type L TypeMeta), (''ListMeta'', lib_type L ListMeta),
     (''Items'', slice_type (go_CompiledShard L))]"

definition CompiledShardList_DeepCopyInto :: "go_library \<Rightarrow> copier" where
  "CompiledShardList_DeepCopyInto L = copy_fields
    [(''TypeMeta'', assign), (''ListMeta'', lib_DeepCopyInto L ListMeta),
     (''Items'', copy_slice (CompiledShard_DeepCopyInto L))]"

definition CompiledShardList_DeepCopy :: "go_library \<Rightarrow> copier" where
  "CompiledShardList_DeepCopy L = deep_copy (CompiledShardList_DeepCopyInto L)"

definition CompiledShardList_DeepCopyObject ::
    "go_library \<Rightarrow> memory \<Rightarrow> go_value \<Rightarrow> (go_value option \<times> memory) option" where
  "CompiledShardList_DeepCopyObject L = deep_copy_object (CompiledShardList_DeepCopy L)"

definition go_CompiledVirtualWorkspaceList :: "go_library \<Rightarrow> go_type" where
  "go_CompiledVirtualWorkspaceList L = struct_type
    [(''TypeMeta'', lib_type L TypeMeta), (''ListMeta'', lib_type L ListMeta),
     (''Items'', slice_type (go_CompiledVirtualWorkspace L))]"

definition CompiledVirtualWorkspaceList_DeepCopyInto :: "go_library \<Rightarrow> copier" where
  "CompiledVirtualWorkspaceList_DeepCopyInto L = copy_fields
    [(''TypeMeta'', assign), (''ListMeta'', lib_DeepCopyInto L ListMeta),
     (''Items'', copy_slice (CompiledVirtualWorkspace_DeepCopyInto L))]"

definition CompiledVirtualWorkspaceList_DeepCopy :: "go_library \<Rightarrow> copier" where
  "CompiledVirtualWorkspaceList_DeepCopy L = deep_copy (CompiledVirtualWorkspaceList_DeepCopyInto L)"

definition CompiledVirtualWorkspaceList_DeepCopyObject ::
    "go_library \<Rightarrow> memory \<Rightarrow> go_value \<Rightarrow> (go_value option \<times> memory) option" where
  "CompiledVirtualWorkspaceList_DeepCopyObject L = deep_copy_object (CompiledVirtualWorkspaceList_DeepCopy L)"

subsection \<open>The copies are deep\<close>

lemma compiled_copies_6 [simp]:
  "library_ok L \<Longrightarrow> copies (go_CompiledCacheServerSpec L) (CompiledCacheServerSpec_DeepCopyInto L)"
  "library_ok L \<Longrightarrow> copies (go_NamedVirtualWorkspaceSpec L) (NamedVirtualWorkspaceSpec_DeepCopyInto L)"
  by (simp_all add: go_CompiledCacheServerSpec_def
      CompiledCacheServerSpec_DeepCopyInto_def go_NamedVirtualWorkspaceSpec_def
      NamedVirtualWorkspaceSpec_DeepCopyInto_def)

lemma compiled_copies_7 [simp]:
  "library_ok L \<Longrightarrow> copies (go_CompiledCacheServer L) (CompiledCacheServer_DeepCopyInto L)"
  "library_ok L \<Longrightarrow> copies (go_CompiledRootShardSpec L) (CompiledRootShardSpec_DeepCopyInto L)"
  "library_ok L \<Longrightarrow> copies (go_NamedRootShardSpec L) (NamedRootShardSpec_DeepCopyInto L)"
  "library_ok L \<Longrightarrow> copies (go_NamedShardSpec L) (NamedShardSpec_DeepCopyInto L)"
  by (simp_all add: go_CompiledCacheServer_def CompiledCacheServer_DeepCopyInto_def
      go_CompiledRootShardSpec_def CompiledRootShardSpec_DeepCopyInto_def
      go_NamedRootShardSpec_def NamedRootShardSpec_DeepCopyInto_def go_NamedShardSpec_def
      NamedShardSpec_DeepCopyInto_def)

lemma compiled_copies_8 [simp]:
  "library_ok L \<Longrightarrow> copies (go_CompiledCacheServerList L) (CompiledCacheServerList_DeepCopyInto L)"
  "library_ok L \<Longrightarrow> copies (go_CompiledFrontProxySpec L) (CompiledFrontProxySpec_DeepCopyInto L)"
  "library_ok L \<Longrightarrow> copies (go_CompiledRootShard L) (CompiledRootShard_DeepCopyInto L)"
  "library_ok L \<Longrightarrow> copies (go_CompiledShardSpec L) (CompiledShardSpec_DeepCopyInto L)"
  "library_ok L \<Longrightarrow> copies (go_CompiledVirtualWorkspaceSpec L) (CompiledVirtualWorkspaceSpec_DeepCopyInto L)"
  by (simp_all add: go_CompiledCacheServerList_def
      CompiledCacheServerList_DeepCopyInto_def go_CompiledFrontProxySpec_def
      CompiledFrontProxySpec_DeepCopyInto_def go_CompiledRootShard_def
      CompiledRootShard_DeepCopyInto_def go_CompiledShardSpec_def
      CompiledShardSpec_DeepCopyInto_def go_CompiledVirtualWorkspaceSpec_def
      CompiledVirtualWorkspaceSpec_DeepCopyInto_def)

lemma compiled_copies_9 [simp]:
  "library_ok L \<Longrightarrow> copies (go_CompiledFrontProxy L) (CompiledFrontProxy_DeepCopyInto L)"
  "library_ok L \<Longrightarrow> copies (go_CompiledRootShardList L) (CompiledRootShardList_DeepCopyInto L)"
  "library_ok L \<Longrightarrow> copies (go_CompiledShard L) (CompiledShard_DeepCopyInto L)"
  "library_ok L \<Longrightarrow> copies (go_CompiledVirtualWorkspace L) (CompiledVirtualWorkspace_DeepCopyInto L)"
  by (simp_all add: go_CompiledFrontProxy_def CompiledFrontProxy_DeepCopyInto_def
      go_CompiledRootShardList_def CompiledRootShardList_DeepCopyInto_def go_CompiledShard_def
      CompiledShard_DeepCopyInto_def go_CompiledVirtualWorkspace_def
      CompiledVirtualWorkspace_DeepCopyInto_def)

lemma compiled_copies_10 [simp]:
  "library_ok L \<Longrightarrow> copies (go_CompiledFrontProxyList L) (CompiledFrontProxyList_DeepCopyInto L)"
  "library_ok L \<Longrightarrow> copies (go_CompiledShardList L) (CompiledShardList_DeepCopyInto L)"
  "library_ok L \<Longrightarrow> copies (go_CompiledVirtualWorkspaceList L) (CompiledVirtualWorkspaceList_DeepCopyInto L)"
  by (simp_all add: go_CompiledFrontProxyList_def
      CompiledFrontProxyList_DeepCopyInto_def go_CompiledShardList_def
      CompiledShardList_DeepCopyInto_def go_CompiledVirtualWorkspaceList_def
      CompiledVirtualWorkspaceList_DeepCopyInto_def)

end
