(* ===== verification/Deep_Copy_Props.thy ===== *)
theory Deep_Copy_Props
  imports Deep_Copy_Compiled
begin

text \<open>
  The deep copies of the objects of the API: the copy a controller takes of an object, to change it or
  to compare with it later, shares no memory with the object. This is what lets the rest of the
  development treat objects as immutable values.
\<close>

subsection \<open>The objects of the API\<close>

text \<open>
  Every type that has a DeepCopyObject, so that it is an object of the API: its declaration, its
  DeepCopy and its DeepCopyObject.
\<close>

definition api_objects :: "go_library
    \<Rightarrow> (string \<times> go_type \<times> copier \<times> (memory \<Rightarrow> go_value \<Rightarrow> (go_value option \<times> memory) option)) list" where
  "api_objects L =
    [(''CacheServer'', go_CacheServer L, CacheServer_DeepCopy L,
      CacheServer_DeepCopyObject L),
     (''CacheServerList'', go_CacheServerList L, CacheServerList_DeepCopy L,
      CacheServerList_DeepCopyObject L),
     (''FrontProxy'', go_FrontProxy L, FrontProxy_DeepCopy L,
      FrontProxy_DeepCopyObject L),
     (''FrontProxyList'', go_FrontProxyList L, FrontProxyList_DeepCopy L,
      FrontProxyList_DeepCopyObject L),
     (''Kubeconfig'', go_Kubeconfig L, Kubeconfig_DeepCopy L,
      Kubeconfig_DeepCopyObject L),
     (''KubeconfigList'', go_KubeconfigList L, KubeconfigList_DeepCopy L,
      KubeconfigList_DeepCopyObject L),
     (''RootShard'', go_RootShard L, RootShard_DeepCopy L,
      RootShard_DeepCopyObject L),
     (''RootShardList'', go_RootShardList L, RootShardList_DeepCopy L,
      RootShardList_DeepCopyObject L),
     (''Shard'', go_Shard L, Shard_DeepCopy L,
      Shard_DeepCopyObject L),
     (''ShardList'', go_ShardList L, ShardList_DeepCopy L,
      ShardList_DeepCopyObject L),
     (''VirtualWorkspace'', go_VirtualWorkspace L, VirtualWorkspace_DeepCopy L,
      VirtualWorkspace_DeepCopyObject L),
     (''VirtualWorkspaceList'', go_VirtualWorkspaceList L, VirtualWorkspaceList_DeepCopy L,
      VirtualWorkspaceList_DeepCopyObject L),
     (''CompiledCacheServer'', go_CompiledCacheServer L, CompiledCacheServer_DeepCopy L,
      CompiledCacheServer_DeepCopyObject L),
     (''CompiledCacheServerList'', go_CompiledCacheServerList L, CompiledCacheServerList_DeepCopy L,
      CompiledCacheServerList_DeepCopyObject L),
     (''CompiledFrontProxy'', go_CompiledFrontProxy L, CompiledFrontProxy_DeepCopy L,
      CompiledFrontProxy_DeepCopyObject L),
     (''CompiledFrontProxyList'', go_CompiledFrontProxyList L, CompiledFrontProxyList_DeepCopy L,
      CompiledFrontProxyList_DeepCopyObject L),
     (''CompiledRootShard'', go_CompiledRootShard L, CompiledRootShard_DeepCopy L,
      CompiledRootShard_DeepCopyObject L),
     (''CompiledRootShardList'', go_CompiledRootShardList L, CompiledRootShardList_DeepCopy L,
      CompiledRootShardList_DeepCopyObject L),
     (''CompiledShard'', go_CompiledShard L, CompiledShard_DeepCopy L,
      CompiledShard_DeepCopyObject L),
     (''CompiledShardList'', go_CompiledShardList L, CompiledShardList_DeepCopy L,
      CompiledShardList_DeepCopyObject L),
     (''CompiledVirtualWorkspace'', go_CompiledVirtualWorkspace L, CompiledVirtualWorkspace_DeepCopy L,
      CompiledVirtualWorkspace_DeepCopyObject L),
     (''CompiledVirtualWorkspaceList'', go_CompiledVirtualWorkspaceList L, CompiledVirtualWorkspaceList_DeepCopy L,
      CompiledVirtualWorkspaceList_DeepCopyObject L)]"

text \<open>The memory after any writes that change or add cells, of the old ones only those of \<open>B\<close>.\<close>

definition written_at :: "nat list \<Rightarrow> memory \<Rightarrow> memory \<Rightarrow> bool" where
  "written_at B m m' \<longleftrightarrow> length m \<le> length m' \<and> (\<forall>a < length m. a \<notin> set B \<longrightarrow> m' ! a = m ! a)"

lemma written_at_unchanged:
  assumes "written_at B m m'" "\<forall>a\<in>set A. a < length m \<and> a \<notin> set B"
  shows "unchanged_at m m' A"
  using assms by (auto simp: written_at_def unchanged_at_def)

lemma copies_deep_copy: "copies P f \<Longrightarrow> copies (pointer_type P) (deep_copy f)"
proof -
  assume "copies P f"
  moreover have "deep_copy f = copy_pointer f"
    by (simp add: fun_eq_iff deep_copy_def copy_pointer_def)
  ultimately show ?thesis by simp
qed

lemma copies_isolated:
  assumes "copies P f" "P m v = Some (t, A)"
  obtains w new B where "f m v = Some (w, m @ new)" "P (m @ new) w = Some (t, B)"
    "\<And>m'. written_at B (m @ new) m' \<Longrightarrow> P m' v = Some (t, A)"
    "\<And>m'. written_at A (m @ new) m' \<Longrightarrow> P m' w = Some (t, B)"
proof -
  have reg: "regular P"
    using assms(1) by (rule copies_regular)
  obtain w new B where w: "f m v = Some (w, m @ new)" "P (m @ new) w = Some (t, B)"
      "\<forall>b\<in>set B. length m \<le> b"
    using copiesE [OF assms] by blast
  have A: "\<forall>a\<in>set A. a < length m"
    using regularD(1) [OF reg assms(2)] by blast
  have B: "\<forall>b\<in>set B. b < length (m @ new)"
    using regularD(1) [OF reg w(2)] by blast
  have "P m' v = Some (t, A)" if "written_at B (m @ new) m'" for m'
    using A w(3) by (intro regularD(2) [OF reg regular_append [OF reg assms(2), where new = new]]
        written_at_unchanged [OF that]) fastforce
  moreover have "P m' w = Some (t, B)" if "written_at A (m @ new) m'" for m'
    using A B w(3) by (intro regularD(2) [OF reg w(2)] written_at_unchanged [OF that]) fastforce
  ultimately show thesis
    using that w(1,2) by blast
qed

text \<open>Each of them is the DeepCopy of a deep DeepCopyInto.\<close>

lemma api_objects_copies:
  assumes "library_ok L" "(k, P, f, g) \<in> set (api_objects L)"
  shows "copies (pointer_type P) f \<and> g = deep_copy_object f"
proof -
  have "list_all (\<lambda>(k, P, f, g). copies (pointer_type P) f \<and> g = deep_copy_object f) (api_objects L)"
    using assms(1)
    by (simp add: api_objects_def copies_deep_copy
        CacheServer_DeepCopy_def CacheServer_DeepCopyObject_def CacheServerList_DeepCopy_def
        CacheServerList_DeepCopyObject_def FrontProxy_DeepCopy_def FrontProxy_DeepCopyObject_def
        FrontProxyList_DeepCopy_def FrontProxyList_DeepCopyObject_def Kubeconfig_DeepCopy_def
        Kubeconfig_DeepCopyObject_def KubeconfigList_DeepCopy_def
        KubeconfigList_DeepCopyObject_def RootShard_DeepCopy_def RootShard_DeepCopyObject_def
        RootShardList_DeepCopy_def RootShardList_DeepCopyObject_def Shard_DeepCopy_def
        Shard_DeepCopyObject_def ShardList_DeepCopy_def ShardList_DeepCopyObject_def
        VirtualWorkspace_DeepCopy_def VirtualWorkspace_DeepCopyObject_def
        VirtualWorkspaceList_DeepCopy_def VirtualWorkspaceList_DeepCopyObject_def
        CompiledCacheServer_DeepCopy_def CompiledCacheServer_DeepCopyObject_def
        CompiledCacheServerList_DeepCopy_def CompiledCacheServerList_DeepCopyObject_def
        CompiledFrontProxy_DeepCopy_def CompiledFrontProxy_DeepCopyObject_def
        CompiledFrontProxyList_DeepCopy_def CompiledFrontProxyList_DeepCopyObject_def
        CompiledRootShard_DeepCopy_def CompiledRootShard_DeepCopyObject_def
        CompiledRootShardList_DeepCopy_def CompiledRootShardList_DeepCopyObject_def
        CompiledShard_DeepCopy_def CompiledShard_DeepCopyObject_def CompiledShardList_DeepCopy_def
        CompiledShardList_DeepCopyObject_def CompiledVirtualWorkspace_DeepCopy_def
        CompiledVirtualWorkspace_DeepCopyObject_def CompiledVirtualWorkspaceList_DeepCopy_def
        CompiledVirtualWorkspaceList_DeepCopyObject_def)
  then show ?thesis
    using assms(2) by (auto simp: list_all_iff)
qed

text \<open>C16: 
  C1: A deep copy is isolated from its original. For every kind of object of the API, under the
  documented behaviour of the deep copies of the Kubernetes types in them, DeepCopy of a pointer
  (which may be nil) to a well-typed object returns without a panic and only allocates; the copy has
  the contents of the original, nil fields, empty slices and maps included; after any writes through
  the copy, to any memory it reaches, the original reads as before, and after any writes through the
  original so does the copy. DeepCopyObject returns the same pointer in an interface, and the nil
  interface for a nil pointer.
\<close>

theorem deepcopy_isolated:
  assumes "library_ok L" "(k, P, DeepCopy, DeepCopyObject) \<in> set (api_objects L)"
    and "pointer_type P m v = Some (t, A)"
  shows "\<exists>w new B. DeepCopy m v = Some (w, m @ new)
    \<and> DeepCopyObject m v = Some (if v = NilRef then None else Some w, m @ new)
    \<and> pointer_type P (m @ new) w = Some (t, B)
    \<and> (\<forall>m'. written_at B (m @ new) m' \<longrightarrow> pointer_type P m' v = Some (t, A))
    \<and> (\<forall>m'. written_at A (m @ new) m' \<longrightarrow> pointer_type P m' w = Some (t, B))"
proof -
  have f: "copies (pointer_type P) DeepCopy" "DeepCopyObject = deep_copy_object DeepCopy"
    using api_objects_copies [OF assms(1,2)] by simp_all
  obtain w new B where w: "DeepCopy m v = Some (w, m @ new)" "pointer_type P (m @ new) w = Some (t, B)"
      "\<And>m'. written_at B (m @ new) m' \<Longrightarrow> pointer_type P m' v = Some (t, A)"
      "\<And>m'. written_at A (m @ new) m' \<Longrightarrow> pointer_type P m' w = Some (t, B)"
    using copies_isolated [OF f(1) assms(3)] by blast
  have "w = NilRef \<longleftrightarrow> v = NilRef"
    using assms(3) w(2)
    by (auto simp: pointer_type_def split: go_value.splits option.splits cell.splits)
  then show ?thesis
    using w f(2) by (intro exI [of _ w] exI [of _ new] exI [of _ B]) (auto simp: deep_copy_object_def)
qed

subsection \<open>A concrete copy\<close>

text \<open>A library whose types are structs with a name, and with a map where they may have references.\<close>

definition flat_library_types :: "library_type list" where
  "flat_library_types = [TypeMeta, Duration, LocalObjectReference]"

definition sample_library :: go_library where
  "sample_library = \<lparr>
    lib_type = (\<lambda>n. struct_type (if n \<in> set flat_library_types then [(''Name'', text_type)]
      else [(''Name'', text_type), (''Labels'', map_type text_type)])),
    lib_DeepCopyInto = (\<lambda>n. copy_fields (if n \<in> set flat_library_types then []
      else [(''Labels'', copy_map assign)])) \<rparr>"

lemma sample_library_ok: "library_ok sample_library"
  by (simp add: library_ok_def sample_library_def flat_library_types_def)

definition named :: "string \<Rightarrow> go_value" where
  "named s = Struct [(''Name'', Scalar (Text s))]"

text \<open>A Kubeconfig with a label and a group, and a pointer to it.\<close>

definition sample_memory :: memory where
  "sample_memory =
    [Many [Scalar (Text ''admins'')],
     Entries [(''team'', Scalar (Text ''a''))],
     One (Struct
       [(''TypeMeta'', named ''Kubeconfig''),
        (''ObjectMeta'', Struct [(''Name'', Scalar (Text ''kc'')), (''Labels'', MapRef 1)]),
        (''Spec'', Struct
          [(''Target'', Struct [(''RootShardRef'', NilRef), (''ShardRef'', NilRef),
             (''FrontProxyRef'', NilRef)]),
           (''TargetWorkspace'', Scalar (Text [])), (''Username'', Scalar (Text ''kcp-admin'')),
           (''Groups'', Slice 0 0 1), (''Validity'', named ''1h''), (''SecretRef'', named ''s''),
           (''CertificateTemplate'', NilRef), (''Authorization'', NilRef)]),
        (''Status'', Struct
          [(''Phase'', Scalar (Text [])), (''TargetName'', Scalar (Text [])),
           (''Authorization'', NilRef), (''Conditions'', NilRef)])])]"

definition sample_contents :: contents where
  "sample_contents = CPointer (CStruct
    [(''TypeMeta'', CStruct [(''Name'', CScalar (Text ''Kubeconfig''))]),
     (''ObjectMeta'', CStruct [(''Name'', CScalar (Text ''kc'')),
       (''Labels'', CMap [(''team'', CScalar (Text ''a''))])]),
     (''Spec'', CStruct
       [(''Target'', CStruct [(''RootShardRef'', CNil), (''ShardRef'', CNil), (''FrontProxyRef'', CNil)]),
        (''TargetWorkspace'', CScalar (Text [])), (''Username'', CScalar (Text ''kcp-admin'')),
        (''Groups'', CSlice [CScalar (Text ''admins'')]),
        (''Validity'', CStruct [(''Name'', CScalar (Text ''1h''))]),
        (''SecretRef'', CStruct [(''Name'', CScalar (Text ''s''))]),
        (''CertificateTemplate'', CNil), (''Authorization'', CNil)]),
     (''Status'', CStruct
       [(''Phase'', CScalar (Text [])), (''TargetName'', CScalar (Text [])),
        (''Authorization'', CNil), (''Conditions'', CNil)])])"

lemmas sample_copy_defs = sample_memory_def sample_contents_def named_def sample_library_def
  flat_library_types_def go_Kubeconfig_def go_KubeconfigSpec_def go_KubeconfigStatus_def
  go_KubeconfigTarget_def struct_type_def text_type_def pointer_type_def slice_type_def map_type_def
  load_def

lemma sample_contents_read:
  "pointer_type (go_Kubeconfig sample_library) sample_memory (Pointer 2) = Some (sample_contents, [2, 1, 0])"
  by (simp add: sample_copy_defs)

lemma sample_object_listed:
  "(''Kubeconfig'', go_Kubeconfig sample_library, Kubeconfig_DeepCopy sample_library,
    Kubeconfig_DeepCopyObject sample_library) \<in> set (api_objects sample_library)"
  by (simp add: api_objects_def)

text \<open>Renaming the group in the original leaves the copy as it was.\<close>

theorem deepcopy_isolated_witness:
  "\<exists>w new B. Kubeconfig_DeepCopy sample_library sample_memory (Pointer 2) = Some (w, sample_memory @ new)
    \<and> pointer_type (go_Kubeconfig sample_library)
        ((sample_memory @ new)[0 := Many [Scalar (Text ''other'')]]) w = Some (sample_contents, B)"
proof -
  have "written_at [2, 1, 0] m (m[0 := c])" for m c
    by (simp add: written_at_def nth_list_update)
  then show ?thesis
    using deepcopy_isolated [OF sample_library_ok sample_object_listed sample_contents_read] by blast
qed

end
