(* ===== verification/Shard_Reach.thy ===== *)
theory Shard_Reach
  imports Watch_Maps Controllers_Witnesses
begin

text \<open>
  Two controllers in a row: a front proxy routes to all shards of its root shard, but its controller
  watches root shards only. A new shard reaches it through the status of the root shard, where the
  root shard controller lists the shards.
\<close>

section \<open>What a front proxy takes from its root shard\<close>

text \<open>The certificates of a proxy do not depend on the status of its root shard or on the shards.\<close>

definition with_status :: "proxy_reconciler \<Rightarrow> RootShardStatus \<Rightarrow> Shard list \<Rightarrow> proxy_reconciler" where
  "with_status p st cs = p\<lparr>fr_rootShard := (fr_rootShard p)\<lparr>rsh_Status := st\<rparr>, fr_shards := cs\<rparr>"

lemma NewFrontProxy_status:
  assumes "NewFrontProxy (Some f) (r\<lparr>rsh_Status := st\<rparr>) cs = Inr p1"
  obtains p where "NewFrontProxy (Some f) r [] = Inr p" "p1 = with_status p st cs"
  using assms by (auto simp: NewFrontProxy_def with_status_def)

lemma with_status_certs: "proxy_certReconcilers (with_status p st cs) = proxy_certReconcilers p"
proof -
  have "proxy_leaf (with_status p st cs) = proxy_leaf p"
    by (intro ext) (simp add: with_status_def proxy_leaf_def proxy_certName_def certSecretLabels_def
        certTemplateMap_def names_defs Let_def split: option.split)
  moreover have "proxy_dnsNames (with_status p st cs) = proxy_dnsNames p"
    by (simp add: with_status_def proxy_dnsNames_def fr_serviceName_def names_defs Let_def split: option.split)
  moreover have "certCommonName (with_status p st cs) = certCommonName p"
    by (simp add: with_status_def certCommonName_def)
  ultimately show ?thesis
    by (simp add: proxy_certReconcilers_def proxy_cert_defs)
qed

section \<open>The shards of a root shard\<close>

definition shards_of :: "RootShard \<Rightarrow> ns_world \<Rightarrow> Shard list" where
  "shards_of r w = sort_key shard_name
     (filter (\<lambda>s. map_option lor_Name (rsc_Reference (ss_RootShard (sh_Spec s))) = Some (om_Name (rsh_Meta r)))
       (objects (nw_shards w)))"

lemma shards_of_set:
  "s \<in> set (shards_of r w) \<longleftrightarrow> (\<exists>n. fmlookup (nw_shards w) n = Some s)
     \<and> map_option lor_Name (rsc_Reference (ss_RootShard (sh_Spec s))) = Some (om_Name (rsh_Meta r))"
  by (auto simp: shards_of_def objects_set)

lemma shards_of_same:
  "nw_shards v = nw_shards w \<Longrightarrow> om_Name (rsh_Meta r') = om_Name (rsh_Meta r) \<Longrightarrow> shards_of r' v = shards_of r w"
  by (simp add: shards_of_def)

lemma children_now:
  assumes "\<forall>s \<in> fmran' (nw_shards w). rsc_Reference (ss_RootShard (sh_Spec s)) \<noteq> None"
  shows "rootshard_children r w [] = (Inr (Inr (shards_of r w)), w, [])"
proof -
  have "\<forall>s \<in> set (objects (nw_shards w)). rsc_Reference (ss_RootShard (sh_Spec s)) \<noteq> None"
    using assms by (auto simp: objects_set intro: fmran'I)
  then have "GetRootShardChildren (Inr (objects (nw_shards w))) r = Inr (shards_of r w)"
    by (simp add: GetRootShardChildren_def children_of_spec shards_of_def del: not_None_eq)
  then show ?thesis
    by (simp add: rootshard_children_def bindA_def tryA_def objects_def [symmetric])
qed

text \<open>The status of a root shard lists its shards after a run, whatever it listed before.\<close>

lemma rootshard_status_run:
  assumes "fmlookup (nw_rootshards v) (om_Name (rsh_Meta r)) = Some r"
    and "\<forall>s \<in> fmran' (nw_shards v). rsc_Reference (ss_RootShard (sh_Spec s)) \<noteq> None"
  obtains st where "rootshard_reconcileStatus env r cs v [] =
      (Inr (Inr ()), v\<lparr>nw_rootshards := fmupd (om_Name (rsh_Meta r)) (r\<lparr>rsh_Status := st\<rparr>) (nw_rootshards v)\<rparr>, [])"
    "rst_Shards st = map shard_name (shards_of r v)"
proof -
  let ?n = "om_Name (rsh_Meta r)"
  let ?c = "GetCompiledAvailableCondition (ce_conditions env) (conditions_in (nw_crootshards v)
      (\<lambda>c. rst_Conditions (crsh_Status c)) ?n) (''CompiledRootShard '' @ ?n)"
  define st where "st = rootshard_new_status (ce_conditions env) r (cs @ [?c]) (Inr (shards_of r v))"
  have same: "v\<lparr>nw_rootshards := fmupd ?n (r\<lparr>rsh_Status := st\<rparr>) (nw_rootshards v)\<rparr> = v" if "st = rsh_Status r"
  proof -
    have "fmupd ?n r (nw_rootshards v) = nw_rootshards v"
      using assms(1) by (intro fmap_ext) auto
    then show ?thesis using that by simp
  qed
  have "rootshard_reconcileStatus env r cs v [] = (if st = rsh_Status r then (Inr (Inr ()), v, [])
      else (Inr (Inr ()), v\<lparr>nw_rootshards := fmupd ?n (r\<lparr>rsh_Status := st\<rparr>) (nw_rootshards v)\<rparr>, []))"
    using assms(1)
    by (simp add: rootshard_reconcileStatus_def compiled_condition_def bindA_def tryA_def Let_def
        api_call_run patch_object_def lookup_object_def children_now [OF assms(2)] st_def)
  then have "rootshard_reconcileStatus env r cs v [] =
      (Inr (Inr ()), v\<lparr>nw_rootshards := fmupd ?n (r\<lparr>rsh_Status := st\<rparr>) (nw_rootshards v)\<rparr>, [])"
    using same by auto
  moreover have "rst_Shards st = map shard_name (shards_of r v)"
    by (simp add: st_def rootshard_new_status_def Let_def)
  ultimately show thesis by (rule that)
qed

section \<open>The run of the root shard controller\<close>

text \<open>A root shard whose own certificates are in place, without CA bundles and an external virtual workspace.\<close>

definition rootshard_settled :: "ctl_env \<Rightarrow> RootShard \<Rightarrow> ns_world \<Rightarrow> bool" where
  "rootshard_settled env r w \<longleftrightarrow> om_DeletionTimestamp (rsh_Meta r) = None
     \<and> (\<exists>recs. rootshard_certReconcilers r = Inr recs
          \<and> ready_certs (recs @ proxy_certReconcilers (NewRootShardProxy r)) w)
     \<and> client_ca_known r w \<and> (\<forall>c. \<exists>d. ce_write env c = Inr d)
     \<and> (\<forall>s \<in> fmran' (nw_shards w). rsc_Reference (ss_RootShard (sh_Spec s)) \<noteq> None)
     \<and> cs_CABundleSecretRef (rsh_Spec r) = None \<and> cs_ClientCABundleRef (rsh_Spec r) = None
     \<and> cs_KCPVirtualWorkspace (rsh_Spec r) = None"

lemma rootshard_lists_shards:
  assumes named: "well_named w" and r: "fmlookup (nw_rootshards w) name = Some r"
    and settled: "rootshard_settled env r w"
  obtains w1 st where "rootshard_Reconcile env name w [] = (Inr (), w1, [])" "well_named w1"
    "fmlookup (nw_rootshards w1) name = Some (r\<lparr>rsh_Status := st\<rparr>)" "rst_Shards st = map shard_name (shards_of r w)"
    "nw_shards w1 = nw_shards w" "nw_frontproxies w1 = nw_frontproxies w" "nw_certs w1 = nw_certs w"
    "client_ca_known r w1"
proof -
  have name: "om_Name (rsh_Meta r) = name" by (rule well_named_objects(1) [OF named r])
  obtain recs where recs: "rootshard_certReconcilers r = Inr recs"
      "ready_certs (recs @ proxy_certReconcilers (NewRootShardProxy r)) w"
    using settled by (auto simp: rootshard_settled_def)
  have ok: "client_ca_known r w" "\<forall>c. \<exists>d. ce_write env c = Inr d"
      "\<forall>s \<in> fmran' (nw_shards w). rsc_Reference (ss_RootShard (sh_Spec s)) \<noteq> None"
      "cs_CABundleSecretRef (rsh_Spec r) = None" "cs_ClientCABundleRef (rsh_Spec r) = None"
      "cs_KCPVirtualWorkspace (rsh_Spec r) = None"
    using settled by (simp_all add: rootshard_settled_def)
  obtain m i N where render: "rootshard_render env r w [] = (Inr (Inr ()), w\<lparr>nw_issuers := i, nw_secrets := m,
      nw_crootshards := fmupd name N (nw_crootshards w)\<rparr>, [])" and ca: "client_ca_known r (w\<lparr>nw_secrets := m\<rparr>)"
    using rootshard_render_run [OF recs ok] name by auto
  let ?v = "w\<lparr>nw_issuers := i, nw_secrets := m, nw_crootshards := fmupd name N (nw_crootshards w)\<rparr>"
  have rec: "rootshard_reconcile env r w [] = (Inr ([], Inr ()), ?v, [])"
    using settled by (simp add: rootshard_reconcile_def rootshard_settled_def bindA_def [of "rootshard_render _ _"] render)
  obtain st where status: "rootshard_reconcileStatus env r [] ?v [] =
      (Inr (Inr ()), ?v\<lparr>nw_rootshards := fmupd name (r\<lparr>rsh_Status := st\<rparr>) (nw_rootshards ?v)\<rparr>, [])"
    and st: "rst_Shards st = map shard_name (shards_of r ?v)"
    using rootshard_status_run [of ?v r env "[]"] r ok(3) name by auto
  let ?w1 = "?v\<lparr>nw_rootshards := fmupd name (r\<lparr>rsh_Status := st\<rparr>) (nw_rootshards ?v)\<rparr>"
  have run: "rootshard_Reconcile env name w [] = (Inr (), ?w1, [])"
    using r finish_run [where m = "rootshard_reconcileStatus env r []", OF status]
    by (simp add: rootshard_Reconcile_def controller_Reconcile_def bindA_def [of "tryA _"] tryA_def api_get_def lookup_object_def
        bindA_def [of "rootshard_reconcile _ _"] rec)
  show thesis
  proof (rule that [OF run])
    show "well_named ?w1"
      using keeps_run [where P = well_named, OF keeps_named_others(1) named, of env name "[]"] run by simp
    show "rst_Shards st = map shard_name (shards_of r w)"
      using st shards_of_same [of ?v w r r] by simp
    show "client_ca_known r ?w1"
      using ca by (simp add: client_ca_known_def)
  qed simp_all
qed

section \<open>From a shard to the front proxies\<close>

text \<open>A front proxy of a root shard whose certificates are in place, without CA bundles.\<close>

definition frontproxy_settled :: "FrontProxy \<Rightarrow> RootShard \<Rightarrow> ns_world \<Rightarrow> bool" where
  "frontproxy_settled f r w \<longleftrightarrow> om_DeletionTimestamp (fpx_Meta f) = None
     \<and> map_option lor_Name (rsc_Reference (fp_RootShard (fpx_Spec f))) = Some (om_Name (rsh_Meta r))
     \<and> (\<forall>p. NewFrontProxy (Some f) r [] = Inr p \<longrightarrow> ready_certs (proxy_certReconcilers p) w)
     \<and> fp_CABundleSecretRef (fpx_Spec f) = None \<and> fp_ClientCABundleRef (fpx_Spec f) = None"

lemma frontproxy_follows_status:
  assumes "well_named v" "fmlookup (nw_frontproxies v) fn = Some f" "frontproxy_settled f r v"
    and r: "fmlookup (nw_rootshards v) (om_Name (rsh_Meta r)) = Some (r\<lparr>rsh_Status := st\<rparr>)"
    and "client_ca_known r v" "cs_ClientCABundleRef (rsh_Spec r) = None"
    and refs: "\<forall>s \<in> fmran' (nw_shards v). rsc_Reference (ss_RootShard (sh_Spec s)) \<noteq> None"
  shows "fn \<in> set (frontproxy_rootShardHandler v (r\<lparr>rsh_Status := st\<rparr>))
    \<and> (\<exists>v' obj. frontproxy_Reconcile env fn v [] = (Inr (), v', [])
         \<and> fmlookup (nw_cfrontproxies v') fn = Some obj \<and> cfp_Shards (cfpo_Spec obj) = ShardNames (shards_of r v))"
proof -
  let ?r1 = "r\<lparr>rsh_Status := st\<rparr>"
  have f: "om_DeletionTimestamp (fpx_Meta f) = None"
      "\<And>p. NewFrontProxy (Some f) r [] = Inr p \<Longrightarrow> ready_certs (proxy_certReconcilers p) v"
      "fp_CABundleSecretRef (fpx_Spec f) = None" "fp_ClientCABundleRef (fpx_Spec f) = None"
    using assms(3) by (simp_all add: frontproxy_settled_def)
  obtain l where l: "rsc_Reference (fp_RootShard (fpx_Spec f)) = Some l" "lor_Name l = om_Name (rsh_Meta r)"
    using assms(3) by (auto simp: frontproxy_settled_def)
  have ready: "ready_certs (proxy_certReconcilers p) v" if "NewFrontProxy (Some f) ?r1 cs = Inr p" for cs p
    using NewFrontProxy_status [OF that] f(2) by (metis with_status_certs)
  have ca: "client_ca_known ?r1 v"
    using assms(5) by (simp add: client_ca_known_def GetRootShardCAName_def)
  have look: "fmlookup (nw_rootshards v) (lor_Name l) = Some ?r1"
    using r l(2) by simp
  have "cs_ClientCABundleRef (rsh_Spec ?r1) = None"
    using assms(6) by simp
  from frontproxy_run_shards [where env = env, OF assms(1,2) f(1) l(1) look _ ca refs f(3,4) this] ready
  obtain v' obj where run: "frontproxy_Reconcile env fn v [] = (Inr (), v', [])"
      "fmlookup (nw_cfrontproxies v') fn = Some obj" "cfp_Shards (cfpo_Spec obj) = ShardNames (shards_of ?r1 v)"
    using children_now [OF refs, of ?r1] by blast
  moreover have "shards_of ?r1 v = shards_of r v"
    by (rule shards_of_same) simp_all
  moreover have "fn \<in> set (frontproxy_rootShardHandler v ?r1)"
    using assms(2) l well_named_objects(3) [OF assms(1,2)]
    by (force simp: frontproxy_rootShardHandler_def objects_set)
  ultimately show ?thesis by auto
qed

text \<open>C11: A new shard reaches the front proxies, over two controllers. A shard names a root shard that is
  settled, and a front proxy of that root shard has its certificates. Then the shard's event asks for
  a reconciliation of the root shard; after it, when its calls succeed, the status of the root shard
  lists exactly its shards, sorted by name, so that it has changed if the shard was not listed; that
  change asks for a reconciliation of the front proxy, and that one publishes a compiled front proxy
  which lists exactly those shards, the new one included.\<close>

theorem new_shard_reaches_frontproxies:
  assumes "well_named w" "fmlookup (nw_shards w) sn = Some s"
    "rsc_Reference (ss_RootShard (sh_Spec s)) = Some l" "fmlookup (nw_rootshards w) (lor_Name l) = Some r"
    "rootshard_settled env r w" "fmlookup (nw_frontproxies w) fn = Some f" "frontproxy_settled f r w"
  shows "rootshard_shardHandler w s = Inr [lor_Name l]
    \<and> (\<exists>w1 r1 w2 obj. rootshard_Reconcile env (lor_Name l) w [] = (Inr (), w1, [])
        \<and> fmlookup (nw_rootshards w1) (lor_Name l) = Some r1
        \<and> rst_Shards (rsh_Status r1) = ShardNames (shards_of r w) \<and> sn \<in> set (rst_Shards (rsh_Status r1))
        \<and> fn \<in> set (frontproxy_rootShardHandler w1 r1)
        \<and> frontproxy_Reconcile env fn w1 [] = (Inr (), w2, [])
        \<and> fmlookup (nw_cfrontproxies w2) fn = Some obj
        \<and> cfp_Shards (cfpo_Spec obj) = rst_Shards (rsh_Status r1))"
proof -
  have name: "om_Name (rsh_Meta r) = lor_Name l" by (rule well_named_objects(1) [OF assms(1,4)])
  have sname: "om_Name (sh_Meta s) = sn" by (rule well_named_objects(2) [OF assms(1,2)])
  have refs: "\<forall>s \<in> fmran' (nw_shards w). rsc_Reference (ss_RootShard (sh_Spec s)) \<noteq> None"
    and plain: "cs_ClientCABundleRef (rsh_Spec r) = None"
    using assms(5) by (simp_all add: rootshard_settled_def)
  have child: "s \<in> set (shards_of r w)"
    using assms(2,3) name by (auto simp: shards_of_set)
  obtain w1 st where run: "rootshard_Reconcile env (lor_Name l) w [] = (Inr (), w1, [])" "well_named w1"
      "fmlookup (nw_rootshards w1) (lor_Name l) = Some (r\<lparr>rsh_Status := st\<rparr>)"
      "rst_Shards st = map shard_name (shards_of r w)"
      "nw_shards w1 = nw_shards w" "nw_frontproxies w1 = nw_frontproxies w" "nw_certs w1 = nw_certs w"
      "client_ca_known r w1"
    by (rule rootshard_lists_shards [OF assms(1,4,5)])
  have names: "rst_Shards st = ShardNames (shards_of r w)"
    by (simp add: run(4) ShardNames_def shard_name_def)
  have settled: "frontproxy_settled f r w1"
    using assms(7) run(7) by (simp add: frontproxy_settled_def ready_certs_def)
  have "fn \<in> set (frontproxy_rootShardHandler w1 (r\<lparr>rsh_Status := st\<rparr>))
    \<and> (\<exists>w2 obj. frontproxy_Reconcile env fn w1 [] = (Inr (), w2, [])
         \<and> fmlookup (nw_cfrontproxies w2) fn = Some obj \<and> cfp_Shards (cfpo_Spec obj) = ShardNames (shards_of r w1))"
    by (rule frontproxy_follows_status [OF run(2) _ settled _ run(8) plain])
      (use assms(6) run(3,5,6) refs name in simp_all)
  moreover have "shards_of r w1 = shards_of r w"
    by (rule shards_of_same) (simp_all add: run(5))
  moreover have "rootshard_shardHandler w s = Inr [lor_Name l]"
    using assms(3,4) name by (simp add: rootshard_shardHandler_def)
  moreover have "sn \<in> set (rst_Shards st)"
    using child sname by (auto simp: names ShardNames_def)
  ultimately show ?thesis
    using run(1,3) names by auto
qed

text \<open>The sample cluster with the certificates of the root shard and of the front proxy, where the
  status of the root shard lists no shard yet.\<close>

definition reach_recs :: "certificate_reconciler list" where
  "reach_recs = sample_rootshard_recs @ proxy_certReconcilers (NewRootShardProxy sample_rootshard)
     @ proxy_certReconcilers (sample_proxy sample_frontproxy)"

lemma reach_names: "distinct (map fst reach_recs)"
  by (simp only: reach_recs_def map_append rootshard_cert_list [OF sample_rootshard_recs])
    (simp add: intermediateCAs_def proxy_certReconcilers_def proxy_cert_defs proxy_pki.leaf_name
      proxy_certName_def NewRootShardProxy_def sample_proxy_def names_defs sample_defs)

lemma reach_renders: "\<forall>rec \<in> set reach_recs. renders rec"
  using rootshard_world_render certs_render(2) by (auto simp: reach_recs_def)

lemma reach_settled:
  "rootshard_settled sample_ctl sample_rootshard (sample_world reach_recs)"
  "frontproxy_settled sample_frontproxy sample_rootshard (sample_world reach_recs)"
proof -
  have ready: "ready_certs recs (sample_world reach_recs)" if "set recs \<subseteq> set reach_recs" for recs
    by (rule sample_world_ready [OF reach_names reach_renders that])
  show "rootshard_settled sample_ctl sample_rootshard (sample_world reach_recs)"
    unfolding rootshard_settled_def
    using sample_rootshard_recs ready [of "sample_rootshard_recs @ proxy_certReconcilers (NewRootShardProxy sample_rootshard)"]
      sample_world_ok sample_write
    by (auto simp: reach_recs_def sample_defs)
  have p: "p = sample_proxy sample_frontproxy" if "NewFrontProxy (Some sample_frontproxy) sample_rootshard [] = Inr p" for p
    using that by (simp add: NewFrontProxy_def sample_proxy_def)
  show "frontproxy_settled sample_frontproxy sample_rootshard (sample_world reach_recs)"
    unfolding frontproxy_settled_def
    using p ready [of "proxy_certReconcilers (sample_proxy sample_frontproxy)"]
    by (auto simp: reach_recs_def sample_defs)
qed

theorem new_shard_reaches_frontproxies_witness:
  "rst_Shards (rsh_Status sample_rootshard) = []
    \<and> (\<exists>w1 w2 obj. rootshard_Reconcile sample_ctl ''root'' (sample_world reach_recs) [] = (Inr (), w1, [])
        \<and> frontproxy_Reconcile sample_ctl ''fp'' w1 [] = (Inr (), w2, [])
        \<and> fmlookup (nw_cfrontproxies w2) ''fp'' = Some obj \<and> ''shard1'' \<in> set (cfp_Shards (cfpo_Spec obj)))"
proof -
  have "rsc_Reference (ss_RootShard (sh_Spec sample_guarded_shard)) = Some \<lparr>lor_Name = ''root''\<rparr>"
    by (simp add: sample_defs)
  from new_shard_reaches_frontproxies [OF sample_world_named [OF reach_renders] sample_world_lookups(1) this _ reach_settled(1)
      sample_world_lookups(3) reach_settled(2)]
  show ?thesis
    by (fastforce simp: sample_defs)
qed

end
