(* ===== verification/Watch_Registration.thy ===== *)
theory Watch_Registration
  imports Watch_Maps Compiled_Props
begin

text \<open>
  What the controllers register for in \<open>SetupWithManager\<close>: the kind they reconcile, the kinds they own
  and those they watch through a handler (Watch_Maps, Mount_Watch). A change of an object that a
  controller writes is only undone if it is woken by it, so the kinds a controller writes should be
  among those it registers for. \<open>KcpShards\<close> are the \<open>Shard\<close> objects of kcp itself, in a logical cluster;
  no registration can name them.
\<close>

section \<open>The registrations\<close>

datatype api_kind =
    RootShards | Shards | FrontProxies | CacheServers | VirtualWorkspaces | Kubeconfigs
  | Certificates | Issuers | Secrets | ConfigMaps | Services | Deployments
  | CompiledRootShards | CompiledShards | CompiledFrontProxies | CompiledCacheServers
  | CompiledVirtualWorkspaces | KcpShards

record registration =
  reg_Named :: string
  reg_For :: api_kind
  reg_Owns :: "api_kind list"
  reg_Watches :: "api_kind list"

definition rootshard_SetupWithManager :: registration where
  "rootshard_SetupWithManager = \<lparr>reg_Named = ''rootshard'', reg_For = RootShards,
     reg_Owns = [CompiledRootShards, Secrets, Certificates], reg_Watches = [Shards, VirtualWorkspaces]\<rparr>"

definition shard_SetupWithManager :: registration where
  "shard_SetupWithManager = \<lparr>reg_Named = ''shard'', reg_For = Shards,
     reg_Owns = [CompiledShards, Secrets, Certificates], reg_Watches = [RootShards, VirtualWorkspaces]\<rparr>"

definition frontproxy_SetupWithManager :: registration where
  "frontproxy_SetupWithManager = \<lparr>reg_Named = ''frontproxy'', reg_For = FrontProxies,
     reg_Owns = [CompiledFrontProxies, Secrets, Certificates], reg_Watches = [RootShards]\<rparr>"

definition cacheserver_SetupWithManager :: registration where
  "cacheserver_SetupWithManager = \<lparr>reg_Named = ''cache-server'', reg_For = CacheServers,
     reg_Owns = [CompiledCacheServers, Secrets, Certificates], reg_Watches = []\<rparr>"

definition vw_SetupWithManager :: registration where
  "vw_SetupWithManager = \<lparr>reg_Named = ''virtualworkspace'', reg_For = VirtualWorkspaces,
     reg_Owns = [Secrets, Certificates, CompiledVirtualWorkspaces],
     reg_Watches = [RootShards, Shards, Issuers]\<rparr>"

definition kubeconfig_SetupWithManager :: registration where
  "kubeconfig_SetupWithManager = \<lparr>reg_Named = ''kubeconfig'', reg_For = Kubeconfigs,
     reg_Owns = [Secrets, Certificates], reg_Watches = [RootShards, Shards, FrontProxies]\<rparr>"

definition rbac_SetupWithManager :: registration where
  "rbac_SetupWithManager = \<lparr>reg_Named = ''kubeconfig-rbac'', reg_For = Kubeconfigs,
     reg_Owns = [], reg_Watches = []\<rparr>"

definition crootshard_SetupWithManager :: registration where
  "crootshard_SetupWithManager = \<lparr>reg_Named = ''compiled-rootshard'', reg_For = CompiledRootShards,
     reg_Owns = [Deployments, ConfigMaps, Services], reg_Watches = [Secrets]\<rparr>"

definition cshard_SetupWithManager :: registration where
  "cshard_SetupWithManager = \<lparr>reg_Named = ''compiled-shard'', reg_For = CompiledShards,
     reg_Owns = [Deployments, Services], reg_Watches = [Secrets]\<rparr>"

definition cfrontproxy_SetupWithManager :: registration where
  "cfrontproxy_SetupWithManager = \<lparr>reg_Named = ''compiled-frontproxy'', reg_For = CompiledFrontProxies,
     reg_Owns = [Deployments, ConfigMaps, Services], reg_Watches = [Secrets]\<rparr>"

definition ccacheserver_SetupWithManager :: registration where
  "ccacheserver_SetupWithManager = \<lparr>reg_Named = ''compiled-cache-server'', reg_For = CompiledCacheServers,
     reg_Owns = [Deployments, Services], reg_Watches = [Secrets]\<rparr>"

definition cvw_SetupWithManager :: registration where
  "cvw_SetupWithManager = \<lparr>reg_Named = ''compiled-virtualworkspace'', reg_For = CompiledVirtualWorkspaces,
     reg_Owns = [Services, Deployments], reg_Watches = [Secrets]\<rparr>"

lemmas setup_defs = rootshard_SetupWithManager_def shard_SetupWithManager_def frontproxy_SetupWithManager_def
  cacheserver_SetupWithManager_def vw_SetupWithManager_def kubeconfig_SetupWithManager_def
  crootshard_SetupWithManager_def cshard_SetupWithManager_def cfrontproxy_SetupWithManager_def
  ccacheserver_SetupWithManager_def cvw_SetupWithManager_def rbac_SetupWithManager_def

definition woken_by :: "registration \<Rightarrow> api_kind list" where
  "woken_by reg = reg_For reg # reg_Owns reg @ reg_Watches reg"

text \<open>
  \<open>Owns\<close> wakes the controller an object names as its owner, so it counts only where the objects are
  ensured with an \<open>OwnerRefWrapper\<close>. The model of ensuring an object has no owner references; which
  controllers pass the wrapper is read off their calls: all except that of kubeconfigs do, whose
  owned kinds are therefore left out.
\<close>

definition woken_unowned :: "registration \<Rightarrow> api_kind list" where
  "woken_unowned reg = reg_For reg # reg_Watches reg"

section \<open>What a run changes\<close>

fun same_objects :: "api_kind \<Rightarrow> ns_world \<Rightarrow> ns_world \<Rightarrow> bool" where
  "same_objects RootShards w v = (nw_rootshards v = nw_rootshards w)"
| "same_objects Shards w v = (nw_shards v = nw_shards w)"
| "same_objects FrontProxies w v = (nw_frontproxies v = nw_frontproxies w)"
| "same_objects CacheServers w v = (nw_cacheservers v = nw_cacheservers w)"
| "same_objects VirtualWorkspaces w v = (nw_vws v = nw_vws w)"
| "same_objects Kubeconfigs w v = (nw_kubeconfigs v = nw_kubeconfigs w)"
| "same_objects Certificates w v = (nw_certs v = nw_certs w)"
| "same_objects Issuers w v = (nw_issuers v = nw_issuers w)"
| "same_objects Secrets w v = (nw_secrets v = nw_secrets w)"
| "same_objects CompiledRootShards w v = (nw_crootshards v = nw_crootshards w)"
| "same_objects CompiledShards w v = (nw_cshards v = nw_cshards w)"
| "same_objects CompiledFrontProxies w v = (nw_cfrontproxies v = nw_cfrontproxies w)"
| "same_objects CompiledCacheServers w v = (nw_ccacheservers v = nw_ccacheservers w)"
| "same_objects CompiledVirtualWorkspaces w v = (nw_cvws v = nw_cvws w)"
| "same_objects KcpShards w v = (nw_kcp v = nw_kcp w)"
| "same_objects _ w v = True"

definition source_kinds :: "api_kind list" where
  "source_kinds = [RootShards, Shards, FrontProxies, CacheServers, VirtualWorkspaces, Kubeconfigs, Certificates,
     Issuers, Secrets, CompiledRootShards, CompiledShards, CompiledFrontProxies, CompiledCacheServers,
     CompiledVirtualWorkspaces, KcpShards]"

definition changes_only :: "api_kind list \<Rightarrow> ns_world \<Rightarrow> ns_world \<Rightarrow> bool" where
  "changes_only ks w v \<longleftrightarrow> list_all (\<lambda>k. k \<in> set ks \<or> same_objects k w v) source_kinds"

lemma changes_only_more: "changes_only ks w v \<Longrightarrow> set ks \<subseteq> set ks' \<Longrightarrow> changes_only ks' w v"
  by (auto simp: changes_only_def list_all_iff)

lemmas changes_simps = changes_only_def source_kinds_def

lemma changes_refl: "changes_only ks w w"
  by (simp add: changes_simps)

text \<open>Storing into a table that may change.\<close>

lemma changes_store:
  assumes "changes_only ks w v"
  shows "Certificates \<in> set ks \<Longrightarrow> changes_only ks w (v\<lparr>nw_certs := m1\<rparr>)"
    "Issuers \<in> set ks \<Longrightarrow> changes_only ks w (v\<lparr>nw_issuers := m2\<rparr>)"
    "Secrets \<in> set ks \<Longrightarrow> changes_only ks w (v\<lparr>nw_secrets := m3\<rparr>)"
    "CompiledRootShards \<in> set ks \<Longrightarrow> changes_only ks w (v\<lparr>nw_crootshards := m4\<rparr>)"
    "CompiledShards \<in> set ks \<Longrightarrow> changes_only ks w (v\<lparr>nw_cshards := m5\<rparr>)"
    "CompiledFrontProxies \<in> set ks \<Longrightarrow> changes_only ks w (v\<lparr>nw_cfrontproxies := m6\<rparr>)"
    "CompiledCacheServers \<in> set ks \<Longrightarrow> changes_only ks w (v\<lparr>nw_ccacheservers := m7\<rparr>)"
    "CompiledVirtualWorkspaces \<in> set ks \<Longrightarrow> changes_only ks w (v\<lparr>nw_cvws := m8\<rparr>)"
    "RootShards \<in> set ks \<Longrightarrow> changes_only ks w (v\<lparr>nw_rootshards := m9\<rparr>)"
    "Shards \<in> set ks \<Longrightarrow> changes_only ks w (v\<lparr>nw_shards := m10\<rparr>)"
    "FrontProxies \<in> set ks \<Longrightarrow> changes_only ks w (v\<lparr>nw_frontproxies := m11\<rparr>)"
    "VirtualWorkspaces \<in> set ks \<Longrightarrow> changes_only ks w (v\<lparr>nw_vws := m12\<rparr>)"
    "Kubeconfigs \<in> set ks \<Longrightarrow> changes_only ks w (v\<lparr>nw_kubeconfigs := m13\<rparr>)"
    "KcpShards \<in> set ks \<Longrightarrow> changes_only ks w (v\<lparr>nw_kcp := m14\<rparr>)"
  using assms by (simp_all add: changes_simps)

lemma changes_patches:
  assumes "changes_only ks w v"
  shows "Shards \<in> set ks \<Longrightarrow> patch_shard n f1 v = Inr v' \<Longrightarrow> changes_only ks w v'"
    "RootShards \<in> set ks \<Longrightarrow> patch_object nw_rootshards (\<lambda>m w. w\<lparr>nw_rootshards := m\<rparr>) n f2 v = Inr v'
       \<Longrightarrow> changes_only ks w v'"
    "FrontProxies \<in> set ks \<Longrightarrow> patch_object nw_frontproxies (\<lambda>m w. w\<lparr>nw_frontproxies := m\<rparr>) n f3 v = Inr v'
       \<Longrightarrow> changes_only ks w v'"
    "VirtualWorkspaces \<in> set ks \<Longrightarrow> patch_object nw_vws (\<lambda>m w. w\<lparr>nw_vws := m\<rparr>) n f4 v = Inr v'
       \<Longrightarrow> changes_only ks w v'"
    "Kubeconfigs \<in> set ks \<Longrightarrow> patch_object nw_kubeconfigs (\<lambda>m w. w\<lparr>nw_kubeconfigs := m\<rparr>) n f5 v = Inr v'
       \<Longrightarrow> changes_only ks w v'"
    "KcpShards \<in> set ks \<Longrightarrow> delete_kcp_shard h n v = Inr v' \<Longrightarrow> changes_only ks w v'"
  using changes_store [OF assms] assms
  by (auto simp: patch_shard_def patch_object_def delete_kcp_shard_def bindE_eq_Inr Let_def split: if_splits)

lemma changes_publish:
  "CompiledShards \<in> set ks \<Longrightarrow> keeps (changes_only ks w) (publish cshard_kind certs rec1)"
  "CompiledRootShards \<in> set ks \<Longrightarrow> keeps (changes_only ks w) (publish crootshard_kind certs rec2)"
  "CompiledFrontProxies \<in> set ks \<Longrightarrow> keeps (changes_only ks w) (publish cfrontproxy_kind certs rec3)"
  "CompiledCacheServers \<in> set ks \<Longrightarrow> keeps (changes_only ks w) (publish ccacheserver_kind certs rec4)"
  "CompiledVirtualWorkspaces \<in> set ks \<Longrightarrow> keeps (changes_only ks w) (publish cvw_kind certs rec5)"
  by (rule keeps_publish; auto simp: kind_defs intro: changes_store)+

lemmas changes_steps = keeps_basic keeps_shared keeps_kinds keeps_ensure_secrets_if keeps_proxy_Reconcile
  changes_publish keeps_must changes_store

lemma shard_changes:
  "keeps (changes_only [KcpShards, Shards, Certificates, Secrets, CompiledShards] w) (shard_Reconcile env name)"
  unfolding shard_Reconcile_def
  by (intro keeps_controller_Reconcile keeps_basic)
    (auto simp: shard_reconcile_def split: sum.split bool.split prod.split option.split
      intro!: keeps_bind keeps_try keeps_wrap changes_steps keeps_handleDeletion keeps_removeFinalizer keeps_shard_render
        keeps_reconcileStatus elim: changes_patches)

lemma status_changes:
  "RootShards \<in> set ks \<Longrightarrow> keeps (changes_only ks w) (rootshard_reconcileStatus env r cs)"
  "FrontProxies \<in> set ks \<Longrightarrow> keeps (changes_only ks w) (frontproxy_reconcileStatus env f cs)"
  "VirtualWorkspaces \<in> set ks \<Longrightarrow> keeps (changes_only ks w) (vw_reconcileStatus env vw cs)"
  "Kubeconfigs \<in> set ks \<Longrightarrow> keeps (changes_only ks w) (kubeconfig_reconcileStatus kenv k cs)"
  unfolding rootshard_reconcileStatus_def frontproxy_reconcileStatus_def vw_reconcileStatus_def
    kubeconfig_reconcileStatus_def compiled_condition_def Let_def
  by (auto split: sum.split intro!: keeps_bind keeps_try keeps_basic keeps_shared keeps_call elim: changes_patches)

lemma other_changes:
  "keeps (changes_only [RootShards, Certificates, Issuers, Secrets, CompiledRootShards] w) (rootshard_Reconcile env name)"
  "keeps (changes_only [FrontProxies, Certificates, Secrets, CompiledFrontProxies] w) (frontproxy_Reconcile env name)"
  "keeps (changes_only [Certificates, Issuers, Secrets, CompiledCacheServers] w) (cacheserver_Reconcile env name)"
  "keeps (changes_only [VirtualWorkspaces, Certificates, Secrets, CompiledVirtualWorkspaces] w) (vw_Reconcile env name)"
  "keeps (changes_only [Kubeconfigs, Certificates, Secrets] w) (kubeconfig_Reconcile kenv name)"
proof -
  show "keeps (changes_only [RootShards, Certificates, Issuers, Secrets, CompiledRootShards] w) (rootshard_Reconcile env name)"
    unfolding rootshard_Reconcile_def
    by (intro keeps_controller_Reconcile keeps_basic status_changes)
      (auto simp: rootshard_reconcile_def rootshard_render_def publish_rootshard_def split: sum.split prod.split
        intro!: keeps_bind changes_steps)
  show "keeps (changes_only [FrontProxies, Certificates, Secrets, CompiledFrontProxies] w) (frontproxy_Reconcile env name)"
    unfolding frontproxy_Reconcile_def
    by (intro keeps_controller_Reconcile keeps_basic status_changes)
      (auto simp: frontproxy_reconcile_def frontproxy_render_def split: sum.split prod.split option.split
        intro!: keeps_bind changes_steps)
  show "keeps (changes_only [Certificates, Issuers, Secrets, CompiledCacheServers] w) (cacheserver_Reconcile env name)"
    unfolding cacheserver_Reconcile_def cacheserver_reconcile_def
    by (auto split: sum.split intro!: keeps_bind keeps_try changes_steps)
  show "keeps (changes_only [VirtualWorkspaces, Certificates, Secrets, CompiledVirtualWorkspaces] w) (vw_Reconcile env name)"
    unfolding vw_Reconcile_def
    by (intro keeps_controller_Reconcile keeps_basic status_changes)
      (auto simp: vw_reconcile_def vw_target_def vw_render_def Let_def split: sum.split prod.split option.split
        intro!: keeps_bind keeps_try keeps_wrap changes_steps)
  show "keeps (changes_only [Kubeconfigs, Certificates, Secrets] w) (kubeconfig_Reconcile kenv name)"
    unfolding kubeconfig_Reconcile_def kubeconfig_reconcile_def with_certificate_def getCertificateSecret_def
      kubeconfig_write_def Let_def
    by (auto split: sum.split prod.split option.split
        intro!: keeps_bind keeps_try keeps_finish target_names status_changes changes_steps)
qed

section \<open>What a run of a compiled controller changes\<close>

fun same_workloads :: "api_kind \<Rightarrow> wl_world \<Rightarrow> wl_world \<Rightarrow> bool" where
  "same_workloads Secrets w v = (wl_secrets v = wl_secrets w)"
| "same_workloads ConfigMaps w v = (wl_configmaps v = wl_configmaps w)"
| "same_workloads Services w v = (wl_services v = wl_services w)"
| "same_workloads Deployments w v = (wl_deployments v = wl_deployments w)"
| "same_workloads CompiledRootShards w v = (wl_crootshards v = wl_crootshards w)"
| "same_workloads CompiledShards w v = (wl_cshards v = wl_cshards w)"
| "same_workloads CompiledFrontProxies w v = (wl_cfrontproxies v = wl_cfrontproxies w)"
| "same_workloads CompiledCacheServers w v = (wl_ccacheservers v = wl_ccacheservers w)"
| "same_workloads CompiledVirtualWorkspaces w v = (wl_cvws v = wl_cvws w)"
| "same_workloads _ w v = True"

definition workload_kinds :: "api_kind list" where
  "workload_kinds = [Secrets, ConfigMaps, Services, Deployments, CompiledRootShards, CompiledShards,
     CompiledFrontProxies, CompiledCacheServers, CompiledVirtualWorkspaces]"

definition deploys_only :: "api_kind list \<Rightarrow> wl_world \<Rightarrow> wl_world \<Rightarrow> bool" where
  "deploys_only ks w v \<longleftrightarrow> list_all (\<lambda>k. k \<in> set ks \<or> same_workloads k w v) workload_kinds"

lemmas deploys_simps = deploys_only_def workload_kinds_def

lemma deploys_refl: "deploys_only ks w w"
  by (simp add: deploys_simps)

lemma deploys_more: "deploys_only ks w v \<Longrightarrow> set ks \<subseteq> set ks' \<Longrightarrow> deploys_only ks' w v"
  by (auto simp: deploys_only_def list_all_iff)

lemma keeps_unchanged: "(\<And>w. keeps (\<lambda>v. v = w) m) \<Longrightarrow> keeps P m"
  unfolding keeps_def by (fastforce simp: holds_def case_prod_unfold)

lemma deploys_kinds:
  "Services \<in> set ks \<Longrightarrow> keeps (deploys_only ks w) (ensure_service rec)"
  "Secrets \<in> set ks \<Longrightarrow> keeps (deploys_only ks w) (ensure_objects wl_secret_kind caps2 recs2)"
  "ConfigMaps \<in> set ks \<Longrightarrow> keeps (deploys_only ks w) (ensure_objects wl_configmap_kind caps3 recs3)"
  unfolding ensure_service_def
  by (auto split: prod.split intro!: keeps_bind keeps_basic keeps_ensure simp: deploys_simps wl_kind_defs)

lemma deploys_deployment:
  assumes "Deployments \<in> set ks"
  shows "keeps (deploys_only ks w) (ensure_deployment hash rec)"
proof -
  have run: "keeps (deploys_only ks w) (run_reconciler r d)" for r d
    by (auto simp: keeps_def holds_def run_reconciler_def deploys_simps split: sum.splits prod.splits)
  have stored: "keeps (deploys_only ks w) (write_deployment n old d)" for n old d
    using assms by (auto simp: keeps_def holds_def write_deployment_def api_write_def deploys_simps store_deployment_def
        split: list.splits outcome.splits)
  show ?thesis
    unfolding ensure_deployment_def build_deployment_def
    by (auto intro!: keeps_bind keeps_try keeps_wrap keeps_basic run stored keeps_unchanged [OF keeps_add_labels])
qed

lemma deploys_proxy:
  "set [Deployments, Services, ConfigMaps, Secrets] \<subseteq> set ks \<Longrightarrow> keeps (deploys_only ks w) (cpx_Reconcile env p)"
  unfolding cpx_Reconcile_def
  by (auto split: prod.split intro!: keeps_bind keeps_basic deploys_kinds deploys_deployment)

lemma deploys_patch:
  assumes "\<And>m v. deploys_only ks w v \<Longrightarrow> deploys_only ks w (put m v)"
  shows "keeps (deploys_only ks w) (patch_status get put n old new f)"
  unfolding patch_status_def
  by (auto intro!: keeps_basic keeps_try keeps_call simp: patch_object_def bindE_eq_Inr assms)

lemmas deploys_rules = keeps_bind keeps_basic keeps_try deploys_deployment deploys_kinds deploys_proxy
  backed_condition deploys_patch

lemma compiled_changes:
  "keeps (deploys_only [CompiledRootShards, Deployments, Services, ConfigMaps, Secrets] w) (crootshard_Reconcile env n)"
  "keeps (deploys_only [CompiledShards, Deployments, Services] w) (cshard_Reconcile env n)"
  "keeps (deploys_only [CompiledFrontProxies, Deployments, Services, ConfigMaps, Secrets] w) (cfrontproxy_Reconcile env n)"
  "keeps (deploys_only [CompiledVirtualWorkspaces, Deployments, Services] w) (cvw_Reconcile env n)"
  "keeps (deploys_only [Deployments, Services] w) (ccacheserver_Reconcile env n)"
proof -
  note defs = crootshard_Reconcile_def crootshard_reconcile_def crootshard_reconcileStatus_def
    cshard_Reconcile_def cshard_reconcile_def cshard_reconcileStatus_def
    cfrontproxy_Reconcile_def cfrontproxy_reconcile_def cfrontproxy_reconcileStatus_def
    cvw_Reconcile_def cvw_reconcile_def cvw_reconcileStatus_def
  show "keeps (deploys_only [CompiledRootShards, Deployments, Services, ConfigMaps, Secrets] w) (crootshard_Reconcile env n)"
    "keeps (deploys_only [CompiledShards, Deployments, Services] w) (cshard_Reconcile env n)"
    "keeps (deploys_only [CompiledFrontProxies, Deployments, Services, ConfigMaps, Secrets] w) (cfrontproxy_Reconcile env n)"
    "keeps (deploys_only [CompiledVirtualWorkspaces, Deployments, Services] w) (cvw_Reconcile env n)"
    unfolding defs
    by (auto intro!: keeps_controller_Reconcile deploys_rules split: sum.split simp: deploys_simps)
  show "keeps (deploys_only [Deployments, Services] w) (ccacheserver_Reconcile env n)"
    unfolding ccacheserver_Reconcile_def ccacheserver_reconcile_def
    by (auto intro!: deploys_rules split: sum.split)
qed

section \<open>The controllers are woken by what they write\<close>


end
