(* ===== verification/Sdk_Clients.thy ===== *)
theory Sdk_Clients
  imports Kcp_Prelude
begin

text \<open>
  Common ground of the generated SDK (\<open>src/sdk\<close>): the Go types of the API objects, the
      configuration
  of a REST client, the library the generated clients are built on, and what a typed client is asked to
  do.
\<close>

section \<open>API objects\<close>

text \<open>\<open>reflect.TypeOf(&T{})\<close> for the object types of the two API groups.\<close>

datatype sdk_type =
    TCacheServer | TFrontProxy | TKubeconfig | TRootShard | TShard | TVirtualWorkspace
  | TCompiledCacheServer | TCompiledFrontProxy | TCompiledRootShard | TCompiledShard
  | TCompiledVirtualWorkspace

record GroupVersionResource =
  gvr_Group :: string
  gvr_Version :: string
  gvr_Resource :: string

type_synonym GroupResource = "string \<times> string"

text \<open>Both groups, with their \<open>SchemeGroupVersion\<close>, what they register, and
    \<open>Resource\<close>.\<close>

definition operator_SchemeGroupVersion :: "string \<times> string" where
  "operator_SchemeGroupVersion = (''operator.kcp.io'', ''v1alpha1'')"

definition deploy_SchemeGroupVersion :: "string \<times> string" where
  "deploy_SchemeGroupVersion = (''deploy.operator.kcp.io'', ''v1alpha1'')"

definition WithResource :: "string \<times> string \<Rightarrow> string \<Rightarrow>
    GroupVersionResource" where
  "WithResource gv r = \<lparr>gvr_Group = fst gv, gvr_Version = snd gv, gvr_Resource = r\<rparr>"

definition gvr_GroupResource :: "GroupVersionResource \<Rightarrow> GroupResource" where
  "gvr_GroupResource g = (gvr_Group g, gvr_Resource g)"

definition operator_Resource :: "string \<Rightarrow> GroupResource" where
  "operator_Resource r = gvr_GroupResource (WithResource operator_SchemeGroupVersion r)"

definition deploy_Resource :: "string \<Rightarrow> GroupResource" where
  "deploy_Resource r = gvr_GroupResource (WithResource deploy_SchemeGroupVersion r)"

definition operator_addKnownTypes :: "string list" where
  "operator_addKnownTypes =
    [''CacheServer'', ''CacheServerList'', ''FrontProxy'', ''FrontProxyList'', ''Kubeconfig'',
     ''KubeconfigList'', ''RootShard'', ''RootShardList'', ''Shard'', ''ShardList'', ''VirtualWorkspace'',
     ''VirtualWorkspaceList'']"

definition deploy_addKnownTypes :: "string list" where
  "deploy_addKnownTypes =
    [''CompiledCacheServer'', ''CompiledCacheServerList'', ''CompiledFrontProxy'',
     ''CompiledFrontProxyList'', ''CompiledRootShard'', ''CompiledRootShardList'', ''CompiledShard'',
     ''CompiledShardList'', ''CompiledVirtualWorkspace'', ''CompiledVirtualWorkspaceList'']"

section \<open>REST configurations\<close>

text \<open>
  The fields of \<open>rest.Config\<close> the generated code reads or writes; \<open>rc_Host\<close>
      stands for all others.
  A rate limiter is the one made by \<open>flowcontrol.NewTokenBucketRateLimiter\<close> or one the caller
      brings.
  The rate is a 32-bit float that is only compared with zero and passed on. Of the serializer it is only
  kept that it has been set to the codecs of the SDK.
\<close>

datatype rate_limiter = TokenBucket rat int | OtherLimiter nat

record rest_Config =
  rc_Host :: string
  rc_UserAgent :: string
  rc_GroupVersion :: "(string \<times> string) option"
  rc_APIPath :: string
  rc_NegotiatedSerializer :: bool
  rc_RateLimiter :: "rate_limiter option"
  rc_QPS :: rat
  rc_Burst :: int

text \<open>
  What the generated code calls: \<open>rest.HTTPClientFor\<close>,
      \<open>rest.RESTClientForConfigAndClient\<close>,
  \<open>discovery.NewDiscoveryClientForConfigAndClient\<close>,
      \<open>rest.DefaultKubernetesUserAgent\<close>, and of kcp the
  path \<open>logicalcluster.Wildcard\<close> and how the client cache points a configuration at a cluster.
\<close>

record ('http, 'rest, 'disc) sdk_library =
  lib_HTTPClientFor :: "rest_Config \<Rightarrow> 'http res"
  lib_RESTClientFor :: "rest_Config \<Rightarrow> 'http \<Rightarrow> 'rest res"
  lib_DiscoveryClientFor :: "rest_Config \<Rightarrow> 'http \<Rightarrow> 'disc res"
  lib_DefaultUserAgent :: string
  lib_Wildcard :: string
  lib_AtCluster :: "string \<Rightarrow> rest_Config \<Rightarrow> rest_Config"

text \<open>
  \<open>kcpclient.NewCache\<close> and its \<open>Cluster\<close>: a client per cluster path, made by the
      constructor for the
  configuration of that cluster. That a client is made only once does not show in what it does.
\<close>

type_synonym 'c client_cache = "string \<Rightarrow> 'c res"

definition kcpclient_NewCache :: "('http, 'rest, 'disc) sdk_library \<Rightarrow> rest_Config
    \<Rightarrow> 'http
    \<Rightarrow> (rest_Config \<Rightarrow> 'http \<Rightarrow> 'c res) \<Rightarrow> 'c client_cache" where
  "kcpclient_NewCache L c h constructor path = constructor (lib_AtCluster L path c) h"

text \<open>
  A panic is the value \<open>Panic\<close>; \<open>panic(err)\<close> and \<open>ClusterOrDie\<close>
      turn an error into one, of which only
  the kind is kept.
\<close>

definition or_die :: "'a res \<Rightarrow> 'a res" where
  "or_die r = (case r of Inl (Panic s) \<Rightarrow> Inl (Panic s) | Inl e \<Rightarrow> Inl (Panic
      ''error'') | Inr x \<Rightarrow> Inr x)"

definition ClusterOrDie :: "'c client_cache \<Rightarrow> string \<Rightarrow> 'c res" where
  "ClusterOrDie cache path = or_die (cache path)"

lemma or_die_simps [simp]: "or_die (Inr x) = Inr x" "or_die r = Inr x \<longleftrightarrow> r = Inr x"
  by (auto simp: or_die_def split: sum.split go_error.split)

section \<open>Typed clients\<close>

text \<open>
  A typed client is what \<open>gentype.NewClientWithList\<close> is given: resource, REST client,
      namespace and the
  type of the objects. What it is asked to do is a call, on options of the type \<open>'o\<close>.
\<close>

record 'rest typed_client =
  tc_resource :: string
  tc_rest :: "'rest option"
  tc_namespace :: string
  tc_type :: sdk_type

datatype ('rest, 'o) client_call =
    ListCall "'rest typed_client" 'o
  | WatchCall "'rest typed_client" 'o

text \<open>The panic of every \<open>Cluster\<close> method of the cluster clients.\<close>

definition wildcard_panic :: go_error where
  "wildcard_panic = Panic ''A specific cluster must be provided when scoping, not the wildcard.''"

definition NamespaceAll :: string where
  "NamespaceAll = ''''"

chapter \<open>The clients\<close>

text \<open>
  The generated clients: \<open>sdk/clientset/versioned\<close> for one workspace and
      \<open>sdk/clientset/versioned/cluster\<close>
  for kcp, from the construction out of a REST configuration down to the typed clients of every API
  object. A pointer that may be nil is an option.
\<close>

section \<open>The clients of the group \<open>operator\<close>\<close>

text \<open>\<open>sdk/clientset/versioned/typed/operator/v1alpha1/operator_client.go\<close>\<close>

record 'rest OperatorV1alpha1Client =
  oc_restClient :: "'rest option"

definition OperatorV1alpha1Client_RESTClient :: "'rest OperatorV1alpha1Client option \<Rightarrow> 'rest
    option" where
  "OperatorV1alpha1Client_RESTClient c = (case c of None \<Rightarrow> None | Some c \<Rightarrow>
      oc_restClient c)"

definition operator_New :: "'rest option \<Rightarrow> 'rest OperatorV1alpha1Client" where
  "operator_New c = \<lparr>oc_restClient = c\<rparr>"

definition operator_setConfigDefaults :: "('h, 'rest, 'd) sdk_library \<Rightarrow> rest_Config
    \<Rightarrow> rest_Config res" where
  "operator_setConfigDefaults L config =
    (let config = config\<lparr>rc_GroupVersion := Some operator_SchemeGroupVersion, rc_APIPath := ''/apis'',
                    rc_NegotiatedSerializer := True\<rparr>
     in Inr (if rc_UserAgent config = '''' then config\<lparr>rc_UserAgent := lib_DefaultUserAgent L\<rparr>
             else config))"

definition operator_NewForConfigAndClient :: "('h, 'rest, 'd) sdk_library \<Rightarrow> rest_Config
    \<Rightarrow> 'h
    \<Rightarrow> 'rest OperatorV1alpha1Client res" where
  "operator_NewForConfigAndClient L c h =
    bindE (operator_setConfigDefaults L c) (\<lambda>config.
    bindE (lib_RESTClientFor L config h) (\<lambda>client. Inr \<lparr>oc_restClient = Some client\<rparr>))"

definition operator_NewForConfig :: "('h, 'rest, 'd) sdk_library \<Rightarrow> rest_Config \<Rightarrow>
    'rest OperatorV1alpha1Client res" where
  "operator_NewForConfig L c =
    bindE (operator_setConfigDefaults L c) (\<lambda>config.
    bindE (lib_HTTPClientFor L config) (\<lambda>httpClient. operator_NewForConfigAndClient L config
        httpClient))"

definition operator_NewForConfigOrDie :: "('h, 'rest, 'd) sdk_library \<Rightarrow> rest_Config
    \<Rightarrow> 'rest OperatorV1alpha1Client res" where
  "operator_NewForConfigOrDie L c = or_die (operator_NewForConfig L c)"


text \<open>\<open>sdk/clientset/versioned/cluster/typed/operator/v1alpha1/operator_client.go\<close>\<close>

record 'rest OperatorV1alpha1ClusterClient =
  occ_clientCache :: "'rest OperatorV1alpha1Client client_cache"

definition OperatorV1alpha1ClusterClient_Cluster :: "('h, 'rest, 'd) sdk_library \<Rightarrow> 'rest
    OperatorV1alpha1ClusterClient \<Rightarrow> string
    \<Rightarrow> 'rest OperatorV1alpha1Client res" where
  "OperatorV1alpha1ClusterClient_Cluster L c clusterPath =
    (if clusterPath = lib_Wildcard L then Inl wildcard_panic
     else ClusterOrDie (occ_clientCache c) clusterPath)"

definition operator_cluster_NewForConfigAndClient :: "('h, 'rest, 'd) sdk_library \<Rightarrow>
    rest_Config \<Rightarrow> 'h
    \<Rightarrow> 'rest OperatorV1alpha1ClusterClient res" where
  "operator_cluster_NewForConfigAndClient L c h =
    (let cache = kcpclient_NewCache L c h (operator_NewForConfigAndClient L)
     in bindE (cache ''root'') (\<lambda>_. Inr \<lparr>occ_clientCache = cache\<rparr>))"

definition operator_cluster_NewForConfig :: "('h, 'rest, 'd) sdk_library \<Rightarrow> rest_Config
    \<Rightarrow> 'rest OperatorV1alpha1ClusterClient res" where
  "operator_cluster_NewForConfig L c =
    bindE (lib_HTTPClientFor L c) (\<lambda>client. operator_cluster_NewForConfigAndClient L c client)"

definition operator_cluster_NewForConfigOrDie :: "('h, 'rest, 'd) sdk_library \<Rightarrow> rest_Config
    \<Rightarrow> 'rest OperatorV1alpha1ClusterClient res" where
  "operator_cluster_NewForConfigOrDie L c = or_die (operator_cluster_NewForConfig L c)"

text \<open>
  Every typed cluster client holds the cache of its group, every namespacer also a cluster path.
\<close>

record 'rest operator_namespacer =
  ocn_clientCache :: "'rest OperatorV1alpha1Client client_cache"
  ocn_clusterPath :: string


subsection \<open>CacheServers\<close>

definition newCacheServers :: "'rest OperatorV1alpha1Client \<Rightarrow> string \<Rightarrow> 'rest
    typed_client" where
  "newCacheServers c namespace =
    \<lparr>tc_resource = ''cacheservers'', tc_rest = OperatorV1alpha1Client_RESTClient (Some c),
        tc_namespace = namespace,
     tc_type = TCacheServer\<rparr>"

definition OperatorV1alpha1Client_CacheServers :: "'rest OperatorV1alpha1Client \<Rightarrow> string
    \<Rightarrow> 'rest typed_client" where
  "OperatorV1alpha1Client_CacheServers c namespace = newCacheServers c namespace"

definition OperatorV1alpha1ClusterClient_CacheServers :: "'rest OperatorV1alpha1ClusterClient
    \<Rightarrow> 'rest OperatorV1alpha1Client client_cache" where
  "OperatorV1alpha1ClusterClient_CacheServers c = occ_clientCache c"

definition cacheServersClusterInterface_Cluster :: "('h, 'rest, 'd) sdk_library
    \<Rightarrow> 'rest OperatorV1alpha1Client client_cache \<Rightarrow> string \<Rightarrow> 'rest
        operator_namespacer res" where
  "cacheServersClusterInterface_Cluster L c clusterPath =
    (if clusterPath = lib_Wildcard L then Inl wildcard_panic
     else Inr \<lparr>ocn_clientCache = c, ocn_clusterPath = clusterPath\<rparr>)"

definition cacheServersClusterInterface_List :: "('h, 'rest, 'd) sdk_library
    \<Rightarrow> 'rest OperatorV1alpha1Client client_cache \<Rightarrow> 'o \<Rightarrow> ('rest, 'o)
        client_call res" where
  "cacheServersClusterInterface_List L c opts =
    bindE (ClusterOrDie c (lib_Wildcard L)) (\<lambda>cl. Inr (ListCall
        (OperatorV1alpha1Client_CacheServers cl NamespaceAll) opts))"

definition cacheServersClusterInterface_Watch :: "('h, 'rest, 'd) sdk_library
    \<Rightarrow> 'rest OperatorV1alpha1Client client_cache \<Rightarrow> 'o \<Rightarrow> ('rest, 'o)
        client_call res" where
  "cacheServersClusterInterface_Watch L c opts =
    bindE (ClusterOrDie c (lib_Wildcard L)) (\<lambda>cl. Inr (WatchCall
        (OperatorV1alpha1Client_CacheServers cl NamespaceAll) opts))"

definition cacheServersNamespacer_Namespace :: "'rest operator_namespacer \<Rightarrow> string
    \<Rightarrow> 'rest typed_client res" where
  "cacheServersNamespacer_Namespace n namespace =
    bindE (ClusterOrDie (ocn_clientCache n) (ocn_clusterPath n)) (\<lambda>cl. Inr
        (OperatorV1alpha1Client_CacheServers cl namespace))"


subsection \<open>FrontProxies\<close>

definition newFrontProxies :: "'rest OperatorV1alpha1Client \<Rightarrow> string \<Rightarrow> 'rest
    typed_client" where
  "newFrontProxies c namespace =
    \<lparr>tc_resource = ''frontproxies'', tc_rest = OperatorV1alpha1Client_RESTClient (Some c),
        tc_namespace = namespace,
     tc_type = TFrontProxy\<rparr>"

definition OperatorV1alpha1Client_FrontProxies :: "'rest OperatorV1alpha1Client \<Rightarrow> string
    \<Rightarrow> 'rest typed_client" where
  "OperatorV1alpha1Client_FrontProxies c namespace = newFrontProxies c namespace"

definition OperatorV1alpha1ClusterClient_FrontProxies :: "'rest OperatorV1alpha1ClusterClient
    \<Rightarrow> 'rest OperatorV1alpha1Client client_cache" where
  "OperatorV1alpha1ClusterClient_FrontProxies c = occ_clientCache c"

definition frontProxiesClusterInterface_Cluster :: "('h, 'rest, 'd) sdk_library
    \<Rightarrow> 'rest OperatorV1alpha1Client client_cache \<Rightarrow> string \<Rightarrow> 'rest
        operator_namespacer res" where
  "frontProxiesClusterInterface_Cluster L c clusterPath =
    (if clusterPath = lib_Wildcard L then Inl wildcard_panic
     else Inr \<lparr>ocn_clientCache = c, ocn_clusterPath = clusterPath\<rparr>)"

definition frontProxiesClusterInterface_List :: "('h, 'rest, 'd) sdk_library
    \<Rightarrow> 'rest OperatorV1alpha1Client client_cache \<Rightarrow> 'o \<Rightarrow> ('rest, 'o)
        client_call res" where
  "frontProxiesClusterInterface_List L c opts =
    bindE (ClusterOrDie c (lib_Wildcard L)) (\<lambda>cl. Inr (ListCall
        (OperatorV1alpha1Client_FrontProxies cl NamespaceAll) opts))"

definition frontProxiesClusterInterface_Watch :: "('h, 'rest, 'd) sdk_library
    \<Rightarrow> 'rest OperatorV1alpha1Client client_cache \<Rightarrow> 'o \<Rightarrow> ('rest, 'o)
        client_call res" where
  "frontProxiesClusterInterface_Watch L c opts =
    bindE (ClusterOrDie c (lib_Wildcard L)) (\<lambda>cl. Inr (WatchCall
        (OperatorV1alpha1Client_FrontProxies cl NamespaceAll) opts))"

definition frontProxiesNamespacer_Namespace :: "'rest operator_namespacer \<Rightarrow> string
    \<Rightarrow> 'rest typed_client res" where
  "frontProxiesNamespacer_Namespace n namespace =
    bindE (ClusterOrDie (ocn_clientCache n) (ocn_clusterPath n)) (\<lambda>cl. Inr
        (OperatorV1alpha1Client_FrontProxies cl namespace))"


subsection \<open>Kubeconfigs\<close>

definition newKubeconfigs :: "'rest OperatorV1alpha1Client \<Rightarrow> string \<Rightarrow> 'rest
    typed_client" where
  "newKubeconfigs c namespace =
    \<lparr>tc_resource = ''kubeconfigs'', tc_rest = OperatorV1alpha1Client_RESTClient (Some c),
        tc_namespace = namespace,
     tc_type = TKubeconfig\<rparr>"

definition OperatorV1alpha1Client_Kubeconfigs :: "'rest OperatorV1alpha1Client \<Rightarrow> string
    \<Rightarrow> 'rest typed_client" where
  "OperatorV1alpha1Client_Kubeconfigs c namespace = newKubeconfigs c namespace"

definition OperatorV1alpha1ClusterClient_Kubeconfigs :: "'rest OperatorV1alpha1ClusterClient \<Rightarrow>
    'rest OperatorV1alpha1Client client_cache" where
  "OperatorV1alpha1ClusterClient_Kubeconfigs c = occ_clientCache c"

definition kubeconfigsClusterInterface_Cluster :: "('h, 'rest, 'd) sdk_library
    \<Rightarrow> 'rest OperatorV1alpha1Client client_cache \<Rightarrow> string \<Rightarrow> 'rest
        operator_namespacer res" where
  "kubeconfigsClusterInterface_Cluster L c clusterPath =
    (if clusterPath = lib_Wildcard L then Inl wildcard_panic
     else Inr \<lparr>ocn_clientCache = c, ocn_clusterPath = clusterPath\<rparr>)"

definition kubeconfigsClusterInterface_List :: "('h, 'rest, 'd) sdk_library
    \<Rightarrow> 'rest OperatorV1alpha1Client client_cache \<Rightarrow> 'o \<Rightarrow> ('rest, 'o)
        client_call res" where
  "kubeconfigsClusterInterface_List L c opts =
    bindE (ClusterOrDie c (lib_Wildcard L)) (\<lambda>cl. Inr (ListCall
        (OperatorV1alpha1Client_Kubeconfigs cl NamespaceAll) opts))"

definition kubeconfigsClusterInterface_Watch :: "('h, 'rest, 'd) sdk_library
    \<Rightarrow> 'rest OperatorV1alpha1Client client_cache \<Rightarrow> 'o \<Rightarrow> ('rest, 'o)
        client_call res" where
  "kubeconfigsClusterInterface_Watch L c opts =
    bindE (ClusterOrDie c (lib_Wildcard L)) (\<lambda>cl. Inr (WatchCall
        (OperatorV1alpha1Client_Kubeconfigs cl NamespaceAll) opts))"

definition kubeconfigsNamespacer_Namespace :: "'rest operator_namespacer \<Rightarrow> string
    \<Rightarrow> 'rest typed_client res" where
  "kubeconfigsNamespacer_Namespace n namespace =
    bindE (ClusterOrDie (ocn_clientCache n) (ocn_clusterPath n)) (\<lambda>cl. Inr
        (OperatorV1alpha1Client_Kubeconfigs cl namespace))"


subsection \<open>RootShards\<close>

definition newRootShards :: "'rest OperatorV1alpha1Client \<Rightarrow> string \<Rightarrow> 'rest
    typed_client" where
  "newRootShards c namespace =
    \<lparr>tc_resource = ''rootshards'', tc_rest = OperatorV1alpha1Client_RESTClient (Some c),
        tc_namespace = namespace,
     tc_type = TRootShard\<rparr>"

definition OperatorV1alpha1Client_RootShards :: "'rest OperatorV1alpha1Client \<Rightarrow> string
    \<Rightarrow> 'rest typed_client" where
  "OperatorV1alpha1Client_RootShards c namespace = newRootShards c namespace"

definition OperatorV1alpha1ClusterClient_RootShards :: "'rest OperatorV1alpha1ClusterClient \<Rightarrow>
    'rest OperatorV1alpha1Client client_cache" where
  "OperatorV1alpha1ClusterClient_RootShards c = occ_clientCache c"

definition rootShardsClusterInterface_Cluster :: "('h, 'rest, 'd) sdk_library
    \<Rightarrow> 'rest OperatorV1alpha1Client client_cache \<Rightarrow> string \<Rightarrow> 'rest
        operator_namespacer res" where
  "rootShardsClusterInterface_Cluster L c clusterPath =
    (if clusterPath = lib_Wildcard L then Inl wildcard_panic
     else Inr \<lparr>ocn_clientCache = c, ocn_clusterPath = clusterPath\<rparr>)"

definition rootShardsClusterInterface_List :: "('h, 'rest, 'd) sdk_library
    \<Rightarrow> 'rest OperatorV1alpha1Client client_cache \<Rightarrow> 'o \<Rightarrow> ('rest, 'o)
        client_call res" where
  "rootShardsClusterInterface_List L c opts =
    bindE (ClusterOrDie c (lib_Wildcard L)) (\<lambda>cl. Inr (ListCall (OperatorV1alpha1Client_RootShards
        cl NamespaceAll) opts))"

definition rootShardsClusterInterface_Watch :: "('h, 'rest, 'd) sdk_library
    \<Rightarrow> 'rest OperatorV1alpha1Client client_cache \<Rightarrow> 'o \<Rightarrow> ('rest, 'o)
        client_call res" where
  "rootShardsClusterInterface_Watch L c opts =
    bindE (ClusterOrDie c (lib_Wildcard L)) (\<lambda>cl. Inr (WatchCall
        (OperatorV1alpha1Client_RootShards cl NamespaceAll) opts))"

definition rootShardsNamespacer_Namespace :: "'rest operator_namespacer \<Rightarrow> string \<Rightarrow>
    'rest typed_client res" where
  "rootShardsNamespacer_Namespace n namespace =
    bindE (ClusterOrDie (ocn_clientCache n) (ocn_clusterPath n)) (\<lambda>cl. Inr
        (OperatorV1alpha1Client_RootShards cl namespace))"


subsection \<open>Shards\<close>

definition newShards :: "'rest OperatorV1alpha1Client \<Rightarrow> string \<Rightarrow> 'rest
    typed_client" where
  "newShards c namespace =
    \<lparr>tc_resource = ''shards'', tc_rest = OperatorV1alpha1Client_RESTClient (Some c), tc_namespace =
        namespace,
     tc_type = TShard\<rparr>"

definition OperatorV1alpha1Client_Shards :: "'rest OperatorV1alpha1Client \<Rightarrow> string
    \<Rightarrow> 'rest typed_client" where
  "OperatorV1alpha1Client_Shards c namespace = newShards c namespace"

definition OperatorV1alpha1ClusterClient_Shards :: "'rest OperatorV1alpha1ClusterClient \<Rightarrow>
    'rest OperatorV1alpha1Client client_cache" where
  "OperatorV1alpha1ClusterClient_Shards c = occ_clientCache c"

definition shardsClusterInterface_Cluster :: "('h, 'rest, 'd) sdk_library
    \<Rightarrow> 'rest OperatorV1alpha1Client client_cache \<Rightarrow> string \<Rightarrow> 'rest
        operator_namespacer res" where
  "shardsClusterInterface_Cluster L c clusterPath =
    (if clusterPath = lib_Wildcard L then Inl wildcard_panic
     else Inr \<lparr>ocn_clientCache = c, ocn_clusterPath = clusterPath\<rparr>)"

definition shardsClusterInterface_List :: "('h, 'rest, 'd) sdk_library
    \<Rightarrow> 'rest OperatorV1alpha1Client client_cache \<Rightarrow> 'o \<Rightarrow> ('rest, 'o)
        client_call res" where
  "shardsClusterInterface_List L c opts =
    bindE (ClusterOrDie c (lib_Wildcard L)) (\<lambda>cl. Inr (ListCall (OperatorV1alpha1Client_Shards cl
        NamespaceAll) opts))"

definition shardsClusterInterface_Watch :: "('h, 'rest, 'd) sdk_library
    \<Rightarrow> 'rest OperatorV1alpha1Client client_cache \<Rightarrow> 'o \<Rightarrow> ('rest, 'o)
        client_call res" where
  "shardsClusterInterface_Watch L c opts =
    bindE (ClusterOrDie c (lib_Wildcard L)) (\<lambda>cl. Inr (WatchCall (OperatorV1alpha1Client_Shards cl
        NamespaceAll) opts))"

definition shardsNamespacer_Namespace :: "'rest operator_namespacer \<Rightarrow> string \<Rightarrow>
    'rest typed_client res" where
  "shardsNamespacer_Namespace n namespace =
    bindE (ClusterOrDie (ocn_clientCache n) (ocn_clusterPath n)) (\<lambda>cl. Inr
        (OperatorV1alpha1Client_Shards cl namespace))"


subsection \<open>VirtualWorkspaces\<close>

definition newVirtualWorkspaces :: "'rest OperatorV1alpha1Client \<Rightarrow> string \<Rightarrow> 'rest
    typed_client" where
  "newVirtualWorkspaces c namespace =
    \<lparr>tc_resource = ''virtualworkspaces'', tc_rest = OperatorV1alpha1Client_RESTClient (Some c),
        tc_namespace = namespace,
     tc_type = TVirtualWorkspace\<rparr>"

definition OperatorV1alpha1Client_VirtualWorkspaces :: "'rest OperatorV1alpha1Client \<Rightarrow> string
    \<Rightarrow> 'rest typed_client" where
  "OperatorV1alpha1Client_VirtualWorkspaces c namespace = newVirtualWorkspaces c namespace"

definition OperatorV1alpha1ClusterClient_VirtualWorkspaces :: "'rest OperatorV1alpha1ClusterClient
    \<Rightarrow> 'rest OperatorV1alpha1Client client_cache" where
  "OperatorV1alpha1ClusterClient_VirtualWorkspaces c = occ_clientCache c"

definition virtualWorkspacesClusterInterface_Cluster :: "('h, 'rest, 'd) sdk_library
    \<Rightarrow> 'rest OperatorV1alpha1Client client_cache \<Rightarrow> string \<Rightarrow> 'rest
        operator_namespacer res" where
  "virtualWorkspacesClusterInterface_Cluster L c clusterPath =
    (if clusterPath = lib_Wildcard L then Inl wildcard_panic
     else Inr \<lparr>ocn_clientCache = c, ocn_clusterPath = clusterPath\<rparr>)"

definition virtualWorkspacesClusterInterface_List :: "('h, 'rest, 'd) sdk_library
    \<Rightarrow> 'rest OperatorV1alpha1Client client_cache \<Rightarrow> 'o \<Rightarrow> ('rest, 'o)
        client_call res" where
  "virtualWorkspacesClusterInterface_List L c opts =
    bindE (ClusterOrDie c (lib_Wildcard L)) (\<lambda>cl. Inr (ListCall
        (OperatorV1alpha1Client_VirtualWorkspaces cl NamespaceAll) opts))"

definition virtualWorkspacesClusterInterface_Watch :: "('h, 'rest, 'd) sdk_library
    \<Rightarrow> 'rest OperatorV1alpha1Client client_cache \<Rightarrow> 'o \<Rightarrow> ('rest, 'o)
        client_call res" where
  "virtualWorkspacesClusterInterface_Watch L c opts =
    bindE (ClusterOrDie c (lib_Wildcard L)) (\<lambda>cl. Inr (WatchCall
        (OperatorV1alpha1Client_VirtualWorkspaces cl NamespaceAll) opts))"

definition virtualWorkspacesNamespacer_Namespace :: "'rest operator_namespacer \<Rightarrow> string
    \<Rightarrow> 'rest typed_client res" where
  "virtualWorkspacesNamespacer_Namespace n namespace =
    bindE (ClusterOrDie (ocn_clientCache n) (ocn_clusterPath n)) (\<lambda>cl. Inr
        (OperatorV1alpha1Client_VirtualWorkspaces cl namespace))"


section \<open>The clients of the group \<open>deploy\<close>\<close>

text \<open>\<open>sdk/clientset/versioned/typed/deploy/v1alpha1/deploy_client.go\<close>\<close>

record 'rest DeployV1alpha1Client =
  dc_restClient :: "'rest option"

definition DeployV1alpha1Client_RESTClient :: "'rest DeployV1alpha1Client option \<Rightarrow> 'rest
    option" where
  "DeployV1alpha1Client_RESTClient c = (case c of None \<Rightarrow> None | Some c \<Rightarrow>
      dc_restClient c)"

definition deploy_New :: "'rest option \<Rightarrow> 'rest DeployV1alpha1Client" where
  "deploy_New c = \<lparr>dc_restClient = c\<rparr>"

definition deploy_setConfigDefaults :: "('h, 'rest, 'd) sdk_library \<Rightarrow> rest_Config
    \<Rightarrow> rest_Config res" where
  "deploy_setConfigDefaults L config =
    (let config = config\<lparr>rc_GroupVersion := Some deploy_SchemeGroupVersion, rc_APIPath := ''/apis'',
                    rc_NegotiatedSerializer := True\<rparr>
     in Inr (if rc_UserAgent config = '''' then config\<lparr>rc_UserAgent := lib_DefaultUserAgent L\<rparr>
             else config))"

definition deploy_NewForConfigAndClient :: "('h, 'rest, 'd) sdk_library \<Rightarrow> rest_Config
    \<Rightarrow> 'h
    \<Rightarrow> 'rest DeployV1alpha1Client res" where
  "deploy_NewForConfigAndClient L c h =
    bindE (deploy_setConfigDefaults L c) (\<lambda>config.
    bindE (lib_RESTClientFor L config h) (\<lambda>client. Inr \<lparr>dc_restClient = Some client\<rparr>))"

definition deploy_NewForConfig :: "('h, 'rest, 'd) sdk_library \<Rightarrow> rest_Config \<Rightarrow>
    'rest DeployV1alpha1Client res" where
  "deploy_NewForConfig L c =
    bindE (deploy_setConfigDefaults L c) (\<lambda>config.
    bindE (lib_HTTPClientFor L config) (\<lambda>httpClient. deploy_NewForConfigAndClient L config httpClient))"

definition deploy_NewForConfigOrDie :: "('h, 'rest, 'd) sdk_library \<Rightarrow> rest_Config
    \<Rightarrow> 'rest DeployV1alpha1Client res" where
  "deploy_NewForConfigOrDie L c = or_die (deploy_NewForConfig L c)"


text \<open>\<open>sdk/clientset/versioned/cluster/typed/deploy/v1alpha1/deploy_client.go\<close>\<close>

record 'rest DeployV1alpha1ClusterClient =
  dcc_clientCache :: "'rest DeployV1alpha1Client client_cache"

definition DeployV1alpha1ClusterClient_Cluster :: "('h, 'rest, 'd) sdk_library \<Rightarrow> 'rest
    DeployV1alpha1ClusterClient \<Rightarrow> string
    \<Rightarrow> 'rest DeployV1alpha1Client res" where
  "DeployV1alpha1ClusterClient_Cluster L c clusterPath =
    (if clusterPath = lib_Wildcard L then Inl wildcard_panic
     else ClusterOrDie (dcc_clientCache c) clusterPath)"

definition deploy_cluster_NewForConfigAndClient :: "('h, 'rest, 'd) sdk_library \<Rightarrow> rest_Config
    \<Rightarrow> 'h
    \<Rightarrow> 'rest DeployV1alpha1ClusterClient res" where
  "deploy_cluster_NewForConfigAndClient L c h =
    (let cache = kcpclient_NewCache L c h (deploy_NewForConfigAndClient L)
     in bindE (cache ''root'') (\<lambda>_. Inr \<lparr>dcc_clientCache = cache\<rparr>))"

definition deploy_cluster_NewForConfig :: "('h, 'rest, 'd) sdk_library \<Rightarrow> rest_Config
    \<Rightarrow> 'rest DeployV1alpha1ClusterClient res" where
  "deploy_cluster_NewForConfig L c =
    bindE (lib_HTTPClientFor L c) (\<lambda>client. deploy_cluster_NewForConfigAndClient L c client)"

definition deploy_cluster_NewForConfigOrDie :: "('h, 'rest, 'd) sdk_library \<Rightarrow> rest_Config
    \<Rightarrow> 'rest DeployV1alpha1ClusterClient res" where
  "deploy_cluster_NewForConfigOrDie L c = or_die (deploy_cluster_NewForConfig L c)"

text \<open>
  Every typed cluster client holds the cache of its group, every namespacer also a cluster path.
\<close>

record 'rest deploy_namespacer =
  dcn_clientCache :: "'rest DeployV1alpha1Client client_cache"
  dcn_clusterPath :: string


subsection \<open>CompiledCacheServers\<close>

definition newCompiledCacheServers :: "'rest DeployV1alpha1Client \<Rightarrow> string \<Rightarrow> 'rest
    typed_client" where
  "newCompiledCacheServers c namespace =
    \<lparr>tc_resource = ''compiledcacheservers'', tc_rest = DeployV1alpha1Client_RESTClient (Some c),
        tc_namespace = namespace,
     tc_type = TCompiledCacheServer\<rparr>"

definition DeployV1alpha1Client_CompiledCacheServers :: "'rest DeployV1alpha1Client \<Rightarrow> string
    \<Rightarrow> 'rest typed_client" where
  "DeployV1alpha1Client_CompiledCacheServers c namespace = newCompiledCacheServers c namespace"

definition DeployV1alpha1ClusterClient_CompiledCacheServers :: "'rest DeployV1alpha1ClusterClient
    \<Rightarrow> 'rest DeployV1alpha1Client client_cache" where
  "DeployV1alpha1ClusterClient_CompiledCacheServers c = dcc_clientCache c"

definition compiledCacheServersClusterInterface_Cluster :: "('h, 'rest, 'd) sdk_library
    \<Rightarrow> 'rest DeployV1alpha1Client client_cache \<Rightarrow> string \<Rightarrow> 'rest
        deploy_namespacer res" where
  "compiledCacheServersClusterInterface_Cluster L c clusterPath =
    (if clusterPath = lib_Wildcard L then Inl wildcard_panic
     else Inr \<lparr>dcn_clientCache = c, dcn_clusterPath = clusterPath\<rparr>)"

definition compiledCacheServersClusterInterface_List :: "('h, 'rest, 'd) sdk_library
    \<Rightarrow> 'rest DeployV1alpha1Client client_cache \<Rightarrow> 'o \<Rightarrow> ('rest, 'o)
        client_call res" where
  "compiledCacheServersClusterInterface_List L c opts =
    bindE (ClusterOrDie c (lib_Wildcard L)) (\<lambda>cl. Inr (ListCall
        (DeployV1alpha1Client_CompiledCacheServers cl NamespaceAll) opts))"

definition compiledCacheServersClusterInterface_Watch :: "('h, 'rest, 'd) sdk_library
    \<Rightarrow> 'rest DeployV1alpha1Client client_cache \<Rightarrow> 'o \<Rightarrow> ('rest, 'o)
        client_call res" where
  "compiledCacheServersClusterInterface_Watch L c opts =
    bindE (ClusterOrDie c (lib_Wildcard L)) (\<lambda>cl. Inr (WatchCall
        (DeployV1alpha1Client_CompiledCacheServers cl NamespaceAll) opts))"

definition compiledCacheServersNamespacer_Namespace :: "'rest deploy_namespacer \<Rightarrow> string
    \<Rightarrow> 'rest typed_client res" where
  "compiledCacheServersNamespacer_Namespace n namespace =
    bindE (ClusterOrDie (dcn_clientCache n) (dcn_clusterPath n)) (\<lambda>cl. Inr
        (DeployV1alpha1Client_CompiledCacheServers cl namespace))"


subsection \<open>CompiledFrontProxies\<close>

definition newCompiledFrontProxies :: "'rest DeployV1alpha1Client \<Rightarrow> string \<Rightarrow> 'rest
    typed_client" where
  "newCompiledFrontProxies c namespace =
    \<lparr>tc_resource = ''compiledfrontproxies'', tc_rest = DeployV1alpha1Client_RESTClient (Some c),
        tc_namespace = namespace,
     tc_type = TCompiledFrontProxy\<rparr>"

definition DeployV1alpha1Client_CompiledFrontProxies :: "'rest DeployV1alpha1Client \<Rightarrow> string
    \<Rightarrow> 'rest typed_client" where
  "DeployV1alpha1Client_CompiledFrontProxies c namespace = newCompiledFrontProxies c namespace"

definition DeployV1alpha1ClusterClient_CompiledFrontProxies :: "'rest DeployV1alpha1ClusterClient
    \<Rightarrow> 'rest DeployV1alpha1Client client_cache" where
  "DeployV1alpha1ClusterClient_CompiledFrontProxies c = dcc_clientCache c"

definition compiledFrontProxiesClusterInterface_Cluster :: "('h, 'rest, 'd) sdk_library
    \<Rightarrow> 'rest DeployV1alpha1Client client_cache \<Rightarrow> string \<Rightarrow> 'rest
        deploy_namespacer res" where
  "compiledFrontProxiesClusterInterface_Cluster L c clusterPath =
    (if clusterPath = lib_Wildcard L then Inl wildcard_panic
     else Inr \<lparr>dcn_clientCache = c, dcn_clusterPath = clusterPath\<rparr>)"

definition compiledFrontProxiesClusterInterface_List :: "('h, 'rest, 'd) sdk_library
    \<Rightarrow> 'rest DeployV1alpha1Client client_cache \<Rightarrow> 'o \<Rightarrow> ('rest, 'o)
        client_call res" where
  "compiledFrontProxiesClusterInterface_List L c opts =
    bindE (ClusterOrDie c (lib_Wildcard L)) (\<lambda>cl. Inr (ListCall
        (DeployV1alpha1Client_CompiledFrontProxies cl NamespaceAll) opts))"

definition compiledFrontProxiesClusterInterface_Watch :: "('h, 'rest, 'd) sdk_library
    \<Rightarrow> 'rest DeployV1alpha1Client client_cache \<Rightarrow> 'o \<Rightarrow> ('rest, 'o)
        client_call res" where
  "compiledFrontProxiesClusterInterface_Watch L c opts =
    bindE (ClusterOrDie c (lib_Wildcard L)) (\<lambda>cl. Inr (WatchCall
        (DeployV1alpha1Client_CompiledFrontProxies cl NamespaceAll) opts))"

definition compiledFrontProxiesNamespacer_Namespace :: "'rest deploy_namespacer \<Rightarrow> string
    \<Rightarrow> 'rest typed_client res" where
  "compiledFrontProxiesNamespacer_Namespace n namespace =
    bindE (ClusterOrDie (dcn_clientCache n) (dcn_clusterPath n)) (\<lambda>cl. Inr
        (DeployV1alpha1Client_CompiledFrontProxies cl namespace))"


subsection \<open>CompiledRootShards\<close>

definition newCompiledRootShards :: "'rest DeployV1alpha1Client \<Rightarrow> string \<Rightarrow> 'rest
    typed_client" where
  "newCompiledRootShards c namespace =
    \<lparr>tc_resource = ''compiledrootshards'', tc_rest = DeployV1alpha1Client_RESTClient (Some c),
        tc_namespace = namespace,
     tc_type = TCompiledRootShard\<rparr>"

definition DeployV1alpha1Client_CompiledRootShards :: "'rest DeployV1alpha1Client \<Rightarrow> string
    \<Rightarrow> 'rest typed_client" where
  "DeployV1alpha1Client_CompiledRootShards c namespace = newCompiledRootShards c namespace"

definition DeployV1alpha1ClusterClient_CompiledRootShards :: "'rest DeployV1alpha1ClusterClient
    \<Rightarrow> 'rest DeployV1alpha1Client client_cache" where
  "DeployV1alpha1ClusterClient_CompiledRootShards c = dcc_clientCache c"

definition compiledRootShardsClusterInterface_Cluster :: "('h, 'rest, 'd) sdk_library
    \<Rightarrow> 'rest DeployV1alpha1Client client_cache \<Rightarrow> string \<Rightarrow> 'rest
        deploy_namespacer res" where
  "compiledRootShardsClusterInterface_Cluster L c clusterPath =
    (if clusterPath = lib_Wildcard L then Inl wildcard_panic
     else Inr \<lparr>dcn_clientCache = c, dcn_clusterPath = clusterPath\<rparr>)"

definition compiledRootShardsClusterInterface_List :: "('h, 'rest, 'd) sdk_library
    \<Rightarrow> 'rest DeployV1alpha1Client client_cache \<Rightarrow> 'o \<Rightarrow> ('rest, 'o)
        client_call res" where
  "compiledRootShardsClusterInterface_List L c opts =
    bindE (ClusterOrDie c (lib_Wildcard L)) (\<lambda>cl. Inr (ListCall
        (DeployV1alpha1Client_CompiledRootShards cl NamespaceAll) opts))"

definition compiledRootShardsClusterInterface_Watch :: "('h, 'rest, 'd) sdk_library
    \<Rightarrow> 'rest DeployV1alpha1Client client_cache \<Rightarrow> 'o \<Rightarrow> ('rest, 'o)
        client_call res" where
  "compiledRootShardsClusterInterface_Watch L c opts =
    bindE (ClusterOrDie c (lib_Wildcard L)) (\<lambda>cl. Inr (WatchCall
        (DeployV1alpha1Client_CompiledRootShards cl NamespaceAll) opts))"

definition compiledRootShardsNamespacer_Namespace :: "'rest deploy_namespacer \<Rightarrow> string
    \<Rightarrow> 'rest typed_client res" where
  "compiledRootShardsNamespacer_Namespace n namespace =
    bindE (ClusterOrDie (dcn_clientCache n) (dcn_clusterPath n)) (\<lambda>cl. Inr
        (DeployV1alpha1Client_CompiledRootShards cl namespace))"


subsection \<open>CompiledShards\<close>

definition newCompiledShards :: "'rest DeployV1alpha1Client \<Rightarrow> string \<Rightarrow> 'rest
    typed_client" where
  "newCompiledShards c namespace =
    \<lparr>tc_resource = ''compiledshards'', tc_rest = DeployV1alpha1Client_RESTClient (Some c),
        tc_namespace = namespace,
     tc_type = TCompiledShard\<rparr>"

definition DeployV1alpha1Client_CompiledShards :: "'rest DeployV1alpha1Client \<Rightarrow> string
    \<Rightarrow> 'rest typed_client" where
  "DeployV1alpha1Client_CompiledShards c namespace = newCompiledShards c namespace"

definition DeployV1alpha1ClusterClient_CompiledShards :: "'rest DeployV1alpha1ClusterClient \<Rightarrow>
    'rest DeployV1alpha1Client client_cache" where
  "DeployV1alpha1ClusterClient_CompiledShards c = dcc_clientCache c"

definition compiledShardsClusterInterface_Cluster :: "('h, 'rest, 'd) sdk_library
    \<Rightarrow> 'rest DeployV1alpha1Client client_cache \<Rightarrow> string \<Rightarrow> 'rest
        deploy_namespacer res" where
  "compiledShardsClusterInterface_Cluster L c clusterPath =
    (if clusterPath = lib_Wildcard L then Inl wildcard_panic
     else Inr \<lparr>dcn_clientCache = c, dcn_clusterPath = clusterPath\<rparr>)"

definition compiledShardsClusterInterface_List :: "('h, 'rest, 'd) sdk_library
    \<Rightarrow> 'rest DeployV1alpha1Client client_cache \<Rightarrow> 'o \<Rightarrow> ('rest, 'o)
        client_call res" where
  "compiledShardsClusterInterface_List L c opts =
    bindE (ClusterOrDie c (lib_Wildcard L)) (\<lambda>cl. Inr (ListCall
        (DeployV1alpha1Client_CompiledShards cl NamespaceAll) opts))"

definition compiledShardsClusterInterface_Watch :: "('h, 'rest, 'd) sdk_library
    \<Rightarrow> 'rest DeployV1alpha1Client client_cache \<Rightarrow> 'o \<Rightarrow> ('rest, 'o)
        client_call res" where
  "compiledShardsClusterInterface_Watch L c opts =
    bindE (ClusterOrDie c (lib_Wildcard L)) (\<lambda>cl. Inr (WatchCall
        (DeployV1alpha1Client_CompiledShards cl NamespaceAll) opts))"

definition compiledShardsNamespacer_Namespace :: "'rest deploy_namespacer \<Rightarrow> string
    \<Rightarrow> 'rest typed_client res" where
  "compiledShardsNamespacer_Namespace n namespace =
    bindE (ClusterOrDie (dcn_clientCache n) (dcn_clusterPath n)) (\<lambda>cl. Inr
        (DeployV1alpha1Client_CompiledShards cl namespace))"


subsection \<open>CompiledVirtualWorkspaces\<close>

definition newCompiledVirtualWorkspaces :: "'rest DeployV1alpha1Client \<Rightarrow> string \<Rightarrow>
    'rest typed_client" where
  "newCompiledVirtualWorkspaces c namespace =
    \<lparr>tc_resource = ''compiledvirtualworkspaces'', tc_rest = DeployV1alpha1Client_RESTClient (Some
        c), tc_namespace = namespace,
     tc_type = TCompiledVirtualWorkspace\<rparr>"

definition DeployV1alpha1Client_CompiledVirtualWorkspaces :: "'rest DeployV1alpha1Client \<Rightarrow>
    string \<Rightarrow> 'rest typed_client" where
  "DeployV1alpha1Client_CompiledVirtualWorkspaces c namespace = newCompiledVirtualWorkspaces c namespace"

definition DeployV1alpha1ClusterClient_CompiledVirtualWorkspaces :: "'rest DeployV1alpha1ClusterClient
    \<Rightarrow> 'rest DeployV1alpha1Client client_cache" where
  "DeployV1alpha1ClusterClient_CompiledVirtualWorkspaces c = dcc_clientCache c"

definition compiledVirtualWorkspacesClusterInterface_Cluster :: "('h, 'rest, 'd) sdk_library
    \<Rightarrow> 'rest DeployV1alpha1Client client_cache \<Rightarrow> string \<Rightarrow> 'rest
        deploy_namespacer res" where
  "compiledVirtualWorkspacesClusterInterface_Cluster L c clusterPath =
    (if clusterPath = lib_Wildcard L then Inl wildcard_panic
     else Inr \<lparr>dcn_clientCache = c, dcn_clusterPath = clusterPath\<rparr>)"

definition compiledVirtualWorkspacesClusterInterface_List :: "('h, 'rest, 'd) sdk_library
    \<Rightarrow> 'rest DeployV1alpha1Client client_cache \<Rightarrow> 'o \<Rightarrow> ('rest, 'o)
        client_call res" where
  "compiledVirtualWorkspacesClusterInterface_List L c opts =
    bindE (ClusterOrDie c (lib_Wildcard L)) (\<lambda>cl. Inr (ListCall
        (DeployV1alpha1Client_CompiledVirtualWorkspaces cl NamespaceAll) opts))"

definition compiledVirtualWorkspacesClusterInterface_Watch :: "('h, 'rest, 'd) sdk_library
    \<Rightarrow> 'rest DeployV1alpha1Client client_cache \<Rightarrow> 'o \<Rightarrow> ('rest, 'o)
        client_call res" where
  "compiledVirtualWorkspacesClusterInterface_Watch L c opts =
    bindE (ClusterOrDie c (lib_Wildcard L)) (\<lambda>cl. Inr (WatchCall
        (DeployV1alpha1Client_CompiledVirtualWorkspaces cl NamespaceAll) opts))"

definition compiledVirtualWorkspacesNamespacer_Namespace :: "'rest deploy_namespacer \<Rightarrow> string
    \<Rightarrow> 'rest typed_client res" where
  "compiledVirtualWorkspacesNamespacer_Namespace n namespace =
    bindE (ClusterOrDie (dcn_clientCache n) (dcn_clusterPath n)) (\<lambda>cl. Inr
        (DeployV1alpha1Client_CompiledVirtualWorkspaces cl namespace))"


section \<open>The clientsets\<close>

text \<open>\<open>sdk/clientset/versioned/clientset.go\<close>\<close>

record ('rest, 'd) Clientset =
  cs_DiscoveryClient :: 'd
  cs_deployV1alpha1 :: "'rest DeployV1alpha1Client"
  cs_operatorV1alpha1 :: "'rest OperatorV1alpha1Client"

definition Clientset_DeployV1alpha1 :: "('rest, 'd) Clientset \<Rightarrow> 'rest DeployV1alpha1Client" where
  "Clientset_DeployV1alpha1 c = cs_deployV1alpha1 c"

definition Clientset_OperatorV1alpha1 :: "('rest, 'd) Clientset \<Rightarrow> 'rest
    OperatorV1alpha1Client" where
  "Clientset_OperatorV1alpha1 c = cs_operatorV1alpha1 c"

definition Clientset_Discovery :: "('rest, 'd) Clientset option \<Rightarrow> 'd option" where
  "Clientset_Discovery c = (case c of None \<Rightarrow> None | Some c \<Rightarrow> Some
      (cs_DiscoveryClient c))"

text \<open>The rate limiter the clientsets make for a configuration that asks for one without bringing
    it.\<close>

definition with_rate_limiter :: "rest_Config \<Rightarrow> rest_Config res" where
  "with_rate_limiter config =
    (if rc_RateLimiter config = None \<and> rc_QPS config > 0
     then if rc_Burst config \<le> 0
          then Inl (Plain (''burst is required to be greater than 0 when RateLimiter is not set and '' @
                 ''QPS is set to greater than 0''))
          else Inr (config\<lparr>rc_RateLimiter := Some (TokenBucket (rc_QPS config) (rc_Burst
              config))\<rparr>)
     else Inr config)"

definition clientset_NewForConfigAndClient :: "('h, 'rest, 'd) sdk_library \<Rightarrow> rest_Config
    \<Rightarrow> 'h
    \<Rightarrow> ('rest, 'd) Clientset res" where
  "clientset_NewForConfigAndClient L c httpClient =
    bindE (with_rate_limiter c) (\<lambda>configShallowCopy.
    bindE (deploy_NewForConfigAndClient L configShallowCopy httpClient) (\<lambda>dc.
    bindE (operator_NewForConfigAndClient L configShallowCopy httpClient) (\<lambda>oc.
    bindE (lib_DiscoveryClientFor L configShallowCopy httpClient) (\<lambda>disc.
    Inr \<lparr>cs_DiscoveryClient = disc, cs_deployV1alpha1 = dc, cs_operatorV1alpha1 = oc\<rparr>))))"

definition clientset_NewForConfig :: "('h, 'rest, 'd) sdk_library \<Rightarrow> rest_Config
    \<Rightarrow> ('rest, 'd) Clientset res" where
  "clientset_NewForConfig L c =
    (let configShallowCopy = (if rc_UserAgent c = '''' then c\<lparr>rc_UserAgent := lib_DefaultUserAgent
        L\<rparr> else c)
     in bindE (lib_HTTPClientFor L configShallowCopy) (\<lambda>httpClient.
        clientset_NewForConfigAndClient L configShallowCopy httpClient))"

definition clientset_NewForConfigOrDie :: "('h, 'rest, 'd) sdk_library \<Rightarrow> rest_Config
    \<Rightarrow> ('rest, 'd) Clientset res" where
  "clientset_NewForConfigOrDie L c = or_die (clientset_NewForConfig L c)"

text \<open>\<open>sdk/clientset/versioned/cluster/clientset.go\<close>\<close>

record ('rest, 'd) ClusterClientset =
  ccs_DiscoveryClient :: 'd
  ccs_clientCache :: "('rest, 'd) Clientset client_cache"
  ccs_deployV1alpha1 :: "'rest DeployV1alpha1ClusterClient"
  ccs_operatorV1alpha1 :: "'rest OperatorV1alpha1ClusterClient"

definition ClusterClientset_DeployV1alpha1 :: "('rest, 'd) ClusterClientset \<Rightarrow> 'rest
    DeployV1alpha1ClusterClient" where
  "ClusterClientset_DeployV1alpha1 c = ccs_deployV1alpha1 c"

definition ClusterClientset_OperatorV1alpha1 :: "('rest, 'd) ClusterClientset \<Rightarrow> 'rest
    OperatorV1alpha1ClusterClient" where
  "ClusterClientset_OperatorV1alpha1 c = ccs_operatorV1alpha1 c"

definition ClusterClientset_Discovery :: "('rest, 'd) ClusterClientset option \<Rightarrow> 'd option" where
  "ClusterClientset_Discovery c = (case c of None \<Rightarrow> None | Some c \<Rightarrow> Some
      (ccs_DiscoveryClient c))"

definition ClusterClientset_Cluster :: "('h, 'rest, 'd) sdk_library \<Rightarrow> ('rest, 'd)
    ClusterClientset \<Rightarrow> string
    \<Rightarrow> ('rest, 'd) Clientset res" where
  "ClusterClientset_Cluster L c clusterPath =
    (if clusterPath = lib_Wildcard L then Inl wildcard_panic
     else ClusterOrDie (ccs_clientCache c) clusterPath)"

text \<open>The cache is made from the configuration the caller gave, not from its copy.\<close>

definition cluster_clientset_NewForConfigAndClient :: "('h, 'rest, 'd) sdk_library \<Rightarrow>
    rest_Config \<Rightarrow> 'h
    \<Rightarrow> ('rest, 'd) ClusterClientset res" where
  "cluster_clientset_NewForConfigAndClient L c httpClient =
    bindE (with_rate_limiter c) (\<lambda>configShallowCopy.
    let cache = kcpclient_NewCache L c httpClient (clientset_NewForConfigAndClient L) in
    bindE (cache ''root'') (\<lambda>_.
    bindE (deploy_cluster_NewForConfigAndClient L configShallowCopy httpClient) (\<lambda>dc.
    bindE (operator_cluster_NewForConfigAndClient L configShallowCopy httpClient) (\<lambda>oc.
    bindE (lib_DiscoveryClientFor L configShallowCopy httpClient) (\<lambda>disc.
    Inr \<lparr>ccs_DiscoveryClient = disc, ccs_clientCache = cache, ccs_deployV1alpha1 = dc,
         ccs_operatorV1alpha1 = oc\<rparr>)))))"

definition cluster_clientset_NewForConfig :: "('h, 'rest, 'd) sdk_library \<Rightarrow> rest_Config
    \<Rightarrow> ('rest, 'd) ClusterClientset res" where
  "cluster_clientset_NewForConfig L c =
    (let configShallowCopy = (if rc_UserAgent c = '''' then c\<lparr>rc_UserAgent := lib_DefaultUserAgent
        L\<rparr> else c)
     in bindE (lib_HTTPClientFor L configShallowCopy) (\<lambda>httpClient.
        cluster_clientset_NewForConfigAndClient L configShallowCopy httpClient))"

definition cluster_clientset_NewForConfigOrDie :: "('h, 'rest, 'd) sdk_library \<Rightarrow> rest_Config
    \<Rightarrow> ('rest, 'd) ClusterClientset res" where
  "cluster_clientset_NewForConfigOrDie L c = or_die (cluster_clientset_NewForConfig L c)"

chapter \<open>Properties of the clients\<close>

text \<open>
  Where the typed clients of a cluster clientset lead: every way to name a workspace, a namespace and a
  kind of object ends at the same place.
\<close>

section \<open>The ways to a typed client\<close>

text \<open>
  For every kind: through a clientset of one workspace, through the typed cluster client
  (\<open>cs.Group().Kinds().Cluster(p).Namespace(ns)\<close>) and through the client of the group
  (\<open>cs.Group().Cluster(p).Kinds(ns)\<close>).
\<close>

definition client_routes :: "('h, 'rest, 'd) sdk_library
    \<Rightarrow> (GroupVersionResource \<times> sdk_type \<times> (('rest, 'd) Clientset \<Rightarrow>
        string \<Rightarrow> 'rest typed_client)
        \<times> (('rest, 'd) ClusterClientset \<Rightarrow> string \<Rightarrow> string \<Rightarrow>
            'rest typed_client res)
        \<times> (('rest, 'd) ClusterClientset \<Rightarrow> string \<Rightarrow> string \<Rightarrow>
            'rest typed_client res)) list" where
  "client_routes L =
    [(WithResource operator_SchemeGroupVersion ''cacheservers'', TCacheServer,
      \<lambda>ws ns. OperatorV1alpha1Client_CacheServers (Clientset_OperatorV1alpha1 ws) ns,
      \<lambda>cs p ns. bindE (cacheServersClusterInterface_Cluster L
        (OperatorV1alpha1ClusterClient_CacheServers (ClusterClientset_OperatorV1alpha1 cs)) p)
            (\<lambda>n. cacheServersNamespacer_Namespace n ns),
      \<lambda>cs p ns. bindE (OperatorV1alpha1ClusterClient_Cluster L (ClusterClientset_OperatorV1alpha1 cs) p)
        (\<lambda>c. Inr (OperatorV1alpha1Client_CacheServers c ns))),
     (WithResource operator_SchemeGroupVersion ''frontproxies'', TFrontProxy,
      \<lambda>ws ns. OperatorV1alpha1Client_FrontProxies (Clientset_OperatorV1alpha1 ws) ns,
      \<lambda>cs p ns. bindE (frontProxiesClusterInterface_Cluster L
        (OperatorV1alpha1ClusterClient_FrontProxies (ClusterClientset_OperatorV1alpha1 cs)) p)
            (\<lambda>n. frontProxiesNamespacer_Namespace n ns),
      \<lambda>cs p ns. bindE (OperatorV1alpha1ClusterClient_Cluster L (ClusterClientset_OperatorV1alpha1 cs) p)
        (\<lambda>c. Inr (OperatorV1alpha1Client_FrontProxies c ns))),
     (WithResource operator_SchemeGroupVersion ''kubeconfigs'', TKubeconfig,
      \<lambda>ws ns. OperatorV1alpha1Client_Kubeconfigs (Clientset_OperatorV1alpha1 ws) ns,
      \<lambda>cs p ns. bindE (kubeconfigsClusterInterface_Cluster L
        (OperatorV1alpha1ClusterClient_Kubeconfigs (ClusterClientset_OperatorV1alpha1 cs)) p) (\<lambda>n.
            kubeconfigsNamespacer_Namespace n ns),
      \<lambda>cs p ns. bindE (OperatorV1alpha1ClusterClient_Cluster L (ClusterClientset_OperatorV1alpha1 cs) p)
        (\<lambda>c. Inr (OperatorV1alpha1Client_Kubeconfigs c ns))),
     (WithResource operator_SchemeGroupVersion ''rootshards'', TRootShard,
      \<lambda>ws ns. OperatorV1alpha1Client_RootShards (Clientset_OperatorV1alpha1 ws) ns,
      \<lambda>cs p ns. bindE (rootShardsClusterInterface_Cluster L
        (OperatorV1alpha1ClusterClient_RootShards (ClusterClientset_OperatorV1alpha1 cs)) p) (\<lambda>n.
            rootShardsNamespacer_Namespace n ns),
      \<lambda>cs p ns. bindE (OperatorV1alpha1ClusterClient_Cluster L (ClusterClientset_OperatorV1alpha1 cs) p)
        (\<lambda>c. Inr (OperatorV1alpha1Client_RootShards c ns))),
     (WithResource operator_SchemeGroupVersion ''shards'', TShard,
      \<lambda>ws ns. OperatorV1alpha1Client_Shards (Clientset_OperatorV1alpha1 ws) ns,
      \<lambda>cs p ns. bindE (shardsClusterInterface_Cluster L
        (OperatorV1alpha1ClusterClient_Shards (ClusterClientset_OperatorV1alpha1 cs)) p) (\<lambda>n.
            shardsNamespacer_Namespace n ns),
      \<lambda>cs p ns. bindE (OperatorV1alpha1ClusterClient_Cluster L (ClusterClientset_OperatorV1alpha1 cs) p)
        (\<lambda>c. Inr (OperatorV1alpha1Client_Shards c ns))),
     (WithResource operator_SchemeGroupVersion ''virtualworkspaces'', TVirtualWorkspace,
      \<lambda>ws ns. OperatorV1alpha1Client_VirtualWorkspaces (Clientset_OperatorV1alpha1 ws) ns,
      \<lambda>cs p ns. bindE (virtualWorkspacesClusterInterface_Cluster L
        (OperatorV1alpha1ClusterClient_VirtualWorkspaces (ClusterClientset_OperatorV1alpha1 cs)) p)
            (\<lambda>n. virtualWorkspacesNamespacer_Namespace n ns),
      \<lambda>cs p ns. bindE (OperatorV1alpha1ClusterClient_Cluster L (ClusterClientset_OperatorV1alpha1 cs) p)
        (\<lambda>c. Inr (OperatorV1alpha1Client_VirtualWorkspaces c ns))),
     (WithResource deploy_SchemeGroupVersion ''compiledcacheservers'', TCompiledCacheServer,
      \<lambda>ws ns. DeployV1alpha1Client_CompiledCacheServers (Clientset_DeployV1alpha1 ws) ns,
      \<lambda>cs p ns. bindE (compiledCacheServersClusterInterface_Cluster L
        (DeployV1alpha1ClusterClient_CompiledCacheServers (ClusterClientset_DeployV1alpha1 cs)) p)
            (\<lambda>n. compiledCacheServersNamespacer_Namespace n ns),
      \<lambda>cs p ns. bindE (DeployV1alpha1ClusterClient_Cluster L (ClusterClientset_DeployV1alpha1 cs) p)
        (\<lambda>c. Inr (DeployV1alpha1Client_CompiledCacheServers c ns))),
     (WithResource deploy_SchemeGroupVersion ''compiledfrontproxies'', TCompiledFrontProxy,
      \<lambda>ws ns. DeployV1alpha1Client_CompiledFrontProxies (Clientset_DeployV1alpha1 ws) ns,
      \<lambda>cs p ns. bindE (compiledFrontProxiesClusterInterface_Cluster L
        (DeployV1alpha1ClusterClient_CompiledFrontProxies (ClusterClientset_DeployV1alpha1 cs)) p)
            (\<lambda>n. compiledFrontProxiesNamespacer_Namespace n ns),
      \<lambda>cs p ns. bindE (DeployV1alpha1ClusterClient_Cluster L (ClusterClientset_DeployV1alpha1 cs) p)
        (\<lambda>c. Inr (DeployV1alpha1Client_CompiledFrontProxies c ns))),
     (WithResource deploy_SchemeGroupVersion ''compiledrootshards'', TCompiledRootShard,
      \<lambda>ws ns. DeployV1alpha1Client_CompiledRootShards (Clientset_DeployV1alpha1 ws) ns,
      \<lambda>cs p ns. bindE (compiledRootShardsClusterInterface_Cluster L
        (DeployV1alpha1ClusterClient_CompiledRootShards (ClusterClientset_DeployV1alpha1 cs)) p)
            (\<lambda>n. compiledRootShardsNamespacer_Namespace n ns),
      \<lambda>cs p ns. bindE (DeployV1alpha1ClusterClient_Cluster L (ClusterClientset_DeployV1alpha1 cs) p)
        (\<lambda>c. Inr (DeployV1alpha1Client_CompiledRootShards c ns))),
     (WithResource deploy_SchemeGroupVersion ''compiledshards'', TCompiledShard,
      \<lambda>ws ns. DeployV1alpha1Client_CompiledShards (Clientset_DeployV1alpha1 ws) ns,
      \<lambda>cs p ns. bindE (compiledShardsClusterInterface_Cluster L
        (DeployV1alpha1ClusterClient_CompiledShards (ClusterClientset_DeployV1alpha1 cs)) p) (\<lambda>n.
            compiledShardsNamespacer_Namespace n ns),
      \<lambda>cs p ns. bindE (DeployV1alpha1ClusterClient_Cluster L (ClusterClientset_DeployV1alpha1 cs) p)
        (\<lambda>c. Inr (DeployV1alpha1Client_CompiledShards c ns))),
     (WithResource deploy_SchemeGroupVersion ''compiledvirtualworkspaces'', TCompiledVirtualWorkspace,
      \<lambda>ws ns. DeployV1alpha1Client_CompiledVirtualWorkspaces (Clientset_DeployV1alpha1 ws) ns,
      \<lambda>cs p ns. bindE (compiledVirtualWorkspacesClusterInterface_Cluster L
        (DeployV1alpha1ClusterClient_CompiledVirtualWorkspaces (ClusterClientset_DeployV1alpha1 cs)) p)
            (\<lambda>n. compiledVirtualWorkspacesNamespacer_Namespace n ns),
      \<lambda>cs p ns. bindE (DeployV1alpha1ClusterClient_Cluster L (ClusterClientset_DeployV1alpha1 cs) p)
        (\<lambda>c. Inr (DeployV1alpha1Client_CompiledVirtualWorkspaces c ns)))]"

lemmas route_defs =
  cacheServersClusterInterface_Cluster_def cacheServersNamespacer_Namespace_def
  OperatorV1alpha1ClusterClient_CacheServers_def OperatorV1alpha1Client_CacheServers_def
  newCacheServers_def frontProxiesClusterInterface_Cluster_def frontProxiesNamespacer_Namespace_def
  OperatorV1alpha1ClusterClient_FrontProxies_def OperatorV1alpha1Client_FrontProxies_def
  newFrontProxies_def kubeconfigsClusterInterface_Cluster_def kubeconfigsNamespacer_Namespace_def
  OperatorV1alpha1ClusterClient_Kubeconfigs_def OperatorV1alpha1Client_Kubeconfigs_def
  newKubeconfigs_def rootShardsClusterInterface_Cluster_def rootShardsNamespacer_Namespace_def
  OperatorV1alpha1ClusterClient_RootShards_def OperatorV1alpha1Client_RootShards_def newRootShards_def
  shardsClusterInterface_Cluster_def shardsNamespacer_Namespace_def
  OperatorV1alpha1ClusterClient_Shards_def OperatorV1alpha1Client_Shards_def newShards_def
  virtualWorkspacesClusterInterface_Cluster_def virtualWorkspacesNamespacer_Namespace_def
  OperatorV1alpha1ClusterClient_VirtualWorkspaces_def OperatorV1alpha1Client_VirtualWorkspaces_def
  newVirtualWorkspaces_def compiledCacheServersClusterInterface_Cluster_def
  compiledCacheServersNamespacer_Namespace_def DeployV1alpha1ClusterClient_CompiledCacheServers_def
  DeployV1alpha1Client_CompiledCacheServers_def newCompiledCacheServers_def
  compiledFrontProxiesClusterInterface_Cluster_def compiledFrontProxiesNamespacer_Namespace_def
  DeployV1alpha1ClusterClient_CompiledFrontProxies_def DeployV1alpha1Client_CompiledFrontProxies_def
  newCompiledFrontProxies_def compiledRootShardsClusterInterface_Cluster_def
  compiledRootShardsNamespacer_Namespace_def DeployV1alpha1ClusterClient_CompiledRootShards_def
  DeployV1alpha1Client_CompiledRootShards_def newCompiledRootShards_def
  compiledShardsClusterInterface_Cluster_def compiledShardsNamespacer_Namespace_def
  DeployV1alpha1ClusterClient_CompiledShards_def DeployV1alpha1Client_CompiledShards_def
  newCompiledShards_def compiledVirtualWorkspacesClusterInterface_Cluster_def
  compiledVirtualWorkspacesNamespacer_Namespace_def
  DeployV1alpha1ClusterClient_CompiledVirtualWorkspaces_def
  DeployV1alpha1Client_CompiledVirtualWorkspaces_def newCompiledVirtualWorkspaces_def
  ClusterClientset_OperatorV1alpha1_def Clientset_OperatorV1alpha1_def
  OperatorV1alpha1ClusterClient_Cluster_def OperatorV1alpha1Client_RESTClient_def
  operator_SchemeGroupVersion_def ClusterClientset_DeployV1alpha1_def Clientset_DeployV1alpha1_def
  DeployV1alpha1ClusterClient_Cluster_def DeployV1alpha1Client_RESTClient_def
  deploy_SchemeGroupVersion_def

text \<open>The configuration the REST client of a group is made for, and the client at the end of a
    way.\<close>

definition group_config :: "('h, 'rest, 'd) sdk_library \<Rightarrow> string \<times> string \<Rightarrow>
    rest_Config \<Rightarrow> rest_Config" where
  "group_config L gv config = config\<lparr>rc_GroupVersion := Some gv, rc_APIPath := ''/apis'',
     rc_NegotiatedSerializer := True,
     rc_UserAgent := (if rc_UserAgent config = '''' then lib_DefaultUserAgent L else rc_UserAgent
         config)\<rparr>"

definition client_at :: "GroupVersionResource \<Rightarrow> sdk_type \<Rightarrow> string \<Rightarrow>
    'rest \<Rightarrow> 'rest typed_client" where
  "client_at r t ns rest = \<lparr>tc_resource = gvr_Resource r, tc_rest = Some rest, tc_namespace = ns,
      tc_type = t\<rparr>"

lemma new_clients:
  "operator_NewForConfigAndClient L c h =
    bindE (lib_RESTClientFor L (group_config L operator_SchemeGroupVersion c) h) (\<lambda>r. Inr
        \<lparr>oc_restClient = Some r\<rparr>)"
  "deploy_NewForConfigAndClient L c h =
    bindE (lib_RESTClientFor L (group_config L deploy_SchemeGroupVersion c) h) (\<lambda>r. Inr
        \<lparr>dc_restClient = Some r\<rparr>)"
  by (simp_all add: operator_NewForConfigAndClient_def deploy_NewForConfigAndClient_def
      operator_setConfigDefaults_def deploy_setConfigDefaults_def group_config_def Let_def)

lemma new_clientset:
  assumes "clientset_NewForConfigAndClient L c h = Inr ws"
  obtains c' dr or where "with_rate_limiter c = Inr c'"
    "lib_RESTClientFor L (group_config L deploy_SchemeGroupVersion c') h = Inr dr"
    "lib_RESTClientFor L (group_config L operator_SchemeGroupVersion c') h = Inr or"
    "cs_deployV1alpha1 ws = \<lparr>dc_restClient = Some dr\<rparr>" "cs_operatorV1alpha1 ws =
        \<lparr>oc_restClient = Some or\<rparr>"
  using assms by (auto simp: clientset_NewForConfigAndClient_def new_clients bindE_eq_Inr)

lemma new_cluster_clientset:
  assumes "cluster_clientset_NewForConfigAndClient L c h = Inr cs"
  obtains c' where "with_rate_limiter c = Inr c'"
    "ccs_clientCache cs = kcpclient_NewCache L c h (clientset_NewForConfigAndClient L)"
    "dcc_clientCache (ccs_deployV1alpha1 cs) = kcpclient_NewCache L c' h (deploy_NewForConfigAndClient L)"
    "occ_clientCache (ccs_operatorV1alpha1 cs) = kcpclient_NewCache L c' h (operator_NewForConfigAndClient L)"
  using assms by (auto simp: cluster_clientset_NewForConfigAndClient_def
      deploy_cluster_NewForConfigAndClient_def
      operator_cluster_NewForConfigAndClient_def Let_def bindE_eq_Inr)

lemma cached_calls:
  "bindE (ClusterOrDie (kcpclient_NewCache L c h (operator_NewForConfigAndClient L)) p) (\<lambda>cl. Inr
      (f cl)) = Inr x
    \<longleftrightarrow> (\<exists>r. lib_RESTClientFor L (group_config L operator_SchemeGroupVersion
        (lib_AtCluster L p c)) h = Inr r
      \<and> x = f \<lparr>oc_restClient = Some r\<rparr>)"
  "bindE (ClusterOrDie (kcpclient_NewCache L c h (deploy_NewForConfigAndClient L)) p) (\<lambda>cl. Inr (g
      cl)) = Inr x
    \<longleftrightarrow> (\<exists>r. lib_RESTClientFor L (group_config L deploy_SchemeGroupVersion
        (lib_AtCluster L p c)) h = Inr r
      \<and> x = g \<lparr>dc_restClient = Some r\<rparr>)"
  by (auto simp: ClusterOrDie_def kcpclient_NewCache_def new_clients bindE_eq_Inr)

text \<open>What the ways come to, from the clients of the group.\<close>

definition route_ok :: "('h, 'rest, 'd) sdk_library \<Rightarrow> rest_Config \<Rightarrow> 'h
    \<Rightarrow> ('rest, 'd) ClusterClientset
    \<Rightarrow> GroupVersionResource \<times> sdk_type \<times> (('rest, 'd) Clientset \<Rightarrow>
        string \<Rightarrow> 'rest typed_client)
        \<times> (('rest, 'd) ClusterClientset \<Rightarrow> string \<Rightarrow> string \<Rightarrow>
            'rest typed_client res)
        \<times> (('rest, 'd) ClusterClientset \<Rightarrow> string \<Rightarrow> string \<Rightarrow>
            'rest typed_client res) \<Rightarrow> bool" where
  "route_ok L c h cs = (\<lambda>(r, t, direct, by_kind, by_group).
     (\<forall>ns. by_kind cs (lib_Wildcard L) ns = Inl wildcard_panic
        \<and> by_group cs (lib_Wildcard L) ns = Inl wildcard_panic)
     \<and> (\<forall>p ns. by_kind cs p ns = by_group cs p ns)
     \<and> (\<forall>p ns tc. p \<noteq> lib_Wildcard L \<longrightarrow> (by_kind cs p ns = Inr tc
         \<longleftrightarrow>
          (\<exists>rest. lib_RESTClientFor L (group_config L (gvr_Group r, gvr_Version r) (lib_AtCluster
              L p c)) h = Inr rest
            \<and> tc = client_at r t ns rest)))
     \<and> (\<forall>ws ns. direct ws ns = \<lparr>tc_resource = gvr_Resource r, tc_rest =
          (if gvr_Group r = ''operator.kcp.io'' then oc_restClient (cs_operatorV1alpha1 ws)
           else dc_restClient (cs_deployV1alpha1 ws)), tc_namespace = ns, tc_type = t\<rparr>))"

lemma routes_ok:
  assumes "with_rate_limiter c = Inr c'"
    "dcc_clientCache (ccs_deployV1alpha1 cs) = kcpclient_NewCache L c' h (deploy_NewForConfigAndClient L)"
    "occ_clientCache (ccs_operatorV1alpha1 cs) = kcpclient_NewCache L c' h (operator_NewForConfigAndClient L)"
  shows "list_all (route_ok L c' h cs) (client_routes L)"
  unfolding client_routes_def
  by (simp add: route_ok_def route_defs assms(2,3) cached_calls [unfolded operator_SchemeGroupVersion_def
      deploy_SchemeGroupVersion_def]
      client_at_def WithResource_def)

lemma rate_limiter_host:
  "with_rate_limiter c = Inr c' \<Longrightarrow> with_rate_limiter (c\<lparr>rc_Host := x\<rparr>) = Inr
      (c'\<lparr>rc_Host := x\<rparr>) \<and> rc_Host c' = rc_Host c"
  by (auto simp: with_rate_limiter_def split: if_splits)

lemma route_group:
  "(r, t, direct, by_kind, by_group) \<in> set (client_routes L) \<Longrightarrow>
    (gvr_Group r, gvr_Version r) = operator_SchemeGroupVersion
    \<or> (gvr_Group r, gvr_Version r) = deploy_SchemeGroupVersion \<and> gvr_Group r \<noteq>
        ''operator.kcp.io''"
  by (auto simp: client_routes_def WithResource_def operator_SchemeGroupVersion_def
      deploy_SchemeGroupVersion_def)

text \<open>C14: However a typed client is asked for, through the clientset of a workspace, the cluster client
  of its kind or that of its group, it is the same client: for the resource of the kind, in the
  namespace asked for, on a REST client for the group at the host of that workspace. Asking for the
  wildcard workspace panics on every way.\<close>

theorem typed_clients_scoped:
  assumes cs: "cluster_clientset_NewForConfigAndClient L c h = Inr cs"
    and law: "\<And>p c. lib_AtCluster L p c = c\<lparr>rc_Host := host p (rc_Host c)\<rparr>"
    and route: "(r, t, direct, by_kind, by_group) \<in> set (client_routes L)"
    and p: "p \<noteq> lib_Wildcard L" and tc: "by_kind cs p ns = Inr tc"
  shows "by_kind cs (lib_Wildcard L) ns = Inl wildcard_panic \<and> by_group cs (lib_Wildcard L) ns = Inl
      wildcard_panic
    \<and> ClusterClientset_Cluster L cs (lib_Wildcard L) = Inl wildcard_panic
    \<and> by_group cs p ns = Inr tc
    \<and> (\<forall>ws. ClusterClientset_Cluster L cs p = Inr ws \<longrightarrow> direct ws ns = tc)
    \<and> (\<exists>rest config. tc = client_at r t ns rest \<and> lib_RESTClientFor L config h = Inr rest
        \<and> rc_Host config = host p (rc_Host c) \<and> rc_GroupVersion config = Some (gvr_Group r,
            gvr_Version r))"
proof -
  obtain c' where c': "with_rate_limiter c = Inr c'"
    and caches: "ccs_clientCache cs = kcpclient_NewCache L c h (clientset_NewForConfigAndClient L)"
      "dcc_clientCache (ccs_deployV1alpha1 cs) = kcpclient_NewCache L c' h (deploy_NewForConfigAndClient L)"
      "occ_clientCache (ccs_operatorV1alpha1 cs) = kcpclient_NewCache L c' h (operator_NewForConfigAndClient L)"
    using new_cluster_clientset [OF cs] by blast
  have ok: "route_ok L c' h cs (r, t, direct, by_kind, by_group)"
    using routes_ok [OF c' caches(2,3)] route by (auto simp: list_all_iff)
  let ?gv = "(gvr_Group r, gvr_Version r)"
  from ok p tc obtain rest where rest: "tc = client_at r t ns rest"
    "lib_RESTClientFor L (group_config L ?gv (lib_AtCluster L p c')) h = Inr rest"
    unfolding route_ok_def by auto
  have "direct ws ns = tc" if "ClusterClientset_Cluster L cs p = Inr ws" for ws
  proof -
    from that p caches(1) have "clientset_NewForConfigAndClient L (lib_AtCluster L p c) h = Inr ws"
      by (simp add: ClusterClientset_Cluster_def ClusterOrDie_def kcpclient_NewCache_def)
    then obtain dr or where "lib_RESTClientFor L (group_config L deploy_SchemeGroupVersion (lib_AtCluster
        L p c')) h = Inr dr"
      "lib_RESTClientFor L (group_config L operator_SchemeGroupVersion (lib_AtCluster L p c')) h = Inr or"
      "cs_deployV1alpha1 ws = \<lparr>dc_restClient = Some dr\<rparr>" "cs_operatorV1alpha1 ws =
          \<lparr>oc_restClient = Some or\<rparr>"
      using rate_limiter_host [OF c'] by (elim new_clientset) (auto simp: law)
    with ok rest route_group [OF route] show ?thesis
      by (auto simp: route_ok_def client_at_def operator_SchemeGroupVersion_def)
  qed
  moreover have "rc_Host (group_config L ?gv (lib_AtCluster L p c')) = host p (rc_Host c)"
    "rc_GroupVersion (group_config L ?gv (lib_AtCluster L p c')) = Some ?gv"
    using rate_limiter_host [OF c'] by (simp_all add: law group_config_def)
  ultimately show ?thesis
    using ok tc rest by (auto simp: route_ok_def ClusterClientset_Cluster_def)
qed

end
