(* ===== verification/Informer_Factory.thy ===== *)
theory Informer_Factory
  imports Sdk_Clients
begin

text \<open>
  The shared informer factories of \<open>sdk/informers/externalversions/factory.go\<close>. An informer is what its
  constructor was given, with the address of the object: two informers are the same one when they have
  the same address. Every operation that the code runs under the lock of the factory is one function on
  the state of the factory; the goroutines it starts are in Informer_Lifecycle.
\<close>

section \<open>Informers\<close>

text \<open>\<open>cache.Indexers\<close> are the index functions given by name: of kcp and of client-go.\<close>

datatype index_func = ClusterIndexFunc | ClusterAndNamespaceIndexFunc | MetaNamespaceIndexFunc

record ('rest, 'o, 'tr) shared_informer =
  inf_address :: nat
  inf_ListFunc :: "'o \<Rightarrow> ('rest, 'o) client_call res"
  inf_WatchFunc :: "'o \<Rightarrow> ('rest, 'o) client_call res"
  inf_type :: sdk_type
  inf_resyncPeriod :: int
  inf_indexers :: "index_func list"
  inf_transform :: "'tr option"

text \<open>
  \<open>TweakListOptionsFunc\<close> changes the options it points to; a nil function changes nothing.
  \<open>NewInformerFunc\<close> makes an informer for a client and a resync period, at a new address.
\<close>

type_synonym 'o TweakListOptionsFunc = "'o \<Rightarrow> 'o"
type_synonym ('c, 'rest, 'o, 'tr) NewInformerFunc =
  "'c \<Rightarrow> int \<Rightarrow> nat \<Rightarrow> ('rest, 'o, 'tr) shared_informer"

definition tweaked :: "'o TweakListOptionsFunc option \<Rightarrow> 'o \<Rightarrow> 'o" where
  "tweaked tweakListOptions options =
    (case tweakListOptions of None \<Rightarrow> options | Some f \<Rightarrow> f options)"

section \<open>Options\<close>

record ('o, 'tr) SharedInformerOptions =
  so_customResync :: "sdk_type \<rightharpoonup> int"
  so_tweakListOptions :: "'o TweakListOptionsFunc option"
  so_transform :: "'tr option"
  so_namespace :: string

type_synonym ('o, 'tr) SharedInformerOption = "('o, 'tr) SharedInformerOptions \<Rightarrow> ('o, 'tr) SharedInformerOptions"

text \<open>The resync configuration is a map from objects; its entries are in the order of the iteration.\<close>

definition WithCustomResyncConfig :: "(sdk_type \<times> int) list \<Rightarrow> ('o, 'tr) SharedInformerOption" where
  "WithCustomResyncConfig resyncConfig opts =
    opts\<lparr>so_customResync := foldl (\<lambda>m (k, v). m(k \<mapsto> v)) (so_customResync opts) resyncConfig\<rparr>"

definition WithTweakListOptions :: "'o TweakListOptionsFunc option \<Rightarrow> ('o, 'tr) SharedInformerOption" where
  "WithTweakListOptions tweakListOptions opts = opts\<lparr>so_tweakListOptions := tweakListOptions\<rparr>"

definition WithTransform :: "'tr option \<Rightarrow> ('o, 'tr) SharedInformerOption" where
  "WithTransform transform opts = opts\<lparr>so_transform := transform\<rparr>"

definition WithNamespace :: "string \<Rightarrow> ('o, 'tr) SharedInformerOption" where
  "WithNamespace namespace opts = opts\<lparr>so_namespace := namespace\<rparr>"

definition no_options :: "('o, 'tr) SharedInformerOptions" where
  "no_options = \<lparr>so_customResync = Map.empty, so_tweakListOptions = None, so_transform = None,
     so_namespace = ''''\<rparr>"

definition apply_options :: "('o, 'tr) SharedInformerOption list \<Rightarrow> ('o, 'tr) SharedInformerOptions" where
  "apply_options options = foldl (\<lambda>opts opt. opt opts) no_options options"

section \<open>The factory for all workspaces\<close>

text \<open>
  \<open>f_informers\<close> is also the memory the informers are allocated in: \<open>f_next\<close> is the next free address.
  The counter of the wait group is an integer because a negative one is a panic.
\<close>

record ('c, 'rest, 'o, 'tr) sharedInformerFactory =
  f_client :: 'c
  f_tweakListOptions :: "'o TweakListOptionsFunc option"
  f_defaultResync :: int
  f_customResync :: "sdk_type \<rightharpoonup> int"
  f_transform :: "'tr option"
  f_informers :: "sdk_type \<rightharpoonup> ('rest, 'o, 'tr) shared_informer"
  f_startedInformers :: "sdk_type \<rightharpoonup> bool"
  f_wg :: int
  f_shuttingDown :: bool
  f_next :: nat

definition NewSharedInformerFactoryWithOptions :: "'c \<Rightarrow> int \<Rightarrow> ('o, 'tr) SharedInformerOption list
    \<Rightarrow> ('c, 'rest, 'o, 'tr) sharedInformerFactory" where
  "NewSharedInformerFactoryWithOptions client defaultResync options =
    (let opts = apply_options options
     in \<lparr>f_client = client, f_tweakListOptions = so_tweakListOptions opts,
         f_defaultResync = defaultResync, f_customResync = so_customResync opts,
         f_transform = so_transform opts, f_informers = Map.empty, f_startedInformers = Map.empty,
         f_wg = 0, f_shuttingDown = False, f_next = 0\<rparr>)"

definition NewSharedInformerFactory :: "'c \<Rightarrow> int \<Rightarrow> ('c, 'rest, 'o, 'tr) sharedInformerFactory" where
  "NewSharedInformerFactory client defaultResync =
    NewSharedInformerFactoryWithOptions client defaultResync []"

definition resync_period :: "(sdk_type \<rightharpoonup> int) \<Rightarrow> int \<Rightarrow> sdk_type \<Rightarrow> int" where
  "resync_period custom def t = (case custom t of None \<Rightarrow> def | Some d \<Rightarrow> d)"

definition InformerFor :: "sdk_type \<Rightarrow> ('c, 'rest, 'o, 'tr) NewInformerFunc
    \<Rightarrow> ('c, 'rest, 'o, 'tr) sharedInformerFactory
    \<Rightarrow> ('rest, 'o, 'tr) shared_informer \<times> ('c, 'rest, 'o, 'tr) sharedInformerFactory" where
  "InformerFor informerType newFunc f = (case f_informers f informerType of
      Some informer \<Rightarrow> (informer, f)
    | None \<Rightarrow>
        let resyncPeriod = resync_period (f_customResync f) (f_defaultResync f) informerType;
            informer = newFunc (f_client f) resyncPeriod (f_next f)
        in (informer, f\<lparr>f_informers := (f_informers f)(informerType \<mapsto> informer),
                        f_next := Suc (f_next f)\<rparr>))"

text \<open>
  \<open>Start\<close>: the loop over the informers, in the order in which the map is iterated, collects the
  goroutines that are started.
\<close>

fun start_informers :: "sdk_type list \<Rightarrow> ('c, 'rest, 'o, 'tr) sharedInformerFactory
    \<Rightarrow> (sdk_type \<times> ('rest, 'o, 'tr) shared_informer) list \<times> ('c, 'rest, 'o, 'tr) sharedInformerFactory" where
  "start_informers [] f = ([], f)"
| "start_informers (t # ts) f = (case f_informers f t of
      None \<Rightarrow> start_informers ts f
    | Some informer \<Rightarrow>
        if f_startedInformers f t \<noteq> Some True
        then let f1 = f\<lparr>f_wg := f_wg f + 1, f_startedInformers := (f_startedInformers f)(t \<mapsto> True)\<rparr>;
                 (gs, f2) = start_informers ts f1
             in ((t, informer) # gs, f2)
        else start_informers ts f)"

definition factory_Start :: "sdk_type list \<Rightarrow> ('c, 'rest, 'o, 'tr) sharedInformerFactory
    \<Rightarrow> (sdk_type \<times> ('rest, 'o, 'tr) shared_informer) list \<times> ('c, 'rest, 'o, 'tr) sharedInformerFactory" where
  "factory_Start order f = (if f_shuttingDown f then ([], f) else start_informers order f)"

text \<open>\<open>Shutdown\<close> up to \<open>f.wg.Wait()\<close>, which returns when the counter is zero.\<close>

definition factory_Shutdown :: "('c, 'rest, 'o, 'tr) sharedInformerFactory \<Rightarrow> ('c, 'rest, 'o, 'tr) sharedInformerFactory" where
  "factory_Shutdown f = f\<lparr>f_shuttingDown := True\<rparr>"

text \<open>
  \<open>WaitForCacheSync\<close>: the copy of the started informers taken under the lock, and the answers of
  \<open>cache.WaitForCacheSync\<close> for them.
\<close>

definition started_informers :: "(sdk_type \<rightharpoonup> 'i) \<Rightarrow> (sdk_type \<rightharpoonup> bool) \<Rightarrow> sdk_type \<rightharpoonup> 'i" where
  "started_informers informers started t =
    (if started t = Some True then informers t else None)"

definition factory_WaitForCacheSync :: "(('rest, 'o, 'tr) shared_informer \<Rightarrow> bool)
    \<Rightarrow> ('c, 'rest, 'o, 'tr) sharedInformerFactory \<Rightarrow> sdk_type \<rightharpoonup> bool" where
  "factory_WaitForCacheSync synced f =
    map_option synced \<circ> started_informers (f_informers f) (f_startedInformers f)"

section \<open>The factory for one workspace\<close>

record ('c, 'rest, 'o, 'tr) sharedScopedInformerFactory =
  sf_client :: 'c
  sf_namespace :: string
  sf_tweakListOptions :: "'o TweakListOptionsFunc option"
  sf_defaultResync :: int
  sf_customResync :: "sdk_type \<rightharpoonup> int"
  sf_transform :: "'tr option"
  sf_informers :: "sdk_type \<rightharpoonup> ('rest, 'o, 'tr) shared_informer"
  sf_startedInformers :: "sdk_type \<rightharpoonup> bool"
  sf_next :: nat

definition NewSharedScopedInformerFactoryWithOptions :: "'c \<Rightarrow> int \<Rightarrow> ('o, 'tr) SharedInformerOption list
    \<Rightarrow> ('c, 'rest, 'o, 'tr) sharedScopedInformerFactory" where
  "NewSharedScopedInformerFactoryWithOptions client defaultResync options =
    (let opts = apply_options options
     in \<lparr>sf_client = client, sf_namespace = so_namespace opts,
         sf_tweakListOptions = so_tweakListOptions opts, sf_defaultResync = defaultResync,
         sf_customResync = so_customResync opts, sf_transform = None, sf_informers = Map.empty,
         sf_startedInformers = Map.empty, sf_next = 0\<rparr>)"

definition NewSharedScopedInformerFactory :: "'c \<Rightarrow> int \<Rightarrow> string
    \<Rightarrow> ('c, 'rest, 'o, 'tr) sharedScopedInformerFactory" where
  "NewSharedScopedInformerFactory client defaultResync namespace =
    NewSharedScopedInformerFactoryWithOptions client defaultResync [WithNamespace namespace]"

definition scoped_InformerFor :: "sdk_type \<Rightarrow> ('c, 'rest, 'o, 'tr) NewInformerFunc
    \<Rightarrow> ('c, 'rest, 'o, 'tr) sharedScopedInformerFactory
    \<Rightarrow> ('rest, 'o, 'tr) shared_informer \<times> ('c, 'rest, 'o, 'tr) sharedScopedInformerFactory" where
  "scoped_InformerFor informerType newFunc f = (case sf_informers f informerType of
      Some informer \<Rightarrow> (informer, f)
    | None \<Rightarrow>
        let resyncPeriod = resync_period (sf_customResync f) (sf_defaultResync f) informerType;
            informer = (newFunc (sf_client f) resyncPeriod (sf_next f))\<lparr>inf_transform := sf_transform f\<rparr>
        in (informer, f\<lparr>sf_informers := (sf_informers f)(informerType \<mapsto> informer),
                        sf_next := Suc (sf_next f)\<rparr>))"

fun start_scoped :: "sdk_type list \<Rightarrow> ('c, 'rest, 'o, 'tr) sharedScopedInformerFactory
    \<Rightarrow> (sdk_type \<times> ('rest, 'o, 'tr) shared_informer) list \<times> ('c, 'rest, 'o, 'tr) sharedScopedInformerFactory" where
  "start_scoped [] f = ([], f)"
| "start_scoped (t # ts) f = (case sf_informers f t of
      None \<Rightarrow> start_scoped ts f
    | Some informer \<Rightarrow>
        if sf_startedInformers f t \<noteq> Some True
        then let (gs, f2) = start_scoped ts (f\<lparr>sf_startedInformers := (sf_startedInformers f)(t \<mapsto> True)\<rparr>)
             in ((t, informer) # gs, f2)
        else start_scoped ts f)"

definition scoped_WaitForCacheSync :: "(('rest, 'o, 'tr) shared_informer \<Rightarrow> bool)
    \<Rightarrow> ('c, 'rest, 'o, 'tr) sharedScopedInformerFactory \<Rightarrow> sdk_type \<rightharpoonup> bool" where
  "scoped_WaitForCacheSync synced f =
    map_option synced \<circ> started_informers (sf_informers f) (sf_startedInformers f)"

chapter \<open>The life of a factory\<close>

text \<open>
  The life of a shared informer factory: goroutines that request informers, start them, wait for them
  and shut the factory down, next to the goroutines the factory has started itself. Every step is one
  critical section, one return of \<open>informer.Run\<close>, or one return of \<open>f.wg.Wait()\<close>.
\<close>

section \<open>States and steps\<close>

text \<open>
  \<open>fs_running\<close>: the goroutines of the factory, with the stop channel they were started with.
  \<open>fs_launched\<close>: the addresses of all informers whose \<open>Run\<close> has been called, in that order.
  \<open>fs_closed\<close>: the stop channels that are closed. \<open>fs_waiting\<close>, \<open>fs_returned\<close>: how many calls of
  \<open>Shutdown\<close> are waiting and have returned.
\<close>

record ('c, 'rest, 'o, 'tr) factory_state =
  fs_factory :: "('c, 'rest, 'o, 'tr) sharedInformerFactory"
  fs_running :: "(sdk_type \<times> ('rest, 'o, 'tr) shared_informer \<times> nat) list"
  fs_launched :: "nat list"
  fs_closed :: "nat list"
  fs_waiting :: nat
  fs_returned :: nat

definition new_state :: "('c, 'rest, 'o, 'tr) sharedInformerFactory \<Rightarrow> ('c, 'rest, 'o, 'tr) factory_state" where
  "new_state f = \<lparr>fs_factory = f, fs_running = [], fs_launched = [], fs_closed = [], fs_waiting = 0,
     fs_returned = 0\<rparr>"

text \<open>\<open>Start(stopCh)\<close> with the map of informers iterated in the given order.\<close>

definition start_step :: "sdk_type list \<Rightarrow> nat \<Rightarrow> ('c, 'rest, 'o, 'tr) factory_state
    \<Rightarrow> ('c, 'rest, 'o, 'tr) factory_state" where
  "start_step order stopCh s =
    (let (gs, f) = factory_Start order (fs_factory s)
     in s\<lparr>fs_factory := f, fs_running := fs_running s @ map (\<lambda>(t, i). (t, i, stopCh)) gs,
          fs_launched := fs_launched s @ map (\<lambda>(t, i). inf_address i) gs\<rparr>)"

text \<open>\<open>defer f.wg.Done()\<close> when the \<open>Run\<close> of the n-th goroutine has returned.\<close>

definition done_step :: "nat \<Rightarrow> ('c, 'rest, 'o, 'tr) factory_state \<Rightarrow> ('c, 'rest, 'o, 'tr) factory_state" where
  "done_step n s = s\<lparr>fs_factory := (fs_factory s)\<lparr>f_wg := f_wg (fs_factory s) - 1\<rparr>,
     fs_running := take n (fs_running s) @ drop (Suc n) (fs_running s)\<rparr>"

inductive factory_step :: "('c, 'rest, 'o, 'tr) factory_state \<Rightarrow> ('c, 'rest, 'o, 'tr) factory_state \<Rightarrow> bool" where
  request: "(\<And>c r a. inf_address (newFunc c r a) = a)
    \<Longrightarrow> factory_step s (s\<lparr>fs_factory := snd (InformerFor t newFunc (fs_factory s))\<rparr>)"
| start: "distinct order \<Longrightarrow> set order = dom (f_informers (fs_factory s))
    \<Longrightarrow> factory_step s (start_step order stopCh s)"
| close_channel: "factory_step s (s\<lparr>fs_closed := stopCh # fs_closed s\<rparr>)"
| run_returns: "n < length (fs_running s) \<Longrightarrow> snd (snd (fs_running s ! n)) \<in> set (fs_closed s)
    \<Longrightarrow> factory_step s (done_step n s)"
| shutdown_begins: "factory_step s (s\<lparr>fs_factory := factory_Shutdown (fs_factory s),
      fs_waiting := Suc (fs_waiting s)\<rparr>)"
| shutdown_returns: "0 < fs_waiting s \<Longrightarrow> f_wg (fs_factory s) = 0
    \<Longrightarrow> factory_step s (s\<lparr>fs_waiting := fs_waiting s - 1, fs_returned := Suc (fs_returned s)\<rparr>)"

inductive factory_reachable :: "('c, 'rest, 'o, 'tr) sharedInformerFactory
    \<Rightarrow> ('c, 'rest, 'o, 'tr) factory_state \<Rightarrow> bool" for f where
  initial: "factory_reachable f (new_state f)"
| step: "factory_reachable f s \<Longrightarrow> factory_step s s' \<Longrightarrow> factory_reachable f s'"

section \<open>The invariant\<close>

text \<open>
  Addresses are below \<open>f_next\<close> and differ between types; only existing informers are started; the
  informers that have been launched are the started ones, each once; the wait group counts the running
  goroutines; a call of \<open>Shutdown\<close> has marked the factory, and has returned only when nothing runs.
\<close>

definition allocated :: "('c, 'rest, 'o, 'tr) sharedInformerFactory \<Rightarrow> bool" where
  "allocated f \<longleftrightarrow> (\<forall>t i. f_informers f t = Some i \<longrightarrow> inf_address i < f_next f)
    \<and> (\<forall>t t' i i'. f_informers f t = Some i \<longrightarrow> f_informers f t' = Some i'
        \<longrightarrow> inf_address i = inf_address i' \<longrightarrow> t = t')"

definition launched_ok :: "('c, 'rest, 'o, 'tr) sharedInformerFactory \<Rightarrow> nat list \<Rightarrow> bool" where
  "launched_ok f as \<longleftrightarrow> distinct as
    \<and> (\<forall>a. a \<in> set as \<longleftrightarrow> (\<exists>t i. f_informers f t = Some i \<and> f_startedInformers f t = Some True
          \<and> inf_address i = a))"

definition factory_inv :: "('c, 'rest, 'o, 'tr) factory_state \<Rightarrow> bool" where
  "factory_inv s \<longleftrightarrow> allocated (fs_factory s)
    \<and> (\<forall>t. f_startedInformers (fs_factory s) t = Some True \<longrightarrow> f_informers (fs_factory s) t \<noteq> None)
    \<and> launched_ok (fs_factory s) (fs_launched s)
    \<and> f_wg (fs_factory s) = int (length (fs_running s))
    \<and> (\<forall>(t, i, ch)\<in>set (fs_running s). f_informers (fs_factory s) t = Some i
        \<and> f_startedInformers (fs_factory s) t = Some True)
    \<and> (fs_waiting s > 0 \<or> fs_returned s > 0 \<longrightarrow> f_shuttingDown (fs_factory s))
    \<and> (fs_returned s > 0 \<longrightarrow> fs_running s = [])"

lemma factory_invI:
  assumes "allocated (fs_factory s)" "launched_ok (fs_factory s) (fs_launched s)"
    "f_wg (fs_factory s) = int (length (fs_running s))"
    "\<forall>t. f_startedInformers (fs_factory s) t = Some True \<longrightarrow> f_informers (fs_factory s) t \<noteq> None"
    "\<forall>(t, i, ch)\<in>set (fs_running s). f_informers (fs_factory s) t = Some i
      \<and> f_startedInformers (fs_factory s) t = Some True"
    "fs_waiting s > 0 \<or> fs_returned s > 0 \<longrightarrow> f_shuttingDown (fs_factory s)"
    "fs_returned s > 0 \<longrightarrow> fs_running s = []"
  shows "factory_inv s"
  using assms by (simp add: factory_inv_def)

lemma factory_invD:
  assumes "factory_inv s"
  shows "allocated (fs_factory s)" "launched_ok (fs_factory s) (fs_launched s)"
    "f_wg (fs_factory s) = int (length (fs_running s))"
    "\<forall>t. f_startedInformers (fs_factory s) t = Some True \<longrightarrow> f_informers (fs_factory s) t \<noteq> None"
    "\<forall>(t, i, ch)\<in>set (fs_running s). f_informers (fs_factory s) t = Some i
      \<and> f_startedInformers (fs_factory s) t = Some True"
    "fs_waiting s > 0 \<or> fs_returned s > 0 \<longrightarrow> f_shuttingDown (fs_factory s)"
    "fs_returned s > 0 \<longrightarrow> fs_running s = []"
  using assms by (simp_all add: factory_inv_def)

lemma inv_new: "f_informers f = Map.empty \<Longrightarrow> f_startedInformers f = Map.empty \<Longrightarrow> f_wg f = 0
    \<Longrightarrow> factory_inv (new_state f)"
  by (simp add: factory_inv_def new_state_def allocated_def launched_ok_def)

lemma InformerFor_cases:
  obtains i where "f_informers f t = Some i" "InformerFor t nf f = (i, f)"
  | i where "f_informers f t = None" "i = nf (f_client f) (resync_period (f_customResync f) (f_defaultResync f) t) (f_next f)"
      "InformerFor t nf f = (i, f\<lparr>f_informers := (f_informers f)(t \<mapsto> i), f_next := Suc (f_next f)\<rparr>)"
  by (cases "f_informers f t") (auto simp: InformerFor_def Let_def)

lemma allocated_new:
  assumes "allocated f" "inf_address i = f_next f"
  shows "allocated (f\<lparr>f_informers := (f_informers f)(t \<mapsto> i), f_next := Suc (f_next f)\<rparr>)"
proof -
  have "inf_address j \<noteq> f_next f" if "f_informers f t' = Some j" for t' j
    using assms(1) that by (auto simp: allocated_def dest: less_imp_neq)
  with assms show ?thesis
    unfolding allocated_def by (auto simp: less_Suc_eq) metis
qed

lemma launched_new:
  assumes "launched_ok f as" "f_startedInformers f t \<noteq> Some True"
  shows "launched_ok (f\<lparr>f_informers := (f_informers f)(t \<mapsto> i), f_next := n\<rparr>) as"
  using assms by (auto simp: launched_ok_def)

lemma inv_request:
  assumes inv: "factory_inv s" and nf: "\<And>c r a. inf_address (nf c r a) = a"
  shows "factory_inv (s\<lparr>fs_factory := snd (InformerFor t nf (fs_factory s))\<rparr>)"
proof (cases rule: InformerFor_cases [of "fs_factory s" t nf])
  case (2 i)
  let ?f = "fs_factory s"
  have started: "f_startedInformers ?f t \<noteq> Some True"
    using inv 2(1) by (auto simp: factory_inv_def)
  have addr: "inf_address i = f_next ?f" using 2(2) nf by simp
  have "allocated (?f\<lparr>f_informers := (f_informers ?f)(t \<mapsto> i), f_next := Suc (f_next ?f)\<rparr>)"
    "launched_ok (?f\<lparr>f_informers := (f_informers ?f)(t \<mapsto> i), f_next := Suc (f_next ?f)\<rparr>) (fs_launched s)"
    using inv addr started by (simp_all add: factory_inv_def allocated_new launched_new)
  then show ?thesis
    using inv 2(1,3) started by (auto simp: factory_inv_def)
qed (use inv in simp)

section \<open>Starting\<close>

definition startable :: "('c, 'rest, 'o, 'tr) sharedInformerFactory \<Rightarrow> sdk_type
    \<Rightarrow> ('rest, 'o, 'tr) shared_informer \<Rightarrow> bool" where
  "startable f t i \<longleftrightarrow> f_informers f t = Some i \<and> f_startedInformers f t \<noteq> Some True"

lemma start_informers_spec:
  assumes "start_informers order f = (gs, f')" "distinct order"
  shows "f' = f\<lparr>f_wg := f_wg f + int (length gs),
            f_startedInformers := (\<lambda>t. if t \<in> fst ` set gs then Some True else f_startedInformers f t)\<rparr>
    \<and> set gs = {(t, i). t \<in> set order \<and> startable f t i} \<and> distinct (map fst gs)"
  using assms
proof (induction order arbitrary: f gs f')
  case (Cons t ts)
  show ?case
  proof (cases "\<exists>i. startable f t i")
    case True
    then obtain i where i: "f_informers f t = Some i" "f_startedInformers f t \<noteq> Some True"
      by (auto simp: startable_def)
    define f1 where "f1 = f\<lparr>f_wg := f_wg f + 1, f_startedInformers := (f_startedInformers f)(t \<mapsto> True)\<rparr>"
    obtain hs f2 where hs: "start_informers ts f1 = (hs, f2)" by fastforce
    from Cons.prems(1) i hs have gs: "gs = (t, i) # hs" "f' = f2" by (simp_all add: f1_def Let_def)
    from Cons.IH [OF hs] Cons.prems(2)
    have IH: "f2 = f1\<lparr>f_wg := f_wg f1 + int (length hs),
          f_startedInformers := (\<lambda>x. if x \<in> fst ` set hs then Some True else f_startedInformers f1 x)\<rparr>"
        "set hs = {(x, j). x \<in> set ts \<and> startable f1 x j}" "distinct (map fst hs)"
      by simp_all
    have "set gs = {(x, j). x \<in> set (t # ts) \<and> startable f x j}"
      using IH(2) i Cons.prems(2) by (auto simp: gs f1_def startable_def split: if_splits)
    moreover have "distinct (map fst gs)" using IH(2,3) Cons.prems(2) by (auto simp: gs)
    moreover have "(\<lambda>x. if x \<in> fst ` set hs then Some True else f_startedInformers f1 x) =
        (\<lambda>x. if x \<in> fst ` set gs then Some True else f_startedInformers f x)"
      by (auto simp: gs f1_def)
    ultimately show ?thesis using IH(1) by (simp add: gs f1_def)
  next
    case False
    then have "start_informers (t # ts) f = start_informers ts f"
      by (auto simp: startable_def split: option.split)
    with Cons.IH [of f gs f'] Cons.prems have
      "f' = f\<lparr>f_wg := f_wg f + int (length gs),
         f_startedInformers := (\<lambda>t. if t \<in> fst ` set gs then Some True else f_startedInformers f t)\<rparr>"
      "set gs = {(x, j). x \<in> set ts \<and> startable f x j}" "distinct (map fst gs)"
      by simp_all
    with False show ?thesis by auto
  qed
qed simp

text \<open>Nothing is started by a factory that shuts down; otherwise whatever was not.\<close>

lemma factory_Start_spec:
  assumes "factory_Start order f = (gs, f')" "distinct order"
  shows "f' = f\<lparr>f_wg := f_wg f + int (length gs),
            f_startedInformers := (\<lambda>t. if t \<in> fst ` set gs then Some True else f_startedInformers f t)\<rparr>
    \<and> set gs = {(t, i). \<not> f_shuttingDown f \<and> t \<in> set order \<and> startable f t i} \<and> distinct (map fst gs)"
proof (cases "f_shuttingDown f")
  case True
  with assms show ?thesis by (auto simp: factory_Start_def)
next
  case False
  with assms start_informers_spec [of order f gs f'] show ?thesis by (simp add: factory_Start_def)
qed

lemma start_addresses:
  assumes ok: "launched_ok f as" and inf: "\<And>t i. (t, i) \<in> set gs \<Longrightarrow> f_informers f t = Some i"
  shows "a \<in> set as \<or> (\<exists>t i. (t, i) \<in> set gs \<and> inf_address i = a) \<longleftrightarrow>
    (\<exists>t i. f_informers f t = Some i \<and> (t \<in> fst ` set gs \<or> f_startedInformers f t = Some True)
      \<and> inf_address i = a)" (is "?L \<longleftrightarrow> ?R")
proof
  assume ?L
  then show ?R
  proof
    assume "a \<in> set as"
    with ok show ?thesis unfolding launched_ok_def by blast
  next
    assume "\<exists>t i. (t, i) \<in> set gs \<and> inf_address i = a"
    then obtain t i where g: "(t, i) \<in> set gs" "inf_address i = a" by blast
    then have "t \<in> fst ` set gs" by force
    with g inf show ?thesis by blast
  qed
next
  assume ?R
  then obtain t i where t: "f_informers f t = Some i" "inf_address i = a"
    "t \<in> fst ` set gs \<or> f_startedInformers f t = Some True" by blast
  from t(3) show ?L
  proof
    assume "t \<in> fst ` set gs"
    then obtain j where "(t, j) \<in> set gs" by auto
    with inf [of t j] t(1,2) show ?thesis by auto
  next
    assume "f_startedInformers f t = Some True"
    with t(1,2) ok show ?thesis unfolding launched_ok_def by blast
  qed
qed

lemma launched_start:
  assumes ok: "launched_ok f as" and al: "allocated f"
    and gs: "set gs = {(t, i). q \<and> t \<in> set order \<and> startable f t i}" "distinct (map fst gs)"
  shows "launched_ok (f\<lparr>f_wg := w, f_startedInformers :=
      (\<lambda>t. if t \<in> fst ` set gs then Some True else f_startedInformers f t)\<rparr>)
    (as @ map (\<lambda>(t, i). inf_address i) gs)"
proof -
  have inf: "f_informers f t = Some i \<and> f_startedInformers f t \<noteq> Some True" if "(t, i) \<in> set gs" for t i
    using that by (simp add: gs(1) startable_def)
  have inj: "t = t'" if "f_informers f t = Some i" "f_informers f t' = Some i'" "inf_address i = inf_address i'" for t t' i i'
    using al that by (auto simp: allocated_def)
  have "distinct gs" using gs(2) by (simp add: distinct_map)
  moreover have "inj_on (\<lambda>(t, i). inf_address i) (set gs)"
  proof (rule inj_onI, clarify)
    fix t i t' i' assume g: "(t, i) \<in> set gs" "(t', i') \<in> set gs" "inf_address i = inf_address i'"
    with inf have t: "t = t'" using inj by blast
    with inf g(1,2) show "t = t' \<and> i = i'" by (metis option.inject)
  qed
  ultimately have dist: "distinct (map (\<lambda>(t, i). inf_address i) gs)" by (simp add: distinct_map)
  have new: "inf_address i \<notin> set as" if "(t, i) \<in> set gs" for t i
    using inf [OF that] inj ok by (auto simp: launched_ok_def)
  have addresses: "a \<in> set (as @ map (\<lambda>(t, i). inf_address i) gs) \<longleftrightarrow>
      a \<in> set as \<or> (\<exists>t i. (t, i) \<in> set gs \<and> inf_address i = a)" for a
    by force
  have "distinct (as @ map (\<lambda>(t, i). inf_address i) gs)"
    using ok dist new by (auto simp: launched_ok_def)
  moreover have cond: "(if t \<in> fst ` set gs then Some True else f_startedInformers f t) = Some True
      \<longleftrightarrow> t \<in> fst ` set gs \<or> f_startedInformers f t = Some True" for t
    by simp
  ultimately show ?thesis
    using start_addresses [OF ok conjunct1 [OF inf]] unfolding launched_ok_def addresses
    by (simp add: cond del: set_append set_map distinct_append)
qed

lemma inv_start:
  assumes inv: "factory_inv s" and order: "distinct order"
  shows "factory_inv (start_step order stopCh s)"
proof -
  let ?f = "fs_factory s"
  obtain gs f' where st: "factory_Start order ?f = (gs, f')" by fastforce
  note spec = factory_Start_spec [OF st order]
  then have f': "f' = ?f\<lparr>f_wg := f_wg ?f + int (length gs), f_startedInformers :=
      (\<lambda>t. if t \<in> fst ` set gs then Some True else f_startedInformers ?f t)\<rparr>" by simp
  have inf: "f_informers ?f t = Some i \<and> \<not> f_shuttingDown ?f" if "(t, i) \<in> set gs" for t i
    using that spec by (simp add: startable_def)
  note parts = factory_invD [OF inv]
  have "launched_ok f' (fs_launched s @ map (\<lambda>(t, i). inf_address i) gs)"
    unfolding f' using parts(1,2) spec by (intro launched_start) auto
  moreover have "allocated f'" using parts(1) by (simp add: f' allocated_def)
  moreover have "fs_returned s > 0 \<longrightarrow> gs = []"
    using parts(6) inf by (cases gs) auto
  moreover have "\<forall>t. f_startedInformers f' t = Some True \<longrightarrow> f_informers f' t \<noteq> None"
  proof (intro allI impI)
    fix t assume "f_startedInformers f' t = Some True"
    then consider i where "(t, i) \<in> set gs" | "f_startedInformers ?f t = Some True"
      by (auto simp: f' split: if_splits)
    then show "f_informers f' t \<noteq> None" using parts(4) inf by cases (auto simp: f')
  qed
  moreover have "\<forall>(t, i, ch)\<in>set (fs_running s @ map (\<lambda>(t, i). (t, i, stopCh)) gs).
      f_informers f' t = Some i \<and> f_startedInformers f' t = Some True"
    using parts(5) inf by (force simp: f')
  ultimately show ?thesis
    using parts(3,6,7) unfolding start_step_def st
    by (intro factory_invI) (simp_all add: f')
qed

lemma inv_done:
  assumes inv: "factory_inv s" and n: "n < length (fs_running s)"
  shows "factory_inv (done_step n s)"
proof -
  define ys where "ys = take n (fs_running s) @ drop (Suc n) (fs_running s)"
  have ys: "set ys \<subseteq> set (fs_running s)" "length (fs_running s) = Suc (length ys)"
    "fs_running s = [] \<longrightarrow> ys = []"
    using n by (auto simp: ys_def dest: in_set_takeD in_set_dropD)
  note parts = factory_invD [OF inv]
  show ?thesis
    unfolding done_step_def ys_def [symmetric]
  proof (rule factory_invI)
    let ?s = "s\<lparr>fs_factory := (fs_factory s)\<lparr>f_wg := f_wg (fs_factory s) - 1\<rparr>, fs_running := ys\<rparr>"
    show "allocated (fs_factory ?s)" using parts(1) by (simp add: allocated_def)
    show "launched_ok (fs_factory ?s) (fs_launched ?s)" using parts(2) by (simp add: launched_ok_def)
    show "f_wg (fs_factory ?s) = int (length (fs_running ?s))" using parts(3) ys(2) by simp
    show "\<forall>(t, i, ch)\<in>set (fs_running ?s). f_informers (fs_factory ?s) t = Some i
        \<and> f_startedInformers (fs_factory ?s) t = Some True"
      using parts(5) ys(1) by auto
  qed (use parts(4,6,7) ys(3) in simp_all)
qed

lemma inv_step: "factory_step s s' \<Longrightarrow> factory_inv s \<Longrightarrow> factory_inv s'"
proof (induction rule: factory_step.induct)
  case (request nf s t)
  then show ?case by (intro inv_request)
next
  case (start order s stopCh)
  then show ?case by (intro inv_start)
next
  case (run_returns n s)
  then show ?case by (intro inv_done)
qed (auto simp: factory_inv_def allocated_def launched_ok_def factory_Shutdown_def)

lemma inv_reachable:
  assumes "factory_reachable (NewSharedInformerFactoryWithOptions client resync opts) s"
  shows "factory_inv s"
  using assms
  by induction (auto simp: NewSharedInformerFactoryWithOptions_def Let_def intro: inv_new inv_step)

section \<open>The life of a factory\<close>

lemma step_shutting_down:
  assumes "factory_step s s'" "f_shuttingDown (fs_factory s)"
  shows "f_shuttingDown (fs_factory s') \<and> fs_launched s' = fs_launched s
    \<and> length (fs_running s') \<le> length (fs_running s)"
  using assms
proof (induction rule: factory_step.induct)
  case (request nf s t)
  then show ?case by (cases rule: InformerFor_cases [of "fs_factory s" t nf]) simp_all
qed (auto simp: start_step_def factory_Start_def done_step_def factory_Shutdown_def)

lemma start_launches_all:
  assumes inv: "factory_inv s" and order: "distinct order" "set order = dom (f_informers (fs_factory s))"
    and up: "\<not> f_shuttingDown (fs_factory s)" and i: "f_informers (fs_factory s) t = Some i"
  shows "inf_address i \<in> set (fs_launched (start_step order stopCh s))"
proof -
  obtain gs f' where st: "factory_Start order (fs_factory s) = (gs, f')" by fastforce
  show ?thesis
  proof (cases "f_startedInformers (fs_factory s) t = Some True")
    case True
    with inv i show ?thesis by (auto simp: start_step_def st factory_inv_def launched_ok_def)
  next
    case False
    with factory_Start_spec [OF st order(1)] order(2) up i have "(t, i) \<in> set gs"
      by (auto simp: startable_def dom_def)
    then show ?thesis by (force simp: start_step_def st)
  qed
qed

text \<open>C13: In every state of a factory each informer has been run at most once, however often and in
  whatever interleaving \<open>Start\<close>, \<open>InformerFor\<close> and \<open>Shutdown\<close> are called, and a \<open>Start\<close> before the
  shutdown runs all informers requested so far. The wait group counts exactly the running goroutines.
  Once the factory shuts down nothing is started any more, and a call of \<open>Shutdown\<close> has only returned
  when no goroutine is left.\<close>

theorem informers_run_once:
  assumes "factory_reachable (NewSharedInformerFactoryWithOptions client resync opts) s"
  shows "distinct (fs_launched s) \<and> f_wg (fs_factory s) = int (length (fs_running s))
    \<and> (fs_returned s > 0 \<longrightarrow> f_shuttingDown (fs_factory s) \<and> fs_running s = [])
    \<and> (\<forall>s'. f_shuttingDown (fs_factory s) \<longrightarrow> factory_step s s'
          \<longrightarrow> f_shuttingDown (fs_factory s') \<and> fs_launched s' = fs_launched s)
    \<and> (\<forall>order stopCh. \<not> f_shuttingDown (fs_factory s) \<longrightarrow> distinct order
          \<longrightarrow> set order = dom (f_informers (fs_factory s))
          \<longrightarrow> (\<forall>t i. f_informers (fs_factory s) t = Some i
                \<longrightarrow> inf_address i \<in> set (fs_launched (start_step order stopCh s))))"
  using factory_invD [OF inv_reachable [OF assms]] inv_reachable [OF assms]
  by (auto simp: launched_ok_def dest: step_shutting_down intro: start_launches_all)

text \<open>When all their channels are closed the goroutines end one by one, and \<open>Shutdown\<close> returns.\<close>

lemma goroutines_end:
  assumes "factory_inv s" "\<forall>(t, i, ch)\<in>set (fs_running s). ch \<in> set (fs_closed s)"
  shows "\<exists>s'. factory_step\<^sup>*\<^sup>* s s' \<and> factory_inv s' \<and> fs_running s' = [] \<and> fs_waiting s' = fs_waiting s
    \<and> fs_returned s' = fs_returned s"
  using assms
proof (induction "length (fs_running s)" arbitrary: s)
  case 0
  then show ?case by (intro exI [of _ s]) simp
next
  case (Suc n)
  then obtain g gs where g: "fs_running s = g # gs" by (cases "fs_running s") auto
  have st: "factory_step s (done_step 0 s)"
    using Suc(4) g by (intro factory_step.run_returns) auto
  from Suc(1) [of "done_step 0 s"] Suc(2,4) g inv_step [OF st Suc(3)]
  obtain s' where "factory_step\<^sup>*\<^sup>* (done_step 0 s) s'" "factory_inv s'" "fs_running s' = []"
    "fs_waiting s' = fs_waiting s" "fs_returned s' = fs_returned s"
    by (auto simp: done_step_def)
  with st show ?case by (blast intro: converse_rtranclp_into_rtranclp)
qed

text \<open>A call of \<open>Shutdown\<close> can return as soon as every channel the informers were started with is
  closed, from whatever state, and while the factory shuts down no step of anybody adds a goroutine
  it would have to wait for.\<close>

theorem shutdown_returns:
  assumes "factory_reachable (NewSharedInformerFactoryWithOptions client resync opts) s"
    and "fs_waiting s > 0" and "\<forall>(t, i, ch)\<in>set (fs_running s). ch \<in> set (fs_closed s)"
  shows "(\<exists>s'. factory_step\<^sup>*\<^sup>* s s' \<and> fs_returned s' = Suc (fs_returned s))
    \<and> (\<forall>s'. factory_step s s' \<longrightarrow> length (fs_running s') \<le> length (fs_running s))"
proof
  note inv = inv_reachable [OF assms(1)]
  obtain s' where s': "factory_step\<^sup>*\<^sup>* s s'" "factory_inv s'" "fs_running s' = []"
    "fs_waiting s' = fs_waiting s" "fs_returned s' = fs_returned s"
    using goroutines_end [OF inv assms(3)] by blast
  have "factory_step s' (s'\<lparr>fs_waiting := fs_waiting s' - 1, fs_returned := Suc (fs_returned s')\<rparr>)"
    using s' assms(2) factory_invD(3) [OF s'(2)] by (intro factory_step.shutdown_returns) auto
  with s' show "\<exists>s'. factory_step\<^sup>*\<^sup>* s s' \<and> fs_returned s' = Suc (fs_returned s)"
    by (intro exI conjI) (erule (1) rtranclp.rtrancl_into_rtrancl, simp)
  have "f_shuttingDown (fs_factory s)" using factory_invD(6) [OF inv] assms(2) by simp
  then show "\<forall>s'. factory_step s s' \<longrightarrow> length (fs_running s') \<le> length (fs_running s)"
    using step_shutting_down by blast
qed

end
