(* ===== verification/Sdk_Listers.thy ===== *)
theory Sdk_Listers
  imports Sdk_Clients
begin

text \<open>
  What the generated listers (\<open>sdk/listers\<close>) are built on: the indexer of an informer, with
      the functions
  of client-go and of kcp that list it, and the five kinds of lister.
\<close>

section \<open>Indexers\<close>

text \<open>
  The listing functions call back for every object that is selected and may end with an error, after
  which the objects seen so far are still returned. Objects are of any type \<open>'obj\<close>, selectors of
  any type \<open>'sel\<close>; \<open>ix_TypeOf\<close> is the dynamic type of an object.
\<close>

type_synonym 'obj listing = "'obj list \<times> go_error option"

record ('obj, 'sel) Indexer =
  ix_ListAll :: "'sel \<Rightarrow> 'obj listing"
  ix_ListAllByNamespace :: "string \<Rightarrow> 'sel \<Rightarrow> 'obj listing"
  ix_ListAllByCluster :: "string \<Rightarrow> 'sel \<Rightarrow> 'obj listing"
  ix_ListAllByClusterAndNamespace :: "string \<Rightarrow> string \<Rightarrow> 'sel \<Rightarrow> 'obj listing"
  ix_GetByKey :: "string \<Rightarrow> 'obj option res"
  ix_ToClusterAwareKey :: "string \<Rightarrow> string \<Rightarrow> string \<Rightarrow> string"
  ix_TypeOf :: "'obj \<Rightarrow> sdk_type"

text \<open>The type assertion \<open>obj.(*T)\<close>, and that of every object of a listing.\<close>

definition assert_type :: "('obj, 'sel) Indexer \<Rightarrow> sdk_type \<Rightarrow> 'obj \<Rightarrow>
    'obj res" where
  "assert_type ix t obj =
    (if ix_TypeOf ix obj = t then Inr obj else Inl (Panic ''interface conversion''))"

fun assert_types :: "('obj, 'sel) Indexer \<Rightarrow> sdk_type \<Rightarrow> 'obj list \<Rightarrow>
    'obj list res" where
  "assert_types ix t [] = Inr []"
| "assert_types ix t (obj # objs) =
    bindE (assert_type ix t obj) (\<lambda>x. bindE (assert_types ix t objs) (\<lambda>xs. Inr (x # xs)))"

definition collect :: "('obj, 'sel) Indexer \<Rightarrow> sdk_type \<Rightarrow> 'obj listing
    \<Rightarrow> 'obj listing res" where
  "collect ix t l = bindE (assert_types ix t (fst l)) (\<lambda>ret. Inr (ret, snd l))"

text \<open>\<open>errors.NewNotFound\<close>\<close>

definition NewNotFound :: "GroupResource \<Rightarrow> string \<Rightarrow> go_error" where
  "NewNotFound gr name = NotFound (snd gr @ ''.'' @ fst gr @ '' '' @ name @ '' not found'')"

definition found :: "('obj, 'sel) Indexer \<Rightarrow> sdk_type \<Rightarrow> GroupResource \<Rightarrow>
    string \<Rightarrow> 'obj option \<Rightarrow> 'obj res" where
  "found ix t gr name obj =
    (case obj of None \<Rightarrow> Inl (NewNotFound gr name) | Some obj \<Rightarrow> assert_type ix t obj)"

section \<open>Listers\<close>

record ('obj, 'sel) cluster_lister =
  cl_indexer :: "('obj, 'sel) Indexer"

record ('obj, 'sel) workspace_lister =
  wl_indexer :: "('obj, 'sel) Indexer"
  wl_clusterName :: string

record ('obj, 'sel) namespace_lister =
  nl_indexer :: "('obj, 'sel) Indexer"
  nl_clusterName :: string
  nl_namespace :: string

record ('obj, 'sel) scoped_lister =
  sl_indexer :: "('obj, 'sel) Indexer"

record ('obj, 'sel) scoped_namespace_lister =
  sn_indexer :: "('obj, 'sel) Indexer"
  sn_namespace :: string

lemma assert_types_all: "list_all (\<lambda>x. ix_TypeOf ix x = t) xs \<Longrightarrow> assert_types ix t
    xs = Inr xs"
  by (induction xs) (simp_all add: assert_type_def)

lemma assert_types_Inr: "assert_types ix t xs = Inr ys \<longleftrightarrow> ys = xs \<and> list_all
    (\<lambda>x. ix_TypeOf ix x = t) xs"
  by (induction xs arbitrary: ys) (auto simp: assert_type_def bindE_eq_Inr)

lemma collect_Inr: "collect ix t l = Inr l' \<longleftrightarrow> l' = l \<and> list_all (\<lambda>x.
    ix_TypeOf ix x = t) (fst l)"
  by (cases l) (auto simp: collect_def bindE_eq_Inr assert_types_Inr)

chapter \<open>The listers\<close>

text \<open>The generated listers of every API object:
    \<open>sdk/listers/{operator,deploy}/v1alpha1\<close>.\<close>

section \<open>CacheServers\<close>

text \<open>\<open>sdk/listers/operator/v1alpha1/cacheserver.go\<close>\<close>

definition NewCacheServerClusterLister :: "('obj, 'sel) Indexer \<Rightarrow> ('obj, 'sel) cluster_lister" where
  "NewCacheServerClusterLister indexer = \<lparr>cl_indexer = indexer\<rparr>"

definition cacheServerClusterLister_List :: "('obj, 'sel) cluster_lister \<Rightarrow> 'sel \<Rightarrow>
    'obj listing res" where
  "cacheServerClusterLister_List s selector = collect (cl_indexer s) TCacheServer (ix_ListAll (cl_indexer
      s) selector)"

definition cacheServerClusterLister_Cluster :: "('obj, 'sel) cluster_lister \<Rightarrow> string
    \<Rightarrow> ('obj, 'sel) workspace_lister" where
  "cacheServerClusterLister_Cluster s clusterName = \<lparr>wl_indexer = cl_indexer s, wl_clusterName =
      clusterName\<rparr>"

definition cacheServerLister_List :: "('obj, 'sel) workspace_lister \<Rightarrow> 'sel \<Rightarrow> 'obj
    listing res" where
  "cacheServerLister_List s selector =
    collect (wl_indexer s) TCacheServer (ix_ListAllByCluster (wl_indexer s) (wl_clusterName s) selector)"

definition cacheServerLister_CacheServers :: "('obj, 'sel) workspace_lister \<Rightarrow> string
    \<Rightarrow> ('obj, 'sel) namespace_lister" where
  "cacheServerLister_CacheServers s namespace =
    \<lparr>nl_indexer = wl_indexer s, nl_clusterName = wl_clusterName s, nl_namespace = namespace\<rparr>"

definition cacheServerNamespaceLister_List :: "('obj, 'sel) namespace_lister \<Rightarrow> 'sel
    \<Rightarrow> 'obj listing res" where
  "cacheServerNamespaceLister_List s selector =
    collect (nl_indexer s) TCacheServer
      (ix_ListAllByClusterAndNamespace (nl_indexer s) (nl_clusterName s) (nl_namespace s) selector)"

definition cacheServerNamespaceLister_Get :: "('obj, 'sel) namespace_lister \<Rightarrow> string
    \<Rightarrow> 'obj res" where
  "cacheServerNamespaceLister_Get s name =
    (let key = ix_ToClusterAwareKey (nl_indexer s) (nl_clusterName s) (nl_namespace s) name
     in bindE (ix_GetByKey (nl_indexer s) key) (found (nl_indexer s) TCacheServer (operator_Resource
         ''cacheservers'') name))"

definition NewCacheServerLister :: "('obj, 'sel) Indexer \<Rightarrow> ('obj, 'sel) scoped_lister" where
  "NewCacheServerLister indexer = \<lparr>sl_indexer = indexer\<rparr>"

definition cacheServerScopedLister_List :: "('obj, 'sel) scoped_lister \<Rightarrow> 'sel \<Rightarrow>
    'obj listing res" where
  "cacheServerScopedLister_List s selector = collect (sl_indexer s) TCacheServer (ix_ListAll (sl_indexer
      s) selector)"

definition cacheServerScopedLister_CacheServers :: "('obj, 'sel) scoped_lister \<Rightarrow> string
    \<Rightarrow> ('obj, 'sel) scoped_namespace_lister" where
  "cacheServerScopedLister_CacheServers s namespace = \<lparr>sn_indexer = sl_indexer s, sn_namespace =
      namespace\<rparr>"

definition cacheServerScopedNamespaceLister_List :: "('obj, 'sel) scoped_namespace_lister \<Rightarrow>
    'sel \<Rightarrow> 'obj listing res" where
  "cacheServerScopedNamespaceLister_List s selector =
    collect (sn_indexer s) TCacheServer (ix_ListAllByNamespace (sn_indexer s) (sn_namespace s) selector)"

definition cacheServerScopedNamespaceLister_Get :: "('obj, 'sel) scoped_namespace_lister \<Rightarrow>
    string \<Rightarrow> 'obj res" where
  "cacheServerScopedNamespaceLister_Get s name =
    (let key = sn_namespace s @ ''/'' @ name
     in bindE (ix_GetByKey (sn_indexer s) key) (found (sn_indexer s) TCacheServer (operator_Resource
         ''cacheservers'') name))"

section \<open>FrontProxies\<close>

text \<open>\<open>sdk/listers/operator/v1alpha1/frontproxy.go\<close>\<close>

definition NewFrontProxyClusterLister :: "('obj, 'sel) Indexer \<Rightarrow> ('obj, 'sel) cluster_lister" where
  "NewFrontProxyClusterLister indexer = \<lparr>cl_indexer = indexer\<rparr>"

definition frontProxyClusterLister_List :: "('obj, 'sel) cluster_lister \<Rightarrow> 'sel \<Rightarrow>
    'obj listing res" where
  "frontProxyClusterLister_List s selector = collect (cl_indexer s) TFrontProxy (ix_ListAll (cl_indexer s)
      selector)"

definition frontProxyClusterLister_Cluster :: "('obj, 'sel) cluster_lister \<Rightarrow> string
    \<Rightarrow> ('obj, 'sel) workspace_lister" where
  "frontProxyClusterLister_Cluster s clusterName = \<lparr>wl_indexer = cl_indexer s, wl_clusterName =
      clusterName\<rparr>"

definition frontProxyLister_List :: "('obj, 'sel) workspace_lister \<Rightarrow> 'sel \<Rightarrow> 'obj
    listing res" where
  "frontProxyLister_List s selector =
    collect (wl_indexer s) TFrontProxy (ix_ListAllByCluster (wl_indexer s) (wl_clusterName s) selector)"

definition frontProxyLister_FrontProxies :: "('obj, 'sel) workspace_lister \<Rightarrow> string
    \<Rightarrow> ('obj, 'sel) namespace_lister" where
  "frontProxyLister_FrontProxies s namespace =
    \<lparr>nl_indexer = wl_indexer s, nl_clusterName = wl_clusterName s, nl_namespace = namespace\<rparr>"

definition frontProxyNamespaceLister_List :: "('obj, 'sel) namespace_lister \<Rightarrow> 'sel
    \<Rightarrow> 'obj listing res" where
  "frontProxyNamespaceLister_List s selector =
    collect (nl_indexer s) TFrontProxy
      (ix_ListAllByClusterAndNamespace (nl_indexer s) (nl_clusterName s) (nl_namespace s) selector)"

definition frontProxyNamespaceLister_Get :: "('obj, 'sel) namespace_lister \<Rightarrow> string
    \<Rightarrow> 'obj res" where
  "frontProxyNamespaceLister_Get s name =
    (let key = ix_ToClusterAwareKey (nl_indexer s) (nl_clusterName s) (nl_namespace s) name
     in bindE (ix_GetByKey (nl_indexer s) key) (found (nl_indexer s) TFrontProxy (operator_Resource
         ''frontproxies'') name))"

definition NewFrontProxyLister :: "('obj, 'sel) Indexer \<Rightarrow> ('obj, 'sel) scoped_lister" where
  "NewFrontProxyLister indexer = \<lparr>sl_indexer = indexer\<rparr>"

definition frontProxyScopedLister_List :: "('obj, 'sel) scoped_lister \<Rightarrow> 'sel \<Rightarrow>
    'obj listing res" where
  "frontProxyScopedLister_List s selector = collect (sl_indexer s) TFrontProxy (ix_ListAll (sl_indexer s)
      selector)"

definition frontProxyScopedLister_FrontProxies :: "('obj, 'sel) scoped_lister \<Rightarrow> string
    \<Rightarrow> ('obj, 'sel) scoped_namespace_lister" where
  "frontProxyScopedLister_FrontProxies s namespace = \<lparr>sn_indexer = sl_indexer s, sn_namespace =
      namespace\<rparr>"

definition frontProxyScopedNamespaceLister_List :: "('obj, 'sel) scoped_namespace_lister \<Rightarrow>
    'sel \<Rightarrow> 'obj listing res" where
  "frontProxyScopedNamespaceLister_List s selector =
    collect (sn_indexer s) TFrontProxy (ix_ListAllByNamespace (sn_indexer s) (sn_namespace s) selector)"

definition frontProxyScopedNamespaceLister_Get :: "('obj, 'sel) scoped_namespace_lister \<Rightarrow>
    string \<Rightarrow> 'obj res" where
  "frontProxyScopedNamespaceLister_Get s name =
    (let key = sn_namespace s @ ''/'' @ name
     in bindE (ix_GetByKey (sn_indexer s) key) (found (sn_indexer s) TFrontProxy (operator_Resource
         ''frontproxies'') name))"

section \<open>Kubeconfigs\<close>

text \<open>\<open>sdk/listers/operator/v1alpha1/kubeconfig.go\<close>\<close>

definition NewKubeconfigClusterLister :: "('obj, 'sel) Indexer \<Rightarrow> ('obj, 'sel) cluster_lister" where
  "NewKubeconfigClusterLister indexer = \<lparr>cl_indexer = indexer\<rparr>"

definition kubeconfigClusterLister_List :: "('obj, 'sel) cluster_lister \<Rightarrow> 'sel \<Rightarrow>
    'obj listing res" where
  "kubeconfigClusterLister_List s selector = collect (cl_indexer s) TKubeconfig (ix_ListAll (cl_indexer s)
      selector)"

definition kubeconfigClusterLister_Cluster :: "('obj, 'sel) cluster_lister \<Rightarrow> string
    \<Rightarrow> ('obj, 'sel) workspace_lister" where
  "kubeconfigClusterLister_Cluster s clusterName = \<lparr>wl_indexer = cl_indexer s, wl_clusterName =
      clusterName\<rparr>"

definition kubeconfigLister_List :: "('obj, 'sel) workspace_lister \<Rightarrow> 'sel \<Rightarrow> 'obj
    listing res" where
  "kubeconfigLister_List s selector =
    collect (wl_indexer s) TKubeconfig (ix_ListAllByCluster (wl_indexer s) (wl_clusterName s) selector)"

definition kubeconfigLister_Kubeconfigs :: "('obj, 'sel) workspace_lister \<Rightarrow> string
    \<Rightarrow> ('obj, 'sel) namespace_lister" where
  "kubeconfigLister_Kubeconfigs s namespace =
    \<lparr>nl_indexer = wl_indexer s, nl_clusterName = wl_clusterName s, nl_namespace = namespace\<rparr>"

definition kubeconfigNamespaceLister_List :: "('obj, 'sel) namespace_lister \<Rightarrow> 'sel
    \<Rightarrow> 'obj listing res" where
  "kubeconfigNamespaceLister_List s selector =
    collect (nl_indexer s) TKubeconfig
      (ix_ListAllByClusterAndNamespace (nl_indexer s) (nl_clusterName s) (nl_namespace s) selector)"

definition kubeconfigNamespaceLister_Get :: "('obj, 'sel) namespace_lister \<Rightarrow> string
    \<Rightarrow> 'obj res" where
  "kubeconfigNamespaceLister_Get s name =
    (let key = ix_ToClusterAwareKey (nl_indexer s) (nl_clusterName s) (nl_namespace s) name
     in bindE (ix_GetByKey (nl_indexer s) key) (found (nl_indexer s) TKubeconfig (operator_Resource
         ''kubeconfigs'') name))"

definition NewKubeconfigLister :: "('obj, 'sel) Indexer \<Rightarrow> ('obj, 'sel) scoped_lister" where
  "NewKubeconfigLister indexer = \<lparr>sl_indexer = indexer\<rparr>"

definition kubeconfigScopedLister_List :: "('obj, 'sel) scoped_lister \<Rightarrow> 'sel \<Rightarrow>
    'obj listing res" where
  "kubeconfigScopedLister_List s selector = collect (sl_indexer s) TKubeconfig (ix_ListAll (sl_indexer s)
      selector)"

definition kubeconfigScopedLister_Kubeconfigs :: "('obj, 'sel) scoped_lister \<Rightarrow> string
    \<Rightarrow> ('obj, 'sel) scoped_namespace_lister" where
  "kubeconfigScopedLister_Kubeconfigs s namespace = \<lparr>sn_indexer = sl_indexer s, sn_namespace =
      namespace\<rparr>"

definition kubeconfigScopedNamespaceLister_List :: "('obj, 'sel) scoped_namespace_lister \<Rightarrow>
    'sel \<Rightarrow> 'obj listing res" where
  "kubeconfigScopedNamespaceLister_List s selector =
    collect (sn_indexer s) TKubeconfig (ix_ListAllByNamespace (sn_indexer s) (sn_namespace s) selector)"

definition kubeconfigScopedNamespaceLister_Get :: "('obj, 'sel) scoped_namespace_lister \<Rightarrow>
    string \<Rightarrow> 'obj res" where
  "kubeconfigScopedNamespaceLister_Get s name =
    (let key = sn_namespace s @ ''/'' @ name
     in bindE (ix_GetByKey (sn_indexer s) key) (found (sn_indexer s) TKubeconfig (operator_Resource
         ''kubeconfigs'') name))"

section \<open>RootShards\<close>

text \<open>\<open>sdk/listers/operator/v1alpha1/rootshard.go\<close>\<close>

definition NewRootShardClusterLister :: "('obj, 'sel) Indexer \<Rightarrow> ('obj, 'sel) cluster_lister" where
  "NewRootShardClusterLister indexer = \<lparr>cl_indexer = indexer\<rparr>"

definition rootShardClusterLister_List :: "('obj, 'sel) cluster_lister \<Rightarrow> 'sel \<Rightarrow>
    'obj listing res" where
  "rootShardClusterLister_List s selector = collect (cl_indexer s) TRootShard (ix_ListAll (cl_indexer s)
      selector)"

definition rootShardClusterLister_Cluster :: "('obj, 'sel) cluster_lister \<Rightarrow> string
    \<Rightarrow> ('obj, 'sel) workspace_lister" where
  "rootShardClusterLister_Cluster s clusterName = \<lparr>wl_indexer = cl_indexer s, wl_clusterName =
      clusterName\<rparr>"

definition rootShardLister_List :: "('obj, 'sel) workspace_lister \<Rightarrow> 'sel \<Rightarrow> 'obj
    listing res" where
  "rootShardLister_List s selector =
    collect (wl_indexer s) TRootShard (ix_ListAllByCluster (wl_indexer s) (wl_clusterName s) selector)"

definition rootShardLister_RootShards :: "('obj, 'sel) workspace_lister \<Rightarrow> string \<Rightarrow>
    ('obj, 'sel) namespace_lister" where
  "rootShardLister_RootShards s namespace =
    \<lparr>nl_indexer = wl_indexer s, nl_clusterName = wl_clusterName s, nl_namespace = namespace\<rparr>"

definition rootShardNamespaceLister_List :: "('obj, 'sel) namespace_lister \<Rightarrow> 'sel
    \<Rightarrow> 'obj listing res" where
  "rootShardNamespaceLister_List s selector =
    collect (nl_indexer s) TRootShard
      (ix_ListAllByClusterAndNamespace (nl_indexer s) (nl_clusterName s) (nl_namespace s) selector)"

definition rootShardNamespaceLister_Get :: "('obj, 'sel) namespace_lister \<Rightarrow> string
    \<Rightarrow> 'obj res" where
  "rootShardNamespaceLister_Get s name =
    (let key = ix_ToClusterAwareKey (nl_indexer s) (nl_clusterName s) (nl_namespace s) name
     in bindE (ix_GetByKey (nl_indexer s) key) (found (nl_indexer s) TRootShard (operator_Resource
         ''rootshards'') name))"

definition NewRootShardLister :: "('obj, 'sel) Indexer \<Rightarrow> ('obj, 'sel) scoped_lister" where
  "NewRootShardLister indexer = \<lparr>sl_indexer = indexer\<rparr>"

definition rootShardScopedLister_List :: "('obj, 'sel) scoped_lister \<Rightarrow> 'sel \<Rightarrow> 'obj
    listing res" where
  "rootShardScopedLister_List s selector = collect (sl_indexer s) TRootShard (ix_ListAll (sl_indexer s)
      selector)"

definition rootShardScopedLister_RootShards :: "('obj, 'sel) scoped_lister \<Rightarrow> string
    \<Rightarrow> ('obj, 'sel) scoped_namespace_lister" where
  "rootShardScopedLister_RootShards s namespace = \<lparr>sn_indexer = sl_indexer s, sn_namespace =
      namespace\<rparr>"

definition rootShardScopedNamespaceLister_List :: "('obj, 'sel) scoped_namespace_lister \<Rightarrow> 'sel
    \<Rightarrow> 'obj listing res" where
  "rootShardScopedNamespaceLister_List s selector =
    collect (sn_indexer s) TRootShard (ix_ListAllByNamespace (sn_indexer s) (sn_namespace s) selector)"

definition rootShardScopedNamespaceLister_Get :: "('obj, 'sel) scoped_namespace_lister \<Rightarrow>
    string \<Rightarrow> 'obj res" where
  "rootShardScopedNamespaceLister_Get s name =
    (let key = sn_namespace s @ ''/'' @ name
     in bindE (ix_GetByKey (sn_indexer s) key) (found (sn_indexer s) TRootShard (operator_Resource
         ''rootshards'') name))"

section \<open>Shards\<close>

text \<open>\<open>sdk/listers/operator/v1alpha1/shard.go\<close>\<close>

definition NewShardClusterLister :: "('obj, 'sel) Indexer \<Rightarrow> ('obj, 'sel) cluster_lister" where
  "NewShardClusterLister indexer = \<lparr>cl_indexer = indexer\<rparr>"

definition shardClusterLister_List :: "('obj, 'sel) cluster_lister \<Rightarrow> 'sel \<Rightarrow> 'obj
    listing res" where
  "shardClusterLister_List s selector = collect (cl_indexer s) TShard (ix_ListAll (cl_indexer s) selector)"

definition shardClusterLister_Cluster :: "('obj, 'sel) cluster_lister \<Rightarrow> string \<Rightarrow>
    ('obj, 'sel) workspace_lister" where
  "shardClusterLister_Cluster s clusterName = \<lparr>wl_indexer = cl_indexer s, wl_clusterName =
      clusterName\<rparr>"

definition shardLister_List :: "('obj, 'sel) workspace_lister \<Rightarrow> 'sel \<Rightarrow> 'obj
    listing res" where
  "shardLister_List s selector =
    collect (wl_indexer s) TShard (ix_ListAllByCluster (wl_indexer s) (wl_clusterName s) selector)"

definition shardLister_Shards :: "('obj, 'sel) workspace_lister \<Rightarrow> string \<Rightarrow> ('obj,
    'sel) namespace_lister" where
  "shardLister_Shards s namespace =
    \<lparr>nl_indexer = wl_indexer s, nl_clusterName = wl_clusterName s, nl_namespace = namespace\<rparr>"

definition shardNamespaceLister_List :: "('obj, 'sel) namespace_lister \<Rightarrow> 'sel \<Rightarrow>
    'obj listing res" where
  "shardNamespaceLister_List s selector =
    collect (nl_indexer s) TShard
      (ix_ListAllByClusterAndNamespace (nl_indexer s) (nl_clusterName s) (nl_namespace s) selector)"

definition shardNamespaceLister_Get :: "('obj, 'sel) namespace_lister \<Rightarrow> string \<Rightarrow>
    'obj res" where
  "shardNamespaceLister_Get s name =
    (let key = ix_ToClusterAwareKey (nl_indexer s) (nl_clusterName s) (nl_namespace s) name
     in bindE (ix_GetByKey (nl_indexer s) key) (found (nl_indexer s) TShard (operator_Resource ''shards'')
         name))"

definition NewShardLister :: "('obj, 'sel) Indexer \<Rightarrow> ('obj, 'sel) scoped_lister" where
  "NewShardLister indexer = \<lparr>sl_indexer = indexer\<rparr>"

definition shardScopedLister_List :: "('obj, 'sel) scoped_lister \<Rightarrow> 'sel \<Rightarrow> 'obj
    listing res" where
  "shardScopedLister_List s selector = collect (sl_indexer s) TShard (ix_ListAll (sl_indexer s) selector)"

definition shardScopedLister_Shards :: "('obj, 'sel) scoped_lister \<Rightarrow> string \<Rightarrow>
    ('obj, 'sel) scoped_namespace_lister" where
  "shardScopedLister_Shards s namespace = \<lparr>sn_indexer = sl_indexer s, sn_namespace = namespace\<rparr>"

definition shardScopedNamespaceLister_List :: "('obj, 'sel) scoped_namespace_lister \<Rightarrow> 'sel
    \<Rightarrow> 'obj listing res" where
  "shardScopedNamespaceLister_List s selector =
    collect (sn_indexer s) TShard (ix_ListAllByNamespace (sn_indexer s) (sn_namespace s) selector)"

definition shardScopedNamespaceLister_Get :: "('obj, 'sel) scoped_namespace_lister \<Rightarrow> string
    \<Rightarrow> 'obj res" where
  "shardScopedNamespaceLister_Get s name =
    (let key = sn_namespace s @ ''/'' @ name
     in bindE (ix_GetByKey (sn_indexer s) key) (found (sn_indexer s) TShard (operator_Resource ''shards'')
         name))"

section \<open>VirtualWorkspaces\<close>

text \<open>\<open>sdk/listers/operator/v1alpha1/virtualworkspace.go\<close>\<close>

definition NewVirtualWorkspaceClusterLister :: "('obj, 'sel) Indexer \<Rightarrow> ('obj, 'sel)
    cluster_lister" where
  "NewVirtualWorkspaceClusterLister indexer = \<lparr>cl_indexer = indexer\<rparr>"

definition virtualWorkspaceClusterLister_List :: "('obj, 'sel) cluster_lister \<Rightarrow> 'sel
    \<Rightarrow> 'obj listing res" where
  "virtualWorkspaceClusterLister_List s selector = collect (cl_indexer s) TVirtualWorkspace (ix_ListAll
      (cl_indexer s) selector)"

definition virtualWorkspaceClusterLister_Cluster :: "('obj, 'sel) cluster_lister \<Rightarrow> string
    \<Rightarrow> ('obj, 'sel) workspace_lister" where
  "virtualWorkspaceClusterLister_Cluster s clusterName = \<lparr>wl_indexer = cl_indexer s, wl_clusterName
      = clusterName\<rparr>"

definition virtualWorkspaceLister_List :: "('obj, 'sel) workspace_lister \<Rightarrow> 'sel \<Rightarrow>
    'obj listing res" where
  "virtualWorkspaceLister_List s selector =
    collect (wl_indexer s) TVirtualWorkspace (ix_ListAllByCluster (wl_indexer s) (wl_clusterName s) selector)"

definition virtualWorkspaceLister_VirtualWorkspaces :: "('obj, 'sel) workspace_lister \<Rightarrow> string
    \<Rightarrow> ('obj, 'sel) namespace_lister" where
  "virtualWorkspaceLister_VirtualWorkspaces s namespace =
    \<lparr>nl_indexer = wl_indexer s, nl_clusterName = wl_clusterName s, nl_namespace = namespace\<rparr>"

definition virtualWorkspaceNamespaceLister_List :: "('obj, 'sel) namespace_lister \<Rightarrow> 'sel
    \<Rightarrow> 'obj listing res" where
  "virtualWorkspaceNamespaceLister_List s selector =
    collect (nl_indexer s) TVirtualWorkspace
      (ix_ListAllByClusterAndNamespace (nl_indexer s) (nl_clusterName s) (nl_namespace s) selector)"

definition virtualWorkspaceNamespaceLister_Get :: "('obj, 'sel) namespace_lister \<Rightarrow> string
    \<Rightarrow> 'obj res" where
  "virtualWorkspaceNamespaceLister_Get s name =
    (let key = ix_ToClusterAwareKey (nl_indexer s) (nl_clusterName s) (nl_namespace s) name
     in bindE (ix_GetByKey (nl_indexer s) key) (found (nl_indexer s) TVirtualWorkspace (operator_Resource
         ''virtualworkspaces'') name))"

definition NewVirtualWorkspaceLister :: "('obj, 'sel) Indexer \<Rightarrow> ('obj, 'sel) scoped_lister" where
  "NewVirtualWorkspaceLister indexer = \<lparr>sl_indexer = indexer\<rparr>"

definition virtualWorkspaceScopedLister_List :: "('obj, 'sel) scoped_lister \<Rightarrow> 'sel
    \<Rightarrow> 'obj listing res" where
  "virtualWorkspaceScopedLister_List s selector = collect (sl_indexer s) TVirtualWorkspace (ix_ListAll
      (sl_indexer s) selector)"

definition virtualWorkspaceScopedLister_VirtualWorkspaces :: "('obj, 'sel) scoped_lister \<Rightarrow>
    string \<Rightarrow> ('obj, 'sel) scoped_namespace_lister" where
  "virtualWorkspaceScopedLister_VirtualWorkspaces s namespace = \<lparr>sn_indexer = sl_indexer s,
      sn_namespace = namespace\<rparr>"

definition virtualWorkspaceScopedNamespaceLister_List :: "('obj, 'sel) scoped_namespace_lister
    \<Rightarrow> 'sel \<Rightarrow> 'obj listing res" where
  "virtualWorkspaceScopedNamespaceLister_List s selector =
    collect (sn_indexer s) TVirtualWorkspace (ix_ListAllByNamespace (sn_indexer s) (sn_namespace s) selector)"

definition virtualWorkspaceScopedNamespaceLister_Get :: "('obj, 'sel) scoped_namespace_lister
    \<Rightarrow> string \<Rightarrow> 'obj res" where
  "virtualWorkspaceScopedNamespaceLister_Get s name =
    (let key = sn_namespace s @ ''/'' @ name
     in bindE (ix_GetByKey (sn_indexer s) key) (found (sn_indexer s) TVirtualWorkspace (operator_Resource
         ''virtualworkspaces'') name))"

section \<open>CompiledCacheServers\<close>

text \<open>\<open>sdk/listers/deploy/v1alpha1/compiledcacheserver.go\<close>\<close>

definition NewCompiledCacheServerClusterLister :: "('obj, 'sel) Indexer \<Rightarrow> ('obj, 'sel)
    cluster_lister" where
  "NewCompiledCacheServerClusterLister indexer = \<lparr>cl_indexer = indexer\<rparr>"

definition compiledCacheServerClusterLister_List :: "('obj, 'sel) cluster_lister \<Rightarrow> 'sel
    \<Rightarrow> 'obj listing res" where
  "compiledCacheServerClusterLister_List s selector = collect (cl_indexer s) TCompiledCacheServer
      (ix_ListAll (cl_indexer s) selector)"

definition compiledCacheServerClusterLister_Cluster :: "('obj, 'sel) cluster_lister \<Rightarrow> string
    \<Rightarrow> ('obj, 'sel) workspace_lister" where
  "compiledCacheServerClusterLister_Cluster s clusterName = \<lparr>wl_indexer = cl_indexer s,
      wl_clusterName = clusterName\<rparr>"

definition compiledCacheServerLister_List :: "('obj, 'sel) workspace_lister \<Rightarrow> 'sel
    \<Rightarrow> 'obj listing res" where
  "compiledCacheServerLister_List s selector =
    collect (wl_indexer s) TCompiledCacheServer (ix_ListAllByCluster (wl_indexer s) (wl_clusterName s)
        selector)"

definition compiledCacheServerLister_CompiledCacheServers :: "('obj, 'sel) workspace_lister \<Rightarrow>
    string \<Rightarrow> ('obj, 'sel) namespace_lister" where
  "compiledCacheServerLister_CompiledCacheServers s namespace =
    \<lparr>nl_indexer = wl_indexer s, nl_clusterName = wl_clusterName s, nl_namespace = namespace\<rparr>"

definition compiledCacheServerNamespaceLister_List :: "('obj, 'sel) namespace_lister \<Rightarrow> 'sel
    \<Rightarrow> 'obj listing res" where
  "compiledCacheServerNamespaceLister_List s selector =
    collect (nl_indexer s) TCompiledCacheServer
      (ix_ListAllByClusterAndNamespace (nl_indexer s) (nl_clusterName s) (nl_namespace s) selector)"

definition compiledCacheServerNamespaceLister_Get :: "('obj, 'sel) namespace_lister \<Rightarrow> string
    \<Rightarrow> 'obj res" where
  "compiledCacheServerNamespaceLister_Get s name =
    (let key = ix_ToClusterAwareKey (nl_indexer s) (nl_clusterName s) (nl_namespace s) name
     in bindE (ix_GetByKey (nl_indexer s) key) (found (nl_indexer s) TCompiledCacheServer (deploy_Resource
         ''compiledcacheservers'') name))"

definition NewCompiledCacheServerLister :: "('obj, 'sel) Indexer \<Rightarrow> ('obj, 'sel) scoped_lister" where
  "NewCompiledCacheServerLister indexer = \<lparr>sl_indexer = indexer\<rparr>"

definition compiledCacheServerScopedLister_List :: "('obj, 'sel) scoped_lister \<Rightarrow> 'sel
    \<Rightarrow> 'obj listing res" where
  "compiledCacheServerScopedLister_List s selector = collect (sl_indexer s) TCompiledCacheServer
      (ix_ListAll (sl_indexer s) selector)"

definition compiledCacheServerScopedLister_CompiledCacheServers :: "('obj, 'sel) scoped_lister
    \<Rightarrow> string \<Rightarrow> ('obj, 'sel) scoped_namespace_lister" where
  "compiledCacheServerScopedLister_CompiledCacheServers s namespace = \<lparr>sn_indexer = sl_indexer s,
      sn_namespace = namespace\<rparr>"

definition compiledCacheServerScopedNamespaceLister_List :: "('obj, 'sel) scoped_namespace_lister
    \<Rightarrow> 'sel \<Rightarrow> 'obj listing res" where
  "compiledCacheServerScopedNamespaceLister_List s selector =
    collect (sn_indexer s) TCompiledCacheServer (ix_ListAllByNamespace (sn_indexer s) (sn_namespace s)
        selector)"

definition compiledCacheServerScopedNamespaceLister_Get :: "('obj, 'sel) scoped_namespace_lister
    \<Rightarrow> string \<Rightarrow> 'obj res" where
  "compiledCacheServerScopedNamespaceLister_Get s name =
    (let key = sn_namespace s @ ''/'' @ name
     in bindE (ix_GetByKey (sn_indexer s) key) (found (sn_indexer s) TCompiledCacheServer (deploy_Resource
         ''compiledcacheservers'') name))"

section \<open>CompiledFrontProxies\<close>

text \<open>\<open>sdk/listers/deploy/v1alpha1/compiledfrontproxy.go\<close>\<close>

definition NewCompiledFrontProxyClusterLister :: "('obj, 'sel) Indexer \<Rightarrow> ('obj, 'sel)
    cluster_lister" where
  "NewCompiledFrontProxyClusterLister indexer = \<lparr>cl_indexer = indexer\<rparr>"

definition compiledFrontProxyClusterLister_List :: "('obj, 'sel) cluster_lister \<Rightarrow> 'sel
    \<Rightarrow> 'obj listing res" where
  "compiledFrontProxyClusterLister_List s selector = collect (cl_indexer s) TCompiledFrontProxy
      (ix_ListAll (cl_indexer s) selector)"

definition compiledFrontProxyClusterLister_Cluster :: "('obj, 'sel) cluster_lister \<Rightarrow> string
    \<Rightarrow> ('obj, 'sel) workspace_lister" where
  "compiledFrontProxyClusterLister_Cluster s clusterName = \<lparr>wl_indexer = cl_indexer s,
      wl_clusterName = clusterName\<rparr>"

definition compiledFrontProxyLister_List :: "('obj, 'sel) workspace_lister \<Rightarrow> 'sel
    \<Rightarrow> 'obj listing res" where
  "compiledFrontProxyLister_List s selector =
    collect (wl_indexer s) TCompiledFrontProxy (ix_ListAllByCluster (wl_indexer s) (wl_clusterName s) selector)"

definition compiledFrontProxyLister_CompiledFrontProxies :: "('obj, 'sel) workspace_lister \<Rightarrow>
    string \<Rightarrow> ('obj, 'sel) namespace_lister" where
  "compiledFrontProxyLister_CompiledFrontProxies s namespace =
    \<lparr>nl_indexer = wl_indexer s, nl_clusterName = wl_clusterName s, nl_namespace = namespace\<rparr>"

definition compiledFrontProxyNamespaceLister_List :: "('obj, 'sel) namespace_lister \<Rightarrow> 'sel
    \<Rightarrow> 'obj listing res" where
  "compiledFrontProxyNamespaceLister_List s selector =
    collect (nl_indexer s) TCompiledFrontProxy
      (ix_ListAllByClusterAndNamespace (nl_indexer s) (nl_clusterName s) (nl_namespace s) selector)"

definition compiledFrontProxyNamespaceLister_Get :: "('obj, 'sel) namespace_lister \<Rightarrow> string
    \<Rightarrow> 'obj res" where
  "compiledFrontProxyNamespaceLister_Get s name =
    (let key = ix_ToClusterAwareKey (nl_indexer s) (nl_clusterName s) (nl_namespace s) name
     in bindE (ix_GetByKey (nl_indexer s) key) (found (nl_indexer s) TCompiledFrontProxy (deploy_Resource
         ''compiledfrontproxies'') name))"

definition NewCompiledFrontProxyLister :: "('obj, 'sel) Indexer \<Rightarrow> ('obj, 'sel) scoped_lister" where
  "NewCompiledFrontProxyLister indexer = \<lparr>sl_indexer = indexer\<rparr>"

definition compiledFrontProxyScopedLister_List :: "('obj, 'sel) scoped_lister \<Rightarrow> 'sel
    \<Rightarrow> 'obj listing res" where
  "compiledFrontProxyScopedLister_List s selector = collect (sl_indexer s) TCompiledFrontProxy (ix_ListAll
      (sl_indexer s) selector)"

definition compiledFrontProxyScopedLister_CompiledFrontProxies :: "('obj, 'sel) scoped_lister
    \<Rightarrow> string \<Rightarrow> ('obj, 'sel) scoped_namespace_lister" where
  "compiledFrontProxyScopedLister_CompiledFrontProxies s namespace = \<lparr>sn_indexer = sl_indexer s,
      sn_namespace = namespace\<rparr>"

definition compiledFrontProxyScopedNamespaceLister_List :: "('obj, 'sel) scoped_namespace_lister
    \<Rightarrow> 'sel \<Rightarrow> 'obj listing res" where
  "compiledFrontProxyScopedNamespaceLister_List s selector =
    collect (sn_indexer s) TCompiledFrontProxy (ix_ListAllByNamespace (sn_indexer s) (sn_namespace s) selector)"

definition compiledFrontProxyScopedNamespaceLister_Get :: "('obj, 'sel) scoped_namespace_lister
    \<Rightarrow> string \<Rightarrow> 'obj res" where
  "compiledFrontProxyScopedNamespaceLister_Get s name =
    (let key = sn_namespace s @ ''/'' @ name
     in bindE (ix_GetByKey (sn_indexer s) key) (found (sn_indexer s) TCompiledFrontProxy (deploy_Resource
         ''compiledfrontproxies'') name))"

section \<open>CompiledRootShards\<close>

text \<open>\<open>sdk/listers/deploy/v1alpha1/compiledrootshard.go\<close>\<close>

definition NewCompiledRootShardClusterLister :: "('obj, 'sel) Indexer \<Rightarrow> ('obj, 'sel)
    cluster_lister" where
  "NewCompiledRootShardClusterLister indexer = \<lparr>cl_indexer = indexer\<rparr>"

definition compiledRootShardClusterLister_List :: "('obj, 'sel) cluster_lister \<Rightarrow> 'sel
    \<Rightarrow> 'obj listing res" where
  "compiledRootShardClusterLister_List s selector = collect (cl_indexer s) TCompiledRootShard (ix_ListAll
      (cl_indexer s) selector)"

definition compiledRootShardClusterLister_Cluster :: "('obj, 'sel) cluster_lister \<Rightarrow> string
    \<Rightarrow> ('obj, 'sel) workspace_lister" where
  "compiledRootShardClusterLister_Cluster s clusterName = \<lparr>wl_indexer = cl_indexer s,
      wl_clusterName = clusterName\<rparr>"

definition compiledRootShardLister_List :: "('obj, 'sel) workspace_lister \<Rightarrow> 'sel \<Rightarrow>
    'obj listing res" where
  "compiledRootShardLister_List s selector =
    collect (wl_indexer s) TCompiledRootShard (ix_ListAllByCluster (wl_indexer s) (wl_clusterName s) selector)"

definition compiledRootShardLister_CompiledRootShards :: "('obj, 'sel) workspace_lister \<Rightarrow>
    string \<Rightarrow> ('obj, 'sel) namespace_lister" where
  "compiledRootShardLister_CompiledRootShards s namespace =
    \<lparr>nl_indexer = wl_indexer s, nl_clusterName = wl_clusterName s, nl_namespace = namespace\<rparr>"

definition compiledRootShardNamespaceLister_List :: "('obj, 'sel) namespace_lister \<Rightarrow> 'sel
    \<Rightarrow> 'obj listing res" where
  "compiledRootShardNamespaceLister_List s selector =
    collect (nl_indexer s) TCompiledRootShard
      (ix_ListAllByClusterAndNamespace (nl_indexer s) (nl_clusterName s) (nl_namespace s) selector)"

definition compiledRootShardNamespaceLister_Get :: "('obj, 'sel) namespace_lister \<Rightarrow> string
    \<Rightarrow> 'obj res" where
  "compiledRootShardNamespaceLister_Get s name =
    (let key = ix_ToClusterAwareKey (nl_indexer s) (nl_clusterName s) (nl_namespace s) name
     in bindE (ix_GetByKey (nl_indexer s) key) (found (nl_indexer s) TCompiledRootShard (deploy_Resource
         ''compiledrootshards'') name))"

definition NewCompiledRootShardLister :: "('obj, 'sel) Indexer \<Rightarrow> ('obj, 'sel) scoped_lister" where
  "NewCompiledRootShardLister indexer = \<lparr>sl_indexer = indexer\<rparr>"

definition compiledRootShardScopedLister_List :: "('obj, 'sel) scoped_lister \<Rightarrow> 'sel
    \<Rightarrow> 'obj listing res" where
  "compiledRootShardScopedLister_List s selector = collect (sl_indexer s) TCompiledRootShard (ix_ListAll
      (sl_indexer s) selector)"

definition compiledRootShardScopedLister_CompiledRootShards :: "('obj, 'sel) scoped_lister \<Rightarrow>
    string \<Rightarrow> ('obj, 'sel) scoped_namespace_lister" where
  "compiledRootShardScopedLister_CompiledRootShards s namespace = \<lparr>sn_indexer = sl_indexer s,
      sn_namespace = namespace\<rparr>"

definition compiledRootShardScopedNamespaceLister_List :: "('obj, 'sel) scoped_namespace_lister
    \<Rightarrow> 'sel \<Rightarrow> 'obj listing res" where
  "compiledRootShardScopedNamespaceLister_List s selector =
    collect (sn_indexer s) TCompiledRootShard (ix_ListAllByNamespace (sn_indexer s) (sn_namespace s) selector)"

definition compiledRootShardScopedNamespaceLister_Get :: "('obj, 'sel) scoped_namespace_lister
    \<Rightarrow> string \<Rightarrow> 'obj res" where
  "compiledRootShardScopedNamespaceLister_Get s name =
    (let key = sn_namespace s @ ''/'' @ name
     in bindE (ix_GetByKey (sn_indexer s) key) (found (sn_indexer s) TCompiledRootShard (deploy_Resource
         ''compiledrootshards'') name))"

section \<open>CompiledShards\<close>

text \<open>\<open>sdk/listers/deploy/v1alpha1/compiledshard.go\<close>\<close>

definition NewCompiledShardClusterLister :: "('obj, 'sel) Indexer \<Rightarrow> ('obj, 'sel)
    cluster_lister" where
  "NewCompiledShardClusterLister indexer = \<lparr>cl_indexer = indexer\<rparr>"

definition compiledShardClusterLister_List :: "('obj, 'sel) cluster_lister \<Rightarrow> 'sel
    \<Rightarrow> 'obj listing res" where
  "compiledShardClusterLister_List s selector = collect (cl_indexer s) TCompiledShard (ix_ListAll
      (cl_indexer s) selector)"

definition compiledShardClusterLister_Cluster :: "('obj, 'sel) cluster_lister \<Rightarrow> string
    \<Rightarrow> ('obj, 'sel) workspace_lister" where
  "compiledShardClusterLister_Cluster s clusterName = \<lparr>wl_indexer = cl_indexer s, wl_clusterName =
      clusterName\<rparr>"

definition compiledShardLister_List :: "('obj, 'sel) workspace_lister \<Rightarrow> 'sel \<Rightarrow>
    'obj listing res" where
  "compiledShardLister_List s selector =
    collect (wl_indexer s) TCompiledShard (ix_ListAllByCluster (wl_indexer s) (wl_clusterName s) selector)"

definition compiledShardLister_CompiledShards :: "('obj, 'sel) workspace_lister \<Rightarrow> string
    \<Rightarrow> ('obj, 'sel) namespace_lister" where
  "compiledShardLister_CompiledShards s namespace =
    \<lparr>nl_indexer = wl_indexer s, nl_clusterName = wl_clusterName s, nl_namespace = namespace\<rparr>"

definition compiledShardNamespaceLister_List :: "('obj, 'sel) namespace_lister \<Rightarrow> 'sel
    \<Rightarrow> 'obj listing res" where
  "compiledShardNamespaceLister_List s selector =
    collect (nl_indexer s) TCompiledShard
      (ix_ListAllByClusterAndNamespace (nl_indexer s) (nl_clusterName s) (nl_namespace s) selector)"

definition compiledShardNamespaceLister_Get :: "('obj, 'sel) namespace_lister \<Rightarrow> string
    \<Rightarrow> 'obj res" where
  "compiledShardNamespaceLister_Get s name =
    (let key = ix_ToClusterAwareKey (nl_indexer s) (nl_clusterName s) (nl_namespace s) name
     in bindE (ix_GetByKey (nl_indexer s) key) (found (nl_indexer s) TCompiledShard (deploy_Resource
         ''compiledshards'') name))"

definition NewCompiledShardLister :: "('obj, 'sel) Indexer \<Rightarrow> ('obj, 'sel) scoped_lister" where
  "NewCompiledShardLister indexer = \<lparr>sl_indexer = indexer\<rparr>"

definition compiledShardScopedLister_List :: "('obj, 'sel) scoped_lister \<Rightarrow> 'sel \<Rightarrow>
    'obj listing res" where
  "compiledShardScopedLister_List s selector = collect (sl_indexer s) TCompiledShard (ix_ListAll
      (sl_indexer s) selector)"

definition compiledShardScopedLister_CompiledShards :: "('obj, 'sel) scoped_lister \<Rightarrow> string
    \<Rightarrow> ('obj, 'sel) scoped_namespace_lister" where
  "compiledShardScopedLister_CompiledShards s namespace = \<lparr>sn_indexer = sl_indexer s, sn_namespace
      = namespace\<rparr>"

definition compiledShardScopedNamespaceLister_List :: "('obj, 'sel) scoped_namespace_lister \<Rightarrow>
    'sel \<Rightarrow> 'obj listing res" where
  "compiledShardScopedNamespaceLister_List s selector =
    collect (sn_indexer s) TCompiledShard (ix_ListAllByNamespace (sn_indexer s) (sn_namespace s) selector)"

definition compiledShardScopedNamespaceLister_Get :: "('obj, 'sel) scoped_namespace_lister \<Rightarrow>
    string \<Rightarrow> 'obj res" where
  "compiledShardScopedNamespaceLister_Get s name =
    (let key = sn_namespace s @ ''/'' @ name
     in bindE (ix_GetByKey (sn_indexer s) key) (found (sn_indexer s) TCompiledShard (deploy_Resource
         ''compiledshards'') name))"

section \<open>CompiledVirtualWorkspaces\<close>

text \<open>\<open>sdk/listers/deploy/v1alpha1/compiledvirtualworkspace.go\<close>\<close>

definition NewCompiledVirtualWorkspaceClusterLister :: "('obj, 'sel) Indexer \<Rightarrow> ('obj, 'sel)
    cluster_lister" where
  "NewCompiledVirtualWorkspaceClusterLister indexer = \<lparr>cl_indexer = indexer\<rparr>"

definition compiledVirtualWorkspaceClusterLister_List :: "('obj, 'sel) cluster_lister \<Rightarrow> 'sel
    \<Rightarrow> 'obj listing res" where
  "compiledVirtualWorkspaceClusterLister_List s selector = collect (cl_indexer s)
      TCompiledVirtualWorkspace (ix_ListAll (cl_indexer s) selector)"

definition compiledVirtualWorkspaceClusterLister_Cluster :: "('obj, 'sel) cluster_lister \<Rightarrow>
    string \<Rightarrow> ('obj, 'sel) workspace_lister" where
  "compiledVirtualWorkspaceClusterLister_Cluster s clusterName = \<lparr>wl_indexer = cl_indexer s,
      wl_clusterName = clusterName\<rparr>"

definition compiledVirtualWorkspaceLister_List :: "('obj, 'sel) workspace_lister \<Rightarrow> 'sel
    \<Rightarrow> 'obj listing res" where
  "compiledVirtualWorkspaceLister_List s selector =
    collect (wl_indexer s) TCompiledVirtualWorkspace (ix_ListAllByCluster (wl_indexer s) (wl_clusterName
        s) selector)"

definition compiledVirtualWorkspaceLister_CompiledVirtualWorkspaces :: "('obj, 'sel) workspace_lister
    \<Rightarrow> string \<Rightarrow> ('obj, 'sel) namespace_lister" where
  "compiledVirtualWorkspaceLister_CompiledVirtualWorkspaces s namespace =
    \<lparr>nl_indexer = wl_indexer s, nl_clusterName = wl_clusterName s, nl_namespace = namespace\<rparr>"

definition compiledVirtualWorkspaceNamespaceLister_List :: "('obj, 'sel) namespace_lister \<Rightarrow>
    'sel \<Rightarrow> 'obj listing res" where
  "compiledVirtualWorkspaceNamespaceLister_List s selector =
    collect (nl_indexer s) TCompiledVirtualWorkspace
      (ix_ListAllByClusterAndNamespace (nl_indexer s) (nl_clusterName s) (nl_namespace s) selector)"

definition compiledVirtualWorkspaceNamespaceLister_Get :: "('obj, 'sel) namespace_lister \<Rightarrow>
    string \<Rightarrow> 'obj res" where
  "compiledVirtualWorkspaceNamespaceLister_Get s name =
    (let key = ix_ToClusterAwareKey (nl_indexer s) (nl_clusterName s) (nl_namespace s) name
     in bindE (ix_GetByKey (nl_indexer s) key) (found (nl_indexer s) TCompiledVirtualWorkspace
         (deploy_Resource ''compiledvirtualworkspaces'') name))"

definition NewCompiledVirtualWorkspaceLister :: "('obj, 'sel) Indexer \<Rightarrow> ('obj, 'sel)
    scoped_lister" where
  "NewCompiledVirtualWorkspaceLister indexer = \<lparr>sl_indexer = indexer\<rparr>"

definition compiledVirtualWorkspaceScopedLister_List :: "('obj, 'sel) scoped_lister \<Rightarrow> 'sel
    \<Rightarrow> 'obj listing res" where
  "compiledVirtualWorkspaceScopedLister_List s selector = collect (sl_indexer s) TCompiledVirtualWorkspace
      (ix_ListAll (sl_indexer s) selector)"

definition compiledVirtualWorkspaceScopedLister_CompiledVirtualWorkspaces :: "('obj, 'sel) scoped_lister
    \<Rightarrow> string \<Rightarrow> ('obj, 'sel) scoped_namespace_lister" where
  "compiledVirtualWorkspaceScopedLister_CompiledVirtualWorkspaces s namespace = \<lparr>sn_indexer =
      sl_indexer s, sn_namespace = namespace\<rparr>"

definition compiledVirtualWorkspaceScopedNamespaceLister_List :: "('obj, 'sel) scoped_namespace_lister
    \<Rightarrow> 'sel \<Rightarrow> 'obj listing res" where
  "compiledVirtualWorkspaceScopedNamespaceLister_List s selector =
    collect (sn_indexer s) TCompiledVirtualWorkspace (ix_ListAllByNamespace (sn_indexer s) (sn_namespace
        s) selector)"

definition compiledVirtualWorkspaceScopedNamespaceLister_Get :: "('obj, 'sel) scoped_namespace_lister
    \<Rightarrow> string \<Rightarrow> 'obj res" where
  "compiledVirtualWorkspaceScopedNamespaceLister_Get s name =
    (let key = sn_namespace s @ ''/'' @ name
     in bindE (ix_GetByKey (sn_indexer s) key) (found (sn_indexer s) TCompiledVirtualWorkspace
         (deploy_Resource ''compiledvirtualworkspaces'') name))"

chapter \<open>Properties of the listers\<close>

text \<open>
  The listers for all workspaces stay in the workspace and namespace they are scoped to, and their two
  ways to an object, \<open>List\<close> and \<open>Get\<close>, agree.
\<close>

text \<open>
  For every kind the listings of a workspace and of a namespace in it, and \<open>Get\<close>, as a caller
      reaches
  them from a lister for all workspaces.
\<close>

definition lister_table :: "('obj, 'sel) Indexer
    \<Rightarrow> (sdk_type \<times> GroupResource \<times> (string \<Rightarrow> 'sel \<Rightarrow> 'obj
        listing res)
        \<times> (string \<Rightarrow> string \<Rightarrow> 'sel \<Rightarrow> 'obj listing res) \<times>
            (string \<Rightarrow> string \<Rightarrow> string \<Rightarrow> 'obj res)) list" where
  "lister_table ix =
    [(TCacheServer, operator_Resource ''cacheservers'',
      \<lambda>c. cacheServerLister_List (cacheServerClusterLister_Cluster (NewCacheServerClusterLister ix) c),
      \<lambda>c n. cacheServerNamespaceLister_List (cacheServerLister_CacheServers
          (cacheServerClusterLister_Cluster (NewCacheServerClusterLister ix) c) n),
      \<lambda>c n. cacheServerNamespaceLister_Get (cacheServerLister_CacheServers
          (cacheServerClusterLister_Cluster (NewCacheServerClusterLister ix) c) n)),
     (TFrontProxy, operator_Resource ''frontproxies'',
      \<lambda>c. frontProxyLister_List (frontProxyClusterLister_Cluster (NewFrontProxyClusterLister ix) c),
      \<lambda>c n. frontProxyNamespaceLister_List (frontProxyLister_FrontProxies
          (frontProxyClusterLister_Cluster (NewFrontProxyClusterLister ix) c) n),
      \<lambda>c n. frontProxyNamespaceLister_Get (frontProxyLister_FrontProxies
          (frontProxyClusterLister_Cluster (NewFrontProxyClusterLister ix) c) n)),
     (TKubeconfig, operator_Resource ''kubeconfigs'',
      \<lambda>c. kubeconfigLister_List (kubeconfigClusterLister_Cluster (NewKubeconfigClusterLister ix) c),
      \<lambda>c n. kubeconfigNamespaceLister_List (kubeconfigLister_Kubeconfigs
          (kubeconfigClusterLister_Cluster (NewKubeconfigClusterLister ix) c) n),
      \<lambda>c n. kubeconfigNamespaceLister_Get (kubeconfigLister_Kubeconfigs
          (kubeconfigClusterLister_Cluster (NewKubeconfigClusterLister ix) c) n)),
     (TRootShard, operator_Resource ''rootshards'',
      \<lambda>c. rootShardLister_List (rootShardClusterLister_Cluster (NewRootShardClusterLister ix) c),
      \<lambda>c n. rootShardNamespaceLister_List (rootShardLister_RootShards
          (rootShardClusterLister_Cluster (NewRootShardClusterLister ix) c) n),
      \<lambda>c n. rootShardNamespaceLister_Get (rootShardLister_RootShards
          (rootShardClusterLister_Cluster (NewRootShardClusterLister ix) c) n)),
     (TShard, operator_Resource ''shards'',
      \<lambda>c. shardLister_List (shardClusterLister_Cluster (NewShardClusterLister ix) c),
      \<lambda>c n. shardNamespaceLister_List (shardLister_Shards (shardClusterLister_Cluster
          (NewShardClusterLister ix) c) n),
      \<lambda>c n. shardNamespaceLister_Get (shardLister_Shards (shardClusterLister_Cluster
          (NewShardClusterLister ix) c) n)),
     (TVirtualWorkspace, operator_Resource ''virtualworkspaces'',
      \<lambda>c. virtualWorkspaceLister_List (virtualWorkspaceClusterLister_Cluster
          (NewVirtualWorkspaceClusterLister ix) c),
      \<lambda>c n. virtualWorkspaceNamespaceLister_List (virtualWorkspaceLister_VirtualWorkspaces
          (virtualWorkspaceClusterLister_Cluster (NewVirtualWorkspaceClusterLister ix) c) n),
      \<lambda>c n. virtualWorkspaceNamespaceLister_Get (virtualWorkspaceLister_VirtualWorkspaces
          (virtualWorkspaceClusterLister_Cluster (NewVirtualWorkspaceClusterLister ix) c) n)),
     (TCompiledCacheServer, deploy_Resource ''compiledcacheservers'',
      \<lambda>c. compiledCacheServerLister_List (compiledCacheServerClusterLister_Cluster
          (NewCompiledCacheServerClusterLister ix) c),
      \<lambda>c n. compiledCacheServerNamespaceLister_List
          (compiledCacheServerLister_CompiledCacheServers (compiledCacheServerClusterLister_Cluster
          (NewCompiledCacheServerClusterLister ix) c) n),
      \<lambda>c n. compiledCacheServerNamespaceLister_Get (compiledCacheServerLister_CompiledCacheServers
          (compiledCacheServerClusterLister_Cluster (NewCompiledCacheServerClusterLister ix) c) n)),
     (TCompiledFrontProxy, deploy_Resource ''compiledfrontproxies'',
      \<lambda>c. compiledFrontProxyLister_List (compiledFrontProxyClusterLister_Cluster
          (NewCompiledFrontProxyClusterLister ix) c),
      \<lambda>c n. compiledFrontProxyNamespaceLister_List (compiledFrontProxyLister_CompiledFrontProxies
          (compiledFrontProxyClusterLister_Cluster (NewCompiledFrontProxyClusterLister ix) c) n),
      \<lambda>c n. compiledFrontProxyNamespaceLister_Get (compiledFrontProxyLister_CompiledFrontProxies
          (compiledFrontProxyClusterLister_Cluster (NewCompiledFrontProxyClusterLister ix) c) n)),
     (TCompiledRootShard, deploy_Resource ''compiledrootshards'',
      \<lambda>c. compiledRootShardLister_List (compiledRootShardClusterLister_Cluster
          (NewCompiledRootShardClusterLister ix) c),
      \<lambda>c n. compiledRootShardNamespaceLister_List (compiledRootShardLister_CompiledRootShards
          (compiledRootShardClusterLister_Cluster (NewCompiledRootShardClusterLister ix) c) n),
      \<lambda>c n. compiledRootShardNamespaceLister_Get (compiledRootShardLister_CompiledRootShards
          (compiledRootShardClusterLister_Cluster (NewCompiledRootShardClusterLister ix) c) n)),
     (TCompiledShard, deploy_Resource ''compiledshards'',
      \<lambda>c. compiledShardLister_List (compiledShardClusterLister_Cluster
          (NewCompiledShardClusterLister ix) c),
      \<lambda>c n. compiledShardNamespaceLister_List (compiledShardLister_CompiledShards
          (compiledShardClusterLister_Cluster (NewCompiledShardClusterLister ix) c) n),
      \<lambda>c n. compiledShardNamespaceLister_Get (compiledShardLister_CompiledShards
          (compiledShardClusterLister_Cluster (NewCompiledShardClusterLister ix) c) n)),
     (TCompiledVirtualWorkspace, deploy_Resource ''compiledvirtualworkspaces'',
      \<lambda>c. compiledVirtualWorkspaceLister_List (compiledVirtualWorkspaceClusterLister_Cluster
          (NewCompiledVirtualWorkspaceClusterLister ix) c),
      \<lambda>c n. compiledVirtualWorkspaceNamespaceLister_List
          (compiledVirtualWorkspaceLister_CompiledVirtualWorkspaces
          (compiledVirtualWorkspaceClusterLister_Cluster (NewCompiledVirtualWorkspaceClusterLister ix) c) n),
      \<lambda>c n. compiledVirtualWorkspaceNamespaceLister_Get
          (compiledVirtualWorkspaceLister_CompiledVirtualWorkspaces
          (compiledVirtualWorkspaceClusterLister_Cluster (NewCompiledVirtualWorkspaceClusterLister ix) c) n))]"

lemmas lister_table_defs =
  NewCacheServerClusterLister_def cacheServerClusterLister_Cluster_def cacheServerLister_List_def
  cacheServerLister_CacheServers_def cacheServerNamespaceLister_List_def
  cacheServerNamespaceLister_Get_def NewFrontProxyClusterLister_def frontProxyClusterLister_Cluster_def
  frontProxyLister_List_def frontProxyLister_FrontProxies_def frontProxyNamespaceLister_List_def
  frontProxyNamespaceLister_Get_def NewKubeconfigClusterLister_def kubeconfigClusterLister_Cluster_def
  kubeconfigLister_List_def kubeconfigLister_Kubeconfigs_def kubeconfigNamespaceLister_List_def
  kubeconfigNamespaceLister_Get_def NewRootShardClusterLister_def rootShardClusterLister_Cluster_def
  rootShardLister_List_def rootShardLister_RootShards_def rootShardNamespaceLister_List_def
  rootShardNamespaceLister_Get_def NewShardClusterLister_def shardClusterLister_Cluster_def
  shardLister_List_def shardLister_Shards_def shardNamespaceLister_List_def shardNamespaceLister_Get_def
  NewVirtualWorkspaceClusterLister_def virtualWorkspaceClusterLister_Cluster_def
  virtualWorkspaceLister_List_def virtualWorkspaceLister_VirtualWorkspaces_def
  virtualWorkspaceNamespaceLister_List_def virtualWorkspaceNamespaceLister_Get_def
  NewCompiledCacheServerClusterLister_def compiledCacheServerClusterLister_Cluster_def
  compiledCacheServerLister_List_def compiledCacheServerLister_CompiledCacheServers_def
  compiledCacheServerNamespaceLister_List_def compiledCacheServerNamespaceLister_Get_def
  NewCompiledFrontProxyClusterLister_def compiledFrontProxyClusterLister_Cluster_def
  compiledFrontProxyLister_List_def compiledFrontProxyLister_CompiledFrontProxies_def
  compiledFrontProxyNamespaceLister_List_def compiledFrontProxyNamespaceLister_Get_def
  NewCompiledRootShardClusterLister_def compiledRootShardClusterLister_Cluster_def
  compiledRootShardLister_List_def compiledRootShardLister_CompiledRootShards_def
  compiledRootShardNamespaceLister_List_def compiledRootShardNamespaceLister_Get_def
  NewCompiledShardClusterLister_def compiledShardClusterLister_Cluster_def compiledShardLister_List_def
  compiledShardLister_CompiledShards_def compiledShardNamespaceLister_List_def
  compiledShardNamespaceLister_Get_def NewCompiledVirtualWorkspaceClusterLister_def
  compiledVirtualWorkspaceClusterLister_Cluster_def compiledVirtualWorkspaceLister_List_def
  compiledVirtualWorkspaceLister_CompiledVirtualWorkspaces_def
  compiledVirtualWorkspaceNamespaceLister_List_def compiledVirtualWorkspaceNamespaceLister_Get_def

text \<open>
  What the listers rely on: an indexer holds objects, each with workspace, namespace and name
      (\<open>key\<close>), no
  two with the same, and finds them by these. It lists them in any order. Keys are strings in which the
  parts are separated, so they say which object is meant only for parts without the separators.
\<close>

definition key_part :: "string \<Rightarrow> bool" where
  "key_part s \<longleftrightarrow> list_all (\<lambda>x. x \<noteq> CHR ''|'' \<and> x \<noteq> CHR ''/'') s"

definition lists :: "'obj listing \<Rightarrow> ('obj \<Rightarrow> bool) \<Rightarrow> 'obj list
    \<Rightarrow> bool" where
  "lists l P objs \<longleftrightarrow> snd l = None \<and> distinct (fst l) \<and> set (fst l) = {x \<in>
      set objs. P x}"

definition indexes :: "('obj, 'sel) Indexer \<Rightarrow> ('obj \<Rightarrow> string \<times> string
    \<times> string)
    \<Rightarrow> ('sel \<Rightarrow> 'obj \<Rightarrow> bool) \<Rightarrow> 'obj list \<Rightarrow> bool" where
  "indexes ix key matches objs \<longleftrightarrow> distinct (map key objs)
    \<and> (\<forall>c sel. lists (ix_ListAllByCluster ix c sel) (\<lambda>x. fst (key x) = c \<and>
        matches sel x) objs)
    \<and> (\<forall>c n sel. lists (ix_ListAllByClusterAndNamespace ix c n sel)
          (\<lambda>x. fst (key x) = c \<and> fst (snd (key x)) = n \<and> matches sel x) objs)
    \<and> (\<forall>c n m. key_part c \<and> key_part n \<and> key_part m
          \<longrightarrow> ix_GetByKey ix (ix_ToClusterAwareKey ix c n m) = Inr (find (\<lambda>x. key x
              = (c, n, m)) objs))"

lemma collect_lists:
  assumes "lists l P objs" "list_all (\<lambda>x. ix_TypeOf ix x = t) objs"
  shows "\<exists>xs. collect ix t l = Inr (xs, None) \<and> distinct xs \<and> set xs = {x \<in> set
      objs. P x}"
  using assms by (intro exI [of _ "fst l"]) (auto simp: lists_def collect_Inr list_all_iff prod_eq_iff)

lemma find_key:
  assumes "distinct (map key xs)"
  shows "find (\<lambda>x. key x = k) xs = Some y \<longleftrightarrow> y \<in> set xs \<and> key y = k"
  using assms by (induction xs) (auto simp: image_iff)

lemma lister_table_uniform:
  "list_all (\<lambda>(t, gr, list_ws, list_ns, get).
      list_ws = (\<lambda>c sel. collect ix t (ix_ListAllByCluster ix c sel))
    \<and> list_ns = (\<lambda>c n sel. collect ix t (ix_ListAllByClusterAndNamespace ix c n sel))
    \<and> get = (\<lambda>c n m. bindE (ix_GetByKey ix (ix_ToClusterAwareKey ix c n m)) (found ix t gr m)))
    (lister_table ix)"
  by (simp add: lister_table_def lister_table_defs fun_eq_iff Let_def)

text \<open>C15: A lister scoped to a workspace and a namespace returns objects of that workspace and that
  namespace only, and all of them that the selector matches; \<open>Get\<close> finds an object exactly
      when the indexer
  has one of that workspace, namespace and name, and otherwise reports that it was not found.\<close>

theorem listers_scoped:
  assumes "(t, gr, list_ws, list_ns, get) \<in> set (lister_table ix)"
    and ix: "indexes ix key matches objs" and types: "list_all (\<lambda>x. ix_TypeOf ix x = t) objs"
    and parts: "key_part c" "key_part n" "key_part m"
  shows "(\<exists>xs. list_ws c sel = Inr (xs, None) \<and> distinct xs
        \<and> set xs = {x \<in> set objs. fst (key x) = c \<and> matches sel x})
    \<and> (\<exists>xs. list_ns c n sel = Inr (xs, None) \<and> distinct xs
        \<and> set xs = {x \<in> set objs. fst (key x) = c \<and> fst (snd (key x)) = n \<and> matches sel x})
    \<and> (get c n m = Inr obj \<longleftrightarrow> obj \<in> set objs \<and> key obj = (c, n, m))
    \<and> (get c n m = Inl (NewNotFound gr m) \<longleftrightarrow> (c, n, m) \<notin> key ` set objs)"
proof -
  from assms(1) lister_table_uniform [of ix]
  have rows: "list_ws = (\<lambda>c sel. collect ix t (ix_ListAllByCluster ix c sel))"
    "list_ns = (\<lambda>c n sel. collect ix t (ix_ListAllByClusterAndNamespace ix c n sel))"
    "get = (\<lambda>c n m. bindE (ix_GetByKey ix (ix_ToClusterAwareKey ix c n m)) (found ix t gr m))"
    by (auto simp: list_all_iff)
  have get: "get c n m = found ix t gr m (find (\<lambda>x. key x = (c, n, m)) objs)"
    using ix parts by (simp add: rows indexes_def)
  have key: "distinct (map key objs)" using ix by (simp add: indexes_def)
  have lists: "\<exists>xs. list_ws c sel = Inr (xs, None) \<and> distinct xs
        \<and> set xs = {x \<in> set objs. fst (key x) = c \<and> matches sel x}"
    "\<exists>xs. list_ns c n sel = Inr (xs, None) \<and> distinct xs
        \<and> set xs = {x \<in> set objs. fst (key x) = c \<and> fst (snd (key x)) = n \<and> matches sel x}"
    using ix collect_lists [OF _ types] unfolding rows indexes_def by blast+
  have "(get c n m = Inr obj \<longleftrightarrow> obj \<in> set objs \<and> key obj = (c, n, m))
      \<and> (get c n m = Inl (NewNotFound gr m) \<longleftrightarrow> (c, n, m) \<notin> key ` set objs)"
  proof (cases "find (\<lambda>x. key x = (c, n, m)) objs")
    case None
    then have no: "\<forall>x\<in>set objs. key x \<noteq> (c, n, m)" by (auto simp: find_None_iff)
    then have "(c, n, m) \<notin> key ` set objs" by auto
    with None no show ?thesis by (auto simp: get found_def)
  next
    case (Some y)
    then have y: "y \<in> set objs" "key y = (c, n, m)" using find_key [OF key] by auto
    with types have "ix_TypeOf ix y = t" by (simp add: list_all_iff)
    then have "get c n m = Inr y" by (simp add: get Some found_def assert_type_def)
    moreover have "y = obj \<longleftrightarrow> obj \<in> set objs \<and> key obj = (c, n, m)"
      using find_key [OF key, of "(c, n, m)" obj] Some by simp
    moreover have "(c, n, m) \<in> key ` set objs" using y by force
    ultimately show ?thesis by simp
  qed
  with lists show ?thesis by simp
qed

end
