(* ===== verification/Sdk_Informers.thy ===== *)
theory Sdk_Informers
  imports Informer_Factory Sdk_Listers
begin

text \<open>
  The generated informers of every API object
      (\<open>sdk/informers/externalversions/{operator,deploy}\<close>) and the
  way to them through the groups and versions of a factory. The factory an accessor points to is passed
  along as the state; an accessor itself is what else its struct holds.
\<close>

section \<open>What the accessors hold\<close>

text \<open>The informer library: \<open>GetIndexer\<close>, and \<open>Cluster\<close> of an informer of
    kcp.\<close>

record ('rest, 'o, 'tr, 'obj, 'sel, 'si) informer_library =
  il_GetIndexer :: "('rest, 'o, 'tr) shared_informer \<Rightarrow> ('obj, 'sel) Indexer"
  il_Cluster :: "('rest, 'o, 'tr) shared_informer \<Rightarrow> string \<Rightarrow> 'si"

type_synonym ('rest, 'd, 'o, 'tr) cluster_factory =
  "(('rest, 'd) ClusterClientset, 'rest, 'o, 'tr) sharedInformerFactory"
type_synonym ('rest, 'd, 'o, 'tr) scoped_factory =
  "(('rest, 'd) Clientset, 'rest, 'o, 'tr) sharedScopedInformerFactory"

record 'o cluster_accessor =
  ca_tweakListOptions :: "'o TweakListOptionsFunc option"

record 'o scoped_accessor =
  sa_tweakListOptions :: "'o TweakListOptionsFunc option"
  sa_namespace :: string

record ('si, 'obj, 'sel) workspace_informer =
  wi_informer :: 'si
  wi_lister :: "('obj, 'sel) workspace_lister"

text \<open>The structs of groups and versions, for all workspaces and for one.\<close>

record 'o cluster_group =
  cg_tweakListOptions :: "'o TweakListOptionsFunc option"

record 'o cluster_version =
  cv_tweakListOptions :: "'o TweakListOptionsFunc option"

record 'o scoped_group =
  sg_namespace :: string
  sg_tweakListOptions :: "'o TweakListOptionsFunc option"

record 'o scoped_version =
  sv_namespace :: string
  sv_tweakListOptions :: "'o TweakListOptionsFunc option"

section \<open>The group \<open>operator\<close>\<close>

definition operator_cluster_group_New :: "'o TweakListOptionsFunc option \<Rightarrow> 'o cluster_group" where
  "operator_cluster_group_New tweakListOptions = \<lparr>cg_tweakListOptions = tweakListOptions\<rparr>"

definition operator_cluster_version_New :: "'o TweakListOptionsFunc option \<Rightarrow> 'o
    cluster_version" where
  "operator_cluster_version_New tweakListOptions = \<lparr>cv_tweakListOptions = tweakListOptions\<rparr>"

definition operator_cluster_V1alpha1 :: "'o cluster_group \<Rightarrow> 'o cluster_version" where
  "operator_cluster_V1alpha1 g = operator_cluster_version_New (cg_tweakListOptions g)"

definition operator_NewScoped_group :: "string \<Rightarrow> 'o TweakListOptionsFunc option \<Rightarrow>
    'o scoped_group" where
  "operator_NewScoped_group namespace tweakListOptions =
    \<lparr>sg_namespace = namespace, sg_tweakListOptions = tweakListOptions\<rparr>"

definition operator_NewScoped_version :: "string \<Rightarrow> 'o TweakListOptionsFunc option
    \<Rightarrow> 'o scoped_version" where
  "operator_NewScoped_version namespace tweakListOptions =
    \<lparr>sv_namespace = namespace, sv_tweakListOptions = tweakListOptions\<rparr>"

definition operator_scoped_V1alpha1 :: "'o scoped_group \<Rightarrow> 'o scoped_version" where
  "operator_scoped_V1alpha1 g = operator_NewScoped_version (sg_namespace g) (sg_tweakListOptions g)"

definition factory_Operator :: "('c, 'rest, 'o, 'tr) sharedInformerFactory \<Rightarrow> 'o cluster_group" where
  "factory_Operator f = operator_cluster_group_New (f_tweakListOptions f)"

definition scoped_factory_Operator :: "('c, 'rest, 'o, 'tr) sharedScopedInformerFactory \<Rightarrow> 'o
    scoped_group" where
  "scoped_factory_Operator f = operator_NewScoped_group (sf_namespace f) (sf_tweakListOptions f)"


subsection \<open>CacheServers\<close>

definition operator_version_CacheServers :: "'o cluster_version \<Rightarrow> 'o cluster_accessor" where
  "operator_version_CacheServers v = \<lparr>ca_tweakListOptions = cv_tweakListOptions v\<rparr>"

definition operator_scopedVersion_CacheServers :: "'o scoped_version \<Rightarrow> 'o scoped_accessor" where
  "operator_scopedVersion_CacheServers v = \<lparr>sa_tweakListOptions = sv_tweakListOptions v,
      sa_namespace = sv_namespace v\<rparr>"

definition NewFilteredCacheServerClusterInformer :: "('h, 'rest, 'd) sdk_library \<Rightarrow> index_func list
    \<Rightarrow> 'o TweakListOptionsFunc option \<Rightarrow> (('rest, 'd) ClusterClientset, 'rest, 'o,
        'tr) NewInformerFunc" where
  "NewFilteredCacheServerClusterInformer L indexers tweakListOptions client resyncPeriod addr =
    \<lparr>inf_address = addr,
     inf_ListFunc = (\<lambda>options. cacheServersClusterInterface_List L
       (OperatorV1alpha1ClusterClient_CacheServers (ClusterClientset_OperatorV1alpha1 client)) (tweaked
           tweakListOptions options)),
     inf_WatchFunc = (\<lambda>options. cacheServersClusterInterface_Watch L
       (OperatorV1alpha1ClusterClient_CacheServers (ClusterClientset_OperatorV1alpha1 client)) (tweaked
           tweakListOptions options)),
     inf_type = TCacheServer, inf_resyncPeriod = resyncPeriod, inf_indexers = indexers, inf_transform =
         None\<rparr>"

definition NewCacheServerClusterInformer :: "('h, 'rest, 'd) sdk_library \<Rightarrow> index_func list
    \<Rightarrow> (('rest, 'd) ClusterClientset, 'rest, 'o, 'tr) NewInformerFunc" where
  "NewCacheServerClusterInformer L indexers = NewFilteredCacheServerClusterInformer L indexers None"

definition cacheServerClusterInformer_defaultInformer :: "('h, 'rest, 'd) sdk_library \<Rightarrow> 'o
    cluster_accessor
    \<Rightarrow> (('rest, 'd) ClusterClientset, 'rest, 'o, 'tr) NewInformerFunc" where
  "cacheServerClusterInformer_defaultInformer L a =
    NewFilteredCacheServerClusterInformer L [ClusterIndexFunc, ClusterAndNamespaceIndexFunc]
        (ca_tweakListOptions a)"

definition cacheServerClusterInformer_Informer :: "('h, 'rest, 'd) sdk_library \<Rightarrow> 'o cluster_accessor
    \<Rightarrow> ('rest, 'd, 'o, 'tr) cluster_factory
    \<Rightarrow> ('rest, 'o, 'tr) shared_informer \<times> ('rest, 'd, 'o, 'tr) cluster_factory" where
  "cacheServerClusterInformer_Informer L a = InformerFor TCacheServer
      (cacheServerClusterInformer_defaultInformer L a)"

definition cacheServerClusterInformer_Lister :: "('h, 'rest, 'd) sdk_library
    \<Rightarrow> ('rest, 'o, 'tr, 'obj, 'sel, 'si) informer_library \<Rightarrow> 'o cluster_accessor
    \<Rightarrow> ('rest, 'd, 'o, 'tr) cluster_factory
    \<Rightarrow> ('obj, 'sel) cluster_lister \<times> ('rest, 'd, 'o, 'tr) cluster_factory" where
  "cacheServerClusterInformer_Lister L I a f =
    (let (i, f1) = cacheServerClusterInformer_Informer L a f in (NewCacheServerClusterLister
        (il_GetIndexer I i), f1))"

definition cacheServerClusterInformer_Cluster :: "('h, 'rest, 'd) sdk_library
    \<Rightarrow> ('rest, 'o, 'tr, 'obj, 'sel, 'si) informer_library \<Rightarrow> 'o cluster_accessor
        \<Rightarrow> string
    \<Rightarrow> ('rest, 'd, 'o, 'tr) cluster_factory
    \<Rightarrow> ('si, 'obj, 'sel) workspace_informer \<times> ('rest, 'd, 'o, 'tr) cluster_factory" where
  "cacheServerClusterInformer_Cluster L I a clusterName f =
    (let (i, f1) = cacheServerClusterInformer_Informer L a f; (ls, f2) = cacheServerClusterInformer_Lister
        L I a f1
     in (\<lparr>wi_informer = il_Cluster I i clusterName, wi_lister = cacheServerClusterLister_Cluster ls
         clusterName\<rparr>, f2))"

definition cacheServerInformer_Informer :: "('si, 'obj, 'sel) workspace_informer \<Rightarrow> 'si" where
  "cacheServerInformer_Informer f = wi_informer f"

definition cacheServerInformer_Lister :: "('si, 'obj, 'sel) workspace_informer \<Rightarrow> ('obj, 'sel)
    workspace_lister" where
  "cacheServerInformer_Lister f = wi_lister f"

definition NewFilteredCacheServerInformer :: "string \<Rightarrow> index_func list
    \<Rightarrow> 'o TweakListOptionsFunc option \<Rightarrow> (('rest, 'd) Clientset, 'rest, 'o, 'tr)
        NewInformerFunc" where
  "NewFilteredCacheServerInformer namespace indexers tweakListOptions client resyncPeriod addr =
    \<lparr>inf_address = addr,
     inf_ListFunc = (\<lambda>options. Inr (ListCall
       (OperatorV1alpha1Client_CacheServers (Clientset_OperatorV1alpha1 client) namespace) (tweaked
           tweakListOptions options))),
     inf_WatchFunc = (\<lambda>options. Inr (WatchCall
       (OperatorV1alpha1Client_CacheServers (Clientset_OperatorV1alpha1 client) namespace) (tweaked
           tweakListOptions options))),
     inf_type = TCacheServer, inf_resyncPeriod = resyncPeriod, inf_indexers = indexers, inf_transform =
         None\<rparr>"

definition NewCacheServerInformer :: "string \<Rightarrow> index_func list
    \<Rightarrow> (('rest, 'd) Clientset, 'rest, 'o, 'tr) NewInformerFunc" where
  "NewCacheServerInformer namespace indexers = NewFilteredCacheServerInformer namespace indexers None"

definition cacheServerScopedInformer_defaultInformer :: "'o scoped_accessor
    \<Rightarrow> (('rest, 'd) Clientset, 'rest, 'o, 'tr) NewInformerFunc" where
  "cacheServerScopedInformer_defaultInformer a =
    NewFilteredCacheServerInformer (sa_namespace a) [MetaNamespaceIndexFunc] (sa_tweakListOptions a)"

definition cacheServerScopedInformer_Informer :: "'o scoped_accessor \<Rightarrow> ('rest, 'd, 'o, 'tr)
    scoped_factory
    \<Rightarrow> ('rest, 'o, 'tr) shared_informer \<times> ('rest, 'd, 'o, 'tr) scoped_factory" where
  "cacheServerScopedInformer_Informer a = scoped_InformerFor TCacheServer
      (cacheServerScopedInformer_defaultInformer a)"

definition cacheServerScopedInformer_Lister :: "('rest, 'o, 'tr, 'obj, 'sel, 'si) informer_library
    \<Rightarrow> 'o scoped_accessor \<Rightarrow> ('rest, 'd, 'o, 'tr) scoped_factory
    \<Rightarrow> ('obj, 'sel) scoped_lister \<times> ('rest, 'd, 'o, 'tr) scoped_factory" where
  "cacheServerScopedInformer_Lister I a f =
    (let (i, f1) = cacheServerScopedInformer_Informer a f in (NewCacheServerLister (il_GetIndexer I i), f1))"


subsection \<open>FrontProxies\<close>

definition operator_version_FrontProxies :: "'o cluster_version \<Rightarrow> 'o cluster_accessor" where
  "operator_version_FrontProxies v = \<lparr>ca_tweakListOptions = cv_tweakListOptions v\<rparr>"

definition operator_scopedVersion_FrontProxies :: "'o scoped_version \<Rightarrow> 'o scoped_accessor" where
  "operator_scopedVersion_FrontProxies v = \<lparr>sa_tweakListOptions = sv_tweakListOptions v,
      sa_namespace = sv_namespace v\<rparr>"

definition NewFilteredFrontProxyClusterInformer :: "('h, 'rest, 'd) sdk_library \<Rightarrow> index_func list
    \<Rightarrow> 'o TweakListOptionsFunc option \<Rightarrow> (('rest, 'd) ClusterClientset, 'rest, 'o,
        'tr) NewInformerFunc" where
  "NewFilteredFrontProxyClusterInformer L indexers tweakListOptions client resyncPeriod addr =
    \<lparr>inf_address = addr,
     inf_ListFunc = (\<lambda>options. frontProxiesClusterInterface_List L
       (OperatorV1alpha1ClusterClient_FrontProxies (ClusterClientset_OperatorV1alpha1 client)) (tweaked
           tweakListOptions options)),
     inf_WatchFunc = (\<lambda>options. frontProxiesClusterInterface_Watch L
       (OperatorV1alpha1ClusterClient_FrontProxies (ClusterClientset_OperatorV1alpha1 client)) (tweaked
           tweakListOptions options)),
     inf_type = TFrontProxy, inf_resyncPeriod = resyncPeriod, inf_indexers = indexers, inf_transform =
         None\<rparr>"

definition NewFrontProxyClusterInformer :: "('h, 'rest, 'd) sdk_library \<Rightarrow> index_func list
    \<Rightarrow> (('rest, 'd) ClusterClientset, 'rest, 'o, 'tr) NewInformerFunc" where
  "NewFrontProxyClusterInformer L indexers = NewFilteredFrontProxyClusterInformer L indexers None"

definition frontProxyClusterInformer_defaultInformer :: "('h, 'rest, 'd) sdk_library \<Rightarrow> 'o
    cluster_accessor
    \<Rightarrow> (('rest, 'd) ClusterClientset, 'rest, 'o, 'tr) NewInformerFunc" where
  "frontProxyClusterInformer_defaultInformer L a =
    NewFilteredFrontProxyClusterInformer L [ClusterIndexFunc, ClusterAndNamespaceIndexFunc]
        (ca_tweakListOptions a)"

definition frontProxyClusterInformer_Informer :: "('h, 'rest, 'd) sdk_library \<Rightarrow> 'o cluster_accessor
    \<Rightarrow> ('rest, 'd, 'o, 'tr) cluster_factory
    \<Rightarrow> ('rest, 'o, 'tr) shared_informer \<times> ('rest, 'd, 'o, 'tr) cluster_factory" where
  "frontProxyClusterInformer_Informer L a = InformerFor TFrontProxy
      (frontProxyClusterInformer_defaultInformer L a)"

definition frontProxyClusterInformer_Lister :: "('h, 'rest, 'd) sdk_library
    \<Rightarrow> ('rest, 'o, 'tr, 'obj, 'sel, 'si) informer_library \<Rightarrow> 'o cluster_accessor
    \<Rightarrow> ('rest, 'd, 'o, 'tr) cluster_factory
    \<Rightarrow> ('obj, 'sel) cluster_lister \<times> ('rest, 'd, 'o, 'tr) cluster_factory" where
  "frontProxyClusterInformer_Lister L I a f =
    (let (i, f1) = frontProxyClusterInformer_Informer L a f in (NewFrontProxyClusterLister (il_GetIndexer
        I i), f1))"

definition frontProxyClusterInformer_Cluster :: "('h, 'rest, 'd) sdk_library
    \<Rightarrow> ('rest, 'o, 'tr, 'obj, 'sel, 'si) informer_library \<Rightarrow> 'o cluster_accessor
        \<Rightarrow> string
    \<Rightarrow> ('rest, 'd, 'o, 'tr) cluster_factory
    \<Rightarrow> ('si, 'obj, 'sel) workspace_informer \<times> ('rest, 'd, 'o, 'tr) cluster_factory" where
  "frontProxyClusterInformer_Cluster L I a clusterName f =
    (let (i, f1) = frontProxyClusterInformer_Informer L a f; (ls, f2) = frontProxyClusterInformer_Lister L
        I a f1
     in (\<lparr>wi_informer = il_Cluster I i clusterName, wi_lister = frontProxyClusterLister_Cluster ls
         clusterName\<rparr>, f2))"

definition frontProxyInformer_Informer :: "('si, 'obj, 'sel) workspace_informer \<Rightarrow> 'si" where
  "frontProxyInformer_Informer f = wi_informer f"

definition frontProxyInformer_Lister :: "('si, 'obj, 'sel) workspace_informer \<Rightarrow> ('obj, 'sel)
    workspace_lister" where
  "frontProxyInformer_Lister f = wi_lister f"

definition NewFilteredFrontProxyInformer :: "string \<Rightarrow> index_func list
    \<Rightarrow> 'o TweakListOptionsFunc option \<Rightarrow> (('rest, 'd) Clientset, 'rest, 'o, 'tr)
        NewInformerFunc" where
  "NewFilteredFrontProxyInformer namespace indexers tweakListOptions client resyncPeriod addr =
    \<lparr>inf_address = addr,
     inf_ListFunc = (\<lambda>options. Inr (ListCall
       (OperatorV1alpha1Client_FrontProxies (Clientset_OperatorV1alpha1 client) namespace) (tweaked
           tweakListOptions options))),
     inf_WatchFunc = (\<lambda>options. Inr (WatchCall
       (OperatorV1alpha1Client_FrontProxies (Clientset_OperatorV1alpha1 client) namespace) (tweaked
           tweakListOptions options))),
     inf_type = TFrontProxy, inf_resyncPeriod = resyncPeriod, inf_indexers = indexers, inf_transform =
         None\<rparr>"

definition NewFrontProxyInformer :: "string \<Rightarrow> index_func list
    \<Rightarrow> (('rest, 'd) Clientset, 'rest, 'o, 'tr) NewInformerFunc" where
  "NewFrontProxyInformer namespace indexers = NewFilteredFrontProxyInformer namespace indexers None"

definition frontProxyScopedInformer_defaultInformer :: "'o scoped_accessor
    \<Rightarrow> (('rest, 'd) Clientset, 'rest, 'o, 'tr) NewInformerFunc" where
  "frontProxyScopedInformer_defaultInformer a =
    NewFilteredFrontProxyInformer (sa_namespace a) [MetaNamespaceIndexFunc] (sa_tweakListOptions a)"

definition frontProxyScopedInformer_Informer :: "'o scoped_accessor \<Rightarrow> ('rest, 'd, 'o, 'tr)
    scoped_factory
    \<Rightarrow> ('rest, 'o, 'tr) shared_informer \<times> ('rest, 'd, 'o, 'tr) scoped_factory" where
  "frontProxyScopedInformer_Informer a = scoped_InformerFor TFrontProxy
      (frontProxyScopedInformer_defaultInformer a)"

definition frontProxyScopedInformer_Lister :: "('rest, 'o, 'tr, 'obj, 'sel, 'si) informer_library
    \<Rightarrow> 'o scoped_accessor \<Rightarrow> ('rest, 'd, 'o, 'tr) scoped_factory
    \<Rightarrow> ('obj, 'sel) scoped_lister \<times> ('rest, 'd, 'o, 'tr) scoped_factory" where
  "frontProxyScopedInformer_Lister I a f =
    (let (i, f1) = frontProxyScopedInformer_Informer a f in (NewFrontProxyLister (il_GetIndexer I i), f1))"


subsection \<open>Kubeconfigs\<close>

definition operator_version_Kubeconfigs :: "'o cluster_version \<Rightarrow> 'o cluster_accessor" where
  "operator_version_Kubeconfigs v = \<lparr>ca_tweakListOptions = cv_tweakListOptions v\<rparr>"

definition operator_scopedVersion_Kubeconfigs :: "'o scoped_version \<Rightarrow> 'o scoped_accessor" where
  "operator_scopedVersion_Kubeconfigs v = \<lparr>sa_tweakListOptions = sv_tweakListOptions v,
      sa_namespace = sv_namespace v\<rparr>"

definition NewFilteredKubeconfigClusterInformer :: "('h, 'rest, 'd) sdk_library \<Rightarrow> index_func list
    \<Rightarrow> 'o TweakListOptionsFunc option \<Rightarrow> (('rest, 'd) ClusterClientset, 'rest, 'o,
        'tr) NewInformerFunc" where
  "NewFilteredKubeconfigClusterInformer L indexers tweakListOptions client resyncPeriod addr =
    \<lparr>inf_address = addr,
     inf_ListFunc = (\<lambda>options. kubeconfigsClusterInterface_List L
       (OperatorV1alpha1ClusterClient_Kubeconfigs (ClusterClientset_OperatorV1alpha1 client)) (tweaked
           tweakListOptions options)),
     inf_WatchFunc = (\<lambda>options. kubeconfigsClusterInterface_Watch L
       (OperatorV1alpha1ClusterClient_Kubeconfigs (ClusterClientset_OperatorV1alpha1 client)) (tweaked
           tweakListOptions options)),
     inf_type = TKubeconfig, inf_resyncPeriod = resyncPeriod, inf_indexers = indexers, inf_transform =
         None\<rparr>"

definition NewKubeconfigClusterInformer :: "('h, 'rest, 'd) sdk_library \<Rightarrow> index_func list
    \<Rightarrow> (('rest, 'd) ClusterClientset, 'rest, 'o, 'tr) NewInformerFunc" where
  "NewKubeconfigClusterInformer L indexers = NewFilteredKubeconfigClusterInformer L indexers None"

definition kubeconfigClusterInformer_defaultInformer :: "('h, 'rest, 'd) sdk_library \<Rightarrow> 'o
    cluster_accessor
    \<Rightarrow> (('rest, 'd) ClusterClientset, 'rest, 'o, 'tr) NewInformerFunc" where
  "kubeconfigClusterInformer_defaultInformer L a =
    NewFilteredKubeconfigClusterInformer L [ClusterIndexFunc, ClusterAndNamespaceIndexFunc]
        (ca_tweakListOptions a)"

definition kubeconfigClusterInformer_Informer :: "('h, 'rest, 'd) sdk_library \<Rightarrow> 'o cluster_accessor
    \<Rightarrow> ('rest, 'd, 'o, 'tr) cluster_factory
    \<Rightarrow> ('rest, 'o, 'tr) shared_informer \<times> ('rest, 'd, 'o, 'tr) cluster_factory" where
  "kubeconfigClusterInformer_Informer L a = InformerFor TKubeconfig
      (kubeconfigClusterInformer_defaultInformer L a)"

definition kubeconfigClusterInformer_Lister :: "('h, 'rest, 'd) sdk_library
    \<Rightarrow> ('rest, 'o, 'tr, 'obj, 'sel, 'si) informer_library \<Rightarrow> 'o cluster_accessor
    \<Rightarrow> ('rest, 'd, 'o, 'tr) cluster_factory
    \<Rightarrow> ('obj, 'sel) cluster_lister \<times> ('rest, 'd, 'o, 'tr) cluster_factory" where
  "kubeconfigClusterInformer_Lister L I a f =
    (let (i, f1) = kubeconfigClusterInformer_Informer L a f in (NewKubeconfigClusterLister (il_GetIndexer
        I i), f1))"

definition kubeconfigClusterInformer_Cluster :: "('h, 'rest, 'd) sdk_library
    \<Rightarrow> ('rest, 'o, 'tr, 'obj, 'sel, 'si) informer_library \<Rightarrow> 'o cluster_accessor
        \<Rightarrow> string
    \<Rightarrow> ('rest, 'd, 'o, 'tr) cluster_factory
    \<Rightarrow> ('si, 'obj, 'sel) workspace_informer \<times> ('rest, 'd, 'o, 'tr) cluster_factory" where
  "kubeconfigClusterInformer_Cluster L I a clusterName f =
    (let (i, f1) = kubeconfigClusterInformer_Informer L a f; (ls, f2) = kubeconfigClusterInformer_Lister L
        I a f1
     in (\<lparr>wi_informer = il_Cluster I i clusterName, wi_lister = kubeconfigClusterLister_Cluster ls
         clusterName\<rparr>, f2))"

definition kubeconfigInformer_Informer :: "('si, 'obj, 'sel) workspace_informer \<Rightarrow> 'si" where
  "kubeconfigInformer_Informer f = wi_informer f"

definition kubeconfigInformer_Lister :: "('si, 'obj, 'sel) workspace_informer \<Rightarrow> ('obj, 'sel)
    workspace_lister" where
  "kubeconfigInformer_Lister f = wi_lister f"

definition NewFilteredKubeconfigInformer :: "string \<Rightarrow> index_func list
    \<Rightarrow> 'o TweakListOptionsFunc option \<Rightarrow> (('rest, 'd) Clientset, 'rest, 'o, 'tr)
        NewInformerFunc" where
  "NewFilteredKubeconfigInformer namespace indexers tweakListOptions client resyncPeriod addr =
    \<lparr>inf_address = addr,
     inf_ListFunc = (\<lambda>options. Inr (ListCall
       (OperatorV1alpha1Client_Kubeconfigs (Clientset_OperatorV1alpha1 client) namespace) (tweaked
           tweakListOptions options))),
     inf_WatchFunc = (\<lambda>options. Inr (WatchCall
       (OperatorV1alpha1Client_Kubeconfigs (Clientset_OperatorV1alpha1 client) namespace) (tweaked
           tweakListOptions options))),
     inf_type = TKubeconfig, inf_resyncPeriod = resyncPeriod, inf_indexers = indexers, inf_transform =
         None\<rparr>"

definition NewKubeconfigInformer :: "string \<Rightarrow> index_func list
    \<Rightarrow> (('rest, 'd) Clientset, 'rest, 'o, 'tr) NewInformerFunc" where
  "NewKubeconfigInformer namespace indexers = NewFilteredKubeconfigInformer namespace indexers None"

definition kubeconfigScopedInformer_defaultInformer :: "'o scoped_accessor
    \<Rightarrow> (('rest, 'd) Clientset, 'rest, 'o, 'tr) NewInformerFunc" where
  "kubeconfigScopedInformer_defaultInformer a =
    NewFilteredKubeconfigInformer (sa_namespace a) [MetaNamespaceIndexFunc] (sa_tweakListOptions a)"

definition kubeconfigScopedInformer_Informer :: "'o scoped_accessor \<Rightarrow> ('rest, 'd, 'o, 'tr)
    scoped_factory
    \<Rightarrow> ('rest, 'o, 'tr) shared_informer \<times> ('rest, 'd, 'o, 'tr) scoped_factory" where
  "kubeconfigScopedInformer_Informer a = scoped_InformerFor TKubeconfig
      (kubeconfigScopedInformer_defaultInformer a)"

definition kubeconfigScopedInformer_Lister :: "('rest, 'o, 'tr, 'obj, 'sel, 'si) informer_library
    \<Rightarrow> 'o scoped_accessor \<Rightarrow> ('rest, 'd, 'o, 'tr) scoped_factory
    \<Rightarrow> ('obj, 'sel) scoped_lister \<times> ('rest, 'd, 'o, 'tr) scoped_factory" where
  "kubeconfigScopedInformer_Lister I a f =
    (let (i, f1) = kubeconfigScopedInformer_Informer a f in (NewKubeconfigLister (il_GetIndexer I i), f1))"


subsection \<open>RootShards\<close>

definition operator_version_RootShards :: "'o cluster_version \<Rightarrow> 'o cluster_accessor" where
  "operator_version_RootShards v = \<lparr>ca_tweakListOptions = cv_tweakListOptions v\<rparr>"

definition operator_scopedVersion_RootShards :: "'o scoped_version \<Rightarrow> 'o scoped_accessor" where
  "operator_scopedVersion_RootShards v = \<lparr>sa_tweakListOptions = sv_tweakListOptions v, sa_namespace
      = sv_namespace v\<rparr>"

definition NewFilteredRootShardClusterInformer :: "('h, 'rest, 'd) sdk_library \<Rightarrow> index_func list
    \<Rightarrow> 'o TweakListOptionsFunc option \<Rightarrow> (('rest, 'd) ClusterClientset, 'rest, 'o,
        'tr) NewInformerFunc" where
  "NewFilteredRootShardClusterInformer L indexers tweakListOptions client resyncPeriod addr =
    \<lparr>inf_address = addr,
     inf_ListFunc = (\<lambda>options. rootShardsClusterInterface_List L
       (OperatorV1alpha1ClusterClient_RootShards (ClusterClientset_OperatorV1alpha1 client)) (tweaked
           tweakListOptions options)),
     inf_WatchFunc = (\<lambda>options. rootShardsClusterInterface_Watch L
       (OperatorV1alpha1ClusterClient_RootShards (ClusterClientset_OperatorV1alpha1 client)) (tweaked
           tweakListOptions options)),
     inf_type = TRootShard, inf_resyncPeriod = resyncPeriod, inf_indexers = indexers, inf_transform =
         None\<rparr>"

definition NewRootShardClusterInformer :: "('h, 'rest, 'd) sdk_library \<Rightarrow> index_func list
    \<Rightarrow> (('rest, 'd) ClusterClientset, 'rest, 'o, 'tr) NewInformerFunc" where
  "NewRootShardClusterInformer L indexers = NewFilteredRootShardClusterInformer L indexers None"

definition rootShardClusterInformer_defaultInformer :: "('h, 'rest, 'd) sdk_library \<Rightarrow> 'o
    cluster_accessor
    \<Rightarrow> (('rest, 'd) ClusterClientset, 'rest, 'o, 'tr) NewInformerFunc" where
  "rootShardClusterInformer_defaultInformer L a =
    NewFilteredRootShardClusterInformer L [ClusterIndexFunc, ClusterAndNamespaceIndexFunc]
        (ca_tweakListOptions a)"

definition rootShardClusterInformer_Informer :: "('h, 'rest, 'd) sdk_library \<Rightarrow> 'o cluster_accessor
    \<Rightarrow> ('rest, 'd, 'o, 'tr) cluster_factory
    \<Rightarrow> ('rest, 'o, 'tr) shared_informer \<times> ('rest, 'd, 'o, 'tr) cluster_factory" where
  "rootShardClusterInformer_Informer L a = InformerFor TRootShard
      (rootShardClusterInformer_defaultInformer L a)"

definition rootShardClusterInformer_Lister :: "('h, 'rest, 'd) sdk_library
    \<Rightarrow> ('rest, 'o, 'tr, 'obj, 'sel, 'si) informer_library \<Rightarrow> 'o cluster_accessor
    \<Rightarrow> ('rest, 'd, 'o, 'tr) cluster_factory
    \<Rightarrow> ('obj, 'sel) cluster_lister \<times> ('rest, 'd, 'o, 'tr) cluster_factory" where
  "rootShardClusterInformer_Lister L I a f =
    (let (i, f1) = rootShardClusterInformer_Informer L a f in (NewRootShardClusterLister (il_GetIndexer I
        i), f1))"

definition rootShardClusterInformer_Cluster :: "('h, 'rest, 'd) sdk_library
    \<Rightarrow> ('rest, 'o, 'tr, 'obj, 'sel, 'si) informer_library \<Rightarrow> 'o cluster_accessor
        \<Rightarrow> string
    \<Rightarrow> ('rest, 'd, 'o, 'tr) cluster_factory
    \<Rightarrow> ('si, 'obj, 'sel) workspace_informer \<times> ('rest, 'd, 'o, 'tr) cluster_factory" where
  "rootShardClusterInformer_Cluster L I a clusterName f =
    (let (i, f1) = rootShardClusterInformer_Informer L a f; (ls, f2) = rootShardClusterInformer_Lister L I a f1
     in (\<lparr>wi_informer = il_Cluster I i clusterName, wi_lister = rootShardClusterLister_Cluster ls
         clusterName\<rparr>, f2))"

definition rootShardInformer_Informer :: "('si, 'obj, 'sel) workspace_informer \<Rightarrow> 'si" where
  "rootShardInformer_Informer f = wi_informer f"

definition rootShardInformer_Lister :: "('si, 'obj, 'sel) workspace_informer \<Rightarrow> ('obj, 'sel)
    workspace_lister" where
  "rootShardInformer_Lister f = wi_lister f"

definition NewFilteredRootShardInformer :: "string \<Rightarrow> index_func list
    \<Rightarrow> 'o TweakListOptionsFunc option \<Rightarrow> (('rest, 'd) Clientset, 'rest, 'o, 'tr)
        NewInformerFunc" where
  "NewFilteredRootShardInformer namespace indexers tweakListOptions client resyncPeriod addr =
    \<lparr>inf_address = addr,
     inf_ListFunc = (\<lambda>options. Inr (ListCall
       (OperatorV1alpha1Client_RootShards (Clientset_OperatorV1alpha1 client) namespace) (tweaked
           tweakListOptions options))),
     inf_WatchFunc = (\<lambda>options. Inr (WatchCall
       (OperatorV1alpha1Client_RootShards (Clientset_OperatorV1alpha1 client) namespace) (tweaked
           tweakListOptions options))),
     inf_type = TRootShard, inf_resyncPeriod = resyncPeriod, inf_indexers = indexers, inf_transform =
         None\<rparr>"

definition NewRootShardInformer :: "string \<Rightarrow> index_func list
    \<Rightarrow> (('rest, 'd) Clientset, 'rest, 'o, 'tr) NewInformerFunc" where
  "NewRootShardInformer namespace indexers = NewFilteredRootShardInformer namespace indexers None"

definition rootShardScopedInformer_defaultInformer :: "'o scoped_accessor
    \<Rightarrow> (('rest, 'd) Clientset, 'rest, 'o, 'tr) NewInformerFunc" where
  "rootShardScopedInformer_defaultInformer a =
    NewFilteredRootShardInformer (sa_namespace a) [MetaNamespaceIndexFunc] (sa_tweakListOptions a)"

definition rootShardScopedInformer_Informer :: "'o scoped_accessor \<Rightarrow> ('rest, 'd, 'o, 'tr)
    scoped_factory
    \<Rightarrow> ('rest, 'o, 'tr) shared_informer \<times> ('rest, 'd, 'o, 'tr) scoped_factory" where
  "rootShardScopedInformer_Informer a = scoped_InformerFor TRootShard
      (rootShardScopedInformer_defaultInformer a)"

definition rootShardScopedInformer_Lister :: "('rest, 'o, 'tr, 'obj, 'sel, 'si) informer_library
    \<Rightarrow> 'o scoped_accessor \<Rightarrow> ('rest, 'd, 'o, 'tr) scoped_factory
    \<Rightarrow> ('obj, 'sel) scoped_lister \<times> ('rest, 'd, 'o, 'tr) scoped_factory" where
  "rootShardScopedInformer_Lister I a f =
    (let (i, f1) = rootShardScopedInformer_Informer a f in (NewRootShardLister (il_GetIndexer I i), f1))"


subsection \<open>Shards\<close>

definition operator_version_Shards :: "'o cluster_version \<Rightarrow> 'o cluster_accessor" where
  "operator_version_Shards v = \<lparr>ca_tweakListOptions = cv_tweakListOptions v\<rparr>"

definition operator_scopedVersion_Shards :: "'o scoped_version \<Rightarrow> 'o scoped_accessor" where
  "operator_scopedVersion_Shards v = \<lparr>sa_tweakListOptions = sv_tweakListOptions v, sa_namespace =
      sv_namespace v\<rparr>"

definition NewFilteredShardClusterInformer :: "('h, 'rest, 'd) sdk_library \<Rightarrow> index_func list
    \<Rightarrow> 'o TweakListOptionsFunc option \<Rightarrow> (('rest, 'd) ClusterClientset, 'rest, 'o,
        'tr) NewInformerFunc" where
  "NewFilteredShardClusterInformer L indexers tweakListOptions client resyncPeriod addr =
    \<lparr>inf_address = addr,
     inf_ListFunc = (\<lambda>options. shardsClusterInterface_List L
       (OperatorV1alpha1ClusterClient_Shards (ClusterClientset_OperatorV1alpha1 client)) (tweaked
           tweakListOptions options)),
     inf_WatchFunc = (\<lambda>options. shardsClusterInterface_Watch L
       (OperatorV1alpha1ClusterClient_Shards (ClusterClientset_OperatorV1alpha1 client)) (tweaked
           tweakListOptions options)),
     inf_type = TShard, inf_resyncPeriod = resyncPeriod, inf_indexers = indexers, inf_transform = None\<rparr>"

definition NewShardClusterInformer :: "('h, 'rest, 'd) sdk_library \<Rightarrow> index_func list
    \<Rightarrow> (('rest, 'd) ClusterClientset, 'rest, 'o, 'tr) NewInformerFunc" where
  "NewShardClusterInformer L indexers = NewFilteredShardClusterInformer L indexers None"

definition shardClusterInformer_defaultInformer :: "('h, 'rest, 'd) sdk_library \<Rightarrow> 'o
    cluster_accessor
    \<Rightarrow> (('rest, 'd) ClusterClientset, 'rest, 'o, 'tr) NewInformerFunc" where
  "shardClusterInformer_defaultInformer L a =
    NewFilteredShardClusterInformer L [ClusterIndexFunc, ClusterAndNamespaceIndexFunc] (ca_tweakListOptions a)"

definition shardClusterInformer_Informer :: "('h, 'rest, 'd) sdk_library \<Rightarrow> 'o cluster_accessor
    \<Rightarrow> ('rest, 'd, 'o, 'tr) cluster_factory
    \<Rightarrow> ('rest, 'o, 'tr) shared_informer \<times> ('rest, 'd, 'o, 'tr) cluster_factory" where
  "shardClusterInformer_Informer L a = InformerFor TShard (shardClusterInformer_defaultInformer L a)"

definition shardClusterInformer_Lister :: "('h, 'rest, 'd) sdk_library
    \<Rightarrow> ('rest, 'o, 'tr, 'obj, 'sel, 'si) informer_library \<Rightarrow> 'o cluster_accessor
    \<Rightarrow> ('rest, 'd, 'o, 'tr) cluster_factory
    \<Rightarrow> ('obj, 'sel) cluster_lister \<times> ('rest, 'd, 'o, 'tr) cluster_factory" where
  "shardClusterInformer_Lister L I a f =
    (let (i, f1) = shardClusterInformer_Informer L a f in (NewShardClusterLister (il_GetIndexer I i), f1))"

definition shardClusterInformer_Cluster :: "('h, 'rest, 'd) sdk_library
    \<Rightarrow> ('rest, 'o, 'tr, 'obj, 'sel, 'si) informer_library \<Rightarrow> 'o cluster_accessor
        \<Rightarrow> string
    \<Rightarrow> ('rest, 'd, 'o, 'tr) cluster_factory
    \<Rightarrow> ('si, 'obj, 'sel) workspace_informer \<times> ('rest, 'd, 'o, 'tr) cluster_factory" where
  "shardClusterInformer_Cluster L I a clusterName f =
    (let (i, f1) = shardClusterInformer_Informer L a f; (ls, f2) = shardClusterInformer_Lister L I a f1
     in (\<lparr>wi_informer = il_Cluster I i clusterName, wi_lister = shardClusterLister_Cluster ls
         clusterName\<rparr>, f2))"

definition shardInformer_Informer :: "('si, 'obj, 'sel) workspace_informer \<Rightarrow> 'si" where
  "shardInformer_Informer f = wi_informer f"

definition shardInformer_Lister :: "('si, 'obj, 'sel) workspace_informer \<Rightarrow> ('obj, 'sel)
    workspace_lister" where
  "shardInformer_Lister f = wi_lister f"

definition NewFilteredShardInformer :: "string \<Rightarrow> index_func list
    \<Rightarrow> 'o TweakListOptionsFunc option \<Rightarrow> (('rest, 'd) Clientset, 'rest, 'o, 'tr)
        NewInformerFunc" where
  "NewFilteredShardInformer namespace indexers tweakListOptions client resyncPeriod addr =
    \<lparr>inf_address = addr,
     inf_ListFunc = (\<lambda>options. Inr (ListCall
       (OperatorV1alpha1Client_Shards (Clientset_OperatorV1alpha1 client) namespace) (tweaked
           tweakListOptions options))),
     inf_WatchFunc = (\<lambda>options. Inr (WatchCall
       (OperatorV1alpha1Client_Shards (Clientset_OperatorV1alpha1 client) namespace) (tweaked
           tweakListOptions options))),
     inf_type = TShard, inf_resyncPeriod = resyncPeriod, inf_indexers = indexers, inf_transform = None\<rparr>"

definition NewShardInformer :: "string \<Rightarrow> index_func list
    \<Rightarrow> (('rest, 'd) Clientset, 'rest, 'o, 'tr) NewInformerFunc" where
  "NewShardInformer namespace indexers = NewFilteredShardInformer namespace indexers None"

definition shardScopedInformer_defaultInformer :: "'o scoped_accessor
    \<Rightarrow> (('rest, 'd) Clientset, 'rest, 'o, 'tr) NewInformerFunc" where
  "shardScopedInformer_defaultInformer a =
    NewFilteredShardInformer (sa_namespace a) [MetaNamespaceIndexFunc] (sa_tweakListOptions a)"

definition shardScopedInformer_Informer :: "'o scoped_accessor \<Rightarrow> ('rest, 'd, 'o, 'tr) scoped_factory
    \<Rightarrow> ('rest, 'o, 'tr) shared_informer \<times> ('rest, 'd, 'o, 'tr) scoped_factory" where
  "shardScopedInformer_Informer a = scoped_InformerFor TShard (shardScopedInformer_defaultInformer a)"

definition shardScopedInformer_Lister :: "('rest, 'o, 'tr, 'obj, 'sel, 'si) informer_library
    \<Rightarrow> 'o scoped_accessor \<Rightarrow> ('rest, 'd, 'o, 'tr) scoped_factory
    \<Rightarrow> ('obj, 'sel) scoped_lister \<times> ('rest, 'd, 'o, 'tr) scoped_factory" where
  "shardScopedInformer_Lister I a f =
    (let (i, f1) = shardScopedInformer_Informer a f in (NewShardLister (il_GetIndexer I i), f1))"


subsection \<open>VirtualWorkspaces\<close>

definition operator_version_VirtualWorkspaces :: "'o cluster_version \<Rightarrow> 'o cluster_accessor" where
  "operator_version_VirtualWorkspaces v = \<lparr>ca_tweakListOptions = cv_tweakListOptions v\<rparr>"

definition operator_scopedVersion_VirtualWorkspaces :: "'o scoped_version \<Rightarrow> 'o
    scoped_accessor" where
  "operator_scopedVersion_VirtualWorkspaces v = \<lparr>sa_tweakListOptions = sv_tweakListOptions v,
      sa_namespace = sv_namespace v\<rparr>"

definition NewFilteredVirtualWorkspaceClusterInformer :: "('h, 'rest, 'd) sdk_library \<Rightarrow>
    index_func list
    \<Rightarrow> 'o TweakListOptionsFunc option \<Rightarrow> (('rest, 'd) ClusterClientset, 'rest, 'o,
        'tr) NewInformerFunc" where
  "NewFilteredVirtualWorkspaceClusterInformer L indexers tweakListOptions client resyncPeriod addr =
    \<lparr>inf_address = addr,
     inf_ListFunc = (\<lambda>options. virtualWorkspacesClusterInterface_List L
       (OperatorV1alpha1ClusterClient_VirtualWorkspaces (ClusterClientset_OperatorV1alpha1 client))
           (tweaked tweakListOptions options)),
     inf_WatchFunc = (\<lambda>options. virtualWorkspacesClusterInterface_Watch L
       (OperatorV1alpha1ClusterClient_VirtualWorkspaces (ClusterClientset_OperatorV1alpha1 client))
           (tweaked tweakListOptions options)),
     inf_type = TVirtualWorkspace, inf_resyncPeriod = resyncPeriod, inf_indexers = indexers, inf_transform
         = None\<rparr>"

definition NewVirtualWorkspaceClusterInformer :: "('h, 'rest, 'd) sdk_library \<Rightarrow> index_func list
    \<Rightarrow> (('rest, 'd) ClusterClientset, 'rest, 'o, 'tr) NewInformerFunc" where
  "NewVirtualWorkspaceClusterInformer L indexers = NewFilteredVirtualWorkspaceClusterInformer L indexers None"

definition virtualWorkspaceClusterInformer_defaultInformer :: "('h, 'rest, 'd) sdk_library \<Rightarrow>
    'o cluster_accessor
    \<Rightarrow> (('rest, 'd) ClusterClientset, 'rest, 'o, 'tr) NewInformerFunc" where
  "virtualWorkspaceClusterInformer_defaultInformer L a =
    NewFilteredVirtualWorkspaceClusterInformer L [ClusterIndexFunc, ClusterAndNamespaceIndexFunc]
        (ca_tweakListOptions a)"

definition virtualWorkspaceClusterInformer_Informer :: "('h, 'rest, 'd) sdk_library \<Rightarrow> 'o
    cluster_accessor
    \<Rightarrow> ('rest, 'd, 'o, 'tr) cluster_factory
    \<Rightarrow> ('rest, 'o, 'tr) shared_informer \<times> ('rest, 'd, 'o, 'tr) cluster_factory" where
  "virtualWorkspaceClusterInformer_Informer L a = InformerFor TVirtualWorkspace
      (virtualWorkspaceClusterInformer_defaultInformer L a)"

definition virtualWorkspaceClusterInformer_Lister :: "('h, 'rest, 'd) sdk_library
    \<Rightarrow> ('rest, 'o, 'tr, 'obj, 'sel, 'si) informer_library \<Rightarrow> 'o cluster_accessor
    \<Rightarrow> ('rest, 'd, 'o, 'tr) cluster_factory
    \<Rightarrow> ('obj, 'sel) cluster_lister \<times> ('rest, 'd, 'o, 'tr) cluster_factory" where
  "virtualWorkspaceClusterInformer_Lister L I a f =
    (let (i, f1) = virtualWorkspaceClusterInformer_Informer L a f in (NewVirtualWorkspaceClusterLister
        (il_GetIndexer I i), f1))"

definition virtualWorkspaceClusterInformer_Cluster :: "('h, 'rest, 'd) sdk_library
    \<Rightarrow> ('rest, 'o, 'tr, 'obj, 'sel, 'si) informer_library \<Rightarrow> 'o cluster_accessor
        \<Rightarrow> string
    \<Rightarrow> ('rest, 'd, 'o, 'tr) cluster_factory
    \<Rightarrow> ('si, 'obj, 'sel) workspace_informer \<times> ('rest, 'd, 'o, 'tr) cluster_factory" where
  "virtualWorkspaceClusterInformer_Cluster L I a clusterName f =
    (let (i, f1) = virtualWorkspaceClusterInformer_Informer L a f; (ls, f2) =
        virtualWorkspaceClusterInformer_Lister L I a f1
     in (\<lparr>wi_informer = il_Cluster I i clusterName, wi_lister =
         virtualWorkspaceClusterLister_Cluster ls clusterName\<rparr>, f2))"

definition virtualWorkspaceInformer_Informer :: "('si, 'obj, 'sel) workspace_informer \<Rightarrow> 'si" where
  "virtualWorkspaceInformer_Informer f = wi_informer f"

definition virtualWorkspaceInformer_Lister :: "('si, 'obj, 'sel) workspace_informer \<Rightarrow> ('obj,
    'sel) workspace_lister" where
  "virtualWorkspaceInformer_Lister f = wi_lister f"

definition NewFilteredVirtualWorkspaceInformer :: "string \<Rightarrow> index_func list
    \<Rightarrow> 'o TweakListOptionsFunc option \<Rightarrow> (('rest, 'd) Clientset, 'rest, 'o, 'tr)
        NewInformerFunc" where
  "NewFilteredVirtualWorkspaceInformer namespace indexers tweakListOptions client resyncPeriod addr =
    \<lparr>inf_address = addr,
     inf_ListFunc = (\<lambda>options. Inr (ListCall
       (OperatorV1alpha1Client_VirtualWorkspaces (Clientset_OperatorV1alpha1 client) namespace) (tweaked
           tweakListOptions options))),
     inf_WatchFunc = (\<lambda>options. Inr (WatchCall
       (OperatorV1alpha1Client_VirtualWorkspaces (Clientset_OperatorV1alpha1 client) namespace) (tweaked
           tweakListOptions options))),
     inf_type = TVirtualWorkspace, inf_resyncPeriod = resyncPeriod, inf_indexers = indexers, inf_transform
         = None\<rparr>"

definition NewVirtualWorkspaceInformer :: "string \<Rightarrow> index_func list
    \<Rightarrow> (('rest, 'd) Clientset, 'rest, 'o, 'tr) NewInformerFunc" where
  "NewVirtualWorkspaceInformer namespace indexers = NewFilteredVirtualWorkspaceInformer namespace indexers None"

definition virtualWorkspaceScopedInformer_defaultInformer :: "'o scoped_accessor
    \<Rightarrow> (('rest, 'd) Clientset, 'rest, 'o, 'tr) NewInformerFunc" where
  "virtualWorkspaceScopedInformer_defaultInformer a =
    NewFilteredVirtualWorkspaceInformer (sa_namespace a) [MetaNamespaceIndexFunc] (sa_tweakListOptions a)"

definition virtualWorkspaceScopedInformer_Informer :: "'o scoped_accessor \<Rightarrow> ('rest, 'd, 'o,
    'tr) scoped_factory
    \<Rightarrow> ('rest, 'o, 'tr) shared_informer \<times> ('rest, 'd, 'o, 'tr) scoped_factory" where
  "virtualWorkspaceScopedInformer_Informer a = scoped_InformerFor TVirtualWorkspace
      (virtualWorkspaceScopedInformer_defaultInformer a)"

definition virtualWorkspaceScopedInformer_Lister :: "('rest, 'o, 'tr, 'obj, 'sel, 'si) informer_library
    \<Rightarrow> 'o scoped_accessor \<Rightarrow> ('rest, 'd, 'o, 'tr) scoped_factory
    \<Rightarrow> ('obj, 'sel) scoped_lister \<times> ('rest, 'd, 'o, 'tr) scoped_factory" where
  "virtualWorkspaceScopedInformer_Lister I a f =
    (let (i, f1) = virtualWorkspaceScopedInformer_Informer a f in (NewVirtualWorkspaceLister
        (il_GetIndexer I i), f1))"


section \<open>The group \<open>deploy\<close>\<close>

definition deploy_cluster_group_New :: "'o TweakListOptionsFunc option \<Rightarrow> 'o cluster_group" where
  "deploy_cluster_group_New tweakListOptions = \<lparr>cg_tweakListOptions = tweakListOptions\<rparr>"

definition deploy_cluster_version_New :: "'o TweakListOptionsFunc option \<Rightarrow> 'o cluster_version" where
  "deploy_cluster_version_New tweakListOptions = \<lparr>cv_tweakListOptions = tweakListOptions\<rparr>"

definition deploy_cluster_V1alpha1 :: "'o cluster_group \<Rightarrow> 'o cluster_version" where
  "deploy_cluster_V1alpha1 g = deploy_cluster_version_New (cg_tweakListOptions g)"

definition deploy_NewScoped_group :: "string \<Rightarrow> 'o TweakListOptionsFunc option \<Rightarrow> 'o
    scoped_group" where
  "deploy_NewScoped_group namespace tweakListOptions =
    \<lparr>sg_namespace = namespace, sg_tweakListOptions = tweakListOptions\<rparr>"

definition deploy_NewScoped_version :: "string \<Rightarrow> 'o TweakListOptionsFunc option \<Rightarrow>
    'o scoped_version" where
  "deploy_NewScoped_version namespace tweakListOptions =
    \<lparr>sv_namespace = namespace, sv_tweakListOptions = tweakListOptions\<rparr>"

definition deploy_scoped_V1alpha1 :: "'o scoped_group \<Rightarrow> 'o scoped_version" where
  "deploy_scoped_V1alpha1 g = deploy_NewScoped_version (sg_namespace g) (sg_tweakListOptions g)"

definition factory_Deploy :: "('c, 'rest, 'o, 'tr) sharedInformerFactory \<Rightarrow> 'o cluster_group" where
  "factory_Deploy f = deploy_cluster_group_New (f_tweakListOptions f)"

definition scoped_factory_Deploy :: "('c, 'rest, 'o, 'tr) sharedScopedInformerFactory \<Rightarrow> 'o
    scoped_group" where
  "scoped_factory_Deploy f = deploy_NewScoped_group (sf_namespace f) (sf_tweakListOptions f)"


subsection \<open>CompiledCacheServers\<close>

definition deploy_version_CompiledCacheServers :: "'o cluster_version \<Rightarrow> 'o cluster_accessor" where
  "deploy_version_CompiledCacheServers v = \<lparr>ca_tweakListOptions = cv_tweakListOptions v\<rparr>"

definition deploy_scopedVersion_CompiledCacheServers :: "'o scoped_version \<Rightarrow> 'o
    scoped_accessor" where
  "deploy_scopedVersion_CompiledCacheServers v = \<lparr>sa_tweakListOptions = sv_tweakListOptions v,
      sa_namespace = sv_namespace v\<rparr>"

definition NewFilteredCompiledCacheServerClusterInformer :: "('h, 'rest, 'd) sdk_library \<Rightarrow>
    index_func list
    \<Rightarrow> 'o TweakListOptionsFunc option \<Rightarrow> (('rest, 'd) ClusterClientset, 'rest, 'o,
        'tr) NewInformerFunc" where
  "NewFilteredCompiledCacheServerClusterInformer L indexers tweakListOptions client resyncPeriod addr =
    \<lparr>inf_address = addr,
     inf_ListFunc = (\<lambda>options. compiledCacheServersClusterInterface_List L
       (DeployV1alpha1ClusterClient_CompiledCacheServers (ClusterClientset_DeployV1alpha1 client))
           (tweaked tweakListOptions options)),
     inf_WatchFunc = (\<lambda>options. compiledCacheServersClusterInterface_Watch L
       (DeployV1alpha1ClusterClient_CompiledCacheServers (ClusterClientset_DeployV1alpha1 client))
           (tweaked tweakListOptions options)),
     inf_type = TCompiledCacheServer, inf_resyncPeriod = resyncPeriod, inf_indexers = indexers,
         inf_transform = None\<rparr>"

definition NewCompiledCacheServerClusterInformer :: "('h, 'rest, 'd) sdk_library \<Rightarrow> index_func list
    \<Rightarrow> (('rest, 'd) ClusterClientset, 'rest, 'o, 'tr) NewInformerFunc" where
  "NewCompiledCacheServerClusterInformer L indexers = NewFilteredCompiledCacheServerClusterInformer L
      indexers None"

definition compiledCacheServerClusterInformer_defaultInformer :: "('h, 'rest, 'd) sdk_library
    \<Rightarrow> 'o cluster_accessor
    \<Rightarrow> (('rest, 'd) ClusterClientset, 'rest, 'o, 'tr) NewInformerFunc" where
  "compiledCacheServerClusterInformer_defaultInformer L a =
    NewFilteredCompiledCacheServerClusterInformer L [ClusterIndexFunc, ClusterAndNamespaceIndexFunc]
        (ca_tweakListOptions a)"

definition compiledCacheServerClusterInformer_Informer :: "('h, 'rest, 'd) sdk_library \<Rightarrow> 'o
    cluster_accessor
    \<Rightarrow> ('rest, 'd, 'o, 'tr) cluster_factory
    \<Rightarrow> ('rest, 'o, 'tr) shared_informer \<times> ('rest, 'd, 'o, 'tr) cluster_factory" where
  "compiledCacheServerClusterInformer_Informer L a = InformerFor TCompiledCacheServer
      (compiledCacheServerClusterInformer_defaultInformer L a)"

definition compiledCacheServerClusterInformer_Lister :: "('h, 'rest, 'd) sdk_library
    \<Rightarrow> ('rest, 'o, 'tr, 'obj, 'sel, 'si) informer_library \<Rightarrow> 'o cluster_accessor
    \<Rightarrow> ('rest, 'd, 'o, 'tr) cluster_factory
    \<Rightarrow> ('obj, 'sel) cluster_lister \<times> ('rest, 'd, 'o, 'tr) cluster_factory" where
  "compiledCacheServerClusterInformer_Lister L I a f =
    (let (i, f1) = compiledCacheServerClusterInformer_Informer L a f in
        (NewCompiledCacheServerClusterLister (il_GetIndexer I i), f1))"

definition compiledCacheServerClusterInformer_Cluster :: "('h, 'rest, 'd) sdk_library
    \<Rightarrow> ('rest, 'o, 'tr, 'obj, 'sel, 'si) informer_library \<Rightarrow> 'o cluster_accessor
        \<Rightarrow> string
    \<Rightarrow> ('rest, 'd, 'o, 'tr) cluster_factory
    \<Rightarrow> ('si, 'obj, 'sel) workspace_informer \<times> ('rest, 'd, 'o, 'tr) cluster_factory" where
  "compiledCacheServerClusterInformer_Cluster L I a clusterName f =
    (let (i, f1) = compiledCacheServerClusterInformer_Informer L a f; (ls, f2) =
        compiledCacheServerClusterInformer_Lister L I a f1
     in (\<lparr>wi_informer = il_Cluster I i clusterName, wi_lister =
         compiledCacheServerClusterLister_Cluster ls clusterName\<rparr>, f2))"

definition compiledCacheServerInformer_Informer :: "('si, 'obj, 'sel) workspace_informer \<Rightarrow>
    'si" where
  "compiledCacheServerInformer_Informer f = wi_informer f"

definition compiledCacheServerInformer_Lister :: "('si, 'obj, 'sel) workspace_informer \<Rightarrow>
    ('obj, 'sel) workspace_lister" where
  "compiledCacheServerInformer_Lister f = wi_lister f"

definition NewFilteredCompiledCacheServerInformer :: "string \<Rightarrow> index_func list
    \<Rightarrow> 'o TweakListOptionsFunc option \<Rightarrow> (('rest, 'd) Clientset, 'rest, 'o, 'tr)
        NewInformerFunc" where
  "NewFilteredCompiledCacheServerInformer namespace indexers tweakListOptions client resyncPeriod addr =
    \<lparr>inf_address = addr,
     inf_ListFunc = (\<lambda>options. Inr (ListCall
       (DeployV1alpha1Client_CompiledCacheServers (Clientset_DeployV1alpha1 client) namespace) (tweaked
           tweakListOptions options))),
     inf_WatchFunc = (\<lambda>options. Inr (WatchCall
       (DeployV1alpha1Client_CompiledCacheServers (Clientset_DeployV1alpha1 client) namespace) (tweaked
           tweakListOptions options))),
     inf_type = TCompiledCacheServer, inf_resyncPeriod = resyncPeriod, inf_indexers = indexers,
         inf_transform = None\<rparr>"

definition NewCompiledCacheServerInformer :: "string \<Rightarrow> index_func list
    \<Rightarrow> (('rest, 'd) Clientset, 'rest, 'o, 'tr) NewInformerFunc" where
  "NewCompiledCacheServerInformer namespace indexers = NewFilteredCompiledCacheServerInformer namespace
      indexers None"

definition compiledCacheServerScopedInformer_defaultInformer :: "'o scoped_accessor
    \<Rightarrow> (('rest, 'd) Clientset, 'rest, 'o, 'tr) NewInformerFunc" where
  "compiledCacheServerScopedInformer_defaultInformer a =
    NewFilteredCompiledCacheServerInformer (sa_namespace a) [MetaNamespaceIndexFunc] (sa_tweakListOptions a)"

definition compiledCacheServerScopedInformer_Informer :: "'o scoped_accessor \<Rightarrow> ('rest, 'd, 'o,
    'tr) scoped_factory
    \<Rightarrow> ('rest, 'o, 'tr) shared_informer \<times> ('rest, 'd, 'o, 'tr) scoped_factory" where
  "compiledCacheServerScopedInformer_Informer a = scoped_InformerFor TCompiledCacheServer
      (compiledCacheServerScopedInformer_defaultInformer a)"

definition compiledCacheServerScopedInformer_Lister :: "('rest, 'o, 'tr, 'obj, 'sel, 'si) informer_library
    \<Rightarrow> 'o scoped_accessor \<Rightarrow> ('rest, 'd, 'o, 'tr) scoped_factory
    \<Rightarrow> ('obj, 'sel) scoped_lister \<times> ('rest, 'd, 'o, 'tr) scoped_factory" where
  "compiledCacheServerScopedInformer_Lister I a f =
    (let (i, f1) = compiledCacheServerScopedInformer_Informer a f in (NewCompiledCacheServerLister
        (il_GetIndexer I i), f1))"


subsection \<open>CompiledFrontProxies\<close>

definition deploy_version_CompiledFrontProxies :: "'o cluster_version \<Rightarrow> 'o cluster_accessor" where
  "deploy_version_CompiledFrontProxies v = \<lparr>ca_tweakListOptions = cv_tweakListOptions v\<rparr>"

definition deploy_scopedVersion_CompiledFrontProxies :: "'o scoped_version \<Rightarrow> 'o
    scoped_accessor" where
  "deploy_scopedVersion_CompiledFrontProxies v = \<lparr>sa_tweakListOptions = sv_tweakListOptions v,
      sa_namespace = sv_namespace v\<rparr>"

definition NewFilteredCompiledFrontProxyClusterInformer :: "('h, 'rest, 'd) sdk_library \<Rightarrow>
    index_func list
    \<Rightarrow> 'o TweakListOptionsFunc option \<Rightarrow> (('rest, 'd) ClusterClientset, 'rest, 'o,
        'tr) NewInformerFunc" where
  "NewFilteredCompiledFrontProxyClusterInformer L indexers tweakListOptions client resyncPeriod addr =
    \<lparr>inf_address = addr,
     inf_ListFunc = (\<lambda>options. compiledFrontProxiesClusterInterface_List L
       (DeployV1alpha1ClusterClient_CompiledFrontProxies (ClusterClientset_DeployV1alpha1 client))
           (tweaked tweakListOptions options)),
     inf_WatchFunc = (\<lambda>options. compiledFrontProxiesClusterInterface_Watch L
       (DeployV1alpha1ClusterClient_CompiledFrontProxies (ClusterClientset_DeployV1alpha1 client))
           (tweaked tweakListOptions options)),
     inf_type = TCompiledFrontProxy, inf_resyncPeriod = resyncPeriod, inf_indexers = indexers,
         inf_transform = None\<rparr>"

definition NewCompiledFrontProxyClusterInformer :: "('h, 'rest, 'd) sdk_library \<Rightarrow> index_func list
    \<Rightarrow> (('rest, 'd) ClusterClientset, 'rest, 'o, 'tr) NewInformerFunc" where
  "NewCompiledFrontProxyClusterInformer L indexers = NewFilteredCompiledFrontProxyClusterInformer L
      indexers None"

definition compiledFrontProxyClusterInformer_defaultInformer :: "('h, 'rest, 'd) sdk_library \<Rightarrow>
    'o cluster_accessor
    \<Rightarrow> (('rest, 'd) ClusterClientset, 'rest, 'o, 'tr) NewInformerFunc" where
  "compiledFrontProxyClusterInformer_defaultInformer L a =
    NewFilteredCompiledFrontProxyClusterInformer L [ClusterIndexFunc, ClusterAndNamespaceIndexFunc]
        (ca_tweakListOptions a)"

definition compiledFrontProxyClusterInformer_Informer :: "('h, 'rest, 'd) sdk_library \<Rightarrow> 'o
    cluster_accessor
    \<Rightarrow> ('rest, 'd, 'o, 'tr) cluster_factory
    \<Rightarrow> ('rest, 'o, 'tr) shared_informer \<times> ('rest, 'd, 'o, 'tr) cluster_factory" where
  "compiledFrontProxyClusterInformer_Informer L a = InformerFor TCompiledFrontProxy
      (compiledFrontProxyClusterInformer_defaultInformer L a)"

definition compiledFrontProxyClusterInformer_Lister :: "('h, 'rest, 'd) sdk_library
    \<Rightarrow> ('rest, 'o, 'tr, 'obj, 'sel, 'si) informer_library \<Rightarrow> 'o cluster_accessor
    \<Rightarrow> ('rest, 'd, 'o, 'tr) cluster_factory
    \<Rightarrow> ('obj, 'sel) cluster_lister \<times> ('rest, 'd, 'o, 'tr) cluster_factory" where
  "compiledFrontProxyClusterInformer_Lister L I a f =
    (let (i, f1) = compiledFrontProxyClusterInformer_Informer L a f in (NewCompiledFrontProxyClusterLister
        (il_GetIndexer I i), f1))"

definition compiledFrontProxyClusterInformer_Cluster :: "('h, 'rest, 'd) sdk_library
    \<Rightarrow> ('rest, 'o, 'tr, 'obj, 'sel, 'si) informer_library \<Rightarrow> 'o cluster_accessor
        \<Rightarrow> string
    \<Rightarrow> ('rest, 'd, 'o, 'tr) cluster_factory
    \<Rightarrow> ('si, 'obj, 'sel) workspace_informer \<times> ('rest, 'd, 'o, 'tr) cluster_factory" where
  "compiledFrontProxyClusterInformer_Cluster L I a clusterName f =
    (let (i, f1) = compiledFrontProxyClusterInformer_Informer L a f; (ls, f2) =
        compiledFrontProxyClusterInformer_Lister L I a f1
     in (\<lparr>wi_informer = il_Cluster I i clusterName, wi_lister =
         compiledFrontProxyClusterLister_Cluster ls clusterName\<rparr>, f2))"

definition compiledFrontProxyInformer_Informer :: "('si, 'obj, 'sel) workspace_informer \<Rightarrow> 'si" where
  "compiledFrontProxyInformer_Informer f = wi_informer f"

definition compiledFrontProxyInformer_Lister :: "('si, 'obj, 'sel) workspace_informer \<Rightarrow> ('obj,
    'sel) workspace_lister" where
  "compiledFrontProxyInformer_Lister f = wi_lister f"

definition NewFilteredCompiledFrontProxyInformer :: "string \<Rightarrow> index_func list
    \<Rightarrow> 'o TweakListOptionsFunc option \<Rightarrow> (('rest, 'd) Clientset, 'rest, 'o, 'tr)
        NewInformerFunc" where
  "NewFilteredCompiledFrontProxyInformer namespace indexers tweakListOptions client resyncPeriod addr =
    \<lparr>inf_address = addr,
     inf_ListFunc = (\<lambda>options. Inr (ListCall
       (DeployV1alpha1Client_CompiledFrontProxies (Clientset_DeployV1alpha1 client) namespace) (tweaked
           tweakListOptions options))),
     inf_WatchFunc = (\<lambda>options. Inr (WatchCall
       (DeployV1alpha1Client_CompiledFrontProxies (Clientset_DeployV1alpha1 client) namespace) (tweaked
           tweakListOptions options))),
     inf_type = TCompiledFrontProxy, inf_resyncPeriod = resyncPeriod, inf_indexers = indexers,
         inf_transform = None\<rparr>"

definition NewCompiledFrontProxyInformer :: "string \<Rightarrow> index_func list
    \<Rightarrow> (('rest, 'd) Clientset, 'rest, 'o, 'tr) NewInformerFunc" where
  "NewCompiledFrontProxyInformer namespace indexers = NewFilteredCompiledFrontProxyInformer namespace
      indexers None"

definition compiledFrontProxyScopedInformer_defaultInformer :: "'o scoped_accessor
    \<Rightarrow> (('rest, 'd) Clientset, 'rest, 'o, 'tr) NewInformerFunc" where
  "compiledFrontProxyScopedInformer_defaultInformer a =
    NewFilteredCompiledFrontProxyInformer (sa_namespace a) [MetaNamespaceIndexFunc] (sa_tweakListOptions a)"

definition compiledFrontProxyScopedInformer_Informer :: "'o scoped_accessor \<Rightarrow> ('rest, 'd, 'o,
    'tr) scoped_factory
    \<Rightarrow> ('rest, 'o, 'tr) shared_informer \<times> ('rest, 'd, 'o, 'tr) scoped_factory" where
  "compiledFrontProxyScopedInformer_Informer a = scoped_InformerFor TCompiledFrontProxy
      (compiledFrontProxyScopedInformer_defaultInformer a)"

definition compiledFrontProxyScopedInformer_Lister :: "('rest, 'o, 'tr, 'obj, 'sel, 'si) informer_library
    \<Rightarrow> 'o scoped_accessor \<Rightarrow> ('rest, 'd, 'o, 'tr) scoped_factory
    \<Rightarrow> ('obj, 'sel) scoped_lister \<times> ('rest, 'd, 'o, 'tr) scoped_factory" where
  "compiledFrontProxyScopedInformer_Lister I a f =
    (let (i, f1) = compiledFrontProxyScopedInformer_Informer a f in (NewCompiledFrontProxyLister
        (il_GetIndexer I i), f1))"


subsection \<open>CompiledRootShards\<close>

definition deploy_version_CompiledRootShards :: "'o cluster_version \<Rightarrow> 'o cluster_accessor" where
  "deploy_version_CompiledRootShards v = \<lparr>ca_tweakListOptions = cv_tweakListOptions v\<rparr>"

definition deploy_scopedVersion_CompiledRootShards :: "'o scoped_version \<Rightarrow> 'o scoped_accessor" where
  "deploy_scopedVersion_CompiledRootShards v = \<lparr>sa_tweakListOptions = sv_tweakListOptions v,
      sa_namespace = sv_namespace v\<rparr>"

definition NewFilteredCompiledRootShardClusterInformer :: "('h, 'rest, 'd) sdk_library \<Rightarrow>
    index_func list
    \<Rightarrow> 'o TweakListOptionsFunc option \<Rightarrow> (('rest, 'd) ClusterClientset, 'rest, 'o,
        'tr) NewInformerFunc" where
  "NewFilteredCompiledRootShardClusterInformer L indexers tweakListOptions client resyncPeriod addr =
    \<lparr>inf_address = addr,
     inf_ListFunc = (\<lambda>options. compiledRootShardsClusterInterface_List L
       (DeployV1alpha1ClusterClient_CompiledRootShards (ClusterClientset_DeployV1alpha1 client)) (tweaked
           tweakListOptions options)),
     inf_WatchFunc = (\<lambda>options. compiledRootShardsClusterInterface_Watch L
       (DeployV1alpha1ClusterClient_CompiledRootShards (ClusterClientset_DeployV1alpha1 client)) (tweaked
           tweakListOptions options)),
     inf_type = TCompiledRootShard, inf_resyncPeriod = resyncPeriod, inf_indexers = indexers,
         inf_transform = None\<rparr>"

definition NewCompiledRootShardClusterInformer :: "('h, 'rest, 'd) sdk_library \<Rightarrow> index_func list
    \<Rightarrow> (('rest, 'd) ClusterClientset, 'rest, 'o, 'tr) NewInformerFunc" where
  "NewCompiledRootShardClusterInformer L indexers = NewFilteredCompiledRootShardClusterInformer L indexers None"

definition compiledRootShardClusterInformer_defaultInformer :: "('h, 'rest, 'd) sdk_library \<Rightarrow>
    'o cluster_accessor
    \<Rightarrow> (('rest, 'd) ClusterClientset, 'rest, 'o, 'tr) NewInformerFunc" where
  "compiledRootShardClusterInformer_defaultInformer L a =
    NewFilteredCompiledRootShardClusterInformer L [ClusterIndexFunc, ClusterAndNamespaceIndexFunc]
        (ca_tweakListOptions a)"

definition compiledRootShardClusterInformer_Informer :: "('h, 'rest, 'd) sdk_library \<Rightarrow> 'o
    cluster_accessor
    \<Rightarrow> ('rest, 'd, 'o, 'tr) cluster_factory
    \<Rightarrow> ('rest, 'o, 'tr) shared_informer \<times> ('rest, 'd, 'o, 'tr) cluster_factory" where
  "compiledRootShardClusterInformer_Informer L a = InformerFor TCompiledRootShard
      (compiledRootShardClusterInformer_defaultInformer L a)"

definition compiledRootShardClusterInformer_Lister :: "('h, 'rest, 'd) sdk_library
    \<Rightarrow> ('rest, 'o, 'tr, 'obj, 'sel, 'si) informer_library \<Rightarrow> 'o cluster_accessor
    \<Rightarrow> ('rest, 'd, 'o, 'tr) cluster_factory
    \<Rightarrow> ('obj, 'sel) cluster_lister \<times> ('rest, 'd, 'o, 'tr) cluster_factory" where
  "compiledRootShardClusterInformer_Lister L I a f =
    (let (i, f1) = compiledRootShardClusterInformer_Informer L a f in (NewCompiledRootShardClusterLister
        (il_GetIndexer I i), f1))"

definition compiledRootShardClusterInformer_Cluster :: "('h, 'rest, 'd) sdk_library
    \<Rightarrow> ('rest, 'o, 'tr, 'obj, 'sel, 'si) informer_library \<Rightarrow> 'o cluster_accessor
        \<Rightarrow> string
    \<Rightarrow> ('rest, 'd, 'o, 'tr) cluster_factory
    \<Rightarrow> ('si, 'obj, 'sel) workspace_informer \<times> ('rest, 'd, 'o, 'tr) cluster_factory" where
  "compiledRootShardClusterInformer_Cluster L I a clusterName f =
    (let (i, f1) = compiledRootShardClusterInformer_Informer L a f; (ls, f2) =
        compiledRootShardClusterInformer_Lister L I a f1
     in (\<lparr>wi_informer = il_Cluster I i clusterName, wi_lister =
         compiledRootShardClusterLister_Cluster ls clusterName\<rparr>, f2))"

definition compiledRootShardInformer_Informer :: "('si, 'obj, 'sel) workspace_informer \<Rightarrow> 'si" where
  "compiledRootShardInformer_Informer f = wi_informer f"

definition compiledRootShardInformer_Lister :: "('si, 'obj, 'sel) workspace_informer \<Rightarrow> ('obj,
    'sel) workspace_lister" where
  "compiledRootShardInformer_Lister f = wi_lister f"

definition NewFilteredCompiledRootShardInformer :: "string \<Rightarrow> index_func list
    \<Rightarrow> 'o TweakListOptionsFunc option \<Rightarrow> (('rest, 'd) Clientset, 'rest, 'o, 'tr)
        NewInformerFunc" where
  "NewFilteredCompiledRootShardInformer namespace indexers tweakListOptions client resyncPeriod addr =
    \<lparr>inf_address = addr,
     inf_ListFunc = (\<lambda>options. Inr (ListCall
       (DeployV1alpha1Client_CompiledRootShards (Clientset_DeployV1alpha1 client) namespace) (tweaked
           tweakListOptions options))),
     inf_WatchFunc = (\<lambda>options. Inr (WatchCall
       (DeployV1alpha1Client_CompiledRootShards (Clientset_DeployV1alpha1 client) namespace) (tweaked
           tweakListOptions options))),
     inf_type = TCompiledRootShard, inf_resyncPeriod = resyncPeriod, inf_indexers = indexers,
         inf_transform = None\<rparr>"

definition NewCompiledRootShardInformer :: "string \<Rightarrow> index_func list
    \<Rightarrow> (('rest, 'd) Clientset, 'rest, 'o, 'tr) NewInformerFunc" where
  "NewCompiledRootShardInformer namespace indexers = NewFilteredCompiledRootShardInformer namespace
      indexers None"

definition compiledRootShardScopedInformer_defaultInformer :: "'o scoped_accessor
    \<Rightarrow> (('rest, 'd) Clientset, 'rest, 'o, 'tr) NewInformerFunc" where
  "compiledRootShardScopedInformer_defaultInformer a =
    NewFilteredCompiledRootShardInformer (sa_namespace a) [MetaNamespaceIndexFunc] (sa_tweakListOptions a)"

definition compiledRootShardScopedInformer_Informer :: "'o scoped_accessor \<Rightarrow> ('rest, 'd, 'o,
    'tr) scoped_factory
    \<Rightarrow> ('rest, 'o, 'tr) shared_informer \<times> ('rest, 'd, 'o, 'tr) scoped_factory" where
  "compiledRootShardScopedInformer_Informer a = scoped_InformerFor TCompiledRootShard
      (compiledRootShardScopedInformer_defaultInformer a)"

definition compiledRootShardScopedInformer_Lister :: "('rest, 'o, 'tr, 'obj, 'sel, 'si) informer_library
    \<Rightarrow> 'o scoped_accessor \<Rightarrow> ('rest, 'd, 'o, 'tr) scoped_factory
    \<Rightarrow> ('obj, 'sel) scoped_lister \<times> ('rest, 'd, 'o, 'tr) scoped_factory" where
  "compiledRootShardScopedInformer_Lister I a f =
    (let (i, f1) = compiledRootShardScopedInformer_Informer a f in (NewCompiledRootShardLister
        (il_GetIndexer I i), f1))"


subsection \<open>CompiledShards\<close>

definition deploy_version_CompiledShards :: "'o cluster_version \<Rightarrow> 'o cluster_accessor" where
  "deploy_version_CompiledShards v = \<lparr>ca_tweakListOptions = cv_tweakListOptions v\<rparr>"

definition deploy_scopedVersion_CompiledShards :: "'o scoped_version \<Rightarrow> 'o scoped_accessor" where
  "deploy_scopedVersion_CompiledShards v = \<lparr>sa_tweakListOptions = sv_tweakListOptions v,
      sa_namespace = sv_namespace v\<rparr>"

definition NewFilteredCompiledShardClusterInformer :: "('h, 'rest, 'd) sdk_library \<Rightarrow> index_func list
    \<Rightarrow> 'o TweakListOptionsFunc option \<Rightarrow> (('rest, 'd) ClusterClientset, 'rest, 'o,
        'tr) NewInformerFunc" where
  "NewFilteredCompiledShardClusterInformer L indexers tweakListOptions client resyncPeriod addr =
    \<lparr>inf_address = addr,
     inf_ListFunc = (\<lambda>options. compiledShardsClusterInterface_List L
       (DeployV1alpha1ClusterClient_CompiledShards (ClusterClientset_DeployV1alpha1 client)) (tweaked
           tweakListOptions options)),
     inf_WatchFunc = (\<lambda>options. compiledShardsClusterInterface_Watch L
       (DeployV1alpha1ClusterClient_CompiledShards (ClusterClientset_DeployV1alpha1 client)) (tweaked
           tweakListOptions options)),
     inf_type = TCompiledShard, inf_resyncPeriod = resyncPeriod, inf_indexers = indexers, inf_transform =
         None\<rparr>"

definition NewCompiledShardClusterInformer :: "('h, 'rest, 'd) sdk_library \<Rightarrow> index_func list
    \<Rightarrow> (('rest, 'd) ClusterClientset, 'rest, 'o, 'tr) NewInformerFunc" where
  "NewCompiledShardClusterInformer L indexers = NewFilteredCompiledShardClusterInformer L indexers None"

definition compiledShardClusterInformer_defaultInformer :: "('h, 'rest, 'd) sdk_library \<Rightarrow> 'o
    cluster_accessor
    \<Rightarrow> (('rest, 'd) ClusterClientset, 'rest, 'o, 'tr) NewInformerFunc" where
  "compiledShardClusterInformer_defaultInformer L a =
    NewFilteredCompiledShardClusterInformer L [ClusterIndexFunc, ClusterAndNamespaceIndexFunc]
        (ca_tweakListOptions a)"

definition compiledShardClusterInformer_Informer :: "('h, 'rest, 'd) sdk_library \<Rightarrow> 'o
    cluster_accessor
    \<Rightarrow> ('rest, 'd, 'o, 'tr) cluster_factory
    \<Rightarrow> ('rest, 'o, 'tr) shared_informer \<times> ('rest, 'd, 'o, 'tr) cluster_factory" where
  "compiledShardClusterInformer_Informer L a = InformerFor TCompiledShard
      (compiledShardClusterInformer_defaultInformer L a)"

definition compiledShardClusterInformer_Lister :: "('h, 'rest, 'd) sdk_library
    \<Rightarrow> ('rest, 'o, 'tr, 'obj, 'sel, 'si) informer_library \<Rightarrow> 'o cluster_accessor
    \<Rightarrow> ('rest, 'd, 'o, 'tr) cluster_factory
    \<Rightarrow> ('obj, 'sel) cluster_lister \<times> ('rest, 'd, 'o, 'tr) cluster_factory" where
  "compiledShardClusterInformer_Lister L I a f =
    (let (i, f1) = compiledShardClusterInformer_Informer L a f in (NewCompiledShardClusterLister
        (il_GetIndexer I i), f1))"

definition compiledShardClusterInformer_Cluster :: "('h, 'rest, 'd) sdk_library
    \<Rightarrow> ('rest, 'o, 'tr, 'obj, 'sel, 'si) informer_library \<Rightarrow> 'o cluster_accessor
        \<Rightarrow> string
    \<Rightarrow> ('rest, 'd, 'o, 'tr) cluster_factory
    \<Rightarrow> ('si, 'obj, 'sel) workspace_informer \<times> ('rest, 'd, 'o, 'tr) cluster_factory" where
  "compiledShardClusterInformer_Cluster L I a clusterName f =
    (let (i, f1) = compiledShardClusterInformer_Informer L a f; (ls, f2) =
        compiledShardClusterInformer_Lister L I a f1
     in (\<lparr>wi_informer = il_Cluster I i clusterName, wi_lister = compiledShardClusterLister_Cluster
         ls clusterName\<rparr>, f2))"

definition compiledShardInformer_Informer :: "('si, 'obj, 'sel) workspace_informer \<Rightarrow> 'si" where
  "compiledShardInformer_Informer f = wi_informer f"

definition compiledShardInformer_Lister :: "('si, 'obj, 'sel) workspace_informer \<Rightarrow> ('obj,
    'sel) workspace_lister" where
  "compiledShardInformer_Lister f = wi_lister f"

definition NewFilteredCompiledShardInformer :: "string \<Rightarrow> index_func list
    \<Rightarrow> 'o TweakListOptionsFunc option \<Rightarrow> (('rest, 'd) Clientset, 'rest, 'o, 'tr)
        NewInformerFunc" where
  "NewFilteredCompiledShardInformer namespace indexers tweakListOptions client resyncPeriod addr =
    \<lparr>inf_address = addr,
     inf_ListFunc = (\<lambda>options. Inr (ListCall
       (DeployV1alpha1Client_CompiledShards (Clientset_DeployV1alpha1 client) namespace) (tweaked
           tweakListOptions options))),
     inf_WatchFunc = (\<lambda>options. Inr (WatchCall
       (DeployV1alpha1Client_CompiledShards (Clientset_DeployV1alpha1 client) namespace) (tweaked
           tweakListOptions options))),
     inf_type = TCompiledShard, inf_resyncPeriod = resyncPeriod, inf_indexers = indexers, inf_transform =
         None\<rparr>"

definition NewCompiledShardInformer :: "string \<Rightarrow> index_func list
    \<Rightarrow> (('rest, 'd) Clientset, 'rest, 'o, 'tr) NewInformerFunc" where
  "NewCompiledShardInformer namespace indexers = NewFilteredCompiledShardInformer namespace indexers None"

definition compiledShardScopedInformer_defaultInformer :: "'o scoped_accessor
    \<Rightarrow> (('rest, 'd) Clientset, 'rest, 'o, 'tr) NewInformerFunc" where
  "compiledShardScopedInformer_defaultInformer a =
    NewFilteredCompiledShardInformer (sa_namespace a) [MetaNamespaceIndexFunc] (sa_tweakListOptions a)"

definition compiledShardScopedInformer_Informer :: "'o scoped_accessor \<Rightarrow> ('rest, 'd, 'o, 'tr)
    scoped_factory
    \<Rightarrow> ('rest, 'o, 'tr) shared_informer \<times> ('rest, 'd, 'o, 'tr) scoped_factory" where
  "compiledShardScopedInformer_Informer a = scoped_InformerFor TCompiledShard
      (compiledShardScopedInformer_defaultInformer a)"

definition compiledShardScopedInformer_Lister :: "('rest, 'o, 'tr, 'obj, 'sel, 'si) informer_library
    \<Rightarrow> 'o scoped_accessor \<Rightarrow> ('rest, 'd, 'o, 'tr) scoped_factory
    \<Rightarrow> ('obj, 'sel) scoped_lister \<times> ('rest, 'd, 'o, 'tr) scoped_factory" where
  "compiledShardScopedInformer_Lister I a f =
    (let (i, f1) = compiledShardScopedInformer_Informer a f in (NewCompiledShardLister (il_GetIndexer I
        i), f1))"


subsection \<open>CompiledVirtualWorkspaces\<close>

definition deploy_version_CompiledVirtualWorkspaces :: "'o cluster_version \<Rightarrow> 'o
    cluster_accessor" where
  "deploy_version_CompiledVirtualWorkspaces v = \<lparr>ca_tweakListOptions = cv_tweakListOptions v\<rparr>"

definition deploy_scopedVersion_CompiledVirtualWorkspaces :: "'o scoped_version \<Rightarrow> 'o
    scoped_accessor" where
  "deploy_scopedVersion_CompiledVirtualWorkspaces v = \<lparr>sa_tweakListOptions = sv_tweakListOptions v,
      sa_namespace = sv_namespace v\<rparr>"

definition NewFilteredCompiledVirtualWorkspaceClusterInformer :: "('h, 'rest, 'd) sdk_library
    \<Rightarrow> index_func list
    \<Rightarrow> 'o TweakListOptionsFunc option \<Rightarrow> (('rest, 'd) ClusterClientset, 'rest, 'o,
        'tr) NewInformerFunc" where
  "NewFilteredCompiledVirtualWorkspaceClusterInformer L indexers tweakListOptions client resyncPeriod addr =
    \<lparr>inf_address = addr,
     inf_ListFunc = (\<lambda>options. compiledVirtualWorkspacesClusterInterface_List L
       (DeployV1alpha1ClusterClient_CompiledVirtualWorkspaces (ClusterClientset_DeployV1alpha1 client))
           (tweaked tweakListOptions options)),
     inf_WatchFunc = (\<lambda>options. compiledVirtualWorkspacesClusterInterface_Watch L
       (DeployV1alpha1ClusterClient_CompiledVirtualWorkspaces (ClusterClientset_DeployV1alpha1 client))
           (tweaked tweakListOptions options)),
     inf_type = TCompiledVirtualWorkspace, inf_resyncPeriod = resyncPeriod, inf_indexers = indexers,
         inf_transform = None\<rparr>"

definition NewCompiledVirtualWorkspaceClusterInformer :: "('h, 'rest, 'd) sdk_library \<Rightarrow>
    index_func list
    \<Rightarrow> (('rest, 'd) ClusterClientset, 'rest, 'o, 'tr) NewInformerFunc" where
  "NewCompiledVirtualWorkspaceClusterInformer L indexers =
      NewFilteredCompiledVirtualWorkspaceClusterInformer L indexers None"

definition compiledVirtualWorkspaceClusterInformer_defaultInformer :: "('h, 'rest, 'd) sdk_library
    \<Rightarrow> 'o cluster_accessor
    \<Rightarrow> (('rest, 'd) ClusterClientset, 'rest, 'o, 'tr) NewInformerFunc" where
  "compiledVirtualWorkspaceClusterInformer_defaultInformer L a =
    NewFilteredCompiledVirtualWorkspaceClusterInformer L [ClusterIndexFunc, ClusterAndNamespaceIndexFunc]
        (ca_tweakListOptions a)"

definition compiledVirtualWorkspaceClusterInformer_Informer :: "('h, 'rest, 'd) sdk_library \<Rightarrow>
    'o cluster_accessor
    \<Rightarrow> ('rest, 'd, 'o, 'tr) cluster_factory
    \<Rightarrow> ('rest, 'o, 'tr) shared_informer \<times> ('rest, 'd, 'o, 'tr) cluster_factory" where
  "compiledVirtualWorkspaceClusterInformer_Informer L a = InformerFor TCompiledVirtualWorkspace
      (compiledVirtualWorkspaceClusterInformer_defaultInformer L a)"

definition compiledVirtualWorkspaceClusterInformer_Lister :: "('h, 'rest, 'd) sdk_library
    \<Rightarrow> ('rest, 'o, 'tr, 'obj, 'sel, 'si) informer_library \<Rightarrow> 'o cluster_accessor
    \<Rightarrow> ('rest, 'd, 'o, 'tr) cluster_factory
    \<Rightarrow> ('obj, 'sel) cluster_lister \<times> ('rest, 'd, 'o, 'tr) cluster_factory" where
  "compiledVirtualWorkspaceClusterInformer_Lister L I a f =
    (let (i, f1) = compiledVirtualWorkspaceClusterInformer_Informer L a f in
        (NewCompiledVirtualWorkspaceClusterLister (il_GetIndexer I i), f1))"

definition compiledVirtualWorkspaceClusterInformer_Cluster :: "('h, 'rest, 'd) sdk_library
    \<Rightarrow> ('rest, 'o, 'tr, 'obj, 'sel, 'si) informer_library \<Rightarrow> 'o cluster_accessor
        \<Rightarrow> string
    \<Rightarrow> ('rest, 'd, 'o, 'tr) cluster_factory
    \<Rightarrow> ('si, 'obj, 'sel) workspace_informer \<times> ('rest, 'd, 'o, 'tr) cluster_factory" where
  "compiledVirtualWorkspaceClusterInformer_Cluster L I a clusterName f =
    (let (i, f1) = compiledVirtualWorkspaceClusterInformer_Informer L a f; (ls, f2) =
        compiledVirtualWorkspaceClusterInformer_Lister L I a f1
     in (\<lparr>wi_informer = il_Cluster I i clusterName, wi_lister =
         compiledVirtualWorkspaceClusterLister_Cluster ls clusterName\<rparr>, f2))"

definition compiledVirtualWorkspaceInformer_Informer :: "('si, 'obj, 'sel) workspace_informer
    \<Rightarrow> 'si" where
  "compiledVirtualWorkspaceInformer_Informer f = wi_informer f"

definition compiledVirtualWorkspaceInformer_Lister :: "('si, 'obj, 'sel) workspace_informer \<Rightarrow>
    ('obj, 'sel) workspace_lister" where
  "compiledVirtualWorkspaceInformer_Lister f = wi_lister f"

definition NewFilteredCompiledVirtualWorkspaceInformer :: "string \<Rightarrow> index_func list
    \<Rightarrow> 'o TweakListOptionsFunc option \<Rightarrow> (('rest, 'd) Clientset, 'rest, 'o, 'tr)
        NewInformerFunc" where
  "NewFilteredCompiledVirtualWorkspaceInformer namespace indexers tweakListOptions client resyncPeriod addr =
    \<lparr>inf_address = addr,
     inf_ListFunc = (\<lambda>options. Inr (ListCall
       (DeployV1alpha1Client_CompiledVirtualWorkspaces (Clientset_DeployV1alpha1 client) namespace)
           (tweaked tweakListOptions options))),
     inf_WatchFunc = (\<lambda>options. Inr (WatchCall
       (DeployV1alpha1Client_CompiledVirtualWorkspaces (Clientset_DeployV1alpha1 client) namespace)
           (tweaked tweakListOptions options))),
     inf_type = TCompiledVirtualWorkspace, inf_resyncPeriod = resyncPeriod, inf_indexers = indexers,
         inf_transform = None\<rparr>"

definition NewCompiledVirtualWorkspaceInformer :: "string \<Rightarrow> index_func list
    \<Rightarrow> (('rest, 'd) Clientset, 'rest, 'o, 'tr) NewInformerFunc" where
  "NewCompiledVirtualWorkspaceInformer namespace indexers = NewFilteredCompiledVirtualWorkspaceInformer
      namespace indexers None"

definition compiledVirtualWorkspaceScopedInformer_defaultInformer :: "'o scoped_accessor
    \<Rightarrow> (('rest, 'd) Clientset, 'rest, 'o, 'tr) NewInformerFunc" where
  "compiledVirtualWorkspaceScopedInformer_defaultInformer a =
    NewFilteredCompiledVirtualWorkspaceInformer (sa_namespace a) [MetaNamespaceIndexFunc]
        (sa_tweakListOptions a)"

definition compiledVirtualWorkspaceScopedInformer_Informer :: "'o scoped_accessor \<Rightarrow> ('rest,
    'd, 'o, 'tr) scoped_factory
    \<Rightarrow> ('rest, 'o, 'tr) shared_informer \<times> ('rest, 'd, 'o, 'tr) scoped_factory" where
  "compiledVirtualWorkspaceScopedInformer_Informer a = scoped_InformerFor TCompiledVirtualWorkspace
      (compiledVirtualWorkspaceScopedInformer_defaultInformer a)"

definition compiledVirtualWorkspaceScopedInformer_Lister :: "('rest, 'o, 'tr, 'obj, 'sel, 'si) informer_library
    \<Rightarrow> 'o scoped_accessor \<Rightarrow> ('rest, 'd, 'o, 'tr) scoped_factory
    \<Rightarrow> ('obj, 'sel) scoped_lister \<times> ('rest, 'd, 'o, 'tr) scoped_factory" where
  "compiledVirtualWorkspaceScopedInformer_Lister I a f =
    (let (i, f1) = compiledVirtualWorkspaceScopedInformer_Informer a f in
        (NewCompiledVirtualWorkspaceLister (il_GetIndexer I i), f1))"

chapter \<open>Generic informers\<close>

text \<open>
  Informers by resource (\<open>sdk/informers/externalversions/generic.go\<close>), and the factory scoped
      to one
  workspace of \<open>factory.go\<close>.
\<close>

section \<open>Generic informers\<close>

text \<open>
  A generic lister is what \<open>NewGenericClusterLister\<close>, \<open>ByCluster\<close> or
      \<open>NewGenericLister\<close> make it of.
\<close>

record ('obj, 'sel) generic_lister =
  gl_indexer :: "('obj, 'sel) Indexer"
  gl_resource :: GroupResource
  gl_cluster :: "string option"

record ('rest, 'o, 'tr) genericClusterInformer =
  gc_informer :: "('rest, 'o, 'tr) shared_informer"
  gc_resource :: GroupResource

record ('i, 'obj, 'sel) genericInformer =
  gi_informer :: 'i
  gi_lister :: "('obj, 'sel) generic_lister"

definition genericClusterInformer_Informer :: "('rest, 'o, 'tr) genericClusterInformer
    \<Rightarrow> ('rest, 'o, 'tr) shared_informer" where
  "genericClusterInformer_Informer f = gc_informer f"

definition genericClusterInformer_Lister :: "('rest, 'o, 'tr, 'obj, 'sel, 'si) informer_library
    \<Rightarrow> ('rest, 'o, 'tr) genericClusterInformer \<Rightarrow> ('obj, 'sel) generic_lister" where
  "genericClusterInformer_Lister I f =
    \<lparr>gl_indexer = il_GetIndexer I (genericClusterInformer_Informer f), gl_resource = gc_resource f,
     gl_cluster = None\<rparr>"

definition genericClusterInformer_Cluster :: "('rest, 'o, 'tr, 'obj, 'sel, 'si) informer_library
    \<Rightarrow> string
    \<Rightarrow> ('rest, 'o, 'tr) genericClusterInformer \<Rightarrow> ('si, 'obj, 'sel) genericInformer" where
  "genericClusterInformer_Cluster I clusterName f =
    \<lparr>gi_informer = il_Cluster I (genericClusterInformer_Informer f) clusterName,
     gi_lister = (genericClusterInformer_Lister I f)\<lparr>gl_cluster := Some clusterName\<rparr>\<rparr>"

definition genericInformer_Informer :: "('i, 'obj, 'sel) genericInformer \<Rightarrow> 'i" where
  "genericInformer_Informer f = gi_informer f"

definition genericInformer_Lister :: "('i, 'obj, 'sel) genericInformer \<Rightarrow> ('obj, 'sel)
    generic_lister" where
  "genericInformer_Lister f = gi_lister f"

section \<open>By resource\<close>

text \<open>The struct literals of the cases, and the error of the others.\<close>

definition generic_cluster :: "GroupVersionResource \<Rightarrow> ('rest, 'o, 'tr) shared_informer \<times> 'f
    \<Rightarrow> ('rest, 'o, 'tr) genericClusterInformer \<times> 'f" where
  "generic_cluster resource r =
    (\<lparr>gc_informer = fst r, gc_resource = gvr_GroupResource resource\<rparr>, snd r)"

definition generic_scoped :: "('rest, 'o, 'tr, 'obj, 'sel, 'si) informer_library \<Rightarrow>
    GroupVersionResource
    \<Rightarrow> ('rest, 'o, 'tr) shared_informer \<times> 'f
    \<Rightarrow> (('rest, 'o, 'tr) shared_informer, 'obj, 'sel) genericInformer \<times> 'f" where
  "generic_scoped I resource r =
    (\<lparr>gi_informer = fst r, gi_lister = \<lparr>gl_indexer = il_GetIndexer I (fst r),
        gl_resource = gvr_GroupResource resource, gl_cluster = None\<rparr>\<rparr>, snd r)"

definition no_informer :: "GroupVersionResource \<Rightarrow> go_error" where
  "no_informer r = Plain (''no informer found for '' @ gvr_Group r @ ''/'' @ gvr_Version r @
     '', Resource='' @ gvr_Resource r)"

definition factory_ForResource :: "('h, 'rest, 'd) sdk_library \<Rightarrow> GroupVersionResource
    \<Rightarrow> ('rest, 'd, 'o, 'tr) cluster_factory
    \<Rightarrow> (('rest, 'o, 'tr) genericClusterInformer \<times> ('rest, 'd, 'o, 'tr) cluster_factory)
        res" where
  "factory_ForResource L resource f =
    (if resource = WithResource deploy_SchemeGroupVersion ''compiledcacheservers''
     then Inr (generic_cluster resource (compiledCacheServerClusterInformer_Informer L
       (deploy_version_CompiledCacheServers (deploy_cluster_V1alpha1 (factory_Deploy f))) f))
     else if resource = WithResource deploy_SchemeGroupVersion ''compiledfrontproxies''
     then Inr (generic_cluster resource (compiledFrontProxyClusterInformer_Informer L
       (deploy_version_CompiledFrontProxies (deploy_cluster_V1alpha1 (factory_Deploy f))) f))
     else if resource = WithResource deploy_SchemeGroupVersion ''compiledrootshards''
     then Inr (generic_cluster resource (compiledRootShardClusterInformer_Informer L
       (deploy_version_CompiledRootShards (deploy_cluster_V1alpha1 (factory_Deploy f))) f))
     else if resource = WithResource deploy_SchemeGroupVersion ''compiledshards''
     then Inr (generic_cluster resource (compiledShardClusterInformer_Informer L
       (deploy_version_CompiledShards (deploy_cluster_V1alpha1 (factory_Deploy f))) f))
     else if resource = WithResource deploy_SchemeGroupVersion ''compiledvirtualworkspaces''
     then Inr (generic_cluster resource (compiledVirtualWorkspaceClusterInformer_Informer L
       (deploy_version_CompiledVirtualWorkspaces (deploy_cluster_V1alpha1 (factory_Deploy f))) f))
     else if resource = WithResource operator_SchemeGroupVersion ''cacheservers''
     then Inr (generic_cluster resource (cacheServerClusterInformer_Informer L
       (operator_version_CacheServers (operator_cluster_V1alpha1 (factory_Operator f))) f))
     else if resource = WithResource operator_SchemeGroupVersion ''frontproxies''
     then Inr (generic_cluster resource (frontProxyClusterInformer_Informer L
       (operator_version_FrontProxies (operator_cluster_V1alpha1 (factory_Operator f))) f))
     else if resource = WithResource operator_SchemeGroupVersion ''kubeconfigs''
     then Inr (generic_cluster resource (kubeconfigClusterInformer_Informer L
       (operator_version_Kubeconfigs (operator_cluster_V1alpha1 (factory_Operator f))) f))
     else if resource = WithResource operator_SchemeGroupVersion ''rootshards''
     then Inr (generic_cluster resource (rootShardClusterInformer_Informer L
       (operator_version_RootShards (operator_cluster_V1alpha1 (factory_Operator f))) f))
     else if resource = WithResource operator_SchemeGroupVersion ''shards''
     then Inr (generic_cluster resource (shardClusterInformer_Informer L
       (operator_version_Shards (operator_cluster_V1alpha1 (factory_Operator f))) f))
     else if resource = WithResource operator_SchemeGroupVersion ''virtualworkspaces''
     then Inr (generic_cluster resource (virtualWorkspaceClusterInformer_Informer L
       (operator_version_VirtualWorkspaces (operator_cluster_V1alpha1 (factory_Operator f))) f))
     else Inl (no_informer resource))"

definition scoped_ForResource :: "('rest, 'o, 'tr, 'obj, 'sel, 'si) informer_library
    \<Rightarrow> GroupVersionResource \<Rightarrow> ('rest, 'd, 'o, 'tr) scoped_factory
    \<Rightarrow> ((('rest, 'o, 'tr) shared_informer, 'obj, 'sel) genericInformer
        \<times> ('rest, 'd, 'o, 'tr) scoped_factory) res" where
  "scoped_ForResource I resource f =
    (if resource = WithResource deploy_SchemeGroupVersion ''compiledcacheservers''
     then Inr (generic_scoped I resource (compiledCacheServerScopedInformer_Informer
       (deploy_scopedVersion_CompiledCacheServers (deploy_scoped_V1alpha1 (scoped_factory_Deploy f))) f))
     else if resource = WithResource deploy_SchemeGroupVersion ''compiledfrontproxies''
     then Inr (generic_scoped I resource (compiledFrontProxyScopedInformer_Informer
       (deploy_scopedVersion_CompiledFrontProxies (deploy_scoped_V1alpha1 (scoped_factory_Deploy f))) f))
     else if resource = WithResource deploy_SchemeGroupVersion ''compiledrootshards''
     then Inr (generic_scoped I resource (compiledRootShardScopedInformer_Informer
       (deploy_scopedVersion_CompiledRootShards (deploy_scoped_V1alpha1 (scoped_factory_Deploy f))) f))
     else if resource = WithResource deploy_SchemeGroupVersion ''compiledshards''
     then Inr (generic_scoped I resource (compiledShardScopedInformer_Informer
       (deploy_scopedVersion_CompiledShards (deploy_scoped_V1alpha1 (scoped_factory_Deploy f))) f))
     else if resource = WithResource deploy_SchemeGroupVersion ''compiledvirtualworkspaces''
     then Inr (generic_scoped I resource (compiledVirtualWorkspaceScopedInformer_Informer
       (deploy_scopedVersion_CompiledVirtualWorkspaces (deploy_scoped_V1alpha1 (scoped_factory_Deploy f))) f))
     else if resource = WithResource operator_SchemeGroupVersion ''cacheservers''
     then Inr (generic_scoped I resource (cacheServerScopedInformer_Informer
       (operator_scopedVersion_CacheServers (operator_scoped_V1alpha1 (scoped_factory_Operator f))) f))
     else if resource = WithResource operator_SchemeGroupVersion ''frontproxies''
     then Inr (generic_scoped I resource (frontProxyScopedInformer_Informer
       (operator_scopedVersion_FrontProxies (operator_scoped_V1alpha1 (scoped_factory_Operator f))) f))
     else if resource = WithResource operator_SchemeGroupVersion ''kubeconfigs''
     then Inr (generic_scoped I resource (kubeconfigScopedInformer_Informer
       (operator_scopedVersion_Kubeconfigs (operator_scoped_V1alpha1 (scoped_factory_Operator f))) f))
     else if resource = WithResource operator_SchemeGroupVersion ''rootshards''
     then Inr (generic_scoped I resource (rootShardScopedInformer_Informer
       (operator_scopedVersion_RootShards (operator_scoped_V1alpha1 (scoped_factory_Operator f))) f))
     else if resource = WithResource operator_SchemeGroupVersion ''shards''
     then Inr (generic_scoped I resource (shardScopedInformer_Informer
       (operator_scopedVersion_Shards (operator_scoped_V1alpha1 (scoped_factory_Operator f))) f))
     else if resource = WithResource operator_SchemeGroupVersion ''virtualworkspaces''
     then Inr (generic_scoped I resource (virtualWorkspaceScopedInformer_Informer
       (operator_scopedVersion_VirtualWorkspaces (operator_scoped_V1alpha1 (scoped_factory_Operator f))) f))
     else Inl (no_informer resource))"

section \<open>One workspace of a factory\<close>

text \<open>\<open>Cluster\<close> of the factory: the factory itself, with a workspace for its generic
    informers.\<close>

record scopedDynamicSharedInformerFactory =
  sd_clusterName :: string

definition factory_Cluster :: "string \<Rightarrow> scopedDynamicSharedInformerFactory" where
  "factory_Cluster clusterName = \<lparr>sd_clusterName = clusterName\<rparr>"

definition scopedDynamic_ForResource :: "('h, 'rest, 'd) sdk_library
    \<Rightarrow> ('rest, 'o, 'tr, 'obj, 'sel, 'si) informer_library \<Rightarrow>
        scopedDynamicSharedInformerFactory
    \<Rightarrow> GroupVersionResource \<Rightarrow> ('rest, 'd, 'o, 'tr) cluster_factory
    \<Rightarrow> (('si, 'obj, 'sel) genericInformer \<times> ('rest, 'd, 'o, 'tr) cluster_factory) res" where
  "scopedDynamic_ForResource L I s resource f =
    bindE (factory_ForResource L resource f) (\<lambda>(clusterInformer, f1).
    Inr (genericClusterInformer_Cluster I (sd_clusterName s) clusterInformer, f1))"

definition scopedDynamic_Start :: "scopedDynamicSharedInformerFactory \<Rightarrow> sdk_type list
    \<Rightarrow> ('rest, 'd, 'o, 'tr) cluster_factory
    \<Rightarrow> (sdk_type \<times> ('rest, 'o, 'tr) shared_informer) list \<times> ('rest, 'd, 'o, 'tr)
        cluster_factory" where
  "scopedDynamic_Start s order f = factory_Start order f"

chapter \<open>Properties of the informers\<close>

text \<open>
  The informers a factory hands out: which one, with which options, and what it lists and watches.
\<close>

section \<open>All informers of a factory\<close>

text \<open>Every typed accessor of a factory, as \<open>f.Group().V1alpha1().Kind().Informer()\<close>,
    with resource and type.\<close>

definition cluster_informers :: "('h, 'rest, 'd) sdk_library
    \<Rightarrow> (GroupVersionResource \<times> sdk_type \<times> (('rest, 'd, 'o, 'tr) cluster_factory
        \<Rightarrow> ('rest, 'o, 'tr) shared_informer \<times> ('rest, 'd, 'o, 'tr) cluster_factory))
            list" where
  "cluster_informers L =
    [(WithResource operator_SchemeGroupVersion ''cacheservers'', TCacheServer,
      \<lambda>f. cacheServerClusterInformer_Informer L
        (operator_version_CacheServers (operator_cluster_V1alpha1 (factory_Operator f))) f),
     (WithResource operator_SchemeGroupVersion ''frontproxies'', TFrontProxy,
      \<lambda>f. frontProxyClusterInformer_Informer L
        (operator_version_FrontProxies (operator_cluster_V1alpha1 (factory_Operator f))) f),
     (WithResource operator_SchemeGroupVersion ''kubeconfigs'', TKubeconfig,
      \<lambda>f. kubeconfigClusterInformer_Informer L
        (operator_version_Kubeconfigs (operator_cluster_V1alpha1 (factory_Operator f))) f),
     (WithResource operator_SchemeGroupVersion ''rootshards'', TRootShard,
      \<lambda>f. rootShardClusterInformer_Informer L
        (operator_version_RootShards (operator_cluster_V1alpha1 (factory_Operator f))) f),
     (WithResource operator_SchemeGroupVersion ''shards'', TShard,
      \<lambda>f. shardClusterInformer_Informer L
        (operator_version_Shards (operator_cluster_V1alpha1 (factory_Operator f))) f),
     (WithResource operator_SchemeGroupVersion ''virtualworkspaces'', TVirtualWorkspace,
      \<lambda>f. virtualWorkspaceClusterInformer_Informer L
        (operator_version_VirtualWorkspaces (operator_cluster_V1alpha1 (factory_Operator f))) f),
     (WithResource deploy_SchemeGroupVersion ''compiledcacheservers'', TCompiledCacheServer,
      \<lambda>f. compiledCacheServerClusterInformer_Informer L
        (deploy_version_CompiledCacheServers (deploy_cluster_V1alpha1 (factory_Deploy f))) f),
     (WithResource deploy_SchemeGroupVersion ''compiledfrontproxies'', TCompiledFrontProxy,
      \<lambda>f. compiledFrontProxyClusterInformer_Informer L
        (deploy_version_CompiledFrontProxies (deploy_cluster_V1alpha1 (factory_Deploy f))) f),
     (WithResource deploy_SchemeGroupVersion ''compiledrootshards'', TCompiledRootShard,
      \<lambda>f. compiledRootShardClusterInformer_Informer L
        (deploy_version_CompiledRootShards (deploy_cluster_V1alpha1 (factory_Deploy f))) f),
     (WithResource deploy_SchemeGroupVersion ''compiledshards'', TCompiledShard,
      \<lambda>f. compiledShardClusterInformer_Informer L
        (deploy_version_CompiledShards (deploy_cluster_V1alpha1 (factory_Deploy f))) f),
     (WithResource deploy_SchemeGroupVersion ''compiledvirtualworkspaces'', TCompiledVirtualWorkspace,
      \<lambda>f. compiledVirtualWorkspaceClusterInformer_Informer L
        (deploy_version_CompiledVirtualWorkspaces (deploy_cluster_V1alpha1 (factory_Deploy f))) f)]"

definition scoped_informers :: "(GroupVersionResource \<times> sdk_type \<times> (('rest, 'd, 'o, 'tr)
    scoped_factory
        \<Rightarrow> ('rest, 'o, 'tr) shared_informer \<times> ('rest, 'd, 'o, 'tr) scoped_factory))
            list" where
  "scoped_informers =
    [(WithResource operator_SchemeGroupVersion ''cacheservers'', TCacheServer,
      \<lambda>f. cacheServerScopedInformer_Informer
        (operator_scopedVersion_CacheServers (operator_scoped_V1alpha1 (scoped_factory_Operator f))) f),
     (WithResource operator_SchemeGroupVersion ''frontproxies'', TFrontProxy,
      \<lambda>f. frontProxyScopedInformer_Informer
        (operator_scopedVersion_FrontProxies (operator_scoped_V1alpha1 (scoped_factory_Operator f))) f),
     (WithResource operator_SchemeGroupVersion ''kubeconfigs'', TKubeconfig,
      \<lambda>f. kubeconfigScopedInformer_Informer
        (operator_scopedVersion_Kubeconfigs (operator_scoped_V1alpha1 (scoped_factory_Operator f))) f),
     (WithResource operator_SchemeGroupVersion ''rootshards'', TRootShard,
      \<lambda>f. rootShardScopedInformer_Informer
        (operator_scopedVersion_RootShards (operator_scoped_V1alpha1 (scoped_factory_Operator f))) f),
     (WithResource operator_SchemeGroupVersion ''shards'', TShard,
      \<lambda>f. shardScopedInformer_Informer
        (operator_scopedVersion_Shards (operator_scoped_V1alpha1 (scoped_factory_Operator f))) f),
     (WithResource operator_SchemeGroupVersion ''virtualworkspaces'', TVirtualWorkspace,
      \<lambda>f. virtualWorkspaceScopedInformer_Informer
        (operator_scopedVersion_VirtualWorkspaces (operator_scoped_V1alpha1 (scoped_factory_Operator f))) f),
     (WithResource deploy_SchemeGroupVersion ''compiledcacheservers'', TCompiledCacheServer,
      \<lambda>f. compiledCacheServerScopedInformer_Informer
        (deploy_scopedVersion_CompiledCacheServers (deploy_scoped_V1alpha1 (scoped_factory_Deploy f))) f),
     (WithResource deploy_SchemeGroupVersion ''compiledfrontproxies'', TCompiledFrontProxy,
      \<lambda>f. compiledFrontProxyScopedInformer_Informer
        (deploy_scopedVersion_CompiledFrontProxies (deploy_scoped_V1alpha1 (scoped_factory_Deploy f))) f),
     (WithResource deploy_SchemeGroupVersion ''compiledrootshards'', TCompiledRootShard,
      \<lambda>f. compiledRootShardScopedInformer_Informer
        (deploy_scopedVersion_CompiledRootShards (deploy_scoped_V1alpha1 (scoped_factory_Deploy f))) f),
     (WithResource deploy_SchemeGroupVersion ''compiledshards'', TCompiledShard,
      \<lambda>f. compiledShardScopedInformer_Informer
        (deploy_scopedVersion_CompiledShards (deploy_scoped_V1alpha1 (scoped_factory_Deploy f))) f),
     (WithResource deploy_SchemeGroupVersion ''compiledvirtualworkspaces'', TCompiledVirtualWorkspace,
      \<lambda>f. compiledVirtualWorkspaceScopedInformer_Informer
        (deploy_scopedVersion_CompiledVirtualWorkspaces (deploy_scoped_V1alpha1 (scoped_factory_Deploy f))) f)]"

lemmas cluster_informer_defs =
  cacheServerClusterInformer_Informer_def cacheServerClusterInformer_defaultInformer_def
  operator_version_CacheServers_def frontProxyClusterInformer_Informer_def
  frontProxyClusterInformer_defaultInformer_def operator_version_FrontProxies_def
  kubeconfigClusterInformer_Informer_def kubeconfigClusterInformer_defaultInformer_def
  operator_version_Kubeconfigs_def rootShardClusterInformer_Informer_def
  rootShardClusterInformer_defaultInformer_def operator_version_RootShards_def
  shardClusterInformer_Informer_def shardClusterInformer_defaultInformer_def operator_version_Shards_def
  virtualWorkspaceClusterInformer_Informer_def virtualWorkspaceClusterInformer_defaultInformer_def
  operator_version_VirtualWorkspaces_def compiledCacheServerClusterInformer_Informer_def
  compiledCacheServerClusterInformer_defaultInformer_def deploy_version_CompiledCacheServers_def
  compiledFrontProxyClusterInformer_Informer_def compiledFrontProxyClusterInformer_defaultInformer_def
  deploy_version_CompiledFrontProxies_def compiledRootShardClusterInformer_Informer_def
  compiledRootShardClusterInformer_defaultInformer_def deploy_version_CompiledRootShards_def
  compiledShardClusterInformer_Informer_def compiledShardClusterInformer_defaultInformer_def
  deploy_version_CompiledShards_def compiledVirtualWorkspaceClusterInformer_Informer_def
  compiledVirtualWorkspaceClusterInformer_defaultInformer_def
  deploy_version_CompiledVirtualWorkspaces_def operator_cluster_V1alpha1_def
  operator_cluster_version_New_def operator_cluster_group_New_def factory_Operator_def
  deploy_cluster_V1alpha1_def deploy_cluster_version_New_def deploy_cluster_group_New_def
  factory_Deploy_def

lemmas scoped_informer_defs =
  cacheServerScopedInformer_Informer_def cacheServerScopedInformer_defaultInformer_def
  operator_scopedVersion_CacheServers_def frontProxyScopedInformer_Informer_def
  frontProxyScopedInformer_defaultInformer_def operator_scopedVersion_FrontProxies_def
  kubeconfigScopedInformer_Informer_def kubeconfigScopedInformer_defaultInformer_def
  operator_scopedVersion_Kubeconfigs_def rootShardScopedInformer_Informer_def
  rootShardScopedInformer_defaultInformer_def operator_scopedVersion_RootShards_def
  shardScopedInformer_Informer_def shardScopedInformer_defaultInformer_def
  operator_scopedVersion_Shards_def virtualWorkspaceScopedInformer_Informer_def
  virtualWorkspaceScopedInformer_defaultInformer_def operator_scopedVersion_VirtualWorkspaces_def
  compiledCacheServerScopedInformer_Informer_def compiledCacheServerScopedInformer_defaultInformer_def
  deploy_scopedVersion_CompiledCacheServers_def compiledFrontProxyScopedInformer_Informer_def
  compiledFrontProxyScopedInformer_defaultInformer_def deploy_scopedVersion_CompiledFrontProxies_def
  compiledRootShardScopedInformer_Informer_def compiledRootShardScopedInformer_defaultInformer_def
  deploy_scopedVersion_CompiledRootShards_def compiledShardScopedInformer_Informer_def
  compiledShardScopedInformer_defaultInformer_def deploy_scopedVersion_CompiledShards_def
  compiledVirtualWorkspaceScopedInformer_Informer_def
  compiledVirtualWorkspaceScopedInformer_defaultInformer_def
  deploy_scopedVersion_CompiledVirtualWorkspaces_def operator_scoped_V1alpha1_def
  operator_NewScoped_version_def operator_NewScoped_group_def scoped_factory_Operator_def
  deploy_scoped_V1alpha1_def deploy_NewScoped_version_def deploy_NewScoped_group_def
  scoped_factory_Deploy_def

lemmas typed_client_defs =
  cacheServersClusterInterface_List_def cacheServersClusterInterface_Watch_def
  OperatorV1alpha1ClusterClient_CacheServers_def OperatorV1alpha1Client_CacheServers_def
  newCacheServers_def frontProxiesClusterInterface_List_def frontProxiesClusterInterface_Watch_def
  OperatorV1alpha1ClusterClient_FrontProxies_def OperatorV1alpha1Client_FrontProxies_def
  newFrontProxies_def kubeconfigsClusterInterface_List_def kubeconfigsClusterInterface_Watch_def
  OperatorV1alpha1ClusterClient_Kubeconfigs_def OperatorV1alpha1Client_Kubeconfigs_def
  newKubeconfigs_def rootShardsClusterInterface_List_def rootShardsClusterInterface_Watch_def
  OperatorV1alpha1ClusterClient_RootShards_def OperatorV1alpha1Client_RootShards_def newRootShards_def
  shardsClusterInterface_List_def shardsClusterInterface_Watch_def
  OperatorV1alpha1ClusterClient_Shards_def OperatorV1alpha1Client_Shards_def newShards_def
  virtualWorkspacesClusterInterface_List_def virtualWorkspacesClusterInterface_Watch_def
  OperatorV1alpha1ClusterClient_VirtualWorkspaces_def OperatorV1alpha1Client_VirtualWorkspaces_def
  newVirtualWorkspaces_def compiledCacheServersClusterInterface_List_def
  compiledCacheServersClusterInterface_Watch_def DeployV1alpha1ClusterClient_CompiledCacheServers_def
  DeployV1alpha1Client_CompiledCacheServers_def newCompiledCacheServers_def
  compiledFrontProxiesClusterInterface_List_def compiledFrontProxiesClusterInterface_Watch_def
  DeployV1alpha1ClusterClient_CompiledFrontProxies_def DeployV1alpha1Client_CompiledFrontProxies_def
  newCompiledFrontProxies_def compiledRootShardsClusterInterface_List_def
  compiledRootShardsClusterInterface_Watch_def DeployV1alpha1ClusterClient_CompiledRootShards_def
  DeployV1alpha1Client_CompiledRootShards_def newCompiledRootShards_def
  compiledShardsClusterInterface_List_def compiledShardsClusterInterface_Watch_def
  DeployV1alpha1ClusterClient_CompiledShards_def DeployV1alpha1Client_CompiledShards_def
  newCompiledShards_def compiledVirtualWorkspacesClusterInterface_List_def
  compiledVirtualWorkspacesClusterInterface_Watch_def
  DeployV1alpha1ClusterClient_CompiledVirtualWorkspaces_def
  DeployV1alpha1Client_CompiledVirtualWorkspaces_def newCompiledVirtualWorkspaces_def
  ClusterClientset_OperatorV1alpha1_def Clientset_OperatorV1alpha1_def
  ClusterClientset_DeployV1alpha1_def Clientset_DeployV1alpha1_def

lemma cluster_informers_types:
  "map (fst \<circ> snd) (cluster_informers L) =
    [TCacheServer, TFrontProxy, TKubeconfig, TRootShard, TShard, TVirtualWorkspace, TCompiledCacheServer,
     TCompiledFrontProxy, TCompiledRootShard, TCompiledShard, TCompiledVirtualWorkspace]"
  by (simp add: cluster_informers_def)

section \<open>What an informer is expected to be\<close>

text \<open>
  The REST client of the group of a resource, for all workspaces; and the list and watch functions of an
  informer on the typed client of the resource behind it.
\<close>

definition wildcard_rest :: "('h, 'rest, 'd) sdk_library \<Rightarrow> ('rest, 'd) ClusterClientset
    \<Rightarrow> GroupVersionResource \<Rightarrow> 'rest option res" where
  "wildcard_rest L client r =
    (if gvr_Group r = ''operator.kcp.io''
     then bindE (ClusterOrDie (occ_clientCache (ccs_operatorV1alpha1 client)) (lib_Wildcard L))
            (\<lambda>c. Inr (oc_restClient c))
     else bindE (ClusterOrDie (dcc_clientCache (ccs_deployV1alpha1 client)) (lib_Wildcard L))
            (\<lambda>c. Inr (dc_restClient c)))"

definition workspace_rest :: "('rest, 'd) Clientset \<Rightarrow> GroupVersionResource \<Rightarrow> 'rest
    option" where
  "workspace_rest client r =
    (if gvr_Group r = ''operator.kcp.io'' then oc_restClient (cs_operatorV1alpha1 client)
     else dc_restClient (cs_deployV1alpha1 client))"

definition expected_informer :: "'rest option res \<Rightarrow> string \<Rightarrow> index_func list
    \<Rightarrow> GroupVersionResource
    \<Rightarrow> sdk_type \<Rightarrow> 'o TweakListOptionsFunc option \<Rightarrow> int \<Rightarrow>
        nat \<Rightarrow> ('rest, 'o, 'tr) shared_informer" where
  "expected_informer rest namespace indexers r t tweak resync addr =
    (let client = (\<lambda>c. \<lparr>tc_resource = gvr_Resource r, tc_rest = c, tc_namespace =
        namespace, tc_type = t\<rparr>)
     in \<lparr>inf_address = addr,
         inf_ListFunc = (\<lambda>options. bindE rest (\<lambda>c. Inr (ListCall (client c) (tweaked tweak
             options)))),
         inf_WatchFunc = (\<lambda>options. bindE rest (\<lambda>c. Inr (WatchCall (client c) (tweaked
             tweak options)))),
         inf_type = t, inf_resyncPeriod = resync, inf_indexers = indexers, inf_transform = None\<rparr>)"

definition cluster_informer :: "('h, 'rest, 'd) sdk_library \<Rightarrow> GroupVersionResource
    \<Rightarrow> sdk_type
    \<Rightarrow> 'o TweakListOptionsFunc option \<Rightarrow> (('rest, 'd) ClusterClientset, 'rest, 'o,
        'tr) NewInformerFunc" where
  "cluster_informer L r t tweak client = expected_informer (wildcard_rest L client r) NamespaceAll
    [ClusterIndexFunc, ClusterAndNamespaceIndexFunc] r t tweak"

definition workspace_informer_of :: "GroupVersionResource \<Rightarrow> sdk_type \<Rightarrow> string
    \<Rightarrow> 'o TweakListOptionsFunc option \<Rightarrow> (('rest, 'd) Clientset, 'rest, 'o, 'tr)
        NewInformerFunc" where
  "workspace_informer_of r t namespace tweak client = expected_informer (Inr (workspace_rest client r))
      namespace
    [MetaNamespaceIndexFunc] r t tweak"

lemmas expected_defs = expected_informer_def cluster_informer_def workspace_informer_of_def wildcard_rest_def
  workspace_rest_def WithResource_def operator_SchemeGroupVersion_def deploy_SchemeGroupVersion_def
  OperatorV1alpha1Client_RESTClient_def DeployV1alpha1Client_RESTClient_def

lemma new_cluster_informers:
  shows
    "NewFilteredCacheServerClusterInformer L [ClusterIndexFunc, ClusterAndNamespaceIndexFunc] tweak =
      cluster_informer L (WithResource operator_SchemeGroupVersion ''cacheservers'') TCacheServer tweak"
    "NewFilteredFrontProxyClusterInformer L [ClusterIndexFunc, ClusterAndNamespaceIndexFunc] tweak =
      cluster_informer L (WithResource operator_SchemeGroupVersion ''frontproxies'') TFrontProxy tweak"
    "NewFilteredKubeconfigClusterInformer L [ClusterIndexFunc, ClusterAndNamespaceIndexFunc] tweak =
      cluster_informer L (WithResource operator_SchemeGroupVersion ''kubeconfigs'') TKubeconfig tweak"
    "NewFilteredRootShardClusterInformer L [ClusterIndexFunc, ClusterAndNamespaceIndexFunc] tweak =
      cluster_informer L (WithResource operator_SchemeGroupVersion ''rootshards'') TRootShard tweak"
    "NewFilteredShardClusterInformer L [ClusterIndexFunc, ClusterAndNamespaceIndexFunc] tweak =
      cluster_informer L (WithResource operator_SchemeGroupVersion ''shards'') TShard tweak"
    "NewFilteredVirtualWorkspaceClusterInformer L [ClusterIndexFunc, ClusterAndNamespaceIndexFunc] tweak =
      cluster_informer L (WithResource operator_SchemeGroupVersion ''virtualworkspaces'')
          TVirtualWorkspace tweak"
    "NewFilteredCompiledCacheServerClusterInformer L [ClusterIndexFunc, ClusterAndNamespaceIndexFunc] tweak =
      cluster_informer L (WithResource deploy_SchemeGroupVersion ''compiledcacheservers'')
          TCompiledCacheServer tweak"
    "NewFilteredCompiledFrontProxyClusterInformer L [ClusterIndexFunc, ClusterAndNamespaceIndexFunc] tweak =
      cluster_informer L (WithResource deploy_SchemeGroupVersion ''compiledfrontproxies'')
          TCompiledFrontProxy tweak"
    "NewFilteredCompiledRootShardClusterInformer L [ClusterIndexFunc, ClusterAndNamespaceIndexFunc] tweak =
      cluster_informer L (WithResource deploy_SchemeGroupVersion ''compiledrootshards'')
          TCompiledRootShard tweak"
    "NewFilteredCompiledShardClusterInformer L [ClusterIndexFunc, ClusterAndNamespaceIndexFunc] tweak =
      cluster_informer L (WithResource deploy_SchemeGroupVersion ''compiledshards'') TCompiledShard tweak"
    "NewFilteredCompiledVirtualWorkspaceClusterInformer L [ClusterIndexFunc, ClusterAndNamespaceIndexFunc]
        tweak =
      cluster_informer L (WithResource deploy_SchemeGroupVersion ''compiledvirtualworkspaces'')
          TCompiledVirtualWorkspace tweak"
  by (simp_all add: fun_eq_iff typed_client_defs expected_defs bindE_assoc Let_def
      NewFilteredCacheServerClusterInformer_def NewFilteredFrontProxyClusterInformer_def
      NewFilteredKubeconfigClusterInformer_def NewFilteredRootShardClusterInformer_def
      NewFilteredShardClusterInformer_def NewFilteredVirtualWorkspaceClusterInformer_def
      NewFilteredCompiledCacheServerClusterInformer_def NewFilteredCompiledFrontProxyClusterInformer_def
      NewFilteredCompiledRootShardClusterInformer_def NewFilteredCompiledShardClusterInformer_def
      NewFilteredCompiledVirtualWorkspaceClusterInformer_def)

lemma new_workspace_informers:
  shows
    "NewFilteredCacheServerInformer ns [MetaNamespaceIndexFunc] tweak =
      workspace_informer_of (WithResource operator_SchemeGroupVersion ''cacheservers'') TCacheServer ns tweak"
    "NewFilteredFrontProxyInformer ns [MetaNamespaceIndexFunc] tweak =
      workspace_informer_of (WithResource operator_SchemeGroupVersion ''frontproxies'') TFrontProxy ns tweak"
    "NewFilteredKubeconfigInformer ns [MetaNamespaceIndexFunc] tweak =
      workspace_informer_of (WithResource operator_SchemeGroupVersion ''kubeconfigs'') TKubeconfig ns tweak"
    "NewFilteredRootShardInformer ns [MetaNamespaceIndexFunc] tweak =
      workspace_informer_of (WithResource operator_SchemeGroupVersion ''rootshards'') TRootShard ns tweak"
    "NewFilteredShardInformer ns [MetaNamespaceIndexFunc] tweak =
      workspace_informer_of (WithResource operator_SchemeGroupVersion ''shards'') TShard ns tweak"
    "NewFilteredVirtualWorkspaceInformer ns [MetaNamespaceIndexFunc] tweak =
      workspace_informer_of (WithResource operator_SchemeGroupVersion ''virtualworkspaces'')
          TVirtualWorkspace ns tweak"
    "NewFilteredCompiledCacheServerInformer ns [MetaNamespaceIndexFunc] tweak =
      workspace_informer_of (WithResource deploy_SchemeGroupVersion ''compiledcacheservers'')
          TCompiledCacheServer ns tweak"
    "NewFilteredCompiledFrontProxyInformer ns [MetaNamespaceIndexFunc] tweak =
      workspace_informer_of (WithResource deploy_SchemeGroupVersion ''compiledfrontproxies'')
          TCompiledFrontProxy ns tweak"
    "NewFilteredCompiledRootShardInformer ns [MetaNamespaceIndexFunc] tweak =
      workspace_informer_of (WithResource deploy_SchemeGroupVersion ''compiledrootshards'')
          TCompiledRootShard ns tweak"
    "NewFilteredCompiledShardInformer ns [MetaNamespaceIndexFunc] tweak =
      workspace_informer_of (WithResource deploy_SchemeGroupVersion ''compiledshards'') TCompiledShard ns tweak"
    "NewFilteredCompiledVirtualWorkspaceInformer ns [MetaNamespaceIndexFunc] tweak =
      workspace_informer_of (WithResource deploy_SchemeGroupVersion ''compiledvirtualworkspaces'')
          TCompiledVirtualWorkspace ns tweak"
  by (simp_all add: fun_eq_iff typed_client_defs expected_defs Let_def NewFilteredCacheServerInformer_def
      NewFilteredFrontProxyInformer_def NewFilteredKubeconfigInformer_def NewFilteredRootShardInformer_def
      NewFilteredShardInformer_def NewFilteredVirtualWorkspaceInformer_def
      NewFilteredCompiledCacheServerInformer_def NewFilteredCompiledFrontProxyInformer_def
      NewFilteredCompiledRootShardInformer_def NewFilteredCompiledShardInformer_def
      NewFilteredCompiledVirtualWorkspaceInformer_def)

lemma cluster_accessors:
  "list_all (\<lambda>(r, t, acc). acc = (\<lambda>f. InformerFor t (cluster_informer L r t
      (f_tweakListOptions f)) f))
    (cluster_informers L)"
  by (simp add: cluster_informers_def cluster_informer_defs new_cluster_informers)

lemma scoped_accessors:
  "list_all (\<lambda>(r, t, acc). acc = (\<lambda>f. scoped_InformerFor t
      (workspace_informer_of r t (sf_namespace f) (sf_tweakListOptions f)) f)) scoped_informers"
  by (simp add: scoped_informers_def scoped_informer_defs new_workspace_informers)

lemma accessorD:
  "(r, t, acc) \<in> set (cluster_informers L)
    \<Longrightarrow> acc f = InformerFor t (cluster_informer L r t (f_tweakListOptions f)) f"
  "(r, t, sacc) \<in> set scoped_informers
    \<Longrightarrow> sacc sf = scoped_InformerFor t (workspace_informer_of r t (sf_namespace sf)
        (sf_tweakListOptions sf)) sf"
  using cluster_accessors [of L] scoped_accessors by (auto simp: list_all_iff)

section \<open>Sharing\<close>

lemma InformerFor_result:
  assumes "InformerFor t nf f = (i, f')"
  shows "f_informers f' t = Some i" "InformerFor t nf' f' = (i, f')"
    "t' \<noteq> t \<Longrightarrow> f_informers f' t' = f_informers f t'"
  using assms by (auto simp: InformerFor_def Let_def split: option.splits)

lemma generic_typed:
  "list_all (\<lambda>(r, t, acc). factory_ForResource L r f = Inr (generic_cluster r (acc f)))
      (cluster_informers L)"
  by (simp add: cluster_informers_def factory_ForResource_def WithResource_def
      operator_SchemeGroupVersion_def deploy_SchemeGroupVersion_def)

lemma generic_typed_scoped:
  "list_all (\<lambda>(r, t, acc). scoped_ForResource I r f = Inr (generic_scoped I r (acc f)))
      scoped_informers"
  by (simp add: scoped_informers_def scoped_ForResource_def WithResource_def
      operator_SchemeGroupVersion_def deploy_SchemeGroupVersion_def)

lemma generic_unknown:
  "r \<notin> fst ` set (cluster_informers L) \<Longrightarrow> factory_ForResource L r f = Inl (no_informer r)"
  by (simp add: cluster_informers_def factory_ForResource_def)

text \<open>C28: Whoever asks a factory for the informer of an object, through the typed accessor or by its
  resource, gets the same one and leaves the factory in the same state; asking again returns it
  unchanged, and no request touches the informer of another type. A resource that is none of the eleven
  is an error.\<close>

theorem informers_shared:
  assumes "(r, t, acc) \<in> set (cluster_informers L)" and "acc f = (i, f')"
  shows "factory_ForResource L r f = Inr (\<lparr>gc_informer = i, gc_resource = gvr_GroupResource
      r\<rparr>, f')
    \<and> acc f' = (i, f') \<and> f_informers f' t = Some i
    \<and> (\<forall>t'. t' \<noteq> t \<longrightarrow> f_informers f' t' = f_informers f t')
    \<and> distinct (map (fst \<circ> snd) (cluster_informers L))
    \<and> (\<forall>r'. r' \<notin> fst ` set (cluster_informers L) \<longrightarrow> factory_ForResource
        L r' f = Inl (no_informer r'))"
proof (intro conjI allI impI)
  note acc = accessorD(1) [OF assms(1)]
  from assms(2) have i: "InformerFor t (cluster_informer L r t (f_tweakListOptions f)) f = (i, f')"
    by (simp add: acc)
  note res = InformerFor_result [OF i]
  show "factory_ForResource L r f = Inr (\<lparr>gc_informer = i, gc_resource = gvr_GroupResource
      r\<rparr>, f')"
    using generic_typed [of L f] assms by (auto simp: list_all_iff generic_cluster_def)
  show "acc f' = (i, f')" by (simp add: acc res)
  show "f_informers f' t = Some i" by (rule res)
  show "f_informers f' t' = f_informers f t'" if "t' \<noteq> t" for t' using res(3) that by blast
  show "distinct (map (fst \<circ> snd) (cluster_informers L))" by (simp add: cluster_informers_types)
qed (rule generic_unknown)

section \<open>Options\<close>

lemma apply_options_snoc: "apply_options (opts @ [opt]) = opt (apply_options opts)"
  by (simp add: apply_options_def)

text \<open>C29: A new factory gives every informer the resync period and the filter of its options, and for
  one workspace also the namespace; the informer lists and watches exactly its resource, over all
  namespaces of all workspaces or in that namespace of that workspace. The transform of
  \<open>WithTransform\<close>, which is to be set on all informers, is set on none.\<close>

theorem informer_options:
  assumes "(r, t, acc) \<in> set (cluster_informers L)" and "(r', t', sacc) \<in> set scoped_informers"
  shows "fst (acc (NewSharedInformerFactoryWithOptions client resync opts)) =
      cluster_informer L r t (so_tweakListOptions (apply_options opts)) client
        (resync_period (so_customResync (apply_options opts)) resync t) 0
    \<and> fst (sacc (NewSharedScopedInformerFactoryWithOptions sclient resync opts)) =
      workspace_informer_of r' t' (so_namespace (apply_options opts))
        (so_tweakListOptions (apply_options opts)) sclient
        (resync_period (so_customResync (apply_options opts)) resync t') 0
    \<and> fst (acc (NewSharedInformerFactoryWithOptions client resync (opts @ [WithTransform tr]))) =
        fst (acc (NewSharedInformerFactoryWithOptions client resync opts))
    \<and> fst (sacc (NewSharedScopedInformerFactoryWithOptions sclient resync (opts @ [WithTransform tr]))) =
        fst (sacc (NewSharedScopedInformerFactoryWithOptions sclient resync opts))
    \<and> inf_transform (fst (acc (NewSharedInformerFactoryWithOptions client resync opts))) = None
    \<and> inf_transform (fst (sacc (NewSharedScopedInformerFactoryWithOptions sclient resync opts))) = None"
  unfolding accessorD(1) [OF assms(1)] accessorD(2) [OF assms(2)]
  by (simp add: NewSharedInformerFactoryWithOptions_def NewSharedScopedInformerFactoryWithOptions_def
      InformerFor_def scoped_InformerFor_def apply_options_snoc WithTransform_def Let_def
      cluster_informer_def workspace_informer_of_def expected_informer_def)

end
