(* ===== verification/Apply_Memory.thy ===== *)
theory Apply_Memory
  imports Go_Memory
begin

text \<open>
  The statements the generated apply configurations (\<open>sdk/applyconfiguration\<close>) are made of,
      over the
  memory of Go_Memory. An apply configuration is a struct of pointers, slices and maps; a \<open>With\<close>
  function writes one field of the struct its receiver points to and returns the receiver.
\<close>

section \<open>Selectors\<close>

text \<open>
  A location is a cell and the way to a field of the struct in it. A selector \<open>x.f\<close> goes into
      a struct,
  or through a pointer to one; through nil it panics.
\<close>

type_synonym location = "nat \<times> string list"

definition nil_dereference :: go_error where
  "nil_dereference = Panic ''invalid memory address or nil pointer dereference''"

fun value_at :: "string list \<Rightarrow> go_value \<Rightarrow> go_value option" where
  "value_at [] v = Some v"
| "value_at (n # p) (Struct vs) = (case map_of vs n of None \<Rightarrow> None | Some x \<Rightarrow>
    value_at p x)"
| "value_at (n # p) _ = None"

fun update_at :: "string list \<Rightarrow> go_value \<Rightarrow> go_value \<Rightarrow> go_value" where
  "update_at [] y v = y"
| "update_at (n # p) y (Struct vs) =
    Struct (map (\<lambda>(k, x). if k = n then (k, update_at p y x) else (k, x)) vs)"
| "update_at (n # p) y v = v"

definition load_loc :: "memory \<Rightarrow> location \<Rightarrow> go_value res" where
  "load_loc m l = (case load m (fst l) of
      Some (One v) \<Rightarrow> (case value_at (snd l) v of Some x \<Rightarrow> Inr x | None
          \<Rightarrow> Inl nil_dereference)
    | _ \<Rightarrow> Inl nil_dereference)"

definition store_loc :: "memory \<Rightarrow> location \<Rightarrow> go_value \<Rightarrow> memory" where
  "store_loc m l y = (case load m (fst l) of
      Some (One v) \<Rightarrow> m[fst l := One (update_at (snd l) y v)]
    | _ \<Rightarrow> m)"

fun locate :: "memory \<Rightarrow> location \<Rightarrow> string list \<Rightarrow> location res" where
  "locate m l [] = bindE (load_loc m l) (\<lambda>_. Inr l)"
| "locate m l (n # ns) = bindE (load_loc m l) (\<lambda>v. case v of
      Struct _ \<Rightarrow> locate m (fst l, snd l @ [n]) ns
    | Pointer a \<Rightarrow> locate m (a, [n]) ns
    | _ \<Rightarrow> Inl nil_dereference)"

text \<open>The location of \<open>b.f.g\<close> for a receiver \<open>b\<close>.\<close>

definition field_loc :: "memory \<Rightarrow> go_value \<Rightarrow> string list \<Rightarrow> location
    res" where
  "field_loc m b path = (case b of Pointer a \<Rightarrow> locate m (a, []) path | _ \<Rightarrow> Inl
      nil_dereference)"

section \<open>With functions\<close>

text \<open>A \<open>With\<close> function takes its receiver and its argument; a builder returns the
    receiver.\<close>

type_synonym builder = "go_value \<Rightarrow> go_value \<Rightarrow> memory \<Rightarrow> (go_value
    \<times> memory) res"

text \<open>\<open>b.F = value\<close> and \<open>b.F = &value\<close>, where the parameter
    \<open>value\<close> is a variable of its own.\<close>

definition set_value :: "string list \<Rightarrow> builder" where
  "set_value path b v m = bindE (field_loc m b path) (\<lambda>l. Inr (b, store_loc m l v))"

definition set_address :: "string list \<Rightarrow> builder" where
  "set_address path b v m =
    bindE (field_loc m b path) (\<lambda>l. Inr (b, store_loc (m @ [One v]) l (Pointer (length m))))"

text \<open>
  \<open>append(s, x)\<close>: in place while the array has room behind the slice, otherwise into a new
      array with as
  much room as the runtime likes (\<open>grow\<close>), which holds zero values.
\<close>

definition append_slice :: "(nat \<Rightarrow> nat) \<Rightarrow> memory \<Rightarrow> go_value
    \<Rightarrow> go_value \<Rightarrow> (go_value \<times> memory) res" where
  "append_slice grow m s x = (case s of
      NilRef \<Rightarrow> Inr (Slice (length m) 0 1, m @ [Many (x # replicate (grow 1) NilRef)])
    | Slice a i n \<Rightarrow> (case load m a of
        Some (Many xs) \<Rightarrow>
          if i + n < length xs then Inr (Slice a i (Suc n), m[a := Many (xs[i + n := x])])
          else Inr (Slice (length m) 0 (Suc n),
                 m @ [Many (take n (drop i xs) @ x # replicate (grow (Suc n)) NilRef)])
      | _ \<Rightarrow> Inl nil_dereference)
    | _ \<Rightarrow> Inl nil_dereference)"

text \<open>
  The argument \<open>values\<close> of a variadic function is a slice; \<open>values[i]\<close> is read
      in every iteration, and
  with \<open>*values[i]\<close> the element is a pointer, for which nil is checked.
\<close>

definition variadic_length :: "go_value \<Rightarrow> nat" where
  "variadic_length values = (case values of Slice a i n \<Rightarrow> n | _ \<Rightarrow> 0)"

definition variadic_element :: "memory \<Rightarrow> go_value \<Rightarrow> nat \<Rightarrow> go_value
    res" where
  "variadic_element m values k = (case values of
      Slice a i n \<Rightarrow> (case load m a of
        Some (Many xs) \<Rightarrow> if i + k < length xs then Inr (xs ! (i + k)) else Inl nil_dereference
      | _ \<Rightarrow> Inl nil_dereference)
    | _ \<Rightarrow> Inl nil_dereference)"

definition pointed_to :: "string option \<Rightarrow> memory \<Rightarrow> go_value \<Rightarrow> go_value
    res" where
  "pointed_to nil_message m x = (case nil_message of
      None \<Rightarrow> Inr x
    | Some msg \<Rightarrow> (case x of NilRef \<Rightarrow> Inl (Panic msg) | Pointer a \<Rightarrow>
        load_loc m (a, []) | _ \<Rightarrow> Inl nil_dereference))"

fun append_each :: "(nat \<Rightarrow> nat) \<Rightarrow> string option \<Rightarrow> string list
    \<Rightarrow> go_value \<Rightarrow> go_value \<Rightarrow> nat list \<Rightarrow> memory
    \<Rightarrow> memory res" where
  "append_each grow msg path b values [] m = Inr m"
| "append_each grow msg path b values (k # ks) m =
    bindE (variadic_element m values k) (\<lambda>x. bindE (pointed_to msg m x) (\<lambda>y.
    bindE (field_loc m b path) (\<lambda>l. bindE (load_loc m l) (\<lambda>s.
    bindE (append_slice grow m s y) (\<lambda>(s', m').
    append_each grow msg path b values ks (store_loc m' l s'))))))"

text \<open>
  The loops \<open>for i := range values { b.F = append(b.F, values[i]) }\<close>, and with
      \<open>*values[i]\<close> under the check
  for nil that panics with the message.
\<close>

definition append_values :: "(nat \<Rightarrow> nat) \<Rightarrow> string list \<Rightarrow> builder" where
  "append_values grow path b values m =
    bindE (append_each grow None path b values [0..<variadic_length values] m) (\<lambda>m'. Inr (b, m'))"

definition append_pointed :: "(nat \<Rightarrow> nat) \<Rightarrow> string \<Rightarrow> string list
    \<Rightarrow> builder" where
  "append_pointed grow msg path b values m =
    bindE (append_each grow (Some msg) path b values [0..<variadic_length values] m) (\<lambda>m'. Inr (b, m'))"

text \<open>
  \<open>if b.F == nil && len(entries) > 0 { b.F = make(...) }; for k, v := range entries { b.F[k] = v }\<close>
\<close>

fun put_entry :: "(string \<times> go_value) list \<Rightarrow> string \<times> go_value \<Rightarrow>
    (string \<times> go_value) list" where
  "put_entry [] e = [e]"
| "put_entry (x # xs) e = (if fst x = fst e then e # xs else x # put_entry xs e)"

definition map_entries :: "memory \<Rightarrow> go_value \<Rightarrow> (string \<times> go_value) list
    res" where
  "map_entries m v = (case v of
      NilRef \<Rightarrow> Inr []
    | MapRef a \<Rightarrow> (case load m a of Some (Entries es) \<Rightarrow> Inr es | _ \<Rightarrow>
        Inl nil_dereference)
    | _ \<Rightarrow> Inl nil_dereference)"

definition put_entries :: "string list \<Rightarrow> builder" where
  "put_entries path b entries m =
    bindE (field_loc m b path) (\<lambda>l. bindE (load_loc m l) (\<lambda>old. bindE (map_entries m
        entries) (\<lambda>es.
    if es = [] then Inr (b, m)
    else if old = NilRef
    then Inr (b, store_loc (m @ [Entries (foldl put_entry [] es)]) l (MapRef (length m)))
    else bindE (map_entries m old) (\<lambda>os. case old of
        MapRef a \<Rightarrow> Inr (b, m[a := Entries (foldl put_entry os es)])
      | _ \<Rightarrow> Inl nil_dereference))))"

section \<open>Objects\<close>

text \<open>\<open>&T{}\<close>, and a function without argument that may allocate.\<close>

definition new_struct :: "go_value \<Rightarrow> memory \<Rightarrow> go_value \<times> memory" where
  "new_struct zero m = (Pointer (length m), m @ [One zero])"

text \<open>\<open>if b.F == nil { b.F = &T{} }\<close>\<close>

definition ensure_exists :: "string \<Rightarrow> go_value \<Rightarrow> go_value \<Rightarrow> memory
    \<Rightarrow> memory res" where
  "ensure_exists name zero b m =
    bindE (field_loc m b [name]) (\<lambda>l. bindE (load_loc m l) (\<lambda>v.
    if v = NilRef then Inr (store_loc (m @ [One zero]) l (Pointer (length m))) else Inr m))"

text \<open>The \<open>With\<close> function \<open>f\<close> after
    \<open>b.ensureObjectMetaApplyConfigurationExists()\<close>, and the getter \<open>return
    b.F\<close>.\<close>

definition ensured :: "(go_value \<Rightarrow> memory \<Rightarrow> memory res) \<Rightarrow> builder
    \<Rightarrow> builder" where
  "ensured ensure f b v m = bindE (ensure b m) (f b v)"

definition get_field :: "string list \<Rightarrow> go_value \<Rightarrow> memory \<Rightarrow> (go_value
    \<times> memory) res" where
  "get_field path b m = bindE (field_loc m b path) (\<lambda>l. bindE (load_loc m l) (\<lambda>v. Inr (v, m)))"

section \<open>Structs\<close>

text \<open>
  The fields of an apply configuration: pointers, slices and maps, of which only the name of the Go type
  is kept, and embedded structs. All but the last are nil in a new struct.
\<close>

datatype field_type = FPointer string | FSlice string | FMap string | FEmbedded go_value

fun zero_field :: "field_type \<Rightarrow> go_value" where
  "zero_field (FEmbedded v) = v"
| "zero_field _ = NilRef"

definition zero_struct :: "(string \<times> field_type) list \<Rightarrow> go_value" where
  "zero_struct fs = Struct (map (\<lambda>(n, t). (n, zero_field t)) fs)"

text \<open>The zero values of the two library structs every object has.\<close>

record meta_library =
  zero_TypeMetaApplyConfiguration :: go_value
  zero_ObjectMetaApplyConfiguration :: go_value

chapter \<open>Configurations and memory\<close>

text \<open>
  What a chain of \<open>With\<close> calls on a new apply configuration does, abstractly: it builds up a
      value per
  field. The relation \<open>built\<close> connects such a state with the memory; every kind of
      \<open>With\<close> function
  preserves it. Its core is that all cells the configuration refers to are its own.
\<close>

section \<open>The abstract state\<close>

text \<open>
  Four kinds of \<open>With\<close> functions: \<open>b.F = value\<close>, \<open>b.F = &value\<close>,
      the two loops that append (with the
  message of the check for nil, if there is one), and the loop over the entries of a map.
\<close>

datatype with_kind = SetValue | SetAddress | Append "string option" | PutEntries

definition with_op :: "(nat \<Rightarrow> nat) \<Rightarrow> with_kind \<Rightarrow> string list
    \<Rightarrow> builder" where
  "with_op grow kind path = (case kind of
      SetValue \<Rightarrow> set_value path
    | SetAddress \<Rightarrow> set_address path
    | Append None \<Rightarrow> append_values grow path
    | Append (Some msg) \<Rightarrow> append_pointed grow msg path
    | PutEntries \<Rightarrow> put_entries path)"

datatype ac_value = Unset | Is go_value | PointsTo go_value | Items "go_value list"
  | Maps "string \<rightharpoonup> go_value"

type_synonym ac_state = "string list \<Rightarrow> ac_value"

fun items_of :: "ac_value \<Rightarrow> go_value list" where
  "items_of (Items xs) = xs"
| "items_of _ = []"

fun entries_of :: "ac_value \<Rightarrow> string \<rightharpoonup> go_value" where
  "entries_of (Maps f) = f"
| "entries_of _ = Map.empty"

text \<open>The elements of a variadic argument, dereferenced where the function does so.\<close>

fun arg_items :: "memory \<Rightarrow> string option \<Rightarrow> go_value \<Rightarrow> nat list
    \<Rightarrow> go_value list res" where
  "arg_items m msg values [] = Inr []"
| "arg_items m msg values (k # ks) =
    bindE (variadic_element m values k) (\<lambda>x. bindE (pointed_to msg m x) (\<lambda>y.
    bindE (arg_items m msg values ks) (\<lambda>ys. Inr (y # ys))))"

text \<open>
  What a call does to the state: the last value wins, elements add up, entries with the same key are
  overwritten. The arguments are read in the memory before the first call.
\<close>

definition abs_with :: "memory \<Rightarrow> with_kind \<Rightarrow> string list \<Rightarrow> go_value
    \<Rightarrow> ac_state \<Rightarrow> ac_state res" where
  "abs_with m0 kind path v st = (case kind of
      SetValue \<Rightarrow> Inr (st(path := if v = NilRef then Unset else Is v))
    | SetAddress \<Rightarrow> Inr (st(path := PointsTo v))
    | Append msg \<Rightarrow> bindE (arg_items m0 msg v [0..<variadic_length v]) (\<lambda>ys.
        Inr (if ys = [] then st else st(path := Items (items_of (st path) @ ys))))
    | PutEntries \<Rightarrow> bindE (map_entries m0 v) (\<lambda>es.
        Inr (if es = [] then st
             else st(path := Maps (foldl (\<lambda>f (k, x). f(k \<mapsto> x)) (entries_of (st path)) es)))))"

section \<open>Values in structs\<close>

lemma value_at_append:
  "value_at (p @ q) v = (case value_at p v of None \<Rightarrow> None | Some w \<Rightarrow> value_at q w)"
  by (induction p v rule: value_at.induct) (auto split: option.split)

lemma value_at_leaf: "value_at (n # p) v = Some x \<Longrightarrow> \<exists>vs. v = Struct vs"
  by (cases v) auto

lemma map_of_update: "map_of (map (\<lambda>(k, x). if k = n then (k, f x) else (k, x)) vs) m =
    (if m = n then map_option f (map_of vs m) else map_of vs m)"
  by (induction vs) auto

lemma value_at_update_same:
  "value_at p v \<noteq> None \<Longrightarrow> value_at p (update_at p y v) = Some y"
proof (induction p arbitrary: v)
  case (Cons n p)
  then show ?case by (cases v) (auto simp: map_of_update split: option.splits)
qed simp

text \<open>Two leaves of a struct do not touch: neither is a way through the other.\<close>

definition apart :: "string list \<Rightarrow> string list \<Rightarrow> bool" where
  "apart p q \<longleftrightarrow> \<not> prefix p q \<and> \<not> prefix q p"

lemma value_at_update_apart: "apart p q \<Longrightarrow> value_at q (update_at p y v) = value_at q v"
proof (induction p arbitrary: q v)
  case (Cons n p)
  then show ?case
    by (cases q; cases v) (auto simp: apart_def map_of_update split: option.split)
qed (simp add: apart_def)

lemma leaves_apart:
  assumes "value_at p z = Some NilRef" "value_at q z = Some NilRef" "p \<noteq> q"
  shows "apart p q"
proof -
  have "r = []" if "value_at r NilRef = Some NilRef" for r using that by (cases r) auto
  with assms show ?thesis by (auto simp: apart_def prefix_def value_at_append)
qed

section \<open>Cells\<close>

lemma load_append [simp]: "a < length m \<Longrightarrow> load (m @ cs) a = load m a" "load (m @ [c])
    (length m) = Some c"
  by (simp_all add: load_def nth_append)

lemma load_update: "a < length m \<Longrightarrow> load (m[a := c]) b = (if b = a then Some c else load m b)"
  by (auto simp: load_def)

lemma load_length: "load m a = Some c \<Longrightarrow> a < length m"
  by (simp add: load_def split: if_splits)

lemma load_store:
  assumes "load m (fst l) = Some (One v)"
  shows "load (store_loc m l y) a = (if a = fst l then Some (One (update_at (snd l) y v)) else load m a)"
  using assms load_length [OF assms] by (simp add: store_loc_def load_update)

lemma length_store [simp]: "length (store_loc m l y) = length m"
  by (simp add: store_loc_def split: option.split cell.split)

lemma locate_inline:
  assumes "load m a = Some (One v)" "value_at (p @ q) v = Some x"
  shows "locate m (a, p) q = Inr (a, p @ q)"
  using assms
proof (induction q arbitrary: p)
  case Nil
  then show ?case by (simp add: load_loc_def)
next
  case (Cons n q)
  then obtain w where w: "value_at p v = Some w" "value_at (n # q) w = Some x"
    by (auto simp: value_at_append split: option.splits)
  then obtain vs where "w = Struct vs" using value_at_leaf by blast
  with w Cons show ?case by (simp add: load_loc_def)
qed

section \<open>The relation\<close>

text \<open>
  The shape of a configuration: its zero value, for objects the name and zero value of the metadata
  struct it points to, and its fields with the kind of function that sets them.
\<close>

record ac_shape =
  sh_zero :: go_value
  sh_meta :: "(string \<times> go_value) option"
  sh_leaves :: "(string list \<times> with_kind) list"

definition in_meta :: "ac_shape \<Rightarrow> string list \<Rightarrow> bool" where
  "in_meta S p \<longleftrightarrow> (case sh_meta S of None \<Rightarrow> False | Some (h, _)
      \<Rightarrow> p \<noteq> [] \<and> hd p = h)"

text \<open>A field is nil in the zero value, or one of the metadata struct.\<close>

definition leaf_ok :: "ac_shape \<Rightarrow> string list \<Rightarrow> bool" where
  "leaf_ok S p \<longleftrightarrow> (case sh_meta S of
      None \<Rightarrow> value_at p (sh_zero S) = Some NilRef
    | Some (h, zm) \<Rightarrow> (case p of
        [] \<Rightarrow> False
      | n # q \<Rightarrow> if n = h then q \<noteq> [] \<and> value_at q zm = Some NilRef
                 else value_at p (sh_zero S) = Some NilRef))"

definition shape_ok :: "ac_shape \<Rightarrow> bool" where
  "shape_ok S \<longleftrightarrow> distinct (map fst (sh_leaves S)) \<and> list_all (\<lambda>(p, _).
      leaf_ok S p) (sh_leaves S)
    \<and> (case sh_meta S of None \<Rightarrow> True | Some (h, _) \<Rightarrow> value_at [h] (sh_zero S)
        = Some NilRef)"

text \<open>Where a field is, in the object at \<open>r\<close> with value \<open>v\<close>: None while
    there is no metadata struct.\<close>

definition slot :: "ac_shape \<Rightarrow> nat \<Rightarrow> go_value \<Rightarrow> string list
    \<Rightarrow> location option" where
  "slot S r v p =
    (if in_meta S p then (case value_at [hd p] v of Some (Pointer k) \<Rightarrow> Some (k, tl p) | _
        \<Rightarrow> None)
     else Some (r, p))"

definition reading :: "memory \<Rightarrow> location option \<Rightarrow> go_value res" where
  "reading m l = (case l of None \<Rightarrow> Inr NilRef | Some l \<Rightarrow> load_loc m l)"

text \<open>The cell a field has for itself, and what its value stands for.\<close>

fun own_cell :: "with_kind \<Rightarrow> go_value \<Rightarrow> nat option" where
  "own_cell SetAddress (Pointer a) = Some a"
| "own_cell (Append _) (Slice a i n) = Some a"
| "own_cell PutEntries (MapRef a) = Some a"
| "own_cell _ _ = None"

fun stands_for :: "memory \<Rightarrow> with_kind \<Rightarrow> go_value \<Rightarrow> ac_value
    \<Rightarrow> bool" where
  "stands_for m SetValue v X \<longleftrightarrow> X = (if v = NilRef then Unset else Is v)"
| "stands_for m _ NilRef X \<longleftrightarrow> X = Unset"
| "stands_for m SetAddress (Pointer a) X \<longleftrightarrow> (\<exists>y. load m a = Some (One y) \<and>
    X = PointsTo y)"
| "stands_for m (Append _) (Slice a i n) X \<longleftrightarrow> (\<exists>xs. load m a = Some (Many xs)
    \<and> i + n \<le> length xs
      \<and> X = Items (take n (drop i xs)))"
| "stands_for m PutEntries (MapRef a) X \<longleftrightarrow> (\<exists>es. load m a = Some (Entries es)
    \<and> X = Maps (map_of es))"
| "stands_for m _ _ X \<longleftrightarrow> False"

lemma stands_for_cong:
  "stands_for m kind v X \<Longrightarrow> (\<And>a. own_cell kind v = Some a \<Longrightarrow> load m' a
      = load m a) \<Longrightarrow> stands_for m' kind v X"
  by (cases kind; cases v) auto

lemma stands_for_nil [simp]: "stands_for m kind NilRef Unset"
  by (cases kind) auto

text \<open>The cells that hold the structs: that of the object, and that of its metadata.\<close>

definition struct_cells :: "ac_shape \<Rightarrow> nat \<Rightarrow> go_value \<Rightarrow> nat set" where
  "struct_cells S r v = insert r (case sh_meta S of None \<Rightarrow> {} | Some (h, _) \<Rightarrow>
      (case value_at [h] v of Some (Pointer k) \<Rightarrow> {k} | _ \<Rightarrow> {}))"

definition built_at :: "memory \<Rightarrow> ac_shape \<Rightarrow> memory \<Rightarrow> go_value
    \<Rightarrow> (string list \<Rightarrow> go_value) \<Rightarrow> ac_state \<Rightarrow> bool" where
  "built_at m0 S m v val st \<longleftrightarrow>
    (let r = length m0; own = (\<lambda>(p, kind). own_cell kind (val p)) in
     take r m = m0 \<and> load m r = Some (One v)
   \<and> (case sh_meta S of None \<Rightarrow> True | Some (h, _) \<Rightarrow>
        value_at [h] v = Some NilRef
        \<or> (\<exists>k w. value_at [h] v = Some (Pointer k) \<and> r < k \<and> load m k = Some (One w)))
   \<and> (\<forall>(p, kind)\<in>set (sh_leaves S). reading m (slot S r v p) = Inr (val p) \<and>
       stands_for m kind (val p) (st p)
        \<and> (\<forall>a. own_cell kind (val p) = Some a \<longrightarrow> r < a \<and> a < length m
            \<and> a \<notin> struct_cells S r v))
   \<and> (\<forall>x\<in>set (sh_leaves S). \<forall>y\<in>set (sh_leaves S). own x = own y
       \<longrightarrow> own x \<noteq> None \<longrightarrow> x = y))"

definition built :: "memory \<Rightarrow> ac_shape \<Rightarrow> memory \<Rightarrow> ac_state
    \<Rightarrow> bool" where
  "built m0 S m st \<longleftrightarrow> (\<exists>v val. built_at m0 S m v val st)"

lemma leaf_cases:
  assumes "shape_ok S" "(p, kind) \<in> set (sh_leaves S)"
  obtains (inline) "\<not> in_meta S p" "value_at p (sh_zero S) = Some NilRef"
    | (meta) h zm q where "in_meta S p" "sh_meta S = Some (h, zm)" "p = h # q" "q \<noteq> []" "value_at q
        zm = Some NilRef"
        "value_at [h] (sh_zero S) = Some NilRef"
proof -
  have "leaf_ok S p" using assms by (auto simp: shape_ok_def list_all_iff)
  moreover have nil: "sh_meta S = Some (h, zm) \<Longrightarrow> value_at [h] (sh_zero S) = Some NilRef"
      for h zm
    using assms(1) by (simp add: shape_ok_def)
  ultimately show ?thesis
  proof (cases "in_meta S p")
    case False
    then have "value_at p (sh_zero S) = Some NilRef"
      using \<open>leaf_ok S p\<close> by (cases p) (auto simp: leaf_ok_def in_meta_def split:
          option.splits if_splits)
    with False show ?thesis by (rule inline)
  next
    case True
    then obtain h zm q where eq: "sh_meta S = Some (h, zm)" "p = h # q"
      by (auto simp: in_meta_def neq_Nil_conv split: option.splits)
    with \<open>leaf_ok S p\<close> have "q \<noteq> []" "value_at q zm = Some NilRef" by (auto simp:
        leaf_ok_def)
    with True eq nil show ?thesis by (intro meta [OF True eq]) simp_all
  qed
qed

lemma built_new:
  assumes "shape_ok S"
  shows "built m0 S (m0 @ [One (sh_zero S)]) (\<lambda>_. Unset)"
proof -
  have "reading (m0 @ [One (sh_zero S)]) (slot S (length m0) (sh_zero S) p) = Inr NilRef"
    if "(p, kind) \<in> set (sh_leaves S)" for p kind
    using assms that
    by (cases rule: leaf_cases) (simp_all add: slot_def reading_def load_loc_def)
  moreover have "own_cell kind NilRef = None" for kind by (cases kind) auto
  ultimately have "built_at m0 S (m0 @ [One (sh_zero S)]) (sh_zero S) (\<lambda>_. NilRef) (\<lambda>_. Unset)"
    using assms by (auto simp: built_at_def Let_def shape_ok_def split: option.splits)
  then show ?thesis unfolding built_def by blast
qed

section \<open>Storing into a field\<close>

lemma built_atD:
  assumes "built_at m0 S m v val st"
  shows "take (length m0) m = m0" "load m (length m0) = Some (One v)"
    "sh_meta S = Some (h, zm) \<Longrightarrow> value_at [h] v = Some NilRef
      \<or> (\<exists>k w. value_at [h] v = Some (Pointer k) \<and> length m0 < k \<and> load m k = Some
          (One w))"
    "(p, kind) \<in> set (sh_leaves S) \<Longrightarrow> reading m (slot S (length m0) v p) = Inr (val p)"
    "(p, kind) \<in> set (sh_leaves S) \<Longrightarrow> stands_for m kind (val p) (st p)"
    "(p, kind) \<in> set (sh_leaves S) \<Longrightarrow> own_cell kind (val p) = Some a
      \<Longrightarrow> length m0 < a \<and> a < length m \<and> a \<notin> struct_cells S (length m0) v"
    "(p, kind) \<in> set (sh_leaves S) \<Longrightarrow> (q, kd) \<in> set (sh_leaves S) \<Longrightarrow>
        own_cell kind (val p) = Some a
      \<Longrightarrow> own_cell kd (val q) = Some a \<Longrightarrow> p = q \<and> kind = kd"
  using assms by (fastforce simp: built_at_def Let_def)+

lemma built_atI:
  assumes "take (length m0) m = m0" "load m (length m0) = Some (One v)"
    and "case sh_meta S of None \<Rightarrow> True | Some (h, _) \<Rightarrow> value_at [h] v = Some NilRef
      \<or> (\<exists>k w. value_at [h] v = Some (Pointer k) \<and> length m0 < k \<and> load m k = Some
          (One w))"
    and "\<And>p kind. (p, kind) \<in> set (sh_leaves S) \<Longrightarrow> reading m (slot S (length m0) v
        p) = Inr (val p)
      \<and> stands_for m kind (val p) (st p) \<and> (\<forall>a. own_cell kind (val p) = Some a
          \<longrightarrow> length m0 < a \<and> a < length m \<and> a \<notin> struct_cells S (length m0) v)"
    and inj: "\<And>p kind q kd a. (p, kind) \<in> set (sh_leaves S) \<Longrightarrow> (q, kd) \<in> set
        (sh_leaves S)
      \<Longrightarrow> own_cell kind (val p) = Some a \<Longrightarrow> own_cell kd (val q) = Some a
          \<Longrightarrow> p = q \<and> kind = kd"
  shows "built_at m0 S m v val st"
proof -
  have "x = z" if "x \<in> set (sh_leaves S)" "z \<in> set (sh_leaves S)"
    "(\<lambda>(p, kind). own_cell kind (val p)) x = (\<lambda>(p, kind). own_cell kind (val p)) z"
    "(\<lambda>(p, kind). own_cell kind (val p)) x \<noteq> None" for x z
    using that inj [of "fst x" "snd x" "fst z" "snd z"] by (auto simp: case_prod_unfold prod_eq_iff)
  with assms(1-4) show ?thesis unfolding built_at_def Let_def by fast
qed

text \<open>The cell of a slot is one of the struct cells, and those are cells of structs.\<close>

lemma slot_cell: "slot S r v p = Some l \<Longrightarrow> fst l \<in> struct_cells S r v"
  by (auto simp: slot_def struct_cells_def in_meta_def split: if_splits option.splits go_value.splits)

lemma struct_cell_load:
  assumes "built_at m0 S m v val st" "a \<in> struct_cells S (length m0) v"
  shows "length m0 \<le> a \<and> (\<exists>w. load m a = Some (One w))"
  using assms built_atD(2) [OF assms(1)] built_atD(3) [OF assms(1)]
  by (auto simp: struct_cells_def split: option.splits go_value.splits)

text \<open>Two fields in the same cell are apart.\<close>

lemma slots_apart:
  assumes S: "shape_ok S" and b: "built_at m0 S m v val st"
    and p: "(p, kind) \<in> set (sh_leaves S)" and q: "(q, kd) \<in> set (sh_leaves S)" and ne: "p \<noteq> q"
    and sl: "slot S (length m0) v p = Some l" "slot S (length m0) v q = Some l'" "fst l = fst l'"
  shows "apart (snd l) (snd l')"
  using S p
proof (cases rule: leaf_cases)
  case inline
  note ip = this
  from S q show ?thesis
  proof (cases rule: leaf_cases)
    case inline
    with ip sl ne show ?thesis by (auto simp: slot_def intro: leaves_apart)
  next
    case (meta h zm q')
    with ip sl built_atD(3) [OF b] show ?thesis by (auto simp: slot_def split: option.splits go_value.splits)
  qed
next
  case (meta h zm p')
  note mp = this
  from S q show ?thesis
  proof (cases rule: leaf_cases)
    case inline
    with mp sl built_atD(3) [OF b] show ?thesis by (auto simp: slot_def split: option.splits go_value.splits)
  next
    case (meta h' zm' q')
    with mp sl ne show ?thesis
      by (auto simp: slot_def split: option.splits go_value.splits intro: leaves_apart)
  qed
qed

text \<open>What a store at a slot does to the object: the struct, its metadata pointer, and its slots.\<close>

definition stored_object :: "ac_shape \<Rightarrow> string list \<Rightarrow> go_value \<Rightarrow>
    go_value \<Rightarrow> go_value" where
  "stored_object S p y v = (if in_meta S p then v else update_at p y v)"

lemma stored_object_meta:
  assumes "shape_ok S" "(p, kind) \<in> set (sh_leaves S)" "sh_meta S = Some (h, zm)"
  shows "value_at [h] (stored_object S p y v) = value_at [h] v"
  using assms(1,2)
proof (cases rule: leaf_cases)
  case inline
  moreover from this assms(3) have "p \<noteq> [h]" by (auto simp: in_meta_def)
  moreover have "value_at [h] (sh_zero S) = Some NilRef" using assms by (simp add: shape_ok_def)
  ultimately have "apart p [h]" by (intro leaves_apart)
  with inline show ?thesis by (simp only: stored_object_def value_at_update_apart if_False)
qed (simp add: stored_object_def)

lemma stored_object_slots:
  assumes "shape_ok S" "(p, kind) \<in> set (sh_leaves S)"
  shows "slot S r (stored_object S p y v) q = slot S r v q"
    "struct_cells S r (stored_object S p y v) = struct_cells S r v"
  using stored_object_meta [OF assms]
  by (auto simp: slot_def in_meta_def struct_cells_def split: option.splits)

text \<open>
  The situation of a store at the slot \<open>l\<close> of the field \<open>p\<close>: \<open>m1\<close>
      is the memory before it, which may have
  new cells and may have changed the cell the field owns.
\<close>

definition may_store :: "memory \<Rightarrow> ac_shape \<Rightarrow> memory \<Rightarrow> go_value
    \<Rightarrow> (string list \<Rightarrow> go_value) \<Rightarrow> ac_state
    \<Rightarrow> string list \<Rightarrow> with_kind \<Rightarrow> location \<Rightarrow> memory
        \<Rightarrow> go_value \<Rightarrow> ac_value \<Rightarrow> bool" where
  "may_store m0 S m v val st p kind l m1 y X \<longleftrightarrow>
     shape_ok S \<and> built_at m0 S m v val st \<and> (p, kind) \<in> set (sh_leaves S)
   \<and> slot S (length m0) v p = Some l \<and> length m \<le> length m1
   \<and> (\<forall>a < length m. own_cell kind (val p) \<noteq> Some a \<longrightarrow> load m1 a = load m a)
   \<and> stands_for m1 kind y X
   \<and> (\<forall>a. own_cell kind y = Some a \<longrightarrow> a < length m1 \<and> (own_cell kind (val
       p) = Some a \<or> length m \<le> a))"

lemma may_storeD:
  assumes "may_store m0 S m v val st p kind l m1 y X"
  shows "shape_ok S" "built_at m0 S m v val st" "(p, kind) \<in> set (sh_leaves S)"
    "slot S (length m0) v p = Some l" "length m \<le> length m1" "stands_for m1 kind y X"
    "a < length m \<Longrightarrow> own_cell kind (val p) \<noteq> Some a \<Longrightarrow> load m1 a =
        load m a"
    "own_cell kind y = Some a \<Longrightarrow> a < length m1 \<and> (own_cell kind (val p) = Some a \<or>
        length m \<le> a)"
  using assms by (auto simp: may_store_def)

lemma leaf_kind:
  "shape_ok S \<Longrightarrow> (p, k1) \<in> set (sh_leaves S) \<Longrightarrow> (p, k2) \<in> set
      (sh_leaves S) \<Longrightarrow> k1 = k2"
  by (auto simp: shape_ok_def dest: eq_key_imp_eq_value)

lemma store_cells:
  assumes st: "may_store m0 S m v val st p kind l m1 y X"
  shows "a \<in> struct_cells S (length m0) v \<Longrightarrow> load m1 a = load m a"
    "a < length m0 \<Longrightarrow> load m1 a = load m a" "length m0 < length m"
proof -
  note D = may_storeD [OF st]
  note B = built_atD [OF D(2)]
  show "length m0 < length m" using load_length [OF B(2)] .
  show "load m1 a = load m a" if "a \<in> struct_cells S (length m0) v"
    using that B(6) [OF D(3)] struct_cell_load [OF D(2)] load_length D(7) by metis
  show "load m1 a = load m a" if "a < length m0"
    using that B(6) [OF D(3)] load_length [OF B(2)] by (intro D(7)) auto
qed

text \<open>The cell that is written, before and after.\<close>

lemma store_load:
  assumes st: "may_store m0 S m v val st p kind l m1 y X"
  obtains w where "load m (fst l) = Some (One w)" "load m1 (fst l) = Some (One w)" "value_at (snd l) w =
      Some (val p)"
    "\<And>a. load (store_loc m1 l y) a = (if a = fst l then Some (One (update_at (snd l) y w)) else load m1 a)"
proof -
  note D = may_storeD [OF st]
  obtain w where w: "load m1 (fst l) = Some (One w)" "value_at (snd l) w = Some (val p)"
    using built_atD(4) [OF D(2,3)] D(4) struct_cell_load [OF D(2)] slot_cell [OF D(4)] store_cells(1) [OF st]
    by (auto simp: reading_def load_loc_def split: option.splits cell.splits)
  moreover from this have "load m (fst l) = Some (One w)"
    using store_cells(1) [OF st slot_cell [OF D(4)]] by simp
  ultimately show ?thesis using load_store [OF w(1)] that by blast
qed

text \<open>The field that is written holds the new value.\<close>

lemma store_leaf_same:
  assumes st: "may_store m0 S m v val st p kind l m1 y X"
  shows "load_loc (store_loc m1 l y) l = Inr y" "stands_for (store_loc m1 l y) kind y X"
    "own_cell kind y = Some a \<Longrightarrow> length m0 < a \<and> a < length m1 \<and> a \<notin>
        struct_cells S (length m0) v"
proof -
  note D = may_storeD [OF st]
  obtain w where w: "value_at (snd l) w = Some (val p)"
    "\<And>a. load (store_loc m1 l y) a = (if a = fst l then Some (One (update_at (snd l) y w)) else load m1 a)"
    using store_load [OF st] by metis
  show own: "length m0 < a \<and> a < length m1 \<and> a \<notin> struct_cells S (length m0) v" if
      "own_cell kind y = Some a" for a
    using D(8) [OF that] built_atD(6) [OF D(2,3)] load_length struct_cell_load [OF D(2)] store_cells(3) [OF st]
    by (metis linorder_not_less order_less_le_trans)
  show "load_loc (store_loc m1 l y) l = Inr y"
    using w by (simp add: load_loc_def value_at_update_same)
  show "stands_for (store_loc m1 l y) kind y X"
    using D(6) own slot_cell [OF D(4)] by (rule_tac stands_for_cong) (auto simp: w(2))
qed

text \<open>All others hold what they held.\<close>

lemma store_leaf_other:
  assumes st: "may_store m0 S m v val st p kind l m1 y X" and q: "(q, kd) \<in> set (sh_leaves S)" "q
      \<noteq> p"
  shows "reading (store_loc m1 l y) (slot S (length m0) v q) = Inr (val q)"
    "stands_for (store_loc m1 l y) kd (val q) (st q)"
proof -
  note D = may_storeD [OF st]
  note B = built_atD [OF D(2)]
  obtain w where w: "load m (fst l) = Some (One w)"
    "\<And>a. load (store_loc m1 l y) a = (if a = fst l then Some (One (update_at (snd l) y w)) else load m1 a)"
    using store_load [OF st] by metis
  have other: "own_cell kd (val q) = Some a \<Longrightarrow> own_cell kind (val p) \<noteq> Some a" for a
    using B(7) [OF D(3) q(1)] q(2) by blast
  have "load (store_loc m1 l y) a = load m a" if "own_cell kd (val q) = Some a" for a
    using that B(6) [OF q(1) that] slot_cell [OF D(4)] other [OF that] by (auto simp: w(2) intro!: D(7))
  then show "stands_for (store_loc m1 l y) kd (val q) (st q)" by (rule stands_for_cong [OF B(5) [OF q(1)]])
  show "reading (store_loc m1 l y) (slot S (length m0) v q) = Inr (val q)"
  proof (cases "slot S (length m0) v q")
    case (Some l')
    note cell = store_cells(1) [OF st slot_cell [OF Some]]
    have "load_loc (store_loc m1 l y) l' = load_loc m l'"
    proof (cases "fst l' = fst l")
      case True
      then have "apart (snd l) (snd l')"
        using slots_apart [OF D(1-3) q(1) q(2) [symmetric] D(4) Some] by simp
      with True w(1) show ?thesis by (simp add: load_loc_def w(2) value_at_update_apart)
    next
      case False
      with cell show ?thesis by (simp add: load_loc_def w(2))
    qed
    with Some B(4) [OF q(1)] show ?thesis by (simp add: reading_def)
  qed (use B(4) [OF q(1)] in \<open>simp add: reading_def\<close>)
qed

text \<open>The memory before the first call is left alone.\<close>

lemma store_old:
  assumes st: "may_store m0 S m v val st p kind l m1 y X"
  shows "take (length m0) (store_loc m1 l y) = m0"
proof (rule nth_equalityI)
  note D = may_storeD [OF st]
  note len = store_cells(3) [OF st] D(5)
  fix a assume "a < length (take (length m0) (store_loc m1 l y))"
  then have a: "a < length m0" "a < length m" using len by auto
  obtain w where "\<And>a. load (store_loc m1 l y) a = (if a = fst l then Some (One (update_at (snd l) y
      w)) else load m1 a)"
    using store_load [OF st] by metis
  then have "load (store_loc m1 l y) a = load m a"
    using a store_cells(2) [OF st] struct_cell_load [OF D(2) slot_cell [OF D(4)]] by auto
  with a len have "store_loc m1 l y ! a = m ! a" by (simp add: load_def)
  moreover have "m ! a = m0 ! a" using a built_atD(1) [OF D(2)] by (metis nth_take)
  ultimately show "take (length m0) (store_loc m1 l y) ! a = m0 ! a" using a by simp
qed (use store_cells(3) [OF st] may_storeD(5) [OF st] in simp)

text \<open>The structs, of the object and of its metadata.\<close>

lemma store_structs:
  assumes st: "may_store m0 S m v val st p kind l m1 y X"
  shows "load (store_loc m1 l y) (length m0) = Some (One (stored_object S p y v))"
    "case sh_meta S of None \<Rightarrow> True | Some (h, _) \<Rightarrow> value_at [h] (stored_object S p
        y v) = Some NilRef
      \<or> (\<exists>k w. value_at [h] (stored_object S p y v) = Some (Pointer k) \<and> length m0 < k
          \<and> load (store_loc m1 l y) k = Some (One w))"
proof -
  note D = may_storeD [OF st]
  note B = built_atD [OF D(2)]
  obtain w where w: "load m1 (fst l) = Some (One w)"
    "\<And>a. load (store_loc m1 l y) a = (if a = fst l then Some (One (update_at (snd l) y w)) else load m1 a)"
    using store_load [OF st] by metis
  have object: "load m1 (length m0) = Some (One v)"
    using B(2) store_cells(1) [OF st, of "length m0"] by (simp add: struct_cells_def)
  show "load (store_loc m1 l y) (length m0) = Some (One (stored_object S p y v))"
  proof (cases "in_meta S p")
    case True
    with D(1,3) obtain h zm q where h: "sh_meta S = Some (h, zm)" "p = h # q"
      by (cases rule: leaf_cases) auto
    with True D(4) B(3) [OF h(1)] have "fst l \<noteq> length m0"
      by (auto simp: slot_def split: option.splits go_value.splits)
    with True object show ?thesis by (simp add: w(2) stored_object_def)
  next
    case False
    with D(4) have l: "fst l = length m0" "snd l = p" by (auto simp: slot_def)
    with w(1) object have "w = v" by simp
    with False l show ?thesis by (simp add: w(2) stored_object_def)
  qed
  show "case sh_meta S of None \<Rightarrow> True | Some (h, _) \<Rightarrow> value_at [h] (stored_object
      S p y v) = Some NilRef
      \<or> (\<exists>k w. value_at [h] (stored_object S p y v) = Some (Pointer k) \<and> length m0 < k
          \<and> load (store_loc m1 l y) k = Some (One w))"
  proof (cases "sh_meta S")
    case (Some x)
    then obtain h zm where h: "sh_meta S = Some (h, zm)" by (cases x) auto
    have "\<exists>w. load (store_loc m1 l y) k = Some (One w)"
      if "value_at [h] v = Some (Pointer k)" "load m k = Some (One u)" for k u
      using that store_cells(1) [OF st, of k] h by (auto simp: w(2) struct_cells_def)
    with B(3) [OF h] stored_object_meta [OF D(1,3) h, of y v] show ?thesis
      by (auto simp: h simp del: value_at.simps)
  qed simp
qed

lemma store_own:
  assumes st: "may_store m0 S m v val st p kind l m1 y X"
    and x: "(x, kx) \<in> set (sh_leaves S)" and z: "(z, kz) \<in> set (sh_leaves S)"
    and a: "own_cell kx ((val(p := y)) x) = Some a" "own_cell kz ((val(p := y)) z) = Some a"
  shows "x = z \<and> kx = kz"
proof -
  note D = may_storeD [OF st]
  note B = built_atD [OF D(2)]
  have new: "own_cell k (val x) \<noteq> Some a" if "own_cell kind y = Some a" "(x, k) \<in> set
      (sh_leaves S)" "x \<noteq> p" for x k
    using D(8) [OF that(1)] B(6) [OF that(2), of a] B(7) [OF D(3) that(2), of a] that(3) by auto
  from leaf_kind [OF D(1,3)] x z have "x = p \<Longrightarrow> kx = kind" "z = p \<Longrightarrow> kz =
      kind" by auto
  with a B(7) [OF x z] new [OF _ x] new [OF _ z] show ?thesis
    by (cases "x = p"; cases "z = p") auto
qed

lemma built_store:
  assumes st: "may_store m0 S m v val st p kind l m1 y X"
  shows "built_at m0 S (store_loc m1 l y) (stored_object S p y v) (val(p := y)) (st(p := X))"
proof -
  note D = may_storeD [OF st]
  note slots = stored_object_slots [OF D(1,3)]
  have "reading (store_loc m1 l y) (slot S (length m0) (stored_object S p y v) q) = Inr ((val(p := y)) q)
      \<and> stands_for (store_loc m1 l y) kd ((val(p := y)) q) ((st(p := X)) q)
      \<and> (\<forall>a. own_cell kd ((val(p := y)) q) = Some a \<longrightarrow> length m0 < a \<and> a
          < length (store_loc m1 l y)
          \<and> a \<notin> struct_cells S (length m0) (stored_object S p y v))"
    if q: "(q, kd) \<in> set (sh_leaves S)" for q kd
  proof (cases "q = p")
    case True
    then have "kd = kind" using leaf_kind [OF D(1) q] D(3) by blast
    with True D(4) store_leaf_same [OF st] show ?thesis by (auto simp: slots reading_def)
  next
    case False
    with store_leaf_other [OF st q] built_atD(6) [OF D(2) q] D(5) show ?thesis
      by (auto simp: slots dest: order_less_le_trans)
  qed
  with store_old [OF st] store_structs [OF st] store_own [OF st] show ?thesis
    by (intro built_atI) blast+
qed

text \<open>A field has its place: the state of an object inside a \<open>With\<close> function, after the
    metadata was ensured.\<close>

definition placed :: "memory \<Rightarrow> ac_shape \<Rightarrow> memory \<Rightarrow> ac_state
    \<Rightarrow> string list \<Rightarrow> bool" where
  "placed m0 S m st p \<longleftrightarrow> (\<exists>v val l. built_at m0 S m v val st \<and> slot S
      (length m0) v p = Some l)"

lemma placed_built: "placed m0 S m st p \<Longrightarrow> built m0 S m st"
  by (auto simp: placed_def built_def)

lemma placed_store:
  assumes st: "may_store m0 S m v val st p kind l m1 y X"
  shows "placed m0 S (store_loc m1 l y) (st(p := X)) p"
  using built_store [OF st] may_storeD(4) [OF st] stored_object_slots(1) [OF may_storeD(1,3) [OF st]]
  unfolding placed_def by metis

chapter \<open>Runs\<close>

text \<open>
  The kinds of \<open>With\<close> functions preserve the relation of Apply_Facts, and so does a run of
      any calls.
\<close>

section \<open>Finding a field\<close>

lemma built_field_loc:
  assumes S: "shape_ok S" and b: "built_at m0 S m v val st" and p: "(p, kind) \<in> set (sh_leaves S)"
    and l: "slot S (length m0) v p = Some l"
  shows "field_loc m (Pointer (length m0)) p = Inr l" "load_loc m l = Inr (val p)"
proof -
  note B = built_atD [OF b]
  show load: "load_loc m l = Inr (val p)" using B(4) [OF p] l by (simp add: reading_def)
  from S p show "field_loc m (Pointer (length m0)) p = Inr l"
  proof (cases rule: leaf_cases)
    case inline
    with l have "l = (length m0, p)" by (simp add: slot_def)
    moreover from this load B(2) have "value_at p v = Some (val p)"
      by (simp add: load_loc_def split: option.splits)
    ultimately show ?thesis using locate_inline [OF B(2), of "[]" p] by (simp add: field_loc_def)
  next
    case (meta h zm q)
    with l B(3) [OF meta(2)] obtain k w
      where k: "value_at [h] v = Some (Pointer k)" "l = (k, q)" "load m k = Some (One w)"
      by (auto simp: slot_def simp del: value_at.simps)
    with load have "value_at q w = Some (val p)" by (simp add: load_loc_def split: option.splits)
    moreover obtain n q' where q: "q = n # q'" using meta(4) by (cases q) auto
    ultimately have "locate m (k, [n]) q' = Inr (k, q)" using locate_inline [OF k(3), of "[n]" q'] by simp
    moreover obtain vs where "v = Struct vs" using value_at_leaf k(1) by blast
    ultimately show ?thesis using k B(2) meta(3) q by (simp add: field_loc_def load_loc_def split:
        option.splits)
  qed
qed

section \<open>Reading the arguments\<close>

text \<open>Arguments were there before the first call, so every call finds them as they were.\<close>

lemma load_old: "take (length m0) m = m0 \<Longrightarrow> load m0 a = Some c \<Longrightarrow> load m a =
    Some c"
  by (auto simp: load_def split: if_splits) (metis nth_take, metis min_less_iff_conj length_take)

lemma variadic_element_old:
  assumes "take (length m0) m = m0"
  shows "variadic_element m0 values k = Inr x \<Longrightarrow> variadic_element m values k = Inr x"
    "variadic_element m0 values k = Inl e \<Longrightarrow> e = nil_dereference"
  using load_old [OF assms]
  by (auto simp: variadic_element_def split: go_value.splits option.splits cell.splits if_splits)

lemma pointed_to_old:
  assumes "take (length m0) m = m0"
  shows "pointed_to msg m0 x = Inr y \<Longrightarrow> pointed_to msg m x = Inr y"
    "pointed_to msg m0 x = Inl e \<Longrightarrow> e = nil_dereference \<or> pointed_to msg m x = Inl e"
  using load_old [OF assms]
  by (auto simp: pointed_to_def load_loc_def split: go_value.splits option.splits cell.splits)

lemma map_entries_old:
  assumes "take (length m0) m = m0"
  shows "map_entries m0 v = Inr es \<Longrightarrow> map_entries m v = Inr es"
    "map_entries m0 v = Inl e \<Longrightarrow> e = nil_dereference"
  using load_old [OF assms] by (auto simp: map_entries_def split: go_value.splits option.splits cell.splits)

section \<open>Appending and inserting\<close>

text \<open>What changes in memory before the field is stored: its own cell, and new ones.\<close>

definition only_own :: "memory \<Rightarrow> with_kind \<Rightarrow> go_value \<Rightarrow> memory
    \<Rightarrow> go_value \<Rightarrow> bool" where
  "only_own m kind old m1 y \<longleftrightarrow> length m \<le> length m1
    \<and> (\<forall>a < length m. own_cell kind old \<noteq> Some a \<longrightarrow> load m1 a = load m a)
    \<and> (\<forall>a. own_cell kind y = Some a \<longrightarrow> a < length m1 \<and> (own_cell kind old
        = Some a \<or> length m \<le> a))"

lemma placed_only_own:
  assumes "shape_ok S" "built_at m0 S m v val st" "(p, kind) \<in> set (sh_leaves S)"
    "slot S (length m0) v p = Some l" "only_own m kind (val p) m1 y" "stands_for m1 kind y X"
  shows "placed m0 S (store_loc m1 l y) (st(p := X)) p"
  using assms placed_store [of m0 S m v val st p kind l m1 y X] by (simp add: may_store_def only_own_def)

text \<open>When only the cell of a field changes, so does only the field.\<close>

lemma placed_own_cell:
  assumes S: "shape_ok S" and b: "built_at m0 S m v val st" and p: "(p, kind) \<in> set (sh_leaves S)"
    and l: "slot S (length m0) v p = Some l" and len: "length m1 = length m"
    and same: "\<And>a. own_cell kind (val p) \<noteq> Some a \<Longrightarrow> load m1 a = load m a"
    and new: "stands_for m1 kind (val p) X"
  shows "placed m0 S m1 (st(p := X)) p"
proof -
  note B = built_atD [OF b]
  have cells: "load m1 a = load m a" if "a \<in> struct_cells S (length m0) v \<or> a < length m0" for a
    using that B(6) [OF p, of a] by (intro same) auto
  have old: "take (length m0) m1 = m0"
  proof (rule nth_equalityI)
    fix a assume "a < length (take (length m0) m1)"
    then have a: "a < length m0" "a < length m" using len by auto
    with cells [of a] len have "m1 ! a = m ! a" by (simp add: load_def)
    with a B(1) show "take (length m0) m1 ! a = m0 ! a" by (metis nth_take)
  qed (use load_length [OF B(2)] len in simp)
  have reading: "reading m1 (slot S (length m0) v q) = reading m (slot S (length m0) v q)" for q
    using cells slot_cell [of S "length m0" v q]
    by (cases "slot S (length m0) v q") (simp_all add: reading_def load_loc_def)
  have stands: "stands_for m1 kd (val q) ((st(p := X)) q)" if q: "(q, kd) \<in> set (sh_leaves S)" for q kd
  proof (cases "q = p")
    case True
    with new leaf_kind [OF S p] q show ?thesis by auto
  next
    case False
    have "load m1 a = load m a" if "own_cell kd (val q) = Some a" for a
      using B(7) [OF p q _ that] False by (intro same) auto
    then have "stands_for m1 kd (val q) (st q)" by (rule stands_for_cong [OF B(5) [OF q]])
    with False show ?thesis by simp
  qed
  have meta: "value_at [h] v = Some NilRef
      \<or> (\<exists>k w. value_at [h] v = Some (Pointer k) \<and> length m0 < k \<and> load m1 k = Some
          (One w))"
    if h: "sh_meta S = Some (h, zm)" for h zm
  proof -
    have "load m1 k = load m k" if "value_at [h] v = Some (Pointer k)" for k
      using that h by (intro cells) (simp add: struct_cells_def del: value_at.simps)
    with B(3) [OF h] show ?thesis by metis
  qed
  have "built_at m0 S m1 v val (st(p := X))"
  proof (rule built_atI)
    show "load m1 (length m0) = Some (One v)" using cells [of "length m0"] B(2) by (simp add: struct_cells_def)
    show "case sh_meta S of None \<Rightarrow> True | Some (h, _) \<Rightarrow> value_at [h] v = Some NilRef
      \<or> (\<exists>k w. value_at [h] v = Some (Pointer k) \<and> length m0 < k \<and> load m1 k = Some
          (One w))"
      using meta by (auto split: option.split simp del: value_at.simps)
  qed (use old reading stands B(4,6,7) len in \<open>auto simp del: fun_upd_apply\<close>)
  with l show ?thesis unfolding placed_def by blast
qed

lemma append_slice_own:
  assumes "stands_for m (Append msg) s X"
  obtains s' m1 where "append_slice grow m s y = Inr (s', m1)" "only_own m (Append msg) s m1 s'"
    "stands_for m1 (Append msg) s' (Items (items_of X @ [y]))"
proof (cases s)
  case NilRef
  with assms show ?thesis
    by (intro that [of "Slice (length m) 0 1" "m @ [Many (y # replicate (grow 1) NilRef)]"])
       (auto simp: append_slice_def only_own_def)
next
  case (Slice a i n)
  with assms obtain xs where xs: "load m a = Some (Many xs)" "i + n \<le> length xs" "X = Items (take n
      (drop i xs))"
    by auto
  show ?thesis
  proof (cases "i + n < length xs")
    case True
    then have "take (Suc n) (drop i (xs[i + n := y])) = take n (drop i xs) @ [y]"
      by (simp add: take_Suc_conv_app_nth drop_update_swap)
    with True xs Slice load_length [OF xs(1)] show ?thesis
      by (intro that [of "Slice a i (Suc n)" "m[a := Many (xs[i + n := y])]"])
         (auto simp: append_slice_def only_own_def load_update)
  next
    case False
    with xs have "length xs = i + n" by simp
    with xs Slice show ?thesis
      by (intro that [of "Slice (length m) 0 (Suc n)"
            "m @ [Many (take n (drop i xs) @ y # replicate (grow (Suc n)) NilRef)]"])
         (auto simp: append_slice_def only_own_def simp: Suc_diff_le)
  qed
qed (use assms in auto)

lemma map_of_put_entry: "map_of (put_entry es e) = (map_of es)(fst e \<mapsto> snd e)"
  by (induction es) (auto simp: fun_eq_iff)

lemma map_of_put_entries:
  "map_of (foldl put_entry os es) = foldl (\<lambda>f (k, x). f(k \<mapsto> x)) (map_of os) es"
  by (induction es arbitrary: os) (auto simp: map_of_put_entry)

lemma put_entries_own:
  assumes "stands_for m PutEntries old X" "es \<noteq> []"
  shows "old = NilRef \<and> X = Unset \<or> (\<exists>a os. old = MapRef a \<and> map_entries m old = Inr os
    \<and> load m a = Some (Entries os) \<and> X = Maps (map_of os))"
  using assms by (cases old) (auto simp: map_entries_def)

section \<open>One call\<close>

text \<open>A result of the abstract call, and what the function does then.\<close>

definition follows :: "memory \<Rightarrow> (memory \<Rightarrow> ac_state \<Rightarrow> bool)
    \<Rightarrow> ac_state res \<Rightarrow> (go_value \<times> memory) res \<Rightarrow> bool" where
  "follows m0 P ares res \<longleftrightarrow> (case ares of
      Inr st \<Rightarrow> \<exists>m. res = Inr (Pointer (length m0), m) \<and> P m st
    | Inl e \<Rightarrow> e = nil_dereference \<or> res = Inl e)"

lemma follows_mono: "follows m0 P x r \<Longrightarrow> (\<And>m st. P m st \<Longrightarrow> Q m st)
    \<Longrightarrow> follows m0 Q x r"
  by (fastforce simp: follows_def split: sum.splits)

lemma placedE:
  assumes "placed m0 S m st p" "shape_ok S" "(p, kind) \<in> set (sh_leaves S)"
  obtains v val l where "built_at m0 S m v val st" "slot S (length m0) v p = Some l" "take (length m0) m = m0"
    "field_loc m (Pointer (length m0)) p = Inr l" "load_loc m l = Inr (val p)" "stands_for m kind (val p)
        (st p)"
  using assms built_field_loc [OF assms(2) _ assms(3)] built_atD(1,5) unfolding placed_def by metis

lemma only_own_refl: "own_cell kind y = None \<Longrightarrow> only_own m kind old m y"
  by (simp add: only_own_def)

lemma set_value_follows:
  assumes "placed m0 S m st p" "shape_ok S" "(p, SetValue) \<in> set (sh_leaves S)"
  shows "follows m0 (\<lambda>m st. placed m0 S m st p) (abs_with m0 SetValue p v st) (set_value p
      (Pointer (length m0)) v m)"
  using assms
proof (cases rule: placedE)
  case (1 u val l)
  then have "placed m0 S (store_loc m l v) (st(p := if v = NilRef then Unset else Is v)) p"
    by (intro placed_only_own [OF assms(2) 1(1) assms(3) 1(2)] only_own_refl) (cases v; simp)+
  with 1 show ?thesis by (simp add: follows_def abs_with_def set_value_def)
qed

lemma set_address_follows:
  assumes "placed m0 S m st p" "shape_ok S" "(p, SetAddress) \<in> set (sh_leaves S)"
  shows "follows m0 (\<lambda>m st. placed m0 S m st p) (abs_with m0 SetAddress p v st)
    (set_address p (Pointer (length m0)) v m)"
  using assms
proof (cases rule: placedE)
  case (1 u val l)
  have "placed m0 S (store_loc (m @ [One v]) l (Pointer (length m))) (st(p := PointsTo v)) p"
    by (rule placed_only_own [OF assms(2) 1(1) assms(3) 1(2)]) (simp_all add: only_own_def)
  with 1 show ?thesis by (simp add: follows_def abs_with_def set_address_def)
qed

text \<open>The loop that appends: every iteration adds one element.\<close>

definition added :: "ac_value \<Rightarrow> go_value list \<Rightarrow> ac_value" where
  "added X ys = (if ys = [] then X else Items (items_of X @ ys))"

lemma added_simps [simp]: "added X [] = X" "added (added X [y]) ys = added X (y # ys)"
  by (simp_all add: added_def)

lemma append_each_follows:
  assumes "shape_ok S" "(p, Append msg) \<in> set (sh_leaves S)" "placed m0 S m st p"
  shows "case arg_items m0 msg values ks of
      Inr ys \<Rightarrow> \<exists>m'. append_each grow msg p (Pointer (length m0)) values ks m = Inr m'
        \<and> placed m0 S m' (st(p := added (st p) ys)) p
    | Inl e \<Rightarrow> e = nil_dereference \<or> append_each grow msg p (Pointer (length m0)) values ks
        m = Inl e"
  using assms(3)
proof (induction ks arbitrary: m st)
  case (Cons k ks)
  from Cons.prems assms(1,2) obtain v val l where p: "built_at m0 S m v val st" "slot S (length m0) v p =
      Some l"
    "take (length m0) m = m0" "field_loc m (Pointer (length m0)) p = Inr l" "load_loc m l = Inr (val p)"
    "stands_for m (Append msg) (val p) (st p)" by (rule placedE)
  note old = variadic_element_old [OF p(3), of "values" k] pointed_to_old [OF p(3), of msg]
  show ?case
  proof (cases "bindE (variadic_element m0 values k) (pointed_to msg m0)")
    case (Inl e)
    then have "e = nil_dereference \<or> bindE (variadic_element m values k) (pointed_to msg m) = Inl e"
      using old by (cases "variadic_element m0 values k") auto
    with Inl show ?thesis by (auto simp: bindE_def split: sum.splits)
  next
    case (Inr y)
    then obtain x where x: "variadic_element m0 values k = Inr x" "pointed_to msg m0 x = Inr y"
      by (auto simp: bindE_def split: sum.splits)
    obtain s' m1 where s: "append_slice grow m (val p) y = Inr (s', m1)" "only_own m (Append msg) (val p) m1 s'"
      "stands_for m1 (Append msg) s' (Items (items_of (st p) @ [y]))" by (rule append_slice_own [OF p(6)])
    have "placed m0 S (store_loc m1 l s') (st(p := added (st p) [y])) p"
      using placed_only_own [OF assms(1) p(1) assms(2) p(2) s(2,3)] by (simp add: added_def)
    from Cons.IH [OF this] x old p s show ?thesis
      by (cases "arg_items m0 msg values ks") auto
  qed
qed (use assms in auto)

lemma append_follows:
  assumes "placed m0 S m st p" "shape_ok S" "(p, Append msg) \<in> set (sh_leaves S)"
  shows "follows m0 (\<lambda>m st. placed m0 S m st p) (abs_with m0 (Append msg) p v st)
    (with_op grow (Append msg) p (Pointer (length m0)) v m)"
proof -
  have op: "with_op grow (Append msg) p b v m
      = bindE (append_each grow msg p b v [0..<variadic_length v] m) (\<lambda>m'. Inr (b, m'))" for b
    by (cases msg) (simp_all add: with_op_def append_values_def append_pointed_def)
  have upd: "st(p := added (st p) ys) = (if ys = [] then st else st(p := Items (items_of (st p) @ ys)))" for ys
    by (simp add: added_def)
  show ?thesis
    using append_each_follows [OF assms(2,3,1), of grow v "[0..<variadic_length v]"]
    by (auto simp: follows_def abs_with_def op upd simp del: fun_upd_apply split: sum.splits)
qed

lemma put_entries_follows:
  assumes "placed m0 S m st p" "shape_ok S" "(p, PutEntries) \<in> set (sh_leaves S)"
  shows "follows m0 (\<lambda>m st. placed m0 S m st p) (abs_with m0 PutEntries p v st)
    (put_entries p (Pointer (length m0)) v m)"
  using assms
proof (cases rule: placedE)
  case (1 u val l)
  note place = placed_only_own [OF assms(2) 1(1) assms(3) 1(2)]
  show ?thesis
  proof (cases "map_entries m0 v")
    case (Inl e)
    with map_entries_old [OF 1(3)] show ?thesis by (simp add: follows_def abs_with_def)
  next
    case (Inr es)
    note es = Inr map_entries_old(1) [OF 1(3) Inr]
    have "placed m0 S (store_loc (m @ [Entries (foldl put_entry [] es)]) l (MapRef (length m)))
        (st(p := Maps (foldl (\<lambda>f (k, x). f(k \<mapsto> x)) Map.empty es))) p" if "val p = NilRef"
      using that by (intro place) (simp_all add: only_own_def map_of_put_entries)
    moreover have "placed m0 S (m[a := Entries (foldl put_entry os es)])
        (st(p := Maps (foldl (\<lambda>f (k, x). f(k \<mapsto> x)) (map_of os) es))) p"
      if "val p = MapRef a" "load m a = Some (Entries os)" for a os
      using that load_length [OF that(2)] 1(2)
      by (intro placed_own_cell [OF assms(2) 1(1) assms(3) 1(2)]) (simp_all add: load_update map_of_put_entries)
    ultimately show ?thesis
      using es 1 assms(1) put_entries_own [OF 1(6), of es]
      by (cases "es = []") (auto simp: follows_def abs_with_def put_entries_def)
  qed
qed

section \<open>Methods\<close>

text \<open>A method for a field of the metadata makes sure first that the object has metadata.\<close>

definition method_op :: "ac_shape \<Rightarrow> (nat \<Rightarrow> nat) \<Rightarrow> with_kind
    \<Rightarrow> string list \<Rightarrow> builder" where
  "method_op S grow kind p = (case sh_meta S of
      Some (h, zm) \<Rightarrow> if in_meta S p then ensured (ensure_exists h zm) (with_op grow kind p)
          else with_op grow kind p
    | None \<Rightarrow> with_op grow kind p)"

lemma with_op_follows:
  assumes "placed m0 S m st p" "shape_ok S" "(p, kind) \<in> set (sh_leaves S)"
  shows "follows m0 (built m0 S) (abs_with m0 kind p v st) (with_op grow kind p (Pointer (length m0)) v m)"
proof -
  have "follows m0 (\<lambda>m st. placed m0 S m st p) (abs_with m0 kind p v st) (with_op grow kind p
      (Pointer (length m0)) v m)"
    using assms set_value_follows set_address_follows append_follows put_entries_follows
    by (cases kind) (simp_all add: with_op_def)
  then show ?thesis using placed_built by (rule follows_mono)
qed

text \<open>The first call for the metadata allocates it; no field changes.\<close>

lemma ensure_new:
  assumes S: "shape_ok S" and h: "sh_meta S = Some (h, zm)" and b: "built_at m0 S m v val st"
    and nil: "value_at [h] v = Some NilRef"
  defines "m1 \<equiv> store_loc (m @ [One zm]) (length m0, [h]) (Pointer (length m))"
    and "u \<equiv> update_at [h] (Pointer (length m)) v"
  shows "built_at m0 S m1 u val st" "value_at [h] u = Some (Pointer (length m))"
proof -
  note B = built_atD [OF b]
  note r = load_length [OF B(2)]
  have load: "load m1 a = (if a = length m0 then Some (One u) else load (m @ [One zm]) a)" for a
    using load_store [of "m @ [One zm]" "(length m0, [h])" v] B(2) r by (simp add: m1_def u_def del:
        update_at.simps)
  show at: "value_at [h] u = Some (Pointer (length m))" unfolding u_def using nil by (intro
      value_at_update_same) simp
  have cells: "struct_cells S (length m0) u = insert (length m) (struct_cells S (length m0) v)"
    using at nil h by (auto simp: struct_cells_def simp del: value_at.simps)
  have leaf: "reading m1 (slot S (length m0) u p) = Inr (val p)" if p: "(p, kind) \<in> set (sh_leaves S)"
      for p kind
    using S p
  proof (cases rule: leaf_cases)
    case inline
    with B(2) B(4) [OF p] have "value_at p v = Some (val p)"
      by (simp add: slot_def reading_def load_loc_def split: option.splits)
    moreover have "apart [h] p"
      using inline S h by (intro leaves_apart [of _ "sh_zero S"]) (auto simp: in_meta_def shape_ok_def)
    ultimately have "value_at p u = Some (val p)" by (simp only: u_def value_at_update_apart)
    with inline show ?thesis by (simp add: slot_def reading_def load_loc_def load)
  next
    case (meta h' zm' q)
    with h B(4) [OF p] nil have "val p = NilRef" by (simp add: slot_def reading_def del: value_at.simps)
    with meta h at r show ?thesis by (simp add: slot_def reading_def load_loc_def load del: value_at.simps)
  qed
  have stands: "stands_for m1 kind (val p) (st p)" if p: "(p, kind) \<in> set (sh_leaves S)" for p kind
    using B(6) [OF p] by (intro stands_for_cong [OF B(5) [OF p]]) (auto simp: load)
  have own: "length m0 < a \<and> a < length m1 \<and> a \<notin> struct_cells S (length m0) u"
    if "(p, kind) \<in> set (sh_leaves S)" "own_cell kind (val p) = Some a" for p kind a
    using B(6) [OF that] by (simp add: cells m1_def)
  have "take (length m0) m1 = m0"
  proof (rule nth_equalityI)
    fix a assume "a < length (take (length m0) m1)"
    then have a: "a < length m0" by simp
    with r load [of a] have "m1 ! a = m ! a" by (simp add: load_def m1_def nth_append)
    with a r B(1) show "take (length m0) m1 ! a = m0 ! a" by (metis nth_take)
  qed (use r in \<open>simp add: m1_def\<close>)
  with at h r load leaf stands own B(7) show "built_at m0 S m1 u val st"
    by (intro built_atI) (simp_all del: value_at.simps)
qed

lemma ensure_placed:
  assumes S: "shape_ok S" and h: "sh_meta S = Some (h, zm)" and b: "built m0 S m st"
  obtains m' where "ensure_exists h zm (Pointer (length m0)) m = Inr m'"
    "\<And>p. in_meta S p \<Longrightarrow> placed m0 S m' st p"
proof -
  obtain v val where v: "built_at m0 S m v val st" using b by (auto simp: built_def)
  note B = built_atD [OF v]
  obtain vs where vs: "v = Struct vs" using B(3) [OF h] value_at_leaf by blast
  then have loc: "field_loc m (Pointer (length m0)) [h] = Inr (length m0, [h])" "load_loc m (length m0,
      [h]) = Inr x"
    if "value_at [h] v = Some x" for x using that B(2) by (simp_all add: field_loc_def load_loc_def)
  have pl: "placed m0 S m1 st p" if "built_at m0 S m1 u val st" "value_at [h] u = Some (Pointer k)"
      "in_meta S p"
    for m1 u k p using that h unfolding placed_def
    by (intro exI [of _ u] exI [of _ val] exI [of _ "(k, tl p)"]) (simp add: slot_def in_meta_def del:
        value_at.simps)
  from B(3) [OF h] show ?thesis
  proof (elim disjE exE conjE)
    assume nil: "value_at [h] v = Some NilRef"
    with loc ensure_new [OF S h v nil] pl show ?thesis by (intro that) (simp_all add: ensure_exists_def)
  next
    fix k assume "value_at [h] v = Some (Pointer k)"
    with loc v pl show ?thesis by (intro that [of m]) (simp_all add: ensure_exists_def)
  qed
qed

lemma method_follows:
  assumes "built m0 S m st" "shape_ok S" "(p, kind) \<in> set (sh_leaves S)"
  shows "follows m0 (built m0 S) (abs_with m0 kind p v st) (method_op S grow kind p (Pointer (length m0)) v m)"
proof (cases "in_meta S p")
  case True
  then obtain h zm where h: "sh_meta S = Some (h, zm)" by (auto simp: in_meta_def split: option.splits)
  with assms obtain m' where "ensure_exists h zm (Pointer (length m0)) m = Inr m'" "placed m0 S m' st p"
    using True by (elim ensure_placed) auto
  with with_op_follows [OF _ assms(2,3)] True h show ?thesis by (simp add: method_op_def ensured_def)
next
  case False
  then have "placed m0 S m st p" using assms(1) by (auto simp: placed_def built_def slot_def)
  with with_op_follows [OF _ assms(2,3)] False show ?thesis by (simp add: method_op_def split: option.split)
qed

section \<open>Runs\<close>

text \<open>A chain of calls, each on what the one before returned.\<close>

fun run_calls :: "(builder \<times> go_value) list \<Rightarrow> go_value \<Rightarrow> memory
    \<Rightarrow> (go_value \<times> memory) res" where
  "run_calls [] b m = Inr (b, m)"
| "run_calls ((f, v) # cs) b m = bindE (f b v m) (\<lambda>(b', m'). run_calls cs b' m')"

lemma run_calls_append: "run_calls (cs @ ds) b m = bindE (run_calls cs b m) (\<lambda>(b', m'). run_calls
    ds b' m')"
  by (induction cs b m rule: run_calls.induct) (auto simp: bindE_def split: sum.split)

text \<open>A method is a field, the way it is set, and the function.\<close>

type_synonym ac_method = "(string list \<times> with_kind) \<times> builder"

fun abs_calls :: "memory \<Rightarrow> (ac_method \<times> go_value) list \<Rightarrow> ac_state
    \<Rightarrow> ac_state res" where
  "abs_calls m0 [] st = Inr st"
| "abs_calls m0 ((((p, kind), _), v) # cs) st = bindE (abs_with m0 kind p v st) (abs_calls m0 cs)"

definition functions_of :: "(ac_method \<times> go_value) list \<Rightarrow> (builder \<times> go_value)
    list" where
  "functions_of cs = map (\<lambda>((_, f), v). (f, v)) cs"

definition methods_ok :: "ac_shape \<Rightarrow> (nat \<Rightarrow> nat) \<Rightarrow> ac_method list
    \<Rightarrow> bool" where
  "methods_ok S grow ms \<longleftrightarrow> shape_ok S \<and> sh_leaves S = map fst ms
    \<and> list_all (\<lambda>((p, kind), f). f = method_op S grow kind p) ms"

lemma calls_follow:
  assumes "methods_ok S grow ms" "fst ` set cs \<subseteq> set ms" "built m0 S m st"
  shows "follows m0 (built m0 S) (abs_calls m0 cs st) (run_calls (functions_of cs) (Pointer (length m0)) m)"
  using assms(2,3)
proof (induction cs arbitrary: m st)
  case (Cons c cs)
  obtain p kind f v where c: "c = (((p, kind), f), v)" by (metis prod.collapse)
  with Cons.prems(1) assms(1) have p: "shape_ok S" "(p, kind) \<in> set (sh_leaves S)" "f = method_op S
      grow kind p"
    by (force simp: methods_ok_def list_all_iff)+
  note step = method_follows [OF Cons.prems(2) p(1,2), of v grow]
  show ?case
  proof (cases "abs_with m0 kind p v st")
    case (Inl e)
    with step p(3) show ?thesis by (auto simp: c functions_of_def follows_def)
  next
    case (Inr st')
    with step obtain m' where "f (Pointer (length m0)) v m = Inr (Pointer (length m0), m')" "built m0 S m' st'"
      by (auto simp: follows_def p(3))
    with Inr Cons.IH Cons.prems(1) show ?thesis by (simp add: c functions_of_def)
  qed
qed (simp add: follows_def functions_of_def)

section \<open>What is in a configuration\<close>

text \<open>The value of a field, with the references of the configuration followed.\<close>

fun decode :: "memory \<Rightarrow> with_kind \<Rightarrow> go_value \<Rightarrow> ac_value option" where
  "decode m SetValue v = Some (if v = NilRef then Unset else Is v)"
| "decode m _ NilRef = Some Unset"
| "decode m SetAddress (Pointer a) = (case load m a of Some (One y) \<Rightarrow> Some (PointsTo y) | _
    \<Rightarrow> None)"
| "decode m (Append _) (Slice a i n) = (case load m a of
    Some (Many xs) \<Rightarrow> if i + n \<le> length xs then Some (Items (take n (drop i xs))) else None
        | _ \<Rightarrow> None)"
| "decode m PutEntries (MapRef a) = (case load m a of Some (Entries es) \<Rightarrow> Some (Maps (map_of
    es)) | _ \<Rightarrow> None)"
| "decode m _ _ = None"

definition field_state :: "memory \<Rightarrow> go_value \<Rightarrow> string list \<times> with_kind
    \<Rightarrow> ac_value option" where
  "field_state m b x = (case bindE (field_loc m b (fst x)) (load_loc m) of
      Inl _ \<Rightarrow> Some Unset
    | Inr v \<Rightarrow> decode m (snd x) v)"

lemma stands_for_decode: "stands_for m kind v X \<Longrightarrow> decode m kind v = Some X"
  by (cases "(m, kind, v, X)" rule: stands_for.cases) auto

lemma no_metadata:
  assumes "load m r = Some (One v)" "value_at [h] v = Some NilRef" "q \<noteq> []"
  shows "field_loc m (Pointer r) (h # q) = Inl nil_dereference"
proof -
  obtain vs where "v = Struct vs" using value_at_leaf assms(2) by blast
  with assms show ?thesis by (cases q) (simp_all add: field_loc_def load_loc_def)
qed

lemma built_field_state:
  assumes "shape_ok S" "built m0 S m st" "(p, kind) \<in> set (sh_leaves S)"
  shows "field_state m (Pointer (length m0)) (p, kind) = Some (st p)"
proof -
  obtain v val where b: "built_at m0 S m v val st" using assms(2) by (auto simp: built_def)
  note B = built_atD [OF b]
  show ?thesis
  proof (cases "slot S (length m0) v p")
    case (Some l)
    with built_field_loc [OF assms(1) b assms(3) Some] stands_for_decode [OF B(5) [OF assms(3)]]
    show ?thesis by (simp add: field_state_def)
  next
    case None
    with assms(1,3) obtain h zm q where h: "sh_meta S = Some (h, zm)" "p = h # q" "q \<noteq> []"
      by (cases rule: leaf_cases) (auto simp: slot_def)
    with None B(3) [OF h(1)] have nil: "value_at [h] v = Some NilRef"
      by (auto simp: slot_def in_meta_def simp del: value_at.simps)
    have "val p = NilRef" using B(4) [OF assms(3)] None by (simp add: reading_def)
    with B(5) [OF assms(3)] have "st p = Unset" by (cases kind) auto
    with no_metadata [OF B(2) nil h(3)] h show ?thesis by (simp add: field_state_def)
  qed
qed

section \<open>Configurations\<close>

text \<open>
  What there is to say of an apply configuration: its zero value, the metadata struct it may point to, its
  methods, and its constructor, which makes some calls itself.
\<close>

record ac_config =
  config_zero :: go_value
  config_meta :: "(string \<times> go_value) option"
  config_methods :: "ac_method list"
  config_new :: "memory \<Rightarrow> (go_value \<times> memory) res"
  config_calls :: "(ac_method \<times> go_value) list"

definition config_shape :: "ac_config \<Rightarrow> ac_shape" where
  "config_shape C = \<lparr>sh_zero = config_zero C, sh_meta = config_meta C, sh_leaves = map fst
      (config_methods C)\<rparr>"

definition config_ok :: "(nat \<Rightarrow> nat) \<Rightarrow> ac_config \<Rightarrow> bool" where
  "config_ok grow C \<longleftrightarrow> methods_ok (config_shape C) grow (config_methods C)
    \<and> fst ` set (config_calls C) \<subseteq> set (config_methods C)
    \<and> (\<forall>m. config_new C m = (let (b, m') = new_struct (config_zero C) m in run_calls
        (functions_of (config_calls C)) b m'))"

text \<open>The constructor, then calls.\<close>

definition build :: "ac_config \<Rightarrow> (ac_method \<times> go_value) list \<Rightarrow> memory
    \<Rightarrow> (go_value \<times> memory) res" where
  "build C cs m0 = bindE (config_new C m0) (\<lambda>(b, m). run_calls (functions_of cs) b m)"

lemma build_follows:
  assumes "config_ok grow C" "fst ` set cs \<subseteq> set (config_methods C)"
  shows "follows m0 (\<lambda>m st. take (length m0) m = m0
      \<and> (\<forall>x \<in> fst ` set (config_methods C). field_state m (Pointer (length m0)) x = Some
          (st (fst x))))
    (abs_calls m0 (config_calls C @ cs) (\<lambda>_. Unset)) (build C cs m0)"
proof -
  let ?S = "config_shape C"
  have ok: "methods_ok ?S grow (config_methods C)" "fst ` set (config_calls C @ cs) \<subseteq> set
      (config_methods C)"
    using assms by (auto simp: config_ok_def)
  then have S: "shape_ok ?S" "sh_leaves ?S = map fst (config_methods C)" by (simp_all add: methods_ok_def)
  have "build C cs m0 = run_calls (functions_of (config_calls C @ cs)) (Pointer (length m0)) (m0 @ [One
      (sh_zero ?S)])"
    using assms(1) by (simp add: build_def config_ok_def new_struct_def functions_of_def run_calls_append
        config_shape_def)
  with calls_follow [OF ok built_new [OF S(1)]]
  have run: "follows m0 (built m0 ?S) (abs_calls m0 (config_calls C @ cs) (\<lambda>_. Unset)) (build C cs
      m0)" by simp
  have "take (length m0) m = m0" if "built m0 ?S m st" for m st
    using that built_atD(1) by (auto simp: built_def)
  moreover have "field_state m (Pointer (length m0)) x = Some (st (fst x))"
    if "built m0 ?S m st" "x \<in> fst ` set (config_methods C)" for m st x
    using that built_field_state [OF S(1) that(1), of "fst x" "snd x"] by (simp add: S(2))
  ultimately show ?thesis by (intro follows_mono [OF run]) blast
qed

end
