(* ===== verification/Apply_Parts.thy ===== *)
theory Apply_Parts
  imports Apply_Memory
begin

text \<open>
  The apply configurations of the structs the operator types are made of, the first half of
  \<open>sdk/applyconfiguration/operator/v1alpha1\<close>. \<open>fields_T\<close> are the fields of
      TApplyConfiguration, \<open>T_WithF\<close>
  its methods and \<open>new_T\<close> the function \<open>T()\<close>. Where elements are appended,
      \<open>grow\<close> is the room the runtime
  leaves in a new array.
\<close>

subsection \<open>CommonShardSpec\<close>

definition fields_CommonShardSpec :: "(string \<times> field_type) list" where
  "fields_CommonShardSpec =
    [(''ClusterDomain'', FPointer ''string''), (''ShardBaseURL'', FPointer ''string''),
     (''Etcd'', FPointer ''EtcdConfigApplyConfiguration''),
     (''Image'', FPointer ''ImageSpecApplyConfiguration''), (''Replicas'', FPointer ''int32''),
     (''Resources'', FPointer ''v1.ResourceRequirements''),
     (''Audit'', FPointer ''AuditSpecApplyConfiguration''),
     (''Authorization'', FPointer ''AuthorizationSpecApplyConfiguration''),
     (''Auth'', FPointer ''AuthSpecApplyConfiguration''),
     (''KCPVirtualWorkspace'', FPointer ''v1.LocalObjectReference''),
     (''CertificateTemplates'', FPointer ''operatorv1alpha1.CertificateTemplateMap''),
     (''ServiceTemplate'', FPointer ''ServiceTemplateApplyConfiguration''),
     (''DeploymentTemplate'', FPointer ''DeploymentTemplateApplyConfiguration''),
     (''CABundleSecretRef'', FPointer ''v1.LocalObjectReference''),
     (''ClientCABundleRef'', FPointer ''v1.LocalObjectReference''), (''ExtraArgs'', FSlice ''string''),
     (''ExtraVolumes'', FSlice ''v1.Volume''), (''ExtraVolumeMounts'', FSlice ''v1.VolumeMount''),
     (''Logging'', FPointer ''LoggingSpecApplyConfiguration'')]"

definition CommonShardSpec_WithClusterDomain :: "builder" where
  "CommonShardSpec_WithClusterDomain = set_address [''ClusterDomain'']"

definition CommonShardSpec_WithShardBaseURL :: "builder" where
  "CommonShardSpec_WithShardBaseURL = set_address [''ShardBaseURL'']"

definition CommonShardSpec_WithEtcd :: "builder" where
  "CommonShardSpec_WithEtcd = set_value [''Etcd'']"

definition CommonShardSpec_WithImage :: "builder" where
  "CommonShardSpec_WithImage = set_value [''Image'']"

definition CommonShardSpec_WithReplicas :: "builder" where
  "CommonShardSpec_WithReplicas = set_address [''Replicas'']"

definition CommonShardSpec_WithResources :: "builder" where
  "CommonShardSpec_WithResources = set_address [''Resources'']"

definition CommonShardSpec_WithAudit :: "builder" where
  "CommonShardSpec_WithAudit = set_value [''Audit'']"

definition CommonShardSpec_WithAuthorization :: "builder" where
  "CommonShardSpec_WithAuthorization = set_value [''Authorization'']"

definition CommonShardSpec_WithAuth :: "builder" where
  "CommonShardSpec_WithAuth = set_value [''Auth'']"

definition CommonShardSpec_WithKCPVirtualWorkspace :: "builder" where
  "CommonShardSpec_WithKCPVirtualWorkspace = set_address [''KCPVirtualWorkspace'']"

definition CommonShardSpec_WithCertificateTemplates :: "builder" where
  "CommonShardSpec_WithCertificateTemplates = set_address [''CertificateTemplates'']"

definition CommonShardSpec_WithServiceTemplate :: "builder" where
  "CommonShardSpec_WithServiceTemplate = set_value [''ServiceTemplate'']"

definition CommonShardSpec_WithDeploymentTemplate :: "builder" where
  "CommonShardSpec_WithDeploymentTemplate = set_value [''DeploymentTemplate'']"

definition CommonShardSpec_WithCABundleSecretRef :: "builder" where
  "CommonShardSpec_WithCABundleSecretRef = set_address [''CABundleSecretRef'']"

definition CommonShardSpec_WithClientCABundleRef :: "builder" where
  "CommonShardSpec_WithClientCABundleRef = set_address [''ClientCABundleRef'']"

definition CommonShardSpec_WithExtraArgs :: "(nat \<Rightarrow> nat) \<Rightarrow> builder" where
  "CommonShardSpec_WithExtraArgs grow = append_values grow [''ExtraArgs'']"

definition CommonShardSpec_WithExtraVolumes :: "(nat \<Rightarrow> nat) \<Rightarrow> builder" where
  "CommonShardSpec_WithExtraVolumes grow = append_values grow [''ExtraVolumes'']"

definition CommonShardSpec_WithExtraVolumeMounts :: "(nat \<Rightarrow> nat) \<Rightarrow> builder" where
  "CommonShardSpec_WithExtraVolumeMounts grow = append_values grow [''ExtraVolumeMounts'']"

definition CommonShardSpec_WithLogging :: "builder" where
  "CommonShardSpec_WithLogging = set_value [''Logging'']"

definition new_CommonShardSpec :: "memory \<Rightarrow> go_value \<times> memory" where
  "new_CommonShardSpec = new_struct (zero_struct fields_CommonShardSpec)"

subsection \<open>AuditPolicySpec\<close>

definition fields_AuditPolicySpec :: "(string \<times> field_type) list" where
  "fields_AuditPolicySpec =
    [(''ConfigMap'', FPointer ''LocalDataKeyReferenceApplyConfiguration'')]"

definition AuditPolicySpec_WithConfigMap :: "builder" where
  "AuditPolicySpec_WithConfigMap = set_value [''ConfigMap'']"

definition new_AuditPolicySpec :: "memory \<Rightarrow> go_value \<times> memory" where
  "new_AuditPolicySpec = new_struct (zero_struct fields_AuditPolicySpec)"

subsection \<open>AuditSpec\<close>

definition fields_AuditSpec :: "(string \<times> field_type) list" where
  "fields_AuditSpec =
    [(''Webhook'', FPointer ''AuditWebhookSpecApplyConfiguration''),
     (''Policy'', FPointer ''AuditPolicySpecApplyConfiguration'')]"

definition AuditSpec_WithWebhook :: "builder" where
  "AuditSpec_WithWebhook = set_value [''Webhook'']"

definition AuditSpec_WithPolicy :: "builder" where
  "AuditSpec_WithPolicy = set_value [''Policy'']"

definition new_AuditSpec :: "memory \<Rightarrow> go_value \<times> memory" where
  "new_AuditSpec = new_struct (zero_struct fields_AuditSpec)"

subsection \<open>AuditWebhookSpec\<close>

definition fields_AuditWebhookSpec :: "(string \<times> field_type) list" where
  "fields_AuditWebhookSpec =
    [(''BatchBufferSize'', FPointer ''int''), (''BatchMaxSize'', FPointer ''int''),
     (''BatchMaxWait'', FPointer ''v1.Duration''), (''BatchThrottleBurst'', FPointer ''int''),
     (''BatchThrottleEnable'', FPointer ''bool''), (''BatchThrottleQPS'', FPointer ''string''),
     (''ConfigSecretName'', FPointer ''string''), (''InitialBackoff'', FPointer ''v1.Duration''),
     (''Mode'', FPointer ''operatorv1alpha1.AuditWebhookMode''),
     (''TruncateEnabled'', FPointer ''bool''), (''TruncateMaxBatchSize'', FPointer ''int''),
     (''TruncateMaxEventSize'', FPointer ''int''), (''Version'', FPointer ''string'')]"

definition AuditWebhookSpec_WithBatchBufferSize :: "builder" where
  "AuditWebhookSpec_WithBatchBufferSize = set_address [''BatchBufferSize'']"

definition AuditWebhookSpec_WithBatchMaxSize :: "builder" where
  "AuditWebhookSpec_WithBatchMaxSize = set_address [''BatchMaxSize'']"

definition AuditWebhookSpec_WithBatchMaxWait :: "builder" where
  "AuditWebhookSpec_WithBatchMaxWait = set_address [''BatchMaxWait'']"

definition AuditWebhookSpec_WithBatchThrottleBurst :: "builder" where
  "AuditWebhookSpec_WithBatchThrottleBurst = set_address [''BatchThrottleBurst'']"

definition AuditWebhookSpec_WithBatchThrottleEnable :: "builder" where
  "AuditWebhookSpec_WithBatchThrottleEnable = set_address [''BatchThrottleEnable'']"

definition AuditWebhookSpec_WithBatchThrottleQPS :: "builder" where
  "AuditWebhookSpec_WithBatchThrottleQPS = set_address [''BatchThrottleQPS'']"

definition AuditWebhookSpec_WithConfigSecretName :: "builder" where
  "AuditWebhookSpec_WithConfigSecretName = set_address [''ConfigSecretName'']"

definition AuditWebhookSpec_WithInitialBackoff :: "builder" where
  "AuditWebhookSpec_WithInitialBackoff = set_address [''InitialBackoff'']"

definition AuditWebhookSpec_WithMode :: "builder" where
  "AuditWebhookSpec_WithMode = set_address [''Mode'']"

definition AuditWebhookSpec_WithTruncateEnabled :: "builder" where
  "AuditWebhookSpec_WithTruncateEnabled = set_address [''TruncateEnabled'']"

definition AuditWebhookSpec_WithTruncateMaxBatchSize :: "builder" where
  "AuditWebhookSpec_WithTruncateMaxBatchSize = set_address [''TruncateMaxBatchSize'']"

definition AuditWebhookSpec_WithTruncateMaxEventSize :: "builder" where
  "AuditWebhookSpec_WithTruncateMaxEventSize = set_address [''TruncateMaxEventSize'']"

definition AuditWebhookSpec_WithVersion :: "builder" where
  "AuditWebhookSpec_WithVersion = set_address [''Version'']"

definition new_AuditWebhookSpec :: "memory \<Rightarrow> go_value \<times> memory" where
  "new_AuditWebhookSpec = new_struct (zero_struct fields_AuditWebhookSpec)"

subsection \<open>AuthenticationWebhookSpec\<close>

definition fields_AuthenticationWebhookSpec :: "(string \<times> field_type) list" where
  "fields_AuthenticationWebhookSpec =
    [(''CacheAuthenticationTTL'', FPointer ''v1.Duration''), (''ConfigSecretName'', FPointer ''string''),
     (''Version'', FPointer ''string'')]"

definition AuthenticationWebhookSpec_WithCacheAuthenticationTTL :: "builder" where
  "AuthenticationWebhookSpec_WithCacheAuthenticationTTL = set_address [''CacheAuthenticationTTL'']"

definition AuthenticationWebhookSpec_WithConfigSecretName :: "builder" where
  "AuthenticationWebhookSpec_WithConfigSecretName = set_address [''ConfigSecretName'']"

definition AuthenticationWebhookSpec_WithVersion :: "builder" where
  "AuthenticationWebhookSpec_WithVersion = set_address [''Version'']"

definition new_AuthenticationWebhookSpec :: "memory \<Rightarrow> go_value \<times> memory" where
  "new_AuthenticationWebhookSpec = new_struct (zero_struct fields_AuthenticationWebhookSpec)"

subsection \<open>AuthorizationSpec\<close>

definition fields_AuthorizationSpec :: "(string \<times> field_type) list" where
  "fields_AuthorizationSpec =
    [(''AllowPaths'', FPointer ''[]string''), (''Order'', FPointer ''[]string''),
     (''Webhook'', FPointer ''AuthorizationWebhookSpecApplyConfiguration'')]"

definition AuthorizationSpec_WithAllowPaths :: "builder" where
  "AuthorizationSpec_WithAllowPaths = set_address [''AllowPaths'']"

definition AuthorizationSpec_WithOrder :: "builder" where
  "AuthorizationSpec_WithOrder = set_address [''Order'']"

definition AuthorizationSpec_WithWebhook :: "builder" where
  "AuthorizationSpec_WithWebhook = set_value [''Webhook'']"

definition new_AuthorizationSpec :: "memory \<Rightarrow> go_value \<times> memory" where
  "new_AuthorizationSpec = new_struct (zero_struct fields_AuthorizationSpec)"

subsection \<open>AuthorizationWebhookSpec\<close>

definition fields_AuthorizationWebhookSpec :: "(string \<times> field_type) list" where
  "fields_AuthorizationWebhookSpec =
    [(''AllowPaths'', FPointer ''[]string''), (''CacheAuthorizedTTL'', FPointer ''v1.Duration''),
     (''CacheUnauthorizedTTL'', FPointer ''v1.Duration''), (''ConfigSecretName'', FPointer ''string''),
     (''Version'', FPointer ''string'')]"

definition AuthorizationWebhookSpec_WithAllowPaths :: "builder" where
  "AuthorizationWebhookSpec_WithAllowPaths = set_address [''AllowPaths'']"

definition AuthorizationWebhookSpec_WithCacheAuthorizedTTL :: "builder" where
  "AuthorizationWebhookSpec_WithCacheAuthorizedTTL = set_address [''CacheAuthorizedTTL'']"

definition AuthorizationWebhookSpec_WithCacheUnauthorizedTTL :: "builder" where
  "AuthorizationWebhookSpec_WithCacheUnauthorizedTTL = set_address [''CacheUnauthorizedTTL'']"

definition AuthorizationWebhookSpec_WithConfigSecretName :: "builder" where
  "AuthorizationWebhookSpec_WithConfigSecretName = set_address [''ConfigSecretName'']"

definition AuthorizationWebhookSpec_WithVersion :: "builder" where
  "AuthorizationWebhookSpec_WithVersion = set_address [''Version'']"

definition new_AuthorizationWebhookSpec :: "memory \<Rightarrow> go_value \<times> memory" where
  "new_AuthorizationWebhookSpec = new_struct (zero_struct fields_AuthorizationWebhookSpec)"

subsection \<open>AuthSpec\<close>

definition fields_AuthSpec :: "(string \<times> field_type) list" where
  "fields_AuthSpec =
    [(''OIDC'', FPointer ''OIDCConfigurationApplyConfiguration''),
     (''Webhook'', FPointer ''AuthenticationWebhookSpecApplyConfiguration''),
     (''TokenAuthFile'', FPointer ''TokenAuthFileSpecApplyConfiguration''),
     (''ServiceAccount'', FPointer ''ServiceAccountAuthenticationApplyConfiguration''),
     (''DropGroups'', FSlice ''string''), (''PassOnGroups'', FSlice ''string'')]"

definition AuthSpec_WithOIDC :: "builder" where
  "AuthSpec_WithOIDC = set_value [''OIDC'']"

definition AuthSpec_WithWebhook :: "builder" where
  "AuthSpec_WithWebhook = set_value [''Webhook'']"

definition AuthSpec_WithTokenAuthFile :: "builder" where
  "AuthSpec_WithTokenAuthFile = set_value [''TokenAuthFile'']"

definition AuthSpec_WithServiceAccount :: "builder" where
  "AuthSpec_WithServiceAccount = set_value [''ServiceAccount'']"

definition AuthSpec_WithDropGroups :: "(nat \<Rightarrow> nat) \<Rightarrow> builder" where
  "AuthSpec_WithDropGroups grow = append_values grow [''DropGroups'']"

definition AuthSpec_WithPassOnGroups :: "(nat \<Rightarrow> nat) \<Rightarrow> builder" where
  "AuthSpec_WithPassOnGroups grow = append_values grow [''PassOnGroups'']"

definition new_AuthSpec :: "memory \<Rightarrow> go_value \<times> memory" where
  "new_AuthSpec = new_struct (zero_struct fields_AuthSpec)"

subsection \<open>CacheServerSpec\<close>

definition fields_CacheServerSpec :: "(string \<times> field_type) list" where
  "fields_CacheServerSpec =
    [(''ClusterDomain'', FPointer ''string''), (''Image'', FPointer ''ImageSpecApplyConfiguration''),
     (''Replicas'', FPointer ''int32''), (''Logging'', FPointer ''LoggingSpecApplyConfiguration''),
     (''Certificates'', FPointer ''CertificatesApplyConfiguration''),
     (''CertificateTemplates'', FPointer ''operatorv1alpha1.CertificateTemplateMap''),
     (''ServiceTemplate'', FPointer ''ServiceTemplateApplyConfiguration''),
     (''DeploymentTemplate'', FPointer ''DeploymentTemplateApplyConfiguration''),
     (''Etcd'', FPointer ''EtcdConfigApplyConfiguration''), (''ExtraArgs'', FSlice ''string''),
     (''ExtraVolumes'', FSlice ''v1.Volume''), (''ExtraVolumeMounts'', FSlice ''v1.VolumeMount'')]"

definition CacheServerSpec_WithClusterDomain :: "builder" where
  "CacheServerSpec_WithClusterDomain = set_address [''ClusterDomain'']"

definition CacheServerSpec_WithImage :: "builder" where
  "CacheServerSpec_WithImage = set_value [''Image'']"

definition CacheServerSpec_WithReplicas :: "builder" where
  "CacheServerSpec_WithReplicas = set_address [''Replicas'']"

definition CacheServerSpec_WithLogging :: "builder" where
  "CacheServerSpec_WithLogging = set_value [''Logging'']"

definition CacheServerSpec_WithCertificates :: "builder" where
  "CacheServerSpec_WithCertificates = set_value [''Certificates'']"

definition CacheServerSpec_WithCertificateTemplates :: "builder" where
  "CacheServerSpec_WithCertificateTemplates = set_address [''CertificateTemplates'']"

definition CacheServerSpec_WithServiceTemplate :: "builder" where
  "CacheServerSpec_WithServiceTemplate = set_value [''ServiceTemplate'']"

definition CacheServerSpec_WithDeploymentTemplate :: "builder" where
  "CacheServerSpec_WithDeploymentTemplate = set_value [''DeploymentTemplate'']"

definition CacheServerSpec_WithEtcd :: "builder" where
  "CacheServerSpec_WithEtcd = set_value [''Etcd'']"

definition CacheServerSpec_WithExtraArgs :: "(nat \<Rightarrow> nat) \<Rightarrow> builder" where
  "CacheServerSpec_WithExtraArgs grow = append_values grow [''ExtraArgs'']"

definition CacheServerSpec_WithExtraVolumes :: "(nat \<Rightarrow> nat) \<Rightarrow> builder" where
  "CacheServerSpec_WithExtraVolumes grow = append_values grow [''ExtraVolumes'']"

definition CacheServerSpec_WithExtraVolumeMounts :: "(nat \<Rightarrow> nat) \<Rightarrow> builder" where
  "CacheServerSpec_WithExtraVolumeMounts grow = append_values grow [''ExtraVolumeMounts'']"

definition new_CacheServerSpec :: "memory \<Rightarrow> go_value \<times> memory" where
  "new_CacheServerSpec = new_struct (zero_struct fields_CacheServerSpec)"

subsection \<open>CertificateMetadataTemplate\<close>

definition fields_CertificateMetadataTemplate :: "(string \<times> field_type) list" where
  "fields_CertificateMetadataTemplate =
    [(''Annotations'', FMap ''map[string]string''), (''Labels'', FMap ''map[string]string'')]"

definition CertificateMetadataTemplate_WithAnnotations :: "builder" where
  "CertificateMetadataTemplate_WithAnnotations = put_entries [''Annotations'']"

definition CertificateMetadataTemplate_WithLabels :: "builder" where
  "CertificateMetadataTemplate_WithLabels = put_entries [''Labels'']"

definition new_CertificateMetadataTemplate :: "memory \<Rightarrow> go_value \<times> memory" where
  "new_CertificateMetadataTemplate = new_struct (zero_struct fields_CertificateMetadataTemplate)"

subsection \<open>CertificatePrivateKeyTemplate\<close>

definition fields_CertificatePrivateKeyTemplate :: "(string \<times> field_type) list" where
  "fields_CertificatePrivateKeyTemplate =
    [(''RotationPolicy'', FPointer ''operatorv1alpha1.PrivateKeyRotationPolicy''),
     (''Encoding'', FPointer ''operatorv1alpha1.PrivateKeyEncoding''),
     (''Algorithm'', FPointer ''operatorv1alpha1.PrivateKeyAlgorithm''), (''Size'', FPointer ''int'')]"

definition CertificatePrivateKeyTemplate_WithRotationPolicy :: "builder" where
  "CertificatePrivateKeyTemplate_WithRotationPolicy = set_address [''RotationPolicy'']"

definition CertificatePrivateKeyTemplate_WithEncoding :: "builder" where
  "CertificatePrivateKeyTemplate_WithEncoding = set_address [''Encoding'']"

definition CertificatePrivateKeyTemplate_WithAlgorithm :: "builder" where
  "CertificatePrivateKeyTemplate_WithAlgorithm = set_address [''Algorithm'']"

definition CertificatePrivateKeyTemplate_WithSize :: "builder" where
  "CertificatePrivateKeyTemplate_WithSize = set_address [''Size'']"

definition new_CertificatePrivateKeyTemplate :: "memory \<Rightarrow> go_value \<times> memory" where
  "new_CertificatePrivateKeyTemplate = new_struct (zero_struct fields_CertificatePrivateKeyTemplate)"

subsection \<open>Certificates\<close>

definition fields_Certificates :: "(string \<times> field_type) list" where
  "fields_Certificates =
    [(''IssuerRef'', FPointer ''ObjectReferenceApplyConfiguration''),
     (''CASecretRef'', FPointer ''v1.LocalObjectReference'')]"

definition Certificates_WithIssuerRef :: "builder" where
  "Certificates_WithIssuerRef = set_value [''IssuerRef'']"

definition Certificates_WithCASecretRef :: "builder" where
  "Certificates_WithCASecretRef = set_address [''CASecretRef'']"

definition new_Certificates :: "memory \<Rightarrow> go_value \<times> memory" where
  "new_Certificates = new_struct (zero_struct fields_Certificates)"

subsection \<open>CertificateSecretTemplate\<close>

definition fields_CertificateSecretTemplate :: "(string \<times> field_type) list" where
  "fields_CertificateSecretTemplate =
    [(''Annotations'', FMap ''map[string]string''), (''Labels'', FMap ''map[string]string'')]"

definition CertificateSecretTemplate_WithAnnotations :: "builder" where
  "CertificateSecretTemplate_WithAnnotations = put_entries [''Annotations'']"

definition CertificateSecretTemplate_WithLabels :: "builder" where
  "CertificateSecretTemplate_WithLabels = put_entries [''Labels'']"

definition new_CertificateSecretTemplate :: "memory \<Rightarrow> go_value \<times> memory" where
  "new_CertificateSecretTemplate = new_struct (zero_struct fields_CertificateSecretTemplate)"

subsection \<open>CertificateSpecTemplate\<close>

definition fields_CertificateSpecTemplate :: "(string \<times> field_type) list" where
  "fields_CertificateSpecTemplate =
    [(''Subject'', FPointer ''X509SubjectApplyConfiguration''),
     (''IssuerRef'', FPointer ''ObjectReferenceApplyConfiguration''), (''DNSNames'', FSlice ''string''),
     (''IPAddresses'', FSlice ''string''),
     (''SecretTemplate'', FPointer ''CertificateSecretTemplateApplyConfiguration''),
     (''Duration'', FPointer ''v1.Duration''), (''RenewBefore'', FPointer ''v1.Duration''),
     (''PrivateKey'', FPointer ''CertificatePrivateKeyTemplateApplyConfiguration'')]"

definition CertificateSpecTemplate_WithSubject :: "builder" where
  "CertificateSpecTemplate_WithSubject = set_value [''Subject'']"

definition CertificateSpecTemplate_WithIssuerRef :: "builder" where
  "CertificateSpecTemplate_WithIssuerRef = set_value [''IssuerRef'']"

definition CertificateSpecTemplate_WithDNSNames :: "(nat \<Rightarrow> nat) \<Rightarrow> builder" where
  "CertificateSpecTemplate_WithDNSNames grow = append_values grow [''DNSNames'']"

definition CertificateSpecTemplate_WithIPAddresses :: "(nat \<Rightarrow> nat) \<Rightarrow> builder" where
  "CertificateSpecTemplate_WithIPAddresses grow = append_values grow [''IPAddresses'']"

definition CertificateSpecTemplate_WithSecretTemplate :: "builder" where
  "CertificateSpecTemplate_WithSecretTemplate = set_value [''SecretTemplate'']"

definition CertificateSpecTemplate_WithDuration :: "builder" where
  "CertificateSpecTemplate_WithDuration = set_address [''Duration'']"

definition CertificateSpecTemplate_WithRenewBefore :: "builder" where
  "CertificateSpecTemplate_WithRenewBefore = set_address [''RenewBefore'']"

definition CertificateSpecTemplate_WithPrivateKey :: "builder" where
  "CertificateSpecTemplate_WithPrivateKey = set_value [''PrivateKey'']"

definition new_CertificateSpecTemplate :: "memory \<Rightarrow> go_value \<times> memory" where
  "new_CertificateSpecTemplate = new_struct (zero_struct fields_CertificateSpecTemplate)"

subsection \<open>CertificateTemplate\<close>

definition fields_CertificateTemplate :: "(string \<times> field_type) list" where
  "fields_CertificateTemplate =
    [(''Metadata'', FPointer ''CertificateMetadataTemplateApplyConfiguration''),
     (''Spec'', FPointer ''CertificateSpecTemplateApplyConfiguration'')]"

definition CertificateTemplate_WithMetadata :: "builder" where
  "CertificateTemplate_WithMetadata = set_value [''Metadata'']"

definition CertificateTemplate_WithSpec :: "builder" where
  "CertificateTemplate_WithSpec = set_value [''Spec'']"

definition new_CertificateTemplate :: "memory \<Rightarrow> go_value \<times> memory" where
  "new_CertificateTemplate = new_struct (zero_struct fields_CertificateTemplate)"

subsection \<open>DeploymentMetadataTemplate\<close>

definition fields_DeploymentMetadataTemplate :: "(string \<times> field_type) list" where
  "fields_DeploymentMetadataTemplate =
    [(''Annotations'', FMap ''map[string]string''), (''Labels'', FMap ''map[string]string'')]"

definition DeploymentMetadataTemplate_WithAnnotations :: "builder" where
  "DeploymentMetadataTemplate_WithAnnotations = put_entries [''Annotations'']"

definition DeploymentMetadataTemplate_WithLabels :: "builder" where
  "DeploymentMetadataTemplate_WithLabels = put_entries [''Labels'']"

definition new_DeploymentMetadataTemplate :: "memory \<Rightarrow> go_value \<times> memory" where
  "new_DeploymentMetadataTemplate = new_struct (zero_struct fields_DeploymentMetadataTemplate)"

subsection \<open>DeploymentSpecTemplate\<close>

definition fields_DeploymentSpecTemplate :: "(string \<times> field_type) list" where
  "fields_DeploymentSpecTemplate =
    [(''Template'', FPointer ''PodTemplateSpecApplyConfiguration'')]"

definition DeploymentSpecTemplate_WithTemplate :: "builder" where
  "DeploymentSpecTemplate_WithTemplate = set_value [''Template'']"

definition new_DeploymentSpecTemplate :: "memory \<Rightarrow> go_value \<times> memory" where
  "new_DeploymentSpecTemplate = new_struct (zero_struct fields_DeploymentSpecTemplate)"

subsection \<open>DeploymentTemplate\<close>

definition fields_DeploymentTemplate :: "(string \<times> field_type) list" where
  "fields_DeploymentTemplate =
    [(''Metadata'', FPointer ''DeploymentMetadataTemplateApplyConfiguration''),
     (''Spec'', FPointer ''DeploymentSpecTemplateApplyConfiguration'')]"

definition DeploymentTemplate_WithMetadata :: "builder" where
  "DeploymentTemplate_WithMetadata = set_value [''Metadata'']"

definition DeploymentTemplate_WithSpec :: "builder" where
  "DeploymentTemplate_WithSpec = set_value [''Spec'']"

definition new_DeploymentTemplate :: "memory \<Rightarrow> go_value \<times> memory" where
  "new_DeploymentTemplate = new_struct (zero_struct fields_DeploymentTemplate)"

subsection \<open>EmbeddedCacheConfiguration\<close>

definition fields_EmbeddedCacheConfiguration :: "(string \<times> field_type) list" where
  "fields_EmbeddedCacheConfiguration =
    [(''Enabled'', FPointer ''bool'')]"

definition EmbeddedCacheConfiguration_WithEnabled :: "builder" where
  "EmbeddedCacheConfiguration_WithEnabled = set_address [''Enabled'']"

definition new_EmbeddedCacheConfiguration :: "memory \<Rightarrow> go_value \<times> memory" where
  "new_EmbeddedCacheConfiguration = new_struct (zero_struct fields_EmbeddedCacheConfiguration)"

subsection \<open>EtcdConfig\<close>

definition fields_EtcdConfig :: "(string \<times> field_type) list" where
  "fields_EtcdConfig =
    [(''Endpoints'', FSlice ''string''), (''TLSConfig'', FPointer ''EtcdTLSConfigApplyConfiguration''),
     (''Prefix'', FPointer ''string'')]"

definition EtcdConfig_WithEndpoints :: "(nat \<Rightarrow> nat) \<Rightarrow> builder" where
  "EtcdConfig_WithEndpoints grow = append_values grow [''Endpoints'']"

definition EtcdConfig_WithTLSConfig :: "builder" where
  "EtcdConfig_WithTLSConfig = set_value [''TLSConfig'']"

definition EtcdConfig_WithPrefix :: "builder" where
  "EtcdConfig_WithPrefix = set_address [''Prefix'']"

definition new_EtcdConfig :: "memory \<Rightarrow> go_value \<times> memory" where
  "new_EtcdConfig = new_struct (zero_struct fields_EtcdConfig)"

subsection \<open>EtcdTLSConfig\<close>

definition fields_EtcdTLSConfig :: "(string \<times> field_type) list" where
  "fields_EtcdTLSConfig =
    [(''SecretRef'', FPointer ''v1.LocalObjectReference'')]"

definition EtcdTLSConfig_WithSecretRef :: "builder" where
  "EtcdTLSConfig_WithSecretRef = set_address [''SecretRef'']"

definition new_EtcdTLSConfig :: "memory \<Rightarrow> go_value \<times> memory" where
  "new_EtcdTLSConfig = new_struct (zero_struct fields_EtcdTLSConfig)"

subsection \<open>ExternalConfig\<close>

definition fields_ExternalConfig :: "(string \<times> field_type) list" where
  "fields_ExternalConfig =
    [(''Hostname'', FPointer ''string''), (''Port'', FPointer ''uint32''),
     (''PrivateHostname'', FPointer ''string''), (''PrivatePort'', FPointer ''uint32'')]"

definition ExternalConfig_WithHostname :: "builder" where
  "ExternalConfig_WithHostname = set_address [''Hostname'']"

definition ExternalConfig_WithPort :: "builder" where
  "ExternalConfig_WithPort = set_address [''Port'']"

definition ExternalConfig_WithPrivateHostname :: "builder" where
  "ExternalConfig_WithPrivateHostname = set_address [''PrivateHostname'']"

definition ExternalConfig_WithPrivatePort :: "builder" where
  "ExternalConfig_WithPrivatePort = set_address [''PrivatePort'']"

definition new_ExternalConfig :: "memory \<Rightarrow> go_value \<times> memory" where
  "new_ExternalConfig = new_struct (zero_struct fields_ExternalConfig)"

subsection \<open>FrontProxySpec\<close>

definition fields_FrontProxySpec :: "(string \<times> field_type) list" where
  "fields_FrontProxySpec =
    [(''RootShard'', FPointer ''RootShardConfigApplyConfiguration''), (''Replicas'', FPointer ''int32''),
     (''Resources'', FPointer ''v1.ResourceRequirements''),
     (''Auth'', FPointer ''AuthSpecApplyConfiguration''),
     (''AdditionalPathMappings'', FSlice ''PathMappingEntryApplyConfiguration''),
     (''Image'', FPointer ''ImageSpecApplyConfiguration''), (''ExternalHostname'', FPointer ''string''),
     (''External'', FPointer ''ExternalConfigApplyConfiguration''),
     (''ServiceTemplate'', FPointer ''ServiceTemplateApplyConfiguration''),
     (''DeploymentTemplate'', FPointer ''DeploymentTemplateApplyConfiguration''),
     (''CertificateTemplates'', FPointer ''operatorv1alpha1.CertificateTemplateMap''),
     (''CABundleSecretRef'', FPointer ''v1.LocalObjectReference''),
     (''ClientCABundleRef'', FPointer ''v1.LocalObjectReference''), (''ExtraArgs'', FSlice ''string''),
     (''ExtraVolumes'', FSlice ''v1.Volume''), (''ExtraVolumeMounts'', FSlice ''v1.VolumeMount''),
     (''Logging'', FPointer ''LoggingSpecApplyConfiguration'')]"

definition FrontProxySpec_WithRootShard :: "builder" where
  "FrontProxySpec_WithRootShard = set_value [''RootShard'']"

definition FrontProxySpec_WithReplicas :: "builder" where
  "FrontProxySpec_WithReplicas = set_address [''Replicas'']"

definition FrontProxySpec_WithResources :: "builder" where
  "FrontProxySpec_WithResources = set_address [''Resources'']"

definition FrontProxySpec_WithAuth :: "builder" where
  "FrontProxySpec_WithAuth = set_value [''Auth'']"

definition FrontProxySpec_WithAdditionalPathMappings :: "(nat \<Rightarrow> nat) \<Rightarrow> builder" where
  "FrontProxySpec_WithAdditionalPathMappings grow =
    append_pointed grow ''nil value passed to WithAdditionalPathMappings'' [''AdditionalPathMappings'']"

definition FrontProxySpec_WithImage :: "builder" where
  "FrontProxySpec_WithImage = set_value [''Image'']"

definition FrontProxySpec_WithExternalHostname :: "builder" where
  "FrontProxySpec_WithExternalHostname = set_address [''ExternalHostname'']"

definition FrontProxySpec_WithExternal :: "builder" where
  "FrontProxySpec_WithExternal = set_value [''External'']"

definition FrontProxySpec_WithServiceTemplate :: "builder" where
  "FrontProxySpec_WithServiceTemplate = set_value [''ServiceTemplate'']"

definition FrontProxySpec_WithDeploymentTemplate :: "builder" where
  "FrontProxySpec_WithDeploymentTemplate = set_value [''DeploymentTemplate'']"

definition FrontProxySpec_WithCertificateTemplates :: "builder" where
  "FrontProxySpec_WithCertificateTemplates = set_address [''CertificateTemplates'']"

definition FrontProxySpec_WithCABundleSecretRef :: "builder" where
  "FrontProxySpec_WithCABundleSecretRef = set_address [''CABundleSecretRef'']"

definition FrontProxySpec_WithClientCABundleRef :: "builder" where
  "FrontProxySpec_WithClientCABundleRef = set_address [''ClientCABundleRef'']"

definition FrontProxySpec_WithExtraArgs :: "(nat \<Rightarrow> nat) \<Rightarrow> builder" where
  "FrontProxySpec_WithExtraArgs grow = append_values grow [''ExtraArgs'']"

definition FrontProxySpec_WithExtraVolumes :: "(nat \<Rightarrow> nat) \<Rightarrow> builder" where
  "FrontProxySpec_WithExtraVolumes grow = append_values grow [''ExtraVolumes'']"

definition FrontProxySpec_WithExtraVolumeMounts :: "(nat \<Rightarrow> nat) \<Rightarrow> builder" where
  "FrontProxySpec_WithExtraVolumeMounts grow = append_values grow [''ExtraVolumeMounts'']"

definition FrontProxySpec_WithLogging :: "builder" where
  "FrontProxySpec_WithLogging = set_value [''Logging'']"

definition new_FrontProxySpec :: "memory \<Rightarrow> go_value \<times> memory" where
  "new_FrontProxySpec = new_struct (zero_struct fields_FrontProxySpec)"

subsection \<open>FrontProxyStatus\<close>

definition fields_FrontProxyStatus :: "(string \<times> field_type) list" where
  "fields_FrontProxyStatus =
    [(''Phase'', FPointer ''operatorv1alpha1.FrontProxyPhase''),
     (''Conditions'', FSlice ''v1.ConditionApplyConfiguration'')]"

definition FrontProxyStatus_WithPhase :: "builder" where
  "FrontProxyStatus_WithPhase = set_address [''Phase'']"

definition FrontProxyStatus_WithConditions :: "(nat \<Rightarrow> nat) \<Rightarrow> builder" where
  "FrontProxyStatus_WithConditions grow =
    append_pointed grow ''nil value passed to WithConditions'' [''Conditions'']"

definition new_FrontProxyStatus :: "memory \<Rightarrow> go_value \<times> memory" where
  "new_FrontProxyStatus = new_struct (zero_struct fields_FrontProxyStatus)"

subsection \<open>ImageSpec\<close>

definition fields_ImageSpec :: "(string \<times> field_type) list" where
  "fields_ImageSpec =
    [(''Repository'', FPointer ''string''), (''Tag'', FPointer ''string''),
     (''ImagePullSecrets'', FSlice ''v1.LocalObjectReference'')]"

definition ImageSpec_WithRepository :: "builder" where
  "ImageSpec_WithRepository = set_address [''Repository'']"

definition ImageSpec_WithTag :: "builder" where
  "ImageSpec_WithTag = set_address [''Tag'']"

definition ImageSpec_WithImagePullSecrets :: "(nat \<Rightarrow> nat) \<Rightarrow> builder" where
  "ImageSpec_WithImagePullSecrets grow = append_values grow [''ImagePullSecrets'']"

definition new_ImageSpec :: "memory \<Rightarrow> go_value \<times> memory" where
  "new_ImageSpec = new_struct (zero_struct fields_ImageSpec)"

subsection \<open>KubeconfigAuthorization\<close>

definition fields_KubeconfigAuthorization :: "(string \<times> field_type) list" where
  "fields_KubeconfigAuthorization =
    [(''ClusterRoleBindings'', FPointer ''KubeconfigClusterRoleBindingsApplyConfiguration'')]"

definition KubeconfigAuthorization_WithClusterRoleBindings :: "builder" where
  "KubeconfigAuthorization_WithClusterRoleBindings = set_value [''ClusterRoleBindings'']"

definition new_KubeconfigAuthorization :: "memory \<Rightarrow> go_value \<times> memory" where
  "new_KubeconfigAuthorization = new_struct (zero_struct fields_KubeconfigAuthorization)"

subsection \<open>KubeconfigAuthorizationStatus\<close>

definition fields_KubeconfigAuthorizationStatus :: "(string \<times> field_type) list" where
  "fields_KubeconfigAuthorizationStatus =
    [(''ProvisionedCluster'', FPointer ''string'')]"

definition KubeconfigAuthorizationStatus_WithProvisionedCluster :: "builder" where
  "KubeconfigAuthorizationStatus_WithProvisionedCluster = set_address [''ProvisionedCluster'']"

definition new_KubeconfigAuthorizationStatus :: "memory \<Rightarrow> go_value \<times> memory" where
  "new_KubeconfigAuthorizationStatus = new_struct (zero_struct fields_KubeconfigAuthorizationStatus)"

subsection \<open>KubeconfigClusterRoleBindings\<close>

definition fields_KubeconfigClusterRoleBindings :: "(string \<times> field_type) list" where
  "fields_KubeconfigClusterRoleBindings =
    [(''Cluster'', FPointer ''string''), (''ClusterRoles'', FSlice ''string'')]"

definition KubeconfigClusterRoleBindings_WithCluster :: "builder" where
  "KubeconfigClusterRoleBindings_WithCluster = set_address [''Cluster'']"

definition KubeconfigClusterRoleBindings_WithClusterRoles :: "(nat \<Rightarrow> nat) \<Rightarrow>
    builder" where
  "KubeconfigClusterRoleBindings_WithClusterRoles grow = append_values grow [''ClusterRoles'']"

definition new_KubeconfigClusterRoleBindings :: "memory \<Rightarrow> go_value \<times> memory" where
  "new_KubeconfigClusterRoleBindings = new_struct (zero_struct fields_KubeconfigClusterRoleBindings)"

subsection \<open>KubeconfigSpec\<close>

definition fields_KubeconfigSpec :: "(string \<times> field_type) list" where
  "fields_KubeconfigSpec =
    [(''Target'', FPointer ''KubeconfigTargetApplyConfiguration''),
     (''TargetWorkspace'', FPointer ''string''), (''Username'', FPointer ''string''),
     (''Groups'', FSlice ''string''), (''Validity'', FPointer ''v1.Duration''),
     (''SecretRef'', FPointer ''corev1.LocalObjectReference''),
     (''CertificateTemplate'', FPointer ''CertificateTemplateApplyConfiguration''),
     (''Authorization'', FPointer ''KubeconfigAuthorizationApplyConfiguration'')]"

definition KubeconfigSpec_WithTarget :: "builder" where
  "KubeconfigSpec_WithTarget = set_value [''Target'']"

definition KubeconfigSpec_WithTargetWorkspace :: "builder" where
  "KubeconfigSpec_WithTargetWorkspace = set_address [''TargetWorkspace'']"

definition KubeconfigSpec_WithUsername :: "builder" where
  "KubeconfigSpec_WithUsername = set_address [''Username'']"

definition KubeconfigSpec_WithGroups :: "(nat \<Rightarrow> nat) \<Rightarrow> builder" where
  "KubeconfigSpec_WithGroups grow = append_values grow [''Groups'']"

definition KubeconfigSpec_WithValidity :: "builder" where
  "KubeconfigSpec_WithValidity = set_address [''Validity'']"

definition KubeconfigSpec_WithSecretRef :: "builder" where
  "KubeconfigSpec_WithSecretRef = set_address [''SecretRef'']"

definition KubeconfigSpec_WithCertificateTemplate :: "builder" where
  "KubeconfigSpec_WithCertificateTemplate = set_value [''CertificateTemplate'']"

definition KubeconfigSpec_WithAuthorization :: "builder" where
  "KubeconfigSpec_WithAuthorization = set_value [''Authorization'']"

definition new_KubeconfigSpec :: "memory \<Rightarrow> go_value \<times> memory" where
  "new_KubeconfigSpec = new_struct (zero_struct fields_KubeconfigSpec)"

chapter \<open>More structs\<close>

text \<open>
  The apply configurations of the other structs the operator types are made of
  (\<open>sdk/applyconfiguration/operator/v1alpha1\<close>).
\<close>

subsection \<open>KubeconfigStatus\<close>

definition fields_KubeconfigStatus :: "(string \<times> field_type) list" where
  "fields_KubeconfigStatus =
    [(''Phase'', FPointer ''operatorv1alpha1.KubeconfigPhase''), (''TargetName'', FPointer ''string''),
     (''Authorization'', FPointer ''KubeconfigAuthorizationStatusApplyConfiguration''),
     (''Conditions'', FSlice ''v1.ConditionApplyConfiguration'')]"

definition KubeconfigStatus_WithPhase :: "builder" where
  "KubeconfigStatus_WithPhase = set_address [''Phase'']"

definition KubeconfigStatus_WithTargetName :: "builder" where
  "KubeconfigStatus_WithTargetName = set_address [''TargetName'']"

definition KubeconfigStatus_WithAuthorization :: "builder" where
  "KubeconfigStatus_WithAuthorization = set_value [''Authorization'']"

definition KubeconfigStatus_WithConditions :: "(nat \<Rightarrow> nat) \<Rightarrow> builder" where
  "KubeconfigStatus_WithConditions grow =
    append_pointed grow ''nil value passed to WithConditions'' [''Conditions'']"

definition new_KubeconfigStatus :: "memory \<Rightarrow> go_value \<times> memory" where
  "new_KubeconfigStatus = new_struct (zero_struct fields_KubeconfigStatus)"

subsection \<open>KubeconfigTarget\<close>

definition fields_KubeconfigTarget :: "(string \<times> field_type) list" where
  "fields_KubeconfigTarget =
    [(''RootShardRef'', FPointer ''v1.LocalObjectReference''),
     (''ShardRef'', FPointer ''v1.LocalObjectReference''),
     (''FrontProxyRef'', FPointer ''v1.LocalObjectReference'')]"

definition KubeconfigTarget_WithRootShardRef :: "builder" where
  "KubeconfigTarget_WithRootShardRef = set_address [''RootShardRef'']"

definition KubeconfigTarget_WithShardRef :: "builder" where
  "KubeconfigTarget_WithShardRef = set_address [''ShardRef'']"

definition KubeconfigTarget_WithFrontProxyRef :: "builder" where
  "KubeconfigTarget_WithFrontProxyRef = set_address [''FrontProxyRef'']"

definition new_KubeconfigTarget :: "memory \<Rightarrow> go_value \<times> memory" where
  "new_KubeconfigTarget = new_struct (zero_struct fields_KubeconfigTarget)"

subsection \<open>LocalDataKeyReference\<close>

definition fields_LocalDataKeyReference :: "(string \<times> field_type) list" where
  "fields_LocalDataKeyReference =
    [(''Name'', FPointer ''string''), (''Key'', FPointer ''string'')]"

definition LocalDataKeyReference_WithName :: "builder" where
  "LocalDataKeyReference_WithName = set_address [''Name'']"

definition LocalDataKeyReference_WithKey :: "builder" where
  "LocalDataKeyReference_WithKey = set_address [''Key'']"

definition new_LocalDataKeyReference :: "memory \<Rightarrow> go_value \<times> memory" where
  "new_LocalDataKeyReference = new_struct (zero_struct fields_LocalDataKeyReference)"

subsection \<open>LoggingSpec\<close>

definition fields_LoggingSpec :: "(string \<times> field_type) list" where
  "fields_LoggingSpec =
    [(''Level'', FPointer ''int'')]"

definition LoggingSpec_WithLevel :: "builder" where
  "LoggingSpec_WithLevel = set_address [''Level'']"

definition new_LoggingSpec :: "memory \<Rightarrow> go_value \<times> memory" where
  "new_LoggingSpec = new_struct (zero_struct fields_LoggingSpec)"

subsection \<open>ObjectReference\<close>

definition fields_ObjectReference :: "(string \<times> field_type) list" where
  "fields_ObjectReference =
    [(''Name'', FPointer ''string''), (''Kind'', FPointer ''string''), (''Group'', FPointer ''string'')]"

definition ObjectReference_WithName :: "builder" where
  "ObjectReference_WithName = set_address [''Name'']"

definition ObjectReference_WithKind :: "builder" where
  "ObjectReference_WithKind = set_address [''Kind'']"

definition ObjectReference_WithGroup :: "builder" where
  "ObjectReference_WithGroup = set_address [''Group'']"

definition new_ObjectReference :: "memory \<Rightarrow> go_value \<times> memory" where
  "new_ObjectReference = new_struct (zero_struct fields_ObjectReference)"

subsection \<open>OIDCCAFileRef\<close>

definition fields_OIDCCAFileRef :: "(string \<times> field_type) list" where
  "fields_OIDCCAFileRef =
    [(''Name'', FPointer ''string''), (''Key'', FPointer ''string'')]"

definition OIDCCAFileRef_WithName :: "builder" where
  "OIDCCAFileRef_WithName = set_address [''Name'']"

definition OIDCCAFileRef_WithKey :: "builder" where
  "OIDCCAFileRef_WithKey = set_address [''Key'']"

definition new_OIDCCAFileRef :: "memory \<Rightarrow> go_value \<times> memory" where
  "new_OIDCCAFileRef = new_struct (zero_struct fields_OIDCCAFileRef)"

subsection \<open>OIDCConfiguration\<close>

definition fields_OIDCConfiguration :: "(string \<times> field_type) list" where
  "fields_OIDCConfiguration =
    [(''IssuerURL'', FPointer ''string''), (''ClientID'', FPointer ''string''),
     (''ClientSecret'', FPointer ''string''), (''GroupsClaim'', FPointer ''string''),
     (''UsernameClaim'', FPointer ''string''), (''GroupsPrefix'', FPointer ''string''),
     (''UsernamePrefix'', FPointer ''string''),
     (''CAFileRef'', FPointer ''OIDCCAFileRefApplyConfiguration'')]"

definition OIDCConfiguration_WithIssuerURL :: "builder" where
  "OIDCConfiguration_WithIssuerURL = set_address [''IssuerURL'']"

definition OIDCConfiguration_WithClientID :: "builder" where
  "OIDCConfiguration_WithClientID = set_address [''ClientID'']"

definition OIDCConfiguration_WithClientSecret :: "builder" where
  "OIDCConfiguration_WithClientSecret = set_address [''ClientSecret'']"

definition OIDCConfiguration_WithGroupsClaim :: "builder" where
  "OIDCConfiguration_WithGroupsClaim = set_address [''GroupsClaim'']"

definition OIDCConfiguration_WithUsernameClaim :: "builder" where
  "OIDCConfiguration_WithUsernameClaim = set_address [''UsernameClaim'']"

definition OIDCConfiguration_WithGroupsPrefix :: "builder" where
  "OIDCConfiguration_WithGroupsPrefix = set_address [''GroupsPrefix'']"

definition OIDCConfiguration_WithUsernamePrefix :: "builder" where
  "OIDCConfiguration_WithUsernamePrefix = set_address [''UsernamePrefix'']"

definition OIDCConfiguration_WithCAFileRef :: "builder" where
  "OIDCConfiguration_WithCAFileRef = set_value [''CAFileRef'']"

definition new_OIDCConfiguration :: "memory \<Rightarrow> go_value \<times> memory" where
  "new_OIDCConfiguration = new_struct (zero_struct fields_OIDCConfiguration)"

subsection \<open>PathMappingEntry\<close>

definition fields_PathMappingEntry :: "(string \<times> field_type) list" where
  "fields_PathMappingEntry =
    [(''Path'', FPointer ''string''), (''Backend'', FPointer ''string''),
     (''BackendServerCA'', FPointer ''string''), (''ProxyClientCert'', FPointer ''string''),
     (''ProxyClientKey'', FPointer ''string'')]"

definition PathMappingEntry_WithPath :: "builder" where
  "PathMappingEntry_WithPath = set_address [''Path'']"

definition PathMappingEntry_WithBackend :: "builder" where
  "PathMappingEntry_WithBackend = set_address [''Backend'']"

definition PathMappingEntry_WithBackendServerCA :: "builder" where
  "PathMappingEntry_WithBackendServerCA = set_address [''BackendServerCA'']"

definition PathMappingEntry_WithProxyClientCert :: "builder" where
  "PathMappingEntry_WithProxyClientCert = set_address [''ProxyClientCert'']"

definition PathMappingEntry_WithProxyClientKey :: "builder" where
  "PathMappingEntry_WithProxyClientKey = set_address [''ProxyClientKey'']"

definition new_PathMappingEntry :: "memory \<Rightarrow> go_value \<times> memory" where
  "new_PathMappingEntry = new_struct (zero_struct fields_PathMappingEntry)"

subsection \<open>PodMetadataTemplate\<close>

definition fields_PodMetadataTemplate :: "(string \<times> field_type) list" where
  "fields_PodMetadataTemplate =
    [(''Annotations'', FMap ''map[string]string''), (''Labels'', FMap ''map[string]string'')]"

definition PodMetadataTemplate_WithAnnotations :: "builder" where
  "PodMetadataTemplate_WithAnnotations = put_entries [''Annotations'']"

definition PodMetadataTemplate_WithLabels :: "builder" where
  "PodMetadataTemplate_WithLabels = put_entries [''Labels'']"

definition new_PodMetadataTemplate :: "memory \<Rightarrow> go_value \<times> memory" where
  "new_PodMetadataTemplate = new_struct (zero_struct fields_PodMetadataTemplate)"

subsection \<open>PodSpecTemplate\<close>

definition fields_PodSpecTemplate :: "(string \<times> field_type) list" where
  "fields_PodSpecTemplate =
    [(''NodeSelector'', FMap ''map[string]string''), (''Affinity'', FPointer ''v1.Affinity''),
     (''Tolerations'', FSlice ''v1.Toleration''), (''HostAliases'', FSlice ''v1.HostAlias''),
     (''ImagePullSecrets'', FSlice ''v1.LocalObjectReference''),
     (''TopologySpreadConstraints'', FSlice ''v1.TopologySpreadConstraint'')]"

definition PodSpecTemplate_WithNodeSelector :: "builder" where
  "PodSpecTemplate_WithNodeSelector = put_entries [''NodeSelector'']"

definition PodSpecTemplate_WithAffinity :: "builder" where
  "PodSpecTemplate_WithAffinity = set_address [''Affinity'']"

definition PodSpecTemplate_WithTolerations :: "(nat \<Rightarrow> nat) \<Rightarrow> builder" where
  "PodSpecTemplate_WithTolerations grow = append_values grow [''Tolerations'']"

definition PodSpecTemplate_WithHostAliases :: "(nat \<Rightarrow> nat) \<Rightarrow> builder" where
  "PodSpecTemplate_WithHostAliases grow = append_values grow [''HostAliases'']"

definition PodSpecTemplate_WithImagePullSecrets :: "(nat \<Rightarrow> nat) \<Rightarrow> builder" where
  "PodSpecTemplate_WithImagePullSecrets grow = append_values grow [''ImagePullSecrets'']"

definition PodSpecTemplate_WithTopologySpreadConstraints :: "(nat \<Rightarrow> nat) \<Rightarrow>
    builder" where
  "PodSpecTemplate_WithTopologySpreadConstraints grow = append_values grow [''TopologySpreadConstraints'']"

definition new_PodSpecTemplate :: "memory \<Rightarrow> go_value \<times> memory" where
  "new_PodSpecTemplate = new_struct (zero_struct fields_PodSpecTemplate)"

subsection \<open>PodTemplateSpec\<close>

definition fields_PodTemplateSpec :: "(string \<times> field_type) list" where
  "fields_PodTemplateSpec =
    [(''Metadata'', FPointer ''PodMetadataTemplateApplyConfiguration''),
     (''Spec'', FPointer ''PodSpecTemplateApplyConfiguration'')]"

definition PodTemplateSpec_WithMetadata :: "builder" where
  "PodTemplateSpec_WithMetadata = set_value [''Metadata'']"

definition PodTemplateSpec_WithSpec :: "builder" where
  "PodTemplateSpec_WithSpec = set_value [''Spec'']"

definition new_PodTemplateSpec :: "memory \<Rightarrow> go_value \<times> memory" where
  "new_PodTemplateSpec = new_struct (zero_struct fields_PodTemplateSpec)"

subsection \<open>RootShardCacheConfig\<close>

definition fields_RootShardCacheConfig :: "(string \<times> field_type) list" where
  "fields_RootShardCacheConfig =
    [(''Embedded'', FPointer ''EmbeddedCacheConfigurationApplyConfiguration''),
     (''Reference'', FPointer ''v1.LocalObjectReference'')]"

definition RootShardCacheConfig_WithEmbedded :: "builder" where
  "RootShardCacheConfig_WithEmbedded = set_value [''Embedded'']"

definition RootShardCacheConfig_WithReference :: "builder" where
  "RootShardCacheConfig_WithReference = set_address [''Reference'']"

definition new_RootShardCacheConfig :: "memory \<Rightarrow> go_value \<times> memory" where
  "new_RootShardCacheConfig = new_struct (zero_struct fields_RootShardCacheConfig)"

subsection \<open>RootShardConfig\<close>

definition fields_RootShardConfig :: "(string \<times> field_type) list" where
  "fields_RootShardConfig =
    [(''Reference'', FPointer ''v1.LocalObjectReference'')]"

definition RootShardConfig_WithReference :: "builder" where
  "RootShardConfig_WithReference = set_address [''Reference'']"

definition new_RootShardConfig :: "memory \<Rightarrow> go_value \<times> memory" where
  "new_RootShardConfig = new_struct (zero_struct fields_RootShardConfig)"

subsection \<open>RootShardProxySpec\<close>

definition fields_RootShardProxySpec :: "(string \<times> field_type) list" where
  "fields_RootShardProxySpec =
    [(''Image'', FPointer ''ImageSpecApplyConfiguration''), (''Replicas'', FPointer ''int32''),
     (''Resources'', FPointer ''v1.ResourceRequirements''),
     (''ServiceTemplate'', FPointer ''ServiceTemplateApplyConfiguration''),
     (''DeploymentTemplate'', FPointer ''DeploymentTemplateApplyConfiguration''),
     (''CertificateTemplates'', FPointer ''operatorv1alpha1.CertificateTemplateMap''),
     (''ExtraArgs'', FSlice ''string''), (''ExtraVolumes'', FSlice ''v1.Volume''),
     (''ExtraVolumeMounts'', FSlice ''v1.VolumeMount''),
     (''Logging'', FPointer ''LoggingSpecApplyConfiguration'')]"

definition RootShardProxySpec_WithImage :: "builder" where
  "RootShardProxySpec_WithImage = set_value [''Image'']"

definition RootShardProxySpec_WithReplicas :: "builder" where
  "RootShardProxySpec_WithReplicas = set_address [''Replicas'']"

definition RootShardProxySpec_WithResources :: "builder" where
  "RootShardProxySpec_WithResources = set_address [''Resources'']"

definition RootShardProxySpec_WithServiceTemplate :: "builder" where
  "RootShardProxySpec_WithServiceTemplate = set_value [''ServiceTemplate'']"

definition RootShardProxySpec_WithDeploymentTemplate :: "builder" where
  "RootShardProxySpec_WithDeploymentTemplate = set_value [''DeploymentTemplate'']"

definition RootShardProxySpec_WithCertificateTemplates :: "builder" where
  "RootShardProxySpec_WithCertificateTemplates = set_address [''CertificateTemplates'']"

definition RootShardProxySpec_WithExtraArgs :: "(nat \<Rightarrow> nat) \<Rightarrow> builder" where
  "RootShardProxySpec_WithExtraArgs grow = append_values grow [''ExtraArgs'']"

definition RootShardProxySpec_WithExtraVolumes :: "(nat \<Rightarrow> nat) \<Rightarrow> builder" where
  "RootShardProxySpec_WithExtraVolumes grow = append_values grow [''ExtraVolumes'']"

definition RootShardProxySpec_WithExtraVolumeMounts :: "(nat \<Rightarrow> nat) \<Rightarrow> builder" where
  "RootShardProxySpec_WithExtraVolumeMounts grow = append_values grow [''ExtraVolumeMounts'']"

definition RootShardProxySpec_WithLogging :: "builder" where
  "RootShardProxySpec_WithLogging = set_value [''Logging'']"

definition new_RootShardProxySpec :: "memory \<Rightarrow> go_value \<times> memory" where
  "new_RootShardProxySpec = new_struct (zero_struct fields_RootShardProxySpec)"

subsection \<open>RootShardSpec\<close>

definition fields_RootShardSpec :: "(string \<times> field_type) list" where
  "fields_RootShardSpec =
    [(''CommonShardSpecApplyConfiguration'', FEmbedded (zero_struct fields_CommonShardSpec)),
     (''External'', FPointer ''ExternalConfigApplyConfiguration''),
     (''Cache'', FPointer ''RootShardCacheConfigApplyConfiguration''),
     (''Proxy'', FPointer ''RootShardProxySpecApplyConfiguration''),
     (''Certificates'', FPointer ''CertificatesApplyConfiguration'')]"

definition RootShardSpec_WithClusterDomain :: "builder" where
  "RootShardSpec_WithClusterDomain = set_address [''CommonShardSpecApplyConfiguration'', ''ClusterDomain'']"

definition RootShardSpec_WithShardBaseURL :: "builder" where
  "RootShardSpec_WithShardBaseURL = set_address [''CommonShardSpecApplyConfiguration'', ''ShardBaseURL'']"

definition RootShardSpec_WithEtcd :: "builder" where
  "RootShardSpec_WithEtcd = set_value [''CommonShardSpecApplyConfiguration'', ''Etcd'']"

definition RootShardSpec_WithImage :: "builder" where
  "RootShardSpec_WithImage = set_value [''CommonShardSpecApplyConfiguration'', ''Image'']"

definition RootShardSpec_WithReplicas :: "builder" where
  "RootShardSpec_WithReplicas = set_address [''CommonShardSpecApplyConfiguration'', ''Replicas'']"

definition RootShardSpec_WithResources :: "builder" where
  "RootShardSpec_WithResources = set_address [''CommonShardSpecApplyConfiguration'', ''Resources'']"

definition RootShardSpec_WithAudit :: "builder" where
  "RootShardSpec_WithAudit = set_value [''CommonShardSpecApplyConfiguration'', ''Audit'']"

definition RootShardSpec_WithAuthorization :: "builder" where
  "RootShardSpec_WithAuthorization = set_value [''CommonShardSpecApplyConfiguration'', ''Authorization'']"

definition RootShardSpec_WithAuth :: "builder" where
  "RootShardSpec_WithAuth = set_value [''CommonShardSpecApplyConfiguration'', ''Auth'']"

definition RootShardSpec_WithKCPVirtualWorkspace :: "builder" where
  "RootShardSpec_WithKCPVirtualWorkspace =
    set_address [''CommonShardSpecApplyConfiguration'', ''KCPVirtualWorkspace'']"

definition RootShardSpec_WithCertificateTemplates :: "builder" where
  "RootShardSpec_WithCertificateTemplates =
    set_address [''CommonShardSpecApplyConfiguration'', ''CertificateTemplates'']"

definition RootShardSpec_WithServiceTemplate :: "builder" where
  "RootShardSpec_WithServiceTemplate =
    set_value [''CommonShardSpecApplyConfiguration'', ''ServiceTemplate'']"

definition RootShardSpec_WithDeploymentTemplate :: "builder" where
  "RootShardSpec_WithDeploymentTemplate =
    set_value [''CommonShardSpecApplyConfiguration'', ''DeploymentTemplate'']"

definition RootShardSpec_WithCABundleSecretRef :: "builder" where
  "RootShardSpec_WithCABundleSecretRef =
    set_address [''CommonShardSpecApplyConfiguration'', ''CABundleSecretRef'']"

definition RootShardSpec_WithClientCABundleRef :: "builder" where
  "RootShardSpec_WithClientCABundleRef =
    set_address [''CommonShardSpecApplyConfiguration'', ''ClientCABundleRef'']"

definition RootShardSpec_WithExtraArgs :: "(nat \<Rightarrow> nat) \<Rightarrow> builder" where
  "RootShardSpec_WithExtraArgs grow =
    append_values grow [''CommonShardSpecApplyConfiguration'', ''ExtraArgs'']"

definition RootShardSpec_WithExtraVolumes :: "(nat \<Rightarrow> nat) \<Rightarrow> builder" where
  "RootShardSpec_WithExtraVolumes grow =
    append_values grow [''CommonShardSpecApplyConfiguration'', ''ExtraVolumes'']"

definition RootShardSpec_WithExtraVolumeMounts :: "(nat \<Rightarrow> nat) \<Rightarrow> builder" where
  "RootShardSpec_WithExtraVolumeMounts grow =
    append_values grow [''CommonShardSpecApplyConfiguration'', ''ExtraVolumeMounts'']"

definition RootShardSpec_WithLogging :: "builder" where
  "RootShardSpec_WithLogging = set_value [''CommonShardSpecApplyConfiguration'', ''Logging'']"

definition RootShardSpec_WithExternal :: "builder" where
  "RootShardSpec_WithExternal = set_value [''External'']"

definition RootShardSpec_WithCache :: "builder" where
  "RootShardSpec_WithCache = set_value [''Cache'']"

definition RootShardSpec_WithProxy :: "builder" where
  "RootShardSpec_WithProxy = set_value [''Proxy'']"

definition RootShardSpec_WithCertificates :: "builder" where
  "RootShardSpec_WithCertificates = set_value [''Certificates'']"

definition new_RootShardSpec :: "memory \<Rightarrow> go_value \<times> memory" where
  "new_RootShardSpec = new_struct (zero_struct fields_RootShardSpec)"

subsection \<open>RootShardStatus\<close>

definition fields_RootShardStatus :: "(string \<times> field_type) list" where
  "fields_RootShardStatus =
    [(''Phase'', FPointer ''operatorv1alpha1.RootShardPhase''),
     (''Conditions'', FSlice ''v1.ConditionApplyConfiguration''),
     (''Shards'', FSlice ''ShardReferenceApplyConfiguration'')]"

definition RootShardStatus_WithPhase :: "builder" where
  "RootShardStatus_WithPhase = set_address [''Phase'']"

definition RootShardStatus_WithConditions :: "(nat \<Rightarrow> nat) \<Rightarrow> builder" where
  "RootShardStatus_WithConditions grow =
    append_pointed grow ''nil value passed to WithConditions'' [''Conditions'']"

definition RootShardStatus_WithShards :: "(nat \<Rightarrow> nat) \<Rightarrow> builder" where
  "RootShardStatus_WithShards grow = append_pointed grow ''nil value passed to WithShards'' [''Shards'']"

definition new_RootShardStatus :: "memory \<Rightarrow> go_value \<times> memory" where
  "new_RootShardStatus = new_struct (zero_struct fields_RootShardStatus)"

subsection \<open>ServiceAccountAuthentication\<close>

definition fields_ServiceAccountAuthentication :: "(string \<times> field_type) list" where
  "fields_ServiceAccountAuthentication =
    [(''Enabled'', FPointer ''bool'')]"

definition ServiceAccountAuthentication_WithEnabled :: "builder" where
  "ServiceAccountAuthentication_WithEnabled = set_address [''Enabled'']"

definition new_ServiceAccountAuthentication :: "memory \<Rightarrow> go_value \<times> memory" where
  "new_ServiceAccountAuthentication = new_struct (zero_struct fields_ServiceAccountAuthentication)"

subsection \<open>ServiceMetadataTemplate\<close>

definition fields_ServiceMetadataTemplate :: "(string \<times> field_type) list" where
  "fields_ServiceMetadataTemplate =
    [(''Annotations'', FMap ''map[string]string''), (''Labels'', FMap ''map[string]string'')]"

definition ServiceMetadataTemplate_WithAnnotations :: "builder" where
  "ServiceMetadataTemplate_WithAnnotations = put_entries [''Annotations'']"

definition ServiceMetadataTemplate_WithLabels :: "builder" where
  "ServiceMetadataTemplate_WithLabels = put_entries [''Labels'']"

definition new_ServiceMetadataTemplate :: "memory \<Rightarrow> go_value \<times> memory" where
  "new_ServiceMetadataTemplate = new_struct (zero_struct fields_ServiceMetadataTemplate)"

subsection \<open>ServiceSpecTemplate\<close>

definition fields_ServiceSpecTemplate :: "(string \<times> field_type) list" where
  "fields_ServiceSpecTemplate =
    [(''Type'', FPointer ''v1.ServiceType''), (''ClusterIP'', FPointer ''string'')]"

definition ServiceSpecTemplate_WithType :: "builder" where
  "ServiceSpecTemplate_WithType = set_address [''Type'']"

definition ServiceSpecTemplate_WithClusterIP :: "builder" where
  "ServiceSpecTemplate_WithClusterIP = set_address [''ClusterIP'']"

definition new_ServiceSpecTemplate :: "memory \<Rightarrow> go_value \<times> memory" where
  "new_ServiceSpecTemplate = new_struct (zero_struct fields_ServiceSpecTemplate)"

subsection \<open>ServiceTemplate\<close>

definition fields_ServiceTemplate :: "(string \<times> field_type) list" where
  "fields_ServiceTemplate =
    [(''Metadata'', FPointer ''ServiceMetadataTemplateApplyConfiguration''),
     (''Spec'', FPointer ''ServiceSpecTemplateApplyConfiguration'')]"

definition ServiceTemplate_WithMetadata :: "builder" where
  "ServiceTemplate_WithMetadata = set_value [''Metadata'']"

definition ServiceTemplate_WithSpec :: "builder" where
  "ServiceTemplate_WithSpec = set_value [''Spec'']"

definition new_ServiceTemplate :: "memory \<Rightarrow> go_value \<times> memory" where
  "new_ServiceTemplate = new_struct (zero_struct fields_ServiceTemplate)"

subsection \<open>ShardCacheConfig\<close>

definition fields_ShardCacheConfig :: "(string \<times> field_type) list" where
  "fields_ShardCacheConfig =
    [(''Reference'', FPointer ''v1.LocalObjectReference'')]"

definition ShardCacheConfig_WithReference :: "builder" where
  "ShardCacheConfig_WithReference = set_address [''Reference'']"

definition new_ShardCacheConfig :: "memory \<Rightarrow> go_value \<times> memory" where
  "new_ShardCacheConfig = new_struct (zero_struct fields_ShardCacheConfig)"

subsection \<open>ShardReference\<close>

definition fields_ShardReference :: "(string \<times> field_type) list" where
  "fields_ShardReference =
    [(''Name'', FPointer ''string'')]"

definition ShardReference_WithName :: "builder" where
  "ShardReference_WithName = set_address [''Name'']"

definition new_ShardReference :: "memory \<Rightarrow> go_value \<times> memory" where
  "new_ShardReference = new_struct (zero_struct fields_ShardReference)"

subsection \<open>ShardSpec\<close>

definition fields_ShardSpec :: "(string \<times> field_type) list" where
  "fields_ShardSpec =
    [(''CommonShardSpecApplyConfiguration'', FEmbedded (zero_struct fields_CommonShardSpec)),
     (''RootShard'', FPointer ''RootShardConfigApplyConfiguration''),
     (''Cache'', FPointer ''ShardCacheConfigApplyConfiguration'')]"

definition ShardSpec_WithClusterDomain :: "builder" where
  "ShardSpec_WithClusterDomain = set_address [''CommonShardSpecApplyConfiguration'', ''ClusterDomain'']"

definition ShardSpec_WithShardBaseURL :: "builder" where
  "ShardSpec_WithShardBaseURL = set_address [''CommonShardSpecApplyConfiguration'', ''ShardBaseURL'']"

definition ShardSpec_WithEtcd :: "builder" where
  "ShardSpec_WithEtcd = set_value [''CommonShardSpecApplyConfiguration'', ''Etcd'']"

definition ShardSpec_WithImage :: "builder" where
  "ShardSpec_WithImage = set_value [''CommonShardSpecApplyConfiguration'', ''Image'']"

definition ShardSpec_WithReplicas :: "builder" where
  "ShardSpec_WithReplicas = set_address [''CommonShardSpecApplyConfiguration'', ''Replicas'']"

definition ShardSpec_WithResources :: "builder" where
  "ShardSpec_WithResources = set_address [''CommonShardSpecApplyConfiguration'', ''Resources'']"

definition ShardSpec_WithAudit :: "builder" where
  "ShardSpec_WithAudit = set_value [''CommonShardSpecApplyConfiguration'', ''Audit'']"

definition ShardSpec_WithAuthorization :: "builder" where
  "ShardSpec_WithAuthorization = set_value [''CommonShardSpecApplyConfiguration'', ''Authorization'']"

definition ShardSpec_WithAuth :: "builder" where
  "ShardSpec_WithAuth = set_value [''CommonShardSpecApplyConfiguration'', ''Auth'']"

definition ShardSpec_WithKCPVirtualWorkspace :: "builder" where
  "ShardSpec_WithKCPVirtualWorkspace =
    set_address [''CommonShardSpecApplyConfiguration'', ''KCPVirtualWorkspace'']"

definition ShardSpec_WithCertificateTemplates :: "builder" where
  "ShardSpec_WithCertificateTemplates =
    set_address [''CommonShardSpecApplyConfiguration'', ''CertificateTemplates'']"

definition ShardSpec_WithServiceTemplate :: "builder" where
  "ShardSpec_WithServiceTemplate = set_value [''CommonShardSpecApplyConfiguration'', ''ServiceTemplate'']"

definition ShardSpec_WithDeploymentTemplate :: "builder" where
  "ShardSpec_WithDeploymentTemplate =
    set_value [''CommonShardSpecApplyConfiguration'', ''DeploymentTemplate'']"

definition ShardSpec_WithCABundleSecretRef :: "builder" where
  "ShardSpec_WithCABundleSecretRef =
    set_address [''CommonShardSpecApplyConfiguration'', ''CABundleSecretRef'']"

definition ShardSpec_WithClientCABundleRef :: "builder" where
  "ShardSpec_WithClientCABundleRef =
    set_address [''CommonShardSpecApplyConfiguration'', ''ClientCABundleRef'']"

definition ShardSpec_WithExtraArgs :: "(nat \<Rightarrow> nat) \<Rightarrow> builder" where
  "ShardSpec_WithExtraArgs grow = append_values grow [''CommonShardSpecApplyConfiguration'', ''ExtraArgs'']"

definition ShardSpec_WithExtraVolumes :: "(nat \<Rightarrow> nat) \<Rightarrow> builder" where
  "ShardSpec_WithExtraVolumes grow =
    append_values grow [''CommonShardSpecApplyConfiguration'', ''ExtraVolumes'']"

definition ShardSpec_WithExtraVolumeMounts :: "(nat \<Rightarrow> nat) \<Rightarrow> builder" where
  "ShardSpec_WithExtraVolumeMounts grow =
    append_values grow [''CommonShardSpecApplyConfiguration'', ''ExtraVolumeMounts'']"

definition ShardSpec_WithLogging :: "builder" where
  "ShardSpec_WithLogging = set_value [''CommonShardSpecApplyConfiguration'', ''Logging'']"

definition ShardSpec_WithRootShard :: "builder" where
  "ShardSpec_WithRootShard = set_value [''RootShard'']"

definition ShardSpec_WithCache :: "builder" where
  "ShardSpec_WithCache = set_value [''Cache'']"

definition new_ShardSpec :: "memory \<Rightarrow> go_value \<times> memory" where
  "new_ShardSpec = new_struct (zero_struct fields_ShardSpec)"

subsection \<open>ShardStatus\<close>

definition fields_ShardStatus :: "(string \<times> field_type) list" where
  "fields_ShardStatus =
    [(''Phase'', FPointer ''operatorv1alpha1.ShardPhase''),
     (''Conditions'', FSlice ''v1.ConditionApplyConfiguration'')]"

definition ShardStatus_WithPhase :: "builder" where
  "ShardStatus_WithPhase = set_address [''Phase'']"

definition ShardStatus_WithConditions :: "(nat \<Rightarrow> nat) \<Rightarrow> builder" where
  "ShardStatus_WithConditions grow =
    append_pointed grow ''nil value passed to WithConditions'' [''Conditions'']"

definition new_ShardStatus :: "memory \<Rightarrow> go_value \<times> memory" where
  "new_ShardStatus = new_struct (zero_struct fields_ShardStatus)"

subsection \<open>TokenAuthFileSpec\<close>

definition fields_TokenAuthFileSpec :: "(string \<times> field_type) list" where
  "fields_TokenAuthFileSpec =
    [(''SecretName'', FPointer ''string''), (''Key'', FPointer ''string'')]"

definition TokenAuthFileSpec_WithSecretName :: "builder" where
  "TokenAuthFileSpec_WithSecretName = set_address [''SecretName'']"

definition TokenAuthFileSpec_WithKey :: "builder" where
  "TokenAuthFileSpec_WithKey = set_address [''Key'']"

definition new_TokenAuthFileSpec :: "memory \<Rightarrow> go_value \<times> memory" where
  "new_TokenAuthFileSpec = new_struct (zero_struct fields_TokenAuthFileSpec)"

subsection \<open>VirtualWorkspaceInitContainer\<close>

definition fields_VirtualWorkspaceInitContainer :: "(string \<times> field_type) list" where
  "fields_VirtualWorkspaceInitContainer =
    [(''Name'', FPointer ''string''), (''Image'', FPointer ''ImageSpecApplyConfiguration''),
     (''Command'', FSlice ''string''), (''Args'', FSlice ''string''),
     (''KubeconfigSecretRef'', FPointer ''v1.LocalObjectReference''),
     (''Resources'', FPointer ''v1.ResourceRequirements''), (''Volumes'', FSlice ''v1.Volume''),
     (''VolumeMounts'', FSlice ''v1.VolumeMount'')]"

definition VirtualWorkspaceInitContainer_WithName :: "builder" where
  "VirtualWorkspaceInitContainer_WithName = set_address [''Name'']"

definition VirtualWorkspaceInitContainer_WithImage :: "builder" where
  "VirtualWorkspaceInitContainer_WithImage = set_value [''Image'']"

definition VirtualWorkspaceInitContainer_WithCommand :: "(nat \<Rightarrow> nat) \<Rightarrow> builder" where
  "VirtualWorkspaceInitContainer_WithCommand grow = append_values grow [''Command'']"

definition VirtualWorkspaceInitContainer_WithArgs :: "(nat \<Rightarrow> nat) \<Rightarrow> builder" where
  "VirtualWorkspaceInitContainer_WithArgs grow = append_values grow [''Args'']"

definition VirtualWorkspaceInitContainer_WithKubeconfigSecretRef :: "builder" where
  "VirtualWorkspaceInitContainer_WithKubeconfigSecretRef = set_address [''KubeconfigSecretRef'']"

definition VirtualWorkspaceInitContainer_WithResources :: "builder" where
  "VirtualWorkspaceInitContainer_WithResources = set_address [''Resources'']"

definition VirtualWorkspaceInitContainer_WithVolumes :: "(nat \<Rightarrow> nat) \<Rightarrow> builder" where
  "VirtualWorkspaceInitContainer_WithVolumes grow = append_values grow [''Volumes'']"

definition VirtualWorkspaceInitContainer_WithVolumeMounts :: "(nat \<Rightarrow> nat) \<Rightarrow>
    builder" where
  "VirtualWorkspaceInitContainer_WithVolumeMounts grow = append_values grow [''VolumeMounts'']"

definition new_VirtualWorkspaceInitContainer :: "memory \<Rightarrow> go_value \<times> memory" where
  "new_VirtualWorkspaceInitContainer = new_struct (zero_struct fields_VirtualWorkspaceInitContainer)"

subsection \<open>VirtualWorkspaceSpec\<close>

definition fields_VirtualWorkspaceSpec :: "(string \<times> field_type) list" where
  "fields_VirtualWorkspaceSpec =
    [(''Target'', FPointer ''VirtualWorkspaceTargetApplyConfiguration''),
     (''External'', FPointer ''ExternalConfigApplyConfiguration''),
     (''Image'', FPointer ''ImageSpecApplyConfiguration''), (''Command'', FSlice ''string''),
     (''InitContainers'', FSlice ''VirtualWorkspaceInitContainerApplyConfiguration''),
     (''Replicas'', FPointer ''int32''), (''Resources'', FPointer ''v1.ResourceRequirements''),
     (''CertificateTemplates'', FPointer ''operatorv1alpha1.CertificateTemplateMap''),
     (''ServiceTemplate'', FPointer ''ServiceTemplateApplyConfiguration''),
     (''DeploymentTemplate'', FPointer ''DeploymentTemplateApplyConfiguration''),
     (''CABundleSecretRef'', FPointer ''v1.LocalObjectReference''),
     (''ClientCABundleRef'', FPointer ''v1.LocalObjectReference''),
     (''KubeconfigSecretRef'', FPointer ''v1.LocalObjectReference''), (''ExtraArgs'', FSlice ''string''),
     (''ExtraVolumes'', FSlice ''v1.Volume''), (''ExtraVolumeMounts'', FSlice ''v1.VolumeMount''),
     (''Logging'', FPointer ''LoggingSpecApplyConfiguration''), (''ClusterDomain'', FPointer ''string'')]"

definition VirtualWorkspaceSpec_WithTarget :: "builder" where
  "VirtualWorkspaceSpec_WithTarget = set_value [''Target'']"

definition VirtualWorkspaceSpec_WithExternal :: "builder" where
  "VirtualWorkspaceSpec_WithExternal = set_value [''External'']"

definition VirtualWorkspaceSpec_WithImage :: "builder" where
  "VirtualWorkspaceSpec_WithImage = set_value [''Image'']"

definition VirtualWorkspaceSpec_WithCommand :: "(nat \<Rightarrow> nat) \<Rightarrow> builder" where
  "VirtualWorkspaceSpec_WithCommand grow = append_values grow [''Command'']"

definition VirtualWorkspaceSpec_WithInitContainers :: "(nat \<Rightarrow> nat) \<Rightarrow> builder" where
  "VirtualWorkspaceSpec_WithInitContainers grow =
    append_pointed grow ''nil value passed to WithInitContainers'' [''InitContainers'']"

definition VirtualWorkspaceSpec_WithReplicas :: "builder" where
  "VirtualWorkspaceSpec_WithReplicas = set_address [''Replicas'']"

definition VirtualWorkspaceSpec_WithResources :: "builder" where
  "VirtualWorkspaceSpec_WithResources = set_address [''Resources'']"

definition VirtualWorkspaceSpec_WithCertificateTemplates :: "builder" where
  "VirtualWorkspaceSpec_WithCertificateTemplates = set_address [''CertificateTemplates'']"

definition VirtualWorkspaceSpec_WithServiceTemplate :: "builder" where
  "VirtualWorkspaceSpec_WithServiceTemplate = set_value [''ServiceTemplate'']"

definition VirtualWorkspaceSpec_WithDeploymentTemplate :: "builder" where
  "VirtualWorkspaceSpec_WithDeploymentTemplate = set_value [''DeploymentTemplate'']"

definition VirtualWorkspaceSpec_WithCABundleSecretRef :: "builder" where
  "VirtualWorkspaceSpec_WithCABundleSecretRef = set_address [''CABundleSecretRef'']"

definition VirtualWorkspaceSpec_WithClientCABundleRef :: "builder" where
  "VirtualWorkspaceSpec_WithClientCABundleRef = set_address [''ClientCABundleRef'']"

definition VirtualWorkspaceSpec_WithKubeconfigSecretRef :: "builder" where
  "VirtualWorkspaceSpec_WithKubeconfigSecretRef = set_address [''KubeconfigSecretRef'']"

definition VirtualWorkspaceSpec_WithExtraArgs :: "(nat \<Rightarrow> nat) \<Rightarrow> builder" where
  "VirtualWorkspaceSpec_WithExtraArgs grow = append_values grow [''ExtraArgs'']"

definition VirtualWorkspaceSpec_WithExtraVolumes :: "(nat \<Rightarrow> nat) \<Rightarrow> builder" where
  "VirtualWorkspaceSpec_WithExtraVolumes grow = append_values grow [''ExtraVolumes'']"

definition VirtualWorkspaceSpec_WithExtraVolumeMounts :: "(nat \<Rightarrow> nat) \<Rightarrow> builder" where
  "VirtualWorkspaceSpec_WithExtraVolumeMounts grow = append_values grow [''ExtraVolumeMounts'']"

definition VirtualWorkspaceSpec_WithLogging :: "builder" where
  "VirtualWorkspaceSpec_WithLogging = set_value [''Logging'']"

definition VirtualWorkspaceSpec_WithClusterDomain :: "builder" where
  "VirtualWorkspaceSpec_WithClusterDomain = set_address [''ClusterDomain'']"

definition new_VirtualWorkspaceSpec :: "memory \<Rightarrow> go_value \<times> memory" where
  "new_VirtualWorkspaceSpec = new_struct (zero_struct fields_VirtualWorkspaceSpec)"

subsection \<open>VirtualWorkspaceStatus\<close>

definition fields_VirtualWorkspaceStatus :: "(string \<times> field_type) list" where
  "fields_VirtualWorkspaceStatus =
    [(''Conditions'', FSlice ''v1.ConditionApplyConfiguration'')]"

definition VirtualWorkspaceStatus_WithConditions :: "(nat \<Rightarrow> nat) \<Rightarrow> builder" where
  "VirtualWorkspaceStatus_WithConditions grow =
    append_pointed grow ''nil value passed to WithConditions'' [''Conditions'']"

definition new_VirtualWorkspaceStatus :: "memory \<Rightarrow> go_value \<times> memory" where
  "new_VirtualWorkspaceStatus = new_struct (zero_struct fields_VirtualWorkspaceStatus)"

subsection \<open>VirtualWorkspaceTarget\<close>

definition fields_VirtualWorkspaceTarget :: "(string \<times> field_type) list" where
  "fields_VirtualWorkspaceTarget =
    [(''RootShardRef'', FPointer ''v1.LocalObjectReference''),
     (''ShardRef'', FPointer ''v1.LocalObjectReference'')]"

definition VirtualWorkspaceTarget_WithRootShardRef :: "builder" where
  "VirtualWorkspaceTarget_WithRootShardRef = set_address [''RootShardRef'']"

definition VirtualWorkspaceTarget_WithShardRef :: "builder" where
  "VirtualWorkspaceTarget_WithShardRef = set_address [''ShardRef'']"

definition new_VirtualWorkspaceTarget :: "memory \<Rightarrow> go_value \<times> memory" where
  "new_VirtualWorkspaceTarget = new_struct (zero_struct fields_VirtualWorkspaceTarget)"

subsection \<open>X509Subject\<close>

definition fields_X509Subject :: "(string \<times> field_type) list" where
  "fields_X509Subject =
    [(''Organizations'', FSlice ''string''), (''Countries'', FSlice ''string''),
     (''OrganizationalUnits'', FSlice ''string''), (''Localities'', FSlice ''string''),
     (''Provinces'', FSlice ''string''), (''StreetAddresses'', FSlice ''string''),
     (''PostalCodes'', FSlice ''string''), (''SerialNumber'', FPointer ''string'')]"

definition X509Subject_WithOrganizations :: "(nat \<Rightarrow> nat) \<Rightarrow> builder" where
  "X509Subject_WithOrganizations grow = append_values grow [''Organizations'']"

definition X509Subject_WithCountries :: "(nat \<Rightarrow> nat) \<Rightarrow> builder" where
  "X509Subject_WithCountries grow = append_values grow [''Countries'']"

definition X509Subject_WithOrganizationalUnits :: "(nat \<Rightarrow> nat) \<Rightarrow> builder" where
  "X509Subject_WithOrganizationalUnits grow = append_values grow [''OrganizationalUnits'']"

definition X509Subject_WithLocalities :: "(nat \<Rightarrow> nat) \<Rightarrow> builder" where
  "X509Subject_WithLocalities grow = append_values grow [''Localities'']"

definition X509Subject_WithProvinces :: "(nat \<Rightarrow> nat) \<Rightarrow> builder" where
  "X509Subject_WithProvinces grow = append_values grow [''Provinces'']"

definition X509Subject_WithStreetAddresses :: "(nat \<Rightarrow> nat) \<Rightarrow> builder" where
  "X509Subject_WithStreetAddresses grow = append_values grow [''StreetAddresses'']"

definition X509Subject_WithPostalCodes :: "(nat \<Rightarrow> nat) \<Rightarrow> builder" where
  "X509Subject_WithPostalCodes grow = append_values grow [''PostalCodes'']"

definition X509Subject_WithSerialNumber :: "builder" where
  "X509Subject_WithSerialNumber = set_address [''SerialNumber'']"

definition new_X509Subject :: "memory \<Rightarrow> go_value \<times> memory" where
  "new_X509Subject = new_struct (zero_struct fields_X509Subject)"

end
