(* ===== verification/Apply_Objects.thy ===== *)
theory Apply_Objects
  imports Apply_Parts Sdk_Clients
begin

text \<open>
  The apply configurations of the operator objects (\<open>sdk/applyconfiguration/operator/v1alpha1\<close>).
  \<open>new_T\<close> takes name and namespace. \<open>M\<close> holds the zero values of the embedded
      library structs.
\<close>

subsection \<open>CacheServer\<close>

definition fields_CacheServer :: "meta_library \<Rightarrow> (string \<times> field_type) list" where
  "fields_CacheServer M =
    [(''TypeMetaApplyConfiguration'', FEmbedded (zero_TypeMetaApplyConfiguration M)),
     (''ObjectMetaApplyConfiguration'', FPointer ''v1.ObjectMetaApplyConfiguration''),
     (''Spec'', FPointer ''CacheServerSpecApplyConfiguration''),
     (''Status'', FPointer ''operatorv1alpha1.CacheServerStatus'')]"

definition CacheServer_ensureObjectMetaApplyConfigurationExists :: "meta_library \<Rightarrow> go_value
    \<Rightarrow> memory \<Rightarrow> memory res" where
  "CacheServer_ensureObjectMetaApplyConfigurationExists M =
    ensure_exists ''ObjectMetaApplyConfiguration'' (zero_ObjectMetaApplyConfiguration M)"

definition CacheServer_WithKind :: "meta_library \<Rightarrow> builder" where
  "CacheServer_WithKind M = set_address [''TypeMetaApplyConfiguration'', ''Kind'']"

definition CacheServer_WithAPIVersion :: "meta_library \<Rightarrow> builder" where
  "CacheServer_WithAPIVersion M = set_address [''TypeMetaApplyConfiguration'', ''APIVersion'']"

definition CacheServer_WithName :: "meta_library \<Rightarrow> builder" where
  "CacheServer_WithName M = ensured (CacheServer_ensureObjectMetaApplyConfigurationExists M)
    (set_address [''ObjectMetaApplyConfiguration'', ''Name''])"

definition CacheServer_WithGenerateName :: "meta_library \<Rightarrow> builder" where
  "CacheServer_WithGenerateName M = ensured (CacheServer_ensureObjectMetaApplyConfigurationExists M)
    (set_address [''ObjectMetaApplyConfiguration'', ''GenerateName''])"

definition CacheServer_WithNamespace :: "meta_library \<Rightarrow> builder" where
  "CacheServer_WithNamespace M = ensured (CacheServer_ensureObjectMetaApplyConfigurationExists M)
    (set_address [''ObjectMetaApplyConfiguration'', ''Namespace''])"

definition CacheServer_WithUID :: "meta_library \<Rightarrow> builder" where
  "CacheServer_WithUID M = ensured (CacheServer_ensureObjectMetaApplyConfigurationExists M)
    (set_address [''ObjectMetaApplyConfiguration'', ''UID''])"

definition CacheServer_WithResourceVersion :: "meta_library \<Rightarrow> builder" where
  "CacheServer_WithResourceVersion M = ensured (CacheServer_ensureObjectMetaApplyConfigurationExists M)
    (set_address [''ObjectMetaApplyConfiguration'', ''ResourceVersion''])"

definition CacheServer_WithGeneration :: "meta_library \<Rightarrow> builder" where
  "CacheServer_WithGeneration M = ensured (CacheServer_ensureObjectMetaApplyConfigurationExists M)
    (set_address [''ObjectMetaApplyConfiguration'', ''Generation''])"

definition CacheServer_WithCreationTimestamp :: "meta_library \<Rightarrow> builder" where
  "CacheServer_WithCreationTimestamp M = ensured (CacheServer_ensureObjectMetaApplyConfigurationExists M)
    (set_address [''ObjectMetaApplyConfiguration'', ''CreationTimestamp''])"

definition CacheServer_WithDeletionTimestamp :: "meta_library \<Rightarrow> builder" where
  "CacheServer_WithDeletionTimestamp M = ensured (CacheServer_ensureObjectMetaApplyConfigurationExists M)
    (set_address [''ObjectMetaApplyConfiguration'', ''DeletionTimestamp''])"

definition CacheServer_WithDeletionGracePeriodSeconds :: "meta_library \<Rightarrow> builder" where
  "CacheServer_WithDeletionGracePeriodSeconds M = ensured
      (CacheServer_ensureObjectMetaApplyConfigurationExists M)
    (set_address [''ObjectMetaApplyConfiguration'', ''DeletionGracePeriodSeconds''])"

definition CacheServer_WithLabels :: "meta_library \<Rightarrow> builder" where
  "CacheServer_WithLabels M = ensured (CacheServer_ensureObjectMetaApplyConfigurationExists M)
    (put_entries [''ObjectMetaApplyConfiguration'', ''Labels''])"

definition CacheServer_WithAnnotations :: "meta_library \<Rightarrow> builder" where
  "CacheServer_WithAnnotations M = ensured (CacheServer_ensureObjectMetaApplyConfigurationExists M)
    (put_entries [''ObjectMetaApplyConfiguration'', ''Annotations''])"

definition CacheServer_WithOwnerReferences :: "meta_library \<Rightarrow> (nat \<Rightarrow> nat)
    \<Rightarrow> builder" where
  "CacheServer_WithOwnerReferences M grow = ensured (CacheServer_ensureObjectMetaApplyConfigurationExists M)
    (append_pointed grow ''nil value passed to WithOwnerReferences'' [''ObjectMetaApplyConfiguration'',
        ''OwnerReferences''])"

definition CacheServer_WithFinalizers :: "meta_library \<Rightarrow> (nat \<Rightarrow> nat) \<Rightarrow>
    builder" where
  "CacheServer_WithFinalizers M grow = ensured (CacheServer_ensureObjectMetaApplyConfigurationExists M)
    (append_values grow [''ObjectMetaApplyConfiguration'', ''Finalizers''])"

definition CacheServer_WithSpec :: "meta_library \<Rightarrow> builder" where
  "CacheServer_WithSpec M = set_value [''Spec'']"

definition CacheServer_WithStatus :: "meta_library \<Rightarrow> builder" where
  "CacheServer_WithStatus M = set_address [''Status'']"

definition new_CacheServer :: "meta_library \<Rightarrow> string \<Rightarrow> string \<Rightarrow> memory
    \<Rightarrow> (go_value \<times> memory) res" where
  "new_CacheServer M name namespace m =
    (let (b, m1) = new_struct (zero_struct (fields_CacheServer M)) m in
     bindE (CacheServer_WithName M b (Scalar (Text name)) m1) (\<lambda>(_, m2).
     bindE (CacheServer_WithNamespace M b (Scalar (Text namespace)) m2) (\<lambda>(_, m3).
     bindE (CacheServer_WithKind M b (Scalar (Text ''CacheServer'')) m3) (\<lambda>(_, m4).
     bindE (CacheServer_WithAPIVersion M b (Scalar (Text ''operator.kcp.io/v1alpha1'')) m4) (\<lambda>(_, m5).
     Inr (b, m5))))))"

definition CacheServer_GetName :: "meta_library \<Rightarrow> go_value \<Rightarrow> memory \<Rightarrow>
    (go_value \<times> memory) res" where
  "CacheServer_GetName M b m =
    bindE (CacheServer_ensureObjectMetaApplyConfigurationExists M b m) (get_field
        [''ObjectMetaApplyConfiguration'', ''Name''] b)"

subsection \<open>FrontProxy\<close>

definition fields_FrontProxy :: "meta_library \<Rightarrow> (string \<times> field_type) list" where
  "fields_FrontProxy M =
    [(''TypeMetaApplyConfiguration'', FEmbedded (zero_TypeMetaApplyConfiguration M)),
     (''ObjectMetaApplyConfiguration'', FPointer ''v1.ObjectMetaApplyConfiguration''),
     (''Spec'', FPointer ''FrontProxySpecApplyConfiguration''),
     (''Status'', FPointer ''FrontProxyStatusApplyConfiguration'')]"

definition FrontProxy_ensureObjectMetaApplyConfigurationExists :: "meta_library \<Rightarrow> go_value
    \<Rightarrow> memory \<Rightarrow> memory res" where
  "FrontProxy_ensureObjectMetaApplyConfigurationExists M =
    ensure_exists ''ObjectMetaApplyConfiguration'' (zero_ObjectMetaApplyConfiguration M)"

definition FrontProxy_WithKind :: "meta_library \<Rightarrow> builder" where
  "FrontProxy_WithKind M = set_address [''TypeMetaApplyConfiguration'', ''Kind'']"

definition FrontProxy_WithAPIVersion :: "meta_library \<Rightarrow> builder" where
  "FrontProxy_WithAPIVersion M = set_address [''TypeMetaApplyConfiguration'', ''APIVersion'']"

definition FrontProxy_WithName :: "meta_library \<Rightarrow> builder" where
  "FrontProxy_WithName M = ensured (FrontProxy_ensureObjectMetaApplyConfigurationExists M)
    (set_address [''ObjectMetaApplyConfiguration'', ''Name''])"

definition FrontProxy_WithGenerateName :: "meta_library \<Rightarrow> builder" where
  "FrontProxy_WithGenerateName M = ensured (FrontProxy_ensureObjectMetaApplyConfigurationExists M)
    (set_address [''ObjectMetaApplyConfiguration'', ''GenerateName''])"

definition FrontProxy_WithNamespace :: "meta_library \<Rightarrow> builder" where
  "FrontProxy_WithNamespace M = ensured (FrontProxy_ensureObjectMetaApplyConfigurationExists M)
    (set_address [''ObjectMetaApplyConfiguration'', ''Namespace''])"

definition FrontProxy_WithUID :: "meta_library \<Rightarrow> builder" where
  "FrontProxy_WithUID M = ensured (FrontProxy_ensureObjectMetaApplyConfigurationExists M)
    (set_address [''ObjectMetaApplyConfiguration'', ''UID''])"

definition FrontProxy_WithResourceVersion :: "meta_library \<Rightarrow> builder" where
  "FrontProxy_WithResourceVersion M = ensured (FrontProxy_ensureObjectMetaApplyConfigurationExists M)
    (set_address [''ObjectMetaApplyConfiguration'', ''ResourceVersion''])"

definition FrontProxy_WithGeneration :: "meta_library \<Rightarrow> builder" where
  "FrontProxy_WithGeneration M = ensured (FrontProxy_ensureObjectMetaApplyConfigurationExists M)
    (set_address [''ObjectMetaApplyConfiguration'', ''Generation''])"

definition FrontProxy_WithCreationTimestamp :: "meta_library \<Rightarrow> builder" where
  "FrontProxy_WithCreationTimestamp M = ensured (FrontProxy_ensureObjectMetaApplyConfigurationExists M)
    (set_address [''ObjectMetaApplyConfiguration'', ''CreationTimestamp''])"

definition FrontProxy_WithDeletionTimestamp :: "meta_library \<Rightarrow> builder" where
  "FrontProxy_WithDeletionTimestamp M = ensured (FrontProxy_ensureObjectMetaApplyConfigurationExists M)
    (set_address [''ObjectMetaApplyConfiguration'', ''DeletionTimestamp''])"

definition FrontProxy_WithDeletionGracePeriodSeconds :: "meta_library \<Rightarrow> builder" where
  "FrontProxy_WithDeletionGracePeriodSeconds M = ensured (FrontProxy_ensureObjectMetaApplyConfigurationExists M)
    (set_address [''ObjectMetaApplyConfiguration'', ''DeletionGracePeriodSeconds''])"

definition FrontProxy_WithLabels :: "meta_library \<Rightarrow> builder" where
  "FrontProxy_WithLabels M = ensured (FrontProxy_ensureObjectMetaApplyConfigurationExists M)
    (put_entries [''ObjectMetaApplyConfiguration'', ''Labels''])"

definition FrontProxy_WithAnnotations :: "meta_library \<Rightarrow> builder" where
  "FrontProxy_WithAnnotations M = ensured (FrontProxy_ensureObjectMetaApplyConfigurationExists M)
    (put_entries [''ObjectMetaApplyConfiguration'', ''Annotations''])"

definition FrontProxy_WithOwnerReferences :: "meta_library \<Rightarrow> (nat \<Rightarrow> nat)
    \<Rightarrow> builder" where
  "FrontProxy_WithOwnerReferences M grow = ensured (FrontProxy_ensureObjectMetaApplyConfigurationExists M)
    (append_pointed grow ''nil value passed to WithOwnerReferences'' [''ObjectMetaApplyConfiguration'',
        ''OwnerReferences''])"

definition FrontProxy_WithFinalizers :: "meta_library \<Rightarrow> (nat \<Rightarrow> nat) \<Rightarrow>
    builder" where
  "FrontProxy_WithFinalizers M grow = ensured (FrontProxy_ensureObjectMetaApplyConfigurationExists M)
    (append_values grow [''ObjectMetaApplyConfiguration'', ''Finalizers''])"

definition FrontProxy_WithSpec :: "meta_library \<Rightarrow> builder" where
  "FrontProxy_WithSpec M = set_value [''Spec'']"

definition FrontProxy_WithStatus :: "meta_library \<Rightarrow> builder" where
  "FrontProxy_WithStatus M = set_value [''Status'']"

definition new_FrontProxy :: "meta_library \<Rightarrow> string \<Rightarrow> string \<Rightarrow> memory
    \<Rightarrow> (go_value \<times> memory) res" where
  "new_FrontProxy M name namespace m =
    (let (b, m1) = new_struct (zero_struct (fields_FrontProxy M)) m in
     bindE (FrontProxy_WithName M b (Scalar (Text name)) m1) (\<lambda>(_, m2).
     bindE (FrontProxy_WithNamespace M b (Scalar (Text namespace)) m2) (\<lambda>(_, m3).
     bindE (FrontProxy_WithKind M b (Scalar (Text ''FrontProxy'')) m3) (\<lambda>(_, m4).
     bindE (FrontProxy_WithAPIVersion M b (Scalar (Text ''operator.kcp.io/v1alpha1'')) m4) (\<lambda>(_, m5).
     Inr (b, m5))))))"

definition FrontProxy_GetName :: "meta_library \<Rightarrow> go_value \<Rightarrow> memory \<Rightarrow>
    (go_value \<times> memory) res" where
  "FrontProxy_GetName M b m =
    bindE (FrontProxy_ensureObjectMetaApplyConfigurationExists M b m) (get_field
        [''ObjectMetaApplyConfiguration'', ''Name''] b)"

subsection \<open>Kubeconfig\<close>

definition fields_Kubeconfig :: "meta_library \<Rightarrow> (string \<times> field_type) list" where
  "fields_Kubeconfig M =
    [(''TypeMetaApplyConfiguration'', FEmbedded (zero_TypeMetaApplyConfiguration M)),
     (''ObjectMetaApplyConfiguration'', FPointer ''v1.ObjectMetaApplyConfiguration''),
     (''Spec'', FPointer ''KubeconfigSpecApplyConfiguration''),
     (''Status'', FPointer ''KubeconfigStatusApplyConfiguration'')]"

definition Kubeconfig_ensureObjectMetaApplyConfigurationExists :: "meta_library \<Rightarrow> go_value
    \<Rightarrow> memory \<Rightarrow> memory res" where
  "Kubeconfig_ensureObjectMetaApplyConfigurationExists M =
    ensure_exists ''ObjectMetaApplyConfiguration'' (zero_ObjectMetaApplyConfiguration M)"

definition Kubeconfig_WithKind :: "meta_library \<Rightarrow> builder" where
  "Kubeconfig_WithKind M = set_address [''TypeMetaApplyConfiguration'', ''Kind'']"

definition Kubeconfig_WithAPIVersion :: "meta_library \<Rightarrow> builder" where
  "Kubeconfig_WithAPIVersion M = set_address [''TypeMetaApplyConfiguration'', ''APIVersion'']"

definition Kubeconfig_WithName :: "meta_library \<Rightarrow> builder" where
  "Kubeconfig_WithName M = ensured (Kubeconfig_ensureObjectMetaApplyConfigurationExists M)
    (set_address [''ObjectMetaApplyConfiguration'', ''Name''])"

definition Kubeconfig_WithGenerateName :: "meta_library \<Rightarrow> builder" where
  "Kubeconfig_WithGenerateName M = ensured (Kubeconfig_ensureObjectMetaApplyConfigurationExists M)
    (set_address [''ObjectMetaApplyConfiguration'', ''GenerateName''])"

definition Kubeconfig_WithNamespace :: "meta_library \<Rightarrow> builder" where
  "Kubeconfig_WithNamespace M = ensured (Kubeconfig_ensureObjectMetaApplyConfigurationExists M)
    (set_address [''ObjectMetaApplyConfiguration'', ''Namespace''])"

definition Kubeconfig_WithUID :: "meta_library \<Rightarrow> builder" where
  "Kubeconfig_WithUID M = ensured (Kubeconfig_ensureObjectMetaApplyConfigurationExists M)
    (set_address [''ObjectMetaApplyConfiguration'', ''UID''])"

definition Kubeconfig_WithResourceVersion :: "meta_library \<Rightarrow> builder" where
  "Kubeconfig_WithResourceVersion M = ensured (Kubeconfig_ensureObjectMetaApplyConfigurationExists M)
    (set_address [''ObjectMetaApplyConfiguration'', ''ResourceVersion''])"

definition Kubeconfig_WithGeneration :: "meta_library \<Rightarrow> builder" where
  "Kubeconfig_WithGeneration M = ensured (Kubeconfig_ensureObjectMetaApplyConfigurationExists M)
    (set_address [''ObjectMetaApplyConfiguration'', ''Generation''])"

definition Kubeconfig_WithCreationTimestamp :: "meta_library \<Rightarrow> builder" where
  "Kubeconfig_WithCreationTimestamp M = ensured (Kubeconfig_ensureObjectMetaApplyConfigurationExists M)
    (set_address [''ObjectMetaApplyConfiguration'', ''CreationTimestamp''])"

definition Kubeconfig_WithDeletionTimestamp :: "meta_library \<Rightarrow> builder" where
  "Kubeconfig_WithDeletionTimestamp M = ensured (Kubeconfig_ensureObjectMetaApplyConfigurationExists M)
    (set_address [''ObjectMetaApplyConfiguration'', ''DeletionTimestamp''])"

definition Kubeconfig_WithDeletionGracePeriodSeconds :: "meta_library \<Rightarrow> builder" where
  "Kubeconfig_WithDeletionGracePeriodSeconds M = ensured (Kubeconfig_ensureObjectMetaApplyConfigurationExists M)
    (set_address [''ObjectMetaApplyConfiguration'', ''DeletionGracePeriodSeconds''])"

definition Kubeconfig_WithLabels :: "meta_library \<Rightarrow> builder" where
  "Kubeconfig_WithLabels M = ensured (Kubeconfig_ensureObjectMetaApplyConfigurationExists M)
    (put_entries [''ObjectMetaApplyConfiguration'', ''Labels''])"

definition Kubeconfig_WithAnnotations :: "meta_library \<Rightarrow> builder" where
  "Kubeconfig_WithAnnotations M = ensured (Kubeconfig_ensureObjectMetaApplyConfigurationExists M)
    (put_entries [''ObjectMetaApplyConfiguration'', ''Annotations''])"

definition Kubeconfig_WithOwnerReferences :: "meta_library \<Rightarrow> (nat \<Rightarrow> nat)
    \<Rightarrow> builder" where
  "Kubeconfig_WithOwnerReferences M grow = ensured (Kubeconfig_ensureObjectMetaApplyConfigurationExists M)
    (append_pointed grow ''nil value passed to WithOwnerReferences'' [''ObjectMetaApplyConfiguration'',
        ''OwnerReferences''])"

definition Kubeconfig_WithFinalizers :: "meta_library \<Rightarrow> (nat \<Rightarrow> nat) \<Rightarrow>
    builder" where
  "Kubeconfig_WithFinalizers M grow = ensured (Kubeconfig_ensureObjectMetaApplyConfigurationExists M)
    (append_values grow [''ObjectMetaApplyConfiguration'', ''Finalizers''])"

definition Kubeconfig_WithSpec :: "meta_library \<Rightarrow> builder" where
  "Kubeconfig_WithSpec M = set_value [''Spec'']"

definition Kubeconfig_WithStatus :: "meta_library \<Rightarrow> builder" where
  "Kubeconfig_WithStatus M = set_value [''Status'']"

definition new_Kubeconfig :: "meta_library \<Rightarrow> string \<Rightarrow> string \<Rightarrow> memory
    \<Rightarrow> (go_value \<times> memory) res" where
  "new_Kubeconfig M name namespace m =
    (let (b, m1) = new_struct (zero_struct (fields_Kubeconfig M)) m in
     bindE (Kubeconfig_WithName M b (Scalar (Text name)) m1) (\<lambda>(_, m2).
     bindE (Kubeconfig_WithNamespace M b (Scalar (Text namespace)) m2) (\<lambda>(_, m3).
     bindE (Kubeconfig_WithKind M b (Scalar (Text ''Kubeconfig'')) m3) (\<lambda>(_, m4).
     bindE (Kubeconfig_WithAPIVersion M b (Scalar (Text ''operator.kcp.io/v1alpha1'')) m4) (\<lambda>(_, m5).
     Inr (b, m5))))))"

definition Kubeconfig_GetName :: "meta_library \<Rightarrow> go_value \<Rightarrow> memory \<Rightarrow>
    (go_value \<times> memory) res" where
  "Kubeconfig_GetName M b m =
    bindE (Kubeconfig_ensureObjectMetaApplyConfigurationExists M b m) (get_field
        [''ObjectMetaApplyConfiguration'', ''Name''] b)"

subsection \<open>RootShard\<close>

definition fields_RootShard :: "meta_library \<Rightarrow> (string \<times> field_type) list" where
  "fields_RootShard M =
    [(''TypeMetaApplyConfiguration'', FEmbedded (zero_TypeMetaApplyConfiguration M)),
     (''ObjectMetaApplyConfiguration'', FPointer ''v1.ObjectMetaApplyConfiguration''),
     (''Spec'', FPointer ''RootShardSpecApplyConfiguration''),
     (''Status'', FPointer ''RootShardStatusApplyConfiguration'')]"

definition RootShard_ensureObjectMetaApplyConfigurationExists :: "meta_library \<Rightarrow> go_value
    \<Rightarrow> memory \<Rightarrow> memory res" where
  "RootShard_ensureObjectMetaApplyConfigurationExists M =
    ensure_exists ''ObjectMetaApplyConfiguration'' (zero_ObjectMetaApplyConfiguration M)"

definition RootShard_WithKind :: "meta_library \<Rightarrow> builder" where
  "RootShard_WithKind M = set_address [''TypeMetaApplyConfiguration'', ''Kind'']"

definition RootShard_WithAPIVersion :: "meta_library \<Rightarrow> builder" where
  "RootShard_WithAPIVersion M = set_address [''TypeMetaApplyConfiguration'', ''APIVersion'']"

definition RootShard_WithName :: "meta_library \<Rightarrow> builder" where
  "RootShard_WithName M = ensured (RootShard_ensureObjectMetaApplyConfigurationExists M)
    (set_address [''ObjectMetaApplyConfiguration'', ''Name''])"

definition RootShard_WithGenerateName :: "meta_library \<Rightarrow> builder" where
  "RootShard_WithGenerateName M = ensured (RootShard_ensureObjectMetaApplyConfigurationExists M)
    (set_address [''ObjectMetaApplyConfiguration'', ''GenerateName''])"

definition RootShard_WithNamespace :: "meta_library \<Rightarrow> builder" where
  "RootShard_WithNamespace M = ensured (RootShard_ensureObjectMetaApplyConfigurationExists M)
    (set_address [''ObjectMetaApplyConfiguration'', ''Namespace''])"

definition RootShard_WithUID :: "meta_library \<Rightarrow> builder" where
  "RootShard_WithUID M = ensured (RootShard_ensureObjectMetaApplyConfigurationExists M)
    (set_address [''ObjectMetaApplyConfiguration'', ''UID''])"

definition RootShard_WithResourceVersion :: "meta_library \<Rightarrow> builder" where
  "RootShard_WithResourceVersion M = ensured (RootShard_ensureObjectMetaApplyConfigurationExists M)
    (set_address [''ObjectMetaApplyConfiguration'', ''ResourceVersion''])"

definition RootShard_WithGeneration :: "meta_library \<Rightarrow> builder" where
  "RootShard_WithGeneration M = ensured (RootShard_ensureObjectMetaApplyConfigurationExists M)
    (set_address [''ObjectMetaApplyConfiguration'', ''Generation''])"

definition RootShard_WithCreationTimestamp :: "meta_library \<Rightarrow> builder" where
  "RootShard_WithCreationTimestamp M = ensured (RootShard_ensureObjectMetaApplyConfigurationExists M)
    (set_address [''ObjectMetaApplyConfiguration'', ''CreationTimestamp''])"

definition RootShard_WithDeletionTimestamp :: "meta_library \<Rightarrow> builder" where
  "RootShard_WithDeletionTimestamp M = ensured (RootShard_ensureObjectMetaApplyConfigurationExists M)
    (set_address [''ObjectMetaApplyConfiguration'', ''DeletionTimestamp''])"

definition RootShard_WithDeletionGracePeriodSeconds :: "meta_library \<Rightarrow> builder" where
  "RootShard_WithDeletionGracePeriodSeconds M = ensured (RootShard_ensureObjectMetaApplyConfigurationExists M)
    (set_address [''ObjectMetaApplyConfiguration'', ''DeletionGracePeriodSeconds''])"

definition RootShard_WithLabels :: "meta_library \<Rightarrow> builder" where
  "RootShard_WithLabels M = ensured (RootShard_ensureObjectMetaApplyConfigurationExists M)
    (put_entries [''ObjectMetaApplyConfiguration'', ''Labels''])"

definition RootShard_WithAnnotations :: "meta_library \<Rightarrow> builder" where
  "RootShard_WithAnnotations M = ensured (RootShard_ensureObjectMetaApplyConfigurationExists M)
    (put_entries [''ObjectMetaApplyConfiguration'', ''Annotations''])"

definition RootShard_WithOwnerReferences :: "meta_library \<Rightarrow> (nat \<Rightarrow> nat)
    \<Rightarrow> builder" where
  "RootShard_WithOwnerReferences M grow = ensured (RootShard_ensureObjectMetaApplyConfigurationExists M)
    (append_pointed grow ''nil value passed to WithOwnerReferences'' [''ObjectMetaApplyConfiguration'',
        ''OwnerReferences''])"

definition RootShard_WithFinalizers :: "meta_library \<Rightarrow> (nat \<Rightarrow> nat) \<Rightarrow>
    builder" where
  "RootShard_WithFinalizers M grow = ensured (RootShard_ensureObjectMetaApplyConfigurationExists M)
    (append_values grow [''ObjectMetaApplyConfiguration'', ''Finalizers''])"

definition RootShard_WithSpec :: "meta_library \<Rightarrow> builder" where
  "RootShard_WithSpec M = set_value [''Spec'']"

definition RootShard_WithStatus :: "meta_library \<Rightarrow> builder" where
  "RootShard_WithStatus M = set_value [''Status'']"

definition new_RootShard :: "meta_library \<Rightarrow> string \<Rightarrow> string \<Rightarrow> memory
    \<Rightarrow> (go_value \<times> memory) res" where
  "new_RootShard M name namespace m =
    (let (b, m1) = new_struct (zero_struct (fields_RootShard M)) m in
     bindE (RootShard_WithName M b (Scalar (Text name)) m1) (\<lambda>(_, m2).
     bindE (RootShard_WithNamespace M b (Scalar (Text namespace)) m2) (\<lambda>(_, m3).
     bindE (RootShard_WithKind M b (Scalar (Text ''RootShard'')) m3) (\<lambda>(_, m4).
     bindE (RootShard_WithAPIVersion M b (Scalar (Text ''operator.kcp.io/v1alpha1'')) m4) (\<lambda>(_, m5).
     Inr (b, m5))))))"

definition RootShard_GetName :: "meta_library \<Rightarrow> go_value \<Rightarrow> memory \<Rightarrow>
    (go_value \<times> memory) res" where
  "RootShard_GetName M b m =
    bindE (RootShard_ensureObjectMetaApplyConfigurationExists M b m) (get_field
        [''ObjectMetaApplyConfiguration'', ''Name''] b)"

subsection \<open>Shard\<close>

definition fields_Shard :: "meta_library \<Rightarrow> (string \<times> field_type) list" where
  "fields_Shard M =
    [(''TypeMetaApplyConfiguration'', FEmbedded (zero_TypeMetaApplyConfiguration M)),
     (''ObjectMetaApplyConfiguration'', FPointer ''v1.ObjectMetaApplyConfiguration''),
     (''Spec'', FPointer ''ShardSpecApplyConfiguration''),
     (''Status'', FPointer ''ShardStatusApplyConfiguration'')]"

definition Shard_ensureObjectMetaApplyConfigurationExists :: "meta_library \<Rightarrow> go_value
    \<Rightarrow> memory \<Rightarrow> memory res" where
  "Shard_ensureObjectMetaApplyConfigurationExists M =
    ensure_exists ''ObjectMetaApplyConfiguration'' (zero_ObjectMetaApplyConfiguration M)"

definition Shard_WithKind :: "meta_library \<Rightarrow> builder" where
  "Shard_WithKind M = set_address [''TypeMetaApplyConfiguration'', ''Kind'']"

definition Shard_WithAPIVersion :: "meta_library \<Rightarrow> builder" where
  "Shard_WithAPIVersion M = set_address [''TypeMetaApplyConfiguration'', ''APIVersion'']"

definition Shard_WithName :: "meta_library \<Rightarrow> builder" where
  "Shard_WithName M = ensured (Shard_ensureObjectMetaApplyConfigurationExists M)
    (set_address [''ObjectMetaApplyConfiguration'', ''Name''])"

definition Shard_WithGenerateName :: "meta_library \<Rightarrow> builder" where
  "Shard_WithGenerateName M = ensured (Shard_ensureObjectMetaApplyConfigurationExists M)
    (set_address [''ObjectMetaApplyConfiguration'', ''GenerateName''])"

definition Shard_WithNamespace :: "meta_library \<Rightarrow> builder" where
  "Shard_WithNamespace M = ensured (Shard_ensureObjectMetaApplyConfigurationExists M)
    (set_address [''ObjectMetaApplyConfiguration'', ''Namespace''])"

definition Shard_WithUID :: "meta_library \<Rightarrow> builder" where
  "Shard_WithUID M = ensured (Shard_ensureObjectMetaApplyConfigurationExists M)
    (set_address [''ObjectMetaApplyConfiguration'', ''UID''])"

definition Shard_WithResourceVersion :: "meta_library \<Rightarrow> builder" where
  "Shard_WithResourceVersion M = ensured (Shard_ensureObjectMetaApplyConfigurationExists M)
    (set_address [''ObjectMetaApplyConfiguration'', ''ResourceVersion''])"

definition Shard_WithGeneration :: "meta_library \<Rightarrow> builder" where
  "Shard_WithGeneration M = ensured (Shard_ensureObjectMetaApplyConfigurationExists M)
    (set_address [''ObjectMetaApplyConfiguration'', ''Generation''])"

definition Shard_WithCreationTimestamp :: "meta_library \<Rightarrow> builder" where
  "Shard_WithCreationTimestamp M = ensured (Shard_ensureObjectMetaApplyConfigurationExists M)
    (set_address [''ObjectMetaApplyConfiguration'', ''CreationTimestamp''])"

definition Shard_WithDeletionTimestamp :: "meta_library \<Rightarrow> builder" where
  "Shard_WithDeletionTimestamp M = ensured (Shard_ensureObjectMetaApplyConfigurationExists M)
    (set_address [''ObjectMetaApplyConfiguration'', ''DeletionTimestamp''])"

definition Shard_WithDeletionGracePeriodSeconds :: "meta_library \<Rightarrow> builder" where
  "Shard_WithDeletionGracePeriodSeconds M = ensured (Shard_ensureObjectMetaApplyConfigurationExists M)
    (set_address [''ObjectMetaApplyConfiguration'', ''DeletionGracePeriodSeconds''])"

definition Shard_WithLabels :: "meta_library \<Rightarrow> builder" where
  "Shard_WithLabels M = ensured (Shard_ensureObjectMetaApplyConfigurationExists M)
    (put_entries [''ObjectMetaApplyConfiguration'', ''Labels''])"

definition Shard_WithAnnotations :: "meta_library \<Rightarrow> builder" where
  "Shard_WithAnnotations M = ensured (Shard_ensureObjectMetaApplyConfigurationExists M)
    (put_entries [''ObjectMetaApplyConfiguration'', ''Annotations''])"

definition Shard_WithOwnerReferences :: "meta_library \<Rightarrow> (nat \<Rightarrow> nat) \<Rightarrow>
    builder" where
  "Shard_WithOwnerReferences M grow = ensured (Shard_ensureObjectMetaApplyConfigurationExists M)
    (append_pointed grow ''nil value passed to WithOwnerReferences'' [''ObjectMetaApplyConfiguration'',
        ''OwnerReferences''])"

definition Shard_WithFinalizers :: "meta_library \<Rightarrow> (nat \<Rightarrow> nat) \<Rightarrow>
    builder" where
  "Shard_WithFinalizers M grow = ensured (Shard_ensureObjectMetaApplyConfigurationExists M)
    (append_values grow [''ObjectMetaApplyConfiguration'', ''Finalizers''])"

definition Shard_WithSpec :: "meta_library \<Rightarrow> builder" where
  "Shard_WithSpec M = set_value [''Spec'']"

definition Shard_WithStatus :: "meta_library \<Rightarrow> builder" where
  "Shard_WithStatus M = set_value [''Status'']"

definition new_Shard :: "meta_library \<Rightarrow> string \<Rightarrow> string \<Rightarrow> memory
    \<Rightarrow> (go_value \<times> memory) res" where
  "new_Shard M name namespace m =
    (let (b, m1) = new_struct (zero_struct (fields_Shard M)) m in
     bindE (Shard_WithName M b (Scalar (Text name)) m1) (\<lambda>(_, m2).
     bindE (Shard_WithNamespace M b (Scalar (Text namespace)) m2) (\<lambda>(_, m3).
     bindE (Shard_WithKind M b (Scalar (Text ''Shard'')) m3) (\<lambda>(_, m4).
     bindE (Shard_WithAPIVersion M b (Scalar (Text ''operator.kcp.io/v1alpha1'')) m4) (\<lambda>(_, m5).
     Inr (b, m5))))))"

definition Shard_GetName :: "meta_library \<Rightarrow> go_value \<Rightarrow> memory \<Rightarrow>
    (go_value \<times> memory) res" where
  "Shard_GetName M b m =
    bindE (Shard_ensureObjectMetaApplyConfigurationExists M b m) (get_field
        [''ObjectMetaApplyConfiguration'', ''Name''] b)"

subsection \<open>VirtualWorkspace\<close>

definition fields_VirtualWorkspace :: "meta_library \<Rightarrow> (string \<times> field_type) list" where
  "fields_VirtualWorkspace M =
    [(''TypeMetaApplyConfiguration'', FEmbedded (zero_TypeMetaApplyConfiguration M)),
     (''ObjectMetaApplyConfiguration'', FPointer ''v1.ObjectMetaApplyConfiguration''),
     (''Spec'', FPointer ''VirtualWorkspaceSpecApplyConfiguration''),
     (''Status'', FPointer ''VirtualWorkspaceStatusApplyConfiguration'')]"

definition VirtualWorkspace_ensureObjectMetaApplyConfigurationExists :: "meta_library \<Rightarrow>
    go_value \<Rightarrow> memory \<Rightarrow> memory res" where
  "VirtualWorkspace_ensureObjectMetaApplyConfigurationExists M =
    ensure_exists ''ObjectMetaApplyConfiguration'' (zero_ObjectMetaApplyConfiguration M)"

definition VirtualWorkspace_WithKind :: "meta_library \<Rightarrow> builder" where
  "VirtualWorkspace_WithKind M = set_address [''TypeMetaApplyConfiguration'', ''Kind'']"

definition VirtualWorkspace_WithAPIVersion :: "meta_library \<Rightarrow> builder" where
  "VirtualWorkspace_WithAPIVersion M = set_address [''TypeMetaApplyConfiguration'', ''APIVersion'']"

definition VirtualWorkspace_WithName :: "meta_library \<Rightarrow> builder" where
  "VirtualWorkspace_WithName M = ensured (VirtualWorkspace_ensureObjectMetaApplyConfigurationExists M)
    (set_address [''ObjectMetaApplyConfiguration'', ''Name''])"

definition VirtualWorkspace_WithGenerateName :: "meta_library \<Rightarrow> builder" where
  "VirtualWorkspace_WithGenerateName M = ensured (VirtualWorkspace_ensureObjectMetaApplyConfigurationExists M)
    (set_address [''ObjectMetaApplyConfiguration'', ''GenerateName''])"

definition VirtualWorkspace_WithNamespace :: "meta_library \<Rightarrow> builder" where
  "VirtualWorkspace_WithNamespace M = ensured (VirtualWorkspace_ensureObjectMetaApplyConfigurationExists M)
    (set_address [''ObjectMetaApplyConfiguration'', ''Namespace''])"

definition VirtualWorkspace_WithUID :: "meta_library \<Rightarrow> builder" where
  "VirtualWorkspace_WithUID M = ensured (VirtualWorkspace_ensureObjectMetaApplyConfigurationExists M)
    (set_address [''ObjectMetaApplyConfiguration'', ''UID''])"

definition VirtualWorkspace_WithResourceVersion :: "meta_library \<Rightarrow> builder" where
  "VirtualWorkspace_WithResourceVersion M = ensured
      (VirtualWorkspace_ensureObjectMetaApplyConfigurationExists M)
    (set_address [''ObjectMetaApplyConfiguration'', ''ResourceVersion''])"

definition VirtualWorkspace_WithGeneration :: "meta_library \<Rightarrow> builder" where
  "VirtualWorkspace_WithGeneration M = ensured (VirtualWorkspace_ensureObjectMetaApplyConfigurationExists M)
    (set_address [''ObjectMetaApplyConfiguration'', ''Generation''])"

definition VirtualWorkspace_WithCreationTimestamp :: "meta_library \<Rightarrow> builder" where
  "VirtualWorkspace_WithCreationTimestamp M = ensured
      (VirtualWorkspace_ensureObjectMetaApplyConfigurationExists M)
    (set_address [''ObjectMetaApplyConfiguration'', ''CreationTimestamp''])"

definition VirtualWorkspace_WithDeletionTimestamp :: "meta_library \<Rightarrow> builder" where
  "VirtualWorkspace_WithDeletionTimestamp M = ensured
      (VirtualWorkspace_ensureObjectMetaApplyConfigurationExists M)
    (set_address [''ObjectMetaApplyConfiguration'', ''DeletionTimestamp''])"

definition VirtualWorkspace_WithDeletionGracePeriodSeconds :: "meta_library \<Rightarrow> builder" where
  "VirtualWorkspace_WithDeletionGracePeriodSeconds M = ensured
      (VirtualWorkspace_ensureObjectMetaApplyConfigurationExists M)
    (set_address [''ObjectMetaApplyConfiguration'', ''DeletionGracePeriodSeconds''])"

definition VirtualWorkspace_WithLabels :: "meta_library \<Rightarrow> builder" where
  "VirtualWorkspace_WithLabels M = ensured (VirtualWorkspace_ensureObjectMetaApplyConfigurationExists M)
    (put_entries [''ObjectMetaApplyConfiguration'', ''Labels''])"

definition VirtualWorkspace_WithAnnotations :: "meta_library \<Rightarrow> builder" where
  "VirtualWorkspace_WithAnnotations M = ensured (VirtualWorkspace_ensureObjectMetaApplyConfigurationExists M)
    (put_entries [''ObjectMetaApplyConfiguration'', ''Annotations''])"

definition VirtualWorkspace_WithOwnerReferences :: "meta_library \<Rightarrow> (nat \<Rightarrow> nat)
    \<Rightarrow> builder" where
  "VirtualWorkspace_WithOwnerReferences M grow = ensured
      (VirtualWorkspace_ensureObjectMetaApplyConfigurationExists M)
    (append_pointed grow ''nil value passed to WithOwnerReferences'' [''ObjectMetaApplyConfiguration'',
        ''OwnerReferences''])"

definition VirtualWorkspace_WithFinalizers :: "meta_library \<Rightarrow> (nat \<Rightarrow> nat)
    \<Rightarrow> builder" where
  "VirtualWorkspace_WithFinalizers M grow = ensured
      (VirtualWorkspace_ensureObjectMetaApplyConfigurationExists M)
    (append_values grow [''ObjectMetaApplyConfiguration'', ''Finalizers''])"

definition VirtualWorkspace_WithSpec :: "meta_library \<Rightarrow> builder" where
  "VirtualWorkspace_WithSpec M = set_value [''Spec'']"

definition VirtualWorkspace_WithStatus :: "meta_library \<Rightarrow> builder" where
  "VirtualWorkspace_WithStatus M = set_value [''Status'']"

definition new_VirtualWorkspace :: "meta_library \<Rightarrow> string \<Rightarrow> string \<Rightarrow>
    memory \<Rightarrow> (go_value \<times> memory) res" where
  "new_VirtualWorkspace M name namespace m =
    (let (b, m1) = new_struct (zero_struct (fields_VirtualWorkspace M)) m in
     bindE (VirtualWorkspace_WithName M b (Scalar (Text name)) m1) (\<lambda>(_, m2).
     bindE (VirtualWorkspace_WithNamespace M b (Scalar (Text namespace)) m2) (\<lambda>(_, m3).
     bindE (VirtualWorkspace_WithKind M b (Scalar (Text ''VirtualWorkspace'')) m3) (\<lambda>(_, m4).
     bindE (VirtualWorkspace_WithAPIVersion M b (Scalar (Text ''operator.kcp.io/v1alpha1'')) m4)
         (\<lambda>(_, m5).
     Inr (b, m5))))))"

definition VirtualWorkspace_GetName :: "meta_library \<Rightarrow> go_value \<Rightarrow> memory
    \<Rightarrow> (go_value \<times> memory) res" where
  "VirtualWorkspace_GetName M b m =
    bindE (VirtualWorkspace_ensureObjectMetaApplyConfigurationExists M b m) (get_field
        [''ObjectMetaApplyConfiguration'', ''Name''] b)"

chapter \<open>The compiled objects\<close>

text \<open>
  The apply configurations of the compiled objects and their parts
  (\<open>sdk/applyconfiguration/deploy/v1alpha1\<close>).
\<close>

subsection \<open>CompiledCacheServerSpec\<close>

definition fields_CompiledCacheServerSpec :: "(string \<times> field_type) list" where
  "fields_CompiledCacheServerSpec =
    [(''CacheServer'', FPointer ''operatorv1alpha1.CacheServerSpecApplyConfiguration'')]"

definition CompiledCacheServerSpec_WithCacheServer :: "builder" where
  "CompiledCacheServerSpec_WithCacheServer = set_value [''CacheServer'']"

definition new_CompiledCacheServerSpec :: "memory \<Rightarrow> go_value \<times> memory" where
  "new_CompiledCacheServerSpec = new_struct (zero_struct fields_CompiledCacheServerSpec)"

subsection \<open>CompiledFrontProxySpec\<close>

definition fields_CompiledFrontProxySpec :: "(string \<times> field_type) list" where
  "fields_CompiledFrontProxySpec =
    [(''FrontProxy'', FPointer ''operatorv1alpha1.FrontProxySpecApplyConfiguration''),
     (''RootShard'', FPointer ''NamedRootShardSpecApplyConfiguration''), (''Shards'', FSlice ''string'')]"

definition CompiledFrontProxySpec_WithFrontProxy :: "builder" where
  "CompiledFrontProxySpec_WithFrontProxy = set_value [''FrontProxy'']"

definition CompiledFrontProxySpec_WithRootShard :: "builder" where
  "CompiledFrontProxySpec_WithRootShard = set_value [''RootShard'']"

definition CompiledFrontProxySpec_WithShards :: "(nat \<Rightarrow> nat) \<Rightarrow> builder" where
  "CompiledFrontProxySpec_WithShards grow = append_values grow [''Shards'']"

definition new_CompiledFrontProxySpec :: "memory \<Rightarrow> go_value \<times> memory" where
  "new_CompiledFrontProxySpec = new_struct (zero_struct fields_CompiledFrontProxySpec)"

subsection \<open>CompiledRootShardSpec\<close>

definition fields_CompiledRootShardSpec :: "(string \<times> field_type) list" where
  "fields_CompiledRootShardSpec =
    [(''RootShard'', FPointer ''operatorv1alpha1.RootShardSpecApplyConfiguration''),
     (''VirtualWorkspace'', FPointer ''NamedVirtualWorkspaceSpecApplyConfiguration''),
     (''Shards'', FSlice ''string'')]"

definition CompiledRootShardSpec_WithRootShard :: "builder" where
  "CompiledRootShardSpec_WithRootShard = set_value [''RootShard'']"

definition CompiledRootShardSpec_WithVirtualWorkspace :: "builder" where
  "CompiledRootShardSpec_WithVirtualWorkspace = set_value [''VirtualWorkspace'']"

definition CompiledRootShardSpec_WithShards :: "(nat \<Rightarrow> nat) \<Rightarrow> builder" where
  "CompiledRootShardSpec_WithShards grow = append_values grow [''Shards'']"

definition new_CompiledRootShardSpec :: "memory \<Rightarrow> go_value \<times> memory" where
  "new_CompiledRootShardSpec = new_struct (zero_struct fields_CompiledRootShardSpec)"

subsection \<open>CompiledShardSpec\<close>

definition fields_CompiledShardSpec :: "(string \<times> field_type) list" where
  "fields_CompiledShardSpec =
    [(''Shard'', FPointer ''operatorv1alpha1.ShardSpecApplyConfiguration''),
     (''RootShard'', FPointer ''NamedRootShardSpecApplyConfiguration''),
     (''VirtualWorkspace'', FPointer ''NamedVirtualWorkspaceSpecApplyConfiguration''),
     (''Shards'', FSlice ''string'')]"

definition CompiledShardSpec_WithShard :: "builder" where
  "CompiledShardSpec_WithShard = set_value [''Shard'']"

definition CompiledShardSpec_WithRootShard :: "builder" where
  "CompiledShardSpec_WithRootShard = set_value [''RootShard'']"

definition CompiledShardSpec_WithVirtualWorkspace :: "builder" where
  "CompiledShardSpec_WithVirtualWorkspace = set_value [''VirtualWorkspace'']"

definition CompiledShardSpec_WithShards :: "(nat \<Rightarrow> nat) \<Rightarrow> builder" where
  "CompiledShardSpec_WithShards grow = append_values grow [''Shards'']"

definition new_CompiledShardSpec :: "memory \<Rightarrow> go_value \<times> memory" where
  "new_CompiledShardSpec = new_struct (zero_struct fields_CompiledShardSpec)"

subsection \<open>CompiledVirtualWorkspaceSpec\<close>

definition fields_CompiledVirtualWorkspaceSpec :: "(string \<times> field_type) list" where
  "fields_CompiledVirtualWorkspaceSpec =
    [(''VirtualWorkspace'', FPointer ''operatorv1alpha1.VirtualWorkspaceSpecApplyConfiguration''),
     (''RootShard'', FPointer ''NamedRootShardSpecApplyConfiguration''),
     (''Shard'', FPointer ''NamedShardSpecApplyConfiguration'')]"

definition CompiledVirtualWorkspaceSpec_WithVirtualWorkspace :: "builder" where
  "CompiledVirtualWorkspaceSpec_WithVirtualWorkspace = set_value [''VirtualWorkspace'']"

definition CompiledVirtualWorkspaceSpec_WithRootShard :: "builder" where
  "CompiledVirtualWorkspaceSpec_WithRootShard = set_value [''RootShard'']"

definition CompiledVirtualWorkspaceSpec_WithShard :: "builder" where
  "CompiledVirtualWorkspaceSpec_WithShard = set_value [''Shard'']"

definition new_CompiledVirtualWorkspaceSpec :: "memory \<Rightarrow> go_value \<times> memory" where
  "new_CompiledVirtualWorkspaceSpec = new_struct (zero_struct fields_CompiledVirtualWorkspaceSpec)"

subsection \<open>NamedRootShardSpec\<close>

definition fields_NamedRootShardSpec :: "(string \<times> field_type) list" where
  "fields_NamedRootShardSpec =
    [(''Name'', FPointer ''string''),
     (''Spec'', FPointer ''operatorv1alpha1.RootShardSpecApplyConfiguration'')]"

definition NamedRootShardSpec_WithName :: "builder" where
  "NamedRootShardSpec_WithName = set_address [''Name'']"

definition NamedRootShardSpec_WithSpec :: "builder" where
  "NamedRootShardSpec_WithSpec = set_value [''Spec'']"

definition new_NamedRootShardSpec :: "memory \<Rightarrow> go_value \<times> memory" where
  "new_NamedRootShardSpec = new_struct (zero_struct fields_NamedRootShardSpec)"

subsection \<open>NamedShardSpec\<close>

definition fields_NamedShardSpec :: "(string \<times> field_type) list" where
  "fields_NamedShardSpec =
    [(''Name'', FPointer ''string''),
     (''Spec'', FPointer ''operatorv1alpha1.ShardSpecApplyConfiguration'')]"

definition NamedShardSpec_WithName :: "builder" where
  "NamedShardSpec_WithName = set_address [''Name'']"

definition NamedShardSpec_WithSpec :: "builder" where
  "NamedShardSpec_WithSpec = set_value [''Spec'']"

definition new_NamedShardSpec :: "memory \<Rightarrow> go_value \<times> memory" where
  "new_NamedShardSpec = new_struct (zero_struct fields_NamedShardSpec)"

subsection \<open>NamedVirtualWorkspaceSpec\<close>

definition fields_NamedVirtualWorkspaceSpec :: "(string \<times> field_type) list" where
  "fields_NamedVirtualWorkspaceSpec =
    [(''Name'', FPointer ''string''),
     (''Spec'', FPointer ''operatorv1alpha1.VirtualWorkspaceSpecApplyConfiguration'')]"

definition NamedVirtualWorkspaceSpec_WithName :: "builder" where
  "NamedVirtualWorkspaceSpec_WithName = set_address [''Name'']"

definition NamedVirtualWorkspaceSpec_WithSpec :: "builder" where
  "NamedVirtualWorkspaceSpec_WithSpec = set_value [''Spec'']"

definition new_NamedVirtualWorkspaceSpec :: "memory \<Rightarrow> go_value \<times> memory" where
  "new_NamedVirtualWorkspaceSpec = new_struct (zero_struct fields_NamedVirtualWorkspaceSpec)"

subsection \<open>CompiledCacheServer\<close>

definition fields_CompiledCacheServer :: "meta_library \<Rightarrow> (string \<times> field_type) list" where
  "fields_CompiledCacheServer M =
    [(''TypeMetaApplyConfiguration'', FEmbedded (zero_TypeMetaApplyConfiguration M)),
     (''ObjectMetaApplyConfiguration'', FPointer ''v1.ObjectMetaApplyConfiguration''),
     (''Spec'', FPointer ''CompiledCacheServerSpecApplyConfiguration''),
     (''Status'', FPointer ''operatorv1alpha1.CacheServerStatus'')]"

definition CompiledCacheServer_ensureObjectMetaApplyConfigurationExists :: "meta_library \<Rightarrow>
    go_value \<Rightarrow> memory \<Rightarrow> memory res" where
  "CompiledCacheServer_ensureObjectMetaApplyConfigurationExists M =
    ensure_exists ''ObjectMetaApplyConfiguration'' (zero_ObjectMetaApplyConfiguration M)"

definition CompiledCacheServer_WithKind :: "meta_library \<Rightarrow> builder" where
  "CompiledCacheServer_WithKind M = set_address [''TypeMetaApplyConfiguration'', ''Kind'']"

definition CompiledCacheServer_WithAPIVersion :: "meta_library \<Rightarrow> builder" where
  "CompiledCacheServer_WithAPIVersion M = set_address [''TypeMetaApplyConfiguration'', ''APIVersion'']"

definition CompiledCacheServer_WithName :: "meta_library \<Rightarrow> builder" where
  "CompiledCacheServer_WithName M = ensured (CompiledCacheServer_ensureObjectMetaApplyConfigurationExists M)
    (set_address [''ObjectMetaApplyConfiguration'', ''Name''])"

definition CompiledCacheServer_WithGenerateName :: "meta_library \<Rightarrow> builder" where
  "CompiledCacheServer_WithGenerateName M = ensured
      (CompiledCacheServer_ensureObjectMetaApplyConfigurationExists M)
    (set_address [''ObjectMetaApplyConfiguration'', ''GenerateName''])"

definition CompiledCacheServer_WithNamespace :: "meta_library \<Rightarrow> builder" where
  "CompiledCacheServer_WithNamespace M = ensured
      (CompiledCacheServer_ensureObjectMetaApplyConfigurationExists M)
    (set_address [''ObjectMetaApplyConfiguration'', ''Namespace''])"

definition CompiledCacheServer_WithUID :: "meta_library \<Rightarrow> builder" where
  "CompiledCacheServer_WithUID M = ensured (CompiledCacheServer_ensureObjectMetaApplyConfigurationExists M)
    (set_address [''ObjectMetaApplyConfiguration'', ''UID''])"

definition CompiledCacheServer_WithResourceVersion :: "meta_library \<Rightarrow> builder" where
  "CompiledCacheServer_WithResourceVersion M = ensured
      (CompiledCacheServer_ensureObjectMetaApplyConfigurationExists M)
    (set_address [''ObjectMetaApplyConfiguration'', ''ResourceVersion''])"

definition CompiledCacheServer_WithGeneration :: "meta_library \<Rightarrow> builder" where
  "CompiledCacheServer_WithGeneration M = ensured
      (CompiledCacheServer_ensureObjectMetaApplyConfigurationExists M)
    (set_address [''ObjectMetaApplyConfiguration'', ''Generation''])"

definition CompiledCacheServer_WithCreationTimestamp :: "meta_library \<Rightarrow> builder" where
  "CompiledCacheServer_WithCreationTimestamp M = ensured
      (CompiledCacheServer_ensureObjectMetaApplyConfigurationExists M)
    (set_address [''ObjectMetaApplyConfiguration'', ''CreationTimestamp''])"

definition CompiledCacheServer_WithDeletionTimestamp :: "meta_library \<Rightarrow> builder" where
  "CompiledCacheServer_WithDeletionTimestamp M = ensured
      (CompiledCacheServer_ensureObjectMetaApplyConfigurationExists M)
    (set_address [''ObjectMetaApplyConfiguration'', ''DeletionTimestamp''])"

definition CompiledCacheServer_WithDeletionGracePeriodSeconds :: "meta_library \<Rightarrow> builder" where
  "CompiledCacheServer_WithDeletionGracePeriodSeconds M = ensured
      (CompiledCacheServer_ensureObjectMetaApplyConfigurationExists M)
    (set_address [''ObjectMetaApplyConfiguration'', ''DeletionGracePeriodSeconds''])"

definition CompiledCacheServer_WithLabels :: "meta_library \<Rightarrow> builder" where
  "CompiledCacheServer_WithLabels M = ensured (CompiledCacheServer_ensureObjectMetaApplyConfigurationExists M)
    (put_entries [''ObjectMetaApplyConfiguration'', ''Labels''])"

definition CompiledCacheServer_WithAnnotations :: "meta_library \<Rightarrow> builder" where
  "CompiledCacheServer_WithAnnotations M = ensured
      (CompiledCacheServer_ensureObjectMetaApplyConfigurationExists M)
    (put_entries [''ObjectMetaApplyConfiguration'', ''Annotations''])"

definition CompiledCacheServer_WithOwnerReferences :: "meta_library \<Rightarrow> (nat \<Rightarrow> nat)
    \<Rightarrow> builder" where
  "CompiledCacheServer_WithOwnerReferences M grow = ensured
      (CompiledCacheServer_ensureObjectMetaApplyConfigurationExists M)
    (append_pointed grow ''nil value passed to WithOwnerReferences'' [''ObjectMetaApplyConfiguration'',
        ''OwnerReferences''])"

definition CompiledCacheServer_WithFinalizers :: "meta_library \<Rightarrow> (nat \<Rightarrow> nat)
    \<Rightarrow> builder" where
  "CompiledCacheServer_WithFinalizers M grow = ensured
      (CompiledCacheServer_ensureObjectMetaApplyConfigurationExists M)
    (append_values grow [''ObjectMetaApplyConfiguration'', ''Finalizers''])"

definition CompiledCacheServer_WithSpec :: "meta_library \<Rightarrow> builder" where
  "CompiledCacheServer_WithSpec M = set_value [''Spec'']"

definition CompiledCacheServer_WithStatus :: "meta_library \<Rightarrow> builder" where
  "CompiledCacheServer_WithStatus M = set_address [''Status'']"

definition new_CompiledCacheServer :: "meta_library \<Rightarrow> string \<Rightarrow> string
    \<Rightarrow> memory \<Rightarrow> (go_value \<times> memory) res" where
  "new_CompiledCacheServer M name namespace m =
    (let (b, m1) = new_struct (zero_struct (fields_CompiledCacheServer M)) m in
     bindE (CompiledCacheServer_WithName M b (Scalar (Text name)) m1) (\<lambda>(_, m2).
     bindE (CompiledCacheServer_WithNamespace M b (Scalar (Text namespace)) m2) (\<lambda>(_, m3).
     bindE (CompiledCacheServer_WithKind M b (Scalar (Text ''CompiledCacheServer'')) m3) (\<lambda>(_, m4).
     bindE (CompiledCacheServer_WithAPIVersion M b (Scalar (Text ''deploy.operator.kcp.io/v1alpha1'')) m4)
         (\<lambda>(_, m5).
     Inr (b, m5))))))"

definition CompiledCacheServer_GetName :: "meta_library \<Rightarrow> go_value \<Rightarrow> memory
    \<Rightarrow> (go_value \<times> memory) res" where
  "CompiledCacheServer_GetName M b m =
    bindE (CompiledCacheServer_ensureObjectMetaApplyConfigurationExists M b m) (get_field
        [''ObjectMetaApplyConfiguration'', ''Name''] b)"

subsection \<open>CompiledFrontProxy\<close>

definition fields_CompiledFrontProxy :: "meta_library \<Rightarrow> (string \<times> field_type) list" where
  "fields_CompiledFrontProxy M =
    [(''TypeMetaApplyConfiguration'', FEmbedded (zero_TypeMetaApplyConfiguration M)),
     (''ObjectMetaApplyConfiguration'', FPointer ''v1.ObjectMetaApplyConfiguration''),
     (''Spec'', FPointer ''CompiledFrontProxySpecApplyConfiguration''),
     (''Status'', FPointer ''operatorv1alpha1.FrontProxyStatusApplyConfiguration'')]"

definition CompiledFrontProxy_ensureObjectMetaApplyConfigurationExists :: "meta_library \<Rightarrow>
    go_value \<Rightarrow> memory \<Rightarrow> memory res" where
  "CompiledFrontProxy_ensureObjectMetaApplyConfigurationExists M =
    ensure_exists ''ObjectMetaApplyConfiguration'' (zero_ObjectMetaApplyConfiguration M)"

definition CompiledFrontProxy_WithKind :: "meta_library \<Rightarrow> builder" where
  "CompiledFrontProxy_WithKind M = set_address [''TypeMetaApplyConfiguration'', ''Kind'']"

definition CompiledFrontProxy_WithAPIVersion :: "meta_library \<Rightarrow> builder" where
  "CompiledFrontProxy_WithAPIVersion M = set_address [''TypeMetaApplyConfiguration'', ''APIVersion'']"

definition CompiledFrontProxy_WithName :: "meta_library \<Rightarrow> builder" where
  "CompiledFrontProxy_WithName M = ensured (CompiledFrontProxy_ensureObjectMetaApplyConfigurationExists M)
    (set_address [''ObjectMetaApplyConfiguration'', ''Name''])"

definition CompiledFrontProxy_WithGenerateName :: "meta_library \<Rightarrow> builder" where
  "CompiledFrontProxy_WithGenerateName M = ensured
      (CompiledFrontProxy_ensureObjectMetaApplyConfigurationExists M)
    (set_address [''ObjectMetaApplyConfiguration'', ''GenerateName''])"

definition CompiledFrontProxy_WithNamespace :: "meta_library \<Rightarrow> builder" where
  "CompiledFrontProxy_WithNamespace M = ensured (CompiledFrontProxy_ensureObjectMetaApplyConfigurationExists M)
    (set_address [''ObjectMetaApplyConfiguration'', ''Namespace''])"

definition CompiledFrontProxy_WithUID :: "meta_library \<Rightarrow> builder" where
  "CompiledFrontProxy_WithUID M = ensured (CompiledFrontProxy_ensureObjectMetaApplyConfigurationExists M)
    (set_address [''ObjectMetaApplyConfiguration'', ''UID''])"

definition CompiledFrontProxy_WithResourceVersion :: "meta_library \<Rightarrow> builder" where
  "CompiledFrontProxy_WithResourceVersion M = ensured
      (CompiledFrontProxy_ensureObjectMetaApplyConfigurationExists M)
    (set_address [''ObjectMetaApplyConfiguration'', ''ResourceVersion''])"

definition CompiledFrontProxy_WithGeneration :: "meta_library \<Rightarrow> builder" where
  "CompiledFrontProxy_WithGeneration M = ensured (CompiledFrontProxy_ensureObjectMetaApplyConfigurationExists M)
    (set_address [''ObjectMetaApplyConfiguration'', ''Generation''])"

definition CompiledFrontProxy_WithCreationTimestamp :: "meta_library \<Rightarrow> builder" where
  "CompiledFrontProxy_WithCreationTimestamp M = ensured
      (CompiledFrontProxy_ensureObjectMetaApplyConfigurationExists M)
    (set_address [''ObjectMetaApplyConfiguration'', ''CreationTimestamp''])"

definition CompiledFrontProxy_WithDeletionTimestamp :: "meta_library \<Rightarrow> builder" where
  "CompiledFrontProxy_WithDeletionTimestamp M = ensured
      (CompiledFrontProxy_ensureObjectMetaApplyConfigurationExists M)
    (set_address [''ObjectMetaApplyConfiguration'', ''DeletionTimestamp''])"

definition CompiledFrontProxy_WithDeletionGracePeriodSeconds :: "meta_library \<Rightarrow> builder" where
  "CompiledFrontProxy_WithDeletionGracePeriodSeconds M = ensured
      (CompiledFrontProxy_ensureObjectMetaApplyConfigurationExists M)
    (set_address [''ObjectMetaApplyConfiguration'', ''DeletionGracePeriodSeconds''])"

definition CompiledFrontProxy_WithLabels :: "meta_library \<Rightarrow> builder" where
  "CompiledFrontProxy_WithLabels M = ensured (CompiledFrontProxy_ensureObjectMetaApplyConfigurationExists M)
    (put_entries [''ObjectMetaApplyConfiguration'', ''Labels''])"

definition CompiledFrontProxy_WithAnnotations :: "meta_library \<Rightarrow> builder" where
  "CompiledFrontProxy_WithAnnotations M = ensured
      (CompiledFrontProxy_ensureObjectMetaApplyConfigurationExists M)
    (put_entries [''ObjectMetaApplyConfiguration'', ''Annotations''])"

definition CompiledFrontProxy_WithOwnerReferences :: "meta_library \<Rightarrow> (nat \<Rightarrow> nat)
    \<Rightarrow> builder" where
  "CompiledFrontProxy_WithOwnerReferences M grow = ensured
      (CompiledFrontProxy_ensureObjectMetaApplyConfigurationExists M)
    (append_pointed grow ''nil value passed to WithOwnerReferences'' [''ObjectMetaApplyConfiguration'',
        ''OwnerReferences''])"

definition CompiledFrontProxy_WithFinalizers :: "meta_library \<Rightarrow> (nat \<Rightarrow> nat)
    \<Rightarrow> builder" where
  "CompiledFrontProxy_WithFinalizers M grow = ensured
      (CompiledFrontProxy_ensureObjectMetaApplyConfigurationExists M)
    (append_values grow [''ObjectMetaApplyConfiguration'', ''Finalizers''])"

definition CompiledFrontProxy_WithSpec :: "meta_library \<Rightarrow> builder" where
  "CompiledFrontProxy_WithSpec M = set_value [''Spec'']"

definition CompiledFrontProxy_WithStatus :: "meta_library \<Rightarrow> builder" where
  "CompiledFrontProxy_WithStatus M = set_value [''Status'']"

definition new_CompiledFrontProxy :: "meta_library \<Rightarrow> string \<Rightarrow> string \<Rightarrow>
    memory \<Rightarrow> (go_value \<times> memory) res" where
  "new_CompiledFrontProxy M name namespace m =
    (let (b, m1) = new_struct (zero_struct (fields_CompiledFrontProxy M)) m in
     bindE (CompiledFrontProxy_WithName M b (Scalar (Text name)) m1) (\<lambda>(_, m2).
     bindE (CompiledFrontProxy_WithNamespace M b (Scalar (Text namespace)) m2) (\<lambda>(_, m3).
     bindE (CompiledFrontProxy_WithKind M b (Scalar (Text ''CompiledFrontProxy'')) m3) (\<lambda>(_, m4).
     bindE (CompiledFrontProxy_WithAPIVersion M b (Scalar (Text ''deploy.operator.kcp.io/v1alpha1'')) m4)
         (\<lambda>(_, m5).
     Inr (b, m5))))))"

definition CompiledFrontProxy_GetName :: "meta_library \<Rightarrow> go_value \<Rightarrow> memory
    \<Rightarrow> (go_value \<times> memory) res" where
  "CompiledFrontProxy_GetName M b m =
    bindE (CompiledFrontProxy_ensureObjectMetaApplyConfigurationExists M b m) (get_field
        [''ObjectMetaApplyConfiguration'', ''Name''] b)"

subsection \<open>CompiledRootShard\<close>

definition fields_CompiledRootShard :: "meta_library \<Rightarrow> (string \<times> field_type) list" where
  "fields_CompiledRootShard M =
    [(''TypeMetaApplyConfiguration'', FEmbedded (zero_TypeMetaApplyConfiguration M)),
     (''ObjectMetaApplyConfiguration'', FPointer ''v1.ObjectMetaApplyConfiguration''),
     (''Spec'', FPointer ''CompiledRootShardSpecApplyConfiguration''),
     (''Status'', FPointer ''operatorv1alpha1.RootShardStatusApplyConfiguration'')]"

definition CompiledRootShard_ensureObjectMetaApplyConfigurationExists :: "meta_library \<Rightarrow>
    go_value \<Rightarrow> memory \<Rightarrow> memory res" where
  "CompiledRootShard_ensureObjectMetaApplyConfigurationExists M =
    ensure_exists ''ObjectMetaApplyConfiguration'' (zero_ObjectMetaApplyConfiguration M)"

definition CompiledRootShard_WithKind :: "meta_library \<Rightarrow> builder" where
  "CompiledRootShard_WithKind M = set_address [''TypeMetaApplyConfiguration'', ''Kind'']"

definition CompiledRootShard_WithAPIVersion :: "meta_library \<Rightarrow> builder" where
  "CompiledRootShard_WithAPIVersion M = set_address [''TypeMetaApplyConfiguration'', ''APIVersion'']"

definition CompiledRootShard_WithName :: "meta_library \<Rightarrow> builder" where
  "CompiledRootShard_WithName M = ensured (CompiledRootShard_ensureObjectMetaApplyConfigurationExists M)
    (set_address [''ObjectMetaApplyConfiguration'', ''Name''])"

definition CompiledRootShard_WithGenerateName :: "meta_library \<Rightarrow> builder" where
  "CompiledRootShard_WithGenerateName M = ensured (CompiledRootShard_ensureObjectMetaApplyConfigurationExists M)
    (set_address [''ObjectMetaApplyConfiguration'', ''GenerateName''])"

definition CompiledRootShard_WithNamespace :: "meta_library \<Rightarrow> builder" where
  "CompiledRootShard_WithNamespace M = ensured (CompiledRootShard_ensureObjectMetaApplyConfigurationExists M)
    (set_address [''ObjectMetaApplyConfiguration'', ''Namespace''])"

definition CompiledRootShard_WithUID :: "meta_library \<Rightarrow> builder" where
  "CompiledRootShard_WithUID M = ensured (CompiledRootShard_ensureObjectMetaApplyConfigurationExists M)
    (set_address [''ObjectMetaApplyConfiguration'', ''UID''])"

definition CompiledRootShard_WithResourceVersion :: "meta_library \<Rightarrow> builder" where
  "CompiledRootShard_WithResourceVersion M = ensured
      (CompiledRootShard_ensureObjectMetaApplyConfigurationExists M)
    (set_address [''ObjectMetaApplyConfiguration'', ''ResourceVersion''])"

definition CompiledRootShard_WithGeneration :: "meta_library \<Rightarrow> builder" where
  "CompiledRootShard_WithGeneration M = ensured (CompiledRootShard_ensureObjectMetaApplyConfigurationExists M)
    (set_address [''ObjectMetaApplyConfiguration'', ''Generation''])"

definition CompiledRootShard_WithCreationTimestamp :: "meta_library \<Rightarrow> builder" where
  "CompiledRootShard_WithCreationTimestamp M = ensured
      (CompiledRootShard_ensureObjectMetaApplyConfigurationExists M)
    (set_address [''ObjectMetaApplyConfiguration'', ''CreationTimestamp''])"

definition CompiledRootShard_WithDeletionTimestamp :: "meta_library \<Rightarrow> builder" where
  "CompiledRootShard_WithDeletionTimestamp M = ensured
      (CompiledRootShard_ensureObjectMetaApplyConfigurationExists M)
    (set_address [''ObjectMetaApplyConfiguration'', ''DeletionTimestamp''])"

definition CompiledRootShard_WithDeletionGracePeriodSeconds :: "meta_library \<Rightarrow> builder" where
  "CompiledRootShard_WithDeletionGracePeriodSeconds M = ensured
      (CompiledRootShard_ensureObjectMetaApplyConfigurationExists M)
    (set_address [''ObjectMetaApplyConfiguration'', ''DeletionGracePeriodSeconds''])"

definition CompiledRootShard_WithLabels :: "meta_library \<Rightarrow> builder" where
  "CompiledRootShard_WithLabels M = ensured (CompiledRootShard_ensureObjectMetaApplyConfigurationExists M)
    (put_entries [''ObjectMetaApplyConfiguration'', ''Labels''])"

definition CompiledRootShard_WithAnnotations :: "meta_library \<Rightarrow> builder" where
  "CompiledRootShard_WithAnnotations M = ensured (CompiledRootShard_ensureObjectMetaApplyConfigurationExists M)
    (put_entries [''ObjectMetaApplyConfiguration'', ''Annotations''])"

definition CompiledRootShard_WithOwnerReferences :: "meta_library \<Rightarrow> (nat \<Rightarrow> nat)
    \<Rightarrow> builder" where
  "CompiledRootShard_WithOwnerReferences M grow = ensured
      (CompiledRootShard_ensureObjectMetaApplyConfigurationExists M)
    (append_pointed grow ''nil value passed to WithOwnerReferences'' [''ObjectMetaApplyConfiguration'',
        ''OwnerReferences''])"

definition CompiledRootShard_WithFinalizers :: "meta_library \<Rightarrow> (nat \<Rightarrow> nat)
    \<Rightarrow> builder" where
  "CompiledRootShard_WithFinalizers M grow = ensured
      (CompiledRootShard_ensureObjectMetaApplyConfigurationExists M)
    (append_values grow [''ObjectMetaApplyConfiguration'', ''Finalizers''])"

definition CompiledRootShard_WithSpec :: "meta_library \<Rightarrow> builder" where
  "CompiledRootShard_WithSpec M = set_value [''Spec'']"

definition CompiledRootShard_WithStatus :: "meta_library \<Rightarrow> builder" where
  "CompiledRootShard_WithStatus M = set_value [''Status'']"

definition new_CompiledRootShard :: "meta_library \<Rightarrow> string \<Rightarrow> string \<Rightarrow>
    memory \<Rightarrow> (go_value \<times> memory) res" where
  "new_CompiledRootShard M name namespace m =
    (let (b, m1) = new_struct (zero_struct (fields_CompiledRootShard M)) m in
     bindE (CompiledRootShard_WithName M b (Scalar (Text name)) m1) (\<lambda>(_, m2).
     bindE (CompiledRootShard_WithNamespace M b (Scalar (Text namespace)) m2) (\<lambda>(_, m3).
     bindE (CompiledRootShard_WithKind M b (Scalar (Text ''CompiledRootShard'')) m3) (\<lambda>(_, m4).
     bindE (CompiledRootShard_WithAPIVersion M b (Scalar (Text ''deploy.operator.kcp.io/v1alpha1'')) m4)
         (\<lambda>(_, m5).
     Inr (b, m5))))))"

definition CompiledRootShard_GetName :: "meta_library \<Rightarrow> go_value \<Rightarrow> memory
    \<Rightarrow> (go_value \<times> memory) res" where
  "CompiledRootShard_GetName M b m =
    bindE (CompiledRootShard_ensureObjectMetaApplyConfigurationExists M b m) (get_field
        [''ObjectMetaApplyConfiguration'', ''Name''] b)"

subsection \<open>CompiledShard\<close>

definition fields_CompiledShard :: "meta_library \<Rightarrow> (string \<times> field_type) list" where
  "fields_CompiledShard M =
    [(''TypeMetaApplyConfiguration'', FEmbedded (zero_TypeMetaApplyConfiguration M)),
     (''ObjectMetaApplyConfiguration'', FPointer ''v1.ObjectMetaApplyConfiguration''),
     (''Spec'', FPointer ''CompiledShardSpecApplyConfiguration''),
     (''Status'', FPointer ''operatorv1alpha1.ShardStatusApplyConfiguration'')]"

definition CompiledShard_ensureObjectMetaApplyConfigurationExists :: "meta_library \<Rightarrow> go_value
    \<Rightarrow> memory \<Rightarrow> memory res" where
  "CompiledShard_ensureObjectMetaApplyConfigurationExists M =
    ensure_exists ''ObjectMetaApplyConfiguration'' (zero_ObjectMetaApplyConfiguration M)"

definition CompiledShard_WithKind :: "meta_library \<Rightarrow> builder" where
  "CompiledShard_WithKind M = set_address [''TypeMetaApplyConfiguration'', ''Kind'']"

definition CompiledShard_WithAPIVersion :: "meta_library \<Rightarrow> builder" where
  "CompiledShard_WithAPIVersion M = set_address [''TypeMetaApplyConfiguration'', ''APIVersion'']"

definition CompiledShard_WithName :: "meta_library \<Rightarrow> builder" where
  "CompiledShard_WithName M = ensured (CompiledShard_ensureObjectMetaApplyConfigurationExists M)
    (set_address [''ObjectMetaApplyConfiguration'', ''Name''])"

definition CompiledShard_WithGenerateName :: "meta_library \<Rightarrow> builder" where
  "CompiledShard_WithGenerateName M = ensured (CompiledShard_ensureObjectMetaApplyConfigurationExists M)
    (set_address [''ObjectMetaApplyConfiguration'', ''GenerateName''])"

definition CompiledShard_WithNamespace :: "meta_library \<Rightarrow> builder" where
  "CompiledShard_WithNamespace M = ensured (CompiledShard_ensureObjectMetaApplyConfigurationExists M)
    (set_address [''ObjectMetaApplyConfiguration'', ''Namespace''])"

definition CompiledShard_WithUID :: "meta_library \<Rightarrow> builder" where
  "CompiledShard_WithUID M = ensured (CompiledShard_ensureObjectMetaApplyConfigurationExists M)
    (set_address [''ObjectMetaApplyConfiguration'', ''UID''])"

definition CompiledShard_WithResourceVersion :: "meta_library \<Rightarrow> builder" where
  "CompiledShard_WithResourceVersion M = ensured (CompiledShard_ensureObjectMetaApplyConfigurationExists M)
    (set_address [''ObjectMetaApplyConfiguration'', ''ResourceVersion''])"

definition CompiledShard_WithGeneration :: "meta_library \<Rightarrow> builder" where
  "CompiledShard_WithGeneration M = ensured (CompiledShard_ensureObjectMetaApplyConfigurationExists M)
    (set_address [''ObjectMetaApplyConfiguration'', ''Generation''])"

definition CompiledShard_WithCreationTimestamp :: "meta_library \<Rightarrow> builder" where
  "CompiledShard_WithCreationTimestamp M = ensured (CompiledShard_ensureObjectMetaApplyConfigurationExists M)
    (set_address [''ObjectMetaApplyConfiguration'', ''CreationTimestamp''])"

definition CompiledShard_WithDeletionTimestamp :: "meta_library \<Rightarrow> builder" where
  "CompiledShard_WithDeletionTimestamp M = ensured (CompiledShard_ensureObjectMetaApplyConfigurationExists M)
    (set_address [''ObjectMetaApplyConfiguration'', ''DeletionTimestamp''])"

definition CompiledShard_WithDeletionGracePeriodSeconds :: "meta_library \<Rightarrow> builder" where
  "CompiledShard_WithDeletionGracePeriodSeconds M = ensured
      (CompiledShard_ensureObjectMetaApplyConfigurationExists M)
    (set_address [''ObjectMetaApplyConfiguration'', ''DeletionGracePeriodSeconds''])"

definition CompiledShard_WithLabels :: "meta_library \<Rightarrow> builder" where
  "CompiledShard_WithLabels M = ensured (CompiledShard_ensureObjectMetaApplyConfigurationExists M)
    (put_entries [''ObjectMetaApplyConfiguration'', ''Labels''])"

definition CompiledShard_WithAnnotations :: "meta_library \<Rightarrow> builder" where
  "CompiledShard_WithAnnotations M = ensured (CompiledShard_ensureObjectMetaApplyConfigurationExists M)
    (put_entries [''ObjectMetaApplyConfiguration'', ''Annotations''])"

definition CompiledShard_WithOwnerReferences :: "meta_library \<Rightarrow> (nat \<Rightarrow> nat)
    \<Rightarrow> builder" where
  "CompiledShard_WithOwnerReferences M grow = ensured (CompiledShard_ensureObjectMetaApplyConfigurationExists M)
    (append_pointed grow ''nil value passed to WithOwnerReferences'' [''ObjectMetaApplyConfiguration'',
        ''OwnerReferences''])"

definition CompiledShard_WithFinalizers :: "meta_library \<Rightarrow> (nat \<Rightarrow> nat)
    \<Rightarrow> builder" where
  "CompiledShard_WithFinalizers M grow = ensured (CompiledShard_ensureObjectMetaApplyConfigurationExists M)
    (append_values grow [''ObjectMetaApplyConfiguration'', ''Finalizers''])"

definition CompiledShard_WithSpec :: "meta_library \<Rightarrow> builder" where
  "CompiledShard_WithSpec M = set_value [''Spec'']"

definition CompiledShard_WithStatus :: "meta_library \<Rightarrow> builder" where
  "CompiledShard_WithStatus M = set_value [''Status'']"

definition new_CompiledShard :: "meta_library \<Rightarrow> string \<Rightarrow> string \<Rightarrow>
    memory \<Rightarrow> (go_value \<times> memory) res" where
  "new_CompiledShard M name namespace m =
    (let (b, m1) = new_struct (zero_struct (fields_CompiledShard M)) m in
     bindE (CompiledShard_WithName M b (Scalar (Text name)) m1) (\<lambda>(_, m2).
     bindE (CompiledShard_WithNamespace M b (Scalar (Text namespace)) m2) (\<lambda>(_, m3).
     bindE (CompiledShard_WithKind M b (Scalar (Text ''CompiledShard'')) m3) (\<lambda>(_, m4).
     bindE (CompiledShard_WithAPIVersion M b (Scalar (Text ''deploy.operator.kcp.io/v1alpha1'')) m4)
         (\<lambda>(_, m5).
     Inr (b, m5))))))"

definition CompiledShard_GetName :: "meta_library \<Rightarrow> go_value \<Rightarrow> memory
    \<Rightarrow> (go_value \<times> memory) res" where
  "CompiledShard_GetName M b m =
    bindE (CompiledShard_ensureObjectMetaApplyConfigurationExists M b m) (get_field
        [''ObjectMetaApplyConfiguration'', ''Name''] b)"

subsection \<open>CompiledVirtualWorkspace\<close>

definition fields_CompiledVirtualWorkspace :: "meta_library \<Rightarrow> (string \<times> field_type)
    list" where
  "fields_CompiledVirtualWorkspace M =
    [(''TypeMetaApplyConfiguration'', FEmbedded (zero_TypeMetaApplyConfiguration M)),
     (''ObjectMetaApplyConfiguration'', FPointer ''v1.ObjectMetaApplyConfiguration''),
     (''Spec'', FPointer ''CompiledVirtualWorkspaceSpecApplyConfiguration''),
     (''Status'', FPointer ''operatorv1alpha1.VirtualWorkspaceStatusApplyConfiguration'')]"

definition CompiledVirtualWorkspace_ensureObjectMetaApplyConfigurationExists :: "meta_library
    \<Rightarrow> go_value \<Rightarrow> memory \<Rightarrow> memory res" where
  "CompiledVirtualWorkspace_ensureObjectMetaApplyConfigurationExists M =
    ensure_exists ''ObjectMetaApplyConfiguration'' (zero_ObjectMetaApplyConfiguration M)"

definition CompiledVirtualWorkspace_WithKind :: "meta_library \<Rightarrow> builder" where
  "CompiledVirtualWorkspace_WithKind M = set_address [''TypeMetaApplyConfiguration'', ''Kind'']"

definition CompiledVirtualWorkspace_WithAPIVersion :: "meta_library \<Rightarrow> builder" where
  "CompiledVirtualWorkspace_WithAPIVersion M = set_address [''TypeMetaApplyConfiguration'', ''APIVersion'']"

definition CompiledVirtualWorkspace_WithName :: "meta_library \<Rightarrow> builder" where
  "CompiledVirtualWorkspace_WithName M = ensured
      (CompiledVirtualWorkspace_ensureObjectMetaApplyConfigurationExists M)
    (set_address [''ObjectMetaApplyConfiguration'', ''Name''])"

definition CompiledVirtualWorkspace_WithGenerateName :: "meta_library \<Rightarrow> builder" where
  "CompiledVirtualWorkspace_WithGenerateName M = ensured
      (CompiledVirtualWorkspace_ensureObjectMetaApplyConfigurationExists M)
    (set_address [''ObjectMetaApplyConfiguration'', ''GenerateName''])"

definition CompiledVirtualWorkspace_WithNamespace :: "meta_library \<Rightarrow> builder" where
  "CompiledVirtualWorkspace_WithNamespace M = ensured
      (CompiledVirtualWorkspace_ensureObjectMetaApplyConfigurationExists M)
    (set_address [''ObjectMetaApplyConfiguration'', ''Namespace''])"

definition CompiledVirtualWorkspace_WithUID :: "meta_library \<Rightarrow> builder" where
  "CompiledVirtualWorkspace_WithUID M = ensured
      (CompiledVirtualWorkspace_ensureObjectMetaApplyConfigurationExists M)
    (set_address [''ObjectMetaApplyConfiguration'', ''UID''])"

definition CompiledVirtualWorkspace_WithResourceVersion :: "meta_library \<Rightarrow> builder" where
  "CompiledVirtualWorkspace_WithResourceVersion M = ensured
      (CompiledVirtualWorkspace_ensureObjectMetaApplyConfigurationExists M)
    (set_address [''ObjectMetaApplyConfiguration'', ''ResourceVersion''])"

definition CompiledVirtualWorkspace_WithGeneration :: "meta_library \<Rightarrow> builder" where
  "CompiledVirtualWorkspace_WithGeneration M = ensured
      (CompiledVirtualWorkspace_ensureObjectMetaApplyConfigurationExists M)
    (set_address [''ObjectMetaApplyConfiguration'', ''Generation''])"

definition CompiledVirtualWorkspace_WithCreationTimestamp :: "meta_library \<Rightarrow> builder" where
  "CompiledVirtualWorkspace_WithCreationTimestamp M = ensured
      (CompiledVirtualWorkspace_ensureObjectMetaApplyConfigurationExists M)
    (set_address [''ObjectMetaApplyConfiguration'', ''CreationTimestamp''])"

definition CompiledVirtualWorkspace_WithDeletionTimestamp :: "meta_library \<Rightarrow> builder" where
  "CompiledVirtualWorkspace_WithDeletionTimestamp M = ensured
      (CompiledVirtualWorkspace_ensureObjectMetaApplyConfigurationExists M)
    (set_address [''ObjectMetaApplyConfiguration'', ''DeletionTimestamp''])"

definition CompiledVirtualWorkspace_WithDeletionGracePeriodSeconds :: "meta_library \<Rightarrow> builder" where
  "CompiledVirtualWorkspace_WithDeletionGracePeriodSeconds M = ensured
      (CompiledVirtualWorkspace_ensureObjectMetaApplyConfigurationExists M)
    (set_address [''ObjectMetaApplyConfiguration'', ''DeletionGracePeriodSeconds''])"

definition CompiledVirtualWorkspace_WithLabels :: "meta_library \<Rightarrow> builder" where
  "CompiledVirtualWorkspace_WithLabels M = ensured
      (CompiledVirtualWorkspace_ensureObjectMetaApplyConfigurationExists M)
    (put_entries [''ObjectMetaApplyConfiguration'', ''Labels''])"

definition CompiledVirtualWorkspace_WithAnnotations :: "meta_library \<Rightarrow> builder" where
  "CompiledVirtualWorkspace_WithAnnotations M = ensured
      (CompiledVirtualWorkspace_ensureObjectMetaApplyConfigurationExists M)
    (put_entries [''ObjectMetaApplyConfiguration'', ''Annotations''])"

definition CompiledVirtualWorkspace_WithOwnerReferences :: "meta_library \<Rightarrow> (nat \<Rightarrow>
    nat) \<Rightarrow> builder" where
  "CompiledVirtualWorkspace_WithOwnerReferences M grow = ensured
      (CompiledVirtualWorkspace_ensureObjectMetaApplyConfigurationExists M)
    (append_pointed grow ''nil value passed to WithOwnerReferences'' [''ObjectMetaApplyConfiguration'',
        ''OwnerReferences''])"

definition CompiledVirtualWorkspace_WithFinalizers :: "meta_library \<Rightarrow> (nat \<Rightarrow> nat)
    \<Rightarrow> builder" where
  "CompiledVirtualWorkspace_WithFinalizers M grow = ensured
      (CompiledVirtualWorkspace_ensureObjectMetaApplyConfigurationExists M)
    (append_values grow [''ObjectMetaApplyConfiguration'', ''Finalizers''])"

definition CompiledVirtualWorkspace_WithSpec :: "meta_library \<Rightarrow> builder" where
  "CompiledVirtualWorkspace_WithSpec M = set_value [''Spec'']"

definition CompiledVirtualWorkspace_WithStatus :: "meta_library \<Rightarrow> builder" where
  "CompiledVirtualWorkspace_WithStatus M = set_value [''Status'']"

definition new_CompiledVirtualWorkspace :: "meta_library \<Rightarrow> string \<Rightarrow> string
    \<Rightarrow> memory \<Rightarrow> (go_value \<times> memory) res" where
  "new_CompiledVirtualWorkspace M name namespace m =
    (let (b, m1) = new_struct (zero_struct (fields_CompiledVirtualWorkspace M)) m in
     bindE (CompiledVirtualWorkspace_WithName M b (Scalar (Text name)) m1) (\<lambda>(_, m2).
     bindE (CompiledVirtualWorkspace_WithNamespace M b (Scalar (Text namespace)) m2) (\<lambda>(_, m3).
     bindE (CompiledVirtualWorkspace_WithKind M b (Scalar (Text ''CompiledVirtualWorkspace'')) m3)
         (\<lambda>(_, m4).
     bindE (CompiledVirtualWorkspace_WithAPIVersion M b (Scalar (Text
         ''deploy.operator.kcp.io/v1alpha1'')) m4) (\<lambda>(_, m5).
     Inr (b, m5))))))"

definition CompiledVirtualWorkspace_GetName :: "meta_library \<Rightarrow> go_value \<Rightarrow> memory
    \<Rightarrow> (go_value \<times> memory) res" where
  "CompiledVirtualWorkspace_GetName M b m =
    bindE (CompiledVirtualWorkspace_ensureObjectMetaApplyConfigurationExists M b m) (get_field
        [''ObjectMetaApplyConfiguration'', ''Name''] b)"

chapter \<open>Kinds\<close>

text \<open>
  \<open>ForKind\<close> of \<open>sdk/applyconfiguration/utils.go\<close>: the apply configuration for a
      kind. A case of the switch is the
  kind, the type of the struct that is returned, and its zero value.
\<close>

record GroupVersionKind =
  gvk_Group :: string
  gvk_Version :: string
  gvk_Kind :: string

definition WithKind :: "string \<times> string \<Rightarrow> string \<Rightarrow> GroupVersionKind" where
  "WithKind gv k = \<lparr>gvk_Group = fst gv, gvk_Version = snd gv, gvk_Kind = k\<rparr>"

definition ForKind_deploy_cases :: "meta_library \<Rightarrow> (GroupVersionKind \<times> string \<times>
    go_value) list" where
  "ForKind_deploy_cases M = (let gv = deploy_SchemeGroupVersion in [
    (WithKind gv ''CompiledCacheServer'', ''CompiledCacheServerApplyConfiguration'', zero_struct
        (fields_CompiledCacheServer M)),
    (WithKind gv ''CompiledCacheServerSpec'', ''CompiledCacheServerSpecApplyConfiguration'', zero_struct
        fields_CompiledCacheServerSpec),
    (WithKind gv ''CompiledFrontProxy'', ''CompiledFrontProxyApplyConfiguration'', zero_struct
        (fields_CompiledFrontProxy M)),
    (WithKind gv ''CompiledFrontProxySpec'', ''CompiledFrontProxySpecApplyConfiguration'', zero_struct
        fields_CompiledFrontProxySpec),
    (WithKind gv ''CompiledRootShard'', ''CompiledRootShardApplyConfiguration'', zero_struct
        (fields_CompiledRootShard M)),
    (WithKind gv ''CompiledRootShardSpec'', ''CompiledRootShardSpecApplyConfiguration'', zero_struct
        fields_CompiledRootShardSpec),
    (WithKind gv ''CompiledShard'', ''CompiledShardApplyConfiguration'', zero_struct (fields_CompiledShard M)),
    (WithKind gv ''CompiledShardSpec'', ''CompiledShardSpecApplyConfiguration'', zero_struct
        fields_CompiledShardSpec),
    (WithKind gv ''CompiledVirtualWorkspace'', ''CompiledVirtualWorkspaceApplyConfiguration'', zero_struct
        (fields_CompiledVirtualWorkspace M)),
    (WithKind gv ''CompiledVirtualWorkspaceSpec'', ''CompiledVirtualWorkspaceSpecApplyConfiguration'',
        zero_struct fields_CompiledVirtualWorkspaceSpec),
    (WithKind gv ''NamedRootShardSpec'', ''NamedRootShardSpecApplyConfiguration'', zero_struct
        fields_NamedRootShardSpec),
    (WithKind gv ''NamedShardSpec'', ''NamedShardSpecApplyConfiguration'', zero_struct fields_NamedShardSpec),
    (WithKind gv ''NamedVirtualWorkspaceSpec'', ''NamedVirtualWorkspaceSpecApplyConfiguration'',
        zero_struct fields_NamedVirtualWorkspaceSpec)])"

definition ForKind_operator_cases :: "meta_library \<Rightarrow> (GroupVersionKind \<times> string
    \<times> go_value) list" where
  "ForKind_operator_cases M = (let gv = operator_SchemeGroupVersion in [
    (WithKind gv ''AuditPolicySpec'', ''AuditPolicySpecApplyConfiguration'', zero_struct
        fields_AuditPolicySpec),
    (WithKind gv ''AuditSpec'', ''AuditSpecApplyConfiguration'', zero_struct fields_AuditSpec),
    (WithKind gv ''AuditWebhookSpec'', ''AuditWebhookSpecApplyConfiguration'', zero_struct
        fields_AuditWebhookSpec),
    (WithKind gv ''AuthenticationWebhookSpec'', ''AuthenticationWebhookSpecApplyConfiguration'',
        zero_struct fields_AuthenticationWebhookSpec),
    (WithKind gv ''AuthorizationSpec'', ''AuthorizationSpecApplyConfiguration'', zero_struct
        fields_AuthorizationSpec),
    (WithKind gv ''AuthorizationWebhookSpec'', ''AuthorizationWebhookSpecApplyConfiguration'', zero_struct
        fields_AuthorizationWebhookSpec),
    (WithKind gv ''AuthSpec'', ''AuthSpecApplyConfiguration'', zero_struct fields_AuthSpec),
    (WithKind gv ''CacheServer'', ''CacheServerApplyConfiguration'', zero_struct (fields_CacheServer M)),
    (WithKind gv ''CacheServerSpec'', ''CacheServerSpecApplyConfiguration'', zero_struct
        fields_CacheServerSpec),
    (WithKind gv ''CertificateMetadataTemplate'', ''CertificateMetadataTemplateApplyConfiguration'',
        zero_struct fields_CertificateMetadataTemplate),
    (WithKind gv ''CertificatePrivateKeyTemplate'', ''CertificatePrivateKeyTemplateApplyConfiguration'',
        zero_struct fields_CertificatePrivateKeyTemplate),
    (WithKind gv ''Certificates'', ''CertificatesApplyConfiguration'', zero_struct fields_Certificates),
    (WithKind gv ''CertificateSecretTemplate'', ''CertificateSecretTemplateApplyConfiguration'',
        zero_struct fields_CertificateSecretTemplate),
    (WithKind gv ''CertificateSpecTemplate'', ''CertificateSpecTemplateApplyConfiguration'', zero_struct
        fields_CertificateSpecTemplate),
    (WithKind gv ''CertificateTemplate'', ''CertificateTemplateApplyConfiguration'', zero_struct
        fields_CertificateTemplate),
    (WithKind gv ''CommonShardSpec'', ''CommonShardSpecApplyConfiguration'', zero_struct
        fields_CommonShardSpec),
    (WithKind gv ''DeploymentMetadataTemplate'', ''DeploymentMetadataTemplateApplyConfiguration'',
        zero_struct fields_DeploymentMetadataTemplate),
    (WithKind gv ''DeploymentSpecTemplate'', ''DeploymentSpecTemplateApplyConfiguration'', zero_struct
        fields_DeploymentSpecTemplate),
    (WithKind gv ''DeploymentTemplate'', ''DeploymentTemplateApplyConfiguration'', zero_struct
        fields_DeploymentTemplate),
    (WithKind gv ''EmbeddedCacheConfiguration'', ''EmbeddedCacheConfigurationApplyConfiguration'',
        zero_struct fields_EmbeddedCacheConfiguration),
    (WithKind gv ''EtcdConfig'', ''EtcdConfigApplyConfiguration'', zero_struct fields_EtcdConfig),
    (WithKind gv ''EtcdTLSConfig'', ''EtcdTLSConfigApplyConfiguration'', zero_struct fields_EtcdTLSConfig),
    (WithKind gv ''ExternalConfig'', ''ExternalConfigApplyConfiguration'', zero_struct fields_ExternalConfig),
    (WithKind gv ''FrontProxy'', ''FrontProxyApplyConfiguration'', zero_struct (fields_FrontProxy M)),
    (WithKind gv ''FrontProxySpec'', ''FrontProxySpecApplyConfiguration'', zero_struct fields_FrontProxySpec),
    (WithKind gv ''FrontProxyStatus'', ''FrontProxyStatusApplyConfiguration'', zero_struct
        fields_FrontProxyStatus),
    (WithKind gv ''ImageSpec'', ''ImageSpecApplyConfiguration'', zero_struct fields_ImageSpec),
    (WithKind gv ''Kubeconfig'', ''KubeconfigApplyConfiguration'', zero_struct (fields_Kubeconfig M)),
    (WithKind gv ''KubeconfigAuthorization'', ''KubeconfigAuthorizationApplyConfiguration'', zero_struct
        fields_KubeconfigAuthorization),
    (WithKind gv ''KubeconfigAuthorizationStatus'', ''KubeconfigAuthorizationStatusApplyConfiguration'',
        zero_struct fields_KubeconfigAuthorizationStatus),
    (WithKind gv ''KubeconfigClusterRoleBindings'', ''KubeconfigClusterRoleBindingsApplyConfiguration'',
        zero_struct fields_KubeconfigClusterRoleBindings),
    (WithKind gv ''KubeconfigSpec'', ''KubeconfigSpecApplyConfiguration'', zero_struct fields_KubeconfigSpec),
    (WithKind gv ''KubeconfigStatus'', ''KubeconfigStatusApplyConfiguration'', zero_struct
        fields_KubeconfigStatus),
    (WithKind gv ''KubeconfigTarget'', ''KubeconfigTargetApplyConfiguration'', zero_struct
        fields_KubeconfigTarget),
    (WithKind gv ''LocalDataKeyReference'', ''LocalDataKeyReferenceApplyConfiguration'', zero_struct
        fields_LocalDataKeyReference),
    (WithKind gv ''LoggingSpec'', ''LoggingSpecApplyConfiguration'', zero_struct fields_LoggingSpec),
    (WithKind gv ''ObjectReference'', ''ObjectReferenceApplyConfiguration'', zero_struct
        fields_ObjectReference),
    (WithKind gv ''OIDCCAFileRef'', ''OIDCCAFileRefApplyConfiguration'', zero_struct fields_OIDCCAFileRef),
    (WithKind gv ''OIDCConfiguration'', ''OIDCConfigurationApplyConfiguration'', zero_struct
        fields_OIDCConfiguration),
    (WithKind gv ''PathMappingEntry'', ''PathMappingEntryApplyConfiguration'', zero_struct
        fields_PathMappingEntry),
    (WithKind gv ''PodMetadataTemplate'', ''PodMetadataTemplateApplyConfiguration'', zero_struct
        fields_PodMetadataTemplate),
    (WithKind gv ''PodSpecTemplate'', ''PodSpecTemplateApplyConfiguration'', zero_struct
        fields_PodSpecTemplate),
    (WithKind gv ''PodTemplateSpec'', ''PodTemplateSpecApplyConfiguration'', zero_struct
        fields_PodTemplateSpec),
    (WithKind gv ''RootShard'', ''RootShardApplyConfiguration'', zero_struct (fields_RootShard M)),
    (WithKind gv ''RootShardCacheConfig'', ''RootShardCacheConfigApplyConfiguration'', zero_struct
        fields_RootShardCacheConfig),
    (WithKind gv ''RootShardConfig'', ''RootShardConfigApplyConfiguration'', zero_struct
        fields_RootShardConfig),
    (WithKind gv ''RootShardProxySpec'', ''RootShardProxySpecApplyConfiguration'', zero_struct
        fields_RootShardProxySpec),
    (WithKind gv ''RootShardSpec'', ''RootShardSpecApplyConfiguration'', zero_struct fields_RootShardSpec),
    (WithKind gv ''RootShardStatus'', ''RootShardStatusApplyConfiguration'', zero_struct
        fields_RootShardStatus),
    (WithKind gv ''ServiceAccountAuthentication'', ''ServiceAccountAuthenticationApplyConfiguration'',
        zero_struct fields_ServiceAccountAuthentication),
    (WithKind gv ''ServiceMetadataTemplate'', ''ServiceMetadataTemplateApplyConfiguration'', zero_struct
        fields_ServiceMetadataTemplate),
    (WithKind gv ''ServiceSpecTemplate'', ''ServiceSpecTemplateApplyConfiguration'', zero_struct
        fields_ServiceSpecTemplate),
    (WithKind gv ''ServiceTemplate'', ''ServiceTemplateApplyConfiguration'', zero_struct
        fields_ServiceTemplate),
    (WithKind gv ''Shard'', ''ShardApplyConfiguration'', zero_struct (fields_Shard M)),
    (WithKind gv ''ShardCacheConfig'', ''ShardCacheConfigApplyConfiguration'', zero_struct
        fields_ShardCacheConfig),
    (WithKind gv ''ShardReference'', ''ShardReferenceApplyConfiguration'', zero_struct fields_ShardReference),
    (WithKind gv ''ShardSpec'', ''ShardSpecApplyConfiguration'', zero_struct fields_ShardSpec),
    (WithKind gv ''ShardStatus'', ''ShardStatusApplyConfiguration'', zero_struct fields_ShardStatus),
    (WithKind gv ''TokenAuthFileSpec'', ''TokenAuthFileSpecApplyConfiguration'', zero_struct
        fields_TokenAuthFileSpec),
    (WithKind gv ''VirtualWorkspace'', ''VirtualWorkspaceApplyConfiguration'', zero_struct
        (fields_VirtualWorkspace M)),
    (WithKind gv ''VirtualWorkspaceInitContainer'', ''VirtualWorkspaceInitContainerApplyConfiguration'',
        zero_struct fields_VirtualWorkspaceInitContainer),
    (WithKind gv ''VirtualWorkspaceSpec'', ''VirtualWorkspaceSpecApplyConfiguration'', zero_struct
        fields_VirtualWorkspaceSpec),
    (WithKind gv ''VirtualWorkspaceStatus'', ''VirtualWorkspaceStatusApplyConfiguration'', zero_struct
        fields_VirtualWorkspaceStatus),
    (WithKind gv ''VirtualWorkspaceTarget'', ''VirtualWorkspaceTargetApplyConfiguration'', zero_struct
        fields_VirtualWorkspaceTarget),
    (WithKind gv ''X509Subject'', ''X509SubjectApplyConfiguration'', zero_struct fields_X509Subject)])"

text \<open>The interface that is returned: the dynamic type and a pointer to a new struct, or nil.\<close>

definition ForKind :: "meta_library \<Rightarrow> GroupVersionKind \<Rightarrow> memory \<Rightarrow>
    (string \<times> go_value \<times> memory) option" where
  "ForKind M kind m = (case map_of (ForKind_deploy_cases M @ ForKind_operator_cases M) kind of
      Some (t, zero) \<Rightarrow> Some (t, new_struct zero m)
    | None \<Rightarrow> None)"

end
