(* ===== verification/Apply_Props.thy ===== *)
theory Apply_Props
  imports Apply_Objects
begin

text \<open>
  The apply configurations of the structs, each as an \<open>ac_config\<close>: what it consists of is fit
      for the runs of
  Apply_Runs. This is the first half of them.
\<close>

lemmas config_facts = config_ok_def config_shape_def methods_ok_def shape_ok_def leaf_ok_def in_meta_def
  method_op_def with_op_def functions_of_def new_struct_def zero_struct_def

definition config_CommonShardSpec :: "(nat \<Rightarrow> nat) \<Rightarrow> ac_config" where
  "config_CommonShardSpec grow = \<lparr>
    config_zero = zero_struct fields_CommonShardSpec,
    config_meta = None,
    config_methods =
      [(([''ClusterDomain''], SetAddress), CommonShardSpec_WithClusterDomain),
       (([''ShardBaseURL''], SetAddress), CommonShardSpec_WithShardBaseURL),
       (([''Etcd''], SetValue), CommonShardSpec_WithEtcd),
       (([''Image''], SetValue), CommonShardSpec_WithImage),
       (([''Replicas''], SetAddress), CommonShardSpec_WithReplicas),
       (([''Resources''], SetAddress), CommonShardSpec_WithResources),
       (([''Audit''], SetValue), CommonShardSpec_WithAudit),
       (([''Authorization''], SetValue), CommonShardSpec_WithAuthorization),
       (([''Auth''], SetValue), CommonShardSpec_WithAuth),
       (([''KCPVirtualWorkspace''], SetAddress), CommonShardSpec_WithKCPVirtualWorkspace),
       (([''CertificateTemplates''], SetAddress), CommonShardSpec_WithCertificateTemplates),
       (([''ServiceTemplate''], SetValue), CommonShardSpec_WithServiceTemplate),
       (([''DeploymentTemplate''], SetValue), CommonShardSpec_WithDeploymentTemplate),
       (([''CABundleSecretRef''], SetAddress), CommonShardSpec_WithCABundleSecretRef),
       (([''ClientCABundleRef''], SetAddress), CommonShardSpec_WithClientCABundleRef),
       (([''ExtraArgs''], Append None), CommonShardSpec_WithExtraArgs grow),
       (([''ExtraVolumes''], Append None), CommonShardSpec_WithExtraVolumes grow),
       (([''ExtraVolumeMounts''], Append None), CommonShardSpec_WithExtraVolumeMounts grow),
       (([''Logging''], SetValue), CommonShardSpec_WithLogging)],
    config_new = (\<lambda>m. Inr (new_CommonShardSpec m)),
    config_calls = []\<rparr>"

lemma config_CommonShardSpec_ok: "config_ok grow (config_CommonShardSpec grow)"
  by (auto simp: config_facts
    config_CommonShardSpec_def fields_CommonShardSpec_def new_CommonShardSpec_def
    CommonShardSpec_WithClusterDomain_def CommonShardSpec_WithShardBaseURL_def
    CommonShardSpec_WithEtcd_def CommonShardSpec_WithImage_def CommonShardSpec_WithReplicas_def
    CommonShardSpec_WithResources_def CommonShardSpec_WithAudit_def
    CommonShardSpec_WithAuthorization_def CommonShardSpec_WithAuth_def
    CommonShardSpec_WithKCPVirtualWorkspace_def CommonShardSpec_WithCertificateTemplates_def
    CommonShardSpec_WithServiceTemplate_def CommonShardSpec_WithDeploymentTemplate_def
    CommonShardSpec_WithCABundleSecretRef_def CommonShardSpec_WithClientCABundleRef_def
    CommonShardSpec_WithExtraArgs_def CommonShardSpec_WithExtraVolumes_def
    CommonShardSpec_WithExtraVolumeMounts_def CommonShardSpec_WithLogging_def)

definition config_AuditPolicySpec :: "(nat \<Rightarrow> nat) \<Rightarrow> ac_config" where
  "config_AuditPolicySpec grow = \<lparr>
    config_zero = zero_struct fields_AuditPolicySpec,
    config_meta = None,
    config_methods =
      [(([''ConfigMap''], SetValue), AuditPolicySpec_WithConfigMap)],
    config_new = (\<lambda>m. Inr (new_AuditPolicySpec m)),
    config_calls = []\<rparr>"

lemma config_AuditPolicySpec_ok: "config_ok grow (config_AuditPolicySpec grow)"
  by (auto simp: config_facts
    config_AuditPolicySpec_def fields_AuditPolicySpec_def new_AuditPolicySpec_def
    AuditPolicySpec_WithConfigMap_def)

definition config_AuditSpec :: "(nat \<Rightarrow> nat) \<Rightarrow> ac_config" where
  "config_AuditSpec grow = \<lparr>
    config_zero = zero_struct fields_AuditSpec,
    config_meta = None,
    config_methods =
      [(([''Webhook''], SetValue), AuditSpec_WithWebhook),
       (([''Policy''], SetValue), AuditSpec_WithPolicy)],
    config_new = (\<lambda>m. Inr (new_AuditSpec m)),
    config_calls = []\<rparr>"

lemma config_AuditSpec_ok: "config_ok grow (config_AuditSpec grow)"
  by (auto simp: config_facts
    config_AuditSpec_def fields_AuditSpec_def new_AuditSpec_def AuditSpec_WithWebhook_def
    AuditSpec_WithPolicy_def)

definition config_AuditWebhookSpec :: "(nat \<Rightarrow> nat) \<Rightarrow> ac_config" where
  "config_AuditWebhookSpec grow = \<lparr>
    config_zero = zero_struct fields_AuditWebhookSpec,
    config_meta = None,
    config_methods =
      [(([''BatchBufferSize''], SetAddress), AuditWebhookSpec_WithBatchBufferSize),
       (([''BatchMaxSize''], SetAddress), AuditWebhookSpec_WithBatchMaxSize),
       (([''BatchMaxWait''], SetAddress), AuditWebhookSpec_WithBatchMaxWait),
       (([''BatchThrottleBurst''], SetAddress), AuditWebhookSpec_WithBatchThrottleBurst),
       (([''BatchThrottleEnable''], SetAddress), AuditWebhookSpec_WithBatchThrottleEnable),
       (([''BatchThrottleQPS''], SetAddress), AuditWebhookSpec_WithBatchThrottleQPS),
       (([''ConfigSecretName''], SetAddress), AuditWebhookSpec_WithConfigSecretName),
       (([''InitialBackoff''], SetAddress), AuditWebhookSpec_WithInitialBackoff),
       (([''Mode''], SetAddress), AuditWebhookSpec_WithMode),
       (([''TruncateEnabled''], SetAddress), AuditWebhookSpec_WithTruncateEnabled),
       (([''TruncateMaxBatchSize''], SetAddress), AuditWebhookSpec_WithTruncateMaxBatchSize),
       (([''TruncateMaxEventSize''], SetAddress), AuditWebhookSpec_WithTruncateMaxEventSize),
       (([''Version''], SetAddress), AuditWebhookSpec_WithVersion)],
    config_new = (\<lambda>m. Inr (new_AuditWebhookSpec m)),
    config_calls = []\<rparr>"

lemma config_AuditWebhookSpec_ok: "config_ok grow (config_AuditWebhookSpec grow)"
  by (auto simp: config_facts
    config_AuditWebhookSpec_def fields_AuditWebhookSpec_def new_AuditWebhookSpec_def
    AuditWebhookSpec_WithBatchBufferSize_def AuditWebhookSpec_WithBatchMaxSize_def
    AuditWebhookSpec_WithBatchMaxWait_def AuditWebhookSpec_WithBatchThrottleBurst_def
    AuditWebhookSpec_WithBatchThrottleEnable_def AuditWebhookSpec_WithBatchThrottleQPS_def
    AuditWebhookSpec_WithConfigSecretName_def AuditWebhookSpec_WithInitialBackoff_def
    AuditWebhookSpec_WithMode_def AuditWebhookSpec_WithTruncateEnabled_def
    AuditWebhookSpec_WithTruncateMaxBatchSize_def AuditWebhookSpec_WithTruncateMaxEventSize_def
    AuditWebhookSpec_WithVersion_def)

definition config_AuthenticationWebhookSpec :: "(nat \<Rightarrow> nat) \<Rightarrow> ac_config" where
  "config_AuthenticationWebhookSpec grow = \<lparr>
    config_zero = zero_struct fields_AuthenticationWebhookSpec,
    config_meta = None,
    config_methods =
      [(([''CacheAuthenticationTTL''], SetAddress), AuthenticationWebhookSpec_WithCacheAuthenticationTTL),
       (([''ConfigSecretName''], SetAddress), AuthenticationWebhookSpec_WithConfigSecretName),
       (([''Version''], SetAddress), AuthenticationWebhookSpec_WithVersion)],
    config_new = (\<lambda>m. Inr (new_AuthenticationWebhookSpec m)),
    config_calls = []\<rparr>"

lemma config_AuthenticationWebhookSpec_ok: "config_ok grow (config_AuthenticationWebhookSpec grow)"
  by (auto simp: config_facts
    config_AuthenticationWebhookSpec_def fields_AuthenticationWebhookSpec_def
    new_AuthenticationWebhookSpec_def AuthenticationWebhookSpec_WithCacheAuthenticationTTL_def
    AuthenticationWebhookSpec_WithConfigSecretName_def AuthenticationWebhookSpec_WithVersion_def)

definition config_AuthorizationSpec :: "(nat \<Rightarrow> nat) \<Rightarrow> ac_config" where
  "config_AuthorizationSpec grow = \<lparr>
    config_zero = zero_struct fields_AuthorizationSpec,
    config_meta = None,
    config_methods =
      [(([''AllowPaths''], SetAddress), AuthorizationSpec_WithAllowPaths),
       (([''Order''], SetAddress), AuthorizationSpec_WithOrder),
       (([''Webhook''], SetValue), AuthorizationSpec_WithWebhook)],
    config_new = (\<lambda>m. Inr (new_AuthorizationSpec m)),
    config_calls = []\<rparr>"

lemma config_AuthorizationSpec_ok: "config_ok grow (config_AuthorizationSpec grow)"
  by (auto simp: config_facts
    config_AuthorizationSpec_def fields_AuthorizationSpec_def new_AuthorizationSpec_def
    AuthorizationSpec_WithAllowPaths_def AuthorizationSpec_WithOrder_def
    AuthorizationSpec_WithWebhook_def)

definition config_AuthorizationWebhookSpec :: "(nat \<Rightarrow> nat) \<Rightarrow> ac_config" where
  "config_AuthorizationWebhookSpec grow = \<lparr>
    config_zero = zero_struct fields_AuthorizationWebhookSpec,
    config_meta = None,
    config_methods =
      [(([''AllowPaths''], SetAddress), AuthorizationWebhookSpec_WithAllowPaths),
       (([''CacheAuthorizedTTL''], SetAddress), AuthorizationWebhookSpec_WithCacheAuthorizedTTL),
       (([''CacheUnauthorizedTTL''], SetAddress), AuthorizationWebhookSpec_WithCacheUnauthorizedTTL),
       (([''ConfigSecretName''], SetAddress), AuthorizationWebhookSpec_WithConfigSecretName),
       (([''Version''], SetAddress), AuthorizationWebhookSpec_WithVersion)],
    config_new = (\<lambda>m. Inr (new_AuthorizationWebhookSpec m)),
    config_calls = []\<rparr>"

lemma config_AuthorizationWebhookSpec_ok: "config_ok grow (config_AuthorizationWebhookSpec grow)"
  by (auto simp: config_facts
    config_AuthorizationWebhookSpec_def fields_AuthorizationWebhookSpec_def
    new_AuthorizationWebhookSpec_def AuthorizationWebhookSpec_WithAllowPaths_def
    AuthorizationWebhookSpec_WithCacheAuthorizedTTL_def
    AuthorizationWebhookSpec_WithCacheUnauthorizedTTL_def
    AuthorizationWebhookSpec_WithConfigSecretName_def AuthorizationWebhookSpec_WithVersion_def)

definition config_AuthSpec :: "(nat \<Rightarrow> nat) \<Rightarrow> ac_config" where
  "config_AuthSpec grow = \<lparr>
    config_zero = zero_struct fields_AuthSpec,
    config_meta = None,
    config_methods =
      [(([''OIDC''], SetValue), AuthSpec_WithOIDC), (([''Webhook''], SetValue), AuthSpec_WithWebhook),
       (([''TokenAuthFile''], SetValue), AuthSpec_WithTokenAuthFile),
       (([''ServiceAccount''], SetValue), AuthSpec_WithServiceAccount),
       (([''DropGroups''], Append None), AuthSpec_WithDropGroups grow),
       (([''PassOnGroups''], Append None), AuthSpec_WithPassOnGroups grow)],
    config_new = (\<lambda>m. Inr (new_AuthSpec m)),
    config_calls = []\<rparr>"

lemma config_AuthSpec_ok: "config_ok grow (config_AuthSpec grow)"
  by (auto simp: config_facts
    config_AuthSpec_def fields_AuthSpec_def new_AuthSpec_def AuthSpec_WithOIDC_def
    AuthSpec_WithWebhook_def AuthSpec_WithTokenAuthFile_def AuthSpec_WithServiceAccount_def
    AuthSpec_WithDropGroups_def AuthSpec_WithPassOnGroups_def)

definition config_CacheServerSpec :: "(nat \<Rightarrow> nat) \<Rightarrow> ac_config" where
  "config_CacheServerSpec grow = \<lparr>
    config_zero = zero_struct fields_CacheServerSpec,
    config_meta = None,
    config_methods =
      [(([''ClusterDomain''], SetAddress), CacheServerSpec_WithClusterDomain),
       (([''Image''], SetValue), CacheServerSpec_WithImage),
       (([''Replicas''], SetAddress), CacheServerSpec_WithReplicas),
       (([''Logging''], SetValue), CacheServerSpec_WithLogging),
       (([''Certificates''], SetValue), CacheServerSpec_WithCertificates),
       (([''CertificateTemplates''], SetAddress), CacheServerSpec_WithCertificateTemplates),
       (([''ServiceTemplate''], SetValue), CacheServerSpec_WithServiceTemplate),
       (([''DeploymentTemplate''], SetValue), CacheServerSpec_WithDeploymentTemplate),
       (([''Etcd''], SetValue), CacheServerSpec_WithEtcd),
       (([''ExtraArgs''], Append None), CacheServerSpec_WithExtraArgs grow),
       (([''ExtraVolumes''], Append None), CacheServerSpec_WithExtraVolumes grow),
       (([''ExtraVolumeMounts''], Append None), CacheServerSpec_WithExtraVolumeMounts grow)],
    config_new = (\<lambda>m. Inr (new_CacheServerSpec m)),
    config_calls = []\<rparr>"

lemma config_CacheServerSpec_ok: "config_ok grow (config_CacheServerSpec grow)"
  by (auto simp: config_facts
    config_CacheServerSpec_def fields_CacheServerSpec_def new_CacheServerSpec_def
    CacheServerSpec_WithClusterDomain_def CacheServerSpec_WithImage_def CacheServerSpec_WithReplicas_def
    CacheServerSpec_WithLogging_def CacheServerSpec_WithCertificates_def
    CacheServerSpec_WithCertificateTemplates_def CacheServerSpec_WithServiceTemplate_def
    CacheServerSpec_WithDeploymentTemplate_def CacheServerSpec_WithEtcd_def
    CacheServerSpec_WithExtraArgs_def CacheServerSpec_WithExtraVolumes_def
    CacheServerSpec_WithExtraVolumeMounts_def)

definition config_CertificateMetadataTemplate :: "(nat \<Rightarrow> nat) \<Rightarrow> ac_config" where
  "config_CertificateMetadataTemplate grow = \<lparr>
    config_zero = zero_struct fields_CertificateMetadataTemplate,
    config_meta = None,
    config_methods =
      [(([''Annotations''], PutEntries), CertificateMetadataTemplate_WithAnnotations),
       (([''Labels''], PutEntries), CertificateMetadataTemplate_WithLabels)],
    config_new = (\<lambda>m. Inr (new_CertificateMetadataTemplate m)),
    config_calls = []\<rparr>"

lemma config_CertificateMetadataTemplate_ok: "config_ok grow (config_CertificateMetadataTemplate grow)"
  by (auto simp: config_facts
    config_CertificateMetadataTemplate_def fields_CertificateMetadataTemplate_def
    new_CertificateMetadataTemplate_def CertificateMetadataTemplate_WithAnnotations_def
    CertificateMetadataTemplate_WithLabels_def)

definition config_CertificatePrivateKeyTemplate :: "(nat \<Rightarrow> nat) \<Rightarrow> ac_config" where
  "config_CertificatePrivateKeyTemplate grow = \<lparr>
    config_zero = zero_struct fields_CertificatePrivateKeyTemplate,
    config_meta = None,
    config_methods =
      [(([''RotationPolicy''], SetAddress), CertificatePrivateKeyTemplate_WithRotationPolicy),
       (([''Encoding''], SetAddress), CertificatePrivateKeyTemplate_WithEncoding),
       (([''Algorithm''], SetAddress), CertificatePrivateKeyTemplate_WithAlgorithm),
       (([''Size''], SetAddress), CertificatePrivateKeyTemplate_WithSize)],
    config_new = (\<lambda>m. Inr (new_CertificatePrivateKeyTemplate m)),
    config_calls = []\<rparr>"

lemma config_CertificatePrivateKeyTemplate_ok: "config_ok grow (config_CertificatePrivateKeyTemplate grow)"
  by (auto simp: config_facts
    config_CertificatePrivateKeyTemplate_def fields_CertificatePrivateKeyTemplate_def
    new_CertificatePrivateKeyTemplate_def CertificatePrivateKeyTemplate_WithRotationPolicy_def
    CertificatePrivateKeyTemplate_WithEncoding_def CertificatePrivateKeyTemplate_WithAlgorithm_def
    CertificatePrivateKeyTemplate_WithSize_def)

definition config_Certificates :: "(nat \<Rightarrow> nat) \<Rightarrow> ac_config" where
  "config_Certificates grow = \<lparr>
    config_zero = zero_struct fields_Certificates,
    config_meta = None,
    config_methods =
      [(([''IssuerRef''], SetValue), Certificates_WithIssuerRef),
       (([''CASecretRef''], SetAddress), Certificates_WithCASecretRef)],
    config_new = (\<lambda>m. Inr (new_Certificates m)),
    config_calls = []\<rparr>"

lemma config_Certificates_ok: "config_ok grow (config_Certificates grow)"
  by (auto simp: config_facts
    config_Certificates_def fields_Certificates_def new_Certificates_def Certificates_WithIssuerRef_def
    Certificates_WithCASecretRef_def)

definition config_CertificateSecretTemplate :: "(nat \<Rightarrow> nat) \<Rightarrow> ac_config" where
  "config_CertificateSecretTemplate grow = \<lparr>
    config_zero = zero_struct fields_CertificateSecretTemplate,
    config_meta = None,
    config_methods =
      [(([''Annotations''], PutEntries), CertificateSecretTemplate_WithAnnotations),
       (([''Labels''], PutEntries), CertificateSecretTemplate_WithLabels)],
    config_new = (\<lambda>m. Inr (new_CertificateSecretTemplate m)),
    config_calls = []\<rparr>"

lemma config_CertificateSecretTemplate_ok: "config_ok grow (config_CertificateSecretTemplate grow)"
  by (auto simp: config_facts
    config_CertificateSecretTemplate_def fields_CertificateSecretTemplate_def
    new_CertificateSecretTemplate_def CertificateSecretTemplate_WithAnnotations_def
    CertificateSecretTemplate_WithLabels_def)

definition config_CertificateSpecTemplate :: "(nat \<Rightarrow> nat) \<Rightarrow> ac_config" where
  "config_CertificateSpecTemplate grow = \<lparr>
    config_zero = zero_struct fields_CertificateSpecTemplate,
    config_meta = None,
    config_methods =
      [(([''Subject''], SetValue), CertificateSpecTemplate_WithSubject),
       (([''IssuerRef''], SetValue), CertificateSpecTemplate_WithIssuerRef),
       (([''DNSNames''], Append None), CertificateSpecTemplate_WithDNSNames grow),
       (([''IPAddresses''], Append None), CertificateSpecTemplate_WithIPAddresses grow),
       (([''SecretTemplate''], SetValue), CertificateSpecTemplate_WithSecretTemplate),
       (([''Duration''], SetAddress), CertificateSpecTemplate_WithDuration),
       (([''RenewBefore''], SetAddress), CertificateSpecTemplate_WithRenewBefore),
       (([''PrivateKey''], SetValue), CertificateSpecTemplate_WithPrivateKey)],
    config_new = (\<lambda>m. Inr (new_CertificateSpecTemplate m)),
    config_calls = []\<rparr>"

lemma config_CertificateSpecTemplate_ok: "config_ok grow (config_CertificateSpecTemplate grow)"
  by (auto simp: config_facts
    config_CertificateSpecTemplate_def fields_CertificateSpecTemplate_def
    new_CertificateSpecTemplate_def CertificateSpecTemplate_WithSubject_def
    CertificateSpecTemplate_WithIssuerRef_def CertificateSpecTemplate_WithDNSNames_def
    CertificateSpecTemplate_WithIPAddresses_def CertificateSpecTemplate_WithSecretTemplate_def
    CertificateSpecTemplate_WithDuration_def CertificateSpecTemplate_WithRenewBefore_def
    CertificateSpecTemplate_WithPrivateKey_def)

definition config_CertificateTemplate :: "(nat \<Rightarrow> nat) \<Rightarrow> ac_config" where
  "config_CertificateTemplate grow = \<lparr>
    config_zero = zero_struct fields_CertificateTemplate,
    config_meta = None,
    config_methods =
      [(([''Metadata''], SetValue), CertificateTemplate_WithMetadata),
       (([''Spec''], SetValue), CertificateTemplate_WithSpec)],
    config_new = (\<lambda>m. Inr (new_CertificateTemplate m)),
    config_calls = []\<rparr>"

lemma config_CertificateTemplate_ok: "config_ok grow (config_CertificateTemplate grow)"
  by (auto simp: config_facts
    config_CertificateTemplate_def fields_CertificateTemplate_def new_CertificateTemplate_def
    CertificateTemplate_WithMetadata_def CertificateTemplate_WithSpec_def)

definition config_DeploymentMetadataTemplate :: "(nat \<Rightarrow> nat) \<Rightarrow> ac_config" where
  "config_DeploymentMetadataTemplate grow = \<lparr>
    config_zero = zero_struct fields_DeploymentMetadataTemplate,
    config_meta = None,
    config_methods =
      [(([''Annotations''], PutEntries), DeploymentMetadataTemplate_WithAnnotations),
       (([''Labels''], PutEntries), DeploymentMetadataTemplate_WithLabels)],
    config_new = (\<lambda>m. Inr (new_DeploymentMetadataTemplate m)),
    config_calls = []\<rparr>"

lemma config_DeploymentMetadataTemplate_ok: "config_ok grow (config_DeploymentMetadataTemplate grow)"
  by (auto simp: config_facts
    config_DeploymentMetadataTemplate_def fields_DeploymentMetadataTemplate_def
    new_DeploymentMetadataTemplate_def DeploymentMetadataTemplate_WithAnnotations_def
    DeploymentMetadataTemplate_WithLabels_def)

definition config_DeploymentSpecTemplate :: "(nat \<Rightarrow> nat) \<Rightarrow> ac_config" where
  "config_DeploymentSpecTemplate grow = \<lparr>
    config_zero = zero_struct fields_DeploymentSpecTemplate,
    config_meta = None,
    config_methods =
      [(([''Template''], SetValue), DeploymentSpecTemplate_WithTemplate)],
    config_new = (\<lambda>m. Inr (new_DeploymentSpecTemplate m)),
    config_calls = []\<rparr>"

lemma config_DeploymentSpecTemplate_ok: "config_ok grow (config_DeploymentSpecTemplate grow)"
  by (auto simp: config_facts
    config_DeploymentSpecTemplate_def fields_DeploymentSpecTemplate_def new_DeploymentSpecTemplate_def
    DeploymentSpecTemplate_WithTemplate_def)

definition config_DeploymentTemplate :: "(nat \<Rightarrow> nat) \<Rightarrow> ac_config" where
  "config_DeploymentTemplate grow = \<lparr>
    config_zero = zero_struct fields_DeploymentTemplate,
    config_meta = None,
    config_methods =
      [(([''Metadata''], SetValue), DeploymentTemplate_WithMetadata),
       (([''Spec''], SetValue), DeploymentTemplate_WithSpec)],
    config_new = (\<lambda>m. Inr (new_DeploymentTemplate m)),
    config_calls = []\<rparr>"

lemma config_DeploymentTemplate_ok: "config_ok grow (config_DeploymentTemplate grow)"
  by (auto simp: config_facts
    config_DeploymentTemplate_def fields_DeploymentTemplate_def new_DeploymentTemplate_def
    DeploymentTemplate_WithMetadata_def DeploymentTemplate_WithSpec_def)

definition config_EmbeddedCacheConfiguration :: "(nat \<Rightarrow> nat) \<Rightarrow> ac_config" where
  "config_EmbeddedCacheConfiguration grow = \<lparr>
    config_zero = zero_struct fields_EmbeddedCacheConfiguration,
    config_meta = None,
    config_methods =
      [(([''Enabled''], SetAddress), EmbeddedCacheConfiguration_WithEnabled)],
    config_new = (\<lambda>m. Inr (new_EmbeddedCacheConfiguration m)),
    config_calls = []\<rparr>"

lemma config_EmbeddedCacheConfiguration_ok: "config_ok grow (config_EmbeddedCacheConfiguration grow)"
  by (auto simp: config_facts
    config_EmbeddedCacheConfiguration_def fields_EmbeddedCacheConfiguration_def
    new_EmbeddedCacheConfiguration_def EmbeddedCacheConfiguration_WithEnabled_def)

definition config_EtcdConfig :: "(nat \<Rightarrow> nat) \<Rightarrow> ac_config" where
  "config_EtcdConfig grow = \<lparr>
    config_zero = zero_struct fields_EtcdConfig,
    config_meta = None,
    config_methods =
      [(([''Endpoints''], Append None), EtcdConfig_WithEndpoints grow),
       (([''TLSConfig''], SetValue), EtcdConfig_WithTLSConfig),
       (([''Prefix''], SetAddress), EtcdConfig_WithPrefix)],
    config_new = (\<lambda>m. Inr (new_EtcdConfig m)),
    config_calls = []\<rparr>"

lemma config_EtcdConfig_ok: "config_ok grow (config_EtcdConfig grow)"
  by (auto simp: config_facts
    config_EtcdConfig_def fields_EtcdConfig_def new_EtcdConfig_def EtcdConfig_WithEndpoints_def
    EtcdConfig_WithTLSConfig_def EtcdConfig_WithPrefix_def)

definition config_EtcdTLSConfig :: "(nat \<Rightarrow> nat) \<Rightarrow> ac_config" where
  "config_EtcdTLSConfig grow = \<lparr>
    config_zero = zero_struct fields_EtcdTLSConfig,
    config_meta = None,
    config_methods =
      [(([''SecretRef''], SetAddress), EtcdTLSConfig_WithSecretRef)],
    config_new = (\<lambda>m. Inr (new_EtcdTLSConfig m)),
    config_calls = []\<rparr>"

lemma config_EtcdTLSConfig_ok: "config_ok grow (config_EtcdTLSConfig grow)"
  by (auto simp: config_facts
    config_EtcdTLSConfig_def fields_EtcdTLSConfig_def new_EtcdTLSConfig_def
    EtcdTLSConfig_WithSecretRef_def)

definition config_ExternalConfig :: "(nat \<Rightarrow> nat) \<Rightarrow> ac_config" where
  "config_ExternalConfig grow = \<lparr>
    config_zero = zero_struct fields_ExternalConfig,
    config_meta = None,
    config_methods =
      [(([''Hostname''], SetAddress), ExternalConfig_WithHostname),
       (([''Port''], SetAddress), ExternalConfig_WithPort),
       (([''PrivateHostname''], SetAddress), ExternalConfig_WithPrivateHostname),
       (([''PrivatePort''], SetAddress), ExternalConfig_WithPrivatePort)],
    config_new = (\<lambda>m. Inr (new_ExternalConfig m)),
    config_calls = []\<rparr>"

lemma config_ExternalConfig_ok: "config_ok grow (config_ExternalConfig grow)"
  by (auto simp: config_facts
    config_ExternalConfig_def fields_ExternalConfig_def new_ExternalConfig_def
    ExternalConfig_WithHostname_def ExternalConfig_WithPort_def ExternalConfig_WithPrivateHostname_def
    ExternalConfig_WithPrivatePort_def)

definition config_FrontProxySpec :: "(nat \<Rightarrow> nat) \<Rightarrow> ac_config" where
  "config_FrontProxySpec grow = \<lparr>
    config_zero = zero_struct fields_FrontProxySpec,
    config_meta = None,
    config_methods =
      [(([''RootShard''], SetValue), FrontProxySpec_WithRootShard),
       (([''Replicas''], SetAddress), FrontProxySpec_WithReplicas),
       (([''Resources''], SetAddress), FrontProxySpec_WithResources),
       (([''Auth''], SetValue), FrontProxySpec_WithAuth),
       (([''AdditionalPathMappings''], Append (Some ''nil value passed to WithAdditionalPathMappings'')),
           FrontProxySpec_WithAdditionalPathMappings grow),
       (([''Image''], SetValue), FrontProxySpec_WithImage),
       (([''ExternalHostname''], SetAddress), FrontProxySpec_WithExternalHostname),
       (([''External''], SetValue), FrontProxySpec_WithExternal),
       (([''ServiceTemplate''], SetValue), FrontProxySpec_WithServiceTemplate),
       (([''DeploymentTemplate''], SetValue), FrontProxySpec_WithDeploymentTemplate),
       (([''CertificateTemplates''], SetAddress), FrontProxySpec_WithCertificateTemplates),
       (([''CABundleSecretRef''], SetAddress), FrontProxySpec_WithCABundleSecretRef),
       (([''ClientCABundleRef''], SetAddress), FrontProxySpec_WithClientCABundleRef),
       (([''ExtraArgs''], Append None), FrontProxySpec_WithExtraArgs grow),
       (([''ExtraVolumes''], Append None), FrontProxySpec_WithExtraVolumes grow),
       (([''ExtraVolumeMounts''], Append None), FrontProxySpec_WithExtraVolumeMounts grow),
       (([''Logging''], SetValue), FrontProxySpec_WithLogging)],
    config_new = (\<lambda>m. Inr (new_FrontProxySpec m)),
    config_calls = []\<rparr>"

lemma config_FrontProxySpec_ok: "config_ok grow (config_FrontProxySpec grow)"
  by (auto simp: config_facts
    config_FrontProxySpec_def fields_FrontProxySpec_def new_FrontProxySpec_def
    FrontProxySpec_WithRootShard_def FrontProxySpec_WithReplicas_def FrontProxySpec_WithResources_def
    FrontProxySpec_WithAuth_def FrontProxySpec_WithAdditionalPathMappings_def
    FrontProxySpec_WithImage_def FrontProxySpec_WithExternalHostname_def FrontProxySpec_WithExternal_def
    FrontProxySpec_WithServiceTemplate_def FrontProxySpec_WithDeploymentTemplate_def
    FrontProxySpec_WithCertificateTemplates_def FrontProxySpec_WithCABundleSecretRef_def
    FrontProxySpec_WithClientCABundleRef_def FrontProxySpec_WithExtraArgs_def
    FrontProxySpec_WithExtraVolumes_def FrontProxySpec_WithExtraVolumeMounts_def
    FrontProxySpec_WithLogging_def)

definition config_FrontProxyStatus :: "(nat \<Rightarrow> nat) \<Rightarrow> ac_config" where
  "config_FrontProxyStatus grow = \<lparr>
    config_zero = zero_struct fields_FrontProxyStatus,
    config_meta = None,
    config_methods =
      [(([''Phase''], SetAddress), FrontProxyStatus_WithPhase),
       (([''Conditions''], Append (Some ''nil value passed to WithConditions'')),
           FrontProxyStatus_WithConditions grow)],
    config_new = (\<lambda>m. Inr (new_FrontProxyStatus m)),
    config_calls = []\<rparr>"

lemma config_FrontProxyStatus_ok: "config_ok grow (config_FrontProxyStatus grow)"
  by (auto simp: config_facts
    config_FrontProxyStatus_def fields_FrontProxyStatus_def new_FrontProxyStatus_def
    FrontProxyStatus_WithPhase_def FrontProxyStatus_WithConditions_def)

definition config_ImageSpec :: "(nat \<Rightarrow> nat) \<Rightarrow> ac_config" where
  "config_ImageSpec grow = \<lparr>
    config_zero = zero_struct fields_ImageSpec,
    config_meta = None,
    config_methods =
      [(([''Repository''], SetAddress), ImageSpec_WithRepository),
       (([''Tag''], SetAddress), ImageSpec_WithTag),
       (([''ImagePullSecrets''], Append None), ImageSpec_WithImagePullSecrets grow)],
    config_new = (\<lambda>m. Inr (new_ImageSpec m)),
    config_calls = []\<rparr>"

lemma config_ImageSpec_ok: "config_ok grow (config_ImageSpec grow)"
  by (auto simp: config_facts
    config_ImageSpec_def fields_ImageSpec_def new_ImageSpec_def ImageSpec_WithRepository_def
    ImageSpec_WithTag_def ImageSpec_WithImagePullSecrets_def)

definition config_KubeconfigAuthorization :: "(nat \<Rightarrow> nat) \<Rightarrow> ac_config" where
  "config_KubeconfigAuthorization grow = \<lparr>
    config_zero = zero_struct fields_KubeconfigAuthorization,
    config_meta = None,
    config_methods =
      [(([''ClusterRoleBindings''], SetValue), KubeconfigAuthorization_WithClusterRoleBindings)],
    config_new = (\<lambda>m. Inr (new_KubeconfigAuthorization m)),
    config_calls = []\<rparr>"

lemma config_KubeconfigAuthorization_ok: "config_ok grow (config_KubeconfigAuthorization grow)"
  by (auto simp: config_facts
    config_KubeconfigAuthorization_def fields_KubeconfigAuthorization_def
    new_KubeconfigAuthorization_def KubeconfigAuthorization_WithClusterRoleBindings_def)

definition config_KubeconfigAuthorizationStatus :: "(nat \<Rightarrow> nat) \<Rightarrow> ac_config" where
  "config_KubeconfigAuthorizationStatus grow = \<lparr>
    config_zero = zero_struct fields_KubeconfigAuthorizationStatus,
    config_meta = None,
    config_methods =
      [(([''ProvisionedCluster''], SetAddress), KubeconfigAuthorizationStatus_WithProvisionedCluster)],
    config_new = (\<lambda>m. Inr (new_KubeconfigAuthorizationStatus m)),
    config_calls = []\<rparr>"

lemma config_KubeconfigAuthorizationStatus_ok: "config_ok grow (config_KubeconfigAuthorizationStatus grow)"
  by (auto simp: config_facts
    config_KubeconfigAuthorizationStatus_def fields_KubeconfigAuthorizationStatus_def
    new_KubeconfigAuthorizationStatus_def KubeconfigAuthorizationStatus_WithProvisionedCluster_def)

definition config_KubeconfigClusterRoleBindings :: "(nat \<Rightarrow> nat) \<Rightarrow> ac_config" where
  "config_KubeconfigClusterRoleBindings grow = \<lparr>
    config_zero = zero_struct fields_KubeconfigClusterRoleBindings,
    config_meta = None,
    config_methods =
      [(([''Cluster''], SetAddress), KubeconfigClusterRoleBindings_WithCluster),
       (([''ClusterRoles''], Append None), KubeconfigClusterRoleBindings_WithClusterRoles grow)],
    config_new = (\<lambda>m. Inr (new_KubeconfigClusterRoleBindings m)),
    config_calls = []\<rparr>"

lemma config_KubeconfigClusterRoleBindings_ok: "config_ok grow (config_KubeconfigClusterRoleBindings grow)"
  by (auto simp: config_facts
    config_KubeconfigClusterRoleBindings_def fields_KubeconfigClusterRoleBindings_def
    new_KubeconfigClusterRoleBindings_def KubeconfigClusterRoleBindings_WithCluster_def
    KubeconfigClusterRoleBindings_WithClusterRoles_def)

definition config_KubeconfigSpec :: "(nat \<Rightarrow> nat) \<Rightarrow> ac_config" where
  "config_KubeconfigSpec grow = \<lparr>
    config_zero = zero_struct fields_KubeconfigSpec,
    config_meta = None,
    config_methods =
      [(([''Target''], SetValue), KubeconfigSpec_WithTarget),
       (([''TargetWorkspace''], SetAddress), KubeconfigSpec_WithTargetWorkspace),
       (([''Username''], SetAddress), KubeconfigSpec_WithUsername),
       (([''Groups''], Append None), KubeconfigSpec_WithGroups grow),
       (([''Validity''], SetAddress), KubeconfigSpec_WithValidity),
       (([''SecretRef''], SetAddress), KubeconfigSpec_WithSecretRef),
       (([''CertificateTemplate''], SetValue), KubeconfigSpec_WithCertificateTemplate),
       (([''Authorization''], SetValue), KubeconfigSpec_WithAuthorization)],
    config_new = (\<lambda>m. Inr (new_KubeconfigSpec m)),
    config_calls = []\<rparr>"

lemma config_KubeconfigSpec_ok: "config_ok grow (config_KubeconfigSpec grow)"
  by (auto simp: config_facts
    config_KubeconfigSpec_def fields_KubeconfigSpec_def new_KubeconfigSpec_def
    KubeconfigSpec_WithTarget_def KubeconfigSpec_WithTargetWorkspace_def KubeconfigSpec_WithUsername_def
    KubeconfigSpec_WithGroups_def KubeconfigSpec_WithValidity_def KubeconfigSpec_WithSecretRef_def
    KubeconfigSpec_WithCertificateTemplate_def KubeconfigSpec_WithAuthorization_def)

definition config_KubeconfigStatus :: "(nat \<Rightarrow> nat) \<Rightarrow> ac_config" where
  "config_KubeconfigStatus grow = \<lparr>
    config_zero = zero_struct fields_KubeconfigStatus,
    config_meta = None,
    config_methods =
      [(([''Phase''], SetAddress), KubeconfigStatus_WithPhase),
       (([''TargetName''], SetAddress), KubeconfigStatus_WithTargetName),
       (([''Authorization''], SetValue), KubeconfigStatus_WithAuthorization),
       (([''Conditions''], Append (Some ''nil value passed to WithConditions'')),
           KubeconfigStatus_WithConditions grow)],
    config_new = (\<lambda>m. Inr (new_KubeconfigStatus m)),
    config_calls = []\<rparr>"

lemma config_KubeconfigStatus_ok: "config_ok grow (config_KubeconfigStatus grow)"
  by (auto simp: config_facts
    config_KubeconfigStatus_def fields_KubeconfigStatus_def new_KubeconfigStatus_def
    KubeconfigStatus_WithPhase_def KubeconfigStatus_WithTargetName_def
    KubeconfigStatus_WithAuthorization_def KubeconfigStatus_WithConditions_def)

definition config_KubeconfigTarget :: "(nat \<Rightarrow> nat) \<Rightarrow> ac_config" where
  "config_KubeconfigTarget grow = \<lparr>
    config_zero = zero_struct fields_KubeconfigTarget,
    config_meta = None,
    config_methods =
      [(([''RootShardRef''], SetAddress), KubeconfigTarget_WithRootShardRef),
       (([''ShardRef''], SetAddress), KubeconfigTarget_WithShardRef),
       (([''FrontProxyRef''], SetAddress), KubeconfigTarget_WithFrontProxyRef)],
    config_new = (\<lambda>m. Inr (new_KubeconfigTarget m)),
    config_calls = []\<rparr>"

lemma config_KubeconfigTarget_ok: "config_ok grow (config_KubeconfigTarget grow)"
  by (auto simp: config_facts
    config_KubeconfigTarget_def fields_KubeconfigTarget_def new_KubeconfigTarget_def
    KubeconfigTarget_WithRootShardRef_def KubeconfigTarget_WithShardRef_def
    KubeconfigTarget_WithFrontProxyRef_def)

definition config_LocalDataKeyReference :: "(nat \<Rightarrow> nat) \<Rightarrow> ac_config" where
  "config_LocalDataKeyReference grow = \<lparr>
    config_zero = zero_struct fields_LocalDataKeyReference,
    config_meta = None,
    config_methods =
      [(([''Name''], SetAddress), LocalDataKeyReference_WithName),
       (([''Key''], SetAddress), LocalDataKeyReference_WithKey)],
    config_new = (\<lambda>m. Inr (new_LocalDataKeyReference m)),
    config_calls = []\<rparr>"

lemma config_LocalDataKeyReference_ok: "config_ok grow (config_LocalDataKeyReference grow)"
  by (auto simp: config_facts
    config_LocalDataKeyReference_def fields_LocalDataKeyReference_def new_LocalDataKeyReference_def
    LocalDataKeyReference_WithName_def LocalDataKeyReference_WithKey_def)

definition config_LoggingSpec :: "(nat \<Rightarrow> nat) \<Rightarrow> ac_config" where
  "config_LoggingSpec grow = \<lparr>
    config_zero = zero_struct fields_LoggingSpec,
    config_meta = None,
    config_methods =
      [(([''Level''], SetAddress), LoggingSpec_WithLevel)],
    config_new = (\<lambda>m. Inr (new_LoggingSpec m)),
    config_calls = []\<rparr>"

lemma config_LoggingSpec_ok: "config_ok grow (config_LoggingSpec grow)"
  by (auto simp: config_facts
    config_LoggingSpec_def fields_LoggingSpec_def new_LoggingSpec_def LoggingSpec_WithLevel_def)

chapter \<open>More structs\<close>

text \<open>
  The other apply configurations of structs.
\<close>

definition config_ObjectReference :: "(nat \<Rightarrow> nat) \<Rightarrow> ac_config" where
  "config_ObjectReference grow = \<lparr>
    config_zero = zero_struct fields_ObjectReference,
    config_meta = None,
    config_methods =
      [(([''Name''], SetAddress), ObjectReference_WithName),
       (([''Kind''], SetAddress), ObjectReference_WithKind),
       (([''Group''], SetAddress), ObjectReference_WithGroup)],
    config_new = (\<lambda>m. Inr (new_ObjectReference m)),
    config_calls = []\<rparr>"

lemma config_ObjectReference_ok: "config_ok grow (config_ObjectReference grow)"
  by (auto simp: config_facts
    config_ObjectReference_def fields_ObjectReference_def new_ObjectReference_def
    ObjectReference_WithName_def ObjectReference_WithKind_def ObjectReference_WithGroup_def)

definition config_OIDCCAFileRef :: "(nat \<Rightarrow> nat) \<Rightarrow> ac_config" where
  "config_OIDCCAFileRef grow = \<lparr>
    config_zero = zero_struct fields_OIDCCAFileRef,
    config_meta = None,
    config_methods =
      [(([''Name''], SetAddress), OIDCCAFileRef_WithName),
       (([''Key''], SetAddress), OIDCCAFileRef_WithKey)],
    config_new = (\<lambda>m. Inr (new_OIDCCAFileRef m)),
    config_calls = []\<rparr>"

lemma config_OIDCCAFileRef_ok: "config_ok grow (config_OIDCCAFileRef grow)"
  by (auto simp: config_facts
    config_OIDCCAFileRef_def fields_OIDCCAFileRef_def new_OIDCCAFileRef_def OIDCCAFileRef_WithName_def
    OIDCCAFileRef_WithKey_def)

definition config_OIDCConfiguration :: "(nat \<Rightarrow> nat) \<Rightarrow> ac_config" where
  "config_OIDCConfiguration grow = \<lparr>
    config_zero = zero_struct fields_OIDCConfiguration,
    config_meta = None,
    config_methods =
      [(([''IssuerURL''], SetAddress), OIDCConfiguration_WithIssuerURL),
       (([''ClientID''], SetAddress), OIDCConfiguration_WithClientID),
       (([''ClientSecret''], SetAddress), OIDCConfiguration_WithClientSecret),
       (([''GroupsClaim''], SetAddress), OIDCConfiguration_WithGroupsClaim),
       (([''UsernameClaim''], SetAddress), OIDCConfiguration_WithUsernameClaim),
       (([''GroupsPrefix''], SetAddress), OIDCConfiguration_WithGroupsPrefix),
       (([''UsernamePrefix''], SetAddress), OIDCConfiguration_WithUsernamePrefix),
       (([''CAFileRef''], SetValue), OIDCConfiguration_WithCAFileRef)],
    config_new = (\<lambda>m. Inr (new_OIDCConfiguration m)),
    config_calls = []\<rparr>"

lemma config_OIDCConfiguration_ok: "config_ok grow (config_OIDCConfiguration grow)"
  by (auto simp: config_facts
    config_OIDCConfiguration_def fields_OIDCConfiguration_def new_OIDCConfiguration_def
    OIDCConfiguration_WithIssuerURL_def OIDCConfiguration_WithClientID_def
    OIDCConfiguration_WithClientSecret_def OIDCConfiguration_WithGroupsClaim_def
    OIDCConfiguration_WithUsernameClaim_def OIDCConfiguration_WithGroupsPrefix_def
    OIDCConfiguration_WithUsernamePrefix_def OIDCConfiguration_WithCAFileRef_def)

definition config_PathMappingEntry :: "(nat \<Rightarrow> nat) \<Rightarrow> ac_config" where
  "config_PathMappingEntry grow = \<lparr>
    config_zero = zero_struct fields_PathMappingEntry,
    config_meta = None,
    config_methods =
      [(([''Path''], SetAddress), PathMappingEntry_WithPath),
       (([''Backend''], SetAddress), PathMappingEntry_WithBackend),
       (([''BackendServerCA''], SetAddress), PathMappingEntry_WithBackendServerCA),
       (([''ProxyClientCert''], SetAddress), PathMappingEntry_WithProxyClientCert),
       (([''ProxyClientKey''], SetAddress), PathMappingEntry_WithProxyClientKey)],
    config_new = (\<lambda>m. Inr (new_PathMappingEntry m)),
    config_calls = []\<rparr>"

lemma config_PathMappingEntry_ok: "config_ok grow (config_PathMappingEntry grow)"
  by (auto simp: config_facts
    config_PathMappingEntry_def fields_PathMappingEntry_def new_PathMappingEntry_def
    PathMappingEntry_WithPath_def PathMappingEntry_WithBackend_def
    PathMappingEntry_WithBackendServerCA_def PathMappingEntry_WithProxyClientCert_def
    PathMappingEntry_WithProxyClientKey_def)

definition config_PodMetadataTemplate :: "(nat \<Rightarrow> nat) \<Rightarrow> ac_config" where
  "config_PodMetadataTemplate grow = \<lparr>
    config_zero = zero_struct fields_PodMetadataTemplate,
    config_meta = None,
    config_methods =
      [(([''Annotations''], PutEntries), PodMetadataTemplate_WithAnnotations),
       (([''Labels''], PutEntries), PodMetadataTemplate_WithLabels)],
    config_new = (\<lambda>m. Inr (new_PodMetadataTemplate m)),
    config_calls = []\<rparr>"

lemma config_PodMetadataTemplate_ok: "config_ok grow (config_PodMetadataTemplate grow)"
  by (auto simp: config_facts
    config_PodMetadataTemplate_def fields_PodMetadataTemplate_def new_PodMetadataTemplate_def
    PodMetadataTemplate_WithAnnotations_def PodMetadataTemplate_WithLabels_def)

definition config_PodSpecTemplate :: "(nat \<Rightarrow> nat) \<Rightarrow> ac_config" where
  "config_PodSpecTemplate grow = \<lparr>
    config_zero = zero_struct fields_PodSpecTemplate,
    config_meta = None,
    config_methods =
      [(([''NodeSelector''], PutEntries), PodSpecTemplate_WithNodeSelector),
       (([''Affinity''], SetAddress), PodSpecTemplate_WithAffinity),
       (([''Tolerations''], Append None), PodSpecTemplate_WithTolerations grow),
       (([''HostAliases''], Append None), PodSpecTemplate_WithHostAliases grow),
       (([''ImagePullSecrets''], Append None), PodSpecTemplate_WithImagePullSecrets grow),
       (([''TopologySpreadConstraints''], Append None), PodSpecTemplate_WithTopologySpreadConstraints grow)],
    config_new = (\<lambda>m. Inr (new_PodSpecTemplate m)),
    config_calls = []\<rparr>"

lemma config_PodSpecTemplate_ok: "config_ok grow (config_PodSpecTemplate grow)"
  by (auto simp: config_facts
    config_PodSpecTemplate_def fields_PodSpecTemplate_def new_PodSpecTemplate_def
    PodSpecTemplate_WithNodeSelector_def PodSpecTemplate_WithAffinity_def
    PodSpecTemplate_WithTolerations_def PodSpecTemplate_WithHostAliases_def
    PodSpecTemplate_WithImagePullSecrets_def PodSpecTemplate_WithTopologySpreadConstraints_def)

definition config_PodTemplateSpec :: "(nat \<Rightarrow> nat) \<Rightarrow> ac_config" where
  "config_PodTemplateSpec grow = \<lparr>
    config_zero = zero_struct fields_PodTemplateSpec,
    config_meta = None,
    config_methods =
      [(([''Metadata''], SetValue), PodTemplateSpec_WithMetadata),
       (([''Spec''], SetValue), PodTemplateSpec_WithSpec)],
    config_new = (\<lambda>m. Inr (new_PodTemplateSpec m)),
    config_calls = []\<rparr>"

lemma config_PodTemplateSpec_ok: "config_ok grow (config_PodTemplateSpec grow)"
  by (auto simp: config_facts
    config_PodTemplateSpec_def fields_PodTemplateSpec_def new_PodTemplateSpec_def
    PodTemplateSpec_WithMetadata_def PodTemplateSpec_WithSpec_def)

definition config_RootShardCacheConfig :: "(nat \<Rightarrow> nat) \<Rightarrow> ac_config" where
  "config_RootShardCacheConfig grow = \<lparr>
    config_zero = zero_struct fields_RootShardCacheConfig,
    config_meta = None,
    config_methods =
      [(([''Embedded''], SetValue), RootShardCacheConfig_WithEmbedded),
       (([''Reference''], SetAddress), RootShardCacheConfig_WithReference)],
    config_new = (\<lambda>m. Inr (new_RootShardCacheConfig m)),
    config_calls = []\<rparr>"

lemma config_RootShardCacheConfig_ok: "config_ok grow (config_RootShardCacheConfig grow)"
  by (auto simp: config_facts
    config_RootShardCacheConfig_def fields_RootShardCacheConfig_def new_RootShardCacheConfig_def
    RootShardCacheConfig_WithEmbedded_def RootShardCacheConfig_WithReference_def)

definition config_RootShardConfig :: "(nat \<Rightarrow> nat) \<Rightarrow> ac_config" where
  "config_RootShardConfig grow = \<lparr>
    config_zero = zero_struct fields_RootShardConfig,
    config_meta = None,
    config_methods =
      [(([''Reference''], SetAddress), RootShardConfig_WithReference)],
    config_new = (\<lambda>m. Inr (new_RootShardConfig m)),
    config_calls = []\<rparr>"

lemma config_RootShardConfig_ok: "config_ok grow (config_RootShardConfig grow)"
  by (auto simp: config_facts
    config_RootShardConfig_def fields_RootShardConfig_def new_RootShardConfig_def
    RootShardConfig_WithReference_def)

definition config_RootShardProxySpec :: "(nat \<Rightarrow> nat) \<Rightarrow> ac_config" where
  "config_RootShardProxySpec grow = \<lparr>
    config_zero = zero_struct fields_RootShardProxySpec,
    config_meta = None,
    config_methods =
      [(([''Image''], SetValue), RootShardProxySpec_WithImage),
       (([''Replicas''], SetAddress), RootShardProxySpec_WithReplicas),
       (([''Resources''], SetAddress), RootShardProxySpec_WithResources),
       (([''ServiceTemplate''], SetValue), RootShardProxySpec_WithServiceTemplate),
       (([''DeploymentTemplate''], SetValue), RootShardProxySpec_WithDeploymentTemplate),
       (([''CertificateTemplates''], SetAddress), RootShardProxySpec_WithCertificateTemplates),
       (([''ExtraArgs''], Append None), RootShardProxySpec_WithExtraArgs grow),
       (([''ExtraVolumes''], Append None), RootShardProxySpec_WithExtraVolumes grow),
       (([''ExtraVolumeMounts''], Append None), RootShardProxySpec_WithExtraVolumeMounts grow),
       (([''Logging''], SetValue), RootShardProxySpec_WithLogging)],
    config_new = (\<lambda>m. Inr (new_RootShardProxySpec m)),
    config_calls = []\<rparr>"

lemma config_RootShardProxySpec_ok: "config_ok grow (config_RootShardProxySpec grow)"
  by (auto simp: config_facts
    config_RootShardProxySpec_def fields_RootShardProxySpec_def new_RootShardProxySpec_def
    RootShardProxySpec_WithImage_def RootShardProxySpec_WithReplicas_def
    RootShardProxySpec_WithResources_def RootShardProxySpec_WithServiceTemplate_def
    RootShardProxySpec_WithDeploymentTemplate_def RootShardProxySpec_WithCertificateTemplates_def
    RootShardProxySpec_WithExtraArgs_def RootShardProxySpec_WithExtraVolumes_def
    RootShardProxySpec_WithExtraVolumeMounts_def RootShardProxySpec_WithLogging_def)

definition config_RootShardSpec :: "(nat \<Rightarrow> nat) \<Rightarrow> ac_config" where
  "config_RootShardSpec grow = \<lparr>
    config_zero = zero_struct fields_RootShardSpec,
    config_meta = None,
    config_methods =
      [(([''CommonShardSpecApplyConfiguration'', ''ClusterDomain''], SetAddress),
          RootShardSpec_WithClusterDomain),
       (([''CommonShardSpecApplyConfiguration'', ''ShardBaseURL''], SetAddress),
           RootShardSpec_WithShardBaseURL),
       (([''CommonShardSpecApplyConfiguration'', ''Etcd''], SetValue), RootShardSpec_WithEtcd),
       (([''CommonShardSpecApplyConfiguration'', ''Image''], SetValue), RootShardSpec_WithImage),
       (([''CommonShardSpecApplyConfiguration'', ''Replicas''], SetAddress), RootShardSpec_WithReplicas),
       (([''CommonShardSpecApplyConfiguration'', ''Resources''], SetAddress), RootShardSpec_WithResources),
       (([''CommonShardSpecApplyConfiguration'', ''Audit''], SetValue), RootShardSpec_WithAudit),
       (([''CommonShardSpecApplyConfiguration'', ''Authorization''], SetValue),
           RootShardSpec_WithAuthorization),
       (([''CommonShardSpecApplyConfiguration'', ''Auth''], SetValue), RootShardSpec_WithAuth),
       (([''CommonShardSpecApplyConfiguration'', ''KCPVirtualWorkspace''], SetAddress),
           RootShardSpec_WithKCPVirtualWorkspace),
       (([''CommonShardSpecApplyConfiguration'', ''CertificateTemplates''], SetAddress),
           RootShardSpec_WithCertificateTemplates),
       (([''CommonShardSpecApplyConfiguration'', ''ServiceTemplate''], SetValue),
           RootShardSpec_WithServiceTemplate),
       (([''CommonShardSpecApplyConfiguration'', ''DeploymentTemplate''], SetValue),
           RootShardSpec_WithDeploymentTemplate),
       (([''CommonShardSpecApplyConfiguration'', ''CABundleSecretRef''], SetAddress),
           RootShardSpec_WithCABundleSecretRef),
       (([''CommonShardSpecApplyConfiguration'', ''ClientCABundleRef''], SetAddress),
           RootShardSpec_WithClientCABundleRef),
       (([''CommonShardSpecApplyConfiguration'', ''ExtraArgs''], Append None), RootShardSpec_WithExtraArgs
           grow),
       (([''CommonShardSpecApplyConfiguration'', ''ExtraVolumes''], Append None),
           RootShardSpec_WithExtraVolumes grow),
       (([''CommonShardSpecApplyConfiguration'', ''ExtraVolumeMounts''], Append None),
           RootShardSpec_WithExtraVolumeMounts grow),
       (([''CommonShardSpecApplyConfiguration'', ''Logging''], SetValue), RootShardSpec_WithLogging),
       (([''External''], SetValue), RootShardSpec_WithExternal),
       (([''Cache''], SetValue), RootShardSpec_WithCache),
       (([''Proxy''], SetValue), RootShardSpec_WithProxy),
       (([''Certificates''], SetValue), RootShardSpec_WithCertificates)],
    config_new = (\<lambda>m. Inr (new_RootShardSpec m)),
    config_calls = []\<rparr>"

lemma config_RootShardSpec_ok: "config_ok grow (config_RootShardSpec grow)"
  by (auto simp: config_facts
    config_RootShardSpec_def fields_RootShardSpec_def new_RootShardSpec_def
    RootShardSpec_WithClusterDomain_def RootShardSpec_WithShardBaseURL_def RootShardSpec_WithEtcd_def
    RootShardSpec_WithImage_def RootShardSpec_WithReplicas_def RootShardSpec_WithResources_def
    RootShardSpec_WithAudit_def RootShardSpec_WithAuthorization_def RootShardSpec_WithAuth_def
    RootShardSpec_WithKCPVirtualWorkspace_def RootShardSpec_WithCertificateTemplates_def
    RootShardSpec_WithServiceTemplate_def RootShardSpec_WithDeploymentTemplate_def
    RootShardSpec_WithCABundleSecretRef_def RootShardSpec_WithClientCABundleRef_def
    RootShardSpec_WithExtraArgs_def RootShardSpec_WithExtraVolumes_def
    RootShardSpec_WithExtraVolumeMounts_def RootShardSpec_WithLogging_def RootShardSpec_WithExternal_def
    RootShardSpec_WithCache_def RootShardSpec_WithProxy_def RootShardSpec_WithCertificates_def
    fields_CommonShardSpec_def)

definition config_RootShardStatus :: "(nat \<Rightarrow> nat) \<Rightarrow> ac_config" where
  "config_RootShardStatus grow = \<lparr>
    config_zero = zero_struct fields_RootShardStatus,
    config_meta = None,
    config_methods =
      [(([''Phase''], SetAddress), RootShardStatus_WithPhase),
       (([''Conditions''], Append (Some ''nil value passed to WithConditions'')),
           RootShardStatus_WithConditions grow),
       (([''Shards''], Append (Some ''nil value passed to WithShards'')), RootShardStatus_WithShards grow)],
    config_new = (\<lambda>m. Inr (new_RootShardStatus m)),
    config_calls = []\<rparr>"

lemma config_RootShardStatus_ok: "config_ok grow (config_RootShardStatus grow)"
  by (auto simp: config_facts
    config_RootShardStatus_def fields_RootShardStatus_def new_RootShardStatus_def
    RootShardStatus_WithPhase_def RootShardStatus_WithConditions_def RootShardStatus_WithShards_def)

definition config_ServiceAccountAuthentication :: "(nat \<Rightarrow> nat) \<Rightarrow> ac_config" where
  "config_ServiceAccountAuthentication grow = \<lparr>
    config_zero = zero_struct fields_ServiceAccountAuthentication,
    config_meta = None,
    config_methods =
      [(([''Enabled''], SetAddress), ServiceAccountAuthentication_WithEnabled)],
    config_new = (\<lambda>m. Inr (new_ServiceAccountAuthentication m)),
    config_calls = []\<rparr>"

lemma config_ServiceAccountAuthentication_ok: "config_ok grow (config_ServiceAccountAuthentication grow)"
  by (auto simp: config_facts
    config_ServiceAccountAuthentication_def fields_ServiceAccountAuthentication_def
    new_ServiceAccountAuthentication_def ServiceAccountAuthentication_WithEnabled_def)

definition config_ServiceMetadataTemplate :: "(nat \<Rightarrow> nat) \<Rightarrow> ac_config" where
  "config_ServiceMetadataTemplate grow = \<lparr>
    config_zero = zero_struct fields_ServiceMetadataTemplate,
    config_meta = None,
    config_methods =
      [(([''Annotations''], PutEntries), ServiceMetadataTemplate_WithAnnotations),
       (([''Labels''], PutEntries), ServiceMetadataTemplate_WithLabels)],
    config_new = (\<lambda>m. Inr (new_ServiceMetadataTemplate m)),
    config_calls = []\<rparr>"

lemma config_ServiceMetadataTemplate_ok: "config_ok grow (config_ServiceMetadataTemplate grow)"
  by (auto simp: config_facts
    config_ServiceMetadataTemplate_def fields_ServiceMetadataTemplate_def
    new_ServiceMetadataTemplate_def ServiceMetadataTemplate_WithAnnotations_def
    ServiceMetadataTemplate_WithLabels_def)

definition config_ServiceSpecTemplate :: "(nat \<Rightarrow> nat) \<Rightarrow> ac_config" where
  "config_ServiceSpecTemplate grow = \<lparr>
    config_zero = zero_struct fields_ServiceSpecTemplate,
    config_meta = None,
    config_methods =
      [(([''Type''], SetAddress), ServiceSpecTemplate_WithType),
       (([''ClusterIP''], SetAddress), ServiceSpecTemplate_WithClusterIP)],
    config_new = (\<lambda>m. Inr (new_ServiceSpecTemplate m)),
    config_calls = []\<rparr>"

lemma config_ServiceSpecTemplate_ok: "config_ok grow (config_ServiceSpecTemplate grow)"
  by (auto simp: config_facts
    config_ServiceSpecTemplate_def fields_ServiceSpecTemplate_def new_ServiceSpecTemplate_def
    ServiceSpecTemplate_WithType_def ServiceSpecTemplate_WithClusterIP_def)

definition config_ServiceTemplate :: "(nat \<Rightarrow> nat) \<Rightarrow> ac_config" where
  "config_ServiceTemplate grow = \<lparr>
    config_zero = zero_struct fields_ServiceTemplate,
    config_meta = None,
    config_methods =
      [(([''Metadata''], SetValue), ServiceTemplate_WithMetadata),
       (([''Spec''], SetValue), ServiceTemplate_WithSpec)],
    config_new = (\<lambda>m. Inr (new_ServiceTemplate m)),
    config_calls = []\<rparr>"

lemma config_ServiceTemplate_ok: "config_ok grow (config_ServiceTemplate grow)"
  by (auto simp: config_facts
    config_ServiceTemplate_def fields_ServiceTemplate_def new_ServiceTemplate_def
    ServiceTemplate_WithMetadata_def ServiceTemplate_WithSpec_def)

definition config_ShardCacheConfig :: "(nat \<Rightarrow> nat) \<Rightarrow> ac_config" where
  "config_ShardCacheConfig grow = \<lparr>
    config_zero = zero_struct fields_ShardCacheConfig,
    config_meta = None,
    config_methods =
      [(([''Reference''], SetAddress), ShardCacheConfig_WithReference)],
    config_new = (\<lambda>m. Inr (new_ShardCacheConfig m)),
    config_calls = []\<rparr>"

lemma config_ShardCacheConfig_ok: "config_ok grow (config_ShardCacheConfig grow)"
  by (auto simp: config_facts
    config_ShardCacheConfig_def fields_ShardCacheConfig_def new_ShardCacheConfig_def
    ShardCacheConfig_WithReference_def)

definition config_ShardReference :: "(nat \<Rightarrow> nat) \<Rightarrow> ac_config" where
  "config_ShardReference grow = \<lparr>
    config_zero = zero_struct fields_ShardReference,
    config_meta = None,
    config_methods =
      [(([''Name''], SetAddress), ShardReference_WithName)],
    config_new = (\<lambda>m. Inr (new_ShardReference m)),
    config_calls = []\<rparr>"

lemma config_ShardReference_ok: "config_ok grow (config_ShardReference grow)"
  by (auto simp: config_facts
    config_ShardReference_def fields_ShardReference_def new_ShardReference_def
    ShardReference_WithName_def)

definition config_ShardSpec :: "(nat \<Rightarrow> nat) \<Rightarrow> ac_config" where
  "config_ShardSpec grow = \<lparr>
    config_zero = zero_struct fields_ShardSpec,
    config_meta = None,
    config_methods =
      [(([''CommonShardSpecApplyConfiguration'', ''ClusterDomain''], SetAddress), ShardSpec_WithClusterDomain),
       (([''CommonShardSpecApplyConfiguration'', ''ShardBaseURL''], SetAddress), ShardSpec_WithShardBaseURL),
       (([''CommonShardSpecApplyConfiguration'', ''Etcd''], SetValue), ShardSpec_WithEtcd),
       (([''CommonShardSpecApplyConfiguration'', ''Image''], SetValue), ShardSpec_WithImage),
       (([''CommonShardSpecApplyConfiguration'', ''Replicas''], SetAddress), ShardSpec_WithReplicas),
       (([''CommonShardSpecApplyConfiguration'', ''Resources''], SetAddress), ShardSpec_WithResources),
       (([''CommonShardSpecApplyConfiguration'', ''Audit''], SetValue), ShardSpec_WithAudit),
       (([''CommonShardSpecApplyConfiguration'', ''Authorization''], SetValue), ShardSpec_WithAuthorization),
       (([''CommonShardSpecApplyConfiguration'', ''Auth''], SetValue), ShardSpec_WithAuth),
       (([''CommonShardSpecApplyConfiguration'', ''KCPVirtualWorkspace''], SetAddress),
           ShardSpec_WithKCPVirtualWorkspace),
       (([''CommonShardSpecApplyConfiguration'', ''CertificateTemplates''], SetAddress),
           ShardSpec_WithCertificateTemplates),
       (([''CommonShardSpecApplyConfiguration'', ''ServiceTemplate''], SetValue),
           ShardSpec_WithServiceTemplate),
       (([''CommonShardSpecApplyConfiguration'', ''DeploymentTemplate''], SetValue),
           ShardSpec_WithDeploymentTemplate),
       (([''CommonShardSpecApplyConfiguration'', ''CABundleSecretRef''], SetAddress),
           ShardSpec_WithCABundleSecretRef),
       (([''CommonShardSpecApplyConfiguration'', ''ClientCABundleRef''], SetAddress),
           ShardSpec_WithClientCABundleRef),
       (([''CommonShardSpecApplyConfiguration'', ''ExtraArgs''], Append None), ShardSpec_WithExtraArgs grow),
       (([''CommonShardSpecApplyConfiguration'', ''ExtraVolumes''], Append None),
           ShardSpec_WithExtraVolumes grow),
       (([''CommonShardSpecApplyConfiguration'', ''ExtraVolumeMounts''], Append None),
           ShardSpec_WithExtraVolumeMounts grow),
       (([''CommonShardSpecApplyConfiguration'', ''Logging''], SetValue), ShardSpec_WithLogging),
       (([''RootShard''], SetValue), ShardSpec_WithRootShard),
       (([''Cache''], SetValue), ShardSpec_WithCache)],
    config_new = (\<lambda>m. Inr (new_ShardSpec m)),
    config_calls = []\<rparr>"

lemma config_ShardSpec_ok: "config_ok grow (config_ShardSpec grow)"
  by (auto simp: config_facts
    config_ShardSpec_def fields_ShardSpec_def new_ShardSpec_def ShardSpec_WithClusterDomain_def
    ShardSpec_WithShardBaseURL_def ShardSpec_WithEtcd_def ShardSpec_WithImage_def
    ShardSpec_WithReplicas_def ShardSpec_WithResources_def ShardSpec_WithAudit_def
    ShardSpec_WithAuthorization_def ShardSpec_WithAuth_def ShardSpec_WithKCPVirtualWorkspace_def
    ShardSpec_WithCertificateTemplates_def ShardSpec_WithServiceTemplate_def
    ShardSpec_WithDeploymentTemplate_def ShardSpec_WithCABundleSecretRef_def
    ShardSpec_WithClientCABundleRef_def ShardSpec_WithExtraArgs_def ShardSpec_WithExtraVolumes_def
    ShardSpec_WithExtraVolumeMounts_def ShardSpec_WithLogging_def ShardSpec_WithRootShard_def
    ShardSpec_WithCache_def fields_CommonShardSpec_def)

definition config_ShardStatus :: "(nat \<Rightarrow> nat) \<Rightarrow> ac_config" where
  "config_ShardStatus grow = \<lparr>
    config_zero = zero_struct fields_ShardStatus,
    config_meta = None,
    config_methods =
      [(([''Phase''], SetAddress), ShardStatus_WithPhase),
       (([''Conditions''], Append (Some ''nil value passed to WithConditions'')),
           ShardStatus_WithConditions grow)],
    config_new = (\<lambda>m. Inr (new_ShardStatus m)),
    config_calls = []\<rparr>"

lemma config_ShardStatus_ok: "config_ok grow (config_ShardStatus grow)"
  by (auto simp: config_facts
    config_ShardStatus_def fields_ShardStatus_def new_ShardStatus_def ShardStatus_WithPhase_def
    ShardStatus_WithConditions_def)

definition config_TokenAuthFileSpec :: "(nat \<Rightarrow> nat) \<Rightarrow> ac_config" where
  "config_TokenAuthFileSpec grow = \<lparr>
    config_zero = zero_struct fields_TokenAuthFileSpec,
    config_meta = None,
    config_methods =
      [(([''SecretName''], SetAddress), TokenAuthFileSpec_WithSecretName),
       (([''Key''], SetAddress), TokenAuthFileSpec_WithKey)],
    config_new = (\<lambda>m. Inr (new_TokenAuthFileSpec m)),
    config_calls = []\<rparr>"

lemma config_TokenAuthFileSpec_ok: "config_ok grow (config_TokenAuthFileSpec grow)"
  by (auto simp: config_facts
    config_TokenAuthFileSpec_def fields_TokenAuthFileSpec_def new_TokenAuthFileSpec_def
    TokenAuthFileSpec_WithSecretName_def TokenAuthFileSpec_WithKey_def)

definition config_VirtualWorkspaceInitContainer :: "(nat \<Rightarrow> nat) \<Rightarrow> ac_config" where
  "config_VirtualWorkspaceInitContainer grow = \<lparr>
    config_zero = zero_struct fields_VirtualWorkspaceInitContainer,
    config_meta = None,
    config_methods =
      [(([''Name''], SetAddress), VirtualWorkspaceInitContainer_WithName),
       (([''Image''], SetValue), VirtualWorkspaceInitContainer_WithImage),
       (([''Command''], Append None), VirtualWorkspaceInitContainer_WithCommand grow),
       (([''Args''], Append None), VirtualWorkspaceInitContainer_WithArgs grow),
       (([''KubeconfigSecretRef''], SetAddress), VirtualWorkspaceInitContainer_WithKubeconfigSecretRef),
       (([''Resources''], SetAddress), VirtualWorkspaceInitContainer_WithResources),
       (([''Volumes''], Append None), VirtualWorkspaceInitContainer_WithVolumes grow),
       (([''VolumeMounts''], Append None), VirtualWorkspaceInitContainer_WithVolumeMounts grow)],
    config_new = (\<lambda>m. Inr (new_VirtualWorkspaceInitContainer m)),
    config_calls = []\<rparr>"

lemma config_VirtualWorkspaceInitContainer_ok: "config_ok grow (config_VirtualWorkspaceInitContainer grow)"
  by (auto simp: config_facts
    config_VirtualWorkspaceInitContainer_def fields_VirtualWorkspaceInitContainer_def
    new_VirtualWorkspaceInitContainer_def VirtualWorkspaceInitContainer_WithName_def
    VirtualWorkspaceInitContainer_WithImage_def VirtualWorkspaceInitContainer_WithCommand_def
    VirtualWorkspaceInitContainer_WithArgs_def VirtualWorkspaceInitContainer_WithKubeconfigSecretRef_def
    VirtualWorkspaceInitContainer_WithResources_def VirtualWorkspaceInitContainer_WithVolumes_def
    VirtualWorkspaceInitContainer_WithVolumeMounts_def)

definition config_VirtualWorkspaceSpec :: "(nat \<Rightarrow> nat) \<Rightarrow> ac_config" where
  "config_VirtualWorkspaceSpec grow = \<lparr>
    config_zero = zero_struct fields_VirtualWorkspaceSpec,
    config_meta = None,
    config_methods =
      [(([''Target''], SetValue), VirtualWorkspaceSpec_WithTarget),
       (([''External''], SetValue), VirtualWorkspaceSpec_WithExternal),
       (([''Image''], SetValue), VirtualWorkspaceSpec_WithImage),
       (([''Command''], Append None), VirtualWorkspaceSpec_WithCommand grow),
       (([''InitContainers''], Append (Some ''nil value passed to WithInitContainers'')),
           VirtualWorkspaceSpec_WithInitContainers grow),
       (([''Replicas''], SetAddress), VirtualWorkspaceSpec_WithReplicas),
       (([''Resources''], SetAddress), VirtualWorkspaceSpec_WithResources),
       (([''CertificateTemplates''], SetAddress), VirtualWorkspaceSpec_WithCertificateTemplates),
       (([''ServiceTemplate''], SetValue), VirtualWorkspaceSpec_WithServiceTemplate),
       (([''DeploymentTemplate''], SetValue), VirtualWorkspaceSpec_WithDeploymentTemplate),
       (([''CABundleSecretRef''], SetAddress), VirtualWorkspaceSpec_WithCABundleSecretRef),
       (([''ClientCABundleRef''], SetAddress), VirtualWorkspaceSpec_WithClientCABundleRef),
       (([''KubeconfigSecretRef''], SetAddress), VirtualWorkspaceSpec_WithKubeconfigSecretRef),
       (([''ExtraArgs''], Append None), VirtualWorkspaceSpec_WithExtraArgs grow),
       (([''ExtraVolumes''], Append None), VirtualWorkspaceSpec_WithExtraVolumes grow),
       (([''ExtraVolumeMounts''], Append None), VirtualWorkspaceSpec_WithExtraVolumeMounts grow),
       (([''Logging''], SetValue), VirtualWorkspaceSpec_WithLogging),
       (([''ClusterDomain''], SetAddress), VirtualWorkspaceSpec_WithClusterDomain)],
    config_new = (\<lambda>m. Inr (new_VirtualWorkspaceSpec m)),
    config_calls = []\<rparr>"

lemma config_VirtualWorkspaceSpec_ok: "config_ok grow (config_VirtualWorkspaceSpec grow)"
  by (auto simp: config_facts
    config_VirtualWorkspaceSpec_def fields_VirtualWorkspaceSpec_def new_VirtualWorkspaceSpec_def
    VirtualWorkspaceSpec_WithTarget_def VirtualWorkspaceSpec_WithExternal_def
    VirtualWorkspaceSpec_WithImage_def VirtualWorkspaceSpec_WithCommand_def
    VirtualWorkspaceSpec_WithInitContainers_def VirtualWorkspaceSpec_WithReplicas_def
    VirtualWorkspaceSpec_WithResources_def VirtualWorkspaceSpec_WithCertificateTemplates_def
    VirtualWorkspaceSpec_WithServiceTemplate_def VirtualWorkspaceSpec_WithDeploymentTemplate_def
    VirtualWorkspaceSpec_WithCABundleSecretRef_def VirtualWorkspaceSpec_WithClientCABundleRef_def
    VirtualWorkspaceSpec_WithKubeconfigSecretRef_def VirtualWorkspaceSpec_WithExtraArgs_def
    VirtualWorkspaceSpec_WithExtraVolumes_def VirtualWorkspaceSpec_WithExtraVolumeMounts_def
    VirtualWorkspaceSpec_WithLogging_def VirtualWorkspaceSpec_WithClusterDomain_def)

definition config_VirtualWorkspaceStatus :: "(nat \<Rightarrow> nat) \<Rightarrow> ac_config" where
  "config_VirtualWorkspaceStatus grow = \<lparr>
    config_zero = zero_struct fields_VirtualWorkspaceStatus,
    config_meta = None,
    config_methods =
      [(([''Conditions''], Append (Some ''nil value passed to WithConditions'')),
          VirtualWorkspaceStatus_WithConditions grow)],
    config_new = (\<lambda>m. Inr (new_VirtualWorkspaceStatus m)),
    config_calls = []\<rparr>"

lemma config_VirtualWorkspaceStatus_ok: "config_ok grow (config_VirtualWorkspaceStatus grow)"
  by (auto simp: config_facts
    config_VirtualWorkspaceStatus_def fields_VirtualWorkspaceStatus_def new_VirtualWorkspaceStatus_def
    VirtualWorkspaceStatus_WithConditions_def)

definition config_VirtualWorkspaceTarget :: "(nat \<Rightarrow> nat) \<Rightarrow> ac_config" where
  "config_VirtualWorkspaceTarget grow = \<lparr>
    config_zero = zero_struct fields_VirtualWorkspaceTarget,
    config_meta = None,
    config_methods =
      [(([''RootShardRef''], SetAddress), VirtualWorkspaceTarget_WithRootShardRef),
       (([''ShardRef''], SetAddress), VirtualWorkspaceTarget_WithShardRef)],
    config_new = (\<lambda>m. Inr (new_VirtualWorkspaceTarget m)),
    config_calls = []\<rparr>"

lemma config_VirtualWorkspaceTarget_ok: "config_ok grow (config_VirtualWorkspaceTarget grow)"
  by (auto simp: config_facts
    config_VirtualWorkspaceTarget_def fields_VirtualWorkspaceTarget_def new_VirtualWorkspaceTarget_def
    VirtualWorkspaceTarget_WithRootShardRef_def VirtualWorkspaceTarget_WithShardRef_def)

definition config_X509Subject :: "(nat \<Rightarrow> nat) \<Rightarrow> ac_config" where
  "config_X509Subject grow = \<lparr>
    config_zero = zero_struct fields_X509Subject,
    config_meta = None,
    config_methods =
      [(([''Organizations''], Append None), X509Subject_WithOrganizations grow),
       (([''Countries''], Append None), X509Subject_WithCountries grow),
       (([''OrganizationalUnits''], Append None), X509Subject_WithOrganizationalUnits grow),
       (([''Localities''], Append None), X509Subject_WithLocalities grow),
       (([''Provinces''], Append None), X509Subject_WithProvinces grow),
       (([''StreetAddresses''], Append None), X509Subject_WithStreetAddresses grow),
       (([''PostalCodes''], Append None), X509Subject_WithPostalCodes grow),
       (([''SerialNumber''], SetAddress), X509Subject_WithSerialNumber)],
    config_new = (\<lambda>m. Inr (new_X509Subject m)),
    config_calls = []\<rparr>"

lemma config_X509Subject_ok: "config_ok grow (config_X509Subject grow)"
  by (auto simp: config_facts
    config_X509Subject_def fields_X509Subject_def new_X509Subject_def X509Subject_WithOrganizations_def
    X509Subject_WithCountries_def X509Subject_WithOrganizationalUnits_def X509Subject_WithLocalities_def
    X509Subject_WithProvinces_def X509Subject_WithStreetAddresses_def X509Subject_WithPostalCodes_def
    X509Subject_WithSerialNumber_def)

definition config_CompiledCacheServerSpec :: "(nat \<Rightarrow> nat) \<Rightarrow> ac_config" where
  "config_CompiledCacheServerSpec grow = \<lparr>
    config_zero = zero_struct fields_CompiledCacheServerSpec,
    config_meta = None,
    config_methods =
      [(([''CacheServer''], SetValue), CompiledCacheServerSpec_WithCacheServer)],
    config_new = (\<lambda>m. Inr (new_CompiledCacheServerSpec m)),
    config_calls = []\<rparr>"

lemma config_CompiledCacheServerSpec_ok: "config_ok grow (config_CompiledCacheServerSpec grow)"
  by (auto simp: config_facts
    config_CompiledCacheServerSpec_def fields_CompiledCacheServerSpec_def
    new_CompiledCacheServerSpec_def CompiledCacheServerSpec_WithCacheServer_def)

definition config_CompiledFrontProxySpec :: "(nat \<Rightarrow> nat) \<Rightarrow> ac_config" where
  "config_CompiledFrontProxySpec grow = \<lparr>
    config_zero = zero_struct fields_CompiledFrontProxySpec,
    config_meta = None,
    config_methods =
      [(([''FrontProxy''], SetValue), CompiledFrontProxySpec_WithFrontProxy),
       (([''RootShard''], SetValue), CompiledFrontProxySpec_WithRootShard),
       (([''Shards''], Append None), CompiledFrontProxySpec_WithShards grow)],
    config_new = (\<lambda>m. Inr (new_CompiledFrontProxySpec m)),
    config_calls = []\<rparr>"

lemma config_CompiledFrontProxySpec_ok: "config_ok grow (config_CompiledFrontProxySpec grow)"
  by (auto simp: config_facts
    config_CompiledFrontProxySpec_def fields_CompiledFrontProxySpec_def new_CompiledFrontProxySpec_def
    CompiledFrontProxySpec_WithFrontProxy_def CompiledFrontProxySpec_WithRootShard_def
    CompiledFrontProxySpec_WithShards_def)

definition config_CompiledRootShardSpec :: "(nat \<Rightarrow> nat) \<Rightarrow> ac_config" where
  "config_CompiledRootShardSpec grow = \<lparr>
    config_zero = zero_struct fields_CompiledRootShardSpec,
    config_meta = None,
    config_methods =
      [(([''RootShard''], SetValue), CompiledRootShardSpec_WithRootShard),
       (([''VirtualWorkspace''], SetValue), CompiledRootShardSpec_WithVirtualWorkspace),
       (([''Shards''], Append None), CompiledRootShardSpec_WithShards grow)],
    config_new = (\<lambda>m. Inr (new_CompiledRootShardSpec m)),
    config_calls = []\<rparr>"

lemma config_CompiledRootShardSpec_ok: "config_ok grow (config_CompiledRootShardSpec grow)"
  by (auto simp: config_facts
    config_CompiledRootShardSpec_def fields_CompiledRootShardSpec_def new_CompiledRootShardSpec_def
    CompiledRootShardSpec_WithRootShard_def CompiledRootShardSpec_WithVirtualWorkspace_def
    CompiledRootShardSpec_WithShards_def)

definition config_CompiledShardSpec :: "(nat \<Rightarrow> nat) \<Rightarrow> ac_config" where
  "config_CompiledShardSpec grow = \<lparr>
    config_zero = zero_struct fields_CompiledShardSpec,
    config_meta = None,
    config_methods =
      [(([''Shard''], SetValue), CompiledShardSpec_WithShard),
       (([''RootShard''], SetValue), CompiledShardSpec_WithRootShard),
       (([''VirtualWorkspace''], SetValue), CompiledShardSpec_WithVirtualWorkspace),
       (([''Shards''], Append None), CompiledShardSpec_WithShards grow)],
    config_new = (\<lambda>m. Inr (new_CompiledShardSpec m)),
    config_calls = []\<rparr>"

lemma config_CompiledShardSpec_ok: "config_ok grow (config_CompiledShardSpec grow)"
  by (auto simp: config_facts
    config_CompiledShardSpec_def fields_CompiledShardSpec_def new_CompiledShardSpec_def
    CompiledShardSpec_WithShard_def CompiledShardSpec_WithRootShard_def
    CompiledShardSpec_WithVirtualWorkspace_def CompiledShardSpec_WithShards_def)

definition config_CompiledVirtualWorkspaceSpec :: "(nat \<Rightarrow> nat) \<Rightarrow> ac_config" where
  "config_CompiledVirtualWorkspaceSpec grow = \<lparr>
    config_zero = zero_struct fields_CompiledVirtualWorkspaceSpec,
    config_meta = None,
    config_methods =
      [(([''VirtualWorkspace''], SetValue), CompiledVirtualWorkspaceSpec_WithVirtualWorkspace),
       (([''RootShard''], SetValue), CompiledVirtualWorkspaceSpec_WithRootShard),
       (([''Shard''], SetValue), CompiledVirtualWorkspaceSpec_WithShard)],
    config_new = (\<lambda>m. Inr (new_CompiledVirtualWorkspaceSpec m)),
    config_calls = []\<rparr>"

lemma config_CompiledVirtualWorkspaceSpec_ok: "config_ok grow (config_CompiledVirtualWorkspaceSpec grow)"
  by (auto simp: config_facts
    config_CompiledVirtualWorkspaceSpec_def fields_CompiledVirtualWorkspaceSpec_def
    new_CompiledVirtualWorkspaceSpec_def CompiledVirtualWorkspaceSpec_WithVirtualWorkspace_def
    CompiledVirtualWorkspaceSpec_WithRootShard_def CompiledVirtualWorkspaceSpec_WithShard_def)

definition config_NamedRootShardSpec :: "(nat \<Rightarrow> nat) \<Rightarrow> ac_config" where
  "config_NamedRootShardSpec grow = \<lparr>
    config_zero = zero_struct fields_NamedRootShardSpec,
    config_meta = None,
    config_methods =
      [(([''Name''], SetAddress), NamedRootShardSpec_WithName),
       (([''Spec''], SetValue), NamedRootShardSpec_WithSpec)],
    config_new = (\<lambda>m. Inr (new_NamedRootShardSpec m)),
    config_calls = []\<rparr>"

lemma config_NamedRootShardSpec_ok: "config_ok grow (config_NamedRootShardSpec grow)"
  by (auto simp: config_facts
    config_NamedRootShardSpec_def fields_NamedRootShardSpec_def new_NamedRootShardSpec_def
    NamedRootShardSpec_WithName_def NamedRootShardSpec_WithSpec_def)

definition config_NamedShardSpec :: "(nat \<Rightarrow> nat) \<Rightarrow> ac_config" where
  "config_NamedShardSpec grow = \<lparr>
    config_zero = zero_struct fields_NamedShardSpec,
    config_meta = None,
    config_methods =
      [(([''Name''], SetAddress), NamedShardSpec_WithName),
       (([''Spec''], SetValue), NamedShardSpec_WithSpec)],
    config_new = (\<lambda>m. Inr (new_NamedShardSpec m)),
    config_calls = []\<rparr>"

lemma config_NamedShardSpec_ok: "config_ok grow (config_NamedShardSpec grow)"
  by (auto simp: config_facts
    config_NamedShardSpec_def fields_NamedShardSpec_def new_NamedShardSpec_def
    NamedShardSpec_WithName_def NamedShardSpec_WithSpec_def)

definition config_NamedVirtualWorkspaceSpec :: "(nat \<Rightarrow> nat) \<Rightarrow> ac_config" where
  "config_NamedVirtualWorkspaceSpec grow = \<lparr>
    config_zero = zero_struct fields_NamedVirtualWorkspaceSpec,
    config_meta = None,
    config_methods =
      [(([''Name''], SetAddress), NamedVirtualWorkspaceSpec_WithName),
       (([''Spec''], SetValue), NamedVirtualWorkspaceSpec_WithSpec)],
    config_new = (\<lambda>m. Inr (new_NamedVirtualWorkspaceSpec m)),
    config_calls = []\<rparr>"

lemma config_NamedVirtualWorkspaceSpec_ok: "config_ok grow (config_NamedVirtualWorkspaceSpec grow)"
  by (auto simp: config_facts
    config_NamedVirtualWorkspaceSpec_def fields_NamedVirtualWorkspaceSpec_def
    new_NamedVirtualWorkspaceSpec_def NamedVirtualWorkspaceSpec_WithName_def
    NamedVirtualWorkspaceSpec_WithSpec_def)

chapter \<open>Objects\<close>

text \<open>
  The apply configurations of the objects, over the two library structs they are made with.
\<close>

text \<open>What is used of the library structs: that these fields are there, and nil in a new one.\<close>

definition meta_library_ok :: "meta_library \<Rightarrow> bool" where
  "meta_library_ok M \<longleftrightarrow>
     list_all (\<lambda>n. value_at [n] (zero_TypeMetaApplyConfiguration M) = Some NilRef)
         [''APIVersion'', ''Kind'']
   \<and> list_all (\<lambda>n. value_at [n] (zero_ObjectMetaApplyConfiguration M) = Some NilRef)
       [''Annotations'', ''CreationTimestamp'', ''DeletionGracePeriodSeconds'', ''DeletionTimestamp'',
        ''Finalizers'', ''GenerateName'', ''Generation'', ''Labels'', ''Name'', ''Namespace'',
        ''OwnerReferences'', ''ResourceVersion'', ''UID'']"

text \<open>A constructor makes its calls one after the other; each returns its receiver.\<close>

lemma constructor_calls:
  "(case new_struct zero m of (b, m1) \<Rightarrow>
      bindE (ensured e (set_address p1) b v1 m1) (\<lambda>(_, m2).
      bindE (ensured e (set_address p2) b v2 m2) (\<lambda>(_, m3).
      bindE (set_address p3 b v3 m3) (\<lambda>(_, m4).
      bindE (set_address p4 b v4 m4) (\<lambda>(_, m5). Inr (b, m5))))))
    = (case new_struct zero m of (b, m1) \<Rightarrow> run_calls [(ensured e (set_address p1), v1),
        (ensured e (set_address p2), v2),
         (set_address p3, v3), (set_address p4, v4)] b m1)"
  by (simp add: new_struct_def ensured_def set_address_def bindE_assoc)

lemma object_ok:
  assumes "methods_ok (config_shape C) grow (config_methods C)" "fst ` set (config_calls C) \<subseteq>
      set (config_methods C)"
    and "\<And>m. config_new C m = (case new_struct (config_zero C) m of (b, m') \<Rightarrow>
      run_calls (functions_of (config_calls C)) b m')"
  shows "config_ok grow C"
  using assms by (simp add: config_ok_def)

definition config_CacheServer :: "meta_library \<Rightarrow> (nat \<Rightarrow> nat) \<Rightarrow> string
    \<Rightarrow> string \<Rightarrow> ac_config" where
  "config_CacheServer M grow name namespace = \<lparr>
    config_zero = zero_struct (fields_CacheServer M),
    config_meta = Some (''ObjectMetaApplyConfiguration'', zero_ObjectMetaApplyConfiguration M),
    config_methods =
      [(([''TypeMetaApplyConfiguration'', ''Kind''], SetAddress), CacheServer_WithKind M),
       (([''TypeMetaApplyConfiguration'', ''APIVersion''], SetAddress), CacheServer_WithAPIVersion M),
       (([''ObjectMetaApplyConfiguration'', ''Name''], SetAddress), CacheServer_WithName M),
       (([''ObjectMetaApplyConfiguration'', ''GenerateName''], SetAddress), CacheServer_WithGenerateName M),
       (([''ObjectMetaApplyConfiguration'', ''Namespace''], SetAddress), CacheServer_WithNamespace M),
       (([''ObjectMetaApplyConfiguration'', ''UID''], SetAddress), CacheServer_WithUID M),
       (([''ObjectMetaApplyConfiguration'', ''ResourceVersion''], SetAddress),
           CacheServer_WithResourceVersion M),
       (([''ObjectMetaApplyConfiguration'', ''Generation''], SetAddress), CacheServer_WithGeneration M),
       (([''ObjectMetaApplyConfiguration'', ''CreationTimestamp''], SetAddress),
           CacheServer_WithCreationTimestamp M),
       (([''ObjectMetaApplyConfiguration'', ''DeletionTimestamp''], SetAddress),
           CacheServer_WithDeletionTimestamp M),
       (([''ObjectMetaApplyConfiguration'', ''DeletionGracePeriodSeconds''], SetAddress),
           CacheServer_WithDeletionGracePeriodSeconds M),
       (([''ObjectMetaApplyConfiguration'', ''Labels''], PutEntries), CacheServer_WithLabels M),
       (([''ObjectMetaApplyConfiguration'', ''Annotations''], PutEntries), CacheServer_WithAnnotations M),
       (([''ObjectMetaApplyConfiguration'', ''OwnerReferences''], Append (Some
           ''nil value passed to WithOwnerReferences'')), CacheServer_WithOwnerReferences M grow),
       (([''ObjectMetaApplyConfiguration'', ''Finalizers''], Append None), CacheServer_WithFinalizers M grow),
       (([''Spec''], SetValue), CacheServer_WithSpec M),
       (([''Status''], SetAddress), CacheServer_WithStatus M)],
    config_new = new_CacheServer M name namespace,
    config_calls =
      [((([''ObjectMetaApplyConfiguration'', ''Name''], SetAddress), CacheServer_WithName M), Scalar (Text
          name)),
       ((([''ObjectMetaApplyConfiguration'', ''Namespace''], SetAddress), CacheServer_WithNamespace M),
           Scalar (Text namespace)),
       ((([''TypeMetaApplyConfiguration'', ''Kind''], SetAddress), CacheServer_WithKind M), Scalar (Text
           ''CacheServer'')),
       ((([''TypeMetaApplyConfiguration'', ''APIVersion''], SetAddress), CacheServer_WithAPIVersion M),
           Scalar (Text ''operator.kcp.io/v1alpha1''))]\<rparr>"

lemmas CacheServer_defs = config_CacheServer_def new_CacheServer_def
    CacheServer_WithKind_def CacheServer_WithAPIVersion_def CacheServer_WithName_def
    CacheServer_WithGenerateName_def CacheServer_WithNamespace_def CacheServer_WithUID_def
    CacheServer_WithResourceVersion_def CacheServer_WithGeneration_def
    CacheServer_WithCreationTimestamp_def CacheServer_WithDeletionTimestamp_def
    CacheServer_WithDeletionGracePeriodSeconds_def CacheServer_WithLabels_def
    CacheServer_WithAnnotations_def CacheServer_WithOwnerReferences_def CacheServer_WithFinalizers_def
    CacheServer_WithSpec_def CacheServer_WithStatus_def
    CacheServer_ensureObjectMetaApplyConfigurationExists_def

lemma config_CacheServer_ok: "meta_library_ok M \<Longrightarrow> config_ok grow (config_CacheServer M
    grow name namespace)"
  by (rule object_ok)
    (simp_all only: CacheServer_defs fields_CacheServer_def config_shape_def functions_of_def list.map
        prod.case ac_config.simps Let_def constructor_calls,
     auto simp: meta_library_ok_def config_facts)

definition config_FrontProxy :: "meta_library \<Rightarrow> (nat \<Rightarrow> nat) \<Rightarrow> string
    \<Rightarrow> string \<Rightarrow> ac_config" where
  "config_FrontProxy M grow name namespace = \<lparr>
    config_zero = zero_struct (fields_FrontProxy M),
    config_meta = Some (''ObjectMetaApplyConfiguration'', zero_ObjectMetaApplyConfiguration M),
    config_methods =
      [(([''TypeMetaApplyConfiguration'', ''Kind''], SetAddress), FrontProxy_WithKind M),
       (([''TypeMetaApplyConfiguration'', ''APIVersion''], SetAddress), FrontProxy_WithAPIVersion M),
       (([''ObjectMetaApplyConfiguration'', ''Name''], SetAddress), FrontProxy_WithName M),
       (([''ObjectMetaApplyConfiguration'', ''GenerateName''], SetAddress), FrontProxy_WithGenerateName M),
       (([''ObjectMetaApplyConfiguration'', ''Namespace''], SetAddress), FrontProxy_WithNamespace M),
       (([''ObjectMetaApplyConfiguration'', ''UID''], SetAddress), FrontProxy_WithUID M),
       (([''ObjectMetaApplyConfiguration'', ''ResourceVersion''], SetAddress),
           FrontProxy_WithResourceVersion M),
       (([''ObjectMetaApplyConfiguration'', ''Generation''], SetAddress), FrontProxy_WithGeneration M),
       (([''ObjectMetaApplyConfiguration'', ''CreationTimestamp''], SetAddress),
           FrontProxy_WithCreationTimestamp M),
       (([''ObjectMetaApplyConfiguration'', ''DeletionTimestamp''], SetAddress),
           FrontProxy_WithDeletionTimestamp M),
       (([''ObjectMetaApplyConfiguration'', ''DeletionGracePeriodSeconds''], SetAddress),
           FrontProxy_WithDeletionGracePeriodSeconds M),
       (([''ObjectMetaApplyConfiguration'', ''Labels''], PutEntries), FrontProxy_WithLabels M),
       (([''ObjectMetaApplyConfiguration'', ''Annotations''], PutEntries), FrontProxy_WithAnnotations M),
       (([''ObjectMetaApplyConfiguration'', ''OwnerReferences''], Append (Some
           ''nil value passed to WithOwnerReferences'')), FrontProxy_WithOwnerReferences M grow),
       (([''ObjectMetaApplyConfiguration'', ''Finalizers''], Append None), FrontProxy_WithFinalizers M grow),
       (([''Spec''], SetValue), FrontProxy_WithSpec M),
       (([''Status''], SetValue), FrontProxy_WithStatus M)],
    config_new = new_FrontProxy M name namespace,
    config_calls =
      [((([''ObjectMetaApplyConfiguration'', ''Name''], SetAddress), FrontProxy_WithName M), Scalar (Text
          name)),
       ((([''ObjectMetaApplyConfiguration'', ''Namespace''], SetAddress), FrontProxy_WithNamespace M),
           Scalar (Text namespace)),
       ((([''TypeMetaApplyConfiguration'', ''Kind''], SetAddress), FrontProxy_WithKind M), Scalar (Text
           ''FrontProxy'')),
       ((([''TypeMetaApplyConfiguration'', ''APIVersion''], SetAddress), FrontProxy_WithAPIVersion M),
           Scalar (Text ''operator.kcp.io/v1alpha1''))]\<rparr>"

lemmas FrontProxy_defs = config_FrontProxy_def new_FrontProxy_def
    FrontProxy_WithKind_def FrontProxy_WithAPIVersion_def FrontProxy_WithName_def
    FrontProxy_WithGenerateName_def FrontProxy_WithNamespace_def FrontProxy_WithUID_def
    FrontProxy_WithResourceVersion_def FrontProxy_WithGeneration_def
    FrontProxy_WithCreationTimestamp_def FrontProxy_WithDeletionTimestamp_def
    FrontProxy_WithDeletionGracePeriodSeconds_def FrontProxy_WithLabels_def
    FrontProxy_WithAnnotations_def FrontProxy_WithOwnerReferences_def FrontProxy_WithFinalizers_def
    FrontProxy_WithSpec_def FrontProxy_WithStatus_def
    FrontProxy_ensureObjectMetaApplyConfigurationExists_def

lemma config_FrontProxy_ok: "meta_library_ok M \<Longrightarrow> config_ok grow (config_FrontProxy M grow
    name namespace)"
  by (rule object_ok)
    (simp_all only: FrontProxy_defs fields_FrontProxy_def config_shape_def functions_of_def list.map
        prod.case ac_config.simps Let_def constructor_calls,
     auto simp: meta_library_ok_def config_facts)

definition config_Kubeconfig :: "meta_library \<Rightarrow> (nat \<Rightarrow> nat) \<Rightarrow> string
    \<Rightarrow> string \<Rightarrow> ac_config" where
  "config_Kubeconfig M grow name namespace = \<lparr>
    config_zero = zero_struct (fields_Kubeconfig M),
    config_meta = Some (''ObjectMetaApplyConfiguration'', zero_ObjectMetaApplyConfiguration M),
    config_methods =
      [(([''TypeMetaApplyConfiguration'', ''Kind''], SetAddress), Kubeconfig_WithKind M),
       (([''TypeMetaApplyConfiguration'', ''APIVersion''], SetAddress), Kubeconfig_WithAPIVersion M),
       (([''ObjectMetaApplyConfiguration'', ''Name''], SetAddress), Kubeconfig_WithName M),
       (([''ObjectMetaApplyConfiguration'', ''GenerateName''], SetAddress), Kubeconfig_WithGenerateName M),
       (([''ObjectMetaApplyConfiguration'', ''Namespace''], SetAddress), Kubeconfig_WithNamespace M),
       (([''ObjectMetaApplyConfiguration'', ''UID''], SetAddress), Kubeconfig_WithUID M),
       (([''ObjectMetaApplyConfiguration'', ''ResourceVersion''], SetAddress),
           Kubeconfig_WithResourceVersion M),
       (([''ObjectMetaApplyConfiguration'', ''Generation''], SetAddress), Kubeconfig_WithGeneration M),
       (([''ObjectMetaApplyConfiguration'', ''CreationTimestamp''], SetAddress),
           Kubeconfig_WithCreationTimestamp M),
       (([''ObjectMetaApplyConfiguration'', ''DeletionTimestamp''], SetAddress),
           Kubeconfig_WithDeletionTimestamp M),
       (([''ObjectMetaApplyConfiguration'', ''DeletionGracePeriodSeconds''], SetAddress),
           Kubeconfig_WithDeletionGracePeriodSeconds M),
       (([''ObjectMetaApplyConfiguration'', ''Labels''], PutEntries), Kubeconfig_WithLabels M),
       (([''ObjectMetaApplyConfiguration'', ''Annotations''], PutEntries), Kubeconfig_WithAnnotations M),
       (([''ObjectMetaApplyConfiguration'', ''OwnerReferences''], Append (Some
           ''nil value passed to WithOwnerReferences'')), Kubeconfig_WithOwnerReferences M grow),
       (([''ObjectMetaApplyConfiguration'', ''Finalizers''], Append None), Kubeconfig_WithFinalizers M grow),
       (([''Spec''], SetValue), Kubeconfig_WithSpec M),
       (([''Status''], SetValue), Kubeconfig_WithStatus M)],
    config_new = new_Kubeconfig M name namespace,
    config_calls =
      [((([''ObjectMetaApplyConfiguration'', ''Name''], SetAddress), Kubeconfig_WithName M), Scalar (Text
          name)),
       ((([''ObjectMetaApplyConfiguration'', ''Namespace''], SetAddress), Kubeconfig_WithNamespace M),
           Scalar (Text namespace)),
       ((([''TypeMetaApplyConfiguration'', ''Kind''], SetAddress), Kubeconfig_WithKind M), Scalar (Text
           ''Kubeconfig'')),
       ((([''TypeMetaApplyConfiguration'', ''APIVersion''], SetAddress), Kubeconfig_WithAPIVersion M),
           Scalar (Text ''operator.kcp.io/v1alpha1''))]\<rparr>"

lemmas Kubeconfig_defs = config_Kubeconfig_def new_Kubeconfig_def
    Kubeconfig_WithKind_def Kubeconfig_WithAPIVersion_def Kubeconfig_WithName_def
    Kubeconfig_WithGenerateName_def Kubeconfig_WithNamespace_def Kubeconfig_WithUID_def
    Kubeconfig_WithResourceVersion_def Kubeconfig_WithGeneration_def
    Kubeconfig_WithCreationTimestamp_def Kubeconfig_WithDeletionTimestamp_def
    Kubeconfig_WithDeletionGracePeriodSeconds_def Kubeconfig_WithLabels_def
    Kubeconfig_WithAnnotations_def Kubeconfig_WithOwnerReferences_def Kubeconfig_WithFinalizers_def
    Kubeconfig_WithSpec_def Kubeconfig_WithStatus_def
    Kubeconfig_ensureObjectMetaApplyConfigurationExists_def

lemma config_Kubeconfig_ok: "meta_library_ok M \<Longrightarrow> config_ok grow (config_Kubeconfig M grow
    name namespace)"
  by (rule object_ok)
    (simp_all only: Kubeconfig_defs fields_Kubeconfig_def config_shape_def functions_of_def list.map
        prod.case ac_config.simps Let_def constructor_calls,
     auto simp: meta_library_ok_def config_facts)

definition config_RootShard :: "meta_library \<Rightarrow> (nat \<Rightarrow> nat) \<Rightarrow> string
    \<Rightarrow> string \<Rightarrow> ac_config" where
  "config_RootShard M grow name namespace = \<lparr>
    config_zero = zero_struct (fields_RootShard M),
    config_meta = Some (''ObjectMetaApplyConfiguration'', zero_ObjectMetaApplyConfiguration M),
    config_methods =
      [(([''TypeMetaApplyConfiguration'', ''Kind''], SetAddress), RootShard_WithKind M),
       (([''TypeMetaApplyConfiguration'', ''APIVersion''], SetAddress), RootShard_WithAPIVersion M),
       (([''ObjectMetaApplyConfiguration'', ''Name''], SetAddress), RootShard_WithName M),
       (([''ObjectMetaApplyConfiguration'', ''GenerateName''], SetAddress), RootShard_WithGenerateName M),
       (([''ObjectMetaApplyConfiguration'', ''Namespace''], SetAddress), RootShard_WithNamespace M),
       (([''ObjectMetaApplyConfiguration'', ''UID''], SetAddress), RootShard_WithUID M),
       (([''ObjectMetaApplyConfiguration'', ''ResourceVersion''], SetAddress), RootShard_WithResourceVersion M),
       (([''ObjectMetaApplyConfiguration'', ''Generation''], SetAddress), RootShard_WithGeneration M),
       (([''ObjectMetaApplyConfiguration'', ''CreationTimestamp''], SetAddress),
           RootShard_WithCreationTimestamp M),
       (([''ObjectMetaApplyConfiguration'', ''DeletionTimestamp''], SetAddress),
           RootShard_WithDeletionTimestamp M),
       (([''ObjectMetaApplyConfiguration'', ''DeletionGracePeriodSeconds''], SetAddress),
           RootShard_WithDeletionGracePeriodSeconds M),
       (([''ObjectMetaApplyConfiguration'', ''Labels''], PutEntries), RootShard_WithLabels M),
       (([''ObjectMetaApplyConfiguration'', ''Annotations''], PutEntries), RootShard_WithAnnotations M),
       (([''ObjectMetaApplyConfiguration'', ''OwnerReferences''], Append (Some
           ''nil value passed to WithOwnerReferences'')), RootShard_WithOwnerReferences M grow),
       (([''ObjectMetaApplyConfiguration'', ''Finalizers''], Append None), RootShard_WithFinalizers M grow),
       (([''Spec''], SetValue), RootShard_WithSpec M),
       (([''Status''], SetValue), RootShard_WithStatus M)],
    config_new = new_RootShard M name namespace,
    config_calls =
      [((([''ObjectMetaApplyConfiguration'', ''Name''], SetAddress), RootShard_WithName M), Scalar (Text name)),
       ((([''ObjectMetaApplyConfiguration'', ''Namespace''], SetAddress), RootShard_WithNamespace M),
           Scalar (Text namespace)),
       ((([''TypeMetaApplyConfiguration'', ''Kind''], SetAddress), RootShard_WithKind M), Scalar (Text
           ''RootShard'')),
       ((([''TypeMetaApplyConfiguration'', ''APIVersion''], SetAddress), RootShard_WithAPIVersion M),
           Scalar (Text ''operator.kcp.io/v1alpha1''))]\<rparr>"

lemmas RootShard_defs = config_RootShard_def new_RootShard_def
    RootShard_WithKind_def RootShard_WithAPIVersion_def RootShard_WithName_def
    RootShard_WithGenerateName_def RootShard_WithNamespace_def RootShard_WithUID_def
    RootShard_WithResourceVersion_def RootShard_WithGeneration_def RootShard_WithCreationTimestamp_def
    RootShard_WithDeletionTimestamp_def RootShard_WithDeletionGracePeriodSeconds_def
    RootShard_WithLabels_def RootShard_WithAnnotations_def RootShard_WithOwnerReferences_def
    RootShard_WithFinalizers_def RootShard_WithSpec_def RootShard_WithStatus_def
    RootShard_ensureObjectMetaApplyConfigurationExists_def

lemma config_RootShard_ok: "meta_library_ok M \<Longrightarrow> config_ok grow (config_RootShard M grow
    name namespace)"
  by (rule object_ok)
    (simp_all only: RootShard_defs fields_RootShard_def config_shape_def functions_of_def list.map
        prod.case ac_config.simps Let_def constructor_calls,
     auto simp: meta_library_ok_def config_facts)

definition config_Shard :: "meta_library \<Rightarrow> (nat \<Rightarrow> nat) \<Rightarrow> string
    \<Rightarrow> string \<Rightarrow> ac_config" where
  "config_Shard M grow name namespace = \<lparr>
    config_zero = zero_struct (fields_Shard M),
    config_meta = Some (''ObjectMetaApplyConfiguration'', zero_ObjectMetaApplyConfiguration M),
    config_methods =
      [(([''TypeMetaApplyConfiguration'', ''Kind''], SetAddress), Shard_WithKind M),
       (([''TypeMetaApplyConfiguration'', ''APIVersion''], SetAddress), Shard_WithAPIVersion M),
       (([''ObjectMetaApplyConfiguration'', ''Name''], SetAddress), Shard_WithName M),
       (([''ObjectMetaApplyConfiguration'', ''GenerateName''], SetAddress), Shard_WithGenerateName M),
       (([''ObjectMetaApplyConfiguration'', ''Namespace''], SetAddress), Shard_WithNamespace M),
       (([''ObjectMetaApplyConfiguration'', ''UID''], SetAddress), Shard_WithUID M),
       (([''ObjectMetaApplyConfiguration'', ''ResourceVersion''], SetAddress), Shard_WithResourceVersion M),
       (([''ObjectMetaApplyConfiguration'', ''Generation''], SetAddress), Shard_WithGeneration M),
       (([''ObjectMetaApplyConfiguration'', ''CreationTimestamp''], SetAddress), Shard_WithCreationTimestamp M),
       (([''ObjectMetaApplyConfiguration'', ''DeletionTimestamp''], SetAddress), Shard_WithDeletionTimestamp M),
       (([''ObjectMetaApplyConfiguration'', ''DeletionGracePeriodSeconds''], SetAddress),
           Shard_WithDeletionGracePeriodSeconds M),
       (([''ObjectMetaApplyConfiguration'', ''Labels''], PutEntries), Shard_WithLabels M),
       (([''ObjectMetaApplyConfiguration'', ''Annotations''], PutEntries), Shard_WithAnnotations M),
       (([''ObjectMetaApplyConfiguration'', ''OwnerReferences''], Append (Some
           ''nil value passed to WithOwnerReferences'')), Shard_WithOwnerReferences M grow),
       (([''ObjectMetaApplyConfiguration'', ''Finalizers''], Append None), Shard_WithFinalizers M grow),
       (([''Spec''], SetValue), Shard_WithSpec M), (([''Status''], SetValue), Shard_WithStatus M)],
    config_new = new_Shard M name namespace,
    config_calls =
      [((([''ObjectMetaApplyConfiguration'', ''Name''], SetAddress), Shard_WithName M), Scalar (Text name)),
       ((([''ObjectMetaApplyConfiguration'', ''Namespace''], SetAddress), Shard_WithNamespace M), Scalar
           (Text namespace)),
       ((([''TypeMetaApplyConfiguration'', ''Kind''], SetAddress), Shard_WithKind M), Scalar (Text ''Shard'')),
       ((([''TypeMetaApplyConfiguration'', ''APIVersion''], SetAddress), Shard_WithAPIVersion M), Scalar
           (Text ''operator.kcp.io/v1alpha1''))]\<rparr>"

lemmas Shard_defs = config_Shard_def new_Shard_def
    Shard_WithKind_def Shard_WithAPIVersion_def Shard_WithName_def Shard_WithGenerateName_def
    Shard_WithNamespace_def Shard_WithUID_def Shard_WithResourceVersion_def Shard_WithGeneration_def
    Shard_WithCreationTimestamp_def Shard_WithDeletionTimestamp_def
    Shard_WithDeletionGracePeriodSeconds_def Shard_WithLabels_def Shard_WithAnnotations_def
    Shard_WithOwnerReferences_def Shard_WithFinalizers_def Shard_WithSpec_def Shard_WithStatus_def
    Shard_ensureObjectMetaApplyConfigurationExists_def

lemma config_Shard_ok: "meta_library_ok M \<Longrightarrow> config_ok grow (config_Shard M grow name namespace)"
  by (rule object_ok)
    (simp_all only: Shard_defs fields_Shard_def config_shape_def functions_of_def list.map prod.case
        ac_config.simps Let_def constructor_calls,
     auto simp: meta_library_ok_def config_facts)

definition config_VirtualWorkspace :: "meta_library \<Rightarrow> (nat \<Rightarrow> nat) \<Rightarrow>
    string \<Rightarrow> string \<Rightarrow> ac_config" where
  "config_VirtualWorkspace M grow name namespace = \<lparr>
    config_zero = zero_struct (fields_VirtualWorkspace M),
    config_meta = Some (''ObjectMetaApplyConfiguration'', zero_ObjectMetaApplyConfiguration M),
    config_methods =
      [(([''TypeMetaApplyConfiguration'', ''Kind''], SetAddress), VirtualWorkspace_WithKind M),
       (([''TypeMetaApplyConfiguration'', ''APIVersion''], SetAddress), VirtualWorkspace_WithAPIVersion M),
       (([''ObjectMetaApplyConfiguration'', ''Name''], SetAddress), VirtualWorkspace_WithName M),
       (([''ObjectMetaApplyConfiguration'', ''GenerateName''], SetAddress),
           VirtualWorkspace_WithGenerateName M),
       (([''ObjectMetaApplyConfiguration'', ''Namespace''], SetAddress), VirtualWorkspace_WithNamespace M),
       (([''ObjectMetaApplyConfiguration'', ''UID''], SetAddress), VirtualWorkspace_WithUID M),
       (([''ObjectMetaApplyConfiguration'', ''ResourceVersion''], SetAddress),
           VirtualWorkspace_WithResourceVersion M),
       (([''ObjectMetaApplyConfiguration'', ''Generation''], SetAddress), VirtualWorkspace_WithGeneration M),
       (([''ObjectMetaApplyConfiguration'', ''CreationTimestamp''], SetAddress),
           VirtualWorkspace_WithCreationTimestamp M),
       (([''ObjectMetaApplyConfiguration'', ''DeletionTimestamp''], SetAddress),
           VirtualWorkspace_WithDeletionTimestamp M),
       (([''ObjectMetaApplyConfiguration'', ''DeletionGracePeriodSeconds''], SetAddress),
           VirtualWorkspace_WithDeletionGracePeriodSeconds M),
       (([''ObjectMetaApplyConfiguration'', ''Labels''], PutEntries), VirtualWorkspace_WithLabels M),
       (([''ObjectMetaApplyConfiguration'', ''Annotations''], PutEntries), VirtualWorkspace_WithAnnotations M),
       (([''ObjectMetaApplyConfiguration'', ''OwnerReferences''], Append (Some
           ''nil value passed to WithOwnerReferences'')), VirtualWorkspace_WithOwnerReferences M grow),
       (([''ObjectMetaApplyConfiguration'', ''Finalizers''], Append None), VirtualWorkspace_WithFinalizers
           M grow),
       (([''Spec''], SetValue), VirtualWorkspace_WithSpec M),
       (([''Status''], SetValue), VirtualWorkspace_WithStatus M)],
    config_new = new_VirtualWorkspace M name namespace,
    config_calls =
      [((([''ObjectMetaApplyConfiguration'', ''Name''], SetAddress), VirtualWorkspace_WithName M), Scalar
          (Text name)),
       ((([''ObjectMetaApplyConfiguration'', ''Namespace''], SetAddress), VirtualWorkspace_WithNamespace
           M), Scalar (Text namespace)),
       ((([''TypeMetaApplyConfiguration'', ''Kind''], SetAddress), VirtualWorkspace_WithKind M), Scalar
           (Text ''VirtualWorkspace'')),
       ((([''TypeMetaApplyConfiguration'', ''APIVersion''], SetAddress), VirtualWorkspace_WithAPIVersion
           M), Scalar (Text ''operator.kcp.io/v1alpha1''))]\<rparr>"

lemmas VirtualWorkspace_defs = config_VirtualWorkspace_def new_VirtualWorkspace_def
    VirtualWorkspace_WithKind_def VirtualWorkspace_WithAPIVersion_def VirtualWorkspace_WithName_def
    VirtualWorkspace_WithGenerateName_def VirtualWorkspace_WithNamespace_def
    VirtualWorkspace_WithUID_def VirtualWorkspace_WithResourceVersion_def
    VirtualWorkspace_WithGeneration_def VirtualWorkspace_WithCreationTimestamp_def
    VirtualWorkspace_WithDeletionTimestamp_def VirtualWorkspace_WithDeletionGracePeriodSeconds_def
    VirtualWorkspace_WithLabels_def VirtualWorkspace_WithAnnotations_def
    VirtualWorkspace_WithOwnerReferences_def VirtualWorkspace_WithFinalizers_def
    VirtualWorkspace_WithSpec_def VirtualWorkspace_WithStatus_def
    VirtualWorkspace_ensureObjectMetaApplyConfigurationExists_def

lemma config_VirtualWorkspace_ok: "meta_library_ok M \<Longrightarrow> config_ok grow
    (config_VirtualWorkspace M grow name namespace)"
  by (rule object_ok)
    (simp_all only: VirtualWorkspace_defs fields_VirtualWorkspace_def config_shape_def functions_of_def
        list.map prod.case ac_config.simps Let_def constructor_calls,
     auto simp: meta_library_ok_def config_facts)

definition config_CompiledCacheServer :: "meta_library \<Rightarrow> (nat \<Rightarrow> nat) \<Rightarrow>
    string \<Rightarrow> string \<Rightarrow> ac_config" where
  "config_CompiledCacheServer M grow name namespace = \<lparr>
    config_zero = zero_struct (fields_CompiledCacheServer M),
    config_meta = Some (''ObjectMetaApplyConfiguration'', zero_ObjectMetaApplyConfiguration M),
    config_methods =
      [(([''TypeMetaApplyConfiguration'', ''Kind''], SetAddress), CompiledCacheServer_WithKind M),
       (([''TypeMetaApplyConfiguration'', ''APIVersion''], SetAddress), CompiledCacheServer_WithAPIVersion M),
       (([''ObjectMetaApplyConfiguration'', ''Name''], SetAddress), CompiledCacheServer_WithName M),
       (([''ObjectMetaApplyConfiguration'', ''GenerateName''], SetAddress),
           CompiledCacheServer_WithGenerateName M),
       (([''ObjectMetaApplyConfiguration'', ''Namespace''], SetAddress), CompiledCacheServer_WithNamespace M),
       (([''ObjectMetaApplyConfiguration'', ''UID''], SetAddress), CompiledCacheServer_WithUID M),
       (([''ObjectMetaApplyConfiguration'', ''ResourceVersion''], SetAddress),
           CompiledCacheServer_WithResourceVersion M),
       (([''ObjectMetaApplyConfiguration'', ''Generation''], SetAddress), CompiledCacheServer_WithGeneration M),
       (([''ObjectMetaApplyConfiguration'', ''CreationTimestamp''], SetAddress),
           CompiledCacheServer_WithCreationTimestamp M),
       (([''ObjectMetaApplyConfiguration'', ''DeletionTimestamp''], SetAddress),
           CompiledCacheServer_WithDeletionTimestamp M),
       (([''ObjectMetaApplyConfiguration'', ''DeletionGracePeriodSeconds''], SetAddress),
           CompiledCacheServer_WithDeletionGracePeriodSeconds M),
       (([''ObjectMetaApplyConfiguration'', ''Labels''], PutEntries), CompiledCacheServer_WithLabels M),
       (([''ObjectMetaApplyConfiguration'', ''Annotations''], PutEntries),
           CompiledCacheServer_WithAnnotations M),
       (([''ObjectMetaApplyConfiguration'', ''OwnerReferences''], Append (Some
           ''nil value passed to WithOwnerReferences'')), CompiledCacheServer_WithOwnerReferences M grow),
       (([''ObjectMetaApplyConfiguration'', ''Finalizers''], Append None),
           CompiledCacheServer_WithFinalizers M grow),
       (([''Spec''], SetValue), CompiledCacheServer_WithSpec M),
       (([''Status''], SetAddress), CompiledCacheServer_WithStatus M)],
    config_new = new_CompiledCacheServer M name namespace,
    config_calls =
      [((([''ObjectMetaApplyConfiguration'', ''Name''], SetAddress), CompiledCacheServer_WithName M),
          Scalar (Text name)),
       ((([''ObjectMetaApplyConfiguration'', ''Namespace''], SetAddress),
           CompiledCacheServer_WithNamespace M), Scalar (Text namespace)),
       ((([''TypeMetaApplyConfiguration'', ''Kind''], SetAddress), CompiledCacheServer_WithKind M), Scalar
           (Text ''CompiledCacheServer'')),
       ((([''TypeMetaApplyConfiguration'', ''APIVersion''], SetAddress),
           CompiledCacheServer_WithAPIVersion M), Scalar (Text ''deploy.operator.kcp.io/v1alpha1''))]\<rparr>"

lemmas CompiledCacheServer_defs = config_CompiledCacheServer_def new_CompiledCacheServer_def
    CompiledCacheServer_WithKind_def CompiledCacheServer_WithAPIVersion_def
    CompiledCacheServer_WithName_def CompiledCacheServer_WithGenerateName_def
    CompiledCacheServer_WithNamespace_def CompiledCacheServer_WithUID_def
    CompiledCacheServer_WithResourceVersion_def CompiledCacheServer_WithGeneration_def
    CompiledCacheServer_WithCreationTimestamp_def CompiledCacheServer_WithDeletionTimestamp_def
    CompiledCacheServer_WithDeletionGracePeriodSeconds_def CompiledCacheServer_WithLabels_def
    CompiledCacheServer_WithAnnotations_def CompiledCacheServer_WithOwnerReferences_def
    CompiledCacheServer_WithFinalizers_def CompiledCacheServer_WithSpec_def
    CompiledCacheServer_WithStatus_def CompiledCacheServer_ensureObjectMetaApplyConfigurationExists_def

lemma config_CompiledCacheServer_ok: "meta_library_ok M \<Longrightarrow> config_ok grow
    (config_CompiledCacheServer M grow name namespace)"
  by (rule object_ok)
    (simp_all only: CompiledCacheServer_defs fields_CompiledCacheServer_def config_shape_def
        functions_of_def list.map prod.case ac_config.simps Let_def constructor_calls,
     auto simp: meta_library_ok_def config_facts)

definition config_CompiledFrontProxy :: "meta_library \<Rightarrow> (nat \<Rightarrow> nat) \<Rightarrow>
    string \<Rightarrow> string \<Rightarrow> ac_config" where
  "config_CompiledFrontProxy M grow name namespace = \<lparr>
    config_zero = zero_struct (fields_CompiledFrontProxy M),
    config_meta = Some (''ObjectMetaApplyConfiguration'', zero_ObjectMetaApplyConfiguration M),
    config_methods =
      [(([''TypeMetaApplyConfiguration'', ''Kind''], SetAddress), CompiledFrontProxy_WithKind M),
       (([''TypeMetaApplyConfiguration'', ''APIVersion''], SetAddress), CompiledFrontProxy_WithAPIVersion M),
       (([''ObjectMetaApplyConfiguration'', ''Name''], SetAddress), CompiledFrontProxy_WithName M),
       (([''ObjectMetaApplyConfiguration'', ''GenerateName''], SetAddress),
           CompiledFrontProxy_WithGenerateName M),
       (([''ObjectMetaApplyConfiguration'', ''Namespace''], SetAddress), CompiledFrontProxy_WithNamespace M),
       (([''ObjectMetaApplyConfiguration'', ''UID''], SetAddress), CompiledFrontProxy_WithUID M),
       (([''ObjectMetaApplyConfiguration'', ''ResourceVersion''], SetAddress),
           CompiledFrontProxy_WithResourceVersion M),
       (([''ObjectMetaApplyConfiguration'', ''Generation''], SetAddress), CompiledFrontProxy_WithGeneration M),
       (([''ObjectMetaApplyConfiguration'', ''CreationTimestamp''], SetAddress),
           CompiledFrontProxy_WithCreationTimestamp M),
       (([''ObjectMetaApplyConfiguration'', ''DeletionTimestamp''], SetAddress),
           CompiledFrontProxy_WithDeletionTimestamp M),
       (([''ObjectMetaApplyConfiguration'', ''DeletionGracePeriodSeconds''], SetAddress),
           CompiledFrontProxy_WithDeletionGracePeriodSeconds M),
       (([''ObjectMetaApplyConfiguration'', ''Labels''], PutEntries), CompiledFrontProxy_WithLabels M),
       (([''ObjectMetaApplyConfiguration'', ''Annotations''], PutEntries),
           CompiledFrontProxy_WithAnnotations M),
       (([''ObjectMetaApplyConfiguration'', ''OwnerReferences''], Append (Some
           ''nil value passed to WithOwnerReferences'')), CompiledFrontProxy_WithOwnerReferences M grow),
       (([''ObjectMetaApplyConfiguration'', ''Finalizers''], Append None),
           CompiledFrontProxy_WithFinalizers M grow),
       (([''Spec''], SetValue), CompiledFrontProxy_WithSpec M),
       (([''Status''], SetValue), CompiledFrontProxy_WithStatus M)],
    config_new = new_CompiledFrontProxy M name namespace,
    config_calls =
      [((([''ObjectMetaApplyConfiguration'', ''Name''], SetAddress), CompiledFrontProxy_WithName M),
          Scalar (Text name)),
       ((([''ObjectMetaApplyConfiguration'', ''Namespace''], SetAddress), CompiledFrontProxy_WithNamespace
           M), Scalar (Text namespace)),
       ((([''TypeMetaApplyConfiguration'', ''Kind''], SetAddress), CompiledFrontProxy_WithKind M), Scalar
           (Text ''CompiledFrontProxy'')),
       ((([''TypeMetaApplyConfiguration'', ''APIVersion''], SetAddress), CompiledFrontProxy_WithAPIVersion
           M), Scalar (Text ''deploy.operator.kcp.io/v1alpha1''))]\<rparr>"

lemmas CompiledFrontProxy_defs = config_CompiledFrontProxy_def new_CompiledFrontProxy_def
    CompiledFrontProxy_WithKind_def CompiledFrontProxy_WithAPIVersion_def
    CompiledFrontProxy_WithName_def CompiledFrontProxy_WithGenerateName_def
    CompiledFrontProxy_WithNamespace_def CompiledFrontProxy_WithUID_def
    CompiledFrontProxy_WithResourceVersion_def CompiledFrontProxy_WithGeneration_def
    CompiledFrontProxy_WithCreationTimestamp_def CompiledFrontProxy_WithDeletionTimestamp_def
    CompiledFrontProxy_WithDeletionGracePeriodSeconds_def CompiledFrontProxy_WithLabels_def
    CompiledFrontProxy_WithAnnotations_def CompiledFrontProxy_WithOwnerReferences_def
    CompiledFrontProxy_WithFinalizers_def CompiledFrontProxy_WithSpec_def
    CompiledFrontProxy_WithStatus_def CompiledFrontProxy_ensureObjectMetaApplyConfigurationExists_def

lemma config_CompiledFrontProxy_ok: "meta_library_ok M \<Longrightarrow> config_ok grow
    (config_CompiledFrontProxy M grow name namespace)"
  by (rule object_ok)
    (simp_all only: CompiledFrontProxy_defs fields_CompiledFrontProxy_def config_shape_def
        functions_of_def list.map prod.case ac_config.simps Let_def constructor_calls,
     auto simp: meta_library_ok_def config_facts)

definition config_CompiledRootShard :: "meta_library \<Rightarrow> (nat \<Rightarrow> nat) \<Rightarrow>
    string \<Rightarrow> string \<Rightarrow> ac_config" where
  "config_CompiledRootShard M grow name namespace = \<lparr>
    config_zero = zero_struct (fields_CompiledRootShard M),
    config_meta = Some (''ObjectMetaApplyConfiguration'', zero_ObjectMetaApplyConfiguration M),
    config_methods =
      [(([''TypeMetaApplyConfiguration'', ''Kind''], SetAddress), CompiledRootShard_WithKind M),
       (([''TypeMetaApplyConfiguration'', ''APIVersion''], SetAddress), CompiledRootShard_WithAPIVersion M),
       (([''ObjectMetaApplyConfiguration'', ''Name''], SetAddress), CompiledRootShard_WithName M),
       (([''ObjectMetaApplyConfiguration'', ''GenerateName''], SetAddress),
           CompiledRootShard_WithGenerateName M),
       (([''ObjectMetaApplyConfiguration'', ''Namespace''], SetAddress), CompiledRootShard_WithNamespace M),
       (([''ObjectMetaApplyConfiguration'', ''UID''], SetAddress), CompiledRootShard_WithUID M),
       (([''ObjectMetaApplyConfiguration'', ''ResourceVersion''], SetAddress),
           CompiledRootShard_WithResourceVersion M),
       (([''ObjectMetaApplyConfiguration'', ''Generation''], SetAddress), CompiledRootShard_WithGeneration M),
       (([''ObjectMetaApplyConfiguration'', ''CreationTimestamp''], SetAddress),
           CompiledRootShard_WithCreationTimestamp M),
       (([''ObjectMetaApplyConfiguration'', ''DeletionTimestamp''], SetAddress),
           CompiledRootShard_WithDeletionTimestamp M),
       (([''ObjectMetaApplyConfiguration'', ''DeletionGracePeriodSeconds''], SetAddress),
           CompiledRootShard_WithDeletionGracePeriodSeconds M),
       (([''ObjectMetaApplyConfiguration'', ''Labels''], PutEntries), CompiledRootShard_WithLabels M),
       (([''ObjectMetaApplyConfiguration'', ''Annotations''], PutEntries), CompiledRootShard_WithAnnotations M),
       (([''ObjectMetaApplyConfiguration'', ''OwnerReferences''], Append (Some
           ''nil value passed to WithOwnerReferences'')), CompiledRootShard_WithOwnerReferences M grow),
       (([''ObjectMetaApplyConfiguration'', ''Finalizers''], Append None),
           CompiledRootShard_WithFinalizers M grow),
       (([''Spec''], SetValue), CompiledRootShard_WithSpec M),
       (([''Status''], SetValue), CompiledRootShard_WithStatus M)],
    config_new = new_CompiledRootShard M name namespace,
    config_calls =
      [((([''ObjectMetaApplyConfiguration'', ''Name''], SetAddress), CompiledRootShard_WithName M), Scalar
          (Text name)),
       ((([''ObjectMetaApplyConfiguration'', ''Namespace''], SetAddress), CompiledRootShard_WithNamespace
           M), Scalar (Text namespace)),
       ((([''TypeMetaApplyConfiguration'', ''Kind''], SetAddress), CompiledRootShard_WithKind M), Scalar
           (Text ''CompiledRootShard'')),
       ((([''TypeMetaApplyConfiguration'', ''APIVersion''], SetAddress), CompiledRootShard_WithAPIVersion
           M), Scalar (Text ''deploy.operator.kcp.io/v1alpha1''))]\<rparr>"

lemmas CompiledRootShard_defs = config_CompiledRootShard_def new_CompiledRootShard_def
    CompiledRootShard_WithKind_def CompiledRootShard_WithAPIVersion_def CompiledRootShard_WithName_def
    CompiledRootShard_WithGenerateName_def CompiledRootShard_WithNamespace_def
    CompiledRootShard_WithUID_def CompiledRootShard_WithResourceVersion_def
    CompiledRootShard_WithGeneration_def CompiledRootShard_WithCreationTimestamp_def
    CompiledRootShard_WithDeletionTimestamp_def CompiledRootShard_WithDeletionGracePeriodSeconds_def
    CompiledRootShard_WithLabels_def CompiledRootShard_WithAnnotations_def
    CompiledRootShard_WithOwnerReferences_def CompiledRootShard_WithFinalizers_def
    CompiledRootShard_WithSpec_def CompiledRootShard_WithStatus_def
    CompiledRootShard_ensureObjectMetaApplyConfigurationExists_def

lemma config_CompiledRootShard_ok: "meta_library_ok M \<Longrightarrow> config_ok grow
    (config_CompiledRootShard M grow name namespace)"
  by (rule object_ok)
    (simp_all only: CompiledRootShard_defs fields_CompiledRootShard_def config_shape_def functions_of_def
        list.map prod.case ac_config.simps Let_def constructor_calls,
     auto simp: meta_library_ok_def config_facts)

definition config_CompiledShard :: "meta_library \<Rightarrow> (nat \<Rightarrow> nat) \<Rightarrow>
    string \<Rightarrow> string \<Rightarrow> ac_config" where
  "config_CompiledShard M grow name namespace = \<lparr>
    config_zero = zero_struct (fields_CompiledShard M),
    config_meta = Some (''ObjectMetaApplyConfiguration'', zero_ObjectMetaApplyConfiguration M),
    config_methods =
      [(([''TypeMetaApplyConfiguration'', ''Kind''], SetAddress), CompiledShard_WithKind M),
       (([''TypeMetaApplyConfiguration'', ''APIVersion''], SetAddress), CompiledShard_WithAPIVersion M),
       (([''ObjectMetaApplyConfiguration'', ''Name''], SetAddress), CompiledShard_WithName M),
       (([''ObjectMetaApplyConfiguration'', ''GenerateName''], SetAddress), CompiledShard_WithGenerateName M),
       (([''ObjectMetaApplyConfiguration'', ''Namespace''], SetAddress), CompiledShard_WithNamespace M),
       (([''ObjectMetaApplyConfiguration'', ''UID''], SetAddress), CompiledShard_WithUID M),
       (([''ObjectMetaApplyConfiguration'', ''ResourceVersion''], SetAddress),
           CompiledShard_WithResourceVersion M),
       (([''ObjectMetaApplyConfiguration'', ''Generation''], SetAddress), CompiledShard_WithGeneration M),
       (([''ObjectMetaApplyConfiguration'', ''CreationTimestamp''], SetAddress),
           CompiledShard_WithCreationTimestamp M),
       (([''ObjectMetaApplyConfiguration'', ''DeletionTimestamp''], SetAddress),
           CompiledShard_WithDeletionTimestamp M),
       (([''ObjectMetaApplyConfiguration'', ''DeletionGracePeriodSeconds''], SetAddress),
           CompiledShard_WithDeletionGracePeriodSeconds M),
       (([''ObjectMetaApplyConfiguration'', ''Labels''], PutEntries), CompiledShard_WithLabels M),
       (([''ObjectMetaApplyConfiguration'', ''Annotations''], PutEntries), CompiledShard_WithAnnotations M),
       (([''ObjectMetaApplyConfiguration'', ''OwnerReferences''], Append (Some
           ''nil value passed to WithOwnerReferences'')), CompiledShard_WithOwnerReferences M grow),
       (([''ObjectMetaApplyConfiguration'', ''Finalizers''], Append None), CompiledShard_WithFinalizers M grow),
       (([''Spec''], SetValue), CompiledShard_WithSpec M),
       (([''Status''], SetValue), CompiledShard_WithStatus M)],
    config_new = new_CompiledShard M name namespace,
    config_calls =
      [((([''ObjectMetaApplyConfiguration'', ''Name''], SetAddress), CompiledShard_WithName M), Scalar
          (Text name)),
       ((([''ObjectMetaApplyConfiguration'', ''Namespace''], SetAddress), CompiledShard_WithNamespace M),
           Scalar (Text namespace)),
       ((([''TypeMetaApplyConfiguration'', ''Kind''], SetAddress), CompiledShard_WithKind M), Scalar (Text
           ''CompiledShard'')),
       ((([''TypeMetaApplyConfiguration'', ''APIVersion''], SetAddress), CompiledShard_WithAPIVersion M),
           Scalar (Text ''deploy.operator.kcp.io/v1alpha1''))]\<rparr>"

lemmas CompiledShard_defs = config_CompiledShard_def new_CompiledShard_def
    CompiledShard_WithKind_def CompiledShard_WithAPIVersion_def CompiledShard_WithName_def
    CompiledShard_WithGenerateName_def CompiledShard_WithNamespace_def CompiledShard_WithUID_def
    CompiledShard_WithResourceVersion_def CompiledShard_WithGeneration_def
    CompiledShard_WithCreationTimestamp_def CompiledShard_WithDeletionTimestamp_def
    CompiledShard_WithDeletionGracePeriodSeconds_def CompiledShard_WithLabels_def
    CompiledShard_WithAnnotations_def CompiledShard_WithOwnerReferences_def
    CompiledShard_WithFinalizers_def CompiledShard_WithSpec_def CompiledShard_WithStatus_def
    CompiledShard_ensureObjectMetaApplyConfigurationExists_def

lemma config_CompiledShard_ok: "meta_library_ok M \<Longrightarrow> config_ok grow (config_CompiledShard M
    grow name namespace)"
  by (rule object_ok)
    (simp_all only: CompiledShard_defs fields_CompiledShard_def config_shape_def functions_of_def list.map
        prod.case ac_config.simps Let_def constructor_calls,
     auto simp: meta_library_ok_def config_facts)

definition config_CompiledVirtualWorkspace :: "meta_library \<Rightarrow> (nat \<Rightarrow> nat)
    \<Rightarrow> string \<Rightarrow> string \<Rightarrow> ac_config" where
  "config_CompiledVirtualWorkspace M grow name namespace = \<lparr>
    config_zero = zero_struct (fields_CompiledVirtualWorkspace M),
    config_meta = Some (''ObjectMetaApplyConfiguration'', zero_ObjectMetaApplyConfiguration M),
    config_methods =
      [(([''TypeMetaApplyConfiguration'', ''Kind''], SetAddress), CompiledVirtualWorkspace_WithKind M),
       (([''TypeMetaApplyConfiguration'', ''APIVersion''], SetAddress),
           CompiledVirtualWorkspace_WithAPIVersion M),
       (([''ObjectMetaApplyConfiguration'', ''Name''], SetAddress), CompiledVirtualWorkspace_WithName M),
       (([''ObjectMetaApplyConfiguration'', ''GenerateName''], SetAddress),
           CompiledVirtualWorkspace_WithGenerateName M),
       (([''ObjectMetaApplyConfiguration'', ''Namespace''], SetAddress),
           CompiledVirtualWorkspace_WithNamespace M),
       (([''ObjectMetaApplyConfiguration'', ''UID''], SetAddress), CompiledVirtualWorkspace_WithUID M),
       (([''ObjectMetaApplyConfiguration'', ''ResourceVersion''], SetAddress),
           CompiledVirtualWorkspace_WithResourceVersion M),
       (([''ObjectMetaApplyConfiguration'', ''Generation''], SetAddress),
           CompiledVirtualWorkspace_WithGeneration M),
       (([''ObjectMetaApplyConfiguration'', ''CreationTimestamp''], SetAddress),
           CompiledVirtualWorkspace_WithCreationTimestamp M),
       (([''ObjectMetaApplyConfiguration'', ''DeletionTimestamp''], SetAddress),
           CompiledVirtualWorkspace_WithDeletionTimestamp M),
       (([''ObjectMetaApplyConfiguration'', ''DeletionGracePeriodSeconds''], SetAddress),
           CompiledVirtualWorkspace_WithDeletionGracePeriodSeconds M),
       (([''ObjectMetaApplyConfiguration'', ''Labels''], PutEntries), CompiledVirtualWorkspace_WithLabels M),
       (([''ObjectMetaApplyConfiguration'', ''Annotations''], PutEntries),
           CompiledVirtualWorkspace_WithAnnotations M),
       (([''ObjectMetaApplyConfiguration'', ''OwnerReferences''], Append (Some
           ''nil value passed to WithOwnerReferences'')), CompiledVirtualWorkspace_WithOwnerReferences M grow),
       (([''ObjectMetaApplyConfiguration'', ''Finalizers''], Append None),
           CompiledVirtualWorkspace_WithFinalizers M grow),
       (([''Spec''], SetValue), CompiledVirtualWorkspace_WithSpec M),
       (([''Status''], SetValue), CompiledVirtualWorkspace_WithStatus M)],
    config_new = new_CompiledVirtualWorkspace M name namespace,
    config_calls =
      [((([''ObjectMetaApplyConfiguration'', ''Name''], SetAddress), CompiledVirtualWorkspace_WithName M),
          Scalar (Text name)),
       ((([''ObjectMetaApplyConfiguration'', ''Namespace''], SetAddress),
           CompiledVirtualWorkspace_WithNamespace M), Scalar (Text namespace)),
       ((([''TypeMetaApplyConfiguration'', ''Kind''], SetAddress), CompiledVirtualWorkspace_WithKind M),
           Scalar (Text ''CompiledVirtualWorkspace'')),
       ((([''TypeMetaApplyConfiguration'', ''APIVersion''], SetAddress),
           CompiledVirtualWorkspace_WithAPIVersion M), Scalar (Text
           ''deploy.operator.kcp.io/v1alpha1''))]\<rparr>"

lemmas CompiledVirtualWorkspace_defs = config_CompiledVirtualWorkspace_def new_CompiledVirtualWorkspace_def
    CompiledVirtualWorkspace_WithKind_def CompiledVirtualWorkspace_WithAPIVersion_def
    CompiledVirtualWorkspace_WithName_def CompiledVirtualWorkspace_WithGenerateName_def
    CompiledVirtualWorkspace_WithNamespace_def CompiledVirtualWorkspace_WithUID_def
    CompiledVirtualWorkspace_WithResourceVersion_def CompiledVirtualWorkspace_WithGeneration_def
    CompiledVirtualWorkspace_WithCreationTimestamp_def
    CompiledVirtualWorkspace_WithDeletionTimestamp_def
    CompiledVirtualWorkspace_WithDeletionGracePeriodSeconds_def CompiledVirtualWorkspace_WithLabels_def
    CompiledVirtualWorkspace_WithAnnotations_def CompiledVirtualWorkspace_WithOwnerReferences_def
    CompiledVirtualWorkspace_WithFinalizers_def CompiledVirtualWorkspace_WithSpec_def
    CompiledVirtualWorkspace_WithStatus_def
    CompiledVirtualWorkspace_ensureObjectMetaApplyConfigurationExists_def

lemma config_CompiledVirtualWorkspace_ok: "meta_library_ok M \<Longrightarrow> config_ok grow
    (config_CompiledVirtualWorkspace M grow name namespace)"
  by (rule object_ok)
    (simp_all only: CompiledVirtualWorkspace_defs fields_CompiledVirtualWorkspace_def config_shape_def
        functions_of_def list.map prod.case ac_config.simps Let_def constructor_calls,
     auto simp: meta_library_ok_def config_facts)

chapter \<open>Properties of the apply configurations\<close>

text \<open>
  The apply configurations as a whole: all of them build up what they are told, and the objects are of
  the kind they say.
\<close>

section \<open>All apply configurations\<close>

definition apply_configurations :: "meta_library \<Rightarrow> (nat \<Rightarrow> nat) \<Rightarrow>
    string \<Rightarrow> string \<Rightarrow> ac_config list" where
  "apply_configurations M grow name namespace =
    [config_CommonShardSpec grow, config_AuditPolicySpec grow, config_AuditSpec grow,
     config_AuditWebhookSpec grow, config_AuthenticationWebhookSpec grow, config_AuthorizationSpec grow,
     config_AuthorizationWebhookSpec grow, config_AuthSpec grow, config_CacheServerSpec grow,
     config_CertificateMetadataTemplate grow, config_CertificatePrivateKeyTemplate grow,
     config_Certificates grow, config_CertificateSecretTemplate grow,
     config_CertificateSpecTemplate grow, config_CertificateTemplate grow,
     config_DeploymentMetadataTemplate grow, config_DeploymentSpecTemplate grow,
     config_DeploymentTemplate grow, config_EmbeddedCacheConfiguration grow, config_EtcdConfig grow,
     config_EtcdTLSConfig grow, config_ExternalConfig grow, config_FrontProxySpec grow,
     config_FrontProxyStatus grow, config_ImageSpec grow, config_KubeconfigAuthorization grow,
     config_KubeconfigAuthorizationStatus grow, config_KubeconfigClusterRoleBindings grow,
     config_KubeconfigSpec grow, config_KubeconfigStatus grow, config_KubeconfigTarget grow,
     config_LocalDataKeyReference grow, config_LoggingSpec grow, config_ObjectReference grow,
     config_OIDCCAFileRef grow, config_OIDCConfiguration grow, config_PathMappingEntry grow,
     config_PodMetadataTemplate grow, config_PodSpecTemplate grow, config_PodTemplateSpec grow,
     config_RootShardCacheConfig grow, config_RootShardConfig grow, config_RootShardProxySpec grow,
     config_RootShardSpec grow, config_RootShardStatus grow, config_ServiceAccountAuthentication grow,
     config_ServiceMetadataTemplate grow, config_ServiceSpecTemplate grow, config_ServiceTemplate grow,
     config_ShardCacheConfig grow, config_ShardReference grow, config_ShardSpec grow,
     config_ShardStatus grow, config_TokenAuthFileSpec grow, config_VirtualWorkspaceInitContainer grow,
     config_VirtualWorkspaceSpec grow, config_VirtualWorkspaceStatus grow,
     config_VirtualWorkspaceTarget grow, config_X509Subject grow,
     config_CacheServer M grow name namespace, config_FrontProxy M grow name namespace,
     config_Kubeconfig M grow name namespace, config_RootShard M grow name namespace,
     config_Shard M grow name namespace, config_VirtualWorkspace M grow name namespace,
     config_CompiledCacheServerSpec grow, config_CompiledFrontProxySpec grow,
     config_CompiledRootShardSpec grow, config_CompiledShardSpec grow,
     config_CompiledVirtualWorkspaceSpec grow, config_NamedRootShardSpec grow,
     config_NamedShardSpec grow, config_NamedVirtualWorkspaceSpec grow,
     config_CompiledCacheServer M grow name namespace, config_CompiledFrontProxy M grow name namespace,
     config_CompiledRootShard M grow name namespace, config_CompiledShard M grow name namespace,
     config_CompiledVirtualWorkspace M grow name namespace]"

lemmas configs_ok =
  config_CommonShardSpec_ok config_AuditPolicySpec_ok config_AuditSpec_ok config_AuditWebhookSpec_ok
  config_AuthenticationWebhookSpec_ok config_AuthorizationSpec_ok config_AuthorizationWebhookSpec_ok
  config_AuthSpec_ok config_CacheServerSpec_ok config_CertificateMetadataTemplate_ok
  config_CertificatePrivateKeyTemplate_ok config_Certificates_ok config_CertificateSecretTemplate_ok
  config_CertificateSpecTemplate_ok config_CertificateTemplate_ok config_DeploymentMetadataTemplate_ok
  config_DeploymentSpecTemplate_ok config_DeploymentTemplate_ok config_EmbeddedCacheConfiguration_ok
  config_EtcdConfig_ok config_EtcdTLSConfig_ok config_ExternalConfig_ok config_FrontProxySpec_ok
  config_FrontProxyStatus_ok config_ImageSpec_ok config_KubeconfigAuthorization_ok
  config_KubeconfigAuthorizationStatus_ok config_KubeconfigClusterRoleBindings_ok
  config_KubeconfigSpec_ok config_KubeconfigStatus_ok config_KubeconfigTarget_ok
  config_LocalDataKeyReference_ok config_LoggingSpec_ok config_ObjectReference_ok
  config_OIDCCAFileRef_ok config_OIDCConfiguration_ok config_PathMappingEntry_ok
  config_PodMetadataTemplate_ok config_PodSpecTemplate_ok config_PodTemplateSpec_ok
  config_RootShardCacheConfig_ok config_RootShardConfig_ok config_RootShardProxySpec_ok
  config_RootShardSpec_ok config_RootShardStatus_ok config_ServiceAccountAuthentication_ok
  config_ServiceMetadataTemplate_ok config_ServiceSpecTemplate_ok config_ServiceTemplate_ok
  config_ShardCacheConfig_ok config_ShardReference_ok config_ShardSpec_ok config_ShardStatus_ok
  config_TokenAuthFileSpec_ok config_VirtualWorkspaceInitContainer_ok config_VirtualWorkspaceSpec_ok
  config_VirtualWorkspaceStatus_ok config_VirtualWorkspaceTarget_ok config_X509Subject_ok
  config_CacheServer_ok config_FrontProxy_ok config_Kubeconfig_ok config_RootShard_ok config_Shard_ok
  config_VirtualWorkspace_ok config_CompiledCacheServerSpec_ok config_CompiledFrontProxySpec_ok
  config_CompiledRootShardSpec_ok config_CompiledShardSpec_ok config_CompiledVirtualWorkspaceSpec_ok
  config_NamedRootShardSpec_ok config_NamedShardSpec_ok config_NamedVirtualWorkspaceSpec_ok
  config_CompiledCacheServer_ok config_CompiledFrontProxy_ok config_CompiledRootShard_ok
  config_CompiledShard_ok config_CompiledVirtualWorkspace_ok

lemma apply_configurations_ok:
  assumes "meta_library_ok M" "C \<in> set (apply_configurations M grow name namespace)"
  shows "config_ok grow C"
  using assms(2) unfolding apply_configurations_def list.set insert_iff empty_iff
  by (elim disjE FalseE) (simp_all only: configs_ok assms(1))

text \<open>The objects: group and version, kind, configuration, and getter for the name.\<close>

definition object_configurations :: "meta_library \<Rightarrow> (nat \<Rightarrow> nat) \<Rightarrow>
    string \<Rightarrow> string
    \<Rightarrow> ((string \<times> string) \<times> string \<times> ac_config \<times> (go_value
        \<Rightarrow> memory \<Rightarrow> (go_value \<times> memory) res)) list" where
  "object_configurations M grow name namespace =
    [(operator_SchemeGroupVersion, ''CacheServer'', config_CacheServer M grow name namespace,
        CacheServer_GetName M),
     (operator_SchemeGroupVersion, ''FrontProxy'', config_FrontProxy M grow name namespace,
         FrontProxy_GetName M),
     (operator_SchemeGroupVersion, ''Kubeconfig'', config_Kubeconfig M grow name namespace,
         Kubeconfig_GetName M),
     (operator_SchemeGroupVersion, ''RootShard'', config_RootShard M grow name namespace, RootShard_GetName M),
     (operator_SchemeGroupVersion, ''Shard'', config_Shard M grow name namespace, Shard_GetName M),
     (operator_SchemeGroupVersion, ''VirtualWorkspace'', config_VirtualWorkspace M grow name namespace,
         VirtualWorkspace_GetName M),
     (deploy_SchemeGroupVersion, ''CompiledCacheServer'', config_CompiledCacheServer M grow name
         namespace, CompiledCacheServer_GetName M),
     (deploy_SchemeGroupVersion, ''CompiledFrontProxy'', config_CompiledFrontProxy M grow name namespace,
         CompiledFrontProxy_GetName M),
     (deploy_SchemeGroupVersion, ''CompiledRootShard'', config_CompiledRootShard M grow name namespace,
         CompiledRootShard_GetName M),
     (deploy_SchemeGroupVersion, ''CompiledShard'', config_CompiledShard M grow name namespace,
         CompiledShard_GetName M),
     (deploy_SchemeGroupVersion, ''CompiledVirtualWorkspace'', config_CompiledVirtualWorkspace M grow name
         namespace, CompiledVirtualWorkspace_GetName M)]"

lemma object_configurations_ok:
  assumes "meta_library_ok M" "(gv, k, C, getName) \<in> set (object_configurations M grow name namespace)"
  shows "config_ok grow C"
  using assms(2) unfolding object_configurations_def list.set insert_iff empty_iff prod.inject
  by (elim disjE FalseE conjE) (simp_all only: configs_ok assms(1))

text \<open>C12: The apply configurations build up what they are told. After the constructor of any of
    them, any chain of its \<open>With\<close> methods
  leaves, field by field, what the calls say: the last value of a plain field, all elements of a list in
  order, a map with later entries over earlier ones; a field of an object's metadata allocates the metadata,
  and fields nobody set are nil. No memory that was there before is written, and a nil element makes the
  chain panic with its message.\<close>

theorem apply_builders_refine:
  assumes "meta_library_ok M" "C \<in> set (apply_configurations M grow name namespace)"
    and "fst ` set cs \<subseteq> set (config_methods C)"
    and "abs_calls m0 (config_calls C @ cs) (\<lambda>_. Unset) \<noteq> Inl nil_dereference"
  shows "case abs_calls m0 (config_calls C @ cs) (\<lambda>_. Unset) of
      Inl e \<Rightarrow> build C cs m0 = Inl e
    | Inr st \<Rightarrow> \<exists>m. build C cs m0 = Inr (Pointer (length m0), m) \<and> take (length
        m0) m = m0
        \<and> (\<forall>x\<in>fst ` set (config_methods C). field_state m (Pointer (length m0)) x = Some
            (st (fst x)))"
  using build_follows [OF apply_configurations_ok [OF assms(1,2)] assms(3), of m0] assms(4)
  by (auto simp: follows_def split: sum.splits)

section \<open>Kinds of objects\<close>

lemma locate_through:
  assumes "locate m l (h # q) = Inr l'" "q \<noteq> []"
  obtains l2 w where "locate m l [h] = Inr l2" "load_loc m l2 = Inr w" "w \<noteq> NilRef"
proof -
  obtain n q' where q: "q = n # q'" using assms(2) by (cases q) auto
  with assms(1) show ?thesis
    by (auto simp: bindE_def split: sum.splits go_value.splits intro: that)
qed

text \<open>The name, once it is set: the getter finds the metadata there and changes nothing.\<close>

lemma get_name:
  assumes "field_state m (Pointer r) (h # q, SetAddress) = Some (PointsTo y)" "q \<noteq> []"
  obtains a where "bindE (ensure_exists h zm (Pointer r) m) (get_field (h # q) (Pointer r)) = Inr (Pointer
      a, m)"
    "load m a = Some (One y)"
proof -
  obtain l v where l: "field_loc m (Pointer r) (h # q) = Inr l" "load_loc m l = Inr v" "decode m
      SetAddress v = Some (PointsTo y)"
    using assms(1) by (auto simp: field_state_def bindE_def split: sum.splits)
  then obtain a where a: "v = Pointer a" "load m a = Some (One y)"
    by (cases v) (auto split: option.splits cell.splits)
  obtain l2 w where "field_loc m (Pointer r) [h] = Inr l2" "load_loc m l2 = Inr w" "w \<noteq> NilRef"
    using locate_through l(1) assms(2) unfolding field_loc_def go_value.case by metis
  with l a show ?thesis by (intro that [of a]) (simp_all add: ensure_exists_def get_field_def)
qed

text \<open>What the constructor of an object sets.\<close>

definition object_state :: "string \<Rightarrow> string \<Rightarrow> string \<Rightarrow> string
    \<Rightarrow> ac_state" where
  "object_state name namespace k apiVersion = (\<lambda>_. Unset)
    ([''ObjectMetaApplyConfiguration'', ''Name''] := PointsTo (Scalar (Text name)),
     [''ObjectMetaApplyConfiguration'', ''Namespace''] := PointsTo (Scalar (Text namespace)),
     [''TypeMetaApplyConfiguration'', ''Kind''] := PointsTo (Scalar (Text k)),
     [''TypeMetaApplyConfiguration'', ''APIVersion''] := PointsTo (Scalar (Text apiVersion)))"

definition constructs :: "meta_library \<Rightarrow> string \<Rightarrow> string \<Rightarrow> string
    \<times> string \<Rightarrow> string \<Rightarrow> ac_config
    \<Rightarrow> (go_value \<Rightarrow> memory \<Rightarrow> (go_value \<times> memory) res)
        \<Rightarrow> bool" where
  "constructs M name namespace gv k C getName \<longleftrightarrow>
     map (\<lambda>(((p, kind), _), v). (p, kind, v)) (config_calls C) =
       [([''ObjectMetaApplyConfiguration'', ''Name''], SetAddress, Scalar (Text name)),
        ([''ObjectMetaApplyConfiguration'', ''Namespace''], SetAddress, Scalar (Text namespace)),
        ([''TypeMetaApplyConfiguration'', ''Kind''], SetAddress, Scalar (Text k)),
        ([''TypeMetaApplyConfiguration'', ''APIVersion''], SetAddress, Scalar (Text (fst gv @ ''/'' @ snd gv)))]
   \<and> map_of (ForKind_deploy_cases M @ ForKind_operator_cases M) (WithKind gv k)
       = Some (k @ ''ApplyConfiguration'', config_zero C)
   \<and> getName = (\<lambda>b m. bindE (ensure_exists ''ObjectMetaApplyConfiguration''
       (zero_ObjectMetaApplyConfiguration M) b m)
       (get_field [''ObjectMetaApplyConfiguration'', ''Name''] b))"

lemma WithKind_eq: "WithKind gv k = WithKind gv' k' \<longleftrightarrow> gv = gv' \<and> k = k'"
  by (auto simp: WithKind_def prod_eq_iff)

lemma groups_differ:
  "operator_SchemeGroupVersion \<noteq> deploy_SchemeGroupVersion" "deploy_SchemeGroupVersion \<noteq>
      operator_SchemeGroupVersion"
  by (simp_all add: operator_SchemeGroupVersion_def deploy_SchemeGroupVersion_def)

lemma group_literals:
  "fst operator_SchemeGroupVersion @ CHR ''/'' # snd operator_SchemeGroupVersion = ''operator.kcp.io/v1alpha1''"
  "fst deploy_SchemeGroupVersion @ CHR ''/'' # snd deploy_SchemeGroupVersion =
      ''deploy.operator.kcp.io/v1alpha1''"
  by (simp_all add: operator_SchemeGroupVersion_def deploy_SchemeGroupVersion_def)

lemma case_here: "map_of ((k, v) # cases) k = Some v"
  by simp

lemma case_there: "k \<noteq> x \<Longrightarrow> map_of cases x = r \<Longrightarrow> map_of ((k, v) #
    cases) x = r"
  by simp

text \<open>The cases of the switch find each object.\<close>

lemma deploy_cases:
  "map_of (ForKind_deploy_cases M) (WithKind deploy_SchemeGroupVersion ''CompiledCacheServer'') = Some
      (''CompiledCacheServerApplyConfiguration'', zero_struct (fields_CompiledCacheServer M))"
  "map_of (ForKind_deploy_cases M) (WithKind deploy_SchemeGroupVersion ''CompiledFrontProxy'') = Some
      (''CompiledFrontProxyApplyConfiguration'', zero_struct (fields_CompiledFrontProxy M))"
  "map_of (ForKind_deploy_cases M) (WithKind deploy_SchemeGroupVersion ''CompiledRootShard'') = Some
      (''CompiledRootShardApplyConfiguration'', zero_struct (fields_CompiledRootShard M))"
  "map_of (ForKind_deploy_cases M) (WithKind deploy_SchemeGroupVersion ''CompiledShard'') = Some
      (''CompiledShardApplyConfiguration'', zero_struct (fields_CompiledShard M))"
  "map_of (ForKind_deploy_cases M) (WithKind deploy_SchemeGroupVersion ''CompiledVirtualWorkspace'') =
      Some (''CompiledVirtualWorkspaceApplyConfiguration'', zero_struct (fields_CompiledVirtualWorkspace M))"
  unfolding ForKind_deploy_cases_def Let_def
  by (rule case_here | (rule case_there, simp add: WithKind_eq))+

lemma operator_cases:
  "map_of (ForKind_operator_cases M) (WithKind operator_SchemeGroupVersion ''CacheServer'') = Some
      (''CacheServerApplyConfiguration'', zero_struct (fields_CacheServer M))"
  "map_of (ForKind_operator_cases M) (WithKind operator_SchemeGroupVersion ''FrontProxy'') = Some
      (''FrontProxyApplyConfiguration'', zero_struct (fields_FrontProxy M))"
  "map_of (ForKind_operator_cases M) (WithKind operator_SchemeGroupVersion ''Kubeconfig'') = Some
      (''KubeconfigApplyConfiguration'', zero_struct (fields_Kubeconfig M))"
  "map_of (ForKind_operator_cases M) (WithKind operator_SchemeGroupVersion ''RootShard'') = Some
      (''RootShardApplyConfiguration'', zero_struct (fields_RootShard M))"
  "map_of (ForKind_operator_cases M) (WithKind operator_SchemeGroupVersion ''Shard'') = Some
      (''ShardApplyConfiguration'', zero_struct (fields_Shard M))"
  "map_of (ForKind_operator_cases M) (WithKind operator_SchemeGroupVersion ''VirtualWorkspace'') = Some
      (''VirtualWorkspaceApplyConfiguration'', zero_struct (fields_VirtualWorkspace M))"
  unfolding ForKind_operator_cases_def Let_def
  by (rule case_here | (rule case_there, simp add: WithKind_eq))+

lemma no_deploy_case: "map_of (ForKind_deploy_cases M) (WithKind operator_SchemeGroupVersion k) = None"
  by (simp add: ForKind_deploy_cases_def Let_def WithKind_eq groups_differ)

lemma constructs_objects:
  "constructs M name namespace operator_SchemeGroupVersion ''CacheServer'' (config_CacheServer M grow name
      namespace) (CacheServer_GetName M)"
  "constructs M name namespace operator_SchemeGroupVersion ''FrontProxy'' (config_FrontProxy M grow name
      namespace) (FrontProxy_GetName M)"
  "constructs M name namespace operator_SchemeGroupVersion ''Kubeconfig'' (config_Kubeconfig M grow name
      namespace) (Kubeconfig_GetName M)"
  "constructs M name namespace operator_SchemeGroupVersion ''RootShard'' (config_RootShard M grow name
      namespace) (RootShard_GetName M)"
  "constructs M name namespace operator_SchemeGroupVersion ''Shard'' (config_Shard M grow name namespace)
      (Shard_GetName M)"
  "constructs M name namespace operator_SchemeGroupVersion ''VirtualWorkspace'' (config_VirtualWorkspace M
      grow name namespace) (VirtualWorkspace_GetName M)"
  "constructs M name namespace deploy_SchemeGroupVersion ''CompiledCacheServer''
      (config_CompiledCacheServer M grow name namespace) (CompiledCacheServer_GetName M)"
  "constructs M name namespace deploy_SchemeGroupVersion ''CompiledFrontProxy'' (config_CompiledFrontProxy
      M grow name namespace) (CompiledFrontProxy_GetName M)"
  "constructs M name namespace deploy_SchemeGroupVersion ''CompiledRootShard'' (config_CompiledRootShard M
      grow name namespace) (CompiledRootShard_GetName M)"
  "constructs M name namespace deploy_SchemeGroupVersion ''CompiledShard'' (config_CompiledShard M grow
      name namespace) (CompiledShard_GetName M)"
  "constructs M name namespace deploy_SchemeGroupVersion ''CompiledVirtualWorkspace''
      (config_CompiledVirtualWorkspace M grow name namespace) (CompiledVirtualWorkspace_GetName M)"
  by (simp_all only: constructs_def group_literals map_of_append map_add_def no_deploy_case option.case
      operator_cases deploy_cases ac_config.simps list.map prod.case append.simps simp_thms fun_eq_iff
   
    config_CacheServer_def CacheServer_GetName_def CacheServer_ensureObjectMetaApplyConfigurationExists_def
    config_FrontProxy_def FrontProxy_GetName_def FrontProxy_ensureObjectMetaApplyConfigurationExists_def
    config_Kubeconfig_def Kubeconfig_GetName_def Kubeconfig_ensureObjectMetaApplyConfigurationExists_def
    config_RootShard_def RootShard_GetName_def RootShard_ensureObjectMetaApplyConfigurationExists_def
    config_Shard_def Shard_GetName_def Shard_ensureObjectMetaApplyConfigurationExists_def
    config_VirtualWorkspace_def VirtualWorkspace_GetName_def
        VirtualWorkspace_ensureObjectMetaApplyConfigurationExists_def
    config_CompiledCacheServer_def CompiledCacheServer_GetName_def
        CompiledCacheServer_ensureObjectMetaApplyConfigurationExists_def
    config_CompiledFrontProxy_def CompiledFrontProxy_GetName_def
        CompiledFrontProxy_ensureObjectMetaApplyConfigurationExists_def
    config_CompiledRootShard_def CompiledRootShard_GetName_def
        CompiledRootShard_ensureObjectMetaApplyConfigurationExists_def
    config_CompiledShard_def CompiledShard_GetName_def
        CompiledShard_ensureObjectMetaApplyConfigurationExists_def
    config_CompiledVirtualWorkspace_def CompiledVirtualWorkspace_GetName_def
        CompiledVirtualWorkspace_ensureObjectMetaApplyConfigurationExists_def)

lemma objects_construct:
  assumes "(gv, k, C, getName) \<in> set (object_configurations M grow name namespace)"
  shows "constructs M name namespace gv k C getName"
  using assms unfolding object_configurations_def list.set insert_iff empty_iff prod.inject
  by (elim disjE FalseE conjE) (simp_all only: constructs_objects)

lemma constructs_state:
  assumes "constructs M name namespace gv k C getName"
  shows "abs_calls m0 (config_calls C) (\<lambda>_. Unset) = Inr (object_state name namespace k (fst gv @
      ''/'' @ snd gv))"
  using assms by (auto simp: constructs_def object_state_def abs_with_def map_eq_Cons_conv)

lemma constructs_name:
  assumes "constructs M name namespace gv k C getName" "config_ok grow C"
  shows "([''ObjectMetaApplyConfiguration'', ''Name''], SetAddress) \<in> fst ` set (config_methods C)"
proof -
  obtain f v cs where "config_calls C = ((([''ObjectMetaApplyConfiguration'', ''Name''], SetAddress), f),
      v) # cs"
    using assms(1) by (auto simp: constructs_def map_eq_Cons_conv)
  then have "(([''ObjectMetaApplyConfiguration'', ''Name''], SetAddress), f) \<in> set (config_methods C)"
    using assms(2) by (simp add: config_ok_def)
  then show ?thesis by force
qed

text \<open>C30: The constructor of an object makes an object of its kind. For each of the eleven objects,
    the constructor
  leaves the name and namespace it was given and an apiVersion and kind for which \<open>ForKind\<close>
      returns a new
  configuration of this very type, with the zero value of its struct; every other field is nil, no earlier
  memory is written, and \<open>GetName\<close> returns the name and changes nothing.\<close>

theorem objects_of_their_kind:
  assumes "meta_library_ok M" "(gv, k, C, getName) \<in> set (object_configurations M grow name namespace)"
  shows "ForKind M (WithKind gv k) m0 = Some (k @ ''ApplyConfiguration'', new_struct (config_zero C) m0)
    \<and> (\<exists>m. config_new C m0 = Inr (Pointer (length m0), m) \<and> take (length m0) m = m0
        \<and> (\<forall>x\<in>fst ` set (config_methods C). field_state m (Pointer (length m0)) x
             = Some (object_state name namespace k (fst gv @ ''/'' @ snd gv) (fst x)))
        \<and> (\<exists>a. getName (Pointer (length m0)) m = Inr (Pointer a, m) \<and> load m a = Some
            (One (Scalar (Text name)))))"
proof -
  note c = objects_construct [OF assms(2)]
  note ok = object_configurations_ok [OF assms]
  have "config_new C m0 = build C [] m0"
    by (simp add: build_def functions_of_def case_prod_unfold)
  with build_follows [OF ok, of "[]" m0] constructs_state [OF c, of m0] obtain m
    where m: "config_new C m0 = Inr (Pointer (length m0), m)" "take (length m0) m = m0"
      and fields: "\<forall>x\<in>fst ` set (config_methods C). field_state m (Pointer (length m0)) x
             = Some (object_state name namespace k (fst gv @ ''/'' @ snd gv) (fst x))"
    by (auto simp: follows_def)
  have "field_state m (Pointer (length m0)) ([''ObjectMetaApplyConfiguration'', ''Name''], SetAddress)
      = Some (PointsTo (Scalar (Text name)))"
    using bspec [OF fields constructs_name [OF c ok]] by (simp add: object_state_def)
  then obtain a where "getName (Pointer (length m0)) m = Inr (Pointer a, m)" "load m a = Some (One (Scalar
      (Text name)))"
    using c by (elim get_name) (auto simp: constructs_def)
  with m fields c show ?thesis by (auto simp: ForKind_def constructs_def)
qed

end
