(* ===== verification/Sdk_Fakes.thy ===== *)
theory Sdk_Fakes
  imports Apply_Objects
begin

text \<open>
  The fake clients for all workspaces
      (\<open>sdk/clientset/versioned/cluster/typed/*/v1alpha1/fake\<close>), for programs
  that test against kcp. A call becomes an action that is handed to the \<open>Fake\<close> of a library.
\<close>

section \<open>Actions\<close>

text \<open>
  The actions of the library, with resource, workspace and namespace; options of any type
      \<open>'o\<close>. Of a patch
  type only \<open>types.ApplyPatchType\<close> is named by the code.
\<close>

datatype patch_type = ApplyPatch | OtherPatch string

datatype ('obj, 'o) fake_action =
    ListAction GroupVersionResource GroupVersionKind string string 'o
  | WatchAction GroupVersionResource string string 'o
  | CreateAction GroupVersionResource string string 'obj
  | UpdateAction GroupVersionResource string string 'obj
  | UpdateSubresourceAction GroupVersionResource string string string 'obj
  | DeleteAction GroupVersionResource string string string 'o
  | DeleteCollectionAction GroupVersionResource string string 'o
  | GetAction GroupVersionResource string string string
  | PatchSubresourceAction GroupVersionResource string string string patch_type string "string list"

text \<open>
  What \<open>Invokes\<close> returns is nil, an object or a list, with its type; the second argument,
      \<open>&T{}\<close> or
  \<open>&TList{}\<close>, is what it returns by default.
\<close>

datatype ('obj, 'meta) fake_object = Object sdk_type 'obj | ObjectList sdk_type 'meta "'obj list"

datatype fake_default = NewObject sdk_type | NewList sdk_type

text \<open>
  The library: \<open>Fake.Invokes\<close> and \<open>Fake.InvokesWatch\<close> on the state of the
      \<open>Fake\<close>, the label selector of
  list options, \<open>labels.Everything()\<close>, whether a selector matches the labels of an object,
  \<open>json.Marshal\<close> and \<open>logicalcluster.Wildcard\<close>.
\<close>

record ('st, 'obj, 'meta, 'o, 'sel, 'w) fake_library =
  fk_Invokes :: "('obj, 'o) fake_action \<Rightarrow> fake_default \<Rightarrow> 'st
    \<Rightarrow> (('obj, 'meta) fake_object option \<times> go_error option) \<times> 'st"
  fk_InvokesWatch :: "('obj, 'o) fake_action \<Rightarrow> 'st \<Rightarrow> ('w option \<times> go_error
      option) \<times> 'st"
  fk_Label :: "'o \<Rightarrow> 'sel option"
  fk_Everything :: 'sel
  fk_Matches :: "'sel \<Rightarrow> 'obj \<Rightarrow> bool"
  fk_Marshal :: "memory \<Rightarrow> go_value \<Rightarrow> string res"
  fk_Wildcard :: string

record fake_namespacer =
  fn_ClusterPath :: string

record fake_client =
  fc_ClusterPath :: string
  fc_Namespace :: string

section \<open>Answers\<close>

text \<open>
  A method returns an object or nil, and an error or nil; a type assertion that fails panics.
  \<open>if obj == nil { return nil, err }; return obj.(*T), err\<close>
\<close>

definition returned_object :: "sdk_type \<Rightarrow> (('obj, 'meta) fake_object option \<times> go_error
    option) \<times> 'st
    \<Rightarrow> (('obj option \<times> go_error option) res \<times> 'st)" where
  "returned_object t r = (case r of ((obj, err), st) \<Rightarrow>
     (case obj of
       None \<Rightarrow> Inr (None, err)
     | Some (Object t' x) \<Rightarrow> if t' = t then Inr (Some x, err) else Inl (Panic
         ''interface conversion'')
     | Some _ \<Rightarrow> Inl (Panic ''interface conversion''), st))"

definition returned_error :: "('a \<times> go_error option) \<times> 'st \<Rightarrow> go_error option
    \<times> 'st" where
  "returned_error r = (case r of ((_, err), st) \<Rightarrow> (err, st))"

text \<open>The list of what the label selector of the options matches.\<close>

definition filtered_list :: "('st, 'obj, 'meta, 'o, 'sel, 'w) fake_library \<Rightarrow> sdk_type
    \<Rightarrow> 'o
    \<Rightarrow> (('obj, 'meta) fake_object option \<times> go_error option) \<times> 'st
    \<Rightarrow> ((('meta \<times> 'obj list) option \<times> go_error option) res \<times> 'st)" where
  "filtered_list L t opts r = (case r of ((obj, err), st) \<Rightarrow>
     (let label = (case fk_Label L opts of None \<Rightarrow> fk_Everything L | Some l \<Rightarrow> l) in
      case obj of
       None \<Rightarrow> Inr (None, err)
     | Some (ObjectList t' meta items) \<Rightarrow>
         if t' = t then Inr (Some (meta, filter (fk_Matches L label) items), err)
         else Inl (Panic ''interface conversion'')
     | Some _ \<Rightarrow> Inl (Panic ''interface conversion''), st))"

text \<open>
  The beginning of \<open>Apply\<close> and \<open>ApplyStatus\<close>: what is returned early, or the
      name and the data of the
  patch. \<open>applyConfiguration.Name\<close> goes through the pointer to the metadata.
\<close>

definition apply_patch :: "('st, 'obj, 'meta, 'o, 'sel, 'w) fake_library \<Rightarrow> go_value
    \<Rightarrow> memory
    \<Rightarrow> ('obj option \<times> go_error option) res + string \<times> string" where
  "apply_patch L applyConfiguration m =
    (if applyConfiguration = NilRef
     then Inl (Inr (None, Some (Plain ''applyConfiguration provided to Apply must not be nil'')))
     else case fk_Marshal L m applyConfiguration of
       Inl e \<Rightarrow> Inl (Inr (None, Some e))
     | Inr data \<Rightarrow> (case get_field [''ObjectMetaApplyConfiguration'', ''Name'']
         applyConfiguration m of
         Inl e \<Rightarrow> Inl (Inl e)
       | Inr (NilRef, _) \<Rightarrow>
           Inl (Inr (None, Some (Plain ''applyConfiguration.Name must be provided to Apply'')))
       | Inr (Pointer a, _) \<Rightarrow> (case load m a of
           Some (One (Scalar (Text name))) \<Rightarrow> Inr (name, data)
         | _ \<Rightarrow> Inl (Inl nil_dereference))
       | Inr _ \<Rightarrow> Inl (Inl nil_dereference)))"

section \<open>The clients\<close>

text \<open>
  Where a client holds the \<open>Fake\<close>, its state is an argument. Options that the code does not
      use are left
  out.
\<close>

subsection \<open>CacheServers\<close>

definition fake_cacheServersResource :: "GroupVersionResource" where
  "fake_cacheServersResource =
    \<lparr>gvr_Group = ''operator.kcp.io'', gvr_Version = ''v1alpha1'', gvr_Resource =
        ''cacheservers''\<rparr>"

definition fake_cacheServersKind :: "GroupVersionKind" where
  "fake_cacheServersKind =
    \<lparr>gvk_Group = ''operator.kcp.io'', gvk_Version = ''v1alpha1'', gvk_Kind = ''CacheServer''\<rparr>"

definition fake_cacheServersClusterClient_Cluster :: "('st, 'obj, 'meta, 'o, 'sel, 'w) fake_library
    \<Rightarrow> string \<Rightarrow> fake_namespacer res" where
  "fake_cacheServersClusterClient_Cluster L clusterPath =
    (if clusterPath = fk_Wildcard L then Inl wildcard_panic else Inr \<lparr>fn_ClusterPath =
        clusterPath\<rparr>)"

definition fake_cacheServersClusterClient_List :: "('st, 'obj, 'meta, 'o, 'sel, 'w) fake_library
    \<Rightarrow> 'o \<Rightarrow> 'st
    \<Rightarrow> ((('meta \<times> 'obj list) option \<times> go_error option) res \<times> 'st)" where
  "fake_cacheServersClusterClient_List L opts st =
    filtered_list L TCacheServer opts
      (fk_Invokes L (ListAction fake_cacheServersResource fake_cacheServersKind (fk_Wildcard L)
          NamespaceAll opts) (NewList TCacheServer) st)"

definition fake_cacheServersClusterClient_Watch :: "('st, 'obj, 'meta, 'o, 'sel, 'w) fake_library
    \<Rightarrow> 'o \<Rightarrow> 'st \<Rightarrow> ('w option \<times> go_error option) \<times> 'st" where
  "fake_cacheServersClusterClient_Watch L opts st =
    fk_InvokesWatch L (WatchAction fake_cacheServersResource (fk_Wildcard L) NamespaceAll opts) st"

definition fake_cacheServersNamespacer_Namespace :: "fake_namespacer \<Rightarrow> string \<Rightarrow>
    fake_client" where
  "fake_cacheServersNamespacer_Namespace n namespace =
    \<lparr>fc_ClusterPath = fn_ClusterPath n, fc_Namespace = namespace\<rparr>"

definition fake_cacheServersClient_Create :: "('st, 'obj, 'meta, 'o, 'sel, 'w) fake_library \<Rightarrow>
    fake_client \<Rightarrow> 'obj \<Rightarrow> 'st
    \<Rightarrow> (('obj option \<times> go_error option) res \<times> 'st)" where
  "fake_cacheServersClient_Create L c x st =
    returned_object TCacheServer (fk_Invokes L (CreateAction fake_cacheServersResource (fc_ClusterPath c)
        (fc_Namespace c) x) (NewObject TCacheServer) st)"

definition fake_cacheServersClient_Update :: "('st, 'obj, 'meta, 'o, 'sel, 'w) fake_library \<Rightarrow>
    fake_client \<Rightarrow> 'obj \<Rightarrow> 'st
    \<Rightarrow> (('obj option \<times> go_error option) res \<times> 'st)" where
  "fake_cacheServersClient_Update L c x st =
    returned_object TCacheServer (fk_Invokes L (UpdateAction fake_cacheServersResource (fc_ClusterPath c)
        (fc_Namespace c) x) (NewObject TCacheServer) st)"

definition fake_cacheServersClient_UpdateStatus :: "('st, 'obj, 'meta, 'o, 'sel, 'w) fake_library
    \<Rightarrow> fake_client \<Rightarrow> 'obj \<Rightarrow> 'st
    \<Rightarrow> (('obj option \<times> go_error option) res \<times> 'st)" where
  "fake_cacheServersClient_UpdateStatus L c x st =
    returned_object TCacheServer (fk_Invokes L (UpdateSubresourceAction fake_cacheServersResource
        (fc_ClusterPath c) ''status'' (fc_Namespace c) x) (NewObject TCacheServer) st)"

definition fake_cacheServersClient_Delete :: "('st, 'obj, 'meta, 'o, 'sel, 'w) fake_library \<Rightarrow>
    fake_client \<Rightarrow> string \<Rightarrow> 'o \<Rightarrow> 'st \<Rightarrow> go_error option
    \<times> 'st" where
  "fake_cacheServersClient_Delete L c name opts st =
    returned_error (fk_Invokes L (DeleteAction fake_cacheServersResource (fc_ClusterPath c) (fc_Namespace
        c) name opts) (NewObject TCacheServer) st)"

definition fake_cacheServersClient_DeleteCollection :: "('st, 'obj, 'meta, 'o, 'sel, 'w) fake_library
    \<Rightarrow> fake_client \<Rightarrow> 'o \<Rightarrow> 'o \<Rightarrow> 'st \<Rightarrow> go_error
    option \<times> 'st" where
  "fake_cacheServersClient_DeleteCollection L c opts listOpts st =
    returned_error (fk_Invokes L (DeleteCollectionAction fake_cacheServersResource (fc_ClusterPath c)
        (fc_Namespace c) listOpts) (NewList TCacheServer) st)"

definition fake_cacheServersClient_Get :: "('st, 'obj, 'meta, 'o, 'sel, 'w) fake_library \<Rightarrow>
    fake_client \<Rightarrow> string \<Rightarrow> 'st
    \<Rightarrow> (('obj option \<times> go_error option) res \<times> 'st)" where
  "fake_cacheServersClient_Get L c name st =
    returned_object TCacheServer (fk_Invokes L (GetAction fake_cacheServersResource (fc_ClusterPath c)
        (fc_Namespace c) name) (NewObject TCacheServer) st)"

definition fake_cacheServersClient_List :: "('st, 'obj, 'meta, 'o, 'sel, 'w) fake_library \<Rightarrow>
    fake_client \<Rightarrow> 'o \<Rightarrow> 'st
    \<Rightarrow> ((('meta \<times> 'obj list) option \<times> go_error option) res \<times> 'st)" where
  "fake_cacheServersClient_List L c opts st =
    filtered_list L TCacheServer opts (fk_Invokes L (ListAction fake_cacheServersResource
        fake_cacheServersKind (fc_ClusterPath c) (fc_Namespace c) opts) (NewList TCacheServer) st)"

definition fake_cacheServersClient_Watch :: "('st, 'obj, 'meta, 'o, 'sel, 'w) fake_library \<Rightarrow>
    fake_client \<Rightarrow> 'o \<Rightarrow> 'st \<Rightarrow> ('w option \<times> go_error option)
    \<times> 'st" where
  "fake_cacheServersClient_Watch L c opts st = fk_InvokesWatch L (WatchAction fake_cacheServersResource
      (fc_ClusterPath c) (fc_Namespace c) opts) st"

definition fake_cacheServersClient_Patch :: "('st, 'obj, 'meta, 'o, 'sel, 'w) fake_library \<Rightarrow>
    fake_client \<Rightarrow> string \<Rightarrow> patch_type \<Rightarrow> string \<Rightarrow> string
    list \<Rightarrow> 'st
    \<Rightarrow> (('obj option \<times> go_error option) res \<times> 'st)" where
  "fake_cacheServersClient_Patch L c name pt data subresources st =
    returned_object TCacheServer (fk_Invokes L (PatchSubresourceAction fake_cacheServersResource
        (fc_ClusterPath c) (fc_Namespace c) name pt data subresources) (NewObject TCacheServer) st)"

definition fake_cacheServersClient_Apply :: "('st, 'obj, 'meta, 'o, 'sel, 'w) fake_library \<Rightarrow>
    fake_client \<Rightarrow> go_value \<Rightarrow> memory \<Rightarrow> 'st
    \<Rightarrow> (('obj option \<times> go_error option) res \<times> 'st)" where
  "fake_cacheServersClient_Apply L c applyConfiguration m st =
    (case apply_patch L applyConfiguration m of
      Inl answer \<Rightarrow> (answer, st)
    | Inr (name, data) \<Rightarrow> returned_object TCacheServer
        (fk_Invokes L (PatchSubresourceAction fake_cacheServersResource (fc_ClusterPath c) (fc_Namespace
            c) name ApplyPatch data []) (NewObject TCacheServer) st))"

definition fake_cacheServersClient_ApplyStatus :: "('st, 'obj, 'meta, 'o, 'sel, 'w) fake_library
    \<Rightarrow> fake_client \<Rightarrow> go_value \<Rightarrow> memory \<Rightarrow> 'st
    \<Rightarrow> (('obj option \<times> go_error option) res \<times> 'st)" where
  "fake_cacheServersClient_ApplyStatus L c applyConfiguration m st =
    (case apply_patch L applyConfiguration m of
      Inl answer \<Rightarrow> (answer, st)
    | Inr (name, data) \<Rightarrow> returned_object TCacheServer
        (fk_Invokes L (PatchSubresourceAction fake_cacheServersResource (fc_ClusterPath c) (fc_Namespace
            c) name ApplyPatch data [''status'']) (NewObject TCacheServer) st))"

subsection \<open>FrontProxies\<close>

definition fake_frontProxiesResource :: "GroupVersionResource" where
  "fake_frontProxiesResource =
    \<lparr>gvr_Group = ''operator.kcp.io'', gvr_Version = ''v1alpha1'', gvr_Resource =
        ''frontproxies''\<rparr>"

definition fake_frontProxiesKind :: "GroupVersionKind" where
  "fake_frontProxiesKind =
    \<lparr>gvk_Group = ''operator.kcp.io'', gvk_Version = ''v1alpha1'', gvk_Kind = ''FrontProxy''\<rparr>"

definition fake_frontProxiesClusterClient_Cluster :: "('st, 'obj, 'meta, 'o, 'sel, 'w) fake_library
    \<Rightarrow> string \<Rightarrow> fake_namespacer res" where
  "fake_frontProxiesClusterClient_Cluster L clusterPath =
    (if clusterPath = fk_Wildcard L then Inl wildcard_panic else Inr \<lparr>fn_ClusterPath =
        clusterPath\<rparr>)"

definition fake_frontProxiesClusterClient_List :: "('st, 'obj, 'meta, 'o, 'sel, 'w) fake_library
    \<Rightarrow> 'o \<Rightarrow> 'st
    \<Rightarrow> ((('meta \<times> 'obj list) option \<times> go_error option) res \<times> 'st)" where
  "fake_frontProxiesClusterClient_List L opts st =
    filtered_list L TFrontProxy opts
      (fk_Invokes L (ListAction fake_frontProxiesResource fake_frontProxiesKind (fk_Wildcard L)
          NamespaceAll opts) (NewList TFrontProxy) st)"

definition fake_frontProxiesClusterClient_Watch :: "('st, 'obj, 'meta, 'o, 'sel, 'w) fake_library
    \<Rightarrow> 'o \<Rightarrow> 'st \<Rightarrow> ('w option \<times> go_error option) \<times> 'st" where
  "fake_frontProxiesClusterClient_Watch L opts st =
    fk_InvokesWatch L (WatchAction fake_frontProxiesResource (fk_Wildcard L) NamespaceAll opts) st"

definition fake_frontProxiesNamespacer_Namespace :: "fake_namespacer \<Rightarrow> string \<Rightarrow>
    fake_client" where
  "fake_frontProxiesNamespacer_Namespace n namespace =
    \<lparr>fc_ClusterPath = fn_ClusterPath n, fc_Namespace = namespace\<rparr>"

definition fake_frontProxiesClient_Create :: "('st, 'obj, 'meta, 'o, 'sel, 'w) fake_library \<Rightarrow>
    fake_client \<Rightarrow> 'obj \<Rightarrow> 'st
    \<Rightarrow> (('obj option \<times> go_error option) res \<times> 'st)" where
  "fake_frontProxiesClient_Create L c x st =
    returned_object TFrontProxy (fk_Invokes L (CreateAction fake_frontProxiesResource (fc_ClusterPath c)
        (fc_Namespace c) x) (NewObject TFrontProxy) st)"

definition fake_frontProxiesClient_Update :: "('st, 'obj, 'meta, 'o, 'sel, 'w) fake_library \<Rightarrow>
    fake_client \<Rightarrow> 'obj \<Rightarrow> 'st
    \<Rightarrow> (('obj option \<times> go_error option) res \<times> 'st)" where
  "fake_frontProxiesClient_Update L c x st =
    returned_object TFrontProxy (fk_Invokes L (UpdateAction fake_frontProxiesResource (fc_ClusterPath c)
        (fc_Namespace c) x) (NewObject TFrontProxy) st)"

definition fake_frontProxiesClient_UpdateStatus :: "('st, 'obj, 'meta, 'o, 'sel, 'w) fake_library
    \<Rightarrow> fake_client \<Rightarrow> 'obj \<Rightarrow> 'st
    \<Rightarrow> (('obj option \<times> go_error option) res \<times> 'st)" where
  "fake_frontProxiesClient_UpdateStatus L c x st =
    returned_object TFrontProxy (fk_Invokes L (UpdateSubresourceAction fake_frontProxiesResource
        (fc_ClusterPath c) ''status'' (fc_Namespace c) x) (NewObject TFrontProxy) st)"

definition fake_frontProxiesClient_Delete :: "('st, 'obj, 'meta, 'o, 'sel, 'w) fake_library \<Rightarrow>
    fake_client \<Rightarrow> string \<Rightarrow> 'o \<Rightarrow> 'st \<Rightarrow> go_error option
    \<times> 'st" where
  "fake_frontProxiesClient_Delete L c name opts st =
    returned_error (fk_Invokes L (DeleteAction fake_frontProxiesResource (fc_ClusterPath c) (fc_Namespace
        c) name opts) (NewObject TFrontProxy) st)"

definition fake_frontProxiesClient_DeleteCollection :: "('st, 'obj, 'meta, 'o, 'sel, 'w) fake_library
    \<Rightarrow> fake_client \<Rightarrow> 'o \<Rightarrow> 'o \<Rightarrow> 'st \<Rightarrow> go_error
    option \<times> 'st" where
  "fake_frontProxiesClient_DeleteCollection L c opts listOpts st =
    returned_error (fk_Invokes L (DeleteCollectionAction fake_frontProxiesResource (fc_ClusterPath c)
        (fc_Namespace c) listOpts) (NewList TFrontProxy) st)"

definition fake_frontProxiesClient_Get :: "('st, 'obj, 'meta, 'o, 'sel, 'w) fake_library \<Rightarrow>
    fake_client \<Rightarrow> string \<Rightarrow> 'st
    \<Rightarrow> (('obj option \<times> go_error option) res \<times> 'st)" where
  "fake_frontProxiesClient_Get L c name st =
    returned_object TFrontProxy (fk_Invokes L (GetAction fake_frontProxiesResource (fc_ClusterPath c)
        (fc_Namespace c) name) (NewObject TFrontProxy) st)"

definition fake_frontProxiesClient_List :: "('st, 'obj, 'meta, 'o, 'sel, 'w) fake_library \<Rightarrow>
    fake_client \<Rightarrow> 'o \<Rightarrow> 'st
    \<Rightarrow> ((('meta \<times> 'obj list) option \<times> go_error option) res \<times> 'st)" where
  "fake_frontProxiesClient_List L c opts st =
    filtered_list L TFrontProxy opts (fk_Invokes L (ListAction fake_frontProxiesResource
        fake_frontProxiesKind (fc_ClusterPath c) (fc_Namespace c) opts) (NewList TFrontProxy) st)"

definition fake_frontProxiesClient_Watch :: "('st, 'obj, 'meta, 'o, 'sel, 'w) fake_library \<Rightarrow>
    fake_client \<Rightarrow> 'o \<Rightarrow> 'st \<Rightarrow> ('w option \<times> go_error option)
    \<times> 'st" where
  "fake_frontProxiesClient_Watch L c opts st = fk_InvokesWatch L (WatchAction fake_frontProxiesResource
      (fc_ClusterPath c) (fc_Namespace c) opts) st"

definition fake_frontProxiesClient_Patch :: "('st, 'obj, 'meta, 'o, 'sel, 'w) fake_library \<Rightarrow>
    fake_client \<Rightarrow> string \<Rightarrow> patch_type \<Rightarrow> string \<Rightarrow> string
    list \<Rightarrow> 'st
    \<Rightarrow> (('obj option \<times> go_error option) res \<times> 'st)" where
  "fake_frontProxiesClient_Patch L c name pt data subresources st =
    returned_object TFrontProxy (fk_Invokes L (PatchSubresourceAction fake_frontProxiesResource
        (fc_ClusterPath c) (fc_Namespace c) name pt data subresources) (NewObject TFrontProxy) st)"

definition fake_frontProxiesClient_Apply :: "('st, 'obj, 'meta, 'o, 'sel, 'w) fake_library \<Rightarrow>
    fake_client \<Rightarrow> go_value \<Rightarrow> memory \<Rightarrow> 'st
    \<Rightarrow> (('obj option \<times> go_error option) res \<times> 'st)" where
  "fake_frontProxiesClient_Apply L c applyConfiguration m st =
    (case apply_patch L applyConfiguration m of
      Inl answer \<Rightarrow> (answer, st)
    | Inr (name, data) \<Rightarrow> returned_object TFrontProxy
        (fk_Invokes L (PatchSubresourceAction fake_frontProxiesResource (fc_ClusterPath c) (fc_Namespace
            c) name ApplyPatch data []) (NewObject TFrontProxy) st))"

definition fake_frontProxiesClient_ApplyStatus :: "('st, 'obj, 'meta, 'o, 'sel, 'w) fake_library
    \<Rightarrow> fake_client \<Rightarrow> go_value \<Rightarrow> memory \<Rightarrow> 'st
    \<Rightarrow> (('obj option \<times> go_error option) res \<times> 'st)" where
  "fake_frontProxiesClient_ApplyStatus L c applyConfiguration m st =
    (case apply_patch L applyConfiguration m of
      Inl answer \<Rightarrow> (answer, st)
    | Inr (name, data) \<Rightarrow> returned_object TFrontProxy
        (fk_Invokes L (PatchSubresourceAction fake_frontProxiesResource (fc_ClusterPath c) (fc_Namespace
            c) name ApplyPatch data [''status'']) (NewObject TFrontProxy) st))"

subsection \<open>Kubeconfigs\<close>

definition fake_kubeconfigsResource :: "GroupVersionResource" where
  "fake_kubeconfigsResource =
    \<lparr>gvr_Group = ''operator.kcp.io'', gvr_Version = ''v1alpha1'', gvr_Resource = ''kubeconfigs''\<rparr>"

definition fake_kubeconfigsKind :: "GroupVersionKind" where
  "fake_kubeconfigsKind =
    \<lparr>gvk_Group = ''operator.kcp.io'', gvk_Version = ''v1alpha1'', gvk_Kind = ''Kubeconfig''\<rparr>"

definition fake_kubeconfigsClusterClient_Cluster :: "('st, 'obj, 'meta, 'o, 'sel, 'w) fake_library
    \<Rightarrow> string \<Rightarrow> fake_namespacer res" where
  "fake_kubeconfigsClusterClient_Cluster L clusterPath =
    (if clusterPath = fk_Wildcard L then Inl wildcard_panic else Inr \<lparr>fn_ClusterPath =
        clusterPath\<rparr>)"

definition fake_kubeconfigsClusterClient_List :: "('st, 'obj, 'meta, 'o, 'sel, 'w) fake_library
    \<Rightarrow> 'o \<Rightarrow> 'st
    \<Rightarrow> ((('meta \<times> 'obj list) option \<times> go_error option) res \<times> 'st)" where
  "fake_kubeconfigsClusterClient_List L opts st =
    filtered_list L TKubeconfig opts
      (fk_Invokes L (ListAction fake_kubeconfigsResource fake_kubeconfigsKind (fk_Wildcard L) NamespaceAll
          opts) (NewList TKubeconfig) st)"

definition fake_kubeconfigsClusterClient_Watch :: "('st, 'obj, 'meta, 'o, 'sel, 'w) fake_library
    \<Rightarrow> 'o \<Rightarrow> 'st \<Rightarrow> ('w option \<times> go_error option) \<times> 'st" where
  "fake_kubeconfigsClusterClient_Watch L opts st =
    fk_InvokesWatch L (WatchAction fake_kubeconfigsResource (fk_Wildcard L) NamespaceAll opts) st"

definition fake_kubeconfigsNamespacer_Namespace :: "fake_namespacer \<Rightarrow> string \<Rightarrow>
    fake_client" where
  "fake_kubeconfigsNamespacer_Namespace n namespace =
    \<lparr>fc_ClusterPath = fn_ClusterPath n, fc_Namespace = namespace\<rparr>"

definition fake_kubeconfigsClient_Create :: "('st, 'obj, 'meta, 'o, 'sel, 'w) fake_library \<Rightarrow>
    fake_client \<Rightarrow> 'obj \<Rightarrow> 'st
    \<Rightarrow> (('obj option \<times> go_error option) res \<times> 'st)" where
  "fake_kubeconfigsClient_Create L c x st =
    returned_object TKubeconfig (fk_Invokes L (CreateAction fake_kubeconfigsResource (fc_ClusterPath c)
        (fc_Namespace c) x) (NewObject TKubeconfig) st)"

definition fake_kubeconfigsClient_Update :: "('st, 'obj, 'meta, 'o, 'sel, 'w) fake_library \<Rightarrow>
    fake_client \<Rightarrow> 'obj \<Rightarrow> 'st
    \<Rightarrow> (('obj option \<times> go_error option) res \<times> 'st)" where
  "fake_kubeconfigsClient_Update L c x st =
    returned_object TKubeconfig (fk_Invokes L (UpdateAction fake_kubeconfigsResource (fc_ClusterPath c)
        (fc_Namespace c) x) (NewObject TKubeconfig) st)"

definition fake_kubeconfigsClient_UpdateStatus :: "('st, 'obj, 'meta, 'o, 'sel, 'w) fake_library
    \<Rightarrow> fake_client \<Rightarrow> 'obj \<Rightarrow> 'st
    \<Rightarrow> (('obj option \<times> go_error option) res \<times> 'st)" where
  "fake_kubeconfigsClient_UpdateStatus L c x st =
    returned_object TKubeconfig (fk_Invokes L (UpdateSubresourceAction fake_kubeconfigsResource
        (fc_ClusterPath c) ''status'' (fc_Namespace c) x) (NewObject TKubeconfig) st)"

definition fake_kubeconfigsClient_Delete :: "('st, 'obj, 'meta, 'o, 'sel, 'w) fake_library \<Rightarrow>
    fake_client \<Rightarrow> string \<Rightarrow> 'o \<Rightarrow> 'st \<Rightarrow> go_error option
    \<times> 'st" where
  "fake_kubeconfigsClient_Delete L c name opts st =
    returned_error (fk_Invokes L (DeleteAction fake_kubeconfigsResource (fc_ClusterPath c) (fc_Namespace
        c) name opts) (NewObject TKubeconfig) st)"

definition fake_kubeconfigsClient_DeleteCollection :: "('st, 'obj, 'meta, 'o, 'sel, 'w) fake_library
    \<Rightarrow> fake_client \<Rightarrow> 'o \<Rightarrow> 'o \<Rightarrow> 'st \<Rightarrow> go_error
    option \<times> 'st" where
  "fake_kubeconfigsClient_DeleteCollection L c opts listOpts st =
    returned_error (fk_Invokes L (DeleteCollectionAction fake_kubeconfigsResource (fc_ClusterPath c)
        (fc_Namespace c) listOpts) (NewList TKubeconfig) st)"

definition fake_kubeconfigsClient_Get :: "('st, 'obj, 'meta, 'o, 'sel, 'w) fake_library \<Rightarrow>
    fake_client \<Rightarrow> string \<Rightarrow> 'st
    \<Rightarrow> (('obj option \<times> go_error option) res \<times> 'st)" where
  "fake_kubeconfigsClient_Get L c name st =
    returned_object TKubeconfig (fk_Invokes L (GetAction fake_kubeconfigsResource (fc_ClusterPath c)
        (fc_Namespace c) name) (NewObject TKubeconfig) st)"

definition fake_kubeconfigsClient_List :: "('st, 'obj, 'meta, 'o, 'sel, 'w) fake_library \<Rightarrow>
    fake_client \<Rightarrow> 'o \<Rightarrow> 'st
    \<Rightarrow> ((('meta \<times> 'obj list) option \<times> go_error option) res \<times> 'st)" where
  "fake_kubeconfigsClient_List L c opts st =
    filtered_list L TKubeconfig opts (fk_Invokes L (ListAction fake_kubeconfigsResource
        fake_kubeconfigsKind (fc_ClusterPath c) (fc_Namespace c) opts) (NewList TKubeconfig) st)"

definition fake_kubeconfigsClient_Watch :: "('st, 'obj, 'meta, 'o, 'sel, 'w) fake_library \<Rightarrow>
    fake_client \<Rightarrow> 'o \<Rightarrow> 'st \<Rightarrow> ('w option \<times> go_error option)
    \<times> 'st" where
  "fake_kubeconfigsClient_Watch L c opts st = fk_InvokesWatch L (WatchAction fake_kubeconfigsResource
      (fc_ClusterPath c) (fc_Namespace c) opts) st"

definition fake_kubeconfigsClient_Patch :: "('st, 'obj, 'meta, 'o, 'sel, 'w) fake_library \<Rightarrow>
    fake_client \<Rightarrow> string \<Rightarrow> patch_type \<Rightarrow> string \<Rightarrow> string
    list \<Rightarrow> 'st
    \<Rightarrow> (('obj option \<times> go_error option) res \<times> 'st)" where
  "fake_kubeconfigsClient_Patch L c name pt data subresources st =
    returned_object TKubeconfig (fk_Invokes L (PatchSubresourceAction fake_kubeconfigsResource
        (fc_ClusterPath c) (fc_Namespace c) name pt data subresources) (NewObject TKubeconfig) st)"

definition fake_kubeconfigsClient_Apply :: "('st, 'obj, 'meta, 'o, 'sel, 'w) fake_library \<Rightarrow>
    fake_client \<Rightarrow> go_value \<Rightarrow> memory \<Rightarrow> 'st
    \<Rightarrow> (('obj option \<times> go_error option) res \<times> 'st)" where
  "fake_kubeconfigsClient_Apply L c applyConfiguration m st =
    (case apply_patch L applyConfiguration m of
      Inl answer \<Rightarrow> (answer, st)
    | Inr (name, data) \<Rightarrow> returned_object TKubeconfig
        (fk_Invokes L (PatchSubresourceAction fake_kubeconfigsResource (fc_ClusterPath c) (fc_Namespace c)
            name ApplyPatch data []) (NewObject TKubeconfig) st))"

definition fake_kubeconfigsClient_ApplyStatus :: "('st, 'obj, 'meta, 'o, 'sel, 'w) fake_library
    \<Rightarrow> fake_client \<Rightarrow> go_value \<Rightarrow> memory \<Rightarrow> 'st
    \<Rightarrow> (('obj option \<times> go_error option) res \<times> 'st)" where
  "fake_kubeconfigsClient_ApplyStatus L c applyConfiguration m st =
    (case apply_patch L applyConfiguration m of
      Inl answer \<Rightarrow> (answer, st)
    | Inr (name, data) \<Rightarrow> returned_object TKubeconfig
        (fk_Invokes L (PatchSubresourceAction fake_kubeconfigsResource (fc_ClusterPath c) (fc_Namespace c)
            name ApplyPatch data [''status'']) (NewObject TKubeconfig) st))"

subsection \<open>RootShards\<close>

definition fake_rootShardsResource :: "GroupVersionResource" where
  "fake_rootShardsResource =
    \<lparr>gvr_Group = ''operator.kcp.io'', gvr_Version = ''v1alpha1'', gvr_Resource = ''rootshards''\<rparr>"

definition fake_rootShardsKind :: "GroupVersionKind" where
  "fake_rootShardsKind =
    \<lparr>gvk_Group = ''operator.kcp.io'', gvk_Version = ''v1alpha1'', gvk_Kind = ''RootShard''\<rparr>"

definition fake_rootShardsClusterClient_Cluster :: "('st, 'obj, 'meta, 'o, 'sel, 'w) fake_library
    \<Rightarrow> string \<Rightarrow> fake_namespacer res" where
  "fake_rootShardsClusterClient_Cluster L clusterPath =
    (if clusterPath = fk_Wildcard L then Inl wildcard_panic else Inr \<lparr>fn_ClusterPath =
        clusterPath\<rparr>)"

definition fake_rootShardsClusterClient_List :: "('st, 'obj, 'meta, 'o, 'sel, 'w) fake_library
    \<Rightarrow> 'o \<Rightarrow> 'st
    \<Rightarrow> ((('meta \<times> 'obj list) option \<times> go_error option) res \<times> 'st)" where
  "fake_rootShardsClusterClient_List L opts st =
    filtered_list L TRootShard opts
      (fk_Invokes L (ListAction fake_rootShardsResource fake_rootShardsKind (fk_Wildcard L) NamespaceAll
          opts) (NewList TRootShard) st)"

definition fake_rootShardsClusterClient_Watch :: "('st, 'obj, 'meta, 'o, 'sel, 'w) fake_library
    \<Rightarrow> 'o \<Rightarrow> 'st \<Rightarrow> ('w option \<times> go_error option) \<times> 'st" where
  "fake_rootShardsClusterClient_Watch L opts st =
    fk_InvokesWatch L (WatchAction fake_rootShardsResource (fk_Wildcard L) NamespaceAll opts) st"

definition fake_rootShardsNamespacer_Namespace :: "fake_namespacer \<Rightarrow> string \<Rightarrow>
    fake_client" where
  "fake_rootShardsNamespacer_Namespace n namespace =
    \<lparr>fc_ClusterPath = fn_ClusterPath n, fc_Namespace = namespace\<rparr>"

definition fake_rootShardsClient_Create :: "('st, 'obj, 'meta, 'o, 'sel, 'w) fake_library \<Rightarrow>
    fake_client \<Rightarrow> 'obj \<Rightarrow> 'st
    \<Rightarrow> (('obj option \<times> go_error option) res \<times> 'st)" where
  "fake_rootShardsClient_Create L c x st =
    returned_object TRootShard (fk_Invokes L (CreateAction fake_rootShardsResource (fc_ClusterPath c)
        (fc_Namespace c) x) (NewObject TRootShard) st)"

definition fake_rootShardsClient_Update :: "('st, 'obj, 'meta, 'o, 'sel, 'w) fake_library \<Rightarrow>
    fake_client \<Rightarrow> 'obj \<Rightarrow> 'st
    \<Rightarrow> (('obj option \<times> go_error option) res \<times> 'st)" where
  "fake_rootShardsClient_Update L c x st =
    returned_object TRootShard (fk_Invokes L (UpdateAction fake_rootShardsResource (fc_ClusterPath c)
        (fc_Namespace c) x) (NewObject TRootShard) st)"

definition fake_rootShardsClient_UpdateStatus :: "('st, 'obj, 'meta, 'o, 'sel, 'w) fake_library
    \<Rightarrow> fake_client \<Rightarrow> 'obj \<Rightarrow> 'st
    \<Rightarrow> (('obj option \<times> go_error option) res \<times> 'st)" where
  "fake_rootShardsClient_UpdateStatus L c x st =
    returned_object TRootShard (fk_Invokes L (UpdateSubresourceAction fake_rootShardsResource
        (fc_ClusterPath c) ''status'' (fc_Namespace c) x) (NewObject TRootShard) st)"

definition fake_rootShardsClient_Delete :: "('st, 'obj, 'meta, 'o, 'sel, 'w) fake_library \<Rightarrow>
    fake_client \<Rightarrow> string \<Rightarrow> 'o \<Rightarrow> 'st \<Rightarrow> go_error option
    \<times> 'st" where
  "fake_rootShardsClient_Delete L c name opts st =
    returned_error (fk_Invokes L (DeleteAction fake_rootShardsResource (fc_ClusterPath c) (fc_Namespace c)
        name opts) (NewObject TRootShard) st)"

definition fake_rootShardsClient_DeleteCollection :: "('st, 'obj, 'meta, 'o, 'sel, 'w) fake_library
    \<Rightarrow> fake_client \<Rightarrow> 'o \<Rightarrow> 'o \<Rightarrow> 'st \<Rightarrow> go_error
    option \<times> 'st" where
  "fake_rootShardsClient_DeleteCollection L c opts listOpts st =
    returned_error (fk_Invokes L (DeleteCollectionAction fake_rootShardsResource (fc_ClusterPath c)
        (fc_Namespace c) listOpts) (NewList TRootShard) st)"

definition fake_rootShardsClient_Get :: "('st, 'obj, 'meta, 'o, 'sel, 'w) fake_library \<Rightarrow>
    fake_client \<Rightarrow> string \<Rightarrow> 'st
    \<Rightarrow> (('obj option \<times> go_error option) res \<times> 'st)" where
  "fake_rootShardsClient_Get L c name st =
    returned_object TRootShard (fk_Invokes L (GetAction fake_rootShardsResource (fc_ClusterPath c)
        (fc_Namespace c) name) (NewObject TRootShard) st)"

definition fake_rootShardsClient_List :: "('st, 'obj, 'meta, 'o, 'sel, 'w) fake_library \<Rightarrow>
    fake_client \<Rightarrow> 'o \<Rightarrow> 'st
    \<Rightarrow> ((('meta \<times> 'obj list) option \<times> go_error option) res \<times> 'st)" where
  "fake_rootShardsClient_List L c opts st =
    filtered_list L TRootShard opts (fk_Invokes L (ListAction fake_rootShardsResource fake_rootShardsKind
        (fc_ClusterPath c) (fc_Namespace c) opts) (NewList TRootShard) st)"

definition fake_rootShardsClient_Watch :: "('st, 'obj, 'meta, 'o, 'sel, 'w) fake_library \<Rightarrow>
    fake_client \<Rightarrow> 'o \<Rightarrow> 'st \<Rightarrow> ('w option \<times> go_error option)
    \<times> 'st" where
  "fake_rootShardsClient_Watch L c opts st = fk_InvokesWatch L (WatchAction fake_rootShardsResource
      (fc_ClusterPath c) (fc_Namespace c) opts) st"

definition fake_rootShardsClient_Patch :: "('st, 'obj, 'meta, 'o, 'sel, 'w) fake_library \<Rightarrow>
    fake_client \<Rightarrow> string \<Rightarrow> patch_type \<Rightarrow> string \<Rightarrow> string
    list \<Rightarrow> 'st
    \<Rightarrow> (('obj option \<times> go_error option) res \<times> 'st)" where
  "fake_rootShardsClient_Patch L c name pt data subresources st =
    returned_object TRootShard (fk_Invokes L (PatchSubresourceAction fake_rootShardsResource
        (fc_ClusterPath c) (fc_Namespace c) name pt data subresources) (NewObject TRootShard) st)"

definition fake_rootShardsClient_Apply :: "('st, 'obj, 'meta, 'o, 'sel, 'w) fake_library \<Rightarrow>
    fake_client \<Rightarrow> go_value \<Rightarrow> memory \<Rightarrow> 'st
    \<Rightarrow> (('obj option \<times> go_error option) res \<times> 'st)" where
  "fake_rootShardsClient_Apply L c applyConfiguration m st =
    (case apply_patch L applyConfiguration m of
      Inl answer \<Rightarrow> (answer, st)
    | Inr (name, data) \<Rightarrow> returned_object TRootShard
        (fk_Invokes L (PatchSubresourceAction fake_rootShardsResource (fc_ClusterPath c) (fc_Namespace c)
            name ApplyPatch data []) (NewObject TRootShard) st))"

definition fake_rootShardsClient_ApplyStatus :: "('st, 'obj, 'meta, 'o, 'sel, 'w) fake_library
    \<Rightarrow> fake_client \<Rightarrow> go_value \<Rightarrow> memory \<Rightarrow> 'st
    \<Rightarrow> (('obj option \<times> go_error option) res \<times> 'st)" where
  "fake_rootShardsClient_ApplyStatus L c applyConfiguration m st =
    (case apply_patch L applyConfiguration m of
      Inl answer \<Rightarrow> (answer, st)
    | Inr (name, data) \<Rightarrow> returned_object TRootShard
        (fk_Invokes L (PatchSubresourceAction fake_rootShardsResource (fc_ClusterPath c) (fc_Namespace c)
            name ApplyPatch data [''status'']) (NewObject TRootShard) st))"

subsection \<open>Shards\<close>

definition fake_shardsResource :: "GroupVersionResource" where
  "fake_shardsResource =
    \<lparr>gvr_Group = ''operator.kcp.io'', gvr_Version = ''v1alpha1'', gvr_Resource = ''shards''\<rparr>"

definition fake_shardsKind :: "GroupVersionKind" where
  "fake_shardsKind =
    \<lparr>gvk_Group = ''operator.kcp.io'', gvk_Version = ''v1alpha1'', gvk_Kind = ''Shard''\<rparr>"

definition fake_shardsClusterClient_Cluster :: "('st, 'obj, 'meta, 'o, 'sel, 'w) fake_library
    \<Rightarrow> string \<Rightarrow> fake_namespacer res" where
  "fake_shardsClusterClient_Cluster L clusterPath =
    (if clusterPath = fk_Wildcard L then Inl wildcard_panic else Inr \<lparr>fn_ClusterPath =
        clusterPath\<rparr>)"

definition fake_shardsClusterClient_List :: "('st, 'obj, 'meta, 'o, 'sel, 'w) fake_library \<Rightarrow>
    'o \<Rightarrow> 'st
    \<Rightarrow> ((('meta \<times> 'obj list) option \<times> go_error option) res \<times> 'st)" where
  "fake_shardsClusterClient_List L opts st =
    filtered_list L TShard opts
      (fk_Invokes L (ListAction fake_shardsResource fake_shardsKind (fk_Wildcard L) NamespaceAll opts)
          (NewList TShard) st)"

definition fake_shardsClusterClient_Watch :: "('st, 'obj, 'meta, 'o, 'sel, 'w) fake_library \<Rightarrow>
    'o \<Rightarrow> 'st \<Rightarrow> ('w option \<times> go_error option) \<times> 'st" where
  "fake_shardsClusterClient_Watch L opts st =
    fk_InvokesWatch L (WatchAction fake_shardsResource (fk_Wildcard L) NamespaceAll opts) st"

definition fake_shardsNamespacer_Namespace :: "fake_namespacer \<Rightarrow> string \<Rightarrow>
    fake_client" where
  "fake_shardsNamespacer_Namespace n namespace =
    \<lparr>fc_ClusterPath = fn_ClusterPath n, fc_Namespace = namespace\<rparr>"

definition fake_shardsClient_Create :: "('st, 'obj, 'meta, 'o, 'sel, 'w) fake_library \<Rightarrow>
    fake_client \<Rightarrow> 'obj \<Rightarrow> 'st
    \<Rightarrow> (('obj option \<times> go_error option) res \<times> 'st)" where
  "fake_shardsClient_Create L c x st =
    returned_object TShard (fk_Invokes L (CreateAction fake_shardsResource (fc_ClusterPath c)
        (fc_Namespace c) x) (NewObject TShard) st)"

definition fake_shardsClient_Update :: "('st, 'obj, 'meta, 'o, 'sel, 'w) fake_library \<Rightarrow>
    fake_client \<Rightarrow> 'obj \<Rightarrow> 'st
    \<Rightarrow> (('obj option \<times> go_error option) res \<times> 'st)" where
  "fake_shardsClient_Update L c x st =
    returned_object TShard (fk_Invokes L (UpdateAction fake_shardsResource (fc_ClusterPath c)
        (fc_Namespace c) x) (NewObject TShard) st)"

definition fake_shardsClient_UpdateStatus :: "('st, 'obj, 'meta, 'o, 'sel, 'w) fake_library \<Rightarrow>
    fake_client \<Rightarrow> 'obj \<Rightarrow> 'st
    \<Rightarrow> (('obj option \<times> go_error option) res \<times> 'st)" where
  "fake_shardsClient_UpdateStatus L c x st =
    returned_object TShard (fk_Invokes L (UpdateSubresourceAction fake_shardsResource (fc_ClusterPath c)
        ''status'' (fc_Namespace c) x) (NewObject TShard) st)"

definition fake_shardsClient_Delete :: "('st, 'obj, 'meta, 'o, 'sel, 'w) fake_library \<Rightarrow>
    fake_client \<Rightarrow> string \<Rightarrow> 'o \<Rightarrow> 'st \<Rightarrow> go_error option
    \<times> 'st" where
  "fake_shardsClient_Delete L c name opts st =
    returned_error (fk_Invokes L (DeleteAction fake_shardsResource (fc_ClusterPath c) (fc_Namespace c)
        name opts) (NewObject TShard) st)"

definition fake_shardsClient_DeleteCollection :: "('st, 'obj, 'meta, 'o, 'sel, 'w) fake_library
    \<Rightarrow> fake_client \<Rightarrow> 'o \<Rightarrow> 'o \<Rightarrow> 'st \<Rightarrow> go_error
    option \<times> 'st" where
  "fake_shardsClient_DeleteCollection L c opts listOpts st =
    returned_error (fk_Invokes L (DeleteCollectionAction fake_shardsResource (fc_ClusterPath c)
        (fc_Namespace c) listOpts) (NewList TShard) st)"

definition fake_shardsClient_Get :: "('st, 'obj, 'meta, 'o, 'sel, 'w) fake_library \<Rightarrow>
    fake_client \<Rightarrow> string \<Rightarrow> 'st
    \<Rightarrow> (('obj option \<times> go_error option) res \<times> 'st)" where
  "fake_shardsClient_Get L c name st =
    returned_object TShard (fk_Invokes L (GetAction fake_shardsResource (fc_ClusterPath c) (fc_Namespace
        c) name) (NewObject TShard) st)"

definition fake_shardsClient_List :: "('st, 'obj, 'meta, 'o, 'sel, 'w) fake_library \<Rightarrow>
    fake_client \<Rightarrow> 'o \<Rightarrow> 'st
    \<Rightarrow> ((('meta \<times> 'obj list) option \<times> go_error option) res \<times> 'st)" where
  "fake_shardsClient_List L c opts st =
    filtered_list L TShard opts (fk_Invokes L (ListAction fake_shardsResource fake_shardsKind
        (fc_ClusterPath c) (fc_Namespace c) opts) (NewList TShard) st)"

definition fake_shardsClient_Watch :: "('st, 'obj, 'meta, 'o, 'sel, 'w) fake_library \<Rightarrow>
    fake_client \<Rightarrow> 'o \<Rightarrow> 'st \<Rightarrow> ('w option \<times> go_error option)
    \<times> 'st" where
  "fake_shardsClient_Watch L c opts st = fk_InvokesWatch L (WatchAction fake_shardsResource
      (fc_ClusterPath c) (fc_Namespace c) opts) st"

definition fake_shardsClient_Patch :: "('st, 'obj, 'meta, 'o, 'sel, 'w) fake_library \<Rightarrow>
    fake_client \<Rightarrow> string \<Rightarrow> patch_type \<Rightarrow> string \<Rightarrow> string
    list \<Rightarrow> 'st
    \<Rightarrow> (('obj option \<times> go_error option) res \<times> 'st)" where
  "fake_shardsClient_Patch L c name pt data subresources st =
    returned_object TShard (fk_Invokes L (PatchSubresourceAction fake_shardsResource (fc_ClusterPath c)
        (fc_Namespace c) name pt data subresources) (NewObject TShard) st)"

definition fake_shardsClient_Apply :: "('st, 'obj, 'meta, 'o, 'sel, 'w) fake_library \<Rightarrow>
    fake_client \<Rightarrow> go_value \<Rightarrow> memory \<Rightarrow> 'st
    \<Rightarrow> (('obj option \<times> go_error option) res \<times> 'st)" where
  "fake_shardsClient_Apply L c applyConfiguration m st =
    (case apply_patch L applyConfiguration m of
      Inl answer \<Rightarrow> (answer, st)
    | Inr (name, data) \<Rightarrow> returned_object TShard
        (fk_Invokes L (PatchSubresourceAction fake_shardsResource (fc_ClusterPath c) (fc_Namespace c) name
            ApplyPatch data []) (NewObject TShard) st))"

definition fake_shardsClient_ApplyStatus :: "('st, 'obj, 'meta, 'o, 'sel, 'w) fake_library \<Rightarrow>
    fake_client \<Rightarrow> go_value \<Rightarrow> memory \<Rightarrow> 'st
    \<Rightarrow> (('obj option \<times> go_error option) res \<times> 'st)" where
  "fake_shardsClient_ApplyStatus L c applyConfiguration m st =
    (case apply_patch L applyConfiguration m of
      Inl answer \<Rightarrow> (answer, st)
    | Inr (name, data) \<Rightarrow> returned_object TShard
        (fk_Invokes L (PatchSubresourceAction fake_shardsResource (fc_ClusterPath c) (fc_Namespace c) name
            ApplyPatch data [''status'']) (NewObject TShard) st))"

subsection \<open>VirtualWorkspaces\<close>

definition fake_virtualWorkspacesResource :: "GroupVersionResource" where
  "fake_virtualWorkspacesResource =
    \<lparr>gvr_Group = ''operator.kcp.io'', gvr_Version = ''v1alpha1'', gvr_Resource =
        ''virtualworkspaces''\<rparr>"

definition fake_virtualWorkspacesKind :: "GroupVersionKind" where
  "fake_virtualWorkspacesKind =
    \<lparr>gvk_Group = ''operator.kcp.io'', gvk_Version = ''v1alpha1'', gvk_Kind =
        ''VirtualWorkspace''\<rparr>"

definition fake_virtualWorkspacesClusterClient_Cluster :: "('st, 'obj, 'meta, 'o, 'sel, 'w) fake_library
    \<Rightarrow> string \<Rightarrow> fake_namespacer res" where
  "fake_virtualWorkspacesClusterClient_Cluster L clusterPath =
    (if clusterPath = fk_Wildcard L then Inl wildcard_panic else Inr \<lparr>fn_ClusterPath =
        clusterPath\<rparr>)"

definition fake_virtualWorkspacesClusterClient_List :: "('st, 'obj, 'meta, 'o, 'sel, 'w) fake_library
    \<Rightarrow> 'o \<Rightarrow> 'st
    \<Rightarrow> ((('meta \<times> 'obj list) option \<times> go_error option) res \<times> 'st)" where
  "fake_virtualWorkspacesClusterClient_List L opts st =
    filtered_list L TVirtualWorkspace opts
      (fk_Invokes L (ListAction fake_virtualWorkspacesResource fake_virtualWorkspacesKind (fk_Wildcard L)
          NamespaceAll opts) (NewList TVirtualWorkspace) st)"

definition fake_virtualWorkspacesClusterClient_Watch :: "('st, 'obj, 'meta, 'o, 'sel, 'w) fake_library
    \<Rightarrow> 'o \<Rightarrow> 'st \<Rightarrow> ('w option \<times> go_error option) \<times> 'st" where
  "fake_virtualWorkspacesClusterClient_Watch L opts st =
    fk_InvokesWatch L (WatchAction fake_virtualWorkspacesResource (fk_Wildcard L) NamespaceAll opts) st"

definition fake_virtualWorkspacesNamespacer_Namespace :: "fake_namespacer \<Rightarrow> string
    \<Rightarrow> fake_client" where
  "fake_virtualWorkspacesNamespacer_Namespace n namespace =
    \<lparr>fc_ClusterPath = fn_ClusterPath n, fc_Namespace = namespace\<rparr>"

definition fake_virtualWorkspacesClient_Create :: "('st, 'obj, 'meta, 'o, 'sel, 'w) fake_library
    \<Rightarrow> fake_client \<Rightarrow> 'obj \<Rightarrow> 'st
    \<Rightarrow> (('obj option \<times> go_error option) res \<times> 'st)" where
  "fake_virtualWorkspacesClient_Create L c x st =
    returned_object TVirtualWorkspace (fk_Invokes L (CreateAction fake_virtualWorkspacesResource
        (fc_ClusterPath c) (fc_Namespace c) x) (NewObject TVirtualWorkspace) st)"

definition fake_virtualWorkspacesClient_Update :: "('st, 'obj, 'meta, 'o, 'sel, 'w) fake_library
    \<Rightarrow> fake_client \<Rightarrow> 'obj \<Rightarrow> 'st
    \<Rightarrow> (('obj option \<times> go_error option) res \<times> 'st)" where
  "fake_virtualWorkspacesClient_Update L c x st =
    returned_object TVirtualWorkspace (fk_Invokes L (UpdateAction fake_virtualWorkspacesResource
        (fc_ClusterPath c) (fc_Namespace c) x) (NewObject TVirtualWorkspace) st)"

definition fake_virtualWorkspacesClient_UpdateStatus :: "('st, 'obj, 'meta, 'o, 'sel, 'w) fake_library
    \<Rightarrow> fake_client \<Rightarrow> 'obj \<Rightarrow> 'st
    \<Rightarrow> (('obj option \<times> go_error option) res \<times> 'st)" where
  "fake_virtualWorkspacesClient_UpdateStatus L c x st =
    returned_object TVirtualWorkspace (fk_Invokes L (UpdateSubresourceAction
        fake_virtualWorkspacesResource (fc_ClusterPath c) ''status'' (fc_Namespace c) x) (NewObject
        TVirtualWorkspace) st)"

definition fake_virtualWorkspacesClient_Delete :: "('st, 'obj, 'meta, 'o, 'sel, 'w) fake_library
    \<Rightarrow> fake_client \<Rightarrow> string \<Rightarrow> 'o \<Rightarrow> 'st \<Rightarrow>
    go_error option \<times> 'st" where
  "fake_virtualWorkspacesClient_Delete L c name opts st =
    returned_error (fk_Invokes L (DeleteAction fake_virtualWorkspacesResource (fc_ClusterPath c)
        (fc_Namespace c) name opts) (NewObject TVirtualWorkspace) st)"

definition fake_virtualWorkspacesClient_DeleteCollection :: "('st, 'obj, 'meta, 'o, 'sel, 'w) fake_library
    \<Rightarrow> fake_client \<Rightarrow> 'o \<Rightarrow> 'o \<Rightarrow> 'st \<Rightarrow> go_error
    option \<times> 'st" where
  "fake_virtualWorkspacesClient_DeleteCollection L c opts listOpts st =
    returned_error (fk_Invokes L (DeleteCollectionAction fake_virtualWorkspacesResource (fc_ClusterPath c)
        (fc_Namespace c) listOpts) (NewList TVirtualWorkspace) st)"

definition fake_virtualWorkspacesClient_Get :: "('st, 'obj, 'meta, 'o, 'sel, 'w) fake_library
    \<Rightarrow> fake_client \<Rightarrow> string \<Rightarrow> 'st
    \<Rightarrow> (('obj option \<times> go_error option) res \<times> 'st)" where
  "fake_virtualWorkspacesClient_Get L c name st =
    returned_object TVirtualWorkspace (fk_Invokes L (GetAction fake_virtualWorkspacesResource
        (fc_ClusterPath c) (fc_Namespace c) name) (NewObject TVirtualWorkspace) st)"

definition fake_virtualWorkspacesClient_List :: "('st, 'obj, 'meta, 'o, 'sel, 'w) fake_library
    \<Rightarrow> fake_client \<Rightarrow> 'o \<Rightarrow> 'st
    \<Rightarrow> ((('meta \<times> 'obj list) option \<times> go_error option) res \<times> 'st)" where
  "fake_virtualWorkspacesClient_List L c opts st =
    filtered_list L TVirtualWorkspace opts (fk_Invokes L (ListAction fake_virtualWorkspacesResource
        fake_virtualWorkspacesKind (fc_ClusterPath c) (fc_Namespace c) opts) (NewList TVirtualWorkspace) st)"

definition fake_virtualWorkspacesClient_Watch :: "('st, 'obj, 'meta, 'o, 'sel, 'w) fake_library
    \<Rightarrow> fake_client \<Rightarrow> 'o \<Rightarrow> 'st \<Rightarrow> ('w option \<times>
    go_error option) \<times> 'st" where
  "fake_virtualWorkspacesClient_Watch L c opts st = fk_InvokesWatch L (WatchAction
      fake_virtualWorkspacesResource (fc_ClusterPath c) (fc_Namespace c) opts) st"

definition fake_virtualWorkspacesClient_Patch :: "('st, 'obj, 'meta, 'o, 'sel, 'w) fake_library
    \<Rightarrow> fake_client \<Rightarrow> string \<Rightarrow> patch_type \<Rightarrow> string
    \<Rightarrow> string list \<Rightarrow> 'st
    \<Rightarrow> (('obj option \<times> go_error option) res \<times> 'st)" where
  "fake_virtualWorkspacesClient_Patch L c name pt data subresources st =
    returned_object TVirtualWorkspace (fk_Invokes L (PatchSubresourceAction fake_virtualWorkspacesResource
        (fc_ClusterPath c) (fc_Namespace c) name pt data subresources) (NewObject TVirtualWorkspace) st)"

definition fake_virtualWorkspacesClient_Apply :: "('st, 'obj, 'meta, 'o, 'sel, 'w) fake_library
    \<Rightarrow> fake_client \<Rightarrow> go_value \<Rightarrow> memory \<Rightarrow> 'st
    \<Rightarrow> (('obj option \<times> go_error option) res \<times> 'st)" where
  "fake_virtualWorkspacesClient_Apply L c applyConfiguration m st =
    (case apply_patch L applyConfiguration m of
      Inl answer \<Rightarrow> (answer, st)
    | Inr (name, data) \<Rightarrow> returned_object TVirtualWorkspace
        (fk_Invokes L (PatchSubresourceAction fake_virtualWorkspacesResource (fc_ClusterPath c)
            (fc_Namespace c) name ApplyPatch data []) (NewObject TVirtualWorkspace) st))"

definition fake_virtualWorkspacesClient_ApplyStatus :: "('st, 'obj, 'meta, 'o, 'sel, 'w) fake_library
    \<Rightarrow> fake_client \<Rightarrow> go_value \<Rightarrow> memory \<Rightarrow> 'st
    \<Rightarrow> (('obj option \<times> go_error option) res \<times> 'st)" where
  "fake_virtualWorkspacesClient_ApplyStatus L c applyConfiguration m st =
    (case apply_patch L applyConfiguration m of
      Inl answer \<Rightarrow> (answer, st)
    | Inr (name, data) \<Rightarrow> returned_object TVirtualWorkspace
        (fk_Invokes L (PatchSubresourceAction fake_virtualWorkspacesResource (fc_ClusterPath c)
            (fc_Namespace c) name ApplyPatch data [''status'']) (NewObject TVirtualWorkspace) st))"

subsection \<open>CompiledCacheServers\<close>

definition fake_compiledCacheServersResource :: "GroupVersionResource" where
  "fake_compiledCacheServersResource =
    \<lparr>gvr_Group = ''deploy.operator.kcp.io'', gvr_Version = ''v1alpha1'', gvr_Resource =
        ''compiledcacheservers''\<rparr>"

definition fake_compiledCacheServersKind :: "GroupVersionKind" where
  "fake_compiledCacheServersKind =
    \<lparr>gvk_Group = ''deploy.operator.kcp.io'', gvk_Version = ''v1alpha1'', gvk_Kind =
        ''CompiledCacheServer''\<rparr>"

definition fake_compiledCacheServersClusterClient_Cluster :: "('st, 'obj, 'meta, 'o, 'sel, 'w)
    fake_library \<Rightarrow> string \<Rightarrow> fake_namespacer res" where
  "fake_compiledCacheServersClusterClient_Cluster L clusterPath =
    (if clusterPath = fk_Wildcard L then Inl wildcard_panic else Inr \<lparr>fn_ClusterPath =
        clusterPath\<rparr>)"

definition fake_compiledCacheServersClusterClient_List :: "('st, 'obj, 'meta, 'o, 'sel, 'w) fake_library
    \<Rightarrow> 'o \<Rightarrow> 'st
    \<Rightarrow> ((('meta \<times> 'obj list) option \<times> go_error option) res \<times> 'st)" where
  "fake_compiledCacheServersClusterClient_List L opts st =
    filtered_list L TCompiledCacheServer opts
      (fk_Invokes L (ListAction fake_compiledCacheServersResource fake_compiledCacheServersKind
          (fk_Wildcard L) NamespaceAll opts) (NewList TCompiledCacheServer) st)"

definition fake_compiledCacheServersClusterClient_Watch :: "('st, 'obj, 'meta, 'o, 'sel, 'w) fake_library
    \<Rightarrow> 'o \<Rightarrow> 'st \<Rightarrow> ('w option \<times> go_error option) \<times> 'st" where
  "fake_compiledCacheServersClusterClient_Watch L opts st =
    fk_InvokesWatch L (WatchAction fake_compiledCacheServersResource (fk_Wildcard L) NamespaceAll opts) st"

definition fake_compiledCacheServersNamespacer_Namespace :: "fake_namespacer \<Rightarrow> string
    \<Rightarrow> fake_client" where
  "fake_compiledCacheServersNamespacer_Namespace n namespace =
    \<lparr>fc_ClusterPath = fn_ClusterPath n, fc_Namespace = namespace\<rparr>"

definition fake_compiledCacheServersClient_Create :: "('st, 'obj, 'meta, 'o, 'sel, 'w) fake_library
    \<Rightarrow> fake_client \<Rightarrow> 'obj \<Rightarrow> 'st
    \<Rightarrow> (('obj option \<times> go_error option) res \<times> 'st)" where
  "fake_compiledCacheServersClient_Create L c x st =
    returned_object TCompiledCacheServer (fk_Invokes L (CreateAction fake_compiledCacheServersResource
        (fc_ClusterPath c) (fc_Namespace c) x) (NewObject TCompiledCacheServer) st)"

definition fake_compiledCacheServersClient_Update :: "('st, 'obj, 'meta, 'o, 'sel, 'w) fake_library
    \<Rightarrow> fake_client \<Rightarrow> 'obj \<Rightarrow> 'st
    \<Rightarrow> (('obj option \<times> go_error option) res \<times> 'st)" where
  "fake_compiledCacheServersClient_Update L c x st =
    returned_object TCompiledCacheServer (fk_Invokes L (UpdateAction fake_compiledCacheServersResource
        (fc_ClusterPath c) (fc_Namespace c) x) (NewObject TCompiledCacheServer) st)"

definition fake_compiledCacheServersClient_UpdateStatus :: "('st, 'obj, 'meta, 'o, 'sel, 'w) fake_library
    \<Rightarrow> fake_client \<Rightarrow> 'obj \<Rightarrow> 'st
    \<Rightarrow> (('obj option \<times> go_error option) res \<times> 'st)" where
  "fake_compiledCacheServersClient_UpdateStatus L c x st =
    returned_object TCompiledCacheServer (fk_Invokes L (UpdateSubresourceAction
        fake_compiledCacheServersResource (fc_ClusterPath c) ''status'' (fc_Namespace c) x) (NewObject
        TCompiledCacheServer) st)"

definition fake_compiledCacheServersClient_Delete :: "('st, 'obj, 'meta, 'o, 'sel, 'w) fake_library
    \<Rightarrow> fake_client \<Rightarrow> string \<Rightarrow> 'o \<Rightarrow> 'st \<Rightarrow>
    go_error option \<times> 'st" where
  "fake_compiledCacheServersClient_Delete L c name opts st =
    returned_error (fk_Invokes L (DeleteAction fake_compiledCacheServersResource (fc_ClusterPath c)
        (fc_Namespace c) name opts) (NewObject TCompiledCacheServer) st)"

definition fake_compiledCacheServersClient_DeleteCollection :: "('st, 'obj, 'meta, 'o, 'sel, 'w)
    fake_library \<Rightarrow> fake_client \<Rightarrow> 'o \<Rightarrow> 'o \<Rightarrow> 'st
    \<Rightarrow> go_error option \<times> 'st" where
  "fake_compiledCacheServersClient_DeleteCollection L c opts listOpts st =
    returned_error (fk_Invokes L (DeleteCollectionAction fake_compiledCacheServersResource (fc_ClusterPath
        c) (fc_Namespace c) listOpts) (NewList TCompiledCacheServer) st)"

definition fake_compiledCacheServersClient_Get :: "('st, 'obj, 'meta, 'o, 'sel, 'w) fake_library
    \<Rightarrow> fake_client \<Rightarrow> string \<Rightarrow> 'st
    \<Rightarrow> (('obj option \<times> go_error option) res \<times> 'st)" where
  "fake_compiledCacheServersClient_Get L c name st =
    returned_object TCompiledCacheServer (fk_Invokes L (GetAction fake_compiledCacheServersResource
        (fc_ClusterPath c) (fc_Namespace c) name) (NewObject TCompiledCacheServer) st)"

definition fake_compiledCacheServersClient_List :: "('st, 'obj, 'meta, 'o, 'sel, 'w) fake_library
    \<Rightarrow> fake_client \<Rightarrow> 'o \<Rightarrow> 'st
    \<Rightarrow> ((('meta \<times> 'obj list) option \<times> go_error option) res \<times> 'st)" where
  "fake_compiledCacheServersClient_List L c opts st =
    filtered_list L TCompiledCacheServer opts (fk_Invokes L (ListAction fake_compiledCacheServersResource
        fake_compiledCacheServersKind (fc_ClusterPath c) (fc_Namespace c) opts) (NewList
        TCompiledCacheServer) st)"

definition fake_compiledCacheServersClient_Watch :: "('st, 'obj, 'meta, 'o, 'sel, 'w) fake_library
    \<Rightarrow> fake_client \<Rightarrow> 'o \<Rightarrow> 'st \<Rightarrow> ('w option \<times>
    go_error option) \<times> 'st" where
  "fake_compiledCacheServersClient_Watch L c opts st = fk_InvokesWatch L (WatchAction
      fake_compiledCacheServersResource (fc_ClusterPath c) (fc_Namespace c) opts) st"

definition fake_compiledCacheServersClient_Patch :: "('st, 'obj, 'meta, 'o, 'sel, 'w) fake_library
    \<Rightarrow> fake_client \<Rightarrow> string \<Rightarrow> patch_type \<Rightarrow> string
    \<Rightarrow> string list \<Rightarrow> 'st
    \<Rightarrow> (('obj option \<times> go_error option) res \<times> 'st)" where
  "fake_compiledCacheServersClient_Patch L c name pt data subresources st =
    returned_object TCompiledCacheServer (fk_Invokes L (PatchSubresourceAction
        fake_compiledCacheServersResource (fc_ClusterPath c) (fc_Namespace c) name pt data subresources)
        (NewObject TCompiledCacheServer) st)"

definition fake_compiledCacheServersClient_Apply :: "('st, 'obj, 'meta, 'o, 'sel, 'w) fake_library
    \<Rightarrow> fake_client \<Rightarrow> go_value \<Rightarrow> memory \<Rightarrow> 'st
    \<Rightarrow> (('obj option \<times> go_error option) res \<times> 'st)" where
  "fake_compiledCacheServersClient_Apply L c applyConfiguration m st =
    (case apply_patch L applyConfiguration m of
      Inl answer \<Rightarrow> (answer, st)
    | Inr (name, data) \<Rightarrow> returned_object TCompiledCacheServer
        (fk_Invokes L (PatchSubresourceAction fake_compiledCacheServersResource (fc_ClusterPath c)
            (fc_Namespace c) name ApplyPatch data []) (NewObject TCompiledCacheServer) st))"

definition fake_compiledCacheServersClient_ApplyStatus :: "('st, 'obj, 'meta, 'o, 'sel, 'w) fake_library
    \<Rightarrow> fake_client \<Rightarrow> go_value \<Rightarrow> memory \<Rightarrow> 'st
    \<Rightarrow> (('obj option \<times> go_error option) res \<times> 'st)" where
  "fake_compiledCacheServersClient_ApplyStatus L c applyConfiguration m st =
    (case apply_patch L applyConfiguration m of
      Inl answer \<Rightarrow> (answer, st)
    | Inr (name, data) \<Rightarrow> returned_object TCompiledCacheServer
        (fk_Invokes L (PatchSubresourceAction fake_compiledCacheServersResource (fc_ClusterPath c)
            (fc_Namespace c) name ApplyPatch data [''status'']) (NewObject TCompiledCacheServer) st))"

subsection \<open>CompiledFrontProxies\<close>

definition fake_compiledFrontProxiesResource :: "GroupVersionResource" where
  "fake_compiledFrontProxiesResource =
    \<lparr>gvr_Group = ''deploy.operator.kcp.io'', gvr_Version = ''v1alpha1'', gvr_Resource =
        ''compiledfrontproxies''\<rparr>"

definition fake_compiledFrontProxiesKind :: "GroupVersionKind" where
  "fake_compiledFrontProxiesKind =
    \<lparr>gvk_Group = ''deploy.operator.kcp.io'', gvk_Version = ''v1alpha1'', gvk_Kind =
        ''CompiledFrontProxy''\<rparr>"

definition fake_compiledFrontProxiesClusterClient_Cluster :: "('st, 'obj, 'meta, 'o, 'sel, 'w)
    fake_library \<Rightarrow> string \<Rightarrow> fake_namespacer res" where
  "fake_compiledFrontProxiesClusterClient_Cluster L clusterPath =
    (if clusterPath = fk_Wildcard L then Inl wildcard_panic else Inr \<lparr>fn_ClusterPath =
        clusterPath\<rparr>)"

definition fake_compiledFrontProxiesClusterClient_List :: "('st, 'obj, 'meta, 'o, 'sel, 'w) fake_library
    \<Rightarrow> 'o \<Rightarrow> 'st
    \<Rightarrow> ((('meta \<times> 'obj list) option \<times> go_error option) res \<times> 'st)" where
  "fake_compiledFrontProxiesClusterClient_List L opts st =
    filtered_list L TCompiledFrontProxy opts
      (fk_Invokes L (ListAction fake_compiledFrontProxiesResource fake_compiledFrontProxiesKind
          (fk_Wildcard L) NamespaceAll opts) (NewList TCompiledFrontProxy) st)"

definition fake_compiledFrontProxiesClusterClient_Watch :: "('st, 'obj, 'meta, 'o, 'sel, 'w) fake_library
    \<Rightarrow> 'o \<Rightarrow> 'st \<Rightarrow> ('w option \<times> go_error option) \<times> 'st" where
  "fake_compiledFrontProxiesClusterClient_Watch L opts st =
    fk_InvokesWatch L (WatchAction fake_compiledFrontProxiesResource (fk_Wildcard L) NamespaceAll opts) st"

definition fake_compiledFrontProxiesNamespacer_Namespace :: "fake_namespacer \<Rightarrow> string
    \<Rightarrow> fake_client" where
  "fake_compiledFrontProxiesNamespacer_Namespace n namespace =
    \<lparr>fc_ClusterPath = fn_ClusterPath n, fc_Namespace = namespace\<rparr>"

definition fake_compiledFrontProxiesClient_Create :: "('st, 'obj, 'meta, 'o, 'sel, 'w) fake_library
    \<Rightarrow> fake_client \<Rightarrow> 'obj \<Rightarrow> 'st
    \<Rightarrow> (('obj option \<times> go_error option) res \<times> 'st)" where
  "fake_compiledFrontProxiesClient_Create L c x st =
    returned_object TCompiledFrontProxy (fk_Invokes L (CreateAction fake_compiledFrontProxiesResource
        (fc_ClusterPath c) (fc_Namespace c) x) (NewObject TCompiledFrontProxy) st)"

definition fake_compiledFrontProxiesClient_Update :: "('st, 'obj, 'meta, 'o, 'sel, 'w) fake_library
    \<Rightarrow> fake_client \<Rightarrow> 'obj \<Rightarrow> 'st
    \<Rightarrow> (('obj option \<times> go_error option) res \<times> 'st)" where
  "fake_compiledFrontProxiesClient_Update L c x st =
    returned_object TCompiledFrontProxy (fk_Invokes L (UpdateAction fake_compiledFrontProxiesResource
        (fc_ClusterPath c) (fc_Namespace c) x) (NewObject TCompiledFrontProxy) st)"

definition fake_compiledFrontProxiesClient_UpdateStatus :: "('st, 'obj, 'meta, 'o, 'sel, 'w) fake_library
    \<Rightarrow> fake_client \<Rightarrow> 'obj \<Rightarrow> 'st
    \<Rightarrow> (('obj option \<times> go_error option) res \<times> 'st)" where
  "fake_compiledFrontProxiesClient_UpdateStatus L c x st =
    returned_object TCompiledFrontProxy (fk_Invokes L (UpdateSubresourceAction
        fake_compiledFrontProxiesResource (fc_ClusterPath c) ''status'' (fc_Namespace c) x) (NewObject
        TCompiledFrontProxy) st)"

definition fake_compiledFrontProxiesClient_Delete :: "('st, 'obj, 'meta, 'o, 'sel, 'w) fake_library
    \<Rightarrow> fake_client \<Rightarrow> string \<Rightarrow> 'o \<Rightarrow> 'st \<Rightarrow>
    go_error option \<times> 'st" where
  "fake_compiledFrontProxiesClient_Delete L c name opts st =
    returned_error (fk_Invokes L (DeleteAction fake_compiledFrontProxiesResource (fc_ClusterPath c)
        (fc_Namespace c) name opts) (NewObject TCompiledFrontProxy) st)"

definition fake_compiledFrontProxiesClient_DeleteCollection :: "('st, 'obj, 'meta, 'o, 'sel, 'w)
    fake_library \<Rightarrow> fake_client \<Rightarrow> 'o \<Rightarrow> 'o \<Rightarrow> 'st
    \<Rightarrow> go_error option \<times> 'st" where
  "fake_compiledFrontProxiesClient_DeleteCollection L c opts listOpts st =
    returned_error (fk_Invokes L (DeleteCollectionAction fake_compiledFrontProxiesResource (fc_ClusterPath
        c) (fc_Namespace c) listOpts) (NewList TCompiledFrontProxy) st)"

definition fake_compiledFrontProxiesClient_Get :: "('st, 'obj, 'meta, 'o, 'sel, 'w) fake_library
    \<Rightarrow> fake_client \<Rightarrow> string \<Rightarrow> 'st
    \<Rightarrow> (('obj option \<times> go_error option) res \<times> 'st)" where
  "fake_compiledFrontProxiesClient_Get L c name st =
    returned_object TCompiledFrontProxy (fk_Invokes L (GetAction fake_compiledFrontProxiesResource
        (fc_ClusterPath c) (fc_Namespace c) name) (NewObject TCompiledFrontProxy) st)"

definition fake_compiledFrontProxiesClient_List :: "('st, 'obj, 'meta, 'o, 'sel, 'w) fake_library
    \<Rightarrow> fake_client \<Rightarrow> 'o \<Rightarrow> 'st
    \<Rightarrow> ((('meta \<times> 'obj list) option \<times> go_error option) res \<times> 'st)" where
  "fake_compiledFrontProxiesClient_List L c opts st =
    filtered_list L TCompiledFrontProxy opts (fk_Invokes L (ListAction fake_compiledFrontProxiesResource
        fake_compiledFrontProxiesKind (fc_ClusterPath c) (fc_Namespace c) opts) (NewList
        TCompiledFrontProxy) st)"

definition fake_compiledFrontProxiesClient_Watch :: "('st, 'obj, 'meta, 'o, 'sel, 'w) fake_library
    \<Rightarrow> fake_client \<Rightarrow> 'o \<Rightarrow> 'st \<Rightarrow> ('w option \<times>
    go_error option) \<times> 'st" where
  "fake_compiledFrontProxiesClient_Watch L c opts st = fk_InvokesWatch L (WatchAction
      fake_compiledFrontProxiesResource (fc_ClusterPath c) (fc_Namespace c) opts) st"

definition fake_compiledFrontProxiesClient_Patch :: "('st, 'obj, 'meta, 'o, 'sel, 'w) fake_library
    \<Rightarrow> fake_client \<Rightarrow> string \<Rightarrow> patch_type \<Rightarrow> string
    \<Rightarrow> string list \<Rightarrow> 'st
    \<Rightarrow> (('obj option \<times> go_error option) res \<times> 'st)" where
  "fake_compiledFrontProxiesClient_Patch L c name pt data subresources st =
    returned_object TCompiledFrontProxy (fk_Invokes L (PatchSubresourceAction
        fake_compiledFrontProxiesResource (fc_ClusterPath c) (fc_Namespace c) name pt data subresources)
        (NewObject TCompiledFrontProxy) st)"

definition fake_compiledFrontProxiesClient_Apply :: "('st, 'obj, 'meta, 'o, 'sel, 'w) fake_library
    \<Rightarrow> fake_client \<Rightarrow> go_value \<Rightarrow> memory \<Rightarrow> 'st
    \<Rightarrow> (('obj option \<times> go_error option) res \<times> 'st)" where
  "fake_compiledFrontProxiesClient_Apply L c applyConfiguration m st =
    (case apply_patch L applyConfiguration m of
      Inl answer \<Rightarrow> (answer, st)
    | Inr (name, data) \<Rightarrow> returned_object TCompiledFrontProxy
        (fk_Invokes L (PatchSubresourceAction fake_compiledFrontProxiesResource (fc_ClusterPath c)
            (fc_Namespace c) name ApplyPatch data []) (NewObject TCompiledFrontProxy) st))"

definition fake_compiledFrontProxiesClient_ApplyStatus :: "('st, 'obj, 'meta, 'o, 'sel, 'w) fake_library
    \<Rightarrow> fake_client \<Rightarrow> go_value \<Rightarrow> memory \<Rightarrow> 'st
    \<Rightarrow> (('obj option \<times> go_error option) res \<times> 'st)" where
  "fake_compiledFrontProxiesClient_ApplyStatus L c applyConfiguration m st =
    (case apply_patch L applyConfiguration m of
      Inl answer \<Rightarrow> (answer, st)
    | Inr (name, data) \<Rightarrow> returned_object TCompiledFrontProxy
        (fk_Invokes L (PatchSubresourceAction fake_compiledFrontProxiesResource (fc_ClusterPath c)
            (fc_Namespace c) name ApplyPatch data [''status'']) (NewObject TCompiledFrontProxy) st))"

subsection \<open>CompiledRootShards\<close>

definition fake_compiledRootShardsResource :: "GroupVersionResource" where
  "fake_compiledRootShardsResource =
    \<lparr>gvr_Group = ''deploy.operator.kcp.io'', gvr_Version = ''v1alpha1'', gvr_Resource =
        ''compiledrootshards''\<rparr>"

definition fake_compiledRootShardsKind :: "GroupVersionKind" where
  "fake_compiledRootShardsKind =
    \<lparr>gvk_Group = ''deploy.operator.kcp.io'', gvk_Version = ''v1alpha1'', gvk_Kind =
        ''CompiledRootShard''\<rparr>"

definition fake_compiledRootShardsClusterClient_Cluster :: "('st, 'obj, 'meta, 'o, 'sel, 'w) fake_library
    \<Rightarrow> string \<Rightarrow> fake_namespacer res" where
  "fake_compiledRootShardsClusterClient_Cluster L clusterPath =
    (if clusterPath = fk_Wildcard L then Inl wildcard_panic else Inr \<lparr>fn_ClusterPath =
        clusterPath\<rparr>)"

definition fake_compiledRootShardsClusterClient_List :: "('st, 'obj, 'meta, 'o, 'sel, 'w) fake_library
    \<Rightarrow> 'o \<Rightarrow> 'st
    \<Rightarrow> ((('meta \<times> 'obj list) option \<times> go_error option) res \<times> 'st)" where
  "fake_compiledRootShardsClusterClient_List L opts st =
    filtered_list L TCompiledRootShard opts
      (fk_Invokes L (ListAction fake_compiledRootShardsResource fake_compiledRootShardsKind (fk_Wildcard
          L) NamespaceAll opts) (NewList TCompiledRootShard) st)"

definition fake_compiledRootShardsClusterClient_Watch :: "('st, 'obj, 'meta, 'o, 'sel, 'w) fake_library
    \<Rightarrow> 'o \<Rightarrow> 'st \<Rightarrow> ('w option \<times> go_error option) \<times> 'st" where
  "fake_compiledRootShardsClusterClient_Watch L opts st =
    fk_InvokesWatch L (WatchAction fake_compiledRootShardsResource (fk_Wildcard L) NamespaceAll opts) st"

definition fake_compiledRootShardsNamespacer_Namespace :: "fake_namespacer \<Rightarrow> string
    \<Rightarrow> fake_client" where
  "fake_compiledRootShardsNamespacer_Namespace n namespace =
    \<lparr>fc_ClusterPath = fn_ClusterPath n, fc_Namespace = namespace\<rparr>"

definition fake_compiledRootShardsClient_Create :: "('st, 'obj, 'meta, 'o, 'sel, 'w) fake_library
    \<Rightarrow> fake_client \<Rightarrow> 'obj \<Rightarrow> 'st
    \<Rightarrow> (('obj option \<times> go_error option) res \<times> 'st)" where
  "fake_compiledRootShardsClient_Create L c x st =
    returned_object TCompiledRootShard (fk_Invokes L (CreateAction fake_compiledRootShardsResource
        (fc_ClusterPath c) (fc_Namespace c) x) (NewObject TCompiledRootShard) st)"

definition fake_compiledRootShardsClient_Update :: "('st, 'obj, 'meta, 'o, 'sel, 'w) fake_library
    \<Rightarrow> fake_client \<Rightarrow> 'obj \<Rightarrow> 'st
    \<Rightarrow> (('obj option \<times> go_error option) res \<times> 'st)" where
  "fake_compiledRootShardsClient_Update L c x st =
    returned_object TCompiledRootShard (fk_Invokes L (UpdateAction fake_compiledRootShardsResource
        (fc_ClusterPath c) (fc_Namespace c) x) (NewObject TCompiledRootShard) st)"

definition fake_compiledRootShardsClient_UpdateStatus :: "('st, 'obj, 'meta, 'o, 'sel, 'w) fake_library
    \<Rightarrow> fake_client \<Rightarrow> 'obj \<Rightarrow> 'st
    \<Rightarrow> (('obj option \<times> go_error option) res \<times> 'st)" where
  "fake_compiledRootShardsClient_UpdateStatus L c x st =
    returned_object TCompiledRootShard (fk_Invokes L (UpdateSubresourceAction
        fake_compiledRootShardsResource (fc_ClusterPath c) ''status'' (fc_Namespace c) x) (NewObject
        TCompiledRootShard) st)"

definition fake_compiledRootShardsClient_Delete :: "('st, 'obj, 'meta, 'o, 'sel, 'w) fake_library
    \<Rightarrow> fake_client \<Rightarrow> string \<Rightarrow> 'o \<Rightarrow> 'st \<Rightarrow>
    go_error option \<times> 'st" where
  "fake_compiledRootShardsClient_Delete L c name opts st =
    returned_error (fk_Invokes L (DeleteAction fake_compiledRootShardsResource (fc_ClusterPath c)
        (fc_Namespace c) name opts) (NewObject TCompiledRootShard) st)"

definition fake_compiledRootShardsClient_DeleteCollection :: "('st, 'obj, 'meta, 'o, 'sel, 'w)
    fake_library \<Rightarrow> fake_client \<Rightarrow> 'o \<Rightarrow> 'o \<Rightarrow> 'st
    \<Rightarrow> go_error option \<times> 'st" where
  "fake_compiledRootShardsClient_DeleteCollection L c opts listOpts st =
    returned_error (fk_Invokes L (DeleteCollectionAction fake_compiledRootShardsResource (fc_ClusterPath
        c) (fc_Namespace c) listOpts) (NewList TCompiledRootShard) st)"

definition fake_compiledRootShardsClient_Get :: "('st, 'obj, 'meta, 'o, 'sel, 'w) fake_library
    \<Rightarrow> fake_client \<Rightarrow> string \<Rightarrow> 'st
    \<Rightarrow> (('obj option \<times> go_error option) res \<times> 'st)" where
  "fake_compiledRootShardsClient_Get L c name st =
    returned_object TCompiledRootShard (fk_Invokes L (GetAction fake_compiledRootShardsResource
        (fc_ClusterPath c) (fc_Namespace c) name) (NewObject TCompiledRootShard) st)"

definition fake_compiledRootShardsClient_List :: "('st, 'obj, 'meta, 'o, 'sel, 'w) fake_library
    \<Rightarrow> fake_client \<Rightarrow> 'o \<Rightarrow> 'st
    \<Rightarrow> ((('meta \<times> 'obj list) option \<times> go_error option) res \<times> 'st)" where
  "fake_compiledRootShardsClient_List L c opts st =
    filtered_list L TCompiledRootShard opts (fk_Invokes L (ListAction fake_compiledRootShardsResource
        fake_compiledRootShardsKind (fc_ClusterPath c) (fc_Namespace c) opts) (NewList TCompiledRootShard) st)"

definition fake_compiledRootShardsClient_Watch :: "('st, 'obj, 'meta, 'o, 'sel, 'w) fake_library
    \<Rightarrow> fake_client \<Rightarrow> 'o \<Rightarrow> 'st \<Rightarrow> ('w option \<times>
    go_error option) \<times> 'st" where
  "fake_compiledRootShardsClient_Watch L c opts st = fk_InvokesWatch L (WatchAction
      fake_compiledRootShardsResource (fc_ClusterPath c) (fc_Namespace c) opts) st"

definition fake_compiledRootShardsClient_Patch :: "('st, 'obj, 'meta, 'o, 'sel, 'w) fake_library
    \<Rightarrow> fake_client \<Rightarrow> string \<Rightarrow> patch_type \<Rightarrow> string
    \<Rightarrow> string list \<Rightarrow> 'st
    \<Rightarrow> (('obj option \<times> go_error option) res \<times> 'st)" where
  "fake_compiledRootShardsClient_Patch L c name pt data subresources st =
    returned_object TCompiledRootShard (fk_Invokes L (PatchSubresourceAction
        fake_compiledRootShardsResource (fc_ClusterPath c) (fc_Namespace c) name pt data subresources)
        (NewObject TCompiledRootShard) st)"

definition fake_compiledRootShardsClient_Apply :: "('st, 'obj, 'meta, 'o, 'sel, 'w) fake_library
    \<Rightarrow> fake_client \<Rightarrow> go_value \<Rightarrow> memory \<Rightarrow> 'st
    \<Rightarrow> (('obj option \<times> go_error option) res \<times> 'st)" where
  "fake_compiledRootShardsClient_Apply L c applyConfiguration m st =
    (case apply_patch L applyConfiguration m of
      Inl answer \<Rightarrow> (answer, st)
    | Inr (name, data) \<Rightarrow> returned_object TCompiledRootShard
        (fk_Invokes L (PatchSubresourceAction fake_compiledRootShardsResource (fc_ClusterPath c)
            (fc_Namespace c) name ApplyPatch data []) (NewObject TCompiledRootShard) st))"

definition fake_compiledRootShardsClient_ApplyStatus :: "('st, 'obj, 'meta, 'o, 'sel, 'w) fake_library
    \<Rightarrow> fake_client \<Rightarrow> go_value \<Rightarrow> memory \<Rightarrow> 'st
    \<Rightarrow> (('obj option \<times> go_error option) res \<times> 'st)" where
  "fake_compiledRootShardsClient_ApplyStatus L c applyConfiguration m st =
    (case apply_patch L applyConfiguration m of
      Inl answer \<Rightarrow> (answer, st)
    | Inr (name, data) \<Rightarrow> returned_object TCompiledRootShard
        (fk_Invokes L (PatchSubresourceAction fake_compiledRootShardsResource (fc_ClusterPath c)
            (fc_Namespace c) name ApplyPatch data [''status'']) (NewObject TCompiledRootShard) st))"

subsection \<open>CompiledShards\<close>

definition fake_compiledShardsResource :: "GroupVersionResource" where
  "fake_compiledShardsResource =
    \<lparr>gvr_Group = ''deploy.operator.kcp.io'', gvr_Version = ''v1alpha1'', gvr_Resource =
        ''compiledshards''\<rparr>"

definition fake_compiledShardsKind :: "GroupVersionKind" where
  "fake_compiledShardsKind =
    \<lparr>gvk_Group = ''deploy.operator.kcp.io'', gvk_Version = ''v1alpha1'', gvk_Kind =
        ''CompiledShard''\<rparr>"

definition fake_compiledShardsClusterClient_Cluster :: "('st, 'obj, 'meta, 'o, 'sel, 'w) fake_library
    \<Rightarrow> string \<Rightarrow> fake_namespacer res" where
  "fake_compiledShardsClusterClient_Cluster L clusterPath =
    (if clusterPath = fk_Wildcard L then Inl wildcard_panic else Inr \<lparr>fn_ClusterPath =
        clusterPath\<rparr>)"

definition fake_compiledShardsClusterClient_List :: "('st, 'obj, 'meta, 'o, 'sel, 'w) fake_library
    \<Rightarrow> 'o \<Rightarrow> 'st
    \<Rightarrow> ((('meta \<times> 'obj list) option \<times> go_error option) res \<times> 'st)" where
  "fake_compiledShardsClusterClient_List L opts st =
    filtered_list L TCompiledShard opts
      (fk_Invokes L (ListAction fake_compiledShardsResource fake_compiledShardsKind (fk_Wildcard L)
          NamespaceAll opts) (NewList TCompiledShard) st)"

definition fake_compiledShardsClusterClient_Watch :: "('st, 'obj, 'meta, 'o, 'sel, 'w) fake_library
    \<Rightarrow> 'o \<Rightarrow> 'st \<Rightarrow> ('w option \<times> go_error option) \<times> 'st" where
  "fake_compiledShardsClusterClient_Watch L opts st =
    fk_InvokesWatch L (WatchAction fake_compiledShardsResource (fk_Wildcard L) NamespaceAll opts) st"

definition fake_compiledShardsNamespacer_Namespace :: "fake_namespacer \<Rightarrow> string \<Rightarrow>
    fake_client" where
  "fake_compiledShardsNamespacer_Namespace n namespace =
    \<lparr>fc_ClusterPath = fn_ClusterPath n, fc_Namespace = namespace\<rparr>"

definition fake_compiledShardsClient_Create :: "('st, 'obj, 'meta, 'o, 'sel, 'w) fake_library
    \<Rightarrow> fake_client \<Rightarrow> 'obj \<Rightarrow> 'st
    \<Rightarrow> (('obj option \<times> go_error option) res \<times> 'st)" where
  "fake_compiledShardsClient_Create L c x st =
    returned_object TCompiledShard (fk_Invokes L (CreateAction fake_compiledShardsResource (fc_ClusterPath
        c) (fc_Namespace c) x) (NewObject TCompiledShard) st)"

definition fake_compiledShardsClient_Update :: "('st, 'obj, 'meta, 'o, 'sel, 'w) fake_library
    \<Rightarrow> fake_client \<Rightarrow> 'obj \<Rightarrow> 'st
    \<Rightarrow> (('obj option \<times> go_error option) res \<times> 'st)" where
  "fake_compiledShardsClient_Update L c x st =
    returned_object TCompiledShard (fk_Invokes L (UpdateAction fake_compiledShardsResource (fc_ClusterPath
        c) (fc_Namespace c) x) (NewObject TCompiledShard) st)"

definition fake_compiledShardsClient_UpdateStatus :: "('st, 'obj, 'meta, 'o, 'sel, 'w) fake_library
    \<Rightarrow> fake_client \<Rightarrow> 'obj \<Rightarrow> 'st
    \<Rightarrow> (('obj option \<times> go_error option) res \<times> 'st)" where
  "fake_compiledShardsClient_UpdateStatus L c x st =
    returned_object TCompiledShard (fk_Invokes L (UpdateSubresourceAction fake_compiledShardsResource
        (fc_ClusterPath c) ''status'' (fc_Namespace c) x) (NewObject TCompiledShard) st)"

definition fake_compiledShardsClient_Delete :: "('st, 'obj, 'meta, 'o, 'sel, 'w) fake_library
    \<Rightarrow> fake_client \<Rightarrow> string \<Rightarrow> 'o \<Rightarrow> 'st \<Rightarrow>
    go_error option \<times> 'st" where
  "fake_compiledShardsClient_Delete L c name opts st =
    returned_error (fk_Invokes L (DeleteAction fake_compiledShardsResource (fc_ClusterPath c)
        (fc_Namespace c) name opts) (NewObject TCompiledShard) st)"

definition fake_compiledShardsClient_DeleteCollection :: "('st, 'obj, 'meta, 'o, 'sel, 'w) fake_library
    \<Rightarrow> fake_client \<Rightarrow> 'o \<Rightarrow> 'o \<Rightarrow> 'st \<Rightarrow> go_error
    option \<times> 'st" where
  "fake_compiledShardsClient_DeleteCollection L c opts listOpts st =
    returned_error (fk_Invokes L (DeleteCollectionAction fake_compiledShardsResource (fc_ClusterPath c)
        (fc_Namespace c) listOpts) (NewList TCompiledShard) st)"

definition fake_compiledShardsClient_Get :: "('st, 'obj, 'meta, 'o, 'sel, 'w) fake_library \<Rightarrow>
    fake_client \<Rightarrow> string \<Rightarrow> 'st
    \<Rightarrow> (('obj option \<times> go_error option) res \<times> 'st)" where
  "fake_compiledShardsClient_Get L c name st =
    returned_object TCompiledShard (fk_Invokes L (GetAction fake_compiledShardsResource (fc_ClusterPath c)
        (fc_Namespace c) name) (NewObject TCompiledShard) st)"

definition fake_compiledShardsClient_List :: "('st, 'obj, 'meta, 'o, 'sel, 'w) fake_library \<Rightarrow>
    fake_client \<Rightarrow> 'o \<Rightarrow> 'st
    \<Rightarrow> ((('meta \<times> 'obj list) option \<times> go_error option) res \<times> 'st)" where
  "fake_compiledShardsClient_List L c opts st =
    filtered_list L TCompiledShard opts (fk_Invokes L (ListAction fake_compiledShardsResource
        fake_compiledShardsKind (fc_ClusterPath c) (fc_Namespace c) opts) (NewList TCompiledShard) st)"

definition fake_compiledShardsClient_Watch :: "('st, 'obj, 'meta, 'o, 'sel, 'w) fake_library \<Rightarrow>
    fake_client \<Rightarrow> 'o \<Rightarrow> 'st \<Rightarrow> ('w option \<times> go_error option)
    \<times> 'st" where
  "fake_compiledShardsClient_Watch L c opts st = fk_InvokesWatch L (WatchAction
      fake_compiledShardsResource (fc_ClusterPath c) (fc_Namespace c) opts) st"

definition fake_compiledShardsClient_Patch :: "('st, 'obj, 'meta, 'o, 'sel, 'w) fake_library \<Rightarrow>
    fake_client \<Rightarrow> string \<Rightarrow> patch_type \<Rightarrow> string \<Rightarrow> string
    list \<Rightarrow> 'st
    \<Rightarrow> (('obj option \<times> go_error option) res \<times> 'st)" where
  "fake_compiledShardsClient_Patch L c name pt data subresources st =
    returned_object TCompiledShard (fk_Invokes L (PatchSubresourceAction fake_compiledShardsResource
        (fc_ClusterPath c) (fc_Namespace c) name pt data subresources) (NewObject TCompiledShard) st)"

definition fake_compiledShardsClient_Apply :: "('st, 'obj, 'meta, 'o, 'sel, 'w) fake_library \<Rightarrow>
    fake_client \<Rightarrow> go_value \<Rightarrow> memory \<Rightarrow> 'st
    \<Rightarrow> (('obj option \<times> go_error option) res \<times> 'st)" where
  "fake_compiledShardsClient_Apply L c applyConfiguration m st =
    (case apply_patch L applyConfiguration m of
      Inl answer \<Rightarrow> (answer, st)
    | Inr (name, data) \<Rightarrow> returned_object TCompiledShard
        (fk_Invokes L (PatchSubresourceAction fake_compiledShardsResource (fc_ClusterPath c) (fc_Namespace
            c) name ApplyPatch data []) (NewObject TCompiledShard) st))"

definition fake_compiledShardsClient_ApplyStatus :: "('st, 'obj, 'meta, 'o, 'sel, 'w) fake_library
    \<Rightarrow> fake_client \<Rightarrow> go_value \<Rightarrow> memory \<Rightarrow> 'st
    \<Rightarrow> (('obj option \<times> go_error option) res \<times> 'st)" where
  "fake_compiledShardsClient_ApplyStatus L c applyConfiguration m st =
    (case apply_patch L applyConfiguration m of
      Inl answer \<Rightarrow> (answer, st)
    | Inr (name, data) \<Rightarrow> returned_object TCompiledShard
        (fk_Invokes L (PatchSubresourceAction fake_compiledShardsResource (fc_ClusterPath c) (fc_Namespace
            c) name ApplyPatch data [''status'']) (NewObject TCompiledShard) st))"

subsection \<open>CompiledVirtualWorkspaces\<close>

definition fake_compiledVirtualWorkspacesResource :: "GroupVersionResource" where
  "fake_compiledVirtualWorkspacesResource =
    \<lparr>gvr_Group = ''deploy.operator.kcp.io'', gvr_Version = ''v1alpha1'', gvr_Resource =
        ''compiledvirtualworkspaces''\<rparr>"

definition fake_compiledVirtualWorkspacesKind :: "GroupVersionKind" where
  "fake_compiledVirtualWorkspacesKind =
    \<lparr>gvk_Group = ''deploy.operator.kcp.io'', gvk_Version = ''v1alpha1'', gvk_Kind =
        ''CompiledVirtualWorkspace''\<rparr>"

definition fake_compiledVirtualWorkspacesClusterClient_Cluster :: "('st, 'obj, 'meta, 'o, 'sel, 'w)
    fake_library \<Rightarrow> string \<Rightarrow> fake_namespacer res" where
  "fake_compiledVirtualWorkspacesClusterClient_Cluster L clusterPath =
    (if clusterPath = fk_Wildcard L then Inl wildcard_panic else Inr \<lparr>fn_ClusterPath =
        clusterPath\<rparr>)"

definition fake_compiledVirtualWorkspacesClusterClient_List :: "('st, 'obj, 'meta, 'o, 'sel, 'w)
    fake_library \<Rightarrow> 'o \<Rightarrow> 'st
    \<Rightarrow> ((('meta \<times> 'obj list) option \<times> go_error option) res \<times> 'st)" where
  "fake_compiledVirtualWorkspacesClusterClient_List L opts st =
    filtered_list L TCompiledVirtualWorkspace opts
      (fk_Invokes L (ListAction fake_compiledVirtualWorkspacesResource fake_compiledVirtualWorkspacesKind
          (fk_Wildcard L) NamespaceAll opts) (NewList TCompiledVirtualWorkspace) st)"

definition fake_compiledVirtualWorkspacesClusterClient_Watch :: "('st, 'obj, 'meta, 'o, 'sel, 'w)
    fake_library \<Rightarrow> 'o \<Rightarrow> 'st \<Rightarrow> ('w option \<times> go_error option)
    \<times> 'st" where
  "fake_compiledVirtualWorkspacesClusterClient_Watch L opts st =
    fk_InvokesWatch L (WatchAction fake_compiledVirtualWorkspacesResource (fk_Wildcard L) NamespaceAll opts) st"

definition fake_compiledVirtualWorkspacesNamespacer_Namespace :: "fake_namespacer \<Rightarrow> string
    \<Rightarrow> fake_client" where
  "fake_compiledVirtualWorkspacesNamespacer_Namespace n namespace =
    \<lparr>fc_ClusterPath = fn_ClusterPath n, fc_Namespace = namespace\<rparr>"

definition fake_compiledVirtualWorkspacesClient_Create :: "('st, 'obj, 'meta, 'o, 'sel, 'w) fake_library
    \<Rightarrow> fake_client \<Rightarrow> 'obj \<Rightarrow> 'st
    \<Rightarrow> (('obj option \<times> go_error option) res \<times> 'st)" where
  "fake_compiledVirtualWorkspacesClient_Create L c x st =
    returned_object TCompiledVirtualWorkspace (fk_Invokes L (CreateAction
        fake_compiledVirtualWorkspacesResource (fc_ClusterPath c) (fc_Namespace c) x) (NewObject
        TCompiledVirtualWorkspace) st)"

definition fake_compiledVirtualWorkspacesClient_Update :: "('st, 'obj, 'meta, 'o, 'sel, 'w) fake_library
    \<Rightarrow> fake_client \<Rightarrow> 'obj \<Rightarrow> 'st
    \<Rightarrow> (('obj option \<times> go_error option) res \<times> 'st)" where
  "fake_compiledVirtualWorkspacesClient_Update L c x st =
    returned_object TCompiledVirtualWorkspace (fk_Invokes L (UpdateAction
        fake_compiledVirtualWorkspacesResource (fc_ClusterPath c) (fc_Namespace c) x) (NewObject
        TCompiledVirtualWorkspace) st)"

definition fake_compiledVirtualWorkspacesClient_UpdateStatus :: "('st, 'obj, 'meta, 'o, 'sel, 'w)
    fake_library \<Rightarrow> fake_client \<Rightarrow> 'obj \<Rightarrow> 'st
    \<Rightarrow> (('obj option \<times> go_error option) res \<times> 'st)" where
  "fake_compiledVirtualWorkspacesClient_UpdateStatus L c x st =
    returned_object TCompiledVirtualWorkspace (fk_Invokes L (UpdateSubresourceAction
        fake_compiledVirtualWorkspacesResource (fc_ClusterPath c) ''status'' (fc_Namespace c) x)
        (NewObject TCompiledVirtualWorkspace) st)"

definition fake_compiledVirtualWorkspacesClient_Delete :: "('st, 'obj, 'meta, 'o, 'sel, 'w) fake_library
    \<Rightarrow> fake_client \<Rightarrow> string \<Rightarrow> 'o \<Rightarrow> 'st \<Rightarrow>
    go_error option \<times> 'st" where
  "fake_compiledVirtualWorkspacesClient_Delete L c name opts st =
    returned_error (fk_Invokes L (DeleteAction fake_compiledVirtualWorkspacesResource (fc_ClusterPath c)
        (fc_Namespace c) name opts) (NewObject TCompiledVirtualWorkspace) st)"

definition fake_compiledVirtualWorkspacesClient_DeleteCollection :: "('st, 'obj, 'meta, 'o, 'sel, 'w)
    fake_library \<Rightarrow> fake_client \<Rightarrow> 'o \<Rightarrow> 'o \<Rightarrow> 'st
    \<Rightarrow> go_error option \<times> 'st" where
  "fake_compiledVirtualWorkspacesClient_DeleteCollection L c opts listOpts st =
    returned_error (fk_Invokes L (DeleteCollectionAction fake_compiledVirtualWorkspacesResource
        (fc_ClusterPath c) (fc_Namespace c) listOpts) (NewList TCompiledVirtualWorkspace) st)"

definition fake_compiledVirtualWorkspacesClient_Get :: "('st, 'obj, 'meta, 'o, 'sel, 'w) fake_library
    \<Rightarrow> fake_client \<Rightarrow> string \<Rightarrow> 'st
    \<Rightarrow> (('obj option \<times> go_error option) res \<times> 'st)" where
  "fake_compiledVirtualWorkspacesClient_Get L c name st =
    returned_object TCompiledVirtualWorkspace (fk_Invokes L (GetAction
        fake_compiledVirtualWorkspacesResource (fc_ClusterPath c) (fc_Namespace c) name) (NewObject
        TCompiledVirtualWorkspace) st)"

definition fake_compiledVirtualWorkspacesClient_List :: "('st, 'obj, 'meta, 'o, 'sel, 'w) fake_library
    \<Rightarrow> fake_client \<Rightarrow> 'o \<Rightarrow> 'st
    \<Rightarrow> ((('meta \<times> 'obj list) option \<times> go_error option) res \<times> 'st)" where
  "fake_compiledVirtualWorkspacesClient_List L c opts st =
    filtered_list L TCompiledVirtualWorkspace opts (fk_Invokes L (ListAction
        fake_compiledVirtualWorkspacesResource fake_compiledVirtualWorkspacesKind (fc_ClusterPath c)
        (fc_Namespace c) opts) (NewList TCompiledVirtualWorkspace) st)"

definition fake_compiledVirtualWorkspacesClient_Watch :: "('st, 'obj, 'meta, 'o, 'sel, 'w) fake_library
    \<Rightarrow> fake_client \<Rightarrow> 'o \<Rightarrow> 'st \<Rightarrow> ('w option \<times>
    go_error option) \<times> 'st" where
  "fake_compiledVirtualWorkspacesClient_Watch L c opts st = fk_InvokesWatch L (WatchAction
      fake_compiledVirtualWorkspacesResource (fc_ClusterPath c) (fc_Namespace c) opts) st"

definition fake_compiledVirtualWorkspacesClient_Patch :: "('st, 'obj, 'meta, 'o, 'sel, 'w) fake_library
    \<Rightarrow> fake_client \<Rightarrow> string \<Rightarrow> patch_type \<Rightarrow> string
    \<Rightarrow> string list \<Rightarrow> 'st
    \<Rightarrow> (('obj option \<times> go_error option) res \<times> 'st)" where
  "fake_compiledVirtualWorkspacesClient_Patch L c name pt data subresources st =
    returned_object TCompiledVirtualWorkspace (fk_Invokes L (PatchSubresourceAction
        fake_compiledVirtualWorkspacesResource (fc_ClusterPath c) (fc_Namespace c) name pt data
        subresources) (NewObject TCompiledVirtualWorkspace) st)"

definition fake_compiledVirtualWorkspacesClient_Apply :: "('st, 'obj, 'meta, 'o, 'sel, 'w) fake_library
    \<Rightarrow> fake_client \<Rightarrow> go_value \<Rightarrow> memory \<Rightarrow> 'st
    \<Rightarrow> (('obj option \<times> go_error option) res \<times> 'st)" where
  "fake_compiledVirtualWorkspacesClient_Apply L c applyConfiguration m st =
    (case apply_patch L applyConfiguration m of
      Inl answer \<Rightarrow> (answer, st)
    | Inr (name, data) \<Rightarrow> returned_object TCompiledVirtualWorkspace
        (fk_Invokes L (PatchSubresourceAction fake_compiledVirtualWorkspacesResource (fc_ClusterPath c)
            (fc_Namespace c) name ApplyPatch data []) (NewObject TCompiledVirtualWorkspace) st))"

definition fake_compiledVirtualWorkspacesClient_ApplyStatus :: "('st, 'obj, 'meta, 'o, 'sel, 'w)
    fake_library \<Rightarrow> fake_client \<Rightarrow> go_value \<Rightarrow> memory \<Rightarrow> 'st
    \<Rightarrow> (('obj option \<times> go_error option) res \<times> 'st)" where
  "fake_compiledVirtualWorkspacesClient_ApplyStatus L c applyConfiguration m st =
    (case apply_patch L applyConfiguration m of
      Inl answer \<Rightarrow> (answer, st)
    | Inr (name, data) \<Rightarrow> returned_object TCompiledVirtualWorkspace
        (fk_Invokes L (PatchSubresourceAction fake_compiledVirtualWorkspacesResource (fc_ClusterPath c)
            (fc_Namespace c) name ApplyPatch data [''status'']) (NewObject TCompiledVirtualWorkspace) st))"

subsection \<open>The clients of the group \<open>operator\<close>\<close>

definition fake_OperatorV1alpha1ClusterClient_Cluster :: "('st, 'obj, 'meta, 'o, 'sel, 'w) fake_library
    \<Rightarrow> string \<Rightarrow> string res" where
  "fake_OperatorV1alpha1ClusterClient_Cluster L clusterPath =
    (if clusterPath = fk_Wildcard L then Inl wildcard_panic else Inr clusterPath)"

definition fake_OperatorV1alpha1Client_CacheServers :: "string \<Rightarrow> string \<Rightarrow>
    fake_client" where
  "fake_OperatorV1alpha1Client_CacheServers clusterPath namespace =
    \<lparr>fc_ClusterPath = clusterPath, fc_Namespace = namespace\<rparr>"

definition fake_OperatorV1alpha1Client_FrontProxies :: "string \<Rightarrow> string \<Rightarrow>
    fake_client" where
  "fake_OperatorV1alpha1Client_FrontProxies clusterPath namespace =
    \<lparr>fc_ClusterPath = clusterPath, fc_Namespace = namespace\<rparr>"

definition fake_OperatorV1alpha1Client_Kubeconfigs :: "string \<Rightarrow> string \<Rightarrow>
    fake_client" where
  "fake_OperatorV1alpha1Client_Kubeconfigs clusterPath namespace =
    \<lparr>fc_ClusterPath = clusterPath, fc_Namespace = namespace\<rparr>"

definition fake_OperatorV1alpha1Client_RootShards :: "string \<Rightarrow> string \<Rightarrow>
    fake_client" where
  "fake_OperatorV1alpha1Client_RootShards clusterPath namespace =
    \<lparr>fc_ClusterPath = clusterPath, fc_Namespace = namespace\<rparr>"

definition fake_OperatorV1alpha1Client_Shards :: "string \<Rightarrow> string \<Rightarrow> fake_client" where
  "fake_OperatorV1alpha1Client_Shards clusterPath namespace =
    \<lparr>fc_ClusterPath = clusterPath, fc_Namespace = namespace\<rparr>"

definition fake_OperatorV1alpha1Client_VirtualWorkspaces :: "string \<Rightarrow> string \<Rightarrow>
    fake_client" where
  "fake_OperatorV1alpha1Client_VirtualWorkspaces clusterPath namespace =
    \<lparr>fc_ClusterPath = clusterPath, fc_Namespace = namespace\<rparr>"

subsection \<open>The clients of the group \<open>deploy\<close>\<close>

definition fake_DeployV1alpha1ClusterClient_Cluster :: "('st, 'obj, 'meta, 'o, 'sel, 'w) fake_library
    \<Rightarrow> string \<Rightarrow> string res" where
  "fake_DeployV1alpha1ClusterClient_Cluster L clusterPath =
    (if clusterPath = fk_Wildcard L then Inl wildcard_panic else Inr clusterPath)"

definition fake_DeployV1alpha1Client_CompiledCacheServers :: "string \<Rightarrow> string \<Rightarrow>
    fake_client" where
  "fake_DeployV1alpha1Client_CompiledCacheServers clusterPath namespace =
    \<lparr>fc_ClusterPath = clusterPath, fc_Namespace = namespace\<rparr>"

definition fake_DeployV1alpha1Client_CompiledFrontProxies :: "string \<Rightarrow> string \<Rightarrow>
    fake_client" where
  "fake_DeployV1alpha1Client_CompiledFrontProxies clusterPath namespace =
    \<lparr>fc_ClusterPath = clusterPath, fc_Namespace = namespace\<rparr>"

definition fake_DeployV1alpha1Client_CompiledRootShards :: "string \<Rightarrow> string \<Rightarrow>
    fake_client" where
  "fake_DeployV1alpha1Client_CompiledRootShards clusterPath namespace =
    \<lparr>fc_ClusterPath = clusterPath, fc_Namespace = namespace\<rparr>"

definition fake_DeployV1alpha1Client_CompiledShards :: "string \<Rightarrow> string \<Rightarrow>
    fake_client" where
  "fake_DeployV1alpha1Client_CompiledShards clusterPath namespace =
    \<lparr>fc_ClusterPath = clusterPath, fc_Namespace = namespace\<rparr>"

definition fake_DeployV1alpha1Client_CompiledVirtualWorkspaces :: "string \<Rightarrow> string
    \<Rightarrow> fake_client" where
  "fake_DeployV1alpha1Client_CompiledVirtualWorkspaces clusterPath namespace =
    \<lparr>fc_ClusterPath = clusterPath, fc_Namespace = namespace\<rparr>"

subsection \<open>The fake clientset\<close>

definition fake_ClusterClientset_Cluster :: "('st, 'obj, 'meta, 'o, 'sel, 'w) fake_library \<Rightarrow>
    string \<Rightarrow> string res" where
  "fake_ClusterClientset_Cluster L clusterPath =
    (if clusterPath = fk_Wildcard L then Inl wildcard_panic else Inr clusterPath)"

section \<open>Fakes and clients\<close>

text \<open>What a fake client for one kind consists of, and the ways to it: through the cluster client of the
  kind (\<open>fr_Cluster\<close> and \<open>fr_Namespace\<close>), through the cluster client of the
      group and through the
  cluster clientset. The steps are what its methods do to the \<open>Fake\<close>.\<close>

record ('st, 'obj, 'meta, 'o) fake_row =
  fr_Resource :: GroupVersionResource
  fr_Kind :: GroupVersionKind
  fr_type :: sdk_type
  fr_Cluster :: "string \<Rightarrow> fake_namespacer res"
  fr_Namespace :: "fake_namespacer \<Rightarrow> string \<Rightarrow> fake_client"
  fr_group :: "string \<Rightarrow> string \<Rightarrow> fake_client"
  fr_by_group :: "string \<Rightarrow> string \<Rightarrow> fake_client res"
  fr_by_clientset :: "string \<Rightarrow> string \<Rightarrow> fake_client res"
  fr_List :: "fake_client \<Rightarrow> 'o \<Rightarrow> 'st \<Rightarrow> (('meta \<times> 'obj list)
      option \<times> go_error option) res \<times> 'st"
  fr_steps :: "fake_client \<Rightarrow> 'obj \<Rightarrow> string \<Rightarrow> 'o \<Rightarrow> 'o
      \<Rightarrow> patch_type \<Rightarrow> string \<Rightarrow> string list \<Rightarrow> go_value
    \<Rightarrow> memory \<Rightarrow> ('st \<Rightarrow> 'st) list"

definition fake_rows :: "('st, 'obj, 'meta, 'o, 'sel, 'w) fake_library \<Rightarrow> ('st, 'obj, 'meta,
    'o) fake_row list" where
  "fake_rows L =
    [
     \<lparr>fr_Resource = fake_cacheServersResource, fr_Kind = fake_cacheServersKind, fr_type = TCacheServer,
      fr_Cluster = fake_cacheServersClusterClient_Cluster L, fr_Namespace =
          fake_cacheServersNamespacer_Namespace,
      fr_group = fake_OperatorV1alpha1Client_CacheServers,
      fr_by_group = (\<lambda>p ns. bindE (fake_OperatorV1alpha1ClusterClient_Cluster L p)
        (\<lambda>c. Inr (fake_OperatorV1alpha1Client_CacheServers c ns))),
      fr_by_clientset = (\<lambda>p ns. bindE (fake_ClusterClientset_Cluster L p)
        (\<lambda>c. Inr (fake_OperatorV1alpha1Client_CacheServers c ns))), fr_List =
            fake_cacheServersClient_List L,
      fr_steps = (\<lambda>c x name o1 o2 pt data subs b m.
        [\<lambda>st. snd (fake_cacheServersClient_Create L c x st), \<lambda>st. snd
            (fake_cacheServersClient_Update L c x st),
         \<lambda>st. snd (fake_cacheServersClient_UpdateStatus L c x st), \<lambda>st. snd
             (fake_cacheServersClient_Delete L c name o1 st),
         \<lambda>st. snd (fake_cacheServersClient_DeleteCollection L c o1 o2 st), \<lambda>st. snd
             (fake_cacheServersClient_Get L c name st),
         \<lambda>st. snd (fake_cacheServersClient_List L c o1 st), \<lambda>st. snd
             (fake_cacheServersClient_Watch L c o1 st),
         \<lambda>st. snd (fake_cacheServersClient_Patch L c name pt data subs st), \<lambda>st. snd
             (fake_cacheServersClient_Apply L c b m st),
         \<lambda>st. snd (fake_cacheServersClient_ApplyStatus L c b m st)])\<rparr>,
     \<lparr>fr_Resource = fake_frontProxiesResource, fr_Kind = fake_frontProxiesKind, fr_type = TFrontProxy,
      fr_Cluster = fake_frontProxiesClusterClient_Cluster L, fr_Namespace =
          fake_frontProxiesNamespacer_Namespace,
      fr_group = fake_OperatorV1alpha1Client_FrontProxies,
      fr_by_group = (\<lambda>p ns. bindE (fake_OperatorV1alpha1ClusterClient_Cluster L p)
        (\<lambda>c. Inr (fake_OperatorV1alpha1Client_FrontProxies c ns))),
      fr_by_clientset = (\<lambda>p ns. bindE (fake_ClusterClientset_Cluster L p)
        (\<lambda>c. Inr (fake_OperatorV1alpha1Client_FrontProxies c ns))), fr_List =
            fake_frontProxiesClient_List L,
      fr_steps = (\<lambda>c x name o1 o2 pt data subs b m.
        [\<lambda>st. snd (fake_frontProxiesClient_Create L c x st), \<lambda>st. snd
            (fake_frontProxiesClient_Update L c x st),
         \<lambda>st. snd (fake_frontProxiesClient_UpdateStatus L c x st), \<lambda>st. snd
             (fake_frontProxiesClient_Delete L c name o1 st),
         \<lambda>st. snd (fake_frontProxiesClient_DeleteCollection L c o1 o2 st), \<lambda>st. snd
             (fake_frontProxiesClient_Get L c name st),
         \<lambda>st. snd (fake_frontProxiesClient_List L c o1 st), \<lambda>st. snd
             (fake_frontProxiesClient_Watch L c o1 st),
         \<lambda>st. snd (fake_frontProxiesClient_Patch L c name pt data subs st), \<lambda>st. snd
             (fake_frontProxiesClient_Apply L c b m st),
         \<lambda>st. snd (fake_frontProxiesClient_ApplyStatus L c b m st)])\<rparr>,
     \<lparr>fr_Resource = fake_kubeconfigsResource, fr_Kind = fake_kubeconfigsKind, fr_type = TKubeconfig,
      fr_Cluster = fake_kubeconfigsClusterClient_Cluster L, fr_Namespace = fake_kubeconfigsNamespacer_Namespace,
      fr_group = fake_OperatorV1alpha1Client_Kubeconfigs,
      fr_by_group = (\<lambda>p ns. bindE (fake_OperatorV1alpha1ClusterClient_Cluster L p)
        (\<lambda>c. Inr (fake_OperatorV1alpha1Client_Kubeconfigs c ns))),
      fr_by_clientset = (\<lambda>p ns. bindE (fake_ClusterClientset_Cluster L p)
        (\<lambda>c. Inr (fake_OperatorV1alpha1Client_Kubeconfigs c ns))), fr_List =
            fake_kubeconfigsClient_List L,
      fr_steps = (\<lambda>c x name o1 o2 pt data subs b m.
        [\<lambda>st. snd (fake_kubeconfigsClient_Create L c x st), \<lambda>st. snd
            (fake_kubeconfigsClient_Update L c x st),
         \<lambda>st. snd (fake_kubeconfigsClient_UpdateStatus L c x st), \<lambda>st. snd
             (fake_kubeconfigsClient_Delete L c name o1 st),
         \<lambda>st. snd (fake_kubeconfigsClient_DeleteCollection L c o1 o2 st), \<lambda>st. snd
             (fake_kubeconfigsClient_Get L c name st),
         \<lambda>st. snd (fake_kubeconfigsClient_List L c o1 st), \<lambda>st. snd
             (fake_kubeconfigsClient_Watch L c o1 st),
         \<lambda>st. snd (fake_kubeconfigsClient_Patch L c name pt data subs st), \<lambda>st. snd
             (fake_kubeconfigsClient_Apply L c b m st),
         \<lambda>st. snd (fake_kubeconfigsClient_ApplyStatus L c b m st)])\<rparr>,
     \<lparr>fr_Resource = fake_rootShardsResource, fr_Kind = fake_rootShardsKind, fr_type = TRootShard,
      fr_Cluster = fake_rootShardsClusterClient_Cluster L, fr_Namespace = fake_rootShardsNamespacer_Namespace,
      fr_group = fake_OperatorV1alpha1Client_RootShards,
      fr_by_group = (\<lambda>p ns. bindE (fake_OperatorV1alpha1ClusterClient_Cluster L p)
        (\<lambda>c. Inr (fake_OperatorV1alpha1Client_RootShards c ns))),
      fr_by_clientset = (\<lambda>p ns. bindE (fake_ClusterClientset_Cluster L p)
        (\<lambda>c. Inr (fake_OperatorV1alpha1Client_RootShards c ns))), fr_List =
            fake_rootShardsClient_List L,
      fr_steps = (\<lambda>c x name o1 o2 pt data subs b m.
        [\<lambda>st. snd (fake_rootShardsClient_Create L c x st), \<lambda>st. snd
            (fake_rootShardsClient_Update L c x st),
         \<lambda>st. snd (fake_rootShardsClient_UpdateStatus L c x st), \<lambda>st. snd
             (fake_rootShardsClient_Delete L c name o1 st),
         \<lambda>st. snd (fake_rootShardsClient_DeleteCollection L c o1 o2 st), \<lambda>st. snd
             (fake_rootShardsClient_Get L c name st),
         \<lambda>st. snd (fake_rootShardsClient_List L c o1 st), \<lambda>st. snd
             (fake_rootShardsClient_Watch L c o1 st),
         \<lambda>st. snd (fake_rootShardsClient_Patch L c name pt data subs st), \<lambda>st. snd
             (fake_rootShardsClient_Apply L c b m st),
         \<lambda>st. snd (fake_rootShardsClient_ApplyStatus L c b m st)])\<rparr>,
     \<lparr>fr_Resource = fake_shardsResource, fr_Kind = fake_shardsKind, fr_type = TShard,
      fr_Cluster = fake_shardsClusterClient_Cluster L, fr_Namespace = fake_shardsNamespacer_Namespace,
      fr_group = fake_OperatorV1alpha1Client_Shards,
      fr_by_group = (\<lambda>p ns. bindE (fake_OperatorV1alpha1ClusterClient_Cluster L p)
        (\<lambda>c. Inr (fake_OperatorV1alpha1Client_Shards c ns))),
      fr_by_clientset = (\<lambda>p ns. bindE (fake_ClusterClientset_Cluster L p)
        (\<lambda>c. Inr (fake_OperatorV1alpha1Client_Shards c ns))), fr_List = fake_shardsClient_List L,
      fr_steps = (\<lambda>c x name o1 o2 pt data subs b m.
        [\<lambda>st. snd (fake_shardsClient_Create L c x st), \<lambda>st. snd (fake_shardsClient_Update
            L c x st),
         \<lambda>st. snd (fake_shardsClient_UpdateStatus L c x st), \<lambda>st. snd
             (fake_shardsClient_Delete L c name o1 st),
         \<lambda>st. snd (fake_shardsClient_DeleteCollection L c o1 o2 st), \<lambda>st. snd
             (fake_shardsClient_Get L c name st),
         \<lambda>st. snd (fake_shardsClient_List L c o1 st), \<lambda>st. snd (fake_shardsClient_Watch L
             c o1 st),
         \<lambda>st. snd (fake_shardsClient_Patch L c name pt data subs st), \<lambda>st. snd
             (fake_shardsClient_Apply L c b m st),
         \<lambda>st. snd (fake_shardsClient_ApplyStatus L c b m st)])\<rparr>,
     \<lparr>fr_Resource = fake_virtualWorkspacesResource, fr_Kind = fake_virtualWorkspacesKind, fr_type =
         TVirtualWorkspace,
      fr_Cluster = fake_virtualWorkspacesClusterClient_Cluster L, fr_Namespace =
          fake_virtualWorkspacesNamespacer_Namespace,
      fr_group = fake_OperatorV1alpha1Client_VirtualWorkspaces,
      fr_by_group = (\<lambda>p ns. bindE (fake_OperatorV1alpha1ClusterClient_Cluster L p)
        (\<lambda>c. Inr (fake_OperatorV1alpha1Client_VirtualWorkspaces c ns))),
      fr_by_clientset = (\<lambda>p ns. bindE (fake_ClusterClientset_Cluster L p)
        (\<lambda>c. Inr (fake_OperatorV1alpha1Client_VirtualWorkspaces c ns))), fr_List =
            fake_virtualWorkspacesClient_List L,
      fr_steps = (\<lambda>c x name o1 o2 pt data subs b m.
        [\<lambda>st. snd (fake_virtualWorkspacesClient_Create L c x st), \<lambda>st. snd
            (fake_virtualWorkspacesClient_Update L c x st),
         \<lambda>st. snd (fake_virtualWorkspacesClient_UpdateStatus L c x st), \<lambda>st. snd
             (fake_virtualWorkspacesClient_Delete L c name o1 st),
         \<lambda>st. snd (fake_virtualWorkspacesClient_DeleteCollection L c o1 o2 st), \<lambda>st. snd
             (fake_virtualWorkspacesClient_Get L c name st),
         \<lambda>st. snd (fake_virtualWorkspacesClient_List L c o1 st), \<lambda>st. snd
             (fake_virtualWorkspacesClient_Watch L c o1 st),
         \<lambda>st. snd (fake_virtualWorkspacesClient_Patch L c name pt data subs st), \<lambda>st. snd
             (fake_virtualWorkspacesClient_Apply L c b m st),
         \<lambda>st. snd (fake_virtualWorkspacesClient_ApplyStatus L c b m st)])\<rparr>,
     \<lparr>fr_Resource = fake_compiledCacheServersResource, fr_Kind = fake_compiledCacheServersKind,
         fr_type = TCompiledCacheServer,
      fr_Cluster = fake_compiledCacheServersClusterClient_Cluster L, fr_Namespace =
          fake_compiledCacheServersNamespacer_Namespace,
      fr_group = fake_DeployV1alpha1Client_CompiledCacheServers,
      fr_by_group = (\<lambda>p ns. bindE (fake_DeployV1alpha1ClusterClient_Cluster L p)
        (\<lambda>c. Inr (fake_DeployV1alpha1Client_CompiledCacheServers c ns))),
      fr_by_clientset = (\<lambda>p ns. bindE (fake_ClusterClientset_Cluster L p)
        (\<lambda>c. Inr (fake_DeployV1alpha1Client_CompiledCacheServers c ns))), fr_List =
            fake_compiledCacheServersClient_List L,
      fr_steps = (\<lambda>c x name o1 o2 pt data subs b m.
        [\<lambda>st. snd (fake_compiledCacheServersClient_Create L c x st), \<lambda>st. snd
            (fake_compiledCacheServersClient_Update L c x st),
         \<lambda>st. snd (fake_compiledCacheServersClient_UpdateStatus L c x st), \<lambda>st. snd
             (fake_compiledCacheServersClient_Delete L c name o1 st),
         \<lambda>st. snd (fake_compiledCacheServersClient_DeleteCollection L c o1 o2 st), \<lambda>st.
             snd (fake_compiledCacheServersClient_Get L c name st),
         \<lambda>st. snd (fake_compiledCacheServersClient_List L c o1 st), \<lambda>st. snd
             (fake_compiledCacheServersClient_Watch L c o1 st),
         \<lambda>st. snd (fake_compiledCacheServersClient_Patch L c name pt data subs st), \<lambda>st.
             snd (fake_compiledCacheServersClient_Apply L c b m st),
         \<lambda>st. snd (fake_compiledCacheServersClient_ApplyStatus L c b m st)])\<rparr>,
     \<lparr>fr_Resource = fake_compiledFrontProxiesResource, fr_Kind = fake_compiledFrontProxiesKind,
         fr_type = TCompiledFrontProxy,
      fr_Cluster = fake_compiledFrontProxiesClusterClient_Cluster L, fr_Namespace =
          fake_compiledFrontProxiesNamespacer_Namespace,
      fr_group = fake_DeployV1alpha1Client_CompiledFrontProxies,
      fr_by_group = (\<lambda>p ns. bindE (fake_DeployV1alpha1ClusterClient_Cluster L p)
        (\<lambda>c. Inr (fake_DeployV1alpha1Client_CompiledFrontProxies c ns))),
      fr_by_clientset = (\<lambda>p ns. bindE (fake_ClusterClientset_Cluster L p)
        (\<lambda>c. Inr (fake_DeployV1alpha1Client_CompiledFrontProxies c ns))), fr_List =
            fake_compiledFrontProxiesClient_List L,
      fr_steps = (\<lambda>c x name o1 o2 pt data subs b m.
        [\<lambda>st. snd (fake_compiledFrontProxiesClient_Create L c x st), \<lambda>st. snd
            (fake_compiledFrontProxiesClient_Update L c x st),
         \<lambda>st. snd (fake_compiledFrontProxiesClient_UpdateStatus L c x st), \<lambda>st. snd
             (fake_compiledFrontProxiesClient_Delete L c name o1 st),
         \<lambda>st. snd (fake_compiledFrontProxiesClient_DeleteCollection L c o1 o2 st), \<lambda>st.
             snd (fake_compiledFrontProxiesClient_Get L c name st),
         \<lambda>st. snd (fake_compiledFrontProxiesClient_List L c o1 st), \<lambda>st. snd
             (fake_compiledFrontProxiesClient_Watch L c o1 st),
         \<lambda>st. snd (fake_compiledFrontProxiesClient_Patch L c name pt data subs st), \<lambda>st.
             snd (fake_compiledFrontProxiesClient_Apply L c b m st),
         \<lambda>st. snd (fake_compiledFrontProxiesClient_ApplyStatus L c b m st)])\<rparr>,
     \<lparr>fr_Resource = fake_compiledRootShardsResource, fr_Kind = fake_compiledRootShardsKind, fr_type
         = TCompiledRootShard,
      fr_Cluster = fake_compiledRootShardsClusterClient_Cluster L, fr_Namespace =
          fake_compiledRootShardsNamespacer_Namespace,
      fr_group = fake_DeployV1alpha1Client_CompiledRootShards,
      fr_by_group = (\<lambda>p ns. bindE (fake_DeployV1alpha1ClusterClient_Cluster L p)
        (\<lambda>c. Inr (fake_DeployV1alpha1Client_CompiledRootShards c ns))),
      fr_by_clientset = (\<lambda>p ns. bindE (fake_ClusterClientset_Cluster L p)
        (\<lambda>c. Inr (fake_DeployV1alpha1Client_CompiledRootShards c ns))), fr_List =
            fake_compiledRootShardsClient_List L,
      fr_steps = (\<lambda>c x name o1 o2 pt data subs b m.
        [\<lambda>st. snd (fake_compiledRootShardsClient_Create L c x st), \<lambda>st. snd
            (fake_compiledRootShardsClient_Update L c x st),
         \<lambda>st. snd (fake_compiledRootShardsClient_UpdateStatus L c x st), \<lambda>st. snd
             (fake_compiledRootShardsClient_Delete L c name o1 st),
         \<lambda>st. snd (fake_compiledRootShardsClient_DeleteCollection L c o1 o2 st), \<lambda>st. snd
             (fake_compiledRootShardsClient_Get L c name st),
         \<lambda>st. snd (fake_compiledRootShardsClient_List L c o1 st), \<lambda>st. snd
             (fake_compiledRootShardsClient_Watch L c o1 st),
         \<lambda>st. snd (fake_compiledRootShardsClient_Patch L c name pt data subs st), \<lambda>st. snd
             (fake_compiledRootShardsClient_Apply L c b m st),
         \<lambda>st. snd (fake_compiledRootShardsClient_ApplyStatus L c b m st)])\<rparr>,
     \<lparr>fr_Resource = fake_compiledShardsResource, fr_Kind = fake_compiledShardsKind, fr_type =
         TCompiledShard,
      fr_Cluster = fake_compiledShardsClusterClient_Cluster L, fr_Namespace =
          fake_compiledShardsNamespacer_Namespace,
      fr_group = fake_DeployV1alpha1Client_CompiledShards,
      fr_by_group = (\<lambda>p ns. bindE (fake_DeployV1alpha1ClusterClient_Cluster L p)
        (\<lambda>c. Inr (fake_DeployV1alpha1Client_CompiledShards c ns))),
      fr_by_clientset = (\<lambda>p ns. bindE (fake_ClusterClientset_Cluster L p)
        (\<lambda>c. Inr (fake_DeployV1alpha1Client_CompiledShards c ns))), fr_List =
            fake_compiledShardsClient_List L,
      fr_steps = (\<lambda>c x name o1 o2 pt data subs b m.
        [\<lambda>st. snd (fake_compiledShardsClient_Create L c x st), \<lambda>st. snd
            (fake_compiledShardsClient_Update L c x st),
         \<lambda>st. snd (fake_compiledShardsClient_UpdateStatus L c x st), \<lambda>st. snd
             (fake_compiledShardsClient_Delete L c name o1 st),
         \<lambda>st. snd (fake_compiledShardsClient_DeleteCollection L c o1 o2 st), \<lambda>st. snd
             (fake_compiledShardsClient_Get L c name st),
         \<lambda>st. snd (fake_compiledShardsClient_List L c o1 st), \<lambda>st. snd
             (fake_compiledShardsClient_Watch L c o1 st),
         \<lambda>st. snd (fake_compiledShardsClient_Patch L c name pt data subs st), \<lambda>st. snd
             (fake_compiledShardsClient_Apply L c b m st),
         \<lambda>st. snd (fake_compiledShardsClient_ApplyStatus L c b m st)])\<rparr>,
     \<lparr>fr_Resource = fake_compiledVirtualWorkspacesResource, fr_Kind =
         fake_compiledVirtualWorkspacesKind, fr_type = TCompiledVirtualWorkspace,
      fr_Cluster = fake_compiledVirtualWorkspacesClusterClient_Cluster L, fr_Namespace =
          fake_compiledVirtualWorkspacesNamespacer_Namespace,
      fr_group = fake_DeployV1alpha1Client_CompiledVirtualWorkspaces,
      fr_by_group = (\<lambda>p ns. bindE (fake_DeployV1alpha1ClusterClient_Cluster L p)
        (\<lambda>c. Inr (fake_DeployV1alpha1Client_CompiledVirtualWorkspaces c ns))),
      fr_by_clientset = (\<lambda>p ns. bindE (fake_ClusterClientset_Cluster L p)
        (\<lambda>c. Inr (fake_DeployV1alpha1Client_CompiledVirtualWorkspaces c ns))), fr_List =
            fake_compiledVirtualWorkspacesClient_List L,
      fr_steps = (\<lambda>c x name o1 o2 pt data subs b m.
        [\<lambda>st. snd (fake_compiledVirtualWorkspacesClient_Create L c x st), \<lambda>st. snd
            (fake_compiledVirtualWorkspacesClient_Update L c x st),
         \<lambda>st. snd (fake_compiledVirtualWorkspacesClient_UpdateStatus L c x st), \<lambda>st. snd
             (fake_compiledVirtualWorkspacesClient_Delete L c name o1 st),
         \<lambda>st. snd (fake_compiledVirtualWorkspacesClient_DeleteCollection L c o1 o2 st),
             \<lambda>st. snd (fake_compiledVirtualWorkspacesClient_Get L c name st),
         \<lambda>st. snd (fake_compiledVirtualWorkspacesClient_List L c o1 st), \<lambda>st. snd
             (fake_compiledVirtualWorkspacesClient_Watch L c o1 st),
         \<lambda>st. snd (fake_compiledVirtualWorkspacesClient_Patch L c name pt data subs st),
             \<lambda>st. snd (fake_compiledVirtualWorkspacesClient_Apply L c b m st),
         \<lambda>st. snd (fake_compiledVirtualWorkspacesClient_ApplyStatus L c b m st)])\<rparr>]"

lemmas fake_client_defs =
  fake_cacheServersResource_def [abs_def] fake_cacheServersKind_def [abs_def]
  fake_cacheServersClusterClient_Cluster_def [abs_def]
  fake_cacheServersNamespacer_Namespace_def [abs_def] fake_cacheServersClient_Create_def [abs_def]
  fake_cacheServersClient_Update_def [abs_def] fake_cacheServersClient_UpdateStatus_def [abs_def]
  fake_cacheServersClient_Delete_def [abs_def] fake_cacheServersClient_DeleteCollection_def [abs_def]
  fake_cacheServersClient_Get_def [abs_def] fake_cacheServersClient_List_def [abs_def]
  fake_cacheServersClient_Watch_def [abs_def] fake_cacheServersClient_Patch_def [abs_def]
  fake_cacheServersClient_Apply_def [abs_def] fake_cacheServersClient_ApplyStatus_def [abs_def]
  fake_OperatorV1alpha1Client_CacheServers_def [abs_def] fake_frontProxiesResource_def [abs_def]
  fake_frontProxiesKind_def [abs_def] fake_frontProxiesClusterClient_Cluster_def [abs_def]
  fake_frontProxiesNamespacer_Namespace_def [abs_def] fake_frontProxiesClient_Create_def [abs_def]
  fake_frontProxiesClient_Update_def [abs_def] fake_frontProxiesClient_UpdateStatus_def [abs_def]
  fake_frontProxiesClient_Delete_def [abs_def] fake_frontProxiesClient_DeleteCollection_def [abs_def]
  fake_frontProxiesClient_Get_def [abs_def] fake_frontProxiesClient_List_def [abs_def]
  fake_frontProxiesClient_Watch_def [abs_def] fake_frontProxiesClient_Patch_def [abs_def]
  fake_frontProxiesClient_Apply_def [abs_def] fake_frontProxiesClient_ApplyStatus_def [abs_def]
  fake_OperatorV1alpha1Client_FrontProxies_def [abs_def] fake_kubeconfigsResource_def [abs_def]
  fake_kubeconfigsKind_def [abs_def] fake_kubeconfigsClusterClient_Cluster_def [abs_def]
  fake_kubeconfigsNamespacer_Namespace_def [abs_def] fake_kubeconfigsClient_Create_def [abs_def]
  fake_kubeconfigsClient_Update_def [abs_def] fake_kubeconfigsClient_UpdateStatus_def [abs_def]
  fake_kubeconfigsClient_Delete_def [abs_def] fake_kubeconfigsClient_DeleteCollection_def [abs_def]
  fake_kubeconfigsClient_Get_def [abs_def] fake_kubeconfigsClient_List_def [abs_def]
  fake_kubeconfigsClient_Watch_def [abs_def] fake_kubeconfigsClient_Patch_def [abs_def]
  fake_kubeconfigsClient_Apply_def [abs_def] fake_kubeconfigsClient_ApplyStatus_def [abs_def]
  fake_OperatorV1alpha1Client_Kubeconfigs_def [abs_def] fake_rootShardsResource_def [abs_def]
  fake_rootShardsKind_def [abs_def] fake_rootShardsClusterClient_Cluster_def [abs_def]
  fake_rootShardsNamespacer_Namespace_def [abs_def] fake_rootShardsClient_Create_def [abs_def]
  fake_rootShardsClient_Update_def [abs_def] fake_rootShardsClient_UpdateStatus_def [abs_def]
  fake_rootShardsClient_Delete_def [abs_def] fake_rootShardsClient_DeleteCollection_def [abs_def]
  fake_rootShardsClient_Get_def [abs_def] fake_rootShardsClient_List_def [abs_def]
  fake_rootShardsClient_Watch_def [abs_def] fake_rootShardsClient_Patch_def [abs_def]
  fake_rootShardsClient_Apply_def [abs_def] fake_rootShardsClient_ApplyStatus_def [abs_def]
  fake_OperatorV1alpha1Client_RootShards_def [abs_def] fake_shardsResource_def [abs_def]
  fake_shardsKind_def [abs_def] fake_shardsClusterClient_Cluster_def [abs_def]
  fake_shardsNamespacer_Namespace_def [abs_def] fake_shardsClient_Create_def [abs_def]
  fake_shardsClient_Update_def [abs_def] fake_shardsClient_UpdateStatus_def [abs_def]
  fake_shardsClient_Delete_def [abs_def] fake_shardsClient_DeleteCollection_def [abs_def]
  fake_shardsClient_Get_def [abs_def] fake_shardsClient_List_def [abs_def]
  fake_shardsClient_Watch_def [abs_def] fake_shardsClient_Patch_def [abs_def]
  fake_shardsClient_Apply_def [abs_def] fake_shardsClient_ApplyStatus_def [abs_def]
  fake_OperatorV1alpha1Client_Shards_def [abs_def] fake_virtualWorkspacesResource_def [abs_def]
  fake_virtualWorkspacesKind_def [abs_def] fake_virtualWorkspacesClusterClient_Cluster_def [abs_def]
  fake_virtualWorkspacesNamespacer_Namespace_def [abs_def]
  fake_virtualWorkspacesClient_Create_def [abs_def] fake_virtualWorkspacesClient_Update_def [abs_def]
  fake_virtualWorkspacesClient_UpdateStatus_def [abs_def]
  fake_virtualWorkspacesClient_Delete_def [abs_def]
  fake_virtualWorkspacesClient_DeleteCollection_def [abs_def]
  fake_virtualWorkspacesClient_Get_def [abs_def] fake_virtualWorkspacesClient_List_def [abs_def]
  fake_virtualWorkspacesClient_Watch_def [abs_def] fake_virtualWorkspacesClient_Patch_def [abs_def]
  fake_virtualWorkspacesClient_Apply_def [abs_def]
  fake_virtualWorkspacesClient_ApplyStatus_def [abs_def]
  fake_OperatorV1alpha1Client_VirtualWorkspaces_def [abs_def]
  fake_compiledCacheServersResource_def [abs_def] fake_compiledCacheServersKind_def [abs_def]
  fake_compiledCacheServersClusterClient_Cluster_def [abs_def]
  fake_compiledCacheServersNamespacer_Namespace_def [abs_def]
  fake_compiledCacheServersClient_Create_def [abs_def]
  fake_compiledCacheServersClient_Update_def [abs_def]
  fake_compiledCacheServersClient_UpdateStatus_def [abs_def]
  fake_compiledCacheServersClient_Delete_def [abs_def]
  fake_compiledCacheServersClient_DeleteCollection_def [abs_def]
  fake_compiledCacheServersClient_Get_def [abs_def] fake_compiledCacheServersClient_List_def [abs_def]
  fake_compiledCacheServersClient_Watch_def [abs_def]
  fake_compiledCacheServersClient_Patch_def [abs_def]
  fake_compiledCacheServersClient_Apply_def [abs_def]
  fake_compiledCacheServersClient_ApplyStatus_def [abs_def]
  fake_DeployV1alpha1Client_CompiledCacheServers_def [abs_def]
  fake_compiledFrontProxiesResource_def [abs_def] fake_compiledFrontProxiesKind_def [abs_def]
  fake_compiledFrontProxiesClusterClient_Cluster_def [abs_def]
  fake_compiledFrontProxiesNamespacer_Namespace_def [abs_def]
  fake_compiledFrontProxiesClient_Create_def [abs_def]
  fake_compiledFrontProxiesClient_Update_def [abs_def]
  fake_compiledFrontProxiesClient_UpdateStatus_def [abs_def]
  fake_compiledFrontProxiesClient_Delete_def [abs_def]
  fake_compiledFrontProxiesClient_DeleteCollection_def [abs_def]
  fake_compiledFrontProxiesClient_Get_def [abs_def] fake_compiledFrontProxiesClient_List_def [abs_def]
  fake_compiledFrontProxiesClient_Watch_def [abs_def]
  fake_compiledFrontProxiesClient_Patch_def [abs_def]
  fake_compiledFrontProxiesClient_Apply_def [abs_def]
  fake_compiledFrontProxiesClient_ApplyStatus_def [abs_def]
  fake_DeployV1alpha1Client_CompiledFrontProxies_def [abs_def]
  fake_compiledRootShardsResource_def [abs_def] fake_compiledRootShardsKind_def [abs_def]
  fake_compiledRootShardsClusterClient_Cluster_def [abs_def]
  fake_compiledRootShardsNamespacer_Namespace_def [abs_def]
  fake_compiledRootShardsClient_Create_def [abs_def] fake_compiledRootShardsClient_Update_def [abs_def]
  fake_compiledRootShardsClient_UpdateStatus_def [abs_def]
  fake_compiledRootShardsClient_Delete_def [abs_def]
  fake_compiledRootShardsClient_DeleteCollection_def [abs_def]
  fake_compiledRootShardsClient_Get_def [abs_def] fake_compiledRootShardsClient_List_def [abs_def]
  fake_compiledRootShardsClient_Watch_def [abs_def] fake_compiledRootShardsClient_Patch_def [abs_def]
  fake_compiledRootShardsClient_Apply_def [abs_def]
  fake_compiledRootShardsClient_ApplyStatus_def [abs_def]
  fake_DeployV1alpha1Client_CompiledRootShards_def [abs_def] fake_compiledShardsResource_def [abs_def]
  fake_compiledShardsKind_def [abs_def] fake_compiledShardsClusterClient_Cluster_def [abs_def]
  fake_compiledShardsNamespacer_Namespace_def [abs_def] fake_compiledShardsClient_Create_def [abs_def]
  fake_compiledShardsClient_Update_def [abs_def] fake_compiledShardsClient_UpdateStatus_def [abs_def]
  fake_compiledShardsClient_Delete_def [abs_def]
  fake_compiledShardsClient_DeleteCollection_def [abs_def] fake_compiledShardsClient_Get_def [abs_def]
  fake_compiledShardsClient_List_def [abs_def] fake_compiledShardsClient_Watch_def [abs_def]
  fake_compiledShardsClient_Patch_def [abs_def] fake_compiledShardsClient_Apply_def [abs_def]
  fake_compiledShardsClient_ApplyStatus_def [abs_def]
  fake_DeployV1alpha1Client_CompiledShards_def [abs_def]
  fake_compiledVirtualWorkspacesResource_def [abs_def] fake_compiledVirtualWorkspacesKind_def [abs_def]
  fake_compiledVirtualWorkspacesClusterClient_Cluster_def [abs_def]
  fake_compiledVirtualWorkspacesNamespacer_Namespace_def [abs_def]
  fake_compiledVirtualWorkspacesClient_Create_def [abs_def]
  fake_compiledVirtualWorkspacesClient_Update_def [abs_def]
  fake_compiledVirtualWorkspacesClient_UpdateStatus_def [abs_def]
  fake_compiledVirtualWorkspacesClient_Delete_def [abs_def]
  fake_compiledVirtualWorkspacesClient_DeleteCollection_def [abs_def]
  fake_compiledVirtualWorkspacesClient_Get_def [abs_def]
  fake_compiledVirtualWorkspacesClient_List_def [abs_def]
  fake_compiledVirtualWorkspacesClient_Watch_def [abs_def]
  fake_compiledVirtualWorkspacesClient_Patch_def [abs_def]
  fake_compiledVirtualWorkspacesClient_Apply_def [abs_def]
  fake_compiledVirtualWorkspacesClient_ApplyStatus_def [abs_def]
  fake_DeployV1alpha1Client_CompiledVirtualWorkspaces_def [abs_def]

text \<open>All are of one form.\<close>

definition fake_row_of :: "('st, 'obj, 'meta, 'o, 'sel, 'w) fake_library \<Rightarrow>
    GroupVersionResource \<Rightarrow> GroupVersionKind
    \<Rightarrow> sdk_type \<Rightarrow> ('st, 'obj, 'meta, 'o) fake_row" where
  "fake_row_of L r k t =
    (let obj = (\<lambda>act st. returned_object t (fk_Invokes L act (NewObject t) st));
         patch = (\<lambda>c b m subs st. case apply_patch L b m of
           Inl answer \<Rightarrow> (answer, st)
         | Inr (name, data) \<Rightarrow>
             obj (PatchSubresourceAction r (fc_ClusterPath c) (fc_Namespace c) name ApplyPatch data subs) st);
         lst = (\<lambda>c opts st. filtered_list L t opts
           (fk_Invokes L (ListAction r k (fc_ClusterPath c) (fc_Namespace c) opts) (NewList t) st))
     in \<lparr>fr_Resource = r, fr_Kind = k, fr_type = t,
      fr_Cluster = (\<lambda>p. if p = fk_Wildcard L then Inl wildcard_panic else Inr
          \<lparr>fn_ClusterPath = p\<rparr>),
      fr_Namespace = (\<lambda>n ns. \<lparr>fc_ClusterPath = fn_ClusterPath n, fc_Namespace = ns\<rparr>),
      fr_group = (\<lambda>p ns. \<lparr>fc_ClusterPath = p, fc_Namespace = ns\<rparr>),
      fr_by_group = (\<lambda>p ns. if p = fk_Wildcard L then Inl wildcard_panic
        else Inr \<lparr>fc_ClusterPath = p, fc_Namespace = ns\<rparr>),
      fr_by_clientset = (\<lambda>p ns. if p = fk_Wildcard L then Inl wildcard_panic
        else Inr \<lparr>fc_ClusterPath = p, fc_Namespace = ns\<rparr>), fr_List = lst,
      fr_steps = (\<lambda>c x name o1 o2 pt data subs b m. let p = fc_ClusterPath c; ns = fc_Namespace c in
        [\<lambda>st. snd (obj (CreateAction r p ns x) st), \<lambda>st. snd (obj (UpdateAction r p ns x) st),
         \<lambda>st. snd (obj (UpdateSubresourceAction r p ''status'' ns x) st),
         \<lambda>st. snd (returned_error (fk_Invokes L (DeleteAction r p ns name o1) (NewObject t) st)),
         \<lambda>st. snd (returned_error (fk_Invokes L (DeleteCollectionAction r p ns o2) (NewList t) st)),
         \<lambda>st. snd (obj (GetAction r p ns name) st), \<lambda>st. snd (lst c o1 st),
         \<lambda>st. snd (fk_InvokesWatch L (WatchAction r p ns o1) st),
         \<lambda>st. snd (obj (PatchSubresourceAction r p ns name pt data subs) st),
         \<lambda>st. snd (patch c b m [] st), \<lambda>st. snd (patch c b m [''status''] st)])\<rparr>)"

lemma bind_guard: "bindE (if b then Inl e else Inr x) f = (if b then Inl e else f x)"
  by simp

lemma fake_rows_uniform:
  "list_all (\<lambda>R. R = fake_row_of L (fr_Resource R) (fr_Kind R) (fr_type R)) (fake_rows L)"
  by (simp only: fake_rows_def fake_row_of_def Let_def fake_client_defs fake_ClusterClientset_Cluster_def
      fake_OperatorV1alpha1ClusterClient_Cluster_def fake_DeployV1alpha1ClusterClient_Cluster_def bind_guard
      fake_row.simps list.pred_inject simp_thms)

text \<open>The kinds and resources are those of the real clients, in the same order.\<close>

lemma fake_rows_real:
  "map (\<lambda>R. (fr_Resource R, fr_type R)) (fake_rows L) = map (\<lambda>(r, t, _). (r, t))
      (client_routes lib)"
  by (simp add: fake_rows_def client_routes_def fake_client_defs WithResource_def
      operator_SchemeGroupVersion_def deploy_SchemeGroupVersion_def)

fun action_scope :: "('obj, 'o) fake_action \<Rightarrow> GroupVersionResource \<times> string \<times>
    string" where
  "action_scope (ListAction r _ p ns _) = (r, p, ns)"
| "action_scope (WatchAction r p ns _) = (r, p, ns)"
| "action_scope (CreateAction r p ns _) = (r, p, ns)"
| "action_scope (UpdateAction r p ns _) = (r, p, ns)"
| "action_scope (UpdateSubresourceAction r p _ ns _) = (r, p, ns)"
| "action_scope (DeleteAction r p ns _ _) = (r, p, ns)"
| "action_scope (DeleteCollectionAction r p ns _) = (r, p, ns)"
| "action_scope (GetAction r p ns _) = (r, p, ns)"
| "action_scope (PatchSubresourceAction r p ns _ _ _ _) = (r, p, ns)"

lemma answer_states [simp]:
  "snd (returned_object t r) = snd r" "snd (returned_error r) = snd r" "snd (filtered_list L t opts r) = snd r"
  by (simp_all add: returned_object_def returned_error_def filtered_list_def case_prod_unfold)

lemma filtered_list_matches:
  assumes "fst (filtered_list L t opts r) = Inr (Some (meta, items), err)" "x \<in> set items"
  shows "fk_Matches L (case fk_Label L opts of None \<Rightarrow> fk_Everything L | Some l \<Rightarrow> l) x"
  using assms
  by (auto simp: filtered_list_def Let_def case_prod_unfold split: option.splits fake_object.splits if_splits)

text \<open>C31: The fake clients keep to what the real ones do. There is one for each kind of object and
    resource
  the real clients know and for no other. The fake cluster client of the kind, that of its group and
  the fake clientset panic on the wildcard and on nothing else, and the three ways through them end at the
  same client. Whatever is done through the client of a workspace and namespace is an action in that
  workspace and namespace and on that resource: what no such action breaks stays as it is. A list
  holds only objects the selector matches.\<close>

theorem fakes_scoped:
  assumes row: "R \<in> set (fake_rows L)" and n: "fr_Cluster R p = Inr n"
    and act: "\<And>act d st. action_scope act = (fr_Resource R, p, ns) \<Longrightarrow> P st
        \<Longrightarrow> P (snd (fk_Invokes L act d st))"
    and watch: "\<And>act st. action_scope act = (fr_Resource R, p, ns) \<Longrightarrow> P st
        \<Longrightarrow> P (snd (fk_InvokesWatch L act st))"
  shows "(\<lambda>R. (fr_Resource R, fr_type R)) ` set (fake_rows L) = (\<lambda>(r, t, _). (r, t)) ` set
      (client_routes lib)
    \<and> p \<noteq> fk_Wildcard L \<and> fr_Cluster R q = (if q = fk_Wildcard L then Inl wildcard_panic
        else Inr \<lparr>fn_ClusterPath = q\<rparr>)
    \<and> fr_by_group R q ns = (if q = fk_Wildcard L then Inl wildcard_panic else Inr (fr_group R q ns))
    \<and> fr_by_clientset R q ns = (if q = fk_Wildcard L then Inl wildcard_panic else Inr (fr_group R q ns))
    \<and> fr_Namespace R n ns = fr_group R p ns
    \<and> (\<forall>f\<in>set (fr_steps R (fr_group R p ns) x name o1 o2 pt data subs b m). \<forall>st.
        P st \<longrightarrow> P (f st))
    \<and> (\<forall>opts st meta items err. fst (fr_List R (fr_group R p ns) opts st) = Inr (Some (meta,
        items), err)
        \<longrightarrow> (\<forall>y\<in>set items. fk_Matches L (case fk_Label L opts of None
            \<Rightarrow> fk_Everything L | Some l \<Rightarrow> l) y))"
proof (intro conjI ballI allI impI)
  have R: "R = fake_row_of L (fr_Resource R) (fr_Kind R) (fr_type R)"
    using row fake_rows_uniform [of L] by (simp add: list_all_iff)
  show "(\<lambda>R. (fr_Resource R, fr_type R)) ` set (fake_rows L) = (\<lambda>(r, t, _). (r, t)) ` set
      (client_routes lib)"
    using arg_cong [OF fake_rows_real, of set] by (simp only: set_map)
  obtain r k t where rkt: "R = fake_row_of L r k t" "fr_Resource R = r" using R by blast
  show "p \<noteq> fk_Wildcard L" "fr_Namespace R n ns = fr_group R p ns"
    "fr_Cluster R q = (if q = fk_Wildcard L then Inl wildcard_panic else Inr \<lparr>fn_ClusterPath =
        q\<rparr>)"
    "fr_by_group R q ns = (if q = fk_Wildcard L then Inl wildcard_panic else Inr (fr_group R q ns))"
    "fr_by_clientset R q ns = (if q = fk_Wildcard L then Inl wildcard_panic else Inr (fr_group R q ns))"
    using n by (auto simp: rkt(1) fake_row_of_def Let_def split: if_splits)
  show "P (f st)" if "f \<in> set (fr_steps R (fr_group R p ns) x name o1 o2 pt data subs b m)" "P st" for f st
  proof -
    have act: "action_scope act = (r, p, ns) \<Longrightarrow> P (snd (fk_Invokes L act d st))"
      "action_scope act = (r, p, ns) \<Longrightarrow> P (snd (fk_InvokesWatch L act st))" for act d
      using act watch that(2) rkt(2) by auto
    show ?thesis
      using that by (auto simp: rkt(1) fake_row_of_def Let_def intro!: act split: sum.split)
  qed
  fix opts st meta items err y
  assume "fst (fr_List R (fr_group R p ns) opts st) = Inr (Some (meta, items), err)" "y \<in> set items"
  then show "fk_Matches L (case fk_Label L opts of None \<Rightarrow> fk_Everything L | Some l
      \<Rightarrow> l) y"
    by (auto simp: rkt(1) fake_row_of_def Let_def intro: filtered_list_matches)
qed

end
