(* ===== verification/Sdk_Witnesses.thy ===== *)
theory Sdk_Witnesses
  imports Sdk_Informers Apply_Props Sdk_Fakes
begin

text \<open>
  The theorems on the generated SDK at concrete clients, indexers and factories.
\<close>

section \<open>Clients\<close>

text \<open>A library whose REST client is the host it talks to.\<close>

definition sample_library :: "(unit, string, unit) sdk_library" where
  "sample_library = \<lparr>lib_HTTPClientFor = (\<lambda>c. Inr ()), lib_RESTClientFor = (\<lambda>c h.
      Inr (rc_Host c)),
     lib_DiscoveryClientFor = (\<lambda>c h. Inr ()), lib_DefaultUserAgent = ''kcp'', lib_Wildcard = ''*'',
     lib_AtCluster = (\<lambda>p c. c\<lparr>rc_Host := rc_Host c @ ''/clusters/'' @ p\<rparr>)\<rparr>"

definition sample_rest :: rest_Config where
  "sample_rest = \<lparr>rc_Host = ''https://kcp'', rc_UserAgent = '''', rc_GroupVersion = None,
      rc_APIPath = '''',
     rc_NegotiatedSerializer = False, rc_RateLimiter = None, rc_QPS = 0, rc_Burst = 0\<rparr>"

definition sample_clientset :: "(string, unit) ClusterClientset" where
  "sample_clientset = (case cluster_clientset_NewForConfigAndClient sample_library sample_rest () of
     Inr cs \<Rightarrow> cs | Inl e \<Rightarrow> undefined)"

lemmas sample_clientset_defs = sample_library_def sample_rest_def cluster_clientset_NewForConfigAndClient_def
  with_rate_limiter_def kcpclient_NewCache_def clientset_NewForConfigAndClient_def Let_def
  deploy_NewForConfigAndClient_def operator_NewForConfigAndClient_def operator_setConfigDefaults_def
  deploy_setConfigDefaults_def deploy_cluster_NewForConfigAndClient_def
      operator_cluster_NewForConfigAndClient_def

lemma sample_clientset: "cluster_clientset_NewForConfigAndClient sample_library sample_rest () = Inr
    sample_clientset"
  by (simp add: sample_clientset_def sample_clientset_defs)

text \<open>The cache servers of the workspace \<open>root:a\<close>, and of all workspaces at once.\<close>

definition sample_by_kind :: "(string, unit) ClusterClientset \<Rightarrow> string \<Rightarrow> string
    \<Rightarrow> string typed_client res" where
  "sample_by_kind = (\<lambda>cs p ns. bindE (cacheServersClusterInterface_Cluster sample_library
     (OperatorV1alpha1ClusterClient_CacheServers (ClusterClientset_OperatorV1alpha1 cs)) p)
     (\<lambda>n. cacheServersNamespacer_Namespace n ns))"

definition sample_typed_client :: "string typed_client" where
  "sample_typed_client = \<lparr>tc_resource = ''cacheservers'', tc_rest = Some ''https://kcp/clusters/root:a'',
     tc_namespace = ''ns'', tc_type = TCacheServer\<rparr>"

lemma sample_by_kind: "sample_by_kind sample_clientset ''root:a'' ''ns'' = Inr sample_typed_client"
  by (simp add: sample_by_kind_def sample_clientset_def sample_typed_client_def sample_clientset_defs
      cacheServersClusterInterface_Cluster_def cacheServersNamespacer_Namespace_def ClusterOrDie_def or_die_def
      OperatorV1alpha1ClusterClient_CacheServers_def ClusterClientset_OperatorV1alpha1_def
      OperatorV1alpha1Client_CacheServers_def newCacheServers_def OperatorV1alpha1Client_RESTClient_def)

lemma sample_route: "\<exists>direct by_group. (WithResource operator_SchemeGroupVersion ''cacheservers'',
    TCacheServer, direct,
    sample_by_kind, by_group) \<in> set (client_routes sample_library)"
  unfolding client_routes_def list.set sample_by_kind_def by (intro exI) (rule insertI1)

theorem typed_clients_scoped_witness:
  "sample_by_kind sample_clientset ''*'' ''ns'' = Inl wildcard_panic
    \<and> (\<exists>rest config. sample_typed_client
        = client_at (WithResource operator_SchemeGroupVersion ''cacheservers'') TCacheServer ''ns'' rest
        \<and> rc_Host config = ''https://kcp/clusters/root:a'' \<and> lib_RESTClientFor sample_library
            config () = Inr rest)"
proof -
  obtain direct by_group where row: "(WithResource operator_SchemeGroupVersion ''cacheservers'',
      TCacheServer, direct,
    sample_by_kind, by_group) \<in> set (client_routes sample_library)" using sample_route by blast
  have at: "\<And>p c. lib_AtCluster sample_library p c = c\<lparr>rc_Host := (\<lambda>p h. h @
      ''/clusters/'' @ p) p (rc_Host c)\<rparr>"
    "''root:a'' \<noteq> lib_Wildcard sample_library" "lib_Wildcard sample_library = ''*''"
    "rc_Host sample_rest @ ''/clusters/'' @ ''root:a'' = ''https://kcp/clusters/root:a''"
    by (simp_all add: sample_library_def sample_rest_def)
  show ?thesis
    using typed_clients_scoped [where host = "\<lambda>p h. h @ ''/clusters/'' @ p", OF sample_clientset
        at(1) row at(2) sample_by_kind]
    unfolding at(3,4) by blast
qed

section \<open>Listers\<close>

text \<open>
  An indexer of cache servers that are no more than their workspace, namespace and name, with the keys
  of kcp.
\<close>

definition cluster_aware_key :: "string \<Rightarrow> string \<Rightarrow> string \<Rightarrow> string" where
  "cluster_aware_key c n m = (if c = [] then [] else c @ ''|'') @ (if n = [] then [] else n @ ''/'') @ m"

definition sample_servers :: "(string \<times> string \<times> string) list" where
  "sample_servers = [(''root:a'', ''ns'', ''x''), (''root:a'', ''other'', ''x''), (''root:b'', ''ns'', ''x'')]"

definition sample_indexer :: "(string \<times> string \<times> string, string) Indexer" where
  "sample_indexer = \<lparr>
     ix_ListAll = (\<lambda>sel. (sample_servers, None)),
     ix_ListAllByNamespace = (\<lambda>n sel. (filter (\<lambda>x. fst (snd x) = n) sample_servers, None)),
     ix_ListAllByCluster = (\<lambda>c sel. (rev (filter (\<lambda>x. fst x = c) sample_servers), None)),
     ix_ListAllByClusterAndNamespace = (\<lambda>c n sel. (filter (\<lambda>x. fst x = c \<and> fst (snd
         x) = n) sample_servers, None)),
     ix_GetByKey = (\<lambda>k. Inr (find (\<lambda>(c, n, m). cluster_aware_key c n m = k) sample_servers)),
     ix_ToClusterAwareKey = cluster_aware_key, ix_TypeOf = (\<lambda>x. TCacheServer)\<rparr>"

lemma at_separator: "\<forall>y\<in>set a. y \<noteq> s \<Longrightarrow> \<forall>y\<in>set b. y \<noteq>
    s \<Longrightarrow> a @ s # x = b @ s # z \<longleftrightarrow> a = b \<and> x = z"
proof (induction a arbitrary: b)
  case Nil
  then show ?case by (cases b) auto
next
  case (Cons y a)
  then show ?case by (cases b) auto
qed

lemma no_separator: "s \<notin> set b \<Longrightarrow> a @ s # x \<noteq> b"
  by auto

lemma cluster_aware_key_inj:
  assumes "key_part c" "key_part n" "key_part m" "key_part c'" "key_part n'" "key_part m'"
  shows "cluster_aware_key c n m = cluster_aware_key c' n' m' \<longleftrightarrow> (c, n, m) = (c', n', m')"
proof -
  have parts: "CHR ''|'' \<notin> set s \<and> CHR ''/'' \<notin> set s" if "key_part s" for s
    using that by (auto simp: key_part_def list_all_iff)
  define tail where "tail n m = (if n = [] then [] else n @ ''/'') @ (m::string)" for n m
  have tail: "tail n m = tail n' m' \<longleftrightarrow> n = n' \<and> m = m'"
    using parts assms at_separator [of n "CHR ''/''" n' m m'] no_separator [of "CHR ''/''" m n' m']
      no_separator [of "CHR ''/''" m' n m] by (auto simp: tail_def)
  have "CHR ''|'' \<notin> set (tail n m)" "CHR ''|'' \<notin> set (tail n' m')"
    using parts assms by (auto simp: tail_def)
  then have "(if c = [] then [] else c @ ''|'') @ tail n m = (if c' = [] then [] else c' @ ''|'') @ tail n' m'
      \<longleftrightarrow> c = c' \<and> tail n m = tail n' m'"
    using parts assms at_separator [of c "CHR ''|''" c' "tail n m" "tail n' m'"]
      no_separator [of "CHR ''|''" "tail n m" c' "tail n' m'"] no_separator [of "CHR ''|''" "tail n' m'" c
          "tail n m"]
    by auto
  with tail show ?thesis by (simp add: cluster_aware_key_def tail_def)
qed

lemma sample_indexes: "indexes sample_indexer id (\<lambda>sel x. True) sample_servers"
proof -
  have parts: "\<forall>(c, n, m)\<in>set sample_servers. key_part c \<and> key_part n \<and> key_part m"
    by (simp add: sample_servers_def key_part_def)
  have "find (\<lambda>(c', n', m'). cluster_aware_key c' n' m' = cluster_aware_key c n m) sample_servers
      = find (\<lambda>x. x = (c, n, m)) sample_servers" if "key_part c" "key_part n" "key_part m" for c n m
    using parts that by (intro find_cong) (auto simp: cluster_aware_key_inj)
  moreover have "distinct sample_servers" by (simp add: sample_servers_def)
  ultimately show ?thesis
    by (auto simp: indexes_def sample_indexer_def lists_def)
qed

definition sample_list_ns :: "string \<Rightarrow> string \<Rightarrow> string \<Rightarrow> (string
    \<times> string \<times> string) listing res" where
  "sample_list_ns = (\<lambda>c n. cacheServerNamespaceLister_List (cacheServerLister_CacheServers
     (cacheServerClusterLister_Cluster (NewCacheServerClusterLister sample_indexer) c) n))"

definition sample_get :: "string \<Rightarrow> string \<Rightarrow> string \<Rightarrow> (string \<times>
    string \<times> string) res" where
  "sample_get = (\<lambda>c n. cacheServerNamespaceLister_Get (cacheServerLister_CacheServers
     (cacheServerClusterLister_Cluster (NewCacheServerClusterLister sample_indexer) c) n))"

lemma sample_lister: "\<exists>list_ws. (TCacheServer, operator_Resource ''cacheservers'', list_ws,
    sample_list_ns, sample_get)
    \<in> set (lister_table sample_indexer)"
  unfolding lister_table_def list.set sample_list_ns_def sample_get_def by (intro exI) (rule insertI1)

theorem listers_scoped_witness:
  "(\<exists>xs. sample_list_ns ''root:a'' ''ns'' ''x'' = Inr (xs, None) \<and> set xs = {(''root:a'',
      ''ns'', ''x'')})
    \<and> sample_get ''root:a'' ''ns'' ''x'' = Inr (''root:a'', ''ns'', ''x'')"
proof -
  obtain list_ws where row: "(TCacheServer, operator_Resource ''cacheservers'', list_ws, sample_list_ns,
      sample_get)
    \<in> set (lister_table sample_indexer)" using sample_lister by blast
  have types: "list_all (\<lambda>x. ix_TypeOf sample_indexer x = TCacheServer) sample_servers"
    by (simp add: sample_indexer_def list_all_iff)
  have parts: "key_part ''root:a''" "key_part ''ns''" "key_part ''x''" by (simp_all add: key_part_def)
  have "{y \<in> set sample_servers. fst (id y) = ''root:a'' \<and> fst (snd (id y)) = ''ns'' \<and> True}
      = {(''root:a'', ''ns'', ''x'')}"
    by (auto simp: sample_servers_def)
  moreover have "(''root:a'', ''ns'', ''x'') \<in> set sample_servers" by (simp add: sample_servers_def)
  ultimately show ?thesis
    using listers_scoped [OF row sample_indexes types parts, of "''x''" "(''root:a'', ''ns'', ''x'')"] by auto
qed

section \<open>Informers\<close>

text \<open>
  A factory from which the informer of the shards is requested, started on the channel 7 and, after the
  shutdown has begun and the channel is closed, waited for.
\<close>

definition sample_newFunc :: "(unit, unit, unit, unit) NewInformerFunc" where
  "sample_newFunc = (\<lambda>c r a. \<lparr>inf_address = a, inf_ListFunc = (\<lambda>o'. Inl (Plain [])),
     inf_WatchFunc = (\<lambda>o'. Inl (Plain [])), inf_type = TShard, inf_resyncPeriod = r, inf_indexers = [],
     inf_transform = None\<rparr>)"

definition sample_started :: "(unit, unit, unit, unit) factory_state" where
  "sample_started = (let s = new_state (NewSharedInformerFactoryWithOptions () 60 [])
     in start_step [TShard] 7 (s\<lparr>fs_factory := snd (InformerFor TShard sample_newFunc (fs_factory
         s))\<rparr>))"

definition sample_closing :: "(unit, unit, unit, unit) factory_state" where
  "sample_closing = (let s = sample_started\<lparr>fs_factory := factory_Shutdown (fs_factory sample_started),
      fs_waiting := Suc (fs_waiting sample_started)\<rparr> in s\<lparr>fs_closed := 7 # fs_closed s\<rparr>)"

lemmas sample_factory_defs = sample_started_def new_state_def NewSharedInformerFactoryWithOptions_def
  apply_options_def no_options_def InformerFor_def sample_newFunc_def start_step_def factory_Start_def
  resync_period_def Let_def

lemma sample_started_reachable:
  "factory_reachable (NewSharedInformerFactoryWithOptions () 60 []) sample_started"
proof -
  let ?s = "new_state (NewSharedInformerFactoryWithOptions () 60 []) :: (unit, unit, unit, unit) factory_state"
  let ?t = "?s\<lparr>fs_factory := snd (InformerFor TShard sample_newFunc (fs_factory ?s))\<rparr>"
  have "factory_step ?s ?t" by (rule factory_step.request) (simp add: sample_newFunc_def)
  moreover have "factory_step ?t (start_step [TShard] 7 ?t)"
    by (rule factory_step.start) (simp_all add: sample_factory_defs)
  ultimately show ?thesis
    unfolding sample_started_def Let_def by (blast intro: factory_reachable.intros)
qed

lemma sample_closing_reachable:
  "factory_reachable (NewSharedInformerFactoryWithOptions () 60 []) sample_closing"
proof -
  let ?s = "sample_started\<lparr>fs_factory := factory_Shutdown (fs_factory sample_started),
      fs_waiting := Suc (fs_waiting sample_started)\<rparr>"
  have "factory_step sample_started ?s" by (rule factory_step.shutdown_begins)
  moreover have "factory_step ?s (?s\<lparr>fs_closed := 7 # fs_closed ?s\<rparr>)" by (rule
      factory_step.close_channel)
  ultimately show ?thesis
    unfolding sample_closing_def Let_def using sample_started_reachable by (blast intro:
        factory_reachable.intros)
qed

theorem informers_run_once_witness:
  "distinct (fs_launched sample_started) \<and> fs_launched sample_started = [0]
    \<and> f_wg (fs_factory sample_started) = int (length (fs_running sample_started))"
  using informers_run_once [OF sample_started_reachable] by (simp add: sample_factory_defs)

theorem shutdown_returns_witness: "\<exists>s'. factory_step\<^sup>*\<^sup>* sample_closing s' \<and>
    fs_returned s' = 1"
proof -
  have "fs_waiting sample_closing > 0" "\<forall>(t, i, ch)\<in>set (fs_running sample_closing). ch \<in>
      set (fs_closed sample_closing)"
    "fs_returned sample_closing = 0"
    by (simp_all add: sample_closing_def sample_factory_defs)
  with shutdown_returns [OF sample_closing_reachable] show ?thesis by auto
qed

text \<open>The informers of the cache servers of a factory over the sample clientset.\<close>

definition sample_accessor :: "(string, unit, nat, unit) cluster_factory
    \<Rightarrow> (string, nat, unit) shared_informer \<times> (string, unit, nat, unit) cluster_factory" where
  "sample_accessor = (\<lambda>f. cacheServerClusterInformer_Informer sample_library
     (operator_version_CacheServers (operator_cluster_V1alpha1 (factory_Operator f))) f)"

lemma sample_accessor:
  "(WithResource operator_SchemeGroupVersion ''cacheservers'', TCacheServer, sample_accessor)
    \<in> set (cluster_informers sample_library)"
  unfolding cluster_informers_def list.set sample_accessor_def by (rule insertI1)

definition sample_scoped_accessor :: "(string, unit, nat, unit) scoped_factory
    \<Rightarrow> (string, nat, unit) shared_informer \<times> (string, unit, nat, unit) scoped_factory" where
  "sample_scoped_accessor = (\<lambda>f. cacheServerScopedInformer_Informer
     (operator_scopedVersion_CacheServers (operator_scoped_V1alpha1 (scoped_factory_Operator f))) f)"

lemma sample_scoped_accessor:
  "(WithResource operator_SchemeGroupVersion ''cacheservers'', TCacheServer, sample_scoped_accessor) \<in>
      set scoped_informers"
  unfolding scoped_informers_def list.set sample_scoped_accessor_def by (rule insertI1)

theorem informers_shared_witness:
  "\<exists>i f'. sample_accessor (NewSharedInformerFactory sample_clientset 60) = (i, f') \<and>
      sample_accessor f' = (i, f')
    \<and> f_informers f' TCacheServer = Some i"
proof -
  obtain i f' where "sample_accessor (NewSharedInformerFactory sample_clientset 60) = (i, f')" by fastforce
  with informers_shared [OF sample_accessor this] show ?thesis by blast
qed

theorem informer_options_witness:
  "inf_transform (fst (sample_accessor (NewSharedInformerFactoryWithOptions sample_clientset 60
      [WithTransform (Some ())]))) = None
    \<and> inf_transform (fst (sample_scoped_accessor (NewSharedScopedInformerFactoryWithOptions
        \<lparr>cs_DiscoveryClient = (), cs_deployV1alpha1 = \<lparr>dc_restClient = None\<rparr>,
            cs_operatorV1alpha1 = \<lparr>oc_restClient = None\<rparr>\<rparr>
        60 [WithTransform (Some ())]))) = None"
  using informer_options [OF sample_accessor sample_scoped_accessor] by blast

chapter \<open>Apply configurations\<close>

text \<open>
  The theorems on the apply configurations at concrete calls.
\<close>

text \<open>The library structs with the fields that are used.\<close>

definition sample_meta :: meta_library where
  "sample_meta = \<lparr>zero_TypeMetaApplyConfiguration = Struct [(''Kind'', NilRef), (''APIVersion'',
      NilRef)],
     zero_ObjectMetaApplyConfiguration = Struct (map (\<lambda>n. (n, NilRef))
       [''Name'', ''GenerateName'', ''Namespace'', ''UID'', ''ResourceVersion'', ''Generation'',
           ''CreationTimestamp'',
        ''DeletionTimestamp'', ''DeletionGracePeriodSeconds'', ''Labels'', ''Annotations'', ''OwnerReferences'',
        ''Finalizers''])\<rparr>"

lemma sample_meta_ok: "meta_library_ok sample_meta"
  by (simp add: meta_library_ok_def sample_meta_def)

text \<open>
  A shard with two finalizers, which the caller has in an array of its own, and a label that is set twice.
\<close>

definition sample_memory :: memory where
  "sample_memory = [Many [Scalar (Text ''f1''), Scalar (Text ''f2'')], Entries [(''a'', Scalar (Text ''x''))],
     Entries [(''a'', Scalar (Text ''y''))]]"

definition sample_grow :: "nat \<Rightarrow> nat" where
  "sample_grow n = n"

definition sample_finalizers :: ac_method where
  "sample_finalizers = (([''ObjectMetaApplyConfiguration'', ''Finalizers''], Append None),
     Shard_WithFinalizers sample_meta sample_grow)"

definition sample_labels :: ac_method where
  "sample_labels = (([''ObjectMetaApplyConfiguration'', ''Labels''], PutEntries), Shard_WithLabels sample_meta)"

definition sample_shard :: ac_config where
  "sample_shard = config_Shard sample_meta sample_grow ''s1'' ''ns''"

definition sample_calls :: "(ac_method \<times> go_value) list" where
  "sample_calls = [(sample_finalizers, Slice 0 0 2), (sample_labels, MapRef 1), (sample_labels, MapRef 2)]"

lemma sample_calls_methods: "fst ` set sample_calls \<subseteq> set (config_methods sample_shard)"
  by (simp add: sample_calls_def sample_finalizers_def sample_labels_def sample_shard_def config_Shard_def)

lemma sample_calls_abs:
  "\<exists>st. abs_calls sample_memory (config_calls sample_shard @ sample_calls) (\<lambda>_. Unset) = Inr st
    \<and> st [''ObjectMetaApplyConfiguration'', ''Finalizers''] = Items [Scalar (Text ''f1''), Scalar
        (Text ''f2'')]
    \<and> st [''ObjectMetaApplyConfiguration'', ''Labels''] = Maps [''a'' \<mapsto> Scalar (Text ''y'')]
    \<and> st [''ObjectMetaApplyConfiguration'', ''Name''] = PointsTo (Scalar (Text ''s1''))
    \<and> st [''Spec''] = Unset"
  by (simp add: sample_shard_def config_Shard_def sample_calls_def sample_finalizers_def sample_labels_def
      sample_memory_def abs_with_def variadic_length_def variadic_element_def pointed_to_def map_entries_def
      load_def upt_rec)

lemma sample_shard_listed: "sample_shard \<in> set (apply_configurations sample_meta sample_grow ''s1'' ''ns'')"
  unfolding sample_shard_def apply_configurations_def list.set by (rule insertI1 | rule insertI2)+

theorem apply_builders_refine_witness:
  "\<exists>m. build sample_shard sample_calls sample_memory = Inr (Pointer 3, m) \<and> take 3 m =
      sample_memory
    \<and> field_state m (Pointer 3) ([''ObjectMetaApplyConfiguration'', ''Finalizers''], Append None)
        = Some (Items [Scalar (Text ''f1''), Scalar (Text ''f2'')])
    \<and> field_state m (Pointer 3) ([''ObjectMetaApplyConfiguration'', ''Labels''], PutEntries)
        = Some (Maps [''a'' \<mapsto> Scalar (Text ''y'')])"
proof -
  obtain st where st: "abs_calls sample_memory (config_calls sample_shard @ sample_calls) (\<lambda>_.
      Unset) = Inr st"
    "st [''ObjectMetaApplyConfiguration'', ''Finalizers''] = Items [Scalar (Text ''f1''), Scalar (Text ''f2'')]"
    "st [''ObjectMetaApplyConfiguration'', ''Labels''] = Maps [''a'' \<mapsto> Scalar (Text ''y'')]"
    using sample_calls_abs by blast
  have len: "length sample_memory = 3" by (simp add: sample_memory_def)
  obtain m where m: "build sample_shard sample_calls sample_memory = Inr (Pointer 3, m)" "take 3 m =
      sample_memory"
    "\<forall>x\<in>fst ` set (config_methods sample_shard). field_state m (Pointer 3) x = Some (st (fst x))"
    using apply_builders_refine [OF sample_meta_ok sample_shard_listed sample_calls_methods, of sample_memory]
    unfolding st(1) len sum.case by blast
  have "fst sample_finalizers \<in> fst ` set (config_methods sample_shard)" "fst sample_labels \<in> fst
      ` set (config_methods sample_shard)"
    using sample_calls_methods by (simp_all add: sample_calls_def)
  with m(1,2) bspec [OF m(3), of "fst sample_finalizers"] bspec [OF m(3), of "fst sample_labels"] st(2,3)
      show ?thesis
    by (simp add: sample_finalizers_def sample_labels_def)
qed

theorem objects_of_their_kind_witness:
  "\<exists>m. config_new sample_shard sample_memory = Inr (Pointer 3, m)
    \<and> (\<exists>a. Shard_GetName sample_meta (Pointer 3) m = Inr (Pointer a, m) \<and> load m a =
        Some (One (Scalar (Text ''s1''))))
    \<and> ForKind sample_meta (WithKind operator_SchemeGroupVersion ''Shard'') sample_memory
        = Some (''ShardApplyConfiguration'', new_struct (config_zero sample_shard) sample_memory)"
proof -
  have listed: "(operator_SchemeGroupVersion, ''Shard'', sample_shard, Shard_GetName sample_meta)
      \<in> set (object_configurations sample_meta sample_grow ''s1'' ''ns'')"
    unfolding sample_shard_def object_configurations_def list.set by (rule insertI1 | rule insertI2)+
  have literal: "''Shard'' @ ''ApplyConfiguration'' = ''ShardApplyConfiguration''" by simp
  have len: "length sample_memory = 3" by (simp add: sample_memory_def)
  from objects_of_their_kind [OF sample_meta_ok listed, of sample_memory] show ?thesis
    unfolding literal len by blast
qed

chapter \<open>Fakes\<close>

text \<open>
  A \<open>Fake\<close> that records the actions, of objects that are their names; every call answers with
      nothing.
\<close>

definition sample_fake :: "((string, nat) fake_action list, string, unit, nat, unit, unit) fake_library" where
  "sample_fake = \<lparr>fk_Invokes = (\<lambda>act d st. ((None, None), st @ [act])),
     fk_InvokesWatch = (\<lambda>act st. ((None, None), st @ [act])), fk_Label = (\<lambda>opts. None),
         fk_Everything = (),
     fk_Matches = (\<lambda>l x. True), fk_Marshal = (\<lambda>m v. Inr []), fk_Wildcard = ''*''\<rparr>"

definition sample_fake_row :: "((string, nat) fake_action list, string, unit, nat) fake_row" where
  "sample_fake_row = hd (fake_rows sample_fake)"

text \<open>Everything recorded is about the cache servers of one namespace of one workspace.\<close>

definition sample_scoped :: "(string, nat) fake_action list \<Rightarrow> bool" where
  "sample_scoped st \<longleftrightarrow> list_all (\<lambda>act. action_scope act = (fr_Resource
      sample_fake_row, ''root:a'', ''ns'')) st"

theorem fakes_scoped_witness:
  "fr_Cluster sample_fake_row ''*'' = Inl wildcard_panic \<and> fr_by_group sample_fake_row ''*'' ''ns'' = Inl wildcard_panic
    \<and> fr_by_clientset sample_fake_row ''*'' ''ns'' = Inl wildcard_panic
    \<and> list_all (\<lambda>f. sample_scoped (f []))
        (fr_steps sample_fake_row (fr_group sample_fake_row ''root:a'' ''ns'') ''x'' ''x'' 0 0 ApplyPatch
            [] [] NilRef [])"
proof -
  have row: "sample_fake_row \<in> set (fake_rows sample_fake)" by (simp add: sample_fake_row_def fake_rows_def)
  have n: "fr_Cluster sample_fake_row ''root:a'' = Inr \<lparr>fn_ClusterPath = ''root:a''\<rparr>"
    by (simp add: sample_fake_row_def fake_rows_def fake_client_defs sample_fake_def)
  have "sample_scoped (snd (fk_Invokes sample_fake act d st))" "sample_scoped (snd (fk_InvokesWatch
      sample_fake act st))"
    if "action_scope act = (fr_Resource sample_fake_row, ''root:a'', ''ns'')" "sample_scoped st" for act d st
    using that by (simp_all add: sample_scoped_def sample_fake_def)
  note * = fakes_scoped [where P = sample_scoped and q = "''*''" and ns = "''ns''" and x = "''x''" and name = "''x''"
      and ?o1.0 = 0 and ?o2.0 = 0 and pt = ApplyPatch and data = "[]" and subs = "[]" and b = NilRef and m = "[]",
      OF row n this]
  have wild: "fk_Wildcard sample_fake = ''*''" and none: "sample_scoped []"
    by (simp_all add: sample_scoped_def sample_fake_def)
  have cluster: "fr_Cluster sample_fake_row ''*'' = (if ''*'' = fk_Wildcard sample_fake then Inl wildcard_panic
      else Inr \<lparr>fn_ClusterPath = ''*''\<rparr>)"
    by (rule * [THEN conjunct2, THEN conjunct2, THEN conjunct1])
  have group: "fr_by_group sample_fake_row ''*'' ''ns'' = (if ''*'' = fk_Wildcard sample_fake then Inl wildcard_panic
      else Inr (fr_group sample_fake_row ''*'' ''ns''))"
    by (rule * [THEN conjunct2, THEN conjunct2, THEN conjunct2, THEN conjunct1])
  have clientset: "fr_by_clientset sample_fake_row ''*'' ''ns'' = (if ''*'' = fk_Wildcard sample_fake
      then Inl wildcard_panic else Inr (fr_group sample_fake_row ''*'' ''ns''))"
    by (rule * [THEN conjunct2, THEN conjunct2, THEN conjunct2, THEN conjunct2, THEN conjunct1])
  have steps: "\<forall>f \<in> set (fr_steps sample_fake_row (fr_group sample_fake_row ''root:a'' ''ns'') ''x'' ''x'' 0 0
      ApplyPatch [] [] NilRef []). \<forall>st. sample_scoped st \<longrightarrow> sample_scoped (f st)"
    by (rule * [THEN conjunct2, THEN conjunct2, THEN conjunct2, THEN conjunct2, THEN conjunct2, THEN conjunct2,
        THEN conjunct1])
  show ?thesis
    using steps none unfolding cluster group clientset wild list_all_iff by simp
qed

end
