(* ===== verification/Spec2Isabelle.thy ===== *)
theory Spec2Isabelle
  imports Shard_Deployment_Props Mounted_Secrets Kubeconfig_Props Kubeconfig_Rbac_Life Controllers_Witnesses
    VirtualWorkspace_Props FrontProxy_Props Mounted_Workloads Mount_Watch Operator_Metrics Operator_Setup
    Deep_Copy_Props Shard_Reach Watch_Registration Sdk_Witnesses
begin

text \<open>
  A model of the kcp operator (Go), a Kubernetes operator that runs installations of kcp, and the
  theorems that make it correct.

  THE PROGRAM. A user describes an installation by objects: a RootShard, Shards, FrontProxies,
  CacheServers, VirtualWorkspaces and Kubeconfigs (\<open>sdk/apis/operator/v1alpha1\<close>). For each kind a
  controller (\<open>pkg/controller/<kind>\<close>) creates the cert-manager Issuers and Certificates, the bundle
  and kubeconfig Secrets, and, once all its certificates are ready, publishes a compiled object
  (\<open>sdk/apis/deploy/v1alpha1\<close>) with everything the workload depends on. A second group of
  controllers (\<open>pkg/controller/compiled<kind>\<close>) turns the compiled objects into Deployments and
  Services, which are written only when everything the pods mount exists. The controllers talk only
  through the API server: they read and write its objects and are woken by watches. Two controllers
  also act inside a kcp instance: that of Kubeconfigs provisions cluster role bindings
  (\<open>pkg/controller/kubeconfig-rbac\<close>), that of Shards removes the kcp Shard object on deletion.

  CONVENTIONS. A struct is a record, its fields prefixed by an abbreviation of the struct; a pointer
  is an option, an \<open>int32\<close> a 32-bit word, a \<open>[]byte\<close> or string a list of characters, a map a finite
  map. Objects are immutable values, which Deep_Copy_Props justifies for the copies the controllers
  take of them; aliasing that the code suffers from is modelled (Deploy_Store). A Go error is a
  value of \<open>go_error\<close> and a fallible function returns \<open>'a res\<close>; a nil dereference or an index out
  of range is the error \<open>Panic\<close>. A reconciler of an object is its name and the function from the
  object found in the cluster (or the zero object) to the desired one. A controller is an action
  (Api_Actions): it takes the state and a list of outcomes, one per API call, each applied, rejected,
  or applied with its response lost. A theorem about all outcome lists therefore covers every way
  calls can fail, and a crash after any call; the empty list is the run in which every call succeeds.

  THE THEORIES, in the order of their imports.
  Foundations. Kcp_Prelude: errors, string maps, shared lemmas. Go_Lib, Go_Url: what is used of
  \<open>strconv\<close>, \<open>strings\<close>, \<open>net\<close>, \<open>fmt\<close> and \<open>net/url\<close>. K8s_Types, Operator_Types: the API structs.
  Resource_Names: \<open>internal/resources/resources.go\<close>.
  Workloads. Deploy_Store: resource lists as references, since \<open>ApplyResources\<close> writes into maps the
  whole process shares. Deploy_Utils, Deploy_Contract: \<open>internal/resources/utils\<close> and the contract
  of its deployment helpers, a locale interpreted on each of them. Shard_Deployments (with _Facts
  and _Props): \<open>compiledrootshard\<close>, \<open>compiledshard\<close>. CacheServer_Workload, VirtualWorkspace_Workload
  and FrontProxy_Workload (with _Props): \<open>compiledcacheserver\<close>, \<open>compiledvirtualworkspace\<close>,
  \<open>compiledfrontproxy\<close>.
  PKI. Cert_Templates: \<open>utils/certificates.go\<close>. Pki_Base and Pki_RootShard, Pki_Shard, Pki_Proxy,
  Pki_CacheServer, Pki_VirtualWorkspace, Pki_Kubeconfig: the packages that render certificates,
  issuers, bundles, kubeconfigs and compiled objects, with a locale of what a component signed by
  the root shard's CAs has to satisfy. Pki_Props, Kubeconfig_Props: what holds of all of it.
  Mounted_Secrets, Mounted_Workloads: every secret volume of the rendered pods names a secret the
  controllers create, one the user named in an object, or, when the root CA is brought along instead
  of issued, the generated name of the root CA, which nobody creates (a finding).
  Controllers of source objects. Api_Actions, Cluster_World, Controller_Util, Controller_Base: the
  actions, one namespace as a state (\<open>ns_world\<close>), \<open>pkg/controller/util\<close>, and what the controllers
  share. Shard_Controller, RootShard_Controller, FrontProxy_Controller, CacheServer_Controller,
  VirtualWorkspace_Controller, Kubeconfig_Controller: the controllers. Publish_Gate
  (with _Props) and Publish_Runs: what is published when. Shard_Controller_Props,
  Kubeconfig_Controller_Props, Controllers_Props, Watch_Maps: their other properties.
  Shard_Reach: the root shard and the front proxy controller in a row. Kcp_Client,
  Kubeconfig_Rbac (with _Props and _Life): clients of kcp and the role bindings, with the life of a
  Kubeconfig as a step relation.
  Controllers of compiled objects. Revision_Labels (with _Props): their state (\<open>wl_world\<close>) and
  \<open>pkg/reconciling/modifier/revision_labels.go\<close>. Compiled_Controllers, Compiled_Props: the five
  controllers and \<open>Reconcile\<close> of \<open>compiledfrontproxy\<close>. Mount_Watch: the watch on secrets that
  retries them. Watch_Registration: what all controllers register for, what they write, and which of
  it wakes them again.
  The process. Operator_Setup: controller groups and registration. Operator_Metrics: \<open>pkg/metrics\<close>.
  Memory. Go_Memory (with _Facts): Go values as references into cells, types as readers, and the
  statements a generated deep copy is made of. Deep_Copy_Parts, Deep_Copy_Operator and
  Deep_Copy_Compiled: the \<open>zz_generated.deepcopy.go\<close> files, with the declaration of every struct.
  Deep_Copy_Props: copies share no memory with the originals.
  The SDK (\<open>src/sdk\<close>), generated code by which other programs use the objects. Sdk_Clients: REST
  configurations, \<open>clientset/versioned\<close> and its \<open>cluster\<close> variant; all ways to a typed client meet.
  Sdk_Listers: \<open>listers\<close>, over an indexer; they stay in their workspace and namespace. Informer_Factory:
  \<open>informers/externalversions/factory.go\<close>, both factories as state, and the life of a factory with its
  goroutines as a step relation. Sdk_Informers: the informers of all kinds and \<open>generic.go\<close>; which
  informer is handed out. Apply_Memory: the statements the apply configurations
  (\<open>applyconfiguration\<close>) are made of, over the memory of Go_Memory, the abstract state of a
  configuration, and that every kind of \<open>With\<close> function preserves their relation. Apply_Parts,
  Apply_Objects: all 78 of them (\<open>fields_T\<close>, \<open>T_WithF\<close>, \<open>new_T\<close>) and \<open>ForKind\<close>. Apply_Props: what each
  configuration consists of; all of them refine the abstract state. Sdk_Fakes: the fake clients of the
  \<open>cluster\<close> variant; they keep to what the real ones do. Sdk_Witnesses: concrete uses.
  Sample_Objects, Sample_Cluster, Controllers_Witnesses, Compiled_Witnesses: concrete objects and
  clusters at which the theorems are applied.

  WHAT IS SHOWN. Safety: a compiled object is published only with all certificates ready; no
  deployment is written before its mounts exist; role bindings do not outlive a Kubeconfig
  as long as the shard they were made in can be found again (a retargeted Kubeconfig may lose it, a
  finding); the finalizer of a shard is released in time; an admin credential stays out of containers that have their own. Liveness:
  ready certificates are published, bindings converge, blocked deployments come up. Refinement: the
  secrets one half of the operator mounts are those the other half creates or the user named. Functional: command lines, DNS names, bundles,
  conditions, revision labels, the condition metrics of the four kinds the code collects, the ports of
  the proxies' services. Invariants: unique names, volumes and mounts, idempotence.
  Of the SDK: clients and listers stay in the workspace they were asked for, an informer runs at most
  once and is shared, and apply configurations hold what was set and share no memory by accident.
  Some theorems show behaviour the code hardly means to have; they are listed as findings.

  BOUNDS AND TERMINATION. All loops are structural recursions except the PEM loop of
  Cert_Templates, a partial function shown to return for every decoder that consumes input, and
  \<open>trim_units\<close> of Operator_Setup, which shortens its argument. No fuel is used.

  PARAMETERS, code that is not in the repository: the deep copies of Kubernetes types (\<open>library_ok\<close>
  says that they are deep), the PEM and certificate parsers, \<open>yaml.Marshal\<close>,
  \<open>semver\<close>, the SHA3 hash, the condition helpers of apimachinery, the REST clients of kcp, and
  whether a controller can be registered; for the SDK the constructors of REST clients, how a
  configuration is pointed at a workspace (\<open>sdk_library\<close>), the indexers (\<open>indexes\<close> says what is relied on),
  the selectors, the object tracker behind the fakes (\<open>fake_library\<close>), and the two library structs of apply configurations (\<open>meta_library_ok\<close>). The reconciling library is modelled by its documented
  contract (read, reconcile, write when different) in \<open>ensure_object\<close> and \<open>ensure_deployment\<close>,
  without the defaulting of deployments.

  NOT MODELLED. Owner references and garbage collection of owned objects (except for a Kubeconfig),
  resource versions and conflicts (a conflict is a rejected call), several clusters and namespaces
  (a state is one namespace of one cluster), the texts of most errors, logging, the informers'
  caches, flag parsing, the HTTP servers, leader election and the timer of the metrics. Of the SDK the
  fake clients for one workspace, which are instances of a library, the schema in \<open>applyconfiguration/internal\<close> and the schemes, which only feed libraries.
  Scripts, manifests and tests.
\<close>

end
